(* ===== verification/Prelude.thy ===== *)
theory Prelude
  imports Main "HOL-Library.Word" "HOL-Library.Sublist"
begin

text \<open>
  Shared vocabulary of the development: machine integers and bytes as the C code sees
  them, little-endian memory images (\<open>le_bytes\<close>, \<open>le_nat\<close>), C strings and the string
  functions of the C library the code calls, and the error codes of
  \<open>include/esvcpm/errcodes.h\<close>.

  A C string is the list of its characters without the terminating NUL.  A pointer that
  may be NULL is an \<open>option\<close>.  The host is little-endian, as all platforms of the build
  are (x86-64 and armv5l).
\<close>

unbundle bit_operations_syntax

named_theorems le_simps \<open>facts that normalise little-endian memory images\<close>
named_theorems cstr_simps \<open>characterisations of the C string functions\<close>

type_synonym u8 = "8 word"
type_synonym u16 = "16 word"
type_synonym u32 = "32 word"
type_synonym u64 = "64 word"
type_synonym bytes = "8 word list"

section \<open>Lists\<close>

lemma take_append_length [le_simps]: "length xs = n \<Longrightarrow> take n (xs @ ys) = xs"
  by simp

lemma drop_append_length [le_simps]: "length xs = n \<Longrightarrow> drop n (xs @ ys) = ys"
  by simp

lemma list_of_length_2:
  assumes "length xs = 2"
  obtains a b where "xs = [a, b]"
  using assms by (auto simp: numeral_2_eq_2 length_Suc_conv)

lemma list_of_length_4:
  assumes "length xs = 4"
  obtains a b c d where "xs = [a, b, c, d]"
  using assms by (auto simp: numeral_eq_Suc length_Suc_conv)

lemma list_of_length_8:
  assumes "length xs = 8"
  obtains a b c d e f g h where "xs = [a, b, c, d, e, f, g, h]"
proof -
  have "length (take 4 xs) = 4" "length (drop 4 xs) = 4" using assms by simp_all
  moreover have "xs = take 4 xs @ drop 4 xs" by simp
  ultimately show ?thesis
    using that list_of_length_4 [of "take 4 xs"] list_of_length_4 [of "drop 4 xs"]
    by (metis append_Cons append_Nil)
qed

section \<open>Little-endian memory images\<close>

text \<open>
  \<open>le_bytes n k\<close> is the image of the number \<open>k\<close> in \<open>n\<close> bytes of memory and \<open>le_nat bs\<close>
  reads an image back.  All accesses of the code to a union through a member of another
  width are expressed by these two functions.
\<close>

fun le_nat :: "bytes \<Rightarrow> nat" where
  "le_nat [] = 0"
| "le_nat (b # bs) = unat b + 256 * le_nat bs"

fun le_bytes :: "nat \<Rightarrow> nat \<Rightarrow> bytes" where
  "le_bytes 0 k = []"
| "le_bytes (Suc n) k = of_nat (k mod 256) # le_bytes n (k div 256)"

lemma le_bytes_numeral [simp]:
  "le_bytes (numeral n) k = of_nat (k mod 256) # le_bytes (pred_numeral n) (k div 256)"
  by (simp only: numeral_eq_Suc [of n] le_bytes.simps)

lemma length_le_bytes [simp]: "length (le_bytes n k) = n"
  by (induction n arbitrary: k) auto

lemma unat_byte_mod [simp]: "unat (of_nat (k mod 256) :: u8) = k mod 256"
  by (simp add: unat_of_nat)

lemma unat_byte_less [simp]: "unat (b :: u8) < 256"
  using unsigned_less [of b] by simp

lemma le_nat_le_bytes: "le_nat (le_bytes n k) = k mod 256 ^ n"
proof (induction n arbitrary: k)
  case 0
  then show ?case by simp
next
  case (Suc n)
  then show ?case by (simp add: mod_mult2_eq)
qed

lemma le_bytes_le_nat [le_simps]: "length bs = n \<Longrightarrow> le_bytes n (le_nat bs) = bs"
proof (induction bs arbitrary: n)
  case Nil
  then show ?case by simp
next
  case (Cons b bs)
  then obtain m where n: "n = Suc m" and m: "length bs = m" by (cases n) auto
  have "(unat b + 256 * le_nat bs) div 256 = le_nat bs" by simp
  with Cons.IH [OF m] show ?case by (simp add: n)
qed

lemma le_nat_less: "le_nat bs < 256 ^ length bs"
proof (induction bs)
  case Nil
  then show ?case by simp
next
  case (Cons b bs)
  have "unat b + 256 * le_nat bs < 256 + 256 * le_nat bs" by simp
  also have "\<dots> = 256 * Suc (le_nat bs)" by simp
  also have "\<dots> \<le> 256 * 256 ^ length bs" using Cons by (intro mult_le_mono2) simp
  finally show ?case by simp
qed

text \<open>Words of 1, 2, 4 and 8 bytes and their images.\<close>

definition word_of_bytes :: "bytes \<Rightarrow> 'a::len word" where
  "word_of_bytes bs = of_nat (le_nat bs)"

definition bytes_of_word :: "'a::len word \<Rightarrow> bytes" where
  "bytes_of_word w = le_bytes (LENGTH('a) div 8) (unat w)"

lemma length_bytes_of_word [simp]:
  "length (bytes_of_word (w :: 'a::len word)) = LENGTH('a) div 8"
  by (simp add: bytes_of_word_def)

lemma word_of_bytes_of_word [simp, le_simps]:
  "LENGTH('a) mod 8 = 0 \<Longrightarrow> word_of_bytes (bytes_of_word (w :: 'a::len word)) = w"
proof -
  assume "LENGTH('a) mod 8 = 0"
  then have "8 * (LENGTH('a) div 8) = LENGTH('a)" by (simp add: mod_eq_0_iff_dvd)
  moreover have "(256::nat) = 2 ^ 8" by simp
  ultimately have "(256::nat) ^ (LENGTH('a) div 8) = 2 ^ LENGTH('a)"
    by (metis power_mult)
  then show ?thesis
    by (simp add: word_of_bytes_def bytes_of_word_def le_nat_le_bytes)
qed

lemma bytes_of_word_of_bytes [le_simps]:
  "length bs = LENGTH('a::len) div 8 \<Longrightarrow> LENGTH('a) mod 8 = 0 \<Longrightarrow>
    bytes_of_word (word_of_bytes bs :: 'a word) = bs"
proof -
  assume len: "length bs = LENGTH('a) div 8" and "LENGTH('a) mod 8 = 0"
  then have "8 * length bs = LENGTH('a)" by (simp add: mod_eq_0_iff_dvd)
  moreover have "(256::nat) = 2 ^ 8" by simp
  ultimately have "(256::nat) ^ length bs = 2 ^ LENGTH('a)"
    by (metis power_mult)
  with le_nat_less [of bs] have "le_nat bs < 2 ^ LENGTH('a)" by simp
  then have "unat (word_of_bytes bs :: 'a word) = le_nat bs"
    by (simp add: word_of_bytes_def unat_of_nat)
  then show ?thesis by (simp add: bytes_of_word_def le_bytes_le_nat len)
qed

lemma narrow_widen [simp]:
  "ucast (ucast (a :: u8) :: u64) = a" "ucast (scast (a :: u8) :: u64) = a"
  "ucast (ucast (b :: u16) :: u64) = b" "ucast (scast (b :: u16) :: u64) = b"
  "ucast (ucast (c :: u32) :: u64) = c" "ucast (scast (c :: u32) :: u64) = c"
  by (rule bit_word_eqI; auto simp: bit_simps)+

section \<open>C strings\<close>

text \<open>
  \<open>strchr s c\<close> is the suffix of \<open>s\<close> that starts at the first \<open>c\<close>, \<open>strstr s n\<close> the
  suffix that starts at the first occurrence of \<open>n\<close>; NULL is \<open>None\<close>.
\<close>

fun strchr :: "string \<Rightarrow> char \<Rightarrow> string option" where
  "strchr [] c = None"
| "strchr (x # xs) c = (if x = c then Some (x # xs) else strchr xs c)"

fun strstr :: "string \<Rightarrow> string \<Rightarrow> string option" where
  "strstr [] n = (if n = [] then Some [] else None)"
| "strstr (x # xs) n = (if prefix n (x # xs) then Some (x # xs) else strstr xs n)"

lemma strchr_None [cstr_simps]: "strchr s c = None \<longleftrightarrow> c \<notin> set s"
  by (induction s) auto

lemma strchr_Some: "strchr s c = Some t \<Longrightarrow> \<exists>u. s = u @ t \<and> c \<notin> set u \<and> (\<exists>v. t = c # v)"
proof (induction s)
  case Nil
  then show ?case by simp
next
  case (Cons x xs)
  show ?case
  proof (cases "x = c")
    case True
    with Cons.prems show ?thesis by (intro exI [of _ "[]"]) auto
  next
    case False
    with Cons obtain u where "xs = u @ t" "c \<notin> set u" "\<exists>v. t = c # v" by auto
    with False show ?thesis by (intro exI [of _ "x # u"]) simp
  qed
qed

lemma strstr_sublist [cstr_simps]: "strstr s n \<noteq> None \<longleftrightarrow> sublist n s"
  by (induction s) (auto simp: sublist_Cons_right)

definition isspace :: "char \<Rightarrow> bool" where
  "isspace c \<longleftrightarrow> c = CHR '' '' \<or> (9 \<le> (of_char c :: nat) \<and> (of_char c :: nat) \<le> 13)"

definition isdigit :: "char \<Rightarrow> bool" where
  "isdigit c \<longleftrightarrow> 48 \<le> (of_char c :: nat) \<and> (of_char c :: nat) \<le> 57"

definition digit_value :: "char \<Rightarrow> nat" where
  "digit_value c = of_char c - 48"

text \<open>
  The integer conversions of \<open>sscanf\<close> (\<open>%d\<close> and its \<open>h\<close>, \<open>hh\<close> variants): leading white
  space is skipped, an optional sign and at least one decimal digit are read; the value
  saturates at the bounds of a \<open>long\<close> and is then stored in the narrower type.  The
  result is the value and the rest of the input, or \<open>None\<close> when no conversion happens.
\<close>

fun digits_value :: "nat \<Rightarrow> string \<Rightarrow> nat" where
  "digits_value acc [] = acc"
| "digits_value acc (c # cs) = digits_value (10 * acc + digit_value c) cs"

definition long_saturate :: "int \<Rightarrow> int" where
  "long_saturate i = max (- (2 ^ 63)) (min (2 ^ 63 - 1) i)"

definition scan_int :: "string \<Rightarrow> (int \<times> string) option" where
  "scan_int s =
     (let s1 = dropWhile isspace s;
          neg = (s1 \<noteq> [] \<and> hd s1 = CHR ''-'');
          s2 = (if s1 \<noteq> [] \<and> (hd s1 = CHR ''-'' \<or> hd s1 = CHR ''+'') then tl s1 else s1);
          ds = takeWhile isdigit s2;
          v = int (digits_value 0 ds)
      in if ds = [] then None
         else Some (long_saturate (if neg then - v else v), dropWhile isdigit s2))"

section \<open>Error codes\<close>

text \<open>The results of type \<open>neu_err_code_e\<close> are integers: a plugin may return its own.\<close>

abbreviation NEU_ERR_SUCCESS :: int where "NEU_ERR_SUCCESS \<equiv> 0"
abbreviation NEU_ERR_EINTERNAL :: int where "NEU_ERR_EINTERNAL \<equiv> 1001"
abbreviation NEU_ERR_NODE_EXIST :: int where "NEU_ERR_NODE_EXIST \<equiv> 2002"
abbreviation NEU_ERR_NODE_NOT_EXIST :: int where "NEU_ERR_NODE_NOT_EXIST \<equiv> 2003"
abbreviation NEU_ERR_NODE_SETTING_INVALID :: int where "NEU_ERR_NODE_SETTING_INVALID \<equiv> 2004"
abbreviation NEU_ERR_NODE_SETTING_NOT_FOUND :: int where "NEU_ERR_NODE_SETTING_NOT_FOUND \<equiv> 2005"
abbreviation NEU_ERR_NODE_NOT_READY :: int where "NEU_ERR_NODE_NOT_READY \<equiv> 2006"
abbreviation NEU_ERR_NODE_IS_RUNNING :: int where "NEU_ERR_NODE_IS_RUNNING \<equiv> 2007"
abbreviation NEU_ERR_NODE_NOT_RUNNING :: int where "NEU_ERR_NODE_NOT_RUNNING \<equiv> 2008"
abbreviation NEU_ERR_NODE_IS_STOPED :: int where "NEU_ERR_NODE_IS_STOPED \<equiv> 2009"
abbreviation NEU_ERR_GROUP_NOT_ALLOW :: int where "NEU_ERR_GROUP_NOT_ALLOW \<equiv> 2103"
abbreviation NEU_ERR_GROUP_EXIST :: int where "NEU_ERR_GROUP_EXIST \<equiv> 2104"
abbreviation NEU_ERR_GROUP_PARAMETER_INVALID :: int where "NEU_ERR_GROUP_PARAMETER_INVALID \<equiv> 2105"
abbreviation NEU_ERR_GROUP_NOT_EXIST :: int where "NEU_ERR_GROUP_NOT_EXIST \<equiv> 2106"
abbreviation NEU_ERR_TAG_NOT_EXIST :: int where "NEU_ERR_TAG_NOT_EXIST \<equiv> 2201"
abbreviation NEU_ERR_TAG_NAME_CONFLICT :: int where "NEU_ERR_TAG_NAME_CONFLICT \<equiv> 2202"
abbreviation NEU_ERR_TAG_ATTRIBUTE_NOT_SUPPORT :: int where
  "NEU_ERR_TAG_ATTRIBUTE_NOT_SUPPORT \<equiv> 2203"
abbreviation NEU_ERR_TAG_NAME_TOO_LONG :: int where "NEU_ERR_TAG_NAME_TOO_LONG \<equiv> 2206"
abbreviation NEU_ERR_TAG_ADDRESS_TOO_LONG :: int where "NEU_ERR_TAG_ADDRESS_TOO_LONG \<equiv> 2207"
abbreviation NEU_ERR_TAG_DESCRIPTION_TOO_LONG :: int where
  "NEU_ERR_TAG_DESCRIPTION_TOO_LONG \<equiv> 2208"
abbreviation NEU_ERR_TAG_PRECISION_INVALID :: int where "NEU_ERR_TAG_PRECISION_INVALID \<equiv> 2209"
abbreviation NEU_ERR_LIBRARY_NOT_FOUND :: int where "NEU_ERR_LIBRARY_NOT_FOUND \<equiv> 2301"
abbreviation NEU_ERR_LIBRARY_INFO_INVALID :: int where "NEU_ERR_LIBRARY_INFO_INVALID \<equiv> 2302"
abbreviation NEU_ERR_LIBRARY_MODULE_INVALID :: int where "NEU_ERR_LIBRARY_MODULE_INVALID \<equiv> 2305"
abbreviation NEU_ERR_LIBRARY_SYSTEM_NOT_ALLOW_DEL :: int where
  "NEU_ERR_LIBRARY_SYSTEM_NOT_ALLOW_DEL \<equiv> 2306"
abbreviation NEU_ERR_LIBRARY_NAME_CONFLICT :: int where "NEU_ERR_LIBRARY_NAME_CONFLICT \<equiv> 2303"
abbreviation NEU_ERR_LIBRARY_FAILED_TO_OPEN :: int where "NEU_ERR_LIBRARY_FAILED_TO_OPEN \<equiv> 2304"
abbreviation NEU_ERR_LIBRARY_NOT_ALLOW_CREATE_INSTANCE :: int where
  "NEU_ERR_LIBRARY_NOT_ALLOW_CREATE_INSTANCE \<equiv> 2307"
abbreviation NEU_ERR_PLUGIN_TAG_NOT_ALLOW_WRITE :: int where
  "NEU_ERR_PLUGIN_TAG_NOT_ALLOW_WRITE \<equiv> 3004"
abbreviation NEU_ERR_PLUGIN_TAG_VALUE_EXPIRED :: int where
  "NEU_ERR_PLUGIN_TAG_VALUE_EXPIRED \<equiv> 3008"
abbreviation NEU_ERR_PLUGIN_NOT_RUNNING :: int where "NEU_ERR_PLUGIN_NOT_RUNNING \<equiv> 3010"
abbreviation NEU_ERR_PLUGIN_TAG_NOT_READY :: int where "NEU_ERR_PLUGIN_TAG_NOT_READY \<equiv> 3011"
abbreviation NEU_ERR_PLUGIN_NOT_SUPPORT_WRITE_TAGS :: int where
  "NEU_ERR_PLUGIN_NOT_SUPPORT_WRITE_TAGS \<equiv> 3017"

end
