(* ===== verification/SoftFloat.thy ===== *)
theory SoftFloat
  imports Prelude
begin

text \<open>
  The floating point arithmetic of C on the build's platforms: IEEE 754 binary32 and
  binary64, round to nearest, ties to even.  A float is its bit pattern (\<open>u32\<close>, \<open>u64\<close>),
  which is what the value union stores; an operation decodes its operands to the exact
  dyadic number they stand for, computes exactly and rounds once.

  A NaN result is the positive quiet NaN; the payload and the sign of a NaN, which the
  standard leaves to the platform, are not modelled.
\<close>

section \<open>Formats\<close>

record fp_format =
  mbits :: nat  \<comment> \<open>fraction bits\<close>
  ebits :: nat  \<comment> \<open>exponent bits\<close>

definition binary32 :: fp_format where
  "binary32 = \<lparr>mbits = 23, ebits = 8\<rparr>"

definition binary64 :: fp_format where
  "binary64 = \<lparr>mbits = 52, ebits = 11\<rparr>"

text \<open>The exponent of the last bit of a subnormal number.\<close>

definition fp_emin :: "fp_format \<Rightarrow> int" where
  "fp_emin F = 2 - 2 ^ (ebits F - 1) - int (mbits F)"

text \<open>\<open>FFin s m e\<close> is the number \<open>m * 2^e\<close>, negated when \<open>s\<close>.\<close>

datatype fp = FNaN | FInf bool | FFin bool nat int

definition fp_decode :: "fp_format \<Rightarrow> nat \<Rightarrow> fp" where
  "fp_decode F n =
     (let s = odd (n div 2 ^ (mbits F + ebits F));
          ex = n div 2 ^ mbits F mod 2 ^ ebits F;
          fr = n mod 2 ^ mbits F
      in if ex = 2 ^ ebits F - 1 then (if fr = 0 then FInf s else FNaN)
         else if ex = 0 then FFin s fr (fp_emin F)
         else FFin s (fr + 2 ^ mbits F) (fp_emin F + int ex - 1))"

definition fp_pack :: "fp_format \<Rightarrow> bool \<Rightarrow> nat \<Rightarrow> nat \<Rightarrow> nat" where
  "fp_pack F s ex fr = (of_bool s * 2 ^ ebits F + ex) * 2 ^ mbits F + fr"

fun bit_length :: "nat \<Rightarrow> nat \<Rightarrow> nat" where
  "bit_length 0 n = 0"
| "bit_length (Suc fuel) n = (if n = 0 then 0 else Suc (bit_length fuel (n div 2)))"

text \<open>Dropping \<open>k\<close> low bits, to nearest, ties to even.\<close>

definition round_shift :: "nat \<Rightarrow> nat \<Rightarrow> nat" where
  "round_shift m k =
     (if k = 0 then m
      else let q = m div 2 ^ k; r = m mod 2 ^ k; half = 2 ^ (k - 1)
           in if r > half \<or> (r = half \<and> odd q) then q + 1 else q)"

text \<open>
  2200 bits of fuel are enough: aligning two doubles gives fewer than 2100 bits, a product
  106 and a quotient 182.
\<close>

definition fp_round :: "fp_format \<Rightarrow> bool \<Rightarrow> nat \<Rightarrow> int \<Rightarrow> nat" where
  "fp_round F s m e =
     (let q = max (fp_emin F) (e + int (bit_length 2200 m) - int (mbits F + 1));
          m1 = (if q \<le> e then m * 2 ^ nat (e - q) else round_shift m (nat (q - e)));
          carry = (m1 = 2 ^ (mbits F + 1));
          m2 = (if carry then 2 ^ mbits F else m1);
          q2 = (if carry then q + 1 else q);
          ex = nat (q2 - fp_emin F) + 1
      in if m2 < 2 ^ mbits F then fp_pack F s 0 m2
         else if 2 ^ ebits F - 1 \<le> ex then fp_pack F s (2 ^ ebits F - 1) 0
         else fp_pack F s ex (m2 - 2 ^ mbits F))"

definition fp_encode :: "fp_format \<Rightarrow> fp \<Rightarrow> nat" where
  "fp_encode F x =
     (case x of
        FNaN \<Rightarrow> fp_pack F False (2 ^ ebits F - 1) (2 ^ (mbits F - 1))
      | FInf s \<Rightarrow> fp_pack F s (2 ^ ebits F - 1) 0
      | FFin s m e \<Rightarrow> fp_round F s m e)"

section \<open>Exact operations on decoded numbers\<close>

definition fp_neg :: "fp \<Rightarrow> fp" where
  "fp_neg x = (case x of FNaN \<Rightarrow> FNaN | FInf s \<Rightarrow> FInf (\<not> s) | FFin s m e \<Rightarrow> FFin (\<not> s) m e)"

definition fp_abs :: "fp \<Rightarrow> fp" where
  "fp_abs x = (case x of FNaN \<Rightarrow> FNaN | FInf s \<Rightarrow> FInf False | FFin s m e \<Rightarrow> FFin False m e)"

text \<open>The integer \<open>\<plusminus>m * 2^(e - k)\<close> for \<open>k \<le> e\<close>.\<close>

definition fp_scaled :: "bool \<Rightarrow> nat \<Rightarrow> int \<Rightarrow> int \<Rightarrow> int" where
  "fp_scaled s m e k = (if s then - 1 else 1) * int m * 2 ^ nat (e - k)"

definition fp_add :: "fp \<Rightarrow> fp \<Rightarrow> fp" where
  "fp_add x y =
     (case (x, y) of
        (FNaN, _) \<Rightarrow> FNaN
      | (_, FNaN) \<Rightarrow> FNaN
      | (FInf s, FInf t) \<Rightarrow> if s = t then FInf s else FNaN
      | (FInf s, _) \<Rightarrow> FInf s
      | (_, FInf t) \<Rightarrow> FInf t
      | (FFin s m e, FFin t n f) \<Rightarrow>
          let k = min e f; i = fp_scaled s m e k + fp_scaled t n f k
          in if i = 0 then FFin (s \<and> t) 0 k else FFin (i < 0) (nat \<bar>i\<bar>) k)"

definition fp_sub :: "fp \<Rightarrow> fp \<Rightarrow> fp" where
  "fp_sub x y = fp_add x (fp_neg y)"

definition fp_mul :: "fp \<Rightarrow> fp \<Rightarrow> fp" where
  "fp_mul x y =
     (case (x, y) of
        (FNaN, _) \<Rightarrow> FNaN
      | (_, FNaN) \<Rightarrow> FNaN
      | (FInf s, FInf t) \<Rightarrow> FInf (s \<noteq> t)
      | (FInf s, FFin t n f) \<Rightarrow> if n = 0 then FNaN else FInf (s \<noteq> t)
      | (FFin s m e, FInf t) \<Rightarrow> if m = 0 then FNaN else FInf (s \<noteq> t)
      | (FFin s m e, FFin t n f) \<Rightarrow> FFin (s \<noteq> t) (m * n) (e + f))"

text \<open>
  A quotient is not a dyadic number: it is computed to 128 bits and its last bit is set
  when there is a remainder, which rounds to 24 or 53 bits as the exact quotient does.
\<close>

definition fp_div :: "fp \<Rightarrow> fp \<Rightarrow> fp" where
  "fp_div x y =
     (case (x, y) of
        (FNaN, _) \<Rightarrow> FNaN
      | (_, FNaN) \<Rightarrow> FNaN
      | (FInf s, FInf t) \<Rightarrow> FNaN
      | (FInf s, FFin t n f) \<Rightarrow> FInf (s \<noteq> t)
      | (FFin s m e, FInf t) \<Rightarrow> FFin (s \<noteq> t) 0 0
      | (FFin s m e, FFin t n f) \<Rightarrow>
          if n = 0 then (if m = 0 then FNaN else FInf (s \<noteq> t))
          else let m' = m * 2 ^ 128
               in FFin (s \<noteq> t) (2 * (m' div n) + of_bool (m' mod n \<noteq> 0)) (e - f - 129))"

definition fp_less :: "fp \<Rightarrow> fp \<Rightarrow> bool" where
  "fp_less x y =
     (case (x, y) of
        (FNaN, _) \<Rightarrow> False
      | (_, FNaN) \<Rightarrow> False
      | (FInf s, FInf t) \<Rightarrow> s \<and> \<not> t
      | (FInf s, FFin _ _ _) \<Rightarrow> s
      | (FFin _ _ _, FInf t) \<Rightarrow> \<not> t
      | (FFin s m e, FFin t n f) \<Rightarrow>
          fp_scaled s m e (min e f) < fp_scaled t n f (min e f))"

definition fp_eq :: "fp \<Rightarrow> fp \<Rightarrow> bool" where
  "fp_eq x y \<longleftrightarrow> x \<noteq> FNaN \<and> y \<noteq> FNaN \<and> \<not> fp_less x y \<and> \<not> fp_less y x"

definition fp_of_int :: "int \<Rightarrow> fp" where
  "fp_of_int i = FFin (i < 0) (nat \<bar>i\<bar>) 0"

text \<open>Truncation to an integer, and \<open>round\<close> (half away from zero); only finite numbers.\<close>

definition fp_trunc :: "fp \<Rightarrow> int option" where
  "fp_trunc x =
     (case x of
        FFin s m e \<Rightarrow>
          Some ((if s then - 1 else 1) *
                int (if 0 \<le> e then m * 2 ^ nat e else m div 2 ^ nat (- e)))
      | _ \<Rightarrow> None)"

definition fp_round_away :: "fp \<Rightarrow> fp" where
  "fp_round_away x =
     (case x of
        FFin s m e \<Rightarrow> if 0 \<le> e then FFin s m e
                      else FFin s ((m + 2 ^ (nat (- e) - 1)) div 2 ^ nat (- e)) 0
      | _ \<Rightarrow> x)"

section \<open>The operations of C on bit patterns\<close>

definition f64_dec :: "u64 \<Rightarrow> fp" where "f64_dec w = fp_decode binary64 (unat w)"
definition f64_enc :: "fp \<Rightarrow> u64" where "f64_enc x = of_nat (fp_encode binary64 x)"
definition f32_dec :: "u32 \<Rightarrow> fp" where "f32_dec w = fp_decode binary32 (unat w)"
definition f32_enc :: "fp \<Rightarrow> u32" where "f32_enc x = of_nat (fp_encode binary32 x)"

definition f64_mul :: "u64 \<Rightarrow> u64 \<Rightarrow> u64" where
  "f64_mul a b = f64_enc (fp_mul (f64_dec a) (f64_dec b))"

definition f64_div :: "u64 \<Rightarrow> u64 \<Rightarrow> u64" where
  "f64_div a b = f64_enc (fp_div (f64_dec a) (f64_dec b))"

definition f64_sub :: "u64 \<Rightarrow> u64 \<Rightarrow> u64" where
  "f64_sub a b = f64_enc (fp_sub (f64_dec a) (f64_dec b))"

definition f32_sub :: "u32 \<Rightarrow> u32 \<Rightarrow> u32" where
  "f32_sub a b = f32_enc (fp_sub (f32_dec a) (f32_dec b))"

definition f64_abs :: "u64 \<Rightarrow> u64" where
  "f64_abs a = f64_enc (fp_abs (f64_dec a))"

definition f64_less :: "u64 \<Rightarrow> u64 \<Rightarrow> bool" where
  "f64_less a b = fp_less (f64_dec a) (f64_dec b)"

definition f64_eq :: "u64 \<Rightarrow> u64 \<Rightarrow> bool" where
  "f64_eq a b = fp_eq (f64_dec a) (f64_dec b)"

definition f32_eq :: "u32 \<Rightarrow> u32 \<Rightarrow> bool" where
  "f32_eq a b = fp_eq (f32_dec a) (f32_dec b)"

definition f32_to_f64 :: "u32 \<Rightarrow> u64" where
  "f32_to_f64 a = f64_enc (f32_dec a)"

definition f64_to_f32 :: "u64 \<Rightarrow> u32" where
  "f64_to_f32 a = f32_enc (f64_dec a)"

definition int_to_f64 :: "int \<Rightarrow> u64" where
  "int_to_f64 i = f64_enc (fp_of_int i)"

definition int_to_f32 :: "int \<Rightarrow> u32" where
  "int_to_f32 i = f32_enc (fp_of_int i)"

definition f64_round :: "u64 \<Rightarrow> u64" where
  "f64_round a = f64_enc (fp_round_away (f64_dec a))"

text \<open>
  The cast of a double to \<open>uint64_t\<close> is undefined behaviour outside the range of the
  type: \<open>None\<close>.
\<close>

definition f64_to_u64 :: "u64 \<Rightarrow> u64 option" where
  "f64_to_u64 a =
     (case fp_trunc (f64_dec a) of
        Some i \<Rightarrow> if 0 \<le> i \<and> i < 2 ^ 64 then Some (of_int i) else None
      | None \<Rightarrow> None)"

section \<open>Exactness\<close>


lemma bit_length_0 [simp]: "bit_length fuel 0 = 0"
  by (cases fuel) simp_all

lemma bit_length_bounds:
  "0 < n \<Longrightarrow> n < 2 ^ fuel \<Longrightarrow>
    n < 2 ^ bit_length fuel n \<and> 2 ^ bit_length fuel n \<le> 2 * n"
proof (induction fuel arbitrary: n)
  case 0
  then show ?case by simp
next
  case (Suc fuel)
  show ?case
  proof (cases "n div 2 = 0")
    case True
    with Suc.prems have "n = 1" by simp
    then show ?thesis by simp
  next
    case False
    then have "n div 2 < 2 ^ bit_length fuel (n div 2) \<and>
        2 ^ bit_length fuel (n div 2) \<le> 2 * (n div 2)"
      using Suc.IH [of "n div 2"] Suc.prems by auto
    then show ?thesis using Suc.prems by auto
  qed
qed

lemma bit_length_unique:
  assumes "0 < n" "n < 2 ^ b" "2 ^ b \<le> 2 * n" "b \<le> fuel"
  shows "bit_length fuel n = b"
proof -
  have "n < 2 ^ fuel"
    by (rule order_less_le_trans [OF assms(2) power_increasing [OF assms(4)]]) simp
  from bit_length_bounds [OF assms(1) this]
  have "n < 2 ^ bit_length fuel n" "2 ^ bit_length fuel n \<le> 2 * n" by auto
  with assms(2,3) have lt: "(2::nat) ^ bit_length fuel n < 2 ^ Suc b"
    "(2::nat) ^ b < 2 ^ Suc (bit_length fuel n)"
    by simp_all
  have "bit_length fuel n < Suc b" "b < Suc (bit_length fuel n)"
    using power_less_imp_less_exp [OF _ lt(1)] power_less_imp_less_exp [OF _ lt(2)] by simp_all
  then show ?thesis by simp
qed

text \<open>Canonical pairs: the numbers the format represents, as \<open>fp_decode\<close> gives them.\<close>

definition fp_canon :: "fp_format \<Rightarrow> nat \<Rightarrow> int \<Rightarrow> bool" where
  "fp_canon F m e \<longleftrightarrow>
     m < 2 ^ (mbits F + 1) \<and> fp_emin F \<le> e \<and> (2 ^ mbits F \<le> m \<or> e = fp_emin F) \<and>
     nat (e - fp_emin F) + 2 < 2 ^ ebits F"

definition fp_pack_canon :: "fp_format \<Rightarrow> bool \<Rightarrow> nat \<Rightarrow> int \<Rightarrow> nat" where
  "fp_pack_canon F s m e =
     (if m < 2 ^ mbits F then fp_pack F s 0 m
      else fp_pack F s (nat (e - fp_emin F) + 1) (m - 2 ^ mbits F))"

lemma round_shift_exact [simp]: "round_shift (m * 2 ^ k) k = m"
  by (simp add: round_shift_def)

text \<open>The exponent the rounding chooses for a canonical number is the number's own.\<close>

lemma fp_round_exponent:
  assumes canon: "fp_canon F m e" and m: "0 < m" and n: "0 < n" "n < 2 ^ 2200"
    and eq: "(n = m * 2 ^ k \<and> f = e - int k) \<or> (m = n * 2 ^ k \<and> f = e + int k)"
  shows "max (fp_emin F) (f + int (bit_length 2200 n) - int (mbits F + 1)) = e"
proof -
  define b where "b = bit_length 2200 n"
  from bit_length_bounds [OF n] have nb: "n < 2 ^ b" "2 ^ b \<le> 2 * n" by (auto simp: b_def)
  obtain c where c: "f + int b = e + int c" and mc: "m < 2 ^ c" "2 ^ c \<le> 2 * m"
  proof (rule disjE [OF eq])
    assume 1: "n = m * 2 ^ k \<and> f = e - int k"
    have "k < b"
    proof (rule ccontr)
      assume "\<not> k < b"
      then have "(2::nat) ^ b \<le> 2 ^ k" by (intro power_increasing) auto
      moreover have "(2::nat) ^ k \<le> n" using 1 m by simp
      ultimately show False using nb by linarith
    qed
    then obtain c where b: "b = k + c" by (metis less_imp_le_nat nat_le_iff_add)
    show ?thesis
      by (rule that [of c]) (use 1 nb in \<open>auto simp: b power_add\<close>)
  next
    assume 2: "m = n * 2 ^ k \<and> f = e + int k"
    show ?thesis
      by (rule that [of "b + k"]) (use 2 nb in \<open>auto simp: power_add\<close>)
  qed
  have up: "c \<le> mbits F + 1"
  proof (rule ccontr)
    assume "\<not> c \<le> mbits F + 1"
    then have "(2::nat) ^ Suc (mbits F + 1) \<le> 2 ^ c" by (intro power_increasing) auto
    moreover have "m < 2 ^ (mbits F + 1)" using canon by (simp add: fp_canon_def)
    ultimately show False using mc by simp
  qed
  show ?thesis
  proof (cases "2 ^ mbits F \<le> m")
    case True
    have "mbits F < c" 
    proof (rule ccontr)
      assume "\<not> mbits F < c"
      then have "(2::nat) ^ c \<le> 2 ^ mbits F" by (intro power_increasing) auto
      with True mc show False by simp
    qed
    with up have "c = mbits F + 1" by simp
    with c canon show ?thesis by (simp add: fp_canon_def flip: b_def)
  next
    case False
    with canon have "e = fp_emin F" by (simp add: fp_canon_def)
    with c up show ?thesis by (simp flip: b_def)
  qed
qed

lemma fp_round_canon:
  assumes canon: "fp_canon F m e" and n: "n < 2 ^ 2200"
    and eq: "(n = m * 2 ^ k \<and> f = e - int k) \<or> (m = n * 2 ^ k \<and> f = e + int k)"
  shows "fp_round F s n f = fp_pack_canon F s m e"
proof (cases "m = 0")
  case True
  with eq have "n = 0" by auto
  with True show ?thesis
    by (simp add: fp_round_def fp_pack_canon_def Let_def round_shift_def)
next
  case False
  with eq have "0 < n" by (auto intro: gr0I)
  with False have q: "max (fp_emin F) (f + int (bit_length 2200 n) - int (mbits F + 1)) = e"
    using fp_round_exponent [OF canon _ _ n eq] by simp
  have m1: "(if e \<le> f then n * 2 ^ nat (f - e) else round_shift n (nat (e - f))) = m"
    using eq by (cases "k = 0") auto
  show ?thesis
    unfolding fp_round_def q Let_def m1
    using canon by (auto simp: fp_canon_def fp_pack_canon_def)
qed


lemma fp_pack_less:
  assumes "ex < 2 ^ ebits F" "fr < 2 ^ mbits F"
  shows "fp_decode F (fp_pack F s ex fr) =
     (if ex = 2 ^ ebits F - 1 then (if fr = 0 then FInf s else FNaN)
      else if ex = 0 then FFin s fr (fp_emin F)
      else FFin s (fr + 2 ^ mbits F) (fp_emin F + int ex - 1))"
proof -
  have 1: "fp_pack F s ex fr div 2 ^ mbits F = of_bool s * 2 ^ ebits F + ex"
    and 2: "fp_pack F s ex fr mod 2 ^ mbits F = fr"
    using assms by (simp_all add: fp_pack_def)
  have 3: "fp_pack F s ex fr div 2 ^ (mbits F + ebits F) = of_bool s"
    using assms 1 by (simp add: power_add div_mult2_eq)
  have 4: "(of_bool s * 2 ^ ebits F + ex) mod 2 ^ ebits F = ex"
    using assms by simp
  show ?thesis
    unfolding fp_decode_def 1 2 3 4 Let_def by simp
qed

lemma fp_decode_canon:
  assumes "fp_canon F m e" "0 < ebits F"
  shows "fp_decode F (fp_pack_canon F s m e) = FFin s m e"
proof -
  have e: "nat (e - fp_emin F) + 2 < 2 ^ ebits F" and m: "m < 2 ^ (mbits F + 1)"
    and emin: "fp_emin F \<le> e" and sub: "2 ^ mbits F \<le> m \<or> e = fp_emin F"
    using assms by (auto simp: fp_canon_def)
  show ?thesis
  proof (cases "m < 2 ^ mbits F")
    case True
    with sub e show ?thesis by (simp add: fp_pack_canon_def fp_pack_less)
  next
    case False
    with m e emin show ?thesis by (simp add: fp_pack_canon_def fp_pack_less)
  qed
qed

lemma fp_canon_of_decode:
  assumes "fp_decode F n = FFin s m e" "1 < ebits F"
  shows "fp_canon F m e"
proof -
  define ex where "ex = n div 2 ^ mbits F mod 2 ^ ebits F"
  define fr where "fr = n mod 2 ^ mbits F"
  have fr: "fr < 2 ^ mbits F" by (simp add: fr_def)
  have ex: "ex < 2 ^ ebits F" by (simp add: ex_def)
  have "(2::nat) ^ 2 \<le> 2 ^ ebits F" using assms(2) by (intro power_increasing) auto
  moreover have "nat (int ex - 1) + 2 < 2 ^ ebits F" if "ex \<noteq> 0" "ex \<noteq> 2 ^ ebits F - 1"
    using ex that by linarith
  ultimately show ?thesis
    using assms(1) fr
    by (auto simp: fp_decode_def fp_canon_def Let_def simp flip: ex_def fr_def split: if_splits)
qed

lemma of_bool_odd_less_2: "n < 2 \<Longrightarrow> of_bool (odd n) = (n::nat)"
  by (auto simp: less_2_cases_iff)

lemma fp_pack_canon_decode:
  assumes "fp_decode F n = FFin s m e" "n < 2 ^ (1 + ebits F + mbits F)" 
  shows "fp_pack_canon F s m e = n"
proof -
  define q where "q = n div 2 ^ mbits F"
  define ex where "ex = q mod 2 ^ ebits F"
  define fr where "fr = n mod 2 ^ mbits F"
  have n: "n = q * 2 ^ mbits F + fr" unfolding q_def fr_def by (rule div_mult_mod_eq [symmetric])
  have "q < 2 ^ (1 + ebits F)"
    unfolding q_def
    by (rule less_mult_imp_div_less) (use assms(2) in \<open>simp add: power_add mult.assoc\<close>)
  then have "q div 2 ^ ebits F < 2" by (simp add: less_mult_imp_div_less)
  then have "of_bool (odd (q div 2 ^ ebits F)) = q div 2 ^ ebits F" by (rule of_bool_odd_less_2)
  then have q: "q = of_bool (odd (q div 2 ^ ebits F)) * 2 ^ ebits F + ex"
    unfolding ex_def by (metis div_mult_mod_eq)
  have s: "n div 2 ^ (mbits F + ebits F) = q div 2 ^ ebits F"
    by (simp add: q_def power_add div_mult2_eq)
  have fr: "fr < 2 ^ mbits F" by (simp add: fr_def)
  have "fp_pack F (odd (q div 2 ^ ebits F)) ex fr = n"
    unfolding fp_pack_def n using q by simp
  moreover have "0 < ex \<Longrightarrow> Suc (nat (int ex - 1)) = ex" by simp
  ultimately show ?thesis
    using assms(1) fr
    by (auto simp: fp_decode_def Let_def fp_pack_canon_def s simp flip: q_def ex_def fr_def
        split: if_splits)
qed


text \<open>Encoding a decoded number gives its bits back, NaNs apart.\<close>

lemma fp_encode_decode:
  assumes "n < 2 ^ (1 + ebits F + mbits F)" "fp_decode F n \<noteq> FNaN"
    "1 < ebits F" "mbits F < 2000"
  shows "fp_encode F (fp_decode F n) = n"
proof (cases "fp_decode F n")
  case FNaN
  with assms show ?thesis by simp
next
  case (FInf s)
  define q where "q = n div 2 ^ mbits F"
  have "q < 2 * 2 ^ ebits F"
    unfolding q_def
    by (rule less_mult_imp_div_less) (use assms(1) in \<open>simp add: power_add mult.assoc\<close>)
  then have "q div 2 ^ ebits F < 2" by (simp add: less_mult_imp_div_less)
  then have b: "of_bool (odd (q div 2 ^ ebits F)) = q div 2 ^ ebits F"
    by (rule of_bool_odd_less_2)
  have s: "n div 2 ^ (mbits F + ebits F) = q div 2 ^ ebits F"
    by (simp add: q_def power_add div_mult2_eq)
  have fr: "n mod 2 ^ mbits F = 0" and ex: "q mod 2 ^ ebits F = 2 ^ ebits F - 1"
    and odd: "s = odd (q div 2 ^ ebits F)"
    using FInf by (auto simp: fp_decode_def Let_def s simp flip: q_def split: if_splits)
  have "n = q * 2 ^ mbits F" using fr by (simp add: q_def mod_eq_0_iff_dvd)
  moreover have "q = q div 2 ^ ebits F * 2 ^ ebits F + (2 ^ ebits F - 1)"
    using div_mult_mod_eq [of q "2 ^ ebits F"] ex by simp
  ultimately show ?thesis using FInf b odd by (simp add: fp_encode_def fp_pack_def)
next
  case (FFin s m e)
  then have canon: "fp_canon F m e" using assms(3) by (rule fp_canon_of_decode)
  then have "m < 2 ^ (mbits F + 1)" by (simp add: fp_canon_def)
  also have "(2::nat) ^ (mbits F + 1) \<le> 2 ^ 2200" using assms(4) by (intro power_increasing) auto
  finally have "fp_round F s m e = fp_pack_canon F s m e"
    using fp_round_canon [OF canon, of m 0 e] by simp
  with FFin assms(1) show ?thesis by (simp add: fp_encode_def fp_pack_canon_decode)
qed

lemma binary_format_simps [simp]:
  "mbits binary32 = 23" "ebits binary32 = 8" "mbits binary64 = 52" "ebits binary64 = 11"
  "fp_emin binary32 = - 149" "fp_emin binary64 = - 1074"
  by (simp_all add: binary32_def binary64_def fp_emin_def)

lemma f64_enc_dec: "f64_dec w \<noteq> FNaN \<Longrightarrow> f64_enc (f64_dec w) = w"
proof -
  assume nan: "f64_dec w \<noteq> FNaN"
  have "unat w < 2 ^ 64" using unsigned_less [of w] by simp
  with nan show ?thesis by (simp add: f64_enc_def f64_dec_def fp_encode_decode)
qed

lemma f32_enc_dec: "f32_dec w \<noteq> FNaN \<Longrightarrow> f32_enc (f32_dec w) = w"
proof -
  assume nan: "f32_dec w \<noteq> FNaN"
  have "unat w < 2 ^ 32" using unsigned_less [of w] by simp
  with nan show ?thesis by (simp add: f32_enc_def f32_dec_def fp_encode_decode)
qed

lemma fp_pack_canon_less:
  assumes "fp_canon F m e"
  shows "fp_pack_canon F s m e < 2 ^ (1 + ebits F + mbits F)"
proof -
  have pack: "fp_pack F s ex fr < 2 ^ (1 + ebits F + mbits F)"
    if "ex < 2 ^ ebits F" "fr < 2 ^ mbits F" for ex fr
  proof -
    have "of_bool s * 2 ^ ebits F + ex + 1 \<le> (2 * 2 ^ ebits F :: nat)" using that by (cases s) auto
    then have "(of_bool s * 2 ^ ebits F + ex + 1) * 2 ^ mbits F \<le> 2 * 2 ^ ebits F * (2 ^ mbits F :: nat)"
      by (rule mult_le_mono1)
    then show ?thesis using that by (simp add: fp_pack_def power_add algebra_simps)
  qed
  have "m < 2 ^ (mbits F + 1)" "nat (e - fp_emin F) + 2 < 2 ^ ebits F"
    using assms by (auto simp: fp_canon_def)
  then show ?thesis
    unfolding fp_pack_canon_def using pack [of 0 m]
      pack [of "nat (e - fp_emin F) + 1" "m - 2 ^ mbits F"] by (auto split: if_splits)
qed

lemma f64_dec_enc_canon:
  assumes "fp_canon binary64 m e" "n < 2 ^ 2200"
    and "(n = m * 2 ^ k \<and> f = e - int k) \<or> (m = n * 2 ^ k \<and> f = e + int k)"
  shows "f64_dec (f64_enc (FFin s n f)) = FFin s m e"
proof -
  have r: "fp_round binary64 s n f = fp_pack_canon binary64 s m e"
    by (rule fp_round_canon [OF assms])
  from fp_pack_canon_less [OF assms(1), of s]
  have "unat (of_nat (fp_pack_canon binary64 s m e) :: u64) = fp_pack_canon binary64 s m e"
    by (simp add: unat_of_nat)
  with r show ?thesis
    by (simp add: f64_dec_def f64_enc_def fp_encode_def fp_decode_canon [OF assms(1)])
qed

text \<open>
  A finite single is a double: normalised to 53 bits, or zero.
\<close>

lemma f32_widen:
  assumes "fp_canon binary32 m e" "0 < m"
  obtains k where "fp_canon binary64 (m * 2 ^ k) (e - int k)" "m * 2 ^ k < 2 ^ 53"
proof -
  have m: "m < 2 ^ 24" "- 149 \<le> e" "nat (e + 149) + 2 < 256"
    using assms by (auto simp: fp_canon_def)
  define b where "b = bit_length 24 m"
  from bit_length_bounds [of m 24] assms m have b: "m < 2 ^ b" "2 ^ b \<le> 2 * m"
    by (auto simp: b_def)
  have "b \<le> 24"
  proof (rule ccontr)
    assume "\<not> b \<le> 24"
    then have "(2::nat) ^ 25 \<le> 2 ^ b" by (intro power_increasing) auto
    with b m show False by simp
  qed
  then have pow: "(2::nat) ^ b * 2 ^ (53 - b) = 2 ^ 53" by (simp flip: power_add)
  have lt: "m * 2 ^ (53 - b) < 2 ^ 53"
  proof -
    have "m * 2 ^ (53 - b) < 2 ^ b * 2 ^ (53 - b)" using b by simp
    with pow show ?thesis by simp
  qed
  have ge: "2 ^ 52 \<le> m * 2 ^ (53 - b)"
  proof -
    have "2 ^ b * 2 ^ (53 - b) \<le> 2 * m * 2 ^ (53 - b)" using b by (intro mult_le_mono1)
    then show ?thesis by (simp add: pow)
  qed
  show thesis
    by (rule that [of "53 - b"]) (use lt ge m \<open>b \<le> 24\<close> in \<open>auto simp: fp_canon_def\<close>)
qed

lemma f64_dec_enc_inf: "f64_dec (f64_enc (FInf s)) = FInf s"
proof -
  have "fp_pack binary64 s 2047 0 < 2 ^ 64" by (cases s) (simp_all add: fp_pack_def)
  then show ?thesis
    by (simp add: f64_dec_def f64_enc_def fp_encode_def unat_of_nat fp_pack_less)
qed

lemma f64_to_f32_to_f64:
  assumes "f32_dec x \<noteq> FNaN"
  shows "f64_to_f32 (f32_to_f64 x) = x"
proof -
  have x: "f32_enc (f32_dec x) = x" using assms by (rule f32_enc_dec)
  show ?thesis
  proof (cases "f32_dec x")
    case FNaN
    with assms show ?thesis by simp
  next
    case (FInf s)
    have "f64_dec (f64_enc (FInf s)) = FInf s" by (rule f64_dec_enc_inf)
    with FInf x show ?thesis by (simp add: f32_to_f64_def f64_to_f32_def)
  next
    case (FFin s m e)
    then have canon: "fp_canon binary32 m e" by (simp add: f32_dec_def fp_canon_of_decode)
    then have m: "m < 2 ^ 24" by (simp add: fp_canon_def)
    show ?thesis
    proof (cases "m = 0")
      case True
      with canon have e: "e = - 149" by (simp add: fp_canon_def)
      have "f64_dec (f64_enc (FFin s 0 e)) = FFin s 0 (- 1074)"
        by (rule f64_dec_enc_canon [where k = 925]) (auto simp: fp_canon_def e)
      moreover have "f32_enc (FFin s 0 (- 1074)) = f32_enc (FFin s 0 e)"
        by (simp add: f32_enc_def fp_encode_def fp_round_def Let_def round_shift_def e)
      ultimately show ?thesis
        using FFin True x by (simp add: f32_to_f64_def f64_to_f32_def)
    next
      case False
      then obtain k where k: "fp_canon binary64 (m * 2 ^ k) (e - int k)" "m * 2 ^ k < 2 ^ 53"
        using f32_widen [OF canon] by auto
      have big: "(2::nat) ^ 24 < 2 ^ 2200"
        by (rule power_strict_increasing) simp_all
      have big': "(2::nat) ^ 53 < 2 ^ 2200"
        by (rule power_strict_increasing) simp_all
      have n: "m < 2 ^ 2200" "m * 2 ^ k < 2 ^ 2200"
        by (rule less_trans [OF m big], rule less_trans [OF k(2) big'])
      have "f64_dec (f64_enc (FFin s m e)) = FFin s (m * 2 ^ k) (e - int k)"
        by (rule f64_dec_enc_canon [OF k(1) n(1), of k]) simp
      moreover have "fp_round binary32 s (m * 2 ^ k) (e - int k) = fp_round binary32 s m e"
        using fp_round_canon [OF canon n(2), of k "e - int k"] fp_round_canon [OF canon n(1), of 0 e]
        by simp
      ultimately show ?thesis
        using FFin x by (simp add: f32_to_f64_def f64_to_f32_def f32_enc_def fp_encode_def)
    qed
  qed
qed

text \<open>Integers below \<open>2^53\<close> are doubles, and the double converts back to the integer.\<close>

lemma int_widen:
  assumes "0 < n" "n < 2 ^ 53"
  obtains k where "k \<le> 53" "fp_canon binary64 (n * 2 ^ k) (- int k)"
proof -
  define b where "b = bit_length 53 n"
  from bit_length_bounds [of n 53] assms have b: "n < 2 ^ b" "2 ^ b \<le> 2 * n"
    by (auto simp: b_def)
  have "b \<le> 53"
  proof (rule ccontr)
    assume "\<not> b \<le> 53"
    then have "(2::nat) ^ 54 \<le> 2 ^ b" by (intro power_increasing) auto
    with b assms show False by simp
  qed
  then have pow: "(2::nat) ^ b * 2 ^ (53 - b) = 2 ^ 53" by (simp flip: power_add)
  have lt: "n * 2 ^ (53 - b) < 2 ^ 53"
  proof -
    have "n * 2 ^ (53 - b) < 2 ^ b * 2 ^ (53 - b)" using b by simp
    with pow show ?thesis by simp
  qed
  have ge: "2 ^ 52 \<le> n * 2 ^ (53 - b)"
  proof -
    have "2 ^ b * 2 ^ (53 - b) \<le> 2 * n * 2 ^ (53 - b)" using b by (intro mult_le_mono1)
    then show ?thesis by (simp add: pow)
  qed
  show thesis
    by (rule that [of "53 - b"]) (use lt ge \<open>b \<le> 53\<close> in \<open>auto simp: fp_canon_def\<close>)
qed

lemma two_pow_53_less: "n < 2 ^ 53 \<Longrightarrow> n < (2::nat) ^ 2200"
proof -
  assume "n < 2 ^ 53"
  moreover have "(2::nat) ^ 53 < 2 ^ 2200" by (rule power_strict_increasing) simp_all
  ultimately show "n < 2 ^ 2200" by (rule less_trans)
qed

lemma f64_dec_int:
  assumes "0 < \<bar>i\<bar>" "\<bar>i\<bar> < 2 ^ 53"
  obtains k where "k \<le> 53" "f64_dec (int_to_f64 i) = FFin (i < 0) (nat \<bar>i\<bar> * 2 ^ k) (- int k)"
proof -
  have n: "0 < nat \<bar>i\<bar>" "nat \<bar>i\<bar> < 2 ^ 53" using assms by (auto simp: nat_less_iff)
  then obtain k where k: "k \<le> 53" "fp_canon binary64 (nat \<bar>i\<bar> * 2 ^ k) (- int k)"
    by (rule int_widen)
  have "f64_dec (f64_enc (FFin (i < 0) (nat \<bar>i\<bar>) 0)) = FFin (i < 0) (nat \<bar>i\<bar> * 2 ^ k) (- int k)"
    by (rule f64_dec_enc_canon [OF k(2) two_pow_53_less [OF n(2)], of k]) simp
  then show thesis using that k by (simp add: int_to_f64_def fp_of_int_def)
qed

lemma f64_dec_0: "f64_dec (int_to_f64 0) = FFin False 0 (- 1074)"
  unfolding int_to_f64_def fp_of_int_def
  using f64_dec_enc_canon [of 0 "- 1074" 0 1074 0 False] by (simp add: fp_canon_def)

lemma f64_to_u64_int:
  assumes "n < 2 ^ 53"
  shows "f64_to_u64 (int_to_f64 (int n)) = Some (of_nat n)"
proof (cases "n = 0")
  case True
  then show ?thesis by (simp add: f64_to_u64_def f64_dec_0 fp_trunc_def)
next
  case False
  have "int n < 2 ^ 53" using assms by (metis of_nat_less_numeral_power_cancel_iff)
  with False obtain k where "f64_dec (int_to_f64 (int n)) = FFin False (n * 2 ^ k) (- int k)"
    using f64_dec_int [of "int n"] by auto
  then have "fp_trunc (f64_dec (int_to_f64 (int n))) = Some (int n)"
    by (cases "k = 0") (simp_all add: fp_trunc_def)
  with \<open>int n < 2 ^ 53\<close> show ?thesis by (simp add: f64_to_u64_def)
qed

text \<open>The decimal 1.0 neither scales a value read nor one written.\<close>

definition f64_one :: u64 where
  "f64_one = 0x3FF0000000000000"

lemma f64_dec_one: "f64_dec f64_one = FFin False (2 ^ 52) (- 52)"
  by (simp add: f64_one_def f64_dec_def fp_decode_def Let_def)

lemma f64_enc_scaled:
  assumes "f64_dec w = FFin s m e" "k \<le> 128"
  shows "f64_enc (FFin s (m * 2 ^ k) (e - int k)) = w"
proof -
  have canon: "fp_canon binary64 m e"
    using assms by (simp add: f64_dec_def fp_canon_of_decode)
  have "m * 2 ^ k < 2 ^ 53 * 2 ^ 128"
    using canon assms(2) by (intro mult_less_le_imp_less power_increasing) (auto simp: fp_canon_def)
  also have "(2::nat) ^ 53 * 2 ^ 128 = 2 ^ 181" by (simp flip: power_add)
  also have "(2::nat) ^ 181 < 2 ^ 2200" by (rule power_strict_increasing) simp_all
  finally have n: "m * 2 ^ k < 2 ^ 2200" .
  have "fp_round binary64 s (m * 2 ^ k) (e - int k) = fp_pack_canon binary64 s m e"
    by (rule fp_round_canon [OF canon n, of k]) simp
  moreover have "fp_pack_canon binary64 s m e = unat w"
  proof (rule fp_pack_canon_decode)
    show "fp_decode binary64 (unat w) = FFin s m e" using assms(1) by (simp add: f64_dec_def)
    have "unat w < 2 ^ 64" using unsigned_less [of w] by simp
    then show "unat w < 2 ^ (1 + ebits binary64 + mbits binary64)" by simp
  qed
  ultimately show ?thesis by (simp add: f64_enc_def fp_encode_def)
qed

lemma f64_mul_one:
  assumes "f64_dec w \<noteq> FNaN"
  shows "f64_mul w f64_one = w"
proof (cases "f64_dec w")
  case (FInf s)
  then show ?thesis
    using f64_enc_dec [OF assms] by (simp add: f64_mul_def f64_dec_one fp_mul_def)
next
  case (FFin s m e)
  then show ?thesis
    using f64_enc_scaled [OF FFin, of 52] by (simp add: f64_mul_def f64_dec_one fp_mul_def)
qed (use assms in simp)

lemma f64_div_one:
  assumes "f64_dec w \<noteq> FNaN"
  shows "f64_div w f64_one = w"
proof (cases "f64_dec w")
  case (FInf s)
  then show ?thesis
    using f64_enc_dec [OF assms] by (simp add: f64_div_def f64_dec_one fp_div_def)
next
  case (FFin s m e)
  have eq: "m * 2 ^ 128 = m * 2 ^ 76 * 2 ^ 52" by (simp flip: power_add)
  have "fp_div (FFin s m e) (FFin False (2 ^ 52) (- 52)) = FFin s (m * 2 ^ 77) (e - int 77)"
    unfolding fp_div_def eq by (simp add: Let_def)
  then show ?thesis
    using f64_enc_scaled [OF FFin, of 77] by (simp add: f64_div_def f64_dec_one FFin)
qed (use assms in simp)

end
