(* ===== verification/CTypes.thy ===== *)
theory CTypes
  imports Prelude
begin

text \<open>
  The data types of \<open>include/esvcpm/type.h\<close>: the enumeration of tag types, the value
  union and its typed members, the bit and 24-bit helpers, the byte-order functions and
  the unaligned readers.

  The union \<open>neu_value_u\<close> is 136 bytes of memory (129 bytes of \<open>neu_value_bytes_t\<close>, rounded
  up to the alignment of a pointer).  A member is read or written through its
  little-endian image at the front of those bytes, so reading a member after writing
  another one gives what the hardware gives.  The member \<open>ptr.ptr\<close> lives in the bytes 8
  to 15; while it holds the address of a heap object the field \<open>vptr\<close> is that object's
  contents and the eight address bytes are not looked at.
\<close>

section \<open>Tag types\<close>

datatype neu_type_e =
    NEU_TYPE_INT8 | NEU_TYPE_UINT8 | NEU_TYPE_INT16 | NEU_TYPE_UINT16
  | NEU_TYPE_INT32 | NEU_TYPE_UINT32 | NEU_TYPE_INT64 | NEU_TYPE_UINT64
  | NEU_TYPE_FLOAT | NEU_TYPE_DOUBLE | NEU_TYPE_BIT | NEU_TYPE_BOOL
  | NEU_TYPE_STRING | NEU_TYPE_BYTES | NEU_TYPE_ERROR
  | NEU_TYPE_WORD | NEU_TYPE_DWORD | NEU_TYPE_LWORD | NEU_TYPE_PTR

fun neu_type_code :: "neu_type_e \<Rightarrow> nat" where
  "neu_type_code NEU_TYPE_INT8 = 1"
| "neu_type_code NEU_TYPE_UINT8 = 2"
| "neu_type_code NEU_TYPE_INT16 = 3"
| "neu_type_code NEU_TYPE_UINT16 = 4"
| "neu_type_code NEU_TYPE_INT32 = 5"
| "neu_type_code NEU_TYPE_UINT32 = 6"
| "neu_type_code NEU_TYPE_INT64 = 7"
| "neu_type_code NEU_TYPE_UINT64 = 8"
| "neu_type_code NEU_TYPE_FLOAT = 9"
| "neu_type_code NEU_TYPE_DOUBLE = 10"
| "neu_type_code NEU_TYPE_BIT = 11"
| "neu_type_code NEU_TYPE_BOOL = 12"
| "neu_type_code NEU_TYPE_STRING = 13"
| "neu_type_code NEU_TYPE_BYTES = 14"
| "neu_type_code NEU_TYPE_ERROR = 15"
| "neu_type_code NEU_TYPE_WORD = 16"
| "neu_type_code NEU_TYPE_DWORD = 17"
| "neu_type_code NEU_TYPE_LWORD = 18"
| "neu_type_code NEU_TYPE_PTR = 19"

lemma neu_type_code_inject [simp]: "neu_type_code a = neu_type_code b \<longleftrightarrow> a = b"
  by (cases a; cases b) simp_all

text \<open>The order of the enumeration, by its codes.\<close>

instantiation neu_type_e :: linorder
begin

definition less_eq_neu_type_e :: "neu_type_e \<Rightarrow> neu_type_e \<Rightarrow> bool" where
  "less_eq_neu_type_e a b \<longleftrightarrow> neu_type_code a \<le> neu_type_code b"

definition less_neu_type_e :: "neu_type_e \<Rightarrow> neu_type_e \<Rightarrow> bool" where
  "less_neu_type_e a b \<longleftrightarrow> neu_type_code a < neu_type_code b"

instance
  by standard (auto simp: less_eq_neu_type_e_def less_neu_type_e_def)

end

fun neu_type_string :: "neu_type_e \<Rightarrow> string" where
  "neu_type_string NEU_TYPE_INT8 = ''NEU_TYPE_INT8''"
| "neu_type_string NEU_TYPE_UINT8 = ''NEU_TYPE_UINT8''"
| "neu_type_string NEU_TYPE_INT16 = ''NEU_TYPE_INT16''"
| "neu_type_string NEU_TYPE_UINT16 = ''NEU_TYPE_UINT16''"
| "neu_type_string NEU_TYPE_INT32 = ''NEU_TYPE_INT32''"
| "neu_type_string NEU_TYPE_UINT32 = ''NEU_TYPE_UINT32''"
| "neu_type_string NEU_TYPE_INT64 = ''NEU_TYPE_INT64''"
| "neu_type_string NEU_TYPE_UINT64 = ''NEU_TYPE_UINT64''"
| "neu_type_string NEU_TYPE_FLOAT = ''NEU_TYPE_FLOAT''"
| "neu_type_string NEU_TYPE_DOUBLE = ''NEU_TYPE_DOUBLE''"
| "neu_type_string NEU_TYPE_BIT = ''NEU_TYPE_BIT''"
| "neu_type_string NEU_TYPE_BOOL = ''NEU_TYPE_BOOL''"
| "neu_type_string NEU_TYPE_STRING = ''NEU_TYPE_STRING''"
| "neu_type_string NEU_TYPE_BYTES = ''NEU_TYPE_BYTES''"
| "neu_type_string NEU_TYPE_ERROR = ''NEU_TYPE_ERROR''"
| "neu_type_string NEU_TYPE_WORD = ''NEU_TYPE_WORD''"
| "neu_type_string NEU_TYPE_DWORD = ''NEU_TYPE_DWORD''"
| "neu_type_string NEU_TYPE_LWORD = ''NEU_TYPE_LWORD''"
| "neu_type_string NEU_TYPE_PTR = ''NEU_TYPE_PTR''"

section \<open>The value union\<close>

definition NEU_VALUE_SIZE :: nat where
  "NEU_VALUE_SIZE = 128"

definition sizeof_neu_value_u :: nat where
  "sizeof_neu_value_u = 136"

record neu_value_u =
  vraw :: bytes
  vptr :: "bytes option"

definition zero_value :: neu_value_u where
  "zero_value = \<lparr>vraw = replicate sizeof_neu_value_u 0, vptr = None\<rparr>"

definition value_wf :: "neu_value_u \<Rightarrow> bool" where
  "value_wf v \<longleftrightarrow> length (vraw v) = sizeof_neu_value_u"

text \<open>
  Storing \<open>bs\<close> at offset \<open>off\<close>; a store that touches the bytes 8 to 15 overwrites the
  pointer.
\<close>

definition poke :: "nat \<Rightarrow> bytes \<Rightarrow> bytes \<Rightarrow> bytes" where
  "poke off bs raw = take off raw @ bs @ drop (off + length bs) raw"

definition peek :: "nat \<Rightarrow> nat \<Rightarrow> bytes \<Rightarrow> bytes" where
  "peek off n raw = take n (drop off raw)"

definition vput :: "nat \<Rightarrow> bytes \<Rightarrow> neu_value_u \<Rightarrow> neu_value_u" where
  "vput off bs v =
     v\<lparr>vraw := poke off bs (vraw v),
       vptr := (if bs = [] \<or> off + length bs \<le> 8 \<or> 16 \<le> off then vptr v else None)\<rparr>"

definition vget :: "nat \<Rightarrow> nat \<Rightarrow> neu_value_u \<Rightarrow> bytes" where
  "vget off n v = peek off n (vraw v)"

text \<open>The scalar members all start at offset 0.\<close>

definition put_word :: "'a::len word \<Rightarrow> neu_value_u \<Rightarrow> neu_value_u" where
  "put_word w v = vput 0 (bytes_of_word w) v"

definition get_word :: "neu_value_u \<Rightarrow> 'a::len word" where
  "get_word v = word_of_bytes (vget 0 (LENGTH('a) div 8) v)"

abbreviation get_u8 :: "neu_value_u \<Rightarrow> u8" where "get_u8 \<equiv> get_word"
abbreviation get_u16 :: "neu_value_u \<Rightarrow> u16" where "get_u16 \<equiv> get_word"
abbreviation get_u32 :: "neu_value_u \<Rightarrow> u32" where "get_u32 \<equiv> get_word"
abbreviation get_u64 :: "neu_value_u \<Rightarrow> u64" where "get_u64 \<equiv> get_word"

definition get_boolean :: "neu_value_u \<Rightarrow> bool" where
  "get_boolean v \<longleftrightarrow> get_u8 v \<noteq> 0"

definition put_boolean :: "bool \<Rightarrow> neu_value_u \<Rightarrow> neu_value_u" where
  "put_boolean b v = put_word (if b then 1 else 0 :: u8) v"

text \<open>\<open>str\<close>: the 128 bytes; \<open>bytes.bytes\<close> and \<open>bytes.length\<close>; \<open>ptr.type\<close> and \<open>ptr.length\<close>.\<close>

definition get_str :: "neu_value_u \<Rightarrow> bytes" where
  "get_str v = vget 0 NEU_VALUE_SIZE v"

definition put_str :: "bytes \<Rightarrow> neu_value_u \<Rightarrow> neu_value_u" where
  "put_str bs v = vput 0 bs v"

definition get_bytes_length :: "neu_value_u \<Rightarrow> nat" where
  "get_bytes_length v = unat (word_of_bytes (vget NEU_VALUE_SIZE 1 v) :: u8)"

definition put_bytes_length :: "u8 \<Rightarrow> neu_value_u \<Rightarrow> neu_value_u" where
  "put_bytes_length n v = vput NEU_VALUE_SIZE [n] v"

definition get_ptr_type :: "neu_value_u \<Rightarrow> u32" where
  "get_ptr_type v = word_of_bytes (vget 0 4 v)"

definition put_ptr_type :: "u32 \<Rightarrow> neu_value_u \<Rightarrow> neu_value_u" where
  "put_ptr_type t v = vput 0 (bytes_of_word t) v"

definition get_ptr_length :: "neu_value_u \<Rightarrow> nat" where
  "get_ptr_length v = unat (word_of_bytes (vget 4 2 v) :: u16)"

definition put_ptr_length :: "u16 \<Rightarrow> neu_value_u \<Rightarrow> neu_value_u" where
  "put_ptr_length n v = vput 4 (bytes_of_word n) v"

text \<open>\<open>ptr.ptr\<close> compared with NULL, and set to a live object.\<close>

definition ptr_is_null :: "neu_value_u \<Rightarrow> bool" where
  "ptr_is_null v \<longleftrightarrow> vptr v = None \<and> le_nat (vget 8 8 v) = 0"

definition put_ptr :: "bytes \<Rightarrow> neu_value_u \<Rightarrow> neu_value_u" where
  "put_ptr obj v = v\<lparr>vptr := Some obj\<rparr>"

record neu_dvalue_t =
  dtype :: neu_type_e
  dvalue :: neu_value_u
  dprecision :: u8

section \<open>Laws of the memory image\<close>

lemma length_poke [simp]: "off + length bs \<le> length raw \<Longrightarrow> length (poke off bs raw) = length raw"
  by (simp add: poke_def)

lemma length_peek: "off + n \<le> length raw \<Longrightarrow> length (peek off n raw) = n"
  by (simp add: peek_def)

lemma peek_poke_same:
  "off + length bs \<le> length raw \<Longrightarrow> n = length bs \<Longrightarrow> peek off n (poke off bs raw) = bs"
  by (simp add: peek_def poke_def)

lemma peek_poke_before:
  assumes "off + n \<le> off'" "off' \<le> length raw"
  shows "peek off n (poke off' bs raw) = peek off n raw"
proof -
  have "take (off + n) (poke off' bs raw) = take (off + n) raw"
    using assms by (simp add: poke_def min_def)
  then show ?thesis by (simp add: peek_def take_drop add.commute)
qed

lemma peek_poke_after:
  assumes "off' + length bs \<le> off" "off' \<le> length raw"
  shows "peek off n (poke off' bs raw) = peek off n raw"
  using assms by (simp add: peek_def poke_def)

lemma poke_poke_same: "off + length bs \<le> length raw \<Longrightarrow> length cs = length bs \<Longrightarrow>
    poke off cs (poke off bs raw) = poke off cs raw"
  by (simp add: poke_def)

lemma value_wf_zero [simp]: "value_wf zero_value"
  by (simp add: value_wf_def zero_value_def)

lemma value_wf_vput [simp]:
  "value_wf v \<Longrightarrow> off + length bs \<le> sizeof_neu_value_u \<Longrightarrow> value_wf (vput off bs v)"
  by (simp add: value_wf_def vput_def)

lemma value_wf_put_ptr [simp]: "value_wf (put_ptr obj v) = value_wf v"
  by (simp add: value_wf_def put_ptr_def)

lemma vget_vput_same:
  "value_wf v \<Longrightarrow> off + length bs \<le> sizeof_neu_value_u \<Longrightarrow> n = length bs \<Longrightarrow>
    vget off n (vput off bs v) = bs"
  by (simp add: vget_def vput_def value_wf_def peek_poke_same)

lemma get_put_word:
  fixes w :: "'a::len word"
  assumes "value_wf v" "LENGTH('a) mod 8 = 0" "LENGTH('a) \<le> 64"
  shows "get_word (put_word w v) = w"
proof -
  have "LENGTH('a) div 8 \<le> 8" using assms(3) by simp
  then have "vget 0 (LENGTH('a) div 8) (put_word w v) = bytes_of_word w"
    unfolding put_word_def
    by (intro vget_vput_same) (use assms(1) in \<open>auto simp: sizeof_neu_value_u_def\<close>)
  then show ?thesis by (simp add: get_word_def assms(2))
qed

lemma value_wf_put_word [simp]:
  fixes w :: "'a::len word"
  assumes "value_wf v" "LENGTH('a) \<le> 64"
  shows "value_wf (put_word w v)"
proof -
  have "LENGTH('a) div 8 \<le> 8" using assms(2) by simp
  then show ?thesis using assms(1) by (simp add: put_word_def sizeof_neu_value_u_def)
qed

lemma get_put_boolean [simp]: "value_wf v \<Longrightarrow> get_boolean (put_boolean b v) = b"
  by (simp add: get_boolean_def put_boolean_def get_put_word)

lemma value_wf_put_boolean [simp]: "value_wf v \<Longrightarrow> value_wf (put_boolean b v)"
  by (simp add: put_boolean_def)

text \<open>The low word of a wider member: the host is little-endian.\<close>

lemma le_nat_take: "le_nat (take n bs) = le_nat bs mod 256 ^ n"
proof (induction bs arbitrary: n)
  case Nil
  then show ?case by simp
next
  case (Cons b bs)
  show ?case
  proof (cases n)
    case (Suc m)
    with Cons show ?thesis by (simp add: mod_mult2_eq)
  qed simp
qed

section \<open>Text of a value\<close>

text \<open>
  \<open>snprintf\<close> writes at most \<open>n - 1\<close> characters.  The text of a floating point number
  (\<open>%f\<close>) is the parameter \<open>fmt_f\<close>, applied to the bits of the double.
\<close>

fun nat_digits :: "nat \<Rightarrow> nat \<Rightarrow> string" where
  "nat_digits 0 k = []"
| "nat_digits (Suc fuel) k =
     (if k < 10 then [char_of (48 + k)]
      else nat_digits fuel (k div 10) @ [char_of (48 + k mod 10)])"

definition show_nat :: "nat \<Rightarrow> string" where
  "show_nat k = nat_digits (Suc k) k"

definition show_int :: "int \<Rightarrow> string" where
  "show_int i = (if i < 0 then ''-'' @ show_nat (nat (- i)) else show_nat (nat i))"

definition snprintf :: "nat \<Rightarrow> string \<Rightarrow> string" where
  "snprintf n s = take (n - 1) s"

definition byte_char :: "u8 \<Rightarrow> char" where
  "byte_char b = char_of (unat b)"

text \<open>
  The result lives in a static buffer; for the types of the \<open>default\<close> branch the buffer,
  and so the text, is the one of the previous call (\<open>old\<close>).
\<close>

definition neu_value_str ::
  "(u32 \<Rightarrow> string) \<Rightarrow> (u64 \<Rightarrow> string) \<Rightarrow> string \<Rightarrow> neu_type_e \<Rightarrow> neu_value_u \<Rightarrow> string" where
  "neu_value_str fmt_f32 fmt_f64 old t v =
     (let text = (\<lambda>val. snprintf 32 (''type: '' @ neu_type_string t @ '', value: '' @ val))
      in case t of
           NEU_TYPE_INT8 \<Rightarrow> text (show_int (sint (get_u8 v)))
         | NEU_TYPE_UINT8 \<Rightarrow> text (show_int (uint (get_u8 v)))
         | NEU_TYPE_INT16 \<Rightarrow> text (show_int (sint (get_u16 v)))
         | NEU_TYPE_WORD \<Rightarrow> text (show_int (uint (get_u16 v)))
         | NEU_TYPE_UINT16 \<Rightarrow> text (show_int (uint (get_u16 v)))
         | NEU_TYPE_INT32 \<Rightarrow> text (show_int (sint (get_u32 v)))
         | NEU_TYPE_DWORD \<Rightarrow> text (show_int (uint (get_u32 v)))
         | NEU_TYPE_UINT32 \<Rightarrow> text (show_int (uint (get_u32 v)))
         | NEU_TYPE_INT64 \<Rightarrow> text (show_int (sint (get_u64 v)))
         | NEU_TYPE_LWORD \<Rightarrow> text (show_int (uint (get_u64 v)))
         | NEU_TYPE_UINT64 \<Rightarrow> text (show_int (uint (get_u64 v)))
         | NEU_TYPE_FLOAT \<Rightarrow> text (fmt_f32 (get_u32 v))
         | NEU_TYPE_DOUBLE \<Rightarrow> text (fmt_f64 (get_u64 v))
         | NEU_TYPE_BIT \<Rightarrow> text (show_int (uint (get_u8 v)))
         | NEU_TYPE_BOOL \<Rightarrow> text (show_int (of_bool (get_boolean v)))
         | NEU_TYPE_STRING \<Rightarrow>
             text (takeWhile (\<lambda>c. c \<noteq> CHR 0x00) (map byte_char (take 3 (get_str v))))
         | _ \<Rightarrow> old)"

section \<open>Bits and 24-bit values\<close>

text \<open>A failing \<open>assert\<close> is \<open>None\<close>.\<close>

definition neu_value24_set :: "u32 \<Rightarrow> bytes option" where
  "neu_value24_set v =
     (if v AND 0xff000000 = 0
      then Some [ucast (v AND 0xff), ucast (drop_bit 8 v AND 0xff), ucast (drop_bit 16 v AND 0xff)]
      else None)"

definition neu_value24_get :: "bytes \<Rightarrow> u32" where
  "neu_value24_get v24 =
     0 OR ucast (v24 ! 0) OR push_bit 8 (ucast (v24 ! 1)) OR push_bit 16 (ucast (v24 ! 2))"

definition neu_value8_get_bit :: "u8 \<Rightarrow> u8 \<Rightarrow> u8 option" where
  "neu_value8_get_bit value index =
     (if unat index < 8 then Some (of_bool (bit value (unat index))) else None)"

text \<open>The store into a one-bit field keeps bit 0 of \<open>v\<close>.\<close>

definition neu_value8_set_bit :: "u8 \<Rightarrow> u8 \<Rightarrow> u8 \<Rightarrow> u8 option" where
  "neu_value8_set_bit value index v =
     (if unat index < 8
      then Some ((if bit v 0 then set_bit else unset_bit) (unat index) value) else None)"

definition neu_value16_get_bit :: "u16 \<Rightarrow> u8 \<Rightarrow> u8 option" where
  "neu_value16_get_bit value index =
     (if unat index < 16 then Some (of_bool (bit value (unat index))) else None)"

definition neu_value16_set_bit :: "u16 \<Rightarrow> u8 \<Rightarrow> u8 \<Rightarrow> u16 option" where
  "neu_value16_set_bit value index v =
     (if unat index < 16
      then Some ((if bit v 0 then set_bit else unset_bit) (unat index) value) else None)"

section \<open>Byte order and unaligned readers\<close>

definition neu_ntohs24_p :: "bytes \<Rightarrow> bytes" where
  "neu_ntohs24_p value = (let t = value ! 0 in value[0 := value ! 2, 2 := t])"

definition neu_htons24_p :: "bytes \<Rightarrow> bytes" where
  "neu_htons24_p value = neu_ntohs24_p value"

definition neu_htonll :: "u64 \<Rightarrow> u64" where
  "neu_htonll u =
     (let bytes = bytes_of_word u
      in word_of_bytes [bytes ! 7, bytes ! 6, bytes ! 5, bytes ! 4,
                        bytes ! 3, bytes ! 2, bytes ! 1, bytes ! 0])"

definition neu_ntohll :: "u64 \<Rightarrow> u64" where
  "neu_ntohll u = neu_htonll u"

text \<open>\<open>ntohl\<close> and \<open>ntohs\<close> on a little-endian host swap the bytes.\<close>

definition neu_ntohl_p :: "u32 \<Rightarrow> u32" where
  "neu_ntohl_p u = word_of_bytes (rev (bytes_of_word u))"

definition neu_htonl_p :: "u32 \<Rightarrow> u32" where
  "neu_htonl_p u = neu_ntohl_p u"

definition neu_ntohs_p :: "u16 \<Rightarrow> u16" where
  "neu_ntohs_p u = word_of_bytes (rev (bytes_of_word u))"

definition neu_htons_p :: "u16 \<Rightarrow> u16" where
  "neu_htons_p u = neu_ntohs_p u"

definition neu_get_u16 :: "bytes \<Rightarrow> u16" where
  "neu_get_u16 bytes = word_of_bytes [bytes ! 0, bytes ! 1]"

definition neu_get_u32 :: "bytes \<Rightarrow> u32" where
  "neu_get_u32 bytes = word_of_bytes [bytes ! 0, bytes ! 1, bytes ! 2, bytes ! 3]"

definition neu_get_u64 :: "bytes \<Rightarrow> u64" where
  "neu_get_u64 bytes =
     word_of_bytes [bytes ! 0, bytes ! 1, bytes ! 2, bytes ! 3,
                    bytes ! 4, bytes ! 5, bytes ! 6, bytes ! 7]"

section \<open>Correctness of the helpers\<close>

lemma word_of_bytes_rev_rev:
  "LENGTH('a) mod 8 = 0 \<Longrightarrow>
    word_of_bytes (rev (bytes_of_word (word_of_bytes (rev (bytes_of_word (w :: 'a::len word))) :: 'a word)))
    = w"
  by (subst bytes_of_word_of_bytes) simp_all

lemma neu_htonll_rev: "neu_htonll u = word_of_bytes (rev (bytes_of_word u))"
proof -
  have "length (bytes_of_word u) = 8" by simp
  then obtain a b c d e f g h where "bytes_of_word u = [a, b, c, d, e, f, g, h]"
    by (rule list_of_length_8)
  then show ?thesis by (simp add: neu_htonll_def)
qed

lemma neu_get_u64_of_word: "neu_get_u64 (bytes_of_word w) = w"
proof -
  have len: "length (bytes_of_word w) = 8" by simp
  then obtain a b c d e f g h where "bytes_of_word w = [a, b, c, d, e, f, g, h]"
    by (rule list_of_length_8)
  moreover have "word_of_bytes (bytes_of_word w) = w" by simp
  ultimately show ?thesis by (simp add: neu_get_u64_def)
qed

lemma neu_get_u32_of_word: "neu_get_u32 (bytes_of_word w) = w"
proof -
  have len: "length (bytes_of_word w) = 4" by simp
  then obtain a b c d where "bytes_of_word w = [a, b, c, d]" by (rule list_of_length_4)
  moreover have "word_of_bytes (bytes_of_word w) = w" by simp
  ultimately show ?thesis by (simp add: neu_get_u32_def)
qed

lemma neu_get_u16_of_word: "neu_get_u16 (bytes_of_word w) = w"
proof -
  have len: "length (bytes_of_word w) = 2" by simp
  then obtain a b where "bytes_of_word w = [a, b]" by (rule list_of_length_2)
  moreover have "word_of_bytes (bytes_of_word w) = w" by simp
  ultimately show ?thesis by (simp add: neu_get_u16_def)
qed

lemma byte_order_involutive:
  "neu_ntohll (neu_htonll u64) = u64" "neu_ntohl_p (neu_htonl_p u32) = u32"
  "neu_ntohs_p (neu_htons_p u16) = u16"
  by (simp_all add: neu_ntohll_def neu_htonll_rev neu_htonl_p_def neu_ntohl_p_def
      neu_htons_p_def neu_ntohs_p_def word_of_bytes_rev_rev)

lemma neu_value24_set_Some:
  "neu_value24_set v = Some bs \<longleftrightarrow> v AND 0xff000000 = 0 \<and>
     bs = [ucast (v AND 0xff), ucast (drop_bit 8 v AND 0xff), ucast (drop_bit 16 v AND 0xff)]"
  by (auto simp: neu_value24_set_def)

lemma neu_value24_get_set:
  assumes "neu_value24_set v = Some bs"
  shows "neu_value24_get bs = v"
proof -
  have hi: "\<not> bit v n" if "24 \<le> n" "n < 32" for n
  proof
    assume "bit v n"
    moreover have "bit (0xff000000 :: u32) n"
    proof -
      have "n \<in> {24, 25, 26, 27, 28, 29, 30, 31}" using that by auto
      then show ?thesis by auto
    qed
    ultimately have "bit (v AND 0xff000000) n" by (simp add: bit_and_iff)
    with assms show False by (simp add: neu_value24_set_Some)
  qed
  have mask: "(0xff :: u32) = mask 8" by (simp add: mask_eq_exp_minus_1)
  show ?thesis
  proof (rule bit_word_eqI)
    fix n assume n: "n < LENGTH(32)"
    have get: "bit (neu_value24_get bs) n \<longleftrightarrow>
        (n < 8 \<and> bit v n) \<or> (8 \<le> n \<and> n < 16 \<and> bit v n) \<or> (16 \<le> n \<and> n < 24 \<and> bit v n)"
      using assms n
      by (auto simp: neu_value24_set_Some neu_value24_get_def mask bit_simps le_add_diff_inverse)
    then show "bit (neu_value24_get bs) n = bit v n" using hi [of n] n by force
  qed
qed

end
