(* ===== verification/Json.thy ===== *)
theory Json
  imports SoftFloat CTypes
begin

text \<open>
  The JSON layer (\<open>include/esvcpm/json/json.h\<close>, \<open>src/utils/json.c\<close>): elements, their
  encoding into and decoding out of JSON objects.

  The JSON library (jansson) is not part of the repository.  It is the parameter \<open>J\<close>, one
  field per library function the code calls; \<open>jansson_ok\<close> states the documented behaviour
  the round trips rely on.  The library's objects are passed by value: a function that
  mutates an object returns it.  An undefined behaviour (a NULL string given to
  \<open>strdup\<close>, a store past the end of a heap block) is the result \<open>None\<close>.
\<close>

section \<open>The JSON library\<close>

record 'j jansson =
  json_array_new :: 'j
  json_object_new :: 'j
  json_integer :: "u64 \<Rightarrow> 'j option"
  json_real :: "u64 \<Rightarrow> 'j option"
  json_string :: "string \<Rightarrow> 'j option"
  json_boolean :: "bool \<Rightarrow> 'j option"
  json_object_set_new :: "'j \<Rightarrow> string \<Rightarrow> 'j option \<Rightarrow> int \<times> 'j"
  json_object_get :: "'j \<Rightarrow> string \<Rightarrow> 'j option"
  json_array_append_new :: "'j \<Rightarrow> 'j option \<Rightarrow> 'j"
  json_array_get :: "'j \<Rightarrow> nat \<Rightarrow> 'j option"
  json_array_size :: "'j \<Rightarrow> nat"
  json_is_string :: "'j \<Rightarrow> bool"
  json_is_real :: "'j \<Rightarrow> bool"
  json_is_boolean :: "'j \<Rightarrow> bool"
  json_is_integer :: "'j \<Rightarrow> bool"
  json_is_array :: "'j \<Rightarrow> bool"
  json_integer_value :: "'j \<Rightarrow> u64"
  json_real_value :: "'j \<Rightarrow> u64"
  json_string_value :: "'j \<Rightarrow> string option"
  json_boolean_value :: "'j \<Rightarrow> bool"
  json_loads :: "string \<Rightarrow> bool \<Rightarrow> 'j option"  \<comment> \<open>the flag is \<open>JSON_DECODE_ANY\<close>\<close>
  json_dumps :: "'j \<Rightarrow> string option"

text \<open>
  Documented behaviour: a constructor's value is recognised by its own predicate and read
  back by its own accessor, \<open>json_object_get\<close> sees the last \<open>json_object_set_new\<close> of the
  key and is not disturbed by one of another key, arrays keep what was appended.
\<close>

definition jansson_ok :: "'j jansson \<Rightarrow> bool" where
  "jansson_ok J \<longleftrightarrow>
     (\<forall>i j. json_integer J i = Some j \<longrightarrow>
        json_is_integer J j \<and> \<not> json_is_string J j \<and> \<not> json_is_real J j \<and>
        \<not> json_is_boolean J j \<and> \<not> json_is_array J j \<and> json_integer_value J j = i) \<and>
     (\<forall>d j. json_real J d = Some j \<longrightarrow>
        json_is_real J j \<and> \<not> json_is_string J j \<and> \<not> json_is_boolean J j \<and>
        \<not> json_is_integer J j \<and> \<not> json_is_array J j \<and> json_real_value J j = d) \<and>
     (\<forall>s j. json_string J s = Some j \<longrightarrow>
        json_is_string J j \<and> json_string_value J j = Some s) \<and>
     (\<forall>b j. json_boolean J b = Some j \<longrightarrow>
        json_is_boolean J j \<and> \<not> json_is_string J j \<and> \<not> json_is_real J j \<and>
        json_boolean_value J j = b) \<and>
     (\<forall>ob k j. json_object_get J (snd (json_object_set_new J ob k (Some j))) k = Some j) \<and>
     (\<forall>ob k k' j. k' \<noteq> k \<longrightarrow>
        json_object_get J (snd (json_object_set_new J ob k j)) k' = json_object_get J ob k') \<and>
     json_array_size J (json_array_new J) = 0 \<and>
     (\<forall>a j. json_array_size J (json_array_append_new J a (Some j)) = Suc (json_array_size J a) \<and>
        json_array_get J (json_array_append_new J a (Some j)) (json_array_size J a) = Some j) \<and>
     (\<forall>a j n. n < json_array_size J a \<longrightarrow>
        json_array_get J (json_array_append_new J a (Some j)) n = json_array_get J a n)"

lemma jansson_okD:
  assumes "jansson_ok J"
  shows jansson_integer: "json_integer J i = Some j \<Longrightarrow>
      json_is_integer J j \<and> \<not> json_is_string J j \<and> \<not> json_is_real J j \<and>
      \<not> json_is_boolean J j \<and> \<not> json_is_array J j \<and> json_integer_value J j = i"
    and jansson_real: "json_real J d = Some j \<Longrightarrow>
      json_is_real J j \<and> \<not> json_is_string J j \<and> \<not> json_is_boolean J j \<and>
      \<not> json_is_integer J j \<and> \<not> json_is_array J j \<and> json_real_value J j = d"
    and jansson_string: "json_string J s = Some j \<Longrightarrow>
      json_is_string J j \<and> json_string_value J j = Some s"
    and jansson_boolean: "json_boolean J b = Some j \<Longrightarrow>
      json_is_boolean J j \<and> \<not> json_is_string J j \<and> \<not> json_is_real J j \<and>
      json_boolean_value J j = b"
    and jansson_get_set: "json_object_get J (snd (json_object_set_new J ob k (Some j))) k = Some j"
    and jansson_get_set_other: "k' \<noteq> k \<Longrightarrow>
      json_object_get J (snd (json_object_set_new J ob k jo)) k' = json_object_get J ob k'"
    and jansson_array_new: "json_array_size J (json_array_new J) = 0"
    and jansson_array_append:
      "json_array_size J (json_array_append_new J a (Some j)) = Suc (json_array_size J a)"
      "json_array_get J (json_array_append_new J a (Some j)) (json_array_size J a) = Some j"
    and jansson_array_append_other: "n < json_array_size J a \<Longrightarrow>
      json_array_get J (json_array_append_new J a (Some j)) n = json_array_get J a n"
  using assms unfolding jansson_ok_def by blast+

section \<open>Elements\<close>

datatype neu_json_type_e =
    NEU_JSON_UNDEFINE | NEU_JSON_INT | NEU_JSON_BIT | NEU_JSON_STR | NEU_JSON_DOUBLE
  | NEU_JSON_FLOAT | NEU_JSON_BOOL | NEU_JSON_OBJECT | NEU_JSON_BYTES

abbreviation NEU_JSON_VALUE :: neu_json_type_e where
  "NEU_JSON_VALUE \<equiv> NEU_JSON_UNDEFINE"

datatype neu_json_attribute_t =
  NEU_JSON_ATTRIBUTE_REQUIRED | NEU_JSON_ATTRIBUTE_OPTIONAL

text \<open>
  The value union: its scalar members overlay the first eight bytes (\<open>jraw\<close>); what the
  pointer members point to is kept beside them, and \<open>jbytes_length\<close> is
  \<open>val_bytes.length\<close>.
\<close>

record 'j neu_json_value_u =
  jraw :: bytes
  jstr :: "string option"
  jobj :: "'j option"
  jbytes :: bytes
  jbytes_length :: u8

definition zero_json_value :: "'j neu_json_value_u" where
  "zero_json_value =
     \<lparr>jraw = replicate 8 0, jstr = None, jobj = None, jbytes = [], jbytes_length = 0\<rparr>"

definition jput :: "'a::len word \<Rightarrow> 'j neu_json_value_u \<Rightarrow> 'j neu_json_value_u" where
  "jput w v = v\<lparr>jraw := poke 0 (bytes_of_word w) (jraw v)\<rparr>"

definition jget :: "'j neu_json_value_u \<Rightarrow> 'a::len word" where
  "jget v = word_of_bytes (peek 0 (LENGTH('a) div 8) (jraw v))"

abbreviation val_int :: "'j neu_json_value_u \<Rightarrow> u64" where "val_int \<equiv> jget"
abbreviation val_bit :: "'j neu_json_value_u \<Rightarrow> u8" where "val_bit \<equiv> jget"
abbreviation val_float :: "'j neu_json_value_u \<Rightarrow> u32" where "val_float \<equiv> jget"
abbreviation val_double :: "'j neu_json_value_u \<Rightarrow> u64" where "val_double \<equiv> jget"

definition val_bool :: "'j neu_json_value_u \<Rightarrow> bool" where
  "val_bool v \<longleftrightarrow> (jget v :: u8) \<noteq> 0"

definition put_val_bool :: "bool \<Rightarrow> 'j neu_json_value_u \<Rightarrow> 'j neu_json_value_u" where
  "put_val_bool b v = jput (if b then 1 else 0 :: u8) v"

lemma jget_jput:
  fixes w :: "'a::len word"
  assumes "length (jraw v) = 8" "LENGTH('a) mod 8 = 0" "LENGTH('a) \<le> 64"
  shows "jget (jput w v) = w"
proof -
  have "LENGTH('a) div 8 \<le> 8" using assms(3) by simp
  then have "peek 0 (LENGTH('a) div 8) (poke 0 (bytes_of_word w) (jraw v)) = bytes_of_word w"
    by (intro peek_poke_same) (use assms(1) in auto)
  then show ?thesis by (simp add: jget_def jput_def assms(2))
qed

lemma length_jraw_zero [simp]: "length (jraw zero_json_value) = 8"
  by (simp add: zero_json_value_def)

record 'j neu_json_elem_t =
  eattribute :: neu_json_attribute_t
  ename :: "string option"
  et :: neu_json_type_e
  ev :: "'j neu_json_value_u"

section \<open>Encoding\<close>

definition encode_object_value :: "'j jansson \<Rightarrow> 'j neu_json_elem_t \<Rightarrow> 'j option" where
  "encode_object_value J ele =
     (case et ele of
        NEU_JSON_BIT \<Rightarrow> json_integer J (ucast (val_bit (ev ele)))
      | NEU_JSON_INT \<Rightarrow> json_integer J (val_int (ev ele))
      | NEU_JSON_STR \<Rightarrow> Option.bind (jstr (ev ele)) (json_string J)
      | NEU_JSON_DOUBLE \<Rightarrow> json_real J (val_double (ev ele))
      | NEU_JSON_FLOAT \<Rightarrow> json_real J (f32_to_f64 (val_float (ev ele)))
      | NEU_JSON_BOOL \<Rightarrow> json_boolean J (val_bool (ev ele))
      | _ \<Rightarrow> None)"

definition json_set :: "'j jansson \<Rightarrow> 'j \<Rightarrow> string \<Rightarrow> 'j option \<Rightarrow> 'j" where
  "json_set J ob k j = snd (json_object_set_new J ob k j)"

definition encode_bytes :: "'j jansson \<Rightarrow> bytes \<Rightarrow> 'j" where
  "encode_bytes J bs =
     foldl (\<lambda>arr b. json_array_append_new J arr (json_integer J (ucast b))) (json_array_new J) bs"

text \<open>The name of an element that is encoded is not NULL: every caller gives one.\<close>

definition encode_object :: "'j jansson \<Rightarrow> 'j \<Rightarrow> 'j neu_json_elem_t \<Rightarrow> 'j" where
  "encode_object J ob ele =
     (let name = (case ename ele of Some n \<Rightarrow> n | None \<Rightarrow> []); v = ev ele
      in case et ele of
           NEU_JSON_BIT \<Rightarrow> json_set J ob name (json_integer J (ucast (val_bit v)))
         | NEU_JSON_INT \<Rightarrow> json_set J ob name (json_integer J (val_int v))
         | NEU_JSON_STR \<Rightarrow> json_set J ob name (Option.bind (jstr v) (json_string J))
         | NEU_JSON_FLOAT \<Rightarrow> json_set J ob name (json_real J (f32_to_f64 (val_float v)))
         | NEU_JSON_DOUBLE \<Rightarrow> json_set J ob name (json_real J (val_double v))
         | NEU_JSON_BOOL \<Rightarrow> json_set J ob name (json_boolean J (val_bool v))
         | NEU_JSON_BYTES \<Rightarrow>
             json_set J ob name (Some (encode_bytes J (take (unat (jbytes_length v)) (jbytes v))))
         | NEU_JSON_OBJECT \<Rightarrow> json_set J ob name (jobj v)
         | _ \<Rightarrow> ob)"

definition neu_json_encode_array_value ::
  "'j jansson \<Rightarrow> 'j option \<Rightarrow> 'j neu_json_elem_t list \<Rightarrow> 'j" where
  "neu_json_encode_array_value J arr t =
     foldl (\<lambda>a e. json_array_append_new J a (encode_object_value J e))
       (case arr of None \<Rightarrow> json_array_new J | Some a \<Rightarrow> a) t"

definition neu_json_encode_array ::
  "'j jansson \<Rightarrow> 'j option \<Rightarrow> 'j neu_json_elem_t list \<Rightarrow> 'j" where
  "neu_json_encode_array J arr t =
     json_array_append_new J (case arr of None \<Rightarrow> json_array_new J | Some a \<Rightarrow> a)
       (Some (foldl (encode_object J) (json_object_new J) t))"

definition neu_json_encode_field ::
  "'j jansson \<Rightarrow> 'j \<Rightarrow> 'j neu_json_elem_t list \<Rightarrow> int \<times> 'j" where
  "neu_json_encode_field J ob elems = (0, foldl (encode_object J) ob elems)"

definition neu_json_encode :: "'j jansson \<Rightarrow> 'j \<Rightarrow> int \<times> string option" where
  "neu_json_encode J ob = (0, json_dumps J ob)"

section \<open>Decoding\<close>

definition json_infer_type :: "'j jansson \<Rightarrow> 'j \<Rightarrow> neu_json_type_e" where
  "json_infer_type J ob =
     (if json_is_string J ob then NEU_JSON_STR
      else if json_is_real J ob then NEU_JSON_DOUBLE
      else if json_is_boolean J ob then NEU_JSON_BOOL
      else if json_is_integer J ob then NEU_JSON_INT
      else if json_is_array J ob then NEU_JSON_BYTES
      else NEU_JSON_UNDEFINE)"

definition json_array_elems :: "'j jansson \<Rightarrow> 'j \<Rightarrow> 'j list" where
  "json_array_elems J ob =
     map the (takeWhile (\<lambda>x. x \<noteq> None) (map (json_array_get J ob) [0..<json_array_size J ob]))"

text \<open>
  The result code and the element after the call.  The bytes of an array are stored into
  a block of \<open>length\<close> bytes, the array's size reduced to a \<open>uint8_t\<close>, while all elements
  of the array are copied: a longer array is a store past the end of the block.
\<close>

definition decode_object ::
  "'j jansson \<Rightarrow> 'j \<Rightarrow> 'j neu_json_elem_t \<Rightarrow> (int \<times> 'j neu_json_elem_t) option" where
  "decode_object J root ele =
     (case (case ename ele of None \<Rightarrow> Some root | Some n \<Rightarrow> json_object_get J root n) of
        None \<Rightarrow>
          if eattribute ele = NEU_JSON_ATTRIBUTE_OPTIONAL then Some (0, ele) else Some (- 1, ele)
      | Some ob \<Rightarrow>
          let e = (if et ele = NEU_JSON_UNDEFINE then ele\<lparr>et := json_infer_type J ob\<rparr> else ele);
              v = ev e
          in case et e of
               NEU_JSON_BIT \<Rightarrow> Some (0, e\<lparr>ev := jput (ucast (json_integer_value J ob) :: u8) v\<rparr>)
             | NEU_JSON_INT \<Rightarrow> Some (0, e\<lparr>ev := jput (json_integer_value J ob) v\<rparr>)
             | NEU_JSON_STR \<Rightarrow>
                 (case json_string_value J ob of
                    None \<Rightarrow> None
                  | Some s \<Rightarrow> Some (0, e\<lparr>ev := v\<lparr>jstr := Some s\<rparr>\<rparr>))
             | NEU_JSON_FLOAT \<Rightarrow>
                 Some (0, e\<lparr>ev := jput (if json_is_integer J ob
                    then int_to_f32 (sint (json_integer_value J ob))
                    else f64_to_f32 (json_real_value J ob)) v\<rparr>)
             | NEU_JSON_DOUBLE \<Rightarrow>
                 Some (0, e\<lparr>ev := jput (if json_is_integer J ob
                    then int_to_f64 (sint (json_integer_value J ob))
                    else json_real_value J ob) v\<rparr>)
             | NEU_JSON_BOOL \<Rightarrow> Some (0, e\<lparr>ev := put_val_bool (json_boolean_value J ob) v\<rparr>)
             | NEU_JSON_BYTES \<Rightarrow>
                 (let len = (of_nat (json_array_size J ob) :: u8);
                      vals = map (\<lambda>j. ucast (json_integer_value J j)) (json_array_elems J ob)
                  in if len = 0 then Some (0, e\<lparr>ev := v\<lparr>jbytes_length := len\<rparr>\<rparr>)
                     else if unat len < length vals then None
                     else Some (0, e\<lparr>ev := v\<lparr>jbytes_length := len,
                            jbytes := vals @ replicate (unat len - length vals) 0\<rparr>\<rparr>))
             | NEU_JSON_OBJECT \<Rightarrow> Some (0, e\<lparr>ev := v\<lparr>jobj := Some ob\<rparr>\<rparr>)
             | NEU_JSON_UNDEFINE \<Rightarrow> Some (- 1, e))"

text \<open>The loop of the decoders: it stops at the first element that fails.\<close>

fun decode_objects ::
  "'j jansson \<Rightarrow> 'j \<Rightarrow> 'j neu_json_elem_t list \<Rightarrow> (int \<times> 'j neu_json_elem_t list) option" where
  "decode_objects J root [] = Some (0, [])"
| "decode_objects J root (e # es) =
     (case decode_object J root e of
        None \<Rightarrow> None
      | Some (r, e') \<Rightarrow>
          if r = - 1 then Some (- 1, e' # es)
          else (case decode_objects J root es of
                  None \<Rightarrow> None
                | Some (r', es') \<Rightarrow> Some (r', e' # es')))"

definition neu_json_decode ::
  "'j jansson \<Rightarrow> string \<Rightarrow> 'j neu_json_elem_t list \<Rightarrow> (int \<times> 'j neu_json_elem_t list) option" where
  "neu_json_decode J buf eles =
     (case json_loads J buf False of
        None \<Rightarrow> Some (- 1, eles)
      | Some root \<Rightarrow> decode_objects J root eles)"

definition neu_json_decode_by_json ::
  "'j jansson \<Rightarrow> 'j option \<Rightarrow> 'j neu_json_elem_t list \<Rightarrow>
    (int \<times> 'j neu_json_elem_t list) option" where
  "neu_json_decode_by_json J json eles =
     (case json of None \<Rightarrow> Some (- 1, eles) | Some root \<Rightarrow> decode_objects J root eles)"

definition neu_json_decode_array_by_json ::
  "'j jansson \<Rightarrow> 'j \<Rightarrow> string \<Rightarrow> nat \<Rightarrow> 'j neu_json_elem_t list \<Rightarrow>
    (int \<times> 'j neu_json_elem_t list) option" where
  "neu_json_decode_array_by_json J json name index eles =
     (case json_object_get J json name of
        None \<Rightarrow> Some (- 1, eles)
      | Some object \<Rightarrow>
          (case json_array_get J object index of
             None \<Rightarrow> Some (- 1, eles)
           | Some child \<Rightarrow> decode_objects J child eles))"

definition neu_json_decode_array ::
  "'j jansson \<Rightarrow> string \<Rightarrow> string \<Rightarrow> nat \<Rightarrow> 'j neu_json_elem_t list \<Rightarrow>
    (int \<times> 'j neu_json_elem_t list) option" where
  "neu_json_decode_array J buf name index eles =
     (case json_loads J buf False of
        None \<Rightarrow> Some (- 1, eles)
      | Some root \<Rightarrow> neu_json_decode_array_by_json J root name index eles)"

definition neu_json_decode_array_size_by_json :: "'j jansson \<Rightarrow> 'j \<Rightarrow> string \<Rightarrow> int" where
  "neu_json_decode_array_size_by_json J json child =
     (case json_object_get J json child of
        Some ob \<Rightarrow> if json_is_array J ob then int (json_array_size J ob) else - 1
      | None \<Rightarrow> - 1)"

definition neu_json_decode_array_size :: "'j jansson \<Rightarrow> string \<Rightarrow> string \<Rightarrow> int" where
  "neu_json_decode_array_size J buf child =
     (case json_loads J buf False of
        None \<Rightarrow> - 1
      | Some root \<Rightarrow> neu_json_decode_array_size_by_json J root child)"

definition neu_json_decode_new :: "'j jansson \<Rightarrow> string \<Rightarrow> 'j option" where
  "neu_json_decode_new J buf = json_loads J buf True"

definition neu_json_decode_value ::
  "'j jansson \<Rightarrow> 'j \<Rightarrow> 'j neu_json_elem_t \<Rightarrow> (int \<times> 'j neu_json_elem_t) option" where
  "neu_json_decode_value J object ele = decode_object J object ele"

text \<open>The result code and \<open>*result\<close>, which a failure before the dump leaves alone (\<open>old\<close>).\<close>

definition neu_json_dump_key ::
  "'j jansson \<Rightarrow> 'j \<Rightarrow> string \<Rightarrow> string option \<Rightarrow> bool \<Rightarrow> int \<times> string option" where
  "neu_json_dump_key J object key old must_exist =
     (case json_object_get J object key of
        None \<Rightarrow> if must_exist then (- 1, old) else (0, None)
      | Some value \<Rightarrow>
          let (r, new) = json_object_set_new J (json_object_new J) key (Some value)
          in if r < 0 then (- 1, old)
             else (case json_dumps J new of None \<Rightarrow> (- 1, None) | Some s \<Rightarrow> (0, Some s)))"

definition neu_json_load_key ::
  "'j jansson \<Rightarrow> 'j \<Rightarrow> string \<Rightarrow> string \<Rightarrow> bool \<Rightarrow> int \<times> 'j" where
  "neu_json_load_key J object key input must_exist =
     (case json_loads J input False of
        None \<Rightarrow> (- 1, object)
      | Some input_object \<Rightarrow>
          (case json_object_get J input_object key of
             None \<Rightarrow> (if must_exist then - 1 else 0, object)
           | Some value \<Rightarrow>
               let (r, object') = json_object_set_new J object key (Some value)
               in (if r < 0 then - 1 else 0, object')))"

section \<open>The value of an element\<close>

text \<open>
  What an element means, whatever the other bytes of its union hold: the abstract value
  the round trips compare.
\<close>

datatype 'j json_meaning =
    JM_none | JM_int u64 | JM_bit u8 | JM_str "string option" | JM_double u64 | JM_float u32
  | JM_bool bool | JM_object "'j option" | JM_bytes bytes

definition elem_meaning :: "'j neu_json_elem_t \<Rightarrow> 'j json_meaning" where
  "elem_meaning e =
     (case et e of
        NEU_JSON_UNDEFINE \<Rightarrow> JM_none
      | NEU_JSON_INT \<Rightarrow> JM_int (val_int (ev e))
      | NEU_JSON_BIT \<Rightarrow> JM_bit (val_bit (ev e))
      | NEU_JSON_STR \<Rightarrow> JM_str (jstr (ev e))
      | NEU_JSON_DOUBLE \<Rightarrow> JM_double (val_double (ev e))
      | NEU_JSON_FLOAT \<Rightarrow> JM_float (val_float (ev e))
      | NEU_JSON_BOOL \<Rightarrow> JM_bool (val_bool (ev e))
      | NEU_JSON_OBJECT \<Rightarrow> JM_object (jobj (ev e))
      | NEU_JSON_BYTES \<Rightarrow> JM_bytes (take (unat (jbytes_length (ev e))) (jbytes (ev e))))"

text \<open>An element the encoder can encode: the library makes a value for it.\<close>

definition encodable :: "'j jansson \<Rightarrow> 'j neu_json_elem_t \<Rightarrow> bool" where
  "encodable J e \<longleftrightarrow>
     ename e \<noteq> None \<and>
     (case et e of
        NEU_JSON_UNDEFINE \<Rightarrow> False
      | NEU_JSON_BYTES \<Rightarrow> unat (jbytes_length (ev e)) \<le> length (jbytes (ev e)) \<and>
          (\<forall>b\<in>set (jbytes (ev e)). json_integer J (ucast b) \<noteq> None)
      | NEU_JSON_OBJECT \<Rightarrow> jobj (ev e) \<noteq> None
      | NEU_JSON_FLOAT \<Rightarrow> encode_object_value J e \<noteq> None \<and> f32_dec (val_float (ev e)) \<noteq> FNaN
      | _ \<Rightarrow> encode_object_value J e \<noteq> None)"

text \<open>The element a caller gives the decoder for the field of \<open>e\<close>.\<close>

definition blank_elem :: "'j neu_json_elem_t \<Rightarrow> 'j neu_json_elem_t" where
  "blank_elem e = \<lparr>eattribute = NEU_JSON_ATTRIBUTE_REQUIRED, ename = ename e, et = et e,
     ev = zero_json_value\<rparr>"

section \<open>Encoding then decoding\<close>

definition elem_json :: "'j jansson \<Rightarrow> 'j neu_json_elem_t \<Rightarrow> 'j option" where
  "elem_json J e =
     (case et e of
        NEU_JSON_BYTES \<Rightarrow> Some (encode_bytes J (take (unat (jbytes_length (ev e))) (jbytes (ev e))))
      | NEU_JSON_OBJECT \<Rightarrow> jobj (ev e)
      | _ \<Rightarrow> encode_object_value J e)"

lemma encode_object_elem:
  "et e \<noteq> NEU_JSON_UNDEFINE \<Longrightarrow> ename e = Some n \<Longrightarrow>
    encode_object J ob e = json_set J ob n (elem_json J e)"
  by (cases "et e") (simp_all add: encode_object_def elem_json_def encode_object_value_def Let_def)

lemma encodableD:
  assumes "encodable J e"
  obtains n j where "ename e = Some n" "et e \<noteq> NEU_JSON_UNDEFINE" "elem_json J e = Some j"
  using assms by (cases "et e") (auto simp: encodable_def elem_json_def)

lemma encode_bytes_append:
  "json_integer J (ucast b) = Some j \<Longrightarrow>
    encode_bytes J (bs @ [b]) = json_array_append_new J (encode_bytes J bs) (Some j)"
  by (simp add: encode_bytes_def)

lemma encode_bytes_array:
  assumes ok: "jansson_ok J" and ints: "\<forall>b\<in>set bs. json_integer J (ucast b) \<noteq> None"
  shows "json_array_size J (encode_bytes J bs) = length bs \<and>
    (\<forall>n<length bs. \<exists>j. json_array_get J (encode_bytes J bs) n = Some j \<and>
       json_integer_value J j = ucast (bs ! n))"
  using ints
proof (induction bs rule: rev_induct)
  case Nil
  then show ?case by (simp add: encode_bytes_def jansson_array_new [OF ok])
next
  case (snoc b bs)
  then obtain j where j: "json_integer J (ucast b) = Some j" by auto
  have IH: "json_array_size J (encode_bytes J bs) = length bs"
    "n < length bs \<Longrightarrow> \<exists>j. json_array_get J (encode_bytes J bs) n = Some j \<and>
       json_integer_value J j = ucast (bs ! n)" for n
    using snoc by auto
  have eq: "encode_bytes J (bs @ [b]) = json_array_append_new J (encode_bytes J bs) (Some j)"
    by (rule encode_bytes_append [OF j])
  have val: "json_integer_value J j = ucast b" using jansson_integer [OF ok j] by simp
  show ?case
    unfolding eq
    using IH jansson_array_append [OF ok, of "encode_bytes J bs" j] val
      jansson_array_append_other [OF ok, of _ "encode_bytes J bs" j]
    by (auto simp: nth_append less_Suc_eq)
qed

lemma json_array_elems_encode_bytes:
  assumes ok: "jansson_ok J" and ints: "\<forall>b\<in>set bs. json_integer J (ucast b) \<noteq> None"
  shows "map (\<lambda>j. ucast (json_integer_value J j)) (json_array_elems J (encode_bytes J bs)) = bs"
    "json_array_size J (encode_bytes J bs) = length bs"
proof -
  note arr = encode_bytes_array [OF assms]
  show size: "json_array_size J (encode_bytes J bs) = length bs" using arr by simp
  have some: "x \<noteq> None" if "x \<in> set (map (json_array_get J (encode_bytes J bs)) [0..<length bs])" for x
    using arr that by auto
  then have elems: "json_array_elems J (encode_bytes J bs)
      = map (the \<circ> json_array_get J (encode_bytes J bs)) [0..<length bs]"
    unfolding json_array_elems_def size by (subst takeWhile_eq_all_conv [THEN iffD2]) auto
  show "map (\<lambda>j. ucast (json_integer_value J j)) (json_array_elems J (encode_bytes J bs)) = bs"
    unfolding elems
  proof (intro nth_equalityI)
    fix i assume "i < length (map (\<lambda>j. ucast (json_integer_value J j) :: u8)
        (map (the \<circ> json_array_get J (encode_bytes J bs)) [0..<length bs]))"
    with arr obtain j where "json_array_get J (encode_bytes J bs) i = Some j"
      "json_integer_value J j = ucast (bs ! i)" "i < length bs" by auto
    then show "map (\<lambda>j. ucast (json_integer_value J j))
        (map (the \<circ> json_array_get J (encode_bytes J bs)) [0..<length bs]) ! i = bs ! i"
      by (simp del: ucast_eq)
  qed (use arr in simp)
qed

lemma decode_object_of_get:
  assumes ok: "jansson_ok J" and enc: "encodable J e"
    and get: "ename e = Some n" "json_object_get J root n = elem_json J e"
  shows "\<exists>e'. decode_object J root (blank_elem e) = Some (0, e') \<and> elem_meaning e' = elem_meaning e"
proof -
  note facts = decode_object_def blank_elem_def elem_meaning_def elem_json_def encode_object_value_def
    encodable_def jget_jput
  show ?thesis
  proof (cases "et e")
    case NEU_JSON_UNDEFINE
    with enc show ?thesis by (simp add: encodable_def)
  next
    case NEU_JSON_INT
    with enc obtain j where j: "json_integer J (val_int (ev e)) = Some j"
      by (auto simp: encodable_def encode_object_value_def)
    with jansson_integer [OF ok j] NEU_JSON_INT get show ?thesis by (simp add: facts)
  next
    case NEU_JSON_BIT
    with enc obtain j where j: "json_integer J (ucast (val_bit (ev e))) = Some j"
      by (auto simp: encodable_def encode_object_value_def)
    with jansson_integer [OF ok j] NEU_JSON_BIT get show ?thesis
      by (simp add: facts del: ucast_eq)
  next
    case NEU_JSON_STR
    with enc obtain s j where "jstr (ev e) = Some s" and j: "json_string J s = Some j"
      by (auto simp: encodable_def encode_object_value_def bind_eq_Some_conv)
    with jansson_string [OF ok j] NEU_JSON_STR get show ?thesis by (simp add: facts)
  next
    case NEU_JSON_DOUBLE
    with enc obtain j where j: "json_real J (val_double (ev e)) = Some j"
      by (auto simp: encodable_def encode_object_value_def)
    with jansson_real [OF ok j] NEU_JSON_DOUBLE get show ?thesis by (simp add: facts)
  next
    case NEU_JSON_FLOAT
    with enc obtain j where j: "json_real J (f32_to_f64 (val_float (ev e))) = Some j"
      and "f64_to_f32 (f32_to_f64 (val_float (ev e))) = val_float (ev e)"
      by (auto simp: encodable_def encode_object_value_def f64_to_f32_to_f64)
    with jansson_real [OF ok j] NEU_JSON_FLOAT get show ?thesis by (simp add: facts)
  next
    case NEU_JSON_BOOL
    with enc obtain j where j: "json_boolean J (val_bool (ev e)) = Some j"
      by (auto simp: encodable_def encode_object_value_def)
    with jansson_boolean [OF ok j] NEU_JSON_BOOL get show ?thesis
      by (simp add: facts put_val_bool_def val_bool_def)
  next
    case NEU_JSON_OBJECT
    with enc get show ?thesis by (auto simp: facts)
  next
    case NEU_JSON_BYTES
    define bs where "bs = take (unat (jbytes_length (ev e))) (jbytes (ev e))"
    have ints: "\<forall>b\<in>set bs. json_integer J (ucast b) \<noteq> None"
      and len: "length bs = unat (jbytes_length (ev e))"
      using enc NEU_JSON_BYTES by (auto simp: encodable_def bs_def dest: in_set_takeD)
    note arr = json_array_elems_encode_bytes [OF ok ints]
    have "json_object_get J root n = Some (encode_bytes J bs)"
      using get NEU_JSON_BYTES by (simp add: elem_json_def bs_def)
    moreover have "(of_nat (length bs) :: u8) = jbytes_length (ev e)" using len by simp
    ultimately show ?thesis
      using NEU_JSON_BYTES get len arr bs_def
      by (auto simp: decode_object_def blank_elem_def elem_meaning_def Let_def unat_eq_zero)
  qed
qed

lemma get_encode_fields_other:
  assumes "jansson_ok J" "Some k \<notin> ename ` set es" "\<forall>e\<in>set es. encodable J e"
  shows "json_object_get J (foldl (encode_object J) ob es) k = json_object_get J ob k"
  using assms(2,3)
proof (induction es arbitrary: ob)
  case Nil
  then show ?case by simp
next
  case (Cons e es)
  from Cons.prems obtain n where "ename e = Some n" "et e \<noteq> NEU_JSON_UNDEFINE"
    by (auto elim: encodableD)
  with Cons show ?case
    by (auto simp: encode_object_elem json_set_def jansson_get_set_other [OF assms(1)])
qed

lemma get_encode_fields:
  assumes "jansson_ok J" "distinct (map ename es)" "\<forall>e\<in>set es. encodable J e"
    "e \<in> set es" "ename e = Some n"
  shows "json_object_get J (foldl (encode_object J) ob es) n = elem_json J e"
  using assms(2-5)
proof (induction es arbitrary: ob)
  case Nil
  then show ?case by simp
next
  case (Cons x es)
  show ?case
  proof (cases "e = x")
    case True
    from Cons.prems True obtain j where j: "et x \<noteq> NEU_JSON_UNDEFINE" "elem_json J x = Some j"
      by (auto elim: encodableD)
    have "Some n \<notin> ename ` set es" using Cons.prems True by auto
    then have "json_object_get J (foldl (encode_object J) (encode_object J ob x) es) n
        = json_object_get J (encode_object J ob x) n"
      using Cons.prems by (intro get_encode_fields_other [OF assms(1)]) auto
    with j True Cons.prems show ?thesis
      by (simp add: encode_object_elem json_set_def jansson_get_set [OF assms(1)])
  next
    case False
    with Cons show ?thesis by simp
  qed
qed

lemma decode_objects_of_get:
  assumes ok: "jansson_ok J"
    and all: "\<forall>e\<in>set es. encodable J e \<and>
      (\<exists>n. ename e = Some n \<and> json_object_get J root n = elem_json J e)"
  shows "\<exists>es'. decode_objects J root (map blank_elem es) = Some (0, es') \<and>
    map elem_meaning es' = map elem_meaning es"
  using all
proof (induction es)
  case Nil
  then show ?case by simp
next
  case (Cons e es)
  then obtain n where "encodable J e" "ename e = Some n" "json_object_get J root n = elem_json J e"
    by auto
  from decode_object_of_get [OF ok this]
  obtain e' where e': "decode_object J root (blank_elem e) = Some (0, e')"
    "elem_meaning e' = elem_meaning e" by auto
  from Cons obtain es' where "decode_objects J root (map blank_elem es) = Some (0, es')"
    "map elem_meaning es' = map elem_meaning es" by auto
  with e' show ?case by simp
qed

section \<open>A concrete library\<close>

text \<open>
  JSON trees with the operations of the library, to show that its documented behaviour
  can be had.  Text is not needed for that: nothing loads, nothing is dumped.
\<close>

datatype jtree =
    JTNull | JTBool bool | JTInt u64 | JTReal u64 | JTString string
  | JTArray "jtree list" | JTObject "(string \<times> jtree) list"

definition jt_set :: "jtree \<Rightarrow> string \<Rightarrow> jtree option \<Rightarrow> int \<times> jtree" where
  "jt_set ob k j =
     (case j of
        None \<Rightarrow> (- 1, ob)
      | Some v \<Rightarrow> (case ob of JTObject m \<Rightarrow> (0, JTObject ((k, v) # m)) | _ \<Rightarrow> (0, JTObject [(k, v)])))"

definition jt_get :: "jtree \<Rightarrow> string \<Rightarrow> jtree option" where
  "jt_get ob k = (case ob of JTObject m \<Rightarrow> map_of m k | _ \<Rightarrow> None)"

definition jt_elems :: "jtree \<Rightarrow> jtree list" where
  "jt_elems a = (case a of JTArray js \<Rightarrow> js | _ \<Rightarrow> [])"

definition jt_nth :: "jtree \<Rightarrow> nat \<Rightarrow> jtree option" where
  "jt_nth a n = (if n < length (jt_elems a) then Some (jt_elems a ! n) else None)"

definition jt_append :: "jtree \<Rightarrow> jtree option \<Rightarrow> jtree" where
  "jt_append a j = (case j of None \<Rightarrow> a | Some v \<Rightarrow> JTArray (jt_elems a @ [v]))"

definition jt_jansson :: "jtree jansson" where
  "jt_jansson =
     \<lparr>json_array_new = JTArray [], json_object_new = JTObject [],
      json_integer = (\<lambda>i. Some (JTInt i)), json_real = (\<lambda>d. Some (JTReal d)),
      json_string = (\<lambda>s. Some (JTString s)), json_boolean = (\<lambda>b. Some (JTBool b)),
      json_object_set_new = jt_set, json_object_get = jt_get,
      json_array_append_new = jt_append, json_array_get = jt_nth,
      json_array_size = (\<lambda>a. length (jt_elems a)),
      json_is_string = (\<lambda>j. case j of JTString _ \<Rightarrow> True | _ \<Rightarrow> False),
      json_is_real = (\<lambda>j. case j of JTReal _ \<Rightarrow> True | _ \<Rightarrow> False),
      json_is_boolean = (\<lambda>j. case j of JTBool _ \<Rightarrow> True | _ \<Rightarrow> False),
      json_is_integer = (\<lambda>j. case j of JTInt _ \<Rightarrow> True | _ \<Rightarrow> False),
      json_is_array = (\<lambda>j. case j of JTArray _ \<Rightarrow> True | _ \<Rightarrow> False),
      json_integer_value = (\<lambda>j. case j of JTInt i \<Rightarrow> i | _ \<Rightarrow> 0),
      json_real_value = (\<lambda>j. case j of JTReal d \<Rightarrow> d | _ \<Rightarrow> 0),
      json_string_value = (\<lambda>j. case j of JTString s \<Rightarrow> Some s | _ \<Rightarrow> None),
      json_boolean_value = (\<lambda>j. case j of JTBool b \<Rightarrow> b | _ \<Rightarrow> False),
      json_loads = (\<lambda>_ _. None), json_dumps = (\<lambda>_. None)\<rparr>"

lemma jt_get_set:
  "jt_get (snd (jt_set ob k (Some j))) k = Some j"
  "k' \<noteq> k \<Longrightarrow> jt_get (snd (jt_set ob k jo)) k' = jt_get ob k'"
  by (cases ob; simp add: jt_get_def jt_set_def)
     (cases ob; cases jo; simp add: jt_get_def jt_set_def)

lemma jt_append_simps [simp]:
  "jt_elems (jt_append a (Some j)) = jt_elems a @ [j]"
  by (simp add: jt_append_def jt_elems_def)

lemma jansson_ok_jt: "jansson_ok jt_jansson"
  unfolding jansson_ok_def
  by (auto simp: jt_jansson_def jt_get_set jt_nth_def nth_append jt_elems_def [of "JTArray _"])

section \<open>Properties\<close>

text \<open>
  Encoding fields with distinct names into an object (\<open>neu_json_encode_field\<close>) and
  decoding the object with elements of the same names and types
  (\<open>neu_json_decode_by_json\<close>) succeeds and gives every field its value back, for every
  type the encoder knows, whatever else the object held.
\<close>

theorem json_fields_roundtrip:
  assumes "jansson_ok J" "distinct (map ename es)" "\<forall>e\<in>set es. encodable J e"
  shows "\<exists>es'. neu_json_decode_by_json J (Some (snd (neu_json_encode_field J ob es)))
      (map blank_elem es) = Some (0, es') \<and> map elem_meaning es' = map elem_meaning es"
proof -
  have "\<exists>n. ename e = Some n \<and>
      json_object_get J (foldl (encode_object J) ob es) n = elem_json J e"
    if e: "e \<in> set es" for e
  proof -
    from e assms(3) obtain n where "ename e = Some n" by (auto elim: encodableD)
    with get_encode_fields [OF assms e] show ?thesis by auto
  qed
  then show ?thesis
    using assms(3) decode_objects_of_get [OF assms(1), of es]
    by (simp add: neu_json_decode_by_json_def neu_json_encode_field_def)
qed

definition demo_elems :: "jtree neu_json_elem_t list" where
  "demo_elems =
     [\<lparr>eattribute = NEU_JSON_ATTRIBUTE_REQUIRED, ename = Some ''node'', et = NEU_JSON_STR,
        ev = zero_json_value\<lparr>jstr := Some ''modbus''\<rparr>\<rparr>,
      \<lparr>eattribute = NEU_JSON_ATTRIBUTE_REQUIRED, ename = Some ''interval'', et = NEU_JSON_INT,
        ev = jput (3000 :: u64) zero_json_value\<rparr>]"

lemma json_fields_roundtrip_witness:
  "\<exists>es'. neu_json_decode_by_json jt_jansson
      (Some (snd (neu_json_encode_field jt_jansson (JTObject []) demo_elems)))
      (map blank_elem demo_elems) = Some (0, es') \<and>
    map elem_meaning es' = map elem_meaning demo_elems"
proof (rule json_fields_roundtrip [OF jansson_ok_jt])
  show "distinct (map ename demo_elems)" by (simp add: demo_elems_def)
  show "\<forall>e\<in>set demo_elems. encodable jt_jansson e"
    by (simp add: demo_elems_def encodable_def encode_object_value_def jt_jansson_def)
qed

text \<open>
  When a required field is present, decoding it as a string or as bytes is undefined
  exactly when the value is not a string, and when an array is so long that its size
  wraps in the \<open>uint8_t\<close> length to a smaller non-zero number; a JSON document from
  outside can have both.
\<close>

theorem decode_object_undefined:
  assumes "ename e = Some n" "json_object_get J root n = Some ob" "et e \<noteq> NEU_JSON_UNDEFINE"
    "\<And>i. i < json_array_size J ob \<Longrightarrow> json_array_get J ob i \<noteq> None"
  shows "decode_object J root e = None \<longleftrightarrow>
    (et e = NEU_JSON_STR \<and> json_string_value J ob = None) \<or>
    (et e = NEU_JSON_BYTES \<and> 256 < json_array_size J ob \<and> json_array_size J ob mod 256 \<noteq> 0)"
proof -
  define k where "k = json_array_size J ob"
  have tw: "takeWhile (\<lambda>x. x \<noteq> None) (map (json_array_get J ob) [0..<k])
      = map (json_array_get J ob) [0..<k]"
    using assms(4) by (subst takeWhile_eq_all_conv) (auto simp: k_def)
  have len: "length (json_array_elems J ob) = k"
    unfolding json_array_elems_def k_def [symmetric] tw by simp
  have unat: "unat (of_nat k :: u8) = k mod 256" by (simp add: unat_of_nat)
  have "(of_nat k :: u8) = 0 \<longleftrightarrow> k mod 256 = 0"
    using unat by (metis unat_eq_zero)
  moreover have "k mod 256 < k \<longleftrightarrow> 256 \<le> k" 
    by (metis mod_less mod_less_divisor not_le order_less_irrefl order_less_le_trans zero_less_numeral)
  moreover have "k mod 256 \<noteq> 0 \<Longrightarrow> 256 \<le> k \<longleftrightarrow> 256 < k"
    by (cases "k = 256") auto
  ultimately show ?thesis
    using assms(1-3) len unat
    by (cases "et e") (auto simp: decode_object_def Let_def simp flip: k_def split: option.splits)
qed

definition demo_string_elem :: "jtree neu_json_elem_t" where
  "demo_string_elem = \<lparr>eattribute = NEU_JSON_ATTRIBUTE_REQUIRED, ename = Some ''name'',
     et = NEU_JSON_STR, ev = zero_json_value\<rparr>"

lemma decode_object_undefined_witness:
  "decode_object jt_jansson (JTObject [(''name'', JTInt 5)]) demo_string_elem = None"
  by (subst decode_object_undefined [where n = "''name''" and ob = "JTInt 5"])
     (simp_all add: demo_string_elem_def jt_jansson_def jt_get_def jt_elems_def)

end
