(* ===== verification/Elems.thy ===== *)
theory Elems
  imports Json
begin

text \<open>
  Elements the parsers (\<open>src/parser\<close>) are written with: \<open>int_elem\<close> and its kin encode a field,
  \<open>want\<close> and \<open>may_want\<close> decode one, which must or may be there.  The lemmas say what a list of
  fields leaves in an object, and what decoding gives for a field that is there or missing.
\<close>

section \<open>Elements\<close>

definition value_elem :: "string \<Rightarrow> neu_json_type_e \<Rightarrow> 'j neu_json_value_u \<Rightarrow> 'j neu_json_elem_t" where
  "value_elem name t v = \<lparr>eattribute = NEU_JSON_ATTRIBUTE_REQUIRED, ename = Some name, et = t, ev = v\<rparr>"

definition int_elem :: "string \<Rightarrow> u64 \<Rightarrow> 'j neu_json_elem_t" where
  "int_elem name i = value_elem name NEU_JSON_INT (jput i zero_json_value)"

definition double_elem :: "string \<Rightarrow> u64 \<Rightarrow> 'j neu_json_elem_t" where
  "double_elem name d = value_elem name NEU_JSON_DOUBLE (jput d zero_json_value)"

definition bool_elem :: "string \<Rightarrow> bool \<Rightarrow> 'j neu_json_elem_t" where
  "bool_elem name b = value_elem name NEU_JSON_BOOL (put_val_bool b zero_json_value)"

definition str_elem :: "string \<Rightarrow> string option \<Rightarrow> 'j neu_json_elem_t" where
  "str_elem name s = value_elem name NEU_JSON_STR (zero_json_value\<lparr>jstr := s\<rparr>)"

definition object_elem :: "string \<Rightarrow> 'j option \<Rightarrow> 'j neu_json_elem_t" where
  "object_elem name ob = value_elem name NEU_JSON_OBJECT (zero_json_value\<lparr>jobj := ob\<rparr>)"

definition want :: "string \<Rightarrow> neu_json_type_e \<Rightarrow> 'j neu_json_elem_t" where
  "want name t = value_elem name t zero_json_value"

definition may_want :: "string \<Rightarrow> neu_json_type_e \<Rightarrow> 'j neu_json_elem_t" where
  "may_want name t = (want name t)\<lparr>eattribute := NEU_JSON_ATTRIBUTE_OPTIONAL\<rparr>"

lemmas elem_defs = int_elem_def double_elem_def bool_elem_def str_elem_def object_elem_def

lemma value_elem_simps [simp]:
  "ename (value_elem n t v) = Some n" "et (value_elem n t v) = t" "ev (value_elem n t v) = v"
  "eattribute (value_elem n t v) = NEU_JSON_ATTRIBUTE_REQUIRED"
  by (simp_all add: value_elem_def)

lemma want_simps [simp]:
  "ename (want n t) = Some n" "et (want n t) = t" "ename (may_want n t) = Some n" "et (may_want n t) = t"
  "ev (want n t) = zero_json_value" "ev (may_want n t) = zero_json_value"
  "eattribute (want n t) = NEU_JSON_ATTRIBUTE_REQUIRED"
  "eattribute (may_want n t) = NEU_JSON_ATTRIBUTE_OPTIONAL"
  by (simp_all add: want_def may_want_def)

lemma elem_name [simp]:
  "ename (int_elem n i) = Some n" "ename (double_elem n d) = Some n" "ename (bool_elem n b) = Some n"
  "ename (str_elem n s) = Some n" "ename (object_elem n ob) = Some n"
  by (simp_all add: elem_defs)

lemma get_int [simp]: "val_int (jput (i :: u64) zero_json_value) = i"
  and get_double [simp]: "val_double (jput (i :: u64) zero_json_value) = i"
  by (simp_all add: jget_jput)

section \<open>The library\<close>

text \<open>
  Further documented behaviour of jansson: a new object is empty, setting a key to NULL fails and
  leaves the object, and an array stays one.
\<close>

definition jansson_more :: "'j jansson \<Rightarrow> bool" where
  "jansson_more J \<longleftrightarrow> jansson_ok J \<and>
     (\<forall>k. json_object_get J (json_object_new J) k = None) \<and>
     (\<forall>ob k. snd (json_object_set_new J ob k None) = ob) \<and>
     json_is_array J (json_array_new J) \<and>
     (\<forall>a j. json_is_array J a \<longrightarrow> json_is_array J (json_array_append_new J a (Some j)))"

lemma jansson_moreD:
  assumes "jansson_more J"
  shows "jansson_ok J" "json_object_get J (json_object_new J) k = None" "json_set J ob k None = ob"
    "json_is_array J (json_array_new J)"
    "json_is_array J a \<Longrightarrow> json_is_array J (json_array_append_new J a (Some j))"
  using assms by (simp_all add: jansson_more_def json_set_def)

lemma jansson_more_jt: "jansson_more jt_jansson"
proof -
  have "jt_get (JTObject []) k = None" "snd (jt_set ob k None) = ob" for ob k
    by (simp_all add: jt_get_def jt_set_def)
  then show ?thesis
    unfolding jansson_more_def
    by (simp add: jansson_ok_jt) (simp add: jt_jansson_def jt_append_def)
qed

section \<open>Fields of an object\<close>

text \<open>What an element puts into an object; nothing for a NULL and for a value without type.\<close>

definition field_json :: "'j jansson \<Rightarrow> 'j neu_json_elem_t \<Rightarrow> 'j option" where
  "field_json J e = (if et e = NEU_JSON_UNDEFINE then None else elem_json J e)"

lemma encode_object_field:
  assumes "jansson_more J" "ename e = Some n"
  shows "encode_object J ob e = json_set J ob n (field_json J e)"
proof (cases "et e = NEU_JSON_UNDEFINE")
  case True
  then show ?thesis
    using jansson_moreD(3) [OF assms(1)] by (simp add: encode_object_def field_json_def Let_def)
next
  case False
  with encode_object_elem [OF False assms(2)] show ?thesis by (simp add: field_json_def)
qed

lemma get_set_field:
  assumes "jansson_more J"
  shows "json_object_get J (json_set J ob n jo) k =
    (if k = n then (case jo of None \<Rightarrow> json_object_get J ob k | Some j \<Rightarrow> Some j) else json_object_get J ob k)"
  using jansson_get_set [OF jansson_moreD(1) [OF assms]]
    jansson_get_set_other [OF jansson_moreD(1) [OF assms], of k n ob jo] jansson_moreD(3) [OF assms]
  by (auto simp: json_set_def split: option.split)

fun field_of :: "'j jansson \<Rightarrow> 'j neu_json_elem_t list \<Rightarrow> string \<Rightarrow> 'j option" where
  "field_of J [] k = None"
| "field_of J (e # es) k =
     (case field_of J es k of
        Some j \<Rightarrow> Some j
      | None \<Rightarrow> if ename e = Some k then field_json J e else None)"

lemma get_encoded:
  assumes "jansson_more J" "\<forall>e\<in>set es. ename e \<noteq> None"
  shows "json_object_get J (foldl (encode_object J) ob es) k =
    (case field_of J es k of None \<Rightarrow> json_object_get J ob k | Some j \<Rightarrow> Some j)"
  using assms(2)
proof (induction es arbitrary: ob)
  case Nil
  then show ?case by simp
next
  case (Cons e es)
  then obtain n where "ename e = Some n" by auto
  with Cons show ?case
    by (auto simp: encode_object_field [OF assms(1)] get_set_field [OF assms(1)] split: option.split)
qed

lemma get_encoded_new:
  assumes "jansson_more J" "\<forall>e\<in>set es. ename e \<noteq> None"
  shows "json_object_get J (foldl (encode_object J) (json_object_new J) es) k = field_of J es k"
  using get_encoded [OF assms] jansson_moreD(2) [OF assms(1)] by (simp split: option.split)

lemma field_json_simps:
  "field_json J (int_elem n i) = json_integer J i"
  "field_json J (double_elem n d) = json_real J d"
  "field_json J (str_elem n s) = Option.bind s (json_string J)"
  "field_json J (object_elem n ob) = ob"
  "field_json J (value_elem n NEU_JSON_UNDEFINE v) = None"
  by (simp_all add: field_json_def elem_json_def encode_object_value_def elem_defs jget_jput)

section \<open>Decoding a field\<close>

lemma decode_missing:
  "json_object_get J root n = None \<Longrightarrow> decode_object J root (may_want n t) = Some (0, may_want n t)"
  "json_object_get J root n = None \<Longrightarrow> decode_object J root (want n t) = Some (- 1, want n t)"
  by (simp_all add: decode_object_def)

lemma decode_int:
  assumes "json_object_get J root n = Some j"
  shows "decode_object J root (want n NEU_JSON_INT) = Some (0, int_elem n (json_integer_value J j))"
    "decode_object J root (may_want n NEU_JSON_INT)
       = Some (0, (int_elem n (json_integer_value J j))\<lparr>eattribute := NEU_JSON_ATTRIBUTE_OPTIONAL\<rparr>)"
  using assms by (simp_all add: decode_object_def want_def may_want_def elem_defs value_elem_def)

lemma decode_str:
  assumes "json_object_get J root n = Some j" "json_string_value J j = Some s"
  shows "decode_object J root (want n NEU_JSON_STR) = Some (0, str_elem n (Some s))"
    "decode_object J root (may_want n NEU_JSON_STR)
       = Some (0, (str_elem n (Some s))\<lparr>eattribute := NEU_JSON_ATTRIBUTE_OPTIONAL\<rparr>)"
  using assms by (simp_all add: decode_object_def want_def may_want_def elem_defs value_elem_def)

lemma decode_object_at:
  assumes "json_object_get J root n = Some j"
  shows "decode_object J root (want n NEU_JSON_OBJECT) = Some (0, object_elem n (Some j))"
  using assms by (simp add: decode_object_def want_def elem_defs value_elem_def)

lemma decode_double:
  assumes "json_object_get J root n = Some j" "\<not> json_is_integer J j"
  shows "decode_object J root (may_want n NEU_JSON_DOUBLE)
       = Some (0, (double_elem n (json_real_value J j))\<lparr>eattribute := NEU_JSON_ATTRIBUTE_OPTIONAL\<rparr>)"
  using assms by (simp add: decode_object_def want_def may_want_def elem_defs value_elem_def)

end
