(* ===== verification/Uthash.thy ===== *)
theory Uthash
  imports Prelude
begin

text \<open>
  The hash tables of the program (\<open>include/esvcpm/utils/uthash.h\<close>, a vendored header).
  A table is the association list of its entries in the order of insertion, which is the
  order \<open>HASH_ITER\<close> visits: \<open>HASH_ADD\<close> appends, \<open>HASH_DEL\<close> takes an entry out,
  \<open>HASH_FIND\<close> looks a key up, and writing through a found pointer changes an entry in
  place.  \<open>HASH_ADD\<close> does not look for an entry with the same key; that the keys of a
  table are distinct is an invariant of each component, proved there.

  The locale \<open>keyed_table\<close> is the contract its users rely on.
\<close>

type_synonym ('k, 'v) uthash = "('k \<times> 'v) list"

definition hash_find :: "('k, 'v) uthash \<Rightarrow> 'k \<Rightarrow> 'v option" where
  "hash_find t k = map_of t k"

definition hash_add :: "('k, 'v) uthash \<Rightarrow> 'k \<Rightarrow> 'v \<Rightarrow> ('k, 'v) uthash" where
  "hash_add t k v = t @ [(k, v)]"

fun hash_del :: "('k, 'v) uthash \<Rightarrow> 'k \<Rightarrow> ('k, 'v) uthash" where
  "hash_del [] k = []"
| "hash_del ((k', v) # t) k = (if k' = k then t else (k', v) # hash_del t k)"

fun hash_set :: "('k, 'v) uthash \<Rightarrow> 'k \<Rightarrow> 'v \<Rightarrow> ('k, 'v) uthash" where
  "hash_set [] k v = []"
| "hash_set ((k', v') # t) k v = (if k' = k then (k', v) # t else (k', v') # hash_set t k v)"

definition hash_keys :: "('k, 'v) uthash \<Rightarrow> 'k list" where
  "hash_keys t = map fst t"

definition hash_vals :: "('k, 'v) uthash \<Rightarrow> 'v list" where
  "hash_vals t = map snd t"

definition hash_wf :: "('k, 'v) uthash \<Rightarrow> bool" where
  "hash_wf t \<longleftrightarrow> distinct (hash_keys t)"

section \<open>Laws of the association-list model\<close>

lemma hash_keys_add [simp]: "hash_keys (hash_add t k v) = hash_keys t @ [k]"
  by (simp add: hash_keys_def hash_add_def)

lemma hash_keys_set [simp]: "hash_keys (hash_set t k v) = hash_keys t"
  by (induction t k v rule: hash_set.induct) (auto simp: hash_keys_def)

lemma hash_keys_del: "hash_keys (hash_del t k) = remove1 k (hash_keys t)"
  by (induction t k rule: hash_del.induct) (auto simp: hash_keys_def)

lemma hash_keys_Nil [simp]: "hash_keys [] = []"
  by (simp add: hash_keys_def)

lemma hash_find_None [simp]: "hash_find t k = None \<longleftrightarrow> k \<notin> set (hash_keys t)"
  by (auto simp: hash_find_def hash_keys_def map_of_eq_None_iff)

lemma hash_find_Some_key: "hash_find t k = Some v \<Longrightarrow> k \<in> set (hash_keys t)"
  by (metis hash_find_None option.distinct(1))

lemma hash_find_Some_val: "hash_find t k = Some v \<Longrightarrow> v \<in> set (hash_vals t)"
  by (force simp: hash_find_def hash_vals_def dest: map_of_SomeD)

lemma hash_find_in_set: "hash_find t k = Some v \<Longrightarrow> (k, v) \<in> set t"
  by (simp add: hash_find_def map_of_SomeD)

lemma hash_wf_find: "hash_wf t \<Longrightarrow> (k, v) \<in> set t \<Longrightarrow> hash_find t k = Some v"
  by (simp add: hash_find_def hash_wf_def hash_keys_def)

lemma hash_find_add:
  "k \<notin> set (hash_keys t) \<Longrightarrow> hash_find (hash_add t k v) = (hash_find t)(k \<mapsto> v)"
proof -
  assume "k \<notin> set (hash_keys t)"
  then have "map_of t k = None" by (simp add: hash_keys_def map_of_eq_None_iff)
  then show ?thesis
    by (auto simp: hash_find_def hash_add_def map_add_def fun_eq_iff split: option.splits)
qed

lemma hash_find_set:
  "k \<in> set (hash_keys t) \<Longrightarrow> hash_find (hash_set t k v) = (hash_find t)(k \<mapsto> v)"
proof (induction t k v rule: hash_set.induct)
  case (1 k v)
  then show ?case by simp
next
  case (2 k' v' t k v)
  then show ?case
    by (cases "k' = k") (auto simp: hash_find_def hash_keys_def fun_upd_twist)
qed

lemma hash_find_del:
  "hash_wf t \<Longrightarrow> hash_find (hash_del t k) = (hash_find t)(k := None)"
proof (induction t k rule: hash_del.induct)
  case (1 k)
  then show ?case by (simp add: hash_find_def)
next
  case (2 k' v t k)
  then show ?case
    by (auto simp: hash_find_def hash_wf_def hash_keys_def fun_eq_iff map_of_eq_None_iff)
qed

lemma hash_wf_Nil [simp]: "hash_wf []"
  by (simp add: hash_wf_def)

lemma hash_wf_add [simp]: "hash_wf (hash_add t k v) \<longleftrightarrow> hash_wf t \<and> k \<notin> set (hash_keys t)"
  by (auto simp: hash_wf_def)

lemma hash_wf_set [simp]: "hash_wf (hash_set t k v) = hash_wf t"
  by (simp add: hash_wf_def)

lemma hash_wf_del [simp]: "hash_wf t \<Longrightarrow> hash_wf (hash_del t k)"
  by (simp add: hash_wf_def hash_keys_del)

lemma hash_vals_add [simp]: "hash_vals (hash_add t k v) = hash_vals t @ [v]"
  by (simp add: hash_vals_def hash_add_def)

lemma length_hash_add [simp]: "length (hash_add t k v) = Suc (length t)"
  by (simp add: hash_add_def)

lemma length_hash_set [simp]: "length (hash_set t k v) = length t"
  by (induction t k v rule: hash_set.induct) auto

lemma length_hash_del:
  "length (hash_del t k) = (if k \<in> set (hash_keys t) then length t - 1 else length t)"
  by (induction t k rule: hash_del.induct)
     (auto simp: hash_keys_def dest: length_pos_if_in_set split: if_splits)

lemma set_hash_set: "(k', v') \<in> set (hash_set t k v) \<Longrightarrow> (k', v') \<in> set t \<or> (k' = k \<and> v' = v)"
  by (induction t k v rule: hash_set.induct) (auto split: if_splits)

lemma set_hash_del: "set (hash_del t k) \<subseteq> set t"
  by (induction t k rule: hash_del.induct) auto

lemma hash_del_absent: "k \<notin> set (hash_keys t) \<Longrightarrow> hash_del t k = t"
  by (induction t k rule: hash_del.induct) (auto simp: hash_keys_def)

lemma hash_del_add: "k \<notin> set (hash_keys t) \<Longrightarrow> hash_del (hash_add t k v) k = t"
  by (induction t k rule: hash_del.induct) (auto simp: hash_keys_def hash_add_def)

lemmas hash_laws = hash_find_add hash_find_set hash_find_del hash_keys_del

section \<open>The contract\<close>

text \<open>
  What a user of a table may rely on: \<open>find\<close> after each operation, and that each
  operation keeps the well-formedness \<open>ok\<close> (distinct keys) under its precondition.
\<close>

locale keyed_table =
  fixes find :: "'t \<Rightarrow> 'k \<Rightarrow> 'v option"
    and add :: "'t \<Rightarrow> 'k \<Rightarrow> 'v \<Rightarrow> 't"
    and put :: "'t \<Rightarrow> 'k \<Rightarrow> 'v \<Rightarrow> 't"
    and del :: "'t \<Rightarrow> 'k \<Rightarrow> 't"
    and ok :: "'t \<Rightarrow> bool"
  assumes find_add: "ok t \<Longrightarrow> find t k = None \<Longrightarrow> find (add t k v) = (find t)(k \<mapsto> v)"
    and find_put: "ok t \<Longrightarrow> find t k \<noteq> None \<Longrightarrow> find (put t k v) = (find t)(k \<mapsto> v)"
    and find_del: "ok t \<Longrightarrow> find (del t k) = (find t)(k := None)"
    and ok_add: "ok t \<Longrightarrow> find t k = None \<Longrightarrow> ok (add t k v)"
    and ok_put: "ok t \<Longrightarrow> ok (put t k v)"
    and ok_del: "ok t \<Longrightarrow> ok (del t k)"
begin

text \<open>
  The idiom of the code for a table entry: look the key up, refuse when it is there
  (\<open>insert_new\<close>), refuse when it is not there (\<open>change\<close>), and move an entry to a new key
  by deleting and adding it again (\<open>rekey\<close>).
\<close>

lemma find_add_same: "ok t \<Longrightarrow> find t k = None \<Longrightarrow> find (add t k v) k = Some v"
  by (simp add: find_add)

lemma find_add_other: "ok t \<Longrightarrow> find t k = None \<Longrightarrow> k' \<noteq> k \<Longrightarrow> find (add t k v) k' = find t k'"
  by (simp add: find_add)

lemma find_put_same: "ok t \<Longrightarrow> find t k \<noteq> None \<Longrightarrow> find (put t k v) k = Some v"
  by (simp add: find_put)

lemma find_put_other: "ok t \<Longrightarrow> find t k \<noteq> None \<Longrightarrow> k' \<noteq> k \<Longrightarrow> find (put t k v) k' = find t k'"
  by (simp add: find_put)

lemma find_del_same: "ok t \<Longrightarrow> find (del t k) k = None"
  by (simp add: find_del)

lemma find_del_other: "ok t \<Longrightarrow> k' \<noteq> k \<Longrightarrow> find (del t k) k' = find t k'"
  by (simp add: find_del)

lemma find_rekey:
  assumes "ok t" "k' = k \<or> find t k' = None"
  shows "find (add (del t k) k' v) = (find t)(k := None, k' \<mapsto> v)"
proof -
  from assms have "find (del t k) k' = None" by (auto simp: find_del)
  with assms show ?thesis by (simp add: find_add find_del ok_del)
qed

lemma ok_rekey:
  assumes "ok t" "k' = k \<or> find t k' = None"
  shows "ok (add (del t k) k' v)"
proof -
  from assms have "find (del t k) k' = None" by (auto simp: find_del)
  with assms show ?thesis by (simp add: ok_add ok_del)
qed

end

interpretation ut: keyed_table hash_find hash_add hash_set hash_del hash_wf
  by unfold_locales
     (auto simp: hash_find_add hash_find_set hash_find_del)

end
