(* ===== verification/Tag.thy ===== *)
theory Tag
  imports Json Uthash
begin

text \<open>
  Tags (\<open>include/esvcpm/tag.h\<close>, \<open>src/base/tag.c\<close>): the tag record and its attributes,
  duplication, the options written into the address, the byte-order variants of strings,
  and the static value a tag may carry.

  A tag's \<open>meta\<close> bytes hold the address of its static value when the tag is STATIC; that
  value is the field \<open>static_ptr\<close> (\<open>None\<close>: the pointer is NULL) and \<open>meta\<close> stands for the
  bytes of the other tags.
\<close>

section \<open>Attributes and options\<close>

definition NEU_ATTRIBUTE_READ :: u32 where "NEU_ATTRIBUTE_READ = 1"
definition NEU_ATTRIBUTE_WRITE :: u32 where "NEU_ATTRIBUTE_WRITE = 2"
definition NEU_ATTRIBUTE_SUBSCRIBE :: u32 where "NEU_ATTRIBUTE_SUBSCRIBE = 4"
definition NEU_ATTRIBUTE_STATIC :: u32 where "NEU_ATTRIBUTE_STATIC = 8"

lemmas attribute_defs = NEU_ATTRIBUTE_READ_def NEU_ATTRIBUTE_WRITE_def
  NEU_ATTRIBUTE_SUBSCRIBE_def NEU_ATTRIBUTE_STATIC_def

datatype neu_datatag_endian_e =
    NEU_DATATAG_ENDIAN_L16 | NEU_DATATAG_ENDIAN_B16
  | NEU_DATATAG_ENDIAN_LL32 | NEU_DATATAG_ENDIAN_LB32
  | NEU_DATATAG_ENDIAN_BB32 | NEU_DATATAG_ENDIAN_BL32
  | NEU_DATATAG_ENDIAN_L64 | NEU_DATATAG_ENDIAN_B64

fun endian_code :: "neu_datatag_endian_e \<Rightarrow> u32" where
  "endian_code NEU_DATATAG_ENDIAN_L16 = 0"
| "endian_code NEU_DATATAG_ENDIAN_B16 = 1"
| "endian_code NEU_DATATAG_ENDIAN_LL32 = 2"
| "endian_code NEU_DATATAG_ENDIAN_LB32 = 3"
| "endian_code NEU_DATATAG_ENDIAN_BB32 = 4"
| "endian_code NEU_DATATAG_ENDIAN_BL32 = 5"
| "endian_code NEU_DATATAG_ENDIAN_L64 = 6"
| "endian_code NEU_DATATAG_ENDIAN_B64 = 7"

datatype neu_datatag_string_type_e =
    NEU_DATATAG_STRING_TYPE_H | NEU_DATATAG_STRING_TYPE_L
  | NEU_DATATAG_STRING_TYPE_D | NEU_DATATAG_STRING_TYPE_E

fun string_type_code :: "neu_datatag_string_type_e \<Rightarrow> u32" where
  "string_type_code NEU_DATATAG_STRING_TYPE_H = 0"
| "string_type_code NEU_DATATAG_STRING_TYPE_L = 1"
| "string_type_code NEU_DATATAG_STRING_TYPE_D = 2"
| "string_type_code NEU_DATATAG_STRING_TYPE_E = 3"

text \<open>
  \<open>neu_datatag_addr_option_u\<close> is eight bytes: the three \<open>endian\<close> members at 0,
  \<open>string.length\<close> at 0 and \<open>string.type\<close> at 4, \<open>bytes.length\<close> at 0, \<open>bit.op\<close> at 0 and
  \<open>bit.bit\<close> at 1.
\<close>

type_synonym addr_option = bytes

definition zero_option :: addr_option where
  "zero_option = replicate 8 0"

definition option_endian :: "addr_option \<Rightarrow> u32" where
  "option_endian o8 = word_of_bytes (peek 0 4 o8)"

definition set_endian :: "neu_datatag_endian_e \<Rightarrow> addr_option \<Rightarrow> addr_option" where
  "set_endian e o8 = poke 0 (bytes_of_word (endian_code e)) o8"

definition option_string_length :: "addr_option \<Rightarrow> u16" where
  "option_string_length o8 = word_of_bytes (peek 0 2 o8)"

definition set_string_length :: "u16 \<Rightarrow> addr_option \<Rightarrow> addr_option" where
  "set_string_length n o8 = poke 0 (bytes_of_word n) o8"

definition option_string_type :: "addr_option \<Rightarrow> u32" where
  "option_string_type o8 = word_of_bytes (peek 4 4 o8)"

definition set_string_type :: "neu_datatag_string_type_e \<Rightarrow> addr_option \<Rightarrow> addr_option" where
  "set_string_type t o8 = poke 4 (bytes_of_word (string_type_code t)) o8"

definition option_bytes_length :: "addr_option \<Rightarrow> u8" where
  "option_bytes_length o8 = word_of_bytes (peek 0 1 o8)"

definition option_bit_op :: "addr_option \<Rightarrow> bool" where
  "option_bit_op o8 \<longleftrightarrow> word_of_bytes (peek 0 1 o8) \<noteq> (0 :: u8)"

definition option_bit_bit :: "addr_option \<Rightarrow> u8" where
  "option_bit_bit o8 = word_of_bytes (peek 1 1 o8)"

section \<open>The tag\<close>

definition NEU_TAG_META_LENGTH :: nat where "NEU_TAG_META_LENGTH = 20"

record neu_datatag_t =
  tname :: string
  address :: string
  attribute :: u32
  ttype :: neu_type_e
  precision :: u8
  decimal :: u64
  description :: string
  option8 :: addr_option
  meta :: bytes
  static_ptr :: "neu_value_u option"

definition neu_tag_attribute_test :: "neu_datatag_t \<Rightarrow> u32 \<Rightarrow> bool" where
  "neu_tag_attribute_test tag a \<longleftrightarrow> attribute tag AND a = a"

text \<open>
  The C record has one \<open>meta\<close> area.  In a copy of a STATIC tag its pointer goes to a copy
  of the value, or the area is cleared; any other tag's bytes are copied.  The bytes
  behind the pointer of a STATIC tag are read by nothing and are taken as cleared.
\<close>

definition tag_array_copy :: "neu_datatag_t \<Rightarrow> neu_datatag_t \<Rightarrow> neu_datatag_t" where
  "tag_array_copy dst src =
     (let d = dst\<lparr>ttype := ttype src, attribute := attribute src, precision := precision src,
                  decimal := decimal src, option8 := option8 src, address := address src,
                  tname := tname src, description := description src\<rparr>
      in if NEU_ATTRIBUTE_STATIC AND attribute src \<noteq> 0 then
           (case static_ptr src of
              Some val \<Rightarrow> d\<lparr>meta := replicate NEU_TAG_META_LENGTH 0, static_ptr := Some val\<rparr>
            | None \<Rightarrow> d\<lparr>meta := replicate NEU_TAG_META_LENGTH 0, static_ptr := None\<rparr>)
         else d\<lparr>meta := meta src, static_ptr := None\<rparr>)"

definition tag_array_free :: "neu_datatag_t \<Rightarrow> neu_datatag_t" where
  "tag_array_free elt =
     (if NEU_ATTRIBUTE_STATIC AND attribute elt \<noteq> 0
      then elt\<lparr>static_ptr := None, meta := replicate NEU_TAG_META_LENGTH 0\<rparr> else elt)"

definition calloc_tag :: neu_datatag_t where
  "calloc_tag =
     \<lparr>tname = [], address = [], attribute = 0, ttype = NEU_TYPE_INT8, precision = 0, decimal = 0,
      description = [], option8 = zero_option, meta = replicate NEU_TAG_META_LENGTH 0,
      static_ptr = None\<rparr>"

definition neu_tag_dup :: "neu_datatag_t \<Rightarrow> neu_datatag_t" where
  "neu_tag_dup tag = tag_array_copy calloc_tag tag"

definition neu_tag_copy :: "neu_datatag_t \<Rightarrow> neu_datatag_t \<Rightarrow> neu_datatag_t" where
  "neu_tag_copy tag other = tag_array_copy (tag_array_free tag) other"

section \<open>Options of an address\<close>

text \<open>\<open>find_last_character\<close>: a loop of \<open>strchr\<close> from one past the last hit.\<close>

lemma strchr_tl_shorter: "strchr (tl t) c = Some u \<Longrightarrow> length u < length t"
  using strchr_Some [of "tl t" c u] by (cases t) auto

function find_last_from :: "string option \<Rightarrow> string option \<Rightarrow> char \<Rightarrow> string option" where
  "find_last_from ret hit c =
     (case hit of
        None \<Rightarrow> ret
      | Some t \<Rightarrow> find_last_from (Some t) (strchr (tl t) c) c)"
  by pat_completeness auto
termination
proof (relation "measure (\<lambda>(ret, hit, c). case hit of None \<Rightarrow> 0 | Some t \<Rightarrow> Suc (length t))",
    goal_cases)
  case (2 ret hit c t)
  then show ?case by (auto dest: strchr_tl_shorter split: option.splits)
qed simp

declare find_last_from.simps [simp del]

definition find_last_character :: "string \<Rightarrow> char \<Rightarrow> string option" where
  "find_last_character str c = (let hit = strchr str c in find_last_from hit hit c)"

lemma find_last_from_spec:
  assumes "\<forall>t. hit = Some t \<longrightarrow> (\<exists>u. s = u @ t \<and> t \<noteq> [] \<and> hd t = c)"
    and "hit = None \<longrightarrow> (\<forall>t. ret = Some t \<longrightarrow> (\<exists>u. s = u @ t \<and> hd t = c \<and> t \<noteq> [] \<and> c \<notin> set (tl t))) \<and>
      (ret = None \<longrightarrow> c \<notin> set s)"
  shows "(case find_last_from ret hit c of
      None \<Rightarrow> c \<notin> set s
    | Some t \<Rightarrow> \<exists>u v. s = u @ t \<and> t = c # v \<and> c \<notin> set v)"
  using assms
proof (induction ret hit c rule: find_last_from.induct)
  case (1 ret hit c)
  show ?case
  proof (cases hit)
    case None
    then show ?thesis
      using 1(3) by (cases ret) (auto simp: find_last_from.simps neq_Nil_conv)
  next
    case (Some t)
    with 1(2) obtain u v where s: "s = u @ t" and t: "t = c # v" by (cases t) auto
    have step: "find_last_from ret hit c = find_last_from (Some t) (strchr v c) c"
      by (subst find_last_from.simps) (simp add: Some t)
    show ?thesis
      unfolding step
    proof (rule 1(1) [OF Some, unfolded t list.sel, folded t])
      show "\<forall>w. strchr v c = Some w \<longrightarrow> (\<exists>u. s = u @ w \<and> w \<noteq> [] \<and> hd w = c)"
      proof (intro allI impI)
        fix w assume "strchr v c = Some w"
        then obtain x y where "v = x @ w" "w = c # y" by (auto dest!: strchr_Some)
        with s t show "\<exists>u. s = u @ w \<and> w \<noteq> [] \<and> hd w = c"
          by (intro exI [of _ "u @ c # x"]) simp
      qed
      show "strchr v c = None \<longrightarrow>
          (\<forall>w. Some t = Some w \<longrightarrow> (\<exists>u. s = u @ w \<and> hd w = c \<and> w \<noteq> [] \<and> c \<notin> set (tl w))) \<and>
          (Some t = None \<longrightarrow> c \<notin> set s)"
        using s t by (auto simp: strchr_None)
    qed
  qed
qed

text \<open>The suffix from the last occurrence, or NULL when there is none.\<close>

lemma find_last_character_Some:
  assumes "find_last_character s c = Some t"
  obtains u v where "s = u @ t" "t = c # v" "c \<notin> set v"
proof -
  have "case find_last_from (strchr s c) (strchr s c) c of
      None \<Rightarrow> c \<notin> set s | Some t \<Rightarrow> \<exists>u v. s = u @ t \<and> t = c # v \<and> c \<notin> set v"
    by (rule find_last_from_spec) (auto dest!: strchr_Some simp: strchr_None)
  with assms that show thesis by (auto simp: find_last_character_def Let_def)
qed

lemma find_last_character_None: "find_last_character s c = None \<longleftrightarrow> c \<notin> set s"
proof -
  have "case find_last_from (strchr s c) (strchr s c) c of
      None \<Rightarrow> c \<notin> set s | Some t \<Rightarrow> \<exists>u v. s = u @ t \<and> t = c # v \<and> c \<notin> set v"
    by (rule find_last_from_spec) (auto dest!: strchr_Some simp: strchr_None)
  then show ?thesis
    by (auto simp: find_last_character_def Let_def split: option.splits)
qed

lemma find_last_character_append:
  assumes "c \<notin> set v"
  shows "find_last_character (u @ c # v) c = Some (c # v)"
proof (cases "find_last_character (u @ c # v) c")
  case None
  then show ?thesis by (simp add: find_last_character_None)
next
  case (Some t)
  then obtain u' v' where eq: "u @ c # v = u' @ t" and t: "t = c # v'" "c \<notin> set v'"
    by (rule find_last_character_Some)
  from eq t assms have "v = v'"
    by (auto simp: append_eq_append_conv2 Cons_eq_append_conv append_eq_Cons_conv)
  with Some t show ?thesis by simp
qed

text \<open>
  \<open>sscanf\<close> on the option text: \<open>op\<close> starts with the character searched for, which the
  literal of the format consumes.  \<open>None\<close> is the count of conversions that stays below
  one.
\<close>

definition parse_bytes_option :: "string \<Rightarrow> addr_option \<Rightarrow> int \<times> addr_option" where
  "parse_bytes_option op o8 =
     (case scan_int (tl op) of
        None \<Rightarrow> (- 1, o8)
      | Some (v, _) \<Rightarrow>
          let o' = poke 0 [of_int v] o8
          in (if option_string_length o' = 0 then - 1 else 0, o'))"

definition string_option_type :: "char option \<Rightarrow> neu_datatag_string_type_e" where
  "string_option_type t =
     (if t = Some CHR ''H'' then NEU_DATATAG_STRING_TYPE_H
      else if t = Some CHR ''L'' then NEU_DATATAG_STRING_TYPE_L
      else if t = Some CHR ''D'' then NEU_DATATAG_STRING_TYPE_D
      else if t = Some CHR ''E'' then NEU_DATATAG_STRING_TYPE_D
      else NEU_DATATAG_STRING_TYPE_H)"

definition parse_string_option :: "string \<Rightarrow> addr_option \<Rightarrow> int \<times> addr_option" where
  "parse_string_option op o8 =
     (case scan_int (tl op) of
        None \<Rightarrow> (- 1, set_string_type (string_option_type None) o8)
      | Some (v, rest) \<Rightarrow>
          let o1 = set_string_length (of_int v) o8;
              t = (case rest of [] \<Rightarrow> None | c # _ \<Rightarrow> Some c);
              o2 = set_string_type (string_option_type t) o1
          in (if option_string_length o2 = 0 then - 1 else 0, o2))"

definition parse_value16_option :: "string option \<Rightarrow> neu_datatag_endian_e" where
  "parse_value16_option op =
     (case op of
        Some (_ # CHR ''B'' # _) \<Rightarrow> NEU_DATATAG_ENDIAN_B16
      | _ \<Rightarrow> NEU_DATATAG_ENDIAN_L16)"

definition parse_value32_option :: "string option \<Rightarrow> neu_datatag_endian_e" where
  "parse_value32_option op =
     (case op of
        Some (_ # e1 # e2 # _) \<Rightarrow>
          if e1 = CHR ''B'' \<and> e2 = CHR ''B'' then NEU_DATATAG_ENDIAN_BB32
          else if e1 = CHR ''B'' \<and> e2 = CHR ''L'' then NEU_DATATAG_ENDIAN_BL32
          else if e1 = CHR ''L'' \<and> e2 = CHR ''L'' then NEU_DATATAG_ENDIAN_LL32
          else if e1 = CHR ''L'' \<and> e2 = CHR ''B'' then NEU_DATATAG_ENDIAN_LB32
          else NEU_DATATAG_ENDIAN_LL32
      | _ \<Rightarrow> NEU_DATATAG_ENDIAN_LL32)"

definition parse_value64_option :: "string option \<Rightarrow> neu_datatag_endian_e" where
  "parse_value64_option op =
     (case op of
        Some (_ # CHR ''B'' # _) \<Rightarrow> NEU_DATATAG_ENDIAN_B64
      | _ \<Rightarrow> NEU_DATATAG_ENDIAN_L64)"

text \<open>\<open>bit.bit\<close> keeps its value when nothing is converted.\<close>

definition parse_bit_option :: "string option \<Rightarrow> addr_option \<Rightarrow> addr_option" where
  "parse_bit_option op o8 =
     (case op of
        None \<Rightarrow> poke 0 [0] o8
      | Some s \<Rightarrow>
          poke 0 [1] (case scan_int (tl s) of None \<Rightarrow> o8 | Some (v, _) \<Rightarrow> poke 1 [of_int v] o8))"

definition neu_datatag_parse_addr_option ::
  "neu_datatag_t \<Rightarrow> addr_option \<Rightarrow> int \<times> addr_option" where
  "neu_datatag_parse_addr_option datatag o8 =
     (let dot = find_last_character (address datatag) CHR ''.'';
          hash = find_last_character (address datatag) CHR ''#''
      in case ttype datatag of
           NEU_TYPE_BYTES \<Rightarrow>
             (case dot of None \<Rightarrow> (- 1, o8) | Some op \<Rightarrow> parse_bytes_option op o8)
         | NEU_TYPE_STRING \<Rightarrow>
             (case dot of None \<Rightarrow> (- 1, o8) | Some op \<Rightarrow> parse_string_option op o8)
         | NEU_TYPE_INT16 \<Rightarrow> (0, set_endian (parse_value16_option hash) o8)
         | NEU_TYPE_UINT16 \<Rightarrow> (0, set_endian (parse_value16_option hash) o8)
         | NEU_TYPE_FLOAT \<Rightarrow> (0, set_endian (parse_value32_option hash) o8)
         | NEU_TYPE_INT32 \<Rightarrow> (0, set_endian (parse_value32_option hash) o8)
         | NEU_TYPE_UINT32 \<Rightarrow> (0, set_endian (parse_value32_option hash) o8)
         | NEU_TYPE_DOUBLE \<Rightarrow> (0, set_endian (parse_value64_option hash) o8)
         | NEU_TYPE_INT64 \<Rightarrow> (0, set_endian (parse_value64_option hash) o8)
         | NEU_TYPE_UINT64 \<Rightarrow> (0, set_endian (parse_value64_option hash) o8)
         | NEU_TYPE_BIT \<Rightarrow> (0, parse_bit_option dot o8)
         | _ \<Rightarrow> (0, o8))"

section \<open>Strings of a device\<close>

text \<open>
  The functions get a buffer and a length.  Reading or writing outside the buffer is
  undefined: \<open>None\<close>.
\<close>

fun count_ones :: "nat \<Rightarrow> u8 \<Rightarrow> nat" where
  "count_ones 0 b = 0"
| "count_ones (Suc k) b = (if bit b k then Suc (count_ones k b) else 0)"

definition pre_num :: "u8 \<Rightarrow> nat" where
  "pre_num b = count_ones 8 b"

text \<open>The inner loop: \<open>k\<close> bytes of the form \<open>10xxxxxx\<close>.\<close>

fun utf8_continuation :: "bytes \<Rightarrow> nat \<Rightarrow> nat \<Rightarrow> bool option" where
  "utf8_continuation data i 0 = Some True"
| "utf8_continuation data i (Suc k) =
     (if i < length data then
        (if data ! i AND 0xc0 \<noteq> 0x80 then Some False else utf8_continuation data (i + 1) k)
      else None)"

function utf8_loop :: "bytes \<Rightarrow> nat \<Rightarrow> nat \<Rightarrow> bool option" where
  "utf8_loop data len i =
     (if len \<le> i then Some True
      else if length data \<le> i then None
      else if data ! i AND 0x80 = 0 then utf8_loop data len (i + 1)
      else let num = pre_num (data ! i)
           in if 2 < num then
                (case utf8_continuation data (i + 1) (num - 1) of
                   None \<Rightarrow> None
                 | Some False \<Rightarrow> Some False
                 | Some True \<Rightarrow> utf8_loop data len (i + num))
              else Some False)"
  by pat_completeness auto
termination
  by (relation "measure (\<lambda>(data, len, i). len - i)") auto

declare utf8_loop.simps [simp del]

definition neu_datatag_string_is_utf8 :: "bytes \<Rightarrow> nat \<Rightarrow> bool option" where
  "neu_datatag_string_is_utf8 data len = utf8_loop data len 0"

text \<open>The loops over pairs of bytes: \<open>n\<close> bytes are left to go.\<close>

fun htol_loop :: "nat \<Rightarrow> bytes \<Rightarrow> bytes option" where
  "htol_loop 0 str = Some str"
| "htol_loop (Suc n) (a # b # str) = map_option (\<lambda>r. b # a # r) (htol_loop (n - 1) str)"
| "htol_loop (Suc n) str = None"

definition neu_datatag_string_htol :: "bytes \<Rightarrow> nat \<Rightarrow> (nat \<times> bytes) option" where
  "neu_datatag_string_htol str len = map_option (Pair len) (htol_loop len str)"

definition neu_datatag_string_ltoh :: "bytes \<Rightarrow> nat \<Rightarrow> (nat \<times> bytes) option" where
  "neu_datatag_string_ltoh str len = neu_datatag_string_htol str len"

fun etod_loop :: "nat \<Rightarrow> bytes \<Rightarrow> bytes option" where
  "etod_loop 0 str = Some str"
| "etod_loop (Suc n) (a # b # str) = map_option (\<lambda>r. 0 # a # r) (etod_loop (n - 1) str)"
| "etod_loop (Suc n) str = None"

definition neu_datatag_string_etod :: "bytes \<Rightarrow> nat \<Rightarrow> (nat \<times> bytes) option" where
  "neu_datatag_string_etod str len = map_option (Pair len) (etod_loop len str)"

fun dtoe_loop :: "nat \<Rightarrow> bytes \<Rightarrow> bytes option" where
  "dtoe_loop 0 str = Some str"
| "dtoe_loop (Suc n) (a # b # str) = map_option (\<lambda>r. b # 0 # r) (dtoe_loop (n - 1) str)"
| "dtoe_loop (Suc n) str = None"

definition neu_datatag_string_dtoe :: "bytes \<Rightarrow> nat \<Rightarrow> (nat \<times> bytes) option" where
  "neu_datatag_string_dtoe str len = map_option (Pair len) (dtoe_loop len str)"

text \<open>
  \<open>etoh\<close> and \<open>dtoh\<close> collect every second byte into a block, clear the string and copy
  \<open>strlen\<close> of the cleared string back, that is nothing.  The collecting loop reads up to
  index \<open>2 * (len - 1) + off\<close>.
\<close>

definition string_etoh_at :: "nat \<Rightarrow> bytes \<Rightarrow> nat \<Rightarrow> (nat \<times> bytes) option" where
  "string_etoh_at off str len =
     (if len = 0 then (if str \<noteq> [] \<and> hd str = 0 then Some (0, str) else None)
      else if 2 * (len - 1) + off < length str
      then Some (len div 2, replicate len 0 @ drop len str)
      else None)"

definition neu_datatag_string_etoh :: "bytes \<Rightarrow> nat \<Rightarrow> (nat \<times> bytes) option" where
  "neu_datatag_string_etoh str len = string_etoh_at 0 str len"

definition neu_datatag_string_dtoh :: "bytes \<Rightarrow> nat \<Rightarrow> (nat \<times> bytes) option" where
  "neu_datatag_string_dtoh str len = string_etoh_at 1 str len"

text \<open>The assertion \<open>len * 2 < len\<close>, then a loop that only a positive length enters.\<close>

definition neu_datatag_string_tod :: "bytes \<Rightarrow> int \<Rightarrow> nat \<Rightarrow> (int \<times> bytes) option" where
  "neu_datatag_string_tod str len buf_len =
     (if \<not> len * 2 < len then None
      else if buf_len \<le> length str then Some (len * 2, replicate buf_len 0 @ drop buf_len str)
      else None)"

definition neu_datatag_string_toe :: "bytes \<Rightarrow> int \<Rightarrow> nat \<Rightarrow> (int \<times> bytes) option" where
  "neu_datatag_string_toe str len buf_len = neu_datatag_string_tod str len buf_len"

section \<open>Static values\<close>

definition c_string :: "bytes \<Rightarrow> string" where
  "c_string bs = map byte_char (takeWhile (\<lambda>b. b \<noteq> 0) bs)"

definition char_byte :: "char \<Rightarrow> u8" where
  "char_byte c = of_nat (of_char c)"

text \<open>\<open>snprintf(buf, n, "%s", s)\<close>: at most \<open>n - 1\<close> characters and the NUL.\<close>

definition snprintf_bytes :: "nat \<Rightarrow> string \<Rightarrow> bytes" where
  "snprintf_bytes n s = map char_byte (take (n - 1) s) @ [0]"

definition neu_tag_get_static_value :: "neu_datatag_t \<Rightarrow> neu_value_u \<Rightarrow> int \<times> neu_value_u" where
  "neu_tag_get_static_value tag value =
     (if \<not> neu_tag_attribute_test tag NEU_ATTRIBUTE_STATIC then (- 1, value)
      else (case static_ptr tag of None \<Rightarrow> (- 1, value) | Some cur \<Rightarrow> (0, cur)))"

definition neu_tag_set_static_value :: "neu_datatag_t \<Rightarrow> neu_value_u \<Rightarrow> int \<times> neu_datatag_t" where
  "neu_tag_set_static_value tag value =
     (if \<not> neu_tag_attribute_test tag NEU_ATTRIBUTE_STATIC then (- 1, tag)
      else (0, tag\<lparr>static_ptr := Some value\<rparr>))"

definition neu_tag_get_static_value_json ::
  "neu_datatag_t \<Rightarrow> neu_json_type_e \<Rightarrow> 'j neu_json_value_u \<Rightarrow>
    int \<times> neu_json_type_e \<times> 'j neu_json_value_u" where
  "neu_tag_get_static_value_json tag t v =
     (case static_ptr tag of
        None \<Rightarrow> (- 1, t, v)
      | Some value \<Rightarrow>
          (let int_v = (\<lambda>i. (0, NEU_JSON_INT, jput (i :: u64) v))
           in case ttype tag of
                NEU_TYPE_BIT \<Rightarrow> (0, NEU_JSON_INT, jput (get_u8 value) v)
              | NEU_TYPE_BOOL \<Rightarrow> (0, NEU_JSON_BOOL, put_val_bool (get_boolean value) v)
              | NEU_TYPE_INT8 \<Rightarrow> int_v (scast (get_u8 value))
              | NEU_TYPE_UINT8 \<Rightarrow> int_v (ucast (get_u8 value))
              | NEU_TYPE_INT16 \<Rightarrow> int_v (scast (get_u16 value))
              | NEU_TYPE_WORD \<Rightarrow> int_v (ucast (get_u16 value))
              | NEU_TYPE_UINT16 \<Rightarrow> int_v (ucast (get_u16 value))
              | NEU_TYPE_INT32 \<Rightarrow> int_v (scast (get_u32 value))
              | NEU_TYPE_DWORD \<Rightarrow> int_v (ucast (get_u32 value))
              | NEU_TYPE_UINT32 \<Rightarrow> int_v (ucast (get_u32 value))
              | NEU_TYPE_INT64 \<Rightarrow> int_v (get_u64 value)
              | NEU_TYPE_LWORD \<Rightarrow> int_v (get_u64 value)
              | NEU_TYPE_UINT64 \<Rightarrow> int_v (get_u64 value)
              | NEU_TYPE_FLOAT \<Rightarrow> (0, NEU_JSON_FLOAT, jput (get_u32 value) v)
              | NEU_TYPE_DOUBLE \<Rightarrow> (0, NEU_JSON_DOUBLE, jput (get_u64 value) v)
              | NEU_TYPE_STRING \<Rightarrow> (0, NEU_JSON_STR, v\<lparr>jstr := Some (c_string (get_str value))\<rparr>)
              | _ \<Rightarrow> (- 1, t, v)))"

text \<open>
  The value stored by \<open>neu_tag_set_static_value_json\<close>; \<open>None\<close> when the JSON type does not
  fit the tag type.  The inner option is the undefined \<open>snprintf\<close> of a NULL string.
\<close>

definition static_value_of_json ::
  "neu_type_e \<Rightarrow> neu_json_type_e \<Rightarrow> 'j neu_json_value_u \<Rightarrow> neu_value_u option option" where
  "static_value_of_json ty t v =
     (let z = zero_value; set = (\<lambda>x. Some (Some x)); bad = Some None;
          i = val_int v
      in case t of
           NEU_JSON_BIT \<Rightarrow> if ty = NEU_TYPE_BIT then set (put_word (val_bit v) z) else bad
         | NEU_JSON_BOOL \<Rightarrow> if ty = NEU_TYPE_BOOL then set (put_boolean (val_bool v) z) else bad
         | NEU_JSON_INT \<Rightarrow>
             (case ty of
                NEU_TYPE_BIT \<Rightarrow> set (put_word (ucast i :: u8) z)
              | NEU_TYPE_INT8 \<Rightarrow> set (put_word (ucast i :: u8) z)
              | NEU_TYPE_UINT8 \<Rightarrow> set (put_word (ucast i :: u8) z)
              | NEU_TYPE_INT16 \<Rightarrow> set (put_word (ucast i :: u16) z)
              | NEU_TYPE_WORD \<Rightarrow> set (put_word (ucast i :: u16) z)
              | NEU_TYPE_UINT16 \<Rightarrow> set (put_word (ucast i :: u16) z)
              | NEU_TYPE_INT32 \<Rightarrow> set (put_word (ucast i :: u32) z)
              | NEU_TYPE_DWORD \<Rightarrow> set (put_word (ucast i :: u32) z)
              | NEU_TYPE_UINT32 \<Rightarrow> set (put_word (ucast i :: u32) z)
              | NEU_TYPE_INT64 \<Rightarrow> set (put_word i z)
              | NEU_TYPE_LWORD \<Rightarrow> set (put_word i z)
              | NEU_TYPE_UINT64 \<Rightarrow> set (put_word i z)
              | NEU_TYPE_FLOAT \<Rightarrow> set (put_word (int_to_f32 (sint i)) z)
              | NEU_TYPE_DOUBLE \<Rightarrow> set (put_word (int_to_f64 (sint i)) z)
              | _ \<Rightarrow> bad)
         | NEU_JSON_FLOAT \<Rightarrow>
             if ty = NEU_TYPE_FLOAT then set (put_word (val_float v) z)
             else if ty = NEU_TYPE_DOUBLE then set (put_word (f32_to_f64 (val_float v)) z)
             else bad
         | NEU_JSON_DOUBLE \<Rightarrow>
             if ty = NEU_TYPE_FLOAT then set (put_word (f64_to_f32 (val_double v)) z)
             else if ty = NEU_TYPE_DOUBLE then set (put_word (val_double v) z)
             else bad
         | NEU_JSON_STR \<Rightarrow>
             if ty = NEU_TYPE_STRING
             then (case jstr v of
                     None \<Rightarrow> None
                   | Some s \<Rightarrow> set (put_str (snprintf_bytes NEU_VALUE_SIZE s) z))
             else bad
         | _ \<Rightarrow> bad)"

definition neu_tag_set_static_value_json ::
  "neu_datatag_t \<Rightarrow> neu_json_type_e \<Rightarrow> 'j neu_json_value_u \<Rightarrow> (int \<times> neu_datatag_t) option" where
  "neu_tag_set_static_value_json tag t v =
     (if \<not> neu_tag_attribute_test tag NEU_ATTRIBUTE_STATIC then Some (- 1, tag)
      else (case static_value_of_json (ttype tag) t v of
              None \<Rightarrow> None
            | Some None \<Rightarrow> Some (- 1, tag)
            | Some (Some value) \<Rightarrow> Some (neu_tag_set_static_value tag value)))"

text \<open>Type for type, the swap of 64-bit integers with the signed \<open>json_int_t\<close> included.\<close>

definition static_value_json :: "'j jansson \<Rightarrow> neu_type_e \<Rightarrow> neu_value_u \<Rightarrow> 'j option" where
  "static_value_json J ty value =
     (case ty of
        NEU_TYPE_BOOL \<Rightarrow> json_boolean J (get_boolean value)
      | NEU_TYPE_INT8 \<Rightarrow> json_integer J (scast (get_u8 value))
      | NEU_TYPE_BIT \<Rightarrow> json_integer J (ucast (get_u8 value))
      | NEU_TYPE_UINT8 \<Rightarrow> json_integer J (ucast (get_u8 value))
      | NEU_TYPE_INT16 \<Rightarrow> json_integer J (scast (get_u16 value))
      | NEU_TYPE_WORD \<Rightarrow> json_integer J (ucast (get_u16 value))
      | NEU_TYPE_UINT16 \<Rightarrow> json_integer J (ucast (get_u16 value))
      | NEU_TYPE_INT32 \<Rightarrow> json_integer J (scast (get_u32 value))
      | NEU_TYPE_DWORD \<Rightarrow> json_integer J (ucast (get_u32 value))
      | NEU_TYPE_UINT32 \<Rightarrow> json_integer J (ucast (get_u32 value))
      | NEU_TYPE_INT64 \<Rightarrow> json_integer J (get_u64 value)
      | NEU_TYPE_LWORD \<Rightarrow> json_integer J (get_u64 value)
      | NEU_TYPE_UINT64 \<Rightarrow> json_integer J (get_u64 value)
      | NEU_TYPE_FLOAT \<Rightarrow> json_real J (f32_to_f64 (get_u32 value))
      | NEU_TYPE_DOUBLE \<Rightarrow> json_real J (get_u64 value)
      | NEU_TYPE_STRING \<Rightarrow> json_string J (c_string (get_str value))
      | _ \<Rightarrow> None)"

definition neu_tag_dump_static_value :: "'j jansson \<Rightarrow> neu_datatag_t \<Rightarrow> string option" where
  "neu_tag_dump_static_value J tag =
     (if \<not> neu_tag_attribute_test tag NEU_ATTRIBUTE_STATIC then None
      else let (r, value) = neu_tag_get_static_value tag zero_value
           in if r \<noteq> 0 then None
              else Option.bind (static_value_json J (ttype tag) value) (json_dumps J))"

definition neu_tag_load_static_value ::
  "'j jansson \<Rightarrow> neu_datatag_t \<Rightarrow> string option \<Rightarrow> (int \<times> neu_datatag_t) option" where
  "neu_tag_load_static_value J tag s =
     (if \<not> neu_tag_attribute_test tag NEU_ATTRIBUTE_STATIC then Some (- 1, tag)
      else (case Option.bind s (neu_json_decode_new J) of
              None \<Rightarrow> Some (- 1, tag)
            | Some jval \<Rightarrow>
                (case neu_json_decode_value J jval
                        \<lparr>eattribute = NEU_JSON_ATTRIBUTE_REQUIRED, ename = None,
                         et = NEU_JSON_VALUE, ev = zero_json_value\<rparr> of
                   None \<Rightarrow> None
                 | Some (rv, elem) \<Rightarrow>
                     if rv = 0 then neu_tag_set_static_value_json tag (et elem) (ev elem)
                     else Some (rv, tag))))"

section \<open>Tags of the old south drivers\<close>

record neu_ndriver_tag_t =
  nname :: string
  naddress :: string
  nattribute :: u32
  ntype :: neu_type_e
  nparams :: "string option"

definition ndriver_tag_cpy :: "neu_ndriver_tag_t \<Rightarrow> neu_ndriver_tag_t" where
  "ndriver_tag_cpy src =
     \<lparr>nname = nname src, naddress = naddress src, nattribute = nattribute src,
      ntype = ntype src, nparams = nparams src\<rparr>"

definition neu_ndriver_tag_copy :: "neu_ndriver_tag_t \<Rightarrow> neu_ndriver_tag_t \<Rightarrow> neu_ndriver_tag_t" where
  "neu_ndriver_tag_copy tag other = ndriver_tag_cpy other"

section \<open>Copies\<close>

text \<open>A tag whose \<open>meta\<close> area is used one way only.\<close>

definition tag_ok :: "neu_datatag_t \<Rightarrow> bool" where
  "tag_ok t \<longleftrightarrow>
     (if neu_tag_attribute_test t NEU_ATTRIBUTE_STATIC
      then meta t = replicate NEU_TAG_META_LENGTH 0 else static_ptr t = None)"

lemma static_test_iff:
  "NEU_ATTRIBUTE_STATIC AND attribute t \<noteq> 0 \<longleftrightarrow> neu_tag_attribute_test t NEU_ATTRIBUTE_STATIC"
proof -
  have "bit ((2 :: u32) ^ 3) n \<longleftrightarrow> n = 3" for n
    unfolding bit_exp_iff by auto
  then have bit8: "bit (8 :: u32) n \<longleftrightarrow> n = 3" for n by simp
  have "attribute t AND 8 = (if bit (attribute t) 3 then 8 else 0)"
  proof (rule bit_word_eqI)
    fix n
    show "bit (attribute t AND 8) n = bit (if bit (attribute t) 3 then 8 else 0 :: u32) n"
      unfolding bit_and_iff bit8 by (cases "bit (attribute t) 3"; cases "n = 3") (simp_all only: bit8 bit_0_eq if_True if_False bot_apply, simp_all)
  qed
  then show ?thesis
    by (simp add: neu_tag_attribute_test_def NEU_ATTRIBUTE_STATIC_def and.commute)
qed

lemma neu_tag_dup_id: "tag_ok t \<Longrightarrow> neu_tag_dup t = t"
  by (cases t)
     (auto simp: neu_tag_dup_def tag_array_copy_def tag_ok_def static_test_iff [symmetric]
        calloc_tag_def Let_def split: option.splits if_splits)

lemma neu_tag_copy_other: "tag_ok t \<Longrightarrow> tag_ok other \<Longrightarrow> neu_tag_copy t other = other"
  by (cases t; cases other)
     (auto simp: neu_tag_copy_def tag_array_copy_def tag_array_free_def tag_ok_def
        static_test_iff [symmetric] Let_def split: option.splits if_splits)

lemma tag_ok_dup [simp]: "tag_ok (neu_tag_dup t)"
  by (auto simp: neu_tag_dup_def tag_array_copy_def tag_ok_def static_test_iff [symmetric]
        calloc_tag_def Let_def split: option.splits)

lemma neu_tag_dup_simps [simp]:
  "tname (neu_tag_dup t) = tname t" "address (neu_tag_dup t) = address t"
  "attribute (neu_tag_dup t) = attribute t" "ttype (neu_tag_dup t) = ttype t"
  "precision (neu_tag_dup t) = precision t" "decimal (neu_tag_dup t) = decimal t"
  "description (neu_tag_dup t) = description t" "option8 (neu_tag_dup t) = option8 t"
  by (simp_all add: neu_tag_dup_def tag_array_copy_def Let_def split: option.split)

section \<open>Reading numbers back\<close>

lemma isdigit_char [simp]: "d < 10 \<Longrightarrow> isdigit (char_of (48 + d :: nat))"
  by (simp add: isdigit_def)

lemma digit_value_char [simp]: "d < 10 \<Longrightarrow> digit_value (char_of (48 + d :: nat)) = d"
  by (simp add: digit_value_def)

lemma digits_value_append: "digits_value acc (xs @ ys) = digits_value (digits_value acc xs) ys"
  by (induction xs arbitrary: acc) auto

lemma nat_digits:
  "k < 10 ^ fuel \<Longrightarrow> 0 < fuel \<Longrightarrow>
    digits_value 0 (nat_digits fuel k) = k \<and> (\<forall>c\<in>set (nat_digits fuel k). isdigit c) \<and>
    nat_digits fuel k \<noteq> []"
proof (induction fuel arbitrary: k)
  case 0
  then show ?case by simp
next
  case (Suc fuel)
  show ?case
  proof (cases "k < 10")
    case True
    then show ?thesis by simp
  next
    case False
    with Suc.prems have "0 < fuel" by (cases fuel) auto
    moreover have "k div 10 < 10 ^ fuel" using Suc.prems by auto
    ultimately have "digits_value 0 (nat_digits fuel (k div 10)) = k div 10 \<and>
        (\<forall>c\<in>set (nat_digits fuel (k div 10)). isdigit c)"
      using Suc.IH by blast
    then show ?thesis using False by (auto simp: digits_value_append)
  qed
qed

lemma less_ten_power: "k < 10 ^ Suc k"
  by (induction k) auto

lemma show_nat:
  "digits_value 0 (show_nat k) = k" "\<forall>c\<in>set (show_nat k). isdigit c" "show_nat k \<noteq> []"
  using nat_digits [OF less_ten_power] by (simp_all add: show_nat_def del: nat_digits.simps)

lemma isdigit_not: "isdigit c \<Longrightarrow> \<not> isspace c \<and> c \<noteq> CHR ''-'' \<and> c \<noteq> CHR ''+''"
  by (auto simp: isdigit_def isspace_def)

lemma scan_int_show_nat:
  assumes "k < 2 ^ 63" "rest = [] \<or> \<not> isdigit (hd rest)"
  shows "scan_int (show_nat k @ rest) = Some (int k, rest)"
proof -
  obtain d ds where s: "show_nat k = d # ds" "isdigit d" "\<forall>c\<in>set ds. isdigit c"
    using show_nat [of k] by (cases "show_nat k") auto
  note d = isdigit_not [OF s(2)]
  have take: "takeWhile isdigit (show_nat k @ rest) = show_nat k"
    and drop: "dropWhile isdigit (show_nat k @ rest) = rest"
    using show_nat(2) [of k] assms(2)
    by (cases rest; auto simp: takeWhile_append dropWhile_append)+
  have "int k < 2 ^ 63" using assms(1) by (metis of_nat_less_numeral_power_cancel_iff)
  then have "long_saturate (int k) = int k" by (simp add: long_saturate_def)
  moreover have "dropWhile isspace (show_nat k @ rest) = show_nat k @ rest"
    using d by (simp add: s)
  ultimately show ?thesis
    using take drop d show_nat(1) [of k] by (simp add: scan_int_def Let_def s)
qed

section \<open>Properties of the address options\<close>

lemma peek_poke_option [simp]:
  "length o8 = 8 \<Longrightarrow> option_endian (set_endian e o8) = endian_code e"
  "length o8 = 8 \<Longrightarrow> option_string_length (set_string_length n o8) = n"
  "length o8 = 8 \<Longrightarrow> option_string_length (set_string_type t o8) = option_string_length o8"
  "length o8 = 8 \<Longrightarrow> option_string_type (set_string_type t o8) = string_type_code t"
  "length (set_string_length n o8) = (if length o8 = 8 then 8 else length (set_string_length n o8))"
  by (simp_all add: option_endian_def set_endian_def option_string_length_def
      set_string_length_def option_string_type_def set_string_type_def peek_poke_same
      peek_poke_before)

lemma parse_hash:
  assumes "address tag = base @ CHR ''#'' # suf" "CHR ''#'' \<notin> set suf"
  shows "find_last_character (address tag) CHR ''#'' = Some (CHR ''#'' # suf)"
  using assms by (simp add: find_last_character_append)

definition endian_of_suffix :: "neu_type_e \<Rightarrow> string \<Rightarrow> neu_datatag_endian_e" where
  "endian_of_suffix ty suf =
     (if ty \<in> {NEU_TYPE_INT16, NEU_TYPE_UINT16} then
        (if prefix ''B'' suf then NEU_DATATAG_ENDIAN_B16 else NEU_DATATAG_ENDIAN_L16)
      else if ty \<in> {NEU_TYPE_FLOAT, NEU_TYPE_INT32, NEU_TYPE_UINT32} then
        (if prefix ''BB'' suf then NEU_DATATAG_ENDIAN_BB32
         else if prefix ''BL'' suf then NEU_DATATAG_ENDIAN_BL32
         else if prefix ''LB'' suf then NEU_DATATAG_ENDIAN_LB32
         else NEU_DATATAG_ENDIAN_LL32)
      else
        (if prefix ''B'' suf then NEU_DATATAG_ENDIAN_B64 else NEU_DATATAG_ENDIAN_L64))"

text \<open>
  The byte-order suffix of an address (text after its last \<open>#\<close>) selects the tag's
  byte order, by the table of \<open>tag.h\<close>: one letter for 16 and 64 bits, two letters for 32
  bits and floats; without a suffix the order is little-endian.  The call succeeds.
\<close>

theorem parse_endian_suffix:
  assumes "length o8 = 8" "address tag = base @ CHR ''#'' # suf" "CHR ''#'' \<notin> set suf"
    and "ttype tag \<in> {NEU_TYPE_INT16, NEU_TYPE_UINT16, NEU_TYPE_FLOAT, NEU_TYPE_INT32,
      NEU_TYPE_UINT32, NEU_TYPE_DOUBLE, NEU_TYPE_INT64, NEU_TYPE_UINT64}"
  shows "\<exists>o'. neu_datatag_parse_addr_option tag o8 = (0, o') \<and>
    option_endian o' = endian_code (endian_of_suffix (ttype tag) suf)"
proof -
  note hash = parse_hash [OF assms(2,3)]
  have 16: "parse_value16_option (Some (CHR ''#'' # suf)) =
      (if prefix ''B'' suf then NEU_DATATAG_ENDIAN_B16 else NEU_DATATAG_ENDIAN_L16)"
    by (cases suf) (auto simp: parse_value16_option_def split: char.splits bool.splits)
  have 64: "parse_value64_option (Some (CHR ''#'' # suf)) =
      (if prefix ''B'' suf then NEU_DATATAG_ENDIAN_B64 else NEU_DATATAG_ENDIAN_L64)"
    by (cases suf) (auto simp: parse_value64_option_def split: char.splits bool.splits)
  have 32: "parse_value32_option (Some (CHR ''#'' # suf)) = endian_of_suffix NEU_TYPE_INT32 suf"
    by (cases suf; cases "tl suf") (auto simp: parse_value32_option_def endian_of_suffix_def)
  show ?thesis
    using assms(1,4)
    by (auto simp: neu_datatag_parse_addr_option_def Let_def hash 16 32 64 endian_of_suffix_def)
qed

lemma parse_endian_suffix_witness:
  "\<exists>o'. neu_datatag_parse_addr_option
       (calloc_tag\<lparr>address := ''1!4#BL'', ttype := NEU_TYPE_INT32\<rparr>) zero_option = (0, o') \<and>
    option_endian o' = endian_code NEU_DATATAG_ENDIAN_BL32"
  using parse_endian_suffix
    [of zero_option "calloc_tag\<lparr>address := ''1!4#BL'', ttype := NEU_TYPE_INT32\<rparr>" "''1!4''" "''BL''"]
  by (simp add: zero_option_def endian_of_suffix_def)

text \<open>
  The address option of a string tag: an address that ends in the decimal length and
  a type letter gives back that length and that type, except that \<open>E\<close> is read as \<open>D\<close>; a
  length of 0 is refused.
\<close>

theorem parse_string_suffix:
  assumes "length o8 = 8" "ttype tag = NEU_TYPE_STRING"
    "address tag = base @ CHR ''.'' # show_nat n @ [c]" "n < 2 ^ 16" "\<not> isdigit c" "c \<noteq> CHR ''.''"
  shows "\<exists>o'. neu_datatag_parse_addr_option tag o8 = (if n = 0 then - 1 else 0, o') \<and>
    option_string_length o' = of_nat n \<and>
    option_string_type o' = string_type_code (string_option_type (Some c))"
proof -
  have "CHR ''.'' \<notin> set (show_nat n @ [c])"
    using show_nat(2) [of n] assms(6) by (auto simp: isdigit_def)
  then have dot: "find_last_character (address tag) CHR ''.'' = Some (CHR ''.'' # show_nat n @ [c])"
    using assms(3) by (simp add: find_last_character_append)
  have scan: "scan_int (show_nat n @ [c]) = Some (int n, [c])"
    using assms(4,5) by (intro scan_int_show_nat) auto
  have "(of_nat n :: u16) = 0 \<longleftrightarrow> n = 0"
    using assms(4) by (auto simp: word_of_nat_eq_0_iff dest: dvd_imp_le)
  with assms(1) show ?thesis
    by (auto simp: neu_datatag_parse_addr_option_def Let_def assms(2) dot parse_string_option_def scan)
qed

lemma parse_string_suffix_witness:
  "\<exists>o'. neu_datatag_parse_addr_option
       (calloc_tag\<lparr>address := ''1!4.5E'', ttype := NEU_TYPE_STRING\<rparr>) zero_option = (0, o') \<and>
    option_string_length o' = 5 \<and>
    option_string_type o' = string_type_code NEU_DATATAG_STRING_TYPE_D"
proof -
  have "show_nat 5 = ''5''" by code_simp
  then show ?thesis
    using parse_string_suffix
      [of zero_option "calloc_tag\<lparr>address := ''1!4.5E'', ttype := NEU_TYPE_STRING\<rparr>" "''1!4''" 5 "CHR ''E''"]
    by (simp add: zero_option_def string_option_type_def isdigit_def)
qed

section \<open>Properties of the string functions\<close>

text \<open>
  What the scanner accepts: ASCII bytes, and lead bytes with at least three leading ones
  followed by one continuation byte less than that.
\<close>

function utf8_spec :: "bytes \<Rightarrow> bool" where
  "utf8_spec [] = True"
| "utf8_spec (b # bs) =
     (if b AND 0x80 = 0 then utf8_spec bs
      else 2 < pre_num b \<and> pre_num b \<le> Suc (length bs) \<and>
        (\<forall>c\<in>set (take (pre_num b - 1) bs). c AND 0xc0 = 0x80) \<and>
        utf8_spec (drop (pre_num b - 1) bs))"
  by pat_completeness auto
termination
  by (relation "measure length") auto

lemma utf8_continuation_True:
  "i \<le> length data \<Longrightarrow> utf8_continuation data i k = Some True \<longleftrightarrow>
     i + k \<le> length data \<and> (\<forall>c\<in>set (take k (drop i data)). c AND 0xc0 = 0x80)"
proof (induction k arbitrary: i)
  case 0
  then show ?case by simp
next
  case (Suc k)
  show ?case
  proof (cases "i < length data")
    case True
    then have "drop i data = data ! i # drop (Suc i) data" by (simp add: Cons_nth_drop_Suc)
    with True Suc.IH [of "Suc i"] show ?thesis by auto
  next
    case False
    then show ?thesis by simp
  qed
qed

lemma utf8_loop_True:
  assumes "len = length data" "i \<le> length data"
  shows "utf8_loop data len i = Some True \<longleftrightarrow> utf8_spec (drop i data)"
  using assms
proof (induction data len i rule: utf8_loop.induct)
  case (1 data len i)
  show ?case
  proof (cases "i < length data")
    case False
    with 1(3,4) show ?thesis by (simp add: utf8_loop.simps)
  next
    case True
    define num where "num = pre_num (data ! i)"
    from True have d: "drop i data = data ! i # drop (Suc i) data"
      by (simp add: Cons_nth_drop_Suc)
    show ?thesis
    proof (cases "data ! i AND 0x80 = 0")
      case ascii: True
      have "utf8_loop data len (i + 1) = Some True \<longleftrightarrow> utf8_spec (drop (i + 1) data)"
        using 1(1) True ascii 1(3) by simp
      with True ascii show ?thesis
        by (simp add: utf8_loop.simps [of data "length data" i] 1(3) d)
    next
      case multi: False
      have cont: "utf8_continuation data (i + 1) (num - 1) = Some True \<longleftrightarrow>
          i + 1 + (num - 1) \<le> length data \<and>
          (\<forall>c\<in>set (take (num - 1) (drop (i + 1) data)). c AND 0xc0 = 0x80)"
        using True by (intro utf8_continuation_True) simp
      have IH: "utf8_loop data len (i + num) = Some True \<longleftrightarrow> utf8_spec (drop (i + num) data)"
        if "2 < num" "utf8_continuation data (i + 1) (num - 1) = Some True"
        using 1(2) [of num] that True multi 1(3) cont by (auto simp: num_def)
      have loop: "utf8_loop data len i = Some True \<longleftrightarrow> 2 < num \<and>
          utf8_continuation data (i + 1) (num - 1) = Some True \<and>
          utf8_loop data len (i + num) = Some True"
        using True multi
        by (subst utf8_loop.simps) (auto simp: 1(3) Let_def num_def split: option.splits bool.splits)
      have "utf8_spec (drop i data) \<longleftrightarrow> 2 < num \<and> i + 1 + (num - 1) \<le> length data \<and>
          (\<forall>c\<in>set (take (num - 1) (drop (i + 1) data)). c AND 0xc0 = 0x80) \<and>
          utf8_spec (drop (i + num) data)"
        using True multi unfolding d by (auto simp: num_def [symmetric] add.commute)
      with loop IH cont show ?thesis by blast
    qed
  qed
qed

text \<open>
  On a whole buffer the UTF-8 test (\<open>neu_datatag_string_is_utf8\<close>) answers true exactly
  for the byte strings of \<open>utf8_spec\<close>, and so without reading outside the buffer.
\<close>

theorem utf8_test:
  "neu_datatag_string_is_utf8 data (length data) = Some True \<longleftrightarrow> utf8_spec data"
  unfolding neu_datatag_string_is_utf8_def by (subst utf8_loop_True) simp_all

text \<open>
  The lead bytes \<open>110xxxxx\<close> of two-byte characters have two leading ones: they are
  refused, although the comment in the code lists them.
\<close>

lemma two_byte_lead:
  fixes b :: u8
  assumes "b AND 0xE0 = 0xC0"
  shows "bit b 7" "bit b 6" "\<not> bit b 5"
proof -
  have b: "bit (b AND 0xE0) n = bit (0xC0 :: u8) n" for n using assms by simp
  show "bit b 7" "bit b 6" "\<not> bit b 5"
    using b [of 7] b [of 6] b [of 5] by (simp_all add: bit_and_iff)
qed

lemma pre_num_two: "b AND 0xE0 = 0xC0 \<Longrightarrow> pre_num b = 2"
  using two_byte_lead [of b] by (simp add: pre_num_def eval_nat_numeral)

lemma utf8_two_bytes_refused:
  assumes "b AND 0xE0 = 0xC0"
  shows "neu_datatag_string_is_utf8 (b # rest) (Suc (length rest)) = Some False"
proof -
  have "bit (b AND 0x80) 7" using two_byte_lead [OF assms] by (simp add: bit_and_iff)
  then have "b AND 0x80 \<noteq> 0" by auto
  then show ?thesis
    using pre_num_two [OF assms] by (simp add: neu_datatag_string_is_utf8_def utf8_loop.simps)
qed

lemma htol_loop_involutive:
  "htol_loop n str = Some str' \<Longrightarrow> htol_loop n str' = Some str"
  by (induction n str arbitrary: str' rule: htol_loop.induct) auto

lemma htol_loop_defined:
  "even n \<Longrightarrow> n \<le> length str \<Longrightarrow> htol_loop n str \<noteq> None"
proof (induction n str rule: htol_loop.induct)
  case (2 n a b str)
  then show ?case by (cases n) auto
qed auto

text \<open>
  Swapping the bytes of a string twice gives the string back; for an even length
  inside the buffer the swap is defined.
\<close>

theorem string_htol_involutive:
  assumes "even len" "len \<le> length str"
  shows "\<exists>str'. neu_datatag_string_htol str len = Some (len, str') \<and>
    neu_datatag_string_ltoh str' len = Some (len, str)"
proof -
  from htol_loop_defined [OF assms] obtain str' where "htol_loop len str = Some str'" by auto
  with htol_loop_involutive [OF this] show ?thesis
    by (simp add: neu_datatag_string_htol_def neu_datatag_string_ltoh_def)
qed

lemma string_htol_involutive_witness:
  "\<exists>str'. neu_datatag_string_htol [1, 2, 3, 4] 4 = Some (4, str') \<and>
    neu_datatag_string_ltoh str' 4 = Some (4, [1, 2, 3, 4])"
  by (rule string_htol_involutive) simp_all

text \<open>The conversions between one and two bytes per character do not work.\<close>

lemma string_tod_asserts: "0 \<le> len \<Longrightarrow> neu_datatag_string_tod str len buf_len = None"
  by (simp add: neu_datatag_string_tod_def)

lemma string_etoh_clears:
  "0 < len \<Longrightarrow> 2 * len \<le> length str \<Longrightarrow>
    neu_datatag_string_etoh str len = Some (len div 2, replicate len 0 @ drop len str)"
  by (auto simp: neu_datatag_string_etoh_def string_etoh_at_def)

section \<open>Properties of static values\<close>

lemma set_static_value_simps:
  assumes "neu_tag_attribute_test tag NEU_ATTRIBUTE_STATIC"
  shows "neu_tag_set_static_value tag v = (0, tag\<lparr>static_ptr := Some v\<rparr>)"
    "static_ptr tag = Some v \<Longrightarrow> neu_tag_get_static_value tag w = (0, v)"
  using assms by (simp_all add: neu_tag_set_static_value_def neu_tag_get_static_value_def)

text \<open>The value a 64-bit integer is reduced to by a tag of each integer type.\<close>

fun int_of_type :: "neu_type_e \<Rightarrow> u64 \<Rightarrow> u64 option" where
  "int_of_type NEU_TYPE_INT8 i = Some (scast (ucast i :: u8))"
| "int_of_type NEU_TYPE_UINT8 i = Some (i AND 0xff)"
| "int_of_type NEU_TYPE_INT16 i = Some (scast (ucast i :: u16))"
| "int_of_type NEU_TYPE_UINT16 i = Some (i AND 0xffff)"
| "int_of_type NEU_TYPE_WORD i = Some (i AND 0xffff)"
| "int_of_type NEU_TYPE_INT32 i = Some (scast (ucast i :: u32))"
| "int_of_type NEU_TYPE_UINT32 i = Some (i AND 0xffffffff)"
| "int_of_type NEU_TYPE_DWORD i = Some (i AND 0xffffffff)"
| "int_of_type NEU_TYPE_INT64 i = Some i"
| "int_of_type NEU_TYPE_UINT64 i = Some i"
| "int_of_type NEU_TYPE_LWORD i = Some i"
| "int_of_type _ i = None"

lemma ucast_ucast_mask:
  "ucast (ucast (i :: u64) :: u8) = i AND 0xff"
  "ucast (ucast (i :: u64) :: u16) = i AND 0xffff"
  "ucast (ucast (i :: u64) :: u32) = i AND 0xffffffff"
proof -
  have m: "(0xff :: u64) = mask 8" "(0xffff :: u64) = mask 16" "(0xffffffff :: u64) = mask 32"
    by (simp_all add: mask_eq_exp_minus_1)
  show "ucast (ucast (i :: u64) :: u8) = i AND 0xff"
    "ucast (ucast (i :: u64) :: u16) = i AND 0xffff"
    "ucast (ucast (i :: u64) :: u32) = i AND 0xffffffff"
    unfolding m by (rule bit_word_eqI; auto simp: bit_simps)+
qed

text \<open>
  Writing an integer to a STATIC tag through JSON and reading the tag back through
  JSON gives the integer reduced to the tag's width and signedness, for all eleven
  integer types; the write reports success.
\<close>

theorem static_json_int_roundtrip:
  assumes "neu_tag_attribute_test tag NEU_ATTRIBUTE_STATIC"
    "int_of_type (ttype tag) (val_int v) = Some i" "length (jraw w) = 8"
  shows "\<exists>tag' v'. neu_tag_set_static_value_json tag NEU_JSON_INT v = Some (0, tag') \<and>
    neu_tag_get_static_value_json tag' t w = (0, NEU_JSON_INT, v') \<and> val_int v' = i"
  using assms
  by (cases "ttype tag")
     (auto simp: neu_tag_set_static_value_json_def static_value_of_json_def
        neu_tag_get_static_value_json_def set_static_value_simps get_put_word jget_jput
        ucast_ucast_mask Let_def simp del: ucast_eq)

definition demo_tag :: neu_datatag_t where
  "demo_tag = calloc_tag\<lparr>tname := ''t1'', address := ''1!400001'', attribute := 8,
     ttype := NEU_TYPE_INT16\<rparr>"

lemma static_json_int_roundtrip_witness:
  "\<exists>tag' v'. neu_tag_set_static_value_json demo_tag NEU_JSON_INT
       (jput (0xFFFF :: u64) zero_json_value :: jtree neu_json_value_u) = Some (0, tag') \<and>
    neu_tag_get_static_value_json tag' NEU_JSON_INT (zero_json_value :: jtree neu_json_value_u)
      = (0, NEU_JSON_INT, v') \<and> val_int v' = - 1"
proof (rule static_json_int_roundtrip)
  show "neu_tag_attribute_test demo_tag NEU_ATTRIBUTE_STATIC"
    by (simp add: demo_tag_def neu_tag_attribute_test_def NEU_ATTRIBUTE_STATIC_def)
  show "int_of_type (ttype demo_tag)
      (val_int (jput (0xFFFF :: u64) zero_json_value :: jtree neu_json_value_u)) = Some (- 1)"
    by (simp add: demo_tag_def jget_jput)
qed simp

text \<open>A static value that JSON can carry: no NaN, and a terminated string of bytes.\<close>

definition static_carried :: "'j jansson \<Rightarrow> neu_datatag_t \<Rightarrow> bool" where
  "static_carried J tag \<longleftrightarrow>
     neu_tag_attribute_test tag NEU_ATTRIBUTE_STATIC \<and>
     (case static_ptr tag of
        None \<Rightarrow> False
      | Some v \<Rightarrow>
          (case static_value_json J (ttype tag) v of
             None \<Rightarrow> False
           | Some j \<Rightarrow> (\<exists>s. json_dumps J j = Some s \<and> json_loads J s True = Some j)) \<and>
          (ttype tag = NEU_TYPE_FLOAT \<longrightarrow> f32_dec (get_word v) \<noteq> FNaN) \<and>
          (ttype tag = NEU_TYPE_STRING \<longrightarrow> 0 \<in> set (get_str v)))"

lemma char_byte_char [simp]: "char_byte (byte_char b) = b"
  by (simp add: char_byte_def byte_char_def)

lemma byte_char_byte [simp]: "byte_char (char_byte c) = c"
proof -
  have "(of_char c :: nat) < 256" by (rule nat_of_char_less_256)
  then show ?thesis by (simp add: byte_char_def char_byte_def unat_of_nat)
qed

lemma char_byte_eq_0: "char_byte c = 0 \<longleftrightarrow> c = byte_char 0"
  by (metis byte_char_byte char_byte_char)

lemma c_string_snprintf:
  assumes "length s < n" "byte_char 0 \<notin> set s"
  shows "c_string (snprintf_bytes n s @ r) = s"
proof -
  have "takeWhile (\<lambda>b. b \<noteq> 0) (map char_byte s @ 0 # r) = map char_byte s"
    using assms(2) by (auto simp: takeWhile_append char_byte_eq_0)
  with assms(1) show ?thesis by (simp add: c_string_def snprintf_bytes_def comp_def)
qed

lemma byte_char_0_c_string: "byte_char 0 \<notin> set (c_string bs)"
  by (auto simp: c_string_def dest!: set_takeWhileD)
     (metis char_byte_char)

lemma length_c_string: "0 \<in> set bs \<Longrightarrow> length (c_string bs) < length bs"
  by (induction bs) (auto simp: c_string_def)

lemma get_str_put_str:
  assumes "length (snprintf_bytes NEU_VALUE_SIZE s) \<le> NEU_VALUE_SIZE"
  shows "\<exists>r. get_str (put_str (snprintf_bytes NEU_VALUE_SIZE s) zero_value) =
    snprintf_bytes NEU_VALUE_SIZE s @ r"
  using assms
  by (simp add: get_str_def put_str_def vget_def vput_def peek_def poke_def zero_value_def
      NEU_VALUE_SIZE_def sizeof_neu_value_u_def)

lemma length_get_str: "value_wf v \<Longrightarrow> length (get_str v) = NEU_VALUE_SIZE"
  by (simp add: get_str_def vget_def peek_def value_wf_def NEU_VALUE_SIZE_def sizeof_neu_value_u_def)

lemma str_roundtrip:
  assumes "value_wf v" "0 \<in> set (get_str v)"
  shows "c_string (get_str (put_str (snprintf_bytes NEU_VALUE_SIZE (c_string (get_str v))) zero_value))
    = c_string (get_str v)"
proof -
  have len: "length (c_string (get_str v)) < NEU_VALUE_SIZE"
    using length_c_string [OF assms(2)] length_get_str [OF assms(1)] by simp
  then have "length (snprintf_bytes NEU_VALUE_SIZE (c_string (get_str v))) \<le> NEU_VALUE_SIZE"
    by (simp add: snprintf_bytes_def)
  then show ?thesis
    using get_str_put_str c_string_snprintf [OF len byte_char_0_c_string] by metis
qed

lemma set_static_value_json_other:
  "neu_tag_set_static_value_json tag t v = Some (0, tag') \<Longrightarrow> \<exists>x. tag' = tag\<lparr>static_ptr := Some x\<rparr>"
  by (auto simp: neu_tag_set_static_value_json_def neu_tag_set_static_value_def split: if_splits option.splits)

text \<open>The JSON type that is inferred for the value of a tag of each type.\<close>

definition inferred_type :: "neu_type_e \<Rightarrow> neu_json_type_e" where
  "inferred_type ty =
     (if ty = NEU_TYPE_BOOL then NEU_JSON_BOOL
      else if ty = NEU_TYPE_STRING then NEU_JSON_STR
      else if ty \<in> {NEU_TYPE_FLOAT, NEU_TYPE_DOUBLE} then NEU_JSON_DOUBLE
      else NEU_JSON_INT)"

lemma static_value_load:
  assumes ok: "jansson_ok J" and "static_value_json J (ttype tag) v = Some j" "static_ptr tag = Some v"
    and "ttype tag = NEU_TYPE_FLOAT \<longrightarrow> f32_dec (get_word v) \<noteq> FNaN"
    and "ttype tag = NEU_TYPE_STRING \<longrightarrow> 0 \<in> set (get_str v)" "value_wf v"
    and "neu_tag_attribute_test tag2 NEU_ATTRIBUTE_STATIC" "ttype tag2 = ttype tag"
    and "et ele = NEU_JSON_VALUE" "ev ele = zero_json_value"
    and "(case ename ele of None \<Rightarrow> Some root | Some n \<Rightarrow> json_object_get J root n) = Some j"
  shows "\<exists>e tag'. decode_object J root ele = Some (0, e) \<and>
    neu_tag_set_static_value_json tag2 (et e) (ev e) = Some (0, tag') \<and>
    neu_tag_get_static_value_json tag' t w = neu_tag_get_static_value_json tag t w \<and>
    et e = inferred_type (ttype tag) \<and>
    (ttype tag = NEU_TYPE_STRING \<longrightarrow> jstr (ev e) = Some (c_string (get_str v)))"
proof -
  note load = decode_object_def json_infer_type_def neu_tag_set_static_value_json_def
    static_value_of_json_def neu_tag_get_static_value_json_def set_static_value_simps inferred_type_def
  show ?thesis
    using assms(2-)
    by (cases "ttype tag")
       (auto simp: static_value_json_def load jget_jput get_put_word str_roundtrip
          f64_to_f32_to_f64 val_bool_def put_val_bool_def Let_def
          dest!: jansson_integer [OF ok] jansson_real [OF ok] jansson_string [OF ok]
            jansson_boolean [OF ok])
qed

text \<open>
  Dumping the static value of a tag to text and loading the text into a STATIC tag of
  the same type restores what \<open>neu_tag_get_static_value_json\<close> reports, for every type
  JSON can carry; the load reports success.
\<close>

theorem static_dump_load:
  assumes "jansson_ok J" "static_carried J tag" "\<forall>v. static_ptr tag = Some v \<longrightarrow> value_wf v"
    "neu_tag_attribute_test tag2 NEU_ATTRIBUTE_STATIC" "ttype tag2 = ttype tag"
  shows "\<exists>tag'. neu_tag_load_static_value J tag2 (neu_tag_dump_static_value J tag) = Some (0, tag') \<and>
    neu_tag_get_static_value_json tag' t w = neu_tag_get_static_value_json tag t w"
proof -
  obtain v j s where v: "static_ptr tag = Some v" and j: "static_value_json J (ttype tag) v = Some j"
    and s: "json_dumps J j = Some s" "json_loads J s True = Some j"
    and static: "neu_tag_attribute_test tag NEU_ATTRIBUTE_STATIC"
    and nan: "ttype tag = NEU_TYPE_FLOAT \<longrightarrow> f32_dec (get_word v) \<noteq> FNaN"
    and nul: "ttype tag = NEU_TYPE_STRING \<longrightarrow> 0 \<in> set (get_str v)"
    using assms(2) by (auto simp: static_carried_def split: option.splits)
  have wf: "value_wf v" using assms(3) v by simp
  have dump: "neu_tag_dump_static_value J tag = Some s"
    using static v j s by (simp add: neu_tag_dump_static_value_def set_static_value_simps)
  let ?e = "\<lparr>eattribute = NEU_JSON_ATTRIBUTE_REQUIRED, ename = None, et = NEU_JSON_VALUE, ev = zero_json_value\<rparr>"
  from static_value_load [OF assms(1) j v nan nul wf assms(4,5), of ?e j t w] s assms(4) show ?thesis
    unfolding dump by (auto simp: neu_tag_load_static_value_def neu_json_decode_new_def neu_json_decode_value_def)
qed

definition demo_jansson :: "jtree jansson" where
  "demo_jansson = jt_jansson\<lparr>json_loads := (\<lambda>s any. if s = ''7'' then Some (JTInt 7) else None),
     json_dumps := (\<lambda>j. if j = JTInt 7 then Some ''7'' else None)\<rparr>"

lemma jansson_ok_demo: "jansson_ok demo_jansson"
  using jansson_ok_jt by (simp add: jansson_ok_def demo_jansson_def)

definition demo_static_tag :: neu_datatag_t where
  "demo_static_tag = demo_tag\<lparr>static_ptr := Some (put_word (7 :: u16) zero_value)\<rparr>"

lemma static_dump_load_witness:
  "\<exists>tag'. neu_tag_load_static_value demo_jansson demo_tag
        (neu_tag_dump_static_value demo_jansson demo_static_tag) = Some (0, tag') \<and>
    neu_tag_get_static_value_json tag' NEU_JSON_INT (zero_json_value :: jtree neu_json_value_u) =
    neu_tag_get_static_value_json demo_static_tag NEU_JSON_INT zero_json_value"
proof (rule static_dump_load [OF jansson_ok_demo])
  have 7: "scast (get_u16 (put_word (7 :: u16) zero_value)) = (7 :: u64)"
    by (simp add: get_put_word)
  show "static_carried demo_jansson demo_static_tag"
    using 7 by (simp add: static_carried_def demo_static_tag_def demo_tag_def demo_jansson_def
        jt_jansson_def static_value_json_def neu_tag_attribute_test_def NEU_ATTRIBUTE_STATIC_def)
  show "neu_tag_attribute_test demo_tag NEU_ATTRIBUTE_STATIC"
    by (simp add: demo_tag_def neu_tag_attribute_test_def NEU_ATTRIBUTE_STATIC_def)
qed (simp_all add: demo_static_tag_def)

text \<open>
  The static value of a BIT tag is reported as an integer of which only the low byte is
  written: the other bytes are the caller's.
\<close>

lemma static_bit_json_stale:
  "\<exists>v'. neu_tag_get_static_value_json
       (demo_tag\<lparr>ttype := NEU_TYPE_BIT, static_ptr := Some (put_word (1 :: u8) zero_value)\<rparr>)
       NEU_JSON_INT (jput (0xFFFFFFFFFFFFFFFF :: u64) (zero_json_value :: jtree neu_json_value_u))
     = (0, NEU_JSON_INT, v') \<and> val_int v' = 0xFFFFFFFFFFFFFF01"
proof -
  have raw: "jraw (jput (1 :: u8) (jput (0xFFFFFFFFFFFFFFFF :: u64) (zero_json_value :: jtree neu_json_value_u)))
      = [1, 255, 255, 255, 255, 255, 255, 255]"
    by (simp add: jput_def poke_def bytes_of_word_def zero_json_value_def)
  show ?thesis
    by (simp add: neu_tag_get_static_value_json_def get_put_word jget_def [of "jput 1 _"] raw
        peek_def word_of_bytes_def)
qed

end
