(* ===== verification/Cache.thy ===== *)
theory Cache
  imports Tag
begin

text \<open>
  The value cache of a driver (\<open>src/adapter/driver/cache.c\<close>): one element per group and
  tag, with the last value a plugin reported, its time, its metadata and a \<open>changed\<close> flag
  that says a subscriber has not seen the value yet.

  An operation that C leaves undefined is \<open>None\<close>: freeing or reading a pointer that is
  none, copying more bytes than a \<open>bytes\<close> value has, more than three metas.  The power
  \<open>pow(0.1, precision)\<close> of the C library is the parameter \<open>pw\<close> (a double), the mutex of
  the cache makes every operation atomic.

  The contract the driver uses is the locale \<open>change_cache\<close>: keyed storage, and delivery
  of each change once.
\<close>

section \<open>State\<close>

definition NEU_TAG_META_SIZE :: nat where "NEU_TAG_META_SIZE = 3"

record neu_tag_meta_t =
  mname :: string
  mvalue :: neu_dvalue_t

record cache_elem =
  ce_timestamp :: int
  ce_changed :: bool
  ce_value :: neu_dvalue_t
  ce_metas :: "neu_tag_meta_t list"

type_synonym tkey_t = "string \<times> string"
type_synonym neu_driver_cache_t = "(tkey_t, cache_elem) uthash"

record neu_driver_cache_value_t =
  cv_value :: neu_dvalue_t
  cv_timestamp :: int
  cv_metas :: "neu_tag_meta_t list"

text \<open>
  The fields of the C key are arrays of \<open>NEU_GROUP_NAME_LEN\<close> and \<open>NEU_TAG_NAME_LEN\<close> characters,
  filled by \<open>strcpy\<close>.  Group names come here out of arrays of the same size in the requests, and tag
  names out of tags that passed \<open>neu_adapter_driver_validate_tag\<close> (\<open>validated_tag_fits\<close>).  That
  a name fits is a condition of the model: with a longer one the copy would overrun the key, which is
  undefined in C, while here every name is a key.
\<close>

definition to_key :: "string \<Rightarrow> string \<Rightarrow> tkey_t" where
  "to_key g tag = (g, tag)"

definition zero_dvalue :: neu_dvalue_t where
  "zero_dvalue = \<lparr>dtype = NEU_TYPE_INT8, dvalue = zero_value, dprecision = 0\<rparr>"

definition zero_meta :: neu_tag_meta_t where
  "zero_meta = \<lparr>mname = [], mvalue = zero_dvalue\<rparr>"

definition zero_metas :: "neu_tag_meta_t list" where
  "zero_metas = replicate NEU_TAG_META_SIZE zero_meta"

definition zero_cache_value :: neu_driver_cache_value_t where
  "zero_cache_value = \<lparr>cv_value = zero_dvalue, cv_timestamp = 0, cv_metas = zero_metas\<rparr>"

definition neu_driver_cache_new :: neu_driver_cache_t where
  "neu_driver_cache_new = []"

section \<open>Adding and updating\<close>

text \<open>A new element is zeroed; an element that is there keeps its metas.\<close>

definition neu_driver_cache_add ::
  "neu_driver_cache_t \<Rightarrow> string \<Rightarrow> string \<Rightarrow> neu_dvalue_t \<Rightarrow> neu_driver_cache_t" where
  "neu_driver_cache_add cache g tag value =
     (let key = to_key g tag
      in case hash_find cache key of
           None \<Rightarrow> hash_add cache key
             \<lparr>ce_timestamp = 0, ce_changed = False, ce_value = value, ce_metas = zero_metas\<rparr>
         | Some e \<Rightarrow> hash_set cache key
             (e\<lparr>ce_timestamp := 0, ce_changed := False, ce_value := value\<rparr>))"

text \<open>The heap object of a \<open>ptr\<close> value, when it has at least \<open>n\<close> bytes.\<close>

definition ptr_bytes :: "neu_value_u \<Rightarrow> nat \<Rightarrow> bytes option" where
  "ptr_bytes v n =
     (if n = 0 then Some []
      else case vptr v of
             Some obj \<Rightarrow> if n \<le> length obj then Some (take n obj) else None
           | None \<Rightarrow> None)"

text \<open>
  The new \<open>changed\<close> flag when the type of the value is unchanged.  For \<open>bytes\<close> values of
  equal length the code calls \<open>memcpy\<close>, whose result is the destination and never NULL.
\<close>

definition value_changed ::
  "(u8 \<Rightarrow> u64) \<Rightarrow> bool \<Rightarrow> neu_dvalue_t \<Rightarrow> neu_dvalue_t \<Rightarrow> bool option" where
  "value_changed pw changed old new =
     (let ov = dvalue old; nv = dvalue new
      in case dtype new of
           NEU_TYPE_BYTES \<Rightarrow>
             if get_bytes_length ov \<noteq> get_bytes_length nv then Some True
             else if NEU_VALUE_SIZE < get_bytes_length nv then None
             else Some True
         | NEU_TYPE_PTR \<Rightarrow>
             if get_ptr_length ov \<noteq> get_ptr_length nv then Some True
             else (case (ptr_bytes ov (get_ptr_length nv), ptr_bytes nv (get_ptr_length nv)) of
                     (Some a, Some b) \<Rightarrow> Some (if a \<noteq> b then True else changed)
                   | _ \<Rightarrow> None)
         | NEU_TYPE_FLOAT \<Rightarrow>
             if dprecision old = 0 then Some (\<not> f32_eq (get_u32 ov) (get_u32 nv))
             else Some (if f64_less (pw (dprecision old))
                          (f64_abs (f32_to_f64 (f32_sub (get_u32 ov) (get_u32 nv))))
                        then True else changed)
         | NEU_TYPE_DOUBLE \<Rightarrow>
             if dprecision old = 0 then Some (\<not> f64_eq (get_u64 ov) (get_u64 nv))
             else Some (if f64_less (pw (dprecision old)) (f64_abs (f64_sub (get_u64 ov) (get_u64 nv)))
                        then True else changed)
         | NEU_TYPE_ERROR \<Rightarrow> Some True
         | _ \<Rightarrow> Some (if vraw ov \<noteq> vraw nv then True else changed))"

text \<open>
  The value stored.  For \<open>ptr\<close> values the element's own pointer is freed and replaced by
  a copy; other members of the element's union stay.
\<close>

definition value_stored :: "neu_dvalue_t \<Rightarrow> neu_dvalue_t \<Rightarrow> neu_value_u option" where
  "value_stored old new =
     (if dtype new = NEU_TYPE_PTR then
        (let n = get_ptr_length (dvalue new);
             v1 = put_ptr_type (get_ptr_type (dvalue new))
                    (put_ptr_length (of_nat n) (dvalue old))
         in if \<not> ptr_is_null v1 \<and> vptr v1 = None then None
            else map_option (\<lambda>obj. put_ptr obj v1) (ptr_bytes (dvalue new) n))
      else Some (dvalue new))"

definition metas_stored :: "neu_tag_meta_t list \<Rightarrow> neu_tag_meta_t list option" where
  "metas_stored metas =
     (if length metas \<le> NEU_TAG_META_SIZE
      then Some (metas @ replicate (NEU_TAG_META_SIZE - length metas) zero_meta) else None)"

definition elem_update ::
  "(u8 \<Rightarrow> u64) \<Rightarrow> cache_elem \<Rightarrow> int \<Rightarrow> neu_dvalue_t \<Rightarrow> neu_tag_meta_t list \<Rightarrow> bool \<Rightarrow>
    cache_elem option" where
  "elem_update pw e timestamp value metas change =
     (case (if dtype (ce_value e) \<noteq> dtype value then Some True
            else value_changed pw (ce_changed e) (ce_value e) value,
            value_stored (ce_value e) value, metas_stored metas) of
        (Some changed, Some v, Some ms) \<Rightarrow>
          Some (e\<lparr>ce_timestamp := timestamp,
                  ce_changed := (if change then True else changed),
                  ce_value := (ce_value e)\<lparr>dtype := dtype value, dvalue := v\<rparr>,
                  ce_metas := ms\<rparr>)
      | _ \<Rightarrow> None)"

definition neu_driver_cache_update_change ::
  "(u8 \<Rightarrow> u64) \<Rightarrow> neu_driver_cache_t \<Rightarrow> string \<Rightarrow> string \<Rightarrow> int \<Rightarrow> neu_dvalue_t \<Rightarrow>
    neu_tag_meta_t list \<Rightarrow> bool \<Rightarrow> neu_driver_cache_t option" where
  "neu_driver_cache_update_change pw cache g tag timestamp value metas change =
     (let key = to_key g tag
      in case hash_find cache key of
           None \<Rightarrow> Some cache
         | Some e \<Rightarrow>
             map_option (hash_set cache key) (elem_update pw e timestamp value metas change))"

definition neu_driver_cache_update ::
  "(u8 \<Rightarrow> u64) \<Rightarrow> neu_driver_cache_t \<Rightarrow> string \<Rightarrow> string \<Rightarrow> int \<Rightarrow> neu_dvalue_t \<Rightarrow>
    neu_tag_meta_t list \<Rightarrow> neu_driver_cache_t option" where
  "neu_driver_cache_update pw cache g tag timestamp value metas =
     neu_driver_cache_update_change pw cache g tag timestamp value metas False"

section \<open>Reading\<close>

text \<open>The member of the element's type, copied over the caller's union.\<close>

definition copy_value :: "neu_type_e \<Rightarrow> neu_value_u \<Rightarrow> neu_value_u \<Rightarrow> neu_value_u option" where
  "copy_value t src dst =
     (case t of
        NEU_TYPE_INT8 \<Rightarrow> Some (put_word (get_u8 src) dst)
      | NEU_TYPE_UINT8 \<Rightarrow> Some (put_word (get_u8 src) dst)
      | NEU_TYPE_BIT \<Rightarrow> Some (put_word (get_u8 src) dst)
      | NEU_TYPE_INT16 \<Rightarrow> Some (put_word (get_u16 src) dst)
      | NEU_TYPE_UINT16 \<Rightarrow> Some (put_word (get_u16 src) dst)
      | NEU_TYPE_WORD \<Rightarrow> Some (put_word (get_u16 src) dst)
      | NEU_TYPE_INT32 \<Rightarrow> Some (put_word (get_u32 src) dst)
      | NEU_TYPE_UINT32 \<Rightarrow> Some (put_word (get_u32 src) dst)
      | NEU_TYPE_DWORD \<Rightarrow> Some (put_word (get_u32 src) dst)
      | NEU_TYPE_FLOAT \<Rightarrow> Some (put_word (get_u32 src) dst)
      | NEU_TYPE_ERROR \<Rightarrow> Some (put_word (get_u32 src) dst)
      | NEU_TYPE_INT64 \<Rightarrow> Some (put_word (get_u64 src) dst)
      | NEU_TYPE_UINT64 \<Rightarrow> Some (put_word (get_u64 src) dst)
      | NEU_TYPE_DOUBLE \<Rightarrow> Some (put_word (get_u64 src) dst)
      | NEU_TYPE_LWORD \<Rightarrow> Some (put_word (get_u64 src) dst)
      | NEU_TYPE_BOOL \<Rightarrow> Some (put_boolean (get_boolean src) dst)
      | NEU_TYPE_STRING \<Rightarrow> Some (put_str (get_str src) dst)
      | NEU_TYPE_BYTES \<Rightarrow>
          (let n = get_bytes_length src
           in if n \<le> NEU_VALUE_SIZE
              then Some (vput 0 (vget 0 n src) (put_bytes_length (of_nat n) dst)) else None)
      | NEU_TYPE_PTR \<Rightarrow>
          (let n = get_ptr_length src
           in map_option
                (\<lambda>obj. put_ptr obj (put_ptr_type (get_ptr_type src) (put_ptr_length (of_nat n) dst)))
                (ptr_bytes src n)))"

definition merge_metas :: "neu_tag_meta_t list \<Rightarrow> neu_tag_meta_t list \<Rightarrow> neu_tag_meta_t list" where
  "merge_metas src dst = map2 (\<lambda>s d. if 0 < length (mname s) then s else d) src dst"

definition elem_read :: "cache_elem \<Rightarrow> neu_driver_cache_value_t \<Rightarrow> neu_driver_cache_value_t option" where
  "elem_read e value =
     map_option
       (\<lambda>v. \<lparr>cv_value = \<lparr>dtype = dtype (ce_value e), dvalue = v,
                           dprecision = dprecision (ce_value e)\<rparr>,
             cv_timestamp = ce_timestamp e,
             cv_metas = merge_metas (ce_metas e) (cv_metas value)\<rparr>)
       (copy_value (dtype (ce_value e)) (dvalue (ce_value e)) (dvalue (cv_value value)))"

text \<open>
  The result is the return code, the caller's value and, for the \<open>meta\<close> variants, the
  caller's array of metas; \<open>n_meta\<close> above 3 fails an assertion.
\<close>

definition neu_driver_cache_get ::
  "neu_driver_cache_t \<Rightarrow> string \<Rightarrow> string \<Rightarrow> neu_driver_cache_value_t \<Rightarrow>
    (int \<times> neu_driver_cache_value_t) option" where
  "neu_driver_cache_get cache g tag value =
     (case hash_find cache (to_key g tag) of
        None \<Rightarrow> Some (- 1, value)
      | Some e \<Rightarrow> map_option (Pair 0) (elem_read e value))"

definition neu_driver_cache_meta_get ::
  "neu_driver_cache_t \<Rightarrow> string \<Rightarrow> string \<Rightarrow> neu_driver_cache_value_t \<Rightarrow>
    neu_tag_meta_t list \<Rightarrow> nat \<Rightarrow>
    (int \<times> neu_driver_cache_value_t \<times> neu_tag_meta_t list) option" where
  "neu_driver_cache_meta_get cache g tag value metas n_meta =
     (case hash_find cache (to_key g tag) of
        None \<Rightarrow> Some (- 1, value, metas)
      | Some e \<Rightarrow>
          if n_meta \<le> NEU_TAG_META_SIZE
          then map_option (\<lambda>v. (0, v, ce_metas e)) (elem_read e value) else None)"

text \<open>Reading a change takes the flag back, except for errors.\<close>

definition elem_taken :: "cache_elem \<Rightarrow> cache_elem" where
  "elem_taken e = (if dtype (ce_value e) \<noteq> NEU_TYPE_ERROR then e\<lparr>ce_changed := False\<rparr> else e)"

definition neu_driver_cache_get_changed ::
  "neu_driver_cache_t \<Rightarrow> string \<Rightarrow> string \<Rightarrow> neu_driver_cache_value_t \<Rightarrow>
    (int \<times> neu_driver_cache_value_t \<times> neu_driver_cache_t) option" where
  "neu_driver_cache_get_changed cache g tag value =
     (let key = to_key g tag
      in case hash_find cache key of
           None \<Rightarrow> Some (- 1, value, cache)
         | Some e \<Rightarrow>
             if ce_changed e
             then map_option (\<lambda>v. (0, v, hash_set cache key (elem_taken e))) (elem_read e value)
             else Some (- 1, value, cache))"

definition neu_driver_cache_meta_get_changed ::
  "neu_driver_cache_t \<Rightarrow> string \<Rightarrow> string \<Rightarrow> neu_driver_cache_value_t \<Rightarrow>
    neu_tag_meta_t list \<Rightarrow> nat \<Rightarrow>
    (int \<times> neu_driver_cache_value_t \<times> neu_tag_meta_t list \<times> neu_driver_cache_t) option" where
  "neu_driver_cache_meta_get_changed cache g tag value metas n_meta =
     (let key = to_key g tag
      in case hash_find cache key of
           None \<Rightarrow> Some (- 1, value, metas, cache)
         | Some e \<Rightarrow>
             if ce_changed e then
               (if n_meta \<le> NEU_TAG_META_SIZE
                then map_option (\<lambda>v. (0, v, ce_metas e, hash_set cache key (elem_taken e)))
                       (elem_read e value) else None)
             else Some (- 1, value, metas, cache))"

text \<open>Deleting frees the pointer of a \<open>ptr\<close> element, which must be one.\<close>

definition neu_driver_cache_del ::
  "neu_driver_cache_t \<Rightarrow> string \<Rightarrow> string \<Rightarrow> neu_driver_cache_t option" where
  "neu_driver_cache_del cache g tag =
     (let key = to_key g tag
      in case hash_find cache key of
           None \<Rightarrow> Some cache
         | Some e \<Rightarrow>
             if dtype (ce_value e) = NEU_TYPE_PTR \<and> \<not> ptr_is_null (dvalue (ce_value e)) \<and>
                vptr (dvalue (ce_value e)) = None
             then None else Some (hash_del cache key))"

section \<open>Members of the union\<close>

lemma vget_vput_before:
  "off + n \<le> off' \<Longrightarrow> value_wf v \<Longrightarrow> off' \<le> sizeof_neu_value_u \<Longrightarrow>
    vget off n (vput off' bs v) = vget off n v"
  by (simp add: vget_def vput_def value_wf_def peek_poke_before)

lemma vget_vput_after:
  "off' + length bs \<le> off \<Longrightarrow> value_wf v \<Longrightarrow> off' \<le> sizeof_neu_value_u \<Longrightarrow>
    vget off n (vput off' bs v) = vget off n v"
  by (simp add: vget_def vput_def value_wf_def peek_poke_after)

lemma vget_put_ptr [simp]: "vget off n (put_ptr obj v) = vget off n v"
  by (simp add: vget_def put_ptr_def)

lemma value_wf_puts [simp]:
  "value_wf v \<Longrightarrow> value_wf (put_ptr_type t v)" "value_wf v \<Longrightarrow> value_wf (put_ptr_length n v)"
  "value_wf v \<Longrightarrow> value_wf (put_bytes_length m v)"
  "value_wf v \<Longrightarrow> length bs \<le> NEU_VALUE_SIZE \<Longrightarrow> value_wf (put_str bs v)"
  by (simp_all add: put_ptr_type_def put_ptr_length_def put_bytes_length_def put_str_def
      NEU_VALUE_SIZE_def sizeof_neu_value_u_def)

lemma get_ptr_simps [simp]:
  assumes "value_wf v"
  shows "get_ptr_type (put_ptr_type t v) = t"
    "get_ptr_length (put_ptr_type t v) = get_ptr_length v"
    "get_ptr_length (put_ptr_length n v) = unat n"
    "get_ptr_type (put_ptr obj v) = get_ptr_type v"
    "get_ptr_length (put_ptr obj v) = get_ptr_length v"
    "vptr (put_ptr obj v) = Some obj"
    "vptr (put_ptr_type t v) = vptr v"
    "vptr (put_ptr_length n v) = vptr v"
    "ptr_is_null (put_ptr_type t v) = ptr_is_null v"
    "ptr_is_null (put_ptr_length n v) = ptr_is_null v"
  using assms
  by (simp_all add: get_ptr_type_def get_ptr_length_def put_ptr_type_def put_ptr_length_def
      vget_vput_same vget_vput_after ptr_is_null_def put_ptr_def sizeof_neu_value_u_def
      vget_def [of _ _ "v\<lparr>vptr := _\<rparr>"])
     (simp_all add: vput_def vget_def)

section \<open>The meaning of a value\<close>

text \<open>What a value of a type says, apart from the bytes of the union its member leaves out.\<close>

datatype value_meaning =
    VM_word u64 | VM_bool bool | VM_str bytes | VM_bytes bytes | VM_ptr u32 "bytes option"

definition value_meaning :: "neu_type_e \<Rightarrow> neu_value_u \<Rightarrow> value_meaning" where
  "value_meaning t v =
     (if t \<in> {NEU_TYPE_INT8, NEU_TYPE_UINT8, NEU_TYPE_BIT} then VM_word (ucast (get_u8 v))
      else if t \<in> {NEU_TYPE_INT16, NEU_TYPE_UINT16, NEU_TYPE_WORD} then VM_word (ucast (get_u16 v))
      else if t \<in> {NEU_TYPE_INT32, NEU_TYPE_UINT32, NEU_TYPE_DWORD, NEU_TYPE_FLOAT, NEU_TYPE_ERROR}
      then VM_word (ucast (get_u32 v))
      else if t = NEU_TYPE_BOOL then VM_bool (get_boolean v)
      else if t = NEU_TYPE_STRING then VM_str (get_str v)
      else if t = NEU_TYPE_BYTES then VM_bytes (vget 0 (get_bytes_length v) v)
      else if t = NEU_TYPE_PTR then VM_ptr (get_ptr_type v) (ptr_bytes v (get_ptr_length v))
      else VM_word (get_u64 v))"

definition value_ok :: "neu_dvalue_t \<Rightarrow> bool" where
  "value_ok d \<longleftrightarrow> value_wf (dvalue d) \<and>
     (dtype d = NEU_TYPE_BYTES \<longrightarrow> get_bytes_length (dvalue d) \<le> NEU_VALUE_SIZE) \<and>
     (dtype d = NEU_TYPE_PTR \<longrightarrow>
        (\<exists>obj. vptr (dvalue d) = Some obj \<and> get_ptr_length (dvalue d) \<le> length obj))"

lemma get_ptr_length_less: "get_ptr_length v < 65536"
  using unsigned_less [of "word_of_bytes (vget 4 2 v) :: u16"] by (simp add: get_ptr_length_def)

lemma get_bytes_length_less: "get_bytes_length v < 256"
  using unsigned_less [of "word_of_bytes (vget NEU_VALUE_SIZE 1 v) :: u8"]
  by (simp add: get_bytes_length_def)

lemma word_of_bytes_single [simp]: "word_of_bytes [b] = (b :: u8)"
  by (simp add: word_of_bytes_def)

lemma length_vget: "value_wf v \<Longrightarrow> off + n \<le> sizeof_neu_value_u \<Longrightarrow> length (vget off n v) = n"
  by (simp add: vget_def value_wf_def length_peek)

lemma copy_bytes_meaning:
  assumes "value_wf src" "value_wf dst" and n: "n = get_bytes_length src" "n \<le> NEU_VALUE_SIZE"
  defines "v \<equiv> vput 0 (vget 0 n src) (put_bytes_length (of_nat n) dst)"
  shows "vget 0 (get_bytes_length v) v = vget 0 n src" "value_wf v" "get_bytes_length v = n"
proof -
  have len: "length (vget 0 n src) = n"
    using assms by (simp add: length_vget NEU_VALUE_SIZE_def sizeof_neu_value_u_def)
  show wf: "value_wf v"
    using assms len by (simp add: NEU_VALUE_SIZE_def sizeof_neu_value_u_def)
  have wf1: "value_wf (put_bytes_length (of_nat n) dst)" using assms by simp
  have "get_bytes_length v = get_bytes_length (put_bytes_length (of_nat n) dst)"
    unfolding get_bytes_length_def v_def
    by (subst vget_vput_after) (use wf1 len n in \<open>simp_all add: sizeof_neu_value_u_def\<close>)
  also have "\<dots> = n"
    unfolding get_bytes_length_def put_bytes_length_def
    using assms(2) get_bytes_length_less [of src] n
    by (subst vget_vput_same) (simp_all add: NEU_VALUE_SIZE_def sizeof_neu_value_u_def unat_of_nat)
  finally show "get_bytes_length v = n" .
  then show "vget 0 (get_bytes_length v) v = vget 0 n src"
    unfolding v_def
    by (simp, subst vget_vput_same)
       (use wf1 len n in \<open>simp_all add: NEU_VALUE_SIZE_def sizeof_neu_value_u_def\<close>)
qed

lemma copy_value_meaning:
  assumes "value_wf src" "value_wf dst" "copy_value t src dst = Some v"
  shows "value_meaning t v = value_meaning t src \<and> value_wf v"
proof (cases "t = NEU_TYPE_BYTES \<or> t = NEU_TYPE_STRING \<or> t = NEU_TYPE_PTR")
  case False
  then show ?thesis
    using assms by (cases t) (auto simp: copy_value_def value_meaning_def get_put_word)
next
  case True
  then consider "t = NEU_TYPE_BYTES" | "t = NEU_TYPE_STRING" | "t = NEU_TYPE_PTR" by blast
  then show ?thesis
  proof cases
    case 1
    with assms show ?thesis
      using copy_bytes_meaning [OF assms(1,2) refl]
      by (auto simp: copy_value_def value_meaning_def Let_def split: if_splits)
  next
    case 2
    have "length (get_str src) = NEU_VALUE_SIZE" by (rule length_get_str [OF assms(1)])
    with 2 assms show ?thesis
      by (auto simp: copy_value_def value_meaning_def put_str_def get_str_def vget_vput_same
          NEU_VALUE_SIZE_def sizeof_neu_value_u_def)
  next
    case 3
    with assms get_ptr_length_less [of src] show ?thesis
      by (auto simp: copy_value_def value_meaning_def Let_def ptr_bytes_def unat_of_nat
          split: if_splits option.splits)
  qed
qed

lemma copy_value_defined:
  "value_ok d \<Longrightarrow> copy_value (dtype d) (dvalue d) dst \<noteq> None"
  by (cases "dtype d") (auto simp: copy_value_def value_ok_def ptr_bytes_def Let_def)

section \<open>Invariant\<close>

definition elem_ok :: "cache_elem \<Rightarrow> bool" where
  "elem_ok e \<longleftrightarrow> value_ok (ce_value e) \<and> length (ce_metas e) = NEU_TAG_META_SIZE"

definition cache_ok :: "neu_driver_cache_t \<Rightarrow> bool" where
  "cache_ok c \<longleftrightarrow> hash_wf c \<and> (\<forall>(k, e)\<in>set c. elem_ok e)"

lemma cache_okD: "cache_ok c \<Longrightarrow> hash_find c k = Some e \<Longrightarrow> elem_ok e"
  by (auto simp: cache_ok_def dest!: hash_find_in_set)

lemma cache_ok_wf [simp]: "cache_ok c \<Longrightarrow> hash_wf c"
  by (simp add: cache_ok_def)

lemma cache_ok_new [simp]: "cache_ok neu_driver_cache_new"
  by (simp add: cache_ok_def neu_driver_cache_new_def)

lemma cache_ok_hash_set: "cache_ok c \<Longrightarrow> elem_ok e \<Longrightarrow> cache_ok (hash_set c k e)"
  by (auto simp: cache_ok_def dest!: set_hash_set)

lemma cache_ok_hash_add:
  "cache_ok c \<Longrightarrow> elem_ok e \<Longrightarrow> hash_find c k = None \<Longrightarrow> cache_ok (hash_add c k e)"
  by (auto simp: cache_ok_def hash_add_def hash_wf_def hash_keys_def)

lemma cache_ok_add:
  "cache_ok c \<Longrightarrow> value_ok value \<Longrightarrow> cache_ok (neu_driver_cache_add c g tag value)"
  by (auto simp: neu_driver_cache_add_def Let_def elem_ok_def zero_metas_def
      intro!: cache_ok_hash_set cache_ok_hash_add dest: cache_okD split: option.splits)

lemma value_ok_ptr_del:
  "value_ok d \<Longrightarrow> dtype d = NEU_TYPE_PTR \<Longrightarrow> vptr (dvalue d) \<noteq> None"
  by (auto simp: value_ok_def)

lemma cache_del:
  assumes "cache_ok c"
  shows "neu_driver_cache_del c g tag = Some (hash_del c (g, tag))"
proof (cases "hash_find c (g, tag)")
  case None
  then have "hash_del c (g, tag) = c" by (simp add: hash_del_absent)
  with None show ?thesis
    by (simp add: neu_driver_cache_del_def to_key_def Let_def del: hash_find_None)
next
  case (Some e)
  with cache_okD [OF assms Some] show ?thesis
    by (auto simp: neu_driver_cache_del_def to_key_def elem_ok_def value_ok_def)
qed

lemma cache_ok_hash_del: "cache_ok c \<Longrightarrow> cache_ok (hash_del c k)"
  using set_hash_del [of c k] by (auto simp: cache_ok_def)

section \<open>Updating an element\<close>

text \<open>
  A value the plugin may report for an element: a good value, and when it is a pointer
  the element's own pointer is one or NULL.
\<close>

definition update_ok :: "cache_elem \<Rightarrow> neu_dvalue_t \<Rightarrow> neu_tag_meta_t list \<Rightarrow> bool" where
  "update_ok e value metas \<longleftrightarrow>
     value_ok value \<and> length metas \<le> NEU_TAG_META_SIZE \<and>
     (dtype value = NEU_TYPE_PTR \<longrightarrow>
        dtype (ce_value e) = NEU_TYPE_PTR \<or> ptr_is_null (dvalue (ce_value e)))"

lemma value_changed_defined:
  "value_ok old \<Longrightarrow> value_ok new \<Longrightarrow> dtype old = dtype new \<Longrightarrow>
    value_changed pw ch old new \<noteq> None"
  by (cases "dtype new") (auto simp: value_changed_def Let_def value_ok_def ptr_bytes_def)

lemma value_stored_ok:
  assumes "value_ok old" "value_ok new"
    "dtype new = NEU_TYPE_PTR \<longrightarrow> dtype old = NEU_TYPE_PTR \<or> ptr_is_null (dvalue old)"
  obtains v where "value_stored old new = Some v"
    "value_ok (old\<lparr>dtype := dtype new, dvalue := v\<rparr>)"
    "value_meaning (dtype new) v = value_meaning (dtype new) (dvalue new)"
proof (cases "dtype new = NEU_TYPE_PTR")
  case False
  with assms that show thesis by (auto simp: value_stored_def value_ok_def)
next
  case True
  then obtain obj where obj: "vptr (dvalue new) = Some obj"
    "get_ptr_length (dvalue new) \<le> length obj" and wf: "value_wf (dvalue new)" "value_wf (dvalue old)"
    using assms by (auto simp: value_ok_def)
  have bytes: "ptr_bytes (dvalue new) (get_ptr_length (dvalue new))
      = Some (take (get_ptr_length (dvalue new)) obj)"
    using obj by (simp add: ptr_bytes_def)
  have free: "ptr_is_null (dvalue old) \<or> vptr (dvalue old) \<noteq> None"
    using assms True by (auto simp: value_ok_def)
  define v where "v = put_ptr (take (get_ptr_length (dvalue new)) obj)
    (put_ptr_type (get_ptr_type (dvalue new))
      (put_ptr_length (of_nat (get_ptr_length (dvalue new))) (dvalue old)))"
  have len: "get_ptr_length v = get_ptr_length (dvalue new)"
    using wf get_ptr_length_less [of "dvalue new"] by (simp add: v_def unat_of_nat)
  show thesis
  proof (rule that [of v])
    show "value_stored old new = Some v"
      using True free wf bytes by (auto simp: value_stored_def Let_def v_def)
    have "vptr v = Some (take (get_ptr_length (dvalue new)) obj)" using wf by (simp add: v_def)
    moreover have "value_wf v" using wf by (simp add: v_def)
    ultimately show "value_ok (old\<lparr>dtype := dtype new, dvalue := v\<rparr>)"
      using True obj len by (simp add: value_ok_def)
    show "value_meaning (dtype new) v = value_meaning (dtype new) (dvalue new)"
      using True wf obj len by (simp add: value_meaning_def ptr_bytes_def v_def)
  qed
qed

lemma elem_update_ok:
  assumes "elem_ok e" "update_ok e value metas"
  obtains e' where "elem_update pw e ts value metas change = Some e'" "elem_ok e'"
    "dtype (ce_value e') = dtype value" "ce_timestamp e' = ts"
    "dprecision (ce_value e') = dprecision (ce_value e)"
    "value_meaning (dtype value) (dvalue (ce_value e')) = value_meaning (dtype value) (dvalue value)"
proof -
  have ok: "value_ok (ce_value e)" "value_ok value" and len: "length metas \<le> NEU_TAG_META_SIZE"
    using assms by (auto simp: elem_ok_def update_ok_def)
  obtain v where v: "value_stored (ce_value e) value = Some v"
    "value_ok ((ce_value e)\<lparr>dtype := dtype value, dvalue := v\<rparr>)"
    "value_meaning (dtype value) v = value_meaning (dtype value) (dvalue value)"
    by (rule value_stored_ok [OF ok]) (use assms in \<open>auto simp: update_ok_def\<close>)
  obtain ms where ms: "metas_stored metas = Some ms" "length ms = NEU_TAG_META_SIZE"
    using len by (auto simp: metas_stored_def)
  obtain ch where ch: "(if dtype (ce_value e) \<noteq> dtype value then Some True
      else value_changed pw (ce_changed e) (ce_value e) value) = Some ch"
    using value_changed_defined [OF ok] by (cases "dtype (ce_value e) = dtype value") auto
  show thesis
    by (rule that [of "e\<lparr>ce_timestamp := ts, ce_changed := (if change then True else ch),
        ce_value := (ce_value e)\<lparr>dtype := dtype value, dvalue := v\<rparr>, ce_metas := ms\<rparr>"])
       (use v ms ch in \<open>simp_all add: elem_update_def elem_ok_def\<close>)
qed

lemma elem_read_ok:
  assumes "elem_ok e" "value_wf (dvalue (cv_value value))"
  obtains cv where "elem_read e value = Some cv" "cv_timestamp cv = ce_timestamp e"
    "dtype (cv_value cv) = dtype (ce_value e)" "dprecision (cv_value cv) = dprecision (ce_value e)"
    "value_meaning (dtype (ce_value e)) (dvalue (cv_value cv)) =
       value_meaning (dtype (ce_value e)) (dvalue (ce_value e))"
    "value_wf (dvalue (cv_value cv))"
proof -
  from assms have ok: "value_ok (ce_value e)" by (simp add: elem_ok_def)
  from copy_value_defined [OF this] obtain v where
    v: "copy_value (dtype (ce_value e)) (dvalue (ce_value e)) (dvalue (cv_value value)) = Some v"
    by fast
  with copy_value_meaning [OF _ assms(2) v] ok show thesis
    by (intro that) (auto simp: elem_read_def value_ok_def)
qed

text \<open>
  C8: After a plugin reports a good value for a tag of the cache, a read gives exactly
  that value (type, meaning and time), the update and the read are defined, no other tag
  of the cache is touched, and the cache keeps its invariant.
\<close>

theorem cache_get_update:
  assumes "cache_ok c" "hash_find c (g, tag) = Some e" "update_ok e value metas"
    "value_wf (dvalue (cv_value w))"
  shows "\<exists>c' cv. neu_driver_cache_update_change pw c g tag ts value metas change = Some c' \<and>
    neu_driver_cache_get c' g tag w = Some (0, cv) \<and>
    cv_timestamp cv = ts \<and> dtype (cv_value cv) = dtype value \<and>
    dprecision (cv_value cv) = dprecision (ce_value e) \<and>
    value_meaning (dtype value) (dvalue (cv_value cv)) = value_meaning (dtype value) (dvalue value) \<and>
    (\<forall>k. k \<noteq> (g, tag) \<longrightarrow> hash_find c' k = hash_find c k) \<and> cache_ok c'"
proof -
  have ok: "elem_ok e" by (rule cache_okD [OF assms(1,2)])
  obtain e' where e': "elem_update pw e ts value metas change = Some e'" "elem_ok e'"
    "dtype (ce_value e') = dtype value" "ce_timestamp e' = ts"
    "dprecision (ce_value e') = dprecision (ce_value e)"
    "value_meaning (dtype value) (dvalue (ce_value e')) = value_meaning (dtype value) (dvalue value)"
    by (rule elem_update_ok [OF ok assms(3)])
  obtain cv where cv: "elem_read e' w = Some cv" "cv_timestamp cv = ts"
    "dtype (cv_value cv) = dtype value" "dprecision (cv_value cv) = dprecision (ce_value e)"
    "value_meaning (dtype value) (dvalue (cv_value cv)) = value_meaning (dtype value) (dvalue value)"
    by (rule elem_read_ok [OF e'(2) assms(4)]) (use e' in auto)
  have find: "hash_find (hash_set c (g, tag) e') = (hash_find c)((g, tag) \<mapsto> e')"
    using assms(1,2) by (intro ut.find_put) auto
  show ?thesis
    using assms(1,2) e'(1,2) cv find cache_ok_hash_set [OF assms(1) e'(2)]
    by (simp add: neu_driver_cache_update_change_def to_key_def neu_driver_cache_get_def)
qed

section \<open>Changes are delivered once\<close>

text \<open>
  The contract between the cache and the report of a driver: \<open>pend c k\<close> says a change of
  \<open>k\<close> waits, \<open>take c k\<close> delivers it, \<open>sticky c k\<close> marks the keys (errors) whose change
  keeps waiting.
\<close>

locale change_cache =
  fixes ok :: "'c \<Rightarrow> bool"
    and pend :: "'c \<Rightarrow> 'k \<Rightarrow> bool"
    and sticky :: "'c \<Rightarrow> 'k \<Rightarrow> bool"
    and take_change :: "'c \<Rightarrow> 'k \<Rightarrow> ('v \<times> 'c) option"
  assumes take_None: "ok c \<Longrightarrow> take_change c k = None \<longleftrightarrow> \<not> pend c k"
    and take_ok: "ok c \<Longrightarrow> take_change c k = Some (v, c') \<Longrightarrow> ok c'"
    and take_pend: "ok c \<Longrightarrow> take_change c k = Some (v, c') \<Longrightarrow>
      pend c' k' \<longleftrightarrow> pend c k' \<and> (k' = k \<longrightarrow> sticky c k)"
    and take_sticky: "ok c \<Longrightarrow> take_change c k = Some (v, c') \<Longrightarrow> sticky c' k' = sticky c k'"
begin

text \<open>A second delivery, with nothing reported in between, finds nothing.\<close>

lemma take_twice:
  assumes "ok c" "take_change c k = Some (v, c')" "\<not> sticky c k"
  shows "take_change c' k = None"
  using assms take_None [OF take_ok [OF assms(1,2)]] take_pend [OF assms(1,2)] by blast

lemma take_sticky_again:
  assumes "ok c" "take_change c k = Some (v, c')" "sticky c k"
  shows "take_change c' k \<noteq> None"
proof -
  have "pend c k" using take_None [OF assms(1), of k] assms(2) by auto
  then have "pend c' k" using take_pend [OF assms(1,2), of k] assms(3) by blast
  then show ?thesis using take_None [OF take_ok [OF assms(1,2)], of k] by blast
qed

lemma take_other:
  assumes "ok c" "take_change c k = Some (v, c')" "k' \<noteq> k"
  shows "take_change c' k' = None \<longleftrightarrow> take_change c k' = None"
  using assms take_None take_ok [OF assms(1,2)] take_pend [OF assms(1,2)] by blast

text \<open>A change that is not delivered is not lost.\<close>

lemma pend_kept:
  assumes "ok c" "take_change c k = Some (v, c')" "pend c k'" "k' \<noteq> k"
  shows "pend c' k'"
  using assms take_pend [OF assms(1,2)] by blast

end

definition cache_pending :: "neu_driver_cache_t \<Rightarrow> tkey_t \<Rightarrow> bool" where
  "cache_pending c k \<longleftrightarrow> (case hash_find c k of Some e \<Rightarrow> ce_changed e | None \<Rightarrow> False)"

definition cache_sticky :: "neu_driver_cache_t \<Rightarrow> tkey_t \<Rightarrow> bool" where
  "cache_sticky c k \<longleftrightarrow>
     (case hash_find c k of Some e \<Rightarrow> dtype (ce_value e) = NEU_TYPE_ERROR | None \<Rightarrow> False)"

definition cache_take ::
  "neu_driver_cache_t \<Rightarrow> tkey_t \<Rightarrow>
    ((neu_driver_cache_value_t \<times> neu_tag_meta_t list) \<times> neu_driver_cache_t) option" where
  "cache_take c k =
     (case neu_driver_cache_meta_get_changed c (fst k) (snd k) zero_cache_value zero_metas
             NEU_TAG_META_SIZE of
        Some (r, v, ms, c') \<Rightarrow> if r = 0 then Some ((v, ms), c') else None
      | None \<Rightarrow> None)"

lemma elem_taken_simps [simp]:
  "ce_value (elem_taken e) = ce_value e" "ce_metas (elem_taken e) = ce_metas e"
  "ce_timestamp (elem_taken e) = ce_timestamp e"
  "ce_changed (elem_taken e) \<longleftrightarrow> ce_changed e \<and> dtype (ce_value e) = NEU_TYPE_ERROR"
  by (auto simp: elem_taken_def)

lemma elem_ok_taken [simp]: "elem_ok (elem_taken e) = elem_ok e"
  by (simp add: elem_ok_def)

lemma zero_cache_value_wf [simp]: "value_wf (dvalue (cv_value zero_cache_value))"
  by (simp add: zero_cache_value_def zero_dvalue_def)

lemma cache_take_elem:
  assumes "cache_ok c"
  shows "cache_take c k =
    (case hash_find c k of
       Some e \<Rightarrow> if ce_changed e
         then Some ((the (elem_read e zero_cache_value), ce_metas e), hash_set c k (elem_taken e))
         else None
     | None \<Rightarrow> None)"
proof (cases "hash_find c k")
  case None
  then show ?thesis
    by (simp add: cache_take_def neu_driver_cache_meta_get_changed_def to_key_def Let_def
        del: hash_find_None)
next
  case (Some e)
  obtain cv where "elem_read e zero_cache_value = Some cv"
    by (rule elem_read_ok [OF cache_okD [OF assms Some] zero_cache_value_wf])
  with Some show ?thesis
    by (simp add: cache_take_def neu_driver_cache_meta_get_changed_def to_key_def)
qed

interpretation feed: change_cache cache_ok cache_pending cache_sticky cache_take
proof
  fix c k
  assume ok: "cache_ok c"
  show "cache_take c k = None \<longleftrightarrow> \<not> cache_pending c k"
    by (auto simp: cache_take_elem [OF ok] cache_pending_def dest: hash_find_Some_key
        split: option.splits)
  fix v c' k'
  assume "cache_take c k = Some (v, c')"
  then obtain e where e: "hash_find c k = Some e" "ce_changed e" "c' = hash_set c k (elem_taken e)"
    by (auto simp: cache_take_elem [OF ok] split: option.splits if_splits)
  have find: "hash_find c' = (hash_find c)(k \<mapsto> elem_taken e)"
    unfolding e(3) using ok e(1) by (intro ut.find_put) auto
  show "cache_ok c'"
    unfolding e(3) using ok cache_okD [OF ok e(1)] by (intro cache_ok_hash_set) auto
  show "cache_pending c' k' \<longleftrightarrow> cache_pending c k' \<and> (k' = k \<longrightarrow> cache_sticky c k)"
    using e(1,2) by (auto simp: cache_pending_def cache_sticky_def find)
  show "cache_sticky c' k' = cache_sticky c k'"
    using e(1,2) by (auto simp: cache_sticky_def find)
qed

text \<open>
  C9: A change is delivered once: \<open>neu_driver_cache_meta_get_changed\<close> answers 0 exactly
  when the flag of the tag is set; a second call right after it answers -1 unless the
  value is an error, whose change keeps being delivered; and the pending changes of other
  tags are untouched.
\<close>

theorem cache_change_once:
  assumes "cache_ok c" "hash_find c (g, tag) = Some e"
  shows "case neu_driver_cache_meta_get_changed c g tag zero_cache_value zero_metas NEU_TAG_META_SIZE of
      None \<Rightarrow> False
    | Some (r, v, ms, c') \<Rightarrow>
        (r = 0 \<longleftrightarrow> ce_changed e) \<and> (r \<noteq> 0 \<longrightarrow> c' = c) \<and> cache_ok c' \<and>
        (r = 0 \<longrightarrow> cache_pending c' (g, tag) = (dtype (ce_value e) = NEU_TYPE_ERROR)) \<and>
        (\<forall>k. k \<noteq> (g, tag) \<longrightarrow> cache_pending c' k = cache_pending c k)"
proof -
  obtain cv where cv: "elem_read e zero_cache_value = Some cv"
    by (rule elem_read_ok [OF cache_okD [OF assms] zero_cache_value_wf])
  show ?thesis
  proof (cases "ce_changed e")
    case False
    with assms show ?thesis
      by (simp add: neu_driver_cache_meta_get_changed_def to_key_def)
  next
    case True
    define c' where "c' = hash_set c (g, tag) (elem_taken e)"
    have take_c: "cache_take c (g, tag) = Some ((cv, ce_metas e), c')"
      using True assms cv by (simp add: cache_take_elem c'_def)
    have "cache_sticky c (g, tag) = (dtype (ce_value e) = NEU_TYPE_ERROR)"
      "cache_pending c (g, tag)"
      using True assms by (simp_all add: cache_sticky_def cache_pending_def)
    with feed.take_pend [OF assms(1) take_c] feed.take_ok [OF assms(1) take_c]
    show ?thesis
      using True assms cv
      by (auto simp: neu_driver_cache_meta_get_changed_def to_key_def simp flip: c'_def)
  qed
qed

section \<open>When a report counts as a change\<close>

definition memcmp_types :: "neu_type_e set" where
  "memcmp_types = {NEU_TYPE_INT8, NEU_TYPE_UINT8, NEU_TYPE_INT16, NEU_TYPE_UINT16, NEU_TYPE_INT32,
     NEU_TYPE_UINT32, NEU_TYPE_INT64, NEU_TYPE_UINT64, NEU_TYPE_BIT, NEU_TYPE_BOOL,
     NEU_TYPE_STRING, NEU_TYPE_WORD, NEU_TYPE_DWORD, NEU_TYPE_LWORD}"

text \<open>
  For the integer, bit, boolean and string types a report sets the \<open>changed\<close> flag when
  the type or any byte of the value differs, an equal report leaves the flag as it was, so
  a pending change is never lost by a later report; a report that forces a change always
  sets it, and so does an error.
\<close>

theorem update_changed_flag:
  assumes "elem_update pw e ts value metas change = Some e'"
    "dtype value \<in> memcmp_types \<or> dtype value = NEU_TYPE_ERROR"
  shows "ce_changed e' \<longleftrightarrow>
    ce_changed e \<or> change \<or> dtype (ce_value e) \<noteq> dtype value \<or> dtype value = NEU_TYPE_ERROR \<or>
    vraw (dvalue (ce_value e)) \<noteq> vraw (dvalue value)"
proof -
  have changed: "value_changed pw (ce_changed e) (ce_value e) value =
      Some (ce_changed e \<or> dtype value = NEU_TYPE_ERROR \<or>
        vraw (dvalue (ce_value e)) \<noteq> vraw (dvalue value))"
    using assms(2) by (cases "dtype value") (simp_all add: value_changed_def memcmp_types_def)
  obtain v ms where "value_stored (ce_value e) value = Some v" "metas_stored metas = Some ms"
    using assms(1) by (auto simp: elem_update_def split: option.splits)
  with assms(1) changed show ?thesis
    by (cases "dtype (ce_value e) = dtype value") (auto simp: elem_update_def)
qed

text \<open>
  Two types break that rule.  A report of the very same bytes value counts as a change,
  and a float tag of precision 0 loses a pending change when the same number is reported
  again before the change was read.
\<close>

lemma bytes_always_changed:
  "value_ok new \<Longrightarrow> dtype new = NEU_TYPE_BYTES \<Longrightarrow> value_changed pw ch old new = Some True"
  by (auto simp: value_changed_def value_ok_def Let_def)

lemma float_change_lost:
  assumes "dtype new = NEU_TYPE_FLOAT" "dprecision old = 0"
    "f32_eq (get_u32 (dvalue old)) (get_u32 (dvalue new))"
  shows "value_changed pw True old new = Some False"
  using assms by (simp add: value_changed_def)

text \<open>
  A pointer reported for an element whose union was not empty before is undefined: the
  code frees what the old value left in the bytes of the pointer.
\<close>

lemma pointer_after_other_value:
  assumes "dtype new = NEU_TYPE_PTR" "vptr (dvalue old) = None" "value_wf (dvalue old)"
    "le_nat (vget 8 8 (dvalue old)) \<noteq> 0"
  shows "value_stored old new = None"
proof -
  have "\<not> ptr_is_null (dvalue old)" using assms by (simp add: ptr_is_null_def)
  with assms show ?thesis by (simp add: value_stored_def Let_def)
qed

section \<open>Witnesses\<close>

definition demo_cache :: neu_driver_cache_t where
  "demo_cache = neu_driver_cache_add neu_driver_cache_new ''grp'' ''t1''
     \<lparr>dtype = NEU_TYPE_ERROR, dvalue = put_word (3011 :: u32) zero_value, dprecision = 0\<rparr>"

definition demo_value :: neu_dvalue_t where
  "demo_value = \<lparr>dtype = NEU_TYPE_INT16, dvalue = put_word (42 :: u16) zero_value, dprecision = 0\<rparr>"

definition demo_elem :: cache_elem where
  "demo_elem = \<lparr>ce_timestamp = 0, ce_changed = False,
     ce_value = \<lparr>dtype = NEU_TYPE_ERROR, dvalue = put_word (3011 :: u32) zero_value, dprecision = 0\<rparr>,
     ce_metas = zero_metas\<rparr>"

lemma demo_cache_find: "hash_find demo_cache (''grp'', ''t1'') = Some demo_elem"
  by (simp add: demo_cache_def demo_elem_def neu_driver_cache_add_def neu_driver_cache_new_def
      to_key_def hash_add_def hash_find_def)

lemma cache_ok_demo: "cache_ok demo_cache"
  unfolding demo_cache_def by (rule cache_ok_add) (simp_all add: value_ok_def)

lemma demo_value_ok: "value_ok demo_value"
  by (simp add: value_ok_def demo_value_def)

lemma cache_get_update_witness:
  "\<exists>c' cv. neu_driver_cache_update_change (\<lambda>_. 0) demo_cache ''grp'' ''t1'' 77 demo_value [] False
      = Some c' \<and> neu_driver_cache_get c' ''grp'' ''t1'' zero_cache_value = Some (0, cv) \<and>
    cv_timestamp cv = 77 \<and> value_meaning NEU_TYPE_INT16 (dvalue (cv_value cv)) = VM_word 42"
proof -
  have "update_ok demo_elem demo_value []"
    using demo_value_ok by (simp add: update_ok_def demo_value_def NEU_TAG_META_SIZE_def)
  moreover have "value_meaning NEU_TYPE_INT16 (dvalue demo_value) = VM_word 42"
    by (simp add: value_meaning_def demo_value_def get_put_word)
  moreover have "dtype demo_value = NEU_TYPE_INT16" by (simp add: demo_value_def)
  ultimately show ?thesis
    using cache_get_update [OF cache_ok_demo demo_cache_find _ zero_cache_value_wf, of demo_value "[]"]
    by metis
qed

lemma cache_change_once_witness:
  "case neu_driver_cache_meta_get_changed demo_cache ''grp'' ''t1'' zero_cache_value zero_metas
      NEU_TAG_META_SIZE of None \<Rightarrow> False | Some (r, v, ms, c') \<Rightarrow> r \<noteq> 0 \<and> c' = demo_cache"
  using cache_change_once [OF cache_ok_demo demo_cache_find]
  by (auto simp: demo_elem_def split: option.splits)

lemma update_changed_flag_witness:
  "\<exists>e'. elem_update (\<lambda>_. 0) demo_elem 5 demo_value [] False = Some e' \<and> ce_changed e'"
proof -
  have "elem_ok demo_elem"
    using cache_okD [OF cache_ok_demo demo_cache_find] .
  moreover have "update_ok demo_elem demo_value []"
    using demo_value_ok by (simp add: update_ok_def demo_value_def NEU_TAG_META_SIZE_def)
  ultimately obtain e' where e': "elem_update (\<lambda>_. 0) demo_elem 5 demo_value [] False = Some e'"
    by (rule elem_update_ok)
  have "dtype demo_value \<in> memcmp_types \<or> dtype demo_value = NEU_TYPE_ERROR"
    by (simp add: demo_value_def memcmp_types_def)
  with update_changed_flag [OF e'] e' show ?thesis
    by (auto simp: demo_value_def demo_elem_def)
qed

end
