(* ===== verification/Group.thy ===== *)
theory Group
  imports Tag "HOL-Library.Multiset"
begin

text \<open>
  Groups of tags (\<open>src/base/group.c\<close>): a name, an interval in milliseconds, a table of
  tags by name, and the time of the last change in microseconds.

  The wall clock (\<open>gettimeofday\<close>) is the argument \<open>now\<close> of the operations that read it.
  The contract is a finite map from names to tags (\<open>group_abs\<close>); \<open>group_ok\<close> is the
  invariant that makes the table one.
\<close>

section \<open>State and operations\<close>

record neu_group_t =
  gname :: string
  gtags :: "(string, neu_datatag_t) uthash"
  ginterval :: u32
  gtimestamp :: int

definition neu_group_new :: "string \<Rightarrow> u32 \<Rightarrow> neu_group_t" where
  "neu_group_new name interval =
     \<lparr>gname = name, gtags = [], ginterval = interval, gtimestamp = 0\<rparr>"

definition neu_group_get_name :: "neu_group_t \<Rightarrow> string" where
  "neu_group_get_name g = gname g"

definition neu_group_set_name :: "neu_group_t \<Rightarrow> string option \<Rightarrow> int \<times> neu_group_t" where
  "neu_group_set_name g name =
     (case name of
        None \<Rightarrow> (NEU_ERR_EINTERNAL, g)
      | Some n \<Rightarrow> (0, g\<lparr>gname := n\<rparr>))"

definition neu_group_get_interval :: "neu_group_t \<Rightarrow> u32" where
  "neu_group_get_interval g = ginterval g"

definition neu_group_set_interval :: "neu_group_t \<Rightarrow> u32 \<Rightarrow> neu_group_t" where
  "neu_group_set_interval g interval = g\<lparr>ginterval := interval\<rparr>"

definition update_timestamp :: "int \<Rightarrow> neu_group_t \<Rightarrow> neu_group_t" where
  "update_timestamp now g = g\<lparr>gtimestamp := now\<rparr>"

definition neu_group_update :: "int \<Rightarrow> neu_group_t \<Rightarrow> u32 \<Rightarrow> int \<times> neu_group_t" where
  "neu_group_update now g interval =
     (0, if ginterval g \<noteq> interval
         then update_timestamp now (g\<lparr>ginterval := interval\<rparr>) else g)"

definition neu_group_add_tag :: "int \<Rightarrow> neu_group_t \<Rightarrow> neu_datatag_t \<Rightarrow> int \<times> neu_group_t" where
  "neu_group_add_tag now g tag =
     (case hash_find (gtags g) (tname tag) of
        Some _ \<Rightarrow> (NEU_ERR_TAG_NAME_CONFLICT, g)
      | None \<Rightarrow>
          (0, update_timestamp now
                (g\<lparr>gtags := hash_add (gtags g) (tname tag) (neu_tag_dup tag)\<rparr>)))"

definition neu_group_update_tag ::
  "int \<Rightarrow> neu_group_t \<Rightarrow> neu_datatag_t \<Rightarrow> int \<times> neu_group_t" where
  "neu_group_update_tag now g tag =
     (case hash_find (gtags g) (tname tag) of
        Some el \<Rightarrow>
          (NEU_ERR_SUCCESS, update_timestamp now
             (g\<lparr>gtags := hash_set (gtags g) (tname tag) (neu_tag_copy el tag)\<rparr>))
      | None \<Rightarrow> (NEU_ERR_TAG_NOT_EXIST, g))"

definition neu_group_del_tag :: "int \<Rightarrow> neu_group_t \<Rightarrow> string \<Rightarrow> int \<times> neu_group_t" where
  "neu_group_del_tag now g tag_name =
     (case hash_find (gtags g) tag_name of
        Some _ \<Rightarrow>
          (NEU_ERR_SUCCESS,
           update_timestamp now (g\<lparr>gtags := hash_del (gtags g) tag_name\<rparr>))
      | None \<Rightarrow> (NEU_ERR_TAG_NOT_EXIST, g))"

text \<open>An element pushed onto an array of tags is a copy.\<close>

definition to_array :: "(string, neu_datatag_t) uthash \<Rightarrow> neu_datatag_t list" where
  "to_array tags = map neu_tag_dup (hash_vals tags)"

definition readable :: "neu_datatag_t \<Rightarrow> bool" where
  "readable t \<longleftrightarrow>
     neu_tag_attribute_test t NEU_ATTRIBUTE_READ \<or>
     neu_tag_attribute_test t NEU_ATTRIBUTE_SUBSCRIBE \<or>
     neu_tag_attribute_test t NEU_ATTRIBUTE_STATIC"

definition to_read_array :: "(string, neu_datatag_t) uthash \<Rightarrow> neu_datatag_t list" where
  "to_read_array tags = map neu_tag_dup (filter readable (hash_vals tags))"

fun split_static_loop ::
  "neu_datatag_t list \<Rightarrow> neu_datatag_t list \<Rightarrow> neu_datatag_t list \<Rightarrow>
    neu_datatag_t list \<times> neu_datatag_t list" where
  "split_static_loop [] sts oth = (sts, oth)"
| "split_static_loop (t # ts) sts oth =
     (if neu_tag_attribute_test t NEU_ATTRIBUTE_STATIC
      then split_static_loop ts (sts @ [neu_tag_dup t]) oth
      else if neu_tag_attribute_test t NEU_ATTRIBUTE_SUBSCRIBE \<or>
              neu_tag_attribute_test t NEU_ATTRIBUTE_READ
      then split_static_loop ts sts (oth @ [neu_tag_dup t])
      else split_static_loop ts sts oth)"

definition split_static_array ::
  "(string, neu_datatag_t) uthash \<Rightarrow> neu_datatag_t list \<times> neu_datatag_t list" where
  "split_static_array tags = split_static_loop (hash_vals tags) [] []"

definition neu_group_get_tag :: "neu_group_t \<Rightarrow> neu_datatag_t list" where
  "neu_group_get_tag g = to_array (gtags g)"

definition neu_group_query_tag :: "neu_group_t \<Rightarrow> string \<Rightarrow> neu_datatag_t list" where
  "neu_group_query_tag g name =
     map neu_tag_dup (filter (\<lambda>t. strstr (tname t) name \<noteq> None) (hash_vals (gtags g)))"

definition neu_group_get_read_tag :: "neu_group_t \<Rightarrow> neu_datatag_t list" where
  "neu_group_get_read_tag g = to_read_array (gtags g)"

definition neu_group_tag_size :: "neu_group_t \<Rightarrow> u16" where
  "neu_group_tag_size g = of_nat (length (gtags g))"

definition neu_group_find_tag :: "neu_group_t \<Rightarrow> string \<Rightarrow> neu_datatag_t option" where
  "neu_group_find_tag g tag = map_option neu_tag_dup (hash_find (gtags g) tag)"

definition neu_group_split_static_tags ::
  "neu_group_t \<Rightarrow> neu_datatag_t list \<times> neu_datatag_t list" where
  "neu_group_split_static_tags g = split_static_array (gtags g)"

text \<open>The callback gets the group's timestamp, the two arrays and the interval.\<close>

definition neu_group_change_test ::
  "neu_group_t \<Rightarrow> int \<Rightarrow> 'a \<Rightarrow>
    (int \<Rightarrow> neu_datatag_t list \<Rightarrow> neu_datatag_t list \<Rightarrow> u32 \<Rightarrow> 'a \<Rightarrow> 'a) \<Rightarrow> 'a" where
  "neu_group_change_test g timestamp arg fn =
     (if gtimestamp g \<noteq> timestamp
      then (let (static_tags, other_tags) = split_static_array (gtags g)
            in fn (gtimestamp g) static_tags other_tags (ginterval g) arg)
      else arg)"

definition neu_group_is_change :: "neu_group_t \<Rightarrow> int \<Rightarrow> bool" where
  "neu_group_is_change g timestamp \<longleftrightarrow> gtimestamp g \<noteq> timestamp"

section \<open>Invariant\<close>

definition group_ok :: "neu_group_t \<Rightarrow> bool" where
  "group_ok g \<longleftrightarrow> hash_wf (gtags g) \<and> (\<forall>(k, t)\<in>set (gtags g). tname t = k \<and> tag_ok t)"

definition group_abs :: "neu_group_t \<Rightarrow> string \<Rightarrow> neu_datatag_t option" where
  "group_abs g = hash_find (gtags g)"

lemma group_okD: "group_ok g \<Longrightarrow> hash_find (gtags g) k = Some t \<Longrightarrow> tname t = k \<and> tag_ok t"
  by (auto simp: group_ok_def dest!: hash_find_in_set)

lemma group_ok_vals: "group_ok g \<Longrightarrow> t \<in> set (hash_vals (gtags g)) \<Longrightarrow> tag_ok t"
  by (auto simp: group_ok_def hash_vals_def)

lemma tag_ok_copy [simp]: "tag_ok (neu_tag_copy a b)"
  by (auto simp: neu_tag_copy_def tag_array_copy_def tag_ok_def static_test_iff [symmetric]
        Let_def split: option.splits)

lemma tname_copy [simp]: "tname (neu_tag_copy a b) = tname b"
  by (simp add: neu_tag_copy_def tag_array_copy_def Let_def split: option.split)

lemma group_ok_new [simp]: "group_ok (neu_group_new name interval)"
  by (simp add: group_ok_def neu_group_new_def)

lemma group_ok_tags [simp]:
  "group_ok (g\<lparr>gtimestamp := ts\<rparr>) = group_ok g" "group_ok (g\<lparr>ginterval := i\<rparr>) = group_ok g"
  "group_ok (g\<lparr>gname := n\<rparr>) = group_ok g"
  by (simp_all add: group_ok_def)

lemma group_ok_add_tag [intro]:
  "group_ok g \<Longrightarrow> neu_group_add_tag now g tag = (r, g') \<Longrightarrow> group_ok g'"
  by (auto simp: neu_group_add_tag_def update_timestamp_def group_ok_def hash_add_def
      hash_wf_def hash_keys_def split: option.splits)

lemma group_ok_update_tag [intro]:
  assumes "group_ok g" "neu_group_update_tag now g tag = (r, g')"
  shows "group_ok g'"
proof (cases "hash_find (gtags g) (tname tag)")
  case None
  with assms show ?thesis by (simp add: neu_group_update_tag_def)
next
  case (Some el)
  have "tname t = k \<and> tag_ok t"
    if "(k, t) \<in> set (hash_set (gtags g) (tname tag) (neu_tag_copy el tag))" for k t
    using set_hash_set [OF that] assms(1) by (auto simp: group_ok_def)
  with Some assms show ?thesis
    by (auto simp: neu_group_update_tag_def update_timestamp_def group_ok_def)
qed

lemma group_ok_del_tag [intro]:
  "group_ok g \<Longrightarrow> neu_group_del_tag now g name = (r, g') \<Longrightarrow> group_ok g'"
  using set_hash_del [of "gtags g" name]
  by (auto simp: neu_group_del_tag_def update_timestamp_def group_ok_def split: option.splits)

section \<open>The group as a map of tags\<close>

lemma group_ok_wf: "group_ok g \<Longrightarrow> hash_wf (gtags g)"
  by (simp add: group_ok_def)

text \<open>
  C12: A group is a map from names to tags: adding a tag under a new name extends the map,
  under a used name changes nothing and reports \<open>NEU_ERR_TAG_NAME_CONFLICT\<close>; updating
  replaces the entry of a known name and refuses an unknown one with
  \<open>NEU_ERR_TAG_NOT_EXIST\<close>; deleting removes exactly that entry; finding answers a copy of the
  entry of the name, or none; each successful change stamps the group and a refused one
  does not, and the invariant is kept throughout.
\<close>

theorem group_refines_map:
  assumes "group_ok g" "tag_ok tag"
  shows "neu_group_add_tag now g tag =
      (if group_abs g (tname tag) = None
       then (0, g\<lparr>gtags := gtags g @ [(tname tag, tag)], gtimestamp := now\<rparr>)
       else (NEU_ERR_TAG_NAME_CONFLICT, g)) \<and>
    group_abs (snd (neu_group_add_tag now g tag)) =
      (if group_abs g (tname tag) = None then (group_abs g)(tname tag \<mapsto> tag) else group_abs g) \<and>
    group_abs (snd (neu_group_update_tag now g tag)) =
      (if group_abs g (tname tag) = None then group_abs g else (group_abs g)(tname tag \<mapsto> tag)) \<and>
    fst (neu_group_update_tag now g tag) =
      (if group_abs g (tname tag) = None then NEU_ERR_TAG_NOT_EXIST else NEU_ERR_SUCCESS) \<and>
    group_abs (snd (neu_group_del_tag now g name)) = (group_abs g)(name := None) \<and>
    fst (neu_group_del_tag now g name) =
      (if group_abs g name = None then NEU_ERR_TAG_NOT_EXIST else NEU_ERR_SUCCESS) \<and>
    neu_group_find_tag g name = group_abs g name \<and>
    gtimestamp (snd (neu_group_update_tag now g tag)) =
      (if group_abs g (tname tag) = None then gtimestamp g else now) \<and>
    gtimestamp (snd (neu_group_del_tag now g name)) =
      (if group_abs g name = None then gtimestamp g else now) \<and>
    group_ok (snd (neu_group_add_tag now g tag)) \<and>
    group_ok (snd (neu_group_update_tag now g tag)) \<and>
    group_ok (snd (neu_group_del_tag now g name))"
proof -
  note wf = group_ok_wf [OF assms(1)]
  have copy: "neu_tag_copy el tag = tag" if "hash_find (gtags g) (tname tag) = Some el" for el
    using group_okD [OF assms(1) that] assms(2) by (simp add: neu_tag_copy_other)
  have ok: "group_ok (snd (neu_group_add_tag now g tag))"
    "group_ok (snd (neu_group_update_tag now g tag))"
    "group_ok (snd (neu_group_del_tag now g name))"
    using assms(1) by (metis group_ok_add_tag group_ok_update_tag group_ok_del_tag prod.collapse)+
  show ?thesis
  proof (intro conjI ok)
    show "group_abs (snd (neu_group_update_tag now g tag)) =
        (if group_abs g (tname tag) = None then group_abs g else (group_abs g)(tname tag \<mapsto> tag))"
      using copy
      by (cases "hash_find (gtags g) (tname tag)")
         (auto simp: neu_group_update_tag_def group_abs_def update_timestamp_def
            ut.find_put [OF wf] simp del: hash_find_None)
    show "group_abs (snd (neu_group_del_tag now g name)) = (group_abs g)(name := None)"
      by (cases "hash_find (gtags g) name")
         (auto simp: neu_group_del_tag_def group_abs_def update_timestamp_def ut.find_del [OF wf]
            simp del: hash_find_None)
    show "group_abs (snd (neu_group_add_tag now g tag)) =
      (if group_abs g (tname tag) = None then (group_abs g)(tname tag \<mapsto> tag) else group_abs g)"
      by (cases "hash_find (gtags g) (tname tag)")
         (auto simp: neu_group_add_tag_def group_abs_def update_timestamp_def
            neu_tag_dup_id [OF assms(2)] ut.find_add [OF wf] simp del: hash_find_None)
    show "neu_group_find_tag g name = group_abs g name"
      using group_okD [OF assms(1), of name]
      by (cases "hash_find (gtags g) name")
         (auto simp: neu_group_find_tag_def group_abs_def neu_tag_dup_id simp del: hash_find_None)
  qed (auto simp: neu_group_add_tag_def neu_group_update_tag_def neu_group_del_tag_def
      group_abs_def update_timestamp_def hash_add_def neu_tag_dup_id [OF assms(2)]
      split: option.splits simp del: hash_find_None)
qed

definition demo_group :: neu_group_t where
  "demo_group = snd (neu_group_add_tag 5 (neu_group_new ''grp'' 1000) demo_tag)"

lemma tag_ok_demo [simp]: "tag_ok demo_tag"
  by (simp add: tag_ok_def demo_tag_def calloc_tag_def neu_tag_attribute_test_def
      NEU_ATTRIBUTE_STATIC_def)

lemma group_ok_demo: "group_ok demo_group"
  unfolding demo_group_def by (metis group_ok_add_tag group_ok_new prod.collapse)

lemma group_refines_map_witness:
  "fst (neu_group_update_tag 9 demo_group demo_tag) = NEU_ERR_SUCCESS \<and>
   fst (neu_group_add_tag 9 demo_group demo_tag) = NEU_ERR_TAG_NAME_CONFLICT \<and>
   neu_group_find_tag demo_group (tname demo_tag) \<noteq> None"
proof -
  have "group_abs demo_group (tname demo_tag) \<noteq> None"
    by (simp add: group_abs_def demo_group_def neu_group_add_tag_def neu_group_new_def
        hash_find_def hash_add_def update_timestamp_def)
  then show ?thesis
    using group_refines_map [OF group_ok_demo tag_ok_demo, of 9 "tname demo_tag"] by simp
qed

section \<open>The arrays of a group\<close>

lemma split_static_loop_append:
  "split_static_loop ts sts oth =
     (sts @ fst (split_static_loop ts [] []), oth @ snd (split_static_loop ts [] []))"
proof (induction ts arbitrary: sts oth)
  case Nil
  then show ?case by simp
next
  case (Cons t ts)
  show ?case
    by (simp add: Cons.IH [of "sts @ _" oth] Cons.IH [of sts "oth @ _"] Cons.IH [of "[_]" "[]"]
        Cons.IH [of "[]" "[_]"] Cons.IH [of sts oth])
qed

lemma split_static_filter:
  "split_static_array tags =
     (map neu_tag_dup (filter (\<lambda>t. neu_tag_attribute_test t NEU_ATTRIBUTE_STATIC) (hash_vals tags)),
      map neu_tag_dup (filter (\<lambda>t. readable t \<and> \<not> neu_tag_attribute_test t NEU_ATTRIBUTE_STATIC)
        (hash_vals tags)))"
proof -
  have "split_static_loop ts [] [] =
     (map neu_tag_dup (filter (\<lambda>t. neu_tag_attribute_test t NEU_ATTRIBUTE_STATIC) ts),
      map neu_tag_dup (filter (\<lambda>t. readable t \<and> \<not> neu_tag_attribute_test t NEU_ATTRIBUTE_STATIC) ts))"
    for ts
  proof (induction ts)
    case Nil
    then show ?case by simp
  next
    case (Cons t ts)
    then show ?case
      by (auto simp: readable_def split_static_loop_append [of ts "[_]"]
          split_static_loop_append [of ts _ "[_]"])
  qed
  then show ?thesis by (simp add: split_static_array_def)
qed

text \<open>
  \<open>neu_group_split_static_tags\<close> partitions the tags a read reports: the static and
  the other tags together are the tags of \<open>neu_group_get_read_tag\<close>, each once, every tag
  of the first array is STATIC and none of the second is.
\<close>

theorem split_static_partition:
  "case neu_group_split_static_tags g of (sts, oth) \<Rightarrow>
     mset sts + mset oth = mset (neu_group_get_read_tag g) \<and>
     list_all (\<lambda>t. neu_tag_attribute_test t NEU_ATTRIBUTE_STATIC) sts \<and>
     list_all (\<lambda>t. \<not> neu_tag_attribute_test t NEU_ATTRIBUTE_STATIC \<and> readable t) oth"
proof -
  have attr: "neu_tag_attribute_test (neu_tag_dup t) a = neu_tag_attribute_test t a" for t a
    by (simp add: neu_tag_attribute_test_def)
  have readable: "readable (neu_tag_dup t) = readable t" for t
    by (simp add: readable_def attr)
  have part: "filter_mset P M + filter_mset (\<lambda>t. readable t \<and> \<not> P t) M = filter_mset readable M"
    if "\<And>t. P t \<Longrightarrow> readable t" for P and M :: "neu_datatag_t multiset"
    using that by (induction M) auto
  have "filter_mset (\<lambda>t. neu_tag_attribute_test t NEU_ATTRIBUTE_STATIC) M +
      filter_mset (\<lambda>t. readable t \<and> \<not> neu_tag_attribute_test t NEU_ATTRIBUTE_STATIC) M =
      filter_mset readable M" for M
    by (rule part) (simp add: readable_def)
  then have "image_mset neu_tag_dup
        (filter_mset (\<lambda>t. neu_tag_attribute_test t NEU_ATTRIBUTE_STATIC) M) +
      image_mset neu_tag_dup
        (filter_mset (\<lambda>t. readable t \<and> \<not> neu_tag_attribute_test t NEU_ATTRIBUTE_STATIC) M) =
      image_mset neu_tag_dup (filter_mset readable M)" for M
    by (metis image_mset_union)
  then show ?thesis
    by (auto simp: neu_group_split_static_tags_def neu_group_get_read_tag_def to_read_array_def
        split_static_filter mset_filter attr list_all_iff readable)
qed

text \<open>The size is the number of tags as long as it fits the result type.\<close>

lemma tag_size_exact: "length (gtags g) < 65536 \<Longrightarrow> unat (neu_group_tag_size g) = length (gtags g)"
  by (simp add: neu_group_tag_size_def unat_of_nat)

end
