(* ===== verification/DriverData.thy ===== *)
theory DriverData
  imports Cache Group
begin

text \<open>
  The data path of a driver (\<open>src/adapter/driver/driver.c\<close>): how a value on its way to the
  device is scaled and put into the tag's byte order (\<open>cal_decimal\<close>, \<open>fix_value\<close>), and how
  cached values become the responses of a read (\<open>read_group\<close>) or of a periodic report
  (\<open>read_report_group\<close>).

  A failing assertion and an undefined conversion are \<open>None\<close>.
\<close>

section \<open>Values to the device\<close>

text \<open>\<open>neu_ntohs_p\<close> applied in place to two bytes of the union.\<close>

definition ntohs_at :: "nat \<Rightarrow> neu_value_u \<Rightarrow> neu_value_u" where
  "ntohs_at off v = vput off (bytes_of_word (neu_ntohs_p (word_of_bytes (vget off 2 v)))) v"

definition put_htonl :: "neu_value_u \<Rightarrow> neu_value_u" where
  "put_htonl v = put_word (neu_htonl_p (get_u32 v)) v"

definition fix_endian32 :: "neu_datatag_t \<Rightarrow> neu_value_u \<Rightarrow> neu_value_u" where
  "fix_endian32 tag v =
     (let e = option_endian (option8 tag)
      in if e = endian_code NEU_DATATAG_ENDIAN_LB32 then ntohs_at 2 (ntohs_at 0 v)
         else if e = endian_code NEU_DATATAG_ENDIAN_BB32 then put_htonl v
         else if e = endian_code NEU_DATATAG_ENDIAN_BL32 then ntohs_at 2 (ntohs_at 0 (put_htonl v))
         else v)"

definition fix_value :: "neu_datatag_t \<Rightarrow> neu_type_e \<Rightarrow> neu_dvalue_t \<Rightarrow> neu_dvalue_t option" where
  "fix_value tag value_type d =
     (let v = dvalue d; e = option_endian (option8 tag);
          fix8 = (\<lambda>t. Some (d\<lparr>dtype := t, dvalue := put_word (ucast (get_u64 v) :: u8) v\<rparr>));
          fix16 =
            (let v1 = put_word (ucast (get_u64 v) :: u16) v
             in Some (d\<lparr>dtype := NEU_TYPE_UINT16,
                  dvalue := (if e = endian_code NEU_DATATAG_ENDIAN_B16
                             then put_word (neu_htons_p (get_u16 v1)) v1 else v1)\<rparr>));
          fix32 = Some (d\<lparr>dtype := NEU_TYPE_UINT32,
                  dvalue := fix_endian32 tag (put_word (ucast (get_u64 v) :: u32) v)\<rparr>);
          fix64 = Some (d\<lparr>dvalue := (if e = endian_code NEU_DATATAG_ENDIAN_B64
                             then put_word (neu_ntohll (get_u64 v)) v else v)\<rparr>)
      in case ttype tag of
           NEU_TYPE_BOOL \<Rightarrow> Some d
         | NEU_TYPE_STRING \<Rightarrow> Some d
         | NEU_TYPE_BYTES \<Rightarrow> Some d
         | NEU_TYPE_BIT \<Rightarrow> fix8 NEU_TYPE_BIT
         | NEU_TYPE_UINT8 \<Rightarrow> fix8 NEU_TYPE_UINT8
         | NEU_TYPE_INT8 \<Rightarrow> fix8 NEU_TYPE_UINT8
         | NEU_TYPE_INT16 \<Rightarrow> fix16
         | NEU_TYPE_UINT16 \<Rightarrow> fix16
         | NEU_TYPE_WORD \<Rightarrow> fix16
         | NEU_TYPE_UINT32 \<Rightarrow> fix32
         | NEU_TYPE_INT32 \<Rightarrow> fix32
         | NEU_TYPE_DWORD \<Rightarrow> fix32
         | NEU_TYPE_FLOAT \<Rightarrow>
             (let d1 = (if value_type \<noteq> NEU_TYPE_FLOAT
                        then d\<lparr>dtype := NEU_TYPE_FLOAT, dvalue := put_word (f64_to_f32 (get_u64 v)) v\<rparr>
                        else d)
              in Some (d1\<lparr>dvalue := fix_endian32 tag (dvalue d1)\<rparr>))
         | NEU_TYPE_DOUBLE \<Rightarrow> fix64
         | NEU_TYPE_UINT64 \<Rightarrow> fix64
         | NEU_TYPE_INT64 \<Rightarrow> fix64
         | NEU_TYPE_LWORD \<Rightarrow> fix64
         | _ \<Rightarrow> None)"

definition decimal_int_types :: "neu_type_e list" where
  "decimal_int_types =
     [NEU_TYPE_INT8, NEU_TYPE_UINT8, NEU_TYPE_INT16, NEU_TYPE_UINT16, NEU_TYPE_INT32,
      NEU_TYPE_UINT32, NEU_TYPE_INT64, NEU_TYPE_UINT64, NEU_TYPE_WORD, NEU_TYPE_LWORD,
      NEU_TYPE_DWORD]"

definition cal_decimal ::
  "neu_type_e \<Rightarrow> neu_type_e \<Rightarrow> neu_value_u \<Rightarrow> u64 \<Rightarrow> neu_value_u option" where
  "cal_decimal tag_type value_type v dec =
     (if tag_type \<in> set decimal_int_types then
        (if value_type = NEU_TYPE_INT64 \<or> value_type = NEU_TYPE_LWORD then
           map_option (\<lambda>w. put_word w v)
             (f64_to_u64 (f64_div (int_to_f64 (uint (get_u64 v))) dec))
         else if value_type = NEU_TYPE_DOUBLE then
           map_option (\<lambda>w. put_word w v) (f64_to_u64 (f64_round (f64_div (get_u64 v) dec)))
         else Some v)
      else if tag_type = NEU_TYPE_FLOAT \<or> tag_type = NEU_TYPE_DOUBLE then
        (if value_type = NEU_TYPE_INT64 \<or> value_type = NEU_TYPE_DOUBLE then
           Some (put_word (f64_div (get_u64 v) dec) v)
         else if value_type = NEU_TYPE_FLOAT then
           Some (put_word (f64_to_f32 (f64_div (f32_to_f64 (get_u32 v)) dec)) v)
         else Some v)
      else Some v)"

section \<open>Values from the cache\<close>

definition NEU_DRIVER_TAG_CACHE_EXPIRE_TIME :: u32 where
  "NEU_DRIVER_TAG_CACHE_EXPIRE_TIME = 60"

record neu_resp_tag_value_meta_t =
  rtag :: string
  rvalue :: neu_dvalue_t
  rmetas :: "neu_tag_meta_t list"

definition error_dvalue :: "int \<Rightarrow> neu_dvalue_t" where
  "error_dvalue code = \<lparr>dtype = NEU_TYPE_ERROR,
     dvalue = put_word (of_int code :: u32) zero_value, dprecision = 0\<rparr>"

definition read_endian :: "neu_datatag_t \<Rightarrow> neu_value_u \<Rightarrow> neu_value_u" where
  "read_endian tag v =
     (let e = option_endian (option8 tag)
      in if ttype tag \<in> {NEU_TYPE_UINT16, NEU_TYPE_INT16} then
           (if e = endian_code NEU_DATATAG_ENDIAN_B16
            then put_word (neu_htons_p (get_u16 v)) v else v)
         else if ttype tag \<in> {NEU_TYPE_FLOAT, NEU_TYPE_UINT32, NEU_TYPE_INT32} then
           (if e = endian_code NEU_DATATAG_ENDIAN_LB32 then ntohs_at 2 (ntohs_at 0 v)
            else if e = endian_code NEU_DATATAG_ENDIAN_BB32 then put_htonl v
            else if e = endian_code NEU_DATATAG_ENDIAN_BL32
            then ntohs_at 2 (ntohs_at 0 (put_htonl v))
            else v)
         else if ttype tag \<in> {NEU_TYPE_DOUBLE, NEU_TYPE_INT64, NEU_TYPE_UINT64} then
           (if e = endian_code NEU_DATATAG_ENDIAN_B64
            then put_word (neu_htonll (get_u64 v)) v else v)
         else v)"

text \<open>
  A tag with a decimal other than 0 is reported as a double, scaled; the number scaled is
  the member of the tag's type.
\<close>

definition scaled_number :: "neu_type_e \<Rightarrow> neu_value_u \<Rightarrow> u64 option" where
  "scaled_number t v =
     (case t of
        NEU_TYPE_INT8 \<Rightarrow> Some (int_to_f64 (sint (get_u8 v)))
      | NEU_TYPE_UINT8 \<Rightarrow> Some (int_to_f64 (uint (get_u8 v)))
      | NEU_TYPE_INT16 \<Rightarrow> Some (int_to_f64 (sint (get_u16 v)))
      | NEU_TYPE_UINT16 \<Rightarrow> Some (int_to_f64 (uint (get_u16 v)))
      | NEU_TYPE_INT32 \<Rightarrow> Some (int_to_f64 (sint (get_u32 v)))
      | NEU_TYPE_UINT32 \<Rightarrow> Some (int_to_f64 (uint (get_u32 v)))
      | NEU_TYPE_INT64 \<Rightarrow> Some (int_to_f64 (sint (get_u64 v)))
      | NEU_TYPE_UINT64 \<Rightarrow> Some (int_to_f64 (uint (get_u64 v)))
      | NEU_TYPE_FLOAT \<Rightarrow> Some (f32_to_f64 (get_u32 v))
      | NEU_TYPE_DOUBLE \<Rightarrow> Some (get_u64 v)
      | _ \<Rightarrow> None)"

definition apply_decimal :: "neu_datatag_t \<Rightarrow> neu_dvalue_t \<Rightarrow> neu_dvalue_t" where
  "apply_decimal tag d =
     (if f64_eq (decimal tag) 0 then d
      else (case scaled_number (ttype tag) (dvalue d) of
              Some x \<Rightarrow> d\<lparr>dtype := NEU_TYPE_DOUBLE,
                dvalue := put_word (f64_mul x (decimal tag)) (dvalue d)\<rparr>
            | None \<Rightarrow> d\<lparr>dtype := ttype tag\<rparr>))"

text \<open>
  The response for a value that was found.  The array of responses is zeroed, and a
  pointer value fills the members of \<open>ptr\<close> only.
\<close>

definition ptr_response :: "neu_value_u \<Rightarrow> neu_dvalue_t" where
  "ptr_response v =
     \<lparr>dtype = NEU_TYPE_PTR,
      dvalue = (let r = put_ptr_type (get_ptr_type v)
                          (put_ptr_length (of_nat (get_ptr_length v)) zero_value)
                in case vptr v of Some obj \<Rightarrow> put_ptr obj r | None \<Rightarrow> vput 8 (vget 8 8 v) r),
      dprecision = 0\<rparr>"

definition tag_response ::
  "neu_datatag_t \<Rightarrow> bool \<Rightarrow> neu_driver_cache_value_t \<Rightarrow> neu_tag_meta_t list \<Rightarrow>
    neu_resp_tag_value_meta_t" where
  "tag_response tag expired value metas =
     \<lparr>rtag = tname tag,
      rvalue =
        (if dtype (cv_value value) = NEU_TYPE_ERROR then cv_value value
         else if \<not> neu_tag_attribute_test tag NEU_ATTRIBUTE_STATIC \<and> expired
         then error_dvalue NEU_ERR_PLUGIN_TAG_VALUE_EXPIRED
         else let d = (cv_value value)\<lparr>dvalue := read_endian tag (dvalue (cv_value value))\<rparr>
              in apply_decimal tag
                   (if dtype d = NEU_TYPE_PTR then ptr_response (dvalue d) else d)),
      rmetas = metas\<rparr>"

definition missing_response :: "neu_datatag_t \<Rightarrow> neu_resp_tag_value_meta_t" where
  "missing_response tag =
     \<lparr>rtag = tname tag, rvalue = error_dvalue NEU_ERR_PLUGIN_TAG_NOT_READY, rmetas = zero_metas\<rparr>"

text \<open>
  The names of tags are copied into the responses by \<open>strcpy\<close>; that they fit is the same condition
  of the model as for the keys of the cache.
\<close>

fun read_group ::
  "int \<Rightarrow> int \<Rightarrow> neu_driver_cache_t \<Rightarrow> string \<Rightarrow> neu_datatag_t list \<Rightarrow>
    neu_resp_tag_value_meta_t list option" where
  "read_group timestamp timeout cache g [] = Some []"
| "read_group timestamp timeout cache g (tag # tags) =
     (case neu_driver_cache_meta_get cache g (tname tag) zero_cache_value zero_metas
             NEU_TAG_META_SIZE of
        None \<Rightarrow> None
      | Some (r, value, metas) \<Rightarrow>
          let resp = (if r \<noteq> 0 then missing_response tag
                      else tag_response tag (timestamp - cv_timestamp value > timeout) value metas)
          in map_option (Cons resp) (read_group timestamp timeout cache g tags))"

fun read_report_group ::
  "int \<Rightarrow> int \<Rightarrow> neu_driver_cache_t \<Rightarrow> string \<Rightarrow> neu_datatag_t list \<Rightarrow>
    (neu_resp_tag_value_meta_t list \<times> neu_driver_cache_t) option" where
  "read_report_group timestamp timeout cache g [] = Some ([], cache)"
| "read_report_group timestamp timeout cache g (tag # tags) =
     (let expired = (\<lambda>value. timestamp - cv_timestamp value > timeout \<and> timeout > 0)
      in if neu_tag_attribute_test tag NEU_ATTRIBUTE_SUBSCRIBE then
           (case neu_driver_cache_meta_get_changed cache g (tname tag) zero_cache_value zero_metas
                   NEU_TAG_META_SIZE of
              None \<Rightarrow> None
            | Some (r, value, metas, cache') \<Rightarrow>
                if r \<noteq> 0 then read_report_group timestamp timeout cache' g tags
                else map_option (apfst (Cons (tag_response tag (expired value) value metas)))
                       (read_report_group timestamp timeout cache' g tags))
         else
           (case neu_driver_cache_meta_get cache g (tname tag) zero_cache_value zero_metas
                   NEU_TAG_META_SIZE of
              None \<Rightarrow> None
            | Some (r, value, metas) \<Rightarrow>
                map_option (apfst (Cons (if r \<noteq> 0 then missing_response tag
                      else tag_response tag (expired value) value metas)))
                  (read_report_group timestamp timeout cache g tags)))"

section \<open>Byte order\<close>

lemma peek_poke_overlap_low:
  "off + n \<le> length raw \<Longrightarrow> length bs \<le> n \<Longrightarrow>
    peek off n (poke off bs raw) = bs @ drop (length bs) (peek off n raw)"
  by (simp add: peek_def poke_def drop_take add.commute)

lemma peek_poke_overlap_high:
  assumes "off + n \<le> length raw" "k + length bs = n"
  shows "peek off n (poke (off + k) bs raw) = take k (peek off n raw) @ bs"
proof -
  have "drop off (poke (off + k) bs raw) = take k (drop off raw) @ bs @ drop (off + k + length bs) raw"
    using assms by (simp add: poke_def drop_take)
  moreover have "length (take k (drop off raw)) = k" using assms by simp
  ultimately show ?thesis using assms(2) by (auto simp: peek_def)
qed

lemma vget_vput_low:
  "value_wf v \<Longrightarrow> off + n \<le> sizeof_neu_value_u \<Longrightarrow> length bs \<le> n \<Longrightarrow>
    vget off n (vput off bs v) = bs @ drop (length bs) (vget off n v)"
  by (simp add: vget_def vput_def value_wf_def peek_poke_overlap_low)

lemma vget_vput_high:
  "value_wf v \<Longrightarrow> off + n \<le> sizeof_neu_value_u \<Longrightarrow> k + length bs = n \<Longrightarrow> off' = off + k \<Longrightarrow>
    vget off n (vput off' bs v) = take k (vget off n v) @ bs"
  by (simp add: vget_def vput_def value_wf_def peek_poke_overlap_high)

lemma value_wf_ntohs_at [simp]:
  "value_wf v \<Longrightarrow> off + 2 \<le> sizeof_neu_value_u \<Longrightarrow> value_wf (ntohs_at off v)"
  by (simp add: ntohs_at_def)

lemma value_wf_put_htonl [simp]: "value_wf v \<Longrightarrow> value_wf (put_htonl v)"
  by (simp add: put_htonl_def)

lemma bytes_ntohs: "bytes_of_word (neu_ntohs_p (word_of_bytes [a, b])) = [b, a]"
  by (simp add: neu_ntohs_p_def bytes_of_word_of_bytes)

lemma vget_split: "value_wf v \<Longrightarrow> vget 0 4 v = [a, b, c, d] \<Longrightarrow> vget 0 2 v = [a, b] \<and> vget 2 2 v = [c, d]"
proof -
  assume "vget 0 4 v = [a, b, c, d]"
  then have 4: "take 4 (vraw v) = [a, b, c, d]" by (simp add: vget_def peek_def)
  have "take 2 (vraw v) = take 2 (take 4 (vraw v))" by simp
  moreover have "take 2 (drop 2 (vraw v)) = drop 2 (take 4 (vraw v))" by (simp add: drop_take)
  ultimately show "vget 0 2 v = [a, b] \<and> vget 2 2 v = [c, d]"
    unfolding 4 by (simp add: vget_def peek_def)
qed

lemma vget_ntohs_both:
  assumes "value_wf v" "vget 0 4 v = [a, b, c, d]"
  shows "vget 0 4 (ntohs_at 2 (ntohs_at 0 v)) = [b, a, d, c]"
proof -
  have wf: "value_wf (ntohs_at 0 v)" using assms(1) by (simp add: sizeof_neu_value_u_def)
  have 1: "vget 0 4 (ntohs_at 0 v) = [b, a, c, d]"
    using assms vget_split [OF assms]
    by (simp add: ntohs_at_def bytes_ntohs vget_vput_low sizeof_neu_value_u_def)
  have "vget 0 4 (vput 2 [d, c] (ntohs_at 0 v)) = take 2 (vget 0 4 (ntohs_at 0 v)) @ [d, c]"
    by (rule vget_vput_high [OF wf]) (simp_all add: sizeof_neu_value_u_def)
  then show ?thesis
    using vget_split [OF wf 1] by (simp add: ntohs_at_def [of 2] bytes_ntohs 1)
qed

lemma vget_put_htonl:
  assumes "value_wf v" "vget 0 4 v = [a, b, c, d]"
  shows "vget 0 4 (put_htonl v) = [d, c, b, a]"
proof -
  have "bytes_of_word (neu_htonl_p (get_u32 v)) = [d, c, b, a]"
    using assms(2)
    by (simp add: neu_htonl_p_def neu_ntohl_p_def get_word_def bytes_of_word_of_bytes)
  then show ?thesis
    using assms(1) by (simp add: put_htonl_def put_word_def vget_vput_same sizeof_neu_value_u_def)
qed

text \<open>The conversion of 32-bit values is a permutation of the four bytes, its own inverse.\<close>

definition endian32_bytes :: "u32 \<Rightarrow> bytes \<Rightarrow> bytes" where
  "endian32_bytes e bs =
     (if e = endian_code NEU_DATATAG_ENDIAN_LB32 then [bs ! 1, bs ! 0, bs ! 3, bs ! 2]
      else if e = endian_code NEU_DATATAG_ENDIAN_BB32 then [bs ! 3, bs ! 2, bs ! 1, bs ! 0]
      else if e = endian_code NEU_DATATAG_ENDIAN_BL32 then [bs ! 2, bs ! 3, bs ! 0, bs ! 1]
      else bs)"

lemma endian32_bytes_involutive: "length bs = 4 \<Longrightarrow> endian32_bytes e (endian32_bytes e bs) = bs"
  by (erule list_of_length_4) (simp add: endian32_bytes_def)

lemma length_endian32 [simp]: "length bs = 4 \<Longrightarrow> length (endian32_bytes e bs) = 4"
  by (simp add: endian32_bytes_def)

lemma vget_fix_endian32:
  assumes "value_wf v"
  shows "vget 0 4 (fix_endian32 tag v) = endian32_bytes (option_endian (option8 tag)) (vget 0 4 v)"
    "value_wf (fix_endian32 tag v)"
proof -
  have "length (vget 0 4 v) = 4" using assms by (simp add: length_vget sizeof_neu_value_u_def)
  then obtain a b c d where v: "vget 0 4 v = [a, b, c, d]" by (rule list_of_length_4)
  have h: "vget 0 4 (put_htonl v) = [d, c, b, a]" by (rule vget_put_htonl [OF assms v])
  have wf: "value_wf (put_htonl v)" using assms by simp
  show "vget 0 4 (fix_endian32 tag v) = endian32_bytes (option_endian (option8 tag)) (vget 0 4 v)"
    using vget_ntohs_both [OF assms v] vget_ntohs_both [OF wf h] h v
    by (simp add: fix_endian32_def endian32_bytes_def Let_def)
  show "value_wf (fix_endian32 tag v)"
    using assms by (simp add: fix_endian32_def Let_def sizeof_neu_value_u_def)
qed

lemma read_endian_32:
  "ttype tag \<in> {NEU_TYPE_FLOAT, NEU_TYPE_UINT32, NEU_TYPE_INT32} \<Longrightarrow>
    read_endian tag v = fix_endian32 tag v"
  by (auto simp: read_endian_def fix_endian32_def Let_def)

lemma get_u32_fix_twice:
  "value_wf v \<Longrightarrow> get_u32 (fix_endian32 tag (fix_endian32 tag v)) = get_u32 v"
  by (simp add: get_word_def vget_fix_endian32 endian32_bytes_involutive length_vget
      sizeof_neu_value_u_def)

lemma bytes_htons: "neu_htons_p (neu_htons_p w) = w"
  using byte_order_involutive(3) [of w] by (simp add: neu_htons_p_def)

lemma htonll_twice: "neu_htonll (neu_ntohll w) = w"
  using byte_order_involutive(1) [of w] by (simp add: neu_ntohll_def)

text \<open>
  The number a tag of each numeric type keeps of the value written to it.
\<close>

definition written_number :: "neu_type_e \<Rightarrow> neu_type_e \<Rightarrow> neu_value_u \<Rightarrow> u64" where
  "written_number t value_type v =
     (if t \<in> {NEU_TYPE_INT16, NEU_TYPE_UINT16} then get_u64 v AND 0xffff
      else if t \<in> {NEU_TYPE_INT32, NEU_TYPE_UINT32} then get_u64 v AND 0xffffffff
      else if t = NEU_TYPE_FLOAT then
        ucast (if value_type = NEU_TYPE_FLOAT then get_u32 v else f64_to_f32 (get_u64 v))
      else get_u64 v)"

definition read_number :: "neu_type_e \<Rightarrow> neu_value_u \<Rightarrow> u64" where
  "read_number t v =
     (if t \<in> {NEU_TYPE_INT16, NEU_TYPE_UINT16} then ucast (get_u16 v)
      else if t \<in> {NEU_TYPE_INT32, NEU_TYPE_UINT32, NEU_TYPE_FLOAT} then ucast (get_u32 v)
      else get_u64 v)"

definition endian_types :: "neu_type_e set" where
  "endian_types = {NEU_TYPE_INT16, NEU_TYPE_UINT16, NEU_TYPE_INT32, NEU_TYPE_UINT32,
     NEU_TYPE_FLOAT, NEU_TYPE_INT64, NEU_TYPE_UINT64, NEU_TYPE_DOUBLE}"

text \<open>
  C11: What is written to a device in the tag's byte order (\<open>fix_value\<close>) reads back as the
  number written, reduced to the width of the tag: the conversion of a read undoes the
  conversion of a write, for every byte order and all eight types that have one.
\<close>

theorem endian_write_read:
  assumes "ttype tag \<in> endian_types" "value_wf (dvalue d)"
  shows "\<exists>d'. fix_value tag (dtype d) d = Some d' \<and> value_wf (dvalue d') \<and>
    read_number (ttype tag) (read_endian tag (dvalue d')) = written_number (ttype tag) (dtype d) (dvalue d)"
proof -
  let ?v = "dvalue d"
  consider "ttype tag \<in> {NEU_TYPE_INT16, NEU_TYPE_UINT16}"
    | "ttype tag \<in> {NEU_TYPE_INT32, NEU_TYPE_UINT32}" | "ttype tag = NEU_TYPE_FLOAT"
    | "ttype tag \<in> {NEU_TYPE_INT64, NEU_TYPE_UINT64, NEU_TYPE_DOUBLE}"
    using assms(1) by (auto simp: endian_types_def)
  then show ?thesis
  proof cases
    case 1
    then show ?thesis
      using assms(2)
      by (auto simp: fix_value_def Let_def read_endian_def read_number_def written_number_def
          get_put_word bytes_htons ucast_ucast_mask simp del: ucast_eq)
  next
    case 2
    then have "fix_value tag (dtype d) d = Some (d\<lparr>dtype := NEU_TYPE_UINT32,
        dvalue := fix_endian32 tag (put_word (ucast (get_u64 ?v) :: u32) ?v)\<rparr>)"
      by (auto simp: fix_value_def Let_def)
    moreover have "value_wf (put_word (ucast (get_u64 ?v) :: u32) ?v)" using assms(2) by simp
    ultimately show ?thesis
      using 2 by (auto simp: read_endian_32 get_u32_fix_twice vget_fix_endian32 read_number_def
          written_number_def get_put_word assms(2) ucast_ucast_mask simp del: ucast_eq)
  next
    case 3
    then show ?thesis
      using assms(2)
      by (auto simp: fix_value_def Let_def read_endian_32 get_u32_fix_twice vget_fix_endian32
          read_number_def written_number_def get_put_word)
  next
    case 4
    then show ?thesis
      using assms(2)
      by (auto simp: fix_value_def Let_def read_endian_def read_number_def written_number_def
          get_put_word htonll_twice)
  qed
qed

definition demo_write :: neu_dvalue_t where
  "demo_write = \<lparr>dtype = NEU_TYPE_INT64, dvalue = put_word (300 :: u64) zero_value, dprecision = 0\<rparr>"

definition demo_tag_be :: neu_datatag_t where
  "demo_tag_be = demo_tag\<lparr>option8 := set_endian NEU_DATATAG_ENDIAN_B16 zero_option\<rparr>"

lemma endian_write_read_witness:
  "\<exists>d'. fix_value demo_tag_be NEU_TYPE_INT64 demo_write = Some d' \<and>
    read_number NEU_TYPE_INT16 (read_endian demo_tag_be (dvalue d')) = 300"
proof -
  have t: "ttype demo_tag_be = NEU_TYPE_INT16" by (simp add: demo_tag_be_def demo_tag_def)
  have d: "dtype demo_write = NEU_TYPE_INT64" "value_wf (dvalue demo_write)"
    "written_number NEU_TYPE_INT16 NEU_TYPE_INT64 (dvalue demo_write) = 300"
    by (simp_all add: written_number_def demo_write_def get_put_word)
  have "NEU_TYPE_INT16 \<in> endian_types" by (simp add: endian_types_def)
  then show ?thesis
    using endian_write_read [of demo_tag_be demo_write] t d by (metis (no_types))
qed

section \<open>Decimals\<close>

text \<open>
  A decimal of 1.0 is neutral: an integer below \<open>2^53\<close> written to an integer tag passes
  \<open>cal_decimal\<close> unchanged, and the report of an integer or of any number scales by the
  identity.
\<close>

theorem decimal_one_neutral:
  assumes "value_wf v" "get_u64 v = of_nat n" "n < 2 ^ 53" "t \<in> set decimal_int_types"
  shows "\<exists>v'. cal_decimal t NEU_TYPE_INT64 v f64_one = Some v' \<and> get_u64 v' = of_nat n \<and>
    f64_mul (int_to_f64 (int n)) f64_one = int_to_f64 (int n)"
proof -
  have "unat (of_nat n :: u64) = n" using assms(3) by (simp add: unat_of_nat)
  then have u: "uint (get_u64 v) = int n" using assms(2) by (metis uint_nat)
  have nan: "f64_dec (int_to_f64 (int n)) \<noteq> FNaN"
  proof (cases "n = 0")
    case True
    then show ?thesis by (simp add: f64_dec_0)
  next
    case False
    have "\<bar>int n\<bar> < 2 ^ 53" using assms(3) by (metis abs_of_nat of_nat_less_numeral_power_cancel_iff)
    then show ?thesis using False f64_dec_int [of "int n"] by (metis abs_of_nat fp.distinct(3) of_nat_0_less_iff neq0_conv)
  qed
  have "cal_decimal t NEU_TYPE_INT64 v f64_one = Some (put_word (of_nat n :: u64) v)"
    using assms(4) by (simp add: cal_decimal_def u f64_div_one [OF nan] f64_to_u64_int [OF assms(3)])
  then show ?thesis using assms(1) nan by (simp add: get_put_word f64_mul_one)
qed

lemma decimal_one_neutral_witness:
  "\<exists>v'. cal_decimal NEU_TYPE_INT16 NEU_TYPE_INT64 (put_word (300 :: u64) zero_value) f64_one = Some v' \<and>
    get_u64 v' = 300"
  using decimal_one_neutral [of "put_word (300 :: u64) zero_value" 300 NEU_TYPE_INT16]
  by (auto simp: get_put_word decimal_int_types_def)

text \<open>
  A negative integer is read as an unsigned one before the division: writing -1 to a tag
  with decimal 1.0 converts \<open>2^64\<close> to \<open>uint64_t\<close>, which is undefined.
\<close>

lemma cal_decimal_negative:
  assumes "value_wf v" "get_u64 v = - 1" "t \<in> set decimal_int_types"
  shows "cal_decimal t NEU_TYPE_INT64 v f64_one = None"
proof -
  have len: "bit_length 2200 18446744073709551615 = 64"
    by (rule bit_length_unique) simp_all
  have two64: "int_to_f64 18446744073709551615 = 0x43F0000000000000"
    by (simp add: int_to_f64_def f64_enc_def fp_of_int_def fp_encode_def fp_round_def len
        round_shift_def fp_pack_def Let_def)
  have dec: "f64_dec 0x43F0000000000000 = FFin False (2 ^ 52) 12"
    by (simp add: f64_dec_def fp_decode_def Let_def)
  then have "f64_to_u64 (f64_div (int_to_f64 18446744073709551615) f64_one) = None"
    by (simp add: two64 f64_div_one f64_to_u64_def fp_trunc_def)
  moreover have "uint (- 1 :: u64) = 18446744073709551615"
    by (simp add: unsigned_minus_1_eq_mask mask_eq_exp_minus_1)
  ultimately show ?thesis using assms by (simp add: cal_decimal_def)
qed

section \<open>Responses of a read\<close>

lemma meta_get:
  assumes "cache_ok c"
  shows "case hash_find c (g, t) of
      None \<Rightarrow> neu_driver_cache_meta_get c g t zero_cache_value zero_metas NEU_TAG_META_SIZE
        = Some (- 1, zero_cache_value, zero_metas)
    | Some e \<Rightarrow> (\<exists>cv. neu_driver_cache_meta_get c g t zero_cache_value zero_metas NEU_TAG_META_SIZE
        = Some (0, cv, ce_metas e) \<and> cv_timestamp cv = ce_timestamp e \<and>
        dtype (cv_value cv) = dtype (ce_value e) \<and>
        value_meaning (dtype (ce_value e)) (dvalue (cv_value cv)) =
          value_meaning (dtype (ce_value e)) (dvalue (ce_value e)))"
proof (cases "hash_find c (g, t)")
  case None
  then show ?thesis
    by (simp add: neu_driver_cache_meta_get_def to_key_def del: hash_find_None)
next
  case (Some e)
  obtain cv where "elem_read e zero_cache_value = Some cv" "cv_timestamp cv = ce_timestamp e"
    "dtype (cv_value cv) = dtype (ce_value e)"
    "value_meaning (dtype (ce_value e)) (dvalue (cv_value cv)) =
          value_meaning (dtype (ce_value e)) (dvalue (ce_value e))"
    by (rule elem_read_ok [OF cache_okD [OF assms Some] zero_cache_value_wf])
  with Some show ?thesis
    by (simp add: neu_driver_cache_meta_get_def to_key_def)
qed

text \<open>What the response for a tag must be, given the cache.\<close>

definition response_spec ::
  "int \<Rightarrow> int \<Rightarrow> neu_driver_cache_t \<Rightarrow> string \<Rightarrow> neu_datatag_t \<Rightarrow> neu_resp_tag_value_meta_t \<Rightarrow> bool"
  where
  "response_spec timestamp timeout c g tag r \<longleftrightarrow>
     rtag r = tname tag \<and>
     (case hash_find c (g, tname tag) of
        None \<Rightarrow> rvalue r = error_dvalue NEU_ERR_PLUGIN_TAG_NOT_READY
      | Some e \<Rightarrow>
          if dtype (ce_value e) = NEU_TYPE_ERROR
          then dtype (rvalue r) = NEU_TYPE_ERROR \<and>
               get_u32 (dvalue (rvalue r)) = get_u32 (dvalue (ce_value e))
          else if \<not> neu_tag_attribute_test tag NEU_ATTRIBUTE_STATIC \<and>
                  timestamp - ce_timestamp e > timeout
          then rvalue r = error_dvalue NEU_ERR_PLUGIN_TAG_VALUE_EXPIRED
          else f64_eq (decimal tag) 0 \<longrightarrow> dtype (rvalue r) = dtype (ce_value e))"

lemma apply_decimal_0: "f64_eq (decimal tag) 0 \<Longrightarrow> apply_decimal tag d = d"
  by (simp add: apply_decimal_def)

lemma ucast_u32_u64_inject: "ucast (a :: u32) = (ucast b :: u64) \<longleftrightarrow> a = b"
  by (metis narrow_widen(5))

text \<open>A read is defined whenever the cache keeps its invariant, and answers every tag, in order.\<close>

lemma read_group_spec:
  assumes "cache_ok c"
  shows "\<exists>rs. read_group timestamp timeout c g tags = Some rs \<and>
    list_all2 (response_spec timestamp timeout c g) tags rs"
proof (induction tags)
  case Nil
  then show ?case by simp
next
  case (Cons tag tags)
  then obtain rs where rs: "read_group timestamp timeout c g tags = Some rs"
    "list_all2 (response_spec timestamp timeout c g) tags rs" by auto
  note get = meta_get [OF assms, of g "tname tag"]
  show ?case
  proof (cases "hash_find c (g, tname tag)")
    case None
    then have "response_spec timestamp timeout c g tag (missing_response tag)"
      by (simp add: missing_response_def response_spec_def del: hash_find_None)
    with None get rs show ?thesis by (simp del: hash_find_None)
  next
    case (Some e)
    with get obtain cv where cv:
      "neu_driver_cache_meta_get c g (tname tag) zero_cache_value zero_metas NEU_TAG_META_SIZE
        = Some (0, cv, ce_metas e)" "cv_timestamp cv = ce_timestamp e"
      "dtype (cv_value cv) = dtype (ce_value e)"
      "value_meaning (dtype (ce_value e)) (dvalue (cv_value cv)) =
          value_meaning (dtype (ce_value e)) (dvalue (ce_value e))" by auto
    have "response_spec timestamp timeout c g tag
        (tag_response tag (timestamp - cv_timestamp cv > timeout) cv (ce_metas e))"
      using Some cv(2-4)
      by (auto simp: response_spec_def tag_response_def apply_decimal_0 Let_def ptr_response_def
          value_meaning_def ucast_u32_u64_inject simp del: ucast_eq)
    with cv(1) rs show ?thesis by simp
  qed
qed

section \<open>Periodic reports\<close>

lemma meta_get_changed:
  assumes "cache_ok c"
  shows "(\<not> cache_pending c (g, t) \<longrightarrow>
      neu_driver_cache_meta_get_changed c g t zero_cache_value zero_metas NEU_TAG_META_SIZE
        = Some (- 1, zero_cache_value, zero_metas, c)) \<and>
    (cache_pending c (g, t) \<longrightarrow>
      (\<exists>v ms c'. neu_driver_cache_meta_get_changed c g t zero_cache_value zero_metas NEU_TAG_META_SIZE
        = Some (0, v, ms, c') \<and> cache_take c (g, t) = Some ((v, ms), c')))"
proof (cases "hash_find c (g, t)")
  case None
  then show ?thesis
    by (simp add: neu_driver_cache_meta_get_changed_def to_key_def Let_def cache_pending_def
        del: hash_find_None)
next
  case (Some e)
  obtain cv where "elem_read e zero_cache_value = Some cv"
    by (rule elem_read_ok [OF cache_okD [OF assms Some] zero_cache_value_wf])
  with Some assms show ?thesis
    by (simp add: neu_driver_cache_meta_get_changed_def to_key_def cache_pending_def cache_take_elem)
qed

text \<open>The tags a report has something to say about.\<close>

definition reported :: "neu_driver_cache_t \<Rightarrow> string \<Rightarrow> neu_datatag_t \<Rightarrow> bool" where
  "reported c g t \<longleftrightarrow>
     (neu_tag_attribute_test t NEU_ATTRIBUTE_SUBSCRIBE \<longrightarrow> cache_pending c (g, tname t))"

lemma tag_response_simps [simp]:
  "rtag (tag_response tag ex v ms) = tname tag" "rtag (missing_response tag) = tname tag"
  by (simp_all add: tag_response_def missing_response_def)

lemma read_report_step:
  assumes "cache_ok c" "distinct (map tname tags)"
  shows "\<exists>rs c'. read_report_group ts to c g tags = Some (rs, c') \<and> cache_ok c' \<and>
    map rtag rs = map tname (filter (reported c g) tags) \<and>
    (\<forall>k. cache_sticky c' k = cache_sticky c k) \<and>
    (\<forall>k. cache_pending c' k \<longleftrightarrow> cache_pending c k \<and>
       (k \<in> (\<lambda>t. (g, tname t)) ` {t \<in> set tags. neu_tag_attribute_test t NEU_ATTRIBUTE_SUBSCRIBE}
        \<longrightarrow> cache_sticky c k))"
  using assms
proof (induction tags arbitrary: c)
  case Nil
  then show ?case by auto
next
  case (Cons t tags)
  have dist: "distinct (map tname tags)" "tname t \<notin> tname ` set tags"
    using Cons.prems(2) by auto
  show ?case
  proof (cases "neu_tag_attribute_test t NEU_ATTRIBUTE_SUBSCRIBE")
    case False
    obtain rs c' where IH: "read_report_group ts to c g tags = Some (rs, c')" "cache_ok c'"
      "map rtag rs = map tname (filter (reported c g) tags)"
      "\<forall>k. cache_sticky c' k = cache_sticky c k"
      "\<forall>k. cache_pending c' k \<longleftrightarrow> cache_pending c k \<and>
         (k \<in> (\<lambda>t. (g, tname t)) ` {t \<in> set tags. neu_tag_attribute_test t NEU_ATTRIBUTE_SUBSCRIBE}
          \<longrightarrow> cache_sticky c k)"
      using Cons.IH [OF Cons.prems(1) dist(1)] by blast
    have sub: "{x \<in> set (t # tags). neu_tag_attribute_test x NEU_ATTRIBUTE_SUBSCRIBE}
        = {x \<in> set tags. neu_tag_attribute_test x NEU_ATTRIBUTE_SUBSCRIBE}"
      using False by auto
    have rep: "reported c g t" using False by (simp add: reported_def)
    obtain r v ms where "neu_driver_cache_meta_get c g (tname t) zero_cache_value zero_metas
        NEU_TAG_META_SIZE = Some (r, v, ms)"
      using meta_get [OF Cons.prems(1), of g "tname t"] by (auto split: option.splits)
    then show ?thesis
      unfolding sub using IH False rep by (auto simp: Let_def)
  next
    case True
    show ?thesis
    proof (cases "cache_pending c (g, tname t)")
      case False
      obtain rs c' where IH: "read_report_group ts to c g tags = Some (rs, c')" "cache_ok c'"
        "map rtag rs = map tname (filter (reported c g) tags)"
        "\<forall>k. cache_sticky c' k = cache_sticky c k"
        "\<forall>k. cache_pending c' k \<longleftrightarrow> cache_pending c k \<and>
           (k \<in> (\<lambda>t. (g, tname t)) ` {t \<in> set tags. neu_tag_attribute_test t NEU_ATTRIBUTE_SUBSCRIBE}
            \<longrightarrow> cache_sticky c k)"
        using Cons.IH [OF Cons.prems(1) dist(1)] by blast
      have rep: "\<not> reported c g t" using True False by (simp add: reported_def)
      have "neu_driver_cache_meta_get_changed c g (tname t) zero_cache_value zero_metas
          NEU_TAG_META_SIZE = Some (- 1, zero_cache_value, zero_metas, c)"
        using meta_get_changed [OF Cons.prems(1)] False by blast
      then show ?thesis
        using IH True False rep by (auto simp: Let_def)
    next
      case pend: True
      obtain v ms c1 where get: "neu_driver_cache_meta_get_changed c g (tname t) zero_cache_value
          zero_metas NEU_TAG_META_SIZE = Some (0, v, ms, c1)"
        and take_c: "cache_take c (g, tname t) = Some ((v, ms), c1)"
        using meta_get_changed [OF Cons.prems(1)] pend by blast
      have c1: "cache_ok c1" by (rule feed.take_ok [OF Cons.prems(1) take_c])
      note pend1 = feed.take_pend [OF Cons.prems(1) take_c]
        and sticky1 = feed.take_sticky [OF Cons.prems(1) take_c]
      obtain rs c' where IH: "read_report_group ts to c1 g tags = Some (rs, c')" "cache_ok c'"
        "map rtag rs = map tname (filter (reported c1 g) tags)"
        "\<forall>k. cache_sticky c' k = cache_sticky c1 k"
        "\<forall>k. cache_pending c' k \<longleftrightarrow> cache_pending c1 k \<and>
           (k \<in> (\<lambda>t. (g, tname t)) ` {t \<in> set tags. neu_tag_attribute_test t NEU_ATTRIBUTE_SUBSCRIBE}
            \<longrightarrow> cache_sticky c1 k)"
        using Cons.IH [OF c1 dist(1)] by blast
      have rep: "reported c g t" using pend by (simp add: reported_def)
      have same: "filter (reported c1 g) tags = filter (reported c g) tags"
      proof (intro filter_cong refl)
        fix x assume "x \<in> set tags"
        with dist(2) have "tname x \<noteq> tname t" by (metis imageI)
        then show "reported c1 g x = reported c g x" by (simp add: reported_def pend1)
      qed
      show ?thesis
      proof (intro exI conjI)
        show "read_report_group ts to c g (t # tags) = Some (tag_response t
            (ts - cv_timestamp v > to \<and> to > 0) v ms # rs, c')"
          using True get IH(1) by simp
        show "cache_ok c'" by (rule IH(2))
        show "map rtag (tag_response t (ts - cv_timestamp v > to \<and> to > 0) v ms # rs) =
            map tname (filter (reported c g) (t # tags))"
          using IH(3) rep same by simp
        show "\<forall>k. cache_sticky c' k = cache_sticky c k" using IH(4) sticky1 by simp
        show "\<forall>k. cache_pending c' k \<longleftrightarrow> cache_pending c k \<and>
           (k \<in> (\<lambda>t. (g, tname t)) `
              {x \<in> set (t # tags). neu_tag_attribute_test x NEU_ATTRIBUTE_SUBSCRIBE}
            \<longrightarrow> cache_sticky c k)"
          using IH(5) pend1 sticky1 True by auto
      qed
    qed
  qed
qed

text \<open>
  C10: A periodic report names exactly the tags it must, in order: every tag without
  SUBSCRIBE, and the SUBSCRIBE tags with a pending change.  It consumes those changes: a
  second report before the plugin reports anything new names a SUBSCRIBE tag only when it
  is in error.  Changes of other groups are untouched.
\<close>

theorem report_once:
  assumes "cache_ok c" "distinct (map tname tags)"
  shows "\<exists>rs c' rs2 c2. read_report_group ts to c g tags = Some (rs, c') \<and>
    map rtag rs = map tname (filter (reported c g) tags) \<and>
    read_report_group ts2 to2 c' g tags = Some (rs2, c2) \<and>
    map rtag rs2 = map tname (filter (\<lambda>t. reported c g t \<and>
      (neu_tag_attribute_test t NEU_ATTRIBUTE_SUBSCRIBE \<longrightarrow> cache_sticky c (g, tname t))) tags) \<and>
    (\<forall>g' n. g' \<noteq> g \<longrightarrow> cache_pending c' (g', n) = cache_pending c (g', n)) \<and> cache_ok c2"
proof -
  obtain rs c' where 1: "read_report_group ts to c g tags = Some (rs, c')" "cache_ok c'"
    "map rtag rs = map tname (filter (reported c g) tags)"
    "\<forall>k. cache_sticky c' k = cache_sticky c k"
    "\<forall>k. cache_pending c' k \<longleftrightarrow> cache_pending c k \<and>
       (k \<in> (\<lambda>t. (g, tname t)) ` {t \<in> set tags. neu_tag_attribute_test t NEU_ATTRIBUTE_SUBSCRIBE}
        \<longrightarrow> cache_sticky c k)"
    using read_report_step [OF assms] by blast
  obtain rs2 c2 where 2: "read_report_group ts2 to2 c' g tags = Some (rs2, c2)" "cache_ok c2"
    "map rtag rs2 = map tname (filter (reported c' g) tags)"
    using read_report_step [OF 1(2) assms(2)] by blast
  have "filter (reported c' g) tags = filter (\<lambda>t. reported c g t \<and>
      (neu_tag_attribute_test t NEU_ATTRIBUTE_SUBSCRIBE \<longrightarrow> cache_sticky c (g, tname t))) tags"
    using 1(5) by (intro filter_cong refl) (auto simp: reported_def)
  moreover have "\<forall>g' n. g' \<noteq> g \<longrightarrow> cache_pending c' (g', n) = cache_pending c (g', n)"
    using 1(5) by auto
  ultimately show ?thesis using 1 2 by auto
qed

lemma report_once_witness:
  "\<exists>rs c'. read_report_group 9 0 demo_cache ''grp'' [demo_tag] = Some (rs, c') \<and>
    map rtag rs = [''t1'']"
proof -
  have "reported demo_cache ''grp'' demo_tag"
    by (simp add: reported_def demo_tag_def neu_tag_attribute_test_def NEU_ATTRIBUTE_SUBSCRIBE_def)
  then have "map tname (filter (reported demo_cache ''grp'') [demo_tag]) = [''t1'']"
    by (simp add: demo_tag_def)
  moreover have "distinct (map tname [demo_tag])" by simp
  moreover obtain rs c' where "read_report_group 9 0 demo_cache ''grp'' [demo_tag] = Some (rs, c')"
    "map rtag rs = map tname (filter (reported demo_cache ''grp'') [demo_tag])"
    using report_once [OF cache_ok_demo \<open>distinct (map tname [demo_tag])\<close>, of 9 0 "''grp''"] by blast
  ultimately show ?thesis by auto
qed

end
