(* ===== verification/Driver.thy ===== *)
theory Driver
  imports DriverData "HOL-Library.Monad_Syntax"
begin

text \<open>
  The driver side of an adapter (\<open>src/adapter/driver/driver.c\<close>): the groups of a driver with
  their timers, the requests that add, change and read groups and tags, the queue of values
  to be written, and the timer callbacks that report, read and write.

  The plugin of a driver is loaded at run time: it is the parameter \<open>intf\<close>, a record of the
  interface functions over a plugin state of type \<open>'p\<close>; a function pointer that may be NULL
  is an option.  What a plugin calls back during a call (\<open>update\<close>, \<open>write_response\<close>, ...) is
  the list of events the function returns, performed in order.  The plugin's \<open>user_data\<close> and
  \<open>group_free\<close> of a group are its own and not modelled.

  What the driver sends out (responses, metrics) is appended to \<open>d_out\<close>.  The clocks are
  arguments: \<open>now\<close> is \<open>global_timestamp\<close> in milliseconds, \<open>us\<close> the time of day in
  microseconds.  A crash or undefined behaviour is \<open>None\<close>.
\<close>

section \<open>State\<close>

datatype neu_node_running_state_e =
    NEU_NODE_RUNNING_STATE_INIT | NEU_NODE_RUNNING_STATE_READY
  | NEU_NODE_RUNNING_STATE_RUNNING | NEU_NODE_RUNNING_STATE_STOPPED

datatype timer_cb = report_cb | read_cb | write_cb

datatype neu_event_timer_type_e = NEU_EVENT_TIMER_BLOCK | NEU_EVENT_TIMER_NOBLOCK

record neu_event_timer_param_t =
  tm_second :: int
  tm_millisecond :: int
  tm_cb :: timer_cb
  tm_type :: neu_event_timer_type_e

datatype to_be_write_tag_t =
    WT_single nat neu_datatag_t neu_value_u
  | WT_multi nat "(neu_datatag_t \<times> neu_value_u) list"

record group_t =
  gr_name :: string
  gr_timestamp :: int
  gr_group :: neu_group_t
  gr_static_tags :: "neu_datatag_t list"
  gr_wt_tags :: "to_be_write_tag_t list"
  gr_report :: "neu_event_timer_param_t option"
  gr_read :: "neu_event_timer_param_t option"
  gr_write :: "neu_event_timer_param_t option"
  gr_grp_name :: string
  gr_grp_tags :: "neu_datatag_t list"

datatype driver_response =
    R_error int
  | R_read_group string string "neu_resp_tag_value_meta_t list"
  | R_trans_data string string "neu_resp_tag_value_meta_t list"

text \<open>\<open>Out_response\<close> carries the request it answers; a report answers none.\<close>

datatype driver_out =
    Out_response "nat option" driver_response
  | Out_metric string u64 "string option"
  | Out_register_group_metric string string u64
  | Out_group_metric string string u64
  | Out_del_group_metrics string
  | Out_rename_group_metrics string string

record 'p driver =
  d_name :: string
  d_state :: neu_node_running_state_e
  d_timer_type :: neu_event_timer_type_e
  d_plugin :: 'p
  d_cache :: neu_driver_cache_t
  d_tag_cnt :: u64
  d_groups :: "(string, group_t) uthash"
  d_out :: "driver_out list"

datatype plugin_event =
    PE_update string "string option" neu_dvalue_t "neu_tag_meta_t list"
  | PE_update_im string "string option" neu_dvalue_t "neu_tag_meta_t list"
  | PE_write_response nat int

record 'p driver_intf =
  i_validate_tag :: "'p \<Rightarrow> neu_datatag_t \<Rightarrow> int \<times> neu_datatag_t \<times> 'p"
  i_add_tags :: "('p \<Rightarrow> string \<Rightarrow> neu_datatag_t list \<Rightarrow> int \<times> 'p) option"
  i_load_tags :: "('p \<Rightarrow> string \<Rightarrow> neu_datatag_t list \<Rightarrow> int \<times> 'p) option"
  i_del_tags :: "('p \<Rightarrow> nat \<Rightarrow> int \<times> 'p) option"
  i_write_tag :: "'p \<Rightarrow> nat \<Rightarrow> neu_datatag_t \<Rightarrow> neu_value_u \<Rightarrow> 'p \<times> plugin_event list"
  i_write_tags ::
    "('p \<Rightarrow> nat \<Rightarrow> (neu_datatag_t \<times> neu_value_u) list \<Rightarrow> 'p \<times> plugin_event list) option"
  i_group_timer :: "'p \<Rightarrow> string \<Rightarrow> neu_datatag_t list \<Rightarrow> 'p \<times> plugin_event list"

definition emit :: "driver_out list \<Rightarrow> 'p driver \<Rightarrow> 'p driver" where
  "emit os d = d\<lparr>d_out := d_out d @ os\<rparr>"

definition set_group :: "group_t \<Rightarrow> 'p driver \<Rightarrow> 'p driver" where
  "set_group gr d = d\<lparr>d_groups := hash_set (d_groups d) (gr_name gr) gr\<rparr>"

definition find_group :: "'p driver \<Rightarrow> string \<Rightarrow> group_t option" where
  "find_group d name = hash_find (d_groups d) name"

definition neu_adapter_driver_create ::
  "string \<Rightarrow> neu_event_timer_type_e \<Rightarrow> 'p \<Rightarrow> 'p driver" where
  "neu_adapter_driver_create name tt p =
     \<lparr>d_name = name, d_state = NEU_NODE_RUNNING_STATE_INIT, d_timer_type = tt, d_plugin = p,
      d_cache = neu_driver_cache_new, d_tag_cnt = 0, d_groups = [], d_out = []\<rparr>"

definition write_response :: "nat \<Rightarrow> int \<Rightarrow> 'p driver \<Rightarrow> 'p driver" where
  "write_response req error d = emit [Out_response (Some req) (R_error error)] d"

section \<open>What a plugin reports\<close>

fun update_error_tags ::
  "(u8 \<Rightarrow> u64) \<Rightarrow> int \<Rightarrow> string \<Rightarrow> neu_dvalue_t \<Rightarrow> neu_datatag_t list \<Rightarrow>
    neu_driver_cache_t \<Rightarrow> nat \<Rightarrow> (neu_driver_cache_t \<times> nat) option" where
  "update_error_tags pw now g value [] cache n = Some (cache, n)"
| "update_error_tags pw now g value (t # ts) cache n =
     (if neu_tag_attribute_test t NEU_ATTRIBUTE_STATIC
      then update_error_tags pw now g value ts cache n
      else do {
        cache' \<leftarrow> neu_driver_cache_update pw cache g (tname t) now value [];
        update_error_tags pw now g value ts cache' (n + 1)
      })"

definition update_with_meta ::
  "(u8 \<Rightarrow> u64) \<Rightarrow> int \<Rightarrow> 'p driver \<Rightarrow> string \<Rightarrow> string option \<Rightarrow> neu_dvalue_t \<Rightarrow>
    neu_tag_meta_t list \<Rightarrow> 'p driver option" where
  "update_with_meta pw now d g tag value metas =
     (let d1 = (if dtype value = NEU_TYPE_ERROR
                then emit [Out_metric ''group_last_error_code'' (scast (get_u32 (dvalue value))) (Some g),
                           Out_metric ''group_last_error_timestamp_ms'' (of_int now) (Some g)] d
                else d)
      in case tag of
           None \<Rightarrow>
             if dtype value = NEU_TYPE_ERROR then
               (case find_group d1 g of
                  None \<Rightarrow> Some d1
                | Some gr \<Rightarrow> do {
                    (cache, n) \<leftarrow> update_error_tags pw now g value
                       (neu_group_get_read_tag (gr_group gr)) (d_cache d1) 0;
                    Some (emit [Out_metric ''tag_reads_total'' (of_nat n) None,
                                Out_metric ''tag_read_errors_total'' (of_nat n) None]
                            (d1\<lparr>d_cache := cache\<rparr>))
                  })
             else None
         | Some t \<Rightarrow> do {
             cache \<leftarrow> neu_driver_cache_update pw (d_cache d1) g t now value metas;
             Some (emit [Out_metric ''tag_reads_total'' 1 None,
                         Out_metric ''tag_read_errors_total''
                           (of_bool (dtype value = NEU_TYPE_ERROR)) None]
                     (d1\<lparr>d_cache := cache\<rparr>))
           })"

definition neu_adapter_driver_get_ptag ::
  "'p driver \<Rightarrow> string \<Rightarrow> string \<Rightarrow> neu_datatag_t list option" where
  "neu_adapter_driver_get_ptag d g tag =
     (case find_group d g of
        None \<Rightarrow> None
      | Some gr \<Rightarrow>
          map_option (\<lambda>t. [neu_tag_dup t]) (neu_group_find_tag (gr_group gr) tag))"

definition update_im ::
  "(u8 \<Rightarrow> u64) \<Rightarrow> int \<Rightarrow> 'p driver \<Rightarrow> string \<Rightarrow> string option \<Rightarrow> neu_dvalue_t \<Rightarrow>
    neu_tag_meta_t list \<Rightarrow> 'p driver option" where
  "update_im pw now d g tag value metas =
     (case tag of
        None \<Rightarrow> Some d
      | Some t \<Rightarrow>
          if dtype value = NEU_TYPE_ERROR then Some d
          else (case neu_adapter_driver_get_ptag d g t of
                  None \<Rightarrow> Some d
                | Some tags \<Rightarrow> do {
                    cache \<leftarrow> neu_driver_cache_update_change pw (d_cache d) g t now value metas True;
                    let d1 = emit [Out_metric ''tag_reads_total'' 1 None] (d\<lparr>d_cache := cache\<rparr>);
                    if \<not> neu_tag_attribute_test (hd tags) NEU_ATTRIBUTE_SUBSCRIBE then Some d1
                    else do {
                      (datas, cache') \<leftarrow> read_report_group now 0 (d_cache d1) g tags;
                      let d2 = d1\<lparr>d_cache := cache'\<rparr>;
                      Some (if 0 < length datas
                            then emit [Out_response None (R_trans_data (d_name d2) g datas)] d2
                            else d2)
                    }
                  }))"

definition plugin_event ::
  "(u8 \<Rightarrow> u64) \<Rightarrow> int \<Rightarrow> plugin_event \<Rightarrow> 'p driver \<Rightarrow> 'p driver option" where
  "plugin_event pw now e d =
     (case e of
        PE_update g tag value metas \<Rightarrow> update_with_meta pw now d g tag value metas
      | PE_update_im g tag value metas \<Rightarrow> update_im pw now d g tag value metas
      | PE_write_response req err \<Rightarrow> Some (write_response req err d))"

fun plugin_events ::
  "(u8 \<Rightarrow> u64) \<Rightarrow> int \<Rightarrow> plugin_event list \<Rightarrow> 'p driver \<Rightarrow> 'p driver option" where
  "plugin_events pw now [] d = Some d"
| "plugin_events pw now (e # es) d =
     do { d' \<leftarrow> plugin_event pw now e d; plugin_events pw now es d' }"

section \<open>Timers\<close>

definition group_timer_param ::
  "timer_cb \<Rightarrow> neu_event_timer_type_e \<Rightarrow> u32 \<Rightarrow> neu_event_timer_param_t" where
  "group_timer_param cb tt interval =
     \<lparr>tm_second = uint (interval div 1000), tm_millisecond = uint (interval mod 1000),
      tm_cb = cb, tm_type = tt\<rparr>"

definition write_timer_param :: "neu_event_timer_type_e \<Rightarrow> neu_event_timer_param_t" where
  "write_timer_param tt = \<lparr>tm_second = 0, tm_millisecond = 100, tm_cb = write_cb, tm_type = tt\<rparr>"

definition start_timers :: "'p driver \<Rightarrow> u32 \<Rightarrow> group_t \<Rightarrow> group_t" where
  "start_timers d interval gr =
     gr\<lparr>gr_report := Some (group_timer_param report_cb NEU_EVENT_TIMER_NOBLOCK interval),
        gr_read := Some (group_timer_param read_cb (d_timer_type d) interval)\<rparr>"

definition neu_adapter_driver_start_group_timer :: "'p driver \<Rightarrow> 'p driver" where
  "neu_adapter_driver_start_group_timer d =
     d\<lparr>d_groups := map (apsnd (\<lambda>gr. start_timers d (neu_group_get_interval (gr_group gr)) gr))
        (d_groups d)\<rparr>"

definition neu_adapter_driver_stop_group_timer :: "'p driver \<Rightarrow> 'p driver" where
  "neu_adapter_driver_stop_group_timer d =
     d\<lparr>d_groups := map (apsnd (\<lambda>gr. gr\<lparr>gr_report := None, gr_read := None\<rparr>)) (d_groups d)\<rparr>"

section \<open>Reading a group\<close>

text \<open>The timeout is computed in 32 bits.\<close>

definition cache_timeout :: "neu_group_t \<Rightarrow> int" where
  "cache_timeout g = uint (neu_group_get_interval g * NEU_DRIVER_TAG_CACHE_EXPIRE_TIME)"

definition not_running_response :: "neu_datatag_t \<Rightarrow> neu_resp_tag_value_meta_t" where
  "not_running_response tag =
     \<lparr>rtag = tname tag, rvalue = error_dvalue NEU_ERR_PLUGIN_NOT_RUNNING, rmetas = zero_metas\<rparr>"

definition neu_adapter_driver_read_group ::
  "int \<Rightarrow> 'p driver \<Rightarrow> nat \<Rightarrow> string \<Rightarrow> string \<Rightarrow> 'p driver option" where
  "neu_adapter_driver_read_group now d req cmd_driver cmd_group =
     (case find_group d cmd_group of
        None \<Rightarrow> Some (emit [Out_response (Some req) (R_error NEU_ERR_GROUP_NOT_EXIST)] d)
      | Some gr \<Rightarrow> do {
          let g = gr_group gr;
          let tags = neu_group_get_read_tag g;
          datas \<leftarrow> (if d_state d \<noteq> NEU_NODE_RUNNING_STATE_RUNNING
                    then Some (map not_running_response tags)
                    else read_group now (cache_timeout g) (d_cache d) cmd_group tags);
          Some (emit [Out_response (Some req) (R_read_group cmd_driver cmd_group datas)] d)
        })"

section \<open>Writing tags\<close>

text \<open>The value that goes to the device: decimal, then byte order.\<close>

definition written_value :: "neu_datatag_t \<Rightarrow> neu_dvalue_t \<Rightarrow> neu_dvalue_t option" where
  "written_value tag d = do {
     v \<leftarrow> (if \<not> f64_eq (decimal tag) 0
          then cal_decimal (ttype tag) (dtype d) (dvalue d) (decimal tag) else Some (dvalue d));
     fix_value tag (dtype d) (d\<lparr>dvalue := v\<rparr>)
   }"

definition store_write_tag :: "group_t \<Rightarrow> to_be_write_tag_t \<Rightarrow> 'p driver \<Rightarrow> 'p driver" where
  "store_write_tag gr wtag d = set_group (gr\<lparr>gr_wt_tags := gr_wt_tags gr @ [wtag]\<rparr>) d"

text \<open>
  The loop of \<open>write_tags\<close>: the tags of the request that exist, are writable and not
  STATIC.  Before the value is stored the code converts \<open>tv.value\<close>, which is still zero.
\<close>

fun write_tags_loop ::
  "neu_group_t \<Rightarrow> (string \<times> neu_dvalue_t) list \<Rightarrow> (neu_datatag_t \<times> neu_value_u) list option" where
  "write_tags_loop g [] = Some []"
| "write_tags_loop g ((name, value) # cmds) =
     (case neu_group_find_tag g name of
        Some tag \<Rightarrow>
          if neu_tag_attribute_test tag NEU_ATTRIBUTE_WRITE \<and>
             \<not> neu_tag_attribute_test tag NEU_ATTRIBUTE_STATIC
          then do {
            v \<leftarrow> written_value tag value;
            tvs \<leftarrow> write_tags_loop g cmds;
            Some ((neu_tag_dup tag, dvalue v) # tvs)
          }
          else write_tags_loop g cmds
      | None \<Rightarrow> write_tags_loop g cmds)"

definition neu_adapter_driver_write_tags ::
  "'p driver_intf \<Rightarrow> 'p driver \<Rightarrow> nat \<Rightarrow> string \<Rightarrow> (string \<times> neu_dvalue_t) list \<Rightarrow>
    'p driver option" where
  "neu_adapter_driver_write_tags intf d req cmd_group cmds =
     (if d_state d \<noteq> NEU_NODE_RUNNING_STATE_RUNNING
      then Some (write_response req NEU_ERR_PLUGIN_NOT_RUNNING d)
      else if i_write_tags intf = None
      then Some (write_response req NEU_ERR_PLUGIN_NOT_SUPPORT_WRITE_TAGS d)
      else (case find_group d cmd_group of
              None \<Rightarrow> Some (emit [Out_response (Some req) (R_error NEU_ERR_GROUP_NOT_EXIST)] d)
            | Some gr \<Rightarrow> do {
                tvs \<leftarrow> write_tags_loop (gr_group gr) cmds;
                Some (if length tvs \<noteq> length cmds
                      then emit [Out_response (Some req) (R_error NEU_ERR_TAG_NOT_EXIST)] d
                      else store_write_tag gr (WT_multi req tvs) d)
              }))"

text \<open>A single write converts an integer for a float tag first.\<close>

definition int_to_double_value :: "neu_datatag_t \<Rightarrow> neu_dvalue_t \<Rightarrow> neu_dvalue_t" where
  "int_to_double_value tag d =
     (if ttype tag \<in> {NEU_TYPE_FLOAT, NEU_TYPE_DOUBLE} \<and> dtype d = NEU_TYPE_INT64
      then d\<lparr>dvalue := put_word (int_to_f64 (uint (get_u64 (dvalue d)))) (dvalue d)\<rparr> else d)"

definition neu_adapter_driver_write_tag ::
  "(u8 \<Rightarrow> u64) \<Rightarrow> int \<Rightarrow> int \<Rightarrow> 'p driver \<Rightarrow> nat \<Rightarrow> string \<Rightarrow> string \<Rightarrow> neu_dvalue_t \<Rightarrow>
    'p driver option" where
  "neu_adapter_driver_write_tag pw now us d req cmd_group cmd_tag value =
     (if d_state d \<noteq> NEU_NODE_RUNNING_STATE_RUNNING
      then Some (write_response req NEU_ERR_PLUGIN_NOT_RUNNING d)
      else (case find_group d cmd_group of
         None \<Rightarrow> Some (emit [Out_response (Some req) (R_error NEU_ERR_GROUP_NOT_EXIST)] d)
       | Some gr \<Rightarrow>
           (case neu_group_find_tag (gr_group gr) cmd_tag of
              None \<Rightarrow> Some (emit [Out_response (Some req) (R_error NEU_ERR_TAG_NOT_EXIST)] d)
            | Some tag \<Rightarrow>
                if attribute tag AND NEU_ATTRIBUTE_WRITE \<noteq> NEU_ATTRIBUTE_WRITE
                then Some (write_response req NEU_ERR_PLUGIN_TAG_NOT_ALLOW_WRITE d)
                else do {
                  v \<leftarrow> written_value tag (int_to_double_value tag value);
                  if neu_tag_attribute_test tag NEU_ATTRIBUTE_STATIC then do {
                    cache \<leftarrow> neu_driver_cache_update pw (d_cache d) (gr_name gr) (tname tag) now v [];
                    let (_, tag') = neu_tag_set_static_value tag (dvalue v);
                    let (_, g') = neu_group_update_tag us (gr_group gr) tag';
                    Some (emit [Out_response (Some req) (R_error NEU_ERR_SUCCESS)]
                            (set_group (gr\<lparr>gr_group := g'\<rparr>) (d\<lparr>d_cache := cache\<rparr>)))
                  }
                  else Some (store_write_tag gr (WT_single req (neu_tag_dup tag) (dvalue v)) d)
                })))"

section \<open>Groups\<close>

definition neu_adapter_driver_try_add_tag ::
  "'p driver_intf \<Rightarrow> 'p driver \<Rightarrow> string \<Rightarrow> neu_datatag_t list \<Rightarrow> int \<times> 'p driver" where
  "neu_adapter_driver_try_add_tag intf d g tags =
     (case i_add_tags intf of
        None \<Rightarrow> (0, d)
      | Some f \<Rightarrow> let (r, p) = f (d_plugin d) g tags in (r, d\<lparr>d_plugin := p\<rparr>))"

definition neu_adapter_driver_load_tag ::
  "'p driver_intf \<Rightarrow> 'p driver \<Rightarrow> string \<Rightarrow> neu_datatag_t list \<Rightarrow> int \<times> 'p driver" where
  "neu_adapter_driver_load_tag intf d g tags =
     (case i_load_tags intf of
        None \<Rightarrow> (0, d)
      | Some f \<Rightarrow> let (r, p) = f (d_plugin d) g tags in (r, d\<lparr>d_plugin := p\<rparr>))"

definition neu_adapter_driver_try_del_tag ::
  "'p driver_intf \<Rightarrow> 'p driver \<Rightarrow> nat \<Rightarrow> int \<times> 'p driver" where
  "neu_adapter_driver_try_del_tag intf d n_tag =
     (case i_del_tags intf of
        None \<Rightarrow> (0, d)
      | Some f \<Rightarrow> let (r, p) = f (d_plugin d) n_tag in (r, d\<lparr>d_plugin := p\<rparr>))"

definition new_group :: "'p driver \<Rightarrow> string \<Rightarrow> u32 \<Rightarrow> group_t" where
  "new_group d name interval =
     (let g = neu_group_new name interval; (sts, oth) = neu_group_split_static_tags g
      in \<lparr>gr_name = name, gr_timestamp = 0, gr_group = g, gr_static_tags = sts, gr_wt_tags = [],
          gr_report = Some (group_timer_param report_cb NEU_EVENT_TIMER_NOBLOCK interval),
          gr_read = Some (group_timer_param read_cb (d_timer_type d) interval),
          gr_write = Some (write_timer_param (d_timer_type d)),
          gr_grp_name = name, gr_grp_tags = oth\<rparr>)"

definition neu_adapter_driver_add_group ::
  "'p driver \<Rightarrow> string \<Rightarrow> u32 \<Rightarrow> int \<times> 'p driver" where
  "neu_adapter_driver_add_group d name interval =
     (case hash_find (d_groups d) name of
        Some _ \<Rightarrow> (NEU_ERR_GROUP_EXIST, d)
      | None \<Rightarrow>
          let gr = new_group d name interval
          in (NEU_ERR_SUCCESS,
              emit [Out_register_group_metric name ''group_tags_total''
                      (ucast (neu_group_tag_size (gr_group gr))),
                    Out_register_group_metric name ''group_last_send_msgs'' 0,
                    Out_register_group_metric name ''group_last_timer_ms'' 0,
                    Out_register_group_metric name ''group_last_error_code'' 0,
                    Out_register_group_metric name ''group_last_error_timestamp_ms'' 0]
                (d\<lparr>d_groups := hash_add (d_groups d) name gr\<rparr>)))"

definition NEU_GROUP_INTERVAL_LIMIT :: u32 where "NEU_GROUP_INTERVAL_LIMIT = 100"

text \<open>Renaming takes the group out of the table and adds it under the new name.\<close>

definition rename_group :: "'p driver \<Rightarrow> string \<Rightarrow> group_t \<Rightarrow> string \<Rightarrow> group_t \<times> 'p driver" where
  "rename_group d name gr new_name =
     (let (_, g) = neu_group_set_name (gr_group gr) (Some new_name);
          gr' = gr\<lparr>gr_group := g, gr_name := new_name, gr_grp_name := new_name\<rparr>
      in (gr', emit [Out_rename_group_metrics name new_name]
                 (d\<lparr>d_groups := hash_add (hash_del (d_groups d) name) new_name gr'\<rparr>)))"

definition neu_adapter_driver_update_group ::
  "'p driver \<Rightarrow> string \<Rightarrow> string option \<Rightarrow> u32 \<Rightarrow> int \<times> 'p driver" where
  "neu_adapter_driver_update_group d name new_name interval =
     (case hash_find (d_groups d) name of
        None \<Rightarrow> (NEU_ERR_GROUP_NOT_EXIST, d)
      | Some gr \<Rightarrow>
          if new_name = Some [] then (NEU_ERR_EINTERNAL, d)
          else if (case new_name of
                     None \<Rightarrow> False
                   | Some n \<Rightarrow> n \<noteq> name \<and> hash_find (d_groups d) n \<noteq> None)
          then (NEU_ERR_GROUP_EXIST, d)
          else
            let i = (if interval < NEU_GROUP_INTERVAL_LIMIT
                     then neu_group_get_interval (gr_group gr) else interval);
                (gr1, d1) = (case new_name of
                   None \<Rightarrow> (gr, d)
                 | Some n \<Rightarrow> if n \<noteq> name then rename_group d name gr n else (gr, d));
                gr2 = start_timers d i (gr1\<lparr>gr_group := neu_group_set_interval (gr_group gr1) i\<rparr>)
            in (0, set_group gr2 d1))"

fun cache_del_tags ::
  "string \<Rightarrow> neu_datatag_t list \<Rightarrow> neu_driver_cache_t \<Rightarrow> neu_driver_cache_t option" where
  "cache_del_tags g [] c = Some c"
| "cache_del_tags g (t # ts) c =
     do { c' \<leftarrow> neu_driver_cache_del c g (tname t); cache_del_tags g ts c' }"

text \<open>\<open>d_tag_cnt\<close> is not touched.\<close>

definition neu_adapter_driver_del_group ::
  "'p driver_intf \<Rightarrow> 'p driver \<Rightarrow> string \<Rightarrow> (int \<times> 'p driver) option" where
  "neu_adapter_driver_del_group intf d name =
     (case hash_find (d_groups d) name of
        None \<Rightarrow> Some (NEU_ERR_GROUP_NOT_EXIST, d)
      | Some gr \<Rightarrow> do {
          let d1 = d\<lparr>d_groups := hash_del (d_groups d) name\<rparr>;
          let (_, d2) = neu_adapter_driver_try_del_tag intf d1
                          (unat (neu_group_tag_size (gr_group gr)));
          c1 \<leftarrow> cache_del_tags name (gr_static_tags gr) (d_cache d2);
          c2 \<leftarrow> cache_del_tags name (gr_grp_tags gr) c1;
          Some (NEU_ERR_SUCCESS, emit [Out_del_group_metrics name] (d2\<lparr>d_cache := c2\<rparr>))
        })"

definition neu_adapter_driver_group_exist :: "'p driver \<Rightarrow> string \<Rightarrow> int" where
  "neu_adapter_driver_group_exist d name =
     (if hash_find (d_groups d) name \<noteq> None then NEU_ERR_SUCCESS else NEU_ERR_GROUP_NOT_EXIST)"

record neu_resp_group_info_t =
  gi_name :: string
  gi_tag_count :: u16
  gi_interval :: u32

definition neu_adapter_driver_get_group :: "'p driver \<Rightarrow> neu_resp_group_info_t list" where
  "neu_adapter_driver_get_group d =
     map (\<lambda>gr. \<lparr>gi_name = gr_name gr, gi_tag_count = neu_group_tag_size (gr_group gr),
                gi_interval = neu_group_get_interval (gr_group gr)\<rparr>) (hash_vals (d_groups d))"

fun uninit_groups :: "'p driver_intf \<Rightarrow> group_t list \<Rightarrow> 'p driver \<Rightarrow> 'p driver" where
  "uninit_groups intf [] d = d"
| "uninit_groups intf (gr # grs) d =
     uninit_groups intf grs
       (snd (neu_adapter_driver_try_del_tag intf
          (d\<lparr>d_groups := hash_del (d_groups d) (gr_name gr)\<rparr>)
          (unat (neu_group_tag_size (gr_group gr)))))"

definition neu_adapter_driver_uninit :: "'p driver_intf \<Rightarrow> 'p driver \<Rightarrow> int \<times> 'p driver" where
  "neu_adapter_driver_uninit intf d = (0, uninit_groups intf (hash_vals (d_groups d)) d)"

section \<open>Tags\<close>

definition NEU_TAG_NAME_LEN :: nat where "NEU_TAG_NAME_LEN = 64"
definition NEU_TAG_ADDRESS_LEN :: nat where "NEU_TAG_ADDRESS_LEN = 128"
definition NEU_TAG_DESCRIPTION_LEN :: nat where "NEU_TAG_DESCRIPTION_LEN = 128"
definition NEU_TAG_FLOAG_PRECISION_MAX :: u8 where "NEU_TAG_FLOAG_PRECISION_MAX = 17"

definition parse_option :: "neu_datatag_t \<Rightarrow> neu_datatag_t" where
  "parse_option tag = tag\<lparr>option8 := snd (neu_datatag_parse_addr_option tag (option8 tag))\<rparr>"

definition plugin_validate ::
  "'p driver_intf \<Rightarrow> 'p driver \<Rightarrow> neu_datatag_t \<Rightarrow> int \<times> neu_datatag_t \<times> 'p driver" where
  "plugin_validate intf d tag =
     (if \<not> neu_tag_attribute_test tag NEU_ATTRIBUTE_STATIC
      then let (r, tag', p) = i_validate_tag intf (d_plugin d) tag in (r, tag', d\<lparr>d_plugin := p\<rparr>)
      else (NEU_ERR_SUCCESS, tag, d))"

definition neu_adapter_driver_validate_tag ::
  "'p driver_intf \<Rightarrow> 'p driver \<Rightarrow> neu_datatag_t \<Rightarrow> int \<times> neu_datatag_t \<times> 'p driver" where
  "neu_adapter_driver_validate_tag intf d tag =
     (if NEU_TAG_NAME_LEN \<le> length (tname tag) then (NEU_ERR_TAG_NAME_TOO_LONG, tag, d)
      else if NEU_TAG_ADDRESS_LEN \<le> length (address tag)
      then (NEU_ERR_TAG_ADDRESS_TOO_LONG, tag, d)
      else if NEU_TAG_DESCRIPTION_LEN \<le> length (description tag)
      then (NEU_ERR_TAG_DESCRIPTION_TOO_LONG, tag, d)
      else if NEU_TAG_FLOAG_PRECISION_MAX < precision tag
      then (NEU_ERR_TAG_PRECISION_INVALID, tag, d)
      else if neu_tag_attribute_test tag NEU_ATTRIBUTE_SUBSCRIBE \<and>
              neu_tag_attribute_test tag NEU_ATTRIBUTE_STATIC
      then (NEU_ERR_TAG_ATTRIBUTE_NOT_SUPPORT, tag, d)
      else (case plugin_validate intf d tag of
              (r, tag', d') \<Rightarrow>
                if r \<noteq> NEU_ERR_SUCCESS then (r, tag', d')
                else (NEU_ERR_SUCCESS, parse_option tag', d')))"

text \<open>A tag for a group that is not there makes the group, with an interval of 3000 ms.\<close>

definition neu_adapter_driver_add_tag ::
  "int \<Rightarrow> 'p driver \<Rightarrow> string \<Rightarrow> neu_datatag_t \<Rightarrow> (int \<times> 'p driver) option" where
  "neu_adapter_driver_add_tag us d g tag =
     (let tag' = parse_option tag;
          d1 = (if hash_find (d_groups d) g = None
                then snd (neu_adapter_driver_add_group d g 3000) else d)
      in case hash_find (d_groups d1) g of
           None \<Rightarrow> None
         | Some gr \<Rightarrow>
             (case neu_group_add_tag us (gr_group gr) tag' of
                (ret, g') \<Rightarrow>
                  let d2 = set_group (gr\<lparr>gr_group := g'\<rparr>) d1
                  in Some (ret,
                       if ret = NEU_ERR_SUCCESS
                       then emit [Out_metric ''tags_total'' (d_tag_cnt d2 + 1) None,
                                  Out_group_metric g ''group_tags_total''
                                    (ucast (neu_group_tag_size g'))]
                              (d2\<lparr>d_tag_cnt := d_tag_cnt d2 + 1\<rparr>)
                       else d2)))"

definition neu_adapter_driver_del_tag ::
  "'p driver_intf \<Rightarrow> int \<Rightarrow> 'p driver \<Rightarrow> string \<Rightarrow> string \<Rightarrow> int \<times> 'p driver" where
  "neu_adapter_driver_del_tag intf us d g tag =
     (case hash_find (d_groups d) g of
        None \<Rightarrow> (NEU_ERR_GROUP_NOT_EXIST, d)
      | Some gr \<Rightarrow>
          (case neu_group_del_tag us (gr_group gr) tag of
             (ret, g') \<Rightarrow>
               let d1 = set_group (gr\<lparr>gr_group := g'\<rparr>) d
               in if ret = NEU_ERR_SUCCESS
                  then (let (_, d2) = neu_adapter_driver_try_del_tag intf d1 1
                        in (ret, emit [Out_metric ''tags_total'' (d_tag_cnt d2 - 1) None,
                                       Out_group_metric g ''group_tags_total''
                                         (ucast (neu_group_tag_size g'))]
                                   (d2\<lparr>d_tag_cnt := d_tag_cnt d2 - 1\<rparr>)))
                  else (ret, d1)))"

definition neu_adapter_driver_update_tag ::
  "'p driver_intf \<Rightarrow> int \<Rightarrow> 'p driver \<Rightarrow> string \<Rightarrow> neu_datatag_t \<Rightarrow> int \<times> 'p driver" where
  "neu_adapter_driver_update_tag intf us d g tag =
     (if NEU_TAG_NAME_LEN \<le> length (tname tag) then (NEU_ERR_TAG_NAME_TOO_LONG, d)
      else if NEU_TAG_ADDRESS_LEN < length (address tag) then (NEU_ERR_TAG_ADDRESS_TOO_LONG, d)
      else if NEU_TAG_DESCRIPTION_LEN < length (description tag)
      then (NEU_ERR_TAG_DESCRIPTION_TOO_LONG, d)
      else if NEU_TAG_FLOAG_PRECISION_MAX < precision tag then (NEU_ERR_TAG_PRECISION_INVALID, d)
      else (case plugin_validate intf d tag of
              (r, tag', d') \<Rightarrow>
                if r \<noteq> NEU_ERR_SUCCESS then (r, d')
                else (case hash_find (d_groups d') g of
                        None \<Rightarrow> (NEU_ERR_GROUP_NOT_EXIST, d')
                      | Some gr \<Rightarrow>
                          (case neu_group_update_tag us (gr_group gr) (parse_option tag') of
                             (ret, g') \<Rightarrow> (ret, set_group (gr\<lparr>gr_group := g'\<rparr>) d')))))"

definition neu_adapter_driver_get_tag ::
  "'p driver \<Rightarrow> string \<Rightarrow> int \<times> neu_datatag_t list option" where
  "neu_adapter_driver_get_tag d g =
     (case hash_find (d_groups d) g of
        Some gr \<Rightarrow> (NEU_ERR_SUCCESS, Some (neu_group_get_tag (gr_group gr)))
      | None \<Rightarrow> (NEU_ERR_GROUP_NOT_EXIST, None))"

definition neu_adapter_driver_query_tag ::
  "'p driver \<Rightarrow> string \<Rightarrow> string \<Rightarrow> int \<times> neu_datatag_t list option" where
  "neu_adapter_driver_query_tag d g name =
     (case hash_find (d_groups d) g of
        Some gr \<Rightarrow>
          (NEU_ERR_SUCCESS,
           Some (if 0 < length name then neu_group_query_tag (gr_group gr) name
                 else neu_group_get_tag (gr_group gr)))
      | None \<Rightarrow> (NEU_ERR_GROUP_NOT_EXIST, None))"

definition value_tag :: "neu_datatag_t \<Rightarrow> neu_datatag_t" where
  "value_tag tag =
     (if \<not> f64_eq (decimal tag) 0 \<and>
         ttype tag \<in> {NEU_TYPE_UINT8, NEU_TYPE_INT8, NEU_TYPE_INT16, NEU_TYPE_UINT16, NEU_TYPE_INT32,
           NEU_TYPE_UINT32, NEU_TYPE_INT64, NEU_TYPE_UINT64, NEU_TYPE_FLOAT}
      then tag\<lparr>ttype := NEU_TYPE_DOUBLE\<rparr> else tag)"

definition neu_adapter_driver_get_value_tag :: "'p driver \<Rightarrow> string \<Rightarrow> neu_datatag_t list" where
  "neu_adapter_driver_get_value_tag d g =
     (case neu_adapter_driver_get_tag d g of
        (ret, Some tags) \<Rightarrow> map value_tag tags
      | _ \<Rightarrow> [])"

definition neu_adapter_driver_get_read_tag :: "'p driver \<Rightarrow> string \<Rightarrow> neu_datatag_t list option" where
  "neu_adapter_driver_get_read_tag d g =
     map_option (\<lambda>gr. neu_group_get_read_tag (gr_group gr)) (hash_find (d_groups d) g)"

section \<open>Timer callbacks\<close>

text \<open>The callbacks of the group \<open>name\<close>; a timer only runs while its group exists.\<close>

definition report_callback :: "int \<Rightarrow> 'p driver \<Rightarrow> string \<Rightarrow> 'p driver option" where
  "report_callback now d name =
     (case find_group d name of
        None \<Rightarrow> None
      | Some gr \<Rightarrow>
          if d_state d \<noteq> NEU_NODE_RUNNING_STATE_RUNNING then Some d
          else do {
            tags \<leftarrow> neu_adapter_driver_get_read_tag d (gr_name gr);
            (datas, cache) \<leftarrow> read_report_group now (cache_timeout (gr_group gr)) (d_cache d)
                               (gr_name gr) tags;
            let d1 = d\<lparr>d_cache := cache\<rparr>;
            Some (if 0 < length datas
                  then emit [Out_response None (R_trans_data (d_name d) (gr_name gr) datas)] d1
                  else d1)
          })"

definition static_cache_value :: "neu_datatag_t \<Rightarrow> neu_dvalue_t" where
  "static_cache_value tag =
     (case neu_tag_get_static_value tag zero_value of
        (r, v) \<Rightarrow>
          if r \<noteq> 0 then \<lparr>dtype = NEU_TYPE_ERROR,
              dvalue = put_word (of_int NEU_ERR_EINTERNAL :: u32) v, dprecision = precision tag\<rparr>
          else \<lparr>dtype = ttype tag, dvalue = v, dprecision = precision tag\<rparr>)"

definition other_cache_value :: "neu_datatag_t \<Rightarrow> neu_dvalue_t" where
  "other_cache_value tag =
     \<lparr>dtype = NEU_TYPE_ERROR,
      dvalue = put_word (of_int NEU_ERR_PLUGIN_TAG_NOT_READY :: u32) zero_value,
      dprecision = precision tag\<rparr>"

definition cache_add_tags ::
  "string \<Rightarrow> (neu_datatag_t \<Rightarrow> neu_dvalue_t) \<Rightarrow> neu_datatag_t list \<Rightarrow> neu_driver_cache_t \<Rightarrow>
    neu_driver_cache_t" where
  "cache_add_tags g val tags c = foldl (\<lambda>c t. neu_driver_cache_add c g (tname t) (val t)) c tags"

definition group_change ::
  "int \<Rightarrow> neu_datatag_t list \<Rightarrow> neu_datatag_t list \<Rightarrow> u32 \<Rightarrow> group_t \<times> neu_driver_cache_t \<Rightarrow>
    (group_t \<times> neu_driver_cache_t) option" where
  "group_change timestamp static_tags other_tags interval arg =
     (case arg of (gr, c) \<Rightarrow> do {
        c1 \<leftarrow> cache_del_tags (gr_name gr) (gr_static_tags gr) c;
        c2 \<leftarrow> cache_del_tags (gr_name gr) (gr_grp_tags gr) c1;
        let c3 = cache_add_tags (gr_name gr) static_cache_value static_tags c2;
        let c4 = cache_add_tags (gr_name gr) other_cache_value other_tags c3;
        Some (gr\<lparr>gr_timestamp := timestamp, gr_grp_name := gr_name gr, gr_grp_tags := other_tags,
                 gr_static_tags := static_tags\<rparr>, c4)
      })"

fun write_all ::
  "'p driver_intf \<Rightarrow> (u8 \<Rightarrow> u64) \<Rightarrow> int \<Rightarrow> to_be_write_tag_t list \<Rightarrow> 'p driver \<Rightarrow> 'p driver option" where
  "write_all intf pw now [] d = Some d"
| "write_all intf pw now (WT_single req tag v # wts) d =
     (let (p, es) = i_write_tag intf (d_plugin d) req tag v
      in do { d' \<leftarrow> plugin_events pw now es (d\<lparr>d_plugin := p\<rparr>); write_all intf pw now wts d' })"
| "write_all intf pw now (WT_multi req tvs # wts) d =
     (case i_write_tags intf of
        None \<Rightarrow> None
      | Some f \<Rightarrow>
          let (p, es) = f (d_plugin d) req tvs
          in do { d' \<leftarrow> plugin_events pw now es (d\<lparr>d_plugin := p\<rparr>); write_all intf pw now wts d' })"

definition clear_writes :: "string \<Rightarrow> 'p driver \<Rightarrow> 'p driver" where
  "clear_writes name d =
     (case find_group d name of
        None \<Rightarrow> d
      | Some gr \<Rightarrow> set_group (gr\<lparr>gr_wt_tags := []\<rparr>) d)"

definition write_callback ::
  "'p driver_intf \<Rightarrow> (u8 \<Rightarrow> u64) \<Rightarrow> int \<Rightarrow> 'p driver \<Rightarrow> string \<Rightarrow> 'p driver option" where
  "write_callback intf pw now d name =
     (case find_group d name of
        None \<Rightarrow> None
      | Some gr \<Rightarrow>
          if d_state d \<noteq> NEU_NODE_RUNNING_STATE_RUNNING then Some d
          else do {
            d' \<leftarrow> write_all intf pw now (gr_wt_tags gr) d;
            Some (clear_writes name d')
          })"

definition refresh_group :: "'p driver \<Rightarrow> group_t \<Rightarrow> 'p driver option" where
  "refresh_group d gr =
     (if neu_group_is_change (gr_group gr) (gr_timestamp gr)
      then do {
        (gr', c) \<leftarrow> neu_group_change_test (gr_group gr) (gr_timestamp gr) (Some (gr, d_cache d))
                     (\<lambda>ts sts oth i arg. Option.bind arg (group_change ts sts oth i));
        Some (set_group gr' (d\<lparr>d_cache := c\<rparr>))
      }
      else Some d)"

definition read_callback ::
  "'p driver_intf \<Rightarrow> (u8 \<Rightarrow> u64) \<Rightarrow> int \<Rightarrow> int \<Rightarrow> 'p driver \<Rightarrow> string \<Rightarrow> 'p driver option" where
  "read_callback intf pw now later d name =
     (case find_group d name of
        None \<Rightarrow> None
      | Some gr \<Rightarrow>
          if d_state d \<noteq> NEU_NODE_RUNNING_STATE_RUNNING then Some d
          else do {
            d1 \<leftarrow> refresh_group d gr;
            gr1 \<leftarrow> find_group d1 name;
            let (p, es) = i_group_timer intf (d_plugin d1) (gr_grp_name gr1) (gr_grp_tags gr1);
            d2 \<leftarrow> plugin_events pw now es (d1\<lparr>d_plugin := p\<rparr>);
            Some (emit [Out_group_metric name ''group_last_timer_ms'' (of_int (later - now))] d2)
          })"

end
