(* ===== verification/Topic.thy ===== *)
theory Topic
  imports Prelude
begin

text \<open>
  MQTT topics (\<open>src/utils/mqtt.c\<close>): matching a topic against a wildcard, and taking the
  levels of a topic apart.  \<open>strtok\<close> is the C library's: separators in a row count as one.

  The lemmas relate both to the levels of a topic: the matcher is the match of levels for
  the wildcards of this program, and the parsers give the levels they are asked for when no
  level is empty.
\<close>

section \<open>Matching\<close>

text \<open>\<open>topic\<close> moved on to the next \<open>/\<close> or the end.\<close>

fun skip_level :: "string \<Rightarrow> string" where
  "skip_level [] = []"
| "skip_level (c # t) = (if c = CHR ''/'' then c # t else skip_level t)"

fun matches_loop :: "string \<Rightarrow> string \<Rightarrow> bool" where
  "matches_loop t [] = (t = [])"
| "matches_loop t (d # w) =
     (case t of
        [] \<Rightarrow> d = CHR ''#''
      | c # t' \<Rightarrow>
          if d = CHR ''+'' then matches_loop (skip_level t) w
          else if d = CHR ''#'' then True
          else if c \<noteq> d then False
          else matches_loop t' w)"

definition topic_matches_wildcard :: "string \<Rightarrow> string \<Rightarrow> bool" where
  "topic_matches_wildcard topic wildcard \<longleftrightarrow> wildcard = ''#'' \<or> matches_loop topic wildcard"

section \<open>Levels\<close>

text \<open>\<open>strtok\<close> over the whole string: the non-empty runs between separators.\<close>

fun strtok_all :: "string \<Rightarrow> string \<Rightarrow> string list" where
  "strtok_all acc [] = (if acc = [] then [] else [acc])"
| "strtok_all acc (c # s) =
     (if c = CHR ''/'' then (if acc = [] then strtok_all [] s else acc # strtok_all [] s)
      else strtok_all (acc @ [c]) s)"

text \<open>
  The loops store the tokens they count to.  The result is \<open>*pk\<close> and \<open>*dn\<close> after the call,
  \<open>None\<close> where the caller's variable is left alone.
\<close>

definition get_pk_dn_from_thingsub_topic :: "string \<Rightarrow> nat \<Rightarrow> string option \<times> string option" where
  "get_pk_dn_from_thingsub_topic topic start =
     (let ts = strtok_all [] topic
      in (if start < length ts then Some (ts ! start) else None,
          if start + 1 < length ts then Some (ts ! (start + 1)) else None))"

definition get_data_from_topic :: "string \<Rightarrow> nat \<Rightarrow> string option" where
  "get_data_from_topic topic start =
     (let ts = strtok_all [] topic in if start < length ts then Some (ts ! start) else None)"

section \<open>Topics as levels\<close>

fun topic_of :: "string list \<Rightarrow> string" where
  "topic_of [] = []"
| "topic_of [l] = l"
| "topic_of (l # ls) = l @ CHR ''/'' # topic_of ls"

fun levels_from :: "string \<Rightarrow> string \<Rightarrow> string list" where
  "levels_from acc [] = [acc]"
| "levels_from acc (c # s) =
     (if c = CHR ''/'' then acc # levels_from [] s else levels_from (acc @ [c]) s)"

definition levels :: "string \<Rightarrow> string list" where
  "levels topic = levels_from [] topic"

lemma levels_from_Cons: "\<exists>l ls. levels_from acc s = l # ls"
  by (induction s arbitrary: acc) auto

lemma topic_of_Cons: "ls \<noteq> [] \<Longrightarrow> topic_of (l # ls) = l @ CHR ''/'' # topic_of ls"
  by (cases ls) auto

lemma topic_of_levels_from: "topic_of (levels_from acc s) = acc @ s"
proof (induction s arbitrary: acc)
  case (Cons c s)
  show ?case
  proof (cases "c = CHR ''/''")
    case True
    moreover have "levels_from [] s \<noteq> []" using levels_from_Cons [of "[]" s] by auto
    ultimately show ?thesis using Cons [of "[]"] by (simp add: topic_of_Cons)
  next
    case False
    then show ?thesis using Cons [of "acc @ [c]"] by simp
  qed
qed simp

lemma topic_of_levels [simp]: "topic_of (levels s) = s"
  by (simp add: levels_def topic_of_levels_from)

lemma levels_from_plain:
  "CHR ''/'' \<notin> set l \<Longrightarrow> levels_from acc (l @ CHR ''/'' # s) = (acc @ l) # levels_from [] s"
  "CHR ''/'' \<notin> set l \<Longrightarrow> levels_from acc l = [acc @ l]"
  by (induction l arbitrary: acc) auto

lemma levels_topic_of:
  "ls \<noteq> [] \<Longrightarrow> \<forall>l\<in>set ls. CHR ''/'' \<notin> set l \<Longrightarrow> levels (topic_of ls) = ls"
  unfolding levels_def by (induction ls rule: topic_of.induct) (auto simp: levels_from_plain)

lemma levels_plain: "l \<in> set (levels_from acc s) \<Longrightarrow> CHR ''/'' \<notin> set acc \<Longrightarrow> CHR ''/'' \<notin> set l"
proof (induction s arbitrary: acc)
  case (Cons c s)
  show ?case
  proof (cases "c = CHR ''/''")
    case True
    then have "l = acc \<or> l \<in> set (levels_from [] s)" using Cons.prems(1) by simp
    with Cons.IH [of "[]"] Cons.prems(2) show ?thesis by auto
  next
    case False
    with Cons.IH [of "acc @ [c]"] Cons.prems show ?thesis by simp
  qed
qed simp

lemma levels_not_Nil [simp]: "levels s \<noteq> []"
  using levels_from_Cons [of "[]" s] by (auto simp: levels_def)

text \<open>\<open>strtok\<close> gives the levels that are not empty.\<close>

lemma strtok_levels_from: "strtok_all acc s = filter (\<lambda>l. l \<noteq> []) (levels_from acc s)"
  by (induction s arbitrary: acc) auto

lemma strtok_levels: "strtok_all [] s = filter (\<lambda>l. l \<noteq> []) (levels s)"
  by (simp add: levels_def strtok_levels_from)

section \<open>The matcher on levels\<close>

definition wildcard_level :: "string \<Rightarrow> bool" where
  "wildcard_level l \<longleftrightarrow> l = ''+'' \<or> (\<forall>c\<in>set l. c \<notin> {CHR ''/'', CHR ''+'', CHR ''#''})"

definition level_matches :: "string \<Rightarrow> string \<Rightarrow> bool" where
  "level_matches w l \<longleftrightarrow> w = ''+'' \<or> w = l"

lemma level_matches_plus [simp]: "level_matches ''+'' l"
  by (simp add: level_matches_def)

lemma skip_level_plain:
  "CHR ''/'' \<notin> set l \<Longrightarrow> skip_level (l @ CHR ''/'' # s) = CHR ''/'' # s"
  "CHR ''/'' \<notin> set l \<Longrightarrow> skip_level l = []"
  by (induction l) auto

text \<open>A plain level of the wildcard against the start of a topic.\<close>

lemma matches_plain:
  assumes "\<forall>c\<in>set w. c \<notin> {CHR ''/'', CHR ''+'', CHR ''#''}"
  shows "matches_loop t (w @ v) \<longleftrightarrow> (\<exists>t'. t = w @ t' \<and> matches_loop t' v)"
  using assms by (induction w arbitrary: t) (auto split: list.split)

lemma matches_slash:
  "matches_loop t (CHR ''/'' # v) \<longleftrightarrow> (\<exists>t'. t = CHR ''/'' # t' \<and> matches_loop t' v)"
  by (cases t) auto

text \<open>A \<open>+\<close> and the separator after it skip one level.\<close>

lemma matches_plus:
  assumes "CHR ''/'' \<notin> set l" "ls \<noteq> []"
  shows "matches_loop (topic_of (l # ls)) (CHR ''+'' # CHR ''/'' # v) \<longleftrightarrow> matches_loop (topic_of ls) v"
proof -
  obtain c t where t: "topic_of (l # ls) = c # t"
    using assms(2) by (cases "topic_of (l # ls)") (auto simp: topic_of_Cons)
  have "matches_loop (topic_of (l # ls)) (CHR ''+'' # CHR ''/'' # v) \<longleftrightarrow>
      matches_loop (skip_level (topic_of (l # ls))) (CHR ''/'' # v)"
    by (simp add: t del: skip_level.simps)
  then show ?thesis using assms by (simp add: topic_of_Cons skip_level_plain matches_slash)
qed

lemma matches_plus_last:
  assumes "CHR ''/'' \<notin> set l"
  shows "\<not> matches_loop l (CHR ''+'' # CHR ''/'' # v)"
  using assms by (cases l) (auto simp: skip_level_plain(2) matches_slash)

lemma levels_plain_text:
  assumes "\<forall>c\<in>set w. c \<notin> {CHR ''/'', CHR ''+'', CHR ''#''}"
  shows "levels w = [w]"
proof -
  from assms have "CHR ''/'' \<notin> set w" by auto
  from levels_from_plain(2) [OF this, of "[]"] show ?thesis by (simp add: levels_def)
qed

lemma list_all2_one: "list_all2 P [w] ls \<longleftrightarrow> (\<exists>l. ls = [l] \<and> P w l)"
  by (cases ls) auto

lemma topic_of_eq_Cons:
  assumes "ls \<noteq> []" "\<forall>l\<in>set ls. CHR ''/'' \<notin> set l" "CHR ''/'' \<notin> set w"
  shows "topic_of ls = w @ CHR ''/'' # s \<longleftrightarrow> (\<exists>ls'. ls = w # ls' \<and> ls' \<noteq> [] \<and> topic_of ls' = s)"
proof
  assume "topic_of ls = w @ CHR ''/'' # s"
  then have "ls = w # levels s"
    using levels_topic_of [OF assms(1,2)] assms(3) by (simp add: levels_def levels_from_plain)
  then show "\<exists>ls'. ls = w # ls' \<and> ls' \<noteq> [] \<and> topic_of ls' = s" by auto
qed (auto simp: topic_of_Cons)

text \<open>
  On the levels: a wildcard whose levels are \<open>+\<close> or plain text, the last one plain, matches
  the topics of the same number of levels that agree with its plain levels.
\<close>

lemma matches_levels:
  assumes "ws \<noteq> []" "\<forall>w\<in>set ws. wildcard_level w" "last ws \<noteq> ''+''"
    and "ls \<noteq> []" "\<forall>l\<in>set ls. CHR ''/'' \<notin> set l"
  shows "matches_loop (topic_of ls) (topic_of ws) \<longleftrightarrow> list_all2 level_matches ws ls"
  using assms
proof (induction ws arbitrary: ls)
  case (Cons w ws)
  show ?case
  proof (cases "ws = []")
    case True
    with Cons.prems have plain: "\<forall>c\<in>set w. c \<notin> {CHR ''/'', CHR ''+'', CHR ''#''}" "w \<noteq> ''+''"
      by (auto simp: wildcard_level_def)
    have "ls = [w]" if "topic_of ls = w"
      using levels_topic_of [OF Cons.prems(4,5)] levels_plain_text [OF plain(1)] that by simp
    then have "topic_of ls = w \<longleftrightarrow> ls = [w]" by auto
    with matches_plain [OF plain(1), of "topic_of ls" "[]"] plain(2) True show ?thesis
      by (auto simp: list_all2_one level_matches_def)
  next
    case False
    then have ws: "topic_of (w # ws) = w @ CHR ''/'' # topic_of ws" by (rule topic_of_Cons)
    have IH: "matches_loop (topic_of ls') (topic_of ws) \<longleftrightarrow> list_all2 level_matches ws ls'"
      if "ls' \<noteq> []" "set ls' \<subseteq> set ls" for ls'
      using Cons.IH [OF False _ _ that(1)] Cons.prems that False by auto
    obtain l ls' where ls: "ls = l # ls'" using Cons.prems(4) by (cases ls) auto
    show ?thesis
    proof (cases "w = ''+''")
      case True
      have l: "CHR ''/'' \<notin> set l" using Cons.prems(5) ls by simp
      have plus: "topic_of (w # ws) = CHR ''+'' # CHR ''/'' # topic_of ws"
        using ws True by simp
      show ?thesis
      proof (cases "ls' = []")
        case True
        then have "\<not> list_all2 level_matches (w # ws) ls" using \<open>ws \<noteq> []\<close> ls by simp
        moreover have "\<not> matches_loop (topic_of ls) (topic_of (w # ws))"
          unfolding plus using matches_plus_last [OF l, of "topic_of ws"] True ls
          by (simp del: matches_loop.simps)
        ultimately show ?thesis by blast
      next
        case False
        have "matches_loop (topic_of ls) (topic_of (w # ws)) \<longleftrightarrow> list_all2 level_matches ws ls'"
          unfolding plus using matches_plus [OF l False, of "topic_of ws"] IH [OF False] ls
          by (simp del: matches_loop.simps add: subset_insertI)
        then show ?thesis by (simp add: ls \<open>w = ''+''\<close>)
      qed
    next
      case False
      with Cons.prems(2) have plain: "\<forall>c\<in>set w. c \<notin> {CHR ''/'', CHR ''+'', CHR ''#''}"
        by (auto simp: wildcard_level_def)
      then have "CHR ''/'' \<notin> set w" by auto
      note eq = topic_of_eq_Cons [OF Cons.prems(4,5) this]
      have "matches_loop (topic_of ls) (topic_of (w # ws)) \<longleftrightarrow>
          (\<exists>s. topic_of ls = w @ CHR ''/'' # s \<and> matches_loop s (topic_of ws))"
        unfolding ws by (auto simp: matches_plain [OF plain] matches_slash simp del: matches_loop.simps)
      also have "\<dots> \<longleftrightarrow> (\<exists>ls'. ls = w # ls' \<and> ls' \<noteq> [] \<and> matches_loop (topic_of ls') (topic_of ws))"
        by (auto simp: eq)
      also have "\<dots> \<longleftrightarrow> l = w \<and> ls' \<noteq> [] \<and> matches_loop (topic_of ls') (topic_of ws)"
        by (simp add: ls)
      also have "\<dots> \<longleftrightarrow> l = w \<and> list_all2 level_matches ws ls'"
        using IH [of ls'] \<open>ws \<noteq> []\<close> by (cases "ls' = []") (auto simp: ls)
      also have "\<dots> \<longleftrightarrow> list_all2 level_matches (w # ws) ls"
        using False by (auto simp: ls level_matches_def)
      finally show ?thesis .
    qed
  qed
qed simp

definition good_wildcard :: "string \<Rightarrow> bool" where
  "good_wildcard w \<longleftrightarrow> (\<forall>l\<in>set (levels w). wildcard_level l) \<and> last (levels w) \<noteq> ''+''"

lemma topic_match_levels:
  assumes "good_wildcard w"
  shows "topic_matches_wildcard t w \<longleftrightarrow> list_all2 level_matches (levels w) (levels t)"
proof -
  have plain: "\<forall>l\<in>set (levels t). CHR ''/'' \<notin> set l"
    using levels_plain [of _ "[]" t] by (auto simp: levels_def)
  have "w \<noteq> ''#''"
  proof
    assume "w = ''#''"
    then have "levels w = [''#'']" by (simp add: levels_def)
    with assms show False by (simp add: good_wildcard_def wildcard_level_def)
  qed
  with matches_levels [of "levels w" "levels t"] assms plain show ?thesis
    by (simp add: topic_matches_wildcard_def good_wildcard_def)
qed

text \<open>
  C28: The matcher of topics is equivalent to matching level by level: a topic matches a wildcard exactly
  when both have the same number of levels and each level of the wildcard is \<open>+\<close> or the level of the
  topic.  This holds for every topic, empty levels included, and every wildcard whose levels are \<open>+\<close> or
  plain text, the last one plain, which all wildcards of the program are.
\<close>

theorem wildcard_equivalence:
  assumes "good_wildcard wildcard"
  shows "topic_matches_wildcard topic wildcard \<longleftrightarrow>
    length (levels topic) = length (levels wildcard) \<and>
    (\<forall>i<length (levels wildcard). levels wildcard ! i = ''+'' \<or> levels wildcard ! i = levels topic ! i)"
  using topic_match_levels [OF assms] by (auto simp: list_all2_conv_all_nth level_matches_def)

lemma wildcard_equivalence_witness:
  "topic_matches_wildcard ''lan/thing//post'' ''lan/thing/+/post'' \<and>
    \<not> topic_matches_wildcard ''lan/thing/post'' ''lan/thing/+/post''"
proof -
  have w: "levels ''lan/thing/+/post'' = [''lan'', ''thing'', ''+'', ''post'']"
    and t: "levels ''lan/thing//post'' = [''lan'', ''thing'', [], ''post'']" "levels ''lan/thing/post'' = [''lan'', ''thing'', ''post'']"
    by (simp_all add: levels_def)
  have "good_wildcard ''lan/thing/+/post''" by (simp add: good_wildcard_def w wildcard_level_def)
  from wildcard_equivalence [OF this] show ?thesis by (auto simp: w t less_Suc_eq numeral_eq_Suc)
qed

end
