(* ===== verification/Device.thy ===== *)
theory Device
  imports Tag Topic
begin

text \<open>
  Devices and the messages of the thing model (\<open>include/esvcpm/device.h\<close>, the node types
  of \<open>include/esvcpm/define.h\<close>, the device list and the callback
  \<open>thing_model_msg_arrived\<close> of \<open>src/adapter/driver/driver.c\<close>).

  A node of type \<open>ESVDEVICEDRIVER\<close>, \<open>ESVAPP\<close> or \<open>ESVSELFDEVICEDRIVER\<close> hands a message to
  the manager by the callback; what the callback does is a list of effects in their order:
  a publication on the local broker, and a forward to the applications or the drivers
  (performed in the theory \<open>Router\<close>).

  The callback is the node's only way out, and the lemmas say what may pass: which nodes
  may send which methods, on which topic a message goes out, and to whom it is forwarded.
\<close>

section \<open>Node types\<close>

datatype neu_node_type_e =
    NEU_NA_TYPE_DRIVER | NEU_NA_TYPE_APP | NEU_NA_TYPE_NDRIVER
  | NEU_NA_TYPE_ESVDEVICEDRIVER | NEU_NA_TYPE_ESVAPPDRIVER | NEU_NA_TYPE_ESVAPP
  | NEU_NA_TYPE_ESVDEVICEDRIVER232 | NEU_NA_TYPE_ESVAPPDRIVER232 | NEU_NA_TYPE_ESVAPP232
  | NEU_NA_TYPE_ESVSELFDEVICEDRIVER

fun node_type_code :: "neu_node_type_e \<Rightarrow> u32" where
  "node_type_code NEU_NA_TYPE_DRIVER = 1"
| "node_type_code NEU_NA_TYPE_APP = 2"
| "node_type_code NEU_NA_TYPE_NDRIVER = 4"
| "node_type_code NEU_NA_TYPE_ESVDEVICEDRIVER = 9"
| "node_type_code NEU_NA_TYPE_ESVAPPDRIVER = 10"
| "node_type_code NEU_NA_TYPE_ESVAPP = 11"
| "node_type_code NEU_NA_TYPE_ESVDEVICEDRIVER232 = 12"
| "node_type_code NEU_NA_TYPE_ESVAPPDRIVER232 = 13"
| "node_type_code NEU_NA_TYPE_ESVAPP232 = 14"
| "node_type_code NEU_NA_TYPE_ESVSELFDEVICEDRIVER = 15"

section \<open>The device list\<close>

text \<open>
  The key is a struct of two buffers of 128 bytes, filled by \<open>strcpy\<close>: a longer name is
  undefined behaviour.  The entries hold nothing but their key.
\<close>

definition ESV_PK_NAME_LEN :: nat where "ESV_PK_NAME_LEN = 128"
definition ESV_DN_NAME_LEN :: nat where "ESV_DN_NAME_LEN = 128"

type_synonym tdevice_list_key_t = "string \<times> string"
type_synonym esv_device_list_t = "(tdevice_list_key_t, unit) uthash"

definition to_device_list_key :: "string \<Rightarrow> string \<Rightarrow> tdevice_list_key_t option" where
  "to_device_list_key pk dn =
     (if length pk < ESV_PK_NAME_LEN \<and> length dn < ESV_DN_NAME_LEN then Some (pk, dn) else None)"

definition esv_device_list_new :: esv_device_list_t where
  "esv_device_list_new = []"

definition esv_device_list_add ::
  "esv_device_list_t \<Rightarrow> string \<Rightarrow> string \<Rightarrow> esv_device_list_t option" where
  "esv_device_list_add l pk dn =
     (case to_device_list_key pk dn of
        None \<Rightarrow> None
      | Some key \<Rightarrow> Some (if hash_find l key = None then hash_add l key () else l))"

definition esv_device_list_del ::
  "esv_device_list_t \<Rightarrow> string \<Rightarrow> string \<Rightarrow> esv_device_list_t option" where
  "esv_device_list_del l pk dn =
     (case to_device_list_key pk dn of
        None \<Rightarrow> None
      | Some key \<Rightarrow> Some (if hash_find l key \<noteq> None then hash_del l key else l))"

definition is_device_in_device_list :: "esv_device_list_t \<Rightarrow> string \<Rightarrow> string \<Rightarrow> bool option" where
  "is_device_in_device_list l pk dn =
     map_option (\<lambda>key. hash_find l key \<noteq> None) (to_device_list_key pk dn)"

record esv_device_info_t =
  di_product_key :: string
  di_device_name :: string
  di_device_secret :: string
  di_device_config :: string

definition esv_device_info_cpy :: "esv_device_info_t \<Rightarrow> esv_device_info_t" where
  "esv_device_info_cpy src =
     \<lparr>di_product_key = di_product_key src, di_device_name = di_device_name src,
      di_device_secret = di_device_secret src, di_device_config = di_device_config src\<rparr>"

text \<open>
  The loop of \<open>load_devices\<close> over the stored devices: \<open>cnt\<close> is the length of the array it
  writes to, \<open>done\<close> what it has written.
\<close>

fun load_devices_loop ::
  "nat \<Rightarrow> esv_device_info_t list \<Rightarrow> esv_device_info_t list \<times> esv_device_list_t \<Rightarrow>
    (esv_device_info_t list \<times> esv_device_list_t) option" where
  "load_devices_loop cnt [] (out, l) = Some (out, l)"
| "load_devices_loop cnt (p # ps) (out, l) =
     (if length out < cnt then
        (case esv_device_list_add l (di_product_key p) (di_device_name p) of
           None \<Rightarrow> None
         | Some l' \<Rightarrow> load_devices_loop cnt ps (out @ [esv_device_info_cpy p], l'))
      else None)"

section \<open>Messages of the thing model\<close>

datatype esv_thing_model_msg_method =
    ESV_TMM_MTD_LAN_SUBTHING_THING_EVENT_PROPERTY_POST
  | ESV_TMM_MTD_LAN_SUBTHING_THING_SERVICE_PROPERTY_SET
  | ESV_TMM_MTD_LAN_SUBTHING_THING_SERVICE_PROPERTY_SET_REPLY
  | ESV_TMM_MTD_LAN_SUBTHING_THING_SERVICE_PROPERTY_GET
  | ESV_TMM_MTD_LAN_SUBTHING_THING_SERVICE_PROPERTY_GET_REPLY
  | ESV_TMM_MTD_WAN_SUBTHING_THING_SERVICE_PROPERTY_SET
  | ESV_TMM_MTD_WAN_SUBTHING_THING_SERVICE_PROPERTY_SET_REPLY
  | ESV_TMM_MTD_WAN_SUBTHING_THING_SERVICE_PROPERTY_GET
  | ESV_TMM_MTD_WAN_SUBTHING_THING_SERVICE_PROPERTY_GET_REPLY
  | ESV_TMM_MTD_LAN_THING_SERVICE_PROPERTY_POSTREQ
  | ESV_TMM_MTD_WAN_THING_DISCOVERY
  | ESV_TMM_MTD_WAN_THING_DISCOVERY_REPLY
  | ESV_TMM_MTD_WAN_SUBTHING_THING_DISCOVERY
  | ESV_TMM_MTD_WAN_SUBTHING_THING_DISCOVERY_REPLY
  | ESV_TMM_MTD_WAN_SUBTHING_THING_CONFIG_PUSH
  | ESV_TMM_MTD_WAN_SUBTHING_THING_CONFIG_PUSH_REPLY
  | ESV_TMM_MTD_WAN_EASYHBES_THING_PLUGIN_NODE_CONFIG_PUSH
  | ESV_TMM_MTD_WAN_EASYHBES_THING_PLUGIN_NODE_CONFIG_PUSH_REPLY
  | ESV_TMM_MTD_WAN_SUBTHING_THING_PLUGIN_NODE_CONFIG_PUSH
  | ESV_TMM_MTD_WAN_SUBTHING_THING_PLUGIN_NODE_CONFIG_PUSH_REPLY
  | ESV_TMM_MTD_WAN_SUBTHING_THING_PLUGIN_NODE_ACTION_PUSH
  | ESV_TMM_MTD_WAN_SUBTHING_THING_PLUGIN_NODE_ACTION_PUSH_REPLY
  | ESV_TMM_MTD_APP_THING_PLUGIN_NODE_CONFIG_PUSH
  | ESV_TMM_MTD_APP_THING_PLUGIN_NODE_CONFIG_PUSH_REPLY
  | ESV_TMM_MTD_APP_THING_PLUGIN_NODE_CONFIG_RELOAD_PUSH_REPLY

datatype esv_thing_model_msg_type_e = ESV_TMM_JSON_STRING_PTR | ESV_TMM_JASSON_OBJECT_PTR

text \<open>\<open>tmm_msg\<close> is the text a \<open>JSON_STRING_PTR\<close> message points to.\<close>

record esv_thing_model_msg_t =
  tmm_method :: esv_thing_model_msg_method
  tmm_product_key :: string
  tmm_device_name :: string
  tmm_msg_type :: esv_thing_model_msg_type_e
  tmm_msg :: string
  tmm_msg_len :: int
  tmm_plugin_id :: int

datatype tmm_effect =
    TM_publish string string
  | TM_forward_to_esvapps esv_thing_model_msg_t
  | TM_forward_to_esvdriver esv_thing_model_msg_t

definition show_int :: "int \<Rightarrow> string" where
  "show_int i = (if i < 0 then CHR ''-'' # show_nat (nat (- i)) else show_nat (nat i))"

definition atoi :: "string \<Rightarrow> int" where
  "atoi s = (case scan_int s of None \<Rightarrow> 0 | Some (v, _) \<Rightarrow> sint (word_of_int v :: u32))"

definition subthing_topic :: "string \<Rightarrow> esv_thing_model_msg_t \<Rightarrow> string \<Rightarrow> string" where
  "subthing_topic net msg tail =
     net @ ''/thing/sub/'' @ tmm_product_key msg @ ''/'' @ tmm_device_name msg @ ''/thing/'' @ tail"

text \<open>The topic of each method; the other methods have no branch.\<close>

fun thing_model_topic :: "esv_thing_model_msg_method \<Rightarrow> esv_thing_model_msg_t \<Rightarrow> string option" where
  "thing_model_topic ESV_TMM_MTD_LAN_SUBTHING_THING_EVENT_PROPERTY_POST m =
     Some (subthing_topic ''lan'' m ''event/property/post'')"
| "thing_model_topic ESV_TMM_MTD_LAN_SUBTHING_THING_SERVICE_PROPERTY_SET m =
     Some (subthing_topic ''lan'' m ''service/property/set'')"
| "thing_model_topic ESV_TMM_MTD_LAN_SUBTHING_THING_SERVICE_PROPERTY_SET_REPLY m =
     Some (subthing_topic ''lan'' m ''service/property/setReply'')"
| "thing_model_topic ESV_TMM_MTD_LAN_SUBTHING_THING_SERVICE_PROPERTY_GET m =
     Some (subthing_topic ''lan'' m ''service/property/get'')"
| "thing_model_topic ESV_TMM_MTD_LAN_SUBTHING_THING_SERVICE_PROPERTY_GET_REPLY m =
     Some (subthing_topic ''lan'' m ''service/property/getReply'')"
| "thing_model_topic ESV_TMM_MTD_WAN_SUBTHING_THING_SERVICE_PROPERTY_SET_REPLY m =
     Some (subthing_topic ''wan'' m ''service/property/setReply'')"
| "thing_model_topic ESV_TMM_MTD_WAN_SUBTHING_THING_SERVICE_PROPERTY_GET_REPLY m =
     Some (subthing_topic ''wan'' m ''service/property/getReply'')"
| "thing_model_topic ESV_TMM_MTD_WAN_THING_DISCOVERY_REPLY m = Some ''wan/thing/discoveryReply''"
| "thing_model_topic ESV_TMM_MTD_WAN_SUBTHING_THING_DISCOVERY_REPLY m =
     Some (subthing_topic ''wan'' m ''discoveryReply'')"
| "thing_model_topic ESV_TMM_MTD_WAN_SUBTHING_THING_CONFIG_PUSH_REPLY m =
     Some (subthing_topic ''wan'' m ''config/pushReply'')"
| "thing_model_topic ESV_TMM_MTD_WAN_EASYHBES_THING_PLUGIN_NODE_CONFIG_PUSH_REPLY m =
     Some (''wan/thing/easyHbes/'' @ show_int (tmm_plugin_id m) @ ''/config/pushReply'')"
| "thing_model_topic ESV_TMM_MTD_WAN_SUBTHING_THING_PLUGIN_NODE_CONFIG_PUSH_REPLY m =
     Some (''wan/'' @ tmm_product_key m @ ''/'' @ tmm_device_name m @
       ''/thing/pluginNode/config/pushReply'')"
| "thing_model_topic ESV_TMM_MTD_WAN_SUBTHING_THING_PLUGIN_NODE_ACTION_PUSH_REPLY m =
     Some ''wan/thing/pluginNode/action/pushReply''"
| "thing_model_topic ESV_TMM_MTD_APP_THING_PLUGIN_NODE_CONFIG_PUSH_REPLY m =
     Some (''app/thing/pluginNode/'' @ show_int (tmm_plugin_id m) @ ''/config/pushReply'')"
| "thing_model_topic ESV_TMM_MTD_APP_THING_PLUGIN_NODE_CONFIG_RELOAD_PUSH_REPLY m =
     Some ''app/thing/pluginNode/config/pushReply''"
| "thing_model_topic _ m = None"

text \<open>The forwards inside the branches.\<close>

definition thing_model_forward ::
  "neu_node_type_e \<Rightarrow> esv_thing_model_msg_t \<Rightarrow> tmm_effect list" where
  "thing_model_forward ty m =
     (case tmm_method m of
        ESV_TMM_MTD_LAN_SUBTHING_THING_EVENT_PROPERTY_POST \<Rightarrow>
          if ty = NEU_NA_TYPE_ESVDEVICEDRIVER then [TM_forward_to_esvapps m]
          else if ty = NEU_NA_TYPE_ESVAPP then [TM_forward_to_esvdriver m] else []
      | ESV_TMM_MTD_LAN_SUBTHING_THING_SERVICE_PROPERTY_SET \<Rightarrow>
          if ty = NEU_NA_TYPE_ESVAPP then [TM_forward_to_esvdriver m]
          else if ty = NEU_NA_TYPE_ESVDEVICEDRIVER then [TM_forward_to_esvapps m] else []
      | ESV_TMM_MTD_LAN_SUBTHING_THING_SERVICE_PROPERTY_SET_REPLY \<Rightarrow>
          if ty = NEU_NA_TYPE_ESVDEVICEDRIVER then [TM_forward_to_esvapps m] else []
      | ESV_TMM_MTD_LAN_SUBTHING_THING_SERVICE_PROPERTY_GET \<Rightarrow>
          if ty = NEU_NA_TYPE_ESVAPP then [TM_forward_to_esvdriver m] else []
      | ESV_TMM_MTD_LAN_SUBTHING_THING_SERVICE_PROPERTY_GET_REPLY \<Rightarrow>
          if ty = NEU_NA_TYPE_ESVDEVICEDRIVER then [TM_forward_to_esvapps m] else []
      | _ \<Rightarrow> [])"

definition app_methods :: "esv_thing_model_msg_method list" where
  "app_methods =
     [ESV_TMM_MTD_LAN_SUBTHING_THING_SERVICE_PROPERTY_SET,
      ESV_TMM_MTD_LAN_SUBTHING_THING_SERVICE_PROPERTY_GET,
      ESV_TMM_MTD_LAN_SUBTHING_THING_EVENT_PROPERTY_POST,
      ESV_TMM_MTD_APP_THING_PLUGIN_NODE_CONFIG_PUSH_REPLY,
      ESV_TMM_MTD_APP_THING_PLUGIN_NODE_CONFIG_RELOAD_PUSH_REPLY,
      ESV_TMM_MTD_WAN_SUBTHING_THING_PLUGIN_NODE_CONFIG_PUSH_REPLY,
      ESV_TMM_MTD_WAN_SUBTHING_THING_PLUGIN_NODE_ACTION_PUSH_REPLY]"

definition thing_model_msg_arrived ::
  "neu_node_type_e \<Rightarrow> esv_thing_model_msg_t \<Rightarrow> int \<times> tmm_effect list" where
  "thing_model_msg_arrived ty m =
     (if ty \<notin> {NEU_NA_TYPE_ESVDEVICEDRIVER, NEU_NA_TYPE_ESVAPP, NEU_NA_TYPE_ESVSELFDEVICEDRIVER}
      then (1, [])
      else if ty = NEU_NA_TYPE_ESVAPP \<and> tmm_method m \<notin> set app_methods then (1, [])
      else (0, case thing_model_topic (tmm_method m) m of
                 Some topic \<Rightarrow>
                   if tmm_msg_type m = ESV_TMM_JSON_STRING_PTR
                   then TM_publish topic (tmm_msg m) # thing_model_forward ty m else []
               | None \<Rightarrow> []))"

section \<open>Laws of the device list\<close>

definition device_info_ok :: "esv_device_info_t \<Rightarrow> bool" where
  "device_info_ok p \<longleftrightarrow>
     length (di_product_key p) < ESV_PK_NAME_LEN \<and> length (di_device_name p) < ESV_DN_NAME_LEN"

definition device_key :: "esv_device_info_t \<Rightarrow> tdevice_list_key_t" where
  "device_key p = (di_product_key p, di_device_name p)"

lemma device_info_cpy [simp]: "esv_device_info_cpy p = p"
  by (simp add: esv_device_info_cpy_def)

lemma device_list_add:
  assumes "hash_wf l"
  shows "esv_device_list_add l pk dn = None \<longleftrightarrow> to_device_list_key pk dn = None"
    and "esv_device_list_add l pk dn = Some l' \<Longrightarrow>
      hash_wf l' \<and> set (hash_keys l') = insert (pk, dn) (set (hash_keys l))"
  using assms by (auto simp: esv_device_list_add_def to_device_list_key_def split: if_splits)

lemma device_list_del:
  assumes "hash_wf l" "esv_device_list_del l pk dn = Some l'"
  shows "hash_wf l' \<and> set (hash_keys l') = set (hash_keys l) - {(pk, dn)}"
  using assms
  by (auto simp: esv_device_list_del_def to_device_list_key_def hash_keys_del hash_wf_def
      set_remove1_eq split: if_splits)

lemma is_device_in_device_list:
  "is_device_in_device_list l pk dn =
     (if length pk < ESV_PK_NAME_LEN \<and> length dn < ESV_DN_NAME_LEN
      then Some ((pk, dn) \<in> set (hash_keys l)) else None)"
  by (simp add: is_device_in_device_list_def to_device_list_key_def)

text \<open>The loop succeeds exactly when the array is long enough and the names fit.\<close>

lemma load_devices_loop_Some:
  assumes "hash_wf l" "length out + length ps \<le> cnt" "\<forall>p\<in>set ps. device_info_ok p"
  shows "\<exists>l'. load_devices_loop cnt ps (out, l) = Some (out @ ps, l') \<and> hash_wf l' \<and>
    set (hash_keys l') = set (hash_keys l) \<union> device_key ` set ps"
  using assms
proof (induction ps arbitrary: out l)
  case (Cons p ps)
  from Cons.prems(3) obtain l1 where l1:
    "esv_device_list_add l (di_product_key p) (di_device_name p) = Some l1"
    by (simp add: esv_device_list_add_def to_device_list_key_def device_info_ok_def)
  note wf = device_list_add(2) [OF Cons.prems(1) l1]
  obtain l' where "load_devices_loop cnt ps (out @ [p], l1) = Some ((out @ [p]) @ ps, l')"
    "hash_wf l'" "set (hash_keys l') = set (hash_keys l1) \<union> device_key ` set ps"
    using Cons.IH [of l1 "out @ [p]"] Cons.prems wf by auto
  with wf l1 Cons.prems(2) show ?case by (auto simp: device_key_def)
qed simp

lemma load_devices_loop_None:
  assumes "hash_wf l" "cnt < length out + length ps \<or> (\<exists>p\<in>set ps. \<not> device_info_ok p)"
    and "length out \<le> cnt"
  shows "load_devices_loop cnt ps (out, l) = None"
  using assms
proof (induction ps arbitrary: out l)
  case (Cons p ps)
  show ?case
  proof (cases "esv_device_list_add l (di_product_key p) (di_device_name p)")
    case (Some l1)
    then have "device_info_ok p"
      by (auto simp: esv_device_list_add_def to_device_list_key_def device_info_ok_def
          split: if_splits)
    with Cons.IH [of l1 "out @ [p]"] Cons.prems device_list_add(2) [OF Cons.prems(1) Some]
    show ?thesis by (auto simp: Some)
  qed simp
qed simp

section \<open>What a node may send\<close>

lemma arrived_effects:
  assumes "e \<in> set (snd (thing_model_msg_arrived ty m))"
  shows "ty \<in> {NEU_NA_TYPE_ESVDEVICEDRIVER, NEU_NA_TYPE_ESVAPP, NEU_NA_TYPE_ESVSELFDEVICEDRIVER} \<and>
    tmm_msg_type m = ESV_TMM_JSON_STRING_PTR \<and>
    (ty = NEU_NA_TYPE_ESVAPP \<longrightarrow> tmm_method m \<in> set app_methods) \<and>
    (\<exists>topic. thing_model_topic (tmm_method m) m = Some topic \<and>
       (e = TM_publish topic (tmm_msg m) \<or> e \<in> set (thing_model_forward ty m)))"
proof (cases "thing_model_topic (tmm_method m) m")
  case None
  with assms show ?thesis by (simp add: thing_model_msg_arrived_def split: if_splits)
next
  case (Some topic)
  with assms show ?thesis by (auto simp: thing_model_msg_arrived_def split: if_splits)
qed

lemma forward_effects:
  assumes "e \<in> set (thing_model_forward ty m)"
  shows "(e = TM_forward_to_esvapps m \<and> ty = NEU_NA_TYPE_ESVDEVICEDRIVER) \<or>
    (e = TM_forward_to_esvdriver m \<and> ty = NEU_NA_TYPE_ESVAPP)"
  using assms by (auto simp: thing_model_forward_def split: esv_thing_model_msg_method.splits if_splits)

lemma length_forward: "length (thing_model_forward ty m) \<le> 1"
  by (simp add: thing_model_forward_def split: esv_thing_model_msg_method.split)

end
