(* ===== verification/Msg.thy ===== *)
theory Msg
  imports Driver Device
begin

text \<open>
  The messages between nodes and manager (\<open>include/esvcpm/adapter.h\<close>): a header with the
  type of the message and its sender and receiver, and a body that the type determines.
  The types are the numbers of \<open>neu_reqresp_type_e\<close>; the bodies are a datatype with one
  constructor per struct (structs of the same fields share one).  \<open>neu_msg_gen\<close> copies as
  many bytes as the type's struct has: a body of another struct is undefined behaviour,
  and a type it does not know fails an assertion (\<open>None\<close>).

  Names in bodies and headers are strings in buffers of 128 bytes.  Strings and arrays that
  bodies point to are in the body; freeing them is not modelled.
\<close>

section \<open>Types of messages\<close>

type_synonym neu_reqresp_type = nat

abbreviation (input) NEU_RESP_ERROR :: nat where "NEU_RESP_ERROR \<equiv> 0"
abbreviation (input) NEU_REQ_UPDATE_LICENSE :: nat where "NEU_REQ_UPDATE_LICENSE \<equiv> 1"
abbreviation (input) NEU_REQ_READ_GROUP :: nat where "NEU_REQ_READ_GROUP \<equiv> 2"
abbreviation (input) NEU_RESP_READ_GROUP :: nat where "NEU_RESP_READ_GROUP \<equiv> 3"
abbreviation (input) NEU_REQ_WRITE_TAG :: nat where "NEU_REQ_WRITE_TAG \<equiv> 4"
abbreviation (input) NEU_REQ_WRITE_TAGS :: nat where "NEU_REQ_WRITE_TAGS \<equiv> 5"
abbreviation (input) NEU_REQ_SUBSCRIBE_GROUP :: nat where "NEU_REQ_SUBSCRIBE_GROUP \<equiv> 6"
abbreviation (input) NEU_REQ_UNSUBSCRIBE_GROUP :: nat where "NEU_REQ_UNSUBSCRIBE_GROUP \<equiv> 7"
abbreviation (input) NEU_REQ_UPDATE_SUBSCRIBE_GROUP :: nat where "NEU_REQ_UPDATE_SUBSCRIBE_GROUP \<equiv> 8"
abbreviation (input) NEU_REQ_SUBSCRIBE_GROUPS :: nat where "NEU_REQ_SUBSCRIBE_GROUPS \<equiv> 9"
abbreviation (input) NEU_REQ_GET_SUBSCRIBE_GROUP :: nat where "NEU_REQ_GET_SUBSCRIBE_GROUP \<equiv> 10"
abbreviation (input) NEU_RESP_GET_SUBSCRIBE_GROUP :: nat where "NEU_RESP_GET_SUBSCRIBE_GROUP \<equiv> 11"
abbreviation (input) NEU_REQ_GET_SUB_DRIVER_TAGS :: nat where "NEU_REQ_GET_SUB_DRIVER_TAGS \<equiv> 12"
abbreviation (input) NEU_RESP_GET_SUB_DRIVER_TAGS :: nat where "NEU_RESP_GET_SUB_DRIVER_TAGS \<equiv> 13"
abbreviation (input) NEU_REQ_NODE_INIT :: nat where "NEU_REQ_NODE_INIT \<equiv> 14"
abbreviation (input) NEU_REQ_NODE_UNINIT :: nat where "NEU_REQ_NODE_UNINIT \<equiv> 15"
abbreviation (input) NEU_RESP_NODE_UNINIT :: nat where "NEU_RESP_NODE_UNINIT \<equiv> 16"
abbreviation (input) NEU_REQ_ADD_NODE :: nat where "NEU_REQ_ADD_NODE \<equiv> 17"
abbreviation (input) NEU_REQ_UPDATE_NODE :: nat where "NEU_REQ_UPDATE_NODE \<equiv> 18"
abbreviation (input) NEU_REQ_DEL_NODE :: nat where "NEU_REQ_DEL_NODE \<equiv> 19"
abbreviation (input) NEU_REQ_GET_NODE :: nat where "NEU_REQ_GET_NODE \<equiv> 20"
abbreviation (input) NEU_RESP_GET_NODE :: nat where "NEU_RESP_GET_NODE \<equiv> 21"
abbreviation (input) NEU_REQ_NODE_SETTING :: nat where "NEU_REQ_NODE_SETTING \<equiv> 22"
abbreviation (input) NEU_REQ_GET_NODE_SETTING :: nat where "NEU_REQ_GET_NODE_SETTING \<equiv> 23"
abbreviation (input) NEU_RESP_GET_NODE_SETTING :: nat where "NEU_RESP_GET_NODE_SETTING \<equiv> 24"
abbreviation (input) NEU_REQ_GET_NODE_STATE :: nat where "NEU_REQ_GET_NODE_STATE \<equiv> 25"
abbreviation (input) NEU_RESP_GET_NODE_STATE :: nat where "NEU_RESP_GET_NODE_STATE \<equiv> 26"
abbreviation (input) NEU_REQ_GET_NODES_STATE :: nat where "NEU_REQ_GET_NODES_STATE \<equiv> 27"
abbreviation (input) NEU_RESP_GET_NODES_STATE :: nat where "NEU_RESP_GET_NODES_STATE \<equiv> 28"
abbreviation (input) NEU_REQ_NODE_CTL :: nat where "NEU_REQ_NODE_CTL \<equiv> 29"
abbreviation (input) NEU_REQ_NODE_RENAME :: nat where "NEU_REQ_NODE_RENAME \<equiv> 30"
abbreviation (input) NEU_RESP_NODE_RENAME :: nat where "NEU_RESP_NODE_RENAME \<equiv> 31"
abbreviation (input) NEU_REQ_ADD_GROUP :: nat where "NEU_REQ_ADD_GROUP \<equiv> 32"
abbreviation (input) NEU_REQ_DEL_GROUP :: nat where "NEU_REQ_DEL_GROUP \<equiv> 33"
abbreviation (input) NEU_REQ_UPDATE_GROUP :: nat where "NEU_REQ_UPDATE_GROUP \<equiv> 34"
abbreviation (input) NEU_REQ_UPDATE_DRIVER_GROUP :: nat where "NEU_REQ_UPDATE_DRIVER_GROUP \<equiv> 35"
abbreviation (input) NEU_RESP_UPDATE_DRIVER_GROUP :: nat where "NEU_RESP_UPDATE_DRIVER_GROUP \<equiv> 36"
abbreviation (input) NEU_REQ_GET_GROUP :: nat where "NEU_REQ_GET_GROUP \<equiv> 37"
abbreviation (input) NEU_RESP_GET_GROUP :: nat where "NEU_RESP_GET_GROUP \<equiv> 38"
abbreviation (input) NEU_REQ_GET_DRIVER_GROUP :: nat where "NEU_REQ_GET_DRIVER_GROUP \<equiv> 39"
abbreviation (input) NEU_RESP_GET_DRIVER_GROUP :: nat where "NEU_RESP_GET_DRIVER_GROUP \<equiv> 40"
abbreviation (input) NEU_REQ_ADD_TAG :: nat where "NEU_REQ_ADD_TAG \<equiv> 41"
abbreviation (input) NEU_RESP_ADD_TAG :: nat where "NEU_RESP_ADD_TAG \<equiv> 42"
abbreviation (input) NEU_REQ_DEL_TAG :: nat where "NEU_REQ_DEL_TAG \<equiv> 43"
abbreviation (input) NEU_REQ_UPDATE_TAG :: nat where "NEU_REQ_UPDATE_TAG \<equiv> 44"
abbreviation (input) NEU_RESP_UPDATE_TAG :: nat where "NEU_RESP_UPDATE_TAG \<equiv> 45"
abbreviation (input) NEU_REQ_GET_TAG :: nat where "NEU_REQ_GET_TAG \<equiv> 46"
abbreviation (input) NEU_RESP_GET_TAG :: nat where "NEU_RESP_GET_TAG \<equiv> 47"
abbreviation (input) NEU_REQ_ADD_PLUGIN :: nat where "NEU_REQ_ADD_PLUGIN \<equiv> 48"
abbreviation (input) NEU_REQ_DEL_PLUGIN :: nat where "NEU_REQ_DEL_PLUGIN \<equiv> 49"
abbreviation (input) NEU_REQ_GET_PLUGIN :: nat where "NEU_REQ_GET_PLUGIN \<equiv> 50"
abbreviation (input) NEU_RESP_GET_PLUGIN :: nat where "NEU_RESP_GET_PLUGIN \<equiv> 51"
abbreviation (input) NEU_REQ_ADD_TEMPLATE :: nat where "NEU_REQ_ADD_TEMPLATE \<equiv> 52"
abbreviation (input) NEU_REQ_DEL_TEMPLATE :: nat where "NEU_REQ_DEL_TEMPLATE \<equiv> 53"
abbreviation (input) NEU_REQ_GET_TEMPLATE :: nat where "NEU_REQ_GET_TEMPLATE \<equiv> 54"
abbreviation (input) NEU_RESP_GET_TEMPLATE :: nat where "NEU_RESP_GET_TEMPLATE \<equiv> 55"
abbreviation (input) NEU_REQ_GET_TEMPLATES :: nat where "NEU_REQ_GET_TEMPLATES \<equiv> 56"
abbreviation (input) NEU_RESP_GET_TEMPLATES :: nat where "NEU_RESP_GET_TEMPLATES \<equiv> 57"
abbreviation (input) NEU_REQ_ADD_TEMPLATE_GROUP :: nat where "NEU_REQ_ADD_TEMPLATE_GROUP \<equiv> 58"
abbreviation (input) NEU_REQ_DEL_TEMPLATE_GROUP :: nat where "NEU_REQ_DEL_TEMPLATE_GROUP \<equiv> 59"
abbreviation (input) NEU_REQ_UPDATE_TEMPLATE_GROUP :: nat where "NEU_REQ_UPDATE_TEMPLATE_GROUP \<equiv> 60"
abbreviation (input) NEU_REQ_GET_TEMPLATE_GROUP :: nat where "NEU_REQ_GET_TEMPLATE_GROUP \<equiv> 61"
abbreviation (input) NEU_REQ_ADD_TEMPLATE_TAG :: nat where "NEU_REQ_ADD_TEMPLATE_TAG \<equiv> 62"
abbreviation (input) NEU_RESP_ADD_TEMPLATE_TAG :: nat where "NEU_RESP_ADD_TEMPLATE_TAG \<equiv> 63"
abbreviation (input) NEU_REQ_DEL_TEMPLATE_TAG :: nat where "NEU_REQ_DEL_TEMPLATE_TAG \<equiv> 64"
abbreviation (input) NEU_REQ_UPDATE_TEMPLATE_TAG :: nat where "NEU_REQ_UPDATE_TEMPLATE_TAG \<equiv> 65"
abbreviation (input) NEU_RESP_UPDATE_TEMPLATE_TAG :: nat where "NEU_RESP_UPDATE_TEMPLATE_TAG \<equiv> 66"
abbreviation (input) NEU_REQ_GET_TEMPLATE_TAG :: nat where "NEU_REQ_GET_TEMPLATE_TAG \<equiv> 67"
abbreviation (input) NEU_RESP_GET_TEMPLATE_TAG :: nat where "NEU_RESP_GET_TEMPLATE_TAG \<equiv> 68"
abbreviation (input) NEU_REQ_INST_TEMPLATE :: nat where "NEU_REQ_INST_TEMPLATE \<equiv> 69"
abbreviation (input) NEU_REQ_INST_TEMPLATES :: nat where "NEU_REQ_INST_TEMPLATES \<equiv> 70"
abbreviation (input) NEU_REQRESP_TRANS_DATA :: nat where "NEU_REQRESP_TRANS_DATA \<equiv> 71"
abbreviation (input) NEU_REQRESP_NODES_STATE :: nat where "NEU_REQRESP_NODES_STATE \<equiv> 72"
abbreviation (input) NEU_REQRESP_NODE_DELETED :: nat where "NEU_REQRESP_NODE_DELETED \<equiv> 73"
abbreviation (input) NEU_REQ_ADD_NDRIVER_MAP :: nat where "NEU_REQ_ADD_NDRIVER_MAP \<equiv> 74"
abbreviation (input) NEU_REQ_DEL_NDRIVER_MAP :: nat where "NEU_REQ_DEL_NDRIVER_MAP \<equiv> 75"
abbreviation (input) NEU_REQ_GET_NDRIVER_MAPS :: nat where "NEU_REQ_GET_NDRIVER_MAPS \<equiv> 76"
abbreviation (input) NEU_RESP_GET_NDRIVER_MAPS :: nat where "NEU_RESP_GET_NDRIVER_MAPS \<equiv> 77"
abbreviation (input) NEU_REQ_UPDATE_NDRIVER_TAG_PARAM :: nat where "NEU_REQ_UPDATE_NDRIVER_TAG_PARAM \<equiv> 78"
abbreviation (input) NEU_REQ_UPDATE_NDRIVER_TAG_INFO :: nat where "NEU_REQ_UPDATE_NDRIVER_TAG_INFO \<equiv> 79"
abbreviation (input) NEU_REQ_GET_NDRIVER_TAGS :: nat where "NEU_REQ_GET_NDRIVER_TAGS \<equiv> 80"
abbreviation (input) NEU_RESP_GET_NDRIVER_TAGS :: nat where "NEU_RESP_GET_NDRIVER_TAGS \<equiv> 81"
abbreviation (input) NEU_REQ_UPDATE_LOG_LEVEL :: nat where "NEU_REQ_UPDATE_LOG_LEVEL \<equiv> 82"
abbreviation (input) NEU_REQ_ADD_NODE_EVENT :: nat where "NEU_REQ_ADD_NODE_EVENT \<equiv> 83"
abbreviation (input) NEU_REQ_DEL_NODE_EVENT :: nat where "NEU_REQ_DEL_NODE_EVENT \<equiv> 84"
abbreviation (input) NEU_REQ_NODE_CTL_EVENT :: nat where "NEU_REQ_NODE_CTL_EVENT \<equiv> 85"
abbreviation (input) NEU_REQ_NODE_SETTING_EVENT :: nat where "NEU_REQ_NODE_SETTING_EVENT \<equiv> 86"
abbreviation (input) NEU_REQ_ADD_GROUP_EVENT :: nat where "NEU_REQ_ADD_GROUP_EVENT \<equiv> 87"
abbreviation (input) NEU_REQ_DEL_GROUP_EVENT :: nat where "NEU_REQ_DEL_GROUP_EVENT \<equiv> 88"
abbreviation (input) NEU_REQ_UPDATE_GROUP_EVENT :: nat where "NEU_REQ_UPDATE_GROUP_EVENT \<equiv> 89"
abbreviation (input) NEU_REQ_ADD_TAG_EVENT :: nat where "NEU_REQ_ADD_TAG_EVENT \<equiv> 90"
abbreviation (input) NEU_REQ_DEL_TAG_EVENT :: nat where "NEU_REQ_DEL_TAG_EVENT \<equiv> 91"
abbreviation (input) NEU_REQ_UPDATE_TAG_EVENT :: nat where "NEU_REQ_UPDATE_TAG_EVENT \<equiv> 92"
abbreviation (input) ESV_THING_MODEL_TRANS_DATA_INPROC :: nat where "ESV_THING_MODEL_TRANS_DATA_INPROC \<equiv> 93"

section \<open>Headers and bodies\<close>

record neu_reqresp_head_t =
  rh_type :: neu_reqresp_type
  rh_ctx :: nat
  rh_sender :: string
  rh_receiver :: string

datatype neu_adapter_ctl_e = NEU_ADAPTER_CTL_START | NEU_ADAPTER_CTL_STOP

datatype neu_node_link_state_e =
  NEU_NODE_LINK_STATE_DISCONNECTED | NEU_NODE_LINK_STATE_CONNECTED

text \<open>
  The first field of most requests is the name of a node.  \<open>D_node\<close> is a body with this
  field only, \<open>D_group\<close> one with the name of a group after it.  \<open>D_other\<close> stands for the responses
  that no definition here looks into.
\<close>

datatype reqresp_data =
    D_error int
  | D_node string
  | D_node_state string neu_node_running_state_e
  | D_node_setting string string
  | D_node_ctl string neu_adapter_ctl_e
  | D_node_rename string string
  | D_resp_node_rename string string int
  | D_resp_node_state neu_node_running_state_e neu_node_link_state_e u16
  | D_group string string
  | D_add_group string string u32
  | D_update_group string string string u32
  | D_resp_update_group string string string int
  | D_resp_get_group "neu_resp_group_info_t list"
  | D_tags string string "neu_datatag_t list"
  | D_del_tag string string "string list"
  | D_get_tag string string string
  | D_resp_tag u16 int
  | D_resp_get_tag "neu_datatag_t list"
  | D_write_tag string string string neu_dvalue_t
  | D_write_tags string string "(string \<times> neu_dvalue_t) list"
  | D_ndriver_tags string string string "(string option \<times> string option) list"
  | D_get_ndriver_tags string string string
  | D_empty
  | D_add_plugin string
  | D_del_plugin string
  | D_add_node string string
  | D_get_node u32 string string
  | D_subscribe string string string "string option"
  | D_unsubscribe string string string
  | D_subscribe_groups string "(string \<times> string \<times> string option) list"
  | D_add_template string string "(string \<times> u32 \<times> neu_datatag_t list) list"
  | D_template string
  | D_template_group string string u32
  | D_del_template_group string string
  | D_template_tags string string "neu_datatag_t list"
  | D_del_template_tag string string "string list"
  | D_get_template_tag string string string
  | D_inst_template string string
  | D_inst_templates "(string \<times> string) list"
  | D_ndriver_map string string string
  | D_other

type_synonym neu_msg = "neu_reqresp_head_t \<times> reqresp_data"

definition neu_msg_exchange :: "neu_reqresp_head_t \<Rightarrow> neu_reqresp_head_t" where
  "neu_msg_exchange h = h\<lparr>rh_sender := rh_receiver h, rh_receiver := rh_sender h\<rparr>"

text \<open>The struct whose size \<open>neu_msg_gen\<close> takes for a type.\<close>

definition other_types :: "neu_reqresp_type list" where
  "other_types =
    [NEU_RESP_GET_PLUGIN, NEU_RESP_GET_TEMPLATE, NEU_RESP_GET_TEMPLATES, NEU_RESP_GET_NODE,
     NEU_RESP_GET_SUB_DRIVER_TAGS, NEU_RESP_GET_SUBSCRIBE_GROUP, NEU_REQRESP_NODES_STATE,
     NEU_RESP_GET_NODES_STATE, NEU_RESP_READ_GROUP, NEU_REQRESP_TRANS_DATA,
     NEU_RESP_GET_DRIVER_GROUP, NEU_RESP_GET_NDRIVER_MAPS]"

fun data_fits :: "neu_reqresp_type \<Rightarrow> reqresp_data \<Rightarrow> bool" where
  "data_fits t (D_error _) = (t = NEU_RESP_ERROR)"
| "data_fits t (D_node _) =
     (t \<in> {NEU_REQ_DEL_NODE, NEU_REQ_DEL_NODE_EVENT, NEU_REQ_GET_DRIVER_GROUP, NEU_REQ_GET_GROUP,
            NEU_REQ_GET_SUBSCRIBE_GROUP, NEU_REQ_GET_SUB_DRIVER_TAGS, NEU_REQ_GET_NODE_SETTING,
            NEU_REQ_GET_NODE_STATE, NEU_REQRESP_NODE_DELETED, NEU_REQ_GET_NDRIVER_MAPS,
            NEU_REQ_UPDATE_LOG_LEVEL})"
| "data_fits t (D_node_state _ _) =
     (t \<in> {NEU_REQ_NODE_INIT, NEU_REQ_NODE_UNINIT, NEU_RESP_NODE_UNINIT})"
| "data_fits t (D_node_setting _ _) =
     (t \<in> {NEU_REQ_NODE_SETTING, NEU_REQ_NODE_SETTING_EVENT, NEU_RESP_GET_NODE_SETTING})"
| "data_fits t (D_node_ctl _ _) = (t \<in> {NEU_REQ_NODE_CTL, NEU_REQ_NODE_CTL_EVENT})"
| "data_fits t (D_node_rename _ _) = (t \<in> {NEU_REQ_NODE_RENAME, NEU_REQ_UPDATE_NODE})"
| "data_fits t (D_resp_node_rename _ _ _) = (t = NEU_RESP_NODE_RENAME)"
| "data_fits t (D_resp_node_state _ _ _) = (t = NEU_RESP_GET_NODE_STATE)"
| "data_fits t (D_group _ _) =
     (t \<in> {NEU_REQ_READ_GROUP, NEU_REQ_DEL_GROUP, NEU_REQ_DEL_GROUP_EVENT})"
| "data_fits t (D_add_group _ _ _) = (t \<in> {NEU_REQ_ADD_GROUP, NEU_REQ_ADD_GROUP_EVENT})"
| "data_fits t (D_update_group _ _ _ _) =
     (t \<in> {NEU_REQ_UPDATE_GROUP, NEU_REQ_UPDATE_DRIVER_GROUP, NEU_REQ_UPDATE_GROUP_EVENT})"
| "data_fits t (D_resp_update_group _ _ _ _) = (t = NEU_RESP_UPDATE_DRIVER_GROUP)"
| "data_fits t (D_resp_get_group _) = (t = NEU_RESP_GET_GROUP)"
| "data_fits t (D_tags _ _ _) =
     (t \<in> {NEU_REQ_ADD_TAG, NEU_REQ_ADD_TAG_EVENT, NEU_REQ_UPDATE_TAG, NEU_REQ_UPDATE_TAG_EVENT})"
| "data_fits t (D_del_tag _ _ _) = (t \<in> {NEU_REQ_DEL_TAG, NEU_REQ_DEL_TAG_EVENT})"
| "data_fits t (D_get_tag _ _ _) = (t = NEU_REQ_GET_TAG)"
| "data_fits t (D_resp_tag _ _) =
     (t \<in> {NEU_RESP_ADD_TAG, NEU_RESP_ADD_TEMPLATE_TAG, NEU_RESP_UPDATE_TAG,
            NEU_RESP_UPDATE_TEMPLATE_TAG})"
| "data_fits t (D_resp_get_tag _) =
     (t \<in> {NEU_RESP_GET_TAG, NEU_RESP_GET_TEMPLATE_TAG, NEU_RESP_GET_NDRIVER_TAGS})"
| "data_fits t (D_write_tag _ _ _ _) = (t = NEU_REQ_WRITE_TAG)"
| "data_fits t (D_write_tags _ _ _) = (t = NEU_REQ_WRITE_TAGS)"
| "data_fits t (D_ndriver_tags _ _ _ _) =
     (t \<in> {NEU_REQ_UPDATE_NDRIVER_TAG_PARAM, NEU_REQ_UPDATE_NDRIVER_TAG_INFO})"
| "data_fits t (D_get_ndriver_tags _ _ _) = (t = NEU_REQ_GET_NDRIVER_TAGS)"
| "data_fits t D_empty =
     (t \<in> {NEU_REQ_GET_PLUGIN, NEU_REQ_GET_TEMPLATES, NEU_REQ_GET_NODES_STATE, NEU_REQ_UPDATE_LICENSE})"
| "data_fits t (D_add_plugin _) = (t = NEU_REQ_ADD_PLUGIN)"
| "data_fits t (D_del_plugin _) = (t = NEU_REQ_DEL_PLUGIN)"
| "data_fits t (D_add_node _ _) = (t \<in> {NEU_REQ_ADD_NODE, NEU_REQ_ADD_NODE_EVENT})"
| "data_fits t (D_get_node _ _ _) = (t = NEU_REQ_GET_NODE)"
| "data_fits t (D_subscribe _ _ _ _) = (t \<in> {NEU_REQ_SUBSCRIBE_GROUP, NEU_REQ_UPDATE_SUBSCRIBE_GROUP})"
| "data_fits t (D_unsubscribe _ _ _) = (t = NEU_REQ_UNSUBSCRIBE_GROUP)"
| "data_fits t (D_subscribe_groups _ _) = (t = NEU_REQ_SUBSCRIBE_GROUPS)"
| "data_fits t (D_add_template _ _ _) = (t = NEU_REQ_ADD_TEMPLATE)"
| "data_fits t (D_template _) =
     (t \<in> {NEU_REQ_DEL_TEMPLATE, NEU_REQ_GET_TEMPLATE, NEU_REQ_GET_TEMPLATE_GROUP})"
| "data_fits t (D_template_group _ _ _) =
     (t \<in> {NEU_REQ_ADD_TEMPLATE_GROUP, NEU_REQ_UPDATE_TEMPLATE_GROUP})"
| "data_fits t (D_del_template_group _ _) = (t = NEU_REQ_DEL_TEMPLATE_GROUP)"
| "data_fits t (D_template_tags _ _ _) =
     (t \<in> {NEU_REQ_ADD_TEMPLATE_TAG, NEU_REQ_UPDATE_TEMPLATE_TAG})"
| "data_fits t (D_del_template_tag _ _ _) = (t = NEU_REQ_DEL_TEMPLATE_TAG)"
| "data_fits t (D_get_template_tag _ _ _) = (t = NEU_REQ_GET_TEMPLATE_TAG)"
| "data_fits t (D_inst_template _ _) = (t = NEU_REQ_INST_TEMPLATE)"
| "data_fits t (D_inst_templates _) = (t = NEU_REQ_INST_TEMPLATES)"
| "data_fits t (D_ndriver_map _ _ _) = (t \<in> {NEU_REQ_ADD_NDRIVER_MAP, NEU_REQ_DEL_NDRIVER_MAP})"
| "data_fits t D_other = (t \<in> set other_types)"

definition neu_msg_gen :: "neu_reqresp_head_t \<Rightarrow> reqresp_data \<Rightarrow> neu_msg option" where
  "neu_msg_gen h d = (if data_fits (rh_type h) d then Some (h, d) else None)"

text \<open>The first field of a request, read through a cast to another request's struct.\<close>

fun first_field :: "reqresp_data \<Rightarrow> string option" where
  "first_field (D_node n) = Some n"
| "first_field (D_node_state n _) = Some n"
| "first_field (D_node_setting n _) = Some n"
| "first_field (D_node_ctl n _) = Some n"
| "first_field (D_node_rename n _) = Some n"
| "first_field (D_group n _) = Some n"
| "first_field (D_add_group n _ _) = Some n"
| "first_field (D_update_group n _ _ _) = Some n"
| "first_field (D_tags n _ _) = Some n"
| "first_field (D_del_tag n _ _) = Some n"
| "first_field (D_get_tag n _ _) = Some n"
| "first_field (D_write_tag n _ _ _) = Some n"
| "first_field (D_write_tags n _ _) = Some n"
| "first_field (D_ndriver_tags n _ _ _) = Some n"
| "first_field (D_get_ndriver_tags n _ _) = Some n"
| "first_field (D_add_plugin n) = Some n"
| "first_field (D_del_plugin n) = Some n"
| "first_field (D_add_node n _) = Some n"
| "first_field (D_subscribe n _ _ _) = Some n"
| "first_field (D_unsubscribe n _ _) = Some n"
| "first_field (D_add_template n _ _) = Some n"
| "first_field (D_template n) = Some n"
| "first_field (D_template_group n _ _) = Some n"
| "first_field (D_del_template_group n _) = Some n"
| "first_field (D_template_tags n _ _) = Some n"
| "first_field (D_del_template_tag n _ _) = Some n"
| "first_field (D_get_template_tag n _ _) = Some n"
| "first_field (D_inst_template n _) = Some n"
| "first_field (D_ndriver_map n _ _) = Some n"
| "first_field _ = None"

lemma msg_exchange [simp]:
  "rh_type (neu_msg_exchange h) = rh_type h" "rh_ctx (neu_msg_exchange h) = rh_ctx h"
  "rh_sender (neu_msg_exchange h) = rh_receiver h" "rh_receiver (neu_msg_exchange h) = rh_sender h"
  by (simp_all add: neu_msg_exchange_def)

lemma msg_gen_Some: "neu_msg_gen h d = Some m \<longleftrightarrow> data_fits (rh_type h) d \<and> m = (h, d)"
  by (auto simp: neu_msg_gen_def)

end
