(* ===== verification/NodeJson.thy ===== *)
theory NodeJson
  imports Elems Msg
begin

text \<open>
  Requests about nodes and their answers as JSON (\<open>src/parser/neu_json_node.c\<close>).  A decoder gives
  \<open>None\<close> for undefined behaviour and \<open>Some None\<close> for the result -1.
\<close>

text \<open>The decoders of a flat request: parse, decode the fields, build the result.\<close>

definition decode_fields ::
  "'j jansson \<Rightarrow> 'j option \<Rightarrow> 'j neu_json_elem_t list \<Rightarrow> ('j neu_json_elem_t list \<Rightarrow> 'a) \<Rightarrow> 'a option option" where
  "decode_fields J json_obj elems f =
     map_option (\<lambda>(ret, es). if ret \<noteq> 0 then None else Some (f es)) (neu_json_decode_by_json J json_obj elems)"

definition str_of :: "'j neu_json_elem_t \<Rightarrow> string option" where
  "str_of e = jstr (ev e)"

section \<open>Adding, deleting and renaming a node\<close>

record neu_json_add_node_req_t =
  an_name :: "string option"
  an_plugin :: "string option"

definition neu_json_encode_add_node_req :: "'j jansson \<Rightarrow> neu_json_add_node_req_t \<Rightarrow> 'j \<Rightarrow> int \<times> 'j" where
  "neu_json_encode_add_node_req J req json_object =
     neu_json_encode_field J json_object [str_elem ''plugin'' (an_plugin req), str_elem ''name'' (an_name req)]"

definition neu_json_decode_add_node_req :: "'j jansson \<Rightarrow> string \<Rightarrow> neu_json_add_node_req_t option option" where
  "neu_json_decode_add_node_req J buf =
     decode_fields J (neu_json_decode_new J buf) [want ''plugin'' NEU_JSON_STR, want ''name'' NEU_JSON_STR]
       (\<lambda>es. \<lparr>an_name = str_of (es ! 1), an_plugin = str_of (es ! 0)\<rparr>)"

definition neu_json_encode_del_node_req :: "'j jansson \<Rightarrow> string option \<Rightarrow> 'j \<Rightarrow> int \<times> 'j" where
  "neu_json_encode_del_node_req J name json_object =
     neu_json_encode_field J json_object [str_elem ''name'' name]"

definition neu_json_decode_del_node_req :: "'j jansson \<Rightarrow> string \<Rightarrow> string option option option" where
  "neu_json_decode_del_node_req J buf =
     decode_fields J (neu_json_decode_new J buf) [want ''name'' NEU_JSON_STR] (\<lambda>es. str_of (es ! 0))"

record neu_json_update_node_req_t =
  un_name :: "string option"
  un_new_name :: "string option"

text \<open>The new name is encoded as an integer: \<open>addr\<close> is the address of the string.\<close>

definition neu_json_encode_update_node_req ::
  "'j jansson \<Rightarrow> u64 \<Rightarrow> neu_json_update_node_req_t \<Rightarrow> 'j \<Rightarrow> int \<times> 'j" where
  "neu_json_encode_update_node_req J addr req json_object =
     neu_json_encode_field J json_object [str_elem ''name'' (un_name req), int_elem ''new_name'' addr]"

definition neu_json_decode_update_node_req ::
  "'j jansson \<Rightarrow> string \<Rightarrow> neu_json_update_node_req_t option option" where
  "neu_json_decode_update_node_req J buf =
     (case neu_json_decode_new J buf of
        None \<Rightarrow> Some None
      | Some json_obj \<Rightarrow>
          decode_fields J (Some json_obj) [want ''name'' NEU_JSON_STR, want ''new_name'' NEU_JSON_STR]
            (\<lambda>es. \<lparr>un_name = str_of (es ! 0), un_new_name = str_of (es ! 1)\<rparr>))"

section \<open>Starting, stopping and setting a node\<close>

record neu_json_node_ctl_req_t =
  nc_node :: "string option"
  nc_cmd :: u64

definition neu_json_encode_node_ctl_req :: "'j jansson \<Rightarrow> neu_json_node_ctl_req_t \<Rightarrow> 'j \<Rightarrow> int \<times> 'j" where
  "neu_json_encode_node_ctl_req J req json_object =
     neu_json_encode_field J json_object [str_elem ''node'' (nc_node req), int_elem ''cmd'' (nc_cmd req)]"

definition neu_json_decode_node_ctl_req :: "'j jansson \<Rightarrow> string \<Rightarrow> neu_json_node_ctl_req_t option option" where
  "neu_json_decode_node_ctl_req J buf =
     decode_fields J (neu_json_decode_new J buf) [want ''node'' NEU_JSON_STR, want ''cmd'' NEU_JSON_INT]
       (\<lambda>es. \<lparr>nc_node = str_of (es ! 0), nc_cmd = val_int (ev (es ! 1))\<rparr>)"

record neu_json_node_setting_req_t =
  st_node :: "string option"
  st_setting :: "string option"

text \<open>The parser of the library refuses a setting that is NULL.\<close>

definition neu_json_encode_node_setting_req ::
  "'j jansson \<Rightarrow> neu_json_node_setting_req_t \<Rightarrow> 'j \<Rightarrow> int \<times> 'j" where
  "neu_json_encode_node_setting_req J req json_object =
     (case neu_json_encode_field J json_object [str_elem ''node'' (st_node req)] of
        (ret, ob) \<Rightarrow>
          if ret \<noteq> 0 then (ret, ob)
          else (case st_setting req of
                  None \<Rightarrow> (- 1, ob)
                | Some s \<Rightarrow> neu_json_load_key J ob ''params'' s True))"

definition neu_json_decode_node_setting_req ::
  "'j jansson \<Rightarrow> string \<Rightarrow> neu_json_node_setting_req_t option option" where
  "neu_json_decode_node_setting_req J buf =
     (let json_obj = neu_json_decode_new J buf
      in case neu_json_decode_by_json J json_obj [want ''node'' NEU_JSON_STR] of
           None \<Rightarrow> None
         | Some (ret, es) \<Rightarrow>
             (case json_obj of
                None \<Rightarrow> Some None
              | Some root \<Rightarrow>
                  if ret \<noteq> 0 then Some None
                  else (case neu_json_dump_key J root ''params'' None True of
                          (ret', setting) \<Rightarrow>
                            Some (if ret' \<noteq> 0 then None
                                  else Some \<lparr>st_node = str_of (es ! 0), st_setting = setting\<rparr>))))"

definition neu_json_encode_get_node_setting_resp ::
  "'j jansson \<Rightarrow> neu_json_node_setting_req_t \<Rightarrow> 'j \<Rightarrow> int \<times> 'j" where
  "neu_json_encode_get_node_setting_resp J resp json_object =
     (case neu_json_encode_field J json_object [str_elem ''node'' (st_node resp)] of
        (ret, ob) \<Rightarrow>
          if ret \<noteq> 0 then (ret, ob)
          else (case st_setting resp of
                  None \<Rightarrow> (- 1, ob)
                | Some s \<Rightarrow> neu_json_load_key J ob ''params'' s True))"

section \<open>States and lists\<close>

definition neu_json_encode_get_node_state_resp ::
  "'j jansson \<Rightarrow> u64 \<Rightarrow> u64 \<Rightarrow> u64 \<Rightarrow> 'j \<Rightarrow> int \<times> 'j" where
  "neu_json_encode_get_node_state_resp J running link rtt json_object =
     neu_json_encode_field J json_object
       [int_elem ''running'' running, int_elem ''link'' link, int_elem ''rtt'' rtt]"

record neu_json_get_nodes_state_t =
  gs_name :: "string option"
  gs_running :: u64
  gs_link :: u64
  gs_rtt :: u64

definition encode_list ::
  "'j jansson \<Rightarrow> ('a \<Rightarrow> 'j neu_json_elem_t list) \<Rightarrow> 'j \<Rightarrow> 'a list \<Rightarrow> 'j" where
  "encode_list J elems arr xs = foldl (\<lambda>a x. neu_json_encode_array J (Some a) (elems x)) arr xs"

definition neu_json_encode_get_nodes_state_resp ::
  "'j jansson \<Rightarrow> neu_json_get_nodes_state_t list \<Rightarrow> 'j \<Rightarrow> int \<times> 'j" where
  "neu_json_encode_get_nodes_state_resp J nodes json_object =
     (let node_array = encode_list J
            (\<lambda>n. [str_elem ''node'' (gs_name n), int_elem ''running'' (gs_running n),
                  int_elem ''link'' (gs_link n), int_elem ''rtt'' (gs_rtt n)])
            (json_array_new J) nodes
      in neu_json_encode_field J json_object [object_elem ''states'' (Some node_array)])"

record neu_json_get_nodes_resp_node_t =
  gn_name :: "string option"
  gn_plugin :: "string option"

text \<open>What the object already has under \<open>nodes\<close> is added to.\<close>

definition neu_json_encode_get_nodes_resp ::
  "'j jansson \<Rightarrow> neu_json_get_nodes_resp_node_t list \<Rightarrow> 'j \<Rightarrow> int \<times> 'j" where
  "neu_json_encode_get_nodes_resp J nodes json_object =
     (let start = (case json_object_get J json_object ''nodes'' of None \<Rightarrow> json_array_new J | Some a \<Rightarrow> a);
          node_array = encode_list J
            (\<lambda>n. [str_elem ''plugin'' (gn_plugin n), str_elem ''name'' (gn_name n)]) start nodes
      in neu_json_encode_field J json_object [object_elem ''nodes'' (Some node_array)])"

fun decode_list ::
  "'j jansson \<Rightarrow> 'j \<Rightarrow> ('j option \<Rightarrow> 'a option option) \<Rightarrow> nat list \<Rightarrow> 'a list option option" where
  "decode_list J arr decode [] = Some (Some [])"
| "decode_list J arr decode (i # is) =
     (case decode (json_array_get J arr i) of
        None \<Rightarrow> None
      | Some None \<Rightarrow> Some None
      | Some (Some x) \<Rightarrow> map_option (map_option ((#) x)) (decode_list J arr decode is))"

definition neu_json_decode_get_nodes_resp_json ::
  "'j jansson \<Rightarrow> 'j \<Rightarrow> neu_json_get_nodes_resp_node_t list option option" where
  "neu_json_decode_get_nodes_resp_json J json_obj =
     (case json_object_get J json_obj ''nodes'' of
        None \<Rightarrow> Some None
      | Some node_array \<Rightarrow>
          if \<not> json_is_array J node_array \<or> json_array_size J node_array = 0 then Some None
          else decode_list J node_array
                 (\<lambda>ob. decode_fields J ob [want ''name'' NEU_JSON_STR, want ''plugin'' NEU_JSON_STR]
                    (\<lambda>es. \<lparr>gn_name = str_of (es ! 0), gn_plugin = str_of (es ! 1)\<rparr>))
                 [0..<json_array_size J node_array])"

definition neu_json_decode_get_nodes_resp ::
  "'j jansson \<Rightarrow> string \<Rightarrow> neu_json_get_nodes_resp_node_t list option option" where
  "neu_json_decode_get_nodes_resp J buf =
     (case neu_json_decode_new J buf of
        None \<Rightarrow> Some None
      | Some json_obj \<Rightarrow> neu_json_decode_get_nodes_resp_json J json_obj)"

end
