(* ===== verification/GroupJson.thy ===== *)
theory GroupJson
  imports NodeJson
begin

text \<open>
  Requests about groups and subscriptions and their answers as JSON
  (\<open>src/parser/neu_json_group_config.c\<close>).
\<close>

section \<open>Groups\<close>

record neu_json_add_group_config_req_t =
  ag_group :: "string option"
  ag_node :: "string option"
  ag_interval :: u64

definition neu_json_encode_add_group_config_req ::
  "'j jansson \<Rightarrow> neu_json_add_group_config_req_t \<Rightarrow> 'j \<Rightarrow> int \<times> 'j" where
  "neu_json_encode_add_group_config_req J req json_object =
     neu_json_encode_field J json_object
       [str_elem ''node'' (ag_node req), str_elem ''group'' (ag_group req),
        int_elem ''interval'' (ag_interval req)]"

definition neu_json_decode_add_group_config_req ::
  "'j jansson \<Rightarrow> string \<Rightarrow> neu_json_add_group_config_req_t option option" where
  "neu_json_decode_add_group_config_req J buf =
     decode_fields J (neu_json_decode_new J buf)
       [want ''node'' NEU_JSON_STR, want ''group'' NEU_JSON_STR, want ''interval'' NEU_JSON_INT]
       (\<lambda>es. \<lparr>ag_group = str_of (es ! 1), ag_node = str_of (es ! 0), ag_interval = val_int (ev (es ! 2))\<rparr>)"

record neu_json_del_group_config_req_t =
  dg_group :: "string option"
  dg_node :: "string option"

definition neu_json_encode_del_group_config_req ::
  "'j jansson \<Rightarrow> neu_json_del_group_config_req_t \<Rightarrow> 'j \<Rightarrow> int \<times> 'j" where
  "neu_json_encode_del_group_config_req J req json_object =
     neu_json_encode_field J json_object [str_elem ''node'' (dg_node req), str_elem ''group'' (dg_group req)]"

definition neu_json_decode_del_group_config_req ::
  "'j jansson \<Rightarrow> string \<Rightarrow> neu_json_del_group_config_req_t option option" where
  "neu_json_decode_del_group_config_req J buf =
     decode_fields J (neu_json_decode_new J buf) [want ''node'' NEU_JSON_STR, want ''group'' NEU_JSON_STR]
       (\<lambda>es. \<lparr>dg_group = str_of (es ! 1), dg_node = str_of (es ! 0)\<rparr>)"

text \<open>\<open>ug_interval\<close> is \<open>None\<close> when \<open>set_interval\<close> is false.\<close>

record neu_json_update_group_config_req_t =
  ug_node :: "string option"
  ug_group :: "string option"
  ug_new_name :: "string option"
  ug_interval :: "u64 option"

definition neu_json_encode_update_group_config_req ::
  "'j jansson \<Rightarrow> neu_json_update_group_config_req_t \<Rightarrow> 'j \<Rightarrow> int \<times> 'j" where
  "neu_json_encode_update_group_config_req J req json_object =
     (case neu_json_encode_field J json_object
        [str_elem ''node'' (ug_node req), str_elem ''group'' (ug_group req),
         str_elem ''new_name'' (ug_new_name req)] of
        (ret, ob) \<Rightarrow>
          if ret \<noteq> 0 then (ret, ob)
          else (case ug_interval req of
                  None \<Rightarrow> (ret, ob)
                | Some i \<Rightarrow> neu_json_encode_field J ob [int_elem ''interval'' i]))"

definition neu_json_decode_update_group_config_req ::
  "'j jansson \<Rightarrow> string \<Rightarrow> neu_json_update_group_config_req_t option option" where
  "neu_json_decode_update_group_config_req J buf =
     (case neu_json_decode_new J buf of
        None \<Rightarrow> Some None
      | Some json_obj \<Rightarrow>
          (case neu_json_decode_by_json J (Some json_obj)
             [want ''node'' NEU_JSON_STR, want ''group'' NEU_JSON_STR, may_want ''new_name'' NEU_JSON_STR] of
             None \<Rightarrow> None
           | Some (ret, es) \<Rightarrow>
               let req = (\<lambda>i. \<lparr>ug_node = str_of (es ! 0), ug_group = str_of (es ! 1),
                               ug_new_name = str_of (es ! 2), ug_interval = i\<rparr>)
               in Some (if ret \<noteq> 0 then None
                        else case json_object_get J json_obj ''interval'' of
                          Some j \<Rightarrow>
                            if json_is_integer J j then Some (req (Some (json_integer_value J j))) else None
                        | None \<Rightarrow> if str_of (es ! 2) = None then None else Some (req None))))"

section \<open>Lists of groups\<close>

record neu_json_group_config_t =
  gc_name :: "string option"
  gc_interval :: u64
  gc_tag_count :: u64

definition neu_json_encode_get_group_config_resp ::
  "'j jansson \<Rightarrow> neu_json_group_config_t list \<Rightarrow> 'j \<Rightarrow> int \<times> 'j" where
  "neu_json_encode_get_group_config_resp J groups json_object =
     (let arr = encode_list J
            (\<lambda>g. [int_elem ''tag_count'' (gc_tag_count g), str_elem ''name'' (gc_name g),
                  int_elem ''interval'' (gc_interval g)])
            (json_array_new J) groups
      in neu_json_encode_field J json_object [object_elem ''groups'' (Some arr)])"

record neu_json_driver_group_t =
  dg_driver :: "string option"
  dg_dgroup :: "string option"
  dg_interval :: u64
  dg_tag_count :: u64

definition neu_json_encode_get_driver_group_resp ::
  "'j jansson \<Rightarrow> neu_json_driver_group_t list \<Rightarrow> 'j \<Rightarrow> int \<times> 'j" where
  "neu_json_encode_get_driver_group_resp J groups json_object =
     (let arr = encode_list J
            (\<lambda>g. [str_elem ''driver'' (dg_driver g), str_elem ''group'' (dg_dgroup g),
                  int_elem ''tag_count'' (dg_tag_count g), int_elem ''interval'' (dg_interval g)])
            (json_array_new J) groups
      in neu_json_encode_field J json_object [object_elem ''groups'' (Some arr)])"

definition neu_json_decode_get_driver_group_resp_json ::
  "'j jansson \<Rightarrow> 'j \<Rightarrow> neu_json_driver_group_t list option option" where
  "neu_json_decode_get_driver_group_resp_json J json_obj =
     (case json_object_get J json_obj ''groups'' of
        None \<Rightarrow> Some None
      | Some arr \<Rightarrow>
          if \<not> json_is_array J arr then Some None
          else decode_list J arr
                 (\<lambda>ob. decode_fields J ob
                    [want ''driver'' NEU_JSON_STR, want ''group'' NEU_JSON_STR,
                     want ''interval'' NEU_JSON_INT, want ''tag_count'' NEU_JSON_INT]
                    (\<lambda>es. \<lparr>dg_driver = str_of (es ! 0), dg_dgroup = str_of (es ! 1),
                           dg_interval = val_int (ev (es ! 2)), dg_tag_count = val_int (ev (es ! 3))\<rparr>))
                 [0..<json_array_size J arr])"

definition neu_json_decode_get_driver_group_resp ::
  "'j jansson \<Rightarrow> string \<Rightarrow> neu_json_driver_group_t list option option" where
  "neu_json_decode_get_driver_group_resp J buf =
     (case neu_json_decode_new J buf of
        None \<Rightarrow> Some None
      | Some json_obj \<Rightarrow> neu_json_decode_get_driver_group_resp_json J json_obj)"

section \<open>Subscriptions\<close>

record neu_json_subscribe_t =
  sb_app :: "string option"
  sb_driver :: "string option"
  sb_group :: "string option"
  sb_params :: "string option"

text \<open>A text of parameters that does not parse, or has none, sets nothing.\<close>

definition encode_subscription :: "'j jansson \<Rightarrow> neu_json_subscribe_t \<Rightarrow> 'j" where
  "encode_subscription J s =
     (let ob = json_set J (json_set J (json_object_new J) ''driver'' (Option.bind (sb_driver s) (json_string J)))
            ''group'' (Option.bind (sb_group s) (json_string J))
      in case sb_params s of
           None \<Rightarrow> ob
         | Some params \<Rightarrow>
             json_set J ob ''params''
               (Option.bind (json_loads J params False) (\<lambda>t. json_object_get J t ''params'')))"

definition neu_json_encode_get_subscribe_resp ::
  "'j jansson \<Rightarrow> neu_json_subscribe_t list \<Rightarrow> 'j \<Rightarrow> int \<times> 'j" where
  "neu_json_encode_get_subscribe_resp J groups ob =
     (let arr = foldl (\<lambda>a s. json_array_append_new J a (Some (encode_subscription J s))) (json_array_new J) groups
      in neu_json_encode_field J ob [object_elem ''groups'' (Some arr)])"

definition dump_params :: "'j jansson \<Rightarrow> 'j \<Rightarrow> int \<times> string option" where
  "dump_params J root = neu_json_dump_key J root ''params'' None False"

definition neu_json_decode_subscribe_req ::
  "'j jansson \<Rightarrow> string \<Rightarrow> neu_json_subscribe_t option option" where
  "neu_json_decode_subscribe_req J buf =
     (let json_obj = neu_json_decode_new J buf
      in case neu_json_decode_by_json J json_obj
           [want ''app'' NEU_JSON_STR, want ''group'' NEU_JSON_STR, want ''driver'' NEU_JSON_STR] of
           None \<Rightarrow> None
         | Some (ret, es) \<Rightarrow>
             (case json_obj of
                None \<Rightarrow> Some None
              | Some root \<Rightarrow>
                  if ret \<noteq> 0 then Some None
                  else (case dump_params J root of
                          (ret', params) \<Rightarrow>
                            Some (if ret' \<noteq> 0 then None
                                  else Some \<lparr>sb_app = str_of (es ! 0), sb_driver = str_of (es ! 2),
                                             sb_group = str_of (es ! 1), sb_params = params\<rparr>))))"

definition neu_json_decode_unsubscribe_req ::
  "'j jansson \<Rightarrow> string \<Rightarrow> neu_json_subscribe_t option option" where
  "neu_json_decode_unsubscribe_req J buf =
     decode_fields J (neu_json_decode_new J buf)
       [want ''app'' NEU_JSON_STR, want ''group'' NEU_JSON_STR, want ''driver'' NEU_JSON_STR]
       (\<lambda>es. \<lparr>sb_app = str_of (es ! 0), sb_driver = str_of (es ! 2), sb_group = str_of (es ! 1),
              sb_params = None\<rparr>)"

definition neu_json_decode_subscribe_groups_info_json ::
  "'j jansson \<Rightarrow> 'j option \<Rightarrow> neu_json_subscribe_t option option" where
  "neu_json_decode_subscribe_groups_info_json J json_obj =
     (case neu_json_decode_by_json J json_obj [want ''driver'' NEU_JSON_STR, want ''group'' NEU_JSON_STR] of
        None \<Rightarrow> None
      | Some (ret, es) \<Rightarrow>
          (case json_obj of
             None \<Rightarrow> Some None
           | Some root \<Rightarrow>
               if ret \<noteq> 0 then Some None
               else (case dump_params J root of
                       (ret', params) \<Rightarrow>
                         Some (if ret' \<noteq> 0 then None
                               else Some \<lparr>sb_app = None, sb_driver = str_of (es ! 0),
                                          sb_group = str_of (es ! 1), sb_params = params\<rparr>))))"

record neu_json_subscribe_groups_req_t =
  sg_app :: "string option"
  sg_groups :: "neu_json_subscribe_t list"

definition neu_json_decode_subscribe_groups_req ::
  "'j jansson \<Rightarrow> string \<Rightarrow> neu_json_subscribe_groups_req_t option option" where
  "neu_json_decode_subscribe_groups_req J buf =
     (case neu_json_decode_new J buf of
        None \<Rightarrow> Some None
      | Some json_obj \<Rightarrow>
          (case neu_json_decode_by_json J (Some json_obj) [want ''app'' NEU_JSON_STR, want ''groups'' NEU_JSON_OBJECT] of
             None \<Rightarrow> None
           | Some (ret, es) \<Rightarrow>
               (case jobj (ev (es ! 1)) of
                  None \<Rightarrow> Some None
                | Some group_arr \<Rightarrow>
                    if ret \<noteq> 0 \<or> \<not> json_is_array J group_arr then Some None
                    else map_option (map_option (\<lambda>groups. \<lparr>sg_app = str_of (es ! 0), sg_groups = groups\<rparr>))
                           (decode_list J group_arr (neu_json_decode_subscribe_groups_info_json J)
                             [0..<json_array_size J group_arr]))))"

end
