(* ===== verification/TagJson.thy ===== *)
theory TagJson
  imports Elems Tag
begin

text \<open>
  Tags in requests and responses (\<open>src/parser/neu_json_tag.c\<close>).  A decoder gives \<open>None\<close> for
  undefined behaviour and \<open>Some None\<close> for the result -1; a string that may be NULL is an option.
\<close>

unbundle bit_operations_syntax

section \<open>A tag\<close>

record 'j neu_json_tag_t =
  tj_address :: "string option"
  tj_name :: "string option"
  tj_description :: "string option"
  tj_type :: u64
  tj_attribute :: u64
  tj_precision :: u64
  tj_decimal :: u64
  tj_t :: neu_json_type_e
  tj_value :: "'j neu_json_value_u"

definition tag_elems :: "'j neu_json_tag_t \<Rightarrow> 'j neu_json_elem_t list" where
  "tag_elems tag =
     [int_elem ''type'' (tj_type tag), str_elem ''name'' (tj_name tag),
      int_elem ''attribute'' (tj_attribute tag), int_elem ''precision'' (tj_precision tag),
      double_elem ''decimal'' (tj_decimal tag), str_elem ''address'' (tj_address tag),
      str_elem ''description'' (tj_description tag), value_elem ''value'' (tj_t tag) (tj_value tag)]"

definition neu_json_encode_tag :: "'j jansson \<Rightarrow> 'j neu_json_tag_t \<Rightarrow> 'j \<Rightarrow> int \<times> 'j" where
  "neu_json_encode_tag J tag ob = neu_json_encode_field J ob (tag_elems tag)"

definition all_types :: "neu_type_e list" where
  "all_types =
     [NEU_TYPE_INT8, NEU_TYPE_UINT8, NEU_TYPE_INT16, NEU_TYPE_UINT16, NEU_TYPE_INT32,
      NEU_TYPE_UINT32, NEU_TYPE_INT64, NEU_TYPE_UINT64, NEU_TYPE_FLOAT, NEU_TYPE_DOUBLE,
      NEU_TYPE_BIT, NEU_TYPE_BOOL, NEU_TYPE_STRING, NEU_TYPE_BYTES, NEU_TYPE_ERROR, NEU_TYPE_WORD,
      NEU_TYPE_DWORD, NEU_TYPE_LWORD, NEU_TYPE_PTR]"

definition type_of_number :: "u64 \<Rightarrow> neu_type_e option" where
  "type_of_number n = List.find (\<lambda>t. of_nat (neu_type_code t) = n) all_types"

definition integer_types :: "neu_type_e list" where
  "integer_types =
     [NEU_TYPE_BIT, NEU_TYPE_INT8, NEU_TYPE_UINT8, NEU_TYPE_INT16, NEU_TYPE_UINT16, NEU_TYPE_INT32,
      NEU_TYPE_UINT32, NEU_TYPE_INT64, NEU_TYPE_UINT64, NEU_TYPE_WORD, NEU_TYPE_DWORD,
      NEU_TYPE_LWORD]"

text \<open>Types that are in no case of the switch, and numbers that are no type, pass.\<close>

definition neu_json_tag_check_type :: "'j neu_json_tag_t \<Rightarrow> bool option" where
  "neu_json_tag_check_type tag =
     (if ucast NEU_ATTRIBUTE_STATIC AND tj_attribute tag \<noteq> 0
      then (case type_of_number (tj_type tag) of
              None \<Rightarrow> Some True
            | Some ty \<Rightarrow>
                if ty \<in> set integer_types then Some (tj_t tag = NEU_JSON_INT)
                else if ty \<in> {NEU_TYPE_FLOAT, NEU_TYPE_DOUBLE}
                then Some (tj_t tag \<in> {NEU_JSON_INT, NEU_JSON_FLOAT, NEU_JSON_DOUBLE})
                else if ty = NEU_TYPE_BOOL then Some (tj_t tag = NEU_JSON_BOOL)
                else if ty \<in> {NEU_TYPE_BYTES, NEU_TYPE_STRING}
                then (if tj_t tag = NEU_JSON_STR
                      then map_option (\<lambda>s. length s \<le> NEU_VALUE_SIZE) (jstr (tj_value tag))
                      else Some False)
                else Some True)
      else Some (tj_t tag = NEU_JSON_UNDEFINE))"

definition neu_json_decode_tag_json ::
  "'j jansson \<Rightarrow> 'j option \<Rightarrow> 'j neu_json_tag_t option option" where
  "neu_json_decode_tag_json J json_obj =
     (case neu_json_decode_by_json J json_obj
        [want ''type'' NEU_JSON_INT, want ''name'' NEU_JSON_STR, want ''attribute'' NEU_JSON_INT,
         want ''address'' NEU_JSON_STR, may_want ''decimal'' NEU_JSON_DOUBLE,
         may_want ''precision'' NEU_JSON_INT, may_want ''description'' NEU_JSON_STR,
         may_want ''value'' NEU_JSON_VALUE] of
        None \<Rightarrow> None
      | Some (ret, es) \<Rightarrow>
          let tag = \<lparr>tj_address = jstr (ev (es ! 3)), tj_name = jstr (ev (es ! 1)),
                     tj_description = jstr (ev (es ! 6)), tj_type = val_int (ev (es ! 0)),
                     tj_attribute = val_int (ev (es ! 2)), tj_precision = val_int (ev (es ! 5)),
                     tj_decimal = val_double (ev (es ! 4)), tj_t = et (es ! 7),
                     tj_value = ev (es ! 7)\<rparr>
          in if ret \<noteq> 0 then Some None
             else map_option (\<lambda>ok. if ok then Some tag else None) (neu_json_tag_check_type tag))"

section \<open>Arrays of tags\<close>

definition encode_tags :: "'j jansson \<Rightarrow> 'j \<Rightarrow> 'j neu_json_tag_t list \<Rightarrow> 'j" where
  "encode_tags J arr tags =
     foldl (\<lambda>a t. json_array_append_new J a (Some (snd (neu_json_encode_tag J t (json_object_new J))))) arr tags"

definition neu_json_encode_tag_array :: "'j jansson \<Rightarrow> 'j \<Rightarrow> 'j neu_json_tag_t list \<Rightarrow> int \<times> 'j" where
  "neu_json_encode_tag_array J json_obj tags =
     (if json_is_array J json_obj then (0, encode_tags J json_obj tags) else (- 1, json_obj))"

fun decode_tags_loop ::
  "'j jansson \<Rightarrow> 'j option list \<Rightarrow> 'j neu_json_tag_t list option option" where
  "decode_tags_loop J [] = Some (Some [])"
| "decode_tags_loop J (ob # obs) =
     (case neu_json_decode_tag_json J ob of
        None \<Rightarrow> None
      | Some None \<Rightarrow> Some None
      | Some (Some t) \<Rightarrow>
          (case decode_tags_loop J obs of
             Some (Some ts) \<Rightarrow> Some (Some (t # ts))
           | r \<Rightarrow> r))"

definition array_items :: "'j jansson \<Rightarrow> 'j \<Rightarrow> 'j option list" where
  "array_items J arr = map (json_array_get J arr) [0..<json_array_size J arr]"

definition neu_json_decode_tag_array_json ::
  "'j jansson \<Rightarrow> 'j option \<Rightarrow> 'j neu_json_tag_t list option option" where
  "neu_json_decode_tag_array_json J json_obj =
     (case json_obj of
        None \<Rightarrow> Some None
      | Some arr \<Rightarrow>
          if json_is_array J arr then decode_tags_loop J (array_items J arr) else Some None)"

section \<open>Requests\<close>

record 'j neu_json_add_tags_req_t =
  aq_node :: "string option"
  aq_group :: "string option"
  aq_tags :: "'j neu_json_tag_t list"

definition neu_json_encode_add_tags_req ::
  "'j jansson \<Rightarrow> 'j neu_json_add_tags_req_t \<Rightarrow> 'j \<Rightarrow> int \<times> 'j" where
  "neu_json_encode_add_tags_req J req json_object =
     (case neu_json_encode_tag_array J (json_array_new J) (aq_tags req) of
        (ret, tag_array) \<Rightarrow>
          if ret \<noteq> 0 then (ret, json_object)
          else neu_json_encode_field J json_object
                 [str_elem ''node'' (aq_node req), str_elem ''group'' (aq_group req),
                  object_elem ''tags'' (Some tag_array)])"

text \<open>
  When the text does not parse, \<open>goto decode_fail\<close> passes the initialisation of the elements,
  whose strings are freed there.
\<close>

definition neu_json_decode_add_tags_req ::
  "'j jansson \<Rightarrow> string \<Rightarrow> 'j neu_json_add_tags_req_t option option" where
  "neu_json_decode_add_tags_req J buf =
     (case neu_json_decode_new J buf of
        None \<Rightarrow> None
      | Some json_obj \<Rightarrow>
          (case neu_json_decode_by_json J (Some json_obj)
             [want ''node'' NEU_JSON_STR, want ''group'' NEU_JSON_STR, want ''tags'' NEU_JSON_OBJECT] of
             None \<Rightarrow> None
           | Some (ret, es) \<Rightarrow>
               if ret \<noteq> 0 then Some None
               else (case neu_json_decode_tag_array_json J (jobj (ev (es ! 2))) of
                       None \<Rightarrow> None
                     | Some None \<Rightarrow> Some None
                     | Some (Some tags) \<Rightarrow>
                         Some (if tags = [] then None
                               else Some \<lparr>aq_node = jstr (ev (es ! 0)), aq_group = jstr (ev (es ! 1)),
                                          aq_tags = tags\<rparr>))))"

definition neu_json_decode_update_tags_req ::
  "'j jansson \<Rightarrow> string \<Rightarrow> 'j neu_json_add_tags_req_t option option" where
  "neu_json_decode_update_tags_req J buf =
     (case neu_json_decode_new J buf of
        None \<Rightarrow> None
      | Some json_obj \<Rightarrow>
          (case neu_json_decode_by_json J (Some json_obj)
             [want ''node'' NEU_JSON_STR, want ''group'' NEU_JSON_STR, want ''tags'' NEU_JSON_OBJECT] of
             None \<Rightarrow> None
           | Some (ret, es) \<Rightarrow>
               if ret \<noteq> 0 then Some None
               else (case neu_json_decode_tag_array_json J (jobj (ev (es ! 2))) of
                       None \<Rightarrow> None
                     | Some None \<Rightarrow> Some None
                     | Some (Some tags) \<Rightarrow>
                         Some (if tags = [] then None
                               else Some \<lparr>aq_node = jstr (ev (es ! 0)), aq_group = jstr (ev (es ! 1)),
                                          aq_tags = tags\<rparr>))))"

definition neu_json_encode_au_tags_resp :: "'j jansson \<Rightarrow> u16 \<Rightarrow> int \<Rightarrow> 'j \<Rightarrow> int \<times> 'j" where
  "neu_json_encode_au_tags_resp J index error json_object =
     neu_json_encode_field J json_object [int_elem ''index'' (ucast index), int_elem ''error'' (of_int error)]"

definition neu_json_encode_get_tags_resp :: "'j jansson \<Rightarrow> 'j neu_json_tag_t list \<Rightarrow> 'j \<Rightarrow> int \<times> 'j" where
  "neu_json_encode_get_tags_resp J tags json_object =
     (case neu_json_encode_tag_array J (json_array_new J) tags of
        (ret, tag_array) \<Rightarrow>
          if ret \<noteq> 0 then (ret, json_object)
          else neu_json_encode_field J json_object [object_elem ''tags'' (Some tag_array)])"

text \<open>An element without a name: the item itself.\<close>

definition this_elem :: "neu_json_type_e \<Rightarrow> 'j neu_json_value_u \<Rightarrow> 'j neu_json_elem_t" where
  "this_elem t v = \<lparr>eattribute = NEU_JSON_ATTRIBUTE_REQUIRED, ename = None, et = t, ev = v\<rparr>"

record neu_json_del_tags_req_t =
  dq_node :: "string option"
  dq_group :: "string option"
  dq_tags :: "string option list"

definition neu_json_encode_del_tags_req ::
  "'j jansson \<Rightarrow> neu_json_del_tags_req_t \<Rightarrow> 'j \<Rightarrow> int \<times> 'j" where
  "neu_json_encode_del_tags_req J req json_object =
     (let tag_array = foldl (\<lambda>arr name. neu_json_encode_array_value J (Some arr)
            [this_elem NEU_JSON_STR (zero_json_value\<lparr>jstr := name\<rparr>)]) (json_array_new J) (dq_tags req)
      in neu_json_encode_field J json_object
           [str_elem ''node'' (dq_node req), str_elem ''group'' (dq_group req),
            object_elem ''tags'' (Some tag_array)])"

fun decode_names_loop :: "'j jansson \<Rightarrow> 'j \<Rightarrow> nat list \<Rightarrow> string option list option option" where
  "decode_names_loop J json_obj [] = Some (Some [])"
| "decode_names_loop J json_obj (i # is) =
     (case neu_json_decode_array_by_json J json_obj ''tags'' i [this_elem NEU_JSON_STR zero_json_value] of
        None \<Rightarrow> None
      | Some (ret, es) \<Rightarrow>
          if ret \<noteq> 0 then Some None
          else (case decode_names_loop J json_obj is of
                  Some (Some names) \<Rightarrow> Some (Some (jstr (ev (es ! 0)) # names))
                | r \<Rightarrow> r))"

definition neu_json_decode_del_tags_req ::
  "'j jansson \<Rightarrow> string \<Rightarrow> neu_json_del_tags_req_t option option" where
  "neu_json_decode_del_tags_req J buf =
     (let json_obj = neu_json_decode_new J buf
      in case neu_json_decode_by_json J json_obj [want ''node'' NEU_JSON_STR, want ''group'' NEU_JSON_STR] of
           None \<Rightarrow> None
         | Some (ret, es) \<Rightarrow>
             (case json_obj of
                None \<Rightarrow> Some None
              | Some root \<Rightarrow>
                  if ret \<noteq> 0 then Some None
                  else let n = neu_json_decode_array_size_by_json J root ''tags''
                       in if n \<le> 0 then Some None
                          else map_option (map_option (\<lambda>names.
                                   \<lparr>dq_node = jstr (ev (es ! 0)), dq_group = jstr (ev (es ! 1)),
                                    dq_tags = names\<rparr>))
                                 (decode_names_loop J root [0..<nat n])))"

end
