(* ===== verification/TagJsonLaws.thy ===== *)
theory TagJsonLaws
  imports TagJson
begin

text \<open>Tags and requests about tags that are encoded can be read back.\<close>

section \<open>A tag\<close>

text \<open>A tag all of whose fields JSON can carry; only the description may be missing.\<close>

definition carried :: "'j jansson \<Rightarrow> 'j neu_json_tag_t \<Rightarrow> bool" where
  "carried J tag \<longleftrightarrow>
     json_integer J (tj_type tag) \<noteq> None \<and> Option.bind (tj_name tag) (json_string J) \<noteq> None \<and>
     json_integer J (tj_attribute tag) \<noteq> None \<and> json_integer J (tj_precision tag) \<noteq> None \<and>
     json_real J (tj_decimal tag) \<noteq> None \<and> Option.bind (tj_address tag) (json_string J) \<noteq> None \<and>
     (tj_description tag = None \<or> Option.bind (tj_description tag) (json_string J) \<noteq> None) \<and>
     (tj_t tag = NEU_JSON_UNDEFINE \<or>
      tj_t tag \<in> {NEU_JSON_INT, NEU_JSON_STR, NEU_JSON_DOUBLE, NEU_JSON_BOOL} \<and>
      field_json J (value_elem ''value'' (tj_t tag) (tj_value tag)) \<noteq> None)"

definition value_meaning :: "'j neu_json_tag_t \<Rightarrow> 'j json_meaning" where
  "value_meaning tag = elem_meaning (value_elem ''value'' (tj_t tag) (tj_value tag))"

definition same_tag :: "'j neu_json_tag_t \<Rightarrow> 'j neu_json_tag_t \<Rightarrow> bool" where
  "same_tag a b \<longleftrightarrow> b\<lparr>tj_value := tj_value a\<rparr> = a \<and> value_meaning b = value_meaning a"

lemma check_type_meaning:
  assumes "same_tag a b"
  shows "neu_json_tag_check_type b = neu_json_tag_check_type a"
proof -
  from assms obtain v where b: "b = a\<lparr>tj_value := v\<rparr>"
    by (metis same_tag_def neu_json_tag_t.surjective neu_json_tag_t.update_convs(9))
  then have "tj_t a = NEU_JSON_STR \<Longrightarrow> jstr (tj_value b) = jstr (tj_value a)"
    using assms by (simp add: same_tag_def value_meaning_def elem_meaning_def)
  then show ?thesis by (simp add: neu_json_tag_check_type_def b split: option.split)
qed

text \<open>A value whose type is inferred.\<close>

lemma decode_value:
  assumes ok: "jansson_more J" and e: "e = value_elem n t v"
    and t: "t \<in> {NEU_JSON_INT, NEU_JSON_STR, NEU_JSON_DOUBLE, NEU_JSON_BOOL}"
    and get: "json_object_get J root n = field_json J e" "field_json J e \<noteq> None"
  shows "\<exists>v'. decode_object J root (may_want n NEU_JSON_VALUE)
      = Some (0, (value_elem n t v')\<lparr>eattribute := NEU_JSON_ATTRIBUTE_OPTIONAL\<rparr>) \<and>
    elem_meaning (value_elem n t v') = elem_meaning e"
proof -
  note j = jansson_moreD(1) [OF ok]
  note facts = decode_object_def may_want_def want_def value_elem_def json_infer_type_def
    elem_meaning_def field_json_def elem_json_def encode_object_value_def jget_jput
  from t consider "t = NEU_JSON_INT" | "t = NEU_JSON_STR" | "t = NEU_JSON_DOUBLE" | "t = NEU_JSON_BOOL"
    by auto
  then show ?thesis
  proof cases
    case 1
    with get e obtain i where i: "json_integer J (val_int v) = Some i" by (auto simp: facts)
    with jansson_integer [OF j i] 1 get e show ?thesis
      by (intro exI [of _ "jput (val_int v) zero_json_value"]) (simp add: facts)
  next
    case 2
    with get e obtain s i where s: "jstr v = Some s" and i: "json_string J s = Some i"
      by (auto simp: facts bind_eq_Some_conv)
    with jansson_string [OF j i] 2 get e show ?thesis
      by (intro exI [of _ "zero_json_value\<lparr>jstr := Some s\<rparr>"]) (simp add: facts)
  next
    case 3
    with get e obtain i where i: "json_real J (val_double v) = Some i" by (auto simp: facts)
    with jansson_real [OF j i] 3 get e show ?thesis
      by (intro exI [of _ "jput (val_double v) zero_json_value"]) (simp add: facts)
  next
    case 4
    with get e obtain i where i: "json_boolean J (val_bool v) = Some i" by (auto simp: facts)
    with jansson_boolean [OF j i] 4 get e show ?thesis
      by (intro exI [of _ "put_val_bool (val_bool v) zero_json_value"])
         (simp add: facts put_val_bool_def val_bool_def)
  qed
qed

text \<open>The fields of an encoded tag.\<close>

lemma encoded_tag_get:
  assumes "jansson_more J"
  shows "json_object_get J (snd (neu_json_encode_tag J tag (json_object_new J))) k = field_of J (tag_elems tag) k"
  by (simp add: neu_json_encode_tag_def neu_json_encode_field_def)
     (rule get_encoded_new [OF assms], simp add: tag_elems_def)

lemma decode_optional_str:
  assumes "jansson_more J" "json_object_get J root n = Option.bind s (json_string J)"
    "s = None \<or> Option.bind s (json_string J) \<noteq> None"
  shows "decode_object J root (may_want n NEU_JSON_STR)
    = Some (0, (str_elem n s)\<lparr>eattribute := NEU_JSON_ATTRIBUTE_OPTIONAL\<rparr>)"
proof (cases s)
  case None
  with assms(2) show ?thesis
    by (simp add: decode_object_def may_want_def want_def str_elem_def value_elem_def zero_json_value_def)
next
  case (Some t)
  with assms(3) obtain j where j: "json_string J t = Some j" by auto
  from decode_str(2) [of J root n j t] jansson_string [OF jansson_moreD(1) [OF assms(1)] j] assms(2) Some j
  show ?thesis by simp
qed

lemma decode_optional_value:
  assumes "jansson_more J" "json_object_get J root n = field_json J (value_elem n t v)"
    "t = NEU_JSON_UNDEFINE \<or> t \<in> {NEU_JSON_INT, NEU_JSON_STR, NEU_JSON_DOUBLE, NEU_JSON_BOOL} \<and>
       field_json J (value_elem n t v) \<noteq> None"
  shows "\<exists>v'. decode_object J root (may_want n NEU_JSON_VALUE)
      = Some (0, (value_elem n t v')\<lparr>eattribute := NEU_JSON_ATTRIBUTE_OPTIONAL\<rparr>) \<and>
    elem_meaning (value_elem n t v') = elem_meaning (value_elem n t v)"
proof (cases "t = NEU_JSON_UNDEFINE")
  case True
  with assms(2) have "json_object_get J root n = None" by (simp add: field_json_simps)
  with True show ?thesis
    by (intro exI [of _ zero_json_value])
       (simp add: decode_missing, simp add: may_want_def want_def elem_meaning_def)
next
  case False
  with assms decode_value [OF assms(1) refl, of t] show ?thesis by blast
qed

text \<open>A required field of a type that the library reads back.\<close>

lemma decode_field_int:
  assumes "jansson_more J" "json_object_get J root n = json_integer J i" "json_integer J i \<noteq> None"
  shows "decode_object J root (want n NEU_JSON_INT) = Some (0, int_elem n i)"
    "decode_object J root (may_want n NEU_JSON_INT) = Some (0, (int_elem n i)\<lparr>eattribute := NEU_JSON_ATTRIBUTE_OPTIONAL\<rparr>)"
  using assms(2,3) jansson_integer [OF jansson_moreD(1) [OF assms(1)], of i] decode_int [of J root n] by auto

lemma decode_field_str:
  assumes "jansson_more J" "json_object_get J root n = Option.bind s (json_string J)"
    "Option.bind s (json_string J) \<noteq> None"
  shows "decode_object J root (want n NEU_JSON_STR) = Some (0, str_elem n s)"
  using assms(2,3) jansson_string [OF jansson_moreD(1) [OF assms(1)]] decode_str(1) [of J root n]
  by (cases s) auto

lemma decode_field_double:
  assumes "jansson_more J" "json_object_get J root n = json_real J d" "json_real J d \<noteq> None"
  shows "decode_object J root (may_want n NEU_JSON_DOUBLE)
    = Some (0, (double_elem n d)\<lparr>eattribute := NEU_JSON_ATTRIBUTE_OPTIONAL\<rparr>)"
  using assms(2,3) jansson_real [OF jansson_moreD(1) [OF assms(1)], of d] decode_double [of J root n] by auto

text \<open>The fields of a decoded tag.\<close>

lemma decode_tag_fields:
  assumes "decode_object J root (want ''type'' NEU_JSON_INT) = Some (0, int_elem ''type'' ty)"
    and "decode_object J root (want ''name'' NEU_JSON_STR) = Some (0, str_elem ''name'' name)"
    and "decode_object J root (want ''attribute'' NEU_JSON_INT) = Some (0, int_elem ''attribute'' at)"
    and "decode_object J root (want ''address'' NEU_JSON_STR) = Some (0, str_elem ''address'' ad)"
    and "decode_object J root (may_want ''decimal'' NEU_JSON_DOUBLE)
      = Some (0, (double_elem ''decimal'' de)\<lparr>eattribute := NEU_JSON_ATTRIBUTE_OPTIONAL\<rparr>)"
    and "decode_object J root (may_want ''precision'' NEU_JSON_INT)
      = Some (0, (int_elem ''precision'' pr)\<lparr>eattribute := NEU_JSON_ATTRIBUTE_OPTIONAL\<rparr>)"
    and "decode_object J root (may_want ''description'' NEU_JSON_STR)
      = Some (0, (str_elem ''description'' ds)\<lparr>eattribute := NEU_JSON_ATTRIBUTE_OPTIONAL\<rparr>)"
    and "decode_object J root (may_want ''value'' NEU_JSON_VALUE) = Some (0, e)"
    and "tag = \<lparr>tj_address = ad, tj_name = name, tj_description = ds, tj_type = ty, tj_attribute = at,
      tj_precision = pr, tj_decimal = de, tj_t = et e, tj_value = ev e\<rparr>"
  shows "neu_json_decode_tag_json J (Some root)
    = map_option (\<lambda>ok. if ok then Some tag else None) (neu_json_tag_check_type tag)"
proof -
  have nth: "([a0, a1, a2, a3, a4, a5, a6, a7] ! 7) = (a7 :: 'a neu_json_elem_t)" for a0 a1 a2 a3 a4 a5 a6 a7
    by (simp add: eval_nat_numeral)
  show ?thesis
    using assms
    by (simp add: neu_json_decode_tag_json_def neu_json_decode_by_json_def Let_def elem_defs nth cong: if_cong)
qed

lemma decode_encoded_tag:
  assumes ok: "jansson_more J" and c: "carried J tag" and check: "neu_json_tag_check_type tag = Some True"
  shows "\<exists>tag'. neu_json_decode_tag_json J (Some (snd (neu_json_encode_tag J tag (json_object_new J))))
      = Some (Some tag') \<and> same_tag tag tag'"
proof -
  let ?root = "snd (neu_json_encode_tag J tag (json_object_new J))"
  have get: "json_object_get J ?root k = field_of J (tag_elems tag) k" for k
    by (rule encoded_tag_get [OF ok])
  have fields: "json_object_get J ?root ''type'' = json_integer J (tj_type tag)"
    "json_object_get J ?root ''name'' = Option.bind (tj_name tag) (json_string J)"
    "json_object_get J ?root ''attribute'' = json_integer J (tj_attribute tag)"
    "json_object_get J ?root ''precision'' = json_integer J (tj_precision tag)"
    "json_object_get J ?root ''decimal'' = json_real J (tj_decimal tag)"
    "json_object_get J ?root ''address'' = Option.bind (tj_address tag) (json_string J)"
    "json_object_get J ?root ''description'' = Option.bind (tj_description tag) (json_string J)"
    "json_object_get J ?root ''value'' = field_json J (value_elem ''value'' (tj_t tag) (tj_value tag))"
    unfolding get tag_elems_def by (simp_all add: field_json_simps split: option.split)
  note c' = c [unfolded carried_def]
  obtain v' where v': "decode_object J ?root (may_want ''value'' NEU_JSON_VALUE)
      = Some (0, (value_elem ''value'' (tj_t tag) v')\<lparr>eattribute := NEU_JSON_ATTRIBUTE_OPTIONAL\<rparr>)"
    "elem_meaning (value_elem ''value'' (tj_t tag) v') = elem_meaning (value_elem ''value'' (tj_t tag) (tj_value tag))"
    using decode_optional_value [OF ok fields(8)] c' by blast
  define tag' where "tag' = tag\<lparr>tj_value := v'\<rparr>"
  have same: "same_tag tag tag'" using v'(2) by (simp add: same_tag_def value_meaning_def tag'_def)
  have tag': "tag' = \<lparr>tj_address = tj_address tag, tj_name = tj_name tag, tj_description = tj_description tag,
      tj_type = tj_type tag, tj_attribute = tj_attribute tag, tj_precision = tj_precision tag,
      tj_decimal = tj_decimal tag, tj_t = tj_t tag, tj_value = v'\<rparr>"
    by (cases tag) (simp add: tag'_def)
  have "neu_json_decode_tag_json J (Some ?root) = map_option (\<lambda>ok. if ok then Some tag' else None)
      (neu_json_tag_check_type tag')"
    by (rule decode_tag_fields [OF decode_field_int(1) [OF ok fields(1)] decode_field_str [OF ok fields(2)]
          decode_field_int(1) [OF ok fields(3)] decode_field_str [OF ok fields(6)]
          decode_field_double [OF ok fields(5)] decode_field_int(2) [OF ok fields(4)]
          decode_optional_str [OF ok fields(7)] v'(1)])
       (use c' tag' in simp_all)
  with same check check_type_meaning [OF same] show ?thesis by auto
qed

section \<open>Arrays and requests\<close>

definition append_all :: "'j jansson \<Rightarrow> 'j \<Rightarrow> 'j list \<Rightarrow> 'j" where
  "append_all J a js = foldl (\<lambda>a j. json_array_append_new J a (Some j)) a js"

lemma append_all_array:
  assumes "jansson_more J"
  shows "json_is_array J (append_all J (json_array_new J) js) \<and>
    json_array_size J (append_all J (json_array_new J) js) = length js \<and>
    (\<forall>n<length js. json_array_get J (append_all J (json_array_new J) js) n = Some (js ! n))"
proof (induction js rule: rev_induct)
  case Nil
  then show ?case
    using jansson_moreD(4) [OF assms] jansson_array_new [OF jansson_moreD(1) [OF assms]]
    by (simp add: append_all_def)
next
  case (snoc j js)
  have eq: "append_all J (json_array_new J) (js @ [j])
      = json_array_append_new J (append_all J (json_array_new J) js) (Some j)"
    by (simp add: append_all_def)
  show ?case
    unfolding eq
    using snoc jansson_moreD(5) [OF assms, of "append_all J (json_array_new J) js" j]
      jansson_array_append [OF jansson_moreD(1) [OF assms], of "append_all J (json_array_new J) js" j]
      jansson_array_append_other [OF jansson_moreD(1) [OF assms], of _ "append_all J (json_array_new J) js" j]
    by (auto simp: nth_append less_Suc_eq)
qed

lemma array_items_append_all:
  assumes "jansson_more J"
  shows "array_items J (append_all J (json_array_new J) js) = map Some js"
  using append_all_array [OF assms, of js] by (intro nth_equalityI) (auto simp: array_items_def)

lemma encode_tags_append:
  "encode_tags J a tags = append_all J a (map (\<lambda>t. snd (neu_json_encode_tag J t (json_object_new J))) tags)"
  by (simp add: encode_tags_def append_all_def foldl_map)

lemma decode_tags_loop_encoded:
  assumes ok: "jansson_more J"
    and "\<forall>t\<in>set tags. carried J t \<and> neu_json_tag_check_type t = Some True"
  shows "\<exists>tags'. decode_tags_loop J (map (\<lambda>t. Some (snd (neu_json_encode_tag J t (json_object_new J)))) tags)
      = Some (Some tags') \<and> list_all2 same_tag tags tags'"
  using assms(2)
proof (induction tags)
  case Nil
  then show ?case by simp
next
  case (Cons t tags)
  from Cons.prems decode_encoded_tag [OF ok, of t] obtain t'
    where "neu_json_decode_tag_json J (Some (snd (neu_json_encode_tag J t (json_object_new J))))
      = Some (Some t')" "same_tag t t'" by auto
  with Cons show ?case by (auto simp: list_all2_Cons1 split: option.split)
qed

lemma decode_encoded_array:
  assumes "jansson_more J" "\<forall>t\<in>set tags. carried J t \<and> neu_json_tag_check_type t = Some True"
  shows "neu_json_encode_tag_array J (json_array_new J) tags = (0, encode_tags J (json_array_new J) tags)"
    "\<exists>tags'. neu_json_decode_tag_array_json J (Some (encode_tags J (json_array_new J) tags))
      = Some (Some tags') \<and> list_all2 same_tag tags tags'"
proof -
  show "neu_json_encode_tag_array J (json_array_new J) tags = (0, encode_tags J (json_array_new J) tags)"
    using jansson_moreD(4) [OF assms(1)] by (simp add: neu_json_encode_tag_array_def)
  show "\<exists>tags'. neu_json_decode_tag_array_json J (Some (encode_tags J (json_array_new J) tags))
      = Some (Some tags') \<and> list_all2 same_tag tags tags'"
    using append_all_array [OF assms(1)] decode_tags_loop_encoded [OF assms]
    by (simp add: neu_json_decode_tag_array_json_def encode_tags_append array_items_append_all [OF assms(1)] comp_def)
qed

text \<open>
  A request to add tags that is encoded (\<open>neu_json_encode_add_tags_req\<close>) and parsed again is
  decoded (\<open>neu_json_decode_add_tags_req\<close>) to the same node and group and, in the same order, to
  tags with the same fields and values, when it has a tag, every tag passes the test of its
  type and JSON can carry the fields; a value's JSON type is inferred anew.
\<close>

theorem tags_request_roundtrip:
  assumes "jansson_more J" "json_loads J buf True = Some (snd (neu_json_encode_add_tags_req J req (json_object_new J)))"
    and "Option.bind (aq_node req) (json_string J) \<noteq> None" "Option.bind (aq_group req) (json_string J) \<noteq> None"
    and "aq_tags req \<noteq> []" "\<forall>t\<in>set (aq_tags req). carried J t \<and> neu_json_tag_check_type t = Some True"
  shows "\<exists>tags. neu_json_decode_add_tags_req J buf = Some (Some (req\<lparr>aq_tags := tags\<rparr>)) \<and>
    list_all2 same_tag (aq_tags req) tags"
proof -
  let ?arr = "encode_tags J (json_array_new J) (aq_tags req)"
  let ?es = "[str_elem ''node'' (aq_node req), str_elem ''group'' (aq_group req), object_elem ''tags'' (Some ?arr)]"
  let ?root = "foldl (encode_object J) (json_object_new J) ?es"
  have root: "snd (neu_json_encode_add_tags_req J req (json_object_new J)) = ?root"
    by (simp add: neu_json_encode_add_tags_req_def decode_encoded_array(1) [OF assms(1,6)] neu_json_encode_field_def)
  have get: "json_object_get J ?root k = field_of J ?es k" for k
    by (rule get_encoded_new [OF assms(1)]) simp
  have fields: "json_object_get J ?root ''node'' = Option.bind (aq_node req) (json_string J)"
    "json_object_get J ?root ''group'' = Option.bind (aq_group req) (json_string J)"
    "json_object_get J ?root ''tags'' = Some ?arr"
    unfolding get by (simp_all add: field_json_simps split: option.split)
  obtain tags where tags: "neu_json_decode_tag_array_json J (Some ?arr) = Some (Some tags)"
    "list_all2 same_tag (aq_tags req) tags"
    using decode_encoded_array(2) [OF assms(1,6)] by blast
  with assms(5) have "tags \<noteq> []" by auto
  with tags assms(2) decode_field_str [OF assms(1) fields(1) assms(3)] decode_field_str [OF assms(1) fields(2) assms(4)]
    decode_object_at [OF fields(3)]
  show ?thesis
    unfolding root
    by (cases req) (simp add: neu_json_decode_add_tags_req_def neu_json_decode_new_def neu_json_decode_by_json_def elem_defs)
qed

definition demo_tag_req :: "jtree neu_json_add_tags_req_t" where
  "demo_tag_req = \<lparr>aq_node = Some ''plc'', aq_group = Some ''g'',
     aq_tags = [\<lparr>tj_address = Some ''1!400001'', tj_name = Some ''t'', tj_description = None, tj_type = 3,
       tj_attribute = 1, tj_precision = 0, tj_decimal = 0, tj_t = NEU_JSON_UNDEFINE,
       tj_value = zero_json_value\<rparr>]\<rparr>"

definition demo_reader :: "jtree jansson" where
  "demo_reader = jt_jansson\<lparr>json_loads := (\<lambda>_ _. Some (snd (neu_json_encode_add_tags_req jt_jansson demo_tag_req (JTObject []))))\<rparr>"

lemma tags_request_roundtrip_witness:
  "\<exists>tags. neu_json_decode_add_tags_req demo_reader ''...'' = Some (Some (demo_tag_req\<lparr>aq_tags := tags\<rparr>)) \<and>
    list_all2 same_tag (aq_tags demo_tag_req) tags"
proof (rule tags_request_roundtrip)
  have reader: "jansson_more (jt_jansson\<lparr>json_loads := l\<rparr>)" for l
    using jansson_more_jt by (simp add: jansson_more_def jansson_ok_def)
  then show "jansson_more demo_reader" by (simp add: demo_reader_def)
  show "json_loads demo_reader ''...'' True
      = Some (snd (neu_json_encode_add_tags_req demo_reader demo_tag_req (json_object_new demo_reader)))"
    by (simp add: demo_reader_def demo_tag_req_def neu_json_encode_add_tags_req_def neu_json_encode_tag_array_def
        encode_tags_def neu_json_encode_tag_def tag_elems_def neu_json_encode_field_def encode_object_def elem_defs
        value_elem_def encode_object_value_def json_set_def jt_jansson_def)
qed (simp_all add: demo_reader_def demo_tag_req_def jt_jansson_def carried_def neu_json_tag_check_type_def
    NEU_ATTRIBUTE_STATIC_def)

end
