(* ===== verification/RequestLaws.thy ===== *)
theory RequestLaws
  imports GroupJson TagJsonLaws
begin

text \<open>Requests about groups and nodes that are encoded and read again.\<close>

definition text_carried :: "'j jansson \<Rightarrow> string option \<Rightarrow> bool" where
  "text_carried J s \<longleftrightarrow> Option.bind s (json_string J) \<noteq> None"

lemma decode_fields_some:
  "decode_objects J root elems = Some (0, es) \<Longrightarrow> decode_fields J (Some root) elems f = Some (Some (f es))"
  by (simp add: decode_fields_def neu_json_decode_by_json_def)

text \<open>
  A request to change a group that is encoded and read again is the same request, whether it gives a
  new name, a new interval or both; a request that gives neither is encoded but refused by the decoder.
\<close>

theorem update_group_roundtrip:
  assumes "jansson_more J"
    and "json_loads J buf True = Some (snd (neu_json_encode_update_group_config_req J req (json_object_new J)))"
    and "text_carried J (ug_node req)" "text_carried J (ug_group req)"
    and "ug_new_name req \<noteq> None \<longrightarrow> text_carried J (ug_new_name req)"
    and "\<forall>i. ug_interval req = Some i \<longrightarrow> json_integer J i \<noteq> None"
  shows "neu_json_decode_update_group_config_req J buf =
    Some (if ug_new_name req = None \<and> ug_interval req = None then None else Some req)"
proof -
  let ?es = "[str_elem ''node'' (ug_node req), str_elem ''group'' (ug_group req),
      str_elem ''new_name'' (ug_new_name req)] @
    (case ug_interval req of None \<Rightarrow> [] | Some i \<Rightarrow> [int_elem ''interval'' i])"
  let ?root = "foldl (encode_object J) (json_object_new J) ?es"
  have root: "snd (neu_json_encode_update_group_config_req J req (json_object_new J)) = ?root"
    by (simp add: neu_json_encode_update_group_config_req_def neu_json_encode_field_def split: option.split)
  have get: "json_object_get J ?root k = field_of J ?es k" for k
    by (rule get_encoded_new [OF assms(1)]) (auto split: option.splits)
  have fields: "json_object_get J ?root ''node'' = Option.bind (ug_node req) (json_string J)"
    "json_object_get J ?root ''group'' = Option.bind (ug_group req) (json_string J)"
    "json_object_get J ?root ''new_name'' = Option.bind (ug_new_name req) (json_string J)"
    "json_object_get J ?root ''interval'' = Option.bind (ug_interval req) (json_integer J)"
    unfolding get by (simp_all add: field_json_simps split: option.split)
  have c: "Option.bind (ug_node req) (json_string J) \<noteq> None" "Option.bind (ug_group req) (json_string J) \<noteq> None"
    "ug_new_name req = None \<or> Option.bind (ug_new_name req) (json_string J) \<noteq> None"
    using assms(3-5) by (auto simp: text_carried_def)
  have int: "json_is_integer J j \<and> json_integer_value J j = i" if "json_integer J i = Some j" for i j
    using jansson_integer [OF jansson_moreD(1) [OF assms(1)] that] by simp
  show ?thesis
    using assms(2,6) int fields(4) decode_field_str [OF assms(1) fields(1) c(1)]
      decode_field_str [OF assms(1) fields(2) c(2)] decode_optional_str [OF assms(1) fields(3) c(3)]
    unfolding root
    by (cases req; cases "ug_interval req")
       (auto simp: neu_json_decode_update_group_config_req_def neu_json_decode_new_def
          neu_json_decode_by_json_def str_of_def elem_defs)
qed

definition rename_group :: neu_json_update_group_config_req_t where
  "rename_group = \<lparr>ug_node = Some ''plc'', ug_group = Some ''g'', ug_new_name = Some ''h'', ug_interval = Some 500\<rparr>"

text \<open>A parser that gives one document for the text \<open>a\<close> and another for every other text.\<close>

definition reader :: "jtree \<Rightarrow> jtree \<Rightarrow> jtree jansson" where
  "reader j k = jt_jansson\<lparr>json_loads := (\<lambda>t _. Some (if t = ''a'' then j else k))\<rparr>"

lemma reader_more: "jansson_more (reader j k)"
  using jansson_more_jt by (simp add: reader_def jansson_more_def jansson_ok_def)

lemma reader_loads: "json_loads (reader j k) t b = Some (if t = ''a'' then j else k)"
  by (simp add: reader_def)

lemma reader_same:
  "json_object_new (reader j k) = JTObject []" "json_integer (reader j k) = json_integer jt_jansson"
  "json_string (reader j k) = json_string jt_jansson" "json_object_set_new (reader j k) = json_object_set_new jt_jansson"
  by (simp_all add: reader_def jt_jansson_def)

lemma update_group_roundtrip_witness:
  "neu_json_decode_update_group_config_req
     (let j = snd (neu_json_encode_update_group_config_req jt_jansson rename_group (JTObject [])) in reader j j) ''a''
   = Some (Some rename_group)"
proof -
  let ?j = "snd (neu_json_encode_update_group_config_req jt_jansson rename_group (JTObject []))"
  have "neu_json_decode_update_group_config_req (reader ?j ?j) ''a'' =
    Some (if ug_new_name rename_group = None \<and> ug_interval rename_group = None then None else Some rename_group)"
    by (rule update_group_roundtrip [OF reader_more])
       (simp_all add: reader_loads reader_same rename_group_def text_carried_def jt_jansson_def reader_def
          neu_json_encode_update_group_config_req_def neu_json_encode_field_def encode_object_def elem_defs
          value_elem_def encode_object_value_def json_set_def)
  then show ?thesis by (simp add: rename_group_def Let_def)
qed

text \<open>
  A request to rename a node that \<open>neu_json_encode_update_node_req\<close> has encoded cannot be read again:
  the new name is encoded as a number, the address of the string, and the decoder copies the text of
  the number, which is NULL.  A request to add a node is read as it was.
\<close>

theorem node_requests_read:
  assumes "jansson_more J" "\<forall>i j. json_integer J i = Some j \<longrightarrow> json_string_value J j = None"
    and "text_carried J (un_name rename)" "json_integer J addr \<noteq> None"
    and "json_loads J buf True = Some (snd (neu_json_encode_update_node_req J addr rename (json_object_new J)))"
    and "text_carried J (an_name add)" "text_carried J (an_plugin add)"
    and "json_loads J buf' True = Some (snd (neu_json_encode_add_node_req J add (json_object_new J)))"
  shows "neu_json_decode_update_node_req J buf = None \<and> neu_json_decode_add_node_req J buf' = Some (Some add)"
proof
  let ?root = "foldl (encode_object J) (json_object_new J) [str_elem ''name'' (un_name rename), int_elem ''new_name'' addr]"
  have get: "json_object_get J ?root k = field_of J [str_elem ''name'' (un_name rename), int_elem ''new_name'' addr] k" for k
    by (rule get_encoded_new [OF assms(1)]) simp
  have fields: "json_object_get J ?root ''name'' = Option.bind (un_name rename) (json_string J)"
    "json_object_get J ?root ''new_name'' = json_integer J addr"
    unfolding get by (simp_all add: field_json_simps split: option.split)
  have name: "decode_object J ?root (want ''name'' NEU_JSON_STR) = Some (0, str_elem ''name'' (un_name rename))"
    by (rule decode_field_str [OF assms(1) fields(1)]) (use assms(3) in \<open>simp add: text_carried_def\<close>)
  obtain j where "json_integer J addr = Some j" using assms(4) by auto
  then have "decode_object J ?root (want ''new_name'' NEU_JSON_STR) = None"
    using fields(2) assms(2) by (simp add: decode_object_def)
  with name assms(5) show "neu_json_decode_update_node_req J buf = None"
    by (simp add: neu_json_decode_update_node_req_def neu_json_decode_new_def decode_fields_def
        neu_json_decode_by_json_def neu_json_encode_update_node_req_def neu_json_encode_field_def)
next
  let ?root = "foldl (encode_object J) (json_object_new J) [str_elem ''plugin'' (an_plugin add), str_elem ''name'' (an_name add)]"
  have get: "json_object_get J ?root k = field_of J [str_elem ''plugin'' (an_plugin add), str_elem ''name'' (an_name add)] k" for k
    by (rule get_encoded_new [OF assms(1)]) simp
  have fields: "json_object_get J ?root ''plugin'' = Option.bind (an_plugin add) (json_string J)"
    "json_object_get J ?root ''name'' = Option.bind (an_name add) (json_string J)"
    unfolding get by (simp_all add: field_json_simps split: option.split)
  have "decode_object J ?root (want ''plugin'' NEU_JSON_STR) = Some (0, str_elem ''plugin'' (an_plugin add))"
    "decode_object J ?root (want ''name'' NEU_JSON_STR) = Some (0, str_elem ''name'' (an_name add))"
    using decode_field_str [OF assms(1) fields(1)] decode_field_str [OF assms(1) fields(2)] assms(6,7)
    by (simp_all add: text_carried_def)
  with assms(8) show "neu_json_decode_add_node_req J buf' = Some (Some add)"
    by (cases add) (simp add: neu_json_decode_add_node_req_def neu_json_decode_new_def decode_fields_def str_of_def
        neu_json_decode_by_json_def neu_json_encode_add_node_req_def neu_json_encode_field_def elem_defs)
qed

lemma node_requests_read_witness:
  "let j = snd (neu_json_encode_update_node_req jt_jansson 4096 \<lparr>un_name = Some ''plc'', un_new_name = Some ''x''\<rparr> (JTObject []));
       k = snd (neu_json_encode_add_node_req jt_jansson \<lparr>an_name = Some ''plc'', an_plugin = Some ''m''\<rparr> (JTObject []))
   in neu_json_decode_update_node_req (reader j k) ''a'' = None \<and>
      neu_json_decode_add_node_req (reader j k) ''b'' = Some (Some \<lparr>an_name = Some ''plc'', an_plugin = Some ''m''\<rparr>)"
  unfolding Let_def
  by (rule node_requests_read [OF reader_more, where rename = "\<lparr>un_name = Some ''plc'', un_new_name = Some ''x''\<rparr>" and addr = 4096])
     (auto simp: reader_loads reader_same text_carried_def jt_jansson_def reader_def
        neu_json_encode_update_node_req_def neu_json_encode_add_node_req_def neu_json_encode_field_def
        encode_object_def elem_defs value_elem_def encode_object_value_def json_set_def)

end
