(* ===== verification/Adapter.thy ===== *)
theory Adapter
  imports Msg
begin

text \<open>
  Adapters (\<open>src/adapter/adapter.c\<close>, \<open>src/adapter/adapter_internal.h\<close>, the \<open>esvdriver\<close>
  functions of \<open>src/adapter/driver/driver.c\<close>): a node of the system with its plugin, its
  life cycle, and the loop that answers the requests sent to it.

  \<open>ad_driver\<close> is the driver part; its \<open>d_name\<close>, \<open>d_state\<close> and \<open>d_plugin\<close> are the adapter's
  \<open>name\<close>, \<open>state\<close> and \<open>plugin\<close>, for every type of node.  A plugin is what its shared library
  makes of it: the parameter \<open>md_intf\<close>, interface functions over the plugin's memory, of
  which the common part is the program's own.  The calls of a plugin into its adapter during
  \<open>open\<close>, \<open>init\<close>, \<open>start\<close>, \<open>stop\<close> and \<open>setting\<close> are separate steps and not results of these
  functions.  What the database holds is an argument (\<open>load_config\<close>, \<open>load_devices\<close>), and so
  is the result \<open>snd_rv\<close> of the socket for a message.  Sent messages are appended to
  \<open>ad_sent\<close>.

  A timer or io handle that is NULL is \<open>False\<close>.  Metrics are never registered (the body of
  \<open>adapter_register_metric\<close> is commented out): \<open>metrics\<close> is always NULL and left out.
  A crash, a failed assertion or undefined behaviour is \<open>None\<close>.
\<close>

section \<open>Plugins\<close>

definition NEU_PLUGIN_MAGIC_NUMBER :: u32 where "NEU_PLUGIN_MAGIC_NUMBER = 0x43474d50"
definition NEU_NODE_NAME_LEN :: nat where "NEU_NODE_NAME_LEN = 128"

record 'p neu_plugin =
  pc_magic :: u32
  pc_name :: string
  pc_link_state :: neu_node_link_state_e
  pc_priv :: 'p

text \<open>\<open>neu_plugin_common_init\<close> and \<open>neu_plugin_common_check\<close>.\<close>

definition neu_plugin_common_init :: "'p neu_plugin \<Rightarrow> 'p neu_plugin" where
  "neu_plugin_common_init p =
     p\<lparr>pc_magic := NEU_PLUGIN_MAGIC_NUMBER, pc_link_state := NEU_NODE_LINK_STATE_DISCONNECTED\<rparr>"

definition neu_plugin_common_check :: "'p neu_plugin \<Rightarrow> bool" where
  "neu_plugin_common_check p \<longleftrightarrow> pc_magic p = NEU_PLUGIN_MAGIC_NUMBER"

record 'p neu_plugin_intf_funs =
  pf_open :: "'p neu_plugin option"
  pf_init :: "'p neu_plugin \<Rightarrow> bool \<Rightarrow> int \<times> 'p neu_plugin"
  pf_uninit :: "'p neu_plugin \<Rightarrow> 'p neu_plugin"
  pf_start :: "'p neu_plugin \<Rightarrow> int \<times> 'p neu_plugin"
  pf_stop :: "'p neu_plugin \<Rightarrow> int \<times> 'p neu_plugin"
  pf_setting :: "'p neu_plugin \<Rightarrow> string \<Rightarrow> int \<times> 'p neu_plugin"
  pf_request :: "'p neu_plugin \<Rightarrow> neu_msg \<Rightarrow> 'p neu_plugin"
  pf_driver :: "'p neu_plugin driver_intf"
  pf_add_devices :: "('p neu_plugin \<Rightarrow> nat \<Rightarrow> esv_device_info_t list \<Rightarrow> 'p neu_plugin) option"
  pf_msg_arrived ::
    "'p neu_plugin \<Rightarrow> esv_thing_model_msg_t \<Rightarrow> int \<times> 'p neu_plugin \<times> esv_thing_model_msg_t list"

datatype neu_plugin_kind_e =
  NEU_PLUGIN_KIND_STATIC | NEU_PLUGIN_KIND_SYSTEM | NEU_PLUGIN_KIND_CUSTOM

record 'p neu_plugin_module_t =
  md_schema :: string
  md_module_name :: string
  md_module_descr :: string
  md_module_descr_zh :: string
  md_intf :: "'p neu_plugin_intf_funs"
  md_type :: neu_node_type_e
  md_kind :: neu_plugin_kind_e
  md_display :: bool
  md_single :: bool
  md_single_name :: string
  md_timer_type :: neu_event_timer_type_e

section \<open>State\<close>

text \<open>What an adapter writes to the database.\<close>

datatype store_op =
    Store_node_state string neu_node_running_state_e
  | Store_node_setting string string

record 'p adapter =
  ad_driver :: "'p neu_plugin driver"
  ad_setting :: "string option"
  ad_module :: "'p neu_plugin_module_t"
  ad_nng_io :: bool
  ad_timer_lev :: bool
  ad_timestamp_lev :: int
  ad_device_list :: esv_device_list_t
  ad_sent :: "neu_msg list"
  ad_stored :: "store_op list"

abbreviation ad_name :: "'p adapter \<Rightarrow> string" where
  "ad_name ad \<equiv> d_name (ad_driver ad)"

abbreviation ad_state :: "'p adapter \<Rightarrow> neu_node_running_state_e" where
  "ad_state ad \<equiv> d_state (ad_driver ad)"

abbreviation ad_plugin :: "'p adapter \<Rightarrow> 'p neu_plugin" where
  "ad_plugin ad \<equiv> d_plugin (ad_driver ad)"

abbreviation ad_intf :: "'p adapter \<Rightarrow> 'p neu_plugin_intf_funs" where
  "ad_intf ad \<equiv> md_intf (ad_module ad)"

abbreviation ad_type :: "'p adapter \<Rightarrow> neu_node_type_e" where
  "ad_type ad \<equiv> md_type (ad_module ad)"

definition set_driver :: "'p neu_plugin driver \<Rightarrow> 'p adapter \<Rightarrow> 'p adapter" where
  "set_driver d ad = ad\<lparr>ad_driver := d\<rparr>"

definition set_plugin :: "'p neu_plugin \<Rightarrow> 'p adapter \<Rightarrow> 'p adapter" where
  "set_plugin p ad = set_driver ((ad_driver ad)\<lparr>d_plugin := p\<rparr>) ad"

definition set_state :: "neu_node_running_state_e \<Rightarrow> 'p adapter \<Rightarrow> 'p adapter" where
  "set_state st ad = set_driver ((ad_driver ad)\<lparr>d_state := st\<rparr>) ad"

definition adapter_storage_state :: "neu_node_running_state_e \<Rightarrow> 'p adapter \<Rightarrow> 'p adapter" where
  "adapter_storage_state st ad = ad\<lparr>ad_stored := ad_stored ad @ [Store_node_state (ad_name ad) st]\<rparr>"

definition adapter_storage_setting :: "string \<Rightarrow> 'p adapter \<Rightarrow> 'p adapter" where
  "adapter_storage_setting setting ad =
     ad\<lparr>ad_stored := ad_stored ad @ [Store_node_setting (ad_name ad) setting]\<rparr>"

section \<open>Timers of the log level\<close>

text \<open>\<open>neu_event_del_timer\<close> and \<open>neu_event_del_io\<close> read the handle they are given.\<close>

definition start_log_level_timer :: "'p adapter \<Rightarrow> 'p adapter" where
  "start_log_level_timer ad = ad\<lparr>ad_timer_lev := True\<rparr>"

definition stop_log_level_timer :: "'p adapter \<Rightarrow> 'p adapter option" where
  "stop_log_level_timer ad = (if ad_timer_lev ad then Some (ad\<lparr>ad_timer_lev := False\<rparr>) else None)"

definition neu_event_del_io :: "'p adapter \<Rightarrow> 'p adapter option" where
  "neu_event_del_io ad = (if ad_nng_io ad then Some ad else None)"

text \<open>Whether the callback sets the level back: \<open>sec\<close> is the time of day in seconds.\<close>

definition level_check :: "int \<Rightarrow> 'p adapter \<Rightarrow> bool" where
  "level_check sec ad \<longleftrightarrow> ad_timestamp_lev ad \<noteq> 0 \<and> 600 \<le> sec - ad_timestamp_lev ad"

section \<open>Life cycle\<close>

definition neu_adapter_start :: "'p adapter \<Rightarrow> int \<times> 'p adapter" where
  "neu_adapter_start ad =
     (case ad_state ad of
        NEU_NODE_RUNNING_STATE_INIT \<Rightarrow> (NEU_ERR_NODE_NOT_READY, ad)
      | NEU_NODE_RUNNING_STATE_RUNNING \<Rightarrow> (NEU_ERR_NODE_IS_RUNNING, ad)
      | _ \<Rightarrow>
          (case pf_start (ad_intf ad) (ad_plugin ad) of
             (e, p) \<Rightarrow>
               let ad1 = set_plugin p ad
               in (e, if e = NEU_ERR_SUCCESS then set_state NEU_NODE_RUNNING_STATE_RUNNING ad1
                      else ad1)))"

definition neu_adapter_start_single :: "'p adapter \<Rightarrow> int \<times> 'p adapter" where
  "neu_adapter_start_single ad =
     (let ad1 = set_state NEU_NODE_RUNNING_STATE_RUNNING ad
      in case pf_start (ad_intf ad1) (ad_plugin ad1) of (e, p) \<Rightarrow> (e, set_plugin p ad1))"

definition neu_adapter_stop :: "'p adapter \<Rightarrow> int \<times> 'p adapter" where
  "neu_adapter_stop ad =
     (case ad_state ad of
        NEU_NODE_RUNNING_STATE_INIT \<Rightarrow> (NEU_ERR_NODE_NOT_READY, ad)
      | NEU_NODE_RUNNING_STATE_STOPPED \<Rightarrow> (NEU_ERR_NODE_IS_STOPED, ad)
      | _ \<Rightarrow>
          (case pf_stop (ad_intf ad) (ad_plugin ad) of
             (e, p) \<Rightarrow>
               let ad1 = set_plugin p ad
               in (e, if e = NEU_ERR_SUCCESS
                      then adapter_storage_state NEU_NODE_RUNNING_STATE_STOPPED
                             (set_state NEU_NODE_RUNNING_STATE_STOPPED ad1)
                      else ad1)))"

text \<open>The result of the start is dropped.\<close>

definition neu_adapter_set_setting :: "'p adapter \<Rightarrow> string \<Rightarrow> int \<times> 'p adapter" where
  "neu_adapter_set_setting ad setting =
     (case pf_setting (ad_intf ad) (ad_plugin ad) setting of
        (rv, p) \<Rightarrow>
          let ad1 = set_plugin p ad
          in if rv = 0 then
               (let ad2 = ad1\<lparr>ad_setting := Some setting\<rparr>
                in (0, if ad_state ad2 = NEU_NODE_RUNNING_STATE_INIT
                       then snd (neu_adapter_start (set_state NEU_NODE_RUNNING_STATE_READY ad2))
                       else ad2))
             else (NEU_ERR_NODE_SETTING_INVALID, ad1))"

text \<open>
  The pieces of a configuration reload (\<open>manager_adapter_msg.c\<close>): stop, new setting, start;
  the results of the stop and the start are dropped, and the state of the node takes no part
  but for becoming READY.  \<open>cfg\<close> is what the database answers for the node; \<open>result\<close> is the
  result before, and 0 after an accepted setting.
\<close>

definition stop_plugin :: "'p adapter \<Rightarrow> int \<times> 'p adapter" where
  "stop_plugin ad = (case pf_stop (ad_intf ad) (ad_plugin ad) of (ret, p) \<Rightarrow> (ret, set_plugin p ad))"

definition start_plugin :: "'p adapter \<Rightarrow> 'p adapter" where
  "start_plugin ad = set_plugin (snd (pf_start (ad_intf ad) (ad_plugin ad))) ad"

definition reload_config :: "int + string \<Rightarrow> int \<Rightarrow> 'p adapter \<Rightarrow> int \<times> 'p adapter" where
  "reload_config cfg result ad =
     (case cfg of
        Inl _ \<Rightarrow> (result, ad)
      | Inr cfg \<Rightarrow>
          (case pf_setting (ad_intf ad) (ad_plugin ad) cfg of
             (rv, p) \<Rightarrow>
               if rv = 0
               then (0, set_state NEU_NODE_RUNNING_STATE_READY ((set_plugin p ad)\<lparr>ad_setting := Some cfg\<rparr>))
               else (result, (set_plugin p ad)\<lparr>ad_setting := None\<rparr>)))"

definition neu_adapter_get_setting :: "'p adapter \<Rightarrow> int \<times> string option" where
  "neu_adapter_get_setting ad =
     (if ad_setting ad \<noteq> None then (NEU_ERR_SUCCESS, ad_setting ad)
      else (NEU_ERR_NODE_SETTING_NOT_FOUND, None))"

definition neu_adapter_get_state ::
  "'p adapter \<Rightarrow> neu_node_running_state_e \<times> neu_node_link_state_e" where
  "neu_adapter_get_state ad = (ad_state ad, pc_link_state (ad_plugin ad))"

definition neu_adapter_validate_tag :: "'p adapter \<Rightarrow> neu_datatag_t \<Rightarrow> int \<times> neu_datatag_t \<times> 'p adapter" where
  "neu_adapter_validate_tag ad tag =
     (case i_validate_tag (pf_driver (ad_intf ad)) (ad_plugin ad) tag of
        (e, tag', p) \<Rightarrow> (e, tag', set_plugin p ad))"

text \<open>\<open>log\<close>: the log library has a category for the new name.\<close>

definition neu_adapter_rename :: "bool \<Rightarrow> 'p adapter \<Rightarrow> string \<Rightarrow> (int \<times> 'p adapter) option" where
  "neu_adapter_rename log ad new_name =
     (if \<not> log then Some (NEU_ERR_EINTERNAL, ad)
      else do {
        ad1 \<leftarrow> stop_log_level_timer ad;
        let ad2 = (if ad_type ad = NEU_NA_TYPE_DRIVER
                   then set_driver (neu_adapter_driver_stop_group_timer (ad_driver ad1)) ad1 else ad1);
        let ad3 = set_driver ((ad_driver ad2)\<lparr>d_name := new_name\<rparr>) ad2;
        (if length new_name < NEU_NODE_NAME_LEN then Some () else None);
        let ad4 = set_plugin ((ad_plugin ad3)\<lparr>pc_name := new_name\<rparr>) ad3;
        let ad5 = start_log_level_timer ad4;
        Some (0, if ad_type ad = NEU_NA_TYPE_DRIVER
                 then set_driver (neu_adapter_driver_start_group_timer (ad_driver ad5)) ad5 else ad5)
      })"

definition neu_adapter_uninit :: "'p adapter \<Rightarrow> (int \<times> 'p adapter) option" where
  "neu_adapter_uninit ad = do {
     let ad1 = (if ad_type ad = NEU_NA_TYPE_DRIVER
                then set_driver (snd (neu_adapter_driver_uninit (pf_driver (ad_intf ad)) (ad_driver ad))) ad
                else ad);
     let ad2 = set_plugin (pf_uninit (ad_intf ad) (ad_plugin ad1)) ad1;
     ad3 \<leftarrow> neu_event_del_io ad2;
     ad4 \<leftarrow> stop_log_level_timer ad3;
     Some (0, ad4)
   }"

section \<open>Devices of a driver\<close>

text \<open>The number of devices is kept in 16 bits, and so is the length of the array.\<close>

definition esv_adapter_driver_load_devices ::
  "'p adapter \<Rightarrow> esv_device_info_t list \<Rightarrow> (int \<times> 'p adapter) option" where
  "esv_adapter_driver_load_devices ad infos = do {
     let device_cnt = unat (of_nat (length infos) :: u16);
     (unpacked, l) \<leftarrow> load_devices_loop device_cnt infos ([], ad_device_list ad);
     let ad1 = ad\<lparr>ad_device_list := l\<rparr>;
     Some (0,
       if ad_type ad1 = NEU_NA_TYPE_ESVDEVICEDRIVER
       then (case pf_add_devices (ad_intf ad1) of
               None \<Rightarrow> ad1
             | Some f \<Rightarrow> set_plugin (f (ad_plugin ad1) device_cnt unpacked) ad1)
       else ad1)
   }"

definition adapter_load_device ::
  "(string \<Rightarrow> int + esv_device_info_t list) \<Rightarrow> 'p adapter \<Rightarrow> (int \<times> 'p adapter) option" where
  "adapter_load_device load_devices ad =
     (case load_devices (ad_name ad) of
        Inl rv \<Rightarrow> Some (rv, ad)
      | Inr infos \<Rightarrow> map_option (\<lambda>(_, ad'). (0, ad')) (esv_adapter_driver_load_devices ad infos))"

section \<open>Creation\<close>

text \<open>
  The result is the adapter, NULL being the inner \<open>None\<close>, and the value
  \<open>neu_adapter_error\<close> has afterwards, \<open>err\<close> being its value before.
\<close>

definition creatable_types :: "neu_node_type_e list" where
  "creatable_types =
     [NEU_NA_TYPE_DRIVER, NEU_NA_TYPE_NDRIVER, NEU_NA_TYPE_APP, NEU_NA_TYPE_ESVDEVICEDRIVER,
      NEU_NA_TYPE_ESVAPP, NEU_NA_TYPE_ESVSELFDEVICEDRIVER]"

definition new_adapter :: "string \<Rightarrow> 'p neu_plugin_module_t \<Rightarrow> 'p neu_plugin \<Rightarrow> 'p adapter" where
  "new_adapter name md p =
     \<lparr>ad_driver = neu_adapter_driver_create name (md_timer_type md) p, ad_setting = None,
      ad_module = md, ad_nng_io = False, ad_timer_lev = False, ad_timestamp_lev = 0,
      ad_device_list = esv_device_list_new, ad_sent = [], ad_stored = []\<rparr>"

definition bind_plugin :: "string \<Rightarrow> 'p neu_plugin \<Rightarrow> 'p neu_plugin option" where
  "bind_plugin name p =
     (if neu_plugin_common_check p \<and> length name < NEU_NODE_NAME_LEN
      then Some (p\<lparr>pc_link_state := NEU_NODE_LINK_STATE_DISCONNECTED, pc_name := name\<rparr>) else None)"

definition load_config_setting :: "(string \<Rightarrow> string option) \<Rightarrow> 'p adapter \<Rightarrow> 'p adapter" where
  "load_config_setting load_config ad =
     (case load_config (ad_name ad) of
        None \<Rightarrow> ad
      | Some cfg \<Rightarrow>
          (case pf_setting (ad_intf ad) (ad_plugin ad) cfg of
             (rv, p) \<Rightarrow>
               if rv = 0
               then set_state NEU_NODE_RUNNING_STATE_READY ((set_plugin p ad)\<lparr>ad_setting := Some cfg\<rparr>)
               else (set_plugin p ad)\<lparr>ad_setting := None\<rparr>))"

definition neu_adapter_create ::
  "(string \<Rightarrow> string option) \<Rightarrow> (string \<Rightarrow> int + esv_device_info_t list) \<Rightarrow> int \<Rightarrow>
    string \<Rightarrow> 'p neu_plugin_module_t \<Rightarrow> bool \<Rightarrow> ('p adapter option \<times> int) option" where
  "neu_adapter_create load_config load_devices err name md load =
     (if md_type md \<notin> set creatable_types then Some (None, err)
      else do {
        p0 \<leftarrow> pf_open (md_intf md);
        p1 \<leftarrow> bind_plugin name p0;
        let (init_rv, p2) = pf_init (md_intf md) p1 load;
        let ad1 = load_config_setting load_config (new_adapter name md p2);
        (_, ad2) \<leftarrow> (if md_type md = NEU_NA_TYPE_ESVDEVICEDRIVER
                     then adapter_load_device load_devices ad1 else Some (0, ad1));
        Some (if init_rv \<noteq> 0 then (None, init_rv) else (Some ad2, 0))
      })"

end
