(* ===== verification/Loop.thy ===== *)
theory Loop
  imports Adapter
begin

text \<open>
  What an adapter does with the messages on its socket (\<open>src/adapter/adapter.c\<close>):
  \<open>adapter_command\<close> and \<open>adapter_response\<close>, by which plugins send requests and answers,
  and \<open>adapter_loop\<close>, which answers the requests for this node, one definition per request.

  A request is identified by the \<open>ctx\<close> of its header; the driver functions that answer later
  keep that.  The message that ends up on the socket is the header with its body; the loop
  answers by turning the header of the request round.
\<close>

section \<open>Sending\<close>

definition nng_sendmsg :: "(neu_msg \<Rightarrow> int) \<Rightarrow> neu_msg \<Rightarrow> 'p adapter \<Rightarrow> int \<times> 'p adapter" where
  "nng_sendmsg snd_rv m ad =
     (snd_rv m, if snd_rv m = 0 then ad\<lparr>ad_sent := ad_sent ad @ [m]\<rparr> else ad)"

definition reply ::
  "(neu_msg \<Rightarrow> int) \<Rightarrow> neu_reqresp_head_t \<Rightarrow> reqresp_data \<Rightarrow> 'p adapter \<Rightarrow> 'p adapter option" where
  "reply snd_rv h d ad = map_option (\<lambda>m. snd (nng_sendmsg snd_rv m ad)) (neu_msg_gen h d)"

definition notify_monitor ::
  "(neu_msg \<Rightarrow> int) \<Rightarrow> neu_reqresp_type \<Rightarrow> reqresp_data \<Rightarrow> 'p adapter \<Rightarrow> 'p adapter option" where
  "notify_monitor snd_rv event d ad =
     reply snd_rv \<lparr>rh_type = event, rh_ctx = 0, rh_sender = take NEU_NODE_NAME_LEN (ad_name ad),
                   rh_receiver = ''monitor''\<rparr> d ad"

text \<open>The receiver of a command is the first field of its body, for these types.\<close>

definition command_receiver ::
  "neu_reqresp_head_t \<Rightarrow> reqresp_data \<Rightarrow> string option" where
  "command_receiver h d =
     (if rh_type h \<in> {NEU_REQ_READ_GROUP, NEU_REQ_WRITE_TAGS, NEU_REQ_WRITE_TAG, NEU_REQ_DEL_NODE,
          NEU_REQ_UPDATE_GROUP, NEU_REQ_GET_GROUP, NEU_REQ_DEL_GROUP, NEU_REQ_ADD_GROUP,
          NEU_REQ_GET_TAG, NEU_REQ_UPDATE_TAG, NEU_REQ_DEL_TAG, NEU_REQ_ADD_TAG,
          NEU_REQ_UPDATE_NODE, NEU_REQ_NODE_CTL, NEU_REQ_GET_NODE_STATE, NEU_REQ_GET_NODE_SETTING,
          NEU_REQ_NODE_SETTING, NEU_REQRESP_NODE_DELETED, NEU_REQ_UPDATE_NDRIVER_TAG_PARAM,
          NEU_REQ_UPDATE_NDRIVER_TAG_INFO, NEU_REQ_GET_NDRIVER_TAGS, NEU_REQ_UPDATE_LOG_LEVEL}
      then first_field d
      else if rh_type h \<in> {NEU_REQ_GET_DRIVER_GROUP, NEU_REQ_GET_SUB_DRIVER_TAGS}
      then Some ''manager''
      else Some (rh_receiver h))"

definition adapter_command ::
  "(neu_msg \<Rightarrow> int) \<Rightarrow> 'p adapter \<Rightarrow> neu_reqresp_head_t \<Rightarrow> reqresp_data \<Rightarrow> (int \<times> 'p adapter) option" where
  "adapter_command snd_rv ad h d = do {
     receiver \<leftarrow> command_receiver h d;
     m \<leftarrow> neu_msg_gen (h\<lparr>rh_sender := ad_name ad, rh_receiver := receiver\<rparr>) d;
     Some (nng_sendmsg snd_rv m ad)
   }"

definition adapter_response ::
  "(neu_msg \<Rightarrow> int) \<Rightarrow> 'p adapter \<Rightarrow> neu_reqresp_head_t \<Rightarrow> reqresp_data \<Rightarrow> (int \<times> 'p adapter) option" where
  "adapter_response snd_rv ad h d = do {
     let h' = (if rh_type h = NEU_REQRESP_TRANS_DATA then h\<lparr>rh_sender := ad_name ad\<rparr>
               else neu_msg_exchange h);
     m \<leftarrow> neu_msg_gen h' d;
     Some (nng_sendmsg snd_rv m ad)
   }"

section \<open>Requests about groups\<close>

definition error_reply ::
  "(neu_msg \<Rightarrow> int) \<Rightarrow> neu_reqresp_head_t \<Rightarrow> int \<Rightarrow> 'p adapter \<Rightarrow> 'p adapter option" where
  "error_reply snd_rv h e ad =
     reply snd_rv (neu_msg_exchange (h\<lparr>rh_type := NEU_RESP_ERROR\<rparr>)) (D_error e) ad"

definition loop_read_group ::
  "(neu_msg \<Rightarrow> int) \<Rightarrow> int \<Rightarrow> 'p adapter \<Rightarrow> neu_msg \<Rightarrow> 'p adapter option" where
  "loop_read_group snd_rv now ad m =
     (case m of
        (h, D_group drv g) \<Rightarrow>
          if ad_type ad = NEU_NA_TYPE_DRIVER
          then map_option (\<lambda>d. set_driver d ad)
                 (neu_adapter_driver_read_group now (ad_driver ad) (rh_ctx h) drv g)
          else error_reply snd_rv h NEU_ERR_GROUP_NOT_ALLOW ad
      | _ \<Rightarrow> None)"

definition loop_write_tag ::
  "(neu_msg \<Rightarrow> int) \<Rightarrow> (u8 \<Rightarrow> u64) \<Rightarrow> int \<Rightarrow> int \<Rightarrow> 'p adapter \<Rightarrow> neu_msg \<Rightarrow> 'p adapter option" where
  "loop_write_tag snd_rv pw now us ad m =
     (case m of
        (h, D_write_tag drv g tag v) \<Rightarrow>
          if ad_type ad = NEU_NA_TYPE_DRIVER
          then map_option (\<lambda>d. set_driver d ad)
                 (neu_adapter_driver_write_tag pw now us (ad_driver ad) (rh_ctx h) g tag v)
          else error_reply snd_rv h NEU_ERR_GROUP_NOT_ALLOW ad
      | _ \<Rightarrow> None)"

definition loop_write_tags ::
  "(neu_msg \<Rightarrow> int) \<Rightarrow> 'p adapter \<Rightarrow> neu_msg \<Rightarrow> 'p adapter option" where
  "loop_write_tags snd_rv ad m =
     (case m of
        (h, D_write_tags drv g tvs) \<Rightarrow>
          if ad_type ad \<noteq> NEU_NA_TYPE_DRIVER
          then error_reply snd_rv h NEU_ERR_GROUP_NOT_ALLOW ad
          else map_option (\<lambda>d. set_driver d ad)
                 (neu_adapter_driver_write_tags (pf_driver (ad_intf ad)) (ad_driver ad) (rh_ctx h) g tvs)
      | _ \<Rightarrow> None)"

definition loop_get_group :: "(neu_msg \<Rightarrow> int) \<Rightarrow> 'p adapter \<Rightarrow> neu_msg \<Rightarrow> 'p adapter option" where
  "loop_get_group snd_rv ad m =
     (let h = neu_msg_exchange (fst m)
      in if ad_type ad = NEU_NA_TYPE_DRIVER
         then reply snd_rv (h\<lparr>rh_type := NEU_RESP_GET_GROUP\<rparr>)
                (D_resp_get_group (neu_adapter_driver_get_group (ad_driver ad))) ad
         else reply snd_rv (h\<lparr>rh_type := NEU_RESP_ERROR\<rparr>) (D_error NEU_ERR_GROUP_NOT_ALLOW) ad)"

definition loop_add_group :: "(neu_msg \<Rightarrow> int) \<Rightarrow> 'p adapter \<Rightarrow> neu_msg \<Rightarrow> 'p adapter option" where
  "loop_add_group snd_rv ad m =
     (case m of
        (h, D_add_group drv g interval) \<Rightarrow> do {
          let (e, ad1) =
            (if interval < NEU_GROUP_INTERVAL_LIMIT then (NEU_ERR_GROUP_PARAMETER_INVALID, ad)
             else if ad_type ad = NEU_NA_TYPE_DRIVER
             then (case neu_adapter_driver_add_group (ad_driver ad) g interval of
                     (e, d) \<Rightarrow> (e, set_driver d ad))
             else (NEU_ERR_GROUP_NOT_ALLOW, ad));
          ad2 \<leftarrow> (if e = NEU_ERR_SUCCESS
                  then notify_monitor snd_rv NEU_REQ_ADD_GROUP_EVENT (snd m) ad1 else Some ad1);
          error_reply snd_rv h e ad2
        }
      | _ \<Rightarrow> None)"

definition loop_update_driver_group ::
  "(neu_msg \<Rightarrow> int) \<Rightarrow> 'p adapter \<Rightarrow> neu_msg \<Rightarrow> 'p adapter option" where
  "loop_update_driver_group snd_rv ad m =
     (case m of
        (h, D_update_group drv g new_name interval) \<Rightarrow> do {
          let (e, ad1) =
            (if ad_type ad = NEU_NA_TYPE_DRIVER
             then (case neu_adapter_driver_update_group (ad_driver ad) g (Some new_name) interval of
                     (e, d) \<Rightarrow> (e, set_driver d ad))
             else (NEU_ERR_GROUP_NOT_ALLOW, ad));
          ad2 \<leftarrow> (if e = NEU_ERR_SUCCESS
                  then notify_monitor snd_rv NEU_REQ_UPDATE_GROUP_EVENT (snd m) ad1 else Some ad1);
          reply snd_rv (neu_msg_exchange (h\<lparr>rh_type := NEU_RESP_UPDATE_DRIVER_GROUP\<rparr>))
            (D_resp_update_group drv g new_name e) ad2
        }
      | _ \<Rightarrow> None)"

definition loop_del_group :: "(neu_msg \<Rightarrow> int) \<Rightarrow> 'p adapter \<Rightarrow> neu_msg \<Rightarrow> 'p adapter option" where
  "loop_del_group snd_rv ad m =
     (case m of
        (h, D_group drv g) \<Rightarrow> do {
          (e, ad1) \<leftarrow>
            (if ad_type ad = NEU_NA_TYPE_DRIVER
             then map_option (\<lambda>(e, d). (e, set_driver d ad))
                    (neu_adapter_driver_del_group (pf_driver (ad_intf ad)) (ad_driver ad) g)
             else Some (NEU_ERR_GROUP_NOT_ALLOW, ad));
          ad2 \<leftarrow> (if e = NEU_ERR_SUCCESS
                  then notify_monitor snd_rv NEU_REQ_DEL_GROUP_EVENT (snd m) ad1 else Some ad1);
          error_reply snd_rv h e ad2
        }
      | _ \<Rightarrow> None)"

section \<open>Requests about tags\<close>

definition loop_get_tag :: "(neu_msg \<Rightarrow> int) \<Rightarrow> 'p adapter \<Rightarrow> neu_msg \<Rightarrow> 'p adapter option" where
  "loop_get_tag snd_rv ad m =
     (case m of
        (h, D_get_tag drv g name) \<Rightarrow>
          (let (e, tags) = (if ad_type ad = NEU_NA_TYPE_DRIVER
                            then neu_adapter_driver_query_tag (ad_driver ad) g name
                            else (NEU_ERR_GROUP_NOT_ALLOW, None));
               h' = neu_msg_exchange h
           in if e \<noteq> NEU_ERR_SUCCESS
              then reply snd_rv (h'\<lparr>rh_type := NEU_RESP_ERROR\<rparr>) (D_error e) ad
              else (case tags of
                      None \<Rightarrow> None
                    | Some ts \<Rightarrow>
                        reply snd_rv (h'\<lparr>rh_type := NEU_RESP_GET_TAG\<rparr>) (D_resp_get_tag ts) ad))
      | _ \<Rightarrow> None)"

text \<open>\<open>DEL_TAG\<close> goes on after an error.\<close>

fun del_tags_loop ::
  "'p driver_intf \<Rightarrow> int \<Rightarrow> string \<Rightarrow> string list \<Rightarrow> 'p driver \<Rightarrow> 'p driver" where
  "del_tags_loop intf us g [] d = d"
| "del_tags_loop intf us g (t # ts) d =
     del_tags_loop intf us g ts (snd (neu_adapter_driver_del_tag intf us d g t))"

definition loop_del_tag ::
  "(neu_msg \<Rightarrow> int) \<Rightarrow> int \<Rightarrow> 'p adapter \<Rightarrow> neu_msg \<Rightarrow> 'p adapter option" where
  "loop_del_tag snd_rv us ad m =
     (case m of
        (h, D_del_tag drv g tags) \<Rightarrow> do {
          let (e, ad1) =
            (if ad_type ad = NEU_NA_TYPE_DRIVER
             then (0, set_driver (del_tags_loop (pf_driver (ad_intf ad)) us g tags (ad_driver ad)) ad)
             else (NEU_ERR_GROUP_NOT_ALLOW, ad));
          ad2 \<leftarrow> (if e = 0 then notify_monitor snd_rv NEU_REQ_DEL_TAG_EVENT (snd m) ad1 else Some ad1);
          error_reply snd_rv h e ad2
        }
      | _ \<Rightarrow> None)"

text \<open>
  \<open>ADD_TAG\<close> checks the tags up to the first bad one, announces the good ones to the plugin
  and adds them up to the first failure; \<open>index\<close> is how many were added.
\<close>

fun validate_tags ::
  "'p driver_intf \<Rightarrow> neu_datatag_t list \<Rightarrow> 'p driver \<Rightarrow> neu_datatag_t list \<times> int \<times> 'p driver" where
  "validate_tags intf [] d = ([], 0, d)"
| "validate_tags intf (t # ts) d =
     (case neu_adapter_driver_validate_tag intf d t of
        (ret, t', d') \<Rightarrow>
          if ret = 0 then (case validate_tags intf ts d' of (vs, e, d'') \<Rightarrow> (t' # vs, e, d''))
          else ([], ret, d'))"

fun add_tags_loop ::
  "'p driver_intf \<Rightarrow> int \<Rightarrow> string \<Rightarrow> neu_datatag_t list \<Rightarrow> nat \<Rightarrow> int \<Rightarrow> 'p driver \<Rightarrow>
    (nat \<times> int \<times> 'p driver) option" where
  "add_tags_loop intf us g [] i e d = Some (i, e, d)"
| "add_tags_loop intf us g (t # ts) i e d =
     (case neu_adapter_driver_add_tag us d g t of
        None \<Rightarrow> None
      | Some (ret, d') \<Rightarrow>
          if ret \<noteq> 0
          then Some (i, ret, snd (neu_adapter_driver_try_del_tag intf d' (length (t # ts))))
          else add_tags_loop intf us g ts (i + 1) e d')"

definition add_tags ::
  "'p driver_intf \<Rightarrow> int \<Rightarrow> string \<Rightarrow> neu_datatag_t list \<Rightarrow> 'p driver \<Rightarrow>
    (nat \<times> int \<times> neu_datatag_t list \<times> 'p driver) option" where
  "add_tags intf us g tags d =
     (let (vs, e, d1) = validate_tags intf tags d;
          (vs', e', d2) =
            (if 0 < length vs
             then (case neu_adapter_driver_try_add_tag intf d1 g vs of
                     (ret, d2) \<Rightarrow> if ret \<noteq> 0 then ([], ret, d2) else (vs, e, d2))
             else (vs, e, d1))
      in map_option (\<lambda>(i, e, d). (i, e, map parse_option (take i vs'), d))
           (add_tags_loop intf us g vs' 0 e' d2))"

definition loop_add_tag ::
  "(neu_msg \<Rightarrow> int) \<Rightarrow> int \<Rightarrow> 'p adapter \<Rightarrow> neu_msg \<Rightarrow> 'p adapter option" where
  "loop_add_tag snd_rv us ad m =
     (case m of
        (h, D_tags drv g tags) \<Rightarrow> do {
          (index, e, added, ad1) \<leftarrow>
            (if ad_type ad = NEU_NA_TYPE_DRIVER
             then map_option (\<lambda>(i, e, ts, d). (i, e, ts, set_driver d ad))
                    (add_tags (pf_driver (ad_intf ad)) us g tags (ad_driver ad))
             else Some (0, NEU_ERR_GROUP_NOT_ALLOW, [], ad));
          ad2 \<leftarrow> (if index \<noteq> 0
                  then notify_monitor snd_rv NEU_REQ_ADD_TAG_EVENT (D_tags drv g added) ad1
                  else Some ad1);
          reply snd_rv ((neu_msg_exchange h)\<lparr>rh_type := NEU_RESP_ADD_TAG\<rparr>)
            (D_resp_tag (of_nat index) e) ad2
        }
      | _ \<Rightarrow> None)"

text \<open>The plugin's check may change the tag of the request, which then goes to the monitor.\<close>

fun update_tags_loop ::
  "'p driver_intf \<Rightarrow> int \<Rightarrow> string \<Rightarrow> neu_datatag_t list \<Rightarrow> 'p driver \<Rightarrow>
    neu_datatag_t list \<times> int \<times> 'p driver" where
  "update_tags_loop intf us g [] d = ([], 0, d)"
| "update_tags_loop intf us g (t # ts) d =
     (case neu_adapter_driver_update_tag intf us d g t of
        (ret, d') \<Rightarrow>
          if ret = 0
          then (case update_tags_loop intf us g ts d' of
                  (us', e, d'') \<Rightarrow> (parse_option (fst (snd (plugin_validate intf d t))) # us', e, d''))
          else ([], ret, d'))"

definition loop_update_tag ::
  "(neu_msg \<Rightarrow> int) \<Rightarrow> int \<Rightarrow> 'p adapter \<Rightarrow> neu_msg \<Rightarrow> 'p adapter option" where
  "loop_update_tag snd_rv us ad m =
     (case m of
        (h, D_tags drv g tags) \<Rightarrow> do {
          let (updated, e, ad1) =
            (if ad_type ad = NEU_NA_TYPE_DRIVER
             then (case update_tags_loop (pf_driver (ad_intf ad)) us g tags (ad_driver ad) of
                     (ts, e, d) \<Rightarrow> (ts, e, set_driver d ad))
             else ([], NEU_ERR_GROUP_NOT_ALLOW, ad));
          ad2 \<leftarrow> (if 0 < length updated
                  then notify_monitor snd_rv NEU_REQ_UPDATE_TAG_EVENT (D_tags drv g updated) ad1
                  else Some ad1);
          reply snd_rv ((neu_msg_exchange h)\<lparr>rh_type := NEU_RESP_UPDATE_TAG\<rparr>)
            (D_resp_tag (of_nat (length updated)) e) ad2
        }
      | _ \<Rightarrow> None)"

text \<open>The requests for tags of an \<open>NDRIVER\<close> are answered without doing anything.\<close>

definition loop_update_ndriver_tags ::
  "(neu_msg \<Rightarrow> int) \<Rightarrow> 'p adapter \<Rightarrow> neu_msg \<Rightarrow> 'p adapter option" where
  "loop_update_ndriver_tags snd_rv ad m =
     (case m of
        (h, D_ndriver_tags _ _ _ tags) \<Rightarrow>
          reply snd_rv ((neu_msg_exchange h)\<lparr>rh_type := NEU_RESP_UPDATE_TAG\<rparr>)
            (D_resp_tag (of_nat (length tags)) 0) ad
      | _ \<Rightarrow> None)"

definition loop_get_ndriver_tags ::
  "(neu_msg \<Rightarrow> int) \<Rightarrow> 'p adapter \<Rightarrow> neu_msg \<Rightarrow> 'p adapter option" where
  "loop_get_ndriver_tags snd_rv ad m =
     reply snd_rv ((neu_msg_exchange (fst m))\<lparr>rh_type := NEU_RESP_GET_NDRIVER_TAGS\<rparr>)
       (D_resp_get_tag []) ad"

section \<open>Requests about the node\<close>

definition loop_node_setting ::
  "(neu_msg \<Rightarrow> int) \<Rightarrow> 'p adapter \<Rightarrow> neu_msg \<Rightarrow> 'p adapter option" where
  "loop_node_setting snd_rv ad m =
     (case m of
        (h, D_node_setting node setting) \<Rightarrow>
          (case neu_adapter_set_setting ad setting of
             (e, ad1) \<Rightarrow>
               error_reply snd_rv h e
                 (if e = NEU_ERR_SUCCESS then adapter_storage_setting setting ad1 else ad1))
      | _ \<Rightarrow> None)"

definition loop_get_node_setting ::
  "(neu_msg \<Rightarrow> int) \<Rightarrow> 'p adapter \<Rightarrow> neu_msg \<Rightarrow> 'p adapter option" where
  "loop_get_node_setting snd_rv ad m =
     (let h = neu_msg_exchange (fst m)
      in case neu_adapter_get_setting ad of
           (e, setting) \<Rightarrow>
             if e \<noteq> NEU_ERR_SUCCESS
             then reply snd_rv (h\<lparr>rh_type := NEU_RESP_ERROR\<rparr>) (D_error e) ad
             else (case setting of
                     None \<Rightarrow> None
                   | Some cfg \<Rightarrow>
                       reply snd_rv (h\<lparr>rh_type := NEU_RESP_GET_NODE_SETTING\<rparr>)
                         (D_node_setting (ad_name ad) cfg) ad))"

definition loop_get_node_state ::
  "(neu_msg \<Rightarrow> int) \<Rightarrow> 'p adapter \<Rightarrow> neu_msg \<Rightarrow> 'p adapter option" where
  "loop_get_node_state snd_rv ad m =
     (case neu_adapter_get_state ad of
        (running, link) \<Rightarrow>
          reply snd_rv (neu_msg_exchange ((fst m)\<lparr>rh_type := NEU_RESP_GET_NODE_STATE\<rparr>))
            (D_resp_node_state running link 0) ad)"

definition loop_node_ctl ::
  "(neu_msg \<Rightarrow> int) \<Rightarrow> 'p adapter \<Rightarrow> neu_msg \<Rightarrow> 'p adapter option" where
  "loop_node_ctl snd_rv ad m =
     (case m of
        (h, D_node_ctl node ctl) \<Rightarrow> do {
          let (e, ad1) = (case ctl of
              NEU_ADAPTER_CTL_START \<Rightarrow> neu_adapter_start ad
            | NEU_ADAPTER_CTL_STOP \<Rightarrow> neu_adapter_stop ad);
          ad2 \<leftarrow> (if 0 = e then notify_monitor snd_rv NEU_REQ_NODE_CTL_EVENT (snd m) ad1 else Some ad1);
          error_reply snd_rv h e ad2
        }
      | _ \<Rightarrow> None)"

definition loop_node_rename ::
  "(neu_msg \<Rightarrow> int) \<Rightarrow> bool \<Rightarrow> 'p adapter \<Rightarrow> neu_msg \<Rightarrow> 'p adapter option" where
  "loop_node_rename snd_rv log ad m =
     (case m of
        (h, D_node_rename node new_name) \<Rightarrow> do {
          (e, ad1) \<leftarrow> neu_adapter_rename log ad new_name;
          reply snd_rv (h\<lparr>rh_type := NEU_RESP_NODE_RENAME, rh_receiver := rh_sender h,
                          rh_sender := new_name\<rparr>) (D_resp_node_rename node new_name e) ad1
        }
      | _ \<Rightarrow> None)"

definition loop_node_uninit ::
  "(neu_msg \<Rightarrow> int) \<Rightarrow> 'p adapter \<Rightarrow> neu_msg \<Rightarrow> 'p adapter option" where
  "loop_node_uninit snd_rv ad m =
     (case m of
        (h, D_node_state node st) \<Rightarrow> do {
          (_, ad1) \<leftarrow> neu_adapter_uninit ad;
          reply snd_rv ((neu_msg_exchange (h\<lparr>rh_type := NEU_RESP_NODE_UNINIT\<rparr>))
                          \<lparr>rh_sender := ad_name ad1\<rparr>) (D_node_state (ad_name ad1) st) ad1
        }
      | _ \<Rightarrow> None)"

definition loop_update_log_level ::
  "(neu_msg \<Rightarrow> int) \<Rightarrow> int \<Rightarrow> 'p adapter \<Rightarrow> neu_msg \<Rightarrow> 'p adapter option" where
  "loop_update_log_level snd_rv sec ad m =
     reply snd_rv ((neu_msg_exchange (fst m))\<lparr>rh_type := NEU_RESP_ERROR\<rparr>) (D_error 0)
       (ad\<lparr>ad_timestamp_lev := sec\<rparr>)"

section \<open>The loop\<close>

text \<open>Messages that are handed to the plugin.\<close>

definition plugin_types :: "neu_reqresp_type list" where
  "plugin_types =
    [NEU_RESP_GET_DRIVER_GROUP, NEU_REQRESP_NODE_DELETED, NEU_RESP_GET_SUB_DRIVER_TAGS,
     NEU_REQ_UPDATE_LICENSE, NEU_REQ_UPDATE_NODE, NEU_RESP_GET_NODE_STATE,
     NEU_RESP_GET_NODES_STATE, NEU_RESP_GET_NODE_SETTING, NEU_REQ_UPDATE_GROUP,
     NEU_REQ_SUBSCRIBE_GROUP, NEU_REQ_UPDATE_SUBSCRIBE_GROUP, NEU_REQ_UNSUBSCRIBE_GROUP,
     NEU_RESP_READ_GROUP, NEU_RESP_GET_SUBSCRIBE_GROUP, NEU_RESP_ADD_TAG,
     NEU_RESP_ADD_TEMPLATE_TAG, NEU_RESP_UPDATE_TAG, NEU_RESP_UPDATE_TEMPLATE_TAG,
     NEU_RESP_GET_TAG, NEU_RESP_GET_TEMPLATE_TAG, NEU_RESP_GET_NODE, NEU_RESP_GET_PLUGIN,
     NEU_RESP_GET_TEMPLATE, NEU_RESP_GET_TEMPLATES, NEU_RESP_GET_NDRIVER_MAPS,
     NEU_RESP_GET_NDRIVER_TAGS, NEU_RESP_GET_GROUP, NEU_RESP_ERROR, NEU_REQRESP_TRANS_DATA,
     NEU_REQRESP_NODES_STATE, NEU_REQ_ADD_NODE_EVENT, NEU_REQ_DEL_NODE_EVENT,
     NEU_REQ_NODE_CTL_EVENT, NEU_REQ_NODE_SETTING_EVENT, NEU_REQ_ADD_GROUP_EVENT,
     NEU_REQ_DEL_GROUP_EVENT, NEU_REQ_UPDATE_GROUP_EVENT, NEU_REQ_ADD_TAG_EVENT,
     NEU_REQ_DEL_TAG_EVENT, NEU_REQ_UPDATE_TAG_EVENT]"

definition adapter_loop ::
  "(neu_msg \<Rightarrow> int) \<Rightarrow> (u8 \<Rightarrow> u64) \<Rightarrow> bool \<Rightarrow> int \<Rightarrow> int \<Rightarrow> 'p adapter \<Rightarrow> neu_msg \<Rightarrow>
    'p adapter option" where
  "adapter_loop snd_rv pw log now us ad m =
     (let t = rh_type (fst m)
      in if t \<in> set plugin_types
         then Some (set_plugin (pf_request (ad_intf ad) (ad_plugin ad) m) ad)
         else if t = NEU_REQ_READ_GROUP then loop_read_group snd_rv now ad m
         else if t = NEU_REQ_WRITE_TAG then loop_write_tag snd_rv pw now us ad m
         else if t = NEU_REQ_WRITE_TAGS then loop_write_tags snd_rv ad m
         else if t = NEU_REQ_NODE_SETTING then loop_node_setting snd_rv ad m
         else if t = NEU_REQ_GET_NODE_SETTING then loop_get_node_setting snd_rv ad m
         else if t = NEU_REQ_GET_NODE_STATE then loop_get_node_state snd_rv ad m
         else if t = NEU_REQ_GET_GROUP then loop_get_group snd_rv ad m
         else if t = NEU_REQ_GET_TAG then loop_get_tag snd_rv ad m
         else if t = NEU_REQ_ADD_GROUP then loop_add_group snd_rv ad m
         else if t = NEU_REQ_UPDATE_DRIVER_GROUP then loop_update_driver_group snd_rv ad m
         else if t = NEU_REQ_DEL_GROUP then loop_del_group snd_rv ad m
         else if t = NEU_REQ_NODE_CTL then loop_node_ctl snd_rv ad m
         else if t = NEU_REQ_NODE_RENAME then loop_node_rename snd_rv log ad m
         else if t = NEU_REQ_DEL_TAG then loop_del_tag snd_rv us ad m
         else if t = NEU_REQ_ADD_TAG then loop_add_tag snd_rv us ad m
         else if t = NEU_REQ_UPDATE_TAG then loop_update_tag snd_rv us ad m
         else if t = NEU_REQ_NODE_UNINIT then loop_node_uninit snd_rv ad m
         else if t \<in> {NEU_REQ_ADD_NDRIVER_MAP, NEU_REQ_DEL_NDRIVER_MAP} then Some ad
         else if t \<in> {NEU_REQ_UPDATE_NDRIVER_TAG_PARAM, NEU_REQ_UPDATE_NDRIVER_TAG_INFO}
         then loop_update_ndriver_tags snd_rv ad m
         else if t = NEU_REQ_GET_NDRIVER_TAGS then loop_get_ndriver_tags snd_rv ad m
         else if t = NEU_REQ_UPDATE_LOG_LEVEL then loop_update_log_level snd_rv (us div 1000000) ad m
         else None)"

end
