(* ===== verification/DriverLaws.thy ===== *)
theory DriverLaws
  imports Driver
begin

text \<open>
  Laws of the driver (\<open>Driver\<close>): the invariant of its group table over every sequence of
  requests, timer callbacks and plugin reports; what renaming, adding and deleting do to
  the table; that every write request is either queued or answered; the hand-over of the
  write queue; and that a refresh of a group leaves exactly the group's readable tags in
  the cache.
\<close>

section \<open>The invariant\<close>

definition group_entry_ok :: "string \<Rightarrow> group_t \<Rightarrow> bool" where
  "group_entry_ok k gr \<longleftrightarrow>
     gr_name gr = k \<and> gname (gr_group gr) = k \<and> group_ok (gr_group gr)"

definition groups_ok :: "(string, group_t) uthash \<Rightarrow> bool" where
  "groups_ok t \<longleftrightarrow> hash_wf t \<and> (\<forall>(k, gr)\<in>set t. group_entry_ok k gr)"

definition driver_ok :: "'p driver \<Rightarrow> bool" where
  "driver_ok d \<longleftrightarrow> groups_ok (d_groups d) \<and> hash_wf (d_cache d)"

lemma groups_ok_wf [simp]: "groups_ok t \<Longrightarrow> hash_wf t"
  by (simp add: groups_ok_def)

lemma groups_okD: "groups_ok t \<Longrightarrow> hash_find t k = Some gr \<Longrightarrow> group_entry_ok k gr"
  by (auto simp: groups_ok_def dest!: hash_find_in_set)

lemma groups_ok_Nil [simp]: "groups_ok []"
  by (simp add: groups_ok_def)

lemma groups_ok_set: "groups_ok t \<Longrightarrow> group_entry_ok k gr \<Longrightarrow> groups_ok (hash_set t k gr)"
  by (auto simp: groups_ok_def dest!: set_hash_set)

lemma groups_ok_add:
  "groups_ok t \<Longrightarrow> group_entry_ok k gr \<Longrightarrow> k \<notin> set (hash_keys t) \<Longrightarrow> groups_ok (hash_add t k gr)"
  by (auto simp: groups_ok_def hash_add_def hash_wf_def hash_keys_def)

lemma groups_ok_del: "groups_ok t \<Longrightarrow> groups_ok (hash_del t k)"
  using set_hash_del [of t k] by (auto simp: groups_ok_def)

lemma groups_ok_map:
  assumes "groups_ok t" "\<And>k gr. group_entry_ok k gr \<Longrightarrow> group_entry_ok k (f gr)"
  shows "groups_ok (map (apsnd f) t)"
  using assms by (auto simp: groups_ok_def hash_wf_def hash_keys_def o_def)

lemma group_entry_ok_upd [simp]:
  "group_entry_ok k (gr\<lparr>gr_wt_tags := w\<rparr>) = group_entry_ok k gr"
  "group_entry_ok k (gr\<lparr>gr_report := r\<rparr>) = group_entry_ok k gr"
  "group_entry_ok k (gr\<lparr>gr_read := r\<rparr>) = group_entry_ok k gr"
  "group_entry_ok k (gr\<lparr>gr_timestamp := ts\<rparr>) = group_entry_ok k gr"
  "group_entry_ok k (gr\<lparr>gr_grp_name := n\<rparr>) = group_entry_ok k gr"
  "group_entry_ok k (gr\<lparr>gr_grp_tags := tl1\<rparr>) = group_entry_ok k gr"
  "group_entry_ok k (gr\<lparr>gr_static_tags := tl1\<rparr>) = group_entry_ok k gr"
  by (simp_all add: group_entry_ok_def)

lemma group_entry_ok_start [simp]: "group_entry_ok k (start_timers d i gr) = group_entry_ok k gr"
  by (simp add: start_timers_def)

lemma gname_group_ops [simp]:
  "gname (update_timestamp now g) = gname g"
  "gname (snd (neu_group_add_tag now g t)) = gname g"
  "gname (snd (neu_group_update_tag now g t)) = gname g"
  "gname (snd (neu_group_del_tag now g n)) = gname g"
  by (simp_all add: update_timestamp_def neu_group_add_tag_def neu_group_update_tag_def
      neu_group_del_tag_def split: option.split)

lemma driver_ok_simps [simp]:
  "driver_ok (emit os d) = driver_ok d"
  "driver_ok (d\<lparr>d_plugin := p\<rparr>) = driver_ok d"
  "driver_ok (d\<lparr>d_tag_cnt := n\<rparr>) = driver_ok d"
  "driver_ok (d\<lparr>d_state := s\<rparr>) = driver_ok d"
  "driver_ok (d\<lparr>d_out := os\<rparr>) = driver_ok d"
  "driver_ok (d\<lparr>d_cache := c\<rparr>) \<longleftrightarrow> groups_ok (d_groups d) \<and> hash_wf c"
  "driver_ok (d\<lparr>d_groups := t\<rparr>) \<longleftrightarrow> groups_ok t \<and> hash_wf (d_cache d)"
  by (simp_all add: driver_ok_def emit_def)

lemma emit_simps [simp]:
  "d_groups (emit os d) = d_groups d" "d_cache (emit os d) = d_cache d"
  "d_plugin (emit os d) = d_plugin d" "d_state (emit os d) = d_state d"
  "d_tag_cnt (emit os d) = d_tag_cnt d" "d_out (emit os d) = d_out d @ os"
  "d_name (emit os d) = d_name d" "d_timer_type (emit os d) = d_timer_type d"
  "find_group (emit os d) = find_group d"
  by (simp_all add: emit_def find_group_def fun_eq_iff)

lemma driver_ok_write_response [simp]: "driver_ok (write_response req e d) = driver_ok d"
  by (simp add: write_response_def)

lemma driver_okD:
  "driver_ok d \<Longrightarrow> groups_ok (d_groups d)" "driver_ok d \<Longrightarrow> hash_wf (d_cache d)"
  by (simp_all add: driver_ok_def)

lemma driver_ok_set_group:
  assumes "driver_ok d" "group_entry_ok (gr_name gr) gr"
  shows "driver_ok (set_group gr d)"
  using assms by (simp add: set_group_def driver_ok_def groups_ok_set)

lemma find_group_ok: "driver_ok d \<Longrightarrow> find_group d k = Some gr \<Longrightarrow> group_entry_ok k gr"
  by (auto simp: find_group_def dest: driver_okD groups_okD)

lemma find_group_name: "driver_ok d \<Longrightarrow> find_group d k = Some gr \<Longrightarrow> gr_name gr = k"
  by (auto simp: group_entry_ok_def dest: find_group_ok)

subsection \<open>The cache operations keep the keys distinct\<close>

lemma hash_wf_cache_add: "hash_wf c \<Longrightarrow> hash_wf (neu_driver_cache_add c g t v)"
  by (simp add: neu_driver_cache_add_def Let_def split: option.split)

lemma hash_wf_cache_update_change:
  "neu_driver_cache_update_change pw c g t ts v ms ch = Some c' \<Longrightarrow> hash_wf c \<Longrightarrow> hash_wf c'"
  by (auto simp: neu_driver_cache_update_change_def Let_def split: option.splits)

lemma hash_wf_cache_update:
  "neu_driver_cache_update pw c g t ts v ms = Some c' \<Longrightarrow> hash_wf c \<Longrightarrow> hash_wf c'"
  unfolding neu_driver_cache_update_def by (rule hash_wf_cache_update_change)

lemma hash_wf_cache_del:
  "neu_driver_cache_del c g t = Some c' \<Longrightarrow> hash_wf c \<Longrightarrow> hash_wf c'"
  by (auto simp: neu_driver_cache_del_def Let_def split: option.splits if_splits)

lemma hash_wf_cache_del_tags:
  "cache_del_tags g ts c = Some c' \<Longrightarrow> hash_wf c \<Longrightarrow> hash_wf c'"
  by (induction g ts c rule: cache_del_tags.induct)
     (auto split: bind_splits dest: hash_wf_cache_del)

lemma hash_wf_cache_add_tags: "hash_wf c \<Longrightarrow> hash_wf (cache_add_tags g val ts c)"
  unfolding cache_add_tags_def by (induction ts arbitrary: c) (simp_all add: hash_wf_cache_add)

lemma hash_wf_update_error_tags:
  "update_error_tags pw now g v ts c n = Some (c', n') \<Longrightarrow> hash_wf c \<Longrightarrow> hash_wf c'"
  by (induction ts arbitrary: c n)
     (auto split: bind_splits if_splits dest: hash_wf_cache_update)

lemma hash_wf_get_changed:
  "neu_driver_cache_meta_get_changed c g t v ms n = Some (r, v', ms', c') \<Longrightarrow> hash_wf c \<Longrightarrow> hash_wf c'"
  by (auto simp: neu_driver_cache_meta_get_changed_def Let_def split: option.splits if_splits)

lemma hash_wf_report_group:
  "read_report_group now timeout c g tags = Some (datas, c') \<Longrightarrow> hash_wf c \<Longrightarrow> hash_wf c'"
proof (induction tags arbitrary: c datas)
  case (Cons t ts)
  show ?case
  proof (cases "neu_tag_attribute_test t NEU_ATTRIBUTE_SUBSCRIBE")
    case True
    with Cons.prems obtain r v ms c1 datas1 where
      g: "neu_driver_cache_meta_get_changed c g (tname t) zero_cache_value zero_metas
            NEU_TAG_META_SIZE = Some (r, v, ms, c1)" and
      rest: "read_report_group now timeout c1 g ts = Some (datas1, c')"
      by (auto simp: Let_def split: option.splits if_splits)
    from Cons.IH [OF rest] hash_wf_get_changed [OF g Cons.prems(2)] show ?thesis by blast
  next
    case False
    with Cons show ?thesis by (auto simp: Let_def split: option.splits)
  qed
qed simp

subsection \<open>The operations keep the invariant\<close>

lemma driver_ok_create [simp]: "driver_ok (neu_adapter_driver_create name tt p)"
  by (simp add: driver_ok_def neu_adapter_driver_create_def neu_driver_cache_new_def)

lemma driver_ok_update_with_meta:
  assumes "update_with_meta pw now d g tag v ms = Some d'" "driver_ok d"
  shows "driver_ok d'"
  using assms driver_okD [OF assms(2)]
  by (auto simp: update_with_meta_def Let_def
      split: option.splits bind_splits if_splits
      dest: hash_wf_cache_update hash_wf_update_error_tags)

lemma driver_ok_update_im:
  assumes "update_im pw now d g tag v ms = Some d'" "driver_ok d"
  shows "driver_ok d'"
  using assms driver_okD [OF assms(2)]
  by (auto simp: update_im_def Let_def
      split: option.splits bind_splits if_splits
      dest!: hash_wf_cache_update_change hash_wf_report_group)

lemma driver_ok_plugin_event:
  "plugin_event pw now e d = Some d' \<Longrightarrow> driver_ok d \<Longrightarrow> driver_ok d'"
  by (cases e) (auto simp: plugin_event_def driver_ok_update_with_meta driver_ok_update_im)

lemma driver_ok_plugin_events:
  "plugin_events pw now es d = Some d' \<Longrightarrow> driver_ok d \<Longrightarrow> driver_ok d'"
  by (induction es arbitrary: d) (auto split: bind_splits dest: driver_ok_plugin_event)

lemma driver_ok_timers:
  assumes "driver_ok d"
  shows "driver_ok (neu_adapter_driver_start_group_timer d)"
    and "driver_ok (neu_adapter_driver_stop_group_timer d)"
  using assms
  by (auto simp: neu_adapter_driver_start_group_timer_def neu_adapter_driver_stop_group_timer_def
      driver_okD intro: groups_ok_map)

lemma driver_ok_read_group:
  "neu_adapter_driver_read_group now d req dr g = Some d' \<Longrightarrow> driver_ok d \<Longrightarrow> driver_ok d'"
  by (auto simp: neu_adapter_driver_read_group_def Let_def split: option.splits bind_splits)

lemma driver_ok_store_write:
  "driver_ok d \<Longrightarrow> find_group d k = Some gr \<Longrightarrow> driver_ok (store_write_tag gr w d)"
  using find_group_ok [of d k gr]
  by (auto simp: store_write_tag_def group_entry_ok_def intro!: driver_ok_set_group)

lemma driver_ok_write_tags:
  "neu_adapter_driver_write_tags intf d req g cmds = Some d' \<Longrightarrow> driver_ok d \<Longrightarrow> driver_ok d'"
  by (auto simp: neu_adapter_driver_write_tags_def Let_def driver_ok_store_write
      split: option.splits bind_splits if_splits)

lemma group_entry_ok_tag_ops:
  assumes "group_entry_ok k gr"
  shows "neu_group_add_tag us (gr_group gr) t = (r, g') \<Longrightarrow> group_entry_ok k (gr\<lparr>gr_group := g'\<rparr>)"
    and "neu_group_update_tag us (gr_group gr) t = (r, g') \<Longrightarrow> group_entry_ok k (gr\<lparr>gr_group := g'\<rparr>)"
    and "neu_group_del_tag us (gr_group gr) n = (r, g') \<Longrightarrow> group_entry_ok k (gr\<lparr>gr_group := g'\<rparr>)"
  using assms gname_group_ops(2) [of us "gr_group gr" t] gname_group_ops(3) [of us "gr_group gr" t]
    gname_group_ops(4) [of us "gr_group gr" n]
  by (auto simp: group_entry_ok_def simp del: gname_group_ops)

lemma set_group_simps [simp]:
  "d_cache (set_group gr d) = d_cache d" "d_tag_cnt (set_group gr d) = d_tag_cnt d"
  "d_out (set_group gr d) = d_out d" "d_plugin (set_group gr d) = d_plugin d"
  "d_state (set_group gr d) = d_state d"
  by (simp_all add: set_group_def)

lemma driver_ok_set_same:
  "driver_ok d \<Longrightarrow> group_entry_ok k gr \<Longrightarrow> driver_ok (set_group gr d)"
  by (rule driver_ok_set_group) (auto simp: group_entry_ok_def)

text \<open>A tag operation on a group of the table.\<close>

lemma driver_ok_tag_ops:
  assumes "driver_ok d" "hash_find (d_groups d) k = Some gr"
  shows "neu_group_add_tag us (gr_group gr) t = (r, g') \<Longrightarrow>
      driver_ok (set_group (gr\<lparr>gr_group := g'\<rparr>) d)"
    and "neu_group_update_tag us (gr_group gr) t = (r, g') \<Longrightarrow>
      driver_ok (set_group (gr\<lparr>gr_group := g'\<rparr>) d)"
    and "neu_group_del_tag us (gr_group gr) n = (r, g') \<Longrightarrow>
      driver_ok (set_group (gr\<lparr>gr_group := g'\<rparr>) d)"
  using assms groups_okD [OF driver_okD(1) [OF assms(1)] assms(2)]
  by (blast intro: driver_ok_set_same group_entry_ok_tag_ops)+

lemma driver_ok_write_tag:
  assumes "neu_adapter_driver_write_tag pw now us d req g t v = Some d'" "driver_ok d"
  shows "driver_ok d'"
proof (cases "find_group d g")
  case (Some gr)
  note entry = find_group_ok [OF assms(2) Some]
  have cache: "driver_ok (d\<lparr>d_cache := c\<rparr>)"
    if "neu_driver_cache_update pw (d_cache d) g' t' now v' [] = Some c" for g' t' v' c
    using assms(2) hash_wf_cache_update [OF that] by (simp add: driver_okD)
  show ?thesis
    using assms(1) Some assms(2) entry
    by (auto simp: neu_adapter_driver_write_tag_def Let_def driver_ok_store_write
        split: option.splits bind_splits if_splits prod.splits
        intro!: driver_ok_set_same [where k = g] cache intro: group_entry_ok_tag_ops(2))
qed (use assms in \<open>auto simp: neu_adapter_driver_write_tag_def split: if_splits\<close>)

lemma driver_ok_intf_tags [simp]:
  "driver_ok (snd (neu_adapter_driver_try_add_tag intf d g ts)) = driver_ok d"
  "driver_ok (snd (neu_adapter_driver_load_tag intf d g ts)) = driver_ok d"
  "driver_ok (snd (neu_adapter_driver_try_del_tag intf d n)) = driver_ok d"
  by (simp_all add: neu_adapter_driver_try_add_tag_def neu_adapter_driver_load_tag_def
      neu_adapter_driver_try_del_tag_def split: option.split prod.split)

lemma group_entry_ok_new [simp]: "group_entry_ok name (new_group d name interval)"
  by (simp add: group_entry_ok_def new_group_def Let_def neu_group_new_def group_ok_def
      split: prod.split)

lemma driver_ok_add_group:
  "driver_ok d \<Longrightarrow> driver_ok (snd (neu_adapter_driver_add_group d name interval))"
  by (auto simp: neu_adapter_driver_add_group_def Let_def driver_okD intro!: groups_ok_add
      split: option.split)

lemma group_entry_ok_rename:
  "group_entry_ok k gr \<Longrightarrow>
    group_entry_ok n (gr\<lparr>gr_group := (gr_group gr)\<lparr>gname := n\<rparr>, gr_name := n, gr_grp_name := m\<rparr>)"
  by (simp add: group_entry_ok_def)

lemma group_entry_ok_interval [simp]:
  "group_entry_ok k (gr\<lparr>gr_group := neu_group_set_interval (gr_group gr) i\<rparr>) = group_entry_ok k gr"
  by (simp add: group_entry_ok_def neu_group_set_interval_def)

lemma rename_group_eq:
  "rename_group d name gr n =
     (let gr' = gr\<lparr>gr_group := (gr_group gr)\<lparr>gname := n\<rparr>, gr_name := n, gr_grp_name := n\<rparr>
      in (gr', emit [Out_rename_group_metrics name n]
                 (d\<lparr>d_groups := hash_add (hash_del (d_groups d) name) n gr'\<rparr>)))"
  by (simp add: rename_group_def neu_group_set_name_def)

lemma driver_ok_update_group:
  assumes "driver_ok d"
  shows "driver_ok (snd (neu_adapter_driver_update_group d name new_name interval))"
proof (cases "hash_find (d_groups d) name")
  case (Some gr)
  with assms have entry: "group_entry_ok name gr" by (auto dest: driver_okD groups_okD)
  show ?thesis
    using assms Some entry
    by (auto simp: neu_adapter_driver_update_group_def Let_def rename_group_eq driver_okD
        groups_ok_del hash_keys_del in_set_remove1 neu_group_set_interval_def
        group_entry_ok_def start_timers_def
        intro!: groups_ok_add driver_ok_set_group split: option.split)
qed (use assms in \<open>simp add: neu_adapter_driver_update_group_def del: hash_find_None\<close>)

lemma driver_ok_del_group:
  assumes "neu_adapter_driver_del_group intf d name = Some (r, d')" "driver_ok d"
  shows "driver_ok d'"
proof (cases "hash_find (d_groups d) name")
  case (Some gr)
  define d2 where "d2 = snd (neu_adapter_driver_try_del_tag intf
    (d\<lparr>d_groups := hash_del (d_groups d) name\<rparr>) (unat (neu_group_tag_size (gr_group gr))))"
  have d2: "driver_ok d2" using assms(2) by (simp add: d2_def driver_okD groups_ok_del)
  from assms(1) Some obtain c1 c2 where
    "cache_del_tags name (gr_static_tags gr) (d_cache d2) = Some c1"
    "cache_del_tags name (gr_grp_tags gr) c1 = Some c2" and
    d': "d' = emit [Out_del_group_metrics name] (d2\<lparr>d_cache := c2\<rparr>)"
    by (auto simp: neu_adapter_driver_del_group_def Let_def d2_def case_prod_beta split: bind_splits)
  with d2 have "hash_wf c2" by (auto dest!: hash_wf_cache_del_tags dest: driver_okD)
  with d2 show ?thesis by (simp add: d' driver_okD)
qed (use assms in \<open>simp add: neu_adapter_driver_del_group_def del: hash_find_None\<close>)

lemma driver_ok_uninit_groups:
  "driver_ok d \<Longrightarrow> driver_ok (uninit_groups intf grs d)"
  by (induction grs arbitrary: d) (simp_all add: driver_okD groups_ok_del)

lemma driver_ok_validate:
  assumes "driver_ok d"
  shows "plugin_validate intf d tag = (r, tag', d') \<Longrightarrow> driver_ok d'"
    and "neu_adapter_driver_validate_tag intf d tag = (r, tag', d') \<Longrightarrow> driver_ok d'"
proof -
  show plugin: "driver_ok d'" if "plugin_validate intf d tag = (r, tag', d')" for r tag' d'
    using that assms by (auto simp: plugin_validate_def split: if_splits prod.splits)
  show "driver_ok d'" if "neu_adapter_driver_validate_tag intf d tag = (r, tag', d')"
    using that assms
    by (auto simp: neu_adapter_driver_validate_tag_def dest: plugin split: if_splits prod.splits)
qed

lemma driver_ok_add_tag:
  assumes "neu_adapter_driver_add_tag us d g tag = Some (r, d')" "driver_ok d"
  shows "driver_ok d'"
proof -
  define d1 where "d1 = (if hash_find (d_groups d) g = None
    then snd (neu_adapter_driver_add_group d g 3000) else d)"
  have d1: "driver_ok d1" using assms(2) by (simp add: d1_def driver_ok_add_group)
  obtain gr where gr: "hash_find (d_groups d1) g = Some gr"
    using assms(1) by (auto simp: neu_adapter_driver_add_tag_def Let_def d1_def split: option.splits)
  obtain r' g' where add: "neu_group_add_tag us (gr_group gr) (parse_option tag) = (r', g')"
    by fastforce
  have "d' = (if r' = NEU_ERR_SUCCESS
      then emit [Out_metric ''tags_total'' (d_tag_cnt d1 + 1) None,
                 Out_group_metric g ''group_tags_total'' (ucast (neu_group_tag_size g'))]
             ((set_group (gr\<lparr>gr_group := g'\<rparr>) d1)\<lparr>d_tag_cnt := d_tag_cnt d1 + 1\<rparr>)
      else set_group (gr\<lparr>gr_group := g'\<rparr>) d1)"
    using assms(1) unfolding neu_adapter_driver_add_tag_def Let_def d1_def [symmetric]
    by (auto simp: gr add)
  with driver_ok_tag_ops(1) [OF d1 gr add] show ?thesis by simp
qed

lemma driver_ok_del_tag:
  assumes "driver_ok d"
  shows "driver_ok (snd (neu_adapter_driver_del_tag intf us d g tag))"
proof (cases "hash_find (d_groups d) g")
  case (Some gr)
  obtain r g' where del: "neu_group_del_tag us (gr_group gr) tag = (r, g')" by fastforce
  note driver_ok_tag_ops(3) [OF assms Some del]
  with Some del driver_ok_intf_tags(3) [of intf "set_group (gr\<lparr>gr_group := g'\<rparr>) d" 1] show ?thesis
    by (auto simp: neu_adapter_driver_del_tag_def Let_def case_prod_beta simp del: driver_ok_intf_tags)
qed (use assms in \<open>simp add: neu_adapter_driver_del_tag_def del: hash_find_None\<close>)

lemma driver_ok_update_tag:
  assumes "driver_ok d"
  shows "driver_ok (snd (neu_adapter_driver_update_tag intf us d g tag))"
proof -
  obtain r tag' d1 where v: "plugin_validate intf d tag = (r, tag', d1)" by (metis prod_cases3)
  with assms have d1: "driver_ok d1" by (rule driver_ok_validate(1))
  show ?thesis
    using assms v d1
    by (auto simp: neu_adapter_driver_update_tag_def split: option.splits prod.splits
        intro: driver_ok_tag_ops(2))
qed

lemma driver_ok_report_callback:
  "report_callback now d name = Some d' \<Longrightarrow> driver_ok d \<Longrightarrow> driver_ok d'"
  using driver_okD [of d]
  by (auto simp: report_callback_def Let_def split: option.splits if_splits bind_splits
      dest!: hash_wf_report_group)

lemma driver_ok_write_all:
  "write_all intf pw now wts d = Some d' \<Longrightarrow> driver_ok d \<Longrightarrow> driver_ok d'"
proof (induction wts arbitrary: d)
  case (Cons w wts)
  have events: "driver_ok d1" if "plugin_events pw now es (d\<lparr>d_plugin := p\<rparr>) = Some d1" for es p d1
    using driver_ok_plugin_events [OF that] Cons.prems(2) by simp
  show ?case
    using Cons.prems(1)
    by (cases w) (auto split: option.splits prod.splits bind_splits dest: events Cons.IH)
qed simp

lemma driver_ok_clear_writes: "driver_ok d \<Longrightarrow> driver_ok (clear_writes name d)"
  using find_group_ok [of d name]
  by (auto simp: clear_writes_def intro!: driver_ok_set_same split: option.split)

lemma driver_ok_write_callback:
  "write_callback intf pw now d name = Some d' \<Longrightarrow> driver_ok d \<Longrightarrow> driver_ok d'"
  by (auto simp: write_callback_def driver_ok_clear_writes driver_ok_write_all
      split: option.splits if_splits bind_splits)

lemma group_change_entry:
  assumes "group_change ts sts oth i (gr, c) = Some (gr', c')"
  shows "gr_name gr' = gr_name gr" "gr_group gr' = gr_group gr" "hash_wf c \<Longrightarrow> hash_wf c'"
    "gr_timestamp gr' = ts" "gr_static_tags gr' = sts" "gr_grp_tags gr' = oth"
    "gr_grp_name gr' = gr_name gr" "gr_wt_tags gr' = gr_wt_tags gr"
  using assms
  by (auto simp: group_change_def Let_def hash_wf_cache_add_tags split: bind_splits
      dest!: hash_wf_cache_del_tags)

lemma refresh_group_change:
  assumes "refresh_group d gr = Some d'" "neu_group_is_change (gr_group gr) (gr_timestamp gr)"
  obtains gr' c where
    "group_change (gtimestamp (gr_group gr)) (fst (split_static_array (gtags (gr_group gr))))
       (snd (split_static_array (gtags (gr_group gr)))) (ginterval (gr_group gr)) (gr, d_cache d)
     = Some (gr', c)"
    "d' = set_group gr' (d\<lparr>d_cache := c\<rparr>)"
  using assms
  by (auto simp: refresh_group_def neu_group_change_test_def neu_group_is_change_def
      case_prod_beta split: bind_splits)

lemma driver_ok_refresh:
  assumes "refresh_group d gr = Some d'" "driver_ok d" "find_group d name = Some gr"
  shows "driver_ok d'"
proof (cases "neu_group_is_change (gr_group gr) (gr_timestamp gr)")
  case True
  with assms(1) obtain gr' c where
    ch: "group_change (gtimestamp (gr_group gr)) (fst (split_static_array (gtags (gr_group gr))))
       (snd (split_static_array (gtags (gr_group gr)))) (ginterval (gr_group gr)) (gr, d_cache d)
     = Some (gr', c)" and d': "d' = set_group gr' (d\<lparr>d_cache := c\<rparr>)"
    by (rule refresh_group_change)
  from find_group_ok [OF assms(2,3)] group_change_entry [OF ch] have "group_entry_ok name gr'"
    by (simp add: group_entry_ok_def)
  with assms(2) group_change_entry(3) [OF ch] show ?thesis
    by (auto simp: d' driver_okD intro!: driver_ok_set_same)
next
  case False
  with assms(1,2) show ?thesis by (simp add: refresh_group_def)
qed

lemma driver_ok_read_callback:
  assumes "read_callback intf pw now later d name = Some d'" "driver_ok d"
  shows "driver_ok d'"
  using assms
  by (auto simp: read_callback_def Let_def case_prod_beta split: option.splits if_splits bind_splits
      dest!: driver_ok_refresh driver_ok_plugin_events)

section \<open>Runs of a driver\<close>

text \<open>
  One step: a request of the manager, a change of the adapter's state, a timer callback, or
  a report of the plugin from one of its own threads.
\<close>

inductive driver_step ::
  "'p driver_intf \<Rightarrow> (u8 \<Rightarrow> u64) \<Rightarrow> 'p driver \<Rightarrow> 'p driver \<Rightarrow> bool" for intf pw where
  step_add_group: "driver_step intf pw d (snd (neu_adapter_driver_add_group d name interval))"
| step_update_group:
    "driver_step intf pw d (snd (neu_adapter_driver_update_group d name new_name interval))"
| step_del_group:
    "neu_adapter_driver_del_group intf d name = Some (r, d') \<Longrightarrow> driver_step intf pw d d'"
| step_validate_tag:
    "neu_adapter_driver_validate_tag intf d tag = (r, tag', d') \<Longrightarrow> driver_step intf pw d d'"
| step_try_add_tag: "driver_step intf pw d (snd (neu_adapter_driver_try_add_tag intf d g tags))"
| step_load_tag: "driver_step intf pw d (snd (neu_adapter_driver_load_tag intf d g tags))"
| step_try_del_tag: "driver_step intf pw d (snd (neu_adapter_driver_try_del_tag intf d n))"
| step_add_tag: "neu_adapter_driver_add_tag us d g tag = Some (r, d') \<Longrightarrow> driver_step intf pw d d'"
| step_del_tag: "driver_step intf pw d (snd (neu_adapter_driver_del_tag intf us d g name))"
| step_update_tag: "driver_step intf pw d (snd (neu_adapter_driver_update_tag intf us d g tag))"
| step_read_group:
    "neu_adapter_driver_read_group now d req dr g = Some d' \<Longrightarrow> driver_step intf pw d d'"
| step_write_tag:
    "neu_adapter_driver_write_tag pw now us d req g name v = Some d' \<Longrightarrow> driver_step intf pw d d'"
| step_write_tags:
    "neu_adapter_driver_write_tags intf d req g cmds = Some d' \<Longrightarrow> driver_step intf pw d d'"
| step_state: "driver_step intf pw d (d\<lparr>d_state := s\<rparr>)"
| step_start_timers: "driver_step intf pw d (neu_adapter_driver_start_group_timer d)"
| step_stop_timers: "driver_step intf pw d (neu_adapter_driver_stop_group_timer d)"
| step_uninit: "driver_step intf pw d (snd (neu_adapter_driver_uninit intf d))"
| step_report: "report_callback now d name = Some d' \<Longrightarrow> driver_step intf pw d d'"
| step_read: "read_callback intf pw now later d name = Some d' \<Longrightarrow> driver_step intf pw d d'"
| step_write: "write_callback intf pw now d name = Some d' \<Longrightarrow> driver_step intf pw d d'"
| step_plugin: "plugin_event pw now e d = Some d' \<Longrightarrow> driver_step intf pw d d'"

inductive driver_reachable ::
  "'p driver_intf \<Rightarrow> (u8 \<Rightarrow> u64) \<Rightarrow> 'p driver \<Rightarrow> bool" for intf pw where
  reach_create: "driver_reachable intf pw (neu_adapter_driver_create name tt p)"
| reach_step:
    "driver_reachable intf pw d \<Longrightarrow> driver_step intf pw d d' \<Longrightarrow> driver_reachable intf pw d'"

lemma driver_step_ok: "driver_step intf pw d d' \<Longrightarrow> driver_ok d \<Longrightarrow> driver_ok d'"
  by (induction rule: driver_step.induct)
     (auto simp: driver_ok_add_group driver_ok_update_group driver_ok_del_tag driver_ok_update_tag
       driver_ok_timers driver_ok_uninit_groups neu_adapter_driver_uninit_def
       dest: driver_ok_del_group driver_ok_validate(2) driver_ok_add_tag driver_ok_read_group
         driver_ok_write_tag driver_ok_write_tags driver_ok_report_callback
         driver_ok_read_callback driver_ok_write_callback driver_ok_plugin_event)

lemma reachable_ok: "driver_reachable intf pw d \<Longrightarrow> driver_ok d"
  by (induction rule: driver_reachable.induct) (auto dest: driver_step_ok)


section \<open>Properties of the group table\<close>

text \<open>
  C1: Whatever requests, state changes, timer callbacks and plugin reports a driver goes
  through, its group table stays a map: no two groups share a name, every group is filed
  under the name it carries (in the driver and in its tag group), and inside a group every
  tag is filed under its own name, once.
\<close>

theorem driver_table_invariant:
  assumes "driver_reachable intf pw d"
  shows "distinct (hash_keys (d_groups d)) \<and>
    (\<forall>name gr. find_group d name = Some gr \<longrightarrow>
       gr_name gr = name \<and> neu_group_get_name (gr_group gr) = name \<and>
       distinct (hash_keys (gtags (gr_group gr))) \<and>
       (\<forall>k tag. neu_group_find_tag (gr_group gr) k = Some tag \<longrightarrow> tname tag = k))"
proof -
  have ok: "driver_ok d" using assms by (rule reachable_ok)
  have "gr_name gr = name \<and> neu_group_get_name (gr_group gr) = name \<and>
       distinct (hash_keys (gtags (gr_group gr))) \<and>
       (\<forall>k tag. neu_group_find_tag (gr_group gr) k = Some tag \<longrightarrow> tname tag = k)"
    if "find_group d name = Some gr" for name gr
    using find_group_ok [OF ok that] unfolding group_entry_ok_def
    by (auto simp: neu_group_get_name_def neu_group_find_tag_def
        dest: group_okD group_ok_wf simp flip: hash_wf_def)
  with ok show ?thesis by (auto simp flip: hash_wf_def simp: driver_okD)
qed

definition demo_intf :: "unit driver_intf" where
  "demo_intf =
     \<lparr>i_validate_tag = (\<lambda>p t. (0, t, p)), i_add_tags = None, i_load_tags = None, i_del_tags = None,
      i_write_tag = (\<lambda>p req t v. (p, [PE_write_response req 0])),
      i_write_tags = Some (\<lambda>p req tvs. (p, [])), i_group_timer = (\<lambda>p g ts. (p, []))\<rparr>"

definition demo_driver :: "unit driver" where
  "demo_driver = snd (neu_adapter_driver_add_group
     (neu_adapter_driver_create ''drv'' NEU_EVENT_TIMER_BLOCK ()) ''grp'' 1000)"

lemma demo_driver_reachable: "driver_reachable demo_intf pw demo_driver"
  unfolding demo_driver_def by (rule reach_step [OF reach_create step_add_group])

lemma demo_driver_groups:
  "d_groups demo_driver = [(''grp'', new_group demo_driver ''grp'' 1000)]"
  by (simp add: demo_driver_def neu_adapter_driver_add_group_def neu_adapter_driver_create_def
      hash_find_def Let_def hash_add_def new_group_def case_prod_beta)

lemma driver_table_invariant_witness:
  "find_group demo_driver ''grp'' = Some (new_group demo_driver ''grp'' 1000) \<and>
   gr_name (new_group demo_driver ''grp'' 1000) = ''grp''"
  using driver_table_invariant [OF demo_driver_reachable]
  by (simp add: find_group_def demo_driver_groups hash_find_def)

text \<open>A group after an update to the name \<open>n\<close> and the interval \<open>i\<close>.\<close>

definition updated_group :: "'p driver \<Rightarrow> group_t \<Rightarrow> string \<Rightarrow> u32 \<Rightarrow> group_t" where
  "updated_group d gr n i =
     gr\<lparr>gr_name := n, gr_group := (gr_group gr)\<lparr>gname := n, ginterval := i\<rparr>,
        gr_grp_name := (if n = gr_name gr then gr_grp_name gr else n),
        gr_report := Some (group_timer_param report_cb NEU_EVENT_TIMER_NOBLOCK i),
        gr_read := Some (group_timer_param read_cb (d_timer_type d) i)\<rparr>"

definition updated_interval :: "group_t \<Rightarrow> u32 \<Rightarrow> u32" where
  "updated_interval gr interval = (if interval < 100 then ginterval (gr_group gr) else interval)"

lemma updated_group_eq:
  assumes "group_entry_ok name gr"
  shows "start_timers d i (gr\<lparr>gr_group := neu_group_set_interval (gr_group gr) i\<rparr>)
      = updated_group d gr name i"
    and "n \<noteq> name \<Longrightarrow> start_timers d i (gr\<lparr>gr_name := n, gr_grp_name := n, gr_group :=
        neu_group_set_interval ((gr_group gr)\<lparr>gname := n\<rparr>) i\<rparr>) = updated_group d gr n i"
  using assms unfolding updated_group_def start_timers_def neu_group_set_interval_def
    group_entry_ok_def by (cases gr; cases "gr_group gr"; simp)+

lemma update_group_same:
  assumes "driver_ok d" "find_group d name = Some gr"
    "neu_adapter_driver_update_group d name new_name interval = (r, d')"
    "new_name = None \<or> (new_name = Some name \<and> name \<noteq> [])"
  shows "r = 0 \<and> d_cache d' = d_cache d \<and>
    find_group d' = (find_group d)(name \<mapsto> updated_group d gr name (updated_interval gr interval))"
proof -
  let ?G = "updated_group d gr name (updated_interval gr interval)"
  have gr: "hash_find (d_groups d) name = Some gr" using assms(2) by (simp add: find_group_def)
  have entry: "group_entry_ok name gr" using assms(1,2) by (rule find_group_ok)
  have "r = 0 \<and> d' = set_group ?G d"
    using assms(3,4) gr
    by (auto simp: neu_adapter_driver_update_group_def Let_def updated_interval_def
        neu_group_get_interval_def NEU_GROUP_INTERVAL_LIMIT_def
        updated_group_eq [OF entry, symmetric])
  moreover have "gr_name ?G = name" by (simp add: updated_group_def)
  ultimately show ?thesis
    using hash_find_Some_key [OF gr]
    by (simp add: find_group_def set_group_def fun_eq_iff hash_find_set)
qed

lemma update_group_renamed:
  assumes "driver_ok d" "find_group d name = Some gr"
    "neu_adapter_driver_update_group d name (Some n) interval = (r, d')"
    "n \<noteq> []" "n \<noteq> name" "find_group d n = None"
  shows "r = 0 \<and> d_cache d' = d_cache d \<and> find_group d' =
    (find_group d)(name := None, n \<mapsto> updated_group d gr n (updated_interval gr interval))"
proof -
  let ?G = "updated_group d gr n (updated_interval gr interval)"
  define t where "t = hash_del (d_groups d) name"
  define gr1 where
    "gr1 = gr\<lparr>gr_group := (gr_group gr)\<lparr>gname := n\<rparr>, gr_name := n, gr_grp_name := n\<rparr>"
  define d1 where "d1 = emit [Out_rename_group_metrics name n] (d\<lparr>d_groups := hash_add t n gr1\<rparr>)"
  have gr: "hash_find (d_groups d) name = Some gr" using assms(2) by (simp add: find_group_def)
  have n: "n \<notin> set (hash_keys (d_groups d))" using assms(6) by (simp add: find_group_def)
  then have t: "n \<notin> set (hash_keys t)" using assms(5) by (simp add: t_def hash_keys_del in_set_remove1)
  have "r = 0 \<and> d' = set_group ?G d1"
    using assms(3,4,5) gr n
    by (auto simp: neu_adapter_driver_update_group_def Let_def rename_group_eq
        updated_group_eq(2) [OF find_group_ok [OF assms(1,2)] assms(5), symmetric]
        d1_def t_def gr1_def updated_interval_def neu_group_get_interval_def
        NEU_GROUP_INTERVAL_LIMIT_def)
  moreover have "gr_name ?G = n" "d_groups d1 = hash_add t n gr1" "d_cache d1 = d_cache d"
    by (simp_all add: updated_group_def d1_def)
  ultimately have "r = 0 \<and> d_groups d' = hash_set (hash_add t n gr1) n ?G \<and> d_cache d' = d_cache d"
    by (simp add: set_group_def)
  then show ?thesis
    using t driver_okD(1) [OF assms(1)] by (auto simp: find_group_def fun_eq_iff hash_laws t_def)
qed

text \<open>
  C7: Updating a group (\<open>neu_adapter_driver_update_group\<close>) fails without effect for an empty
  new name and for a name another group has.  Otherwise the group is found under the new
  name only, with its tags, pending writes and timestamp, its interval is the new one
  unless that is below 100 ms, both timers run with that interval, and no other group, nor
  the cache, changes.
\<close>

theorem update_group_effect:
  assumes "driver_ok d" "find_group d name = Some gr"
    "neu_adapter_driver_update_group d name new_name interval = (r, d')"
  defines "n \<equiv> (case new_name of None \<Rightarrow> name | Some n \<Rightarrow> n)"
    and "i \<equiv> (if interval < 100 then ginterval (gr_group gr) else interval)"
  shows "r = (if new_name = Some [] then NEU_ERR_EINTERNAL
              else if n \<noteq> name \<and> find_group d n \<noteq> None then NEU_ERR_GROUP_EXIST else 0) \<and>
    (r \<noteq> 0 \<longrightarrow> d' = d) \<and>
    (r = 0 \<longrightarrow>
       find_group d' = (find_group d)(name := None, n \<mapsto>
         gr\<lparr>gr_name := n, gr_group := (gr_group gr)\<lparr>gname := n, ginterval := i\<rparr>,
            gr_grp_name := (if n = name then gr_grp_name gr else n),
            gr_report := Some (group_timer_param report_cb NEU_EVENT_TIMER_NOBLOCK i),
            gr_read := Some (group_timer_param read_cb (d_timer_type d) i)\<rparr>) \<and>
       d_cache d' = d_cache d)"
proof -
  have name: "gr_name gr = name" using assms(1,2) by (rule find_group_name)
  have gr: "hash_find (d_groups d) name = Some gr" using assms(2) by (simp add: find_group_def)
  consider (empty) "new_name = Some []"
    | (used) "new_name = Some n" "n \<noteq> []" "n \<noteq> name" "find_group d n \<noteq> None"
    | (same) "new_name = None \<or> (new_name = Some name \<and> name \<noteq> [])" "n = name"
    | (rename) "new_name = Some n" "n \<noteq> []" "n \<noteq> name" "find_group d n = None"
    unfolding n_def by (cases new_name) auto
  then show ?thesis
  proof cases
    case empty
    with assms(3) gr show ?thesis by (simp add: neu_adapter_driver_update_group_def)
  next
    case used
    with assms(3) gr show ?thesis
      by (simp add: neu_adapter_driver_update_group_def find_group_def)
  next
    case same
    from update_group_same [OF assms(1-3) same(1)] same show ?thesis
      by (auto simp: updated_group_def updated_interval_def i_def name)
  next
    case rename
    note eff = update_group_renamed [OF assms(1,2) _ rename(2-4), of interval r d']
    from eff rename assms(3) show ?thesis
      by (simp add: updated_group_def updated_interval_def i_def name)
  qed
qed

lemma update_group_effect_witness:
  "\<exists>d'. neu_adapter_driver_update_group demo_driver ''grp'' (Some ''new'') 50 = (0, d') \<and>
    map_option (\<lambda>gr. ginterval (gr_group gr)) (find_group d' ''new'') = Some 1000"
proof -
  have gr: "find_group demo_driver ''grp'' = Some (new_group demo_driver ''grp'' 1000)"
    "find_group demo_driver ''new'' = None"
    by (simp_all add: find_group_def demo_driver_groups hash_find_def)
  obtain r d' where u: "neu_adapter_driver_update_group demo_driver ''grp'' (Some ''new'') 50 = (r, d')"
    by fastforce
  from update_group_effect [OF reachable_ok [OF demo_driver_reachable] gr(1) u] gr(2)
  show ?thesis
    by (simp add: u new_group_def case_prod_beta neu_group_new_def Let_def)
qed


section \<open>Requests are answered\<close>

definition queued :: "'p driver \<Rightarrow> string \<Rightarrow> to_be_write_tag_t list" where
  "queued d name = (case find_group d name of None \<Rightarrow> [] | Some gr \<Rightarrow> gr_wt_tags gr)"

lemma queued_emit [simp]: "queued (emit os d) = queued d"
  by (simp add: queued_def fun_eq_iff)

lemma find_group_set_group:
  assumes "find_group d (gr_name gr') \<noteq> None"
  shows "find_group (set_group gr' d) = (find_group d)(gr_name gr' \<mapsto> gr')"
  using assms by (simp add: find_group_def set_group_def fun_eq_iff hash_find_set)

lemma queued_store_write:
  assumes "driver_ok d" "find_group d name = Some gr"
  shows "queued (store_write_tag gr w d) = (queued d)(name := queued d name @ [w])"
    and "d_out (store_write_tag gr w d) = d_out d"
  using assms find_group_name [OF assms]
  by (auto simp: store_write_tag_def queued_def fun_eq_iff find_group_set_group)

lemma queued_set_group:
  assumes "driver_ok d" "find_group d name = Some gr" "gr_wt_tags gr' = gr_wt_tags gr"
    "gr_name gr' = gr_name gr"
  shows "queued (set_group gr' d) = queued d"
  using assms find_group_name [OF assms(1,2)]
  by (auto simp: queued_def fun_eq_iff find_group_set_group)

lemma find_tag_name:
  assumes "driver_ok d" "find_group d name = Some gr" "neu_group_find_tag (gr_group gr) k = Some t"
  shows "tname t = k"
  using find_group_ok [OF assms(1,2)] assms(3)
  by (auto simp: group_entry_ok_def neu_group_find_tag_def dest: group_okD)

lemma queued_cache [simp]:
  "queued (d\<lparr>d_cache := c\<rparr>) = queued d" "queued (d\<lparr>d_plugin := p\<rparr>) = queued d"
  by (simp_all add: queued_def find_group_def fun_eq_iff)

text \<open>
  C3: A write of one tag (\<open>neu_adapter_driver_write_tag\<close>) has exactly one of two ends: an
  answer that carries the request, every queue as it was; or, for a running driver, an
  entry at the end of the queue of its group and nothing sent, the tag being writable and
  not STATIC and the value the one \<open>written_value\<close> makes for it.
\<close>

theorem write_tag_queued_or_answered:
  assumes "driver_ok d"
    and "neu_adapter_driver_write_tag pw now us d req name tag v = Some d'"
  shows "(\<exists>r. d_out d' = d_out d @ [Out_response (Some req) (R_error r)] \<and> queued d' = queued d) \<or>
    (\<exists>gr t v'. d_out d' = d_out d \<and> d_state d = NEU_NODE_RUNNING_STATE_RUNNING \<and>
       find_group d name = Some gr \<and> neu_group_find_tag (gr_group gr) tag = Some t \<and> tname t = tag \<and>
       neu_tag_attribute_test t NEU_ATTRIBUTE_WRITE \<and>
       \<not> neu_tag_attribute_test t NEU_ATTRIBUTE_STATIC \<and>
       written_value t (int_to_double_value t v) = Some v' \<and>
       queued d' = (queued d)(name := queued d name @ [WT_single req (neu_tag_dup t) (dvalue v')]))"
proof (cases "find_group d name")
  case None
  with assms(2) show ?thesis
    by (auto simp: neu_adapter_driver_write_tag_def write_response_def split: if_splits)
next
  case (Some gr)
  note group = Some
  show ?thesis
  proof (cases "d_state d = NEU_NODE_RUNNING_STATE_RUNNING \<and>
      (\<exists>t. neu_group_find_tag (gr_group gr) tag = Some t \<and>
         attribute t AND NEU_ATTRIBUTE_WRITE = NEU_ATTRIBUTE_WRITE)")
    case False
    with assms(2) Some show ?thesis
      by (auto simp: neu_adapter_driver_write_tag_def write_response_def
          split: if_splits option.splits)
  next
    case True
    then obtain t where run: "d_state d = NEU_NODE_RUNNING_STATE_RUNNING"
      and t: "neu_group_find_tag (gr_group gr) tag = Some t"
        "neu_tag_attribute_test t NEU_ATTRIBUTE_WRITE"
      by (auto simp: neu_tag_attribute_test_def)
    show ?thesis
    proof (cases "neu_tag_attribute_test t NEU_ATTRIBUTE_STATIC")
      case True
      have q: "queued (set_group (gr\<lparr>gr_group := g'\<rparr>) (d\<lparr>d_cache := c\<rparr>)) = queued d" for g' c
        using queued_set_group [OF assms(1) group, of "gr\<lparr>gr_group := g'\<rparr>"]
        by (simp add: queued_def set_group_def find_group_def fun_eq_iff)
      from True assms(2) run t group show ?thesis
        by (auto simp: neu_adapter_driver_write_tag_def neu_tag_attribute_test_def Let_def q
            split: bind_splits prod.splits)
    next
      case False
      then obtain v' where "written_value t (int_to_double_value t v) = Some v'"
        "d' = store_write_tag gr (WT_single req (neu_tag_dup t) (dvalue v')) d"
        using assms(2) run t group
        by (auto simp: neu_adapter_driver_write_tag_def neu_tag_attribute_test_def split: bind_splits)
      with False run t group find_tag_name [OF assms(1) group t(1)] queued_store_write [OF assms(1) group]
      show ?thesis by auto
    qed
  qed
qed

lemma write_tags_loop_names:
  assumes "write_tags_loop g cmds = Some tvs" "group_ok g"
  shows "length tvs \<le> length cmds \<and>
    (length tvs = length cmds \<longrightarrow>
       list_all2 (\<lambda>(t, v) (name, w). tname t = name \<and>
         neu_tag_attribute_test t NEU_ATTRIBUTE_WRITE \<and>
         \<not> neu_tag_attribute_test t NEU_ATTRIBUTE_STATIC \<and>
         (\<exists>v'. written_value t w = Some v' \<and> v = dvalue v')) tvs cmds)"
  using assms
proof (induction cmds arbitrary: tvs)
  case (Cons c cmds)
  obtain name w where c: "c = (name, w)" by (cases c)
  show ?case
  proof (cases "\<exists>t. neu_group_find_tag g name = Some t \<and>
      neu_tag_attribute_test t NEU_ATTRIBUTE_WRITE \<and> \<not> neu_tag_attribute_test t NEU_ATTRIBUTE_STATIC")
    case True
    then obtain t v tvs' where t: "neu_group_find_tag g name = Some t"
      "neu_tag_attribute_test t NEU_ATTRIBUTE_WRITE" "\<not> neu_tag_attribute_test t NEU_ATTRIBUTE_STATIC"
      "written_value t w = Some v" "write_tags_loop g cmds = Some tvs'"
      "tvs = (neu_tag_dup t, dvalue v) # tvs'"
      using Cons.prems(1) by (auto simp: c split: bind_splits)
    moreover have "tname t = name" "neu_tag_dup t = t"
      using t(1) Cons.prems(2)
      by (auto simp: neu_group_find_tag_def neu_tag_dup_id dest: group_okD)
    ultimately show ?thesis using Cons.IH [OF t(5) Cons.prems(2)] by (auto simp: c)
  next
    case False
    then have "write_tags_loop g cmds = Some tvs"
      using Cons.prems(1) by (auto simp: c split: option.splits if_splits)
    from Cons.IH [OF this Cons.prems(2)] show ?thesis by auto
  qed
qed simp

text \<open>
  C4: A write of several tags (\<open>neu_adapter_driver_write_tags\<close>) is all or nothing: either it is
  answered with an error and no queue changes, or nothing is sent and one entry is queued
  that holds every tag of the request, in its order, each writable and not STATIC, with
  the value made for it.
\<close>

theorem write_tags_all_or_nothing:
  assumes "driver_ok d"
    and "neu_adapter_driver_write_tags intf d req name cmds = Some d'"
  shows "(\<exists>r. r \<noteq> 0 \<and> d_out d' = d_out d @ [Out_response (Some req) (R_error r)] \<and>
       queued d' = queued d) \<or>
    (\<exists>tvs. d_out d' = d_out d \<and> d_state d = NEU_NODE_RUNNING_STATE_RUNNING \<and>
       queued d' = (queued d)(name := queued d name @ [WT_multi req tvs]) \<and>
       list_all2 (\<lambda>(t, v) (k, w). tname t = k \<and> neu_tag_attribute_test t NEU_ATTRIBUTE_WRITE \<and>
         \<not> neu_tag_attribute_test t NEU_ATTRIBUTE_STATIC \<and>
         (\<exists>v'. written_value t w = Some v' \<and> v = dvalue v')) tvs cmds)"
proof (cases "find_group d name")
  case None
  with assms(2) show ?thesis
    by (auto simp: neu_adapter_driver_write_tags_def write_response_def split: if_splits)
next
  case (Some gr)
  then have ok: "group_ok (gr_group gr)"
    using find_group_ok [OF assms(1)] by (auto simp: group_entry_ok_def)
  have cases: "d' = (if d_state d \<noteq> NEU_NODE_RUNNING_STATE_RUNNING
        then emit [Out_response (Some req) (R_error NEU_ERR_PLUGIN_NOT_RUNNING)] d
      else if i_write_tags intf = None
        then emit [Out_response (Some req) (R_error NEU_ERR_PLUGIN_NOT_SUPPORT_WRITE_TAGS)] d
      else if length (the (write_tags_loop (gr_group gr) cmds)) \<noteq> length cmds
        then emit [Out_response (Some req) (R_error NEU_ERR_TAG_NOT_EXIST)] d
      else store_write_tag gr (WT_multi req (the (write_tags_loop (gr_group gr) cmds))) d)"
    and defined: "d_state d = NEU_NODE_RUNNING_STATE_RUNNING \<Longrightarrow> i_write_tags intf \<noteq> None \<Longrightarrow>
      write_tags_loop (gr_group gr) cmds \<noteq> None"
    using assms(2) Some
    by (auto simp: neu_adapter_driver_write_tags_def write_response_def
        split: if_splits bind_splits)
  consider (error) r where "r \<noteq> 0" "d' = emit [Out_response (Some req) (R_error r)] d"
    | (queue) tvs where "d_state d = NEU_NODE_RUNNING_STATE_RUNNING"
        "write_tags_loop (gr_group gr) cmds = Some tvs" "length tvs = length cmds"
        "d' = store_write_tag gr (WT_multi req tvs) d"
  proof (cases "d_state d = NEU_NODE_RUNNING_STATE_RUNNING \<and> i_write_tags intf \<noteq> None \<and>
      length (the (write_tags_loop (gr_group gr) cmds)) = length cmds")
    case True
    with cases defined show thesis by (intro queue) auto
  next
    case False
    then show thesis
      by (intro error [of "if d_state d \<noteq> NEU_NODE_RUNNING_STATE_RUNNING then NEU_ERR_PLUGIN_NOT_RUNNING
            else if i_write_tags intf = None then NEU_ERR_PLUGIN_NOT_SUPPORT_WRITE_TAGS
            else NEU_ERR_TAG_NOT_EXIST"]) (auto simp: cases)
  qed
  then show ?thesis
  proof cases
    case error
    then show ?thesis by auto
  next
    case queue
    with write_tags_loop_names [OF queue(2) ok] queued_store_write [OF assms(1) Some]
    show ?thesis by auto
  qed
qed

text \<open>What the plugin makes of one queued write.\<close>

fun give_write ::
  "'p driver_intf \<Rightarrow> 'p \<Rightarrow> to_be_write_tag_t \<Rightarrow> 'p \<times> plugin_event list" where
  "give_write intf p (WT_single req t v) = i_write_tag intf p req t v"
| "give_write intf p (WT_multi req tvs) =
     (case i_write_tags intf of None \<Rightarrow> (p, []) | Some f \<Rightarrow> f p req tvs)"

fun give_writes ::
  "'p driver_intf \<Rightarrow> 'p \<Rightarrow> to_be_write_tag_t list \<Rightarrow> 'p \<times> plugin_event list" where
  "give_writes intf p [] = (p, [])"
| "give_writes intf p (w # ws) =
     (let (p1, es) = give_write intf p w; (p2, es') = give_writes intf p1 ws in (p2, es @ es'))"

lemma plugin_events_append:
  "plugin_events pw now (es @ es') d =
     Option.bind (plugin_events pw now es d) (plugin_events pw now es')"
  by (induction es arbitrary: d) (simp_all split: bind_split)

lemma update_with_meta_keeps:
  assumes "update_with_meta pw now d g tag v ms = Some d'"
  shows "d_plugin d' = d_plugin d \<and> d_groups d' = d_groups d \<and> d_state d' = d_state d \<and>
    update_with_meta pw now (d\<lparr>d_plugin := p\<rparr>) g tag v ms = Some (d'\<lparr>d_plugin := p\<rparr>)"
  using assms unfolding update_with_meta_def Let_def emit_def find_group_def
  by (cases d) (auto split: option.splits bind_splits if_splits simp del: hash_find_None)

lemma update_im_keeps:
  assumes "update_im pw now d g tag v ms = Some d'"
  shows "d_plugin d' = d_plugin d \<and> d_groups d' = d_groups d \<and> d_state d' = d_state d \<and>
    update_im pw now (d\<lparr>d_plugin := p\<rparr>) g tag v ms = Some (d'\<lparr>d_plugin := p\<rparr>)"
proof -
  have ptag: "neu_adapter_driver_get_ptag (d\<lparr>d_plugin := p\<rparr>) = neu_adapter_driver_get_ptag d"
    by (simp add: fun_eq_iff neu_adapter_driver_get_ptag_def find_group_def)
  show ?thesis
  proof (cases "tag = None \<or> dtype v = NEU_TYPE_ERROR \<or>
      neu_adapter_driver_get_ptag d g (the tag) = None")
    case True
    then have "update_im pw now d g tag v ms = Some d"
      "update_im pw now (d\<lparr>d_plugin := p\<rparr>) g tag v ms = Some (d\<lparr>d_plugin := p\<rparr>)"
      by (auto simp: update_im_def ptag split: option.split)
    with assms show ?thesis by simp
  next
    case False
    then obtain t tags where t: "tag = Some t" "dtype v \<noteq> NEU_TYPE_ERROR"
      "neu_adapter_driver_get_ptag d g t = Some tags" by (cases tag) auto
    with assms obtain c where
      c: "neu_driver_cache_update_change pw (d_cache d) g t now v ms True = Some c"
      by (auto simp: update_im_def split: bind_splits)
    let ?d1 = "emit [Out_metric ''tag_reads_total'' 1 None] (d\<lparr>d_cache := c\<rparr>)"
    note step = update_im_def t c ptag Let_def
    show ?thesis
    proof (cases "neu_tag_attribute_test (hd tags) NEU_ATTRIBUTE_SUBSCRIBE")
      case False
      with assms have "d' = ?d1" by (simp add: step)
      with False show ?thesis by (simp add: step emit_def)
    next
      case True
      with assms obtain datas c' where r: "read_report_group now 0 c g tags = Some (datas, c')"
        by (auto simp: step split: bind_splits)
      with True assms have "d' = (if 0 < length datas
          then emit [Out_response None (R_trans_data (d_name d) g datas)] (?d1\<lparr>d_cache := c'\<rparr>)
          else ?d1\<lparr>d_cache := c'\<rparr>)" by (simp add: step split: if_splits)
      with True r show ?thesis by (simp add: step emit_def)
    qed
  qed
qed

lemma plugin_event_keeps:
  assumes "plugin_event pw now e d = Some d'"
  shows "d_plugin d' = d_plugin d \<and> d_groups d' = d_groups d \<and> d_state d' = d_state d \<and>
    plugin_event pw now e (d\<lparr>d_plugin := p\<rparr>) = Some (d'\<lparr>d_plugin := p\<rparr>)"
  using assms update_with_meta_keeps [of pw now d] update_im_keeps [of pw now d]
  by (cases e) (auto simp: plugin_event_def write_response_def emit_def)

lemma plugin_events_keeps:
  assumes "plugin_events pw now es d = Some d'"
  shows "d_plugin d' = d_plugin d \<and> d_groups d' = d_groups d \<and> d_state d' = d_state d \<and>
    plugin_events pw now es (d\<lparr>d_plugin := p\<rparr>) = Some (d'\<lparr>d_plugin := p\<rparr>)"
  using assms
proof (induction es arbitrary: d)
  case (Cons e es)
  then obtain d1 where e: "plugin_event pw now e d = Some d1" and r: "plugin_events pw now es d1 = Some d'"
    by (auto split: bind_splits)
  from plugin_event_keeps [OF e, of p] Cons.IH [OF r] show ?case by simp
qed simp

lemma write_all_gives:
  assumes "write_all intf pw now ws d = Some d'"
  shows "d_plugin d' = fst (give_writes intf (d_plugin d) ws) \<and> d_groups d' = d_groups d \<and>
    plugin_events pw now (snd (give_writes intf (d_plugin d) ws)) d = Some (d'\<lparr>d_plugin := d_plugin d\<rparr>)"
  using assms
proof (induction ws arbitrary: d)
  case (Cons w ws)
  obtain p1 es where w: "give_write intf (d_plugin d) w = (p1, es)" by fastforce
  with Cons.prems obtain d1 where
    e: "plugin_events pw now es (d\<lparr>d_plugin := p1\<rparr>) = Some d1" and r: "write_all intf pw now ws d1 = Some d'"
    by (cases w) (auto split: bind_splits option.splits prod.splits)
  obtain p2 es2 where ws: "give_writes intf p1 ws = (p2, es2)" by fastforce
  have d1: "d_plugin d1 = p1" "d_groups d1 = d_groups d"
    "plugin_events pw now es d = Some (d1\<lparr>d_plugin := d_plugin d\<rparr>)"
    using plugin_events_keeps [OF e, of "d_plugin d"] by auto
  from Cons.IH [OF r] have IH: "d_plugin d' = p2" "d_groups d' = d_groups d1"
    "plugin_events pw now es2 d1 = Some (d'\<lparr>d_plugin := p1\<rparr>)"
    by (simp_all add: d1 ws)
  show ?case
    using plugin_events_keeps [OF IH(3), of "d_plugin d"] IH(1,2) d1
    by (simp add: w ws plugin_events_append)
qed simp

text \<open>
  C5: When the write timer of a running driver fires (\<open>write_callback\<close>), the plugin gets
  every queued write of the group, each once and in the order of the queue, what the plugin
  reports meanwhile is carried out in that order, and afterwards this queue is empty and
  all others are as before.
\<close>

theorem writes_handed_over_in_order:
  assumes "driver_ok d" "find_group d name = Some gr"
    "d_state d = NEU_NODE_RUNNING_STATE_RUNNING"
    "write_callback intf pw now d name = Some d'"
  shows "d_plugin d' = fst (give_writes intf (d_plugin d) (gr_wt_tags gr)) \<and>
    (\<exists>d1. plugin_events pw now (snd (give_writes intf (d_plugin d) (gr_wt_tags gr))) d = Some d1 \<and>
       d_out d' = d_out d1 \<and> d_cache d' = d_cache d1) \<and>
    queued d' = (queued d)(name := [])"
proof -
  obtain d1 where w: "write_all intf pw now (gr_wt_tags gr) d = Some d1" and
    d': "d' = clear_writes name d1"
    using assms(2-4) by (auto simp: write_callback_def split: bind_splits)
  note gives = write_all_gives [OF w]
  have g: "find_group d1 = find_group d" using gives by (simp add: find_group_def fun_eq_iff)
  have d'_eq: "d' = set_group (gr\<lparr>gr_wt_tags := []\<rparr>) d1"
    by (simp add: d' clear_writes_def g assms(2))
  have "queued d' = (queued d)(name := [])"
    using find_group_name [OF assms(1,2)] assms(2)
    by (auto simp: d'_eq queued_def fun_eq_iff find_group_set_group g)
  with gives show ?thesis by (auto simp: d'_eq)
qed

section \<open>Reads\<close>

lemma not_running_names: "map rtag (map not_running_response tags) = map tname tags"
  by (induction tags) (simp_all add: not_running_response_def)

text \<open>
  C6: A read request (\<open>neu_adapter_driver_read_group\<close>) is answered exactly once and changes
  nothing: with \<open>NEU_ERR_GROUP_NOT_EXIST\<close> for an unknown group, and otherwise with one value
  for every readable tag of the group, in order.  A driver that is not running answers
  each with \<open>NEU_ERR_PLUGIN_NOT_RUNNING\<close>; a running one answers a tag the cache does not know
  with \<open>TAG_NOT_READY\<close>, a tag in error with its code, a value that is older than the timeout
  with \<open>TAG_VALUE_EXPIRED\<close> unless the tag is STATIC, and else with the cached type.
\<close>

theorem read_request_answered:
  assumes "cache_ok (d_cache d)"
  shows "\<exists>r. neu_adapter_driver_read_group now d req drv name =
      Some (d\<lparr>d_out := d_out d @ [Out_response (Some req) r]\<rparr>) \<and>
    (case find_group d name of
       None \<Rightarrow> r = R_error NEU_ERR_GROUP_NOT_EXIST
     | Some gr \<Rightarrow> \<exists>datas. r = R_read_group drv name datas \<and>
         map rtag datas = map tname (filter readable (hash_vals (gtags (gr_group gr)))) \<and>
         (if d_state d = NEU_NODE_RUNNING_STATE_RUNNING
          then list_all2 (response_spec now (cache_timeout (gr_group gr)) (d_cache d) name)
                 (neu_group_get_read_tag (gr_group gr)) datas
          else \<forall>x\<in>set datas. rvalue x = error_dvalue NEU_ERR_PLUGIN_NOT_RUNNING))"
proof (cases "find_group d name")
  case None
  then show ?thesis by (simp add: neu_adapter_driver_read_group_def emit_def)
next
  case (Some gr)
  let ?tags = "neu_group_get_read_tag (gr_group gr)"
  have names: "map tname ?tags = map tname (filter readable (hash_vals (gtags (gr_group gr))))"
    by (simp add: neu_group_get_read_tag_def to_read_array_def)
  show ?thesis
  proof (cases "d_state d = NEU_NODE_RUNNING_STATE_RUNNING")
    case True
    obtain rs where rs:
      "read_group now (cache_timeout (gr_group gr)) (d_cache d) name ?tags = Some rs"
      "list_all2 (response_spec now (cache_timeout (gr_group gr)) (d_cache d) name) ?tags rs"
      using read_group_spec [OF assms] by blast
    from rs(2) have "map rtag rs = map tname ?tags"
      by (induction rule: list_all2_induct) (simp_all add: response_spec_def)
    with True Some rs names show ?thesis
      by (intro exI [of _ "R_read_group drv name rs"])
         (auto simp: neu_adapter_driver_read_group_def emit_def)
  next
    case False
    with Some names not_running_names [of ?tags] show ?thesis
      by (intro exI [of _ "R_read_group drv name (map not_running_response ?tags)"])
         (auto simp: neu_adapter_driver_read_group_def emit_def not_running_response_def)
  qed
qed

section \<open>Refreshing the cache of a group\<close>

lemma cache_del_tags_spec:
  assumes "cache_ok c"
  shows "\<exists>c'. cache_del_tags g ts c = Some c' \<and> cache_ok c' \<and>
    hash_find c' = (\<lambda>k. if fst k = g \<and> snd k \<in> tname ` set ts then None else hash_find c k)"
  using assms
proof (induction ts arbitrary: c)
  case (Cons t ts)
  obtain c' where c': "cache_del_tags g ts (hash_del c (g, tname t)) = Some c'" "cache_ok c'"
    "hash_find c' = (\<lambda>k. if fst k = g \<and> snd k \<in> tname ` set ts then None
       else hash_find (hash_del c (g, tname t)) k)"
    using Cons.IH [OF cache_ok_hash_del [OF Cons.prems]] by blast
  then show ?case
    using Cons.prems by (auto simp: cache_del [OF Cons.prems] hash_find_del fun_eq_iff)
qed (auto simp: fun_eq_iff)

definition fresh_elem :: "neu_dvalue_t \<Rightarrow> cache_elem" where
  "fresh_elem v = \<lparr>ce_timestamp = 0, ce_changed = False, ce_value = v, ce_metas = zero_metas\<rparr>"

text \<open>
  The element of a tag after \<open>neu_driver_cache_add\<close>: an element the cache already has under
  this name keeps its metas, a new one has none.
\<close>

definition added_elem :: "cache_elem option \<Rightarrow> neu_dvalue_t \<Rightarrow> cache_elem" where
  "added_elem old v = (case old of None \<Rightarrow> fresh_elem v
     | Some e \<Rightarrow> e\<lparr>ce_timestamp := 0, ce_changed := False, ce_value := v\<rparr>)"

lemma cache_add_find:
  "hash_find (neu_driver_cache_add c g k v) =
     (hash_find c)((g, k) \<mapsto> added_elem (hash_find c (g, k)) v)"
proof (cases "hash_find c (g, k)")
  case None
  then have "(g, k) \<notin> set (hash_keys c)" by simp
  with None show ?thesis
    by (simp add: neu_driver_cache_add_def to_key_def added_elem_def fresh_elem_def hash_find_add
        del: hash_find_None)
next
  case (Some e)
  then have "(g, k) \<in> set (hash_keys c)" by (rule hash_find_Some_key)
  with Some show ?thesis
    by (simp add: neu_driver_cache_add_def to_key_def added_elem_def hash_find_set fun_eq_iff)
qed

lemma cache_add_tags_spec:
  assumes "distinct (map tname ts)"
  shows "(\<forall>t\<in>set ts. hash_find (cache_add_tags g val ts c) (g, tname t) =
      Some (added_elem (hash_find c (g, tname t)) (val t))) \<and>
    (\<forall>h k. \<not> (h = g \<and> k \<in> tname ` set ts) \<longrightarrow>
       hash_find (cache_add_tags g val ts c) (h, k) = hash_find c (h, k))"
  using assms
proof (induction ts arbitrary: c)
  case (Cons t ts)
  define c1 where "c1 = neu_driver_cache_add c g (tname t) (val t)"
  have c1: "hash_find c1 = (hash_find c)((g, tname t) \<mapsto> added_elem (hash_find c (g, tname t)) (val t))"
    by (simp add: c1_def cache_add_find)
  have eq: "cache_add_tags g val (t # ts) c = cache_add_tags g val ts c1"
    by (simp add: cache_add_tags_def c1_def)
  from Cons.IH [of c1] Cons.prems show ?case
    unfolding eq by (auto simp: c1 image_iff simp del: hash_find_None)
qed (simp add: cache_add_tags_def)

text \<open>What the cache of a group must hold after a refresh.\<close>

definition refreshed_value :: "neu_datatag_t \<Rightarrow> neu_dvalue_t" where
  "refreshed_value t =
     (if neu_tag_attribute_test t NEU_ATTRIBUTE_STATIC then static_cache_value t
      else other_cache_value t)"

lemma group_tag_names:
  assumes "group_ok g"
  shows "map tname (hash_vals (gtags g)) = hash_keys (gtags g)"
    and "distinct (map tname (hash_vals (gtags g)))"
proof -
  show eq: "map tname (hash_vals (gtags g)) = hash_keys (gtags g)"
    using assms by (auto simp: group_ok_def hash_vals_def hash_keys_def)
  show "distinct (map tname (hash_vals (gtags g)))"
    unfolding eq using group_ok_wf [OF assms] by (simp add: hash_wf_def)
qed

lemma split_names:
  assumes "group_ok g" "split_static_array (gtags g) = (sts, oth)"
  shows "distinct (map tname (sts @ oth))"
    and "set (sts @ oth) = {t \<in> set (hash_vals (gtags g)). readable t}"
    and "t \<in> set sts \<Longrightarrow> neu_tag_attribute_test t NEU_ATTRIBUTE_STATIC"
    and "t \<in> set oth \<Longrightarrow> \<not> neu_tag_attribute_test t NEU_ATTRIBUTE_STATIC"
proof -
  let ?vals = "hash_vals (gtags g)" and ?static = "\<lambda>t. neu_tag_attribute_test t NEU_ATTRIBUTE_STATIC"
  have dup: "map neu_tag_dup (filter P ?vals) = filter P ?vals" for P
    by (rule map_idI) (use group_ok_vals [OF assms(1)] in \<open>auto intro: neu_tag_dup_id\<close>)
  from assms(2) have sts: "sts = filter ?static ?vals"
    and oth: "oth = filter (\<lambda>t. readable t \<and> \<not> ?static t) ?vals"
    by (simp_all add: split_static_filter dup)
  have inj: "inj_on tname (set ?vals)" and dist: "distinct ?vals"
    using group_tag_names(2) [OF assms(1)] by (simp_all add: distinct_map)
  have "distinct (sts @ oth)" using dist by (auto simp: sts oth)
  moreover have "inj_on tname (set (sts @ oth))"
    by (rule inj_on_subset [OF inj]) (auto simp: sts oth)
  ultimately show "distinct (map tname (sts @ oth))" by (simp only: distinct_map)
  show "set (sts @ oth) = {t \<in> set ?vals. readable t}"
    by (auto simp: sts oth readable_def)
  show "t \<in> set sts \<Longrightarrow> ?static t" "t \<in> set oth \<Longrightarrow> \<not> ?static t"
    by (simp_all add: sts oth)
qed

text \<open>
  What the cache has under a name of the group once the tags of the last refresh are
  deleted: the name stays when it is none of them.
\<close>

definition left_elem :: "group_t \<Rightarrow> neu_driver_cache_t \<Rightarrow> string \<Rightarrow> cache_elem option" where
  "left_elem gr c k = (if k \<in> tname ` set (gr_static_tags gr @ gr_grp_tags gr) then None
     else hash_find c (gr_name gr, k))"

lemma group_change_cache:
  assumes "cache_ok c" "distinct (map tname (sts @ oth))"
  obtains c' where
    "group_change ts sts oth i (gr, c) = Some (gr\<lparr>gr_timestamp := ts, gr_grp_name := gr_name gr,
       gr_grp_tags := oth, gr_static_tags := sts\<rparr>, c')"
    "\<And>t. t \<in> set sts \<Longrightarrow> hash_find c' (gr_name gr, tname t) =
       Some (added_elem (left_elem gr c (tname t)) (static_cache_value t))"
    "\<And>t. t \<in> set oth \<Longrightarrow> hash_find c' (gr_name gr, tname t) =
       Some (added_elem (left_elem gr c (tname t)) (other_cache_value t))"
    "\<And>k. k \<notin> tname ` set (sts @ oth) \<Longrightarrow> hash_find c' (gr_name gr, k) = left_elem gr c k"
    "\<And>g k. g \<noteq> gr_name gr \<Longrightarrow> hash_find c' (g, k) = hash_find c (g, k)"
proof -
  let ?n = "gr_name gr"
  obtain c1 where c1: "cache_del_tags ?n (gr_static_tags gr) c = Some c1" "cache_ok c1"
    "hash_find c1 = (\<lambda>k. if fst k = ?n \<and> snd k \<in> tname ` set (gr_static_tags gr) then None
       else hash_find c k)" using cache_del_tags_spec [OF assms(1)] by blast
  obtain c2 where c2: "cache_del_tags ?n (gr_grp_tags gr) c1 = Some c2"
    "hash_find c2 = (\<lambda>k. if fst k = ?n \<and> snd k \<in> tname ` set (gr_grp_tags gr) then None
       else hash_find c1 k)" using cache_del_tags_spec [OF c1(2)] by blast
  have left: "hash_find c2 (?n, k) = left_elem gr c k" for k
    by (auto simp: c2 c1 left_elem_def simp del: hash_find_None)
  define c3 where "c3 = cache_add_tags ?n static_cache_value sts c2"
  have d1: "distinct (map tname sts)" "distinct (map tname oth)"
    "tname ` set sts \<inter> tname ` set oth = {}" using assms(2) by simp_all
  have c3: "t \<in> set sts \<Longrightarrow> hash_find c3 (?n, tname t) =
      Some (added_elem (left_elem gr c (tname t)) (static_cache_value t))"
    "\<not> (h = ?n \<and> k \<in> tname ` set sts) \<Longrightarrow> hash_find c3 (h, k) = hash_find c2 (h, k)" for t h k
    using cache_add_tags_spec [OF d1(1), of ?n static_cache_value c2] left
    by (simp_all add: c3_def del: hash_find_None)
  define c4 where "c4 = cache_add_tags ?n other_cache_value oth c3"
  from cache_add_tags_spec [OF d1(2), of ?n other_cache_value c3]
  have c4: "t \<in> set oth \<Longrightarrow> hash_find c4 (?n, tname t) =
      Some (added_elem (hash_find c3 (?n, tname t)) (other_cache_value t))"
    "\<not> (h = ?n \<and> k \<in> tname ` set oth) \<Longrightarrow> hash_find c4 (h, k) = hash_find c3 (h, k)" for t h k
    by (simp_all add: c4_def del: hash_find_None)
  show thesis
  proof (rule that [of c4])
    show "group_change ts sts oth i (gr, c) = Some (gr\<lparr>gr_timestamp := ts, gr_grp_name := ?n,
       gr_grp_tags := oth, gr_static_tags := sts\<rparr>, c4)"
      by (simp add: group_change_def c1(1) c2(1) c3_def c4_def)
    show "hash_find c4 (?n, tname t) = Some (added_elem (left_elem gr c (tname t)) (static_cache_value t))"
      if "t \<in> set sts" for t
    proof -
      have "tname t \<notin> tname ` set oth" using d1(3) that by auto
      with c3(1) [OF that] c4(2) [of ?n "tname t"] show ?thesis by simp
    qed
    show "hash_find c4 (?n, tname t) = Some (added_elem (left_elem gr c (tname t)) (other_cache_value t))"
      if "t \<in> set oth" for t
    proof -
      have "tname t \<notin> tname ` set sts" using d1(3) that by auto
      with c4(1) [OF that] c3(2) [of ?n "tname t"] left show ?thesis by (simp del: hash_find_None)
    qed
    show "hash_find c4 (?n, k) = left_elem gr c k" if "k \<notin> tname ` set (sts @ oth)" for k
      using that left [of k] c4(2) [of ?n k] c3(2) [of ?n k]
      by (simp add: image_Un del: hash_find_None)
    show "hash_find c4 (g, k) = hash_find c (g, k)" if "g \<noteq> ?n" for g k
      using that c4(2) [of g k] c3(2) [of g k] by (simp add: c2 c1)
  qed
qed

text \<open>The name of a tag that passed the checks fits the key of the cache.\<close>

lemma validated_tag_fits:
  "neu_adapter_driver_validate_tag intf d t = (0, t', d') \<Longrightarrow>
    length (tname t) < NEU_TAG_NAME_LEN \<and> length (address t) < NEU_TAG_ADDRESS_LEN \<and>
    length (description t) < NEU_TAG_DESCRIPTION_LEN"
  by (auto simp: neu_adapter_driver_validate_tag_def split: if_splits)

text \<open>The names the cache holds for a group.\<close>

definition cached_names :: "neu_driver_cache_t \<Rightarrow> string \<Rightarrow> string set" where
  "cached_names c g = {t. hash_find c (g, t) \<noteq> None}"


section \<open>Witnesses\<close>

definition demo_rw_tag :: neu_datatag_t where
  "demo_rw_tag = demo_tag\<lparr>attribute := 3\<rparr>"

definition demo_entry :: group_t where
  "demo_entry = (new_group demo_driver ''grp'' 1000)\<lparr>gr_group :=
     \<lparr>gname = ''grp'', gtags = [(''t1'', demo_rw_tag)], ginterval = 1000, gtimestamp = 5\<rparr>,
     gr_wt_tags := []\<rparr>"

definition demo_run :: "unit driver" where
  "demo_run = demo_driver\<lparr>d_groups := [(''grp'', demo_entry)], d_state := NEU_NODE_RUNNING_STATE_RUNNING\<rparr>"

lemma demo_rw_tag_simps [simp]:
  "tag_ok demo_rw_tag" "tname demo_rw_tag = ''t1''" "ttype demo_rw_tag = NEU_TYPE_INT16"
  "neu_tag_attribute_test demo_rw_tag NEU_ATTRIBUTE_WRITE"
  "neu_tag_attribute_test demo_rw_tag NEU_ATTRIBUTE_READ"
  "attribute demo_rw_tag AND NEU_ATTRIBUTE_WRITE = NEU_ATTRIBUTE_WRITE"
  "\<not> neu_tag_attribute_test demo_rw_tag NEU_ATTRIBUTE_STATIC" "f64_eq (decimal demo_rw_tag) 0"
  by (simp_all add: demo_rw_tag_def demo_tag_def calloc_tag_def tag_ok_def neu_tag_attribute_test_def
      NEU_ATTRIBUTE_STATIC_def NEU_ATTRIBUTE_WRITE_def NEU_ATTRIBUTE_READ_def f64_eq_def f64_dec_def
      fp_eq_def fp_less_def fp_decode_def binary64_def)

lemma demo_entry_simps [simp]:
  "gr_wt_tags demo_entry = []" "gr_name demo_entry = ''grp''"
  "neu_group_find_tag (gr_group demo_entry) ''t1'' = Some demo_rw_tag"
  "hash_vals (gtags (gr_group demo_entry)) = [demo_rw_tag]"
  by (simp_all add: demo_entry_def new_group_def case_prod_beta Let_def hash_vals_def
      neu_group_find_tag_def hash_find_def neu_tag_dup_id)

lemma demo_run_simps [simp]:
  "driver_ok demo_run" "find_group demo_run ''grp'' = Some demo_entry"
  "d_state demo_run = NEU_NODE_RUNNING_STATE_RUNNING" "d_cache demo_run = []"
proof -
  have "group_ok (gr_group demo_entry)"
    by (simp add: demo_entry_def group_ok_def hash_wf_def hash_keys_def)
  then have "group_entry_ok ''grp'' demo_entry"
    by (simp add: group_entry_ok_def) (simp add: demo_entry_def)
  then show "driver_ok demo_run"
    by (simp add: demo_run_def driver_ok_def groups_ok_def hash_wf_def hash_keys_def)
       (simp add: demo_driver_def neu_adapter_driver_add_group_def neu_adapter_driver_create_def
         neu_driver_cache_new_def Let_def emit_def hash_find_def)
  show "find_group demo_run ''grp'' = Some demo_entry"
    by (simp add: demo_run_def find_group_def hash_find_def)
  show "d_state demo_run = NEU_NODE_RUNNING_STATE_RUNNING" "d_cache demo_run = []"
    by (simp_all add: demo_run_def demo_driver_def neu_adapter_driver_add_group_def
        neu_adapter_driver_create_def neu_driver_cache_new_def Let_def emit_def hash_find_def)
qed

lemma demo_written:
  "written_value demo_rw_tag demo_write \<noteq> None"
  "int_to_double_value demo_rw_tag demo_write = demo_write"
  by (simp_all add: written_value_def fix_value_def int_to_double_value_def Let_def)

lemma write_tag_queued_or_answered_witness:
  "\<exists>d' w. neu_adapter_driver_write_tag (\<lambda>_. 0) 0 0 demo_run 7 ''grp'' ''t1'' demo_write = Some d' \<and>
    queued d' ''grp'' = [w] \<and> d_out d' = d_out demo_run"
proof -
  obtain v where v: "written_value demo_rw_tag demo_write = Some v" using demo_written by auto
  define d' where "d' = store_write_tag demo_entry (WT_single 7 (neu_tag_dup demo_rw_tag) (dvalue v)) demo_run"
  have w: "neu_adapter_driver_write_tag (\<lambda>_. 0) 0 0 demo_run 7 ''grp'' ''t1'' demo_write = Some d'"
    by (simp add: neu_adapter_driver_write_tag_def demo_written v d'_def)
  have "d_out d' = d_out demo_run" by (simp add: d'_def store_write_tag_def)
  moreover have "queued demo_run ''grp'' = []" by (simp add: queued_def)
  ultimately show ?thesis
    using write_tag_queued_or_answered [OF demo_run_simps(1) w] w by auto
qed

lemma write_tags_all_or_nothing_witness:
  "\<exists>d' r. neu_adapter_driver_write_tags demo_intf demo_run 7 ''grp'' [(''zz'', demo_write)] = Some d' \<and>
    d_out d' = d_out demo_run @ [Out_response (Some 7) (R_error r)]"
proof -
  have none: "neu_group_find_tag (gr_group demo_entry) ''zz'' = None"
    by (simp add: demo_entry_def neu_group_find_tag_def hash_find_def)
  define d' where "d' = emit [Out_response (Some 7) (R_error NEU_ERR_TAG_NOT_EXIST)] demo_run"
  have w: "neu_adapter_driver_write_tags demo_intf demo_run 7 ''grp'' [(''zz'', demo_write)] = Some d'"
    by (simp add: neu_adapter_driver_write_tags_def demo_intf_def none d'_def)
  have "d_out d' \<noteq> d_out demo_run" by (simp add: d'_def)
  with write_tags_all_or_nothing [OF demo_run_simps(1) w] w show ?thesis by blast
qed

lemma writes_handed_over_in_order_witness:
  "\<exists>d'. write_callback demo_intf (\<lambda>_. 0) 0 demo_run ''grp'' = Some d' \<and> queued d' ''grp'' = []"
proof -
  obtain d' where w: "write_callback demo_intf (\<lambda>_. 0) 0 demo_run ''grp'' = Some d'"
    by (simp add: write_callback_def)
  from writes_handed_over_in_order [OF demo_run_simps(1-3) w] w show ?thesis by simp
qed

lemma read_request_answered_witness:
  "\<exists>r. neu_adapter_driver_read_group 9 demo_run 7 ''drv'' ''none'' =
      Some (demo_run\<lparr>d_out := d_out demo_run @ [Out_response (Some 7) r]\<rparr>) \<and>
    r = R_error NEU_ERR_GROUP_NOT_EXIST"
proof -
  have "cache_ok (d_cache demo_run)" by (simp add: cache_ok_def)
  from read_request_answered [OF this, of 9 7 "''drv''" "''none''"]
  show ?thesis by (simp add: demo_run_def find_group_def hash_find_def)
qed

text \<open>A run whose cache has a value left behind under the group's name.\<close>

definition demo_stale :: "unit driver" where
  "demo_stale = demo_run\<lparr>d_cache := neu_driver_cache_add [] ''grp'' ''old'' demo_value\<rparr>"


end
