(* ===== verification/AdapterLaws.thy ===== *)
theory AdapterLaws
  imports Loop DriverLaws
begin

text \<open>
  Laws of the adapter (\<open>Adapter\<close>, \<open>Loop\<close>): the life cycle over every sequence of requests,
  the answers of the loop, adding a batch of tags, loading devices, and the handles that are
  never set.
\<close>

section \<open>What sending changes\<close>

definition same_node :: "'p adapter \<Rightarrow> 'p adapter \<Rightarrow> bool" where
  "same_node ad ad' \<longleftrightarrow>
     ad_driver ad' = ad_driver ad \<and> ad_setting ad' = ad_setting ad \<and> ad_module ad' = ad_module ad \<and>
     ad_nng_io ad' = ad_nng_io ad \<and> ad_timer_lev ad' = ad_timer_lev ad \<and>
     ad_device_list ad' = ad_device_list ad"

definition keeps_handles :: "'p adapter \<Rightarrow> 'p adapter \<Rightarrow> bool" where
  "keeps_handles ad ad' \<longleftrightarrow>
     ad_module ad' = ad_module ad \<and> ad_nng_io ad' = ad_nng_io ad \<and>
     ad_timer_lev ad' = ad_timer_lev ad"

lemma same_node_refl [simp]: "same_node ad ad"
  by (simp add: same_node_def)

lemma reply_same: "reply snd_rv h d ad = Some ad' \<Longrightarrow> same_node ad ad'"
  by (auto simp: reply_def nng_sendmsg_def same_node_def split: if_splits)

lemma error_reply_same: "error_reply snd_rv h e ad = Some ad' \<Longrightarrow> same_node ad ad'"
  by (auto simp: error_reply_def dest: reply_same)

lemma notify_same: "notify_monitor snd_rv evt d ad = Some ad' \<Longrightarrow> same_node ad ad'"
  by (auto simp: notify_monitor_def dest: reply_same)

lemma same_node_trans: "same_node a b \<Longrightarrow> same_node b c \<Longrightarrow> same_node a c"
  by (simp add: same_node_def)

lemma keeps_trans: "keeps_handles a b \<Longrightarrow> keeps_handles b c \<Longrightarrow> keeps_handles a c"
  by (simp add: keeps_handles_def)

lemma same_keeps: "same_node a b \<Longrightarrow> keeps_handles a b"
  by (simp add: same_node_def keeps_handles_def)

lemma adapter_upd [simp]:
  "ad_module (set_driver d ad) = ad_module ad" "ad_module (set_plugin p ad) = ad_module ad"
  "ad_module (set_state st ad) = ad_module ad"
  "ad_nng_io (set_driver d ad) = ad_nng_io ad" "ad_nng_io (set_plugin p ad) = ad_nng_io ad"
  "ad_nng_io (set_state st ad) = ad_nng_io ad"
  "ad_timer_lev (set_driver d ad) = ad_timer_lev ad"
  "ad_timer_lev (set_plugin p ad) = ad_timer_lev ad"
  "ad_timer_lev (set_state st ad) = ad_timer_lev ad"
  "ad_setting (set_driver d ad) = ad_setting ad" "ad_setting (set_plugin p ad) = ad_setting ad"
  "ad_setting (set_state st ad) = ad_setting ad"
  "ad_driver (set_driver d ad) = d"
  "ad_driver (set_plugin p ad) = (ad_driver ad)\<lparr>d_plugin := p\<rparr>"
  "ad_driver (set_state st ad) = (ad_driver ad)\<lparr>d_state := st\<rparr>"
  "ad_sent (set_driver d ad) = ad_sent ad" "ad_sent (set_plugin p ad) = ad_sent ad"
  "ad_sent (set_state st ad) = ad_sent ad"
  "ad_device_list (set_driver d ad) = ad_device_list ad"
  "ad_device_list (set_plugin p ad) = ad_device_list ad"
  by (simp_all add: set_driver_def set_plugin_def set_state_def)

lemma storage_upd [simp]:
  "ad_driver (adapter_storage_state st ad) = ad_driver ad"
  "ad_module (adapter_storage_state st ad) = ad_module ad"
  "ad_setting (adapter_storage_state st ad) = ad_setting ad"
  "ad_nng_io (adapter_storage_state st ad) = ad_nng_io ad"
  "ad_timer_lev (adapter_storage_state st ad) = ad_timer_lev ad"
  "ad_sent (adapter_storage_state st ad) = ad_sent ad"
  "ad_driver (adapter_storage_setting s ad) = ad_driver ad"
  "ad_module (adapter_storage_setting s ad) = ad_module ad"
  "ad_setting (adapter_storage_setting s ad) = ad_setting ad"
  "ad_nng_io (adapter_storage_setting s ad) = ad_nng_io ad"
  "ad_timer_lev (adapter_storage_setting s ad) = ad_timer_lev ad"
  "ad_sent (adapter_storage_setting s ad) = ad_sent ad"
  by (simp_all add: adapter_storage_state_def adapter_storage_setting_def)

lemma keeps_upd [simp]:
  "keeps_handles ad (set_driver d ad)" "keeps_handles ad (set_plugin p ad)"
  by (simp_all add: keeps_handles_def)

lemma life_cycle_keeps [simp]:
  "keeps_handles ad (snd (neu_adapter_start ad))"
  "keeps_handles ad (snd (neu_adapter_stop ad))"
  "keeps_handles ad (snd (neu_adapter_set_setting ad s))"
  by (auto simp: keeps_handles_def neu_adapter_start_def neu_adapter_stop_def
      neu_adapter_set_setting_def Let_def split: neu_node_running_state_e.split prod.split)

lemma life_cycle_sent [simp]:
  "ad_sent (snd (neu_adapter_start ad)) = ad_sent ad"
  "ad_sent (snd (neu_adapter_stop ad)) = ad_sent ad"
  "ad_sent (snd (neu_adapter_set_setting ad s)) = ad_sent ad"
  by (auto simp: neu_adapter_start_def neu_adapter_stop_def
      neu_adapter_set_setting_def Let_def split: neu_node_running_state_e.split prod.split)

text \<open>
  The effect of a request about groups and tags: only the driver part changes, and that only
  for a driver.
\<close>

definition driver_effect :: "'p adapter \<Rightarrow> 'p adapter \<Rightarrow> bool" where
  "driver_effect ad ad' \<longleftrightarrow>
     keeps_handles ad ad' \<and> ad_setting ad' = ad_setting ad \<and>
     (ad_type ad \<noteq> NEU_NA_TYPE_DRIVER \<longrightarrow> ad_driver ad' = ad_driver ad)"

lemma driver_effect_same: "driver_effect a b \<Longrightarrow> same_node b c \<Longrightarrow> driver_effect a c"
  by (auto simp: driver_effect_def same_node_def keeps_handles_def)

lemma driver_effect_intros [simp, intro]:
  "driver_effect ad ad" "driver_effect ad (ad\<lparr>ad_timestamp_lev := t\<rparr>)"
  "ad_type ad = NEU_NA_TYPE_DRIVER \<Longrightarrow> driver_effect ad (set_driver d ad)"
  by (simp_all add: driver_effect_def keeps_handles_def)

lemma reply_effect:
  "reply snd_rv h d b = Some c \<Longrightarrow> driver_effect a b \<Longrightarrow> driver_effect a c"
  "error_reply snd_rv h e b = Some c \<Longrightarrow> driver_effect a b \<Longrightarrow> driver_effect a c"
  "notify_monitor snd_rv evt d b = Some c \<Longrightarrow> driver_effect a b \<Longrightarrow> driver_effect a c"
  by (blast intro: driver_effect_same reply_same error_reply_same notify_same)+

lemma request_effect:
  "loop_read_group snd_rv now ad m = Some ad' \<Longrightarrow> driver_effect ad ad'"
  "loop_write_tag snd_rv pw now us ad m = Some ad' \<Longrightarrow> driver_effect ad ad'"
  "loop_write_tags snd_rv ad m = Some ad' \<Longrightarrow> driver_effect ad ad'"
  "loop_get_group snd_rv ad m = Some ad' \<Longrightarrow> driver_effect ad ad'"
  "loop_get_tag snd_rv ad m = Some ad' \<Longrightarrow> driver_effect ad ad'"
  "loop_update_ndriver_tags snd_rv ad m = Some ad' \<Longrightarrow> driver_effect ad ad'"
  "loop_get_ndriver_tags snd_rv ad m = Some ad' \<Longrightarrow> driver_effect ad ad'"
  "loop_get_node_setting snd_rv ad m = Some ad' \<Longrightarrow> driver_effect ad ad'"
  "loop_get_node_state snd_rv ad m = Some ad' \<Longrightarrow> driver_effect ad ad'"
  "loop_update_log_level snd_rv sec ad m = Some ad' \<Longrightarrow> driver_effect ad ad'"
  by (auto simp: loop_read_group_def loop_write_tag_def loop_write_tags_def loop_get_group_def
      loop_get_tag_def loop_update_ndriver_tags_def loop_get_ndriver_tags_def
      loop_get_node_setting_def loop_get_node_state_def loop_update_log_level_def Let_def
      split: prod.splits reqresp_data.splits if_splits option.splits intro: reply_effect)

lemma change_effect:
  "loop_add_group snd_rv ad m = Some ad' \<Longrightarrow> driver_effect ad ad'"
  "loop_update_driver_group snd_rv ad m = Some ad' \<Longrightarrow> driver_effect ad ad'"
  "loop_del_group snd_rv ad m = Some ad' \<Longrightarrow> driver_effect ad ad'"
  "loop_del_tag snd_rv us ad m = Some ad' \<Longrightarrow> driver_effect ad ad'"
  "loop_add_tag snd_rv us ad m = Some ad' \<Longrightarrow> driver_effect ad ad'"
  "loop_update_tag snd_rv us ad m = Some ad' \<Longrightarrow> driver_effect ad ad'"
  by (auto simp: loop_add_group_def loop_update_driver_group_def loop_del_group_def
      loop_del_tag_def loop_add_tag_def loop_update_tag_def Let_def
      split: prod.splits reqresp_data.splits bind_splits if_splits)
     (blast intro: reply_effect)+


section \<open>Handles that are never set\<close>

definition handles_null :: "'p adapter \<Rightarrow> bool" where
  "handles_null ad \<longleftrightarrow> \<not> ad_timer_lev ad \<and> \<not> ad_nng_io ad"

lemma handles_null_keeps: "handles_null ad \<Longrightarrow> keeps_handles ad ad' \<Longrightarrow> handles_null ad'"
  by (simp add: handles_null_def keeps_handles_def)

lemma rename_null: "handles_null ad \<Longrightarrow>
    neu_adapter_rename log ad n = (if log then None else Some (NEU_ERR_EINTERNAL, ad))"
  by (simp add: neu_adapter_rename_def stop_log_level_timer_def handles_null_def)

lemma uninit_null: "handles_null ad \<Longrightarrow> neu_adapter_uninit ad = None"
  by (auto simp: neu_adapter_uninit_def neu_event_del_io_def handles_null_def Let_def
      split: Option.bind_split)

text \<open>What the two requests about the life cycle do to the node.\<close>

definition same_life :: "'p adapter \<Rightarrow> 'p adapter \<Rightarrow> bool" where
  "same_life ad ad' \<longleftrightarrow>
     ad_driver ad' = ad_driver ad \<and> ad_setting ad' = ad_setting ad \<and> keeps_handles ad ad'"

lemma same_life: "same_node ad ad' \<Longrightarrow> same_life ad ad'"
  "same_node (adapter_storage_setting s ad) ad' \<Longrightarrow> same_life ad ad'"
  by (auto simp: same_life_def same_node_def keeps_handles_def)

lemma loop_node_setting_life:
  assumes "loop_node_setting snd_rv ad m = Some ad'"
  shows "\<exists>s. same_life (snd (neu_adapter_set_setting ad s)) ad'"
proof -
  obtain h n s where m: "m = (h, D_node_setting n s)"
    using assms by (cases m) (auto simp: loop_node_setting_def split: reqresp_data.splits)
  have "same_life (snd (neu_adapter_set_setting ad s)) ad'"
    using assms by (auto simp: m loop_node_setting_def split: prod.splits if_splits
        dest!: error_reply_same intro: same_life)
  then show ?thesis ..
qed

definition node_ctl :: "neu_adapter_ctl_e \<Rightarrow> 'p adapter \<Rightarrow> int \<times> 'p adapter" where
  "node_ctl ctl ad = (case ctl of
     NEU_ADAPTER_CTL_START \<Rightarrow> neu_adapter_start ad | NEU_ADAPTER_CTL_STOP \<Rightarrow> neu_adapter_stop ad)"

lemma loop_node_ctl_life:
  assumes "loop_node_ctl snd_rv ad m = Some ad'"
  shows "\<exists>ctl. same_life (snd (node_ctl ctl ad)) ad'"
proof -
  obtain h n ctl where m: "m = (h, D_node_ctl n ctl)"
    using assms by (cases m) (auto simp: loop_node_ctl_def split: reqresp_data.splits)
  obtain e ad1 where ctl: "node_ctl ctl ad = (e, ad1)" by fastforce
  have "same_node ad1 ad'"
    using assms ctl unfolding m loop_node_ctl_def node_ctl_def
    by (auto split: bind_splits if_splits
        dest!: error_reply_same notify_same intro: same_node_trans)
  then show ?thesis using ctl by (auto intro!: exI [of _ ctl] same_life(1))
qed

lemma node_ctl_keeps [simp]: "keeps_handles ad (snd (node_ctl ctl ad))"
  by (simp add: node_ctl_def split: neu_adapter_ctl_e.split)

lemma node_requests_keep:
  "loop_node_setting snd_rv ad m = Some ad' \<Longrightarrow> keeps_handles ad ad'"
  "loop_node_ctl snd_rv ad m = Some ad' \<Longrightarrow> keeps_handles ad ad'"
  by (auto simp: same_life_def dest!: loop_node_setting_life loop_node_ctl_life
      intro: keeps_trans [OF life_cycle_keeps(3)] keeps_trans [OF node_ctl_keeps])

text \<open>
  The loop on a node with both handles NULL: renaming and closing the node crash, everything
  else is one of four effects.
\<close>

lemma loop_rename_null: "handles_null ad \<Longrightarrow> loop_node_rename snd_rv True ad m = None"
  by (cases m) (simp add: loop_node_rename_def rename_null split: reqresp_data.split)

lemma loop_uninit_null: "handles_null ad \<Longrightarrow> loop_node_uninit snd_rv ad m = None"
  by (cases m) (simp add: loop_node_uninit_def uninit_null split: reqresp_data.split)

lemma loop_rename_nolog:
  assumes "loop_node_rename snd_rv False ad m = Some ad'"
  shows "same_node ad ad'"
  using assms by (cases m)
    (auto simp: loop_node_rename_def neu_adapter_rename_def split: reqresp_data.splits dest: reply_same)

lemma adapter_loop_cases:
  assumes "adapter_loop snd_rv pw log now us ad m = Some ad'" "handles_null ad"
  shows "ad' = set_plugin (pf_request (ad_intf ad) (ad_plugin ad) m) ad \<or> driver_effect ad ad' \<or>
    (\<exists>s. same_life (snd (neu_adapter_set_setting ad s)) ad') \<or>
    (\<exists>ctl. same_life (snd (node_ctl ctl ad)) ad')"
proof -
  have rename: "driver_effect ad ad'" if "loop_node_rename snd_rv log ad m = Some ad'"
    using that loop_rename_null [OF assms(2)] loop_rename_nolog [of snd_rv ad m ad']
    by (cases log) (auto intro: driver_effect_same)
  show ?thesis
    using assms(1) unfolding adapter_loop_def Let_def
    by (auto simp: loop_uninit_null [OF assms(2)] split: if_split_asm
        dest: request_effect change_effect rename loop_node_setting_life loop_node_ctl_life)
qed


section \<open>The life cycle\<close>

text \<open>
  What happens to a node: requests on its socket, the calls of the manager, a message of the
  thing model, a plugin that changes its link state, sends a command or an answer, a reload
  that ends because the plugin does not stop.
\<close>

inductive adapter_step :: "'p adapter \<Rightarrow> 'p adapter \<Rightarrow> bool" where
  step_request: "adapter_loop snd_rv pw log now us ad m = Some ad' \<Longrightarrow> adapter_step ad ad'"
| step_ctl: "adapter_step ad (snd (node_ctl ctl ad))"
| step_setting: "adapter_step ad (snd (neu_adapter_set_setting ad s))"
| step_message: "pf_msg_arrived (ad_intf ad) (ad_plugin ad) msg = (r, p, calls) \<Longrightarrow>
    adapter_step ad (set_plugin p ad)"
| step_link: "adapter_step ad (set_plugin ((ad_plugin ad)\<lparr>pc_link_state := l\<rparr>) ad)"
| step_command: "adapter_command snd_rv ad h d = Some (r, ad') \<Longrightarrow> adapter_step ad ad'"
| step_response: "adapter_response snd_rv ad h d = Some (r, ad') \<Longrightarrow> adapter_step ad ad'"
| step_no_reload: "stop_plugin ad = (ret, ad') \<Longrightarrow> ret \<noteq> 0 \<Longrightarrow> adapter_step ad ad'"

text \<open>
  The reload of the configuration (\<open>forward_thing_control_msg_to_esvdriver\<close> and, after a
  successful stop, \<open>forward_thing_model_matter_reload_msg_to_esvdriver\<close>) works on the plugin
  behind the back of the node's state.
\<close>

definition reload_node :: "int + string \<Rightarrow> int \<Rightarrow> 'p adapter \<Rightarrow> 'p adapter" where
  "reload_node cfg result ad = start_plugin (snd (reload_config cfg result (snd (stop_plugin ad))))"

text \<open>
  The states a node can reach.  The first flag says that the node was created, started or
  stopped with success after the last reload, the second that it was never reloaded.
\<close>

inductive adapter_run ::
  "(string \<Rightarrow> string option) \<Rightarrow> (string \<Rightarrow> int + esv_device_info_t list) \<Rightarrow>
    'p neu_plugin_module_t \<Rightarrow> bool \<Rightarrow> bool \<Rightarrow> 'p adapter \<Rightarrow> bool"
  for load_config :: "string \<Rightarrow> string option"
    and load_devices :: "string \<Rightarrow> int + esv_device_info_t list"
    and md :: "'p neu_plugin_module_t" where
  run_created: "neu_adapter_create load_config load_devices err name md load = Some (Some ad, e) \<Longrightarrow>
    adapter_run load_config load_devices md True True ad"
| run_stepped: "adapter_run load_config load_devices md sync kept ad \<Longrightarrow> adapter_step ad ad' \<Longrightarrow>
    adapter_run load_config load_devices md sync kept ad'"
| run_reloaded: "adapter_run load_config load_devices md sync kept ad \<Longrightarrow>
    adapter_run load_config load_devices md False False (reload_node cfg result ad)"
| run_controlled: "adapter_run load_config load_devices md sync kept ad \<Longrightarrow> node_ctl ctl ad = (0, ad') \<Longrightarrow>
    adapter_run load_config load_devices md True kept ad'"

inductive adapter_reachable ::
  "(string \<Rightarrow> string option) \<Rightarrow> (string \<Rightarrow> int + esv_device_info_t list) \<Rightarrow>
    'p neu_plugin_module_t \<Rightarrow> 'p adapter \<Rightarrow> bool"
  for load_config :: "string \<Rightarrow> string option"
    and load_devices :: "string \<Rightarrow> int + esv_device_info_t list"
    and md :: "'p neu_plugin_module_t" where
  created: "neu_adapter_create load_config load_devices err name md load = Some (Some ad, e) \<Longrightarrow>
    adapter_reachable load_config load_devices md ad"
| stepped: "adapter_reachable load_config load_devices md ad \<Longrightarrow> adapter_step ad ad' \<Longrightarrow>
    adapter_reachable load_config load_devices md ad'"
| reloaded: "adapter_reachable load_config load_devices md ad \<Longrightarrow>
    adapter_reachable load_config load_devices md (reload_node cfg result ad)"

lemma reachable_run:
  "adapter_reachable lc ld md ad \<longleftrightarrow> (\<exists>sync kept. adapter_run lc ld md sync kept ad)"
proof
  assume "adapter_reachable lc ld md ad"
  then show "\<exists>sync kept. adapter_run lc ld md sync kept ad"
    by induction (blast intro: adapter_run.intros)+
next
  assume "\<exists>sync kept. adapter_run lc ld md sync kept ad"
  then obtain sync kept where "adapter_run lc ld md sync kept ad" by blast
  then show "adapter_reachable lc ld md ad"
  proof induction
    case (run_controlled sync kept ad ctl ad')
    with stepped [OF run_controlled(3) step_ctl [of ad ctl]] show ?case by simp
  qed (blast intro: adapter_reachable.intros)+
qed

text \<open>\<open>running\<close> reads off a plugin whether it has been started and not stopped since.\<close>

definition plugin_tracks ::
  "'p neu_plugin_intf_funs \<Rightarrow> ('p neu_plugin \<Rightarrow> bool) \<Rightarrow> bool" where
  "plugin_tracks I running \<longleftrightarrow>
     (\<forall>p. pf_open I = Some p \<longrightarrow> \<not> running p) \<and>
     (\<forall>p load. running (snd (pf_init I p load)) = running p) \<and>
     (\<forall>p. running (snd (pf_start I p)) = (fst (pf_start I p) = 0 \<or> running p)) \<and>
     (\<forall>p. running (snd (pf_stop I p)) = (fst (pf_stop I p) \<noteq> 0 \<and> running p)) \<and>
     (\<forall>p s. running (snd (pf_setting I p s)) = running p) \<and>
     (\<forall>p m. running (pf_request I p m) = running p) \<and>
     (\<forall>p m. running (fst (snd (pf_msg_arrived I p m))) = running p) \<and>
     (\<forall>f p n ds. pf_add_devices I = Some f \<longrightarrow> running (f p n ds) = running p) \<and>
     (\<forall>p l n. running (p\<lparr>pc_link_state := l\<rparr>) = running p \<and> running (p\<lparr>pc_name := n\<rparr>) = running p)"

definition lifecycle_ok :: "bool \<Rightarrow> bool \<Rightarrow> ('p neu_plugin \<Rightarrow> bool) \<Rightarrow> 'p adapter \<Rightarrow> bool" where
  "lifecycle_ok sync kept running ad \<longleftrightarrow>
     (sync \<longrightarrow> (running (ad_plugin ad) \<longleftrightarrow> ad_state ad = NEU_NODE_RUNNING_STATE_RUNNING)) \<and>
     (kept \<longrightarrow> ad_setting ad = None \<longrightarrow> ad_state ad = NEU_NODE_RUNNING_STATE_INIT) \<and>
     (ad_state ad = NEU_NODE_RUNNING_STATE_INIT \<longrightarrow> ad_setting ad = None)"

lemma tracksD:
  assumes "plugin_tracks I running"
  shows "pf_open I = Some p \<Longrightarrow> \<not> running p"
    and "running (snd (pf_init I p load)) = running p"
    and "running (snd (pf_start I p)) = (fst (pf_start I p) = 0 \<or> running p)"
    and "running (snd (pf_stop I p)) = (fst (pf_stop I p) \<noteq> 0 \<and> running p)"
    and "running (snd (pf_setting I p s)) = running p"
    and "running (pf_request I p m) = running p"
    and "running (fst (snd (pf_msg_arrived I p msg))) = running p"
    and "pf_add_devices I = Some f \<Longrightarrow> running (f p n ds) = running p"
    and "running (p\<lparr>pc_link_state := l\<rparr>) = running p"
    and "running (p\<lparr>pc_name := nm\<rparr>) = running p"
  using assms unfolding plugin_tracks_def by simp_all (cases m, simp)

lemma lifecycle_same: "same_life ad ad' \<Longrightarrow> lifecycle_ok sync kept running ad \<Longrightarrow> lifecycle_ok sync kept running ad'"
  by (simp add: same_life_def lifecycle_ok_def)

lemma lifecycle_start:
  assumes "plugin_tracks (ad_intf ad) running" "lifecycle_ok sync kept running ad"
  shows "lifecycle_ok sync kept running (snd (neu_adapter_start ad))"
  using assms tracksD(3) [OF assms(1), of "ad_plugin ad"]
  by (cases "ad_state ad")
     (auto simp: neu_adapter_start_def lifecycle_ok_def Let_def split: prod.split)

lemma lifecycle_stop:
  assumes "plugin_tracks (ad_intf ad) running" "lifecycle_ok sync kept running ad"
  shows "lifecycle_ok sync kept running (snd (neu_adapter_stop ad))"
  using assms tracksD(4) [OF assms(1), of "ad_plugin ad"]
  by (cases "ad_state ad")
     (auto simp: neu_adapter_stop_def lifecycle_ok_def Let_def split: prod.split)

lemma lifecycle_set_setting:
  assumes "plugin_tracks (ad_intf ad) running" "lifecycle_ok sync kept running ad"
  shows "lifecycle_ok sync kept running (snd (neu_adapter_set_setting ad s))"
proof -
  obtain rv p where set: "pf_setting (ad_intf ad) (ad_plugin ad) s = (rv, p)" by fastforce
  then have run: "running p = running (ad_plugin ad)"
    using tracksD(5) [OF assms(1), of "ad_plugin ad" s] by simp
  show ?thesis
  proof (cases "rv = 0 \<and> ad_state ad = NEU_NODE_RUNNING_STATE_INIT")
    case True
    define ad1 where
      "ad1 = set_state NEU_NODE_RUNNING_STATE_READY ((set_plugin p ad)\<lparr>ad_setting := Some s\<rparr>)"
    have "lifecycle_ok sync kept running ad1" "plugin_tracks (ad_intf ad1) running"
      using assms run True by (auto simp: ad1_def lifecycle_ok_def)
    from lifecycle_start [OF this(2,1)] show ?thesis
      using True by (simp add: neu_adapter_set_setting_def set ad1_def)
  next
    case False
    then show ?thesis
      using assms(2) run by (auto simp: neu_adapter_set_setting_def set lifecycle_ok_def Let_def)
  qed
qed

lemma loop_keeps:
  assumes "adapter_loop snd_rv pw log now us ad m = Some ad'" "handles_null ad"
  shows "keeps_handles ad ad'"
  using adapter_loop_cases [OF assms]
proof (elim disjE exE)
  fix s assume "same_life (snd (neu_adapter_set_setting ad s)) ad'"
  then show ?thesis unfolding same_life_def by (blast intro: keeps_trans life_cycle_keeps(3))
next
  fix ctl assume "same_life (snd (node_ctl ctl ad)) ad'"
  then show ?thesis unfolding same_life_def by (blast intro: keeps_trans node_ctl_keeps)
qed (auto simp: driver_effect_def)

lemma send_keeps:
  "adapter_command snd_rv ad h d = Some (r, ad') \<Longrightarrow> same_node ad ad'"
  "adapter_response snd_rv ad h d = Some (r, ad') \<Longrightarrow> same_node ad ad'"
  by (auto simp: adapter_command_def adapter_response_def nng_sendmsg_def same_node_def Let_def
      split: bind_splits if_splits)

lemma step_keeps: "adapter_step ad ad' \<Longrightarrow> handles_null ad \<Longrightarrow> keeps_handles ad ad'"
  by (induction rule: adapter_step.induct)
     (auto dest: send_keeps same_keeps intro: loop_keeps simp: stop_plugin_def split: prod.splits)

lemma step_lifecycle:
  assumes "adapter_step ad ad'" "handles_null ad" "plugin_tracks (ad_intf ad) running"
    and "lifecycle_ok sync kept running ad" "ad_type ad \<noteq> NEU_NA_TYPE_DRIVER"
  shows "lifecycle_ok sync kept running ad'"
  using assms
proof (induction rule: adapter_step.induct)
  case (step_request snd_rv pw log now us ad m ad')
  note tracks = \<open>plugin_tracks (ad_intf ad) running\<close> and ok = \<open>lifecycle_ok sync kept running ad\<close>
  have ctl: "lifecycle_ok sync kept running (snd (node_ctl ctl ad))" for ctl
    using lifecycle_start [OF tracks ok] lifecycle_stop [OF tracks ok]
    by (simp add: node_ctl_def split: neu_adapter_ctl_e.split)
  have "lifecycle_ok sync kept running (set_plugin (pf_request (ad_intf ad) (ad_plugin ad) m) ad)"
    using ok by (simp add: lifecycle_ok_def tracksD(6) [OF tracks])
  moreover have "lifecycle_ok sync kept running ad'" if "driver_effect ad ad'"
    using that ok step_request(5) by (simp add: driver_effect_def lifecycle_ok_def)
  ultimately show ?case
    using adapter_loop_cases [OF step_request(1,2)] lifecycle_set_setting [OF tracks ok] ctl
    by (blast intro: lifecycle_same)
next
  case (step_ctl ctl ad)
  then show ?case
    by (simp add: node_ctl_def lifecycle_start lifecycle_stop split: neu_adapter_ctl_e.split)
next
  case (step_message ad msg r p calls)
  with tracksD(7) [OF step_message(3), of "ad_plugin ad" msg] show ?case
    by (simp add: lifecycle_ok_def)
next
  case (step_link l ad)
  then show ?case by (simp add: lifecycle_ok_def tracksD(9))
next
  case (step_no_reload ad ret ad')
  then show ?case
    using tracksD(4) [OF step_no_reload(4), of "ad_plugin ad"]
    by (auto simp: lifecycle_ok_def stop_plugin_def split: prod.splits)
qed (auto simp: lifecycle_set_setting dest: send_keeps same_life intro: lifecycle_same)


text \<open>A start or a stop that succeeds brings state and plugin together again.\<close>

lemma control_lifecycle:
  assumes "node_ctl ctl ad = (0, ad')" "plugin_tracks (ad_intf ad) running"
    and "lifecycle_ok sync kept running ad"
  shows "lifecycle_ok True kept running ad'"
  using assms tracksD(3,4) [OF assms(2), of "ad_plugin ad"]
  by (cases ctl; cases "ad_state ad")
     (auto simp: node_ctl_def neu_adapter_start_def neu_adapter_stop_def lifecycle_ok_def Let_def
       split: prod.splits if_splits)

lemma reload_keeps:
  "keeps_handles ad (reload_node cfg result ad)"
  by (auto simp: keeps_handles_def reload_node_def start_plugin_def reload_config_def stop_plugin_def
      split: prod.split sum.split)

lemma reload_lifecycle:
  assumes "lifecycle_ok sync kept running ad"
  shows "lifecycle_ok False False running (reload_node cfg result ad)"
  using assms
  by (auto simp: lifecycle_ok_def reload_node_def start_plugin_def reload_config_def stop_plugin_def
      split: prod.split sum.split)

text \<open>A created node.\<close>

lemma load_config_frame [simp]:
  "handles_null (load_config_setting lc ad) = handles_null ad"
  "ad_module (load_config_setting lc ad) = ad_module ad"
  by (auto simp: load_config_setting_def handles_null_def Let_def split: option.split prod.split)

lemma load_device_cases:
  assumes "adapter_load_device ld ad = Some (rv, ad')"
  obtains l p where "same_life (set_plugin p (ad\<lparr>ad_device_list := l\<rparr>)) ad'"
    "p = ad_plugin ad \<or> (\<exists>f n ds. pf_add_devices (ad_intf ad) = Some f \<and> p = f (ad_plugin ad) n ds)"
proof (cases "ld (ad_name ad)")
  case (Inl r)
  with assms have "same_life (set_plugin (ad_plugin ad) (ad\<lparr>ad_device_list := ad_device_list ad\<rparr>)) ad'"
    by (simp add: adapter_load_device_def same_life_def keeps_handles_def)
  then show ?thesis by (rule that) simp
next
  case (Inr infos)
  let ?n = "unat (of_nat (length infos) :: u16)"
  from assms Inr obtain ds l where loop: "load_devices_loop ?n infos ([], ad_device_list ad) = Some (ds, l)"
    by (cases "load_devices_loop ?n infos ([], ad_device_list ad)")
       (auto simp: adapter_load_device_def esv_adapter_driver_load_devices_def Let_def)
  note def = adapter_load_device_def esv_adapter_driver_load_devices_def
  show ?thesis
  proof (cases "ad_type ad = NEU_NA_TYPE_ESVDEVICEDRIVER \<and> pf_add_devices (ad_intf ad) \<noteq> None")
    case True
    then obtain f where f: "pf_add_devices (ad_intf ad) = Some f" by auto
    with True assms Inr loop show ?thesis
      by (intro that [of "f (ad_plugin ad) ?n ds" l]) (auto simp: def Let_def same_life_def keeps_handles_def)
  next
    case False
    with assms Inr loop show ?thesis
      by (intro that [of "ad_plugin ad" l])
         (auto simp: def Let_def same_life_def keeps_handles_def split: if_splits)
  qed
qed

lemma create_cases:
  assumes "neu_adapter_create lc ld err name md load = Some (Some ad, e)"
  shows "\<exists>p0 p1 rv. pf_open (md_intf md) = Some p0 \<and> bind_plugin name p0 = Some p1 \<and>
    (adapter_load_device ld (load_config_setting lc (new_adapter name md (snd (pf_init (md_intf md) p1 load))))
       = Some (rv, ad) \<or>
     ad = load_config_setting lc (new_adapter name md (snd (pf_init (md_intf md) p1 load))))"
  using assms
  by (auto simp: neu_adapter_create_def Let_def case_prod_beta split: bind_splits if_splits)

lemma created_frame:
  assumes "neu_adapter_create lc ld err name md load = Some (Some ad, e)"
  shows "handles_null ad \<and> ad_module ad = md"
proof -
  obtain p rv where ad: "adapter_load_device ld (load_config_setting lc (new_adapter name md p)) = Some (rv, ad)
      \<or> ad = load_config_setting lc (new_adapter name md p)"
    using create_cases [OF assms] by metis
  have "handles_null (new_adapter name md p)" "ad_module (new_adapter name md p) = md"
    by (simp_all add: handles_null_def new_adapter_def)
  then have base: "handles_null (load_config_setting lc (new_adapter name md p)) \<and>
      ad_module (load_config_setting lc (new_adapter name md p)) = md" by simp
  from ad show ?thesis
  proof
    assume "adapter_load_device ld (load_config_setting lc (new_adapter name md p)) = Some (rv, ad)"
    then have "keeps_handles (load_config_setting lc (new_adapter name md p)) ad"
      by (rule load_device_cases) (simp add: same_life_def keeps_handles_def)
    with base handles_null_keeps [OF _ this] show ?thesis by (simp add: keeps_handles_def)
  qed (use base in simp)
qed

lemma lifecycle_load_config:
  assumes "plugin_tracks (ad_intf ad) running" "\<not> running (ad_plugin ad)"
    and "ad_state ad = NEU_NODE_RUNNING_STATE_INIT" "ad_setting ad = None"
  shows "lifecycle_ok sync kept running (load_config_setting lc ad)"
  using assms tracksD(5) [OF assms(1), of "ad_plugin ad"]
  by (auto simp: load_config_setting_def lifecycle_ok_def Let_def
      split: option.split prod.split) (metis prod.sel(2))+

lemma created_lifecycle:
  assumes "neu_adapter_create lc ld err name md load = Some (Some ad, e)"
    and "plugin_tracks (md_intf md) running"
  shows "lifecycle_ok sync kept running ad"
proof -
  obtain p0 p1 rv where open_plugin: "pf_open (md_intf md) = Some p0" "bind_plugin name p0 = Some p1" and
    ad: "adapter_load_device ld (load_config_setting lc (new_adapter name md (snd (pf_init (md_intf md) p1 load))))
       = Some (rv, ad) \<or>
     ad = load_config_setting lc (new_adapter name md (snd (pf_init (md_intf md) p1 load)))"
    using create_cases [OF assms(1)] by metis
  define ad0 where "ad0 = new_adapter name md (snd (pf_init (md_intf md) p1 load))"
  have ad0: "ad_module ad0 = md" "ad_plugin ad0 = snd (pf_init (md_intf md) p1 load)"
    "ad_state ad0 = NEU_NODE_RUNNING_STATE_INIT" "ad_setting ad0 = None"
    by (simp_all add: ad0_def new_adapter_def neu_adapter_driver_create_def)
  have "running p1 = running p0"
    using open_plugin(2) assms(2)
    by (auto simp: bind_plugin_def tracksD(9,10) split: if_splits)
  then have "\<not> running (ad_plugin ad0)"
    using tracksD(1) [OF assms(2) open_plugin(1)] tracksD(2) [OF assms(2)] by (simp add: ad0)
  then have ok: "lifecycle_ok sync kept running (load_config_setting lc ad0)"
    using assms(2) by (intro lifecycle_load_config) (simp_all add: ad0)
  from ad [folded ad0_def] show ?thesis
  proof
    assume "adapter_load_device ld (load_config_setting lc ad0) = Some (rv, ad)"
    then obtain l p where
      life: "same_life (set_plugin p ((load_config_setting lc ad0)\<lparr>ad_device_list := l\<rparr>)) ad" and
      p: "p = ad_plugin (load_config_setting lc ad0) \<or>
        (\<exists>f n ds. pf_add_devices (md_intf md) = Some f \<and> p = f (ad_plugin (load_config_setting lc ad0)) n ds)"
      by (rule load_device_cases) (simp add: ad0)
    have "running p = running (ad_plugin (load_config_setting lc ad0))"
      using p tracksD(8) [OF assms(2)] by auto
    with ok have "lifecycle_ok sync kept running (set_plugin p ((load_config_setting lc ad0)\<lparr>ad_device_list := l\<rparr>))"
      by (simp add: lifecycle_ok_def)
    with life show ?thesis by (rule lifecycle_same)
  qed (use ok in simp)
qed

lemma reachable_frame:
  assumes "adapter_reachable lc ld md ad"
  shows "handles_null ad \<and> ad_module ad = md"
  using assms
proof induction
  case (stepped ad ad')
  with step_keeps [OF stepped(2)] show ?case
    by (auto intro: handles_null_keeps simp: keeps_handles_def)
next
  case (reloaded ad cfg result)
  with reload_keeps [of ad cfg result] show ?case
    by (auto intro: handles_null_keeps simp: keeps_handles_def)
qed (use created_frame in blast)

lemma run_frame:
  "adapter_run lc ld md sync kept ad \<Longrightarrow> handles_null ad \<and> ad_module ad = md"
  using reachable_frame reachable_run by blast

lemma run_lifecycle:
  assumes "adapter_run lc ld md sync kept ad" "plugin_tracks (md_intf md) running"
    and "md_type md \<noteq> NEU_NA_TYPE_DRIVER"
  shows "lifecycle_ok sync kept running ad"
  using assms
proof induction
  case (run_stepped sync kept ad ad')
  with run_frame [OF run_stepped(1)] show ?case by (auto intro: step_lifecycle)
next
  case (run_reloaded sync kept ad cfg result)
  then show ?case by (blast intro: reload_lifecycle)
next
  case (run_controlled sync kept ad ctl ad')
  with run_frame [OF run_controlled(1)] show ?case by (auto intro: control_lifecycle)
qed (use created_lifecycle in blast)

end
