(* ===== verification/Nodes.thy ===== *)
theory Nodes
  imports AdapterLaws
begin

text \<open>
  The table of nodes (\<open>src/core/node_manager.c\<close>): which adapter carries which name, and how
  it is shown.

  An adapter is shared by pointer between this table, the caches of the manager and the
  callbacks: \<open>ne_adapter\<close> is an address in the list of all adapters, the heap \<open>h\<close>, and
  every read of an adapter goes through it.  Reading a bad address or writing a name that
  does not fit its buffer is \<open>None\<close>.  Adding a name that is there already makes a second entry
  with the same key, of which a lookup finds one or the other: that is \<open>None\<close> too.
\<close>

definition NEU_PLUGIN_NAME_LEN :: nat where "NEU_PLUGIN_NAME_LEN = 128"

record node_entity =
  ne_adapter :: nat
  ne_is_static :: bool
  ne_display :: bool
  ne_single :: bool
  ne_pipe :: u32

type_synonym neu_node_manager = "(string, node_entity) uthash"

definition heap_at :: "'p adapter list \<Rightarrow> nat \<Rightarrow> 'p adapter option" where
  "heap_at h i = (if i < length h then Some (h ! i) else None)"

definition neu_node_manager_create :: neu_node_manager where
  "neu_node_manager_create = []"

section \<open>Adding and changing entries\<close>

definition add_entity :: "neu_node_manager \<Rightarrow> string \<Rightarrow> node_entity \<Rightarrow> neu_node_manager option" where
  "add_entity mgr name e = (if hash_find mgr name = None then Some (hash_add mgr name e) else None)"

definition neu_node_manager_add ::
  "'p adapter list \<Rightarrow> neu_node_manager \<Rightarrow> nat \<Rightarrow> (int \<times> neu_node_manager) option" where
  "neu_node_manager_add h mgr i = do {
     ad \<leftarrow> heap_at h i;
     mgr' \<leftarrow> add_entity mgr (ad_name ad)
               \<lparr>ne_adapter = i, ne_is_static = False, ne_display = True, ne_single = False, ne_pipe = 0\<rparr>;
     Some (0, mgr')
   }"

definition neu_node_manager_add_static ::
  "'p adapter list \<Rightarrow> neu_node_manager \<Rightarrow> nat \<Rightarrow> (int \<times> neu_node_manager) option" where
  "neu_node_manager_add_static h mgr i = do {
     ad \<leftarrow> heap_at h i;
     mgr' \<leftarrow> add_entity mgr (ad_name ad)
               \<lparr>ne_adapter = i, ne_is_static = True, ne_display = True, ne_single = False, ne_pipe = 0\<rparr>;
     Some (0, mgr')
   }"

definition neu_node_manager_add_single ::
  "'p adapter list \<Rightarrow> neu_node_manager \<Rightarrow> nat \<Rightarrow> bool \<Rightarrow> (int \<times> neu_node_manager) option" where
  "neu_node_manager_add_single h mgr i display = do {
     ad \<leftarrow> heap_at h i;
     mgr' \<leftarrow> add_entity mgr (ad_name ad)
               \<lparr>ne_adapter = i, ne_is_static = False, ne_display = display, ne_single = True, ne_pipe = 0\<rparr>;
     Some (0, mgr')
   }"

definition neu_node_manager_update_name ::
  "neu_node_manager \<Rightarrow> string \<Rightarrow> string \<Rightarrow> (int \<times> neu_node_manager) option" where
  "neu_node_manager_update_name mgr node_name new_node_name =
     (case hash_find mgr node_name of
        None \<Rightarrow> Some (NEU_ERR_NODE_NOT_EXIST, mgr)
      | Some e \<Rightarrow>
          map_option (Pair 0) (add_entity (hash_del mgr node_name) new_node_name e))"

definition neu_node_manager_update ::
  "neu_node_manager \<Rightarrow> string \<Rightarrow> u32 \<Rightarrow> int \<times> neu_node_manager" where
  "neu_node_manager_update mgr name pipe =
     (case hash_find mgr name of
        None \<Rightarrow> (-1, mgr)
      | Some e \<Rightarrow> (0, hash_set mgr name (e\<lparr>ne_pipe := pipe\<rparr>)))"

definition neu_node_manager_del :: "neu_node_manager \<Rightarrow> string \<Rightarrow> neu_node_manager" where
  "neu_node_manager_del mgr name =
     (case hash_find mgr name of None \<Rightarrow> mgr | Some _ \<Rightarrow> hash_del mgr name)"

section \<open>Queries\<close>

definition neu_node_manager_size :: "neu_node_manager \<Rightarrow> u16" where
  "neu_node_manager_size mgr = of_nat (length mgr)"

definition neu_node_manager_exist_uninit :: "neu_node_manager \<Rightarrow> bool" where
  "neu_node_manager_exist_uninit mgr \<longleftrightarrow> (\<exists>e\<in>set (hash_vals mgr). ne_pipe e = 0)"

definition neu_node_manager_find :: "neu_node_manager \<Rightarrow> string \<Rightarrow> nat option" where
  "neu_node_manager_find mgr name = map_option ne_adapter (hash_find mgr name)"

definition neu_node_manager_is_single :: "neu_node_manager \<Rightarrow> string \<Rightarrow> bool" where
  "neu_node_manager_is_single mgr name =
     (case hash_find mgr name of None \<Rightarrow> False | Some e \<Rightarrow> ne_single e)"

definition neu_node_manager_is_driver ::
  "'p adapter list \<Rightarrow> neu_node_manager \<Rightarrow> string \<Rightarrow> bool option" where
  "neu_node_manager_is_driver h mgr name =
     (case hash_find mgr name of
        None \<Rightarrow> Some False
      | Some e \<Rightarrow> map_option (\<lambda>ad. ad_type ad = NEU_NA_TYPE_DRIVER) (heap_at h (ne_adapter e)))"

definition neu_node_manager_get_pipe :: "neu_node_manager \<Rightarrow> string \<Rightarrow> u32" where
  "neu_node_manager_get_pipe mgr name =
     (case hash_find mgr name of None \<Rightarrow> 0 | Some e \<Rightarrow> ne_pipe e)"

text \<open>
  The loop of the lists below over the entries that pass the test on their own fields:
  \<open>sel\<close> is its test on the adapter and \<open>f\<close> what it pushes.
\<close>

fun collect ::
  "'p adapter list \<Rightarrow> ('p adapter \<Rightarrow> bool) \<Rightarrow> (node_entity \<Rightarrow> 'p adapter \<Rightarrow> 'b option) \<Rightarrow>
    node_entity list \<Rightarrow> 'b list option" where
  "collect h sel f [] = Some []"
| "collect h sel f (e # es) = do {
     ad \<leftarrow> heap_at h (ne_adapter e);
     x \<leftarrow> (if sel ad then map_option (\<lambda>b. [b]) (f e ad) else Some []);
     xs \<leftarrow> collect h sel f es;
     Some (x @ xs)
   }"

definition shown :: "neu_node_manager \<Rightarrow> node_entity list" where
  "shown mgr = [e \<leftarrow> hash_vals mgr. \<not> ne_is_static e \<and> ne_display e]"

definition type_in :: "u32 \<Rightarrow> 'p adapter \<Rightarrow> bool" where
  "type_in type ad \<longleftrightarrow> node_type_code (ad_type ad) AND type \<noteq> 0"

text \<open>A \<open>neu_resp_node_info_t\<close>: the names of a node and of its plugin.\<close>

definition node_info :: "node_entity \<Rightarrow> 'p adapter \<Rightarrow> (string \<times> string) option" where
  "node_info e ad =
     (if length (ad_name ad) < NEU_NODE_NAME_LEN \<and>
         length (md_module_name (ad_module ad)) < NEU_PLUGIN_NAME_LEN
      then Some (ad_name ad, md_module_name (ad_module ad)) else None)"

definition neu_node_manager_get ::
  "'p adapter list \<Rightarrow> neu_node_manager \<Rightarrow> u32 \<Rightarrow> (string \<times> string) list option" where
  "neu_node_manager_get h mgr type = collect h (type_in type) node_info (shown mgr)"

definition neu_node_manager_filter ::
  "'p adapter list \<Rightarrow> neu_node_manager \<Rightarrow> u32 \<Rightarrow> string \<Rightarrow> string \<Rightarrow> (string \<times> string) list option" where
  "neu_node_manager_filter h mgr type plugin node =
     collect h
       (\<lambda>ad. type_in type ad \<and>
             \<not> (0 < length plugin \<and> md_module_name (ad_module ad) \<noteq> plugin) \<and>
             \<not> (0 < length node \<and> strstr (ad_name ad) node = None))
       node_info (shown mgr)"

definition neu_node_manager_get_all ::
  "'p adapter list \<Rightarrow> neu_node_manager \<Rightarrow> (string \<times> string) list option" where
  "neu_node_manager_get_all h mgr = collect h (\<lambda>_. True) node_info (hash_vals mgr)"

definition neu_node_manager_get_adapter ::
  "'p adapter list \<Rightarrow> neu_node_manager \<Rightarrow> neu_node_type_e \<Rightarrow> nat list option" where
  "neu_node_manager_get_adapter h mgr type =
     collect h (\<lambda>ad. ad_type ad = type) (\<lambda>e ad. Some (ne_adapter e)) (shown mgr)"

definition neu_node_manager_get_pipes ::
  "'p adapter list \<Rightarrow> neu_node_manager \<Rightarrow> u32 \<Rightarrow> u32 list option" where
  "neu_node_manager_get_pipes h mgr type =
     collect h (type_in type) (\<lambda>e ad. Some (ne_pipe e)) [e \<leftarrow> hash_vals mgr. \<not> ne_is_static e]"

definition neu_node_manager_get_pipes_all :: "neu_node_manager \<Rightarrow> u32 list" where
  "neu_node_manager_get_pipes_all mgr = map ne_pipe (hash_vals mgr)"

text \<open>A \<open>neu_nodes_state_t\<close>; without metrics the round trip time is 0.\<close>

record neu_nodes_state_t =
  ns_node :: string
  ns_running :: neu_node_running_state_e
  ns_link :: neu_node_link_state_e
  ns_rtt :: u16

definition node_state :: "node_entity \<Rightarrow> 'p adapter \<Rightarrow> neu_nodes_state_t option" where
  "node_state e ad =
     (if length (ad_name ad) < NEU_NODE_NAME_LEN
      then Some \<lparr>ns_node = ad_name ad, ns_running = ad_state ad,
                 ns_link = pc_link_state (ad_plugin ad), ns_rtt = 0\<rparr>
      else None)"

definition neu_node_manager_get_state ::
  "'p adapter list \<Rightarrow> neu_node_manager \<Rightarrow> neu_nodes_state_t list option" where
  "neu_node_manager_get_state h mgr = collect h (\<lambda>_. True) node_state (shown mgr)"

section \<open>Laws\<close>

text \<open>
  The invariant of the table: names are distinct and fit, and every entry leads to an adapter
  of its name.
\<close>

definition names_fit :: "'p adapter \<Rightarrow> bool" where
  "names_fit ad \<longleftrightarrow> length (ad_name ad) < NEU_NODE_NAME_LEN \<and>
     length (md_module_name (ad_module ad)) < NEU_PLUGIN_NAME_LEN"

definition nodes_ok :: "'p adapter list \<Rightarrow> neu_node_manager \<Rightarrow> bool" where
  "nodes_ok h mgr \<longleftrightarrow> hash_wf mgr \<and>
     (\<forall>(name, e)\<in>set mgr. ne_adapter e < length h \<and> ad_name (h ! ne_adapter e) = name \<and>
        names_fit (h ! ne_adapter e))"

lemma strstr_None: "strstr s n = None \<longleftrightarrow> \<not> sublist n s"
  using strstr_sublist [of s n] by auto

lemma heap_at_Some: "heap_at h i = Some ad \<longleftrightarrow> i < length h \<and> ad = h ! i"
  by (auto simp: heap_at_def)

lemma collect_ok:
  assumes "\<forall>e\<in>set es. ne_adapter e < length h"
    and "\<forall>e\<in>set es. sel (h ! ne_adapter e) \<longrightarrow> f e (h ! ne_adapter e) = Some (g e (h ! ne_adapter e))"
  shows "collect h sel f es =
    Some (map (\<lambda>e. g e (h ! ne_adapter e)) [e \<leftarrow> es. sel (h ! ne_adapter e)])"
  using assms by (induction es) (auto simp: heap_at_def)

lemma nodes_ok_entity:
  assumes "nodes_ok h mgr" "e \<in> set (hash_vals mgr)"
  shows "ne_adapter e < length h" "names_fit (h ! ne_adapter e)"
  using assms by (auto simp: nodes_ok_def hash_vals_def)

lemma shown_subset: "set (shown mgr) \<subseteq> set (hash_vals mgr)"
  by (auto simp: shown_def)

lemma nodes_ok_find:
  assumes "nodes_ok h mgr" "neu_node_manager_find mgr name = Some i"
  shows "i < length h" "ad_name (h ! i) = name" "names_fit (h ! i)"
  using assms by (auto simp: nodes_ok_def neu_node_manager_find_def dest!: hash_find_in_set)

lemma get_adapter_ok:
  "nodes_ok h mgr \<Longrightarrow>
    neu_node_manager_get_adapter h mgr ty =
      Some (map ne_adapter [e \<leftarrow> shown mgr. ad_type (h ! ne_adapter e) = ty])"
  using shown_subset [of mgr] unfolding neu_node_manager_get_adapter_def
  by (subst collect_ok [where g = "\<lambda>e ad. ne_adapter e"])
     (auto dest: nodes_ok_entity subsetD)

lemma filter_ok:
  "nodes_ok h mgr \<Longrightarrow>
    neu_node_manager_filter h mgr type plugin node =
      Some (map (\<lambda>e. (ad_name (h ! ne_adapter e), md_module_name (ad_module (h ! ne_adapter e))))
        [e \<leftarrow> shown mgr. type_in type (h ! ne_adapter e) \<and>
          (plugin = [] \<or> md_module_name (ad_module (h ! ne_adapter e)) = plugin) \<and>
          sublist node (ad_name (h ! ne_adapter e))])"
proof -
  assume ok: "nodes_ok h mgr"
  have sel: "(\<lambda>ad. type_in type ad \<and> \<not> (0 < length plugin \<and> md_module_name (ad_module ad) \<noteq> plugin) \<and>
      \<not> (0 < length node \<and> strstr (ad_name ad) node = None)) =
    (\<lambda>ad. type_in type ad \<and> (plugin = [] \<or> md_module_name (ad_module ad) = plugin) \<and>
      sublist node (ad_name ad))"
    by (auto simp: fun_eq_iff strstr_None)
  show ?thesis
    using shown_subset [of mgr] ok unfolding neu_node_manager_filter_def sel
    by (subst collect_ok [where g = "\<lambda>e ad. (ad_name ad, md_module_name (ad_module ad))"])
       (auto simp: node_info_def names_fit_def dest: nodes_ok_entity subsetD)
qed

lemma nodes_ok_add:
  assumes "nodes_ok h mgr" "names_fit ad" "hash_find mgr (ad_name ad) = None"
  shows "\<exists>mgr'. neu_node_manager_add (h @ [ad]) mgr (length h) = Some (0, mgr') \<and>
    nodes_ok (h @ [ad]) mgr' \<and> hash_keys mgr' = hash_keys mgr @ [ad_name ad]"
  using assms
  by (auto simp: neu_node_manager_add_def heap_at_def add_entity_def nodes_ok_def nth_append
      hash_add_def hash_wf_def hash_keys_def)

lemma nodes_ok_heap:
  assumes "nodes_ok h mgr" "ad_name ad = ad_name (h ! i)" "ad_module ad = ad_module (h ! i)"
  shows "nodes_ok (h[i := ad]) mgr"
proof -
  have "ad_name (h[i := ad] ! j) = ad_name (h ! j) \<and> ad_module (h[i := ad] ! j) = ad_module (h ! j)"
    if "j < length h" for j
    using that assms(2,3) by (cases "i = j") simp_all
  with assms(1) show ?thesis by (auto simp: nodes_ok_def names_fit_def)
qed

end
