(* ===== verification/Plugins.thy ===== *)
theory Plugins
  imports Nodes
begin

text \<open>
  The table of plugins (\<open>src/core/plugin_manager.c\<close>): which shared libraries are known, by
  the name of the module they define.

  What \<open>dlopen\<close> and \<open>dlsym\<close> find is the parameter \<open>dl\<close>: for a path, \<open>None\<close> when the library
  does not open, \<open>Some None\<close> when it has no symbol \<open>neu_plugin_module\<close>, and the module
  otherwise.  A text that does not fit its buffer in a \<open>neu_resp_plugin_info_t\<close>, where
  \<open>strncpy\<close> leaves it without its NUL, is \<open>None\<close>; so is a failed assertion.
\<close>

definition NEU_PLUGIN_LIBRARY_LEN :: nat where "NEU_PLUGIN_LIBRARY_LEN = 128"
definition NEU_PLUGIN_DESCRIPTION_LEN :: nat where "NEU_PLUGIN_DESCRIPTION_LEN = 512"

type_synonym 'p dl = "string \<Rightarrow> 'p neu_plugin_module_t option option"

record plugin_entity =
  pe_schema :: string
  pe_lib_name :: string
  pe_description :: string
  pe_description_zh :: string
  pe_kind :: neu_plugin_kind_e
  pe_type :: neu_node_type_e
  pe_display :: bool
  pe_single :: bool
  pe_single_name :: "string option"

type_synonym neu_plugin_manager = "(string, plugin_entity) uthash"

definition neu_plugin_manager_create :: neu_plugin_manager where
  "neu_plugin_manager_create = []"

section \<open>Adding and deleting plugins\<close>

definition plugin_types_allowed :: "neu_node_type_e list" where
  "plugin_types_allowed =
     [NEU_NA_TYPE_ESVDEVICEDRIVER, NEU_NA_TYPE_ESVAPP, NEU_NA_TYPE_ESVSELFDEVICEDRIVER]"

definition new_entity :: "string \<Rightarrow> 'p neu_plugin_module_t \<Rightarrow> plugin_entity" where
  "new_entity lib pm =
     \<lparr>pe_schema = md_schema pm, pe_lib_name = lib, pe_description = md_module_descr pm,
      pe_description_zh = md_module_descr_zh pm, pe_kind = md_kind pm, pe_type = md_type pm,
      pe_display = md_display pm, pe_single = md_single pm,
      pe_single_name = (if md_single pm then Some (md_single_name pm) else None)\<rparr>"

definition neu_plugin_manager_add ::
  "'p dl \<Rightarrow> neu_plugin_manager \<Rightarrow> string \<Rightarrow> (int \<times> neu_plugin_manager) option" where
  "neu_plugin_manager_add dl mgr lib =
     (if \<not> length lib \<le> NEU_PLUGIN_LIBRARY_LEN then None
      else Some
        (case dl (take 254 (''./plugins/'' @ lib)) of
           None \<Rightarrow> (NEU_ERR_LIBRARY_FAILED_TO_OPEN, mgr)
         | Some None \<Rightarrow> (NEU_ERR_LIBRARY_MODULE_INVALID, mgr)
         | Some (Some pm) \<Rightarrow>
             if md_kind pm \<noteq> NEU_PLUGIN_KIND_CUSTOM \<and> md_kind pm \<noteq> NEU_PLUGIN_KIND_SYSTEM
             then (NEU_ERR_LIBRARY_INFO_INVALID, mgr)
             else if md_type pm \<notin> set plugin_types_allowed
             then (NEU_ERR_LIBRARY_INFO_INVALID, mgr)
             else if hash_find mgr (md_module_name pm) \<noteq> None
             then (NEU_ERR_LIBRARY_NAME_CONFLICT, mgr)
             else (NEU_ERR_SUCCESS, hash_add mgr (md_module_name pm) (new_entity lib pm))))"

definition neu_plugin_manager_del :: "neu_plugin_manager \<Rightarrow> string \<Rightarrow> int \<times> neu_plugin_manager" where
  "neu_plugin_manager_del mgr name =
     (case hash_find mgr name of
        None \<Rightarrow> (NEU_ERR_LIBRARY_SYSTEM_NOT_ALLOW_DEL, mgr)
      | Some pe \<Rightarrow>
          if pe_kind pe \<noteq> NEU_PLUGIN_KIND_SYSTEM then (NEU_ERR_SUCCESS, hash_del mgr name)
          else (NEU_ERR_LIBRARY_SYSTEM_NOT_ALLOW_DEL, mgr))"

section \<open>Queries\<close>

record neu_resp_plugin_info_t =
  pi_schema :: string
  pi_name :: string
  pi_description :: string
  pi_description_zh :: string
  pi_library :: string
  pi_kind :: neu_plugin_kind_e
  pi_type :: neu_node_type_e
  pi_single :: bool
  pi_display :: bool
  pi_single_name :: string

definition strncpy_fits :: "nat \<Rightarrow> string \<Rightarrow> bool" where
  "strncpy_fits n s \<longleftrightarrow> length s < n"

definition plugin_info :: "string \<times> plugin_entity \<Rightarrow> neu_resp_plugin_info_t option" where
  "plugin_info = (\<lambda>(name, pe).
     if strncpy_fits NEU_PLUGIN_NAME_LEN (pe_schema pe) \<and> strncpy_fits NEU_PLUGIN_NAME_LEN name \<and>
        strncpy_fits NEU_PLUGIN_LIBRARY_LEN (pe_lib_name pe) \<and>
        strncpy_fits NEU_PLUGIN_DESCRIPTION_LEN (pe_description pe) \<and>
        strncpy_fits NEU_PLUGIN_DESCRIPTION_LEN (pe_description_zh pe)
     then Some \<lparr>pi_schema = pe_schema pe, pi_name = name, pi_description = pe_description pe,
                pi_description_zh = pe_description_zh pe, pi_library = pe_lib_name pe,
                pi_kind = pe_kind pe, pi_type = pe_type pe, pi_single = False,
                pi_display = pe_display pe, pi_single_name = []\<rparr>
     else None)"

definition neu_plugin_manager_get :: "neu_plugin_manager \<Rightarrow> neu_resp_plugin_info_t list option" where
  "neu_plugin_manager_get mgr = those (map plugin_info [x \<leftarrow> mgr. \<not> pe_single (snd x)])"

definition single_info :: "string \<times> plugin_entity \<Rightarrow> neu_resp_plugin_info_t option" where
  "single_info x = do {
     pi \<leftarrow> plugin_info x;
     single_name \<leftarrow> pe_single_name (snd x);
     if strncpy_fits NEU_NODE_NAME_LEN single_name
     then Some (pi\<lparr>pi_single := pe_single (snd x), pi_single_name := single_name\<rparr>) else None
   }"

definition neu_plugin_manager_get_single ::
  "neu_plugin_manager \<Rightarrow> neu_resp_plugin_info_t list option" where
  "neu_plugin_manager_get_single mgr = those (map single_info [x \<leftarrow> mgr. pe_single (snd x)])"

text \<open>\<open>find\<close> leaves the schema and the Chinese description of \<open>info\<close> as they are.\<close>

definition neu_plugin_manager_find ::
  "neu_plugin_manager \<Rightarrow> string \<Rightarrow> neu_resp_plugin_info_t \<Rightarrow> (int \<times> neu_resp_plugin_info_t) option" where
  "neu_plugin_manager_find mgr name info =
     (case hash_find mgr name of
        None \<Rightarrow> Some (-1, info)
      | Some pe \<Rightarrow>
          if (case pe_single_name pe of None \<Rightarrow> True | Some s \<Rightarrow> length s < NEU_NODE_NAME_LEN) \<and>
             strncpy_fits NEU_PLUGIN_NAME_LEN name \<and>
             strncpy_fits NEU_PLUGIN_LIBRARY_LEN (pe_lib_name pe) \<and>
             strncpy_fits NEU_PLUGIN_DESCRIPTION_LEN (pe_description pe)
          then Some (0, info\<lparr>pi_single := pe_single pe, pi_display := pe_display pe,
                             pi_type := pe_type pe, pi_kind := pe_kind pe,
                             pi_single_name := (case pe_single_name pe of
                                                  None \<Rightarrow> pi_single_name info | Some s \<Rightarrow> s),
                             pi_name := name, pi_library := pe_lib_name pe,
                             pi_description := pe_description pe\<rparr>)
          else None)"

definition neu_plugin_manager_exists :: "neu_plugin_manager \<Rightarrow> string \<Rightarrow> bool" where
  "neu_plugin_manager_exists mgr name \<longleftrightarrow> hash_find mgr name \<noteq> None"

definition neu_plugin_manager_is_single :: "neu_plugin_manager \<Rightarrow> string \<Rightarrow> bool" where
  "neu_plugin_manager_is_single mgr name =
     (case hash_find mgr name of None \<Rightarrow> False | Some pe \<Rightarrow> pe_single pe)"

text \<open>The module of a new instance; \<open>Inl\<close> is the error \<open>-1\<close>.\<close>

definition neu_plugin_manager_create_instance ::
  "'p dl \<Rightarrow> string \<Rightarrow> neu_plugin_manager \<Rightarrow> string \<Rightarrow> (int + 'p neu_plugin_module_t) option" where
  "neu_plugin_manager_create_instance dl g_plugin_dir mgr name =
     (case hash_find mgr name of
        None \<Rightarrow> Some (Inl (-1))
      | Some pe \<Rightarrow>
          (case dl (take 254 (g_plugin_dir @ ''/'' @ pe_lib_name pe)) of
             Some (Some pm) \<Rightarrow> Some (Inr pm)
           | _ \<Rightarrow> None))"

section \<open>Laws\<close>

definition plugin_entity_ok :: "plugin_entity \<Rightarrow> bool" where
  "plugin_entity_ok pe \<longleftrightarrow> pe_kind pe \<noteq> NEU_PLUGIN_KIND_STATIC \<and>
     pe_type pe \<in> set plugin_types_allowed \<and> (pe_single pe \<longleftrightarrow> pe_single_name pe \<noteq> None)"

definition plugins_ok :: "neu_plugin_manager \<Rightarrow> bool" where
  "plugins_ok mgr \<longleftrightarrow> hash_wf mgr \<and> (\<forall>pe\<in>set (hash_vals mgr). plugin_entity_ok pe)"

lemma plugins_ok_create [simp]: "plugins_ok neu_plugin_manager_create"
  by (simp add: plugins_ok_def neu_plugin_manager_create_def hash_vals_def)

lemma plugin_kind_not_static:
  "k \<noteq> NEU_PLUGIN_KIND_STATIC \<longleftrightarrow> k = NEU_PLUGIN_KIND_CUSTOM \<or> k = NEU_PLUGIN_KIND_SYSTEM"
  by (cases k) auto

lemma new_entity_ok:
  "plugin_entity_ok (new_entity lib pm) \<longleftrightarrow>
    md_kind pm \<noteq> NEU_PLUGIN_KIND_STATIC \<and> md_type pm \<in> set plugin_types_allowed"
  by (simp add: plugin_entity_ok_def new_entity_def)

lemma plugins_ok_add:
  "plugins_ok mgr \<Longrightarrow> neu_plugin_manager_add dl mgr lib = Some (r, mgr') \<Longrightarrow> plugins_ok mgr'"
  by (auto simp: plugins_ok_def neu_plugin_manager_add_def new_entity_ok plugin_kind_not_static
      simp del: append.simps split: if_splits option.splits)

lemma plugins_ok_del: "plugins_ok mgr \<Longrightarrow> plugins_ok (snd (neu_plugin_manager_del mgr name))"
  using set_hash_del [of mgr name]
  by (fastforce simp: plugins_ok_def neu_plugin_manager_del_def hash_vals_def split: option.split)

lemma plugin_add_result:
  assumes "neu_plugin_manager_add dl mgr lib = Some (r, mgr')"
  shows "(r = NEU_ERR_SUCCESS \<longleftrightarrow> (\<exists>pm. dl (''./plugins/'' @ lib) = Some (Some pm) \<and>
            md_kind pm \<noteq> NEU_PLUGIN_KIND_STATIC \<and> md_type pm \<in> set plugin_types_allowed \<and>
            hash_find mgr (md_module_name pm) = None)) \<and>
    (r \<noteq> NEU_ERR_SUCCESS \<longrightarrow> mgr' = mgr) \<and>
    (r = NEU_ERR_SUCCESS \<longrightarrow> (\<forall>pm. dl (''./plugins/'' @ lib) = Some (Some pm) \<longrightarrow>
       hash_find mgr' = (hash_find mgr)(md_module_name pm \<mapsto> new_entity lib pm)))"
proof -
  have path: "take 254 (''./plugins/'' @ lib) = ''./plugins/'' @ lib"
    using assms by (simp add: neu_plugin_manager_add_def NEU_PLUGIN_LIBRARY_LEN_def split: if_splits)
  show ?thesis
    using assms unfolding neu_plugin_manager_add_def path
    by (auto simp: plugin_kind_not_static hash_find_add simp del: append.simps
        split: if_splits option.splits)
qed

end
