(* ===== verification/Persist.thy ===== *)
theory Persist
  imports Device "HOL-Library.Monad_Syntax"
begin

text \<open>
  What the program reads from its database (the \<open>esv_\<close> functions of
  \<open>src/persist/persist.c\<close> and \<open>src/sql/sql_handle.c\<close>).

  SQLite is not part of the repository.  The database is the record \<open>thing_db\<close>: the rows of
  the tables in the order a query visits them, a NULL column being \<open>None\<close>, and for each query
  whether it can be prepared and bound (\<open>db_prepares\<close>) and after how many rows a step fails, if
  one does (\<open>db_steps\<close>).  The \<open>WHERE\<close> clauses of the queries are tests on the rows; a comparison
  with NULL does not hold.  \<open>strdup\<close> of a NULL column is a crash, \<open>None\<close>.

  The node ids that \<open>select_plugin_node\<close> asks for come from another connection, whose answer
  to a text of SQL is the parameter \<open>exec\<close>: the name is pasted into the text unquoted.
\<close>

section \<open>The database\<close>

record plugin_node_row =
  pn_node_id :: "string option"
  pn_node_name :: "string option"
  pn_plugin_name :: "string option"
  pn_lib_name :: "string option"
  pn_node_type :: int
  pn_install_type :: int
  pn_node_config :: "string option"
  pn_node_config_index :: int
  pn_state :: int

record thing_device_row =
  td_plugin_node_id :: "string option"
  td_product_key :: "string option"
  td_device_name :: "string option"
  td_device_secret :: "string option"
  td_device_config :: "string option"

record plugin_lib_row =
  pl_lib_name :: "string option"
  pl_node_type :: int

datatype esv_query =
    Q_normal_nodes | Q_node_config | Q_devices | Q_device_node_name | Q_names_by_type
  | Q_name_by_id | Q_normal_plugins

record thing_db =
  db_plugin_node :: "plugin_node_row list"
  db_thing_device :: "thing_device_row list"
  db_plugin_lib :: "plugin_lib_row list"
  db_prepares :: "esv_query \<Rightarrow> bool"
  db_steps :: "esv_query \<Rightarrow> nat option"

text \<open>The rows the steps of a query give, and whether the last step is \<open>SQLITE_DONE\<close>.\<close>

definition step_rows :: "thing_db \<Rightarrow> esv_query \<Rightarrow> 'r list \<Rightarrow> 'r list \<times> bool" where
  "step_rows db q rows = (case db_steps db q of None \<Rightarrow> (rows, True) | Some n \<Rightarrow> (take n rows, False))"

section \<open>Nodes\<close>

record esv_persist_node_info_t =
  ei_node_id :: string
  ei_node_name :: string
  ei_plugin_name :: string
  ei_lib_name :: string
  ei_node_type :: int
  ei_install_type :: int
  ei_node_config :: string
  ei_node_config_index :: int
  ei_state :: int

definition node_info_of_row :: "plugin_node_row \<Rightarrow> esv_persist_node_info_t option" where
  "node_info_of_row r = do {
     node_id \<leftarrow> pn_node_id r;
     node_name \<leftarrow> pn_node_name r;
     plugin_name \<leftarrow> pn_plugin_name r;
     lib_name \<leftarrow> pn_lib_name r;
     node_config \<leftarrow> pn_node_config r;
     Some \<lparr>ei_node_id = node_id, ei_node_name = node_name, ei_plugin_name = plugin_name,
           ei_lib_name = lib_name, ei_node_type = pn_node_type r,
           ei_install_type = pn_install_type r, ei_node_config = node_config,
           ei_node_config_index = pn_node_config_index r, ei_state = pn_state r\<rparr>
   }"

text \<open>A failing step leaves a partial result without an error code.\<close>

definition esv_persister_load_normal_nodes ::
  "thing_db \<Rightarrow> (int + esv_persist_node_info_t list) option" where
  "esv_persister_load_normal_nodes db =
     (if \<not> db_prepares db Q_normal_nodes then Some (Inl NEU_ERR_EINTERNAL)
      else map_option Inr
        (those (map node_info_of_row
          (fst (step_rows db Q_normal_nodes
            [r \<leftarrow> db_plugin_node db. pn_node_type r \<in> {9, 10, 11, 15}])))))"

definition esv_persister_load_node_config :: "thing_db \<Rightarrow> string \<Rightarrow> int + string" where
  "esv_persister_load_node_config db node_name =
     (if \<not> db_prepares db Q_node_config then Inl NEU_ERR_EINTERNAL
      else (case fst (step_rows db Q_node_config
                  [r \<leftarrow> db_plugin_node db. pn_node_name r = Some node_name]) of
              [] \<Rightarrow> Inl NEU_ERR_EINTERNAL
            | r # _ \<Rightarrow>
                (case pn_node_config r of
                   None \<Rightarrow> Inl NEU_ERR_EINTERNAL
                 | Some text \<Rightarrow> Inr text)))"

definition esv_persister_query_device_node_name_by_node_type :: "thing_db \<Rightarrow> string list option" where
  "esv_persister_query_device_node_name_by_node_type db =
     (if \<not> db_prepares db Q_names_by_type then None
      else Some (List.map_filter pn_node_name
        (fst (step_rows db Q_names_by_type [r \<leftarrow> db_plugin_node db. pn_node_type r \<in> {9, 11}]))))"

text \<open>The result is the return code and what \<open>node_name\<close> points to afterwards.\<close>

definition first_name ::
  "thing_db \<Rightarrow> esv_query \<Rightarrow> string option list \<Rightarrow> (int \<times> string option) option" where
  "first_name db q names =
     (case fst (step_rows db q names) of
        [] \<Rightarrow> Some (0, None)
      | name # _ \<Rightarrow> map_option (\<lambda>n. (0, Some n)) name)"

definition esv_persister_query_device_node_name_by_node_id ::
  "thing_db \<Rightarrow> string \<Rightarrow> (int \<times> string option) option" where
  "esv_persister_query_device_node_name_by_node_id db node_id =
     (if \<not> db_prepares db Q_name_by_id then Some (NEU_ERR_EINTERNAL, None)
      else first_name db Q_name_by_id
        [pn_node_name r. r \<leftarrow> db_plugin_node db, pn_node_id r = Some node_id])"

section \<open>Devices\<close>

definition device_info_of_row :: "thing_device_row \<Rightarrow> esv_device_info_t option" where
  "device_info_of_row r = do {
     product_key \<leftarrow> td_product_key r;
     device_name \<leftarrow> td_device_name r;
     device_secret \<leftarrow> td_device_secret r;
     device_config \<leftarrow> td_device_config r;
     Some \<lparr>di_product_key = product_key, di_device_name = device_name,
           di_device_secret = device_secret, di_device_config = device_config\<rparr>
   }"

text \<open>The rows of \<open>thing_device INNER JOIN plugin_node\<close>.\<close>

definition joined :: "thing_db \<Rightarrow> (thing_device_row \<times> plugin_node_row) list" where
  "joined db = [(d, n). d \<leftarrow> db_thing_device db, n \<leftarrow> db_plugin_node db,
     td_plugin_node_id d \<noteq> None \<and> td_plugin_node_id d = pn_node_id n]"

definition esv_persister_load_devices ::
  "thing_db \<Rightarrow> string \<Rightarrow> (int + esv_device_info_t list) option" where
  "esv_persister_load_devices db driver_name =
     (if \<not> db_prepares db Q_devices then Some (Inl NEU_ERR_EINTERNAL)
      else map_option Inr
        (those (map (device_info_of_row \<circ> fst)
          (fst (step_rows db Q_devices
            [(d, n) \<leftarrow> joined db. pn_node_name n = Some driver_name])))))"

definition esv_persister_query_device_node_name ::
  "thing_db \<Rightarrow> string \<Rightarrow> string \<Rightarrow> (int \<times> string option) option" where
  "esv_persister_query_device_node_name db product_key device_name =
     (if \<not> db_prepares db Q_device_node_name then Some (NEU_ERR_EINTERNAL, None)
      else first_name db Q_device_node_name
        [pn_node_name n. (d, n) \<leftarrow> joined db,
          td_product_key d = Some product_key \<and> td_device_name d = Some device_name])"

section \<open>Plugins\<close>

text \<open>
  The rows are counted and then read again: the table is the same both times.  Any failure is
  an empty list.
\<close>

definition query_normal_plugins_from_db :: "thing_db \<Rightarrow> (int + string list) option" where
  "query_normal_plugins_from_db db =
     (if \<not> db_prepares db Q_normal_plugins then Some (Inl 1)
      else (case step_rows db Q_normal_plugins
                  [r \<leftarrow> db_plugin_lib db. pl_node_type r \<in> {9, 10, 11, 15}] of
              (rows, finished) \<Rightarrow>
                if \<not> finished then Some (Inl 1) else map_option Inr (those (map pl_lib_name rows))))"

definition esv_persister_load_normal_plugins_from_db :: "thing_db \<Rightarrow> (int \<times> string list) option" where
  "esv_persister_load_normal_plugins_from_db db =
     map_option (\<lambda>r. (0, case r of Inl _ \<Rightarrow> [] | Inr names \<Rightarrow> names))
       (query_normal_plugins_from_db db)"

section \<open>Node ids\<close>

text \<open>
  \<open>exec\<close> gives the rows of a text of SQL, or \<open>None\<close> for an error; the callback prints every
  column of every row, none of them NULL, over \<open>value\<close>, the caller's empty buffer of 1024 bytes.
\<close>

definition select_plugin_node_sql :: "string \<Rightarrow> string" where
  "select_plugin_node_sql node_name =
     take 1023 (''SELECT node_id FROM `plugin_node` WHERE `node_name` = '' @ [CHR 0x27] @ node_name @
       [CHR 0x27] @ '';'')"

definition select_plugin_node ::
  "(string \<Rightarrow> string list list option) \<Rightarrow> string \<Rightarrow> (int \<times> string) option" where
  "select_plugin_node exec node_name =
     (case exec (select_plugin_node_sql node_name) of
        None \<Rightarrow> Some (-1, [])
      | Some rows \<Rightarrow>
          if \<forall>col\<in>set (concat rows). length col < 1024
          then Some (0, fold (\<lambda>col value. col) (concat rows) []) else None)"

section \<open>Laws\<close>

lemma step_rows_subset: "x \<in> set (fst (step_rows db q rows)) \<Longrightarrow> x \<in> set rows"
  by (auto simp: step_rows_def split: option.splits dest: in_set_takeD)

lemma names_by_type_types:
  assumes "esv_persister_query_device_node_name_by_node_type db = Some names" "n \<in> set names"
  shows "\<exists>r\<in>set (db_plugin_node db). pn_node_name r = Some n \<and> pn_node_type r \<in> {9, 11}"
proof -
  let ?rows = "[r \<leftarrow> db_plugin_node db. pn_node_type r \<in> {9, 11}]"
  obtain r where "r \<in> set (fst (step_rows db Q_names_by_type ?rows))" and r: "pn_node_name r = Some n"
    using assms
    by (auto simp: esv_persister_query_device_node_name_by_node_type_def List.map_filter_def
        split: if_splits)
  then have "r \<in> set ?rows" by (blast dest: step_rows_subset)
  with r show ?thesis by (intro bexI [of _ r]) simp_all
qed

lemma first_name_Some:
  assumes "first_name db q names = Some (rv, Some n)"
  shows "Some n \<in> set names"
proof -
  have "Some n \<in> set (fst (step_rows db q names))"
    using assms by (auto simp: first_name_def split: list.splits)
  then show ?thesis by (rule step_rows_subset)
qed

lemma name_by_id_row:
  assumes "esv_persister_query_device_node_name_by_node_id db i = Some (rv, Some n)"
  shows "\<exists>r\<in>set (db_plugin_node db). pn_node_id r = Some i \<and> pn_node_name r = Some n"
proof -
  have "Some n \<in> set [pn_node_name r. r \<leftarrow> db_plugin_node db, pn_node_id r = Some i]"
    using assms
    by (auto simp only: esv_persister_query_device_node_name_by_node_id_def
        split: if_splits dest!: first_name_Some)
  then show ?thesis by (auto intro: bexI split: if_splits)
qed

end
