(* ===== verification/Manager.thy ===== *)
theory Manager
  imports Plugins Persist
begin

text \<open>
  The manager (\<open>src/core/manager_internal.c\<close>, \<open>src/core/storage.c\<close>, the creation in
  \<open>src/core/manager.c\<close>): the nodes and plugins of the system, and how they are set up from
  the database.

  \<open>mg_heap\<close> holds every adapter that was created, in order; the others are pointers into it.
  \<open>mg_esvappnodes\<close> and \<open>mg_esvdevicedrivernodes\<close> are the static variables of
  \<open>src/core/manager_adapter_msg.c\<close>, NULL at first.  \<open>mg_published\<close> is what was handed to the
  MQTT client, \<open>mg_error\<close> the value of \<open>neu_adapter_error\<close>.  The environment \<open>w\<close> is the
  database, the loader of shared libraries and the plugin directory.
\<close>

record 'p world =
  w_db :: thing_db
  w_exec :: "string \<Rightarrow> string list list option"
  w_dl :: "'p dl"
  w_plugin_dir :: string

record 'p neu_manager =
  mg_heap :: "'p adapter list"
  mg_nodes :: neu_node_manager
  mg_plugins :: neu_plugin_manager
  mg_esvappnodes :: "nat list option"
  mg_esvdevicedrivernodes :: "nat list option"
  mg_published :: "(string \<times> string) list"
  mg_error :: int

section \<open>Plugins\<close>

definition neu_manager_add_plugin ::
  "'p world \<Rightarrow> 'p neu_manager \<Rightarrow> string \<Rightarrow> (int \<times> 'p neu_manager) option" where
  "neu_manager_add_plugin w mg library =
     map_option (\<lambda>(r, pm). (r, mg\<lparr>mg_plugins := pm\<rparr>))
       (neu_plugin_manager_add (w_dl w) (mg_plugins mg) library)"

definition neu_manager_get_plugins :: "'p neu_manager \<Rightarrow> neu_resp_plugin_info_t list option" where
  "neu_manager_get_plugins mg = neu_plugin_manager_get (mg_plugins mg)"

section \<open>Nodes\<close>

definition empty_info :: neu_resp_plugin_info_t where
  "empty_info = \<lparr>pi_schema = [], pi_name = [], pi_description = [], pi_description_zh = [],
     pi_library = [], pi_kind = NEU_PLUGIN_KIND_STATIC, pi_type = NEU_NA_TYPE_DRIVER,
     pi_single = False, pi_display = False, pi_single_name = []\<rparr>"

text \<open>
  Creating the adapter reads its setting and devices from the database.  The name of the
  adapter is logged before the test whether there is one.
\<close>

definition create_adapter ::
  "'p world \<Rightarrow> 'p neu_manager \<Rightarrow> string \<Rightarrow> 'p neu_plugin_module_t \<Rightarrow> bool \<Rightarrow>
    ('p adapter option \<times> 'p neu_manager) option" where
  "create_adapter w mg node_name md load = do {
     devices \<leftarrow> (if md_type md = NEU_NA_TYPE_ESVDEVICEDRIVER
                 then esv_persister_load_devices (w_db w) node_name else Some (Inr []));
     (ad, e) \<leftarrow> neu_adapter_create
       (\<lambda>name. case esv_persister_load_node_config (w_db w) name of Inl _ \<Rightarrow> None | Inr cfg \<Rightarrow> Some cfg)
       (\<lambda>_. devices) (mg_error mg) node_name md load;
     Some (ad, mg\<lparr>mg_error := e\<rparr>)
   }"

definition store_adapter :: "'p neu_manager \<Rightarrow> 'p adapter \<Rightarrow> 'p neu_manager" where
  "store_adapter mg ad = mg\<lparr>mg_heap := mg_heap mg @ [ad]\<rparr>"

definition update_adapter :: "'p neu_manager \<Rightarrow> nat \<Rightarrow> 'p adapter \<Rightarrow> 'p neu_manager" where
  "update_adapter mg i ad = mg\<lparr>mg_heap := (mg_heap mg)[i := ad]\<rparr>"

definition neu_manager_add_node ::
  "'p world \<Rightarrow> 'p neu_manager \<Rightarrow> string \<Rightarrow> string \<Rightarrow> bool \<Rightarrow> (int \<times> 'p neu_manager) option" where
  "neu_manager_add_node w mg node_name plugin_name load = do {
     (ret, info) \<leftarrow> neu_plugin_manager_find (mg_plugins mg) plugin_name empty_info;
     if ret \<noteq> 0 then Some (NEU_ERR_LIBRARY_NOT_FOUND, mg)
     else if pi_single info then Some (NEU_ERR_LIBRARY_NOT_ALLOW_CREATE_INSTANCE, mg)
     else if neu_node_manager_find (mg_nodes mg) node_name \<noteq> None then Some (NEU_ERR_NODE_EXIST, mg)
     else do {
       inst \<leftarrow> neu_plugin_manager_create_instance (w_dl w) (w_plugin_dir w) (mg_plugins mg) (pi_name info);
       (case inst of
          Inl _ \<Rightarrow> Some (NEU_ERR_LIBRARY_FAILED_TO_OPEN, mg)
        | Inr md \<Rightarrow> do {
            (created, mg1) \<leftarrow> create_adapter w mg node_name md load;
            ad \<leftarrow> created;
            let i = length (mg_heap mg1);
            let mg2 = store_adapter mg1 ad;
            (_, nodes) \<leftarrow> neu_node_manager_add (mg_heap mg2) (mg_nodes mg2) i;
            Some (NEU_ERR_SUCCESS,
                  update_adapter (mg2\<lparr>mg_nodes := nodes\<rparr>) i (snd (neu_adapter_start ad)))
          })
     }
   }"

definition neu_manager_get_nodes ::
  "'p neu_manager \<Rightarrow> u32 \<Rightarrow> string \<Rightarrow> string \<Rightarrow> (string \<times> string) list option" where
  "neu_manager_get_nodes mg type plugin node =
     neu_node_manager_filter (mg_heap mg) (mg_nodes mg) type plugin node"

text \<open>A \<open>neu_persist_node_info_t\<close>: name, type, plugin and state of a node.\<close>

definition neu_manager_get_node_info ::
  "'p neu_manager \<Rightarrow> string \<Rightarrow>
    (int + string \<times> neu_node_type_e \<times> string \<times> neu_node_running_state_e) option" where
  "neu_manager_get_node_info mg name =
     (case neu_node_manager_find (mg_nodes mg) name of
        None \<Rightarrow> Some (Inl (-1))
      | Some i \<Rightarrow>
          map_option (\<lambda>ad. Inr (name, ad_type ad, md_module_name (ad_module ad), ad_state ad))
            (heap_at (mg_heap mg) i))"

section \<open>Setting up\<close>

text \<open>The result is the code of the last plugin or node, 0 when there is none.\<close>

fun load_plugins_loop ::
  "'p world \<Rightarrow> string list \<Rightarrow> int \<Rightarrow> 'p neu_manager \<Rightarrow> (int \<times> 'p neu_manager) option" where
  "load_plugins_loop w [] rv mg = Some (rv, mg)"
| "load_plugins_loop w (name # names) rv mg = do {
     (rv', mg') \<leftarrow> neu_manager_add_plugin w mg name;
     load_plugins_loop w names rv' mg'
   }"

definition esv_manager_load_normal_plugin_from_db ::
  "'p world \<Rightarrow> 'p neu_manager \<Rightarrow> (int \<times> 'p neu_manager) option" where
  "esv_manager_load_normal_plugin_from_db w mg = do {
     (rv, names) \<leftarrow> esv_persister_load_normal_plugins_from_db (w_db w);
     if rv \<noteq> 0 then Some (rv, mg) else load_plugins_loop w names rv mg
   }"

fun load_nodes_loop ::
  "'p world \<Rightarrow> esv_persist_node_info_t list \<Rightarrow> int \<Rightarrow> 'p neu_manager \<Rightarrow> (int \<times> 'p neu_manager) option" where
  "load_nodes_loop w [] rv mg = Some (rv, mg)"
| "load_nodes_loop w (i # is) rv mg = do {
     (rv', mg') \<leftarrow> neu_manager_add_node w mg (ei_node_name i) (ei_plugin_name i) True;
     load_nodes_loop w is rv' mg'
   }"

definition esv_manager_load_normal_node ::
  "'p world \<Rightarrow> 'p neu_manager \<Rightarrow> (int \<times> 'p neu_manager) option" where
  "esv_manager_load_normal_node w mg = do {
     infos \<leftarrow> esv_persister_load_normal_nodes (w_db w);
     (case infos of
        Inl _ \<Rightarrow> Some (-1, mg)
      | Inr is \<Rightarrow> load_nodes_loop w is 0 mg)
   }"

text \<open>
  \<open>neu_manager_create\<close>: the plugins are loaded, the MQTT client is started, and then the
  nodes are loaded; messages may arrive as soon as the client runs.  \<open>started_manager\<close> is the
  state in which it starts.
\<close>

definition new_manager :: "'p neu_manager" where
  "new_manager = \<lparr>mg_heap = [], mg_nodes = neu_node_manager_create,
     mg_plugins = neu_plugin_manager_create, mg_esvappnodes = None, mg_esvdevicedrivernodes = None,
     mg_published = [], mg_error = 0\<rparr>"

definition started_manager :: "'p world \<Rightarrow> 'p neu_manager option" where
  "started_manager w = map_option snd (esv_manager_load_normal_plugin_from_db w new_manager)"

definition neu_manager_create :: "'p world \<Rightarrow> 'p neu_manager option" where
  "neu_manager_create w =
     do { mg \<leftarrow> started_manager w; map_option snd (esv_manager_load_normal_node w mg) }"

section \<open>Laws\<close>

text \<open>
  The invariant of the manager: the tables are well-formed and the cached pointers are
  addresses of adapters.
\<close>

definition cached_ok :: "nat \<Rightarrow> nat list option \<Rightarrow> bool" where
  "cached_ok n c \<longleftrightarrow> (case c of None \<Rightarrow> True | Some is \<Rightarrow> \<forall>i\<in>set is. i < n)"

definition manager_ok :: "'p neu_manager \<Rightarrow> bool" where
  "manager_ok mg \<longleftrightarrow> nodes_ok (mg_heap mg) (mg_nodes mg) \<and> plugins_ok (mg_plugins mg) \<and>
     cached_ok (length (mg_heap mg)) (mg_esvappnodes mg) \<and>
     cached_ok (length (mg_heap mg)) (mg_esvdevicedrivernodes mg)"

lemma cached_ok_mono: "cached_ok n c \<Longrightarrow> n \<le> k \<Longrightarrow> cached_ok k c"
  by (auto simp: cached_ok_def split: option.splits)

lemma new_manager_ok: "manager_ok new_manager"
  by (simp add: manager_ok_def new_manager_def nodes_ok_def neu_node_manager_create_def cached_ok_def)

lemma add_plugin_ok:
  "manager_ok mg \<Longrightarrow> neu_manager_add_plugin w mg lib = Some (r, mg') \<Longrightarrow> manager_ok mg'"
  by (auto simp: neu_manager_add_plugin_def manager_ok_def dest: plugins_ok_add)

lemma load_plugins_ok:
  "manager_ok mg \<Longrightarrow> load_plugins_loop w names rv mg = Some (r, mg') \<Longrightarrow> manager_ok mg'"
  by (induction w names rv mg rule: load_plugins_loop.induct)
     (auto simp: bind_eq_Some_conv dest: add_plugin_ok)

lemma started_manager_ok: "started_manager w = Some mg \<Longrightarrow> manager_ok mg"
  by (auto simp: started_manager_def esv_manager_load_normal_plugin_from_db_def bind_eq_Some_conv
      new_manager_ok dest: load_plugins_ok [OF new_manager_ok] split: if_splits)

text \<open>A created adapter has the name and module it was created with.\<close>

lemma config_setting_frame:
  "ad_name (load_config_setting lc ad) = ad_name ad"
  "ad_module (load_config_setting lc ad) = ad_module ad"
  by (auto simp: load_config_setting_def split: option.split prod.split)

lemma load_device_frame:
  "adapter_load_device ld ad = Some (r, ad') \<Longrightarrow> ad_name ad' = ad_name ad \<and> ad_module ad' = ad_module ad"
  by (auto simp: adapter_load_device_def esv_adapter_driver_load_devices_def bind_eq_Some_conv Let_def
      split: sum.splits option.splits if_splits)

lemma created_adapter:
  assumes "neu_adapter_create lc ld err name md load = Some (Some ad, e)"
  shows "ad_name ad = name" "ad_module ad = md" "length name < NEU_NODE_NAME_LEN"
proof -
  have "ad_name ad = name \<and> ad_module ad = md \<and> length name < NEU_NODE_NAME_LEN"
    using assms
    by (auto simp: neu_adapter_create_def bind_eq_Some_conv Let_def config_setting_frame bind_plugin_def
        new_adapter_def neu_adapter_driver_create_def
        split: if_splits prod.splits dest!: load_device_frame)
  then show "ad_name ad = name" "ad_module ad = md" "length name < NEU_NODE_NAME_LEN" by simp_all
qed

lemma start_frame:
  "ad_name (snd (neu_adapter_start ad)) = ad_name ad"
  "ad_module (snd (neu_adapter_start ad)) = ad_module ad"
  by (auto simp: neu_adapter_start_def Let_def split: neu_node_running_state_e.split prod.split)


text \<open>
  The modules of the libraries have names that fit; that is not checked, and the library a
  plugin was added from need not be the one it is instantiated from.
\<close>

definition world_ok :: "'p world \<Rightarrow> bool" where
  "world_ok w \<longleftrightarrow> (\<forall>path md. w_dl w path = Some (Some md) \<longrightarrow>
     length (md_module_name md) < NEU_PLUGIN_NAME_LEN)"

lemma instance_module:
  "neu_plugin_manager_create_instance dl dir pm name = Some (Inr md) \<Longrightarrow>
    \<exists>path. dl path = Some (Some md)"
  by (auto simp: neu_plugin_manager_create_instance_def split: option.splits)

text \<open>What a successful \<open>neu_manager_add_node\<close> has done.\<close>

lemma add_node_cases:
  assumes "neu_manager_add_node w mg node_name plugin_name load = Some (r, mg')"
  obtains "r \<noteq> NEU_ERR_SUCCESS" "mg' = mg"
  | md ad e nodes where "r = NEU_ERR_SUCCESS" "\<exists>path. w_dl w path = Some (Some md)"
      "neu_node_manager_find (mg_nodes mg) node_name = None"
      "ad_name ad = node_name" "ad_module ad = md" "length node_name < NEU_NODE_NAME_LEN"
      "neu_node_manager_add (mg_heap mg @ [ad]) (mg_nodes mg) (length (mg_heap mg)) = Some (0, nodes)"
      "mg' = mg\<lparr>mg_error := e, mg_nodes := nodes,
                mg_heap := mg_heap mg @ [snd (neu_adapter_start ad)]\<rparr>"
proof -
  obtain ret info where f: "neu_plugin_manager_find (mg_plugins mg) plugin_name empty_info = Some (ret, info)"
    using assms by (auto simp: neu_manager_add_node_def bind_eq_Some_conv)
  note step = assms [unfolded neu_manager_add_node_def f, simplified]
  show thesis
  proof (cases "ret \<noteq> 0 \<or> pi_single info \<or> neu_node_manager_find (mg_nodes mg) node_name \<noteq> None")
    case True
    then show thesis using step that(1) by (auto split: if_splits)
  next
    case False
    then obtain inst where i: "neu_plugin_manager_create_instance (w_dl w) (w_plugin_dir w)
        (mg_plugins mg) (pi_name info) = Some inst"
      using step by (auto simp: bind_eq_Some_conv)
    show thesis
    proof (cases inst)
      case (Inl e)
      then show thesis using step False i that(1) by auto
    next
      case (Inr md)
      then obtain devices ad e nodes n where d: "neu_adapter_create
          (\<lambda>name. case esv_persister_load_node_config (w_db w) name of Inl _ \<Rightarrow> None | Inr cfg \<Rightarrow> Some cfg)
          (\<lambda>_. devices) (mg_error mg) node_name md load = Some (Some ad, e)"
        and n: "neu_node_manager_add (mg_heap mg @ [ad]) (mg_nodes mg) (length (mg_heap mg)) = Some (n, nodes)"
        and m: "r = NEU_ERR_SUCCESS" "mg' = mg\<lparr>mg_error := e, mg_nodes := nodes,
            mg_heap := mg_heap mg @ [snd (neu_adapter_start ad)]\<rparr>"
        using step False i
        by (auto simp: bind_eq_Some_conv create_adapter_def store_adapter_def update_adapter_def)
      from n have "n = 0" by (auto simp: neu_node_manager_add_def bind_eq_Some_conv)
      with instance_module [OF i [unfolded Inr]] False created_adapter [OF d] n m show thesis
        by (intro that(2) [of md ad nodes e]) auto
    qed
  qed
qed

lemma add_node_ok:
  assumes "manager_ok mg" "world_ok w" "neu_manager_add_node w mg node_name plugin_name load = Some (r, mg')"
  shows "manager_ok mg'"
  using assms(3)
proof (cases rule: add_node_cases)
  case 1
  with assms(1) show ?thesis by simp
next
  case (2 md ad e nodes)
  have "names_fit ad"
    using 2 assms(2) by (auto simp: names_fit_def world_ok_def)
  moreover have "hash_find (mg_nodes mg) (ad_name ad) = None"
    using 2 by (simp add: neu_node_manager_find_def)
  ultimately have "nodes_ok (mg_heap mg @ [ad]) nodes"
    using nodes_ok_add [of "mg_heap mg" "mg_nodes mg" ad] 2 assms(1) by (auto simp: manager_ok_def)
  from nodes_ok_heap [OF this, of "snd (neu_adapter_start ad)" "length (mg_heap mg)"]
  have "nodes_ok (mg_heap mg @ [snd (neu_adapter_start ad)]) nodes"
    by (simp add: start_frame)
  with 2 assms(1) show ?thesis
    by (auto simp: manager_ok_def intro: cached_ok_mono)
qed

end
