(* ===== verification/Router.thy ===== *)
theory Router
  imports Manager Json
begin

text \<open>
  How messages travel (\<open>src/core/manager_adapter_msg.c\<close>, \<open>src/core/parser_adapter_config.c\<close>,
  \<open>src/connection/mqtt/lan_mqtt5_service.c\<close>): from the local broker to the plugins, from a
  plugin to the broker and to other plugins, and the reload of a plugin's configuration.

  A delivery hands a message to a plugin, which may react by messages of its own through the
  callback \<open>thing_model_msg_arrived\<close>; these are forwarded by more deliveries.  In the program
  these are nested calls; here \<open>call\<close>s on a stack, executed from the top, a plugin's messages
  coming after its memory has changed.  The forwards depend on nothing that a delivery changes,
  so their deliveries are put on the stack at once.

  The payload of an MQTT message is not terminated: \<open>after_copy\<close> and \<open>after_payload\<close> are what
  the memory holds after the copy of it and after itself, up to some NUL.  The uuid of an
  answer is an argument, JSON is the library parameter \<open>J\<close>, and logging is left out.
\<close>

section \<open>Calls\<close>

datatype call =
    Deliver nat esv_thing_model_msg_t
  | Arrived nat esv_thing_model_msg_t

type_synonym 'p routed = "('p neu_manager \<times> call list) option"

definition lan_mqtt5_service_publish :: "string \<Rightarrow> string \<Rightarrow> 'p neu_manager \<Rightarrow> 'p neu_manager" where
  "lan_mqtt5_service_publish topic msg mg = mg\<lparr>mg_published := mg_published mg @ [(topic, msg)]\<rparr>"

section \<open>Forwarding\<close>

text \<open>The message with the node id of the adapter it goes to.\<close>

definition with_node_id ::
  "'p world \<Rightarrow> string \<Rightarrow> esv_thing_model_msg_t \<Rightarrow> esv_thing_model_msg_t option" where
  "with_node_id w name m =
     map_option (\<lambda>(_, value). m\<lparr>tmm_plugin_id := atoi value\<rparr>) (select_plugin_node (w_exec w) name)"

fun esvdriver_calls ::
  "'p world \<Rightarrow> 'p neu_manager \<Rightarrow> esv_thing_model_msg_t \<Rightarrow> string list \<Rightarrow> call list option" where
  "esvdriver_calls w mg m [] = Some []"
| "esvdriver_calls w mg m (name # names) =
     (case neu_node_manager_find (mg_nodes mg) name of
        None \<Rightarrow> Some []
      | Some i \<Rightarrow> do {
          ad \<leftarrow> heap_at (mg_heap mg) i;
          m' \<leftarrow> with_node_id w (ad_name ad) m;
          cs \<leftarrow> esvdriver_calls w mg m names;
          Some (Deliver i m' # cs)
        })"

text \<open>The length of the list of names is logged before the test for NULL.\<close>

definition forward_thing_model_msg_to_esvdriver ::
  "'p world \<Rightarrow> esv_thing_model_msg_t \<Rightarrow> 'p neu_manager \<Rightarrow> 'p routed" where
  "forward_thing_model_msg_to_esvdriver w m mg = do {
     _ \<leftarrow> neu_node_manager_get_adapter (mg_heap mg) (mg_nodes mg) NEU_NA_TYPE_ESVSELFDEVICEDRIVER;
     names \<leftarrow> esv_persister_query_device_node_name_by_node_type (w_db w);
     cs \<leftarrow> esvdriver_calls w mg m names;
     Some (mg, cs)
   }"

definition adapter_call ::
  "'p world \<Rightarrow> 'p neu_manager \<Rightarrow> esv_thing_model_msg_t \<Rightarrow> nat \<Rightarrow> call option" where
  "adapter_call w mg m i = do {
     ad \<leftarrow> heap_at (mg_heap mg) i;
     m' \<leftarrow> with_node_id w (ad_name ad) m;
     Some (Deliver i m')
   }"

definition forward_thing_model_msg_to_all_esvdevicedriver ::
  "'p world \<Rightarrow> esv_thing_model_msg_t \<Rightarrow> 'p neu_manager \<Rightarrow> 'p routed" where
  "forward_thing_model_msg_to_all_esvdevicedriver w m mg = do {
     is \<leftarrow> (case mg_esvdevicedrivernodes mg of
              Some is \<Rightarrow> Some is
            | None \<Rightarrow> neu_node_manager_get_adapter (mg_heap mg) (mg_nodes mg)
                        NEU_NA_TYPE_ESVSELFDEVICEDRIVER);
     let mg' = mg\<lparr>mg_esvdevicedrivernodes := Some is\<rparr>;
     cs \<leftarrow> those (map (adapter_call w mg' m) is);
     Some (mg', cs)
   }"

definition forward_thing_model_msg_to_esvapps ::
  "esv_thing_model_msg_t \<Rightarrow> 'p neu_manager \<Rightarrow> 'p routed" where
  "forward_thing_model_msg_to_esvapps m mg = do {
     is \<leftarrow> (case mg_esvappnodes mg of
              Some is \<Rightarrow> Some is
            | None \<Rightarrow> neu_node_manager_get_adapter (mg_heap mg) (mg_nodes mg) NEU_NA_TYPE_ESVAPP);
     Some (mg\<lparr>mg_esvappnodes := Some is\<rparr>, map (\<lambda>i. Deliver i m) is)
   }"

definition forward_thing_model_msg_to_plugin_node ::
  "'p world \<Rightarrow> esv_thing_model_msg_t \<Rightarrow> string \<Rightarrow> 'p neu_manager \<Rightarrow> 'p routed" where
  "forward_thing_model_msg_to_plugin_node w m plugin_node_id mg = do {
     (_, node_name) \<leftarrow> esv_persister_query_device_node_name_by_node_id (w_db w) plugin_node_id;
     Some (mg,
       case node_name of
         None \<Rightarrow> []
       | Some name \<Rightarrow>
           (case neu_node_manager_find (mg_nodes mg) name of None \<Rightarrow> [] | Some i \<Rightarrow> [Deliver i m]))
   }"

section \<open>Answers to a configuration push\<close>

definition hexdigits_lower :: string where "hexdigits_lower = ''0123456789abcdef''"

definition uuid_byte :: "nat \<Rightarrow> u8 \<Rightarrow> string" where
  "uuid_byte i b =
     (if i \<in> {4, 6, 8, 10} then ''-'' else []) @
     [hexdigits_lower ! (unat b div 16), hexdigits_lower ! (unat b mod 16)]"

definition uuid_unparser :: "u8 list \<Rightarrow> string" where
  "uuid_unparser uuid = concat (map2 uuid_byte [0..<16] uuid)"

text \<open>Access to an object that may be NULL.\<close>

definition jfield :: "'j jansson \<Rightarrow> 'j option \<Rightarrow> string \<Rightarrow> 'j option" where
  "jfield J ob key = Option.bind ob (\<lambda>j. json_object_get J j key)"

definition jstring :: "'j jansson \<Rightarrow> 'j option \<Rightarrow> string option" where
  "jstring J ob = Option.bind ob (json_string_value J)"

definition jset :: "'j jansson \<Rightarrow> string \<Rightarrow> 'j option \<Rightarrow> 'j \<Rightarrow> 'j" where
  "jset J key v ob = snd (json_object_set_new J ob key v)"

text \<open>The \<open>int\<close> that \<open>json_integer_value\<close> is stored in, as the \<open>json_int_t\<close> it becomes again.\<close>

definition config_type :: "'j jansson \<Rightarrow> 'j option \<Rightarrow> u64" where
  "config_type J ob =
     scast (ucast (case ob of None \<Rightarrow> 0 | Some j \<Rightarrow> json_integer_value J j) :: u32)"

definition config_result_object :: "'j jansson \<Rightarrow> int \<Rightarrow> string \<Rightarrow> 'j" where
  "config_result_object J result plugin_node_id =
     jset J ''pluginNodeId'' (json_string J plugin_node_id)
       (jset J ''result'' (json_integer J (word_of_int result)) (json_object_new J))"

definition send_config_plugin_results_for_matter ::
  "'j jansson \<Rightarrow> u8 list \<Rightarrow> 'j option \<Rightarrow> int \<Rightarrow> 'p neu_manager \<Rightarrow> 'p neu_manager option" where
  "send_config_plugin_results_for_matter J uuid recv_msg result mg = do {
     trans_id \<leftarrow> jstring J (jfield J recv_msg ''transId'');
     plugin_node_id \<leftarrow> jstring J (jfield J (jfield J recv_msg ''params'') ''pluginNodeId'');
     let data = jset J ''configResult'' (Some (config_result_object J result plugin_node_id))
       (jset J ''configType''
          (json_integer J (config_type J (jfield J (jfield J recv_msg ''params'') ''pluginNodeId'')))
          (json_object_new J));
     let send_json = jset J ''data'' (Some data)
       (jset J ''method'' (json_string J ''thing.pluginNode.config.pushReply'')
          (jset J ''code'' (json_integer J 200)
             (jset J ''transId'' (json_string J trans_id)
                (jset J ''id'' (json_string J (uuid_unparser uuid)) (json_object_new J)))));
     text \<leftarrow> json_dumps J send_json;
     Some (lan_mqtt5_service_publish ''app/thing/pluginNode/config/pushReply'' text mg)
   }"

definition send_config_plugin_results ::
  "'j jansson \<Rightarrow> u8 list \<Rightarrow> 'j option \<Rightarrow> int \<Rightarrow> 'p neu_manager \<Rightarrow> 'p neu_manager option" where
  "send_config_plugin_results J uuid recv_msg result mg = do {
     trans_id \<leftarrow> jstring J (jfield J recv_msg ''transId'');
     plugin_node_id \<leftarrow> jstring J (jfield J (jfield J recv_msg ''params'') ''pluginNodeId'');
     let data = jset J ''configResult'' (Some (config_result_object J result plugin_node_id))
       (jset J ''deviceIotId'' (json_string J [])
          (jset J ''configType''
             (json_integer J (config_type J (jfield J (jfield J recv_msg ''params'') ''pluginNodeId'')))
             (json_object_new J)));
     let send_json = jset J ''data'' (Some data)
       (jset J ''method'' (json_string J ''thing.pluginNode.config.pushReply'')
          (jset J ''code'' (json_string J ''200'')
             (jset J ''transId'' (json_string J trans_id)
                (jset J ''id'' (json_string J (uuid_unparser uuid)) (json_object_new J)))));
     text \<leftarrow> json_dumps J send_json;
     Some (lan_mqtt5_service_publish ''wan/thing/pluginNode/config/pushReply'' text mg)
   }"

section \<open>Reloading a configuration\<close>

definition reload_setting ::
  "'p world \<Rightarrow> int \<Rightarrow> 'p adapter \<Rightarrow> int \<times> 'p adapter" where
  "reload_setting w result ad =
     reload_config (esv_persister_load_node_config (w_db w) (ad_name ad)) result ad"

text \<open>The text up to the first NUL of a buffer and the memory after it.\<close>

definition c_text :: "string \<Rightarrow> string \<Rightarrow> string" where
  "c_text after s = takeWhile (\<lambda>c. c \<noteq> CHR 0x00) (s @ after)"

definition register_items :: "string list" where
  "register_items =
     [''deviceRegister'', ''deviceUnregister'', ''deviceBatchUnregister'', ''bridgeFactoryReset'']"

text \<open>
  A name that was not found is NULL and still looked up, which reads it: a crash.  The text of a
  message of this kind is terminated.
\<close>

definition forward_thing_model_matter_reload_msg_to_esvdriver ::
  "'j jansson \<Rightarrow> 'p world \<Rightarrow> u8 list \<Rightarrow> esv_thing_model_msg_t \<Rightarrow> 'p neu_manager \<Rightarrow> 'p routed" where
  "forward_thing_model_matter_reload_msg_to_esvdriver J w uuid m mg = do {
     let recv_config = json_loads J (tmm_msg m) False;
     let params = jfield J recv_config ''params'';
     let config_item = jstring J (jfield J params ''configItem'');
     plugin_node_id \<leftarrow> (case config_item of
         Some _ \<Rightarrow> Some (show_int (tmm_plugin_id m))
       | None \<Rightarrow> do {
           i \<leftarrow> jstring J (jfield J params ''pluginNodeId'');
           if length i < 1024 then Some i else None
         });
     (_, node_name) \<leftarrow> esv_persister_query_device_node_name_by_node_id (w_db w) plugin_node_id;
     name \<leftarrow> node_name;
     (case neu_node_manager_find (mg_nodes mg) name of
        None \<Rightarrow> Some (mg, [])
      | Some i \<Rightarrow> do {
          ad \<leftarrow> heap_at (mg_heap mg) i;
          (case config_item of
             Some item \<Rightarrow> Some (mg, if item \<in> set register_items then [Deliver i m] else [])
           | None \<Rightarrow>
               let (ret, ad1) = stop_plugin ad
               in if ret \<noteq> 0 then Some (update_adapter mg i ad1, [])
                  else do {
                    let (config_result, ad2) = reload_setting w 0 ad1;
                    mg' \<leftarrow> send_config_plugin_results_for_matter J uuid recv_config config_result
                             (update_adapter mg i (start_plugin ad2));
                    Some (mg', [])
                  })
        })
   }"

definition forward_thing_control_msg_to_esvdriver ::
  "'j jansson \<Rightarrow> 'p world \<Rightarrow> string \<Rightarrow> string \<Rightarrow> u8 list \<Rightarrow> esv_thing_model_msg_t \<Rightarrow> 'p neu_manager \<Rightarrow>
    'p routed" where
  "forward_thing_control_msg_to_esvdriver J w after_copy after_payload uuid m mg =
     (if tmm_method m = ESV_TMM_MTD_WAN_SUBTHING_THING_PLUGIN_NODE_ACTION_PUSH
      then
        (case json_loads J (c_text after_payload (tmm_msg m)) False of
           None \<Rightarrow> Some (mg, [])
         | Some msg_js \<Rightarrow>
             (case jstring J (jfield J (jfield J (Some msg_js) ''params'') ''pluginNodeId'') of
                None \<Rightarrow> Some (mg, [])
              | Some plugin_node_id \<Rightarrow>
                  forward_thing_model_msg_to_plugin_node w m plugin_node_id mg))
      else do {
        let recv_config = json_loads J (c_text after_copy (take (nat (tmm_msg_len m)) (tmm_msg m))) False;
        plugin_node_id \<leftarrow> jstring J (jfield J (jfield J recv_config ''params'') ''pluginNodeId'');
        (_, node_name) \<leftarrow> esv_persister_query_device_node_name_by_node_id (w_db w) plugin_node_id;
        name \<leftarrow> node_name;
        (case neu_node_manager_find (mg_nodes mg) name of
           None \<Rightarrow> Some (mg, [])
         | Some i \<Rightarrow> do {
             ad \<leftarrow> heap_at (mg_heap mg) i;
             let (config_result, ad1) = reload_setting w 2 (snd (stop_plugin ad));
             mg' \<leftarrow> send_config_plugin_results J uuid recv_config config_result
                      (update_adapter mg i (start_plugin ad1));
             Some (mg', [])
           })
      })"

section \<open>Messages from the broker\<close>

definition WAN_THINGSUB_PROPERTY_SET :: string where
  "WAN_THINGSUB_PROPERTY_SET = ''wan/+/+/thing/sub/+/+/thing/service/property/set''"
definition WAN_THINGSUB_PROPERTY_GET :: string where
  "WAN_THINGSUB_PROPERTY_GET = ''wan/+/+/thing/sub/+/+/thing/service/property/get''"
definition WAN_THING_DISCOVERY :: string where
  "WAN_THING_DISCOVERY = ''wan/+/+/thing/discovery''"
definition WAN_THINGSUB_DISCOVERY :: string where
  "WAN_THINGSUB_DISCOVERY = ''wan/+/+/thing/sub/+/+/thing/discovery''"
definition WAN_THINGSUB_CONFIG_PUSH :: string where
  "WAN_THINGSUB_CONFIG_PUSH = ''wan/+/+/thing/sub/+/+/thing/config/push''"
definition WAN_EASYHBES_CONFIG_PUSH :: string where
  "WAN_EASYHBES_CONFIG_PUSH = ''wan/+/+/easyHbes/+/thing/config/push''"
definition WAN_THING_RESTART_SET :: string where
  "WAN_THING_RESTART_SET = ''wan/+/+/thing/restart/set''"
definition LAN_THING_PLUGIN_CONFIG_PUSH :: string where
  "LAN_THING_PLUGIN_CONFIG_PUSH = ''lan/thing/pluginNode/+/config/push''"
definition APP_THING_PLUGIN_CONFIG_PUSH :: string where
  "APP_THING_PLUGIN_CONFIG_PUSH = ''app/thing/pluginNode/+/config/push''"
definition APP_THING_PLUGIN_RELOAD_CONFIG_PUSH :: string where
  "APP_THING_PLUGIN_RELOAD_CONFIG_PUSH = ''app/thing/pluginNode/config/push''"
definition WAN_THING_PLUGIN_CONFIG_PUSH :: string where
  "WAN_THING_PLUGIN_CONFIG_PUSH = ''wan/+/+/thing/pluginNode/config/push''"
definition WAN_THING_PLUGIN_NODE_ACTION_PUSH :: string where
  "WAN_THING_PLUGIN_NODE_ACTION_PUSH = ''wan/+/+/thing/pluginNode/action/push''"
definition LAN_THINGSUB_EVENT_PROPERTY_POST :: string where
  "LAN_THINGSUB_EVENT_PROPERTY_POST = ''lan/thing/sub/+/+/thing/event/property/post''"
definition LAN_THINGSUB_SERVICE_PROPERTY_SET :: string where
  "LAN_THINGSUB_SERVICE_PROPERTY_SET = ''lan/thing/sub/+/+/thing/service/property/set''"
definition LAN_THINGSUB_SERVICE_PROPERTY_SETREPLY :: string where
  "LAN_THINGSUB_SERVICE_PROPERTY_SETREPLY = ''lan/thing/sub/+/+/thing/service/property/setReply''"
definition LAN_THINGSUB_SERVICE_PROPERTY_GET :: string where
  "LAN_THINGSUB_SERVICE_PROPERTY_GET = ''lan/thing/sub/+/+/thing/service/property/get''"
definition LAN_THINGSUB_SERVICE_PROPERTY_GETREPLY :: string where
  "LAN_THINGSUB_SERVICE_PROPERTY_GETREPLY = ''lan/thing/sub/+/+/thing/service/property/getReply''"
definition LAN_THING_SERVICE_PROPERTY_POSTREQ :: string where
  "LAN_THING_SERVICE_PROPERTY_POSTREQ = ''lan/thing/service/property/postReq''"

lemmas wildcard_defs =
  WAN_THINGSUB_PROPERTY_SET_def WAN_THINGSUB_PROPERTY_GET_def WAN_THING_DISCOVERY_def
  WAN_THINGSUB_DISCOVERY_def WAN_THINGSUB_CONFIG_PUSH_def WAN_EASYHBES_CONFIG_PUSH_def
  WAN_THING_RESTART_SET_def LAN_THING_PLUGIN_CONFIG_PUSH_def APP_THING_PLUGIN_CONFIG_PUSH_def
  APP_THING_PLUGIN_RELOAD_CONFIG_PUSH_def WAN_THING_PLUGIN_CONFIG_PUSH_def
  WAN_THING_PLUGIN_NODE_ACTION_PUSH_def LAN_THINGSUB_EVENT_PROPERTY_POST_def
  LAN_THINGSUB_SERVICE_PROPERTY_SET_def LAN_THINGSUB_SERVICE_PROPERTY_SETREPLY_def
  LAN_THINGSUB_SERVICE_PROPERTY_GET_def LAN_THINGSUB_SERVICE_PROPERTY_GETREPLY_def
  LAN_THING_SERVICE_PROPERTY_POSTREQ_def

text \<open>What \<open>connected5\<close> subscribes to.\<close>

definition topics_to_subscribe :: "string list" where
  "topics_to_subscribe =
     [WAN_THINGSUB_PROPERTY_SET, WAN_THINGSUB_PROPERTY_GET, LAN_THINGSUB_EVENT_PROPERTY_POST,
      LAN_THINGSUB_SERVICE_PROPERTY_SET, LAN_THINGSUB_SERVICE_PROPERTY_SETREPLY,
      LAN_THINGSUB_SERVICE_PROPERTY_GET, LAN_THINGSUB_SERVICE_PROPERTY_GETREPLY,
      LAN_THING_SERVICE_PROPERTY_POSTREQ, WAN_THING_DISCOVERY, WAN_THINGSUB_DISCOVERY,
      WAN_THINGSUB_CONFIG_PUSH, APP_THING_PLUGIN_CONFIG_PUSH, LAN_THING_PLUGIN_CONFIG_PUSH,
      APP_THING_PLUGIN_RELOAD_CONFIG_PUSH, WAN_EASYHBES_CONFIG_PUSH, WAN_THING_PLUGIN_CONFIG_PUSH,
      WAN_THING_PLUGIN_NODE_ACTION_PUSH, WAN_THING_RESTART_SET]"

definition tmm ::
  "esv_thing_model_msg_method \<Rightarrow> string \<Rightarrow> string \<Rightarrow> string \<Rightarrow> esv_thing_model_msg_t" where
  "tmm method pk dn payload =
     \<lparr>tmm_method = method, tmm_product_key = pk, tmm_device_name = dn,
      tmm_msg_type = ESV_TMM_JSON_STRING_PTR, tmm_msg = payload,
      tmm_msg_len = int (length payload), tmm_plugin_id = 0\<rparr>"

text \<open>
  The message with the key and name that the topic has from \<open>start\<close> on.  Where it has none the
  code uses uninitialised pointers, or frees the literal they were set to.
\<close>

definition topic_msg ::
  "esv_thing_model_msg_method \<Rightarrow> string \<Rightarrow> nat \<Rightarrow> string \<Rightarrow> esv_thing_model_msg_t option" where
  "topic_msg method topic start payload =
     (case get_pk_dn_from_thingsub_topic topic start of
        (Some pk, Some dn) \<Rightarrow> Some (tmm method pk dn payload)
      | _ \<Rightarrow> None)"

definition messageArrived5 ::
  "'j jansson \<Rightarrow> 'p world \<Rightarrow> string \<Rightarrow> string \<Rightarrow> u8 list \<Rightarrow> string \<Rightarrow> string \<Rightarrow> 'p neu_manager \<Rightarrow>
    'p routed" where
  "messageArrived5 J w after_copy after_payload uuid topic payload mg =
     (if topic_matches_wildcard topic WAN_THINGSUB_PROPERTY_SET then do {
        m \<leftarrow> topic_msg ESV_TMM_MTD_WAN_SUBTHING_THING_SERVICE_PROPERTY_SET topic 5 payload;
        forward_thing_model_msg_to_esvdriver w m mg
      }
      else if topic_matches_wildcard topic WAN_THING_PLUGIN_NODE_ACTION_PUSH then do {
        m \<leftarrow> topic_msg ESV_TMM_MTD_WAN_SUBTHING_THING_PLUGIN_NODE_ACTION_PUSH topic 1 payload;
        forward_thing_control_msg_to_esvdriver J w after_copy after_payload uuid m mg
      }
      else if topic_matches_wildcard topic WAN_THINGSUB_PROPERTY_GET then do {
        m \<leftarrow> topic_msg ESV_TMM_MTD_WAN_SUBTHING_THING_SERVICE_PROPERTY_GET topic 5 payload;
        forward_thing_model_msg_to_esvdriver w m mg
      }
      else if topic_matches_wildcard topic WAN_THING_PLUGIN_CONFIG_PUSH then do {
        m \<leftarrow> topic_msg ESV_TMM_MTD_WAN_SUBTHING_THING_PLUGIN_NODE_CONFIG_PUSH topic 1 payload;
        forward_thing_control_msg_to_esvdriver J w after_copy after_payload uuid m mg
      }
      else if topic_matches_wildcard topic APP_THING_PLUGIN_CONFIG_PUSH then do {
        plugin_node_id \<leftarrow> get_data_from_topic topic 3;
        forward_thing_model_matter_reload_msg_to_esvdriver J w uuid
          ((tmm ESV_TMM_MTD_APP_THING_PLUGIN_NODE_CONFIG_PUSH [] [] (c_text [] payload))
             \<lparr>tmm_msg_len := int (length payload), tmm_plugin_id := atoi plugin_node_id\<rparr>) mg
      }
      else if topic_matches_wildcard topic APP_THING_PLUGIN_RELOAD_CONFIG_PUSH then
        forward_thing_model_matter_reload_msg_to_esvdriver J w uuid
          ((tmm ESV_TMM_MTD_APP_THING_PLUGIN_NODE_CONFIG_PUSH [] [] (c_text [] payload))
             \<lparr>tmm_msg_len := int (length payload)\<rparr>) mg
      else if topic_matches_wildcard topic WAN_THING_DISCOVERY then
        forward_thing_model_msg_to_all_esvdevicedriver w
          (tmm ESV_TMM_MTD_WAN_THING_DISCOVERY [] [] payload) mg
      else if topic_matches_wildcard topic WAN_THINGSUB_DISCOVERY then do {
        m \<leftarrow> topic_msg ESV_TMM_MTD_WAN_SUBTHING_THING_DISCOVERY topic 5 payload;
        forward_thing_model_msg_to_all_esvdevicedriver w m mg
      }
      else if topic_matches_wildcard topic WAN_THINGSUB_DISCOVERY then do {
        m \<leftarrow> topic_msg ESV_TMM_MTD_WAN_SUBTHING_THING_CONFIG_PUSH topic 5 payload;
        forward_thing_model_msg_to_all_esvdevicedriver w m mg
      }
      else if topic_matches_wildcard topic WAN_EASYHBES_CONFIG_PUSH then do {
        let plugin_node_id = (case get_data_from_topic topic 4 of None \<Rightarrow> [] | Some i \<Rightarrow> i);
        forward_thing_model_msg_to_plugin_node w
          ((tmm ESV_TMM_MTD_WAN_EASYHBES_THING_PLUGIN_NODE_CONFIG_PUSH [] [] payload)
             \<lparr>tmm_plugin_id := atoi plugin_node_id\<rparr>) plugin_node_id mg
      }
      else if topic_matches_wildcard topic WAN_THING_RESTART_SET then Some (mg, [])
      else if topic_matches_wildcard topic LAN_THINGSUB_SERVICE_PROPERTY_GET then do {
        m \<leftarrow> topic_msg ESV_TMM_MTD_LAN_SUBTHING_THING_SERVICE_PROPERTY_GET topic 3 payload;
        forward_thing_model_msg_to_esvdriver w m mg
      }
      else if topic_matches_wildcard topic LAN_THINGSUB_SERVICE_PROPERTY_SET then do {
        m \<leftarrow> topic_msg ESV_TMM_MTD_LAN_SUBTHING_THING_SERVICE_PROPERTY_SET topic 3 payload;
        forward_thing_model_msg_to_esvdriver w m mg
      }
      else if topic_matches_wildcard topic LAN_THINGSUB_EVENT_PROPERTY_POST then do {
        m \<leftarrow> topic_msg ESV_TMM_MTD_LAN_SUBTHING_THING_EVENT_PROPERTY_POST topic 3 payload;
        forward_thing_model_msg_to_esvdriver w m mg
      }
      else if topic_matches_wildcard topic LAN_THING_SERVICE_PROPERTY_POSTREQ then
        forward_thing_model_msg_to_all_esvdevicedriver w
          (tmm ESV_TMM_MTD_LAN_THING_SERVICE_PROPERTY_POSTREQ [] [] payload) mg
      else Some (mg, []))"

section \<open>Executing the calls\<close>

fun exec_effects ::
  "'p world \<Rightarrow> tmm_effect list \<Rightarrow> 'p neu_manager \<Rightarrow> 'p routed" where
  "exec_effects w [] mg = Some (mg, [])"
| "exec_effects w (e # es) mg = do {
     (mg1, cs) \<leftarrow> (case e of
         TM_publish topic msg \<Rightarrow> Some (lan_mqtt5_service_publish topic msg mg, [])
       | TM_forward_to_esvapps m \<Rightarrow> forward_thing_model_msg_to_esvapps m mg
       | TM_forward_to_esvdriver m \<Rightarrow> forward_thing_model_msg_to_esvdriver w m mg);
     (mg2, cs') \<leftarrow> exec_effects w es mg1;
     Some (mg2, cs @ cs')
   }"

definition exec_call :: "'p world \<Rightarrow> 'p neu_manager \<Rightarrow> call \<Rightarrow> 'p routed" where
  "exec_call w mg c =
     (case c of
        Deliver i m \<Rightarrow> do {
          ad \<leftarrow> heap_at (mg_heap mg) i;
          let (_, p, outs) = pf_msg_arrived (ad_intf ad) (ad_plugin ad) m;
          Some (update_adapter mg i (set_plugin p ad), map (Arrived i) outs)
        }
      | Arrived i m \<Rightarrow> do {
          ad \<leftarrow> heap_at (mg_heap mg) i;
          exec_effects w (snd (thing_model_msg_arrived (ad_type ad) m)) mg
        })"

datatype 'p run_result = Finished 'p | Crashed | Out_of_fuel

fun run_calls :: "nat \<Rightarrow> 'p world \<Rightarrow> 'p neu_manager \<Rightarrow> call list \<Rightarrow> 'p neu_manager run_result" where
  "run_calls n w mg [] = Finished mg"
| "run_calls 0 w mg (c # cs) = Out_of_fuel"
| "run_calls (Suc n) w mg (c # cs) =
     (case exec_call w mg c of
        None \<Rightarrow> Crashed
      | Some (mg', new) \<Rightarrow> run_calls n w mg' (new @ cs))"

end
