(* ===== verification/RouterLaws.thy ===== *)
theory RouterLaws
  imports Router
begin

text \<open>
  Laws of the routing of messages (\<open>Router\<close>): which topics each branch of \<open>messageArrived5\<close>
  takes, what the forwards deliver, and how the calls run.
\<close>

section \<open>Topics by their levels\<close>

lemmas level_defs = levels_def wildcard_defs

lemma wildcard_levels [simp]:
  "levels WAN_THINGSUB_PROPERTY_SET =
     [''wan'', ''+'', ''+'', ''thing'', ''sub'', ''+'', ''+'', ''thing'', ''service'', ''property'', ''set'']"
  "levels WAN_THINGSUB_PROPERTY_GET =
     [''wan'', ''+'', ''+'', ''thing'', ''sub'', ''+'', ''+'', ''thing'', ''service'', ''property'', ''get'']"
  "levels WAN_THING_DISCOVERY = [''wan'', ''+'', ''+'', ''thing'', ''discovery'']"
  "levels WAN_THINGSUB_DISCOVERY =
     [''wan'', ''+'', ''+'', ''thing'', ''sub'', ''+'', ''+'', ''thing'', ''discovery'']"
  "levels WAN_THINGSUB_CONFIG_PUSH =
     [''wan'', ''+'', ''+'', ''thing'', ''sub'', ''+'', ''+'', ''thing'', ''config'', ''push'']"
  "levels WAN_EASYHBES_CONFIG_PUSH = [''wan'', ''+'', ''+'', ''easyHbes'', ''+'', ''thing'', ''config'', ''push'']"
  "levels WAN_THING_RESTART_SET = [''wan'', ''+'', ''+'', ''thing'', ''restart'', ''set'']"
  "levels LAN_THING_PLUGIN_CONFIG_PUSH = [''lan'', ''thing'', ''pluginNode'', ''+'', ''config'', ''push'']"
  "levels APP_THING_PLUGIN_CONFIG_PUSH = [''app'', ''thing'', ''pluginNode'', ''+'', ''config'', ''push'']"
  "levels APP_THING_PLUGIN_RELOAD_CONFIG_PUSH = [''app'', ''thing'', ''pluginNode'', ''config'', ''push'']"
  "levels WAN_THING_PLUGIN_CONFIG_PUSH =
     [''wan'', ''+'', ''+'', ''thing'', ''pluginNode'', ''config'', ''push'']"
  "levels WAN_THING_PLUGIN_NODE_ACTION_PUSH =
     [''wan'', ''+'', ''+'', ''thing'', ''pluginNode'', ''action'', ''push'']"
  "levels LAN_THINGSUB_EVENT_PROPERTY_POST =
     [''lan'', ''thing'', ''sub'', ''+'', ''+'', ''thing'', ''event'', ''property'', ''post'']"
  "levels LAN_THINGSUB_SERVICE_PROPERTY_SET =
     [''lan'', ''thing'', ''sub'', ''+'', ''+'', ''thing'', ''service'', ''property'', ''set'']"
  "levels LAN_THINGSUB_SERVICE_PROPERTY_SETREPLY =
     [''lan'', ''thing'', ''sub'', ''+'', ''+'', ''thing'', ''service'', ''property'', ''setReply'']"
  "levels LAN_THINGSUB_SERVICE_PROPERTY_GET =
     [''lan'', ''thing'', ''sub'', ''+'', ''+'', ''thing'', ''service'', ''property'', ''get'']"
  "levels LAN_THINGSUB_SERVICE_PROPERTY_GETREPLY =
     [''lan'', ''thing'', ''sub'', ''+'', ''+'', ''thing'', ''service'', ''property'', ''getReply'']"
  "levels LAN_THING_SERVICE_PROPERTY_POSTREQ = [''lan'', ''thing'', ''service'', ''property'', ''postReq'']"
  by (simp_all add: level_defs)

lemma good_wildcards: "\<forall>w\<in>set topics_to_subscribe. good_wildcard w"
  by (simp add: topics_to_subscribe_def good_wildcard_def wildcard_level_def)

lemma wildcard_match:
  "w \<in> set topics_to_subscribe \<Longrightarrow>
    topic_matches_wildcard t w \<longleftrightarrow> list_all2 level_matches (levels w) (levels t)"
  using good_wildcards topic_match_levels by blast

lemmas wildcard_matches =
  wildcard_match [of WAN_THINGSUB_PROPERTY_SET] wildcard_match [of WAN_THINGSUB_PROPERTY_GET]
  wildcard_match [of WAN_THING_DISCOVERY] wildcard_match [of WAN_THINGSUB_DISCOVERY]
  wildcard_match [of WAN_THINGSUB_CONFIG_PUSH] wildcard_match [of WAN_EASYHBES_CONFIG_PUSH]
  wildcard_match [of WAN_THING_RESTART_SET] wildcard_match [of LAN_THING_PLUGIN_CONFIG_PUSH]
  wildcard_match [of APP_THING_PLUGIN_CONFIG_PUSH] wildcard_match [of APP_THING_PLUGIN_RELOAD_CONFIG_PUSH]
  wildcard_match [of WAN_THING_PLUGIN_CONFIG_PUSH] wildcard_match [of WAN_THING_PLUGIN_NODE_ACTION_PUSH]
  wildcard_match [of LAN_THINGSUB_EVENT_PROPERTY_POST] wildcard_match [of LAN_THINGSUB_SERVICE_PROPERTY_SET]
  wildcard_match [of LAN_THINGSUB_SERVICE_PROPERTY_SETREPLY]
  wildcard_match [of LAN_THINGSUB_SERVICE_PROPERTY_GET]
  wildcard_match [of LAN_THINGSUB_SERVICE_PROPERTY_GETREPLY]
  wildcard_match [of LAN_THING_SERVICE_PROPERTY_POSTREQ]

lemmas matches_by_levels = wildcard_matches [simplified topics_to_subscribe_def, simplified]

text \<open>Two wildcards that both match one topic agree where both are plain.\<close>

definition may_overlap :: "string \<Rightarrow> string \<Rightarrow> bool" where
  "may_overlap w v = list_all2 (\<lambda>a b. a = ''+'' \<or> b = ''+'' \<or> a = b) (levels w) (levels v)"

lemma match_overlap:
  assumes "list_all2 level_matches xs ls" "list_all2 level_matches ys ls"
  shows "list_all2 (\<lambda>a b. a = ''+'' \<or> b = ''+'' \<or> a = b) xs ys"
  using assms
proof (induction xs arbitrary: ys ls)
  case (Cons x xs)
  then obtain l ls' where ls: "ls = l # ls'" by (auto simp: list_all2_Cons1)
  with Cons.prems(2) obtain y ys' where ys: "ys = y # ys'" by (auto simp: list_all2_Cons2)
  from Cons ls ys show ?case by (auto simp: level_matches_def)
qed simp

lemma no_overlap:
  "\<forall>w\<in>set topics_to_subscribe. \<forall>v\<in>set topics_to_subscribe. may_overlap w v \<longrightarrow> w = v"
  by (simp add: topics_to_subscribe_def may_overlap_def)

lemma one_subscription:
  assumes "w \<in> set topics_to_subscribe" "v \<in> set topics_to_subscribe"
    and "topic_matches_wildcard t w" "topic_matches_wildcard t v"
  shows "w = v"
proof -
  have "may_overlap w v"
    using assms match_overlap by (simp add: may_overlap_def wildcard_match)
  with assms no_overlap show ?thesis by blast
qed

text \<open>Plain levels that are not empty are the tokens of their topic.\<close>

definition plain_level :: "string \<Rightarrow> bool" where
  "plain_level l \<longleftrightarrow> l \<noteq> [] \<and> CHR ''/'' \<notin> set l"

lemma tokens_topic_of:
  assumes "ls \<noteq> []" "\<forall>l\<in>set ls. CHR ''/'' \<notin> set l"
  shows "levels (topic_of ls) = ls" "strtok_all [] (topic_of ls) = filter (\<lambda>l. l \<noteq> []) ls"
  using levels_topic_of [OF assms] by (simp_all add: strtok_levels)

section \<open>What the forwards deliver\<close>

text \<open>The database answers the queries of the forwards.\<close>

definition world_answers :: "'p world \<Rightarrow> bool" where
  "world_answers w \<longleftrightarrow> db_prepares (w_db w) Q_names_by_type \<and>
     (\<forall>name. select_plugin_node (w_exec w) name \<noteq> None)"

definition node_ids :: "'p world \<Rightarrow> string \<Rightarrow> int" where
  "node_ids w name = atoi (snd (the (select_plugin_node (w_exec w) name)))"

lemma with_node_id_answers:
  assumes "world_answers w"
  shows "with_node_id w name m = Some (m\<lparr>tmm_plugin_id := node_ids w name\<rparr>)"
proof -
  obtain r where "select_plugin_node (w_exec w) name = Some r"
    using assms unfolding world_answers_def by blast
  then show ?thesis by (simp add: with_node_id_def node_ids_def case_prod_beta)
qed

definition known :: "'p neu_manager \<Rightarrow> string \<Rightarrow> bool" where
  "known mg name \<longleftrightarrow> neu_node_manager_find (mg_nodes mg) name \<noteq> None"

definition delivery :: "'p world \<Rightarrow> 'p neu_manager \<Rightarrow> esv_thing_model_msg_t \<Rightarrow> string \<Rightarrow> call" where
  "delivery w mg m name =
     Deliver (the (neu_node_manager_find (mg_nodes mg) name)) (m\<lparr>tmm_plugin_id := node_ids w name\<rparr>)"

lemma esvdriver_calls_known:
  assumes "nodes_ok (mg_heap mg) (mg_nodes mg)" "world_answers w"
  shows "esvdriver_calls w mg m names = Some (map (delivery w mg m) (takeWhile (known mg) names))"
  using assms(2)
  by (induction names)
     (auto simp: known_def delivery_def heap_at_def with_node_id_answers
        nodes_ok_find [OF assms(1)] split: option.split)

lemma forward_to_esvdriver_known:
  assumes "manager_ok mg" "world_answers w"
  shows "\<exists>names. esv_persister_query_device_node_name_by_node_type (w_db w) = Some names \<and>
    forward_thing_model_msg_to_esvdriver w m mg =
      Some (mg, map (delivery w mg m) (takeWhile (known mg) names))"
  using assms get_adapter_ok [of "mg_heap mg" "mg_nodes mg"] esvdriver_calls_known [of mg w m]
  by (auto simp: forward_thing_model_msg_to_esvdriver_def manager_ok_def world_answers_def
      esv_persister_query_device_node_name_by_node_type_def)

text \<open>The applications or drivers that a forward goes to: the cached ones, or those of now.\<close>

definition shown_of_type :: "'p neu_manager \<Rightarrow> neu_node_type_e \<Rightarrow> nat list" where
  "shown_of_type mg ty =
     map ne_adapter [e \<leftarrow> shown (mg_nodes mg). ad_type (mg_heap mg ! ne_adapter e) = ty]"

definition cached_or :: "nat list option \<Rightarrow> nat list \<Rightarrow> nat list" where
  "cached_or c is = (case c of Some is' \<Rightarrow> is' | None \<Rightarrow> is)"

lemma shown_addresses:
  "manager_ok mg \<Longrightarrow> i \<in> set (shown_of_type mg ty) \<Longrightarrow> i < length (mg_heap mg)"
  using shown_subset [of "mg_nodes mg"]
  by (auto simp: shown_of_type_def manager_ok_def dest: nodes_ok_entity subsetD)

lemma cached_addresses:
  "manager_ok mg \<Longrightarrow> i \<in> set (cached_or (mg_esvappnodes mg) (shown_of_type mg ty)) \<Longrightarrow>
    i < length (mg_heap mg)"
  "manager_ok mg \<Longrightarrow> i \<in> set (cached_or (mg_esvdevicedrivernodes mg) (shown_of_type mg ty)) \<Longrightarrow>
    i < length (mg_heap mg)"
  using shown_addresses
  by (fastforce simp: cached_or_def manager_ok_def cached_ok_def split: option.splits)+

lemma forward_to_esvapps_eq:
  assumes "manager_ok mg"
  shows "forward_thing_model_msg_to_esvapps m mg =
    (let is = cached_or (mg_esvappnodes mg) (shown_of_type mg NEU_NA_TYPE_ESVAPP)
     in Some (mg\<lparr>mg_esvappnodes := Some is\<rparr>, map (\<lambda>i. Deliver i m) is))"
  using assms get_adapter_ok [of "mg_heap mg" "mg_nodes mg"]
  by (simp add: forward_thing_model_msg_to_esvapps_def cached_or_def manager_ok_def shown_of_type_def
      split: option.split)

lemma forward_to_drivers_eq:
  assumes "manager_ok mg" "world_answers w"
  shows "forward_thing_model_msg_to_all_esvdevicedriver w m mg =
    (let is = cached_or (mg_esvdevicedrivernodes mg) (shown_of_type mg NEU_NA_TYPE_ESVSELFDEVICEDRIVER)
     in Some (mg\<lparr>mg_esvdevicedrivernodes := Some is\<rparr>,
          map (\<lambda>i. Deliver i (m\<lparr>tmm_plugin_id := node_ids w (ad_name (mg_heap mg ! i))\<rparr>)) is))"
proof -
  define ids where "ids = cached_or (mg_esvdevicedrivernodes mg)
    (shown_of_type mg NEU_NA_TYPE_ESVSELFDEVICEDRIVER)"
  have source: "(case mg_esvdevicedrivernodes mg of Some is \<Rightarrow> Some is
      | None \<Rightarrow> neu_node_manager_get_adapter (mg_heap mg) (mg_nodes mg) NEU_NA_TYPE_ESVSELFDEVICEDRIVER) = Some ids"
    using assms(1) get_adapter_ok [of "mg_heap mg" "mg_nodes mg"]
    by (simp add: ids_def cached_or_def manager_ok_def shown_of_type_def split: option.split)
  have addr: "\<forall>i\<in>set ids. i < length (mg_heap mg)"
    using cached_addresses(2) [OF assms(1)] by (auto simp: ids_def)
  have "those (map (adapter_call w mg' m) js) =
      Some (map (\<lambda>i. Deliver i (m\<lparr>tmm_plugin_id := node_ids w (ad_name (mg_heap mg ! i))\<rparr>)) js)"
    if "mg_heap mg' = mg_heap mg" "\<forall>i\<in>set js. i < length (mg_heap mg)" for mg' js
    using that by (induction js) (auto simp: adapter_call_def heap_at_def with_node_id_answers [OF assms(2)])
  then show ?thesis
    using source addr
    by (simp add: forward_thing_model_msg_to_all_esvdevicedriver_def ids_def [symmetric] Let_def)
qed

end
