(* ===== verification/RunLaws.thy ===== *)
theory RunLaws
  imports RouterLaws "HOL-Library.Multiset"
begin

text \<open>
  Laws of the runs of messages through the manager: every call keeps the manager's invariant,
  and a run ends when the plugins only react by messages of a lower rank.
\<close>

section \<open>What a call keeps\<close>

definition call_ok :: "'p neu_manager \<Rightarrow> call \<Rightarrow> bool" where
  "call_ok mg c \<longleftrightarrow> (case c of Deliver i m \<Rightarrow> i < length (mg_heap mg) | Arrived i m \<Rightarrow> i < length (mg_heap mg))"

definition same_nodes :: "'p neu_manager \<Rightarrow> 'p neu_manager \<Rightarrow> bool" where
  "same_nodes mg mg' \<longleftrightarrow> mg_nodes mg' = mg_nodes mg \<and> mg_plugins mg' = mg_plugins mg \<and>
     map ad_module (mg_heap mg') = map ad_module (mg_heap mg)"

definition keeps_caches :: "'p neu_manager \<Rightarrow> 'p neu_manager \<Rightarrow> bool" where
  "keeps_caches mg mg' \<longleftrightarrow>
     (mg_esvappnodes mg \<noteq> None \<longrightarrow> mg_esvappnodes mg' = mg_esvappnodes mg) \<and>
     (mg_esvdevicedrivernodes mg \<noteq> None \<longrightarrow> mg_esvdevicedrivernodes mg' = mg_esvdevicedrivernodes mg)"

text \<open>The relation between the managers before and after any routing.\<close>

definition routing_step :: "'p neu_manager \<Rightarrow> 'p neu_manager \<Rightarrow> bool" where
  "routing_step mg mg' \<longleftrightarrow> same_nodes mg mg' \<and> keeps_caches mg mg' \<and> (manager_ok mg \<longrightarrow> manager_ok mg')"

lemma routing_refl [simp]: "routing_step mg mg"
  by (simp add: routing_step_def same_nodes_def keeps_caches_def)

lemma routing_trans: "routing_step a b \<Longrightarrow> routing_step b c \<Longrightarrow> routing_step a c"
  by (auto simp: routing_step_def same_nodes_def keeps_caches_def)

lemma same_nodes_length: "same_nodes mg mg' \<Longrightarrow> length (mg_heap mg') = length (mg_heap mg)"
  by (metis length_map same_nodes_def)

lemma routing_call_ok: "routing_step mg mg' \<Longrightarrow> call_ok mg' c = call_ok mg c"
  using same_nodes_length [of mg mg'] by (simp add: routing_step_def call_ok_def split: call.split)

lemma routing_publish [simp]: "routing_step mg (lan_mqtt5_service_publish t s mg)"
  by (simp add: routing_step_def same_nodes_def keeps_caches_def manager_ok_def
      lan_mqtt5_service_publish_def)

lemma routing_update:
  assumes "i < length (mg_heap mg)" "ad_name ad = ad_name (mg_heap mg ! i)"
    "ad_module ad = ad_module (mg_heap mg ! i)"
  shows "routing_step mg (update_adapter mg i ad)"
proof -
  have "map ad_module ((mg_heap mg)[i := ad]) = map ad_module (mg_heap mg)"
    using assms by (simp add: map_update list_update_same_conv)
  with nodes_ok_heap [of "mg_heap mg" "mg_nodes mg" ad i] assms(2,3) show ?thesis
    by (auto simp: routing_step_def same_nodes_def keeps_caches_def manager_ok_def update_adapter_def)
qed

lemma routing_set_plugin:
  "i < length (mg_heap mg) \<Longrightarrow> routing_step mg (update_adapter mg i (set_plugin p (mg_heap mg ! i)))"
  by (rule routing_update) simp_all

text \<open>What a forward gives: a manager and calls that fit it.\<close>

definition routed_ok :: "'p neu_manager \<Rightarrow> 'p routed \<Rightarrow> bool" where
  "routed_ok mg r \<longleftrightarrow> (case r of None \<Rightarrow> True
     | Some (mg', cs) \<Rightarrow> routing_step mg mg' \<and> (manager_ok mg \<longrightarrow> (\<forall>c\<in>set cs. call_ok mg' c)))"

lemma routed_ok_simps [simp]:
  "routed_ok mg None" "routed_ok mg (Some (mg, []))"
  "routed_ok mg (Some (mg', cs)) \<longleftrightarrow>
     routing_step mg mg' \<and> (manager_ok mg \<longrightarrow> (\<forall>c\<in>set cs. call_ok mg' c))"
  by (simp_all add: routed_ok_def)

lemma routed_ok_bind: "(\<And>x. routed_ok mg (f x)) \<Longrightarrow> routed_ok mg (Option.bind r f)"
  by (cases r) simp_all

lemma routed_ok_bindI: "(\<And>x. r = Some x \<Longrightarrow> routed_ok mg (f x)) \<Longrightarrow> routed_ok mg (Option.bind r f)"
  by (cases r) simp_all

lemma routed_ok_if: "routed_ok mg a \<Longrightarrow> routed_ok mg b \<Longrightarrow> routed_ok mg (if P then a else b)"
  by simp

lemma routed_ok_then:
  assumes "routed_ok mg (Some (mg1, cs))" "routed_ok mg1 (Some (mg2, cs'))"
  shows "routed_ok mg (Some (mg2, cs @ cs'))"
proof -
  have steps: "routing_step mg mg1" "routing_step mg1 mg2" using assms by simp_all
  have "manager_ok mg1" if "manager_ok mg" using steps(1) that by (simp add: routing_step_def)
  with routing_trans [OF steps] routing_call_ok [OF steps(2)] assms show ?thesis by auto
qed

lemma esvdriver_calls_ok:
  "esvdriver_calls w mg m names = Some cs \<Longrightarrow> c \<in> set cs \<Longrightarrow> call_ok mg c"
  by (induction names arbitrary: cs)
     (auto simp: bind_eq_Some_conv heap_at_Some call_ok_def split: option.splits)

lemma forward_esvdriver_ok [simp]: "routed_ok mg (forward_thing_model_msg_to_esvdriver w m mg)"
  by (auto simp: forward_thing_model_msg_to_esvdriver_def routed_ok_def bind_eq_Some_conv
      dest: esvdriver_calls_ok split: option.split)

lemma find_call_ok:
  "manager_ok mg \<Longrightarrow> neu_node_manager_find (mg_nodes mg) name = Some i \<Longrightarrow> call_ok mg (Deliver i m)"
  using nodes_ok_find(1) by (auto simp: manager_ok_def call_ok_def)

lemma routed_deliver:
  "neu_node_manager_find (mg_nodes mg) name = Some i \<Longrightarrow> routed_ok mg (Some (mg, [Deliver i m]))"
  using find_call_ok by auto

lemma forward_plugin_node_ok [simp]:
  "routed_ok mg (forward_thing_model_msg_to_plugin_node w m i mg)"
  unfolding forward_thing_model_msg_to_plugin_node_def
  by (rule routed_ok_bind) (auto split: option.split dest: find_call_ok [OF _ sym])

lemma routing_cache:
  assumes "manager_ok mg \<longrightarrow> (\<forall>i\<in>set is. i < length (mg_heap mg))"
  shows "mg_esvappnodes mg \<in> {None, Some is} \<Longrightarrow> routing_step mg (mg\<lparr>mg_esvappnodes := Some is\<rparr>)"
    and "mg_esvdevicedrivernodes mg \<in> {None, Some is} \<Longrightarrow>
      routing_step mg (mg\<lparr>mg_esvdevicedrivernodes := Some is\<rparr>)"
  using assms
  by (auto simp: routing_step_def same_nodes_def keeps_caches_def manager_ok_def cached_ok_def)

lemma get_adapter_addresses:
  assumes "neu_node_manager_get_adapter (mg_heap mg) (mg_nodes mg) ty = Some js" "manager_ok mg"
  shows "\<forall>i\<in>set js. i < length (mg_heap mg)"
  using assms shown_addresses [OF assms(2), of _ ty] get_adapter_ok [of "mg_heap mg" "mg_nodes mg" ty]
  by (auto simp: manager_ok_def shown_of_type_def)

lemma cached_call_ok:
  "manager_ok mg \<Longrightarrow> mg_esvappnodes mg = Some js \<or> mg_esvdevicedrivernodes mg = Some js \<Longrightarrow>
    \<forall>i\<in>set js. i < length (mg_heap mg)"
  by (auto simp: manager_ok_def cached_ok_def)

lemma forward_esvapps_ok [simp]: "routed_ok mg (forward_thing_model_msg_to_esvapps m mg)"
proof (cases "mg_esvappnodes mg")
  case None
  show ?thesis
  proof (cases "neu_node_manager_get_adapter (mg_heap mg) (mg_nodes mg) NEU_NA_TYPE_ESVAPP")
    case (Some js)
    from get_adapter_addresses [OF Some] None routing_cache(1) [of mg js] Some show ?thesis
      by (auto simp: forward_thing_model_msg_to_esvapps_def call_ok_def)
  qed (simp add: forward_thing_model_msg_to_esvapps_def None)
next
  case (Some js)
  with cached_call_ok [of mg js] routing_cache(1) [of mg js] show ?thesis
    by (auto simp: forward_thing_model_msg_to_esvapps_def call_ok_def)
qed

lemma adapter_calls_ok:
  "those (map (adapter_call w mg m) js) = Some cs \<Longrightarrow> c \<in> set cs \<Longrightarrow> call_ok mg c"
proof (induction js arbitrary: cs)
  case (Cons j js)
  then show ?case
    by (cases "those (map (adapter_call w mg m) js)")
       (auto simp: adapter_call_def bind_eq_Some_conv heap_at_Some call_ok_def split: option.splits)
qed simp

lemma forward_drivers_ok [simp]:
  "routed_ok mg (forward_thing_model_msg_to_all_esvdevicedriver w m mg)"
proof -
  have step: "routed_ok mg (do { cs \<leftarrow> those (map (adapter_call w mg' m) js); Some (mg', cs) })"
    if "routing_step mg mg'" for mg' js
    using that adapter_calls_ok [of w mg' m js]
    by (cases "those (map (adapter_call w mg' m) js)") auto
  show ?thesis
  proof (cases "mg_esvdevicedrivernodes mg")
    case None
    show ?thesis
    proof (cases "neu_node_manager_get_adapter (mg_heap mg) (mg_nodes mg) NEU_NA_TYPE_ESVSELFDEVICEDRIVER")
      case (Some js)
      from get_adapter_addresses [OF Some] None routing_cache(2) [of mg js]
        step [of "mg\<lparr>mg_esvdevicedrivernodes := Some js\<rparr>" js] Some
      show ?thesis by (simp add: forward_thing_model_msg_to_all_esvdevicedriver_def Let_def)
    qed (simp add: forward_thing_model_msg_to_all_esvdevicedriver_def None)
  next
    case (Some js)
    with cached_call_ok [of mg js] routing_cache(2) [of mg js]
      step [of "mg\<lparr>mg_esvdevicedrivernodes := Some js\<rparr>" js]
    show ?thesis by (auto simp: forward_thing_model_msg_to_all_esvdevicedriver_def Let_def)
  qed
qed

text \<open>Reloading changes a plugin, a setting and a state.\<close>

lemma reload_frame:
  "ad_name (snd (reload_setting w r ad)) = ad_name ad"
  "ad_module (snd (reload_setting w r ad)) = ad_module ad"
  "ad_name (snd (stop_plugin ad)) = ad_name ad" "ad_module (snd (stop_plugin ad)) = ad_module ad"
  "ad_name (start_plugin ad) = ad_name ad" "ad_module (start_plugin ad) = ad_module ad"
  by (auto simp: reload_setting_def reload_config_def stop_plugin_def start_plugin_def split: sum.split prod.split)

lemma send_results_routing:
  "send_config_plugin_results J uuid recv r mg = Some mg' \<Longrightarrow> routing_step mg mg'"
  "send_config_plugin_results_for_matter J uuid recv r mg = Some mg' \<Longrightarrow> routing_step mg mg'"
  by (auto simp: send_config_plugin_results_def send_config_plugin_results_for_matter_def
      bind_eq_Some_conv Let_def)

lemma routed_update:
  assumes "heap_at (mg_heap mg) i = Some ad" "ad_name ad' = ad_name ad" "ad_module ad' = ad_module ad"
  shows "routing_step mg (update_adapter mg i ad')"
  using assms by (intro routing_update) (auto simp: heap_at_Some)

lemma routed_send:
  assumes "routing_step mg mg1" "\<And>mg'. send mg1 = Some mg' \<Longrightarrow> routing_step mg1 mg'"
  shows "routed_ok mg (do { mg' \<leftarrow> send mg1; Some (mg', []) })"
  using assms by (cases "send mg1") (auto intro: routing_trans)

lemma forward_control_ok [simp]:
  "routed_ok mg (forward_thing_control_msg_to_esvdriver J w ac ap uuid m mg)"
proof -
  have reload: "routed_ok mg (do { ad \<leftarrow> heap_at (mg_heap mg) i;
      let (config_result, ad1) = reload_setting w 2 (snd (stop_plugin ad));
      mg' \<leftarrow> send_config_plugin_results J uuid recv config_result (update_adapter mg i (start_plugin ad1));
      Some (mg', []) })" for i recv
  proof (cases "heap_at (mg_heap mg) i")
    case (Some ad)
    obtain r ad1 where r: "reload_setting w 2 (snd (stop_plugin ad)) = (r, ad1)" by fastforce
    then have "ad_name ad1 = ad_name ad" "ad_module ad1 = ad_module ad"
      using reload_frame(1,2) [of w 2 "snd (stop_plugin ad)"] reload_frame(3,4) [of ad] by simp_all
    then have "routing_step mg (update_adapter mg i (start_plugin ad1))"
      by (intro routed_update [OF Some]) (simp_all add: reload_frame)
    from routed_send [OF this send_results_routing(1)] show ?thesis
      by (simp add: Some r)
  qed simp
  show ?thesis
    unfolding forward_thing_control_msg_to_esvdriver_def Let_def case_prod_beta
    by (auto intro!: routed_ok_bind reload [unfolded Let_def case_prod_beta] split: option.split)
qed

lemma forward_matter_ok [simp]:
  "routed_ok mg (forward_thing_model_matter_reload_msg_to_esvdriver J w uuid m mg)"
proof -
  have reload: "routed_ok mg (let (ret, ad1) = stop_plugin ad
      in if ret \<noteq> 0 then Some (update_adapter mg i ad1, [])
         else do {
           let (config_result, ad2) = reload_setting w 0 ad1;
           mg' \<leftarrow> send_config_plugin_results_for_matter J uuid recv config_result
                    (update_adapter mg i (start_plugin ad2));
           Some (mg', [])
         })" if ad: "heap_at (mg_heap mg) i = Some ad" for i ad recv
  proof -
    obtain ret ad1 where s: "stop_plugin ad = (ret, ad1)" by fastforce
    obtain r ad2 where r: "reload_setting w 0 ad1 = (r, ad2)" by fastforce
    have "ad_name ad1 = ad_name ad" "ad_module ad1 = ad_module ad"
      using reload_frame(3,4) [of ad] by (simp_all add: s)
    moreover from this have "ad_name ad2 = ad_name ad" "ad_module ad2 = ad_module ad"
      using reload_frame(1,2) [of w 0 ad1] by (simp_all add: r)
    ultimately have steps: "routing_step mg (update_adapter mg i ad1)"
      "routing_step mg (update_adapter mg i (start_plugin ad2))"
      by (auto intro!: routed_update [OF ad] simp: reload_frame)
    have "routed_ok mg (do {
        mg' \<leftarrow> send_config_plugin_results_for_matter J uuid recv r (update_adapter mg i (start_plugin ad2));
        Some (mg', []) })"
      by (rule routed_send [OF steps(2)]) (rule send_results_routing(2))
    with steps(1) show ?thesis by (simp add: s r)
  qed
  show ?thesis
    unfolding forward_thing_model_matter_reload_msg_to_esvdriver_def Let_def case_prod_beta
    by (auto intro!: routed_ok_bindI reload [unfolded Let_def case_prod_beta] routed_deliver
        simp del: routed_ok_simps(3) split: option.split)
qed

lemmas forwards_ok = forward_esvdriver_ok forward_control_ok forward_matter_ok forward_drivers_ok
  forward_plugin_node_ok routed_ok_simps(2)

lemma messageArrived_ok: "routed_ok mg (messageArrived5 J w ac ap uuid topic payload mg)"
  unfolding messageArrived5_def Let_def by (intro routed_ok_if routed_ok_bind forwards_ok)

lemma exec_effects_ok: "routed_ok mg (exec_effects w es mg)"
proof (induction es arbitrary: mg)
  case (Cons e es)
  let ?first = "case e of TM_publish topic msg \<Rightarrow> Some (lan_mqtt5_service_publish topic msg mg, [])
       | TM_forward_to_esvapps m \<Rightarrow> forward_thing_model_msg_to_esvapps m mg
       | TM_forward_to_esvdriver m \<Rightarrow> forward_thing_model_msg_to_esvdriver w m mg"
  have first: "routed_ok mg ?first" by (cases e) simp_all
  show ?case
  proof (cases ?first)
    case (Some r)
    then obtain mg1 cs where r: "?first = Some (mg1, cs)" by (cases r) auto
    show ?thesis
    proof (cases "exec_effects w es mg1")
      case (Some r')
      then obtain mg2 cs' where r': "exec_effects w es mg1 = Some (mg2, cs')" by (cases r') auto
      from routed_ok_then [of mg mg1 cs mg2 cs'] first Cons.IH [of mg1] show ?thesis
        by (simp add: r r' del: routed_ok_simps(3))
    qed (simp add: r)
  qed simp
qed simp

lemma exec_call_routed: "routed_ok mg (exec_call w mg c)"
proof (cases c)
  case (Deliver i m)
  show ?thesis
  proof (cases "heap_at (mg_heap mg) i")
    case (Some ad)
    obtain rv p outs where "pf_msg_arrived (ad_intf ad) (ad_plugin ad) m = (rv, p, outs)"
      by (rule prod_cases3)
    moreover have "routing_step mg (update_adapter mg i (set_plugin p ad))"
      by (rule routed_update [OF Some]) simp_all
    moreover have "i < length (mg_heap (update_adapter mg i (set_plugin p ad)))"
      using Some by (simp add: heap_at_Some update_adapter_def)
    ultimately show ?thesis by (auto simp: exec_call_def Deliver Some call_ok_def)
  qed (simp add: exec_call_def Deliver)
next
  case (Arrived i m)
  show ?thesis by (auto simp: exec_call_def Arrived intro!: routed_ok_bind exec_effects_ok)
qed

text \<open>A run that finishes, and the calls left at any point of it.\<close>

lemma run_calls_routing:
  "run_calls n w mg cs = Finished mg' \<Longrightarrow> routing_step mg mg'"
proof (induction n w mg cs rule: run_calls.induct)
  case (3 n w mg c cs)
  then obtain mg1 new where e: "exec_call w mg c = Some (mg1, new)" "run_calls n w mg1 (new @ cs) = Finished mg'"
    by (auto split: option.splits)
  with exec_call_routed [of mg w c] 3(1) [OF e(1) refl e(2)] show ?case
    by (auto intro: routing_trans)
qed simp_all

section \<open>Every run ends\<close>

text \<open>
  No call crashes in a well-formed manager whose database answers; every call on the stack
  stays valid.
\<close>

lemma exec_effects_runs:
  assumes "manager_ok mg" "world_answers w"
  shows "exec_effects w es mg \<noteq> None"
  using assms(1)
proof (induction es arbitrary: mg)
  case (Cons e es)
  have "\<exists>mg1 cs. (case e of TM_publish topic msg \<Rightarrow> Some (lan_mqtt5_service_publish topic msg mg, [])
       | TM_forward_to_esvapps m \<Rightarrow> forward_thing_model_msg_to_esvapps m mg
       | TM_forward_to_esvdriver m \<Rightarrow> forward_thing_model_msg_to_esvdriver w m mg) = Some (mg1, cs) \<and>
      manager_ok mg1"
  proof (cases e)
    case (TM_publish topic msg)
    then show ?thesis using Cons.prems routing_publish [of mg topic msg] by (simp add: routing_step_def)
  next
    case (TM_forward_to_esvapps m)
    then show ?thesis
      using Cons.prems forward_esvapps_ok [of mg m]
      by (simp add: forward_to_esvapps_eq Let_def routing_step_def)
  next
    case (TM_forward_to_esvdriver m)
    then show ?thesis
      using forward_to_esvdriver_known [OF Cons.prems assms(2), of m] Cons.prems by auto
  qed
  then obtain mg1 cs where first: "(case e of TM_publish topic msg \<Rightarrow> Some (lan_mqtt5_service_publish topic msg mg, [])
       | TM_forward_to_esvapps m \<Rightarrow> forward_thing_model_msg_to_esvapps m mg
       | TM_forward_to_esvdriver m \<Rightarrow> forward_thing_model_msg_to_esvdriver w m mg) = Some (mg1, cs)"
    and ok: "manager_ok mg1" by blast
  from Cons.IH [OF ok] show ?case by (auto simp: first)
qed simp

lemma exec_call_runs:
  assumes "manager_ok mg" "world_answers w" "call_ok mg c"
  shows "\<exists>mg' new. exec_call w mg c = Some (mg', new)"
  using assms exec_effects_runs [OF assms(1,2)]
  by (cases c) (auto simp: exec_call_def call_ok_def heap_at_def split: prod.split)

text \<open>
  The plugins react by messages of a lower rank only; the rank depends on the method.  A
  forwarded message keeps its method, so delivering it ranks below its arrival.
\<close>

definition reacts_down ::
  "(esv_thing_model_msg_method \<Rightarrow> nat) \<Rightarrow> 'p neu_plugin_module_t \<Rightarrow> bool" where
  "reacts_down rank md \<longleftrightarrow> (\<forall>p m rv p' outs.
     pf_msg_arrived (md_intf md) p m = (rv, p', outs) \<longrightarrow>
     (\<forall>out\<in>set outs. rank (tmm_method out) < rank (tmm_method m)))"

definition call_rank :: "(esv_thing_model_msg_method \<Rightarrow> nat) \<Rightarrow> call \<Rightarrow> nat" where
  "call_rank rank c =
     (case c of Deliver i m \<Rightarrow> 2 * rank (tmm_method m) | Arrived i m \<Rightarrow> 2 * rank (tmm_method m) + 1)"

lemma thing_model_forward_method:
  "TM_forward_to_esvapps m' \<in> set (snd (thing_model_msg_arrived ty m)) \<Longrightarrow> m' = m"
  "TM_forward_to_esvdriver m' \<in> set (snd (thing_model_msg_arrived ty m)) \<Longrightarrow> m' = m"
  by (auto simp: thing_model_msg_arrived_def thing_model_forward_def
      split: if_splits option.splits esv_thing_model_msg_method.splits)

lemma esvdriver_calls_rank:
  "esvdriver_calls w mg m names = Some cs \<Longrightarrow> c \<in> set cs \<Longrightarrow> call_rank rank c = 2 * rank (tmm_method m)"
  by (induction names arbitrary: cs)
     (auto simp: bind_eq_Some_conv with_node_id_def call_rank_def split: option.splits)

lemma exec_effects_rank:
  assumes "exec_effects w es mg = Some (mg', new)" "c \<in> set new"
    and "\<And>m'. TM_forward_to_esvapps m' \<in> set es \<or> TM_forward_to_esvdriver m' \<in> set es \<Longrightarrow>
      tmm_method m' = tmm_method m"
  shows "call_rank rank c = 2 * rank (tmm_method m)"
  using assms
proof (induction es arbitrary: mg new)
  case (Cons e es)
  obtain mg1 cs cs' where r: "(case e of TM_publish topic msg \<Rightarrow> Some (lan_mqtt5_service_publish topic msg mg, [])
       | TM_forward_to_esvapps m \<Rightarrow> forward_thing_model_msg_to_esvapps m mg
       | TM_forward_to_esvdriver m \<Rightarrow> forward_thing_model_msg_to_esvdriver w m mg) = Some (mg1, cs)"
    "exec_effects w es mg1 = Some (mg', cs')" "new = cs @ cs'"
    using Cons.prems(1) by (auto simp: bind_eq_Some_conv)
  have "call_rank rank c = 2 * rank (tmm_method m)" if "c \<in> set cs"
    using that r(1) Cons.prems(3) esvdriver_calls_rank
    by (cases e)
       (fastforce simp: forward_thing_model_msg_to_esvapps_def bind_eq_Some_conv call_rank_def
          forward_thing_model_msg_to_esvdriver_def)+
  with Cons.IH [OF r(2)] Cons.prems(2,3) r(3) show ?case by auto
qed simp

lemma exec_call_rank:
  assumes "exec_call w mg c = Some (mg', new)" "c' \<in> set new"
    and "\<forall>ad\<in>set (mg_heap mg). reacts_down rank (ad_module ad)"
  shows "call_rank rank c' < call_rank rank c"
proof (cases c)
  case (Deliver i m)
  obtain ad where ad: "heap_at (mg_heap mg) i = Some ad"
    using assms(1) by (auto simp: exec_call_def Deliver bind_eq_Some_conv)
  obtain rv p outs where o: "pf_msg_arrived (ad_intf ad) (ad_plugin ad) m = (rv, p, outs)"
    by (rule prod_cases3)
  have h: "new = map (Arrived i) outs"
    using assms(1) by (simp add: exec_call_def Deliver ad o)
  note h = h ad o
  then have "reacts_down rank (ad_module ad)" using assms(3) by (auto simp: heap_at_Some)
  with h assms(2) show ?thesis by (fastforce simp: Deliver call_rank_def reacts_down_def)
next
  case (Arrived i m)
  then obtain ad where ad: "heap_at (mg_heap mg) i = Some ad"
    using assms(1) by (auto simp: exec_call_def bind_eq_Some_conv)
  with Arrived assms(1) have "exec_effects w (snd (thing_model_msg_arrived (ad_type ad) m)) mg = Some (mg', new)"
    by (simp add: exec_call_def)
  from exec_effects_rank [OF this assms(2), of m rank] thing_model_forward_method [of _ "ad_type ad" m]
  have "call_rank rank c' = 2 * rank (tmm_method m)" by blast
  then show ?thesis by (simp add: Arrived call_rank_def)
qed

lemma run_calls_ends:
  assumes "manager_ok mg" "world_answers w" "\<forall>c\<in>set cs. call_ok mg c"
    and "\<forall>ad\<in>set (mg_heap mg). reacts_down rank (ad_module ad)"
  shows "\<exists>n mg'. run_calls n w mg cs = Finished mg'"
  using wf_mult1 [OF wf_less] assms
proof (induction "mset (map (call_rank rank) cs)" arbitrary: mg cs rule: wf_induct_rule)
  case less
  show ?case
  proof (cases cs)
    case Nil
    then show ?thesis by simp
  next
    case (Cons c cs')
    have "call_ok mg c" using less.prems(3) Cons by simp
    from exec_call_runs [OF less.prems(1,2) this]
    obtain mg1 new where e: "exec_call w mg c = Some (mg1, new)" by blast
    have step: "routing_step mg mg1" "\<forall>c\<in>set new. call_ok mg1 c"
      using exec_call_routed [of mg w c] e less.prems(1) by simp_all
    have heap: "\<forall>ad\<in>set (mg_heap mg1). reacts_down rank (ad_module ad)"
    proof
      fix ad assume "ad \<in> set (mg_heap mg1)"
      then have "ad_module ad \<in> set (map ad_module (mg_heap mg1))" by simp
      then have "ad_module ad \<in> set (map ad_module (mg_heap mg))"
        using step(1) by (simp only: routing_step_def same_nodes_def)
      then show "reacts_down rank (ad_module ad)" using less.prems(4) by auto
    qed
    have "(mset (map (call_rank rank) (new @ cs')), mset (map (call_rank rank) cs)) \<in> mult1 {(x, y). x < y}"
    proof (rule mult1I)
      show "mset (map (call_rank rank) cs) = add_mset (call_rank rank c) (mset (map (call_rank rank) cs'))"
        by (simp add: Cons)
      show "mset (map (call_rank rank) (new @ cs')) =
          mset (map (call_rank rank) cs') + mset (map (call_rank rank) new)" by simp
      show "(b, call_rank rank c) \<in> {(x, y). x < y}" if "b \<in># mset (map (call_rank rank) new)" for b
        using that exec_call_rank [OF e _ less.prems(4)] by auto
    qed
    moreover have "manager_ok mg1" using step(1) less.prems(1) by (simp add: routing_step_def)
    moreover have "\<forall>c\<in>set (new @ cs'). call_ok mg1 c"
      using step less.prems(3) routing_call_ok [OF step(1)] Cons by auto
    ultimately obtain n mg' where "run_calls n w mg1 (new @ cs') = Finished mg'"
      using less.hyps less.prems(2) heap by blast
    then have "run_calls (Suc n) w mg cs = Finished mg'" by (simp add: Cons e)
    then show ?thesis by blast
  qed
qed

end
