(* ===== verification/AdapterProps.thy ===== *)
theory AdapterProps
  imports AdapterLaws
begin

text \<open>
  Properties of the adapter: its life cycle follows the plugin, two requests that always
  crash, the bound on the devices of a driver, the answers of the loop, and adding a batch
  of tags.  The witnesses use a plugin whose memory is the flag whether it runs.
\<close>

definition demo_plugin :: "bool neu_plugin" where
  "demo_plugin = neu_plugin_common_init
     \<lparr>pc_magic = 0, pc_name = [], pc_link_state = NEU_NODE_LINK_STATE_CONNECTED, pc_priv = False\<rparr>"

definition demo_plugin_driver :: "bool neu_plugin driver_intf" where
  "demo_plugin_driver =
     \<lparr>i_validate_tag = (\<lambda>p t. (0, t, p)), i_add_tags = None, i_load_tags = None, i_del_tags = None,
      i_write_tag = (\<lambda>p req t v. (p, [])), i_write_tags = None, i_group_timer = (\<lambda>p g ts. (p, []))\<rparr>"

definition demo_funs :: "bool neu_plugin_intf_funs" where
  "demo_funs =
     \<lparr>pf_open = Some demo_plugin, pf_init = (\<lambda>p load. (0, p)), pf_uninit = (\<lambda>p. p),
      pf_start = (\<lambda>p. (0, p\<lparr>pc_priv := True\<rparr>)), pf_stop = (\<lambda>p. (0, p\<lparr>pc_priv := False\<rparr>)),
      pf_setting = (\<lambda>p s. (0, p)), pf_request = (\<lambda>p m. p), pf_driver = demo_plugin_driver,
      pf_add_devices = Some (\<lambda>p n ds. p), pf_msg_arrived = (\<lambda>p m. (0, p, []))\<rparr>"

definition demo_module :: "neu_node_type_e \<Rightarrow> bool neu_plugin_module_t" where
  "demo_module ty =
     \<lparr>md_schema = ''demo'', md_module_name = ''Demo'', md_module_descr = [], md_module_descr_zh = [],
      md_intf = demo_funs, md_type = ty, md_kind = NEU_PLUGIN_KIND_CUSTOM, md_display = True,
      md_single = False, md_single_name = [], md_timer_type = NEU_EVENT_TIMER_BLOCK\<rparr>"

definition demo_adapter :: "neu_node_type_e \<Rightarrow> bool adapter" where
  "demo_adapter ty = new_adapter ''node'' (demo_module ty)
     (demo_plugin\<lparr>pc_name := ''node'', pc_link_state := NEU_NODE_LINK_STATE_DISCONNECTED\<rparr>)"

definition demo_running :: "neu_node_type_e \<Rightarrow> bool adapter" where
  "demo_running ty = snd (neu_adapter_set_setting (demo_adapter ty) ''{}'')"

lemma demo_created:
  "ty \<in> set creatable_types \<Longrightarrow>
    neu_adapter_create (\<lambda>_. None) (\<lambda>_. Inl 1) 0 ''node'' (demo_module ty) True = Some (Some (demo_adapter ty), 0)"
  by (cases "ty = NEU_NA_TYPE_ESVDEVICEDRIVER")
     (simp_all add: neu_adapter_create_def demo_module_def demo_funs_def bind_plugin_def demo_plugin_def
      neu_plugin_common_check_def neu_plugin_common_init_def NEU_NODE_NAME_LEN_def
      load_config_setting_def adapter_load_device_def demo_adapter_def new_adapter_def
      neu_adapter_driver_create_def)

lemma demo_reachable:
  assumes "ty \<in> set creatable_types"
  shows "adapter_reachable (\<lambda>_. None) (\<lambda>_. Inl 1) (demo_module ty) (demo_adapter ty)"
    and "adapter_reachable (\<lambda>_. None) (\<lambda>_. Inl 1) (demo_module ty) (demo_running ty)"
    and "adapter_run (\<lambda>_. None) (\<lambda>_. Inl 1) (demo_module ty) True True (demo_running ty)"
proof -
  show "adapter_reachable (\<lambda>_. None) (\<lambda>_. Inl 1) (demo_module ty) (demo_adapter ty)"
    by (rule created [OF demo_created [OF assms]])
  from stepped [OF this step_setting]
  show "adapter_reachable (\<lambda>_. None) (\<lambda>_. Inl 1) (demo_module ty) (demo_running ty)"
    by (simp add: demo_running_def)
  from run_stepped [OF run_created [OF demo_created [OF assms]] step_setting]
  show "adapter_run (\<lambda>_. None) (\<lambda>_. Inl 1) (demo_module ty) True True (demo_running ty)"
    by (simp add: demo_running_def)
qed

lemma demo_tracks: "plugin_tracks (md_intf (demo_module ty)) pc_priv"
  by (auto simp: plugin_tracks_def demo_module_def demo_funs_def demo_plugin_def neu_plugin_common_init_def)

section \<open>The life cycle\<close>

text \<open>
  C13: In every state a node that is no driver can reach by requests, calls of the manager,
  messages, reloads of its configuration and what its plugin does: as long as no reload came
  after its creation or its last successful start or stop, the node is in state RUNNING
  exactly when its plugin has been started and not stopped since; as long as it was never
  reloaded, it has no setting only in state INIT; and in state INIT it never has one.  A
  reload stops and starts the plugin without the state following (\<open>reload_leaves_ready\<close>), and
  one whose setting the plugin refuses takes the setting away.
\<close>

theorem lifecycle_follows_plugin:
  assumes "adapter_run load_config load_devices md synced kept ad"
    and "plugin_tracks (md_intf md) running" "md_type md \<noteq> NEU_NA_TYPE_DRIVER"
  shows "(synced \<longrightarrow> (running (ad_plugin ad) \<longleftrightarrow> ad_state ad = NEU_NODE_RUNNING_STATE_RUNNING)) \<and>
    (kept \<longrightarrow> (ad_state ad = NEU_NODE_RUNNING_STATE_INIT \<longleftrightarrow> ad_setting ad = None)) \<and>
    (ad_state ad = NEU_NODE_RUNNING_STATE_INIT \<longrightarrow> ad_setting ad = None)"
  using run_lifecycle [OF assms] by (auto simp: lifecycle_ok_def)

lemma lifecycle_follows_plugin_witness:
  "ad_state (demo_running NEU_NA_TYPE_ESVAPP) = NEU_NODE_RUNNING_STATE_RUNNING \<and>
   pc_priv (ad_plugin (demo_running NEU_NA_TYPE_ESVAPP)) \<and>
   ad_setting (demo_running NEU_NA_TYPE_ESVAPP) \<noteq> None"
proof -
  have run: "ad_state (demo_running NEU_NA_TYPE_ESVAPP) = NEU_NODE_RUNNING_STATE_RUNNING"
    by (simp add: demo_running_def neu_adapter_set_setting_def demo_adapter_def new_adapter_def
        demo_module_def demo_funs_def neu_adapter_driver_create_def neu_adapter_start_def)
  show ?thesis
    using lifecycle_follows_plugin [OF demo_reachable(3) demo_tracks, of NEU_NA_TYPE_ESVAPP] run
    by (simp add: creatable_types_def demo_module_def)
qed

text \<open>
  A request to rename or to close a node crashes in every reachable state, whatever the
  type of the node: the timer of the log level and the io handle are read although they are
  never set.
\<close>

theorem rename_and_uninit_crash:
  assumes "adapter_reachable load_config load_devices md ad"
    and "rh_type h \<in> {NEU_REQ_NODE_RENAME, NEU_REQ_NODE_UNINIT}"
  shows "adapter_loop snd_rv pw True now us ad (h, d) = None"
  using assms reachable_frame [OF assms(1)]
  by (auto simp: adapter_loop_def plugin_types_def loop_rename_null loop_uninit_null)

lemma rename_and_uninit_crash_witness:
  "adapter_loop (\<lambda>_. 0) (\<lambda>_. 0) True 0 0 (demo_running NEU_NA_TYPE_ESVAPP)
     (\<lparr>rh_type = NEU_REQ_NODE_RENAME, rh_ctx = 1, rh_sender = ''manager'', rh_receiver = ''node''\<rparr>,
      D_node_rename ''node'' ''other'') = None"
  by (rule rename_and_uninit_crash [OF demo_reachable(2)]) (simp_all add: creatable_types_def)

section \<open>Devices\<close>

text \<open>
  C16: Loading the stored devices of a driver works exactly when there are fewer than 65536
  of them and every product key and device name fits its buffer of 128 bytes; then the
  driver's list holds the old devices and the new ones, each once.  From 65536 devices on
  the count wraps and the loop writes past the end of its array.
\<close>

theorem load_devices_bound:
  assumes "hash_wf (ad_device_list ad)"
  shows "case esv_adapter_driver_load_devices ad infos of
      None \<Rightarrow> 65536 \<le> length infos \<or> (\<exists>p\<in>set infos. \<not> device_info_ok p)
    | Some (r, ad') \<Rightarrow>
        length infos < 65536 \<and> (\<forall>p\<in>set infos. device_info_ok p) \<and> hash_wf (ad_device_list ad') \<and>
        set (hash_keys (ad_device_list ad')) =
          set (hash_keys (ad_device_list ad)) \<union> device_key ` set infos"
proof -
  let ?n = "unat (of_nat (length infos) :: u16)"
  have n: "?n = length infos mod 65536" by (simp add: unat_of_nat)
  show ?thesis
  proof (cases "length infos < 65536 \<and> (\<forall>p\<in>set infos. device_info_ok p)")
    case True
    then obtain l where "load_devices_loop ?n infos ([], ad_device_list ad) = Some (infos, l)"
      "hash_wf l" "set (hash_keys l) = set (hash_keys (ad_device_list ad)) \<union> device_key ` set infos"
      using load_devices_loop_Some [OF assms, of "[]" infos ?n] n by auto
    with True show ?thesis
      by (auto simp: esv_adapter_driver_load_devices_def Let_def split: option.split)
  next
    case False
    have "?n \<le> length infos" using n by simp
    moreover have "?n < length infos" if "65536 \<le> length infos"
      using n that by (simp add: less_le_trans [OF mod_less_divisor])
    ultimately have "load_devices_loop ?n infos ([], ad_device_list ad) = None"
      using False assms by (intro load_devices_loop_None) auto
    with False show ?thesis by (auto simp: esv_adapter_driver_load_devices_def)
  qed
qed

definition demo_device :: esv_device_info_t where
  "demo_device = \<lparr>di_product_key = ''pk'', di_device_name = ''dn'', di_device_secret = [],
     di_device_config = []\<rparr>"

lemma load_devices_bound_witness:
  "esv_adapter_driver_load_devices (demo_adapter NEU_NA_TYPE_ESVDEVICEDRIVER)
     (replicate 65536 demo_device) = None"
proof -
  have "hash_wf (ad_device_list (demo_adapter NEU_NA_TYPE_ESVDEVICEDRIVER))"
    by (simp add: demo_adapter_def new_adapter_def esv_device_list_new_def)
  from load_devices_bound [OF this, of "replicate 65536 demo_device"] show ?thesis
    by (simp split: option.splits prod.splits)
qed


section \<open>Answers\<close>

text \<open>The requests the loop itself answers.\<close>

definition answered_types :: "neu_reqresp_type list" where
  "answered_types =
    [NEU_REQ_NODE_SETTING, NEU_REQ_GET_NODE_SETTING, NEU_REQ_GET_NODE_STATE, NEU_REQ_GET_GROUP,
     NEU_REQ_GET_TAG, NEU_REQ_ADD_GROUP, NEU_REQ_UPDATE_DRIVER_GROUP, NEU_REQ_DEL_GROUP,
     NEU_REQ_NODE_CTL, NEU_REQ_DEL_TAG, NEU_REQ_ADD_TAG, NEU_REQ_UPDATE_TAG,
     NEU_REQ_UPDATE_NDRIVER_TAG_PARAM, NEU_REQ_UPDATE_NDRIVER_TAG_INFO, NEU_REQ_GET_NDRIVER_TAGS,
     NEU_REQ_UPDATE_LOG_LEVEL]"

definition answers :: "neu_reqresp_head_t \<Rightarrow> neu_msg list \<Rightarrow> bool" where
  "answers h ms \<longleftrightarrow> (\<exists>evs h' d'. ms = evs @ [(h', d')] \<and>
     rh_ctx h' = rh_ctx h \<and> rh_sender h' = rh_receiver h \<and> rh_receiver h' = rh_sender h \<and>
     data_fits (rh_type h') d' \<and> length evs \<le> 1 \<and>
     (\<forall>(eh, ed)\<in>set evs. rh_receiver eh = ''monitor'' \<and> data_fits (rh_type eh) ed))"

definition answered :: "neu_reqresp_head_t \<Rightarrow> 'p adapter \<Rightarrow> 'p adapter option \<Rightarrow> bool" where
  "answered h ad res \<longleftrightarrow> (\<exists>ad' ms. res = Some ad' \<and> ad_sent ad' = ad_sent ad @ ms \<and> answers h ms)"

lemma reply_sent:
  assumes "\<forall>m. snd_rv m = 0" "data_fits (rh_type h) d"
  shows "reply snd_rv h d ad = Some (ad\<lparr>ad_sent := ad_sent ad @ [(h, d)]\<rparr>)"
  using assms by (simp add: reply_def neu_msg_gen_def nng_sendmsg_def)

lemma answered_reply:
  assumes "\<forall>m. snd_rv m = 0" "data_fits (rh_type h') d'" "rh_ctx h' = rh_ctx h"
    and "rh_sender h' = rh_receiver h" "rh_receiver h' = rh_sender h" "ad_sent ad1 = ad_sent ad"
  shows "answered h ad (reply snd_rv h' d' ad1)"
  unfolding answered_def answers_def reply_sent [OF assms(1,2)]
  using assms(2-) by (intro exI conjI) auto

lemma answered_error_reply:
  assumes "\<forall>m. snd_rv m = 0" "ad_sent ad1 = ad_sent ad"
  shows "answered h ad (error_reply snd_rv h e ad1)"
  unfolding error_reply_def using assms by (intro answered_reply) simp_all

lemma answered_event:
  assumes "\<forall>m. snd_rv m = 0" "data_fits evt ed" "ad_sent ad1 = ad_sent ad"
    and "data_fits (rh_type h') d'" "rh_ctx h' = rh_ctx h"
    and "rh_sender h' = rh_receiver h" "rh_receiver h' = rh_sender h"
  shows "answered h ad (notify_monitor snd_rv evt ed ad1 \<bind> reply snd_rv h' d')"
proof -
  let ?eh = "\<lparr>rh_type = evt, rh_ctx = 0, rh_sender = take NEU_NODE_NAME_LEN (ad_name ad1),
    rh_receiver = ''monitor''\<rparr>"
  have "answers h ([(?eh, ed)] @ [(h', d')])"
    unfolding answers_def using assms(2,4-) by (intro exI [of _ "[(?eh, ed)]"]) auto
  with assms show ?thesis by (simp add: answered_def notify_monitor_def reply_sent)
qed

lemma answered_event_error:
  assumes "\<forall>m. snd_rv m = 0" "data_fits evt ed" "ad_sent ad1 = ad_sent ad"
  shows "answered h ad (notify_monitor snd_rv evt ed ad1 \<bind> error_reply snd_rv h e)"
  unfolding error_reply_def by (intro answered_event assms) simp_all

lemmas answered_intros =
  answered_reply answered_error_reply answered_event answered_event_error

text \<open>The driver operations the loop uses return in every state.\<close>

lemma add_tag_returns: "\<exists>r. neu_adapter_driver_add_tag us d g t = Some r"
proof -
  have "hash_find (d_groups (snd (neu_adapter_driver_add_group d g 3000))) g \<noteq> None"
    if "hash_find (d_groups d) g = None"
    using that by (simp add: neu_adapter_driver_add_group_def Let_def emit_def
        hash_find_add [OF that [unfolded hash_find_None]] del: hash_find_None)
  then show ?thesis
    by (cases "hash_find (d_groups d) g = None")
       (auto simp: neu_adapter_driver_add_tag_def Let_def split: option.split prod.split
        simp del: hash_find_None)
qed

lemma add_tags_loop_returns: "\<exists>r. add_tags_loop intf us g ts i e d = Some r"
proof (induction ts arbitrary: i e d)
  case (Cons t ts)
  obtain ret d' where "neu_adapter_driver_add_tag us d g t = Some (ret, d')"
    using add_tag_returns [of us d g t] by auto
  then show ?case using Cons [of "i + 1" e d'] by auto
qed simp

lemma add_tags_returns: "\<exists>r. add_tags intf us g ts d = Some r"
proof -
  obtain vs e d1 where v: "validate_tags intf ts d = (vs, e, d1)" by (rule prod_cases3)
  obtain vs' e' d2 where t:
    "(if 0 < length vs
      then (case neu_adapter_driver_try_add_tag intf d1 g vs of
              (ret, d2) \<Rightarrow> if ret \<noteq> 0 then ([], ret, d2) else (vs, e, d2))
      else (vs, e, d1)) = (vs', e', d2)" by (rule prod_cases3)
  obtain r where "add_tags_loop intf us g vs' 0 e' d2 = Some r"
    using add_tags_loop_returns by blast
  then show ?thesis unfolding add_tags_def v Let_def split t by (cases r) simp
qed

lemma del_group_returns:
  assumes "cache_ok (d_cache d)"
  shows "\<exists>r. neu_adapter_driver_del_group intf d name = Some r"
proof (cases "hash_find (d_groups d) name")
  case (Some gr)
  define d1 where "d1 = snd (neu_adapter_driver_try_del_tag intf
    (d\<lparr>d_groups := hash_del (d_groups d) name\<rparr>) (unat (neu_group_tag_size (gr_group gr))))"
  have "d_cache d1 = d_cache d"
    by (simp add: d1_def neu_adapter_driver_try_del_tag_def split: option.split prod.split)
  with assms obtain c1 where c1: "cache_del_tags name (gr_static_tags gr) (d_cache d1) = Some c1"
    "cache_ok c1" using cache_del_tags_spec by metis
  moreover obtain c2 where "cache_del_tags name (gr_grp_tags gr) c1 = Some c2"
    using cache_del_tags_spec [OF c1(2)] by metis
  ultimately show ?thesis
    using Some by (simp add: neu_adapter_driver_del_group_def Let_def case_prod_beta d1_def)
qed (simp add: neu_adapter_driver_del_group_def del: hash_find_None)

lemma answers_group_requests:
  assumes ok: "\<forall>m. snd_rv m = 0"
  shows "data_fits NEU_REQ_ADD_GROUP d \<Longrightarrow> answered h ad (loop_add_group snd_rv ad (h, d))"
    and "data_fits NEU_REQ_UPDATE_DRIVER_GROUP d \<Longrightarrow>
      answered h ad (loop_update_driver_group snd_rv ad (h, d))"
    and "data_fits NEU_REQ_DEL_GROUP d \<Longrightarrow> cache_ok (d_cache (ad_driver ad)) \<Longrightarrow>
      answered h ad (loop_del_group snd_rv ad (h, d))"
    and "answered h ad (loop_get_group snd_rv ad (h, d))"
proof -
  assume "data_fits NEU_REQ_ADD_GROUP d"
  then obtain drv g i where "d = D_add_group drv g i" by (cases d) (auto simp: other_types_def)
  then show "answered h ad (loop_add_group snd_rv ad (h, d))"
    by (auto simp: loop_add_group_def Let_def split: prod.split
        intro!: answered_intros [OF ok])
next
  assume "data_fits NEU_REQ_UPDATE_DRIVER_GROUP d"
  then obtain drv g n i where "d = D_update_group drv g n i" by (cases d) (auto simp: other_types_def)
  then show "answered h ad (loop_update_driver_group snd_rv ad (h, d))"
    by (auto simp: loop_update_driver_group_def Let_def split: prod.split
        intro!: answered_intros [OF ok])
next
  assume fits: "data_fits NEU_REQ_DEL_GROUP d" and c: "cache_ok (d_cache (ad_driver ad))"
  from fits obtain drv g where d: "d = D_group drv g" by (cases d) (auto simp: other_types_def)
  obtain e dr where "neu_adapter_driver_del_group (pf_driver (ad_intf ad)) (ad_driver ad) g = Some (e, dr)"
    using del_group_returns [OF c] by fastforce
  then show "answered h ad (loop_del_group snd_rv ad (h, d))"
    by (auto simp: d loop_del_group_def intro!: answered_intros [OF ok])
next
  show "answered h ad (loop_get_group snd_rv ad (h, d))"
    by (auto simp: loop_get_group_def Let_def intro!: answered_intros [OF ok])
qed


lemma answers_tag_requests:
  assumes ok: "\<forall>m. snd_rv m = 0"
  shows "data_fits NEU_REQ_GET_TAG d \<Longrightarrow> answered h ad (loop_get_tag snd_rv ad (h, d))"
    and "data_fits NEU_REQ_DEL_TAG d \<Longrightarrow> answered h ad (loop_del_tag snd_rv us ad (h, d))"
    and "data_fits NEU_REQ_ADD_TAG d \<Longrightarrow> answered h ad (loop_add_tag snd_rv us ad (h, d))"
    and "data_fits NEU_REQ_UPDATE_TAG d \<Longrightarrow> answered h ad (loop_update_tag snd_rv us ad (h, d))"
    and "data_fits NEU_REQ_UPDATE_NDRIVER_TAG_PARAM d \<Longrightarrow>
      answered h ad (loop_update_ndriver_tags snd_rv ad (h, d))"
    and "answered h ad (loop_get_ndriver_tags snd_rv ad (h, d))"
proof -
  assume "data_fits NEU_REQ_GET_TAG d"
  then obtain drv g n where "d = D_get_tag drv g n" by (cases d) (auto simp: other_types_def)
  then show "answered h ad (loop_get_tag snd_rv ad (h, d))"
    by (auto simp: loop_get_tag_def neu_adapter_driver_query_tag_def Let_def
        split: prod.split option.split intro!: answered_intros [OF ok])
next
  assume "data_fits NEU_REQ_DEL_TAG d"
  then obtain drv g ts where "d = D_del_tag drv g ts" by (cases d) (auto simp: other_types_def)
  then show "answered h ad (loop_del_tag snd_rv us ad (h, d))"
    by (auto simp: loop_del_tag_def intro!: answered_intros [OF ok])
next
  assume "data_fits NEU_REQ_ADD_TAG d"
  then obtain drv g ts where d: "d = D_tags drv g ts" by (cases d) (auto simp: other_types_def)
  obtain i e added dr where
    "add_tags (pf_driver (ad_intf ad)) us g ts (ad_driver ad) = Some (i, e, added, dr)"
    using add_tags_returns by (metis prod_cases4)
  then show "answered h ad (loop_add_tag snd_rv us ad (h, d))"
    by (auto simp: d loop_add_tag_def intro!: answered_intros [OF ok])
next
  assume "data_fits NEU_REQ_UPDATE_TAG d"
  then obtain drv g ts where "d = D_tags drv g ts" by (cases d) (auto simp: other_types_def)
  then show "answered h ad (loop_update_tag snd_rv us ad (h, d))"
    by (auto simp: loop_update_tag_def split: prod.split intro!: answered_intros [OF ok])
next
  assume "data_fits NEU_REQ_UPDATE_NDRIVER_TAG_PARAM d"
  then obtain nd drv g n where "d = D_ndriver_tags nd drv g n"
    by (cases d) (auto simp: other_types_def)
  then show "answered h ad (loop_update_ndriver_tags snd_rv ad (h, d))"
    by (auto simp: loop_update_ndriver_tags_def intro!: answered_intros [OF ok])
next
  show "answered h ad (loop_get_ndriver_tags snd_rv ad (h, d))"
    by (auto simp: loop_get_ndriver_tags_def intro!: answered_intros [OF ok])
qed

lemma answers_node_requests:
  assumes ok: "\<forall>m. snd_rv m = 0"
  shows "data_fits NEU_REQ_NODE_SETTING d \<Longrightarrow> answered h ad (loop_node_setting snd_rv ad (h, d))"
    and "answered h ad (loop_get_node_setting snd_rv ad (h, d))"
    and "answered h ad (loop_get_node_state snd_rv ad (h, d))"
    and "data_fits NEU_REQ_NODE_CTL d \<Longrightarrow> answered h ad (loop_node_ctl snd_rv ad (h, d))"
    and "answered h ad (loop_update_log_level snd_rv sec ad (h, d))"
proof -
  assume "data_fits NEU_REQ_NODE_SETTING d"
  then obtain n s where d: "d = D_node_setting n s" by (cases d) (auto simp: other_types_def)
  obtain e ad1 where set: "neu_adapter_set_setting ad s = (e, ad1)" by fastforce
  with life_cycle_sent(3) [of ad s] have "ad_sent ad1 = ad_sent ad" by simp
  with set show "answered h ad (loop_node_setting snd_rv ad (h, d))"
    by (auto simp: d loop_node_setting_def intro!: answered_intros [OF ok])
next
  show "answered h ad (loop_get_node_setting snd_rv ad (h, d))"
    by (auto simp: loop_get_node_setting_def neu_adapter_get_setting_def Let_def
        split: option.split intro!: answered_intros [OF ok])
next
  show "answered h ad (loop_get_node_state snd_rv ad (h, d))"
    by (auto simp: loop_get_node_state_def neu_adapter_get_state_def intro!: answered_intros [OF ok])
next
  assume "data_fits NEU_REQ_NODE_CTL d"
  then obtain n ctl where d: "d = D_node_ctl n ctl" by (cases d) (auto simp: other_types_def)
  obtain e ad1 where ctl: "(case ctl of NEU_ADAPTER_CTL_START \<Rightarrow> neu_adapter_start ad
      | NEU_ADAPTER_CTL_STOP \<Rightarrow> neu_adapter_stop ad) = (e, ad1)" by fastforce
  with life_cycle_sent(1,2) [of ad] have "ad_sent ad1 = ad_sent ad"
    by (cases ctl) (metis neu_adapter_ctl_e.case snd_conv)+
  then show "answered h ad (loop_node_ctl snd_rv ad (h, d))"
    unfolding d loop_node_ctl_def by (auto simp: ctl intro!: answered_intros [OF ok])
next
  show "answered h ad (loop_update_log_level snd_rv sec ad (h, d))"
    by (auto simp: loop_update_log_level_def intro!: answered_intros [OF ok])
qed

text \<open>
  C14: Every request the loop answers itself is answered in every state of the node, when the
  socket takes the messages: the last message sent has the request's \<open>ctx\<close>, goes back to its
  sender in the name of its receiver, and has a body of the struct its type stands for; at
  most one event for the monitor is sent before it, and nothing else.
\<close>

theorem loop_answers_requests:
  assumes "rh_type h \<in> set answered_types" "data_fits (rh_type h) d"
    and "\<forall>m. snd_rv m = 0" "cache_ok (d_cache (ad_driver ad))"
  shows "\<exists>ad' evs h' d'. adapter_loop snd_rv pw log now us ad (h, d) = Some ad' \<and>
    ad_sent ad' = ad_sent ad @ evs @ [(h', d')] \<and>
    rh_ctx h' = rh_ctx h \<and> rh_sender h' = rh_receiver h \<and> rh_receiver h' = rh_sender h \<and>
    data_fits (rh_type h') d' \<and> length evs \<le> 1 \<and>
    (\<forall>(eh, ed)\<in>set evs. rh_receiver eh = ''monitor'' \<and> data_fits (rh_type eh) ed)"
proof -
  have "data_fits NEU_REQ_UPDATE_NDRIVER_TAG_INFO d = data_fits NEU_REQ_UPDATE_NDRIVER_TAG_PARAM d"
    by (cases d) (simp_all add: other_types_def)
  then have "answered h ad (adapter_loop snd_rv pw log now us ad (h, d))"
    using assms answers_group_requests [OF assms(3)] answers_tag_requests [OF assms(3)]
      answers_node_requests [OF assms(3)]
    by (auto simp: answered_types_def adapter_loop_def plugin_types_def)
  then show ?thesis unfolding answered_def answers_def by (elim exE conjE) blast
qed

lemma loop_answers_requests_witness:
  "\<exists>ad'. adapter_loop (\<lambda>_. 0) (\<lambda>_. 0) True 0 0 (demo_adapter NEU_NA_TYPE_DRIVER)
     (\<lparr>rh_type = NEU_REQ_ADD_GROUP, rh_ctx = 7, rh_sender = ''app'', rh_receiver = ''node''\<rparr>,
      D_add_group ''node'' ''grp'' 1000) = Some ad'"
proof -
  have "cache_ok (d_cache (ad_driver (demo_adapter NEU_NA_TYPE_DRIVER)))"
    by (simp add: demo_adapter_def new_adapter_def neu_adapter_driver_create_def
        neu_driver_cache_new_def cache_ok_def)
  from loop_answers_requests [OF _ _ _ this, of
      "\<lparr>rh_type = NEU_REQ_ADD_GROUP, rh_ctx = 7, rh_sender = ''app'', rh_receiver = ''node''\<rparr>"
      "D_add_group ''node'' ''grp'' 1000" "\<lambda>_. 0" "\<lambda>_. 0" True 0 0]
  show ?thesis by (auto simp: answered_types_def)
qed


section \<open>Adding a batch of tags\<close>

definition group_tag_names :: "'p driver \<Rightarrow> string \<Rightarrow> string list" where
  "group_tag_names d g =
     (case find_group d g of None \<Rightarrow> [] | Some gr \<Rightarrow> hash_keys (gtags (gr_group gr)))"

definition group_tags :: "'p driver \<Rightarrow> string \<Rightarrow> neu_datatag_t list" where
  "group_tags d g =
     (case find_group d g of None \<Rightarrow> [] | Some gr \<Rightarrow> hash_vals (gtags (gr_group gr)))"

definition other_groups_same :: "string \<Rightarrow> 'p driver \<Rightarrow> 'p driver \<Rightarrow> bool" where
  "other_groups_same g d d' \<longleftrightarrow> (\<forall>g2. g2 \<noteq> g \<longrightarrow> find_group d' g2 = find_group d g2)"

lemma parse_option_tname [simp]: "tname (parse_option t) = tname t"
  by (simp add: parse_option_def)

lemma new_group_names [simp]: "gtags (gr_group (new_group d g i)) = []"
  by (simp add: new_group_def Let_def neu_group_new_def split: prod.split)

lemma add_tag_group:
  assumes "neu_group_add_tag us gr t = (ret, gr')"
  shows "hash_keys (gtags gr') = hash_keys (gtags gr) @ (if ret = 0 then [tname t] else [])"
    and "hash_vals (gtags gr') = hash_vals (gtags gr) @ (if ret = 0 then [neu_tag_dup t] else [])"
    and "ret = 0 \<Longrightarrow> tname t \<notin> set (hash_keys (gtags gr))"
  using assms
  by (auto simp: neu_group_add_tag_def update_timestamp_def split: option.splits)

lemma add_tag_spec:
  assumes "driver_ok d" "neu_adapter_driver_add_tag us d g t = Some (ret, d')"
  shows "driver_ok d'" "other_groups_same g d d'"
    "group_tag_names d' g = group_tag_names d g @ (if ret = 0 then [tname t] else [])"
    "ret = 0 \<Longrightarrow> tname t \<notin> set (group_tag_names d g)"
    "d_tag_cnt d' = d_tag_cnt d + (if ret = 0 then 1 else 0)"
    "group_tags d' g = group_tags d g @ (if ret = 0 then [neu_tag_dup (parse_option t)] else [])"
proof -
  define d1 where "d1 = (if hash_find (d_groups d) g = None
    then snd (neu_adapter_driver_add_group d g 3000) else d)"
  have ok1: "driver_ok d1" using assms(1) by (simp add: d1_def driver_ok_add_group)
  have grp1: "find_group d1 = (find_group d)(g \<mapsto> (case find_group d g of
      None \<Rightarrow> new_group d g 3000 | Some gr \<Rightarrow> gr))" "d_tag_cnt d1 = d_tag_cnt d"
  proof -
    have "find_group d1 = (find_group d)(g \<mapsto> (case find_group d g of
        None \<Rightarrow> new_group d g 3000 | Some gr \<Rightarrow> gr)) \<and> d_tag_cnt d1 = d_tag_cnt d"
    proof (cases "hash_find (d_groups d) g")
      case None
      then have "g \<notin> set (hash_keys (d_groups d))" by simp
      moreover have "d_groups d1 = hash_add (d_groups d) g (new_group d g 3000)"
        "d_tag_cnt d1 = d_tag_cnt d"
        unfolding d1_def by (simp_all add: None neu_adapter_driver_add_group_def Let_def emit_def)
      ultimately show ?thesis by (simp add: find_group_def [abs_def] hash_find_add None)
    next
      case (Some gr)
      then have "d1 = d" by (simp add: d1_def)
      with Some show ?thesis by (auto simp: find_group_def fun_eq_iff)
    qed
    then show "find_group d1 = (find_group d)(g \<mapsto> (case find_group d g of
        None \<Rightarrow> new_group d g 3000 | Some gr \<Rightarrow> gr))" "d_tag_cnt d1 = d_tag_cnt d" by simp_all
  qed
  have unfold: "neu_adapter_driver_add_tag us d g t = (case hash_find (d_groups d1) g of
      None \<Rightarrow> None
    | Some gr \<Rightarrow>
        (case neu_group_add_tag us (gr_group gr) (parse_option t) of
           (ret, g') \<Rightarrow>
             let d2 = set_group (gr\<lparr>gr_group := g'\<rparr>) d1
             in Some (ret, if ret = NEU_ERR_SUCCESS
                  then emit [Out_metric ''tags_total'' (d_tag_cnt d2 + 1) None,
                             Out_group_metric g ''group_tags_total''
                               (ucast (neu_group_tag_size g'))] (d2\<lparr>d_tag_cnt := d_tag_cnt d2 + 1\<rparr>)
                  else d2)))"
    by (simp only: neu_adapter_driver_add_tag_def d1_def Let_def)
  from assms(2) obtain gr where gr: "find_group d1 g = Some gr"
    unfolding unfold by (auto simp: find_group_def split: option.splits)
  obtain r g' where add0: "neu_group_add_tag us (gr_group gr) (parse_option t) = (r, g')" by fastforce
  from assms(2) gr have r: "r = ret" unfolding unfold by (simp add: find_group_def add0 Let_def)
  note add = add0 [unfolded r]
  have d': "find_group d' = find_group (set_group (gr\<lparr>gr_group := g'\<rparr>) d1)"
      "d_tag_cnt d' = d_tag_cnt d1 + (if ret = 0 then 1 else 0)"
    using assms(2) gr unfolding unfold
    by (auto simp: find_group_def [abs_def] add Let_def emit_def split: if_splits)
  note name = find_group_name [OF ok1 gr]
  have set: "find_group (set_group (gr\<lparr>gr_group := g'\<rparr>) d1) = (find_group d1)(g \<mapsto> gr\<lparr>gr_group := g'\<rparr>)"
    using gr name hash_find_Some_key [of "d_groups d1" g gr]
    by (simp add: set_group_def find_group_def hash_find_set fun_eq_iff)
  show "driver_ok d'" by (rule driver_ok_add_tag [OF assms(2,1)])
  show "other_groups_same g d d'" by (simp add: other_groups_same_def d' set grp1)
  have names: "hash_keys (gtags (gr_group gr)) = group_tag_names d g"
    using gr by (auto simp: group_tag_names_def grp1 split: option.splits)
  show "group_tag_names d' g = group_tag_names d g @ (if ret = 0 then [tname t] else [])"
    using add_tag_group(1) [OF add] by (simp add: group_tag_names_def d' set names)
  show "tname t \<notin> set (group_tag_names d g)" if "ret = 0"
    using add_tag_group(3) [OF add that] by (simp add: names)
  show "d_tag_cnt d' = d_tag_cnt d + (if ret = 0 then 1 else 0)" by (simp add: d' grp1)
  have tags: "hash_vals (gtags (gr_group gr)) = group_tags d g"
    using gr by (auto simp: group_tags_def grp1 hash_vals_def split: option.splits)
  show "group_tags d' g = group_tags d g @ (if ret = 0 then [neu_tag_dup (parse_option t)] else [])"
    using add_tag_group(2) [OF add] by (simp add: group_tags_def d' set tags)
qed


text \<open>The plugin's functions change nothing but the plugin.\<close>

definition same_groups :: "'p driver \<Rightarrow> 'p driver \<Rightarrow> bool" where
  "same_groups d d' \<longleftrightarrow> d_groups d' = d_groups d \<and> d_cache d' = d_cache d \<and> d_tag_cnt d' = d_tag_cnt d"

lemma same_groups_trans: "same_groups a b \<Longrightarrow> same_groups b c \<Longrightarrow> same_groups a c"
  by (simp add: same_groups_def)

lemma same_groups_ok: "same_groups d d' \<Longrightarrow> driver_ok d' = driver_ok d"
  by (simp add: same_groups_def driver_ok_def)

lemma same_groups_names:
  "same_groups d d' \<Longrightarrow> group_tag_names d' g = group_tag_names d g"
  "same_groups d d' \<Longrightarrow> group_tags d' g = group_tags d g"
  by (simp_all add: same_groups_def group_tag_names_def group_tags_def find_group_def)

lemma same_groups_other: "same_groups d d' \<Longrightarrow> other_groups_same g d d'"
  by (simp add: same_groups_def other_groups_same_def find_group_def)

lemma other_groups_trans:
  "other_groups_same g a b \<Longrightarrow> other_groups_same g b c \<Longrightarrow> other_groups_same g a c"
  by (simp add: other_groups_same_def)

lemma plugin_same_groups:
  "same_groups d (snd (neu_adapter_driver_try_add_tag intf d g ts))"
  "same_groups d (snd (neu_adapter_driver_try_del_tag intf d n))"
  "same_groups d (snd (snd (neu_adapter_driver_validate_tag intf d t)))"
  by (auto simp: same_groups_def neu_adapter_driver_try_add_tag_def neu_adapter_driver_try_del_tag_def
      neu_adapter_driver_validate_tag_def plugin_validate_def split: option.split prod.split)

text \<open>The tag the check of \<open>t\<close> passed lets through, in some state of the driver.\<close>

definition validated :: "'p driver_intf \<Rightarrow> neu_datatag_t \<Rightarrow> neu_datatag_t \<Rightarrow> bool" where
  "validated intf t t' \<longleftrightarrow> (\<exists>d d'. neu_adapter_driver_validate_tag intf d t = (0, t', d'))"

lemma validated_name:
  assumes "validated intf t t'" "\<forall>p t. tname (fst (snd (i_validate_tag intf p t))) = tname t"
  shows "tname t' = tname t"
proof -
  obtain d d' where v: "neu_adapter_driver_validate_tag intf d t = (0, t', d')"
    using assms(1) by (auto simp: validated_def)
  obtain r t1 p where plugin: "i_validate_tag intf (d_plugin d) t = (r, t1, p)" by (rule prod_cases3)
  with assms(2) have "tname t1 = tname t" by (metis fst_conv snd_conv)
  with v plugin show ?thesis
    by (auto simp: neu_adapter_driver_validate_tag_def plugin_validate_def split: if_splits)
qed

lemma validate_tags_spec:
  "validate_tags intf ts d = (vs, e, d') \<Longrightarrow>
    same_groups d d' \<and> length vs \<le> length ts \<and> (e = 0 \<longleftrightarrow> length vs = length ts) \<and>
    list_all2 (validated intf) (take (length vs) ts) vs"
proof (induction ts arbitrary: d vs e d')
  case (Cons t ts)
  obtain ret t' d1 where v: "neu_adapter_driver_validate_tag intf d t = (ret, t', d1)"
    by (rule prod_cases3)
  with plugin_same_groups(3) [of d intf t] have d1: "same_groups d d1" by simp
  show ?case
  proof (cases "ret = 0")
    case True
    obtain vs1 e1 d2 where rest: "validate_tags intf ts d1 = (vs1, e1, d2)" by (rule prod_cases3)
    have "validated intf t t'" using v True by (auto simp: validated_def)
    with Cons.IH [OF rest] Cons.prems show ?thesis
      using True v rest d1 by (auto intro: same_groups_trans)
  next
    case False
    with Cons.prems v d1 show ?thesis by auto
  qed
qed (simp add: same_groups_def)

lemma add_tags_loop_spec:
  assumes "add_tags_loop intf us g ts i e d = Some (i', e', d')" "driver_ok d"
  shows "i \<le> i' \<and> i' \<le> i + length ts \<and> (if i' = i + length ts then e' = e else e' \<noteq> 0) \<and>
    driver_ok d' \<and> other_groups_same g d d' \<and>
    group_tag_names d' g = group_tag_names d g @ map tname (take (i' - i) ts) \<and>
    group_tags d' g = group_tags d g @ map (neu_tag_dup \<circ> parse_option) (take (i' - i) ts) \<and>
    d_tag_cnt d' = d_tag_cnt d + of_nat (i' - i)"
  using assms
proof (induction ts arbitrary: i d)
  case (Cons t ts)
  obtain ret d1 where add: "neu_adapter_driver_add_tag us d g t = Some (ret, d1)"
    using add_tag_returns [of us d g t] by auto
  note spec = add_tag_spec [OF Cons.prems(2) add]
  show ?case
  proof (cases "ret = 0")
    case True
    with Cons.prems(1) add have "add_tags_loop intf us g ts (i + 1) e d1 = Some (i', e', d')" by simp
    from Cons.IH [OF this spec(1)] spec(2,3,5,6) True show ?thesis
      by (auto simp: Suc_diff_le [symmetric] take_Cons' of_nat_diff
          intro: other_groups_trans split: if_splits)
  next
    case False
    with Cons.prems(1) add have "i' = i" "e' = ret" and
      d': "d' = snd (neu_adapter_driver_try_del_tag intf d1 (length (t # ts)))" by auto
    moreover have "same_groups d1 d'" unfolding d' by (rule plugin_same_groups)
    ultimately show ?thesis
      using False spec same_groups_ok [of d1 d'] same_groups_names [of d1 d' g]
        other_groups_trans [OF spec(2) same_groups_other [of d1 d' g]]
      by (auto simp: same_groups_def)
  qed
qed (simp add: other_groups_same_def)

lemma distinct_group_tag_names: "driver_ok d \<Longrightarrow> distinct (group_tag_names d g)"
  by (auto simp: group_tag_names_def group_entry_ok_def group_ok_def hash_wf_def
      split: option.split dest: find_group_ok)

text \<open>
  C15: Adding a batch of tags adds a prefix of it, in its order: the number reported is how
  many were added and the error is 0 just when that is the whole batch; the tags added are
  the first ones of the batch as the check of the driver and its plugin let them through
  (the plugin may change a tag), with their address options parsed; copies of exactly these
  are appended to the tags of the group, under distinct names; when the plugin renames no
  tag the new names are those of the prefix; the driver's count grows by their number, and
  no other group changes.
\<close>

theorem add_tags_adds_prefix:
  assumes "driver_ok d" "add_tags intf us g tags d = Some (n, e, added, d')"
  shows "n \<le> length tags \<and> length added = n \<and> (e = 0 \<longleftrightarrow> n = length tags) \<and>
    list_all2 (\<lambda>t t'. \<exists>d1 t1 d2. neu_adapter_driver_validate_tag intf d1 t = (0, t1, d2) \<and>
      t' = parse_option t1) (take n tags) added \<and>
    group_tags d' g = group_tags d g @ map neu_tag_dup added \<and>
    group_tag_names d' g = group_tag_names d g @ map tname added \<and>
    ((\<forall>p t. tname (fst (snd (i_validate_tag intf p t))) = tname t) \<longrightarrow>
      map tname added = map tname (take n tags)) \<and>
    distinct (group_tag_names d' g) \<and> d_tag_cnt d' = d_tag_cnt d + of_nat n \<and>
    (\<forall>g2. g2 \<noteq> g \<longrightarrow> find_group d' g2 = find_group d g2)"
proof -
  obtain vs e1 d1 where v: "validate_tags intf tags d = (vs, e1, d1)" by (rule prod_cases3)
  note v_spec = validate_tags_spec [OF v]
  obtain vs' e2 d2 where t:
    "(if 0 < length vs
      then (case neu_adapter_driver_try_add_tag intf d1 g vs of
              (ret, d2) \<Rightarrow> if ret \<noteq> 0 then ([], ret, d2) else (vs, e1, d2))
      else (vs, e1, d1)) = (vs', e2, d2)" by (rule prod_cases3)
  have d2: "same_groups d1 d2"
    using t plugin_same_groups(1) [of d1 intf g vs]
    by (auto simp: same_groups_def split: if_splits prod.splits)
  have vs': "(vs' = vs \<and> e2 = e1) \<or> (vs' = [] \<and> e2 \<noteq> 0 \<and> vs \<noteq> [])"
    using t by (auto split: if_splits prod.splits)
  have same: "same_groups d d2" using v_spec d2 by (blast intro: same_groups_trans)
  from assms(2) obtain i where loop: "add_tags_loop intf us g vs' 0 e2 d2 = Some (i, e, d')" and
    n: "n = i" and added: "added = map parse_option (take i vs')"
    unfolding add_tags_def v Let_def split t by auto
  have "driver_ok d2" using same assms(1) same_groups_ok by blast
  note spec = add_tags_loop_spec [OF loop this]
  have "e = 0 \<longleftrightarrow> n = length tags" using spec vs' v_spec by (auto simp: n split: if_splits)
  moreover have "map tname added = map tname (take i vs')" by (simp add: added)
  moreover have tags: "list_all2 (validated intf) (take n tags) (take n vs')"
  proof -
    have "n \<le> length vs'" using spec n by simp
    moreover have "list_all2 (validated intf) (take (length vs') tags) vs'"
      using vs' v_spec by auto
    ultimately show ?thesis
      using list_all2_takeI [of "validated intf" "take (length vs') tags" vs' n] by (simp add: min_absorb1)
  qed
  then have "list_all2 (\<lambda>t t'. \<exists>d1 t1 d2. neu_adapter_driver_validate_tag intf d1 t = (0, t1, d2) \<and>
      t' = parse_option t1) (take n tags) added"
    by (simp add: added n list_all2_map2) (erule list_all2_mono, unfold validated_def, blast)
  moreover have "map tname added = map tname (take n tags)"
    if "\<forall>p t. tname (fst (snd (i_validate_tag intf p t))) = tname t"
  proof -
    have "list_all2 (\<lambda>t t'. tname t = tname t') (take n tags) (take n vs')"
      using tags by (rule list_all2_mono) (simp add: validated_name [OF _ that])
    then have "map tname (take n tags) = map tname (take n vs')"
      by (simp only: list.rel_eq [symmetric] list.rel_map)
    then show ?thesis by (simp add: added n)
  qed
  moreover have "other_groups_same g d d'"
    using spec same_groups_other [OF same] other_groups_trans by blast
  ultimately show ?thesis
    using spec same_groups_names [OF same] same vs' v_spec distinct_group_tag_names [of d' g]
    by (auto simp: n added same_groups_def other_groups_same_def)
qed


lemma add_tags_adds_prefix_witness:
  "\<exists>n e added d'. add_tags demo_intf 0 ''grp'' [demo_rw_tag, demo_rw_tag] demo_driver =
     Some (n, e, added, d') \<and> n \<le> 2 \<and> map tname added = map tname (take n [demo_rw_tag, demo_rw_tag]) \<and>
     distinct (group_tag_names d' ''grp'')"
proof -
  obtain n e added d' where
    r: "add_tags demo_intf 0 ''grp'' [demo_rw_tag, demo_rw_tag] demo_driver = Some (n, e, added, d')"
    using add_tags_returns by (metis prod_cases4)
  have "\<forall>p t. tname (fst (snd (i_validate_tag demo_intf p t))) = tname t" by (simp add: demo_intf_def)
  with add_tags_adds_prefix [OF reachable_ok [OF demo_driver_reachable] r]
  have "n \<le> length [demo_rw_tag, demo_rw_tag]" "distinct (group_tag_names d' ''grp'')"
    "map tname added = map tname (take n [demo_rw_tag, demo_rw_tag])" by blast+
  with r show ?thesis by auto
qed

end
