(* ===== verification/ManagerProps.thy ===== *)
theory ManagerProps
  imports RunLaws AdapterProps
begin

text \<open>
  Properties of the manager and of what it goes through.  The witnesses use a system of one
  node with the demonstration plugin of \<open>AdapterProps\<close>.
\<close>

section \<open>The steps of the system\<close>

text \<open>
  What can happen once the MQTT client runs: a node is added, a message arrives from the broker
  and is routed to the end, a plugin sends a message of its own accord or changes its memory.
\<close>

inductive manager_step :: "'j jansson \<Rightarrow> 'p world \<Rightarrow> 'p neu_manager \<Rightarrow> 'p neu_manager \<Rightarrow> bool"
  for J :: "'j jansson" and w :: "'p world" where
  node_added: "neu_manager_add_node w mg name plugin load = Some (r, mg') \<Longrightarrow> manager_step J w mg mg'"
| message: "messageArrived5 J w ac ap uuid topic payload mg = Some (mg1, cs) \<Longrightarrow>
    run_calls n w mg1 cs = Finished mg' \<Longrightarrow> manager_step J w mg mg'"
| plugin_sent: "i < length (mg_heap mg) \<Longrightarrow> run_calls n w mg [Arrived i m] = Finished mg' \<Longrightarrow>
    manager_step J w mg mg'"
| plugin_changed: "i < length (mg_heap mg) \<Longrightarrow>
    manager_step J w mg (update_adapter mg i (set_plugin p (mg_heap mg ! i)))"

inductive_cases manager_step_cases: "manager_step J w mg mg'"

text \<open>Every step that is no new node is a \<open>routing_step\<close>.\<close>

lemma message_routing:
  assumes "messageArrived5 J w ac ap uuid topic payload mg = Some (mg1, cs)"
    "run_calls n w mg1 cs = Finished mg'"
  shows "routing_step mg mg'"
  using messageArrived_ok [of mg J w ac ap uuid topic payload] run_calls_routing [OF assms(2)] assms(1)
  by (auto intro: routing_trans)

lemma manager_step_split:
  assumes "manager_step J w mg mg'"
  obtains "routing_step mg mg'"
  | name plugin load r where "neu_manager_add_node w mg name plugin load = Some (r, mg')"
  using assms
  by (elim manager_step_cases)
     (blast intro: message_routing run_calls_routing routing_set_plugin)+

text \<open>Every adapter is the node of its name.\<close>

definition nodes_complete :: "'p neu_manager \<Rightarrow> bool" where
  "nodes_complete mg \<longleftrightarrow> map ne_adapter (hash_vals (mg_nodes mg)) = [0..<length (mg_heap mg)]"

lemma add_node_complete:
  assumes "neu_manager_add_node w mg name plugin load = Some (r, mg')" "nodes_complete mg"
  shows "nodes_complete mg'"
  using assms(1)
proof (cases rule: add_node_cases)
  case (2 md ad e nodes)
  then have "map ne_adapter (hash_vals nodes) = map ne_adapter (hash_vals (mg_nodes mg)) @ [length (mg_heap mg)]"
    by (auto simp: neu_node_manager_add_def add_entity_def bind_eq_Some_conv split: if_splits)
  with assms(2) 2 show ?thesis by (simp add: nodes_complete_def)
qed (use assms(2) in simp)

lemma add_node_caches:
  assumes "neu_manager_add_node w mg name plugin load = Some (r, mg')"
  shows "mg_esvappnodes mg' = mg_esvappnodes mg" "mg_esvdevicedrivernodes mg' = mg_esvdevicedrivernodes mg"
  using assms by (auto elim!: add_node_cases)

lemma manager_step_ok:
  assumes "manager_step J w mg mg'" "manager_ok mg" "world_ok w"
  shows "manager_ok mg'" "keeps_caches mg mg'" "nodes_complete mg \<Longrightarrow> nodes_complete mg'"
proof -
  have "manager_ok mg' \<and> keeps_caches mg mg' \<and> (nodes_complete mg \<longrightarrow> nodes_complete mg')"
    using assms(1)
  proof (cases rule: manager_step_split)
    case 1
    with assms(2) same_nodes_length [of mg mg'] show ?thesis
      by (auto simp: routing_step_def same_nodes_def nodes_complete_def)
  next
    case (2 name plugin load r)
    with add_node_ok [OF assms(2,3) 2] add_node_caches [OF 2] add_node_complete [OF 2] show ?thesis
      by (simp add: keeps_caches_def)
  qed
  then show "manager_ok mg'" "keeps_caches mg mg'" "nodes_complete mg \<Longrightarrow> nodes_complete mg'" by simp_all
qed

lemma manager_steps_ok:
  assumes "(manager_step J w)\<^sup>*\<^sup>* mg mg'" "manager_ok mg" "world_ok w"
  shows "manager_ok mg' \<and> keeps_caches mg mg' \<and> (nodes_complete mg \<longrightarrow> nodes_complete mg')"
  using assms(1)
proof (induction rule: rtranclp_induct)
  case base
  then show ?case using assms(2) by (simp add: keeps_caches_def)
next
  case (step mg1 mg2)
  with manager_step_ok [OF step.hyps(2) _ assms(3)] show ?case
    by (auto simp: keeps_caches_def)
qed

lemma load_plugins_nodes:
  "load_plugins_loop w names rv mg = Some (r, mg') \<Longrightarrow> mg_nodes mg' = mg_nodes mg \<and> mg_heap mg' = mg_heap mg"
  by (induction w names rv mg rule: load_plugins_loop.induct)
     (auto simp: bind_eq_Some_conv neu_manager_add_plugin_def)

lemma started_manager_complete: "started_manager w = Some mg \<Longrightarrow> nodes_complete mg"
  by (auto simp: started_manager_def esv_manager_load_normal_plugin_from_db_def bind_eq_Some_conv
      nodes_complete_def new_manager_def neu_node_manager_create_def hash_vals_def
      dest!: load_plugins_nodes split: if_splits)

lemma complete_find:
  assumes "manager_ok mg" "nodes_complete mg"
  shows "neu_node_manager_find (mg_nodes mg) name = Some i \<longleftrightarrow>
    i < length (mg_heap mg) \<and> ad_name (mg_heap mg ! i) = name"
proof
  assume "neu_node_manager_find (mg_nodes mg) name = Some i"
  with nodes_ok_find assms(1) show "i < length (mg_heap mg) \<and> ad_name (mg_heap mg ! i) = name"
    by (auto simp: manager_ok_def)
next
  assume i: "i < length (mg_heap mg) \<and> ad_name (mg_heap mg ! i) = name"
  then have "i \<in> set (map ne_adapter (hash_vals (mg_nodes mg)))"
    using assms(2) by (simp add: nodes_complete_def)
  then obtain n e where e: "(n, e) \<in> set (mg_nodes mg)" "ne_adapter e = i"
    by (auto simp: hash_vals_def)
  with assms(1) i have "n = name" by (auto simp: manager_ok_def nodes_ok_def)
  moreover have "hash_find (mg_nodes mg) n = Some e"
    using e(1) assms(1) by (simp add: hash_wf_find manager_ok_def nodes_ok_def)
  ultimately show "neu_node_manager_find (mg_nodes mg) name = Some i"
    using e(2) by (simp add: neu_node_manager_find_def)
qed

section \<open>Demonstration\<close>

definition demo_row :: plugin_node_row where
  "demo_row = \<lparr>pn_node_id = Some ''7'', pn_node_name = Some ''node'', pn_plugin_name = Some ''Demo'',
     pn_lib_name = Some ''libdemo.so'', pn_node_type = 9, pn_install_type = 0,
     pn_node_config = Some ''{}'', pn_node_config_index = 0, pn_state = 0\<rparr>"

definition demo_db :: thing_db where
  "demo_db = \<lparr>db_plugin_node = [demo_row], db_thing_device = [],
     db_plugin_lib = [\<lparr>pl_lib_name = Some ''libdemo.so'', pl_node_type = 9\<rparr>],
     db_prepares = (\<lambda>_. True), db_steps = (\<lambda>_. None)\<rparr>"

definition demo_world :: "neu_node_type_e \<Rightarrow> bool world" where
  "demo_world ty = \<lparr>w_db = demo_db, w_exec = (\<lambda>_. Some [[''7'']]),
     w_dl = (\<lambda>_. Some (Some (demo_module ty))), w_plugin_dir = ''plugins''\<rparr>"

definition demo_manager :: "neu_node_type_e \<Rightarrow> bool neu_manager" where
  "demo_manager ty = \<lparr>mg_heap = [demo_running ty],
     mg_nodes = [(''node'', \<lparr>ne_adapter = 0, ne_is_static = False, ne_display = True,
                             ne_single = False, ne_pipe = 0\<rparr>)],
     mg_plugins = [(''Demo'', new_entity ''libdemo.so'' (demo_module ty))],
     mg_esvappnodes = None, mg_esvdevicedrivernodes = None, mg_published = [], mg_error = 0\<rparr>"

lemma demo_world_ok: "world_ok (demo_world ty)" "world_answers (demo_world ty)"
  by (simp_all add: world_ok_def world_answers_def demo_world_def demo_module_def demo_db_def
      NEU_PLUGIN_NAME_LEN_def select_plugin_node_def)

lemma demo_running_frame [simp]:
  "ad_name (demo_running ty) = ''node''" "ad_module (demo_running ty) = demo_module ty"
  "ad_setting (demo_running ty) = Some ''{}''" "ad_state (demo_running ty) = NEU_NODE_RUNNING_STATE_RUNNING"
  "pc_priv (ad_plugin (demo_running ty))"
  by (simp_all add: demo_running_def neu_adapter_set_setting_def demo_adapter_def new_adapter_def
      demo_module_def demo_funs_def neu_adapter_driver_create_def neu_adapter_start_def
      set_plugin_def set_driver_def set_state_def Let_def)

lemma demo_manager_ok:
  assumes "ty \<in> set plugin_types_allowed"
  shows "manager_ok (demo_manager ty)"
  using assms
  by (simp add: manager_ok_def demo_manager_def nodes_ok_def names_fit_def cached_ok_def plugins_ok_def
      hash_wf_def hash_keys_def hash_vals_def new_entity_ok NEU_NODE_NAME_LEN_def NEU_PLUGIN_NAME_LEN_def
      demo_module_def)

lemma demo_complete: "nodes_complete (demo_manager ty)"
  by (simp add: nodes_complete_def demo_manager_def hash_vals_def)

definition demo_started :: "neu_node_type_e \<Rightarrow> bool neu_manager" where
  "demo_started ty = new_manager\<lparr>mg_plugins := [(''Demo'', new_entity ''libdemo.so'' (demo_module ty))]\<rparr>"

lemma demo_config:
  "esv_persister_load_node_config (w_db (demo_world ty)) ''node'' = Inr ''{}''"
  by (simp add: esv_persister_load_node_config_def demo_world_def demo_db_def step_rows_def demo_row_def)

lemma demo_plugin_load:
  assumes "ty \<in> set plugin_types_allowed"
  shows "started_manager (demo_world ty) = Some (demo_started ty)"
  using assms
  by (simp add: started_manager_def esv_manager_load_normal_plugin_from_db_def
      esv_persister_load_normal_plugins_from_db_def query_normal_plugins_from_db_def demo_db_def
      demo_world_def step_rows_def neu_manager_add_plugin_def neu_plugin_manager_add_def
      NEU_PLUGIN_LIBRARY_LEN_def demo_module_def new_manager_def neu_plugin_manager_create_def
      hash_find_def hash_add_def demo_started_def)

lemma demo_create:
  assumes "ty \<in> {NEU_NA_TYPE_ESVAPP, NEU_NA_TYPE_ESVSELFDEVICEDRIVER}" "mg_error mg = 0"
  shows "\<exists>ad. create_adapter (demo_world ty) mg ''node'' (demo_module ty) True =
    Some (Some ad, mg)"
  using assms demo_config [of ty]
  by (auto simp: create_adapter_def neu_adapter_create_def demo_module_def demo_funs_def demo_plugin_def
      bind_plugin_def neu_plugin_common_check_def neu_plugin_common_init_def NEU_NODE_NAME_LEN_def
      creatable_types_def)

lemma demo_find_plugin:
  "\<exists>info. neu_plugin_manager_find (mg_plugins (demo_started ty)) ''Demo'' empty_info = Some (0, info) \<and>
    \<not> pi_single info \<and> pi_name info = ''Demo''"
  by (simp add: neu_plugin_manager_find_def demo_started_def hash_find_def new_entity_def demo_module_def
      strncpy_fits_def NEU_PLUGIN_NAME_LEN_def NEU_PLUGIN_LIBRARY_LEN_def NEU_PLUGIN_DESCRIPTION_LEN_def)

lemma demo_instance:
  "neu_plugin_manager_create_instance (w_dl (demo_world ty)) (w_plugin_dir (demo_world ty))
     (mg_plugins (demo_started ty)) ''Demo'' = Some (Inr (demo_module ty))"
  by (simp add: neu_plugin_manager_create_instance_def demo_started_def hash_find_def demo_world_def)

lemma demo_started_frame [simp]:
  "mg_heap (demo_started ty) = []" "mg_nodes (demo_started ty) = []" "mg_error (demo_started ty) = 0"
  "mg_esvdevicedrivernodes (demo_started ty) = None"
  by (simp_all add: demo_started_def new_manager_def neu_node_manager_create_def)

lemma demo_add_node:
  assumes "ty \<in> {NEU_NA_TYPE_ESVAPP, NEU_NA_TYPE_ESVSELFDEVICEDRIVER}"
    "mg_plugins mg = mg_plugins (demo_started ty)" "mg_heap mg = []" "mg_nodes mg = []" "mg_error mg = 0"
  shows "\<exists>mg'. neu_manager_add_node (demo_world ty) mg ''node'' ''Demo'' True =
      Some (NEU_ERR_SUCCESS, mg') \<and> length (mg_heap mg') = 1"
proof -
  obtain info where info: "neu_plugin_manager_find (mg_plugins (demo_started ty)) ''Demo'' empty_info = Some (0, info)"
    "\<not> pi_single info" "pi_name info = ''Demo''"
    using demo_find_plugin [of ty] by blast
  obtain ad where ad: "create_adapter (demo_world ty) mg ''node'' (demo_module ty) True = Some (Some ad, mg)"
    using demo_create [OF assms(1,5)] by blast
  show ?thesis
    by (simp add: neu_manager_add_node_def assms(2-4) info ad demo_instance neu_node_manager_find_def hash_find_def
        store_adapter_def update_adapter_def neu_node_manager_add_def heap_at_def add_entity_def)
qed

section \<open>The table of nodes\<close>

text \<open>
  C17: Whatever is added, sent and received from the start of the system on, the table of nodes
  is exactly the list of the adapters by their names: a name is found just when an adapter of
  that name was created, no two adapters share a name, and the list of the nodes of a type
  never fails.
\<close>

theorem node_table_complete:
  assumes "started_manager w = Some mg0" "world_ok w" "(manager_step J w)\<^sup>*\<^sup>* mg0 mg"
  shows "(\<forall>name i. neu_node_manager_find (mg_nodes mg) name = Some i \<longleftrightarrow>
      i < length (mg_heap mg) \<and> ad_name (mg_heap mg ! i) = name) \<and>
    distinct (map ad_name (mg_heap mg)) \<and>
    neu_node_manager_get_adapter (mg_heap mg) (mg_nodes mg) ty =
      Some (shown_of_type mg ty)"
proof -
  have ok: "manager_ok mg" "nodes_complete mg"
    using manager_steps_ok [OF assms(3) started_manager_ok [OF assms(1)] assms(2)]
      started_manager_complete [OF assms(1)] by auto
  note found = complete_find [OF ok]
  have "distinct (map ad_name (mg_heap mg))"
    unfolding distinct_conv_nth using found by (metis length_map nth_map option.inject)
  moreover have "neu_node_manager_get_adapter (mg_heap mg) (mg_nodes mg) ty = Some (shown_of_type mg ty)"
    using get_adapter_ok [of "mg_heap mg" "mg_nodes mg" ty] ok(1)
    by (simp add: manager_ok_def shown_of_type_def)
  ultimately show ?thesis using found by blast
qed

lemma node_table_complete_witness:
  "\<exists>mg. length (mg_heap mg) = 1 \<and>
    (manager_step jt_jansson (demo_world NEU_NA_TYPE_ESVAPP))\<^sup>*\<^sup>* (demo_started NEU_NA_TYPE_ESVAPP) mg \<and>
    (\<forall>name i. neu_node_manager_find (mg_nodes mg) name = Some i \<longleftrightarrow>
      i < length (mg_heap mg) \<and> ad_name (mg_heap mg ! i) = name) \<and>
    distinct (map ad_name (mg_heap mg)) \<and>
    neu_node_manager_get_adapter (mg_heap mg) (mg_nodes mg) NEU_NA_TYPE_ESVAPP =
      Some (shown_of_type mg NEU_NA_TYPE_ESVAPP)"
proof -
  obtain mg where "neu_manager_add_node (demo_world NEU_NA_TYPE_ESVAPP) (demo_started NEU_NA_TYPE_ESVAPP)
      ''node'' ''Demo'' True = Some (NEU_ERR_SUCCESS, mg)" and len: "length (mg_heap mg) = 1"
    using demo_add_node [of NEU_NA_TYPE_ESVAPP "demo_started NEU_NA_TYPE_ESVAPP"] by auto
  then have steps: "(manager_step jt_jansson (demo_world NEU_NA_TYPE_ESVAPP))\<^sup>*\<^sup>* (demo_started NEU_NA_TYPE_ESVAPP) mg"
    by (intro r_into_rtranclp node_added)
  have "started_manager (demo_world NEU_NA_TYPE_ESVAPP) = Some (demo_started NEU_NA_TYPE_ESVAPP)"
    by (rule demo_plugin_load) (simp add: plugin_types_allowed_def)
  from node_table_complete [OF this demo_world_ok(1) steps] len steps show ?thesis by blast
qed

text \<open>
  C18: Adding a node ends with one of four codes.  It fails without effect for an unknown plugin,
  for one with its own single node, and for a name that is taken; otherwise it succeeds with
  the new adapter at the end, unless the program crashes.
\<close>

theorem add_node_result:
  assumes "manager_ok mg" "neu_manager_add_node w mg name plugin load = Some (r, mg')"
  shows "r = (if hash_find (mg_plugins mg) plugin = None then NEU_ERR_LIBRARY_NOT_FOUND
      else if neu_plugin_manager_is_single (mg_plugins mg) plugin
      then NEU_ERR_LIBRARY_NOT_ALLOW_CREATE_INSTANCE
      else if neu_node_manager_find (mg_nodes mg) name \<noteq> None then NEU_ERR_NODE_EXIST
      else NEU_ERR_SUCCESS) \<and>
    (r \<noteq> NEU_ERR_SUCCESS \<longrightarrow> mg' = mg) \<and>
    (r = NEU_ERR_SUCCESS \<longrightarrow> (\<exists>ad. mg_heap mg' = mg_heap mg @ [ad] \<and> ad_name ad = name) \<and>
      neu_node_manager_find (mg_nodes mg') =
        (neu_node_manager_find (mg_nodes mg))(name \<mapsto> length (mg_heap mg)))"
proof -
  obtain ret info where f: "neu_plugin_manager_find (mg_plugins mg) plugin empty_info = Some (ret, info)"
    using assms(2) by (auto simp: neu_manager_add_node_def bind_eq_Some_conv)
  have ret: "ret \<noteq> 0 \<longleftrightarrow> hash_find (mg_plugins mg) plugin = None"
    "ret = 0 \<Longrightarrow> pi_single info = neu_plugin_manager_is_single (mg_plugins mg) plugin"
    "ret = 0 \<Longrightarrow> pi_name info = plugin"
    using f by (auto simp: neu_plugin_manager_find_def neu_plugin_manager_is_single_def
        simp del: hash_find_None split: option.splits if_splits)
  note step = assms(2) [unfolded neu_manager_add_node_def f, simplified]
  show ?thesis
  proof (cases "ret \<noteq> 0 \<or> pi_single info \<or> neu_node_manager_find (mg_nodes mg) name \<noteq> None")
    case True
    with step ret show ?thesis by (auto simp del: hash_find_None split: if_splits)
  next
    case False
    then obtain pe where "hash_find (mg_plugins mg) (pi_name info) = Some pe"
      using ret False by (auto simp del: hash_find_None)
    then have "neu_plugin_manager_create_instance (w_dl w) (w_plugin_dir w) (mg_plugins mg) (pi_name info) = None \<or>
        (\<exists>md. neu_plugin_manager_create_instance (w_dl w) (w_plugin_dir w) (mg_plugins mg) (pi_name info) = Some (Inr md))"
      by (auto simp: neu_plugin_manager_create_instance_def split: option.split)
    with step False have r: "r = NEU_ERR_SUCCESS"
      by (auto simp: bind_eq_Some_conv Let_def)
    from assms(2) show ?thesis
    proof (cases rule: add_node_cases)
      case (2 md ad e nodes)
      have "hash_find nodes = (hash_find (mg_nodes mg))
          (name \<mapsto> \<lparr>ne_adapter = length (mg_heap mg), ne_is_static = False, ne_display = True,
                   ne_single = False, ne_pipe = 0\<rparr>)"
        using 2 by (auto simp: neu_node_manager_add_def add_entity_def bind_eq_Some_conv heap_at_def
            hash_find_add split: if_splits)
      then have "neu_node_manager_find nodes =
          (neu_node_manager_find (mg_nodes mg))(name \<mapsto> length (mg_heap mg))"
        by (auto simp: neu_node_manager_find_def fun_eq_iff)
      with 2 False ret r show ?thesis
        by (auto simp: start_frame simp del: hash_find_None)
    qed (use r in simp)
  qed
qed

lemma add_node_result_witness:
  "\<exists>mg' r. neu_manager_add_node (demo_world NEU_NA_TYPE_ESVAPP) (demo_manager NEU_NA_TYPE_ESVAPP)
      ''node'' ''Demo'' True = Some (r, mg') \<and> r = NEU_ERR_NODE_EXIST \<and>
      mg' = demo_manager NEU_NA_TYPE_ESVAPP"
proof -
  have ok: "manager_ok (demo_manager NEU_NA_TYPE_ESVAPP)"
    by (rule demo_manager_ok) (simp add: plugin_types_allowed_def)
  have "\<exists>mg' r. neu_manager_add_node (demo_world NEU_NA_TYPE_ESVAPP) (demo_manager NEU_NA_TYPE_ESVAPP)
      ''node'' ''Demo'' True = Some (r, mg')"
    using demo_find_plugin [of NEU_NA_TYPE_ESVAPP]
    by (auto simp: neu_manager_add_node_def demo_manager_def demo_started_def new_manager_def
        neu_node_manager_find_def hash_find_def)
  then obtain mg' r where a: "neu_manager_add_node (demo_world NEU_NA_TYPE_ESVAPP)
      (demo_manager NEU_NA_TYPE_ESVAPP) ''node'' ''Demo'' True = Some (r, mg')" by blast
  from add_node_result [OF ok a] a show ?thesis
    by (auto simp: demo_manager_def hash_find_def neu_plugin_manager_is_single_def new_entity_def
        demo_module_def neu_node_manager_find_def)
qed

end
