(* ===== verification/RouterProps.thy ===== *)
theory RouterProps
  imports ManagerProps
begin

text \<open>
  Properties of the routing of messages: which branch a topic takes, what reaches which plugin,
  and that the processing of a message ends.
\<close>

section \<open>Topics\<close>

lemma other_subscription:
  "s \<in> set topics_to_subscribe \<Longrightarrow> topic_matches_wildcard t s \<Longrightarrow> v \<in> set topics_to_subscribe \<Longrightarrow> v \<noteq> s \<Longrightarrow>
    \<not> topic_matches_wildcard t v"
  using one_subscription by blast

text \<open>The subscriptions that \<open>messageArrived5\<close> tests for, in its order.\<close>

definition tested :: "string list" where
  "tested =
     [WAN_THINGSUB_PROPERTY_SET, WAN_THING_PLUGIN_NODE_ACTION_PUSH, WAN_THINGSUB_PROPERTY_GET,
      WAN_THING_PLUGIN_CONFIG_PUSH, APP_THING_PLUGIN_CONFIG_PUSH, APP_THING_PLUGIN_RELOAD_CONFIG_PUSH,
      WAN_THING_DISCOVERY, WAN_THINGSUB_DISCOVERY, WAN_EASYHBES_CONFIG_PUSH, WAN_THING_RESTART_SET,
      LAN_THINGSUB_SERVICE_PROPERTY_GET, LAN_THINGSUB_SERVICE_PROPERTY_SET,
      LAN_THINGSUB_EVENT_PROPERTY_POST, LAN_THING_SERVICE_PROPERTY_POSTREQ]"

lemma tested_subset: "set tested \<subseteq> set topics_to_subscribe"
  by (simp add: tested_def topics_to_subscribe_def)

text \<open>The only test that a topic of the subscription \<open>s\<close> passes is the one for \<open>s\<close>.\<close>

lemma tests_passed:
  assumes "s \<in> set topics_to_subscribe" "topic_matches_wildcard t s" "v \<in> set tested"
  shows "topic_matches_wildcard t v \<longleftrightarrow> levels v = levels s"
proof -
  have "v = s" if "levels v = levels s"
    using arg_cong [OF that, of topic_of] by (simp only: topic_of_levels)
  with other_subscription [OF assms(1,2), of v] assms tested_subset show ?thesis by blast
qed

lemma all_tests_passed:
  assumes "s \<in> set topics_to_subscribe" "topic_matches_wildcard t s"
  shows "\<forall>v\<in>set tested. topic_matches_wildcard t v \<longleftrightarrow> levels v = levels s"
  using tests_passed [OF assms] by blast

lemmas tests_by_levels = all_tests_passed [unfolded tested_def, simplified]

text \<open>
  A topic belongs to at most one of the eighteen subscriptions of the client, so the order
  of the tests in the handler does not matter; and the messages of five of the subscriptions
  (two replies, two configuration pushes and the restart) are dropped, without any effect.
\<close>

theorem unhandled_subscriptions:
  assumes "s \<in> set topics_to_subscribe" "topic_matches_wildcard topic s"
  shows "(\<forall>v\<in>set topics_to_subscribe. topic_matches_wildcard topic v \<longleftrightarrow> v = s) \<and>
    (s \<in> {LAN_THINGSUB_SERVICE_PROPERTY_SETREPLY, LAN_THINGSUB_SERVICE_PROPERTY_GETREPLY,
          WAN_THINGSUB_CONFIG_PUSH, LAN_THING_PLUGIN_CONFIG_PUSH, WAN_THING_RESTART_SET} \<longrightarrow>
     messageArrived5 J w after_copy after_payload uuid topic payload mg = Some (mg, []))"
proof -
  have "messageArrived5 J w after_copy after_payload uuid topic payload mg = Some (mg, [])"
    if "s \<in> {LAN_THINGSUB_SERVICE_PROPERTY_SETREPLY, LAN_THINGSUB_SERVICE_PROPERTY_GETREPLY,
          WAN_THINGSUB_CONFIG_PUSH, LAN_THING_PLUGIN_CONFIG_PUSH, WAN_THING_RESTART_SET}"
    using that tests_by_levels [OF assms] by (elim insertE) (simp_all add: messageArrived5_def)
  with other_subscription [OF assms] assms show ?thesis by blast
qed

lemma unhandled_subscriptions_witness:
  "messageArrived5 jt_jansson (demo_world NEU_NA_TYPE_ESVAPP) [] [] [] ''wan/a/b/thing/restart/set'' ''{}''
     (demo_manager NEU_NA_TYPE_ESVAPP) = Some (demo_manager NEU_NA_TYPE_ESVAPP, [])"
proof -
  have "WAN_THING_RESTART_SET \<in> set topics_to_subscribe"
    "topic_matches_wildcard ''wan/a/b/thing/restart/set'' WAN_THING_RESTART_SET"
    by (simp_all add: topics_to_subscribe_def topic_matches_wildcard_def WAN_THING_RESTART_SET_def)
  from unhandled_subscriptions [OF this] show ?thesis by blast
qed

lemma lan_topic_levels:
  assumes "CHR ''/'' \<notin> set (tmm_product_key m)" "CHR ''/'' \<notin> set (tmm_device_name m)"
  shows "levels (subthing_topic ''lan'' m ''event/property/post'') =
      [''lan'', ''thing'', ''sub'', tmm_product_key m, tmm_device_name m, ''thing'', ''event'',
       ''property'', ''post'']"
    and "levels (subthing_topic ''lan'' m ''service/property/set'') =
      [''lan'', ''thing'', ''sub'', tmm_product_key m, tmm_device_name m, ''thing'', ''service'',
       ''property'', ''set'']"
    and "levels (subthing_topic ''lan'' m ''service/property/get'') =
      [''lan'', ''thing'', ''sub'', tmm_product_key m, tmm_device_name m, ''thing'', ''service'',
       ''property'', ''get'']"
  using assms by (simp_all add: levels_def levels_from_plain subthing_topic_def)

text \<open>
  C19: What an application or a driver publishes on the local network is read back unchanged: the
  topic of a post, a set or a get leads to the branch of the same method, with the product key,
  the device name and the text that were published, provided key and name are not empty and
  have no slash.  The message then goes to the drivers.
\<close>

theorem published_read_back:
  assumes "tmm_method m \<in> {ESV_TMM_MTD_LAN_SUBTHING_THING_EVENT_PROPERTY_POST,
      ESV_TMM_MTD_LAN_SUBTHING_THING_SERVICE_PROPERTY_SET,
      ESV_TMM_MTD_LAN_SUBTHING_THING_SERVICE_PROPERTY_GET}"
    and "plain_level (tmm_product_key m)" "plain_level (tmm_device_name m)"
  shows "\<exists>topic. thing_model_topic (tmm_method m) m = Some topic \<and>
    messageArrived5 J w after_copy after_payload uuid topic (tmm_msg m) mg =
      forward_thing_model_msg_to_esvdriver w
        (tmm (tmm_method m) (tmm_product_key m) (tmm_device_name m) (tmm_msg m)) mg"
proof -
  have plain: "CHR ''/'' \<notin> set (tmm_product_key m)" "CHR ''/'' \<notin> set (tmm_device_name m)"
    "tmm_product_key m \<noteq> []" "tmm_device_name m \<noteq> []"
    using assms(2,3) by (auto simp: plain_level_def)
  note lv = lan_topic_levels [OF plain(1,2)]
  note arrives = messageArrived5_def topic_msg_def get_pk_dn_from_thingsub_topic_def strtok_levels lv
  have mem: "LAN_THINGSUB_EVENT_PROPERTY_POST \<in> set topics_to_subscribe"
    "LAN_THINGSUB_SERVICE_PROPERTY_SET \<in> set topics_to_subscribe"
    "LAN_THINGSUB_SERVICE_PROPERTY_GET \<in> set topics_to_subscribe"
    by (simp_all add: topics_to_subscribe_def)
  have post: "topic_matches_wildcard (subthing_topic ''lan'' m ''event/property/post'')
      LAN_THINGSUB_EVENT_PROPERTY_POST"
    and set: "topic_matches_wildcard (subthing_topic ''lan'' m ''service/property/set'')
      LAN_THINGSUB_SERVICE_PROPERTY_SET"
    and get: "topic_matches_wildcard (subthing_topic ''lan'' m ''service/property/get'')
      LAN_THINGSUB_SERVICE_PROPERTY_GET"
    by (simp_all add: matches_by_levels lv level_matches_def)
  from assms(1) consider
      "tmm_method m = ESV_TMM_MTD_LAN_SUBTHING_THING_EVENT_PROPERTY_POST"
    | "tmm_method m = ESV_TMM_MTD_LAN_SUBTHING_THING_SERVICE_PROPERTY_SET"
    | "tmm_method m = ESV_TMM_MTD_LAN_SUBTHING_THING_SERVICE_PROPERTY_GET" by blast
  then show ?thesis
  proof cases
    case 1
    with tests_by_levels [OF mem(1) post] plain(3,4) show ?thesis
      by (simp add: arrives)
  next
    case 2
    with tests_by_levels [OF mem(2) set] plain(3,4) show ?thesis
      by (simp add: arrives)
  next
    case 3
    with tests_by_levels [OF mem(3) get] plain(3,4) show ?thesis
      by (simp add: arrives)
  qed
qed

definition demo_post :: esv_thing_model_msg_t where
  "demo_post = tmm ESV_TMM_MTD_LAN_SUBTHING_THING_EVENT_PROPERTY_POST ''pk'' ''dn'' ''{}''"

lemma published_read_back_witness:
  "messageArrived5 jt_jansson (demo_world NEU_NA_TYPE_ESVAPP) [] [] []
     ''lan/thing/sub/pk/dn/thing/event/property/post'' ''{}'' (demo_manager NEU_NA_TYPE_ESVAPP) =
   forward_thing_model_msg_to_esvdriver (demo_world NEU_NA_TYPE_ESVAPP) demo_post
     (demo_manager NEU_NA_TYPE_ESVAPP)"
  using published_read_back [of demo_post jt_jansson "demo_world NEU_NA_TYPE_ESVAPP" "[]" "[]" "[]"
      "demo_manager NEU_NA_TYPE_ESVAPP"]
  by (simp add: demo_post_def tmm_def plain_level_def subthing_topic_def)

lemma discovery_topic_levels:
  assumes "\<forall>l\<in>{a, b, pk, dn}. CHR ''/'' \<notin> set l"
  shows "levels (topic_of [''wan'', a, b, ''thing'', ''sub'', pk, dn, ''thing'', ''discovery'']) =
    [''wan'', a, b, ''thing'', ''sub'', pk, dn, ''thing'', ''discovery'']"
  using assms by (intro levels_topic_of) simp_all

text \<open>
  A discovery for a subdevice crashes the program when at least three of its four free
  levels are empty, as a topic may have them: the product key and the name are taken from the
  levels that are not empty, of which there are then too few.  With no empty level it goes to
  every driver, with the key and the name of the topic.
\<close>

theorem discovery_of_empty_levels:
  assumes "manager_ok mg" "world_answers w" "\<forall>l\<in>{a, b, pk, dn}. CHR ''/'' \<notin> set l"
  shows "let arrived = messageArrived5 J w after_copy after_payload uuid
        (topic_of [''wan'', a, b, ''thing'', ''sub'', pk, dn, ''thing'', ''discovery'']) payload mg
    in (arrived = None \<longleftrightarrow> length [l \<leftarrow> [a, b, pk, dn]. l = []] \<ge> 3) \<and>
       ([] \<notin> {a, b, pk, dn} \<longrightarrow> arrived = forward_thing_model_msg_to_all_esvdevicedriver w
          (tmm ESV_TMM_MTD_WAN_SUBTHING_THING_DISCOVERY pk dn payload) mg)"
proof -
  let ?topic = "topic_of [''wan'', a, b, ''thing'', ''sub'', pk, dn, ''thing'', ''discovery'']"
  note lv = discovery_topic_levels [OF assms(3)]
  have mem: "WAN_THINGSUB_DISCOVERY \<in> set topics_to_subscribe" by (simp add: topics_to_subscribe_def)
  have match: "topic_matches_wildcard ?topic WAN_THINGSUB_DISCOVERY"
    by (simp only: matches_by_levels lv) (simp add: level_matches_def)
  have runs: "forward_thing_model_msg_to_all_esvdevicedriver w m mg \<noteq> None" for m
    by (simp add: forward_to_drivers_eq [OF assms(1,2)] Let_def)
  have arrived: "messageArrived5 J w after_copy after_payload uuid ?topic payload mg =
    do { m \<leftarrow> topic_msg ESV_TMM_MTD_WAN_SUBTHING_THING_DISCOVERY ?topic 5 payload;
         forward_thing_model_msg_to_all_esvdevicedriver w m mg }"
    using tests_by_levels [OF mem match] by (simp add: messageArrived5_def del: topic_of.simps)
  have msg: "topic_msg ESV_TMM_MTD_WAN_SUBTHING_THING_DISCOVERY ?topic 5 payload = None \<longleftrightarrow>
      length [l \<leftarrow> [a, b, pk, dn]. l = []] \<ge> 3"
    "[] \<notin> {a, b, pk, dn} \<Longrightarrow>
      topic_msg ESV_TMM_MTD_WAN_SUBTHING_THING_DISCOVERY ?topic 5 payload =
      Some (tmm ESV_TMM_MTD_WAN_SUBTHING_THING_DISCOVERY pk dn payload)"
    unfolding topic_msg_def get_pk_dn_from_thingsub_topic_def strtok_levels lv
    by (cases "a = []"; cases "b = []"; cases "pk = []"; cases "dn = []"; simp)+
  show ?thesis
    unfolding Let_def arrived using msg runs by (auto simp del: topic_of.simps)
qed

lemma discovery_of_empty_levels_witness:
  "messageArrived5 jt_jansson (demo_world NEU_NA_TYPE_ESVAPP) [] [] [] ''wan///thing/sub//dn/thing/discovery'' ''{}''
     (demo_manager NEU_NA_TYPE_ESVAPP) = None"
proof -
  have ok: "manager_ok (demo_manager NEU_NA_TYPE_ESVAPP)"
    by (rule demo_manager_ok) (simp add: plugin_types_allowed_def)
  from discovery_of_empty_levels [OF ok demo_world_ok(2) [of NEU_NA_TYPE_ESVAPP],
      of "[]" "[]" "[]" "''dn''" jt_jansson "[]" "[]" "[]" "''{}''"]
  show ?thesis by simp
qed

section \<open>Processing ends\<close>

lemma run_calls_mono:
  "run_calls n w mg cs = Finished mg' \<Longrightarrow> n \<le> k \<Longrightarrow> run_calls k w mg cs = Finished mg'"
proof (induction n w mg cs arbitrary: k rule: run_calls.induct)
  case (3 n w mg c cs)
  then obtain k' where k: "k = Suc k'" "n \<le> k'" by (cases k) auto
  from 3(2) obtain mg1 new where "exec_call w mg c = Some (mg1, new)"
    "run_calls n w mg1 (new @ cs) = Finished mg'"
    by (auto split: option.splits)
  with 3(1) k show ?case by simp
qed simp_all

text \<open>
  C20: A message that got past the handler is processed to an end, whatever is delivered and sent
  on its account, when the plugins do not answer in circles (every message a plugin sends in
  reaction to another has a lower rank than that): some fuel is enough, every greater one gives
  the same, and nothing crashes.
\<close>

theorem message_processing_ends:
  assumes "manager_ok mg" "world_answers w"
    and "\<forall>ad\<in>set (mg_heap mg). reacts_down rank (ad_module ad)"
    and "messageArrived5 J w after_copy after_payload uuid topic payload mg = Some (mg1, cs)"
  shows "\<exists>n mg'. manager_ok mg' \<and> (\<forall>k\<ge>n. run_calls k w mg1 cs = Finished mg')"
proof -
  have r: "routing_step mg mg1" "\<forall>c\<in>set cs. call_ok mg1 c"
    using messageArrived_ok [of mg J w after_copy after_payload uuid topic payload] assms(1,4) by simp_all
  then have ok: "manager_ok mg1" using assms(1) by (simp add: routing_step_def)
  have modules: "map ad_module (mg_heap mg1) = map ad_module (mg_heap mg)"
    using r(1) by (simp add: routing_step_def same_nodes_def)
  have "\<forall>ad\<in>set (mg_heap mg1). reacts_down rank (ad_module ad)"
  proof
    fix ad assume "ad \<in> set (mg_heap mg1)"
    then have "ad_module ad \<in> set (map ad_module (mg_heap mg1))" by simp
    then have "ad_module ad \<in> set (map ad_module (mg_heap mg))" by (simp only: modules)
    then show "reacts_down rank (ad_module ad)" using assms(3) by auto
  qed
  from run_calls_ends [OF ok assms(2) r(2) this]
  obtain n mg' where "run_calls n w mg1 cs = Finished mg'" by blast
  moreover from run_calls_routing [OF this] ok have "manager_ok mg'" by (simp add: routing_step_def)
  ultimately show ?thesis using run_calls_mono by blast
qed

lemma demo_reacts: "reacts_down (\<lambda>_. 0) (demo_module ty)"
  by (auto simp: reacts_down_def demo_module_def demo_funs_def)

lemma demo_names:
  "esv_persister_query_device_node_name_by_node_type (w_db (demo_world ty)) = Some [''node'']"
  by (simp add: esv_persister_query_device_node_name_by_node_type_def demo_world_def demo_db_def
      step_rows_def demo_row_def)

lemma demo_known: "known (demo_manager ty) ''node''"
  by (simp add: known_def neu_node_manager_find_def demo_manager_def hash_find_def)

lemma demo_to_driver:
  assumes "ty \<in> set plugin_types_allowed"
  shows "forward_thing_model_msg_to_esvdriver (demo_world ty) m (demo_manager ty) =
    Some (demo_manager ty, [delivery (demo_world ty) (demo_manager ty) m ''node''])"
  using forward_to_esvdriver_known [OF demo_manager_ok [OF assms] demo_world_ok(2) [of ty], of m]
    demo_names [of ty] demo_known [of ty]
  by simp

lemma demo_set_routed:
  assumes "levels topic = [''lan'', ''thing'', ''sub'', ''pk'', ''dn'', ''thing'', ''service'', ''property'', ''set'']"
    and "ty \<in> set plugin_types_allowed"
  shows "\<exists>mg1 cs. messageArrived5 J (demo_world ty) ac ap uuid topic payload (demo_manager ty) = Some (mg1, cs) \<and>
    cs \<noteq> []"
proof -
  have "LAN_THINGSUB_SERVICE_PROPERTY_SET \<in> set topics_to_subscribe"
    "topic_matches_wildcard topic LAN_THINGSUB_SERVICE_PROPERTY_SET"
    by (simp_all add: topics_to_subscribe_def matches_by_levels assms(1) level_matches_def)
  from tests_by_levels [OF this] show ?thesis
    by (simp add: messageArrived5_def topic_msg_def get_pk_dn_from_thingsub_topic_def strtok_levels
        demo_to_driver assms)
qed

lemma message_processing_ends_witness:
  "\<exists>mg1 cs n mg'. messageArrived5 jt_jansson (demo_world NEU_NA_TYPE_ESVAPP) [] [] []
      ''lan/thing/sub/pk/dn/thing/service/property/set'' ''{}'' (demo_manager NEU_NA_TYPE_ESVAPP) = Some (mg1, cs) \<and>
    cs \<noteq> [] \<and> run_calls n (demo_world NEU_NA_TYPE_ESVAPP) mg1 cs = Finished mg'"
proof -
  let ?w = "demo_world NEU_NA_TYPE_ESVAPP" and ?mg = "demo_manager NEU_NA_TYPE_ESVAPP"
  have ok: "manager_ok ?mg" by (rule demo_manager_ok) (simp add: plugin_types_allowed_def)
  have "\<exists>mg1 cs. messageArrived5 jt_jansson ?w [] [] []
      ''lan/thing/sub/pk/dn/thing/service/property/set'' ''{}'' ?mg = Some (mg1, cs) \<and> cs \<noteq> []"
    by (rule demo_set_routed) (simp_all add: levels_def plugin_types_allowed_def)
  then obtain mg1 cs where a: "messageArrived5 jt_jansson ?w [] [] []
      ''lan/thing/sub/pk/dn/thing/service/property/set'' ''{}'' ?mg = Some (mg1, cs)" "cs \<noteq> []" by blast
  have "\<forall>ad\<in>set (mg_heap ?mg). reacts_down (\<lambda>_. 0) (ad_module ad)"
    using demo_reacts by (simp add: demo_manager_def)
  from message_processing_ends [OF ok demo_world_ok(2) this a(1)] a show ?thesis by blast
qed

section \<open>Who receives\<close>

lemma delivery_publish [simp]:
  "delivery w (lan_mqtt5_service_publish t s mg) = delivery w mg"
  "known (lan_mqtt5_service_publish t s mg) = known mg"
  by (auto simp: fun_eq_iff delivery_def known_def lan_mqtt5_service_publish_def)

text \<open>The messages of an application that go on to device nodes.\<close>

definition app_forwards :: "esv_thing_model_msg_method list" where
  "app_forwards = [ESV_TMM_MTD_LAN_SUBTHING_THING_EVENT_PROPERTY_POST,
     ESV_TMM_MTD_LAN_SUBTHING_THING_SERVICE_PROPERTY_SET,
     ESV_TMM_MTD_LAN_SUBTHING_THING_SERVICE_PROPERTY_GET]"

lemma app_topic:
  assumes "tmm_method m \<in> set app_methods"
  shows "\<exists>topic. thing_model_topic (tmm_method m) m = Some topic"
  using assms by (auto simp: app_methods_def)

lemma app_effects:
  assumes "thing_model_topic (tmm_method m) m = Some topic" "tmm_method m \<in> set app_methods"
  shows "snd (thing_model_msg_arrived NEU_NA_TYPE_ESVAPP m) =
    (if tmm_msg_type m \<noteq> ESV_TMM_JSON_STRING_PTR then []
     else if tmm_method m \<in> set app_forwards
     then [TM_publish topic (tmm_msg m), TM_forward_to_esvdriver m] else [TM_publish topic (tmm_msg m)])"
proof -
  have "thing_model_forward NEU_NA_TYPE_ESVAPP m =
      (if tmm_method m \<in> set app_forwards then [TM_forward_to_esvdriver m] else [])"
    by (cases "tmm_method m") (simp_all add: thing_model_forward_def app_forwards_def)
  with assms show ?thesis by (simp add: thing_model_msg_arrived_def)
qed

text \<open>
  C21: What a message of an application does.  A message without a JSON text, or of a method that
  is none of the seven of an application, does nothing.  The others are published under the
  topic of their method.  A post, set or get moreover goes to the nodes that the database lists
  with type 9 or 11, in that order, up to the first name that is not in the table of nodes,
  which cuts off the rest; whether a node is started makes no difference.  Type 11 being the
  applications, an application so listed gets its own message back.
\<close>

theorem application_message_deliveries:
  assumes "manager_ok mg" "world_answers w" "i < length (mg_heap mg)"
    and "ad_type (mg_heap mg ! i) = NEU_NA_TYPE_ESVAPP"
  shows "if tmm_method m \<notin> set app_methods \<or> tmm_msg_type m \<noteq> ESV_TMM_JSON_STRING_PTR
    then exec_call w mg (Arrived i m) = Some (mg, [])
    else \<exists>topic names cs. thing_model_topic (tmm_method m) m = Some topic \<and>
      esv_persister_query_device_node_name_by_node_type (w_db w) = Some names \<and>
      exec_call w mg (Arrived i m) = Some (lan_mqtt5_service_publish topic (tmm_msg m) mg, cs) \<and>
      (tmm_method m \<notin> set app_forwards \<longrightarrow> cs = []) \<and>
      (tmm_method m \<in> set app_forwards \<longrightarrow>
        cs = map (delivery w mg m) (takeWhile (known mg) names) \<and>
        (neu_node_manager_find (mg_nodes mg) (ad_name (mg_heap mg ! i)) = Some i \<and>
           ad_name (mg_heap mg ! i) \<in> set names \<and> (\<forall>name\<in>set names. known mg name) \<longrightarrow>
         Deliver i (m\<lparr>tmm_plugin_id := node_ids w (ad_name (mg_heap mg ! i))\<rparr>) \<in> set cs))"
proof (cases "tmm_method m \<notin> set app_methods \<or> tmm_msg_type m \<noteq> ESV_TMM_JSON_STRING_PTR")
  case True
  then have "snd (thing_model_msg_arrived NEU_NA_TYPE_ESVAPP m) = []"
    by (auto simp: thing_model_msg_arrived_def split: option.split)
  with True assms(3,4) show ?thesis by (simp add: exec_call_def heap_at_def)
next
  case False
  then obtain topic where topic: "thing_model_topic (tmm_method m) m = Some topic"
    using app_topic by blast
  let ?mg = "lan_mqtt5_service_publish topic (tmm_msg m) mg"
  have "manager_ok ?mg" using assms(1) by (simp add: manager_ok_def lan_mqtt5_service_publish_def)
  from forward_to_esvdriver_known [OF this assms(2), of m]
  obtain names where names: "esv_persister_query_device_node_name_by_node_type (w_db w) = Some names"
    "forward_thing_model_msg_to_esvdriver w m ?mg =
      Some (?mg, map (delivery w mg m) (takeWhile (known mg) names))" by auto
  let ?cs = "if tmm_method m \<in> set app_forwards
    then map (delivery w mg m) (takeWhile (known mg) names) else []"
  have run: "exec_call w mg (Arrived i m) = Some (?mg, ?cs)"
    using assms(3,4) names app_effects [OF topic] False by (simp add: exec_call_def heap_at_def)
  have own: "Deliver i (m\<lparr>tmm_plugin_id := node_ids w name\<rparr>) \<in>
      set (map (delivery w mg m) (takeWhile (known mg) names))"
    if "neu_node_manager_find (mg_nodes mg) name = Some i" "name \<in> set names"
      "\<forall>name\<in>set names. known mg name" for name
    using that by (auto simp: delivery_def image_iff takeWhile_eq_all_conv [THEN iffD2] intro!: bexI [of _ name])
  have "\<exists>topic names cs. thing_model_topic (tmm_method m) m = Some topic \<and>
      esv_persister_query_device_node_name_by_node_type (w_db w) = Some names \<and>
      exec_call w mg (Arrived i m) = Some (lan_mqtt5_service_publish topic (tmm_msg m) mg, cs) \<and>
      (tmm_method m \<notin> set app_forwards \<longrightarrow> cs = []) \<and>
      (tmm_method m \<in> set app_forwards \<longrightarrow>
        cs = map (delivery w mg m) (takeWhile (known mg) names) \<and>
        (neu_node_manager_find (mg_nodes mg) (ad_name (mg_heap mg ! i)) = Some i \<and>
           ad_name (mg_heap mg ! i) \<in> set names \<and> (\<forall>name\<in>set names. known mg name) \<longrightarrow>
         Deliver i (m\<lparr>tmm_plugin_id := node_ids w (ad_name (mg_heap mg ! i))\<rparr>) \<in> set cs))"
    by (intro exI [of _ topic] exI [of _ names] exI [of _ ?cs] conjI impI; (elim conjE)?)
       (use topic names(1) run own in simp_all)
  with False show ?thesis by simp
qed

lemma application_message_deliveries_witness:
  "\<exists>cs. exec_call (demo_world NEU_NA_TYPE_ESVAPP) (demo_manager NEU_NA_TYPE_ESVAPP) (Arrived 0 demo_post) =
     Some (lan_mqtt5_service_publish ''lan/thing/sub/pk/dn/thing/event/property/post'' ''{}''
             (demo_manager NEU_NA_TYPE_ESVAPP), cs) \<and>
     Deliver 0 (demo_post\<lparr>tmm_plugin_id := node_ids (demo_world NEU_NA_TYPE_ESVAPP) ''node''\<rparr>) \<in> set cs"
proof -
  have ok: "manager_ok (demo_manager NEU_NA_TYPE_ESVAPP)"
    by (rule demo_manager_ok) (simp add: plugin_types_allowed_def)
  have h: "0 < length (mg_heap (demo_manager NEU_NA_TYPE_ESVAPP))"
    "ad_type (mg_heap (demo_manager NEU_NA_TYPE_ESVAPP) ! 0) = NEU_NA_TYPE_ESVAPP"
    "neu_node_manager_find (mg_nodes (demo_manager NEU_NA_TYPE_ESVAPP)) ''node'' = Some 0"
    "ad_name (mg_heap (demo_manager NEU_NA_TYPE_ESVAPP) ! 0) = ''node''"
    by (simp_all add: demo_manager_def demo_module_def neu_node_manager_find_def hash_find_def)
  have m: "tmm_msg_type demo_post = ESV_TMM_JSON_STRING_PTR"
    "tmm_method demo_post = ESV_TMM_MTD_LAN_SUBTHING_THING_EVENT_PROPERTY_POST"
    "tmm_msg demo_post = ''{}''"
    "thing_model_topic ESV_TMM_MTD_LAN_SUBTHING_THING_EVENT_PROPERTY_POST demo_post =
      Some ''lan/thing/sub/pk/dn/thing/event/property/post''"
    by (simp_all add: demo_post_def tmm_def subthing_topic_def)
  have f: "tmm_method demo_post \<in> set app_methods" "tmm_method demo_post \<in> set app_forwards"
    by (simp_all add: m app_methods_def app_forwards_def)
  from application_message_deliveries [OF ok demo_world_ok(2) [of NEU_NA_TYPE_ESVAPP] h(1,2), of demo_post] f m(1)
  obtain topic names cs where r: "thing_model_topic (tmm_method demo_post) demo_post = Some topic"
    "esv_persister_query_device_node_name_by_node_type (w_db (demo_world NEU_NA_TYPE_ESVAPP)) = Some names"
    "exec_call (demo_world NEU_NA_TYPE_ESVAPP) (demo_manager NEU_NA_TYPE_ESVAPP) (Arrived 0 demo_post) =
       Some (lan_mqtt5_service_publish topic (tmm_msg demo_post) (demo_manager NEU_NA_TYPE_ESVAPP), cs)"
    "neu_node_manager_find (mg_nodes (demo_manager NEU_NA_TYPE_ESVAPP)) ''node'' = Some 0 \<and>
       ''node'' \<in> set names \<and> (\<forall>name\<in>set names. known (demo_manager NEU_NA_TYPE_ESVAPP) name) \<longrightarrow>
     Deliver 0 (demo_post\<lparr>tmm_plugin_id := node_ids (demo_world NEU_NA_TYPE_ESVAPP) ''node''\<rparr>) \<in> set cs"
    unfolding h(4) by (simp only: simp_thms if_False) (elim exE conjE, rule that, assumption+)
  from r(1,2) have "topic = ''lan/thing/sub/pk/dn/thing/event/property/post''" "names = [''node'']"
    using demo_names [of NEU_NA_TYPE_ESVAPP] m(2,4) by simp_all
  with r(3,4) h(3) m(3) demo_known [of NEU_NA_TYPE_ESVAPP] show ?thesis by simp
qed

section \<open>The fixed set of drivers\<close>

definition receiver :: "call \<Rightarrow> nat" where
  "receiver c = (case c of Deliver i m \<Rightarrow> i | Arrived i m \<Rightarrow> i)"

lemma forward_to_drivers_receivers:
  assumes "manager_ok mg" "world_answers w"
    "forward_thing_model_msg_to_all_esvdevicedriver w m mg = Some (mg', cs)"
  shows "mg_esvdevicedrivernodes mg' = Some (map receiver cs)"
    "mg_esvdevicedrivernodes mg = Some is \<Longrightarrow> map receiver cs = is \<and> mg' = mg"
    "mg_esvdevicedrivernodes mg = None \<Longrightarrow>
       map receiver cs = shown_of_type mg NEU_NA_TYPE_ESVSELFDEVICEDRIVER"
    "manager_ok mg'"
  using assms forward_drivers_ok [of mg w m]
  by (auto simp: forward_to_drivers_eq Let_def cached_or_def receiver_def comp_def routing_step_def)

text \<open>
  C22: The first message for all drivers fixes them for good: whatever happens afterwards, nodes
  added included, a later message for all drivers reaches the drivers that ran at the first one
  and no other.  As the client is connected before the nodes are loaded, a message that arrives
  then leaves all later ones without any receiver.
\<close>

theorem drivers_fixed_by_first_use:
  assumes "manager_ok mg" "world_ok w" "world_answers w" "mg_esvdevicedrivernodes mg = None"
    and "forward_thing_model_msg_to_all_esvdevicedriver w m mg = Some (mg1, cs1)"
    and "(manager_step J w)\<^sup>*\<^sup>* mg1 mg2"
    and "forward_thing_model_msg_to_all_esvdevicedriver w m' mg2 = Some (mg3, cs2)"
  shows "map receiver cs2 = shown_of_type mg NEU_NA_TYPE_ESVSELFDEVICEDRIVER \<and> mg3 = mg2"
proof -
  note first = forward_to_drivers_receivers [OF assms(1,3,5)]
  have later: "manager_ok mg2" "keeps_caches mg1 mg2"
    using manager_steps_ok [OF assms(6) first(4) assms(2)] by simp_all
  then have "mg_esvdevicedrivernodes mg2 = Some (map receiver cs1)"
    using first(1) by (simp add: keeps_caches_def)
  with forward_to_drivers_receivers(2) [OF later(1) assms(3,7)] first(3) [OF assms(4)] show ?thesis
    by simp
qed

lemma drivers_fixed_by_first_use_witness:
  "\<exists>mg1 mg2. forward_thing_model_msg_to_all_esvdevicedriver (demo_world NEU_NA_TYPE_ESVSELFDEVICEDRIVER)
      demo_post (demo_started NEU_NA_TYPE_ESVSELFDEVICEDRIVER) = Some (mg1, []) \<and>
    neu_manager_add_node (demo_world NEU_NA_TYPE_ESVSELFDEVICEDRIVER) mg1 ''node'' ''Demo'' True =
      Some (NEU_ERR_SUCCESS, mg2) \<and> length (mg_heap mg2) = 1 \<and>
    forward_thing_model_msg_to_all_esvdevicedriver (demo_world NEU_NA_TYPE_ESVSELFDEVICEDRIVER)
      demo_post mg2 = Some (mg2, [])"
proof -
  let ?w = "demo_world NEU_NA_TYPE_ESVSELFDEVICEDRIVER" and ?mg = "demo_started NEU_NA_TYPE_ESVSELFDEVICEDRIVER"
  let ?mg1 = "?mg\<lparr>mg_esvdevicedrivernodes := Some []\<rparr>"
  have "started_manager ?w = Some ?mg"
    by (rule demo_plugin_load) (simp add: plugin_types_allowed_def)
  then have ok: "manager_ok ?mg" by (rule started_manager_ok)
  have first: "forward_thing_model_msg_to_all_esvdevicedriver ?w demo_post ?mg = Some (?mg1, [])"
    by (simp add: forward_to_drivers_eq [OF ok demo_world_ok(2)] cached_or_def shown_of_type_def
        shown_def hash_vals_def Let_def)
  obtain mg2 where add: "neu_manager_add_node ?w ?mg1 ''node'' ''Demo'' True = Some (NEU_ERR_SUCCESS, mg2)"
      "length (mg_heap mg2) = 1"
    using demo_add_node [of NEU_NA_TYPE_ESVSELFDEVICEDRIVER ?mg1] by auto
  then have steps: "(manager_step jt_jansson ?w)\<^sup>*\<^sup>* ?mg1 mg2" by (intro r_into_rtranclp node_added)
  have ok2: "manager_ok mg2"
    using manager_steps_ok [OF steps _ demo_world_ok(1)] forward_to_drivers_receivers(4) [OF ok demo_world_ok(2) first]
    by simp
  then obtain mg3 cs where second: "forward_thing_model_msg_to_all_esvdevicedriver ?w demo_post mg2 = Some (mg3, cs)"
    by (simp add: forward_to_drivers_eq [OF ok2 demo_world_ok(2)] Let_def)
  from drivers_fixed_by_first_use [OF ok demo_world_ok(1,2) _ first steps second]
  have "map receiver cs = [] \<and> mg3 = mg2"
    by (simp add: shown_of_type_def shown_def hash_vals_def)
  with first add second show ?thesis by blast
qed

section \<open>Reloading\<close>

text \<open>
  A pushed configuration that the plugin accepts leaves a node that was running in state
  READY although its plugin runs: the reload starts the plugin itself instead of starting the
  node.  The state then contradicts the life cycle, and a start of the node, which is refused
  for a running node, starts the running plugin once more.
\<close>

theorem reload_leaves_ready:
  assumes "tmm_method m \<noteq> ESV_TMM_MTD_WAN_SUBTHING_THING_PLUGIN_NODE_ACTION_PUSH"
    and "json_loads J (c_text after_copy (take (nat (tmm_msg_len m)) (tmm_msg m))) False = Some recv"
    and "jstring J (jfield J (jfield J (Some recv) ''params'') ''pluginNodeId'') = Some node_id"
    and "esv_persister_query_device_node_name_by_node_id (w_db w) node_id = Some (rv, Some name)"
    and "manager_ok mg" "neu_node_manager_find (mg_nodes mg) name = Some i"
    and "plugin_tracks (ad_intf (mg_heap mg ! i)) running"
    and "esv_persister_load_node_config (w_db w) name = Inr cfg"
    and "\<forall>p. fst (pf_setting (ad_intf (mg_heap mg ! i)) p cfg) = 0 \<and>
      fst (pf_start (ad_intf (mg_heap mg ! i)) p) = 0"
    and "forward_thing_control_msg_to_esvdriver J w after_copy after_payload uuid m mg = Some (mg', cs)"
  shows "ad_state (mg_heap mg' ! i) = NEU_NODE_RUNNING_STATE_READY \<and>
    running (ad_plugin (mg_heap mg' ! i)) \<and>
    neu_adapter_start (mg_heap mg' ! i) \<noteq> (NEU_ERR_NODE_IS_RUNNING, mg_heap mg' ! i) \<and>
    ad_plugin (snd (neu_adapter_start (mg_heap mg' ! i))) =
      snd (pf_start (ad_intf (mg_heap mg ! i)) (ad_plugin (mg_heap mg' ! i)))"
proof -
  let ?ad = "mg_heap mg ! i"
  have i: "i < length (mg_heap mg)" "ad_name ?ad = name"
    using nodes_ok_find [OF _ assms(6)] assms(5) by (auto simp: manager_ok_def)
  obtain r p1 where stop: "pf_stop (ad_intf ?ad) (ad_plugin ?ad) = (r, p1)" by (rule prod.exhaust)
  obtain p2 where set: "pf_setting (ad_intf ?ad) p1 cfg = (0, p2)"
    using assms(9) by (metis prod.collapse)
  obtain p3 where start: "pf_start (ad_intf ?ad) p2 = (0, p3)"
    using assms(9) by (metis prod.collapse)
  have run: "running p3" using tracksD(3) [OF assms(7), of p2] start by simp
  let ?ad1 = "set_plugin p3 (set_state NEU_NODE_RUNNING_STATE_READY
     ((set_plugin p2 (set_plugin p1 ?ad))\<lparr>ad_setting := Some cfg\<rparr>))"
  have "snd (stop_plugin ?ad) = set_plugin p1 ?ad" by (simp add: stop_plugin_def stop)
  moreover have "reload_setting w 2 (set_plugin p1 ?ad) =
      (0, set_state NEU_NODE_RUNNING_STATE_READY ((set_plugin p2 (set_plugin p1 ?ad))\<lparr>ad_setting := Some cfg\<rparr>))"
    using assms(8) i(2) set by (simp add: reload_setting_def reload_config_def)
  moreover have "start_plugin (set_state NEU_NODE_RUNNING_STATE_READY
      ((set_plugin p2 (set_plugin p1 ?ad))\<lparr>ad_setting := Some cfg\<rparr>)) = ?ad1"
    by (simp add: start_plugin_def start)
  ultimately have "send_config_plugin_results J uuid (Some recv) 0 (update_adapter mg i ?ad1) = Some mg'"
    using assms(10)
    by (auto simp: forward_thing_control_msg_to_esvdriver_def assms(1-4,6) heap_at_def i bind_eq_Some_conv)
  then have "mg_heap mg' = (mg_heap mg)[i := ?ad1]"
    by (auto simp: send_config_plugin_results_def bind_eq_Some_conv Let_def
        lan_mqtt5_service_publish_def update_adapter_def)
  moreover obtain p4 where "pf_start (ad_intf ?ad) p3 = (0, p4)"
    using assms(9) by (metis prod.collapse)
  ultimately show ?thesis using i run
    by (simp add: neu_adapter_start_def)
qed

definition push_tree :: jtree where
  "push_tree = JTObject [(''transId'', JTString ''1''),
     (''params'', JTObject [(''pluginNodeId'', JTString ''7'')])]"

definition push_jansson :: "jtree jansson" where
  "push_jansson = jt_jansson\<lparr>json_loads := \<lambda>_ _. Some push_tree, json_dumps := \<lambda>_. Some ''{}''\<rparr>"

lemma push_fields:
  "jstring push_jansson (jfield push_jansson (jfield push_jansson (Some push_tree) ''params'') ''pluginNodeId'') =
     Some ''7''"
  "jstring push_jansson (jfield push_jansson (Some push_tree) ''transId'') = Some ''1''"
  by (simp_all add: jstring_def jfield_def push_jansson_def jt_jansson_def push_tree_def jt_get_def)

lemma demo_name_by_id:
  "esv_persister_query_device_node_name_by_node_id (w_db (demo_world ty)) ''7'' = Some (0, Some ''node'')"
  by (simp add: esv_persister_query_device_node_name_by_node_id_def demo_world_def demo_db_def
      first_name_def step_rows_def demo_row_def)

lemma reload_leaves_ready_witness:
  "ad_state (demo_running NEU_NA_TYPE_ESVAPP) = NEU_NODE_RUNNING_STATE_RUNNING \<and>
   (\<exists>mg'. forward_thing_control_msg_to_esvdriver push_jansson (demo_world NEU_NA_TYPE_ESVAPP) [] [] []
      (tmm ESV_TMM_MTD_WAN_SUBTHING_THING_PLUGIN_NODE_CONFIG_PUSH ''a'' ''b'' ''{}'')
      (demo_manager NEU_NA_TYPE_ESVAPP) = Some (mg', []) \<and>
    ad_state (mg_heap mg' ! 0) = NEU_NODE_RUNNING_STATE_READY \<and> pc_priv (ad_plugin (mg_heap mg' ! 0)))"
proof -
  let ?w = "demo_world NEU_NA_TYPE_ESVAPP" and ?mg = "demo_manager NEU_NA_TYPE_ESVAPP"
  let ?m = "tmm ESV_TMM_MTD_WAN_SUBTHING_THING_PLUGIN_NODE_CONFIG_PUSH ''a'' ''b'' ''{}''"
  have heap: "mg_heap ?mg = [demo_running NEU_NA_TYPE_ESVAPP]"
    and found: "neu_node_manager_find (mg_nodes ?mg) ''node'' = Some 0"
    by (simp_all add: demo_manager_def neu_node_manager_find_def hash_find_def)
  have loads: "json_loads push_jansson (c_text [] (take (nat (tmm_msg_len ?m)) (tmm_msg ?m))) False = Some push_tree"
    by (simp add: push_jansson_def)
  have dumps: "json_dumps push_jansson j = Some ''{}''" for j by (simp add: push_jansson_def)
  have intf: "ad_intf (mg_heap ?mg ! 0) = md_intf (demo_module NEU_NA_TYPE_ESVAPP)" by (simp add: heap)
  have ok: "manager_ok ?mg" by (rule demo_manager_ok) (simp add: plugin_types_allowed_def)
  have plugin: "\<forall>p. fst (pf_setting (ad_intf (mg_heap ?mg ! 0)) p ''{}'') = 0 \<and>
      fst (pf_start (ad_intf (mg_heap ?mg ! 0)) p) = 0"
    by (simp add: heap demo_module_def demo_funs_def)
  have "\<exists>mg'. forward_thing_control_msg_to_esvdriver push_jansson ?w [] [] [] ?m ?mg = Some (mg', [])"
    unfolding forward_thing_control_msg_to_esvdriver_def
    by (simp add: tmm_def push_fields demo_name_by_id found heap heap_at_def
        loads [unfolded tmm_def, simplified] send_config_plugin_results_def dumps Let_def
        split: prod.split)
  then obtain mg' where a: "forward_thing_control_msg_to_esvdriver push_jansson ?w [] [] [] ?m ?mg = Some (mg', [])"
    by blast
  from reload_leaves_ready [OF _ loads push_fields(1) demo_name_by_id ok found
      demo_tracks [of NEU_NA_TYPE_ESVAPP, folded intf] demo_config plugin a] a
  show ?thesis by (simp add: tmm_def)
qed

section \<open>The table of plugins\<close>

text \<open>
  C23: The table of plugins is a finite map from names to plugins.  An addition succeeds exactly
  when the library loads, is not a static plugin, has an allowed type and a new name, and then
  maps its name to it; it changes nothing otherwise.  A deletion succeeds exactly when the table
  has the name and not as a system plugin, and then removes it; otherwise it answers
  \<open>NEU_ERR_LIBRARY_SYSTEM_NOT_ALLOW_DEL\<close>, for an unknown name too, and changes nothing.
  Both keep the table well-formed.
\<close>

theorem plugin_table_is_a_map:
  assumes "plugins_ok mgr" "neu_plugin_manager_add dl mgr lib = Some (r, mgr')"
  shows "(r = NEU_ERR_SUCCESS \<longleftrightarrow> (\<exists>pm. dl (''./plugins/'' @ lib) = Some (Some pm) \<and>
            md_kind pm \<noteq> NEU_PLUGIN_KIND_STATIC \<and> md_type pm \<in> set plugin_types_allowed \<and>
            hash_find mgr (md_module_name pm) = None)) \<and>
    (r \<noteq> NEU_ERR_SUCCESS \<longrightarrow> mgr' = mgr) \<and>
    (r = NEU_ERR_SUCCESS \<longrightarrow> (\<forall>pm. dl (''./plugins/'' @ lib) = Some (Some pm) \<longrightarrow>
       hash_find mgr' = (hash_find mgr)(md_module_name pm \<mapsto> new_entity lib pm))) \<and>
    hash_find (snd (neu_plugin_manager_del mgr' name)) =
      (if \<exists>pe. hash_find mgr' name = Some pe \<and> pe_kind pe = NEU_PLUGIN_KIND_SYSTEM then hash_find mgr'
       else (hash_find mgr')(name := None)) \<and>
    fst (neu_plugin_manager_del mgr' name) =
      (if \<exists>pe. hash_find mgr' name = Some pe \<and> pe_kind pe \<noteq> NEU_PLUGIN_KIND_SYSTEM then NEU_ERR_SUCCESS
       else NEU_ERR_LIBRARY_SYSTEM_NOT_ALLOW_DEL) \<and>
    plugins_ok mgr' \<and> plugins_ok (snd (neu_plugin_manager_del mgr' name))"
proof -
  have ok: "plugins_ok mgr'" by (rule plugins_ok_add [OF assms])
  then have "hash_find (snd (neu_plugin_manager_del mgr' name)) =
      (if \<exists>pe. hash_find mgr' name = Some pe \<and> pe_kind pe = NEU_PLUGIN_KIND_SYSTEM then hash_find mgr'
       else (hash_find mgr')(name := None))"
    by (auto simp: neu_plugin_manager_del_def plugins_ok_def hash_find_del fun_eq_iff
        simp del: hash_find_None split: option.split)
  moreover have "fst (neu_plugin_manager_del mgr' name) =
      (if \<exists>pe. hash_find mgr' name = Some pe \<and> pe_kind pe \<noteq> NEU_PLUGIN_KIND_SYSTEM then NEU_ERR_SUCCESS
       else NEU_ERR_LIBRARY_SYSTEM_NOT_ALLOW_DEL)"
    by (auto simp: neu_plugin_manager_del_def simp del: hash_find_None split: option.split)
  moreover from plugin_add_result [OF assms(2)]
  have "r = NEU_ERR_SUCCESS \<longleftrightarrow> (\<exists>pm. dl (''./plugins/'' @ lib) = Some (Some pm) \<and>
            md_kind pm \<noteq> NEU_PLUGIN_KIND_STATIC \<and> md_type pm \<in> set plugin_types_allowed \<and>
            hash_find mgr (md_module_name pm) = None)"
    "r \<noteq> NEU_ERR_SUCCESS \<longrightarrow> mgr' = mgr"
    "r = NEU_ERR_SUCCESS \<longrightarrow> (\<forall>pm. dl (''./plugins/'' @ lib) = Some (Some pm) \<longrightarrow>
       hash_find mgr' = (hash_find mgr)(md_module_name pm \<mapsto> new_entity lib pm))" by blast+
  ultimately show ?thesis using ok plugins_ok_del [OF ok] by (intro conjI)
qed

lemma plugin_table_is_a_map_witness:
  "\<exists>mgr'. neu_plugin_manager_add (w_dl (demo_world NEU_NA_TYPE_ESVAPP)) neu_plugin_manager_create ''libdemo.so'' =
      Some (NEU_ERR_SUCCESS, mgr') \<and>
    hash_find mgr' ''Demo'' = Some (new_entity ''libdemo.so'' (demo_module NEU_NA_TYPE_ESVAPP)) \<and>
    fst (neu_plugin_manager_del mgr' ''Demo'') = NEU_ERR_SUCCESS \<and>
    hash_find (snd (neu_plugin_manager_del mgr' ''Demo'')) ''Demo'' = None"
proof -
  let ?pm = "demo_module NEU_NA_TYPE_ESVAPP"
  obtain mgr' where a: "neu_plugin_manager_add (w_dl (demo_world NEU_NA_TYPE_ESVAPP))
      neu_plugin_manager_create ''libdemo.so'' = Some (NEU_ERR_SUCCESS, mgr')"
    by (simp add: neu_plugin_manager_add_def demo_world_def NEU_PLUGIN_LIBRARY_LEN_def
        neu_plugin_manager_create_def hash_find_def demo_module_def plugin_types_allowed_def)
  have "w_dl (demo_world NEU_NA_TYPE_ESVAPP) (''./plugins/'' @ ''libdemo.so'') = Some (Some ?pm)"
    "md_module_name ?pm = ''Demo''"
    by (simp_all add: demo_world_def demo_module_def)
  note added = plugin_table_is_a_map [OF plugins_ok_create a, of "''Demo''"] this
  then have find: "hash_find mgr' ''Demo'' = Some (new_entity ''libdemo.so'' ?pm)" by auto
  moreover have "pe_kind (new_entity ''libdemo.so'' ?pm) \<noteq> NEU_PLUGIN_KIND_SYSTEM"
    by (simp add: new_entity_def demo_module_def)
  ultimately have "hash_find (snd (neu_plugin_manager_del mgr' ''Demo'')) ''Demo'' = None"
    "fst (neu_plugin_manager_del mgr' ''Demo'') = NEU_ERR_SUCCESS"
    using added(1) by (simp_all del: hash_find_None)
  with a find show ?thesis by blast
qed

end
