(* ===== verification/Http.thy ===== *)
theory Http
  imports Device
begin

text \<open>
  The helpers of the REST interface (\<open>src/utils/http.c\<close>): parameters of the query of a URL, and
  the status that answers an error code.  The library nng gives the URL of a request and sends
  the response; the definitions take the URL and return what is sent.

  A URL is its text.  A pointer into it is the text from there on, so \<open>len\<close> characters of the
  pointer are a prefix of the text, and \<open>sscanf\<close> and \<open>strtoumax\<close> may look past them.
\<close>

section \<open>Percent encoding\<close>

definition isxdigit :: "char \<Rightarrow> bool" where
  "isxdigit c \<longleftrightarrow> isdigit c \<or> (65 \<le> (of_char c :: nat) \<and> (of_char c :: nat) \<le> 70) \<or>
     (97 \<le> (of_char c :: nat) \<and> (of_char c :: nat) \<le> 102)"

definition xdigit_value :: "char \<Rightarrow> nat" where
  "xdigit_value c =
     (if isdigit c then digit_value c
      else if (of_char c :: nat) \<le> 70 then of_char c - 55 else of_char c - 87)"

text \<open>
  \<open>sscanf(s, "%2x%n", &c, &n)\<close>: white space is skipped, then at most two characters of a
  hexadecimal number are read, a sign and a prefix \<open>0x\<close> being part of it.  The result is the
  value stored in \<open>c\<close> and the count stored in \<open>n\<close>, \<open>None\<close> when nothing is converted.
\<close>

definition scan_2x :: "string \<Rightarrow> (u32 \<times> nat) option" where
  "scan_2x s =
     (let w = length (takeWhile isspace s)
      in case dropWhile isspace s of
           a # b # _ \<Rightarrow>
             if isxdigit a \<and> isxdigit b then Some (of_nat (16 * xdigit_value a + xdigit_value b), w + 2)
             else if a = CHR ''0'' \<and> b \<in> {CHR ''x'', CHR ''X''} then None
             else if isxdigit a then Some (of_nat (xdigit_value a), w + 1)
             else if a = CHR ''+'' \<and> isxdigit b then Some (of_nat (xdigit_value b), w + 2)
             else if a = CHR ''-'' \<and> isxdigit b then Some (- of_nat (xdigit_value b), w + 2)
             else None
         | [a] \<Rightarrow> if isxdigit a then Some (of_nat (xdigit_value a), w + 1) else None
         | [] \<Rightarrow> None)"

text \<open>
  The loop over \<open>len\<close> characters of \<open>s\<close> into \<open>size\<close> characters of the buffer: what it stores, or
  \<open>None\<close> for the result -1.
\<close>

fun url_decode_loop :: "nat \<Rightarrow> string \<Rightarrow> nat \<Rightarrow> string option" where
  "url_decode_loop len s 0 = Some []"
| "url_decode_loop len [] (Suc room) = Some []"
| "url_decode_loop len (c # s) (Suc room) =
     (if len = 0 then Some []
      else if c = CHR ''+'' then map_option (Cons CHR '' '') (url_decode_loop (len - 1) s room)
      else if c = CHR ''%'' then
        (if len < 3 then None
         else case scan_2x s of
                Some (v, n) \<Rightarrow>
                  if n = 2
                  then map_option (Cons (byte_char (ucast v))) (url_decode_loop (len - 3) (drop 2 s) room)
                  else None
              | None \<Rightarrow> None)
      else map_option (Cons c) (url_decode_loop (len - 1) s room))"

text \<open>
  The result and the contents of the buffer up to the NUL that ends it; the last character
  makes room for it when the buffer is full, and a buffer of no size is overrun.
\<close>

definition neu_url_decode :: "string \<Rightarrow> nat \<Rightarrow> nat \<Rightarrow> (int \<times> string) option" where
  "neu_url_decode s len room =
     (case url_decode_loop len s room of
        None \<Rightarrow> Some (- 1, [])
      | Some cs \<Rightarrow>
          if room = 0 then None
          else Some (int (length cs), if length cs < room then cs else butlast cs))"

section \<open>Parameters of a query\<close>

text \<open>\<open>strstr\<close>, together with the character before the match.\<close>

fun strstr_before :: "char \<Rightarrow> string \<Rightarrow> string \<Rightarrow> (char \<times> string) option" where
  "strstr_before b [] name = (if name = [] then Some (b, []) else None)"
| "strstr_before b (c # s) name =
     (if prefix name (c # s) then Some (b, c # s) else strstr_before c s name)"

definition ends_name :: "string \<Rightarrow> bool" where
  "ends_name s \<longleftrightarrow> s = [] \<or> hd s \<in> {CHR ''&'', CHR ''='', CHR ''#''}"

lemma strstr_before_length:
  "strstr_before b s name = Some (b', p) \<Longrightarrow> length p \<le> length s \<and> prefix name p"
  by (induction b s name rule: strstr_before.induct) (auto split: if_splits)

lemma strstr_before_rest:
  "strstr_before b s name = Some (b', p) \<Longrightarrow> name \<noteq> [] \<Longrightarrow> length (drop (length name) p) < length s"
  using strstr_before_length [of b s name b' p] by (cases name) (auto simp: prefix_def)

text \<open>The loop that looks for the name, a name that is not empty.\<close>

function find_param :: "char \<Rightarrow> string \<Rightarrow> string \<Rightarrow> string option" where
  "find_param b s name =
     (if name = [] then None
      else case strstr_before b s name of
        None \<Rightarrow> None
      | Some (b', p) \<Rightarrow>
          if b' \<in> {CHR ''?'', CHR ''&''} \<and> ends_name (drop (length name) p) then Some p
          else find_param (last name) (drop (length name) p) name)"
  by pat_completeness auto

termination
  by (relation "measure (\<lambda>(b, s, name). length s)")
     (auto dest: strstr_before_rest simp del: length_drop)

declare find_param.simps [simp del]

text \<open>The pointer to the value and its length.\<close>

definition get_param :: "string \<Rightarrow> string \<Rightarrow> (string \<times> nat) option" where
  "get_param url name =
     (case strchr url CHR ''?'' of
        None \<Rightarrow> None
      | Some query \<Rightarrow>
          if name = [] \<or> (\<exists>c\<in>set name. c \<in> {CHR ''?'', CHR ''&'', CHR ''='', CHR ''#''}) then None
          else case find_param CHR ''?'' (tl query) name of
            None \<Rightarrow> None
          | Some p \<Rightarrow>
              if (case strchr url CHR ''#'' of None \<Rightarrow> False | Some frag \<Rightarrow> length p < length frag)
              then None
              else case drop (length name) p of
                     CHR ''='' # v \<Rightarrow> Some (v, length (takeWhile (\<lambda>c. c \<noteq> CHR ''&'') v))
                   | v \<Rightarrow> Some (v, 0))"

text \<open>The result code and the buffer.\<close>

definition neu_http_get_param_str :: "string \<Rightarrow> string \<Rightarrow> nat \<Rightarrow> (int \<times> string) option" where
  "neu_http_get_param_str url name room =
     (case get_param url name of
        None \<Rightarrow> Some (- 2, [])
      | Some (s, len) \<Rightarrow> neu_url_decode s len room)"

text \<open>
  \<open>strtoumax\<close> of base 10: the value, whether it is out of range, and the rest of the text, which
  is all of it when there is no digit.
\<close>

definition strtoumax10 :: "string \<Rightarrow> u64 \<times> bool \<times> string" where
  "strtoumax10 s =
     (let s1 = dropWhile isspace s;
          neg = (s1 \<noteq> [] \<and> hd s1 = CHR ''-'');
          s2 = (if s1 \<noteq> [] \<and> hd s1 \<in> {CHR ''-'', CHR ''+''} then tl s1 else s1);
          ds = takeWhile isdigit s2; v = digits_value 0 ds
      in if ds = [] then (0, False, s)
         else if v \<ge> 2 ^ 64 then (- 1, True, dropWhile isdigit s2)
         else (if neg then - of_nat v else of_nat v, False, dropWhile isdigit s2))"

text \<open>\<open>erange\<close>: \<open>errno\<close> is \<open>ERANGE\<close> before the call, which nothing resets.\<close>

definition neu_http_get_param_uintmax :: "bool \<Rightarrow> string \<Rightarrow> string \<Rightarrow> u64 option" where
  "neu_http_get_param_uintmax erange url name =
     (case get_param url name of
        None \<Rightarrow> None
      | Some (tmp, len) \<Rightarrow>
          if len = 0 then None
          else let (result, range, stop) = strtoumax10 tmp
               in if result = - 1 \<and> (erange \<or> range) \<or> length stop \<noteq> length tmp - len then None
                  else Some result)"

definition neu_http_get_param_uint64 :: "bool \<Rightarrow> string \<Rightarrow> string \<Rightarrow> u64 option" where
  "neu_http_get_param_uint64 erange url name = neu_http_get_param_uintmax erange url name"

definition neu_http_get_param_uint32 :: "bool \<Rightarrow> string \<Rightarrow> string \<Rightarrow> u32 option" where
  "neu_http_get_param_uint32 erange url name =
     (case neu_http_get_param_uintmax erange url name of
        None \<Rightarrow> None
      | Some val \<Rightarrow> if unat val \<ge> 2 ^ 32 then None else Some (ucast val))"

definition neu_http_get_param_node_type :: "bool \<Rightarrow> string \<Rightarrow> string \<Rightarrow> neu_node_type_e option" where
  "neu_http_get_param_node_type erange url name =
     (case neu_http_get_param_uintmax erange url name of
        None \<Rightarrow> None
      | Some val \<Rightarrow>
          if val = ucast (node_type_code NEU_NA_TYPE_APP) then Some NEU_NA_TYPE_APP
          else if val = ucast (node_type_code NEU_NA_TYPE_NDRIVER) then Some NEU_NA_TYPE_NDRIVER
          else if val = ucast (node_type_code NEU_NA_TYPE_DRIVER) then Some NEU_NA_TYPE_DRIVER
          else None)"

section \<open>Responses\<close>

abbreviation NEU_ERR_BODY_IS_WRONG :: int where "NEU_ERR_BODY_IS_WRONG \<equiv> 1002"
abbreviation NEU_ERR_PARAM_IS_WRONG :: int where "NEU_ERR_PARAM_IS_WRONG \<equiv> 1003"
abbreviation NEU_ERR_NEED_TOKEN :: int where "NEU_ERR_NEED_TOKEN \<equiv> 1004"
abbreviation NEU_ERR_DECODE_TOKEN :: int where "NEU_ERR_DECODE_TOKEN \<equiv> 1005"
abbreviation NEU_ERR_EXPIRED_TOKEN :: int where "NEU_ERR_EXPIRED_TOKEN \<equiv> 1006"
abbreviation NEU_ERR_VALIDATE_TOKEN :: int where "NEU_ERR_VALIDATE_TOKEN \<equiv> 1007"
abbreviation NEU_ERR_INVALID_TOKEN :: int where "NEU_ERR_INVALID_TOKEN \<equiv> 1008"
abbreviation NEU_ERR_INVALID_USER_OR_PASSWORD :: int where "NEU_ERR_INVALID_USER_OR_PASSWORD \<equiv> 1009"
abbreviation NEU_ERR_IS_BUSY :: int where "NEU_ERR_IS_BUSY \<equiv> 1010"
abbreviation NEU_ERR_FILE_NOT_EXIST :: int where "NEU_ERR_FILE_NOT_EXIST \<equiv> 1011"
abbreviation NEU_ERR_INVALID_PASSWORD_LEN :: int where "NEU_ERR_INVALID_PASSWORD_LEN \<equiv> 1012"
abbreviation NEU_ERR_DUPLICATE_PASSWORD :: int where "NEU_ERR_DUPLICATE_PASSWORD \<equiv> 1013"
abbreviation NEU_ERR_COMMAND_EXECUTION_FAILED :: int where "NEU_ERR_COMMAND_EXECUTION_FAILED \<equiv> 1014"
abbreviation NEU_ERR_IP_ADDRESS_INVALID :: int where "NEU_ERR_IP_ADDRESS_INVALID \<equiv> 1015"
abbreviation NEU_ERR_IP_ADDRESS_IN_USE :: int where "NEU_ERR_IP_ADDRESS_IN_USE \<equiv> 1016"
abbreviation NEU_ERR_INVALID_USER :: int where "NEU_ERR_INVALID_USER \<equiv> 1017"
abbreviation NEU_ERR_INVALID_PASSWORD :: int where "NEU_ERR_INVALID_PASSWORD \<equiv> 1018"
abbreviation NEU_ERR_NODE_NAME_TOO_LONG :: int where "NEU_ERR_NODE_NAME_TOO_LONG \<equiv> 2010"
abbreviation NEU_ERR_NODE_NOT_ALLOW_DELETE :: int where "NEU_ERR_NODE_NOT_ALLOW_DELETE \<equiv> 2011"
abbreviation NEU_ERR_NODE_NOT_ALLOW_SUBSCRIBE :: int where "NEU_ERR_NODE_NOT_ALLOW_SUBSCRIBE \<equiv> 2012"
abbreviation NEU_ERR_NODE_NOT_ALLOW_UPDATE :: int where "NEU_ERR_NODE_NOT_ALLOW_UPDATE \<equiv> 2013"
abbreviation NEU_ERR_NODE_NOT_ALLOW_MAP :: int where "NEU_ERR_NODE_NOT_ALLOW_MAP \<equiv> 2014"
abbreviation NEU_ERR_NODE_NAME_EMPTY :: int where "NEU_ERR_NODE_NAME_EMPTY \<equiv> 2015"
abbreviation NEU_ERR_GROUP_ALREADY_SUBSCRIBED :: int where "NEU_ERR_GROUP_ALREADY_SUBSCRIBED \<equiv> 2101"
abbreviation NEU_ERR_GROUP_NOT_SUBSCRIBE :: int where "NEU_ERR_GROUP_NOT_SUBSCRIBE \<equiv> 2102"
abbreviation NEU_ERR_GROUP_NAME_TOO_LONG :: int where "NEU_ERR_GROUP_NAME_TOO_LONG \<equiv> 2107"
abbreviation NEU_ERR_TAG_TYPE_NOT_SUPPORT :: int where "NEU_ERR_TAG_TYPE_NOT_SUPPORT \<equiv> 2204"
abbreviation NEU_ERR_TAG_ADDRESS_FORMAT_INVALID :: int where "NEU_ERR_TAG_ADDRESS_FORMAT_INVALID \<equiv> 2205"
abbreviation NEU_ERR_TAG_EXIST :: int where "NEU_ERR_TAG_EXIST \<equiv> 2210"
abbreviation NEU_ERR_LIBRARY_ARCH_NOT_SUPPORT :: int where "NEU_ERR_LIBRARY_ARCH_NOT_SUPPORT \<equiv> 2308"
abbreviation NEU_ERR_LICENSE_NOT_FOUND :: int where "NEU_ERR_LICENSE_NOT_FOUND \<equiv> 2400"
abbreviation NEU_ERR_LICENSE_INVALID :: int where "NEU_ERR_LICENSE_INVALID \<equiv> 2401"
abbreviation NEU_ERR_LICENSE_EXPIRED :: int where "NEU_ERR_LICENSE_EXPIRED \<equiv> 2402"
abbreviation NEU_ERR_LICENSE_DISABLED :: int where "NEU_ERR_LICENSE_DISABLED \<equiv> 2403"
abbreviation NEU_ERR_LICENSE_MAX_NODES :: int where "NEU_ERR_LICENSE_MAX_NODES \<equiv> 2404"
abbreviation NEU_ERR_LICENSE_MAX_TAGS :: int where "NEU_ERR_LICENSE_MAX_TAGS \<equiv> 2405"
abbreviation NEU_ERR_LICENSE_TOKEN_NOT_MATCH :: int where "NEU_ERR_LICENSE_TOKEN_NOT_MATCH \<equiv> 2406"
abbreviation NEU_ERR_LICENSE_BAD_CLOCK :: int where "NEU_ERR_LICENSE_BAD_CLOCK \<equiv> 2407"
abbreviation NEU_ERR_LICENSE_MODULE_INVALID :: int where "NEU_ERR_LICENSE_MODULE_INVALID \<equiv> 2408"
abbreviation NEU_ERR_TEMPLATE_EXIST :: int where "NEU_ERR_TEMPLATE_EXIST \<equiv> 2500"
abbreviation NEU_ERR_TEMPLATE_NOT_FOUND :: int where "NEU_ERR_TEMPLATE_NOT_FOUND \<equiv> 2501"
abbreviation NEU_ERR_TEMPLATE_NAME_TOO_LONG :: int where "NEU_ERR_TEMPLATE_NAME_TOO_LONG \<equiv> 2502"
abbreviation NEU_ERR_PLUGIN_READ_FAILURE :: int where "NEU_ERR_PLUGIN_READ_FAILURE \<equiv> 3000"
abbreviation NEU_ERR_PLUGIN_WRITE_FAILURE :: int where "NEU_ERR_PLUGIN_WRITE_FAILURE \<equiv> 3001"
abbreviation NEU_ERR_PLUGIN_DISCONNECTED :: int where "NEU_ERR_PLUGIN_DISCONNECTED \<equiv> 3002"
abbreviation NEU_ERR_PLUGIN_TAG_NOT_ALLOW_READ :: int where "NEU_ERR_PLUGIN_TAG_NOT_ALLOW_READ \<equiv> 3003"
abbreviation NEU_ERR_PLUGIN_TAG_TYPE_MISMATCH :: int where "NEU_ERR_PLUGIN_TAG_TYPE_MISMATCH \<equiv> 3007"
abbreviation NEU_ERR_PLUGIN_PROTOCOL_DECODE_FAILURE :: int where "NEU_ERR_PLUGIN_PROTOCOL_DECODE_FAILURE \<equiv> 3009"
abbreviation NEU_ERR_PLUGIN_PACKET_OUT_OF_ORDER :: int where "NEU_ERR_PLUGIN_PACKET_OUT_OF_ORDER \<equiv> 3012"
abbreviation NEU_ERR_PLUGIN_NAME_TOO_LONG :: int where "NEU_ERR_PLUGIN_NAME_TOO_LONG \<equiv> 3013"
abbreviation NEU_ERR_PLUGIN_NOT_FOUND :: int where "NEU_ERR_PLUGIN_NOT_FOUND \<equiv> 3014"
abbreviation NEU_ERR_PLUGIN_DEVICE_NOT_RESPONSE :: int where "NEU_ERR_PLUGIN_DEVICE_NOT_RESPONSE \<equiv> 3015"
abbreviation NEU_ERR_PLUGIN_NOT_SUPPORT_TEMPLATE :: int where "NEU_ERR_PLUGIN_NOT_SUPPORT_TEMPLATE \<equiv> 3016"
abbreviation NEU_ERR_MQTT_FAILURE :: int where "NEU_ERR_MQTT_FAILURE \<equiv> 4000"
abbreviation NEU_ERR_MQTT_NO_CERTFILESET :: int where "NEU_ERR_MQTT_NO_CERTFILESET \<equiv> 4001"
abbreviation NEU_ERR_MQTT_CERTFILE_LOAD_FAILURE :: int where "NEU_ERR_MQTT_CERTFILE_LOAD_FAILURE \<equiv> 4002"
abbreviation NEU_ERR_MQTT_OPTION_IS_NULL :: int where "NEU_ERR_MQTT_OPTION_IS_NULL \<equiv> 4003"
abbreviation NEU_ERR_MQTT_TOPIC_EMPTY :: int where "NEU_ERR_MQTT_TOPIC_EMPTY \<equiv> 4004"
abbreviation NEU_ERR_MQTT_IS_NULL :: int where "NEU_ERR_MQTT_IS_NULL \<equiv> 4005"
abbreviation NEU_ERR_MQTT_INIT_FAILURE :: int where "NEU_ERR_MQTT_INIT_FAILURE \<equiv> 4006"
abbreviation NEU_ERR_MQTT_CONNECT_FAILURE :: int where "NEU_ERR_MQTT_CONNECT_FAILURE \<equiv> 4007"
abbreviation NEU_ERR_MQTT_SUBSCRIBE_TIMEOUT :: int where "NEU_ERR_MQTT_SUBSCRIBE_TIMEOUT \<equiv> 4008"
abbreviation NEU_ERR_MQTT_SUBSCRIBE_LIST_INITIAL_FAILURE :: int where "NEU_ERR_MQTT_SUBSCRIBE_LIST_INITIAL_FAILURE \<equiv> 4009"
abbreviation NEU_ERR_MQTT_SUBSCRIBE_FAILURE :: int where "NEU_ERR_MQTT_SUBSCRIBE_FAILURE \<equiv> 4010"
abbreviation NEU_ERR_MQTT_SUBSCRIBE_ADD_REPEAT :: int where "NEU_ERR_MQTT_SUBSCRIBE_ADD_REPEAT \<equiv> 4011"
abbreviation NEU_ERR_MQTT_SUBSCRIBE_ADD_FAILURE :: int where "NEU_ERR_MQTT_SUBSCRIBE_ADD_FAILURE \<equiv> 4012"
abbreviation NEU_ERR_MQTT_UNSUBSCRIBE_FAILURE :: int where "NEU_ERR_MQTT_UNSUBSCRIBE_FAILURE \<equiv> 4013"
abbreviation NEU_ERR_MQTT_PUBLISH_FAILURE :: int where "NEU_ERR_MQTT_PUBLISH_FAILURE \<equiv> 4014"
abbreviation NEU_ERR_MQTT_SUSPENDED :: int where "NEU_ERR_MQTT_SUSPENDED \<equiv> 4015"
abbreviation NEU_ERR_MQTT_PUBLISH_OVER_LENGTH :: int where "NEU_ERR_MQTT_PUBLISH_OVER_LENGTH \<equiv> 4016"
abbreviation NEU_ERR_STRING_TOO_LONG :: int where "NEU_ERR_STRING_TOO_LONG \<equiv> 4100"
abbreviation NEU_ERR_FILE_OPEN_FAILURE :: int where "NEU_ERR_FILE_OPEN_FAILURE \<equiv> 4101"
abbreviation NEU_ERR_FILE_READ_FAILURE :: int where "NEU_ERR_FILE_READ_FAILURE \<equiv> 4102"
abbreviation NEU_ERR_FILE_WRITE_FAILURE :: int where "NEU_ERR_FILE_WRITE_FAILURE \<equiv> 4103"
abbreviation NEU_ERR_PLUGIN_ERROR_START :: int where "NEU_ERR_PLUGIN_ERROR_START \<equiv> 10000"
abbreviation NEU_ERR_PLUGIN_ERROR_END :: int where "NEU_ERR_PLUGIN_ERROR_END \<equiv> 20000"

text \<open>Every code of \<open>neu_err_code_e\<close>.\<close>

definition neu_err_codes :: "int list" where
  "neu_err_codes =
    [NEU_ERR_SUCCESS, NEU_ERR_EINTERNAL, NEU_ERR_BODY_IS_WRONG, NEU_ERR_PARAM_IS_WRONG,
     NEU_ERR_NEED_TOKEN, NEU_ERR_DECODE_TOKEN, NEU_ERR_EXPIRED_TOKEN, NEU_ERR_VALIDATE_TOKEN,
     NEU_ERR_INVALID_TOKEN, NEU_ERR_INVALID_USER_OR_PASSWORD, NEU_ERR_IS_BUSY,
     NEU_ERR_FILE_NOT_EXIST, NEU_ERR_INVALID_PASSWORD_LEN, NEU_ERR_DUPLICATE_PASSWORD,
     NEU_ERR_COMMAND_EXECUTION_FAILED, NEU_ERR_IP_ADDRESS_INVALID, NEU_ERR_IP_ADDRESS_IN_USE,
     NEU_ERR_INVALID_USER, NEU_ERR_INVALID_PASSWORD, NEU_ERR_NODE_EXIST, NEU_ERR_NODE_NOT_EXIST,
     NEU_ERR_NODE_SETTING_INVALID, NEU_ERR_NODE_SETTING_NOT_FOUND, NEU_ERR_NODE_NOT_READY,
     NEU_ERR_NODE_IS_RUNNING, NEU_ERR_NODE_NOT_RUNNING, NEU_ERR_NODE_IS_STOPED,
     NEU_ERR_NODE_NAME_TOO_LONG, NEU_ERR_NODE_NOT_ALLOW_DELETE, NEU_ERR_NODE_NOT_ALLOW_SUBSCRIBE,
     NEU_ERR_NODE_NOT_ALLOW_UPDATE, NEU_ERR_NODE_NOT_ALLOW_MAP, NEU_ERR_NODE_NAME_EMPTY,
     NEU_ERR_GROUP_ALREADY_SUBSCRIBED, NEU_ERR_GROUP_NOT_SUBSCRIBE, NEU_ERR_GROUP_NOT_ALLOW,
     NEU_ERR_GROUP_EXIST, NEU_ERR_GROUP_PARAMETER_INVALID, NEU_ERR_GROUP_NOT_EXIST,
     NEU_ERR_GROUP_NAME_TOO_LONG, NEU_ERR_TAG_NOT_EXIST, NEU_ERR_TAG_NAME_CONFLICT,
     NEU_ERR_TAG_ATTRIBUTE_NOT_SUPPORT, NEU_ERR_TAG_TYPE_NOT_SUPPORT,
     NEU_ERR_TAG_ADDRESS_FORMAT_INVALID, NEU_ERR_TAG_NAME_TOO_LONG, NEU_ERR_TAG_ADDRESS_TOO_LONG,
     NEU_ERR_TAG_DESCRIPTION_TOO_LONG, NEU_ERR_TAG_PRECISION_INVALID, NEU_ERR_TAG_EXIST,
     NEU_ERR_LIBRARY_NOT_FOUND, NEU_ERR_LIBRARY_INFO_INVALID, NEU_ERR_LIBRARY_NAME_CONFLICT,
     NEU_ERR_LIBRARY_FAILED_TO_OPEN, NEU_ERR_LIBRARY_MODULE_INVALID,
     NEU_ERR_LIBRARY_SYSTEM_NOT_ALLOW_DEL, NEU_ERR_LIBRARY_NOT_ALLOW_CREATE_INSTANCE,
     NEU_ERR_LIBRARY_ARCH_NOT_SUPPORT, NEU_ERR_LICENSE_NOT_FOUND, NEU_ERR_LICENSE_INVALID,
     NEU_ERR_LICENSE_EXPIRED, NEU_ERR_LICENSE_DISABLED, NEU_ERR_LICENSE_MAX_NODES,
     NEU_ERR_LICENSE_MAX_TAGS, NEU_ERR_LICENSE_TOKEN_NOT_MATCH, NEU_ERR_LICENSE_BAD_CLOCK,
     NEU_ERR_LICENSE_MODULE_INVALID, NEU_ERR_TEMPLATE_EXIST, NEU_ERR_TEMPLATE_NOT_FOUND,
     NEU_ERR_TEMPLATE_NAME_TOO_LONG, NEU_ERR_PLUGIN_READ_FAILURE, NEU_ERR_PLUGIN_WRITE_FAILURE,
     NEU_ERR_PLUGIN_DISCONNECTED, NEU_ERR_PLUGIN_TAG_NOT_ALLOW_READ,
     NEU_ERR_PLUGIN_TAG_NOT_ALLOW_WRITE, NEU_ERR_PLUGIN_TAG_TYPE_MISMATCH,
     NEU_ERR_PLUGIN_TAG_VALUE_EXPIRED, NEU_ERR_PLUGIN_PROTOCOL_DECODE_FAILURE,
     NEU_ERR_PLUGIN_NOT_RUNNING, NEU_ERR_PLUGIN_TAG_NOT_READY,
     NEU_ERR_PLUGIN_PACKET_OUT_OF_ORDER, NEU_ERR_PLUGIN_NAME_TOO_LONG, NEU_ERR_PLUGIN_NOT_FOUND,
     NEU_ERR_PLUGIN_DEVICE_NOT_RESPONSE, NEU_ERR_PLUGIN_NOT_SUPPORT_TEMPLATE,
     NEU_ERR_PLUGIN_NOT_SUPPORT_WRITE_TAGS, NEU_ERR_MQTT_FAILURE, NEU_ERR_MQTT_NO_CERTFILESET,
     NEU_ERR_MQTT_CERTFILE_LOAD_FAILURE, NEU_ERR_MQTT_OPTION_IS_NULL, NEU_ERR_MQTT_TOPIC_EMPTY,
     NEU_ERR_MQTT_IS_NULL, NEU_ERR_MQTT_INIT_FAILURE, NEU_ERR_MQTT_CONNECT_FAILURE,
     NEU_ERR_MQTT_SUBSCRIBE_TIMEOUT, NEU_ERR_MQTT_SUBSCRIBE_LIST_INITIAL_FAILURE,
     NEU_ERR_MQTT_SUBSCRIBE_FAILURE, NEU_ERR_MQTT_SUBSCRIBE_ADD_REPEAT,
     NEU_ERR_MQTT_SUBSCRIBE_ADD_FAILURE, NEU_ERR_MQTT_UNSUBSCRIBE_FAILURE,
     NEU_ERR_MQTT_PUBLISH_FAILURE, NEU_ERR_MQTT_SUSPENDED, NEU_ERR_MQTT_PUBLISH_OVER_LENGTH,
     NEU_ERR_STRING_TOO_LONG, NEU_ERR_FILE_OPEN_FAILURE, NEU_ERR_FILE_READ_FAILURE,
     NEU_ERR_FILE_WRITE_FAILURE]"

datatype nng_http_status =
    NNG_HTTP_STATUS_OK | NNG_HTTP_STATUS_CREATED | NNG_HTTP_STATUS_PARTIAL_CONTENT
  | NNG_HTTP_STATUS_BAD_REQUEST | NNG_HTTP_STATUS_UNAUTHORIZED | NNG_HTTP_STATUS_FORBIDDEN
  | NNG_HTTP_STATUS_NOT_FOUND | NNG_HTTP_STATUS_CONFLICT | NNG_HTTP_STATUS_INTERNAL_SERVER_ERROR

text \<open>The cases of the switch.\<close>

definition ok_codes :: "int list" where
  "ok_codes =
    [NEU_ERR_SUCCESS, NEU_ERR_NODE_SETTING_NOT_FOUND, NEU_ERR_PLUGIN_READ_FAILURE,
     NEU_ERR_PLUGIN_WRITE_FAILURE, NEU_ERR_PLUGIN_DISCONNECTED,
     NEU_ERR_PLUGIN_TAG_NOT_ALLOW_READ, NEU_ERR_PLUGIN_TAG_NOT_ALLOW_WRITE,
     NEU_ERR_LICENSE_EXPIRED, NEU_ERR_LICENSE_DISABLED, NEU_ERR_LICENSE_MAX_NODES,
     NEU_ERR_LICENSE_MAX_TAGS, NEU_ERR_LICENSE_TOKEN_NOT_MATCH, NEU_ERR_GROUP_ALREADY_SUBSCRIBED,
     NEU_ERR_PLUGIN_TAG_TYPE_MISMATCH, NEU_ERR_PLUGIN_PROTOCOL_DECODE_FAILURE,
     NEU_ERR_PLUGIN_NOT_RUNNING, NEU_ERR_PLUGIN_TAG_NOT_READY,
     NEU_ERR_PLUGIN_PACKET_OUT_OF_ORDER, NEU_ERR_MQTT_FAILURE, NEU_ERR_MQTT_IS_NULL,
     NEU_ERR_MQTT_INIT_FAILURE, NEU_ERR_MQTT_CONNECT_FAILURE, NEU_ERR_MQTT_SUBSCRIBE_FAILURE,
     NEU_ERR_MQTT_PUBLISH_FAILURE, NEU_ERR_STRING_TOO_LONG, NEU_ERR_FILE_WRITE_FAILURE]"

definition internal_codes :: "int list" where
  "internal_codes =
    [NEU_ERR_EINTERNAL, NEU_ERR_IS_BUSY]"

definition forbidden_codes :: "int list" where
  "forbidden_codes =
    [NEU_ERR_EXPIRED_TOKEN, NEU_ERR_VALIDATE_TOKEN, NEU_ERR_INVALID_TOKEN]"

definition unauthorized_codes :: "int list" where
  "unauthorized_codes =
    [NEU_ERR_NEED_TOKEN, NEU_ERR_DECODE_TOKEN, NEU_ERR_INVALID_USER_OR_PASSWORD,
     NEU_ERR_INVALID_USER, NEU_ERR_INVALID_PASSWORD]"

definition bad_request_codes :: "int list" where
  "bad_request_codes =
    [NEU_ERR_BODY_IS_WRONG, NEU_ERR_PARAM_IS_WRONG, NEU_ERR_IP_ADDRESS_INVALID,
     NEU_ERR_IP_ADDRESS_IN_USE, NEU_ERR_NODE_SETTING_INVALID, NEU_ERR_NODE_NOT_ALLOW_UPDATE,
     NEU_ERR_NODE_NOT_ALLOW_SUBSCRIBE, NEU_ERR_NODE_NOT_ALLOW_MAP, NEU_ERR_LIBRARY_INFO_INVALID,
     NEU_ERR_LICENSE_INVALID, NEU_ERR_GROUP_PARAMETER_INVALID,
     NEU_ERR_LIBRARY_SYSTEM_NOT_ALLOW_DEL, NEU_ERR_LIBRARY_FAILED_TO_OPEN,
     NEU_ERR_LIBRARY_MODULE_INVALID, NEU_ERR_NODE_NAME_TOO_LONG, NEU_ERR_NODE_NAME_EMPTY,
     NEU_ERR_GROUP_NAME_TOO_LONG, NEU_ERR_INVALID_PASSWORD_LEN, NEU_ERR_DUPLICATE_PASSWORD,
     NEU_ERR_TEMPLATE_NAME_TOO_LONG, NEU_ERR_PLUGIN_NAME_TOO_LONG,
     NEU_ERR_PLUGIN_NOT_SUPPORT_TEMPLATE]"

definition not_found_codes :: "int list" where
  "not_found_codes =
    [NEU_ERR_FILE_NOT_EXIST, NEU_ERR_FILE_OPEN_FAILURE, NEU_ERR_FILE_READ_FAILURE,
     NEU_ERR_LIBRARY_NOT_FOUND, NEU_ERR_NODE_NOT_EXIST, NEU_ERR_TAG_NOT_EXIST,
     NEU_ERR_LICENSE_NOT_FOUND, NEU_ERR_GROUP_NOT_EXIST, NEU_ERR_GROUP_NOT_SUBSCRIBE,
     NEU_ERR_COMMAND_EXECUTION_FAILED, NEU_ERR_TEMPLATE_NOT_FOUND, NEU_ERR_PLUGIN_NOT_FOUND,
     NEU_ERR_PLUGIN_NOT_SUPPORT_WRITE_TAGS]"

definition conflict_codes :: "int list" where
  "conflict_codes =
    [NEU_ERR_NODE_EXIST, NEU_ERR_NODE_NOT_READY, NEU_ERR_NODE_IS_RUNNING,
     NEU_ERR_NODE_NOT_RUNNING, NEU_ERR_NODE_IS_STOPED, NEU_ERR_TAG_NAME_CONFLICT,
     NEU_ERR_LIBRARY_NAME_CONFLICT, NEU_ERR_GROUP_EXIST, NEU_ERR_GROUP_NOT_ALLOW,
     NEU_ERR_LIBRARY_NOT_ALLOW_CREATE_INSTANCE, NEU_ERR_NODE_NOT_ALLOW_DELETE,
     NEU_ERR_TEMPLATE_EXIST]"

definition partial_codes :: "int list" where
  "partial_codes =
    [NEU_ERR_TAG_ATTRIBUTE_NOT_SUPPORT, NEU_ERR_TAG_TYPE_NOT_SUPPORT,
     NEU_ERR_TAG_ADDRESS_FORMAT_INVALID, NEU_ERR_TAG_DESCRIPTION_TOO_LONG,
     NEU_ERR_TAG_PRECISION_INVALID, NEU_ERR_TAG_NAME_TOO_LONG, NEU_ERR_TAG_ADDRESS_TOO_LONG]"

text \<open>A code that is not listed and not of a plugin fails the assertion.\<close>

definition error_status :: "int \<Rightarrow> nng_http_status option" where
  "error_status code =
     (if code \<in> set ok_codes then Some NNG_HTTP_STATUS_OK
      else if code \<in> set internal_codes then Some NNG_HTTP_STATUS_INTERNAL_SERVER_ERROR
      else if code \<in> set forbidden_codes then Some NNG_HTTP_STATUS_FORBIDDEN
      else if code \<in> set unauthorized_codes then Some NNG_HTTP_STATUS_UNAUTHORIZED
      else if code \<in> set bad_request_codes then Some NNG_HTTP_STATUS_BAD_REQUEST
      else if code \<in> set not_found_codes then Some NNG_HTTP_STATUS_NOT_FOUND
      else if code \<in> set conflict_codes then Some NNG_HTTP_STATUS_CONFLICT
      else if code \<in> set partial_codes then Some NNG_HTTP_STATUS_PARTIAL_CONTENT
      else if NEU_ERR_PLUGIN_ERROR_START \<le> code \<and> code \<le> NEU_ERR_PLUGIN_ERROR_END
      then Some NNG_HTTP_STATUS_OK
      else None)"

text \<open>The headers are the same for every response; the body is set when it is not empty.\<close>

definition response :: "string option \<Rightarrow> nng_http_status \<Rightarrow> nng_http_status \<times> string" where
  "response content status = (status, case content of None \<Rightarrow> [] | Some c \<Rightarrow> c)"

definition neu_http_response :: "int \<Rightarrow> string option \<Rightarrow> (nng_http_status \<times> string) option" where
  "neu_http_response code content = map_option (response content) (error_status code)"

definition neu_http_ok :: "string option \<Rightarrow> nng_http_status \<times> string" where
  "neu_http_ok content = response content NNG_HTTP_STATUS_OK"
definition neu_http_created :: "string option \<Rightarrow> nng_http_status \<times> string" where
  "neu_http_created content = response content NNG_HTTP_STATUS_CREATED"
definition neu_http_partial :: "string option \<Rightarrow> nng_http_status \<times> string" where
  "neu_http_partial content = response content NNG_HTTP_STATUS_PARTIAL_CONTENT"
definition neu_http_bad_request :: "string option \<Rightarrow> nng_http_status \<times> string" where
  "neu_http_bad_request content = response content NNG_HTTP_STATUS_BAD_REQUEST"
definition neu_http_unauthorized :: "string option \<Rightarrow> nng_http_status \<times> string" where
  "neu_http_unauthorized content = response content NNG_HTTP_STATUS_UNAUTHORIZED"
definition neu_http_not_found :: "string option \<Rightarrow> nng_http_status \<times> string" where
  "neu_http_not_found content = response content NNG_HTTP_STATUS_NOT_FOUND"
definition neu_http_conflict :: "string option \<Rightarrow> nng_http_status \<times> string" where
  "neu_http_conflict content = response content NNG_HTTP_STATUS_CONFLICT"
definition neu_http_internal_error :: "string option \<Rightarrow> nng_http_status \<times> string" where
  "neu_http_internal_error content = response content NNG_HTTP_STATUS_INTERNAL_SERVER_ERROR"

end
