(* ===== verification/HttpLaws.thy ===== *)
theory HttpLaws
  imports Http
begin

text \<open>
  Laws of the REST helpers (\<open>Http\<close>): a parameter of a query is found and decoded as it was
  encoded, and which error codes have no status.
\<close>

section \<open>Encoding\<close>

text \<open>The encoding of a client: letters, digits and \<open>-._~\<close> stay, the rest is \<open>%XY\<close>.\<close>

definition unreserved :: "char \<Rightarrow> bool" where
  "unreserved c \<longleftrightarrow> isdigit c \<or> (65 \<le> (of_char c :: nat) \<and> (of_char c :: nat) \<le> 90) \<or>
     (97 \<le> (of_char c :: nat) \<and> (of_char c :: nat) \<le> 122) \<or>
     c \<in> {CHR ''-'', CHR ''.'', CHR ''_'', CHR ''~''}"

definition xdigit :: "nat \<Rightarrow> char" where
  "xdigit n = char_of (if n < 10 then 48 + n else 55 + n)"

definition encode_char :: "char \<Rightarrow> string" where
  "encode_char c =
     (if unreserved c then [c] else [CHR ''%'', xdigit (of_char c div 16), xdigit (of_char c mod 16)])"

definition url_encode :: "string \<Rightarrow> string" where
  "url_encode s = concat (map encode_char s)"

lemma of_char_xdigit: "n < 16 \<Longrightarrow> of_char (xdigit n) = (if n < 10 then 48 + n else 55 + n)"
  by (simp add: xdigit_def)

lemma xdigit_props:
  assumes "n < 16"
  shows "isxdigit (xdigit n)" "xdigit_value (xdigit n) = n" "\<not> isspace (xdigit n)" "unreserved (xdigit n)"
proof -
  have c: "xdigit n = c \<longleftrightarrow> (if n < 10 then 48 + n else 55 + n) = of_char c" for c
    using of_char_xdigit [OF assms] by (metis of_char_eq_iff)
  show "isxdigit (xdigit n)" "xdigit_value (xdigit n) = n" "\<not> isspace (xdigit n)" "unreserved (xdigit n)"
    using assms c [of "CHR '' ''"]
    by (auto simp: isxdigit_def isdigit_def of_char_xdigit xdigit_value_def digit_value_def isspace_def unreserved_def)
qed

lemma scan_2x_encoded:
  assumes "x < 256"
  shows "scan_2x (xdigit (x div 16) # xdigit (x mod 16) # s) = Some (of_nat x, 2)"
proof -
  have "x div 16 < 16" "x mod 16 < 16" using assms by auto
  then show ?thesis
    by (simp add: scan_2x_def xdigit_props takeWhile_eq_Nil_iff dropWhile_eq_self_iff Let_def)
qed

lemma unreserved_plain: "unreserved c \<Longrightarrow> c \<notin> {CHR ''+'', CHR ''%'', CHR ''?'', CHR ''&'', CHR ''='', CHR ''#''}"
  by (auto simp: unreserved_def isdigit_def)

lemma encode_char_plain:
  assumes "c \<in> set (encode_char d)"
  shows "c \<notin> {CHR ''+'', CHR ''?'', CHR ''&'', CHR ''='', CHR ''#''}"
proof -
  have "(of_char d :: nat) < 16 * 16" by simp
  then have "(of_char d :: nat) div 16 < 16" by (rule less_mult_imp_div_less)
  then have "unreserved (xdigit (of_char d div 16))" "unreserved (xdigit (of_char d mod 16))"
    by (simp_all add: xdigit_props)
  then have "unreserved c \<or> c = CHR ''%''"
    using assms by (auto simp: encode_char_def split: if_splits)
  with unreserved_plain [of c] show ?thesis by auto
qed

lemma url_encode_plain:
  "c \<in> set (url_encode s) \<Longrightarrow> c \<notin> {CHR ''+'', CHR ''?'', CHR ''&'', CHR ''='', CHR ''#''}"
  unfolding url_encode_def using encode_char_plain by auto

lemma byte_char_of_nat: "byte_char (ucast (of_nat (of_char c :: nat) :: u32)) = c"
proof -
  have "(of_char c :: nat) < 256" by simp
  then have "unat (ucast (of_nat (of_char c :: nat) :: u32) :: u8) = of_char c"
    by (simp add: unsigned_ucast_eq unsigned_of_nat take_bit_nat_eq_self take_bit_nat_less_exp)
  then show ?thesis by (simp add: byte_char_def)
qed

lemma decode_encode:
  "url_decode_loop (length (url_encode s)) (url_encode s @ rest) room = Some (take room s)"
proof (induction s arbitrary: room)
  case Nil
  then show ?case by (cases room; cases rest) (simp_all add: url_encode_def)
next
  case (Cons c s)
  show ?case
  proof (cases room)
    case (Suc r)
    show ?thesis
    proof (cases "unreserved c")
      case True
      with Cons unreserved_plain [OF True] Suc show ?thesis
        by (simp add: url_encode_def encode_char_def)
    next
      case False
      have "(of_char c :: nat) < 256" by simp
      from scan_2x_encoded [OF this] False Cons Suc show ?thesis
        by (simp add: url_encode_def encode_char_def byte_char_of_nat del: of_nat_of_char)
    qed
  qed simp
qed

section \<open>Finding a parameter\<close>

text \<open>The specification of the search: the first place where a field of that name begins.\<close>

definition separator :: "char \<Rightarrow> bool" where
  "separator c \<longleftrightarrow> c \<in> {CHR ''?'', CHR ''&''}"

definition field_here :: "char \<Rightarrow> string \<Rightarrow> string \<Rightarrow> bool" where
  "field_here b s name \<longleftrightarrow> separator b \<and> prefix name s \<and> ends_name (drop (length name) s)"

fun first_field :: "char \<Rightarrow> string \<Rightarrow> string \<Rightarrow> string option" where
  "first_field b [] name = (if field_here b [] name then Some [] else None)"
| "first_field b (c # s) name =
     (if field_here b (c # s) name then Some (c # s) else first_field c s name)"

lemma first_field_strstr:
  "first_field b s name =
     (case strstr_before b s name of None \<Rightarrow> None | Some (b', p) \<Rightarrow> first_field b' p name)"
  by (induction b s name rule: strstr_before.induct) (auto simp: field_here_def)

lemma first_field_skip:
  assumes "\<not> separator b" "\<forall>c\<in>set u. \<not> separator c"
  shows "first_field b (u @ r) name = first_field (last (b # u)) r name"
  using assms by (induction u arbitrary: b) (auto simp: field_here_def)

lemma first_field_step:
  assumes "\<not> field_here b (u @ r) name" "\<forall>c\<in>set u. \<not> separator c" "u \<noteq> []"
  shows "first_field b (u @ r) name = first_field (last u) r name"
  using assms first_field_skip [of "hd u" "tl u" r name] by (cases u) auto

lemma find_param_first:
  assumes "name \<noteq> []" "\<forall>c\<in>set name. \<not> separator c"
  shows "find_param b s name = first_field b s name"
  using assms
proof (induction b s name rule: find_param.induct)
  case (1 b s name)
  show ?case
  proof (cases "strstr_before b s name")
    case None
    with 1 show ?thesis by (simp add: find_param.simps [of b s] first_field_strstr [of b s])
  next
    case (Some bp)
    obtain b' p where bp: "bp = (b', p)" by (cases bp)
    with Some strstr_before_length [of b s name b' p] obtain r where p: "p = name @ r"
      by (auto simp: prefix_def)
    have here: "field_here b' p name \<longleftrightarrow> separator b' \<and> ends_name r"
      by (simp add: field_here_def p)
    show ?thesis
    proof (cases "field_here b' p name")
      case True
      then have "first_field b' p name = Some p" by (cases p) simp_all
      with True here Some bp p 1(2) show ?thesis
        by (simp add: find_param.simps [of b s] first_field_strstr [of b s] separator_def)
    next
      case False
      then have "first_field b' p name = first_field (last name) r name"
        using first_field_step [of b' name r name] 1(2,3) p by simp
      moreover have "find_param (last name) r name = first_field (last name) r name"
        using 1(1) [OF 1(2) Some bp [symmetric]] False here p 1(2,3) by (simp add: separator_def)
      moreover have "\<not> (b' \<in> {CHR ''?'', CHR ''&''} \<and> ends_name (drop (length name) p))"
        using here False p by (simp add: separator_def)
      then have "find_param b s name = find_param (last name) r name"
        using Some bp p 1(2) by (simp only: find_param.simps [of b s]) auto
      moreover have "first_field b s name = first_field b' p name"
        using Some bp by (simp add: first_field_strstr [of b s])
      ultimately show ?thesis by simp
    qed
  qed
qed

text \<open>A query as text.\<close>

definition field_text :: "string \<times> string \<Rightarrow> string" where
  "field_text kv = fst kv @ CHR ''='' # snd kv"

fun query_text :: "(string \<times> string) list \<Rightarrow> string" where
  "query_text [] = []"
| "query_text [kv] = field_text kv"
| "query_text (kv # kvs) = field_text kv @ CHR ''&'' # query_text kvs"

definition name_ok :: "string \<Rightarrow> bool" where
  "name_ok k \<longleftrightarrow> k \<noteq> [] \<and> (\<forall>c\<in>set k. c \<notin> {CHR ''?'', CHR ''&'', CHR ''='', CHR ''#''})"

definition value_text_ok :: "string \<Rightarrow> bool" where
  "value_text_ok v \<longleftrightarrow> (\<forall>c\<in>set v. c \<notin> {CHR ''?'', CHR ''&'', CHR ''#''})"

lemma query_text_Cons:
  "query_text (kv # kvs) = field_text kv @ (if kvs = [] then [] else CHR ''&'' # query_text kvs)"
  by (cases kvs) simp_all

lemma field_here_field:
  assumes "separator b" "name_ok k" "name_ok name"
  shows "field_here b (k @ CHR ''='' # r) name \<longleftrightarrow> name = k"
proof
  assume "field_here b (k @ CHR ''='' # r) name"
  then have "prefix name (k @ CHR ''='' # r)"
    and e: "ends_name (drop (length name) (k @ CHR ''='' # r))"
    unfolding field_here_def by blast+
  then obtain z where z: "k @ CHR ''='' # r = name @ z" unfolding prefix_def by blast
  with e have "ends_name z" by simp
  note z = z this
  then consider us where "k = name @ us" "us @ CHR ''='' # r = z"
    | us where "k @ us = name" "CHR ''='' # r = us @ z" by (auto simp: append_eq_append_conv2)
  then show "name = k"
  proof cases
    case 1
    have "us = []"
    proof (rule ccontr)
      assume us: "us \<noteq> []"
      then have "hd us \<in> set k" using 1(1) by simp
      moreover have "hd us \<in> {CHR ''&'', CHR ''='', CHR ''#''}"
        using us z(2) by (simp add: ends_name_def 1(2) [symmetric])
      ultimately show False using assms(2) by (auto simp: name_ok_def)
    qed
    then show ?thesis using 1(1) by simp
  next
    case 2
    have "us = []"
    proof (rule ccontr)
      assume us: "us \<noteq> []"
      then have "hd us \<in> set name" using 2(1) by auto
      moreover have "hd us = CHR ''=''" using us 2(2) by (cases us) simp_all
      ultimately show False using assms(3) by (auto simp: name_ok_def)
    qed
    then show ?thesis using 2(1) by simp
  qed
qed (use assms in \<open>auto simp: field_here_def ends_name_def\<close>)

lemma field_text_plain:
  "name_ok k \<Longrightarrow> value_text_ok v \<Longrightarrow> c \<in> set (field_text (k, v)) \<Longrightarrow> \<not> separator c \<and> c \<noteq> CHR ''#''"
  by (auto simp: field_text_def name_ok_def value_text_ok_def separator_def)

lemma query_text_plain:
  "\<forall>(k, v)\<in>set kvs. name_ok k \<and> value_text_ok v \<Longrightarrow> CHR ''#'' \<notin> set (query_text kvs)"
proof (induction kvs)
  case (Cons kv kvs)
  obtain k v where "kv = (k, v)" by (cases kv)
  with Cons field_text_plain [of k v "CHR ''#''"] show ?case by (auto simp: query_text_Cons)
qed simp

lemma first_field_query:
  assumes "separator b" "name_ok name" "\<forall>(k, v)\<in>set kvs. name_ok k \<and> value_text_ok v"
  shows "case map_of kvs name of
      None \<Rightarrow> first_field b (query_text kvs) name = None
    | Some v \<Rightarrow> \<exists>rest. first_field b (query_text kvs) name = Some (name @ CHR ''='' # v @ rest) \<and>
        (rest = [] \<or> hd rest = CHR ''&'')"
  using assms(1,3)
proof (induction kvs arbitrary: b)
  case Nil
  then show ?case using assms(2) by (simp add: field_here_def name_ok_def)
next
  case (Cons kv kvs)
  obtain k v where kv: "kv = (k, v)" by (cases kv)
  define tail where "tail = (if kvs = [] then [] else CHR ''&'' # query_text kvs)"
  have ok: "name_ok k" "value_text_ok v" using Cons.prems kv by auto
  have whole: "query_text (kv # kvs) = k @ CHR ''='' # v @ tail"
    by (simp add: query_text_Cons field_text_def kv tail_def)
  note here = field_here_field [OF Cons.prems(1) ok(1) assms(2), of "v @ tail"]
  have tail: "tail = [] \<or> hd tail = CHR ''&''" by (simp add: tail_def)
  show ?case
  proof (cases "name = k")
    case True
    with here have "field_here b (query_text (kv # kvs)) name" by (simp add: whole)
    then have "first_field b (query_text (kv # kvs)) name = Some (query_text (kv # kvs))"
      by (cases "query_text (kv # kvs)") simp_all
    with True kv whole tail show ?thesis by auto
  next
    case False
    let ?u = "k @ CHR ''='' # v"
    have "\<forall>c\<in>set ?u. \<not> separator c" using field_text_plain [OF ok] by (simp add: field_text_def)
    moreover have "query_text (kv # kvs) = ?u @ tail" by (simp add: whole)
    ultimately have step: "first_field b (query_text (kv # kvs)) name = first_field (last ?u) tail name"
      using here False by (simp only: whole) (intro first_field_step, simp_all)
    have "\<not> separator (last ?u)" using \<open>\<forall>c\<in>set ?u. \<not> separator c\<close> last_in_set [of ?u] by blast
    show ?thesis
    proof (cases "kvs = []")
      case True
      with step False kv show ?thesis using assms(2)
        by (simp add: tail_def field_here_def name_ok_def)
    next
      case more: False
      have "\<not> field_here (last ?u) tail name"
        using \<open>\<not> separator (last ?u)\<close> by (simp add: field_here_def)
      with more have "first_field (last ?u) tail name = first_field CHR ''&'' (query_text kvs) name"
        by (simp add: tail_def)
      with step have all: "first_field b (query_text (kv # kvs)) name = first_field CHR ''&'' (query_text kvs) name"
        by simp
      have map: "map_of (kv # kvs) name = map_of kvs name" using False kv by simp
      have "separator CHR ''&''" by (simp add: separator_def)
      then show ?thesis
        unfolding all map using Cons.IH [of "CHR ''&''"] Cons.prems(2) by simp
    qed
  qed
qed

text \<open>A parameter of a URL is the value of the first field of its name.\<close>

lemma strchr_append: "c \<notin> set u \<Longrightarrow> strchr (u @ c # v) c = Some (c # v)"
  by (induction u) auto

lemma get_param_query:
  assumes "name_ok name" "\<forall>(k, v)\<in>set kvs. name_ok k \<and> value_text_ok v"
    and "CHR ''?'' \<notin> set path" "CHR ''#'' \<notin> set path"
  shows "case map_of kvs name of
      None \<Rightarrow> get_param (path @ CHR ''?'' # query_text kvs) name = None
    | Some v \<Rightarrow> \<exists>rest. get_param (path @ CHR ''?'' # query_text kvs) name = Some (v @ rest, length v)"
proof -
  have plain: "\<forall>c\<in>set name. \<not> separator c" "name \<noteq> []"
    "\<not> (name = [] \<or> (\<exists>c\<in>set name. c \<in> {CHR ''?'', CHR ''&'', CHR ''='', CHR ''#''}))"
    using assms(1) by (auto simp: name_ok_def separator_def)
  have frag: "strchr (path @ CHR ''?'' # query_text kvs) CHR ''#'' = None"
    using assms(4) query_text_plain [OF assms(2)] by (simp add: strchr_None)
  note found = first_field_query [OF _ assms(1,2), of "CHR ''?''"]
  have param: "get_param (path @ CHR ''?'' # query_text kvs) name =
      (case first_field CHR ''?'' (query_text kvs) name of
         None \<Rightarrow> None
       | Some p \<Rightarrow> (case drop (length name) p of
           CHR ''='' # v \<Rightarrow> Some (v, length (takeWhile (\<lambda>c. c \<noteq> CHR ''&'') v))
         | v \<Rightarrow> Some (v, 0)))"
    unfolding get_param_def strchr_append [OF assms(3)] frag
    using plain(3) by (simp add: find_param_first [OF plain(2,1)] split: option.split)
  show ?thesis
  proof (cases "map_of kvs name")
    case None
    with found param show ?thesis by (simp add: separator_def)
  next
    case (Some v)
    with found obtain rest where r: "first_field CHR ''?'' (query_text kvs) name = Some (name @ CHR ''='' # v @ rest)"
      "rest = [] \<or> hd rest = CHR ''&''" by (auto simp: separator_def)
    have "value_text_ok v" using map_of_SomeD [OF Some] assms(2) by auto
    then have "takeWhile (\<lambda>c. c \<noteq> CHR ''&'') (v @ rest) = v"
      using r(2) by (cases rest) (auto simp: value_text_ok_def takeWhile_append2)
    with Some param r(1) show ?thesis by simp
  qed
qed

section \<open>Properties\<close>

text \<open>
  A parameter that a client put into the query of a URL, its value percent encoded, is read
  back exactly, whatever characters it has and whatever other parameters there are: the first
  one of its name counts, and -2 says that there is none.  A value that does not fit is cut
  without an error: the result is the size of the buffer, the text one character less.
\<close>

theorem query_parameter_roundtrip:
  assumes "name_ok name" "\<forall>(k, v)\<in>set kvs. name_ok k"
    and "CHR ''?'' \<notin> set path" "CHR ''#'' \<notin> set path" "room \<noteq> 0"
  shows "neu_http_get_param_str (path @ CHR ''?'' # query_text (map (apsnd url_encode) kvs)) name room =
    Some (case map_of kvs name of
       None \<Rightarrow> (- 2, [])
     | Some v \<Rightarrow> if length v < room then (int (length v), v) else (int room, take (room - 1) v))"
proof -
  let ?kvs = "map (apsnd url_encode) kvs"
  have ok: "\<forall>(k, v)\<in>set ?kvs. name_ok k \<and> value_text_ok v"
    using assms(2) url_encode_plain by (fastforce simp: value_text_ok_def)
  have found: "map_of ?kvs name = map_option url_encode (map_of kvs name)"
    by (induction kvs) auto
  note param = get_param_query [OF assms(1) ok assms(3,4)]
  show ?thesis
  proof (cases "map_of kvs name")
    case None
    with param found show ?thesis by (simp add: neu_http_get_param_str_def)
  next
    case (Some v)
    with param found obtain rest where
      "get_param (path @ CHR ''?'' # query_text ?kvs) name = Some (url_encode v @ rest, length (url_encode v))"
      by auto
    then show ?thesis
      using Some assms(5)
      by (simp add: neu_http_get_param_str_def neu_url_decode_def decode_encode butlast_take)
  qed
qed

lemma query_parameter_roundtrip_witness:
  "neu_http_get_param_str ''/api/v2/node?type=1&node=a%26b%20c'' ''node'' 8 = Some (5, ''a&b c'') \<and>
   neu_http_get_param_str ''/api/v2/node?type=1&node=a%26b%20c'' ''node'' 3 = Some (3, ''a&'')"
proof -
  let ?kvs = "[(''type'', ''1''), (''node'', ''a&b c'')]"
  have url: "''/api/v2/node'' @ CHR ''?'' # query_text (map (apsnd url_encode) ?kvs) =
      ''/api/v2/node?type=1&node=a%26b%20c''"
    by (simp add: field_text_def url_encode_def encode_char_def unreserved_def isdigit_def xdigit_def
        char_of_def bit_0)
  have ok: "name_ok ''node''" "\<forall>(k, v)\<in>set ?kvs. name_ok k"
    "CHR ''?'' \<notin> set ''/api/v2/node''" "CHR ''#'' \<notin> set ''/api/v2/node''"
    by (simp_all add: name_ok_def)
  show ?thesis
    using query_parameter_roundtrip [OF ok, of 8] query_parameter_roundtrip [OF ok, of 3]
    unfolding url by simp
qed

text \<open>
  A response can be sent for an error code exactly when the code is listed or that of a
  plugin; for seventeen codes of the program the assertion of the default case stops it, among
  them those of an expired value and of a device that does not answer.
\<close>

theorem response_aborts:
  shows "\<forall>code\<in>set neu_err_codes. neu_http_response code content = None \<longleftrightarrow>
      code \<in> {NEU_ERR_TAG_EXIST, NEU_ERR_LIBRARY_ARCH_NOT_SUPPORT, NEU_ERR_LICENSE_BAD_CLOCK,
        NEU_ERR_LICENSE_MODULE_INVALID, NEU_ERR_PLUGIN_TAG_VALUE_EXPIRED,
        NEU_ERR_PLUGIN_DEVICE_NOT_RESPONSE, NEU_ERR_MQTT_NO_CERTFILESET,
        NEU_ERR_MQTT_CERTFILE_LOAD_FAILURE, NEU_ERR_MQTT_OPTION_IS_NULL, NEU_ERR_MQTT_TOPIC_EMPTY,
        NEU_ERR_MQTT_SUBSCRIBE_TIMEOUT, NEU_ERR_MQTT_SUBSCRIBE_LIST_INITIAL_FAILURE,
        NEU_ERR_MQTT_SUBSCRIBE_ADD_REPEAT, NEU_ERR_MQTT_SUBSCRIBE_ADD_FAILURE,
        NEU_ERR_MQTT_UNSUBSCRIBE_FAILURE, NEU_ERR_MQTT_SUSPENDED, NEU_ERR_MQTT_PUBLISH_OVER_LENGTH}"
  by (simp add: neu_err_codes_def neu_http_response_def error_status_def ok_codes_def internal_codes_def
      forbidden_codes_def unauthorized_codes_def bad_request_codes_def not_found_codes_def
      conflict_codes_def partial_codes_def)

lemma response_aborts_witness:
  "neu_http_response NEU_ERR_PLUGIN_DEVICE_NOT_RESPONSE None = None \<and>
   neu_http_response NEU_ERR_NODE_EXIST None \<noteq> None"
proof -
  have "NEU_ERR_PLUGIN_DEVICE_NOT_RESPONSE \<in> set neu_err_codes" "NEU_ERR_NODE_EXIST \<in> set neu_err_codes"
    by (simp_all add: neu_err_codes_def)
  with response_aborts [of None] show ?thesis by simp
qed

end
