(* ===== verification/Jwt.thy ===== *)
theory Jwt
  imports Http
begin

text \<open>
  Tokens of the REST interface (\<open>src/utils/neu_jwt.c\<close>): the keys of the program and of the
  directory \<open>certs\<close>, new tokens and the test of a token.

  The library libjwt is the parameter \<open>W\<close>: \<open>jwt_decode\<close> reads a token, with a key it checks the
  signature too; \<open>None\<close> is an error.  Creating, signing and encoding a token is the single
  function \<open>jwt_encode\<close>.  Files and directories are arguments: the text of a path that can be
  read, the names in a directory in the order of \<open>readdir\<close>.  A failed assertion is \<open>None\<close>.
\<close>

datatype jwt_grant = Grant_str string | Grant_int int

datatype jwt_validity = JWT_VALID | JWT_VALIDATION_EXPIRED | JWT_VALIDATION_OTHER

record 'w libjwt =
  jwt_encode :: "(string \<times> jwt_grant) list \<Rightarrow> string \<Rightarrow> string option"
  jwt_decode :: "string \<Rightarrow> string option \<Rightarrow> 'w option"
  jwt_get_grant :: "'w \<Rightarrow> string \<Rightarrow> string option"
  jwt_is_rs256 :: "'w \<Rightarrow> bool"
  jwt_validate :: "'w \<Rightarrow> int \<Rightarrow> jwt_validity"

record jwt_files =
  read_path :: "string \<Rightarrow> string option"
  read_dir :: "string \<Rightarrow> string list option"

record jwt_state =
  key_store :: "(string \<times> string) list"
  neuron_private_key :: string
  neuron_public_key :: string

definition jwt_start :: jwt_state where
  "jwt_start = \<lparr>key_store = [], neuron_private_key = [], neuron_public_key = []\<rparr>"

section \<open>Keys\<close>

text \<open>Only as many characters are compared as the name has.\<close>

fun find_key_from :: "nat \<Rightarrow> string \<Rightarrow> (string \<times> string) list \<Rightarrow> int" where
  "find_key_from i name [] = - 1"
| "find_key_from i name (k # ks) =
     (if prefix name (fst k) then int i else find_key_from (Suc i) name ks)"

definition find_key :: "string \<Rightarrow> (string \<times> string) list \<Rightarrow> int" where
  "find_key name store = find_key_from 0 name store"

text \<open>
  What \<open>strncpy\<close> with a bound of \<open>n\<close> leaves in a zeroed array that is longer: the bytes up to the
  first NUL, but at most \<open>n\<close> of them; no byte behind those is read.
\<close>

definition strncpy_text :: "nat \<Rightarrow> string \<Rightarrow> string" where
  "strncpy_text n buf = takeWhile (\<lambda>c. c \<noteq> CHR 0x00) (take n buf)"

definition add_key ::
  "string \<Rightarrow> string \<Rightarrow> (string \<times> string) list \<Rightarrow> (string \<times> string) list option" where
  "add_key name value store =
     (if Suc (length store) \<le> 8 then Some (store @ [(strncpy_text 256 name, strncpy_text 1023 value)]) else None)"

text \<open>
  The bytes in the static array of 2047: at most so many of the file, and zeros behind them.  A file
  that fills the array leaves it without a NUL; all readers of the array are the \<open>strncpy\<close>s
  with bounds of 2047 and 1023, which stay inside it.  An empty file is an error.
\<close>

definition load_key :: "jwt_files \<Rightarrow> string \<Rightarrow> string \<Rightarrow> string option" where
  "load_key F dir name =
     (case read_path F (snprintf 256 (dir @ ''/'' @ name)) of
        None \<Rightarrow> None
      | Some text \<Rightarrow>
          if text = [] then None else Some (take 2047 text))"

definition load_neuron_key :: "jwt_files \<Rightarrow> string \<Rightarrow> jwt_state \<Rightarrow> jwt_state option" where
  "load_neuron_key F dir_path st =
     (case load_key F dir_path ''neuron.key'' of
        None \<Rightarrow> None
      | Some priv \<Rightarrow>
          (case load_key F dir_path ''neuron.pem'' of
             None \<Rightarrow> None
           | Some pub \<Rightarrow> Some (st\<lparr>neuron_private_key := strncpy_text 2047 priv,
                  neuron_public_key := strncpy_text 2047 pub\<rparr>)))"

definition is_key_file :: "string \<Rightarrow> bool" where
  "is_key_file name \<longleftrightarrow> name \<noteq> ''.'' \<and> name \<noteq> ''..'' \<and>
     (strstr name ''.pem'' \<noteq> None \<or> strstr name ''.pub'' \<noteq> None)"

fun scan_names ::
  "jwt_files \<Rightarrow> string \<Rightarrow> string list \<Rightarrow> (string \<times> string) list \<Rightarrow> (string \<times> string) list option" where
  "scan_names F dir [] store = Some store"
| "scan_names F dir (name # names) store =
     (if is_key_file name
      then (case load_key F dir name of
              None \<Rightarrow> None
            | Some content \<Rightarrow>
                (case add_key name content store of
                   None \<Rightarrow> None
                 | Some store' \<Rightarrow> scan_names F dir names store'))
      else scan_names F dir names store)"

definition scanf_key :: "jwt_files \<Rightarrow> string \<Rightarrow> jwt_state \<Rightarrow> jwt_state option" where
  "scanf_key F dir_path st =
     (case read_dir F dir_path of
        None \<Rightarrow> Some (st\<lparr>key_store := []\<rparr>)
      | Some names \<Rightarrow>
          map_option (\<lambda>store. st\<lparr>key_store := store\<rparr>) (scan_names F dir_path names []))"

definition neu_jwt_init :: "jwt_files \<Rightarrow> string \<Rightarrow> jwt_state \<Rightarrow> jwt_state option" where
  "neu_jwt_init F dir_path st = Option.bind (load_neuron_key F dir_path st) (scanf_key F ''certs'')"

section \<open>Tokens\<close>

definition token_grants :: "int \<Rightarrow> (string \<times> jwt_grant) list" where
  "token_grants now =
     [(''iss'', Grant_str ''neuron''), (''iat'', Grant_int now), (''exp'', Grant_int (now + 60 * 60)),
      (''aud'', Grant_str ''neuron''), (''bodyEncode'', Grant_int 0)]"

text \<open>The token, \<open>None\<close> being the result -1.\<close>

definition neu_jwt_new :: "'w libjwt \<Rightarrow> int \<Rightarrow> jwt_state \<Rightarrow> string option" where
  "neu_jwt_new W now st = jwt_encode W (token_grants now) (neuron_private_key st)"

text \<open>The key by which the signature of a token of this issuer is checked.\<close>

definition issuer_key :: "jwt_state \<Rightarrow> string \<Rightarrow> string option" where
  "issuer_key st name =
     (let i = find_key name (key_store st)
      in if 0 \<le> i then Some (snd (key_store st ! nat i))
         else if name = ''neuron'' then Some (neuron_public_key st) else None)"

text \<open>The token that was read, and the state: an unknown issuer makes the keys be read again.\<close>

definition neu_jwt_decode ::
  "'w libjwt \<Rightarrow> jwt_files \<Rightarrow> jwt_state \<Rightarrow> string \<Rightarrow> ('w option \<times> jwt_state) option" where
  "neu_jwt_decode W F st token =
     (case jwt_decode W token None of
        None \<Rightarrow> Some (None, st)
      | Some test \<Rightarrow>
          (case jwt_get_grant W test ''iss'' of
             None \<Rightarrow> Some (None, st)
           | Some name \<Rightarrow>
               (case issuer_key st name of
                  None \<Rightarrow> map_option (Pair None) (scanf_key F ''certs'' st)
                | Some key \<Rightarrow>
                    (case jwt_decode W token (Some key) of
                       None \<Rightarrow> Some (None, st)
                     | Some jwt \<Rightarrow> Some (if jwt_is_rs256 W jwt then Some jwt else None, st)))))"

definition neu_jwt_validate ::
  "'w libjwt \<Rightarrow> jwt_files \<Rightarrow> int \<Rightarrow> jwt_state \<Rightarrow> string option \<Rightarrow> (int \<times> jwt_state) option" where
  "neu_jwt_validate W F now st b_token =
     (case b_token of
        None \<Rightarrow> Some (NEU_ERR_NEED_TOKEN, st)
      | Some text \<Rightarrow>
          if length text \<le> length ''Bearar '' then Some (NEU_ERR_NEED_TOKEN, st)
          else (case neu_jwt_decode W F st (drop (length ''Bearar '') text) of
                  None \<Rightarrow> None
                | Some (None, st') \<Rightarrow> Some (NEU_ERR_DECODE_TOKEN, st')
                | Some (Some jwt, st') \<Rightarrow>
                    Some (case jwt_validate W jwt now of
                            JWT_VALID \<Rightarrow> NEU_ERR_SUCCESS
                          | JWT_VALIDATION_EXPIRED \<Rightarrow> NEU_ERR_EXPIRED_TOKEN
                          | JWT_VALIDATION_OTHER \<Rightarrow> NEU_ERR_VALIDATE_TOKEN, st')))"

end
