(* ===== verification/Rest.thy ===== *)
theory Rest
  imports Jwt Nodes Elems
begin

text \<open>
  What the handlers of the REST plugin share (\<open>utils/http_handler.h\<close>, \<open>parser/neu_json_fn.c\<close>,
  \<open>parser/neu_json_error.c\<close>): a request is decoded after the test of its token, and an error is
  answered by its code.

  \<open>re_now\<close> is the time, \<open>re_disable_jwt\<close> the setting that turns the test off.  A handler gives
  the responses it sends, the commands it hands to \<open>neu_plugin_op\<close> with the address of the
  request as their context, and the keys afterwards; a request should have exactly one of
  either.  \<open>re_op\<close> is the result of \<open>neu_plugin_op\<close>.
\<close>

record ('j, 'w) rest_env =
  re_json :: "'j jansson"
  re_jwt :: "'w libjwt"
  re_files :: jwt_files
  re_now :: int
  re_disable_jwt :: bool
  re_op :: "neu_reqresp_head_t \<Rightarrow> reqresp_data \<Rightarrow> int"

record http_req =
  hr_ctx :: nat
  hr_url :: string
  hr_authorization :: "string option"
  hr_body :: string

record rest_out =
  ro_responses :: "(nng_http_status \<times> string) list"
  ro_commands :: "(neu_reqresp_head_t \<times> reqresp_data) list"
  ro_keys :: jwt_state

definition responds :: "jwt_state \<Rightarrow> (nng_http_status \<times> string) list \<Rightarrow> rest_out" where
  "responds st rs = \<lparr>ro_responses = rs, ro_commands = [], ro_keys = st\<rparr>"

definition NEU_TAG_NAME_LEN :: nat where "NEU_TAG_NAME_LEN = 64"
definition NEU_GROUP_NAME_LEN :: nat where "NEU_GROUP_NAME_LEN = 128"

section \<open>Texts\<close>

type_synonym 'j encode_fn = "'j \<Rightarrow> int \<times> 'j"

definition neu_json_encode_by_fn :: "'j jansson \<Rightarrow> 'j encode_fn \<Rightarrow> int \<times> string option" where
  "neu_json_encode_by_fn J fn =
     (case fn (json_object_new J) of
        (ret, ob) \<Rightarrow> if ret \<noteq> 0 then (- 1, None) else neu_json_encode J ob)"

definition neu_json_encode_with_mqtt ::
  "'j jansson \<Rightarrow> 'j encode_fn option \<Rightarrow> 'j encode_fn option \<Rightarrow> int \<times> string option" where
  "neu_json_encode_with_mqtt J fn mqtt_fn =
     (let run = (\<lambda>f ob. case f of None \<Rightarrow> (0, ob) | Some g \<Rightarrow> g ob);
          (ret, ob) = run mqtt_fn (json_object_new J)
      in if ret \<noteq> 0 then (- 1, None)
         else (case run fn ob of
                 (ret', ob') \<Rightarrow> if ret' \<noteq> 0 then (- 1, None) else neu_json_encode J ob'))"

definition neu_json_encode_error_resp :: "'j jansson \<Rightarrow> int \<Rightarrow> 'j encode_fn" where
  "neu_json_encode_error_resp J err ob = neu_json_encode_field J ob [int_elem ''error'' (of_int err)]"

definition error_text :: "'j jansson \<Rightarrow> int \<Rightarrow> string option" where
  "error_text J err = snd (neu_json_encode_by_fn J (neu_json_encode_error_resp J err))"

text \<open>\<open>NEU_JSON_RESPONSE_ERROR\<close> around \<open>neu_http_response\<close>.\<close>

definition http_error :: "('j, 'w) rest_env \<Rightarrow> int \<Rightarrow> (nng_http_status \<times> string) option" where
  "http_error E code = neu_http_response code (error_text (re_json E) code)"

definition error_1002 :: string where
  "error_1002 = ''{'' @ [CHR 0x22] @ ''error'' @ [CHR 0x22] @ '': 1002}''"

section \<open>Requests\<close>

text \<open>\<open>NEU_VALIDATE_JWT\<close>: \<open>k\<close> is the rest of the handler.\<close>

definition NEU_VALIDATE_JWT ::
  "('j, 'w) rest_env \<Rightarrow> http_req \<Rightarrow> jwt_state \<Rightarrow> (jwt_state \<Rightarrow> rest_out option) \<Rightarrow> rest_out option" where
  "NEU_VALIDATE_JWT E req st k =
     (if re_disable_jwt E then k st
      else case neu_jwt_validate (re_jwt E) (re_files E) (re_now E) st (hr_authorization req) of
             None \<Rightarrow> None
           | Some (error, st') \<Rightarrow>
               if error \<noteq> NEU_ERR_SUCCESS then map_option (\<lambda>r. responds st' [r]) (http_error E error)
               else k st')"

text \<open>The same for handlers that leave something besides what they send.\<close>

definition validated_pair ::
  "('j, 'w) rest_env \<Rightarrow> http_req \<Rightarrow> jwt_state \<Rightarrow> (jwt_state \<Rightarrow> (rest_out \<times> 'c option) option) \<Rightarrow>
    (rest_out \<times> 'c option) option" where
  "validated_pair E req st k =
     (if re_disable_jwt E then k st
      else case neu_jwt_validate (re_jwt E) (re_files E) (re_now E) st (hr_authorization req) of
             None \<Rightarrow> None
           | Some (error, st') \<Rightarrow>
               if error \<noteq> NEU_ERR_SUCCESS then map_option (\<lambda>r. (responds st' [r], None)) (http_error E error)
               else k st')"

text \<open>A body is copied with a NUL behind it.\<close>

definition neu_http_get_body :: "http_req \<Rightarrow> string option" where
  "neu_http_get_body req =
     (if hr_body req = [] then None else Some (takeWhile (\<lambda>c. c \<noteq> CHR 0x00) (hr_body req)))"

text \<open>A decoder gives \<open>None\<close> for a crash and \<open>Some None\<close> for a result that is not 0.\<close>

definition NEU_PROCESS_HTTP_REQUEST ::
  "http_req \<Rightarrow> (string \<Rightarrow> 'a option option) \<Rightarrow> jwt_state \<Rightarrow> ('a \<Rightarrow> rest_out option) \<Rightarrow> rest_out option" where
  "NEU_PROCESS_HTTP_REQUEST req decode st k =
     (case neu_http_get_body req of
        None \<Rightarrow> Some (responds st [neu_http_bad_request (Some error_1002)])
      | Some buf \<Rightarrow>
          (case decode buf of
             None \<Rightarrow> None
           | Some None \<Rightarrow> Some (responds st [neu_http_bad_request (Some error_1002)])
           | Some (Some r) \<Rightarrow> k r))"

definition NEU_PROCESS_HTTP_REQUEST_VALIDATE_JWT ::
  "('j, 'w) rest_env \<Rightarrow> http_req \<Rightarrow> (string \<Rightarrow> 'a option option) \<Rightarrow> jwt_state \<Rightarrow>
    (jwt_state \<Rightarrow> 'a \<Rightarrow> rest_out option) \<Rightarrow> rest_out option" where
  "NEU_PROCESS_HTTP_REQUEST_VALIDATE_JWT E req decode st k =
     NEU_VALIDATE_JWT E req st (\<lambda>st'. NEU_PROCESS_HTTP_REQUEST req decode st' (k st'))"

text \<open>The end of most handlers: a command, answered at once if it cannot be sent.\<close>

definition rest_command ::
  "('j, 'w) rest_env \<Rightarrow> http_req \<Rightarrow> neu_reqresp_type \<Rightarrow> reqresp_data \<Rightarrow> jwt_state \<Rightarrow> rest_out option" where
  "rest_command E req type cmd st =
     (let header = \<lparr>rh_type = type, rh_ctx = hr_ctx req, rh_sender = [], rh_receiver = []\<rparr>
      in if re_op E header cmd \<noteq> 0
         then map_option (\<lambda>r. responds st [r]) (http_error E NEU_ERR_IS_BUSY)
         else Some \<lparr>ro_responses = [], ro_commands = [(header, cmd)], ro_keys = st\<rparr>)"

definition rest_error :: "('j, 'w) rest_env \<Rightarrow> int \<Rightarrow> jwt_state \<Rightarrow> rest_out option" where
  "rest_error E code st = map_option (\<lambda>r. responds st [r]) (http_error E code)"

text \<open>\<open>strcpy\<close> of a text into an array of \<open>n\<close> characters; a text that does not fit is undefined.\<close>

definition strcpy :: "nat \<Rightarrow> string option \<Rightarrow> string option" where
  "strcpy n s = (case s of None \<Rightarrow> None | Some t \<Rightarrow> if length t < n then Some t else None)"

end
