(* ===== verification/RwJson.thy ===== *)
theory RwJson
  imports TagJson
begin

text \<open>
  Requests to read and to write and the answer to a read (\<open>src/parser/neu_json_rw.c\<close>).  The
  precision of an element is left out, which the encoder does not look at.
\<close>

section \<open>The answer to a read\<close>

record 'j neu_json_tag_meta_t =
  jm_name :: string
  jm_t :: neu_json_type_e
  jm_value :: "'j neu_json_value_u"

record 'j neu_json_read_resp_tag_t =
  rr_name :: string
  rr_error :: u64
  rr_t :: neu_json_type_e
  rr_value :: "'j neu_json_value_u"
  rr_metas :: "'j neu_json_tag_meta_t list"

definition meta_elems :: "'j neu_json_read_resp_tag_t \<Rightarrow> 'j neu_json_elem_t list" where
  "meta_elems tag = map (\<lambda>m. value_elem (jm_name m) (jm_t m) (jm_value m)) (rr_metas tag)"

definition read_resp_elems :: "'j neu_json_read_resp_tag_t \<Rightarrow> 'j neu_json_elem_t list" where
  "read_resp_elems tag =
     str_elem ''name'' (Some (rr_name tag)) #
     (if rr_error tag \<noteq> 0 then int_elem ''error'' (rr_error tag)
      else value_elem ''value'' (rr_t tag) (rr_value tag)) # meta_elems tag"

definition neu_json_encode_read_resp ::
  "'j jansson \<Rightarrow> 'j neu_json_read_resp_tag_t list \<Rightarrow> 'j \<Rightarrow> int \<times> 'j" where
  "neu_json_encode_read_resp J tags json_object =
     (let tag_array = foldl (\<lambda>arr tag. neu_json_encode_array J (Some arr) (read_resp_elems tag))
            (json_array_new J) tags
      in neu_json_encode_field J json_object [object_elem ''tags'' (Some tag_array)])"

definition set_field :: "'j jansson \<Rightarrow> 'j \<Rightarrow> 'j neu_json_elem_t \<Rightarrow> 'j" where
  "set_field J ob e = snd (neu_json_encode_field J ob [e])"

definition neu_json_encode_read_resp1 ::
  "'j jansson \<Rightarrow> 'j neu_json_read_resp_tag_t list \<Rightarrow> 'j \<Rightarrow> int \<times> 'j" where
  "neu_json_encode_read_resp1 J tags json_object =
     (let step = (\<lambda>(values, errors, metas) tag.
            (if rr_error tag = 0 then set_field J values (value_elem (rr_name tag) (rr_t tag) (rr_value tag))
             else values,
             if rr_error tag = 0 then errors
             else set_field J errors (int_elem (rr_name tag) (rr_error tag)),
             if rr_metas tag \<noteq> []
             then set_field J metas (object_elem (rr_name tag)
                    (Some (foldl (set_field J) (json_object_new J) (meta_elems tag))))
             else metas));
          (values, errors, metas) = foldl step (json_object_new J, json_object_new J, json_object_new J) tags
      in neu_json_encode_field J json_object
           [object_elem ''values'' (Some values), object_elem ''errors'' (Some errors),
            object_elem ''metas'' (Some metas)])"

record neu_json_read_periodic_t =
  rp_group :: "string option"
  rp_node :: "string option"
  rp_timestamp :: u64

definition neu_json_encode_read_periodic_resp ::
  "'j jansson \<Rightarrow> neu_json_read_periodic_t \<Rightarrow> 'j \<Rightarrow> int \<times> 'j" where
  "neu_json_encode_read_periodic_resp J resp json_object =
     neu_json_encode_field J json_object
       [str_elem ''node'' (rp_node resp), str_elem ''group'' (rp_group resp),
        int_elem ''timestamp'' (rp_timestamp resp)]"

section \<open>Requests\<close>

record neu_json_read_req_t =
  rq_group :: "string option"
  rq_node :: "string option"

definition neu_json_decode_read_req :: "'j jansson \<Rightarrow> string \<Rightarrow> neu_json_read_req_t option option" where
  "neu_json_decode_read_req J buf =
     (case neu_json_decode_by_json J (neu_json_decode_new J buf)
        [want ''node'' NEU_JSON_STR, want ''group'' NEU_JSON_STR] of
        None \<Rightarrow> None
      | Some (ret, es) \<Rightarrow>
          Some (if ret \<noteq> 0 then None
                else Some \<lparr>rq_group = jstr (ev (es ! 1)), rq_node = jstr (ev (es ! 0))\<rparr>))"

record 'j neu_json_write_req_t =
  wr_group :: "string option"
  wr_node :: "string option"
  wr_tag :: "string option"
  wr_t :: neu_json_type_e
  wr_value :: "'j neu_json_value_u"

definition decode_write_req_json ::
  "'j jansson \<Rightarrow> 'j \<Rightarrow> 'j neu_json_write_req_t option option" where
  "decode_write_req_json J json_obj =
     (case neu_json_decode_by_json J (Some json_obj)
        [want ''node'' NEU_JSON_STR, want ''group'' NEU_JSON_STR, want ''tag'' NEU_JSON_STR,
         want ''value'' NEU_JSON_VALUE] of
        None \<Rightarrow> None
      | Some (ret, es) \<Rightarrow>
          Some (if ret \<noteq> 0 then None
                else Some \<lparr>wr_group = jstr (ev (es ! 1)), wr_node = jstr (ev (es ! 0)),
                           wr_tag = jstr (ev (es ! 2)), wr_t = et (es ! 3), wr_value = ev (es ! 3)\<rparr>))"

definition neu_json_decode_write_req_json ::
  "'j jansson \<Rightarrow> 'j \<Rightarrow> 'j neu_json_write_req_t option option" where
  "neu_json_decode_write_req_json J json_obj = decode_write_req_json J json_obj"

definition neu_json_decode_write_req ::
  "'j jansson \<Rightarrow> string \<Rightarrow> 'j neu_json_write_req_t option option" where
  "neu_json_decode_write_req J buf =
     (case neu_json_decode_new J buf of
        None \<Rightarrow> Some None
      | Some json_obj \<Rightarrow> neu_json_decode_write_req_json J json_obj)"

record 'j neu_json_write_tags_elem_t =
  we_tag :: "string option"
  we_t :: neu_json_type_e
  we_value :: "'j neu_json_value_u"

record 'j neu_json_write_tags_req_t =
  wq_group :: "string option"
  wq_node :: "string option"
  wq_tags :: "'j neu_json_write_tags_elem_t list"

text \<open>
  When an element fails, the loop that frees the elements before it runs down to index -1, which
  it reads.
\<close>

fun decode_write_elems ::
  "'j jansson \<Rightarrow> 'j \<Rightarrow> nat list \<Rightarrow> 'j neu_json_write_tags_elem_t list option" where
  "decode_write_elems J json_obj [] = Some []"
| "decode_write_elems J json_obj (i # is) =
     (case neu_json_decode_array_by_json J json_obj ''tags'' i
        [want ''tag'' NEU_JSON_STR, want ''value'' NEU_JSON_VALUE] of
        None \<Rightarrow> None
      | Some (ret, es) \<Rightarrow>
          if ret \<noteq> 0 then None
          else map_option ((#) \<lparr>we_tag = jstr (ev (es ! 0)), we_t = et (es ! 1), we_value = ev (es ! 1)\<rparr>)
                 (decode_write_elems J json_obj is))"

definition decode_write_tags_req_json ::
  "'j jansson \<Rightarrow> 'j \<Rightarrow> 'j neu_json_write_tags_req_t option option" where
  "decode_write_tags_req_json J json_obj =
     (case neu_json_decode_by_json J (Some json_obj)
        [want ''node'' NEU_JSON_STR, want ''group'' NEU_JSON_STR, want ''tags'' NEU_JSON_OBJECT] of
        None \<Rightarrow> None
      | Some (ret, es) \<Rightarrow>
          let n_tag = neu_json_decode_array_size_by_json J json_obj ''tags''
          in if ret \<noteq> 0 \<or> n_tag \<le> 0 then Some None
             else map_option (\<lambda>tags. Some \<lparr>wq_group = jstr (ev (es ! 1)), wq_node = jstr (ev (es ! 0)),
                      wq_tags = tags\<rparr>) (decode_write_elems J json_obj [0..<nat n_tag]))"

definition neu_json_decode_write_tags_req_json ::
  "'j jansson \<Rightarrow> 'j \<Rightarrow> 'j neu_json_write_tags_req_t option option" where
  "neu_json_decode_write_tags_req_json J json_obj = decode_write_tags_req_json J json_obj"

definition neu_json_decode_write_tags_req ::
  "'j jansson \<Rightarrow> string \<Rightarrow> 'j neu_json_write_tags_req_t option option" where
  "neu_json_decode_write_tags_req J buf =
     (case neu_json_decode_new J buf of
        None \<Rightarrow> Some None
      | Some json_obj \<Rightarrow> neu_json_decode_write_tags_req_json J json_obj)"

datatype 'j neu_json_write_t =
    Write_single "'j neu_json_write_req_t"
  | Write_plural "'j neu_json_write_tags_req_t"

definition neu_json_decode_write :: "'j jansson \<Rightarrow> string \<Rightarrow> 'j neu_json_write_t option option" where
  "neu_json_decode_write J buf =
     (case neu_json_decode_new J buf of
        None \<Rightarrow> Some None
      | Some json_obj \<Rightarrow>
          (case json_object_get J json_obj ''tags'' of
             None \<Rightarrow> map_option (map_option Write_single) (decode_write_req_json J json_obj)
           | Some _ \<Rightarrow> map_option (map_option Write_plural) (decode_write_tags_req_json J json_obj)))"

end
