(* ===== verification/TagRest.thy ===== *)
theory TagRest
  imports Rest RwJson
begin

text \<open>
  Tags over REST (\<open>plugins/restful/datatag_handle.c\<close>, \<open>rw_handle.c\<close>): requests become commands,
  the answers become texts.  \<open>None\<close> is a crash or undefined behaviour, which includes a name
  that does not fit its array.
\<close>

unbundle bit_operations_syntax

section \<open>Tags\<close>

text \<open>
  The tag of a command.  The type is cut to 32 bits; a number that then names no type has no
  place in \<open>neu_type_e\<close> and is left out of the model (\<open>None\<close>).
\<close>

definition tag_of_json :: "'j neu_json_tag_t \<Rightarrow> neu_datatag_t option" where
  "tag_of_json t = do {
     ty \<leftarrow> type_of_number (ucast (ucast (tj_type t) :: u32));
     address \<leftarrow> tj_address t;
     name \<leftarrow> tj_name t;
     let tag = calloc_tag\<lparr>attribute := ucast (tj_attribute t), ttype := ty,
         precision := ucast (tj_precision t), decimal := tj_decimal t, address := address,
         tname := name, description := (case tj_description t of None \<Rightarrow> [] | Some d \<Rightarrow> d)\<rparr>;
     if ucast NEU_ATTRIBUTE_STATIC AND tj_attribute t \<noteq> 0
     then map_option snd (neu_tag_set_static_value_json tag (tj_t t) (tj_value t))
     else Some tag
   }"

definition json_of_tag :: "neu_datatag_t \<Rightarrow> 'j neu_json_tag_t" where
  "json_of_tag tag =
     (case (if neu_tag_attribute_test tag NEU_ATTRIBUTE_STATIC
            then snd (neu_tag_get_static_value_json tag NEU_JSON_UNDEFINE zero_json_value)
            else (NEU_JSON_UNDEFINE, zero_json_value)) of
        (t, v) \<Rightarrow>
          \<lparr>tj_address = Some (address tag), tj_name = Some (tname tag),
           tj_description = Some (description tag), tj_type = of_nat (neu_type_code (ttype tag)),
           tj_attribute = ucast (attribute tag), tj_precision = ucast (precision tag),
           tj_decimal = decimal tag, tj_t = t, tj_value = v\<rparr>)"

text \<open>Commands count their tags with 16 bits.\<close>

definition counted16 :: "'a list \<Rightarrow> 'a list" where
  "counted16 xs = take (length xs mod 65536) xs"

definition tags_command ::
  "('j, 'w) rest_env \<Rightarrow> http_req \<Rightarrow> neu_reqresp_type \<Rightarrow> 'j neu_json_add_tags_req_t \<Rightarrow> jwt_state \<Rightarrow>
    rest_out option" where
  "tags_command E req type r st = do {
     driver \<leftarrow> strcpy NEU_NODE_NAME_LEN (aq_node r);
     group \<leftarrow> strcpy NEU_GROUP_NAME_LEN (aq_group r);
     tags \<leftarrow> those (map tag_of_json (aq_tags r));
     rest_command E req type (D_tags driver group (counted16 tags)) st
   }"

definition handle_add_tags :: "('j, 'w) rest_env \<Rightarrow> http_req \<Rightarrow> jwt_state \<Rightarrow> rest_out option" where
  "handle_add_tags E req st =
     NEU_PROCESS_HTTP_REQUEST_VALIDATE_JWT E req (neu_json_decode_add_tags_req (re_json E)) st (\<lambda>st' r. do {
       group \<leftarrow> aq_group r;
       if NEU_GROUP_NAME_LEN \<le> length group then rest_error E NEU_ERR_GROUP_NAME_TOO_LONG st'
       else tags_command E req NEU_REQ_ADD_TAG r st'
     })"

definition handle_update_tags :: "('j, 'w) rest_env \<Rightarrow> http_req \<Rightarrow> jwt_state \<Rightarrow> rest_out option" where
  "handle_update_tags E req st =
     NEU_PROCESS_HTTP_REQUEST_VALIDATE_JWT E req (neu_json_decode_update_tags_req (re_json E)) st
       (\<lambda>st' r. tags_command E req NEU_REQ_UPDATE_TAG r st')"

definition handle_del_tags :: "('j, 'w) rest_env \<Rightarrow> http_req \<Rightarrow> jwt_state \<Rightarrow> rest_out option" where
  "handle_del_tags E req st =
     NEU_PROCESS_HTTP_REQUEST_VALIDATE_JWT E req (neu_json_decode_del_tags_req (re_json E)) st (\<lambda>st' r. do {
       driver \<leftarrow> strcpy NEU_NODE_NAME_LEN (dq_node r);
       group \<leftarrow> strcpy NEU_GROUP_NAME_LEN (dq_group r);
       tags \<leftarrow> those (dq_tags r);
       rest_command E req NEU_REQ_DEL_TAG (D_del_tag driver group (counted16 tags)) st'
     })"

definition handle_get_tags :: "('j, 'w) rest_env \<Rightarrow> http_req \<Rightarrow> jwt_state \<Rightarrow> rest_out option" where
  "handle_get_tags E req st =
     NEU_VALIDATE_JWT E req st (\<lambda>st'. do {
       (rn, node) \<leftarrow> neu_http_get_param_str (hr_url req) ''node'' NEU_NODE_NAME_LEN;
       if rn \<le> 0 then rest_error E NEU_ERR_PARAM_IS_WRONG st'
       else do {
         (rg, group) \<leftarrow> neu_http_get_param_str (hr_url req) ''group'' NEU_GROUP_NAME_LEN;
         if rg \<le> 0 then rest_error E NEU_ERR_PARAM_IS_WRONG st'
         else do {
           (rt, tag_name) \<leftarrow> neu_http_get_param_str (hr_url req) ''name'' NEU_TAG_NAME_LEN;
           rest_command E req NEU_REQ_GET_TAG (D_get_tag node group (if 0 \<le> rt then tag_name else [])) st'
         }
       }
     })"

definition handle_add_tags_resp ::
  "'j jansson \<Rightarrow> u16 \<Rightarrow> int \<Rightarrow> nng_http_status \<times> string" where
  "handle_add_tags_resp J index error =
     neu_http_ok (snd (neu_json_encode_by_fn J (neu_json_encode_au_tags_resp J index error)))"

definition handle_update_tags_resp ::
  "'j jansson \<Rightarrow> u16 \<Rightarrow> int \<Rightarrow> nng_http_status \<times> string" where
  "handle_update_tags_resp J index error = handle_add_tags_resp J index error"

definition handle_get_tags_resp :: "'j jansson \<Rightarrow> neu_datatag_t list \<Rightarrow> nng_http_status \<times> string" where
  "handle_get_tags_resp J tags =
     neu_http_ok (snd (neu_json_encode_by_fn J (neu_json_encode_get_tags_resp J (map json_of_tag tags))))"

section \<open>Values\<close>

text \<open>
  The value of a command; an array that is longer than the 128 bytes for it is written past
  their end, and a JSON type of no value fails an assertion.
\<close>

definition value_of_json :: "neu_json_type_e \<Rightarrow> 'j neu_json_value_u \<Rightarrow> neu_dvalue_t option" where
  "value_of_json t v =
     (let value = (\<lambda>ty x. Some \<lparr>dtype = ty, dvalue = x, dprecision = 0\<rparr>)
      in case t of
           NEU_JSON_INT \<Rightarrow> value NEU_TYPE_INT64 (put_word (val_int v) zero_value)
         | NEU_JSON_STR \<Rightarrow>
             (case strcpy NEU_VALUE_SIZE (jstr v) of
                None \<Rightarrow> None
              | Some s \<Rightarrow> value NEU_TYPE_STRING (put_str (map char_byte s @ [0]) zero_value))
         | NEU_JSON_BYTES \<Rightarrow>
             (if NEU_VALUE_SIZE < unat (jbytes_length v) then None
              else value NEU_TYPE_BYTES
                (vput 0 (take (unat (jbytes_length v)) (jbytes v)) (put_bytes_length (jbytes_length v) zero_value)))
         | NEU_JSON_DOUBLE \<Rightarrow> value NEU_TYPE_DOUBLE (put_word (val_double v) zero_value)
         | NEU_JSON_BOOL \<Rightarrow> value NEU_TYPE_BOOL (put_boolean (val_bool v) zero_value)
         | _ \<Rightarrow> None)"

definition too_long :: "neu_json_type_e \<Rightarrow> 'j neu_json_value_u \<Rightarrow> bool" where
  "too_long t v \<longleftrightarrow> t = NEU_JSON_STR \<and>
     (case jstr v of None \<Rightarrow> False | Some s \<Rightarrow> NEU_VALUE_SIZE \<le> length s)"

definition handle_read :: "('j, 'w) rest_env \<Rightarrow> http_req \<Rightarrow> jwt_state \<Rightarrow> rest_out option" where
  "handle_read E req st =
     NEU_PROCESS_HTTP_REQUEST_VALIDATE_JWT E req (neu_json_decode_read_req (re_json E)) st (\<lambda>st' r. do {
       driver \<leftarrow> strcpy NEU_NODE_NAME_LEN (rq_node r);
       group \<leftarrow> strcpy NEU_GROUP_NAME_LEN (rq_group r);
       rest_command E req NEU_REQ_READ_GROUP (D_group driver group) st'
     })"

definition handle_write :: "('j, 'w) rest_env \<Rightarrow> http_req \<Rightarrow> jwt_state \<Rightarrow> rest_out option" where
  "handle_write E req st =
     NEU_PROCESS_HTTP_REQUEST_VALIDATE_JWT E req (neu_json_decode_write_req (re_json E)) st (\<lambda>st' r.
       if too_long (wr_t r) (wr_value r) \<or>
          wr_t r = NEU_JSON_BYTES \<and> NEU_VALUE_SIZE < unat (jbytes_length (wr_value r))
       then rest_error E NEU_ERR_STRING_TOO_LONG st'
       else do {
         driver \<leftarrow> strcpy NEU_NODE_NAME_LEN (wr_node r);
         group \<leftarrow> strcpy NEU_GROUP_NAME_LEN (wr_group r);
         tag \<leftarrow> strcpy NEU_TAG_NAME_LEN (wr_tag r);
         value \<leftarrow> value_of_json (wr_t r) (wr_value r);
         rest_command E req NEU_REQ_WRITE_TAG (D_write_tag driver group tag value) st'
       })"

text \<open>The lengths of strings are tested here, those of arrays are not.\<close>

definition handle_write_tags :: "('j, 'w) rest_env \<Rightarrow> http_req \<Rightarrow> jwt_state \<Rightarrow> rest_out option" where
  "handle_write_tags E req st =
     NEU_PROCESS_HTTP_REQUEST_VALIDATE_JWT E req (neu_json_decode_write_tags_req (re_json E)) st (\<lambda>st' r.
       if \<exists>e\<in>set (wq_tags r). too_long (we_t e) (we_value e)
       then rest_error E NEU_ERR_STRING_TOO_LONG st'
       else do {
         driver \<leftarrow> strcpy NEU_NODE_NAME_LEN (wq_node r);
         group \<leftarrow> strcpy NEU_GROUP_NAME_LEN (wq_group r);
         tags \<leftarrow> those (map (\<lambda>e. do {
             tag \<leftarrow> strcpy NEU_TAG_NAME_LEN (we_tag e);
             value \<leftarrow> value_of_json (we_t e) (we_value e);
             Some (tag, value)
           }) (wq_tags r));
         rest_command E req NEU_REQ_WRITE_TAGS (D_write_tags driver group tags) st'
       })"

section \<open>The answer to a read\<close>

text \<open>A string in the union ends with a NUL, as does the object of a pointer.\<close>

definition c_str :: "bytes \<Rightarrow> string option" where
  "c_str bs = (if 0 \<in> set bs then Some (c_string bs) else None)"

definition ptr_str :: "neu_value_u \<Rightarrow> string option option" where
  "ptr_str v =
     (if ptr_is_null v then Some None
      else case vptr v of None \<Rightarrow> None | Some obj \<Rightarrow> map_option Some (c_str obj))"

text \<open>Numbers as both switches convert them.\<close>

definition number_to_json ::
  "neu_type_e \<Rightarrow> neu_value_u \<Rightarrow> (neu_json_type_e \<times> 'j neu_json_value_u) option" where
  "number_to_json ty v =
     (let z = zero_json_value; int_v = (\<lambda>i. Some (NEU_JSON_INT, jput (i :: u64) z))
      in case ty of
           NEU_TYPE_INT8 \<Rightarrow> int_v (scast (get_u8 v))
         | NEU_TYPE_UINT8 \<Rightarrow> int_v (ucast (get_u8 v))
         | NEU_TYPE_INT16 \<Rightarrow> int_v (scast (get_u16 v))
         | NEU_TYPE_WORD \<Rightarrow> int_v (ucast (get_u16 v))
         | NEU_TYPE_UINT16 \<Rightarrow> int_v (ucast (get_u16 v))
         | NEU_TYPE_INT32 \<Rightarrow> int_v (scast (get_u32 v))
         | NEU_TYPE_DWORD \<Rightarrow> int_v (ucast (get_u32 v))
         | NEU_TYPE_UINT32 \<Rightarrow> int_v (ucast (get_u32 v))
         | NEU_TYPE_INT64 \<Rightarrow> int_v (get_u64 v)
         | NEU_TYPE_LWORD \<Rightarrow> int_v (get_u64 v)
         | NEU_TYPE_UINT64 \<Rightarrow> int_v (get_u64 v)
         | NEU_TYPE_FLOAT \<Rightarrow> Some (NEU_JSON_FLOAT, jput (get_u32 v) z)
         | NEU_TYPE_DOUBLE \<Rightarrow> Some (NEU_JSON_DOUBLE, jput (get_u64 v) z)
         | NEU_TYPE_BIT \<Rightarrow> Some (NEU_JSON_BIT, jput (get_u8 v) z)
         | NEU_TYPE_BOOL \<Rightarrow> Some (NEU_JSON_BOOL, put_val_bool (get_boolean v) z)
         | _ \<Rightarrow> None)"

definition meta_to_json :: "neu_tag_meta_t \<Rightarrow> 'j neu_json_tag_meta_t option" where
  "meta_to_json m =
     (let ty = dtype (mvalue m); v = dvalue (mvalue m);
          json = (\<lambda>(t, x). \<lparr>jm_name = mname m, jm_t = t, jm_value = x\<rparr>)
      in case number_to_json ty v of
           Some r \<Rightarrow> Some (json r)
         | None \<Rightarrow>
             if ty = NEU_TYPE_STRING
             then map_option (\<lambda>s. json (NEU_JSON_STR, zero_json_value\<lparr>jstr := Some s\<rparr>)) (c_str (get_str v))
             else Some (json (NEU_JSON_UNDEFINE, zero_json_value)))"

definition neu_json_metas_to_json :: "neu_tag_meta_t list \<Rightarrow> 'j neu_json_tag_meta_t list option" where
  "neu_json_metas_to_json metas = those (map meta_to_json (takeWhile (\<lambda>m. mname m \<noteq> []) metas))"

definition value_to_json :: "neu_dvalue_t \<Rightarrow> (u64 \<times> neu_json_type_e \<times> 'j neu_json_value_u) option" where
  "value_to_json d =
     (let v = dvalue d; z = zero_json_value
      in case dtype d of
           NEU_TYPE_STRING \<Rightarrow>
             map_option (\<lambda>s. (0, NEU_JSON_STR, z\<lparr>jstr := Some s\<rparr>)) (c_str (get_str v))
         | NEU_TYPE_BYTES \<Rightarrow>
             if NEU_VALUE_SIZE < get_bytes_length v then None
             else Some (0, NEU_JSON_BYTES, z\<lparr>jbytes_length := of_nat (get_bytes_length v),
               jbytes := vget 0 (get_bytes_length v) v\<rparr>)
         | NEU_TYPE_ERROR \<Rightarrow>
             Some (scast (get_u32 v), NEU_JSON_INT, jput (scast (get_u32 v) :: u64) z)
         | NEU_TYPE_PTR \<Rightarrow> map_option (\<lambda>s. (0, NEU_JSON_STR, z\<lparr>jstr := s\<rparr>)) (ptr_str v)
         | ty \<Rightarrow> map_option (Pair 0) (number_to_json ty v))"

definition read_resp_tag :: "neu_resp_tag_value_meta_t \<Rightarrow> 'j neu_json_read_resp_tag_t option" where
  "read_resp_tag tag = do {
     metas \<leftarrow> neu_json_metas_to_json (rmetas tag);
     (error, t, v) \<leftarrow> value_to_json (rvalue tag);
     Some \<lparr>rr_name = rtag tag, rr_error = error, rr_t = t, rr_value = v, rr_metas = metas\<rparr>
   }"

definition handle_read_resp ::
  "'j jansson \<Rightarrow> neu_resp_tag_value_meta_t list \<Rightarrow> (nng_http_status \<times> string) option" where
  "handle_read_resp J tags = do {
     rs \<leftarrow> those (map read_resp_tag tags);
     Some (neu_http_ok (snd (neu_json_encode_by_fn J (neu_json_encode_read_resp J rs))))
   }"

end
