(* ===== verification/NodeRest.thy ===== *)
theory NodeRest
  imports Rest NodeJson
begin

text \<open>
  Nodes over REST (\<open>plugins/restful/adapter_handle.c\<close>).  \<open>None\<close> is a crash or undefined behaviour,
  which includes a name that does not fit its array.
\<close>

definition handle_add_adapter :: "('j, 'w) rest_env \<Rightarrow> http_req \<Rightarrow> jwt_state \<Rightarrow> rest_out option" where
  "handle_add_adapter E req st =
     NEU_PROCESS_HTTP_REQUEST_VALIDATE_JWT E req (neu_json_decode_add_node_req (re_json E)) st (\<lambda>st' r. do {
       name \<leftarrow> an_name r;
       if NEU_NODE_NAME_LEN \<le> length name then rest_error E NEU_ERR_NODE_NAME_TOO_LONG st'
       else do {
         plugin \<leftarrow> strcpy NEU_PLUGIN_NAME_LEN (an_plugin r);
         rest_command E req NEU_REQ_ADD_NODE (D_add_node name plugin) st'
       }
     })"

text \<open>The errors of \<open>send_node_update_req\<close> before it sends.\<close>

definition update_node_error :: "string \<Rightarrow> string \<Rightarrow> int" where
  "update_node_error name new_name =
     (if NEU_NODE_NAME_LEN \<le> length name \<or> NEU_NODE_NAME_LEN \<le> length new_name then NEU_ERR_NODE_NAME_TOO_LONG
      else if new_name = [] then NEU_ERR_NODE_NAME_EMPTY
      else 0)"

definition handle_update_adapter :: "('j, 'w) rest_env \<Rightarrow> http_req \<Rightarrow> jwt_state \<Rightarrow> rest_out option" where
  "handle_update_adapter E req st =
     NEU_PROCESS_HTTP_REQUEST_VALIDATE_JWT E req (neu_json_decode_update_node_req (re_json E)) st (\<lambda>st' r. do {
       name \<leftarrow> un_name r;
       new_name \<leftarrow> un_new_name r;
       let ret = update_node_error name new_name;
       if ret \<noteq> 0 then rest_error E ret st'
       else rest_command E req NEU_REQ_UPDATE_NODE (D_node_rename name new_name) st'
     })"

definition handle_del_adapter :: "('j, 'w) rest_env \<Rightarrow> http_req \<Rightarrow> jwt_state \<Rightarrow> rest_out option" where
  "handle_del_adapter E req st =
     NEU_PROCESS_HTTP_REQUEST_VALIDATE_JWT E req (neu_json_decode_del_node_req (re_json E)) st (\<lambda>st' r. do {
       name \<leftarrow> strcpy NEU_NODE_NAME_LEN r;
       rest_command E req NEU_REQ_DEL_NODE (D_node name) st'
     })"

text \<open>\<open>erange\<close>: whether the last number that was parsed was out of range.\<close>

definition handle_get_adapter :: "bool \<Rightarrow> ('j, 'w) rest_env \<Rightarrow> http_req \<Rightarrow> jwt_state \<Rightarrow> rest_out option" where
  "handle_get_adapter erange E req st =
     NEU_VALIDATE_JWT E req st (\<lambda>st'.
       case neu_http_get_param_node_type erange (hr_url req) ''type'' of
         None \<Rightarrow> rest_error E NEU_ERR_PARAM_IS_WRONG st'
       | Some node_type \<Rightarrow> do {
           (rp, plugin_name) \<leftarrow> neu_http_get_param_str (hr_url req) ''plugin'' NEU_PLUGIN_NAME_LEN;
           (rn, node_name) \<leftarrow> neu_http_get_param_str (hr_url req) ''node'' NEU_NODE_NAME_LEN;
           rest_command E req NEU_REQ_GET_NODE
             (D_get_node (node_type_code node_type) (if 0 < rp then plugin_name else [])
               (if 0 < rn then node_name else [])) st'
         })"

definition handle_get_adapter_resp :: "'j jansson \<Rightarrow> (string \<times> string) list \<Rightarrow> nng_http_status \<times> string" where
  "handle_get_adapter_resp J nodes =
     neu_http_ok (snd (neu_json_encode_by_fn J (neu_json_encode_get_nodes_resp J
       (map (\<lambda>(node, plugin). \<lparr>gn_name = Some node, gn_plugin = Some plugin\<rparr>) nodes))))"

definition handle_set_node_setting :: "('j, 'w) rest_env \<Rightarrow> http_req \<Rightarrow> jwt_state \<Rightarrow> rest_out option" where
  "handle_set_node_setting E req st =
     NEU_PROCESS_HTTP_REQUEST_VALIDATE_JWT E req (neu_json_decode_node_setting_req (re_json E)) st (\<lambda>st' r. do {
       node \<leftarrow> strcpy NEU_NODE_NAME_LEN (st_node r);
       setting \<leftarrow> st_setting r;
       rest_command E req NEU_REQ_NODE_SETTING (D_node_setting node setting) st'
     })"

definition handle_get_node_setting :: "('j, 'w) rest_env \<Rightarrow> http_req \<Rightarrow> jwt_state \<Rightarrow> rest_out option" where
  "handle_get_node_setting E req st =
     NEU_VALIDATE_JWT E req st (\<lambda>st'. do {
       (rn, node_name) \<leftarrow> neu_http_get_param_str (hr_url req) ''node'' NEU_NODE_NAME_LEN;
       if rn \<le> 0 then rest_error E NEU_ERR_PARAM_IS_WRONG st'
       else rest_command E req NEU_REQ_GET_NODE_SETTING (D_node node_name) st'
     })"

definition handle_get_node_setting_resp ::
  "('j, 'w) rest_env \<Rightarrow> string \<Rightarrow> string option \<Rightarrow> (nng_http_status \<times> string) option" where
  "handle_get_node_setting_resp E node setting =
     (case neu_json_encode_by_fn (re_json E) (neu_json_encode_get_node_setting_resp (re_json E)
             \<lparr>st_node = Some node, st_setting = setting\<rparr>) of
        (ret, json_str) \<Rightarrow>
          if ret \<noteq> 0 then http_error E NEU_ERR_EINTERNAL else Some (neu_http_ok json_str))"

text \<open>
  The command of the request is stored into \<open>neu_adapter_ctl_e\<close>; a number that is neither START nor
  STOP has no place in it and is left out of the model (\<open>None\<close>).
\<close>

definition ctl_of_number :: "u64 \<Rightarrow> neu_adapter_ctl_e option" where
  "ctl_of_number n =
     (if (ucast n :: u32) = 0 then Some NEU_ADAPTER_CTL_START
      else if (ucast n :: u32) = 1 then Some NEU_ADAPTER_CTL_STOP else None)"

definition handle_node_ctl :: "('j, 'w) rest_env \<Rightarrow> http_req \<Rightarrow> jwt_state \<Rightarrow> rest_out option" where
  "handle_node_ctl E req st =
     NEU_PROCESS_HTTP_REQUEST_VALIDATE_JWT E req (neu_json_decode_node_ctl_req (re_json E)) st (\<lambda>st' r. do {
       node \<leftarrow> strcpy NEU_NODE_NAME_LEN (nc_node r);
       ctl \<leftarrow> ctl_of_number (nc_cmd r);
       rest_command E req NEU_REQ_NODE_CTL (D_node_ctl node ctl) st'
     })"

definition handle_get_node_state :: "('j, 'w) rest_env \<Rightarrow> http_req \<Rightarrow> jwt_state \<Rightarrow> rest_out option" where
  "handle_get_node_state E req st =
     NEU_VALIDATE_JWT E req st (\<lambda>st'. do {
       (rn, node_name) \<leftarrow> neu_http_get_param_str (hr_url req) ''node'' NEU_NODE_NAME_LEN;
       if rn \<le> 0 then rest_command E req NEU_REQ_GET_NODES_STATE D_empty st'
       else rest_command E req NEU_REQ_GET_NODE_STATE (D_node node_name) st'
     })"

fun running_number :: "neu_node_running_state_e \<Rightarrow> u64" where
  "running_number NEU_NODE_RUNNING_STATE_INIT = 1"
| "running_number NEU_NODE_RUNNING_STATE_READY = 2"
| "running_number NEU_NODE_RUNNING_STATE_RUNNING = 3"
| "running_number NEU_NODE_RUNNING_STATE_STOPPED = 4"

fun link_number :: "neu_node_link_state_e \<Rightarrow> u64" where
  "link_number NEU_NODE_LINK_STATE_DISCONNECTED = 0"
| "link_number NEU_NODE_LINK_STATE_CONNECTED = 1"

definition handle_get_node_state_resp ::
  "'j jansson \<Rightarrow> neu_node_running_state_e \<Rightarrow> neu_node_link_state_e \<Rightarrow> u16 \<Rightarrow> nng_http_status \<times> string" where
  "handle_get_node_state_resp J running link rtt =
     neu_http_ok (snd (neu_json_encode_by_fn J (neu_json_encode_get_node_state_resp J
       (running_number running) (link_number link) (ucast rtt))))"

text \<open>The states are counted with 16 bits, and all of them are stored.\<close>

definition handle_get_nodes_state_resp ::
  "'j jansson \<Rightarrow> neu_nodes_state_t list \<Rightarrow> (nng_http_status \<times> string) option" where
  "handle_get_nodes_state_resp J states =
     (if 65536 \<le> length states then None
      else Some (neu_http_ok (snd (neu_json_encode_by_fn J (neu_json_encode_get_nodes_state_resp J
        (map (\<lambda>s. \<lparr>gs_name = Some (ns_node s), gs_running = running_number (ns_running s),
                    gs_link = link_number (ns_link s), gs_rtt = ucast (ns_rtt s)\<rparr>) states))))))"

end
