(* ===== verification/GroupRest.thy ===== *)
theory GroupRest
  imports Rest GroupJson Loop
begin

text \<open>
  Groups and subscriptions over REST (\<open>plugins/restful/group_config_handle.c\<close>).  \<open>None\<close> is a crash or
  undefined behaviour, which includes a name that does not fit its array.
\<close>

definition handle_add_group_config :: "('j, 'w) rest_env \<Rightarrow> http_req \<Rightarrow> jwt_state \<Rightarrow> rest_out option" where
  "handle_add_group_config E req st =
     NEU_PROCESS_HTTP_REQUEST_VALIDATE_JWT E req (neu_json_decode_add_group_config_req (re_json E)) st (\<lambda>st' r. do {
       group \<leftarrow> ag_group r;
       if NEU_GROUP_NAME_LEN \<le> length group then rest_error E NEU_ERR_GROUP_NAME_TOO_LONG st'
       else do {
         driver \<leftarrow> strcpy NEU_NODE_NAME_LEN (ag_node r);
         rest_command E req NEU_REQ_ADD_GROUP (D_add_group driver group (ucast (ag_interval r))) st'
       }
     })"

text \<open>The errors of \<open>send_update_group\<close> before it sends, and the new name it sends.\<close>

definition update_group_error ::
  "string \<Rightarrow> string \<Rightarrow> string option \<Rightarrow> u64 option \<Rightarrow> int" where
  "update_group_error node grp new_name interval =
     (if NEU_NODE_NAME_LEN \<le> length node then NEU_ERR_NODE_NAME_TOO_LONG
      else if NEU_GROUP_NAME_LEN \<le> length grp then NEU_ERR_GROUP_NAME_TOO_LONG
      else if (case interval of
                 None \<Rightarrow> False
               | Some i \<Rightarrow> sint i < int (unat NEU_GROUP_INTERVAL_LIMIT) \<or> 0xFFFFFFFF < sint i)
      then NEU_ERR_GROUP_PARAMETER_INVALID
      else if new_name = None \<and> interval = None then NEU_ERR_BODY_IS_WRONG
      else case new_name of
             None \<Rightarrow> 0
           | Some name \<Rightarrow>
               if name = [] then NEU_ERR_BODY_IS_WRONG
               else if NEU_GROUP_NAME_LEN \<le> length name then NEU_ERR_GROUP_NAME_TOO_LONG
               else 0)"

definition handle_update_group :: "('j, 'w) rest_env \<Rightarrow> http_req \<Rightarrow> jwt_state \<Rightarrow> rest_out option" where
  "handle_update_group E req st =
     NEU_PROCESS_HTTP_REQUEST_VALIDATE_JWT E req (neu_json_decode_update_group_config_req (re_json E)) st
       (\<lambda>st' r. do {
         node \<leftarrow> ug_node r;
         grp \<leftarrow> ug_group r;
         let ret = update_group_error node grp (ug_new_name r) (ug_interval r);
         if ret \<noteq> 0 then rest_error E ret st'
         else rest_command E req NEU_REQ_UPDATE_GROUP
                (D_update_group node grp (case ug_new_name r of None \<Rightarrow> grp | Some name \<Rightarrow> name)
                  (case ug_interval r of None \<Rightarrow> 0 | Some i \<Rightarrow> ucast i)) st'
       })"

definition handle_del_group_config :: "('j, 'w) rest_env \<Rightarrow> http_req \<Rightarrow> jwt_state \<Rightarrow> rest_out option" where
  "handle_del_group_config E req st =
     NEU_PROCESS_HTTP_REQUEST_VALIDATE_JWT E req (neu_json_decode_del_group_config_req (re_json E)) st (\<lambda>st' r. do {
       driver \<leftarrow> strcpy NEU_NODE_NAME_LEN (dg_node r);
       group \<leftarrow> strcpy NEU_GROUP_NAME_LEN (dg_group r);
       rest_command E req NEU_REQ_DEL_GROUP (D_group driver group) st'
     })"

definition handle_get_group_config :: "('j, 'w) rest_env \<Rightarrow> http_req \<Rightarrow> jwt_state \<Rightarrow> rest_out option" where
  "handle_get_group_config E req st =
     NEU_VALIDATE_JWT E req st (\<lambda>st'. do {
       (_, node_name) \<leftarrow> neu_http_get_param_str (hr_url req) ''node'' NEU_NODE_NAME_LEN;
       rest_command E req (if node_name = [] then NEU_REQ_GET_DRIVER_GROUP else NEU_REQ_GET_GROUP)
         (D_node node_name) st'
     })"

definition handle_get_group_resp :: "'j jansson \<Rightarrow> neu_resp_group_info_t list \<Rightarrow> nng_http_status \<times> string" where
  "handle_get_group_resp J groups =
     neu_http_ok (snd (neu_json_encode_by_fn J (neu_json_encode_get_group_config_resp J
       (map (\<lambda>g. \<lparr>gc_name = Some (gi_name g), gc_interval = ucast (gi_interval g),
                   gc_tag_count = ucast (gi_tag_count g)\<rparr>) groups))))"

text \<open>A \<open>neu_resp_driver_group_info_t\<close>: driver, group, number of tags and interval.\<close>

definition handle_get_driver_group_resp ::
  "'j jansson \<Rightarrow> (string \<times> string \<times> u16 \<times> u32) list \<Rightarrow> nng_http_status \<times> string" where
  "handle_get_driver_group_resp J groups =
     neu_http_ok (snd (neu_json_encode_by_fn J (neu_json_encode_get_driver_group_resp J
       (map (\<lambda>(driver, group, tag_count, interval).
          \<lparr>dg_driver = Some driver, dg_dgroup = Some group, dg_interval = ucast interval,
           dg_tag_count = ucast tag_count\<rparr>) groups))))"

section \<open>Subscriptions\<close>

definition send_subscribe ::
  "('j, 'w) rest_env \<Rightarrow> http_req \<Rightarrow> neu_reqresp_type \<Rightarrow> jwt_state \<Rightarrow> neu_json_subscribe_t \<Rightarrow> rest_out option" where
  "send_subscribe E req type st r = do {
     app \<leftarrow> strcpy NEU_NODE_NAME_LEN (sb_app r);
     driver \<leftarrow> strcpy NEU_NODE_NAME_LEN (sb_driver r);
     group \<leftarrow> strcpy NEU_GROUP_NAME_LEN (sb_group r);
     rest_command E req type (D_subscribe app driver group (sb_params r)) st
   }"

definition handle_grp_subscribe :: "('j, 'w) rest_env \<Rightarrow> http_req \<Rightarrow> jwt_state \<Rightarrow> rest_out option" where
  "handle_grp_subscribe E req st =
     NEU_PROCESS_HTTP_REQUEST_VALIDATE_JWT E req (neu_json_decode_subscribe_req (re_json E)) st
       (send_subscribe E req NEU_REQ_SUBSCRIBE_GROUP)"

definition handle_grp_update_subscribe :: "('j, 'w) rest_env \<Rightarrow> http_req \<Rightarrow> jwt_state \<Rightarrow> rest_out option" where
  "handle_grp_update_subscribe E req st =
     NEU_PROCESS_HTTP_REQUEST_VALIDATE_JWT E req (neu_json_decode_subscribe_req (re_json E)) st
       (send_subscribe E req NEU_REQ_UPDATE_SUBSCRIBE_GROUP)"

definition handle_grp_unsubscribe :: "('j, 'w) rest_env \<Rightarrow> http_req \<Rightarrow> jwt_state \<Rightarrow> rest_out option" where
  "handle_grp_unsubscribe E req st =
     NEU_PROCESS_HTTP_REQUEST_VALIDATE_JWT E req (neu_json_decode_unsubscribe_req (re_json E)) st (\<lambda>st' r. do {
       app \<leftarrow> strcpy NEU_NODE_NAME_LEN (sb_app r);
       driver \<leftarrow> strcpy NEU_NODE_NAME_LEN (sb_driver r);
       group \<leftarrow> strcpy NEU_GROUP_NAME_LEN (sb_group r);
       rest_command E req NEU_REQ_UNSUBSCRIBE_GROUP (D_unsubscribe app driver group) st'
     })"

text \<open>The names in the list are pointers; the number of groups is cut to 16 bits.\<close>

definition handle_grp_subscribes :: "('j, 'w) rest_env \<Rightarrow> http_req \<Rightarrow> jwt_state \<Rightarrow> rest_out option" where
  "handle_grp_subscribes E req st =
     NEU_PROCESS_HTTP_REQUEST_VALIDATE_JWT E req (neu_json_decode_subscribe_groups_req (re_json E)) st (\<lambda>st' r. do {
       app \<leftarrow> sg_app r;
       groups \<leftarrow> those (map (\<lambda>g. do {
           driver \<leftarrow> sb_driver g;
           group \<leftarrow> sb_group g;
           Some (driver, group, sb_params g)
         }) (sg_groups r));
       rest_command E req NEU_REQ_SUBSCRIBE_GROUPS
         (D_subscribe_groups app (take (length groups mod 65536) groups)) st'
     })"

definition handle_grp_get_subscribe :: "('j, 'w) rest_env \<Rightarrow> http_req \<Rightarrow> jwt_state \<Rightarrow> rest_out option" where
  "handle_grp_get_subscribe E req st =
     NEU_VALIDATE_JWT E req st (\<lambda>st'. do {
       (ra, app) \<leftarrow> neu_http_get_param_str (hr_url req) ''app'' NEU_NODE_NAME_LEN;
       if ra \<le> 0 then rest_error E NEU_ERR_PARAM_IS_WRONG st'
       else rest_command E req NEU_REQ_GET_SUBSCRIBE_GROUP (D_node app) st'
     })"

text \<open>A \<open>neu_resp_subscribe_info_t\<close> without the name of the application.\<close>

definition handle_grp_get_subscribe_resp ::
  "'j jansson \<Rightarrow> (string \<times> string \<times> string option) list \<Rightarrow> nng_http_status \<times> string" where
  "handle_grp_get_subscribe_resp J groups =
     neu_http_ok (snd (neu_json_encode_by_fn J (neu_json_encode_get_subscribe_resp J
       (map (\<lambda>(driver, group, params). \<lparr>sb_app = None, sb_driver = Some driver, sb_group = Some group,
               sb_params = params\<rparr>) groups))))"

end
