(* ===== verification/ConfigJson.thy ===== *)
theory ConfigJson
  imports GroupJson TagJson
begin

text \<open>
  A whole configuration as JSON: nodes, groups, tags, subscriptions and settings
  (\<open>src/parser/neu_json_global_config.c\<close>).  A decoder gives \<open>None\<close> for undefined behaviour and
  \<open>Some None\<close> for the result -1.
\<close>

definition object_field :: "'j jansson \<Rightarrow> 'j option \<Rightarrow> string \<Rightarrow> 'j option" where
  "object_field J ob key = Option.bind ob (\<lambda>j. json_object_get J j key)"

definition array_field :: "'j jansson \<Rightarrow> 'j option \<Rightarrow> string \<Rightarrow> 'j option" where
  "array_field J ob key =
     (case object_field J ob key of
        None \<Rightarrow> None
      | Some arr \<Rightarrow> if json_is_array J arr then Some arr else None)"

section \<open>Tags\<close>

definition decode_add_tags_req ::
  "'j jansson \<Rightarrow> 'j option \<Rightarrow> 'j neu_json_add_tags_req_t option option" where
  "decode_add_tags_req J json_obj =
     (case neu_json_decode_by_json J json_obj
        [want ''driver'' NEU_JSON_STR, want ''group'' NEU_JSON_STR, want ''tags'' NEU_JSON_OBJECT] of
        None \<Rightarrow> None
      | Some (ret, es) \<Rightarrow>
          if ret \<noteq> 0 then Some None
          else map_option (map_option (\<lambda>tags.
                   \<lparr>aq_node = str_of (es ! 0), aq_group = str_of (es ! 1), aq_tags = tags\<rparr>))
                 (neu_json_decode_tag_array_json J (jobj (ev (es ! 2)))))"

definition neu_json_decode_global_config_req_tags ::
  "'j jansson \<Rightarrow> 'j \<Rightarrow> 'j neu_json_add_tags_req_t list option option" where
  "neu_json_decode_global_config_req_tags J json_obj =
     (case array_field J (Some json_obj) ''tags'' of
        None \<Rightarrow> Some None
      | Some tag_array \<Rightarrow>
          decode_list J tag_array (decode_add_tags_req J) [0..<json_array_size J tag_array])"

section \<open>Subscriptions\<close>

definition decode_subscribe_req ::
  "'j jansson \<Rightarrow> string \<Rightarrow> 'j option \<Rightarrow> neu_json_subscribe_t option option" where
  "decode_subscribe_req J app json_obj =
     (case neu_json_decode_by_json J json_obj [want ''driver'' NEU_JSON_STR, want ''group'' NEU_JSON_STR] of
        None \<Rightarrow> None
      | Some (ret, es) \<Rightarrow>
          (case json_obj of
             None \<Rightarrow> Some None
           | Some root \<Rightarrow>
               if ret \<noteq> 0 then Some None
               else (case neu_json_dump_key J root ''params'' None False of
                       (ret', params) \<Rightarrow>
                         Some (if ret' \<noteq> 0 then None
                               else Some \<lparr>sb_app = Some app, sb_driver = str_of (es ! 0),
                                          sb_group = str_of (es ! 1), sb_params = params\<rparr>))))"

text \<open>
  The subscriptions of one application.  A name that is no string is a NULL that is copied for
  each of its groups, so it only matters when there is one.
\<close>

definition decode_app_subscriptions ::
  "'j jansson \<Rightarrow> 'j option \<Rightarrow> neu_json_subscribe_t list option option" where
  "decode_app_subscriptions J sub_obj =
     (case object_field J sub_obj ''app'' of
        None \<Rightarrow> Some None
      | Some app_obj \<Rightarrow>
          (case array_field J sub_obj ''groups'' of
             None \<Rightarrow> Some None
           | Some grp_array \<Rightarrow>
               if json_array_size J grp_array = 0 then Some (Some [])
               else (case json_string_value J app_obj of
                       None \<Rightarrow> None
                     | Some app \<Rightarrow>
                         decode_list J grp_array (decode_subscribe_req J app)
                           [0..<json_array_size J grp_array])))"

text \<open>Before anything is decoded, every entry is tested for its groups.\<close>

definition neu_json_decode_global_config_req_subscriptions ::
  "'j jansson \<Rightarrow> 'j \<Rightarrow> neu_json_subscribe_t list option option" where
  "neu_json_decode_global_config_req_subscriptions J json_obj =
     (case array_field J (Some json_obj) ''subscriptions'' of
        None \<Rightarrow> Some None
      | Some sub_array \<Rightarrow>
          if \<exists>s\<in>set (array_items J sub_array). array_field J s ''groups'' = None then Some None
          else map_option (map_option concat)
                 (decode_list J sub_array (decode_app_subscriptions J) [0..<json_array_size J sub_array]))"

section \<open>Settings\<close>

definition decode_setting :: "'j jansson \<Rightarrow> 'j option \<Rightarrow> neu_json_node_setting_req_t option option" where
  "decode_setting J setting_obj =
     (case object_field J setting_obj ''node'' of
        None \<Rightarrow> Some None
      | Some node_obj \<Rightarrow>
          (case json_string_value J node_obj of
             None \<Rightarrow> None
           | Some node \<Rightarrow>
               (case setting_obj of
                  None \<Rightarrow> Some None
                | Some ob \<Rightarrow>
                    (case neu_json_dump_key J ob ''params'' None True of
                       (ret, setting) \<Rightarrow>
                         Some (if ret \<noteq> 0 then None
                               else Some \<lparr>st_node = Some node, st_setting = setting\<rparr>)))))"

definition neu_json_decode_global_config_req_settings ::
  "'j jansson \<Rightarrow> 'j \<Rightarrow> neu_json_node_setting_req_t list option option" where
  "neu_json_decode_global_config_req_settings J json_obj =
     (case array_field J (Some json_obj) ''settings'' of
        None \<Rightarrow> Some None
      | Some settings_array \<Rightarrow>
          decode_list J settings_array (decode_setting J) [0..<json_array_size J settings_array])"

section \<open>The request\<close>

record 'j neu_json_global_config_req_t =
  gq_nodes :: "neu_json_get_nodes_resp_node_t list"
  gq_groups :: "neu_json_driver_group_t list"
  gq_tags :: "'j neu_json_add_tags_req_t list"
  gq_subscriptions :: "neu_json_subscribe_t list"
  gq_settings :: "neu_json_node_setting_req_t list"

text \<open>One part after the other; the first that fails ends the decoding.\<close>

definition decode_part :: "'a option option \<Rightarrow> ('a \<Rightarrow> 'b option option) \<Rightarrow> 'b option option" where
  "decode_part r f = (case r of None \<Rightarrow> None | Some None \<Rightarrow> Some None | Some (Some x) \<Rightarrow> f x)"

definition neu_json_decode_global_config_req ::
  "'j jansson \<Rightarrow> string \<Rightarrow> 'j neu_json_global_config_req_t option option" where
  "neu_json_decode_global_config_req J buf =
     (case neu_json_decode_new J buf of
        None \<Rightarrow> Some None
      | Some json_obj \<Rightarrow>
          decode_part (neu_json_decode_get_nodes_resp_json J json_obj) (\<lambda>nodes.
          decode_part (neu_json_decode_get_driver_group_resp_json J json_obj) (\<lambda>groups.
          decode_part (neu_json_decode_global_config_req_tags J json_obj) (\<lambda>tags.
          decode_part (neu_json_decode_global_config_req_subscriptions J json_obj) (\<lambda>subs.
          decode_part (neu_json_decode_global_config_req_settings J json_obj) (\<lambda>settings.
            Some (Some \<lparr>gq_nodes = nodes, gq_groups = groups, gq_tags = tags, gq_subscriptions = subs,
                        gq_settings = settings\<rparr>)))))))"

end
