(* ===== verification/ConfigRest.thy ===== *)
theory ConfigRest
  imports TagRest NodeRest GroupRest ConfigJson
begin

text \<open>
  Reading and writing a whole configuration over REST (\<open>plugins/restful/global_config_handle.c\<close>).
  A request becomes a conversation: each response of the core makes the next command, until one
  HTTP response is sent and the context is freed.

  The two arms of the union in \<open>context_t\<close> are two records.  A step ends in \<open>Waiting\<close>, one command
  having been sent, or in \<open>Ended\<close>, the HTTP response having been sent.  \<open>None\<close> is a crash or
  undefined behaviour, in particular the data of another struct than the state expects: only some
  states look at the type of what they receive.
\<close>

section \<open>Contexts\<close>

datatype context_state_e =
    STATE_START | STATE_GET_APP | STATE_GET_DRIVER | STATE_GET_GROUP | STATE_GET_TAG
  | STATE_GET_SUBSCRIPTION | STATE_GET_APP_SETTING | STATE_GET_DRIVER_SETTING | STATE_DEL_APP
  | STATE_DEL_DRIVER | STATE_ADD_NODE | STATE_ADD_GROUP | STATE_ADD_TAG | STATE_ADD_SUBSCRIPTION
  | STATE_ADD_SETTING | STATE_END

type_synonym node_info = "string \<times> string"
type_synonym group_info = "string \<times> string \<times> u16 \<times> u32"

record 'j get_context =
  gx_aio :: nat
  gx_state :: context_state_e
  gx_json :: 'j
  gx_apps :: "node_info list"
  gx_drivers :: "node_info list"
  gx_groups :: "group_info list"
  gx_iter :: "nat option"

record 'j put_context =
  px_aio :: nat
  px_state :: context_state_e
  px_req :: "'j neu_json_global_config_req_t option"
  px_nodes :: "node_info list"
  px_idx :: nat

text \<open>What a response carries.\<close>

datatype config_data =
    CD_error int
  | CD_nodes "node_info list"
  | CD_groups "group_info list"
  | CD_tags "neu_datatag_t list"
  | CD_add_tag u16 int
  | CD_subscriptions "(string \<times> string \<times> string option) list"
  | CD_setting string "string option"

datatype 'c config_step =
    Waiting 'c "neu_reqresp_head_t \<times> reqresp_data"
  | Ended "nng_http_status \<times> string"

definition is_static_node :: "string \<Rightarrow> string \<Rightarrow> bool" where
  "is_static_node name plugin \<longleftrightarrow> name = ''monitor'' \<and> plugin = ''Monitor''"

definition config_error :: "('j, 'w) rest_env \<Rightarrow> int \<Rightarrow> 'c config_step option" where
  "config_error E error = map_option Ended (http_error E error)"

text \<open>The end of the actions that send: an error ends the conversation.\<close>

definition config_send ::
  "('j, 'w) rest_env \<Rightarrow> nat \<Rightarrow> neu_reqresp_type \<Rightarrow> reqresp_data \<Rightarrow> 'c \<Rightarrow> 'c config_step option" where
  "config_send E aio type cmd ctx =
     (let header = \<lparr>rh_type = type, rh_ctx = aio, rh_sender = [], rh_receiver = []\<rparr>
      in if re_op E header cmd \<noteq> 0 then config_error E NEU_ERR_IS_BUSY else Some (Waiting ctx (header, cmd)))"

text \<open>The actions that encode give the changed context, or \<open>Inl\<close> an error.\<close>

definition NEXT :: "('j, 'w) rest_env \<Rightarrow> int + 'c \<Rightarrow> ('c \<Rightarrow> 'd config_step option) \<Rightarrow> 'd config_step option" where
  "NEXT E r k = (case r of Inl error \<Rightarrow> config_error E error | Inr ctx \<Rightarrow> k ctx)"

text \<open>What a handler leaves: what it sent, and the context unless it is freed.\<close>

fun config_out :: "jwt_state \<Rightarrow> 'c config_step \<Rightarrow> rest_out \<times> 'c option" where
  "config_out st (Waiting ctx cmd) = (\<lparr>ro_responses = [], ro_commands = [cmd], ro_keys = st\<rparr>, Some ctx)"
| "config_out st (Ended r) = (responds st [r], None)"

section \<open>Reading a configuration\<close>

definition get_nodes :: "('j, 'w) rest_env \<Rightarrow> nat \<Rightarrow> neu_node_type_e \<Rightarrow> 'c \<Rightarrow> 'c config_step option" where
  "get_nodes E aio type ctx = config_send E aio NEU_REQ_GET_NODE (D_get_node (node_type_code type) [] []) ctx"

definition encoded :: "int \<times> 'j \<Rightarrow> 'j get_context \<Rightarrow> int + 'j get_context" where
  "encoded r ctx = (case r of (ret, ob) \<Rightarrow> if ret \<noteq> 0 then Inl NEU_ERR_EINTERNAL else Inr (ctx\<lparr>gx_json := ob\<rparr>))"

definition get_nodes_resp ::
  "'j jansson \<Rightarrow> 'j get_context \<Rightarrow> node_info list \<Rightarrow> int + 'j get_context" where
  "get_nodes_resp J ctx nodes =
     encoded (neu_json_encode_get_nodes_resp J
         (map (\<lambda>(node, plugin). \<lparr>gn_name = Some node, gn_plugin = Some plugin\<rparr>) nodes) (gx_json ctx))
       (if gx_state ctx = STATE_GET_APP then ctx\<lparr>gx_apps := nodes\<rparr> else ctx\<lparr>gx_drivers := nodes\<rparr>)"

definition get_groups :: "('j, 'w) rest_env \<Rightarrow> 'j get_context \<Rightarrow> 'j get_context config_step option" where
  "get_groups E ctx = config_send E (gx_aio ctx) NEU_REQ_GET_DRIVER_GROUP (D_node []) ctx"

definition get_groups_resp ::
  "'j jansson \<Rightarrow> 'j get_context \<Rightarrow> group_info list \<Rightarrow> int + 'j get_context" where
  "get_groups_resp J ctx groups =
     encoded (neu_json_encode_get_driver_group_resp J
         (map (\<lambda>(driver, group, tag_count, interval).
            \<lparr>dg_driver = Some driver, dg_dgroup = Some group, dg_interval = ucast interval,
             dg_tag_count = ucast tag_count\<rparr>) groups) (gx_json ctx))
       (ctx\<lparr>gx_groups := groups\<rparr>)"

definition get_tags ::
  "('j, 'w) rest_env \<Rightarrow> 'j get_context \<Rightarrow> group_info \<Rightarrow> 'j get_context config_step option" where
  "get_tags E ctx info =
     (case info of (driver, grp, _) \<Rightarrow> do {
        d \<leftarrow> strcpy NEU_NODE_NAME_LEN (Some driver);
        g \<leftarrow> strcpy NEU_GROUP_NAME_LEN (Some grp);
        config_send E (gx_aio ctx) NEU_REQ_GET_TAG (D_get_tag d g []) ctx
      })"

text \<open>The array under a key, a new one if there is none; the object with a longer array.\<close>

definition array_under :: "'j jansson \<Rightarrow> 'j \<Rightarrow> string \<Rightarrow> int \<times> 'j" where
  "array_under J json key =
     (case json_object_get J json key of
        Some _ \<Rightarrow> (0, json)
      | None \<Rightarrow> json_object_set_new J json key (Some (json_array_new J)))"

definition accumulate :: "'j jansson \<Rightarrow> 'j \<Rightarrow> string \<Rightarrow> 'j \<Rightarrow> 'j" where
  "accumulate J json key entry =
     (case json_object_get J json key of
        None \<Rightarrow> json
      | Some arr \<Rightarrow> json_set J json key (Some (json_array_append_new J arr (Some entry))))"

text \<open>A name is set last; one that is no text in UTF-8 fails.\<close>

definition set_names :: "'j jansson \<Rightarrow> 'j \<Rightarrow> (string \<times> string) list \<Rightarrow> int \<times> 'j" where
  "set_names J ob names =
     foldl (\<lambda>(ret, ob) (key, name).
         if ret \<noteq> 0 then (ret, ob) else json_object_set_new J ob key (json_string J name)) (0, ob) names"

definition collect_entry ::
  "'j jansson \<Rightarrow> 'j get_context \<Rightarrow> string \<Rightarrow> (int \<times> 'j) option \<Rightarrow> (string \<times> string) list \<Rightarrow>
    int + 'j get_context" where
  "collect_entry J ctx key entry names =
     (case array_under J (gx_json ctx) key of
        (ret, json) \<Rightarrow>
          if ret \<noteq> 0 then Inl NEU_ERR_EINTERNAL
          else (case entry of
                  None \<Rightarrow> Inr (ctx\<lparr>gx_json := json\<rparr>)
                | Some (r, ob) \<Rightarrow>
                    if r \<noteq> 0 then Inl NEU_ERR_EINTERNAL
                    else (case set_names J ob names of
                            (r', ob') \<Rightarrow>
                              if r' \<noteq> 0 then Inl NEU_ERR_EINTERNAL
                              else Inr (ctx\<lparr>gx_json := accumulate J json key ob'\<rparr>))))"

definition get_tags_resp ::
  "'j jansson \<Rightarrow> 'j get_context \<Rightarrow> neu_datatag_t list \<Rightarrow> (string \<times> string) list \<Rightarrow> int + 'j get_context" where
  "get_tags_resp J ctx tags names =
     collect_entry J ctx ''tags''
       (if tags = [] then None
        else Some (neu_json_encode_get_tags_resp J (map json_of_tag tags) (json_object_new J))) names"

definition get_subscriptions ::
  "('j, 'w) rest_env \<Rightarrow> 'j get_context \<Rightarrow> node_info \<Rightarrow> 'j get_context config_step option" where
  "get_subscriptions E ctx info = do {
     app \<leftarrow> strcpy NEU_NODE_NAME_LEN (Some (fst info));
     config_send E (gx_aio ctx) NEU_REQ_GET_SUBSCRIBE_GROUP (D_node app) ctx
   }"

definition get_subscriptions_resp ::
  "'j jansson \<Rightarrow> 'j get_context \<Rightarrow> (string \<times> string \<times> string option) list \<Rightarrow> (string \<times> string) list \<Rightarrow>
    int + 'j get_context" where
  "get_subscriptions_resp J ctx groups names =
     collect_entry J ctx ''subscriptions''
       (if groups = [] then None
        else Some (neu_json_encode_get_subscribe_resp J
          (map (\<lambda>(driver, group, params). \<lparr>sb_app = None, sb_driver = Some driver, sb_group = Some group,
             sb_params = params\<rparr>) groups) (json_object_new J))) names"

definition get_setting ::
  "('j, 'w) rest_env \<Rightarrow> 'j get_context \<Rightarrow> node_info \<Rightarrow> 'j get_context config_step option" where
  "get_setting E ctx info = do {
     node \<leftarrow> strcpy NEU_NODE_NAME_LEN (Some (fst info));
     config_send E (gx_aio ctx) NEU_REQ_GET_NODE_SETTING (D_node node) ctx
   }"

definition get_setting_resp ::
  "'j jansson \<Rightarrow> 'j get_context \<Rightarrow> (string \<times> string option) option \<Rightarrow> int + 'j get_context" where
  "get_setting_resp J ctx setting =
     collect_entry J ctx ''settings''
       (map_option (\<lambda>(node, s). neu_json_encode_get_node_setting_resp J
          \<lparr>st_node = Some node, st_setting = s\<rparr> (json_object_new J)) setting) []"

text \<open>\<open>utarray_next\<close>.\<close>

definition next_iter :: "'a list \<Rightarrow> nat option \<Rightarrow> nat option" where
  "next_iter xs iter =
     (let i = (case iter of None \<Rightarrow> 0 | Some n \<Rightarrow> Suc n) in if i < length xs then Some i else None)"

text \<open>The states from the last to the first, each falling into the one before it here.\<close>

definition get_end :: "('j, 'w) rest_env \<Rightarrow> 'j get_context \<Rightarrow> 'j get_context config_step option" where
  "get_end E ctx = Some (Ended (neu_http_ok (snd (neu_json_encode (re_json E) (gx_json ctx)))))"

text \<open>An error in the place of a setting is skipped; \<open>data\<close> is NULL on falling through.\<close>

definition setting_data ::
  "nat option \<Rightarrow> config_data option \<Rightarrow> (string \<times> string option) option option" where
  "setting_data iter data =
     (if iter = None then Some None
      else case data of Some (CD_setting node s) \<Rightarrow> Some (Some (node, s)) | _ \<Rightarrow> None)"

definition skipped :: "nat option \<Rightarrow> neu_reqresp_type \<Rightarrow> bool" where
  "skipped iter type \<longleftrightarrow> iter \<noteq> None \<and> type = NEU_RESP_ERROR"

definition at_setting ::
  "('j, 'w) rest_env \<Rightarrow> node_info list \<Rightarrow> ('j get_context \<Rightarrow> 'j get_context config_step option) \<Rightarrow>
    'j get_context \<Rightarrow> neu_reqresp_type \<Rightarrow> config_data option \<Rightarrow> 'j get_context config_step option" where
  "at_setting E nodes fall ctx type data = do {
     r \<leftarrow> (if skipped (gx_iter ctx) type then Some (Inr ctx)
          else map_option (get_setting_resp (re_json E) ctx) (setting_data (gx_iter ctx) data));
     NEXT E r (\<lambda>ctx'. case next_iter nodes (gx_iter ctx') of
         Some i \<Rightarrow> get_setting E (ctx'\<lparr>gx_iter := Some i\<rparr>) (nodes ! i)
       | None \<Rightarrow> fall (ctx'\<lparr>gx_iter := None\<rparr>))
   }"

definition at_driver_setting ::
  "('j, 'w) rest_env \<Rightarrow> 'j get_context \<Rightarrow> neu_reqresp_type \<Rightarrow> config_data option \<Rightarrow>
    'j get_context config_step option" where
  "at_driver_setting E ctx type data = at_setting E (gx_drivers ctx) (get_end E) ctx type data"

definition at_app_setting ::
  "('j, 'w) rest_env \<Rightarrow> 'j get_context \<Rightarrow> neu_reqresp_type \<Rightarrow> config_data option \<Rightarrow>
    'j get_context config_step option" where
  "at_app_setting E ctx type data =
     at_setting E (gx_apps ctx)
       (\<lambda>ctx'. at_driver_setting E (ctx'\<lparr>gx_state := STATE_GET_DRIVER_SETTING\<rparr>) type data) ctx type data"

text \<open>This state takes an error for a list of groups.\<close>

definition at_subscription ::
  "('j, 'w) rest_env \<Rightarrow> 'j get_context \<Rightarrow> neu_reqresp_type \<Rightarrow> config_data option \<Rightarrow>
    'j get_context config_step option" where
  "at_subscription E ctx type data = do {
     r \<leftarrow> (case gx_iter ctx of
            None \<Rightarrow> Some (get_subscriptions_resp (re_json E) ctx [] [])
          | Some i \<Rightarrow>
              (case data of
                 Some (CD_subscriptions groups) \<Rightarrow>
                   Some (get_subscriptions_resp (re_json E) ctx groups [(''app'', fst (gx_apps ctx ! i))])
               | _ \<Rightarrow> None));
     NEXT E r (\<lambda>ctx'. case next_iter (gx_apps ctx') (gx_iter ctx') of
         Some i \<Rightarrow> get_subscriptions E (ctx'\<lparr>gx_iter := Some i\<rparr>) (gx_apps ctx' ! i)
       | None \<Rightarrow> at_app_setting E (ctx'\<lparr>gx_iter := None, gx_state := STATE_GET_APP_SETTING\<rparr>) type data)
   }"

definition at_tag ::
  "('j, 'w) rest_env \<Rightarrow> 'j get_context \<Rightarrow> neu_reqresp_type \<Rightarrow> config_data option \<Rightarrow>
    'j get_context config_step option" where
  "at_tag E ctx type data = do {
     r \<leftarrow> (if skipped (gx_iter ctx) type then Some (Inr ctx)
          else case gx_iter ctx of
                 None \<Rightarrow> Some (get_tags_resp (re_json E) ctx [] [])
               | Some i \<Rightarrow>
                   (case data of
                      Some (CD_tags tags) \<Rightarrow>
                        (case gx_groups ctx ! i of (driver, grp, _) \<Rightarrow>
                           Some (get_tags_resp (re_json E) ctx tags [(''driver'', driver), (''group'', grp)]))
                    | _ \<Rightarrow> None));
     NEXT E r (\<lambda>ctx'. case next_iter (gx_groups ctx') (gx_iter ctx') of
         Some i \<Rightarrow> get_tags E (ctx'\<lparr>gx_iter := Some i\<rparr>) (gx_groups ctx' ! i)
       | None \<Rightarrow> at_subscription E (ctx'\<lparr>gx_iter := None, gx_state := STATE_GET_SUBSCRIPTION\<rparr>) type data)
   }"

definition get_context_next ::
  "('j, 'w) rest_env \<Rightarrow> 'j get_context \<Rightarrow> neu_reqresp_type \<Rightarrow> config_data option \<Rightarrow>
    'j get_context config_step option" where
  "get_context_next E ctx type data =
     (case gx_state ctx of
        STATE_START \<Rightarrow> get_nodes E (gx_aio ctx) NEU_NA_TYPE_APP (ctx\<lparr>gx_state := STATE_GET_APP\<rparr>)
      | STATE_GET_APP \<Rightarrow>
          (case data of
             Some (CD_nodes nodes) \<Rightarrow>
               NEXT E (get_nodes_resp (re_json E) ctx nodes) (\<lambda>ctx'.
                 get_nodes E (gx_aio ctx') NEU_NA_TYPE_DRIVER (ctx'\<lparr>gx_state := STATE_GET_DRIVER\<rparr>))
           | _ \<Rightarrow> None)
      | STATE_GET_DRIVER \<Rightarrow>
          (case data of
             Some (CD_nodes nodes) \<Rightarrow>
               NEXT E (get_nodes_resp (re_json E) ctx nodes) (\<lambda>ctx'.
                 get_groups E (ctx'\<lparr>gx_state := STATE_GET_GROUP\<rparr>))
           | _ \<Rightarrow> None)
      | STATE_GET_GROUP \<Rightarrow>
          (case data of
             Some (CD_groups groups) \<Rightarrow>
               NEXT E (get_groups_resp (re_json E) ctx groups) (\<lambda>ctx'.
                 at_tag E (ctx'\<lparr>gx_iter := None, gx_state := STATE_GET_TAG\<rparr>) type data)
           | _ \<Rightarrow> None)
      | STATE_GET_TAG \<Rightarrow> at_tag E ctx type data
      | STATE_GET_SUBSCRIPTION \<Rightarrow> at_subscription E ctx type data
      | STATE_GET_APP_SETTING \<Rightarrow> at_app_setting E ctx type data
      | STATE_GET_DRIVER_SETTING \<Rightarrow> at_driver_setting E ctx type data
      | _ \<Rightarrow> config_error E NEU_ERR_EINTERNAL)"

definition handle_get_global_config ::
  "('j, 'w) rest_env \<Rightarrow> http_req \<Rightarrow> jwt_state \<Rightarrow> (rest_out \<times> 'j get_context option) option" where
  "handle_get_global_config E req st =
     validated_pair E req st (\<lambda>st'.
       map_option (config_out st')
         (get_context_next E \<lparr>gx_aio = hr_ctx req, gx_state = STATE_START, gx_json = json_object_new (re_json E),
            gx_apps = [], gx_drivers = [], gx_groups = [], gx_iter = None\<rparr> NEU_REQ_GET_NODE None))"

section \<open>Writing a configuration\<close>

definition del_node ::
  "('j, 'w) rest_env \<Rightarrow> 'j put_context \<Rightarrow> node_info \<Rightarrow> 'j put_context config_step option" where
  "del_node E ctx info = do {
     node \<leftarrow> strcpy NEU_NODE_NAME_LEN (Some (fst info));
     config_send E (px_aio ctx) NEU_REQ_DEL_NODE (D_node node) ctx
   }"

definition add_node ::
  "('j, 'w) rest_env \<Rightarrow> 'j put_context \<Rightarrow> neu_json_get_nodes_resp_node_t \<Rightarrow> 'j put_context config_step option" where
  "add_node E ctx r = do {
     node \<leftarrow> strcpy NEU_NODE_NAME_LEN (gn_name r);
     plugin \<leftarrow> strcpy NEU_PLUGIN_NAME_LEN (gn_plugin r);
     config_send E (px_aio ctx) NEU_REQ_ADD_NODE (D_add_node node plugin) ctx
   }"

definition add_group ::
  "('j, 'w) rest_env \<Rightarrow> 'j put_context \<Rightarrow> neu_json_driver_group_t \<Rightarrow> 'j put_context config_step option" where
  "add_group E ctx r = do {
     driver \<leftarrow> strcpy NEU_NODE_NAME_LEN (dg_driver r);
     grp \<leftarrow> strcpy NEU_GROUP_NAME_LEN (dg_dgroup r);
     config_send E (px_aio ctx) NEU_REQ_ADD_GROUP (D_add_group driver grp (ucast (dg_interval r))) ctx
   }"

definition add_tag ::
  "('j, 'w) rest_env \<Rightarrow> 'j put_context \<Rightarrow> 'j neu_json_add_tags_req_t \<Rightarrow> 'j put_context config_step option" where
  "add_tag E ctx r = do {
     driver \<leftarrow> strcpy NEU_NODE_NAME_LEN (aq_node r);
     grp \<leftarrow> strcpy NEU_GROUP_NAME_LEN (aq_group r);
     tags \<leftarrow> those (map tag_of_json (aq_tags r));
     config_send E (px_aio ctx) NEU_REQ_ADD_TAG (D_tags driver grp (counted16 tags)) ctx
   }"

definition add_subscription ::
  "('j, 'w) rest_env \<Rightarrow> 'j put_context \<Rightarrow> neu_json_subscribe_t \<Rightarrow> 'j put_context config_step option" where
  "add_subscription E ctx r = do {
     app \<leftarrow> strcpy NEU_NODE_NAME_LEN (sb_app r);
     driver \<leftarrow> strcpy NEU_NODE_NAME_LEN (sb_driver r);
     grp \<leftarrow> strcpy NEU_GROUP_NAME_LEN (sb_group r);
     config_send E (px_aio ctx) NEU_REQ_SUBSCRIBE_GROUP (D_subscribe app driver grp (sb_params r)) ctx
   }"

definition add_setting ::
  "('j, 'w) rest_env \<Rightarrow> 'j put_context \<Rightarrow> neu_json_node_setting_req_t \<Rightarrow> 'j put_context config_step option" where
  "add_setting E ctx r = do {
     node \<leftarrow> strcpy NEU_NODE_NAME_LEN (st_node r);
     setting \<leftarrow> st_setting r;
     config_send E (px_aio ctx) NEU_REQ_NODE_SETTING (D_node_setting node setting) ctx
   }"

text \<open>
  The error in what is received, read as \<open>neu_resp_error_t\<close> or as \<open>neu_resp_add_tag_t\<close> by the
  state, not by the type of the response.
\<close>

fun read_error :: "config_data option \<Rightarrow> int option" where
  "read_error (Some (CD_error error)) = Some error"
| "read_error _ = None"

fun read_tag_error :: "config_data option \<Rightarrow> int option" where
  "read_tag_error (Some (CD_add_tag _ error)) = Some error"
| "read_tag_error _ = None"

text \<open>
  What the states that work through a list have in common: after the first command, an error ends
  the conversation; then the next command is sent, or the next state entered.  \<open>skip\<close> are the
  entries left out.
\<close>

definition at_list ::
  "('j, 'w) rest_env \<Rightarrow> (config_data option \<Rightarrow> int option) \<Rightarrow> ('a \<Rightarrow> bool) \<Rightarrow> 'a list \<Rightarrow>
    ('j put_context \<Rightarrow> 'a \<Rightarrow> 'j put_context config_step option) \<Rightarrow>
    ('j put_context \<Rightarrow> 'j put_context config_step option) \<Rightarrow>
    'j put_context \<Rightarrow> config_data option \<Rightarrow> 'j put_context config_step option" where
  "at_list E err skip xs act fall ctx data = do {
     error \<leftarrow> (if 0 < px_idx ctx then err data else Some 0);
     if error \<noteq> 0 then config_error E error
     else let idx = px_idx ctx + length (takeWhile skip (drop (px_idx ctx) xs))
          in if idx < length xs then act (ctx\<lparr>px_idx := Suc idx\<rparr>) (xs ! idx)
             else fall (ctx\<lparr>px_idx := idx\<rparr>)
   }"

text \<open>The request is set after the first command has been sent.\<close>

definition part_of ::
  "('j neu_json_global_config_req_t \<Rightarrow> 'a list) \<Rightarrow> 'j put_context \<Rightarrow> 'a list option" where
  "part_of f ctx = map_option f (px_req ctx)"

definition at_add_setting ::
  "('j, 'w) rest_env \<Rightarrow> 'j put_context \<Rightarrow> config_data option \<Rightarrow> 'j put_context config_step option" where
  "at_add_setting E ctx data = do {
     xs \<leftarrow> part_of gq_settings ctx;
     at_list E read_error (\<lambda>_. False) xs (add_setting E) (\<lambda>_. config_error E 0) ctx data
   }"

definition enter :: "context_state_e \<Rightarrow> 'j put_context \<Rightarrow> 'j put_context" where
  "enter s ctx = ctx\<lparr>px_idx := 0, px_state := s\<rparr>"

definition at_add_subscription ::
  "('j, 'w) rest_env \<Rightarrow> 'j put_context \<Rightarrow> config_data option \<Rightarrow> 'j put_context config_step option" where
  "at_add_subscription E ctx data = do {
     xs \<leftarrow> part_of gq_subscriptions ctx;
     at_list E read_error (\<lambda>_. False) xs (add_subscription E)
       (\<lambda>ctx'. at_add_setting E (enter STATE_ADD_SETTING ctx') data) ctx data
   }"

definition at_add_tag ::
  "('j, 'w) rest_env \<Rightarrow> 'j put_context \<Rightarrow> config_data option \<Rightarrow> 'j put_context config_step option" where
  "at_add_tag E ctx data = do {
     xs \<leftarrow> part_of gq_tags ctx;
     at_list E read_tag_error (\<lambda>_. False) xs (add_tag E)
       (\<lambda>ctx'. at_add_subscription E (enter STATE_ADD_SUBSCRIPTION ctx') data) ctx data
   }"

definition at_add_group ::
  "('j, 'w) rest_env \<Rightarrow> 'j put_context \<Rightarrow> config_data option \<Rightarrow> 'j put_context config_step option" where
  "at_add_group E ctx data = do {
     xs \<leftarrow> part_of gq_groups ctx;
     at_list E read_error (\<lambda>_. False) xs (add_group E)
       (\<lambda>ctx'. at_add_tag E (enter STATE_ADD_TAG ctx') data) ctx data
   }"

text \<open>The names of the request are strings here: the decoder has required them.\<close>

definition at_add_node ::
  "('j, 'w) rest_env \<Rightarrow> 'j put_context \<Rightarrow> config_data option \<Rightarrow> 'j put_context config_step option" where
  "at_add_node E ctx data = do {
     xs \<leftarrow> part_of gq_nodes ctx;
     at_list E read_error (\<lambda>n. gn_name n = Some ''monitor'' \<and> gn_plugin n = Some ''Monitor'') xs (add_node E)
       (\<lambda>ctx'. at_add_group E (enter STATE_ADD_GROUP ctx') data) ctx data
   }"

definition at_del ::
  "('j, 'w) rest_env \<Rightarrow> 'j put_context \<Rightarrow> config_data option \<Rightarrow> 'j put_context config_step option" where
  "at_del E ctx data =
     at_list E read_error (\<lambda>(node, plugin). is_static_node node plugin) (px_nodes ctx) (del_node E)
       (\<lambda>ctx'. if px_state ctx' = STATE_DEL_APP
          then get_nodes E (px_aio ctx') NEU_NA_TYPE_DRIVER (ctx'\<lparr>px_nodes := [], px_state := STATE_GET_DRIVER\<rparr>)
          else at_add_node E (enter STATE_ADD_NODE (ctx'\<lparr>px_nodes := []\<rparr>)) data) ctx data"

definition put_context_next ::
  "('j, 'w) rest_env \<Rightarrow> 'j put_context \<Rightarrow> config_data option \<Rightarrow> 'j put_context config_step option" where
  "put_context_next E ctx data =
     (case px_state ctx of
        STATE_START \<Rightarrow> get_nodes E (px_aio ctx) NEU_NA_TYPE_APP (ctx\<lparr>px_state := STATE_GET_APP\<rparr>)
      | STATE_GET_APP \<Rightarrow>
          (case data of
             Some (CD_nodes nodes) \<Rightarrow> at_del E (enter STATE_DEL_APP (ctx\<lparr>px_nodes := nodes\<rparr>)) data
           | _ \<Rightarrow> None)
      | STATE_GET_DRIVER \<Rightarrow>
          (case data of
             Some (CD_nodes nodes) \<Rightarrow> at_del E (enter STATE_DEL_DRIVER (ctx\<lparr>px_nodes := nodes\<rparr>)) data
           | _ \<Rightarrow> None)
      | STATE_DEL_APP \<Rightarrow> at_del E ctx data
      | STATE_DEL_DRIVER \<Rightarrow> at_del E ctx data
      | STATE_ADD_NODE \<Rightarrow> at_add_node E ctx data
      | STATE_ADD_GROUP \<Rightarrow> at_add_group E ctx data
      | STATE_ADD_TAG \<Rightarrow> at_add_tag E ctx data
      | STATE_ADD_SUBSCRIPTION \<Rightarrow> at_add_subscription E ctx data
      | STATE_ADD_SETTING \<Rightarrow> at_add_setting E ctx data
      | _ \<Rightarrow> config_error E NEU_ERR_EINTERNAL)"

text \<open>When the first command cannot be sent, the request is stored into the freed context.\<close>

definition handle_put_global_config ::
  "('j, 'w) rest_env \<Rightarrow> http_req \<Rightarrow> jwt_state \<Rightarrow> (rest_out \<times> 'j put_context option) option" where
  "handle_put_global_config E req st =
     validated_pair E req st (\<lambda>st'.
       case neu_http_get_body req of
         None \<Rightarrow> Some (responds st' [neu_http_bad_request (Some error_1002)], None)
       | Some buf \<Rightarrow>
           (case neu_json_decode_global_config_req (re_json E) buf of
              None \<Rightarrow> None
            | Some None \<Rightarrow> Some (responds st' [neu_http_bad_request (Some error_1002)], None)
            | Some (Some r) \<Rightarrow>
                (case put_context_next E \<lparr>px_aio = hr_ctx req, px_state = STATE_START, px_req = None,
                    px_nodes = [], px_idx = 0\<rparr> None of
                   Some (Waiting ctx cmd) \<Rightarrow> Some (config_out st' (Waiting (ctx\<lparr>px_req := Some r\<rparr>) cmd))
                 | _ \<Rightarrow> None)))"

end
