(* ===== verification/SystemJson.thy ===== *)
theory SystemJson
  imports NodeJson Plugins
begin

text \<open>
  Requests about plugins, logs and files and their answers as JSON (\<open>src/parser/neu_json_plugin.c\<close>,
  \<open>neu_json_log.c\<close>, \<open>neu_json_file.c\<close>), and the headers of messages for brokers
  (\<open>neu_json_mqtt.c\<close>).  A decoder gives \<open>None\<close> for undefined behaviour and \<open>Some None\<close> for the
  result -1.
\<close>

section \<open>Plugins\<close>

definition neu_json_decode_add_plugin_req :: "'j jansson \<Rightarrow> string \<Rightarrow> string option option option" where
  "neu_json_decode_add_plugin_req J buf =
     decode_fields J (neu_json_decode_new J buf) [want ''library'' NEU_JSON_STR] (\<lambda>es. str_of (es ! 0))"

definition neu_json_decode_del_plugin_req :: "'j jansson \<Rightarrow> string \<Rightarrow> string option option option" where
  "neu_json_decode_del_plugin_req J buf =
     decode_fields J (neu_json_decode_new J buf) [want ''plugin'' NEU_JSON_STR] (\<lambda>es. str_of (es ! 0))"

record neu_json_plugin_lib_t =
  pl_name :: string
  pl_schema :: string
  pl_library :: string
  pl_description :: string
  pl_description_zh :: string
  pl_kind :: u64
  pl_node_type :: u64

definition neu_json_encode_get_plugin_resp ::
  "'j jansson \<Rightarrow> neu_json_plugin_lib_t list \<Rightarrow> 'j \<Rightarrow> int \<times> 'j" where
  "neu_json_encode_get_plugin_resp J libs json_object =
     (let plugin_lib_array = encode_list J
            (\<lambda>p. [int_elem ''node_type'' (pl_node_type p), str_elem ''name'' (Some (pl_name p)),
                  str_elem ''schema'' (Some (pl_schema p)), str_elem ''library'' (Some (pl_library p)),
                  str_elem ''description'' (Some (pl_description p)),
                  str_elem ''description_zh'' (Some (pl_description_zh p)), int_elem ''kind'' (pl_kind p)])
            (json_array_new J) libs
      in neu_json_encode_field J json_object [object_elem ''plugins'' (Some plugin_lib_array)])"

section \<open>Logs\<close>

definition neu_json_decode_update_log_level_req ::
  "'j jansson \<Rightarrow> string \<Rightarrow> string option option option" where
  "neu_json_decode_update_log_level_req J buf =
     decode_fields J (neu_json_decode_new J buf) [want ''node'' NEU_JSON_STR] (\<lambda>es. str_of (es ! 0))"

text \<open>A list of strings becomes an array of elements without names.\<close>

definition encode_strings :: "'j jansson \<Rightarrow> 'j \<Rightarrow> string option list \<Rightarrow> 'j" where
  "encode_strings J arr xs =
     foldl (\<lambda>a x. neu_json_encode_array_value J (Some a)
         [\<lparr>eattribute = NEU_JSON_ATTRIBUTE_REQUIRED, ename = None, et = NEU_JSON_STR,
           ev = zero_json_value\<lparr>jstr := x\<rparr>\<rparr>]) arr xs"

record neu_json_get_log_resp_t =
  lg_page_count :: u64
  lg_rows :: "string option list"
  lg_error :: u64

definition neu_json_encode_get_log_resp ::
  "'j jansson \<Rightarrow> neu_json_get_log_resp_t \<Rightarrow> 'j \<Rightarrow> int \<times> 'j" where
  "neu_json_encode_get_log_resp J resp json_object =
     neu_json_encode_field J json_object
       [object_elem ''rows'' (Some (encode_strings J (json_array_new J) (lg_rows resp))),
        int_elem ''page_count'' (lg_page_count resp), int_elem ''error'' (lg_error resp)]"

section \<open>Files\<close>

text \<open>The size is an \<open>int\<close> of 32 bits.\<close>

record neu_json_get_file_resp_t =
  fr_name :: string
  fr_size :: u32
  fr_ctime :: string
  fr_mtime :: string

definition neu_json_encode_get_file_list_resp ::
  "'j jansson \<Rightarrow> neu_json_get_file_resp_t list \<Rightarrow> 'j \<Rightarrow> int \<times> 'j" where
  "neu_json_encode_get_file_list_resp J files json_object =
     (let file_list_array = encode_list J
            (\<lambda>f. [str_elem ''name'' (Some (fr_name f)), int_elem ''size'' (scast (fr_size f)),
                  str_elem ''ctime'' (Some (fr_ctime f)), str_elem ''mtime'' (Some (fr_mtime f))])
            (json_array_new J) files
      in neu_json_encode_field J json_object [object_elem ''files'' (Some file_list_array)])"

section \<open>Messages for brokers\<close>

definition neu_json_decode_mqtt_req :: "'j jansson \<Rightarrow> string \<Rightarrow> string option option option" where
  "neu_json_decode_mqtt_req J buf =
     map_option (\<lambda>(ret, es). if ret = 0 then Some (str_of (es ! 0)) else None)
       (neu_json_decode J buf [want ''uuid'' NEU_JSON_STR])"

definition neu_json_encode_mqtt_resp :: "'j jansson \<Rightarrow> string option \<Rightarrow> 'j \<Rightarrow> int \<times> 'j" where
  "neu_json_encode_mqtt_resp J uuid json_object = neu_json_encode_field J json_object [str_elem ''uuid'' uuid]"

record neu_json_states_head_t =
  sh_version :: "string option"
  sh_timpstamp :: u64

definition neu_json_encode_state_header_resp ::
  "'j jansson \<Rightarrow> neu_json_states_head_t \<Rightarrow> 'j \<Rightarrow> int \<times> 'j" where
  "neu_json_encode_state_header_resp J resp json_object =
     neu_json_encode_field J json_object
       [str_elem ''version'' (sh_version resp), int_elem ''timestamp'' (sh_timpstamp resp)]"

record neu_json_node_state_t =
  js_node :: "string option"
  js_link :: u32
  js_running :: u32

definition neu_json_encode_states_resp ::
  "'j jansson \<Rightarrow> neu_json_node_state_t list \<Rightarrow> 'j \<Rightarrow> int \<times> 'j" where
  "neu_json_encode_states_resp J states json_object =
     (let state_array = encode_list J
            (\<lambda>s. [str_elem ''node'' (js_node s), int_elem ''link'' (scast (js_link s)),
                  int_elem ''running'' (scast (js_running s))])
            (json_array_new J) states
      in neu_json_encode_field J json_object [object_elem ''states'' (Some state_array)])"

end
