(* ===== verification/SystemRest.thy ===== *)
theory SystemRest
  imports Rest SystemJson
begin

text \<open>
  Plugins, the version, logs and files over REST (\<open>plugins/restful/plugin_handle.c\<close>,
  \<open>version_handle.c\<close>, \<open>log_handle.c\<close>, \<open>file_handle.c\<close>).  \<open>None\<close> is a crash or undefined
  behaviour.  The files of the machine and the log library are arguments.
\<close>

section \<open>Plugins\<close>

definition handle_add_plugin :: "('j, 'w) rest_env \<Rightarrow> http_req \<Rightarrow> jwt_state \<Rightarrow> rest_out option" where
  "handle_add_plugin E req st =
     NEU_PROCESS_HTTP_REQUEST_VALIDATE_JWT E req (neu_json_decode_add_plugin_req (re_json E)) st (\<lambda>st' r. do {
       library \<leftarrow> strcpy NEU_PLUGIN_LIBRARY_LEN r;
       rest_command E req NEU_REQ_ADD_PLUGIN (D_add_plugin library) st'
     })"

text \<open>A name of as many characters as the array has passes the test but does not fit.\<close>

definition handle_del_plugin :: "('j, 'w) rest_env \<Rightarrow> http_req \<Rightarrow> jwt_state \<Rightarrow> rest_out option" where
  "handle_del_plugin E req st =
     NEU_PROCESS_HTTP_REQUEST_VALIDATE_JWT E req (neu_json_decode_del_plugin_req (re_json E)) st (\<lambda>st' r. do {
       plugin \<leftarrow> r;
       if length plugin \<le> NEU_PLUGIN_NAME_LEN
       then do {
         name \<leftarrow> strcpy NEU_PLUGIN_NAME_LEN (Some plugin);
         rest_command E req NEU_REQ_DEL_PLUGIN (D_del_plugin name) st'
       }
       else rest_error E NEU_ERR_BODY_IS_WRONG st'
     })"

definition handle_get_plugin :: "('j, 'w) rest_env \<Rightarrow> http_req \<Rightarrow> jwt_state \<Rightarrow> rest_out option" where
  "handle_get_plugin E req st = NEU_VALIDATE_JWT E req st (rest_command E req NEU_REQ_GET_PLUGIN D_empty)"

fun plugin_kind_code :: "neu_plugin_kind_e \<Rightarrow> u64" where
  "plugin_kind_code NEU_PLUGIN_KIND_STATIC = 0"
| "plugin_kind_code NEU_PLUGIN_KIND_SYSTEM = 1"
| "plugin_kind_code NEU_PLUGIN_KIND_CUSTOM = 2"

definition handle_get_plugin_resp :: "'j jansson \<Rightarrow> neu_resp_plugin_info_t list \<Rightarrow> nng_http_status \<times> string" where
  "handle_get_plugin_resp J plugins =
     neu_http_ok (snd (neu_json_encode_by_fn J (neu_json_encode_get_plugin_resp J
       (map (\<lambda>info. \<lparr>pl_name = pi_name info, pl_schema = pi_schema info, pl_library = pi_library info,
          pl_description = pi_description info, pl_description_zh = pi_description_zh info,
          pl_kind = plugin_kind_code (pi_kind info), pl_node_type = ucast (node_type_code (pi_type info))\<rparr>)
        plugins))))"

section \<open>Version and logs\<close>

definition json_pair :: "string \<Rightarrow> string \<Rightarrow> string" where
  "json_pair k v = [CHR 0x22] @ k @ [CHR 0x22, CHR '':'', CHR 0x22] @ v @ [CHR 0x22]"

definition handle_get_version :: "('j, 'w) rest_env \<Rightarrow> http_req \<Rightarrow> jwt_state \<Rightarrow> rest_out option" where
  "handle_get_version E req st =
     NEU_VALIDATE_JWT E req st (\<lambda>st'.
       map_option (\<lambda>r. responds st' [r])
         (neu_http_response 0 (Some (''{'' @ json_pair ''version'' ''1.0'' @ '', '' @ json_pair ''revision'' ''1.0'' @
            '', '' @ json_pair ''build_date'' ''1.0'' @ ''}''))))"

text \<open>
  \<open>switch\<close> finds the category of a name and sets its level to DEBUG.  A failure is answered at
  once, but neither ends the handler nor keeps back the command.
\<close>

definition handle_log_level ::
  "(string option \<Rightarrow> int) \<Rightarrow> ('j, 'w) rest_env \<Rightarrow> http_req \<Rightarrow> jwt_state \<Rightarrow> rest_out option" where
  "handle_log_level switch E req st =
     NEU_PROCESS_HTTP_REQUEST_VALIDATE_JWT E req (neu_json_decode_update_log_level_req (re_json E)) st (\<lambda>st' r. do {
       let failed = (\<lambda>c. if switch c = 0 then Some [] else map_option (\<lambda>x. [x]) (http_error E NEU_ERR_EINTERNAL));
       e1 \<leftarrow> failed r;
       e2 \<leftarrow> failed (Some ''neuron'');
       node \<leftarrow> strcpy NEU_NODE_NAME_LEN r;
       out \<leftarrow> rest_command E req NEU_REQ_UPDATE_LOG_LEVEL (D_node node) st';
       Some (out\<lparr>ro_responses := e1 @ e2 @ ro_responses out\<rparr>)
     })"

section \<open>Files\<close>

text \<open>
  A path has a status (\<open>stat\<close>: its size and the texts of \<open>ctime\<close> for its two times), can be opened
  or not, and a directory has names in the order of \<open>readdir\<close>, which are taken to stay
  readable until \<open>closedir\<close>.
\<close>

datatype system_result = System_failed | Exited nat | Signalled

record file_stat =
  fs_size :: nat
  fs_ctime :: string
  fs_mtime :: string

record file_env =
  fe_stat :: "string \<Rightarrow> file_stat option"
  fe_open :: "string \<Rightarrow> string option"
  fe_dir :: "string \<Rightarrow> string list option"
  fe_system :: "string \<Rightarrow> system_result"

definition fe_access :: "file_env \<Rightarrow> string \<Rightarrow> bool" where
  "fe_access F path \<longleftrightarrow> fe_stat F path \<noteq> None"

definition read_file :: "file_env \<Rightarrow> string \<Rightarrow> int + string" where
  "read_file F name =
     (case fe_stat F name of
        None \<Rightarrow> Inl NEU_ERR_FILE_NOT_EXIST
      | Some s \<Rightarrow>
          (case fe_open F name of
             None \<Rightarrow> Inl NEU_ERR_FILE_OPEN_FAILURE
           | Some content \<Rightarrow>
               if length content < fs_size s then Inl NEU_ERR_FILE_READ_FAILURE
               else Inr (take (fs_size s) content)))"

text \<open>A response with a file: its data is the body, its \<open>Content-Disposition\<close> is given beside it.\<close>

definition neu_http_response_file :: "jwt_state \<Rightarrow> string \<Rightarrow> string \<Rightarrow> rest_out \<times> string option" where
  "neu_http_response_file st data disposition = (responds st [(NNG_HTTP_STATUS_OK, data)], Some disposition)"

definition no_file :: "rest_out option \<Rightarrow> (rest_out \<times> string option) option" where
  "no_file r = map_option (\<lambda>out. (out, None)) r"

text \<open>
  The archive is read whatever the exit status of \<open>tar\<close> is: a status is compared with 0 from
  below.  \<open>F\<close> is the state of the files after the two commands.
\<close>

definition tar_command :: string where
  "tar_command = ''tar -zcvf /tmp/neuron_debug.tar.gz --exclude='' @ [CHR 0x27] @
     ''persistence/neuron.lic'' @ [CHR 0x27] @ '' ../neuron''"

definition handle_logs_files ::
  "bool \<Rightarrow> file_env \<Rightarrow> ('j, 'w) rest_env \<Rightarrow> http_req \<Rightarrow> jwt_state \<Rightarrow> (rest_out \<times> string option) option" where
  "handle_logs_files neuron_exists F E req st =
     validated_pair E req st (\<lambda>st'.
       if \<not> neuron_exists then no_file (rest_error E NEU_ERR_FILE_NOT_EXIST st')
       else if (case fe_system F tar_command of Exited _ \<Rightarrow> False | _ \<Rightarrow> True)
       then no_file (rest_error E NEU_ERR_COMMAND_EXECUTION_FAILED st')
       else case read_file F ''/tmp/neuron_debug.tar.gz'' of
              Inl rv \<Rightarrow> no_file (rest_error E rv st')
            | Inr data \<Rightarrow> Some (neu_http_response_file st' data ''attachment; filename=neuron_debug.tar.gz''))"

text \<open>The name after the last slash; without any slash a NULL is searched.\<close>

fun after_slashes :: "string \<Rightarrow> string" where
  "after_slashes [] = []"
| "after_slashes (c # s) = (if CHR ''/'' \<in> set (c # s) then after_slashes s else c # s)"

definition NEU_FILE_PATH_LEN :: nat where "NEU_FILE_PATH_LEN = 128"

definition handle_download_file ::
  "file_env \<Rightarrow> ('j, 'w) rest_env \<Rightarrow> http_req \<Rightarrow> jwt_state \<Rightarrow> (rest_out \<times> string option) option" where
  "handle_download_file F E req st =
     validated_pair E req st (\<lambda>st'. do {
       (rv, file_path) \<leftarrow> neu_http_get_param_str (hr_url req) ''file_path'' 256;
       if rv \<le> 0 then no_file (rest_error E NEU_ERR_PARAM_IS_WRONG st')
       else if \<not> fe_access F file_path then no_file (rest_error E NEU_ERR_FILE_NOT_EXIST st')
       else case read_file F file_path of
              Inl rv \<Rightarrow> no_file (rest_error E rv st')
            | Inr data \<Rightarrow>
                if CHR ''/'' \<notin> set file_path then None
                else do {
                  file_name \<leftarrow> strcpy NEU_FILE_PATH_LEN (Some (after_slashes file_path));
                  Some (neu_http_response_file st' data (''attachment; filename='' @ file_name))
                }
     })"

text \<open>
  Every entry points to the same two texts of times, which each file overwrites from their start
  with all but the last character of its own.  An entry whose status cannot be read has no size.
\<close>

definition overwrite_time :: "string \<Rightarrow> string \<Rightarrow> string option" where
  "overwrite_time old t =
     (if t = [] \<or> 32 < length t then None else Some (butlast t @ drop (length t - 1) old))"

fun file_times :: "file_env \<Rightarrow> string \<Rightarrow> string list \<Rightarrow> string \<times> string \<Rightarrow> ((string \<times> nat) list \<times> string \<times> string) option" where
  "file_times F dir [] tms = Some ([], tms)"
| "file_times F dir (name # names) (c_time, m_time) =
     (if 512 \<le> length (dir @ ''/'' @ name) then None
      else case fe_stat F (dir @ ''/'' @ name) of
             None \<Rightarrow> None
           | Some s \<Rightarrow> do {
               c \<leftarrow> overwrite_time c_time (fs_ctime s);
               m \<leftarrow> overwrite_time m_time (fs_mtime s);
               (entries, tms) \<leftarrow> file_times F dir names (c, m);
               Some ((name, fs_size s) # entries, tms)
             })"

definition handle_file_info :: "file_env \<Rightarrow> ('j, 'w) rest_env \<Rightarrow> http_req \<Rightarrow> jwt_state \<Rightarrow> rest_out option" where
  "handle_file_info F E req st =
     NEU_VALIDATE_JWT E req st (\<lambda>st'. do {
       (rv, dir_path) \<leftarrow> neu_http_get_param_str (hr_url req) ''dir_path'' 128;
       if rv \<le> 0 then rest_error E NEU_ERR_PARAM_IS_WRONG st'
       else if \<not> fe_access F dir_path then rest_error E NEU_ERR_FILE_NOT_EXIST st'
       else case fe_dir F dir_path of
              None \<Rightarrow> rest_error E NEU_ERR_FILE_OPEN_FAILURE st'
            | Some all_names \<Rightarrow> do {
                let names = filter (\<lambda>n. n \<noteq> ''.'' \<and> n \<noteq> ''..'') all_names;
                if 256 < length names then None
                else do {
                  (entries, c_time, m_time) \<leftarrow> file_times F dir_path names ([], []);
                  Some (responds st' [neu_http_ok (snd (neu_json_encode_by_fn (re_json E)
                    (neu_json_encode_get_file_list_resp (re_json E)
                      (map (\<lambda>(name, n). \<lparr>fr_name = name, fr_size = of_nat n, fr_ctime = c_time,
                                         fr_mtime = m_time\<rparr>) entries))))])
                }
              }
     })"

end
