(* ===== verification/User.thy ===== *)
theory User
  imports Http
begin

text \<open>
  Users and their passwords (\<open>plugins/restful/user.c\<close>): the hash of a password by the SHA-crypt
  algorithm, and the users, of whom the database is commented out.

  The library OpenSSL is the parameter \<open>L\<close>: a message digest is a function of the bytes it was
  given, so that a context is the list of these bytes.  Whether \<open>OPENSSL_zalloc(0)\<close> gives a
  block is left open.  Allocations do not fail otherwise.  A password is a C string.
\<close>

unbundle bit_operations_syntax

record openssl =
  EVP_sha256 :: "bytes \<Rightarrow> bytes"
  EVP_sha512 :: "bytes \<Rightarrow> bytes"
  RAND_bytes :: "nat \<Rightarrow> bytes option"
  zalloc_0 :: bool

text \<open>Documented behaviour: the sizes of the digests and of random bytes.\<close>

definition openssl_ok :: "openssl \<Rightarrow> bool" where
  "openssl_ok L \<longleftrightarrow> (\<forall>m. length (EVP_sha256 L m) = 32) \<and> (\<forall>m. length (EVP_sha512 L m) = 64) \<and>
     (\<forall>n bs. RAND_bytes L n = Some bs \<longrightarrow> length bs = n)"

section \<open>Text of a digest\<close>

definition cov_2char :: string where
  "cov_2char = map char_of
     [0x2E, 0x2F, 0x30, 0x31, 0x32, 0x33, 0x34, 0x35, 0x36, 0x37, 0x38,
      0x39, 0x41, 0x42, 0x43, 0x44, 0x45, 0x46, 0x47, 0x48, 0x49, 0x4A,
      0x4B, 0x4C, 0x4D, 0x4E, 0x4F, 0x50, 0x51, 0x52, 0x53, 0x54, 0x55,
      0x56, 0x57, 0x58, 0x59, 0x5A, 0x61, 0x62, 0x63, 0x64, 0x65, 0x66,
      0x67, 0x68, 0x69, 0x6A, 0x6B, 0x6C, 0x6D, 0x6E, 0x6F, 0x70, 0x71,
      0x72, 0x73, 0x74, 0x75, 0x76, 0x77, 0x78, 0x79, 0x7A :: nat]"

text \<open>The loop of the macro: \<open>n\<close> characters of six bits each, the lowest first.\<close>

fun sixbit_loop :: "nat \<Rightarrow> u32 \<Rightarrow> string" where
  "sixbit_loop 0 w = []"
| "sixbit_loop (Suc n) w = cov_2char ! unat (w AND 0x3f) # sixbit_loop n (drop_bit 6 w)"

definition b64_from_24bit :: "u8 \<Rightarrow> u8 \<Rightarrow> u8 \<Rightarrow> nat \<Rightarrow> string" where
  "b64_from_24bit b2 b1 b0 n =
     sixbit_loop n (push_bit 16 (ucast b2) OR push_bit 8 (ucast b1) OR ucast b0)"

text \<open>The bytes of a group, \<open>None\<close> being the constant 0, and its number of characters.\<close>

type_synonym b64_group = "nat option \<times> nat option \<times> nat option \<times> nat"

definition groups_5 :: "b64_group list" where
  "groups_5 =
     [(Some 0, Some 10, Some 20, 4), (Some 21, Some 1, Some 11, 4), (Some 12, Some 22, Some 2, 4),
      (Some 3, Some 13, Some 23, 4), (Some 24, Some 4, Some 14, 4), (Some 15, Some 25, Some 5, 4),
      (Some 6, Some 16, Some 26, 4), (Some 27, Some 7, Some 17, 4), (Some 18, Some 28, Some 8, 4),
      (Some 9, Some 19, Some 29, 4), (None, Some 31, Some 30, 3)]"

definition groups_6 :: "b64_group list" where
  "groups_6 =
     [(Some 0, Some 21, Some 42, 4), (Some 22, Some 43, Some 1, 4), (Some 44, Some 2, Some 23, 4),
      (Some 3, Some 24, Some 45, 4), (Some 25, Some 46, Some 4, 4), (Some 47, Some 5, Some 26, 4),
      (Some 6, Some 27, Some 48, 4), (Some 28, Some 49, Some 7, 4), (Some 50, Some 8, Some 29, 4),
      (Some 9, Some 30, Some 51, 4), (Some 31, Some 52, Some 10, 4), (Some 53, Some 11, Some 32, 4),
      (Some 12, Some 33, Some 54, 4), (Some 34, Some 55, Some 13, 4), (Some 56, Some 14, Some 35, 4),
      (Some 15, Some 36, Some 57, 4), (Some 37, Some 58, Some 16, 4), (Some 59, Some 17, Some 38, 4),
      (Some 18, Some 39, Some 60, 4), (Some 40, Some 61, Some 19, 4), (Some 62, Some 20, Some 41, 4),
      (None, None, Some 63, 2)]"

definition group_byte :: "bytes \<Rightarrow> nat option \<Rightarrow> u8" where
  "group_byte buf i = (case i of None \<Rightarrow> 0 | Some k \<Rightarrow> buf ! k)"

definition digest_text :: "b64_group list \<Rightarrow> bytes \<Rightarrow> string" where
  "digest_text gs buf =
     concat (map (\<lambda>(i, j, k, n). b64_from_24bit (group_byte buf i) (group_byte buf j) (group_byte buf k) n) gs)"

section \<open>The digest\<close>

text \<open>\<open>n\<close> bytes of repetitions of \<open>buf\<close>, a block at a time.\<close>

function repeat_block :: "nat \<Rightarrow> bytes \<Rightarrow> bytes" where
  "repeat_block n buf =
     (if buf \<noteq> [] \<and> length buf < n then buf @ repeat_block (n - length buf) buf else take n buf)"
  by pat_completeness auto

termination by (relation "measure fst") auto

declare repeat_block.simps [simp del]

text \<open>The loop over the bits of the length of the password.\<close>

function length_bits :: "nat \<Rightarrow> bytes \<Rightarrow> bytes \<Rightarrow> bytes" where
  "length_bits n buf passwd =
     (if n = 0 then [] else (if odd n then buf else passwd) @ length_bits (n div 2) buf passwd)"
  by pat_completeness auto

termination by (relation "measure fst") auto

declare length_bits.simps [simp del]

definition sha_round :: "(bytes \<Rightarrow> bytes) \<Rightarrow> bytes \<Rightarrow> bytes \<Rightarrow> bytes \<Rightarrow> nat \<Rightarrow> bytes" where
  "sha_round sha p s buf n =
     sha ((if odd n then p else buf) @ (if n mod 3 \<noteq> 0 then s else []) @
          (if n mod 7 \<noteq> 0 then p else []) @ (if odd n then buf else p))"

definition sha_digest :: "(bytes \<Rightarrow> bytes) \<Rightarrow> bytes \<Rightarrow> bytes \<Rightarrow> nat \<Rightarrow> bytes" where
  "sha_digest sha passwd salt rounds =
     (let n = length passwd;
          alt = sha (passwd @ salt @ passwd);
          buf = sha (passwd @ salt @ repeat_block n alt @ length_bits n alt passwd);
          p = repeat_block n (sha (concat (replicate n passwd)));
          s = repeat_block (length salt) (sha (concat (replicate (16 + unat (buf ! 0)) salt)))
      in foldl (sha_round sha p s) buf [0..<rounds])"

section \<open>The hash of a password\<close>

definition SALT_LEN_MAX :: nat where "SALT_LEN_MAX = 16"
definition ROUNDS_DEFAULT :: nat where "ROUNDS_DEFAULT = 5000"
definition ROUNDS_MIN :: nat where "ROUNDS_MIN = 1000"
definition ROUNDS_MAX :: nat where "ROUNDS_MAX = 999999999"

text \<open>Whether the salt gives the number of rounds, the number, and the salt after it.\<close>

definition salt_rounds :: "string \<Rightarrow> (bool \<times> nat \<times> string) option" where
  "salt_rounds salt =
     (if prefix ''rounds='' salt
      then (case strtoumax10 (drop 7 salt) of
              (srounds, _, CHR ''$'' # salt') \<Rightarrow>
                Some (True, if unat srounds > ROUNDS_MAX then ROUNDS_MAX
                            else if unat srounds < ROUNDS_MIN then ROUNDS_MIN else unat srounds, salt')
            | _ \<Rightarrow> None)
      else Some (False, ROUNDS_DEFAULT, salt))"

definition out_len :: nat where "out_len = 3 + 17 + 17 + 86 + 1"

definition shacrypt_head :: "string \<Rightarrow> bool \<Rightarrow> nat \<Rightarrow> string \<Rightarrow> string" where
  "shacrypt_head magic custom rounds salt =
     ''$'' @ magic @ ''$'' @ (if custom then ''rounds='' @ show_nat rounds @ ''$'' else []) @ salt"

definition shacrypt :: "openssl \<Rightarrow> string \<Rightarrow> string \<Rightarrow> string \<Rightarrow> string option" where
  "shacrypt L passwd magic salt =
     (if length magic \<noteq> 1 then None
      else case (if magic = ''5'' then Some (EVP_sha256 L, groups_5)
                 else if magic = ''6'' then Some (EVP_sha512 L, groups_6) else None) of
        None \<Rightarrow> None
      | Some (sha, gs) \<Rightarrow>
          (case salt_rounds salt of
             None \<Rightarrow> None
           | Some (custom, rounds, salt') \<Rightarrow>
               (let ascii_salt = take SALT_LEN_MAX salt';
                    head = shacrypt_head magic custom rounds ascii_salt
                in if 3 + (if custom then 17 else 0) + length ascii_salt < length head then None
                   else if (passwd = [] \<or> ascii_salt = []) \<and> \<not> zalloc_0 L then None
                   else Some (head @ ''$'' @ digest_text gs
                     (sha_digest sha (map char_byte passwd) (map char_byte ascii_salt) rounds)))))"

text \<open>Without a salt there is a random one.\<close>

definition hash_password :: "openssl \<Rightarrow> string \<Rightarrow> string option \<Rightarrow> string option" where
  "hash_password L passwd salt =
     (case salt of
        Some s \<Rightarrow> shacrypt L passwd ''5'' s
      | None \<Rightarrow>
          (case RAND_bytes L 16 of
             None \<Rightarrow> None
           | Some bs \<Rightarrow> shacrypt L passwd ''5'' (map (\<lambda>b. cov_2char ! unat (b AND 0x3f)) bs)))"

section \<open>Users\<close>

record neu_user_t =
  us_name :: string
  us_hash :: string

definition neu_user_new :: "openssl \<Rightarrow> string \<Rightarrow> string \<Rightarrow> neu_user_t option" where
  "neu_user_new L name password =
     map_option (\<lambda>h. \<lparr>us_name = name, us_hash = h\<rparr>) (hash_password L password None)"

text \<open>The comparison of the hashes is commented out, and so are the queries of the database.\<close>

definition neu_user_check_password :: "neu_user_t \<Rightarrow> string option \<Rightarrow> bool" where
  "neu_user_check_password user password = True"

definition neu_load_user :: "string \<Rightarrow> neu_user_t option" where
  "neu_load_user name = Some \<lparr>us_name = name, us_hash = ''password''\<rparr>"

definition neu_save_user :: "neu_user_t \<Rightarrow> int" where
  "neu_save_user user = 0"

text \<open>The salt starts at the fourth character of the old hash.\<close>

definition neu_user_update_password ::
  "openssl \<Rightarrow> neu_user_t \<Rightarrow> string \<Rightarrow> (int \<times> neu_user_t) option" where
  "neu_user_update_password L user new_password =
     (if length (us_hash user) < 3 then None
      else case hash_password L new_password (Some (drop 3 (us_hash user))) of
             None \<Rightarrow> Some (NEU_ERR_EINTERNAL, user)
           | Some hash \<Rightarrow>
               if us_hash user = hash then Some (NEU_ERR_DUPLICATE_PASSWORD, user)
               else Some (0, user\<lparr>us_hash := hash\<rparr>))"

end
