(* ===== verification/Login.thy ===== *)
theory Login
  imports Rest User
begin

text \<open>
  Logging in and changing a password (\<open>plugins/restful/normal_handle.c\<close>,
  \<open>parser/neu_json_login.c\<close>), and the schema of a plugin.  Strings that a decoder gives are
  pointers: a NULL that is read is \<open>None\<close>.
\<close>

definition NEU_USER_PASSWORD_MIN_LEN :: nat where "NEU_USER_PASSWORD_MIN_LEN = 4"
definition NEU_USER_PASSWORD_MAX_LEN :: nat where "NEU_USER_PASSWORD_MAX_LEN = 16"

section \<open>Requests and answers\<close>

record neu_json_login_req_t =
  lr_pass :: "string option"
  lr_name :: "string option"

definition neu_json_decode_login_req :: "'j jansson \<Rightarrow> string \<Rightarrow> neu_json_login_req_t option option" where
  "neu_json_decode_login_req J buf =
     map_option (\<lambda>(ret, es). if ret \<noteq> 0 then None
         else Some \<lparr>lr_pass = jstr (ev (es ! 0)), lr_name = jstr (ev (es ! 1))\<rparr>)
       (neu_json_decode J buf [want ''pass'' NEU_JSON_STR, want ''name'' NEU_JSON_STR])"

record neu_json_password_req_t =
  pr_name :: "string option"
  pr_old_pass :: "string option"
  pr_new_pass :: "string option"

definition neu_json_decode_password_req ::
  "'j jansson \<Rightarrow> string \<Rightarrow> neu_json_password_req_t option option" where
  "neu_json_decode_password_req J buf =
     map_option (\<lambda>(ret, es). if ret \<noteq> 0 then None
         else Some \<lparr>pr_name = jstr (ev (es ! 0)), pr_old_pass = jstr (ev (es ! 1)),
                    pr_new_pass = jstr (ev (es ! 2))\<rparr>)
       (neu_json_decode J buf
         [want ''name'' NEU_JSON_STR, want ''old_pass'' NEU_JSON_STR, want ''new_pass'' NEU_JSON_STR])"

definition neu_json_encode_login_resp :: "'j jansson \<Rightarrow> string option \<Rightarrow> 'j encode_fn" where
  "neu_json_encode_login_resp J token ob = neu_json_encode_field J ob [str_elem ''token'' token]"

definition login_text :: "('j, 'w) rest_env \<Rightarrow> string option \<Rightarrow> string option" where
  "login_text E token = snd (neu_json_encode_by_fn (re_json E) (neu_json_encode_login_resp (re_json E) token))"

section \<open>Handlers\<close>

definition handle_ping :: "jwt_state \<Rightarrow> rest_out" where
  "handle_ping st = responds st [neu_http_ok (Some ''{}'')]"

text \<open>When no token can be made, two responses are sent.\<close>

definition handle_login :: "('j, 'w) rest_env \<Rightarrow> http_req \<Rightarrow> jwt_state \<Rightarrow> rest_out option" where
  "handle_login E req st =
     NEU_PROCESS_HTTP_REQUEST req (neu_json_decode_login_req (re_json E)) st (\<lambda>r. do {
       name \<leftarrow> lr_name r;
       pass \<leftarrow> lr_pass r;
       (case neu_load_user name of
          None \<Rightarrow> rest_error E NEU_ERR_INVALID_USER st
        | Some user \<Rightarrow>
            if length pass < NEU_USER_PASSWORD_MIN_LEN \<or> NEU_USER_PASSWORD_MAX_LEN < length pass
            then rest_error E NEU_ERR_INVALID_PASSWORD_LEN st
            else if neu_user_check_password user (Some pass)
            then (case neu_jwt_new (re_jwt E) (re_now E) st of
                    None \<Rightarrow> map_option (\<lambda>r. responds st [r, neu_http_ok (login_text E None)])
                      (http_error E NEU_ERR_NEED_TOKEN)
                  | Some token \<Rightarrow> Some (responds st [neu_http_ok (login_text E (Some token))]))
            else rest_error E NEU_ERR_INVALID_PASSWORD st)
     })"

text \<open>The code that answers a change of password, and the user that is kept if it is 0.\<close>

definition change_password :: "openssl \<Rightarrow> neu_json_password_req_t \<Rightarrow> int option" where
  "change_password L r = do {
     new_pass \<leftarrow> pr_new_pass r;
     if length new_pass < NEU_USER_PASSWORD_MIN_LEN \<or> NEU_USER_PASSWORD_MAX_LEN < length new_pass
     then Some NEU_ERR_INVALID_PASSWORD_LEN
     else do {
       name \<leftarrow> pr_name r;
       (case neu_load_user name of
          None \<Rightarrow> Some NEU_ERR_INVALID_USER
        | Some user \<Rightarrow>
            if \<not> neu_user_check_password user (pr_old_pass r) then Some NEU_ERR_INVALID_PASSWORD
            else do {
              (rv, user') \<leftarrow> neu_user_update_password L user new_pass;
              Some (if rv \<noteq> 0 then rv else neu_save_user user')
            })
     }
   }"

definition handle_password ::
  "openssl \<Rightarrow> ('j, 'w) rest_env \<Rightarrow> http_req \<Rightarrow> jwt_state \<Rightarrow> rest_out option" where
  "handle_password L E req st =
     NEU_PROCESS_HTTP_REQUEST_VALIDATE_JWT E req (neu_json_decode_password_req (re_json E)) st
       (\<lambda>st' r. do { rv \<leftarrow> change_password L r; rest_error E rv st' })"

section \<open>Schemas\<close>

definition g_plugin_to_schema_map :: "(string \<times> string) list" where
  "g_plugin_to_schema_map =
     [(''Beckhoff ADS'', ''ads''), (''BACnet/IP'', ''bacnet''), (''DLT645-2007'', ''dlt645''),
      (''eKuiper'', ''ekuiper''), (''EtherNet/IP(CIP)'', ''EtherNet-IP''),
      (''Fanuc Focas Ethernet'', ''focas''), (''File'', ''file''), (''HJ212-2017'', ''hj''),
      (''IEC60870-5-104'', ''iec104''), (''IEC61850'', ''iec61850''), (''KNXnet/IP'', ''knx''),
      (''Mitsubishi 3E'', ''qna3e''), (''Mitsubishi 1E'', ''a1e''), (''Modbus RTU'', ''modbus-rtu''),
      (''Modbus TCP'', ''modbus-tcp''), (''Monitor'', ''monitor''), (''MQTT'', ''mqtt''),
      (''NON A11'', ''nona11''), (''OPC UA'', ''opcua''), (''Omron FINS'', ''fins''),
      (''Profinet'', ''profinet''), (''Siemens S7 ISOTCP'', ''s7comm''),
      (''Siemens S7 ISOTCP for 300/400'', ''s7comm_for_300''),
      (''Siemens FetchWrite'', ''s5fetch-write''), (''SparkPlugB'', ''sparkplugb''),
      (''WebSocket'', ''websocket'')]"

definition plugin_name_to_schema_name :: "string \<Rightarrow> string" where
  "plugin_name_to_schema_name name =
     (case map_of g_plugin_to_schema_map name of None \<Rightarrow> name | Some s \<Rightarrow> s)"

definition file_string_read :: "(string \<Rightarrow> string option) \<Rightarrow> string \<Rightarrow> string option" where
  "file_string_read read path =
     (case read path of
        None \<Rightarrow> None
      | Some data \<Rightarrow> if data = [] then None else Some (takeWhile (\<lambda>c. c \<noteq> CHR 0x00) data))"

definition status_error :: string where
  "status_error = ''{'' @ [CHR 0x22] @ ''status'' @ [CHR 0x22] @ '': '' @ [CHR 0x22] @ ''error'' @
     [CHR 0x22] @ ''}''"

text \<open>The name from the request becomes part of a path as it is.\<close>

definition handle_get_plugin_schema ::
  "(string \<Rightarrow> string option) \<Rightarrow> string \<Rightarrow> ('j, 'w) rest_env \<Rightarrow> http_req \<Rightarrow> jwt_state \<Rightarrow>
    rest_out option" where
  "handle_get_plugin_schema read g_plugin_dir E req st =
     NEU_VALIDATE_JWT E req st (\<lambda>st'. do {
       (rv, param) \<leftarrow> neu_http_get_param_str (hr_url req) ''schema_name'' NEU_PLUGIN_NAME_LEN;
       (rv', schema_name) \<leftarrow>
         (if rv = - 2
          then map_option (\<lambda>(r, p). (r, plugin_name_to_schema_name p))
                 (neu_http_get_param_str (hr_url req) ''plugin_name'' NEU_PLUGIN_NAME_LEN)
          else Some (rv, param));
       Some (if rv' < 0 then responds st' [neu_http_bad_request (Some error_1002)]
         else case file_string_read read (g_plugin_dir @ ''/schema/'' @ schema_name @ ''.json'') of
           None \<Rightarrow> responds st' [neu_http_not_found (Some status_error)]
         | Some buf \<Rightarrow> responds st' [neu_http_ok (Some buf)])
     })"

end
