(* ===== verification/ManagerLoop.thy ===== *)
theory ManagerLoop
  imports Manager Loop
begin

text \<open>
  The loop of the manager (\<open>manager_loop\<close> in \<open>src/core/manager.c\<close>): the requests that arrive at
  its socket, from other nodes, and what it sends back or forwards.  The lines that would register
  it are commented out.

  A message comes from a pipe, the connection of one node, and is sent to one.  What the loop sends
  is appended to \<open>lo_sent\<close>, whether or not it arrives; what it hands to the database is appended to
  \<open>lo_stored\<close>.  A type without a case fails an assertion, a body of another struct is undefined:
  \<open>None\<close>.
\<close>

section \<open>Definitions\<close>

datatype manager_body =
    MB_message reqresp_data
  | MB_plugins "neu_resp_plugin_info_t list"
  | MB_nodes "(string \<times> string) list"
  | MB_states "neu_nodes_state_t list"

type_synonym manager_out = "u32 \<times> neu_reqresp_head_t \<times> manager_body"

type_synonym stored_node = "string \<times> neu_node_type_e \<times> string \<times> neu_node_running_state_e"

record 'p loop_result =
  lo_manager :: "'p neu_manager"
  lo_sent :: "manager_out list"
  lo_stored :: "stored_node list"

definition quiet :: "'p neu_manager \<Rightarrow> 'p loop_result" where
  "quiet mg = \<lparr>lo_manager = mg, lo_sent = [], lo_stored = []\<rparr>"

definition manager_reply ::
  "'p neu_manager \<Rightarrow> neu_reqresp_head_t \<Rightarrow> manager_body \<Rightarrow> 'p loop_result" where
  "manager_reply mg h body =
     (quiet mg)\<lparr>lo_sent := [(neu_node_manager_get_pipe (mg_nodes mg) (rh_receiver h), h, body)]\<rparr>"

definition forward_msg :: "'p neu_manager \<Rightarrow> neu_msg \<Rightarrow> string \<Rightarrow> 'p loop_result" where
  "forward_msg mg m node =
     (quiet mg)\<lparr>lo_sent := [(neu_node_manager_get_pipe (mg_nodes mg) node, fst m, MB_message (snd m))]\<rparr>"

text \<open>The node that is stored, or nothing when its name is not found.\<close>

definition manager_storage_add_node :: "'p neu_manager \<Rightarrow> string \<Rightarrow> stored_node list option" where
  "manager_storage_add_node mg node =
     map_option (\<lambda>r. case r of Inl _ \<Rightarrow> [] | Inr info \<Rightarrow> [info]) (neu_manager_get_node_info mg node)"

definition bind_node ::
  "'p neu_manager \<Rightarrow> string \<Rightarrow> neu_node_running_state_e \<Rightarrow> u32 \<Rightarrow> 'p neu_manager option" where
  "bind_node mg node state pipe =
     (case neu_node_manager_update (mg_nodes mg) node pipe of
        (r, nodes) \<Rightarrow>
          let mg' = mg\<lparr>mg_nodes := nodes\<rparr>
          in if r \<noteq> 0 then Some mg
             else if state \<in> {NEU_NODE_RUNNING_STATE_RUNNING, NEU_NODE_RUNNING_STATE_STOPPED}
             then do {
               i \<leftarrow> neu_node_manager_find (mg_nodes mg') node;
               ad \<leftarrow> heap_at (mg_heap mg') i;
               Some (update_adapter mg' i
                 (snd (if state = NEU_NODE_RUNNING_STATE_RUNNING then neu_adapter_start ad
                       else neu_adapter_stop ad)))
             }
             else Some mg')"

definition to_sender :: "neu_reqresp_type \<Rightarrow> neu_reqresp_head_t \<Rightarrow> neu_reqresp_head_t" where
  "to_sender type h = h\<lparr>rh_type := type, rh_receiver := rh_sender h\<rparr>"

definition node_known :: "'p neu_manager \<Rightarrow> string \<Rightarrow> bool" where
  "node_known mg node \<longleftrightarrow> neu_node_manager_find (mg_nodes mg) node \<noteq> None"

definition manager_handle ::
  "'p world \<Rightarrow> 'p neu_manager \<Rightarrow> u32 \<Rightarrow> neu_msg \<Rightarrow> 'p loop_result option" where
  "manager_handle w mg pipe m =
     (let h = fst m; type = rh_type h
      in if type = NEU_REQ_NODE_INIT then
           (case snd m of
              D_node_state node state \<Rightarrow> map_option quiet (bind_node mg node state pipe)
            | _ \<Rightarrow> None)
         else if type = NEU_REQ_GET_PLUGIN then
           map_option (\<lambda>ps. manager_reply mg (to_sender NEU_RESP_GET_PLUGIN h) (MB_plugins ps))
             (neu_manager_get_plugins mg)
         else if type = NEU_REQ_ADD_NODE then
           (case snd m of
              D_add_node node plugin \<Rightarrow> do {
                (error, mg') \<leftarrow> neu_manager_add_node w mg node plugin False;
                stored \<leftarrow> (if error = NEU_ERR_SUCCESS then manager_storage_add_node mg' node else Some []);
                Some ((manager_reply mg' (to_sender NEU_RESP_ERROR h) (MB_message (D_error error)))
                  \<lparr>lo_stored := stored\<rparr>)
              }
            | _ \<Rightarrow> None)
         else if type = NEU_REQ_GET_NODE then
           (case snd m of
              D_get_node ty plugin node \<Rightarrow>
                map_option (\<lambda>ns. manager_reply mg (to_sender NEU_RESP_GET_NODE h) (MB_nodes ns))
                  (neu_manager_get_nodes mg ty plugin node)
            | _ \<Rightarrow> None)
         else if type = NEU_REQ_GET_NODES_STATE then
           map_option (\<lambda>ss. manager_reply mg
               ((to_sender NEU_RESP_GET_NODES_STATE h)\<lparr>rh_sender := ''manager''\<rparr>) (MB_states ss))
             (neu_node_manager_get_state (mg_heap mg) (mg_nodes mg))
         else if type \<in> {NEU_REQ_GET_NODE_SETTING, NEU_REQ_NODE_CTL, NEU_REQ_NODE_CTL_EVENT} then
           Some (if node_known mg (rh_receiver h) then forward_msg mg m (rh_receiver h) else quiet mg)
         else if type = NEU_REQ_NODE_SETTING then
           Some (if node_known mg (rh_receiver h) then forward_msg mg m (rh_receiver h)
                 else manager_reply mg (neu_msg_exchange (h\<lparr>rh_type := NEU_RESP_ERROR\<rparr>))
                        (MB_message (D_error NEU_ERR_NODE_NOT_EXIST)))
         else if type \<in> {NEU_RESP_GET_NODE_SETTING, NEU_RESP_ERROR} then
           Some (forward_msg mg m (rh_receiver h))
         else None)"

text \<open>\<open>recv\<close> is what can be received: nothing, or a message and the pipe it came from.\<close>

definition manager_loop ::
  "'p world \<Rightarrow> bool \<Rightarrow> (u32 \<times> neu_msg) option \<Rightarrow> 'p neu_manager \<Rightarrow> 'p loop_result option" where
  "manager_loop w closed_or_hup recv mg =
     (if closed_or_hup then Some (quiet mg)
      else (case recv of None \<Rightarrow> Some (quiet mg) | Some (pipe, m) \<Rightarrow> manager_handle w mg pipe m))"

end
