(* ===== verification/Dashboard.thy ===== *)
theory Dashboard
  imports ConfigRest SystemRest Login TagRest ManagerLoop
begin

text \<open>
  The REST plugin (\<open>plugins/restful/rest.c\<close>, \<open>handle.c\<close>) and the registration of its handlers
  (\<open>src/utils/http_handler.c\<close>): its table of routes, what a request to one does, and what a response
  of the core does.

  The HTTP server of nng is an argument.  The conversations about a whole configuration are kept by
  the context of their request, as the fourth input of its \<open>nng_aio\<close>.  \<open>None\<close> is a crash, a failed
  assertion or undefined behaviour.
\<close>

section \<open>Routes\<close>

datatype neu_http_method =
    NEU_HTTP_METHOD_UNDEFINE | NEU_HTTP_METHOD_GET | NEU_HTTP_METHOD_POST | NEU_HTTP_METHOD_PUT
  | NEU_HTTP_METHOD_DELETE | NEU_HTTP_METHOD_OPTIONS

datatype neu_http_handler_type =
    NEU_HTTP_HANDLER_FUNCTION | NEU_HTTP_HANDLER_DIRECTORY | NEU_HTTP_HANDLER_PROXY
  | NEU_HTTP_HANDLER_REDIRECT

text \<open>The functions a route can lead to, by their names.\<close>

datatype endpoint =
    H_ping | H_login | H_password | H_add_adapter | H_update_adapter | H_del_adapter |
    H_get_adapter | H_add_plugin | H_get_plugin | H_del_plugin | H_node_ctl | H_get_node_state
    | H_logs_files | H_log_level | H_get_version | H_download_file | H_file_info |
    H_get_global_config | H_put_global_config | H_handle_cors

datatype handler_value = V_handler endpoint | V_path string

record neu_http_handler =
  hh_method :: neu_http_method
  hh_type :: neu_http_handler_type
  hh_url :: string
  hh_value :: handler_value

definition route :: "neu_http_method \<Rightarrow> neu_http_handler_type \<Rightarrow> string \<Rightarrow> handler_value \<Rightarrow> neu_http_handler" where
  "route method type url v = \<lparr>hh_method = method, hh_type = type, hh_url = url, hh_value = v\<rparr>"

text \<open>The routes that are not commented out.\<close>

definition rest_handlers :: "neu_http_handler list" where
  "rest_handlers =
     [route NEU_HTTP_METHOD_GET NEU_HTTP_HANDLER_DIRECTORY ''/web'' (V_path ''./dist''),
       route NEU_HTTP_METHOD_UNDEFINE NEU_HTTP_HANDLER_REDIRECT ''/'' (V_path ''/web''),
       route NEU_HTTP_METHOD_POST NEU_HTTP_HANDLER_FUNCTION ''/api/v2/ping'' (V_handler H_ping),
       route NEU_HTTP_METHOD_POST NEU_HTTP_HANDLER_FUNCTION ''/api/v2/login'' (V_handler H_login),
       route NEU_HTTP_METHOD_POST NEU_HTTP_HANDLER_FUNCTION ''/api/v2/password'' (V_handler H_password),
       route NEU_HTTP_METHOD_POST NEU_HTTP_HANDLER_FUNCTION ''/api/v2/node'' (V_handler H_add_adapter),
       route NEU_HTTP_METHOD_PUT NEU_HTTP_HANDLER_FUNCTION ''/api/v2/node'' (V_handler H_update_adapter),
       route NEU_HTTP_METHOD_DELETE NEU_HTTP_HANDLER_FUNCTION ''/api/v2/node'' (V_handler H_del_adapter),
       route NEU_HTTP_METHOD_GET NEU_HTTP_HANDLER_FUNCTION ''/api/v2/node'' (V_handler H_get_adapter),
       route NEU_HTTP_METHOD_POST NEU_HTTP_HANDLER_FUNCTION ''/api/v2/plugin'' (V_handler H_add_plugin),
       route NEU_HTTP_METHOD_GET NEU_HTTP_HANDLER_FUNCTION ''/api/v2/plugin'' (V_handler H_get_plugin),
       route NEU_HTTP_METHOD_DELETE NEU_HTTP_HANDLER_FUNCTION ''/api/v2/plugin'' (V_handler H_del_plugin),
       route NEU_HTTP_METHOD_POST NEU_HTTP_HANDLER_FUNCTION ''/api/v2/node/ctl'' (V_handler H_node_ctl),
       route NEU_HTTP_METHOD_GET NEU_HTTP_HANDLER_FUNCTION ''/api/v2/node/state'' (V_handler H_get_node_state),
       route NEU_HTTP_METHOD_GET NEU_HTTP_HANDLER_FUNCTION ''/api/v2/logs'' (V_handler H_logs_files),
       route NEU_HTTP_METHOD_PUT NEU_HTTP_HANDLER_FUNCTION ''/api/v2/log/level'' (V_handler H_log_level),
       route NEU_HTTP_METHOD_GET NEU_HTTP_HANDLER_FUNCTION ''/api/v2/version'' (V_handler H_get_version),
       route NEU_HTTP_METHOD_GET NEU_HTTP_HANDLER_FUNCTION ''/api/v2/file'' (V_handler H_download_file),
       route NEU_HTTP_METHOD_GET NEU_HTTP_HANDLER_FUNCTION ''/api/v2/file/info'' (V_handler H_file_info),
       route NEU_HTTP_METHOD_GET NEU_HTTP_HANDLER_FUNCTION ''/api/v2/global/config'' (V_handler H_get_global_config),
       route NEU_HTTP_METHOD_PUT NEU_HTTP_HANDLER_FUNCTION ''/api/v2/global/config'' (V_handler H_put_global_config)]"

definition cors_handler :: "neu_http_handler list" where
  "cors_handler =
     map (\<lambda>url. route NEU_HTTP_METHOD_OPTIONS NEU_HTTP_HANDLER_FUNCTION url (V_handler H_handle_cors))
       [''/api/v2/ping'', ''/api/v2/login'', ''/api/v2/tags'', ''/api/v2/group'',
        ''/api/v2/node'', ''/api/v2/plugin'', ''/api/v2/tty'', ''/api/v2/node/ctl'',
        ''/api/v2/node/state'', ''/api/v2/version'', ''/api/v2/password'', ''/api/v2/logs'',
        ''/api/v2/log/level'', ''/api/v2/file'', ''/api/v2/file/info'',
        ''/api/v2/global/config'', ''/api/v2/template'', ''/api/v2/template/group'',
        ''/api/v2/template/tag'', ''/api/v2/template/inst'', ''/api/v2/template/instances'',
        ''/api/v2/ndriver/map'', ''/api/v2/ndriver/tag/param'', ''/api/v2/ndriver/tag/info'',
        ''/api/v2/ndriver/tag'']"

section \<open>Registering\<close>

text \<open>
  The server of nng: allocating a handler, setting its method and adding it to the server can fail
  (a result that is not 0); a handler that is not given a method serves any.
\<close>

record 's nng_http =
  nh_parse :: bool
  nh_hold :: "'s option"
  nh_alloc :: "neu_http_handler \<Rightarrow> int"
  nh_set_method :: "string \<Rightarrow> int"
  nh_add :: "'s \<Rightarrow> string option \<Rightarrow> neu_http_handler \<Rightarrow> int \<times> 's"
  nh_start :: "'s \<Rightarrow> int"

fun method_text :: "neu_http_method \<Rightarrow> string option" where
  "method_text NEU_HTTP_METHOD_UNDEFINE = None"
| "method_text NEU_HTTP_METHOD_GET = Some ''GET''"
| "method_text NEU_HTTP_METHOD_POST = Some ''POST''"
| "method_text NEU_HTTP_METHOD_PUT = Some ''PUT''"
| "method_text NEU_HTTP_METHOD_DELETE = Some ''DELETE''"
| "method_text NEU_HTTP_METHOD_OPTIONS = Some ''OPTIONS''"

definition neu_http_add_handler ::
  "'s nng_http \<Rightarrow> 's \<Rightarrow> neu_http_handler \<Rightarrow> (int \<times> 's) option" where
  "neu_http_add_handler N server h =
     (if nh_alloc N h \<noteq> 0 then Some (-1, server)
      else case method_text (hh_method h) of
             None \<Rightarrow> Some (nh_add N server None h)
           | Some m \<Rightarrow> if nh_set_method N m \<noteq> 0 then None else Some (nh_add N server (Some m) h))"

text \<open>A handler that cannot be added is passed over.\<close>

fun add_handlers :: "'s nng_http \<Rightarrow> neu_http_handler list \<Rightarrow> 's \<Rightarrow> 's option" where
  "add_handlers N [] server = Some server"
| "add_handlers N (h # hs) server =
     (case neu_http_add_handler N server h of
        None \<Rightarrow> None
      | Some (ret, server') \<Rightarrow> add_handlers N hs server')"

text \<open>\<open>Some None\<close> is the result NULL.  A URL that does not parse leaves nothing to be freed, which is freed.\<close>

definition server_init :: "'s nng_http \<Rightarrow> 's option option" where
  "server_init N = (if \<not> nh_parse N then None else Some (nh_hold N))"

definition dashb_plugin_open :: "'s nng_http \<Rightarrow> 's option option" where
  "dashb_plugin_open N =
     (case server_init N of
        None \<Rightarrow> None
      | Some None \<Rightarrow> Some None
      | Some (Some server) \<Rightarrow> do {
          s1 \<leftarrow> add_handlers N rest_handlers server;
          s2 \<leftarrow> add_handlers N cors_handler s1;
          Some (if nh_start N s2 \<noteq> 0 then None else Some s2)
        })"

definition dashb_plugin_init :: "jwt_files \<Rightarrow> string \<Rightarrow> jwt_state \<Rightarrow> jwt_state option" where
  "dashb_plugin_init F g_config_dir st = neu_jwt_init F g_config_dir st"

definition neu_http_handle_cors :: "jwt_state \<Rightarrow> rest_out" where
  "neu_http_handle_cors st = responds st [(NNG_HTTP_STATUS_OK, '' '')]"

section \<open>Requests\<close>

datatype 'j conversation = Get_conversation "'j get_context" | Put_conversation "'j put_context"

record ('j, 'w) dashboard_env =
  de_rest :: "('j, 'w) rest_env"
  de_openssl :: openssl
  de_erange :: bool
  de_files :: file_env
  de_neuron_exists :: bool
  de_switch :: "string option \<Rightarrow> int"

definition plain :: "rest_out option \<Rightarrow> (rest_out \<times> 'j conversation option) option" where
  "plain r = map_option (\<lambda>out. (out, None)) r"

text \<open>What a request to a route does: what it sends, and the conversation it begins.\<close>

fun serve ::
  "('j, 'w) dashboard_env \<Rightarrow> endpoint \<Rightarrow> http_req \<Rightarrow> jwt_state \<Rightarrow> (rest_out \<times> 'j conversation option) option" where
  "serve D H_ping req st = plain (Some (handle_ping st))"
| "serve D H_login req st = plain (handle_login (de_rest D) req st)"
| "serve D H_password req st = plain (handle_password (de_openssl D) (de_rest D) req st)"
| "serve D H_add_adapter req st = plain (handle_add_adapter (de_rest D) req st)"
| "serve D H_update_adapter req st = plain (handle_update_adapter (de_rest D) req st)"
| "serve D H_del_adapter req st = plain (handle_del_adapter (de_rest D) req st)"
| "serve D H_get_adapter req st = plain (handle_get_adapter (de_erange D) (de_rest D) req st)"
| "serve D H_add_plugin req st = plain (handle_add_plugin (de_rest D) req st)"
| "serve D H_get_plugin req st = plain (handle_get_plugin (de_rest D) req st)"
| "serve D H_del_plugin req st = plain (handle_del_plugin (de_rest D) req st)"
| "serve D H_node_ctl req st = plain (handle_node_ctl (de_rest D) req st)"
| "serve D H_get_node_state req st = plain (handle_get_node_state (de_rest D) req st)"
| "serve D H_logs_files req st =
     plain (map_option fst (handle_logs_files (de_neuron_exists D) (de_files D) (de_rest D) req st))"
| "serve D H_log_level req st = plain (handle_log_level (de_switch D) (de_rest D) req st)"
| "serve D H_get_version req st = plain (handle_get_version (de_rest D) req st)"
| "serve D H_download_file req st = plain (map_option fst (handle_download_file (de_files D) (de_rest D) req st))"
| "serve D H_file_info req st = plain (handle_file_info (de_files D) (de_rest D) req st)"
| "serve D H_get_global_config req st =
     map_option (\<lambda>(out, c). (out, map_option Get_conversation c)) (handle_get_global_config (de_rest D) req st)"
| "serve D H_put_global_config req st =
     map_option (\<lambda>(out, c). (out, map_option Put_conversation c)) (handle_put_global_config (de_rest D) req st)"
| "serve D H_handle_cors req st = plain (Some (neu_http_handle_cors st))"

section \<open>Responses of the core\<close>

datatype rest_response =
    RR_error int
  | RR_plugins "neu_resp_plugin_info_t list"
  | RR_nodes "(string \<times> string) list"
  | RR_groups "neu_resp_group_info_t list"
  | RR_driver_groups "(string \<times> string \<times> u16 \<times> u32) list"
  | RR_tag_result u16 int
  | RR_tags "neu_datatag_t list"
  | RR_subscriptions "(string \<times> string \<times> string option) list"
  | RR_setting string "string option"
  | RR_states "neu_nodes_state_t list"
  | RR_state neu_node_running_state_e neu_node_link_state_e u16
  | RR_values "neu_resp_tag_value_meta_t list"
  | RR_other

text \<open>What the conversations can read; the other structs are undefined to them.\<close>

fun config_of :: "rest_response \<Rightarrow> config_data option" where
  "config_of (RR_error e) = Some (CD_error e)"
| "config_of (RR_nodes ns) = Some (CD_nodes ns)"
| "config_of (RR_driver_groups gs) = Some (CD_groups gs)"
| "config_of (RR_tags ts) = Some (CD_tags ts)"
| "config_of (RR_tag_result i e) = Some (CD_add_tag i e)"
| "config_of (RR_subscriptions gs) = Some (CD_subscriptions gs)"
| "config_of (RR_setting node s) = Some (CD_setting node s)"
| "config_of _ = None"

fun context_next ::
  "('j, 'w) rest_env \<Rightarrow> 'j conversation \<Rightarrow> neu_reqresp_type \<Rightarrow> config_data option \<Rightarrow>
    'j conversation config_step option" where
  "context_next E (Get_conversation ctx) type data =
     map_option (\<lambda>r. case r of Waiting ctx' cmd \<Rightarrow> Waiting (Get_conversation ctx') cmd | Ended a \<Rightarrow> Ended a)
       (get_context_next E ctx type data)"
| "context_next E (Put_conversation ctx) type data =
     map_option (\<lambda>r. case r of Waiting ctx' cmd \<Rightarrow> Waiting (Put_conversation ctx') cmd | Ended a \<Rightarrow> Ended a)
       (put_context_next E ctx data)"

type_synonym 'j conversations = "nat \<Rightarrow> 'j conversation option"

record 'j dashboard_out =
  do_responses :: "(nat \<times> nng_http_status \<times> string) list"
  do_commands :: "neu_msg list"
  do_conversations :: "'j conversations"

definition answered_with :: "'j conversations \<Rightarrow> nat \<Rightarrow> (nng_http_status \<times> string) option \<Rightarrow> 'j dashboard_out option" where
  "answered_with cs aio r = map_option (\<lambda>a. \<lparr>do_responses = [(aio, a)], do_commands = [], do_conversations = cs\<rparr>) r"

definition handle_global_config_resp ::
  "('j, 'w) rest_env \<Rightarrow> 'j conversations \<Rightarrow> 'j conversation \<Rightarrow> neu_reqresp_head_t \<Rightarrow> rest_response \<Rightarrow>
    'j dashboard_out option" where
  "handle_global_config_resp E cs c h data =
     map_option (\<lambda>r. case r of
          Waiting c' cmd \<Rightarrow>
            \<lparr>do_responses = [], do_commands = [cmd], do_conversations = cs(rh_ctx h \<mapsto> c')\<rparr>
        | Ended a \<Rightarrow>
            \<lparr>do_responses = [(rh_ctx h, a)], do_commands = [], do_conversations = cs(rh_ctx h := None)\<rparr>)
       (context_next E c (rh_type h) (config_of data))"

text \<open>The response a type of message is turned into; \<open>Some None\<close> sends nothing.\<close>

definition response_of ::
  "('j, 'w) rest_env \<Rightarrow> neu_reqresp_type \<Rightarrow> rest_response \<Rightarrow> (nng_http_status \<times> string) option option" where
  "response_of E type data =
     (let J = re_json E
      in if type = NEU_RESP_ERROR then (case data of RR_error e \<Rightarrow> map_option Some (http_error E e) | _ \<Rightarrow> None)
         else if type = NEU_RESP_GET_PLUGIN then
           (case data of RR_plugins ps \<Rightarrow> Some (Some (handle_get_plugin_resp J ps)) | _ \<Rightarrow> None)
         else if type = NEU_RESP_GET_NODE then
           (case data of RR_nodes ns \<Rightarrow> Some (Some (handle_get_adapter_resp J ns)) | _ \<Rightarrow> None)
         else if type = NEU_RESP_GET_GROUP then
           (case data of RR_groups gs \<Rightarrow> Some (Some (handle_get_group_resp J gs)) | _ \<Rightarrow> None)
         else if type = NEU_RESP_GET_DRIVER_GROUP then
           (case data of RR_driver_groups gs \<Rightarrow> Some (Some (handle_get_driver_group_resp J gs)) | _ \<Rightarrow> None)
         else if type \<in> {NEU_RESP_ADD_TAG, NEU_RESP_ADD_TEMPLATE_TAG} then
           (case data of RR_tag_result i e \<Rightarrow> Some (Some (handle_add_tags_resp J i e)) | _ \<Rightarrow> None)
         else if type \<in> {NEU_RESP_UPDATE_TAG, NEU_RESP_UPDATE_TEMPLATE_TAG} then
           (case data of RR_tag_result i e \<Rightarrow> Some (Some (handle_update_tags_resp J i e)) | _ \<Rightarrow> None)
         else if type \<in> {NEU_RESP_GET_TAG, NEU_RESP_GET_TEMPLATE_TAG} then
           (case data of RR_tags ts \<Rightarrow> Some (Some (handle_get_tags_resp J ts)) | _ \<Rightarrow> None)
         else if type = NEU_RESP_GET_SUBSCRIBE_GROUP then
           (case data of RR_subscriptions gs \<Rightarrow> Some (Some (handle_grp_get_subscribe_resp J gs)) | _ \<Rightarrow> None)
         else if type = NEU_RESP_GET_NODE_SETTING then
           (case data of RR_setting node s \<Rightarrow> map_option Some (handle_get_node_setting_resp E node s) | _ \<Rightarrow> None)
         else if type = NEU_RESP_GET_NODES_STATE then
           (case data of RR_states ss \<Rightarrow> map_option Some (handle_get_nodes_state_resp J ss) | _ \<Rightarrow> None)
         else if type = NEU_RESP_GET_NODE_STATE then
           (case data of RR_state running link rtt \<Rightarrow> Some (Some (handle_get_node_state_resp J running link rtt)) | _ \<Rightarrow> None)
         else if type = NEU_RESP_READ_GROUP then
           (case data of RR_values vs \<Rightarrow> map_option Some (handle_read_resp J vs) | _ \<Rightarrow> None)
         else if type \<in> {NEU_RESP_GET_TEMPLATE, NEU_RESP_GET_TEMPLATES, NEU_RESP_GET_NDRIVER_MAPS,
             NEU_RESP_GET_NDRIVER_TAGS, NEU_REQ_UPDATE_LICENSE} then Some None
         else None)"

definition dashb_plugin_request ::
  "('j, 'w) rest_env \<Rightarrow> 'j conversations \<Rightarrow> neu_reqresp_head_t \<Rightarrow> rest_response \<Rightarrow> 'j dashboard_out option" where
  "dashb_plugin_request E cs h data =
     (case (if rh_ctx h = 0 then None else cs (rh_ctx h)) of
        Some c \<Rightarrow> handle_global_config_resp E cs c h data
      | None \<Rightarrow>
          (case response_of E (rh_type h) data of
             None \<Rightarrow> None
           | Some None \<Rightarrow> Some \<lparr>do_responses = [], do_commands = [], do_conversations = cs\<rparr>
           | Some (Some a) \<Rightarrow> answered_with cs (rh_ctx h) (Some a)))"

section \<open>The core behind it\<close>

text \<open>What the loop of the manager sends, as the plugin reads it.\<close>

fun response_body :: "manager_body \<Rightarrow> rest_response" where
  "response_body (MB_message (D_error e)) = RR_error e"
| "response_body (MB_message _) = RR_other"
| "response_body (MB_plugins ps) = RR_plugins ps"
| "response_body (MB_nodes ns) = RR_nodes ns"
| "response_body (MB_states ss) = RR_states ss"

end
