(* ===== verification/UserLaws.thy ===== *)
theory UserLaws
  imports Login
begin

text \<open>
  Properties of password hashes: the text of a digest determines the digest, a hash has its
  form and fits its buffer, and a hash can be checked by hashing again.
\<close>

section \<open>Six bits to a character\<close>

definition cov_index :: "char \<Rightarrow> nat" where
  "cov_index c = length (takeWhile (\<lambda>d. d \<noteq> c) cov_2char)"

fun sixbit_value :: "string \<Rightarrow> nat" where
  "sixbit_value [] = 0"
| "sixbit_value (c # cs) = cov_index c + 64 * sixbit_value cs"

lemma length_takeWhile_distinct:
  "distinct xs \<Longrightarrow> i < length xs \<Longrightarrow> length (takeWhile (\<lambda>d. d \<noteq> xs ! i) xs) = i"
proof (induction xs arbitrary: i)
  case Nil
  then show ?case by simp
next
  case (Cons x xs)
  then show ?case by (cases i) (auto simp: in_set_conv_nth)
qed

lemma cov_2char_table: "length cov_2char = 64" "distinct cov_2char"
  by code_simp+

lemma cov_index_nth: "i < 64 \<Longrightarrow> cov_index (cov_2char ! i) = i"
  using cov_2char_table by (simp add: cov_index_def length_takeWhile_distinct)

lemma sixbits: "unat ((w :: u32) AND 0x3f) = unat w mod 64" "unat (drop_bit 6 (w :: u32)) = unat w div 64"
proof -
  have "(0x3f :: u32) = mask 6" by (simp add: mask_eq_decr_exp)
  then have "w AND 0x3f = w mod 64" using take_bit_eq_mask [of 6 w] by (simp add: take_bit_eq_mod)
  then show "unat (w AND 0x3f) = unat w mod 64" by (simp add: unat_mod)
  show "unat (drop_bit 6 w) = unat w div 64" by (simp add: drop_bit_eq_div unat_div)
qed

lemma sixbit_loop_chars: "length (sixbit_loop n w) = n" "set (sixbit_loop n w) \<subseteq> set cov_2char"
proof (induction n arbitrary: w)
  case (Suc n)
  {
    case 1
    then show ?case using Suc by simp
  next
    case 2
    have "cov_2char ! unat (w AND 0x3f) \<in> set cov_2char"
      by (rule nth_mem) (simp add: sixbits(1) cov_2char_table)
    then show ?case using Suc by simp
  }
qed simp_all

lemma sixbit_loop_value: "sixbit_value (sixbit_loop n w) = unat w mod 64 ^ n"
proof (induction n arbitrary: w)
  case (Suc n)
  have "sixbit_value (sixbit_loop (Suc n) w) = unat w mod 64 + 64 * (unat w div 64 mod 64 ^ n)"
    using Suc [of "drop_bit 6 w"] by (simp add: sixbits cov_index_nth)
  also have "\<dots> = unat w mod (64 * 64 ^ n)" by (simp add: mod_mult2_eq)
  finally show ?case by simp
qed simp

lemma triple_digits:
  fixes x y z :: nat
  assumes "y < 256" "z < 256"
  shows "(x * 65536 + y * 256 + z) div 65536 = x" "(x * 65536 + y * 256 + z) div 256 mod 256 = y"
    "(x * 65536 + y * 256 + z) mod 256 = z"
proof -
  have eq: "x * 65536 + y * 256 + z = z + 256 * (y + 256 * x)" by simp
  show "(x * 65536 + y * 256 + z) mod 256 = z" unfolding eq using assms by (simp only: mod_mult_self2 mod_less)
  show "(x * 65536 + y * 256 + z) div 256 mod 256 = y"
    unfolding eq using assms by (simp only: div_mult_self2 mod_mult_self2 mod_less div_less add_0 simp_thms) simp
  show "(x * 65536 + y * 256 + z) div 65536 = x" using assms by simp
qed

lemma group_word:
  "unat (push_bit 16 (ucast b2) OR push_bit 8 (ucast b1) OR ucast b0 :: u32)
     = unat (b2 :: u8) * 65536 + unat (b1 :: u8) * 256 + unat (b0 :: u8)"
proof -
  have 1: "(push_bit 8 (ucast b1) AND ucast b0 :: u32) = 0"
    by (auto simp: bit_eq_iff bit_simps dest: bit_imp_le_length)
  have 2: "(push_bit 16 (ucast b2) AND (push_bit 8 (ucast b1) OR ucast b0) :: u32) = 0"
    by (auto simp: bit_eq_iff bit_simps dest: bit_imp_le_length)
  have or_plus: "x OR y = x + y" if "x AND y = 0" for x y :: u32
    using word_plus_and_or [of x y] that by simp
  have bounds: "unat b0 < 256" "unat b1 < 256" "unat b2 < 256" by simp_all
  have small: "unat (b :: u8) mod 4294967296 = unat b" for b
    using unat_byte_less [of b] by (simp del: unat_byte_less)
  have "unat (push_bit 8 (ucast b1) + ucast b0 :: u32) = unat b1 * 256 + unat b0"
    using bounds by (simp add: push_bit_eq_mult unat_word_ariths unsigned_ucast_eq take_bit_eq_mod small
        del: unat_byte_less)
  note low = this
  have high: "unat (push_bit 16 (ucast b2) :: u32) = unat b2 * 65536"
    using bounds by (simp add: push_bit_eq_mult unat_word_ariths unsigned_ucast_eq take_bit_eq_mod small
        del: unat_byte_less)
  have "push_bit 16 (ucast b2) OR push_bit 8 (ucast b1) OR ucast b0
      = (push_bit 16 (ucast b2) + (push_bit 8 (ucast b1) + ucast b0) :: u32)"
    using or_plus [OF 2] or_plus [OF 1] by simp
  moreover have "unat (x + y) = unat x + unat y" if "unat x + unat y < 4294967296" for x y :: u32
    using that by (simp add: unat_word_ariths)
  ultimately show ?thesis using bounds low high by (simp only: )
qed

lemma b64_injective:
  assumes "b64_from_24bit a2 a1 a0 4 = b64_from_24bit b2 b1 b0 4"
  shows "a2 = b2 \<and> a1 = b1 \<and> a0 = b0"
proof -
  let ?v = "\<lambda>(x :: u8) (y :: u8) (z :: u8). unat x * 65536 + unat y * 256 + unat z"
  have less: "?v x y z < 64 ^ 4" for x y z
    using unat_byte_less [of x] unat_byte_less [of y] unat_byte_less [of z]
    by (simp del: unat_byte_less)
  have eq: "?v a2 a1 a0 = ?v b2 b1 b0"
    using arg_cong [OF assms, of sixbit_value] less
    by (simp only: b64_from_24bit_def sixbit_loop_value group_word mod_less)
  have split: "?v x y z div 65536 = unat x \<and> ?v x y z div 256 mod 256 = unat y \<and> ?v x y z mod 256 = unat z"
    for x y z
    by (intro conjI triple_digits) simp_all
  from eq split [of a2 a1 a0] split [of b2 b1 b0]
  show ?thesis by (metis word_unat_eq_iff)
qed

lemma b64_injective_3:
  assumes "b64_from_24bit 0 a1 a0 3 = b64_from_24bit 0 b1 b0 3"
  shows "a1 = b1 \<and> a0 = b0"
proof -
  let ?v = "\<lambda>(y :: u8) (z :: u8). unat y * 256 + unat z"
  have less: "?v y z < 64 ^ 3" for y z
    using unat_byte_less [of y] unat_byte_less [of z] by (simp del: unat_byte_less)
  have "?v a1 a0 = ?v b1 b0"
    using arg_cong [OF assms, of sixbit_value] less
    by (simp only: b64_from_24bit_def sixbit_loop_value group_word mod_less unat_0 mult_0 add_0)
  moreover have split: "?v y z div 256 = unat y \<and> ?v y z mod 256 = unat z" for y z
    using unat_byte_less [of z] by (auto simp del: unat_byte_less)
  ultimately show ?thesis using split [of a1 a0] split [of b1 b0] by (metis word_unat_eq_iff)
qed

section \<open>The text of a digest\<close>

lemma length_b64 [simp]: "length (b64_from_24bit a b c n) = n"
  by (simp add: b64_from_24bit_def sixbit_loop_chars)

lemma digest_text_chars: "set (digest_text gs buf) \<subseteq> set cov_2char"
  using sixbit_loop_chars(2) by (fastforce simp: digest_text_def b64_from_24bit_def)

lemma length_digest_text:
  "length (digest_text gs buf) = sum_list (map (\<lambda>(i, j, k, n). n) gs)"
  by (simp add: digest_text_def length_concat comp_def split_def)

lemma digest_text_5_length [simp]: "length (digest_text groups_5 buf) = 43"
  by (simp add: length_digest_text groups_5_def)

lemma digest_text_6_length [simp]: "length (digest_text groups_6 buf) = 86"
  by (simp add: length_digest_text groups_6_def)

text \<open>Every byte of the digest is in one group, so the text determines the digest.\<close>

lemma digest_text_injective:
  assumes "digest_text groups_5 a = digest_text groups_5 b" "length a = 32" "length b = 32"
  shows "a = b"
proof (rule nth_equalityI)
  show "length a = length b" using assms by simp
  fix i assume "i < length a"
  then have i: "i \<in> set [0..<32]" using assms by simp
  have groups: "b64_from_24bit (a ! 0) (a ! 10) (a ! 20) 4 = b64_from_24bit (b ! 0) (b ! 10) (b ! 20) 4 \<and>
    b64_from_24bit (a ! 21) (a ! 1) (a ! 11) 4 = b64_from_24bit (b ! 21) (b ! 1) (b ! 11) 4 \<and>
    b64_from_24bit (a ! 12) (a ! 22) (a ! 2) 4 = b64_from_24bit (b ! 12) (b ! 22) (b ! 2) 4 \<and>
    b64_from_24bit (a ! 3) (a ! 13) (a ! 23) 4 = b64_from_24bit (b ! 3) (b ! 13) (b ! 23) 4 \<and>
    b64_from_24bit (a ! 24) (a ! 4) (a ! 14) 4 = b64_from_24bit (b ! 24) (b ! 4) (b ! 14) 4 \<and>
    b64_from_24bit (a ! 15) (a ! 25) (a ! 5) 4 = b64_from_24bit (b ! 15) (b ! 25) (b ! 5) 4 \<and>
    b64_from_24bit (a ! 6) (a ! 16) (a ! 26) 4 = b64_from_24bit (b ! 6) (b ! 16) (b ! 26) 4 \<and>
    b64_from_24bit (a ! 27) (a ! 7) (a ! 17) 4 = b64_from_24bit (b ! 27) (b ! 7) (b ! 17) 4 \<and>
    b64_from_24bit (a ! 18) (a ! 28) (a ! 8) 4 = b64_from_24bit (b ! 18) (b ! 28) (b ! 8) 4 \<and>
    b64_from_24bit (a ! 9) (a ! 19) (a ! 29) 4 = b64_from_24bit (b ! 9) (b ! 19) (b ! 29) 4 \<and>
    b64_from_24bit 0 (a ! 31) (a ! 30) 3 = b64_from_24bit 0 (b ! 31) (b ! 30) 3"
    using assms(1) by (simp add: digest_text_def groups_5_def group_byte_def)
  have "\<forall>k\<in>{0,1,2,3,4,5,6,7,8,9,10,11,12,13,14,15,16,17,18,19,20,21,22,23,24,25,26,27,28,29,30,31}. a ! k = b ! k"
    using groups by (auto dest!: b64_injective b64_injective_3)
  moreover have "i \<in> {0,1,2,3,4,5,6,7,8,9,10,11,12,13,14,15,16,17,18,19,20,21,22,23,24,25,26,27,28,29,30,31}"
    using i by (simp add: eval_nat_numeral less_Suc_eq)
  ultimately show "a ! i = b ! i" by blast
qed

section \<open>The form of a hash\<close>

lemma nat_digits_length: "k < 10 ^ n \<Longrightarrow> 0 < n \<Longrightarrow> length (nat_digits fuel k) \<le> n"
proof (induction fuel arbitrary: k n)
  case (Suc fuel)
  show ?case
  proof (cases "k < 10")
    case False
    then obtain m where n: "n = Suc (Suc m)"
      using Suc.prems by (cases n rule: nat.exhaust; cases "n - 1") auto
    then have "k div 10 < 10 ^ Suc m" using Suc.prems by (simp add: less_mult_imp_div_less)
    from Suc.IH [OF this] n False show ?thesis by simp
  qed (use Suc.prems in simp)
qed simp

lemma show_nat_rounds: "k \<le> ROUNDS_MAX \<Longrightarrow> length (show_nat k) \<le> 9"
  unfolding show_nat_def ROUNDS_MAX_def by (rule nat_digits_length) simp_all

lemma salt_rounds_bounds:
  assumes "salt_rounds salt = Some (custom, rounds, salt')"
  shows "ROUNDS_MIN \<le> rounds" "rounds \<le> ROUNDS_MAX"
  using assms
  by (auto simp: salt_rounds_def ROUNDS_MIN_def ROUNDS_MAX_def ROUNDS_DEFAULT_def
      split: if_splits prod.splits list.splits char.splits bool.splits)

lemma head_length:
  assumes "length magic = 1" "rounds \<le> ROUNDS_MAX"
  shows "length (shacrypt_head magic custom rounds salt) \<le> 3 + (if custom then 17 else 0) + length salt"
  using show_nat_rounds [OF assms(2)] assms(1) by (simp add: shacrypt_head_def)

lemma shacrypt_5:
  assumes "salt_rounds salt = Some (custom, rounds, salt')" "passwd \<noteq> []" "salt' \<noteq> []"
  shows "shacrypt L passwd ''5'' salt = Some (shacrypt_head ''5'' custom rounds (take 16 salt') @ ''$'' @
    digest_text groups_5 (sha_digest (EVP_sha256 L) (map char_byte passwd) (map char_byte (take 16 salt')) rounds))"
  using assms head_length [of "''5''" rounds custom "take 16 salt'"] salt_rounds_bounds [OF assms(1)]
  by (simp add: shacrypt_def SALT_LEN_MAX_def Let_def)

lemma shacrypt_6:
  assumes "salt_rounds salt = Some (custom, rounds, salt')" "passwd \<noteq> []" "salt' \<noteq> []"
  shows "shacrypt L passwd ''6'' salt = Some (shacrypt_head ''6'' custom rounds (take 16 salt') @ ''$'' @
    digest_text groups_6 (sha_digest (EVP_sha512 L) (map char_byte passwd) (map char_byte (take 16 salt')) rounds))"
  using assms head_length [of "''6''" rounds custom "take 16 salt'"] salt_rounds_bounds [OF assms(1)]
  by (simp add: shacrypt_def SALT_LEN_MAX_def Let_def)

lemma hash_parts_fit:
  assumes "length magic = 1" "rounds \<le> ROUNDS_MAX" "length t \<le> 86"
  shows "length (shacrypt_head magic custom rounds (take 16 salt) @ ''$'' @ t) < out_len"
  using head_length [OF assms(1,2), of custom "take 16 salt"] assms(3)
  by (auto simp: out_len_def split: if_splits)

text \<open>
  Whatever the password and the salt are, a hash never overruns the 124 characters of its
  buffer.  It is the method, the rounds if the salt gave them, at most sixteen characters of
  the salt, and 43 or 86 characters of the alphabet; only another method, a number of rounds
  without an end or, where the library gives no empty block, an empty text make it fail.
\<close>

theorem hash_fits_buffer:
  "(case shacrypt L passwd magic salt of
      None \<Rightarrow> magic \<notin> {''5'', ''6''} \<or> salt_rounds salt = None \<or>
        passwd = [] \<or> (\<exists>custom rounds. salt_rounds salt = Some (custom, rounds, []))
    | Some h \<Rightarrow> length h < out_len \<and>
        (\<exists>custom rounds salt' t. salt_rounds salt = Some (custom, rounds, salt') \<and>
           ROUNDS_MIN \<le> rounds \<and> rounds \<le> ROUNDS_MAX \<and>
           h = shacrypt_head magic custom rounds (take 16 salt') @ ''$'' @ t \<and>
           length t = (if magic = ''5'' then 43 else 86) \<and> set t \<subseteq> set cov_2char))"
proof (cases "shacrypt L passwd magic salt")
  case None
  have False if "magic \<in> {''5'', ''6''}" "salt_rounds salt = Some (custom, rounds, salt')"
    "passwd \<noteq> []" "salt' \<noteq> []" for custom rounds salt'
    using that(1) None shacrypt_5 [OF that(2-4)] shacrypt_6 [OF that(2-4)] by auto
  with None show ?thesis by (cases "salt_rounds salt") auto
next
  case (Some h)
  from Some have magic: "magic = ''5'' \<or> magic = ''6''"
    by (auto simp: shacrypt_def split: if_splits option.splits)
  from Some obtain custom rounds salt' where sr: "salt_rounds salt = Some (custom, rounds, salt')"
    by (auto simp: shacrypt_def split: if_splits option.splits)
  note bounds = salt_rounds_bounds [OF sr]
  define t where "t = (if magic = ''5''
    then digest_text groups_5 (sha_digest (EVP_sha256 L) (map char_byte passwd) (map char_byte (take 16 salt')) rounds)
    else digest_text groups_6 (sha_digest (EVP_sha512 L) (map char_byte passwd) (map char_byte (take 16 salt')) rounds))"
  have "h = shacrypt_head magic custom rounds (take 16 salt') @ ''$'' @ t"
    using Some sr magic by (auto simp: shacrypt_def Let_def SALT_LEN_MAX_def t_def split: if_splits)
  moreover have "length t = (if magic = ''5'' then 43 else 86)" "set t \<subseteq> set cov_2char"
    using digest_text_chars by (auto simp: t_def)
  moreover have "length h < out_len"
    using hash_parts_fit [of magic rounds t custom salt'] calculation magic bounds by auto
  ultimately show ?thesis using Some sr bounds by auto
qed

definition demo_openssl :: openssl where
  "demo_openssl = \<lparr>EVP_sha256 = (\<lambda>m. replicate 32 (of_nat (length m))), EVP_sha512 = (\<lambda>m. replicate 64 0),
     RAND_bytes = (\<lambda>n. Some (replicate n 0)), zalloc_0 = False\<rparr>"

lemma openssl_ok_demo: "openssl_ok demo_openssl"
  by (simp add: openssl_ok_def demo_openssl_def)

lemma hash_fits_buffer_witness:
  "case shacrypt demo_openssl ''secret'' ''5'' ''abcdefghijklmnop'' of
     None \<Rightarrow> False | Some h \<Rightarrow> length h < out_len"
  using hash_fits_buffer [where L = demo_openssl and passwd = "''secret''" and magic = "''5''" and
      salt = "''abcdefghijklmnop''"]
  by (auto simp: salt_rounds_def split: option.splits)

section \<open>Checking a password\<close>

lemma sha_digest_length:
  assumes "\<forall>m. length (sha m) = 32" "rounds \<noteq> 0"
  shows "length (sha_digest sha passwd salt rounds) = 32"
proof -
  obtain n where "rounds = Suc n" using assms(2) by (cases rounds) auto
  then show ?thesis using assms(1) by (simp add: sha_digest_def Let_def sha_round_def)
qed

lemma alphabet_salt:
  assumes "set salt \<subseteq> set cov_2char" "length salt = 16"
  shows "salt_rounds (salt @ rest) = Some (False, ROUNDS_DEFAULT, salt @ rest)"
proof -
  have "CHR ''='' \<notin> set cov_2char" by code_simp
  moreover have "CHR ''='' \<in> set salt" if "prefix ''rounds='' (salt @ rest)"
  proof -
    from that obtain zs where "salt @ rest = ''rounds='' @ zs" by (auto simp: prefix_def)
    then have "take 7 (salt @ rest) = take 7 (''rounds='' @ zs)" by (rule arg_cong)
    with assms(2) have "take 7 salt = ''rounds=''" by simp
    then have "CHR ''='' \<in> set (take 7 salt)" by simp
    then show ?thesis by (rule in_set_takeD)
  qed
  ultimately have "\<not> prefix ''rounds='' (salt @ rest)" using assms(1) by blast
  then show ?thesis by (simp add: salt_rounds_def)
qed

lemma random_salt:
  "set (map (\<lambda>b :: u8. cov_2char ! unat (b AND 0x3f)) bs) \<subseteq> set cov_2char"
proof -
  have "unat (b AND 0x3f) < 64" for b :: u8
  proof -
    have "(0x3f :: u8) = mask 6" by (simp add: mask_eq_decr_exp)
    then have "b AND 0x3f = b mod 64" using take_bit_eq_mask [of 6 b] by (simp add: take_bit_eq_mod)
    then show ?thesis by (simp add: unat_mod)
  qed
  then show ?thesis using cov_2char_table by auto
qed

text \<open>
  A new hash can be checked by hashing the password of a login with the hash as its salt,
  the way the commented out comparison would: the result is the stored hash exactly for the
  passwords that have the same digest, the right one among them.
\<close>

theorem rehash_decides:
  assumes "openssl_ok L" "hash_password L passwd None = Some h" "other \<noteq> []"
  shows "\<exists>salt. length salt = 16 \<and> set salt \<subseteq> set cov_2char \<and>
    (hash_password L other (Some (drop 3 h)) = Some h \<longleftrightarrow>
     sha_digest (EVP_sha256 L) (map char_byte other) (map char_byte salt) ROUNDS_DEFAULT =
     sha_digest (EVP_sha256 L) (map char_byte passwd) (map char_byte salt) ROUNDS_DEFAULT)"
proof -
  let ?d = "\<lambda>pw salt. sha_digest (EVP_sha256 L) (map char_byte pw) (map char_byte salt) ROUNDS_DEFAULT"
  obtain bs where bs: "RAND_bytes L 16 = Some bs"
    using assms(2) by (auto simp: hash_password_def split: option.splits)
  define salt where "salt = map (\<lambda>b :: u8. cov_2char ! unat (b AND 0x3f)) bs"
  have salt: "length salt = 16" "set salt \<subseteq> set cov_2char"
    using bs assms(1) random_salt by (auto simp: salt_def openssl_ok_def)
  have h: "h = ''$5$'' @ salt @ ''$'' @ digest_text groups_5 (?d passwd salt)"
    using assms(2) bs alphabet_salt [OF salt(2,1), of "[]"] salt(1)
    by (auto simp: hash_password_def shacrypt_def Let_def SALT_LEN_MAX_def shacrypt_head_def
        simp flip: salt_def split: if_splits)
  then have "drop 3 h = salt @ ''$'' @ digest_text groups_5 (?d passwd salt)" by simp
  then have "hash_password L other (Some (drop 3 h))
      = Some (''$5$'' @ salt @ ''$'' @ digest_text groups_5 (?d other salt))"
    using shacrypt_5 [OF alphabet_salt [OF salt(2,1)] assms(3)] salt(1)
    by (simp add: hash_password_def shacrypt_head_def)
  then have "hash_password L other (Some (drop 3 h)) = Some h \<longleftrightarrow> ?d other salt = ?d passwd salt"
    using h assms(1) digest_text_injective
    by (auto simp: openssl_ok_def sha_digest_length ROUNDS_DEFAULT_def)
  with salt show ?thesis by blast
qed

lemma rehash_decides_witness:
  "\<exists>h salt. hash_password demo_openssl ''secret'' None = Some h \<and>
    (hash_password demo_openssl ''guess'' (Some (drop 3 h)) = Some h \<longleftrightarrow>
     sha_digest (EVP_sha256 demo_openssl) (map char_byte ''guess'') (map char_byte salt) ROUNDS_DEFAULT =
     sha_digest (EVP_sha256 demo_openssl) (map char_byte ''secret'') (map char_byte salt) ROUNDS_DEFAULT)"
proof -
  have "map (\<lambda>b :: u8. cov_2char ! unat (b AND 0x3f)) (replicate 16 0) = replicate 16 (cov_2char ! 0)"
    by simp
  moreover have sr: "salt_rounds (replicate 16 (cov_2char ! 0)) = Some (False, ROUNDS_DEFAULT, replicate 16 (cov_2char ! 0))"
    using alphabet_salt [of "replicate 16 (cov_2char ! 0)" "[]"] by (simp add: cov_2char_def)
  ultimately have "hash_password demo_openssl ''secret'' None \<noteq> None"
    using shacrypt_5 [OF sr, of "''secret''" demo_openssl]
    by (simp add: hash_password_def demo_openssl_def)
  then obtain h where h: "hash_password demo_openssl ''secret'' None = Some h" by auto
  from rehash_decides [OF openssl_ok_demo h, of "''guess''"] h show ?thesis by auto
qed

end
