(* ===== verification/JwtLaws.thy ===== *)
theory JwtLaws
  imports Jwt
begin

text \<open>
  Properties of tokens: which tokens are accepted, that the program accepts its own for an hour,
  and what a token of an unknown issuer does.
\<close>

section \<open>The key of an issuer\<close>

lemma find_key_from:
  "find_key_from i name ks =
     (if \<exists>k\<in>set ks. prefix name (fst k)
      then int (i + length (takeWhile (\<lambda>k. \<not> prefix name (fst k)) ks)) else - 1)"
  by (induction i name ks rule: find_key_from.induct) auto

lemma nth_takeWhile_find:
  "\<exists>k\<in>set ks. P k \<Longrightarrow> List.find P ks = Some (ks ! length (takeWhile (\<lambda>k. \<not> P k) ks))"
  by (induction ks) auto

lemma issuer_key_find:
  "issuer_key st name =
     (case List.find (\<lambda>k. prefix name (fst k)) (key_store st) of
        Some k \<Rightarrow> Some (snd k)
      | None \<Rightarrow> if name = ''neuron'' then Some (neuron_public_key st) else None)"
proof (cases "\<exists>k\<in>set (key_store st). prefix name (fst k)")
  case True
  from nth_takeWhile_find [OF this] True show ?thesis
    by (simp add: issuer_key_def find_key_def find_key_from Let_def)
next
  case False
  then have "List.find (\<lambda>k. prefix name (fst k)) (key_store st) = None"
    by (auto simp: find_None_iff)
  with False show ?thesis by (simp add: issuer_key_def find_key_def find_key_from Let_def)
qed

text \<open>The key file whose name counts: any name that starts with the issuer.\<close>

definition key_of_issuer :: "jwt_state \<Rightarrow> string \<Rightarrow> string \<Rightarrow> bool" where
  "key_of_issuer st name key \<longleftrightarrow>
     (case List.find (\<lambda>k. prefix name (fst k)) (key_store st) of
        Some k \<Rightarrow> key = snd k | None \<Rightarrow> name = ''neuron'' \<and> key = neuron_public_key st)"

lemma issuer_key_Some: "issuer_key st name = Some key \<longleftrightarrow> key_of_issuer st name key"
  by (auto simp: issuer_key_find key_of_issuer_def split: option.splits)

section \<open>Accepted tokens\<close>

definition accepted :: "'w libjwt \<Rightarrow> jwt_state \<Rightarrow> int \<Rightarrow> string \<Rightarrow> string \<Rightarrow> string \<Rightarrow> bool" where
  "accepted W st now token name key \<longleftrightarrow>
     (\<exists>test jwt. jwt_decode W token None = Some test \<and> jwt_get_grant W test ''iss'' = Some name \<and>
        key_of_issuer st name key \<and> jwt_decode W token (Some key) = Some jwt \<and>
        jwt_is_rs256 W jwt \<and> jwt_validate W jwt now = JWT_VALID)"

lemma decode_key:
  assumes "jwt_decode W token None = Some test" "jwt_get_grant W test ''iss'' = Some name"
    "key_of_issuer st name key"
  shows "neu_jwt_decode W F st token =
    Some (case jwt_decode W token (Some key) of
            None \<Rightarrow> None | Some jwt \<Rightarrow> if jwt_is_rs256 W jwt then Some jwt else None, st)"
  using assms by (simp add: neu_jwt_decode_def issuer_key_Some [symmetric] split: option.split)

lemma decode_Some:
  "neu_jwt_decode W F st token = Some (Some jwt, st') \<longleftrightarrow>
     st' = st \<and> (\<exists>test name key. jwt_decode W token None = Some test \<and>
        jwt_get_grant W test ''iss'' = Some name \<and> key_of_issuer st name key \<and>
        jwt_decode W token (Some key) = Some jwt \<and> jwt_is_rs256 W jwt)"
  by (auto simp: neu_jwt_decode_def issuer_key_Some [symmetric] split: option.splits if_splits)

lemma validate_text:
  "neu_jwt_validate W F now st (Some text) =
     (if length text \<le> 7 then Some (NEU_ERR_NEED_TOKEN, st)
      else case neu_jwt_decode W F st (drop 7 text) of
             None \<Rightarrow> None
           | Some (None, st') \<Rightarrow> Some (NEU_ERR_DECODE_TOKEN, st')
           | Some (Some jwt, st') \<Rightarrow>
               Some (case jwt_validate W jwt now of
                       JWT_VALID \<Rightarrow> NEU_ERR_SUCCESS
                     | JWT_VALIDATION_EXPIRED \<Rightarrow> NEU_ERR_EXPIRED_TOKEN
                     | JWT_VALIDATION_OTHER \<Rightarrow> NEU_ERR_VALIDATE_TOKEN, st'))"
proof -
  have "length ''Bearar '' = 7" by simp
  then show ?thesis by (simp only: neu_jwt_validate_def option.case)
qed

lemma accepted_decode:
  "(\<exists>name key. accepted W st now token name key) \<longleftrightarrow>
     (\<exists>jwt. neu_jwt_decode W F st token = Some (Some jwt, st) \<and> jwt_validate W jwt now = JWT_VALID)"
  by (auto simp: decode_Some accepted_def)

text \<open>
  C26: A request passes exactly when the text after the first seven characters of its
  authorization is a token with a valid RS256 signature that is not expired, under the first
  key of \<open>certs\<close> whose file name starts with the issuer, or under the program's own key if
  there is none and the issuer is \<open>neuron\<close>.  So an issuer is not tied to a file of its name:
  the empty issuer belongs to the first key.
\<close>

theorem token_accepted_iff:
  "neu_jwt_validate W F now st (Some text) = Some (NEU_ERR_SUCCESS, st') \<longleftrightarrow>
     st' = st \<and> 7 < length text \<and> (\<exists>name key. accepted W st now (drop 7 text) name key)"
proof -
  have "neu_jwt_validate W F now st (Some text) = Some (NEU_ERR_SUCCESS, st') \<longleftrightarrow>
      7 < length text \<and> (\<exists>jwt. neu_jwt_decode W F st (drop 7 text) = Some (Some jwt, st') \<and>
        jwt_validate W jwt now = JWT_VALID)"
    by (auto simp: validate_text split: option.splits jwt_validity.splits)
  also have "\<dots> \<longleftrightarrow> st' = st \<and> 7 < length text \<and> (\<exists>name key. accepted W st now (drop 7 text) name key)"
    by (auto simp: accepted_decode [where F = F] dest: decode_Some [THEN iffD1])
  finally show ?thesis .
qed

section \<open>A concrete library\<close>

text \<open>A token is its issuer, the end of its time in unary and the key it was signed with.\<close>

definition demo_jwt :: "(string \<times> nat \<times> string) libjwt" where
  "demo_jwt =
     \<lparr>jwt_encode = (\<lambda>gs key. case (map_of gs ''iss'', map_of gs ''exp'') of
         (Some (Grant_str s), Some (Grant_int e)) \<Rightarrow>
           if CHR ''.'' \<in> set s then None
           else Some (s @ ''.'' @ replicate (nat e) CHR ''1'' @ ''.'' @ key)
       | _ \<Rightarrow> None),
      jwt_decode = (\<lambda>token key.
         let name = takeWhile (\<lambda>c. c \<noteq> CHR ''.'') token;
             rest = tl (dropWhile (\<lambda>c. c \<noteq> CHR ''.'') token);
             n = length (takeWhile (\<lambda>c. c \<noteq> CHR ''.'') rest);
             sig = tl (dropWhile (\<lambda>c. c \<noteq> CHR ''.'') rest)
         in if key = None \<or> key = Some sig then Some (name, n, sig) else None),
      jwt_get_grant = (\<lambda>(name, n, sig) g. if g = ''iss'' then Some name else None),
      jwt_is_rs256 = (\<lambda>_. True),
      jwt_validate = (\<lambda>(name, n, sig) now. if int n \<le> now then JWT_VALIDATION_EXPIRED else JWT_VALID)\<rparr>"

definition demo_keys :: jwt_state where
  "demo_keys = \<lparr>key_store = [(''ekuiper.pem'', ''k1''), (''vendor.pub'', ''k2'')],
     neuron_private_key = ''k0'', neuron_public_key = ''k0''\<rparr>"

definition no_files :: jwt_files where
  "no_files = \<lparr>read_path = (\<lambda>_. None), read_dir = (\<lambda>_. None)\<rparr>"

lemma token_accepted_iff_witness:
  "neu_jwt_validate demo_jwt no_files 1 demo_keys (Some ''Bearer .111.k1'') = Some (NEU_ERR_SUCCESS, demo_keys)"
proof -
  have "accepted demo_jwt demo_keys 1 (drop 7 ''Bearer .111.k1'') [] ''k1''"
    by (simp add: accepted_def key_of_issuer_def demo_jwt_def demo_keys_def)
  then show ?thesis using token_accepted_iff [of demo_jwt no_files 1 demo_keys "''Bearer .111.k1''" demo_keys] by auto
qed

section \<open>Its own tokens\<close>

text \<open>
  Documented behaviour of signing with a private key: the token can be read, its signature is
  valid for the public key, and it is valid until the time it carries.
\<close>

definition key_pair :: "'w libjwt \<Rightarrow> string \<Rightarrow> string \<Rightarrow> bool" where
  "key_pair W priv pub \<longleftrightarrow>
     (\<forall>gs token s e. jwt_encode W gs priv = Some token \<longrightarrow>
        map_of gs ''iss'' = Some (Grant_str s) \<longrightarrow> map_of gs ''exp'' = Some (Grant_int e) \<longrightarrow> 0 < e \<longrightarrow>
        token \<noteq> [] \<and>
        (\<exists>test jwt. jwt_decode W token None = Some test \<and> jwt_get_grant W test ''iss'' = Some s \<and>
           jwt_decode W token (Some pub) = Some jwt \<and> jwt_is_rs256 W jwt \<and>
           (\<forall>now. jwt_validate W jwt now = (if e \<le> now then JWT_VALIDATION_EXPIRED else JWT_VALID))))"

text \<open>
  A token that the program made passes for an hour, after any seven characters, and is
  answered as expired afterwards; unless \<open>certs\<close> has a key file whose name starts with
  \<open>neuron\<close>, which is then used in place of the program's own key.
\<close>

theorem own_token_for_an_hour:
  assumes "key_pair W (neuron_private_key st) (neuron_public_key st)" "0 \<le> t"
    and "neu_jwt_new W t st = Some token" "length scheme = 7"
    and "\<forall>(file, key)\<in>set (key_store st). \<not> prefix ''neuron'' file"
  shows "neu_jwt_validate W F now st (Some (scheme @ token)) =
    Some (if now < t + 3600 then NEU_ERR_SUCCESS else NEU_ERR_EXPIRED_TOKEN, st)"
proof -
  have "map_of (token_grants t) ''iss'' = Some (Grant_str ''neuron'')"
    "map_of (token_grants t) ''exp'' = Some (Grant_int (t + 3600))"
    by (simp_all add: token_grants_def)
  with assms(1-3) obtain test jwt where tok: "token \<noteq> []" "jwt_decode W token None = Some test"
      "jwt_get_grant W test ''iss'' = Some ''neuron''" "jwt_is_rs256 W jwt"
      "jwt_decode W token (Some (neuron_public_key st)) = Some jwt"
      "\<And>now. jwt_validate W jwt now = (if t + 3600 \<le> now then JWT_VALIDATION_EXPIRED else JWT_VALID)"
    unfolding key_pair_def neu_jwt_new_def
    by (metis add_nonneg_pos zero_less_numeral)
  have "List.find (\<lambda>k. prefix ''neuron'' (fst k)) (key_store st) = None"
    using assms(5) by (auto simp: find_None_iff)
  then have "key_of_issuer st ''neuron'' (neuron_public_key st)" by (simp add: key_of_issuer_def)
  from decode_key [OF tok(2,3) this, of F] tok have "neu_jwt_decode W F st token = Some (Some jwt, st)"
    by simp
  with assms(4) tok show ?thesis by (simp add: validate_text)
qed

lemma demo_key_pair: "key_pair demo_jwt (neuron_private_key demo_keys) (neuron_public_key demo_keys)"
  unfolding key_pair_def
proof (intro allI impI)
  fix gs token s and e :: int
  assume a: "jwt_encode demo_jwt gs (neuron_private_key demo_keys) = Some token"
    "map_of gs ''iss'' = Some (Grant_str s)" "map_of gs ''exp'' = Some (Grant_int e)" "0 < e"
  then have s: "CHR ''.'' \<notin> set s" and token: "token = s @ ''.'' @ replicate (nat e) CHR ''1'' @ ''.'' @ ''k0''"
    by (auto simp: demo_jwt_def demo_keys_def split: if_splits)
  have "takeWhile (\<lambda>c. c \<noteq> CHR ''.'') token = s"
    "dropWhile (\<lambda>c. c \<noteq> CHR ''.'') token = ''.'' @ replicate (nat e) CHR ''1'' @ ''.'' @ ''k0''"
    unfolding token using s by (simp_all add: takeWhile_append dropWhile_append)
  moreover have "takeWhile (\<lambda>c. c \<noteq> CHR ''.'') (replicate (nat e) CHR ''1'' @ ''.'' @ ''k0'') = replicate (nat e) CHR ''1''"
    "dropWhile (\<lambda>c. c \<noteq> CHR ''.'') (replicate (nat e) CHR ''1'' @ ''.'' @ ''k0'') = ''.k0''"
    by (simp_all add: takeWhile_append dropWhile_append)
  ultimately have read: "jwt_decode demo_jwt token key
      = (if key = None \<or> key = Some ''k0'' then Some (s, nat e, ''k0'') else None)" for key
    by (simp add: demo_jwt_def Let_def)
  have "token \<noteq> []" by (simp add: token)
  with read a(4) show "token \<noteq> [] \<and>
      (\<exists>test jwt. jwt_decode demo_jwt token None = Some test \<and> jwt_get_grant demo_jwt test ''iss'' = Some s \<and>
         jwt_decode demo_jwt token (Some (neuron_public_key demo_keys)) = Some jwt \<and> jwt_is_rs256 demo_jwt jwt \<and>
         (\<forall>now. jwt_validate demo_jwt jwt now = (if e \<le> now then JWT_VALIDATION_EXPIRED else JWT_VALID)))"
    by (simp add: demo_keys_def) (simp add: demo_jwt_def)
qed

lemma own_token_for_an_hour_witness:
  "\<exists>token. neu_jwt_new demo_jwt 2 demo_keys = Some token \<and>
     neu_jwt_validate demo_jwt no_files 3000 demo_keys (Some (''Bearer '' @ token)) = Some (NEU_ERR_SUCCESS, demo_keys)"
proof -
  note pair = demo_key_pair
  have "neu_jwt_new demo_jwt 2 demo_keys \<noteq> None"
    by (simp add: neu_jwt_new_def demo_jwt_def token_grants_def)
  then obtain token where t: "neu_jwt_new demo_jwt 2 demo_keys = Some token" by auto
  have "\<forall>(file, key)\<in>set (key_store demo_keys). \<not> prefix ''neuron'' file" by (simp add: demo_keys_def)
  from own_token_for_an_hour [OF pair _ t _ this, of "''Bearer ''" no_files 3000] t show ?thesis by auto
qed

section \<open>Reading the keys\<close>

lemma scan_names_result:
  assumes "length store + k = 8"
  shows "scan_names F dir names store =
    (let files = filter is_key_file names
     in if k < length files \<or> (\<exists>n\<in>set files. load_key F dir n = None) then None
        else Some (store @ map (\<lambda>n. (strncpy_text 256 n, strncpy_text 1023 (the (load_key F dir n)))) files))"
  using assms
proof (induction names arbitrary: store k)
  case Nil
  then show ?case by simp
next
  case (Cons n names)
  show ?case
  proof (cases "is_key_file n")
    case False
    then show ?thesis using Cons by (simp add: Let_def)
  next
    case True
    show ?thesis
    proof (cases "load_key F dir n")
      case None
      with True show ?thesis by (simp add: Let_def)
    next
      case (Some content)
      show ?thesis
      proof (cases k)
        case 0
        with True Some Cons.prems show ?thesis by (simp add: Let_def add_key_def)
      next
        case (Suc j)
        then have "length (store @ [(strncpy_text 256 n, strncpy_text 1023 content)]) + j = 8" using Cons.prems by simp
        from Cons.IH [OF this] True Some Suc Cons.prems show ?thesis
          by (auto simp add: Let_def add_key_def)
      qed
    qed
  qed
qed

text \<open>The key files of a directory that is listed.\<close>

definition key_files :: "jwt_files \<Rightarrow> string \<Rightarrow> string list" where
  "key_files F dir = (case read_dir F dir of None \<Rightarrow> [] | Some names \<Rightarrow> filter is_key_file names)"

definition too_many_or_unreadable :: "jwt_files \<Rightarrow> string \<Rightarrow> bool" where
  "too_many_or_unreadable F dir \<longleftrightarrow>
     8 < length (key_files F dir) \<or> (\<exists>n\<in>set (key_files F dir). load_key F dir n = None)"

definition keys_of :: "jwt_files \<Rightarrow> string \<Rightarrow> (string \<times> string) list" where
  "keys_of F dir = map (\<lambda>n. (strncpy_text 256 n, strncpy_text 1023 (the (load_key F dir n)))) (key_files F dir)"

lemma scanf_key_result:
  "scanf_key F dir st =
     (if too_many_or_unreadable F dir then None else Some (st\<lparr>key_store := keys_of F dir\<rparr>))"
proof (cases "read_dir F dir")
  case None
  then show ?thesis by (simp add: scanf_key_def too_many_or_unreadable_def key_files_def keys_of_def)
next
  case (Some names)
  then show ?thesis
    using scan_names_result [of "[]" 8 F dir names]
    by (auto simp add: scanf_key_def too_many_or_unreadable_def key_files_def keys_of_def Let_def)
qed

text \<open>
  A token of an issuer for whom there is no key is rejected, and makes the program read the
  directory \<open>certs\<close> again: it takes every key file there now, and an assertion stops the
  program when there are more than eight or one of them is empty or cannot be read.
\<close>

theorem unknown_issuer_reloads:
  assumes "7 < length text" "jwt_decode W (drop 7 text) None = Some test"
    and "jwt_get_grant W test ''iss'' = Some name" "\<nexists>key. key_of_issuer st name key"
  shows "neu_jwt_validate W F now st (Some text) =
    (if too_many_or_unreadable F ''certs'' then None
     else Some (NEU_ERR_DECODE_TOKEN, st\<lparr>key_store := keys_of F ''certs''\<rparr>))"
proof -
  have "issuer_key st name = None" using assms(4) issuer_key_Some [of st name] by (cases "issuer_key st name") auto
  then have "neu_jwt_decode W F st (drop 7 text) = map_option (Pair None) (scanf_key F ''certs'' st)"
    using assms(2,3) by (simp add: neu_jwt_decode_def)
  with assms(1) show ?thesis by (simp add: validate_text scanf_key_result)
qed

lemma unknown_issuer_reloads_witness:
  "neu_jwt_validate demo_jwt \<lparr>read_path = (\<lambda>_. Some []), read_dir = (\<lambda>_. Some [''new.pem''])\<rparr> 1 demo_keys
     (Some ''Bearer x.1.k'') = None"
proof -
  let ?F = "\<lparr>read_path = (\<lambda>_. Some []), read_dir = (\<lambda>_. Some [''new.pem''])\<rparr>"
  have "too_many_or_unreadable ?F ''certs''"
    by (simp add: too_many_or_unreadable_def key_files_def is_key_file_def load_key_def)
  moreover have "\<nexists>key. key_of_issuer demo_keys ''x'' key"
    by (simp add: key_of_issuer_def demo_keys_def)
  ultimately show ?thesis
    using unknown_issuer_reloads [of "''Bearer x.1.k''" demo_jwt "(''x'', 1, ''k'')" "''x''" demo_keys ?F 1]
    by (simp add: demo_jwt_def)
qed

end
