(* ===== verification/LoginLaws.thy ===== *)
theory LoginLaws
  imports UserLaws JwtLaws
begin

text \<open>Properties of logging in and of changing a password.\<close>

lemma http_error_listed:
  "error_status code = Some status \<Longrightarrow> http_error E code = Some (response (error_text (re_json E) code) status)"
  by (simp add: http_error_def neu_http_response_def)

lemma password_errors:
  "error_status NEU_ERR_INVALID_PASSWORD_LEN = Some NNG_HTTP_STATUS_BAD_REQUEST"
  "error_status NEU_ERR_SUCCESS = Some NNG_HTTP_STATUS_OK"
  by (simp_all add: error_status_def ok_codes_def internal_codes_def forbidden_codes_def
      unauthorized_codes_def bad_request_codes_def)

definition length_ok :: "string \<Rightarrow> bool" where
  "length_ok pass \<longleftrightarrow> NEU_USER_PASSWORD_MIN_LEN \<le> length pass \<and> length pass \<le> NEU_USER_PASSWORD_MAX_LEN"

text \<open>The hash of any password is longer than the text that stands for the old one.\<close>

lemma update_loaded_user:
  assumes "length_ok new"
  shows "\<exists>h. neu_user_update_password L \<lparr>us_name = name, us_hash = ''password''\<rparr> new
    = Some (0, \<lparr>us_name = name, us_hash = h\<rparr>)"
proof -
  have "salt_rounds ''sword'' = Some (False, ROUNDS_DEFAULT, ''sword'')" by (simp add: salt_rounds_def)
  moreover have "new \<noteq> []" using assms by (auto simp: length_ok_def NEU_USER_PASSWORD_MIN_LEN_def)
  ultimately show ?thesis
    using shacrypt_5 [of "''sword''" False ROUNDS_DEFAULT "''sword''" new L]
    by (simp add: neu_user_update_password_def hash_password_def shacrypt_head_def)
qed

lemma change_password_result:
  assumes "pr_name r = Some name" "pr_new_pass r = Some new"
  shows "change_password L r = Some (if length_ok new then 0 else NEU_ERR_INVALID_PASSWORD_LEN)"
proof (cases "length_ok new")
  case True
  from update_loaded_user [OF this, of L name] obtain h where
    "neu_user_update_password L \<lparr>us_name = name, us_hash = ''password''\<rparr> new
      = Some (0, \<lparr>us_name = name, us_hash = h\<rparr>)" by auto
  with True assms show ?thesis
    by (simp add: change_password_def length_ok_def neu_load_user_def neu_user_check_password_def
        neu_save_user_def not_less)
next
  case False
  with assms show ?thesis by (simp add: change_password_def length_ok_def not_le)
qed

text \<open>
  C27: No password is ever checked.  A login with any name and any password of four to sixteen
  characters is answered by a token, in one response; and a change of password succeeds for
  every name and every old password, without anything being kept.
\<close>

theorem passwords_are_not_checked:
  assumes "neu_http_get_body req = Some buf"
    and "neu_json_decode_login_req (re_json E) buf = Some (Some \<lparr>lr_pass = Some pass, lr_name = Some name\<rparr>)"
    and "neu_jwt_new (re_jwt E) (re_now E) st = Some token"
    and "pr_name r = Some user" "pr_new_pass r = Some new"
  shows "handle_login E req st = Some (responds st
      [if length_ok pass then neu_http_ok (login_text E (Some token))
       else neu_http_bad_request (error_text (re_json E) NEU_ERR_INVALID_PASSWORD_LEN)]) \<and>
    change_password L r = Some (if length_ok new then 0 else NEU_ERR_INVALID_PASSWORD_LEN)"
proof
  show "change_password L r = Some (if length_ok new then 0 else NEU_ERR_INVALID_PASSWORD_LEN)"
    by (rule change_password_result [OF assms(4,5)])
  show "handle_login E req st = Some (responds st
      [if length_ok pass then neu_http_ok (login_text E (Some token))
       else neu_http_bad_request (error_text (re_json E) NEU_ERR_INVALID_PASSWORD_LEN)])"
    using assms(1-3)
    by (auto simp: handle_login_def NEU_PROCESS_HTTP_REQUEST_def neu_load_user_def length_ok_def
        neu_user_check_password_def rest_error_def http_error_listed [OF password_errors(1)]
        neu_http_bad_request_def)
qed

definition demo_json :: "jtree jansson" where
  "demo_json = jt_jansson\<lparr>json_loads := (\<lambda>_ _. Some
     (JTObject [(''name'', JTString ''admin''), (''pass'', JTString ''wrong'')]))\<rparr>"

definition demo_env :: "(jtree, string \<times> nat \<times> string) rest_env" where
  "demo_env = \<lparr>re_json = demo_json, re_jwt = demo_jwt, re_files = no_files, re_now = 2,
     re_disable_jwt = False, re_op = (\<lambda>_ _. 0)\<rparr>"

definition demo_req :: "string \<Rightarrow> http_req" where
  "demo_req body = \<lparr>hr_ctx = 1, hr_url = ''/api/v2/login'', hr_authorization = None, hr_body = body\<rparr>"

lemma passwords_are_not_checked_witness:
  "\<exists>token. handle_login demo_env (demo_req ''x'') demo_keys
      = Some (responds demo_keys [neu_http_ok (login_text demo_env (Some token))])"
proof -
  have "neu_jwt_new (re_jwt demo_env) (re_now demo_env) demo_keys \<noteq> None"
    by (simp add: neu_jwt_new_def demo_env_def demo_jwt_def token_grants_def)
  then obtain token where t: "neu_jwt_new (re_jwt demo_env) (re_now demo_env) demo_keys = Some token"
    by auto
  have "neu_json_decode_login_req (re_json demo_env) ''x''
      = Some (Some \<lparr>lr_pass = Some ''wrong'', lr_name = Some ''admin''\<rparr>)"
    by (simp add: neu_json_decode_login_req_def demo_env_def demo_json_def neu_json_decode_def
        decode_object_def want_def jt_jansson_def jt_get_def)
  from passwords_are_not_checked [OF _ this t, of "demo_req ''x''"
      "\<lparr>pr_name = Some ''a'', pr_old_pass = None, pr_new_pass = Some ''b''\<rparr>" "''a''" "''b''"]
  show ?thesis
    by (auto simp: neu_http_get_body_def demo_req_def length_ok_def NEU_USER_PASSWORD_MIN_LEN_def
        NEU_USER_PASSWORD_MAX_LEN_def)
qed

end
