(* ===== verification/ConfigLaws.thy ===== *)
theory ConfigLaws
  imports ConfigRest LoginLaws
begin

text \<open>
  Conversations about a configuration: they come to an end, and writing one sends exactly the
  commands that replace the old configuration by the new one, in order.
\<close>

section \<open>Conversations\<close>

text \<open>
  What is sent while responses arrive, and the answer that ends it; \<open>None\<close> is a crash.
\<close>

fun converse ::
  "('c \<Rightarrow> 'd \<Rightarrow> 'c config_step option) \<Rightarrow> 'c \<Rightarrow> 'd list \<Rightarrow>
    ((neu_reqresp_head_t \<times> reqresp_data) list \<times> (nng_http_status \<times> string) option) option" where
  "converse step ctx [] = Some ([], None)"
| "converse step ctx (d # ds) =
     (case step ctx d of
        None \<Rightarrow> None
      | Some (Ended r) \<Rightarrow> Some ([], Some r)
      | Some (Waiting ctx' cmd) \<Rightarrow> map_option (\<lambda>(cmds, r). (cmd # cmds, r)) (converse step ctx' ds))"

definition over :: "('a \<times> 'b option) option \<Rightarrow> bool" where
  "over r \<longleftrightarrow> (case r of None \<Rightarrow> True | Some (_, answer) \<Rightarrow> answer \<noteq> None)"

lemma conversation_ends:
  assumes "wf R" and step: "\<And>c d c' cmd. step c d = Some (Waiting c' cmd) \<Longrightarrow> (c', c) \<in> R"
  shows "\<exists>n. over (converse step c (map f [0..<n]))"
  using assms(1)
proof (induction c arbitrary: f rule: wf_induct_rule)
  case (less c)
  have next_map: "map f [0..<Suc n] = f 0 # map (\<lambda>i. f (Suc i)) [0..<n]" for n
    by (simp add: upt_conv_Cons map_Suc_upt [symmetric] del: upt_Suc)
  show ?case
  proof (cases "step c (f 0)")
    case None
    then have "over (converse step c (map f [0..<Suc 0]))" by (simp add: over_def)
    then show ?thesis ..
  next
    case (Some r)
    show ?thesis
    proof (cases r)
      case (Ended a)
      with Some have "over (converse step c (map f [0..<Suc 0]))" by (simp add: over_def)
      then show ?thesis ..
    next
      case (Waiting c' cmd)
      from step Some Waiting have "(c', c) \<in> R" by blast
      from less [OF this, of "\<lambda>i. f (Suc i)"] obtain n
        where "over (converse step c' (map (\<lambda>i. f (Suc i)) [0..<n]))" by blast
      with Some Waiting have "over (converse step c (map f [0..<Suc n]))"
        unfolding next_map by (auto simp: over_def split: option.splits)
      then show ?thesis ..
    qed
  qed
qed

section \<open>Steps\<close>

lemma config_error_ends [simp]: "config_error E e \<noteq> Some (Waiting c cmd)"
  by (simp add: config_error_def)

lemma config_send_waiting:
  "config_send E aio type cmd ctx = Some (Waiting c' cmd') \<Longrightarrow> c' = ctx"
  by (auto simp: config_send_def Let_def split: if_splits)

lemma at_list_waiting:
  assumes "at_list E err skip xs act fall ctx data = Some (Waiting c' cmd)"
    and "\<And>c x. act c x = Some (Waiting c' cmd) \<Longrightarrow> c' = c"
  shows "(\<exists>i. px_idx ctx \<le> i \<and> i < length xs \<and> c' = ctx\<lparr>px_idx := Suc i\<rparr>) \<or>
    (\<exists>i. fall (ctx\<lparr>px_idx := i\<rparr>) = Some (Waiting c' cmd))"
proof -
  let ?i = "px_idx ctx + length (takeWhile skip (drop (px_idx ctx) xs))"
  have "(if ?i < length xs then act (ctx\<lparr>px_idx := Suc ?i\<rparr>) (xs ! ?i) else fall (ctx\<lparr>px_idx := ?i\<rparr>))
      = Some (Waiting c' cmd)"
    using assms(1) by (auto simp: at_list_def Let_def bind_eq_Some_conv split: if_splits)
  then show ?thesis
    using assms(2) by (cases "?i < length xs") (force intro: exI [of _ ?i])+
qed

text \<open>Every state that acts leaves the context as it is given to the action.\<close>

lemma acts_waiting:
  "add_setting E c x1 = Some (Waiting c' cmd) \<Longrightarrow> c' = c"
  "add_subscription E c x2 = Some (Waiting c' cmd) \<Longrightarrow> c' = c"
  "add_tag E c x3 = Some (Waiting c' cmd) \<Longrightarrow> c' = c"
  "add_group E c x4 = Some (Waiting c' cmd) \<Longrightarrow> c' = c"
  "add_node E c x5 = Some (Waiting c' cmd) \<Longrightarrow> c' = c"
  "del_node E c x6 = Some (Waiting c' cmd) \<Longrightarrow> c' = c"
  by (auto simp: add_setting_def add_subscription_def add_tag_def add_group_def add_node_def del_node_def
      bind_eq_Some_conv dest: config_send_waiting)

lemma get_nodes_waiting: "get_nodes E aio ty c = Some (Waiting c' cmd) \<Longrightarrow> c' = c"
  by (auto simp: get_nodes_def dest: config_send_waiting)

section \<open>Writing comes to an end\<close>

fun phase :: "context_state_e \<Rightarrow> nat" where
  "phase STATE_START = 10"
| "phase STATE_GET_APP = 9"
| "phase STATE_DEL_APP = 8"
| "phase STATE_GET_DRIVER = 7"
| "phase STATE_DEL_DRIVER = 6"
| "phase STATE_ADD_NODE = 5"
| "phase STATE_ADD_GROUP = 4"
| "phase STATE_ADD_TAG = 3"
| "phase STATE_ADD_SUBSCRIPTION = 2"
| "phase STATE_ADD_SETTING = 1"
| "phase _ = 0"

text \<open>What is left of the list of the state.\<close>

definition left_over :: "'j put_context \<Rightarrow> nat" where
  "left_over ctx =
     (let len = (\<lambda>f. case px_req ctx of None \<Rightarrow> 0 | Some r \<Rightarrow> f r)
      in (case px_state ctx of
            STATE_DEL_APP \<Rightarrow> length (px_nodes ctx)
          | STATE_DEL_DRIVER \<Rightarrow> length (px_nodes ctx)
          | STATE_ADD_NODE \<Rightarrow> len (\<lambda>r. length (gq_nodes r))
          | STATE_ADD_GROUP \<Rightarrow> len (\<lambda>r. length (gq_groups r))
          | STATE_ADD_TAG \<Rightarrow> len (\<lambda>r. length (gq_tags r))
          | STATE_ADD_SUBSCRIPTION \<Rightarrow> len (\<lambda>r. length (gq_subscriptions r))
          | STATE_ADD_SETTING \<Rightarrow> len (\<lambda>r. length (gq_settings r))
          | _ \<Rightarrow> 0) - px_idx ctx)"

definition put_order :: "('j put_context \<times> 'j put_context) set" where
  "put_order = measures [\<lambda>c. phase (px_state c), left_over]"

lemma put_phase: "(c', c) \<in> put_order \<Longrightarrow> phase (px_state c') \<le> phase (px_state c)"
  by (auto simp: put_order_def)

lemma at_list_order:
  assumes "at_list E err skip xs act fall ctx data = Some (Waiting c' cmd)"
    and "\<And>c x. act c x = Some (Waiting c' cmd) \<Longrightarrow> c' = c"
    and "\<And>i. left_over (ctx\<lparr>px_idx := i\<rparr>) = length xs - i"
    and "\<And>i. fall (ctx\<lparr>px_idx := i\<rparr>) = Some (Waiting c' cmd) \<Longrightarrow> phase (px_state c') < phase (px_state ctx)"
  shows "(c', ctx) \<in> put_order"
proof -
  have "(\<exists>i. px_idx ctx \<le> i \<and> i < length xs \<and> c' = ctx\<lparr>px_idx := Suc i\<rparr>) \<or>
      (\<exists>i. fall (ctx\<lparr>px_idx := i\<rparr>) = Some (Waiting c' cmd))"
    by (rule at_list_waiting [OF assms(1)]) (rule assms(2))
  then show ?thesis
  proof (elim disjE exE conjE)
    fix i assume "px_idx ctx \<le> i" "i < length xs" "c' = ctx\<lparr>px_idx := Suc i\<rparr>"
    with assms(3) [of "Suc i"] assms(3) [of "px_idx ctx"] show ?thesis by (simp add: put_order_def)
  next
    fix i assume "fall (ctx\<lparr>px_idx := i\<rparr>) = Some (Waiting c' cmd)"
    from assms(4) [OF this] show ?thesis by (simp add: put_order_def)
  qed
qed

lemmas part_defs = part_of_def left_over_def enter_def

lemma add_setting_order:
  assumes "at_add_setting E ctx data = Some (Waiting c' cmd)" "px_state ctx = STATE_ADD_SETTING"
  shows "(c', ctx) \<in> put_order"
proof -
  from assms obtain xs where "part_of gq_settings ctx = Some xs"
    "at_list E read_error (\<lambda>_. False) xs (add_setting E) (\<lambda>_. config_error E 0) ctx data = Some (Waiting c' cmd)"
    by (auto simp: at_add_setting_def bind_eq_Some_conv)
  then show ?thesis
    using assms(2) by (auto simp: part_defs dest: acts_waiting intro!: at_list_order)
qed

lemma add_subscription_order:
  assumes "at_add_subscription E ctx data = Some (Waiting c' cmd)" "px_state ctx = STATE_ADD_SUBSCRIPTION"
  shows "(c', ctx) \<in> put_order"
proof -
  from assms obtain xs where "part_of gq_subscriptions ctx = Some xs"
    "at_list E read_error (\<lambda>_. False) xs (add_subscription E)
       (\<lambda>c. at_add_setting E (enter STATE_ADD_SETTING c) data) ctx data = Some (Waiting c' cmd)"
    by (auto simp: at_add_subscription_def bind_eq_Some_conv)
  then show ?thesis
    using assms(2)
    by (auto simp: part_defs dest: acts_waiting dest!: add_setting_order put_phase intro!: at_list_order)
qed

lemma add_tag_order:
  assumes "at_add_tag E ctx data = Some (Waiting c' cmd)" "px_state ctx = STATE_ADD_TAG"
  shows "(c', ctx) \<in> put_order"
proof -
  from assms obtain xs where "part_of gq_tags ctx = Some xs"
    "at_list E read_tag_error (\<lambda>_. False) xs (add_tag E)
       (\<lambda>c. at_add_subscription E (enter STATE_ADD_SUBSCRIPTION c) data) ctx data = Some (Waiting c' cmd)"
    by (auto simp: at_add_tag_def bind_eq_Some_conv)
  then show ?thesis
    using assms(2)
    by (auto simp: part_defs dest: acts_waiting dest!: add_subscription_order put_phase intro!: at_list_order)
qed

lemma add_group_order:
  assumes "at_add_group E ctx data = Some (Waiting c' cmd)" "px_state ctx = STATE_ADD_GROUP"
  shows "(c', ctx) \<in> put_order"
proof -
  from assms obtain xs where "part_of gq_groups ctx = Some xs"
    "at_list E read_error (\<lambda>_. False) xs (add_group E)
       (\<lambda>c. at_add_tag E (enter STATE_ADD_TAG c) data) ctx data = Some (Waiting c' cmd)"
    by (auto simp: at_add_group_def bind_eq_Some_conv)
  then show ?thesis
    using assms(2)
    by (auto simp: part_defs dest: acts_waiting dest!: add_tag_order put_phase intro!: at_list_order)
qed

lemma add_node_order:
  assumes "at_add_node E ctx data = Some (Waiting c' cmd)" "px_state ctx = STATE_ADD_NODE"
  shows "(c', ctx) \<in> put_order"
proof -
  from assms obtain xs where "part_of gq_nodes ctx = Some xs"
    "at_list E read_error (\<lambda>n. gn_name n = Some ''monitor'' \<and> gn_plugin n = Some ''Monitor'') xs (add_node E)
       (\<lambda>c. at_add_group E (enter STATE_ADD_GROUP c) data) ctx data = Some (Waiting c' cmd)"
    by (auto simp: at_add_node_def bind_eq_Some_conv)
  then show ?thesis
    using assms(2)
    by (auto simp: part_defs dest: acts_waiting dest!: add_group_order put_phase intro!: at_list_order)
qed

lemma del_order:
  assumes "at_del E ctx data = Some (Waiting c' cmd)" "px_state ctx \<in> {STATE_DEL_APP, STATE_DEL_DRIVER}"
  shows "(c', ctx) \<in> put_order"
  using assms
  by (auto simp: at_del_def part_defs dest: acts_waiting dest!: add_node_order put_phase get_nodes_waiting
      intro!: at_list_order)

lemma put_step_order:
  assumes "put_context_next E ctx data = Some (Waiting c' cmd)"
  shows "(c', ctx) \<in> put_order"
proof (cases "px_state ctx")
  case STATE_START
  with assms show ?thesis
    by (auto simp: put_context_next_def put_order_def dest!: get_nodes_waiting)
next
  case STATE_GET_APP
  with assms show ?thesis
    by (auto simp: put_context_next_def enter_def put_order_def split: option.splits config_data.splits
        dest!: del_order put_phase)
next
  case STATE_GET_DRIVER
  with assms show ?thesis
    by (auto simp: put_context_next_def enter_def put_order_def split: option.splits config_data.splits
        dest!: del_order put_phase)
qed (use assms in \<open>auto simp: put_context_next_def intro: del_order add_node_order add_group_order add_tag_order
    add_subscription_order add_setting_order\<close>)

section \<open>Reading comes to an end\<close>

fun get_phase :: "context_state_e \<Rightarrow> nat" where
  "get_phase STATE_START = 8"
| "get_phase STATE_GET_APP = 7"
| "get_phase STATE_GET_DRIVER = 6"
| "get_phase STATE_GET_GROUP = 5"
| "get_phase STATE_GET_TAG = 4"
| "get_phase STATE_GET_SUBSCRIPTION = 3"
| "get_phase STATE_GET_APP_SETTING = 2"
| "get_phase STATE_GET_DRIVER_SETTING = 1"
| "get_phase _ = 0"

definition after :: "nat option \<Rightarrow> nat" where
  "after iter = (case iter of None \<Rightarrow> 0 | Some i \<Rightarrow> Suc i)"

definition to_visit :: "'j get_context \<Rightarrow> nat" where
  "to_visit ctx =
     (case gx_state ctx of
        STATE_GET_TAG \<Rightarrow> length (gx_groups ctx)
      | STATE_GET_SUBSCRIPTION \<Rightarrow> length (gx_apps ctx)
      | STATE_GET_APP_SETTING \<Rightarrow> length (gx_apps ctx)
      | STATE_GET_DRIVER_SETTING \<Rightarrow> length (gx_drivers ctx)
      | _ \<Rightarrow> 0) - after (gx_iter ctx)"

definition get_order :: "('j get_context \<times> 'j get_context) set" where
  "get_order = measures [\<lambda>c. get_phase (gx_state c), to_visit]"

lemma get_phase_le: "(c', c) \<in> get_order \<Longrightarrow> get_phase (gx_state c') \<le> get_phase (gx_state c)"
  by (auto simp: get_order_def)

lemma next_iter_Some: "next_iter xs iter = Some i \<longleftrightarrow> i = after iter \<and> i < length xs"
  by (auto simp: next_iter_def after_def Let_def)

lemma NEXT_waiting:
  assumes "NEXT E r k = Some (Waiting c' cmd)"
  obtains ctx where "r = Inr ctx" "k ctx = Some (Waiting c' cmd)"
  using assms by (cases r) (auto simp: NEXT_def)

text \<open>What the collecting actions leave of the context.\<close>

lemma collect_keeps: "collect_entry J ctx key entry names = Inr ctx' \<Longrightarrow> \<exists>json. ctx' = ctx\<lparr>gx_json := json\<rparr>"
  by (auto simp: collect_entry_def split: prod.splits if_splits option.splits)

lemma get_acts_waiting:
  "get_setting E c info = Some (Waiting c' cmd) \<Longrightarrow> c' = c"
  "get_subscriptions E c info = Some (Waiting c' cmd) \<Longrightarrow> c' = c"
  "get_tags E c grp = Some (Waiting c' cmd) \<Longrightarrow> c' = c"
  "get_groups E c = Some (Waiting c' cmd) \<Longrightarrow> c' = c"
  by (auto simp: get_setting_def get_subscriptions_def get_tags_def get_groups_def bind_eq_Some_conv
      dest: config_send_waiting split: prod.splits)

lemma driver_setting_order:
  assumes "at_driver_setting E ctx type data = Some (Waiting c' cmd)" "gx_state ctx = STATE_GET_DRIVER_SETTING"
  shows "(c', ctx) \<in> get_order"
  using assms
  by (auto simp: at_driver_setting_def at_setting_def bind_eq_Some_conv get_setting_resp_def get_end_def
      next_iter_Some get_order_def to_visit_def after_def elim!: NEXT_waiting dest!: collect_keeps get_acts_waiting
      split: if_splits option.splits)

lemma app_setting_order:
  assumes "at_app_setting E ctx type data = Some (Waiting c' cmd)" "gx_state ctx = STATE_GET_APP_SETTING"
  shows "(c', ctx) \<in> get_order"
  using assms
  by (auto simp: at_app_setting_def at_setting_def bind_eq_Some_conv get_setting_resp_def
      next_iter_Some get_order_def to_visit_def after_def elim!: NEXT_waiting
      dest!: collect_keeps get_acts_waiting driver_setting_order [THEN get_phase_le]
      split: if_splits option.splits)

lemma subscription_order:
  assumes "at_subscription E ctx type data = Some (Waiting c' cmd)" "gx_state ctx = STATE_GET_SUBSCRIPTION"
  shows "(c', ctx) \<in> get_order"
  using assms
  by (auto simp: at_subscription_def bind_eq_Some_conv get_subscriptions_resp_def
      next_iter_Some get_order_def to_visit_def after_def elim!: NEXT_waiting
      dest!: collect_keeps get_acts_waiting app_setting_order [THEN get_phase_le]
      split: if_splits option.splits config_data.splits)

lemma tag_order:
  assumes "at_tag E ctx type data = Some (Waiting c' cmd)" "gx_state ctx = STATE_GET_TAG"
  shows "(c', ctx) \<in> get_order"
  using assms
  by (auto simp: at_tag_def bind_eq_Some_conv get_tags_resp_def
      next_iter_Some get_order_def to_visit_def after_def elim!: NEXT_waiting
      dest!: collect_keeps get_acts_waiting subscription_order [THEN get_phase_le]
      split: if_splits option.splits config_data.splits prod.splits)

lemma get_step_order:
  assumes "get_context_next E ctx type data = Some (Waiting c' cmd)"
  shows "(c', ctx) \<in> get_order"
proof (cases "gx_state ctx")
  case STATE_START
  with assms show ?thesis
    by (auto simp: get_context_next_def get_order_def dest!: get_nodes_waiting)
next
  case STATE_GET_APP
  with assms show ?thesis
    by (auto simp: get_context_next_def get_order_def elim!: NEXT_waiting dest!: get_nodes_waiting
        split: option.splits config_data.splits)
next
  case STATE_GET_DRIVER
  with assms show ?thesis
    by (auto simp: get_context_next_def get_order_def elim!: NEXT_waiting dest!: get_acts_waiting
        split: option.splits config_data.splits)
next
  case STATE_GET_GROUP
  with assms show ?thesis
    by (auto simp: get_context_next_def get_order_def elim!: NEXT_waiting
        dest!: tag_order [THEN get_phase_le] split: option.splits config_data.splits)
qed (use assms in \<open>auto simp: get_context_next_def intro: tag_order subscription_order app_setting_order
    driver_setting_order\<close>)

text \<open>
  C34: Whatever responses arrive and whatever they carry, a conversation ends: after finitely many
  of them the answer of reading or writing a configuration has been sent (or an access that is
  undefined was made).  Neither keeps the request of a browser open as long as the core answers.
\<close>

theorem config_conversations_end:
  fixes responses :: "nat \<Rightarrow> neu_reqresp_type \<times> config_data"
  shows "(\<exists>n. over (converse (\<lambda>ctx (type, data). get_context_next E ctx type (Some data)) get_ctx
      (map responses [0..<n]))) \<and>
    (\<exists>n. over (converse (\<lambda>ctx (type, data). put_context_next E ctx (Some data)) put_ctx
      (map responses [0..<n])))"
proof
  show "\<exists>n. over (converse (\<lambda>ctx (type, data). get_context_next E ctx type (Some data)) get_ctx
      (map responses [0..<n]))"
    by (rule conversation_ends [where R = get_order]) (auto simp: get_order_def dest: get_step_order)
  show "\<exists>n. over (converse (\<lambda>ctx (type, data). put_context_next E ctx (Some data)) put_ctx
      (map responses [0..<n]))"
    by (rule conversation_ends [where R = put_order]) (auto simp: put_order_def dest: put_step_order)
qed

section \<open>What writing a configuration does\<close>

type_synonym command = "neu_reqresp_head_t \<times> reqresp_data"

definition command :: "nat \<Rightarrow> neu_reqresp_type \<Rightarrow> reqresp_data \<Rightarrow> command" where
  "command aio type d = (\<lparr>rh_type = type, rh_ctx = aio, rh_sender = [], rh_receiver = []\<rparr>, d)"

definition del_command :: "nat \<Rightarrow> node_info \<Rightarrow> command" where
  "del_command aio n = command aio NEU_REQ_DEL_NODE (D_node (fst n))"

definition del_commands :: "nat \<Rightarrow> node_info list \<Rightarrow> command list" where
  "del_commands aio nodes = map (del_command aio) (filter (\<lambda>(node, plugin). \<not> is_static_node node plugin) nodes)"

definition get_command :: "nat \<Rightarrow> neu_node_type_e \<Rightarrow> command" where
  "get_command aio type = command aio NEU_REQ_GET_NODE (D_get_node (node_type_code type) [] [])"

definition is_monitor :: "neu_json_get_nodes_resp_node_t \<Rightarrow> bool" where
  "is_monitor n \<longleftrightarrow> gn_name n = Some ''monitor'' \<and> gn_plugin n = Some ''Monitor''"

definition node_command :: "nat \<Rightarrow> neu_json_get_nodes_resp_node_t \<Rightarrow> command" where
  "node_command aio n = command aio NEU_REQ_ADD_NODE (D_add_node (the (gn_name n)) (the (gn_plugin n)))"

definition group_command :: "nat \<Rightarrow> neu_json_driver_group_t \<Rightarrow> command" where
  "group_command aio g =
     command aio NEU_REQ_ADD_GROUP (D_add_group (the (dg_driver g)) (the (dg_dgroup g)) (ucast (dg_interval g)))"

definition tags_of :: "'j neu_json_add_tags_req_t \<Rightarrow> neu_datatag_t list" where
  "tags_of r = counted16 (map (\<lambda>t. the (tag_of_json t)) (aq_tags r))"

definition config_tags_command :: "nat \<Rightarrow> 'j neu_json_add_tags_req_t \<Rightarrow> command" where
  "config_tags_command aio r = command aio NEU_REQ_ADD_TAG (D_tags (the (aq_node r)) (the (aq_group r)) (tags_of r))"

definition subscribe_command :: "nat \<Rightarrow> neu_json_subscribe_t \<Rightarrow> command" where
  "subscribe_command aio s = command aio NEU_REQ_SUBSCRIBE_GROUP
     (D_subscribe (the (sb_app s)) (the (sb_driver s)) (the (sb_group s)) (sb_params s))"

definition setting_command :: "nat \<Rightarrow> neu_json_node_setting_req_t \<Rightarrow> command" where
  "setting_command aio s = command aio NEU_REQ_NODE_SETTING (D_node_setting (the (st_node s)) (the (st_setting s)))"

text \<open>The commands that replace the configuration with the applications and drivers given by \<open>r\<close>.\<close>

definition replacement ::
  "nat \<Rightarrow> node_info list \<Rightarrow> node_info list \<Rightarrow> 'j neu_json_global_config_req_t \<Rightarrow> command list" where
  "replacement aio apps drivers r =
     del_commands aio apps @ [get_command aio NEU_NA_TYPE_DRIVER] @ del_commands aio drivers @
     map (node_command aio) (filter (\<lambda>n. \<not> is_monitor n) (gq_nodes r)) @
     map (group_command aio) (gq_groups r) @ map (config_tags_command aio) (gq_tags r) @
     map (subscribe_command aio) (gq_subscriptions r) @ map (setting_command aio) (gq_settings r)"

text \<open>Names that fit their fields, and tags that have one type or other.\<close>

definition short :: "nat \<Rightarrow> string option \<Rightarrow> bool" where
  "short n s = (case s of None \<Rightarrow> False | Some t \<Rightarrow> length t < n)"

definition config_fits :: "'j neu_json_global_config_req_t \<Rightarrow> bool" where
  "config_fits r \<longleftrightarrow>
     (\<forall>n\<in>set (gq_nodes r). short NEU_NODE_NAME_LEN (gn_name n) \<and> short NEU_PLUGIN_NAME_LEN (gn_plugin n)) \<and>
     (\<forall>g\<in>set (gq_groups r). short NEU_NODE_NAME_LEN (dg_driver g) \<and> short NEU_GROUP_NAME_LEN (dg_dgroup g)) \<and>
     (\<forall>t\<in>set (gq_tags r). short NEU_NODE_NAME_LEN (aq_node t) \<and> short NEU_GROUP_NAME_LEN (aq_group t) \<and>
        (\<forall>x\<in>set (aq_tags t). tag_of_json x \<noteq> None)) \<and>
     (\<forall>s\<in>set (gq_subscriptions r). short NEU_NODE_NAME_LEN (sb_app s) \<and>
        short NEU_NODE_NAME_LEN (sb_driver s) \<and> short NEU_GROUP_NAME_LEN (sb_group s)) \<and>
     (\<forall>s\<in>set (gq_settings r). short NEU_NODE_NAME_LEN (st_node s) \<and> st_setting s \<noteq> None)"

definition nodes_fit :: "node_info list \<Rightarrow> bool" where
  "nodes_fit nodes \<longleftrightarrow> (\<forall>n\<in>set nodes. length (fst n) < NEU_NODE_NAME_LEN)"

lemma short_strcpy: "short n s \<Longrightarrow> strcpy n s = Some (the s)"
  by (auto simp: short_def strcpy_def split: option.splits)

lemma all_tags: "\<forall>x\<in>set xs. tag_of_json x \<noteq> None \<Longrightarrow>
    those (map tag_of_json xs) = Some (map (\<lambda>t. the (tag_of_json t)) xs)"
  by (induction xs) auto

lemma sends: "(\<And>h d. re_op E h d = 0) \<Longrightarrow> config_send E aio type d ctx = Some (Waiting ctx (command aio type d))"
  by (simp add: config_send_def command_def Let_def)

subsection \<open>One list\<close>

definition then_sends :: "'x list \<Rightarrow> ('x list \<times> 'y) option \<Rightarrow> ('x list \<times> 'y) option" where
  "then_sends cmds r = map_option (\<lambda>(cs, a). (cmds @ cs, a)) r"

lemma then_sends_simps [simp]:
  "then_sends [] r = r"
  "then_sends xs (Some (ys, a)) = Some (xs @ ys, a)"
  "then_sends xs (then_sends ys r) = then_sends (xs @ ys) r"
  by (auto simp: then_sends_def option.map_comp comp_def split_def option.map_ident)

definition resume ::
  "('c \<Rightarrow> 'd \<Rightarrow> 'c config_step option) \<Rightarrow> 'c config_step option \<Rightarrow> 'd list \<Rightarrow>
    (command list \<times> (nng_http_status \<times> string) option) option" where
  "resume step r ds =
     (case r of
        None \<Rightarrow> None
      | Some (Ended a) \<Rightarrow> Some ([], Some a)
      | Some (Waiting ctx cmd) \<Rightarrow> then_sends [cmd] (converse step ctx ds))"

lemma converse_step: "converse step ctx (d # ds) = resume step (step ctx d) ds"
  by (auto simp: resume_def then_sends_def split: option.splits config_step.splits)

lemma resume_simps [simp]:
  "resume step (Some (Ended a)) ds = Some ([], Some a)"
  "resume step (Some (Waiting ctx cmd)) ds = then_sends [cmd] (converse step ctx ds)"
  by (simp_all add: resume_def)

text \<open>\<open>at_list\<close> once the error has been looked at.\<close>

definition list_rest ::
  "('a \<Rightarrow> bool) \<Rightarrow> 'a list \<Rightarrow> ('j put_context \<Rightarrow> 'a \<Rightarrow> 'j put_context config_step option) \<Rightarrow>
    ('j put_context \<Rightarrow> 'j put_context config_step option) \<Rightarrow> 'j put_context \<Rightarrow> 'j put_context config_step option" where
  "list_rest skip xs act fall ctx =
     (let idx = px_idx ctx + length (takeWhile skip (drop (px_idx ctx) xs))
      in if idx < length xs then act (ctx\<lparr>px_idx := Suc idx\<rparr>) (xs ! idx) else fall (ctx\<lparr>px_idx := idx\<rparr>))"

lemma at_list_rest: "at_list E err skip xs act fall ctx d =
    (if px_idx ctx = 0 \<or> err d = Some 0 then list_rest skip xs act fall ctx
     else Option.bind (err d) (config_error E))"
  by (auto simp: at_list_def list_rest_def Let_def split: option.splits bind_splits)

lemma list_runs:
  assumes step: "\<And>i. 0 < i \<Longrightarrow>
      step (base\<lparr>px_idx := i\<rparr>) ok = list_rest skip xs act (fall (Some ok)) (base\<lparr>px_idx := i\<rparr>)"
    and act: "\<And>c x. x \<in> set xs \<Longrightarrow> act (base\<lparr>px_idx := c\<rparr>) x = Some (Waiting (base\<lparr>px_idx := c\<rparr>) (cmd x))"
    and fall: "\<And>d. fall d (base\<lparr>px_idx := length xs\<rparr>) = r"
    and xs: "xs = pre @ rest"
  shows "resume step (list_rest skip xs act (fall d) (base\<lparr>px_idx := length pre\<rparr>))
      (replicate (length (filter (\<lambda>x. \<not> skip x) rest)) ok @ ds)
    = then_sends (map cmd (filter (\<lambda>x. \<not> skip x) rest)) (resume step r ds)"
  using xs
proof (induction rest arbitrary: pre d)
  case Nil
  then show ?case using fall [of d] by (simp add: list_rest_def)
next
  case (Cons x rest)
  from Cons.prems have longer: "xs = (pre @ [x]) @ rest" by simp
  note IH = Cons.IH [OF longer]
  show ?case
  proof (cases "skip x")
    case True
    have "list_rest skip xs act (fall d) (base\<lparr>px_idx := length pre\<rparr>)
        = list_rest skip xs act (fall d) (base\<lparr>px_idx := length (pre @ [x])\<rparr>)"
      using True Cons.prems by (simp add: list_rest_def)
    then show ?thesis using IH True by simp
  next
    case False
    have "list_rest skip xs act (fall d) (base\<lparr>px_idx := length pre\<rparr>)
        = Some (Waiting (base\<lparr>px_idx := Suc (length pre)\<rparr>) (cmd x))"
      using False Cons.prems act [of x "Suc (length pre)"] by (simp add: list_rest_def)
    then show ?thesis
      using IH [of "Some ok"] False step [of "Suc (length pre)"] by (simp add: converse_step del: converse.simps)
  qed
qed

abbreviation put_step ::
  "('j, 'w) rest_env \<Rightarrow> 'j put_context \<Rightarrow> config_data \<Rightarrow> 'j put_context config_step option" where
  "put_step E \<equiv> \<lambda>ctx d. put_context_next E ctx (Some d)"

lemma part_runs:
  assumes "px_idx ctx = 0" "err (Some ok) = Some 0"
    and step: "\<And>i. put_context_next E (ctx\<lparr>px_idx := i\<rparr>) (Some ok)
        = at_list E err skip xs act (fall (Some ok)) (ctx\<lparr>px_idx := i\<rparr>) (Some ok)"
    and act: "\<And>c x. x \<in> set xs \<Longrightarrow> act (ctx\<lparr>px_idx := c\<rparr>) x = Some (Waiting (ctx\<lparr>px_idx := c\<rparr>) (cmd x))"
    and fall: "\<And>d. fall d (ctx\<lparr>px_idx := length xs\<rparr>) = r"
  shows "resume (put_step E) (at_list E err skip xs act (fall d) ctx d)
      (replicate (length (filter (\<lambda>x. \<not> skip x) xs)) ok @ ds)
    = then_sends (map cmd (filter (\<lambda>x. \<not> skip x) xs)) (resume (put_step E) r ds)"
proof -
  have "resume (put_step E) (list_rest skip xs act (fall d) (ctx\<lparr>px_idx := 0\<rparr>))
      (replicate (length (filter (\<lambda>x. \<not> skip x) xs)) ok @ ds)
    = then_sends (map cmd (filter (\<lambda>x. \<not> skip x) xs)) (resume (put_step E) r ds)"
    by (rule list_runs [where pre = "[]", simplified list.size])
       (use assms in \<open>simp_all add: at_list_rest\<close>)
  moreover have "ctx\<lparr>px_idx := 0\<rparr> = ctx" using assms(1) by (cases ctx) simp
  ultimately show ?thesis using assms(1) by (simp add: at_list_rest)
qed

subsection \<open>The states one after the other\<close>

text \<open>The responses of a core in which every command succeeds.\<close>

definition oks :: "nat \<Rightarrow> config_data list" where
  "oks n = replicate n (CD_error 0)"

definition writing :: "('j, 'w) rest_env \<Rightarrow> 'j neu_json_global_config_req_t \<Rightarrow> context_state_e \<Rightarrow> 'j put_context \<Rightarrow> bool" where
  "writing E r s ctx \<longleftrightarrow>
     (\<forall>h d. re_op E h d = 0) \<and> config_fits r \<and> px_req ctx = Some r \<and> px_state ctx = s \<and> px_idx ctx = 0"

lemma enter_idx [simp]:
  "enter s (ctx\<lparr>px_idx := i\<rparr>) = enter s ctx" "px_aio (enter s ctx) = px_aio ctx" "px_idx (enter s ctx) = 0"
  by (simp_all add: enter_def)

lemma writing_enter: "writing E r s ctx \<Longrightarrow> writing E r s' (enter s' ctx)"
  by (simp add: writing_def enter_def)

lemma writing_act:
  assumes "writing E r s ctx"
  shows "px_req ctx = Some r" "px_state ctx = s" "px_idx ctx = 0" "config_fits r" "re_op E h d = 0"
  using assms by (simp_all add: writing_def)

text \<open>A state that is entered does not look at what has been received.\<close>

lemma at_list_fresh:
  "px_idx c = 0 \<Longrightarrow> (\<And>c. fall c = fall' c) \<Longrightarrow>
    at_list E err skip xs act fall c d = at_list E err skip xs act fall' c d'"
  by (subgoal_tac "fall = fall'") (auto simp: at_list_rest)

lemma fresh:
  "px_idx c = 0 \<Longrightarrow> at_add_setting E c d = at_add_setting E c None"
  "px_idx c = 0 \<Longrightarrow> at_add_subscription E c d = at_add_subscription E c None"
  "px_idx c = 0 \<Longrightarrow> at_add_tag E c d = at_add_tag E c None"
  "px_idx c = 0 \<Longrightarrow> at_add_group E c d = at_add_group E c None"
  "px_idx c = 0 \<Longrightarrow> at_add_node E c d = at_add_node E c None"
proof -
  show setting: "px_idx c = 0 \<Longrightarrow> at_add_setting E c d = at_add_setting E c None" for c d
    by (auto simp: at_add_setting_def intro!: arg_cong2 [where f = Option.bind] at_list_fresh)
  show subscription: "px_idx c = 0 \<Longrightarrow> at_add_subscription E c d = at_add_subscription E c None" for c d
    by (auto simp: at_add_subscription_def setting [of _ d] intro!: arg_cong2 [where f = Option.bind] at_list_fresh)
  show tag: "px_idx c = 0 \<Longrightarrow> at_add_tag E c d = at_add_tag E c None" for c d
    by (auto simp: at_add_tag_def subscription [of _ d] intro!: arg_cong2 [where f = Option.bind] at_list_fresh)
  show grp: "px_idx c = 0 \<Longrightarrow> at_add_group E c d = at_add_group E c None" for c d
    by (auto simp: at_add_group_def tag [of _ d] intro!: arg_cong2 [where f = Option.bind] at_list_fresh)
  show "px_idx c = 0 \<Longrightarrow> at_add_node E c d = at_add_node E c None"
    by (auto simp: at_add_node_def grp [of _ d] intro!: arg_cong2 [where f = Option.bind] at_list_fresh)
qed

lemma idx_same: "px_idx ctx = i \<Longrightarrow> ctx\<lparr>px_idx := i\<rparr> = ctx"
  by (cases ctx) simp

lemma phase_runs:
  assumes w: "writing E r s ctx"
    and step: "\<And>i d. put_context_next E (ctx\<lparr>px_idx := i\<rparr>) d
      = at_list E err skip xs act (fall d) (ctx\<lparr>px_idx := i\<rparr>) d"
    and err: "err (Some ok) = Some 0"
    and act: "\<And>c x. x \<in> set xs \<Longrightarrow> act c x = Some (Waiting c (cmd (px_aio c) x))"
    and fall: "\<And>d. fall d (ctx\<lparr>px_idx := length xs\<rparr>) = res"
    and n: "n = length (filter (\<lambda>x. \<not> skip x) xs)"
  shows "resume (put_step E) (put_context_next E ctx d) (replicate n ok @ ds)
    = then_sends (map (cmd (px_aio ctx)) (filter (\<lambda>x. \<not> skip x) xs)) (resume (put_step E) res ds)"
proof -
  have "put_context_next E ctx d = at_list E err skip xs act (fall d) ctx d"
    using step [of 0 d] w by (simp add: writing_def idx_same)
  moreover have "px_idx ctx = 0" using w by (simp add: writing_def)
  ultimately show ?thesis unfolding n
    by (simp only:) (rule part_runs, use step err act fall in \<open>simp_all\<close>)
qed

lemma settings_run:
  assumes w: "writing E r STATE_ADD_SETTING ctx"
  shows "resume (put_step E) (at_add_setting E ctx d) (oks (length (gq_settings r)) @ ds)
    = then_sends (map (setting_command (px_aio ctx)) (gq_settings r)) (resume (put_step E) (config_error E 0) ds)"
proof -
  note f = writing_act [OF w]
  have "resume (put_step E) (put_context_next E ctx d) (replicate (length (gq_settings r)) (CD_error 0) @ ds)
    = then_sends (map (setting_command (px_aio ctx)) (filter (\<lambda>x. \<not> False) (gq_settings r)))
        (resume (put_step E) (config_error E 0) ds)"
    by (rule phase_runs [OF w, where err = read_error and act = "add_setting E" and fall = "\<lambda>_ _. config_error E 0"])
       (use f in \<open>auto simp: put_context_next_def at_add_setting_def part_of_def add_setting_def setting_command_def
          short_strcpy config_fits_def sends\<close>)
  with f show ?thesis by (simp add: oks_def put_context_next_def)
qed

lemma subscriptions_run:
  assumes w: "writing E r STATE_ADD_SUBSCRIPTION ctx"
  shows "resume (put_step E) (at_add_subscription E ctx d) (oks (length (gq_subscriptions r)) @ ds)
    = then_sends (map (subscribe_command (px_aio ctx)) (gq_subscriptions r))
        (resume (put_step E) (at_add_setting E (enter STATE_ADD_SETTING ctx) None) ds)"
proof -
  note f = writing_act [OF w]
  have "resume (put_step E) (put_context_next E ctx d)
      (replicate (length (filter (\<lambda>x. \<not> False) (gq_subscriptions r))) (CD_error 0) @ ds)
    = then_sends (map (subscribe_command (px_aio ctx)) (filter (\<lambda>x. \<not> False) (gq_subscriptions r)))
        (resume (put_step E) (at_add_setting E (enter STATE_ADD_SETTING ctx) None) ds)"
    by (rule phase_runs [OF w, where err = read_error and act = "add_subscription E"
          and fall = "\<lambda>d c. at_add_setting E (enter STATE_ADD_SETTING c) d"])
       (use f in \<open>auto simp: put_context_next_def at_add_subscription_def part_of_def add_subscription_def subscribe_command_def
          short_strcpy config_fits_def sends all_tags tags_of_def is_monitor_def fresh [of _ _ d] intro: fresh\<close>)
  with f show ?thesis by (simp add: oks_def put_context_next_def)
qed

lemma tags_run:
  assumes w: "writing E r STATE_ADD_TAG ctx"
  shows "resume (put_step E) (at_add_tag E ctx d) (replicate (length (gq_tags r)) (CD_add_tag k 0) @ ds)
    = then_sends (map (config_tags_command (px_aio ctx)) (gq_tags r))
        (resume (put_step E) (at_add_subscription E (enter STATE_ADD_SUBSCRIPTION ctx) None) ds)"
proof -
  note f = writing_act [OF w]
  have "resume (put_step E) (put_context_next E ctx d)
      (replicate (length (filter (\<lambda>x. \<not> False) (gq_tags r))) (CD_add_tag k 0) @ ds)
    = then_sends (map (config_tags_command (px_aio ctx)) (filter (\<lambda>x. \<not> False) (gq_tags r)))
        (resume (put_step E) (at_add_subscription E (enter STATE_ADD_SUBSCRIPTION ctx) None) ds)"
    by (rule phase_runs [OF w, where err = read_tag_error and act = "add_tag E"
          and fall = "\<lambda>d c. at_add_subscription E (enter STATE_ADD_SUBSCRIPTION c) d"])
       (use f in \<open>auto simp: put_context_next_def at_add_tag_def part_of_def add_tag_def config_tags_command_def
          short_strcpy config_fits_def sends all_tags tags_of_def is_monitor_def fresh [of _ _ d] intro: fresh\<close>)
  with f show ?thesis by (simp add: oks_def put_context_next_def)
qed

lemma groups_run:
  assumes w: "writing E r STATE_ADD_GROUP ctx"
  shows "resume (put_step E) (at_add_group E ctx d) (oks (length (gq_groups r)) @ ds)
    = then_sends (map (group_command (px_aio ctx)) (gq_groups r))
        (resume (put_step E) (at_add_tag E (enter STATE_ADD_TAG ctx) None) ds)"
proof -
  note f = writing_act [OF w]
  have "resume (put_step E) (put_context_next E ctx d)
      (replicate (length (filter (\<lambda>x. \<not> False) (gq_groups r))) (CD_error 0) @ ds)
    = then_sends (map (group_command (px_aio ctx)) (filter (\<lambda>x. \<not> False) (gq_groups r)))
        (resume (put_step E) (at_add_tag E (enter STATE_ADD_TAG ctx) None) ds)"
    by (rule phase_runs [OF w, where err = read_error and act = "add_group E"
          and fall = "\<lambda>d c. at_add_tag E (enter STATE_ADD_TAG c) d"])
       (use f in \<open>auto simp: put_context_next_def at_add_group_def part_of_def add_group_def group_command_def
          short_strcpy config_fits_def sends all_tags tags_of_def is_monitor_def fresh [of _ _ d] intro: fresh\<close>)
  with f show ?thesis by (simp add: oks_def put_context_next_def)
qed

lemma nodes_run:
  assumes w: "writing E r STATE_ADD_NODE ctx"
  shows "resume (put_step E) (at_add_node E ctx d) (oks (length (filter (\<lambda>n. \<not> is_monitor n) (gq_nodes r))) @ ds)
    = then_sends (map (node_command (px_aio ctx)) (filter (\<lambda>n. \<not> is_monitor n) (gq_nodes r)))
        (resume (put_step E) (at_add_group E (enter STATE_ADD_GROUP ctx) None) ds)"
proof -
  note f = writing_act [OF w]
  have "resume (put_step E) (put_context_next E ctx d)
      (replicate (length (filter (\<lambda>x. \<not> is_monitor x) (gq_nodes r))) (CD_error 0) @ ds)
    = then_sends (map (node_command (px_aio ctx)) (filter (\<lambda>x. \<not> is_monitor x) (gq_nodes r)))
        (resume (put_step E) (at_add_group E (enter STATE_ADD_GROUP ctx) None) ds)"
    by (rule phase_runs [OF w, where err = read_error and act = "add_node E"
          and fall = "\<lambda>d c. at_add_group E (enter STATE_ADD_GROUP c) d"])
       (use f in \<open>auto simp: put_context_next_def at_add_node_def part_of_def add_node_def node_command_def
          short_strcpy config_fits_def sends all_tags tags_of_def is_monitor_def fresh [of _ _ d] intro: fresh\<close>)
  with f show ?thesis by (simp add: oks_def put_context_next_def)
qed

definition after_del :: "('j, 'w) rest_env \<Rightarrow> 'j put_context \<Rightarrow> 'j put_context config_step option" where
  "after_del E ctx =
     (if px_state ctx = STATE_DEL_APP
      then Some (Waiting (ctx\<lparr>px_idx := length (px_nodes ctx), px_nodes := [], px_state := STATE_GET_DRIVER\<rparr>)
        (get_command (px_aio ctx) NEU_NA_TYPE_DRIVER))
      else at_add_node E (enter STATE_ADD_NODE (ctx\<lparr>px_nodes := []\<rparr>)) None)"

lemma dels_run:
  assumes w: "writing E r s ctx" and s: "s \<in> {STATE_DEL_APP, STATE_DEL_DRIVER}" and fit: "nodes_fit (px_nodes ctx)"
  shows "resume (put_step E) (at_del E ctx d) (oks (length (del_commands (px_aio ctx) (px_nodes ctx))) @ ds)
    = then_sends (del_commands (px_aio ctx) (px_nodes ctx)) (resume (put_step E) (after_del E ctx) ds)"
proof -
  note f = writing_act [OF w]
  let ?xs = "px_nodes ctx"
  have same: "enter STATE_ADD_NODE (ctx\<lparr>px_idx := i, px_nodes := []\<rparr>) = enter STATE_ADD_NODE (ctx\<lparr>px_nodes := []\<rparr>)" for i
    by (simp add: enter_def)
  have "resume (put_step E) (put_context_next E ctx d)
      (replicate (length (filter (\<lambda>x. \<not> (\<lambda>(node, plugin). is_static_node node plugin) x) ?xs)) (CD_error 0) @ ds)
    = then_sends (map (del_command (px_aio ctx)) (filter (\<lambda>x. \<not> (\<lambda>(node, plugin). is_static_node node plugin) x) ?xs))
        (resume (put_step E) (after_del E ctx) ds)"
    by (rule phase_runs [OF w, where err = read_error and act = "del_node E"
          and fall = "\<lambda>d ctx'. if px_state ctx' = STATE_DEL_APP
          then get_nodes E (px_aio ctx') NEU_NA_TYPE_DRIVER (ctx'\<lparr>px_nodes := [], px_state := STATE_GET_DRIVER\<rparr>)
          else at_add_node E (enter STATE_ADD_NODE (ctx'\<lparr>px_nodes := []\<rparr>)) d"])
       (use f s fit in \<open>auto simp: put_context_next_def at_del_def del_node_def del_command_def after_del_def
          strcpy_def nodes_fit_def sends get_nodes_def get_command_def fresh [of _ _ d] same intro: fresh\<close>)
  with f s show ?thesis by (auto simp: oks_def put_context_next_def del_commands_def split_def)
qed

subsection \<open>The whole conversation\<close>

definition success_responses ::
  "nat \<Rightarrow> node_info list \<Rightarrow> node_info list \<Rightarrow> 'j neu_json_global_config_req_t \<Rightarrow> u16 \<Rightarrow> config_data list" where
  "success_responses aio apps drivers r k =
     CD_nodes apps # oks (length (del_commands aio apps)) @
     CD_nodes drivers # oks (length (del_commands aio drivers)) @
     oks (length (filter (\<lambda>n. \<not> is_monitor n) (gq_nodes r))) @ oks (length (gq_groups r)) @
     replicate (length (gq_tags r)) (CD_add_tag k 0) @ oks (length (gq_subscriptions r)) @
     oks (length (gq_settings r))"

lemma adds_run:
  assumes w: "writing E r STATE_ADD_NODE ctx"
  shows "resume (put_step E) (at_add_node E ctx d)
      (oks (length (filter (\<lambda>n. \<not> is_monitor n) (gq_nodes r))) @ oks (length (gq_groups r)) @
       replicate (length (gq_tags r)) (CD_add_tag k 0) @ oks (length (gq_subscriptions r)) @
       oks (length (gq_settings r)))
    = Some (map (node_command (px_aio ctx)) (filter (\<lambda>n. \<not> is_monitor n) (gq_nodes r)) @
     map (group_command (px_aio ctx)) (gq_groups r) @ map (config_tags_command (px_aio ctx)) (gq_tags r) @
     map (subscribe_command (px_aio ctx)) (gq_subscriptions r) @ map (setting_command (px_aio ctx)) (gq_settings r),
     http_error E 0)"
proof -
  note g = writing_enter [OF w, of STATE_ADD_GROUP]
  note t = writing_enter [OF g, of STATE_ADD_TAG]
  note s = writing_enter [OF t, of STATE_ADD_SUBSCRIPTION]
  note p = writing_enter [OF s, of STATE_ADD_SETTING]
  show ?thesis
    using settings_run [OF p, of None "[]"]
    by (simp add: nodes_run [OF w] groups_run [OF g] tags_run [OF t] subscriptions_run [OF s] config_error_def
        http_error_listed [OF password_errors(2)])
qed

lemma put_starts:
  assumes "handle_put_global_config E req st = Some (out, Some ctx)"
  shows "ro_commands out = [get_command (hr_ctx req) NEU_NA_TYPE_APP] \<and> px_state ctx = STATE_GET_APP \<and>
    px_aio ctx = hr_ctx req \<and> px_req ctx \<noteq> None"
  using assms
  by (auto simp: handle_put_global_config_def validated_pair_def put_context_next_def get_nodes_def config_send_def
      Let_def get_command_def command_def split: option.splits if_splits config_step.splits)

text \<open>
  C33: Writing a configuration replaces the old one.  With a core that carries every command out, the
  handler sends, one after the other: the deletion of every application and then of every driver
  that the core reports, the monitor excepted; the addition of the nodes given, the monitor
  excepted, of their groups, tags and subscriptions, and their settings; nothing else; and then
  answers with success.
\<close>

theorem configuration_replaced:
  assumes "\<forall>h d. re_op E h d = 0"
    and "handle_put_global_config E req st = Some (out, Some ctx)" "px_req ctx = Some r"
    and "config_fits r" "nodes_fit apps" "nodes_fit drivers"
  shows "ro_commands out = [get_command (hr_ctx req) NEU_NA_TYPE_APP] \<and>
    converse (put_step E) ctx (success_responses (hr_ctx req) apps drivers r k)
      = Some (replacement (hr_ctx req) apps drivers r, http_error E 0)"
proof
  note start = put_starts [OF assms(2)]
  then show "ro_commands out = [get_command (hr_ctx req) NEU_NA_TYPE_APP]" by simp
  let ?a = "enter STATE_DEL_APP (ctx\<lparr>px_nodes := apps\<rparr>)"
  have wa: "writing E r STATE_DEL_APP ?a" using assms start by (simp add: writing_def enter_def)
  let ?d = "enter STATE_DEL_DRIVER (ctx\<lparr>px_nodes := drivers\<rparr>)"
  have wd: "writing E r STATE_DEL_DRIVER ?d" using assms start by (simp add: writing_def enter_def)
  let ?n = "enter STATE_ADD_NODE (ctx\<lparr>px_nodes := []\<rparr>)"
  have wn: "writing E r STATE_ADD_NODE ?n" using assms start by (simp add: writing_def enter_def)
  have drivers: "put_context_next E
      (?a\<lparr>px_idx := i, px_nodes := [], px_state := STATE_GET_DRIVER\<rparr>) (Some (CD_nodes drivers))
    = at_del E ?d (Some (CD_nodes drivers))" for i
    by (simp add: put_context_next_def enter_def)
  have apps: "put_context_next E ctx (Some (CD_nodes apps)) = at_del E ?a (Some (CD_nodes apps))"
    using start by (simp add: put_context_next_def)
  have "after_del E ?a = Some (Waiting (?a\<lparr>px_idx := length apps, px_nodes := [], px_state := STATE_GET_DRIVER\<rparr>)
      (get_command (hr_ctx req) NEU_NA_TYPE_DRIVER))"
    using start by (simp add: after_del_def enter_def)
  moreover have "after_del E ?d = at_add_node E ?n None"
    by (simp add: after_del_def enter_def)
  moreover have "nodes_fit (px_nodes ?a)" "nodes_fit (px_nodes ?d)" "px_nodes ?a = apps" "px_nodes ?d = drivers"
    using assms by (simp_all add: enter_def)
  ultimately show "converse (put_step E) ctx (success_responses (hr_ctx req) apps drivers r k)
      = Some (replacement (hr_ctx req) apps drivers r, http_error E 0)"
    using start dels_run [OF wa, of "Some (CD_nodes apps)"] dels_run [OF wd, of "Some (CD_nodes drivers)"]
      adds_run [OF wn, of None k]
    by (simp add: success_responses_def converse_step apps drivers replacement_def del: converse.simps)
qed

definition config_json :: "jtree jansson" where
  "config_json = jt_jansson\<lparr>json_loads := (\<lambda>_ _. Some
     (JTObject [(''nodes'', JTArray [JTObject [(''name'', JTString ''app''), (''plugin'', JTString ''mqtt'')]]),
        (''groups'', JTArray []), (''tags'', JTArray []), (''subscriptions'', JTArray []), (''settings'', JTArray [])]))\<rparr>"

definition config_env :: "(jtree, string \<times> nat \<times> string) rest_env" where
  "config_env = demo_env\<lparr>re_json := config_json, re_disable_jwt := True\<rparr>"

lemma config_decodes:
  "neu_json_decode_global_config_req config_json ''x'' = Some (Some \<lparr>gq_nodes =
     [\<lparr>gn_name = Some ''app'', gn_plugin = Some ''mqtt''\<rparr>], gq_groups = [], gq_tags = [], gq_subscriptions = [],
     gq_settings = []\<rparr>)"
  by code_simp

lemma configuration_replaced_witness:
  "\<exists>out ctx. handle_put_global_config config_env (demo_req ''x'') jwt_start = Some (out, Some ctx) \<and>
    map snd (ro_commands out) = [D_get_node (node_type_code NEU_NA_TYPE_APP) [] []] \<and>
    map_option (\<lambda>(cmds, answer). (map snd cmds, answer))
      (converse (put_step config_env) ctx (CD_nodes [(''old'', ''mqtt''), (''monitor'', ''Monitor'')] # oks 1 @
        CD_nodes [] # oks 1))
      = Some ([D_node ''old'', D_get_node (node_type_code NEU_NA_TYPE_DRIVER) [] [], D_add_node ''app'' ''mqtt''],
          http_error config_env 0)"
proof -
  let ?r = "\<lparr>gq_nodes = [\<lparr>gn_name = Some ''app'', gn_plugin = Some ''mqtt''\<rparr>], gq_groups = [], gq_tags = [],
    gq_subscriptions = [], gq_settings = []\<rparr>"
  have E: "re_json config_env = config_json" "re_disable_jwt config_env" "\<forall>h d. re_op config_env h d = 0"
    by (simp_all add: config_env_def demo_env_def)
  then obtain out ctx where h: "handle_put_global_config config_env (demo_req ''x'') jwt_start = Some (out, Some ctx)"
      "px_req ctx = Some ?r"
    by (simp add: handle_put_global_config_def validated_pair_def neu_http_get_body_def demo_req_def config_decodes
        put_context_next_def get_nodes_def config_send_def)
  have "config_fits ?r" "nodes_fit [(''old'', ''mqtt''), (''monitor'', ''Monitor'')]" "nodes_fit []"
    by (simp_all add: config_fits_def short_def nodes_fit_def NEU_NODE_NAME_LEN_def NEU_PLUGIN_NAME_LEN_def)
  from configuration_replaced [OF E(3) h this, of 0] h(1) show ?thesis
    by (simp add: success_responses_def replacement_def del_commands_def is_static_node_def oks_def is_monitor_def
        get_command_def command_def del_command_def node_command_def)
qed

section \<open>Errors\<close>

text \<open>
  What a conversation waits for, by the command sent last: in the states that read nodes and in the
  one that adds tags an error is not what is read; in the others it is.
\<close>

definition expects :: "'j put_context \<Rightarrow> command \<Rightarrow> bool" where
  "expects c cmd \<longleftrightarrow>
     px_state c \<in> {STATE_GET_APP, STATE_GET_DRIVER} \<and> rh_type (fst cmd) = NEU_REQ_GET_NODE \<or>
     0 < px_idx c \<and>
       (px_state c = STATE_ADD_TAG \<and> px_req c \<noteq> None \<and> rh_type (fst cmd) = NEU_REQ_ADD_TAG \<or>
        rh_type (fst cmd) \<notin> {NEU_REQ_GET_NODE, NEU_REQ_ADD_TAG} \<and>
        (px_state c \<in> {STATE_DEL_APP, STATE_DEL_DRIVER} \<or> px_req c \<noteq> None \<and>
         px_state c \<in> {STATE_ADD_NODE, STATE_ADD_GROUP, STATE_ADD_SUBSCRIPTION, STATE_ADD_SETTING}))"

lemma config_send_type:
  "config_send E aio type cmd ctx = Some (Waiting c' m) \<Longrightarrow> c' = ctx \<and> rh_type (fst m) = type"
  by (auto simp: config_send_def Let_def split: if_splits)

lemma at_list_expects:
  assumes "at_list E err skip xs act fall ctx data = Some (Waiting c' cmd)"
    and "\<And>i x. act (ctx\<lparr>px_idx := Suc i\<rparr>) x = Some (Waiting c' cmd) \<Longrightarrow> expects c' cmd"
    and "\<And>i. fall (ctx\<lparr>px_idx := i\<rparr>) = Some (Waiting c' cmd) \<Longrightarrow> expects c' cmd"
  shows "expects c' cmd"
  using assms(1) assms(2,3) by (fastforce simp: at_list_def bind_eq_Some_conv Let_def split: if_splits)

lemma act_expects:
  "add_setting E (c\<lparr>px_idx := Suc i\<rparr>) x1 = Some (Waiting c' cmd) \<Longrightarrow> px_state c = STATE_ADD_SETTING \<Longrightarrow>
    px_req c = Some r \<Longrightarrow> expects c' cmd"
  "add_subscription E (c\<lparr>px_idx := Suc i\<rparr>) x2 = Some (Waiting c' cmd) \<Longrightarrow> px_state c = STATE_ADD_SUBSCRIPTION \<Longrightarrow>
    px_req c = Some r \<Longrightarrow> expects c' cmd"
  "add_tag E (c\<lparr>px_idx := Suc i\<rparr>) x3 = Some (Waiting c' cmd) \<Longrightarrow> px_state c = STATE_ADD_TAG \<Longrightarrow>
    px_req c = Some r \<Longrightarrow> expects c' cmd"
  "add_group E (c\<lparr>px_idx := Suc i\<rparr>) x4 = Some (Waiting c' cmd) \<Longrightarrow> px_state c = STATE_ADD_GROUP \<Longrightarrow>
    px_req c = Some r \<Longrightarrow> expects c' cmd"
  "add_node E (c\<lparr>px_idx := Suc i\<rparr>) x5 = Some (Waiting c' cmd) \<Longrightarrow> px_state c = STATE_ADD_NODE \<Longrightarrow>
    px_req c = Some r \<Longrightarrow> expects c' cmd"
  "del_node E (c\<lparr>px_idx := Suc i\<rparr>) x6 = Some (Waiting c' cmd) \<Longrightarrow>
    px_state c \<in> {STATE_DEL_APP, STATE_DEL_DRIVER} \<Longrightarrow> expects c' cmd"
  by (auto simp: expects_def add_setting_def add_subscription_def add_tag_def add_group_def add_node_def
      del_node_def bind_eq_Some_conv dest!: config_send_type)

lemma get_nodes_expects:
  "get_nodes E aio ty c = Some (Waiting c' cmd) \<Longrightarrow> px_state c \<in> {STATE_GET_APP, STATE_GET_DRIVER} \<Longrightarrow> expects c' cmd"
  by (auto simp: get_nodes_def expects_def dest!: config_send_type)

lemma state_expects:
  "at_add_setting E c d = Some (Waiting c' cmd) \<Longrightarrow> px_state c = STATE_ADD_SETTING \<Longrightarrow> expects c' cmd"
  "at_add_subscription E c d = Some (Waiting c' cmd) \<Longrightarrow> px_state c = STATE_ADD_SUBSCRIPTION \<Longrightarrow> expects c' cmd"
  "at_add_tag E c d = Some (Waiting c' cmd) \<Longrightarrow> px_state c = STATE_ADD_TAG \<Longrightarrow> expects c' cmd"
  "at_add_group E c d = Some (Waiting c' cmd) \<Longrightarrow> px_state c = STATE_ADD_GROUP \<Longrightarrow> expects c' cmd"
  "at_add_node E c d = Some (Waiting c' cmd) \<Longrightarrow> px_state c = STATE_ADD_NODE \<Longrightarrow> expects c' cmd"
  "at_del E c d = Some (Waiting c' cmd) \<Longrightarrow> px_state c \<in> {STATE_DEL_APP, STATE_DEL_DRIVER} \<Longrightarrow> expects c' cmd"
proof -
  have in_state: "px_state (enter s c) = s" for s and c :: "'j put_context" by (simp add: enter_def)
  show 1: "at_add_setting E c d = Some (Waiting c' cmd) \<Longrightarrow> px_state c = STATE_ADD_SETTING \<Longrightarrow> expects c' cmd" for c
    by (auto simp: at_add_setting_def part_of_def bind_eq_Some_conv elim!: at_list_expects act_expects)
  show 2: "at_add_subscription E c d = Some (Waiting c' cmd) \<Longrightarrow> px_state c = STATE_ADD_SUBSCRIPTION \<Longrightarrow>
      expects c' cmd" for c
    by (auto simp: at_add_subscription_def part_of_def bind_eq_Some_conv elim!: at_list_expects act_expects
        dest!: 1 simp: in_state)
  show 3: "at_add_tag E c d = Some (Waiting c' cmd) \<Longrightarrow> px_state c = STATE_ADD_TAG \<Longrightarrow> expects c' cmd" for c
    by (auto simp: at_add_tag_def part_of_def bind_eq_Some_conv elim!: at_list_expects act_expects dest!: 2 simp: in_state)
  show 4: "at_add_group E c d = Some (Waiting c' cmd) \<Longrightarrow> px_state c = STATE_ADD_GROUP \<Longrightarrow> expects c' cmd" for c
    by (auto simp: at_add_group_def part_of_def bind_eq_Some_conv elim!: at_list_expects act_expects dest!: 3 simp: in_state)
  show 5: "at_add_node E c d = Some (Waiting c' cmd) \<Longrightarrow> px_state c = STATE_ADD_NODE \<Longrightarrow> expects c' cmd" for c
    by (auto simp: at_add_node_def part_of_def bind_eq_Some_conv elim!: at_list_expects act_expects dest!: 4 simp: in_state)
  assume del: "at_del E c d = Some (Waiting c' cmd)" and "px_state c \<in> {STATE_DEL_APP, STATE_DEL_DRIVER}"
  then show "expects c' cmd"
    unfolding at_del_def
    by (elim at_list_expects)
       (auto simp: in_state intro: act_expects get_nodes_expects 5 split: if_splits)
qed

lemma step_expects:
  assumes "put_context_next E c d = Some (Waiting c' cmd)"
  shows "expects c' cmd"
proof -
  have in_state: "px_state (enter s c) = s" for s and c :: "'j put_context" by (simp add: enter_def)
  show ?thesis
    using assms
    by (auto simp: put_context_next_def in_state intro: state_expects get_nodes_expects
        split: context_state_e.splits option.splits config_data.splits)
qed

text \<open>The response an error gets after a command.\<close>

lemma error_answer:
  assumes "expects c cmd" "e \<noteq> 0"
  shows "put_context_next E c (Some (CD_error e)) =
    (if rh_type (fst cmd) \<in> {NEU_REQ_GET_NODE, NEU_REQ_ADD_TAG} then None else config_error E e)"
  using assms
  by (auto simp: expects_def put_context_next_def at_del_def at_add_node_def at_add_group_def at_add_tag_def
      at_add_subscription_def at_add_setting_def part_of_def at_list_def)

lemma error_in_conversation:
  assumes "expects c cmd0" "converse (put_step E) c ds = Some (cmds, None)" "e \<noteq> 0"
  shows "converse (put_step E) c (ds @ CD_error e # others) =
    (if rh_type (fst (last (cmd0 # cmds))) \<in> {NEU_REQ_GET_NODE, NEU_REQ_ADD_TAG} then None
     else map_option (\<lambda>r. (cmds, Some r)) (http_error E e))"
  using assms(1,2)
proof (induction ds arbitrary: c cmd0 cmds)
  case Nil
  then show ?case
    using error_answer [OF Nil(1) assms(3), of E] by (cases "http_error E e") (auto simp: config_error_def)
next
  case (Cons d ds)
  then obtain c' cmd cmds' where step: "put_step E c d = Some (Waiting c' cmd)" "cmds = cmd # cmds'"
      "converse (put_step E) c' ds = Some (cmds', None)"
    by (auto split: option.splits config_step.splits)
  have "expects c' cmd" using step(1) by (rule step_expects)
  from Cons.IH [OF this step(3)] step show ?case
    by (cases "http_error E e") simp_all
qed

text \<open>
  C35: An error of the core ends the writing of a configuration, wherever the conversation stands
  and whatever it has gone through: when the command sent last was a deletion or an addition of a
  node, a group, a subscription or a setting, the answer has the code of the error, nothing more is
  sent, and what has been deleted or added stays.  When it was a request for the nodes or an addition
  of tags, the struct of the error is taken for another one: the behaviour is undefined.  And when the
  core refuses the very first command, the handler goes on to use the context it has freed.
\<close>

theorem config_error_stops:
  shows "(handle_put_global_config E req st = Some (out, Some ctx) \<and>
      converse (put_step E) ctx responses = Some (cmds, None) \<and> e \<noteq> 0 \<longrightarrow>
      converse (put_step E) ctx (responses @ CD_error e # others) =
        (if rh_type (fst (last (ro_commands out @ cmds))) \<in> {NEU_REQ_GET_NODE, NEU_REQ_ADD_TAG} then None
         else map_option (\<lambda>r. (cmds, Some r)) (http_error E e))) \<and>
    (neu_http_get_body req' = Some buf \<and> neu_json_decode_global_config_req (re_json E) buf = Some (Some r) \<and>
      re_disable_jwt E \<and> re_op E (fst (get_command (hr_ctx req') NEU_NA_TYPE_APP))
        (snd (get_command (hr_ctx req') NEU_NA_TYPE_APP)) \<noteq> 0 \<longrightarrow>
      handle_put_global_config E req' st' = None)"
proof (intro conjI impI; elim conjE)
  assume h: "handle_put_global_config E req st = Some (out, Some ctx)"
    and c: "converse (put_step E) ctx responses = Some (cmds, None)" "e \<noteq> 0"
  note start = put_starts [OF h]
  then have "expects ctx (get_command (hr_ctx req) NEU_NA_TYPE_APP)"
    by (simp add: expects_def get_command_def command_def)
  from error_in_conversation [OF this c, of others] start
  show "converse (put_step E) ctx (responses @ CD_error e # others) =
      (if rh_type (fst (last (ro_commands out @ cmds))) \<in> {NEU_REQ_GET_NODE, NEU_REQ_ADD_TAG} then None
       else map_option (\<lambda>r. (cmds, Some r)) (http_error E e))" by simp
next
  assume "neu_http_get_body req' = Some buf" "neu_json_decode_global_config_req (re_json E) buf = Some (Some r)"
    "re_disable_jwt E" "re_op E (fst (get_command (hr_ctx req') NEU_NA_TYPE_APP))
        (snd (get_command (hr_ctx req') NEU_NA_TYPE_APP)) \<noteq> 0"
  then show "handle_put_global_config E req' st' = None"
    by (auto simp: put_context_next_def handle_put_global_config_def validated_pair_def get_nodes_def
        config_send_def config_error_def get_command_def command_def Let_def split: option.splits)
qed

lemma config_error_stops_witness:
  "\<exists>out ctx. handle_put_global_config config_env (demo_req ''x'') jwt_start = Some (out, Some ctx) \<and>
    converse (put_step config_env) ctx [CD_nodes [(''old'', ''mqtt'')], CD_error NEU_ERR_NODE_NOT_EXIST, CD_nodes []] =
      map_option (\<lambda>r. ([command 1 NEU_REQ_DEL_NODE (D_node ''old'')], Some r)) (http_error config_env NEU_ERR_NODE_NOT_EXIST) \<and>
    handle_put_global_config (config_env\<lparr>re_op := \<lambda>_ _. -1\<rparr>) (demo_req ''x'') jwt_start = None"
proof -
  have E: "re_json config_env = config_json" "re_disable_jwt config_env" "\<forall>h d. re_op config_env h d = 0"
    by (simp_all add: config_env_def demo_env_def)
  then obtain out ctx where h: "handle_put_global_config config_env (demo_req ''x'') jwt_start = Some (out, Some ctx)"
    by (simp add: handle_put_global_config_def validated_pair_def neu_http_get_body_def demo_req_def config_decodes
        put_context_next_def get_nodes_def config_send_def)
  note start = put_starts [OF h]
  then have aio: "px_aio ctx = 1" by (simp add: demo_req_def)
  have "converse (put_step config_env) ctx [CD_nodes [(''old'', ''mqtt'')]] =
      Some ([command 1 NEU_REQ_DEL_NODE (D_node ''old'')], None)"
    using start aio E(3)
    by (simp add: put_context_next_def at_del_def at_list_def del_node_def enter_def is_static_node_def
        strcpy_def NEU_NODE_NAME_LEN_def sends)
  moreover have "handle_put_global_config (config_env\<lparr>re_op := \<lambda>_ _. -1\<rparr>) (demo_req ''x'') jwt_start = None"
    using config_error_stops [of "config_env\<lparr>re_op := \<lambda>_ _. -1\<rparr>" "demo_req ''x''" jwt_start _ _ _ _ 1 "[]"
        "demo_req ''x''" "''x''"]
    by (auto simp: neu_http_get_body_def demo_req_def config_env_def demo_env_def config_decodes)
  ultimately show ?thesis
    using config_error_stops [of config_env "demo_req ''x''" jwt_start out ctx "[CD_nodes [(''old'', ''mqtt'')]]"
        "[command 1 NEU_REQ_DEL_NODE (D_node ''old'')]" NEU_ERR_NODE_NOT_EXIST "[CD_nodes []]"] h
    by (simp add: command_def del: converse.simps)
qed

end
