(* ===== verification/TemplateJson.thy ===== *)
theory TemplateJson
  imports ConfigJson
begin

text \<open>
  Templates of groups and tags as JSON (\<open>src/parser/neu_json_template.c\<close>).  A decoder gives \<open>None\<close>
  for undefined behaviour and \<open>Some None\<close> for the result -1.
\<close>

text \<open>
  The encoders of arrays of objects: a new object is appended, then filled; the first that
  fails ends the array.
\<close>

fun encode_objects :: "'j jansson \<Rightarrow> ('a \<Rightarrow> 'j \<Rightarrow> int \<times> 'j) \<Rightarrow> 'j \<Rightarrow> 'a list \<Rightarrow> int \<times> 'j" where
  "encode_objects J enc arr [] = (0, arr)"
| "encode_objects J enc arr (x # xs) =
     (case enc x (json_object_new J) of
        (ret, ob) \<Rightarrow>
          let arr' = json_array_append_new J arr (Some ob)
          in if ret \<noteq> 0 then (- 1, arr') else encode_objects J enc arr' xs)"

definition encode_object_array ::
  "'j jansson \<Rightarrow> ('a \<Rightarrow> 'j \<Rightarrow> int \<times> 'j) \<Rightarrow> 'j \<Rightarrow> 'a list \<Rightarrow> int \<times> 'j" where
  "encode_object_array J enc json_obj xs =
     (if json_is_array J json_obj then encode_objects J enc json_obj xs else (- 1, json_obj))"

section \<open>Groups of a template\<close>

record 'j neu_json_template_group_t =
  tg_name :: "string option"
  tg_interval :: u64
  tg_tags :: "'j neu_json_tag_t list"

definition neu_json_encode_template_group ::
  "'j jansson \<Rightarrow> 'j neu_json_template_group_t \<Rightarrow> 'j \<Rightarrow> int \<times> 'j" where
  "neu_json_encode_template_group J grp json_obj =
     (case neu_json_encode_tag_array J (json_array_new J) (tg_tags grp) of
        (ret, tag_array) \<Rightarrow>
          if ret \<noteq> 0 then (ret, json_obj)
          else neu_json_encode_field J json_obj
                 [str_elem ''name'' (tg_name grp), int_elem ''interval'' (tg_interval grp),
                  object_elem ''tags'' (Some tag_array)])"

definition neu_json_decode_template_group ::
  "'j jansson \<Rightarrow> 'j option \<Rightarrow> 'j neu_json_template_group_t option option" where
  "neu_json_decode_template_group J json_obj =
     (case neu_json_decode_by_json J json_obj
        [want ''name'' NEU_JSON_STR, want ''interval'' NEU_JSON_INT, want ''tags'' NEU_JSON_OBJECT] of
        None \<Rightarrow> None
      | Some (ret, es) \<Rightarrow>
          if ret \<noteq> 0 then Some None
          else map_option (map_option (\<lambda>tags.
                   \<lparr>tg_name = str_of (es ! 0), tg_interval = val_int (ev (es ! 1)), tg_tags = tags\<rparr>))
                 (neu_json_decode_tag_array_json J (jobj (ev (es ! 2)))))"

definition neu_json_encode_template_group_array ::
  "'j jansson \<Rightarrow> 'j \<Rightarrow> 'j neu_json_template_group_t list \<Rightarrow> int \<times> 'j" where
  "neu_json_encode_template_group_array J =
     encode_object_array J (neu_json_encode_template_group J)"

definition neu_json_decode_template_group_array_json ::
  "'j jansson \<Rightarrow> 'j option \<Rightarrow> 'j neu_json_template_group_t list option option" where
  "neu_json_decode_template_group_array_json J json_obj =
     (case json_obj of
        None \<Rightarrow> Some None
      | Some arr \<Rightarrow>
          if json_is_array J arr
          then decode_list J arr (neu_json_decode_template_group J) [0..<json_array_size J arr]
          else Some None)"

section \<open>Templates\<close>

record 'j neu_json_template_t =
  tm_name :: "string option"
  tm_plugin :: "string option"
  tm_groups :: "'j neu_json_template_group_t list"

definition neu_json_encode_template ::
  "'j jansson \<Rightarrow> 'j neu_json_template_t \<Rightarrow> 'j \<Rightarrow> int \<times> 'j" where
  "neu_json_encode_template J tmpl json_obj =
     (case neu_json_encode_template_group_array J (json_array_new J) (tm_groups tmpl) of
        (ret, grp_array) \<Rightarrow>
          if ret \<noteq> 0 then (ret, json_obj)
          else neu_json_encode_field J json_obj
                 [str_elem ''name'' (tm_name tmpl), str_elem ''plugin'' (tm_plugin tmpl),
                  object_elem ''groups'' (Some grp_array)])"

text \<open>Without groups the array of none fails, which does not count.\<close>

definition neu_json_decode_template_json ::
  "'j jansson \<Rightarrow> 'j option \<Rightarrow> 'j neu_json_template_t option option" where
  "neu_json_decode_template_json J json_obj =
     (case neu_json_decode_by_json J json_obj
        [want ''name'' NEU_JSON_STR, want ''plugin'' NEU_JSON_STR, may_want ''groups'' NEU_JSON_OBJECT] of
        None \<Rightarrow> None
      | Some (ret, es) \<Rightarrow>
          let tmpl = (\<lambda>groups. \<lparr>tm_name = str_of (es ! 0), tm_plugin = str_of (es ! 1), tm_groups = groups\<rparr>);
              groups = jobj (ev (es ! 2))
          in if ret \<noteq> 0 then Some None
             else (case neu_json_decode_template_group_array_json J groups of
                     None \<Rightarrow> None
                   | Some None \<Rightarrow> Some (if groups = None then Some (tmpl []) else None)
                   | Some (Some grps) \<Rightarrow> Some (Some (tmpl grps))))"

definition neu_json_decode_template ::
  "'j jansson \<Rightarrow> string \<Rightarrow> 'j neu_json_template_t option option" where
  "neu_json_decode_template J buf =
     (case neu_json_decode_new J buf of
        None \<Rightarrow> Some None
      | Some json_obj \<Rightarrow> neu_json_decode_template_json J (Some json_obj))"

record neu_json_template_info_t =
  ti_name :: "string option"
  ti_plugin :: "string option"

definition neu_json_encode_template_info_array ::
  "'j jansson \<Rightarrow> 'j \<Rightarrow> neu_json_template_info_t list \<Rightarrow> int \<times> 'j" where
  "neu_json_encode_template_info_array J =
     encode_object_array J (\<lambda>info info_obj.
       neu_json_encode_field J info_obj
         [str_elem ''name'' (ti_name info), str_elem ''plugin'' (ti_plugin info)])"

definition neu_json_encode_get_templates_resp ::
  "'j jansson \<Rightarrow> neu_json_template_info_t list \<Rightarrow> 'j \<Rightarrow> int \<times> 'j" where
  "neu_json_encode_get_templates_resp J infos json_obj =
     (case neu_json_encode_template_info_array J (json_array_new J) infos of
        (ret, info_array) \<Rightarrow>
          if ret \<noteq> 0 then (- 1, json_obj)
          else neu_json_encode_field J json_obj [object_elem ''templates'' (Some info_array)])"

section \<open>Requests about groups\<close>

record neu_json_template_mod_group_req_t =
  mg_tmpl :: "string option"
  mg_group :: "string option"
  mg_interval :: u64

definition neu_json_encode_template_mod_group_req ::
  "'j jansson \<Rightarrow> neu_json_template_mod_group_req_t \<Rightarrow> 'j \<Rightarrow> int \<times> 'j" where
  "neu_json_encode_template_mod_group_req J req json_obj =
     neu_json_encode_field J json_obj
       [str_elem ''template'' (mg_tmpl req), str_elem ''group'' (mg_group req),
        int_elem ''interval'' (mg_interval req)]"

definition neu_json_decode_template_mod_group_req ::
  "'j jansson \<Rightarrow> string \<Rightarrow> neu_json_template_mod_group_req_t option option" where
  "neu_json_decode_template_mod_group_req J buf =
     (case neu_json_decode_new J buf of
        None \<Rightarrow> Some None
      | Some json_obj \<Rightarrow>
          decode_fields J (Some json_obj)
            [want ''template'' NEU_JSON_STR, want ''group'' NEU_JSON_STR, want ''interval'' NEU_JSON_INT]
            (\<lambda>es. \<lparr>mg_tmpl = str_of (es ! 0), mg_group = str_of (es ! 1), mg_interval = val_int (ev (es ! 2))\<rparr>))"

record neu_json_template_del_group_req_t =
  rg_tmpl :: "string option"
  rg_group :: "string option"

definition neu_json_encode_template_del_group_req ::
  "'j jansson \<Rightarrow> neu_json_template_del_group_req_t \<Rightarrow> 'j \<Rightarrow> int \<times> 'j" where
  "neu_json_encode_template_del_group_req J req json_object =
     neu_json_encode_field J json_object
       [str_elem ''template'' (rg_tmpl req), str_elem ''group'' (rg_group req)]"

definition neu_json_decode_template_del_group_req ::
  "'j jansson \<Rightarrow> string \<Rightarrow> neu_json_template_del_group_req_t option option" where
  "neu_json_decode_template_del_group_req J buf =
     (case neu_json_decode_new J buf of
        None \<Rightarrow> Some None
      | Some json_obj \<Rightarrow>
          decode_fields J (Some json_obj) [want ''template'' NEU_JSON_STR, want ''group'' NEU_JSON_STR]
            (\<lambda>es. \<lparr>rg_tmpl = str_of (es ! 0), rg_group = str_of (es ! 1)\<rparr>))"

section \<open>Requests about tags\<close>

record 'j neu_json_template_mod_tags_req_t =
  mt_tmpl :: "string option"
  mt_group :: "string option"
  mt_tags :: "'j neu_json_tag_t list"

definition neu_json_encode_template_mod_tags_req ::
  "'j jansson \<Rightarrow> 'j neu_json_template_mod_tags_req_t \<Rightarrow> 'j \<Rightarrow> int \<times> 'j" where
  "neu_json_encode_template_mod_tags_req J req json_obj =
     (case neu_json_encode_tag_array J (json_array_new J) (mt_tags req) of
        (ret, tag_array) \<Rightarrow>
          if ret \<noteq> 0 then (ret, json_obj)
          else neu_json_encode_field J json_obj
                 [str_elem ''template'' (mt_tmpl req), str_elem ''group'' (mt_group req),
                  object_elem ''tags'' (Some tag_array)])"

text \<open>
  When the text does not parse, \<open>goto decode_fail\<close> passes the initialisation of the elements,
  whose strings are freed there.
\<close>

definition neu_json_decode_template_mod_tags_req ::
  "'j jansson \<Rightarrow> string \<Rightarrow> 'j neu_json_template_mod_tags_req_t option option" where
  "neu_json_decode_template_mod_tags_req J buf =
     (case neu_json_decode_new J buf of
        None \<Rightarrow> None
      | Some json_obj \<Rightarrow>
          (case neu_json_decode_by_json J (Some json_obj)
             [want ''template'' NEU_JSON_STR, want ''group'' NEU_JSON_STR, want ''tags'' NEU_JSON_OBJECT] of
             None \<Rightarrow> None
           | Some (ret, es) \<Rightarrow>
               if ret \<noteq> 0 then Some None
               else (case neu_json_decode_tag_array_json J (jobj (ev (es ! 2))) of
                       None \<Rightarrow> None
                     | Some None \<Rightarrow> Some None
                     | Some (Some tags) \<Rightarrow>
                         Some (if tags = [] then None
                               else Some \<lparr>mt_tmpl = str_of (es ! 0), mt_group = str_of (es ! 1),
                                          mt_tags = tags\<rparr>))))"

record neu_json_template_del_tags_req_t =
  rt_tmpl :: "string option"
  rt_group :: "string option"
  rt_tags :: "string list"

definition neu_json_encode_template_del_tags_req ::
  "'j jansson \<Rightarrow> neu_json_template_del_tags_req_t \<Rightarrow> 'j \<Rightarrow> int \<times> 'j" where
  "neu_json_encode_template_del_tags_req J req json_object =
     (let tag_array = foldl (\<lambda>arr name. neu_json_encode_array_value J (Some arr)
            [this_elem NEU_JSON_STR (zero_json_value\<lparr>jstr := Some name\<rparr>)]) (json_array_new J) (rt_tags req)
      in neu_json_encode_field J json_object
           [str_elem ''template'' (rt_tmpl req), str_elem ''group'' (rt_group req),
            object_elem ''tags'' (Some tag_array)])"

definition decode_name :: "'j jansson \<Rightarrow> 'j option \<Rightarrow> string option option" where
  "decode_name J name =
     (case name of
        None \<Rightarrow> Some None
      | Some j \<Rightarrow>
          if json_is_string J j then map_option Some (json_string_value J j) else Some None)"

definition neu_json_decode_template_del_tags_req ::
  "'j jansson \<Rightarrow> string \<Rightarrow> neu_json_template_del_tags_req_t option option" where
  "neu_json_decode_template_del_tags_req J buf =
     (case neu_json_decode_new J buf of
        None \<Rightarrow> Some None
      | Some json_obj \<Rightarrow>
          (case neu_json_decode_by_json J (Some json_obj)
             [want ''template'' NEU_JSON_STR, want ''group'' NEU_JSON_STR] of
             None \<Rightarrow> None
           | Some (ret, es) \<Rightarrow>
               if ret \<noteq> 0 then Some None
               else (case array_field J (Some json_obj) ''tags'' of
                       None \<Rightarrow> Some None
                     | Some names_arr \<Rightarrow>
                         map_option (map_option (\<lambda>tags.
                             \<lparr>rt_tmpl = str_of (es ! 0), rt_group = str_of (es ! 1), rt_tags = tags\<rparr>))
                           (decode_list J names_arr (decode_name J) [0..<json_array_size J names_arr]))))"

section \<open>Requests to instantiate\<close>

record neu_json_template_inst_req_t =
  it_name :: "string option"
  it_node :: "string option"

definition decode_template_inst_req_json ::
  "'j jansson \<Rightarrow> 'j option \<Rightarrow> neu_json_template_inst_req_t option option" where
  "decode_template_inst_req_json J json_obj =
     decode_fields J json_obj [want ''name'' NEU_JSON_STR, want ''node'' NEU_JSON_STR]
       (\<lambda>es. \<lparr>it_name = str_of (es ! 0), it_node = str_of (es ! 1)\<rparr>)"

definition neu_json_decode_template_inst_req ::
  "'j jansson \<Rightarrow> string \<Rightarrow> neu_json_template_inst_req_t option option" where
  "neu_json_decode_template_inst_req J buf =
     (case neu_json_decode_new J buf of
        None \<Rightarrow> Some None
      | Some json_obj \<Rightarrow> decode_template_inst_req_json J (Some json_obj))"

text \<open>The first entry that cannot be decoded ends the list without an error.\<close>

fun decode_insts :: "'j jansson \<Rightarrow> 'j \<Rightarrow> nat list \<Rightarrow> neu_json_template_inst_req_t list option" where
  "decode_insts J arr [] = Some []"
| "decode_insts J arr (i # is) =
     (case decode_template_inst_req_json J (json_array_get J arr i) of
        None \<Rightarrow> None
      | Some None \<Rightarrow> Some []
      | Some (Some inst) \<Rightarrow> map_option ((#) inst) (decode_insts J arr is))"

definition neu_json_decode_template_insts_req ::
  "'j jansson \<Rightarrow> string \<Rightarrow> neu_json_template_inst_req_t list option option" where
  "neu_json_decode_template_insts_req J buf =
     (case neu_json_decode_new J buf of
        None \<Rightarrow> Some None
      | Some json_obj \<Rightarrow>
          (case array_field J (Some json_obj) ''nodes'' of
             None \<Rightarrow> Some None
           | Some json_arr \<Rightarrow> map_option Some (decode_insts J json_arr [0..<json_array_size J json_arr])))"

end
