(* ===== verification/TemplateRest.thy ===== *)
theory TemplateRest
  imports TagRest TemplateJson
begin

text \<open>
  Templates over REST (\<open>plugins/restful/template_handle.c\<close>).  The routes to these handlers are
  commented out.  \<open>None\<close> is a crash or undefined behaviour.  An allocation succeeds, also one of
  no bytes.
\<close>

definition NEU_TEMPLATE_NAME_LEN :: nat where "NEU_TEMPLATE_NAME_LEN = 128"
definition NEU_TAG_ADDRESS_LEN :: nat where "NEU_TAG_ADDRESS_LEN = 128"

section \<open>Steps that answer an error\<close>

text \<open>An error of the parts below is its code; the handlers answer it.\<close>

definition answer_error ::
  "('j, 'w) rest_env \<Rightarrow> jwt_state \<Rightarrow> (int + 'a) option \<Rightarrow> ('a \<Rightarrow> rest_out option) \<Rightarrow> rest_out option" where
  "answer_error E st r k =
     (case r of None \<Rightarrow> None | Some (Inl code) \<Rightarrow> rest_error E code st | Some (Inr x) \<Rightarrow> k x)"

fun all_or_error :: "('a \<Rightarrow> (int + 'b) option) \<Rightarrow> 'a list \<Rightarrow> (int + 'b list) option" where
  "all_or_error f [] = Some (Inr [])"
| "all_or_error f (x # xs) =
     (case f x of
        None \<Rightarrow> None
      | Some (Inl code) \<Rightarrow> Some (Inl code)
      | Some (Inr y) \<Rightarrow> map_option (map_sum id ((#) y)) (all_or_error f xs))"

text \<open>A name that must fit its array; a NULL crashes.\<close>

definition check_len :: "nat \<Rightarrow> int \<Rightarrow> string option \<Rightarrow> (int + string) option" where
  "check_len n code s =
     (case s of None \<Rightarrow> None | Some t \<Rightarrow> Some (if n \<le> length t then Inl code else Inr t))"

definition and_then :: "(int + 'a) option \<Rightarrow> ('a \<Rightarrow> (int + 'b) option) \<Rightarrow> (int + 'b) option" where
  "and_then r f = (case r of None \<Rightarrow> None | Some (Inl code) \<Rightarrow> Some (Inl code) | Some (Inr x) \<Rightarrow> f x)"

section \<open>Tags\<close>

text \<open>
  Unlike \<open>tag_of_json\<close> this tests the lengths and the result of setting the value.  A number that,
  cut to 32 bits, names no type is left out of the model (\<open>None\<close>).
\<close>

definition set_tag_by_json :: "'j neu_json_tag_t \<Rightarrow> (int + neu_datatag_t) option" where
  "set_tag_by_json t =
     and_then (check_len NEU_TAG_NAME_LEN NEU_ERR_TAG_NAME_TOO_LONG (tj_name t)) (\<lambda>name.
     and_then (check_len NEU_TAG_ADDRESS_LEN NEU_ERR_TAG_ADDRESS_TOO_LONG (tj_address t)) (\<lambda>address.
       case type_of_number (ucast (ucast (tj_type t) :: u32)) of
         None \<Rightarrow> None
       | Some ty \<Rightarrow>
           let tag = calloc_tag\<lparr>attribute := ucast (tj_attribute t), ttype := ty,
               precision := ucast (tj_precision t), decimal := tj_decimal t, address := address,
               tname := name,
               description := (case tj_description t of None \<Rightarrow> [] | Some d \<Rightarrow> d)\<rparr>
           in if ucast NEU_ATTRIBUTE_STATIC AND tj_attribute t \<noteq> 0
              then (case neu_tag_set_static_value_json tag (tj_t t) (tj_value t) of
                      None \<Rightarrow> None
                    | Some (rv, tag') \<Rightarrow> Some (if rv \<noteq> 0 then Inl NEU_ERR_EINTERNAL else Inr tag'))
              else Some (Inr tag)))"

section \<open>Templates\<close>

definition group_of_json ::
  "'j neu_json_template_group_t \<Rightarrow> (int + string \<times> u32 \<times> neu_datatag_t list) option" where
  "group_of_json g =
     and_then (check_len NEU_GROUP_NAME_LEN NEU_ERR_GROUP_NAME_TOO_LONG (tg_name g)) (\<lambda>name.
       if sint (tg_interval g) < int (unat NEU_GROUP_INTERVAL_LIMIT)
       then Some (Inl NEU_ERR_GROUP_PARAMETER_INVALID)
       else map_option (map_sum id (\<lambda>tags. (name, ucast (tg_interval g), counted16 tags)))
              (all_or_error set_tag_by_json (tg_tags g)))"

definition move_template_json :: "'j neu_json_template_t \<Rightarrow> (int + reqresp_data) option" where
  "move_template_json r =
     and_then (check_len NEU_TEMPLATE_NAME_LEN NEU_ERR_TEMPLATE_NAME_TOO_LONG (tm_name r)) (\<lambda>name.
     and_then (check_len NEU_PLUGIN_NAME_LEN NEU_ERR_PLUGIN_NAME_TOO_LONG (tm_plugin r)) (\<lambda>plugin.
       map_option (map_sum id (\<lambda>groups. D_add_template name plugin (counted16 groups)))
         (all_or_error group_of_json (tm_groups r))))"

definition handle_add_template :: "('j, 'w) rest_env \<Rightarrow> http_req \<Rightarrow> jwt_state \<Rightarrow> rest_out option" where
  "handle_add_template E req st =
     NEU_PROCESS_HTTP_REQUEST_VALIDATE_JWT E req (neu_json_decode_template (re_json E)) st (\<lambda>st' r.
       answer_error E st' (move_template_json r) (\<lambda>cmd. rest_command E req NEU_REQ_ADD_TEMPLATE cmd st'))"

definition handle_del_template :: "('j, 'w) rest_env \<Rightarrow> http_req \<Rightarrow> jwt_state \<Rightarrow> rest_out option" where
  "handle_del_template E req st =
     NEU_VALIDATE_JWT E req st (\<lambda>st'. do {
       (ret, name) \<leftarrow> neu_http_get_param_str (hr_url req) ''name'' NEU_TEMPLATE_NAME_LEN;
       if ret \<noteq> - 2 \<and> (ret \<le> 0 \<or> int NEU_TEMPLATE_NAME_LEN \<le> ret)
       then rest_error E NEU_ERR_PARAM_IS_WRONG st'
       else rest_command E req NEU_REQ_DEL_TEMPLATE (D_template name) st'
     })"

text \<open>Without a name all templates are asked for; that request has no fields.\<close>

definition handle_get_template :: "('j, 'w) rest_env \<Rightarrow> http_req \<Rightarrow> jwt_state \<Rightarrow> rest_out option" where
  "handle_get_template E req st =
     NEU_VALIDATE_JWT E req st (\<lambda>st'. do {
       (ret, name) \<leftarrow> neu_http_get_param_str (hr_url req) ''name'' NEU_TEMPLATE_NAME_LEN;
       if 0 < ret \<and> ret < int NEU_TEMPLATE_NAME_LEN
       then rest_command E req NEU_REQ_GET_TEMPLATE (D_template name) st'
       else if ret = - 2 then rest_command E req NEU_REQ_GET_TEMPLATES D_empty st'
       else rest_error E NEU_ERR_PARAM_IS_WRONG st'
     })"

text \<open>A \<open>neu_resp_get_template_t\<close>: name, plugin and the groups with interval and tags.\<close>

type_synonym template_group = "string \<times> u32 \<times> neu_datatag_t list"

definition json_of_group :: "template_group \<Rightarrow> 'j neu_json_template_group_t" where
  "json_of_group = (\<lambda>(n, interval, tags).
     \<lparr>tg_name = Some n, tg_interval = ucast interval, tg_tags = map json_of_tag tags\<rparr>)"

definition handle_get_template_resp ::
  "'j jansson \<Rightarrow> string \<Rightarrow> string \<Rightarrow> template_group list \<Rightarrow> nng_http_status \<times> string" where
  "handle_get_template_resp J name plugin groups =
     neu_http_ok (snd (neu_json_encode_by_fn J (neu_json_encode_template J
       \<lparr>tm_name = Some name, tm_plugin = Some plugin, tm_groups = map json_of_group groups\<rparr>)))"

definition handle_get_templates_resp :: "'j jansson \<Rightarrow> (string \<times> string) list \<Rightarrow> nng_http_status \<times> string" where
  "handle_get_templates_resp J templates =
     neu_http_ok (snd (neu_json_encode_by_fn J (neu_json_encode_get_templates_resp J
       (map (\<lambda>(name, plugin). \<lparr>ti_name = Some name, ti_plugin = Some plugin\<rparr>) templates))))"

section \<open>Groups of a template\<close>

text \<open>Template and group of a request, tested in this order.\<close>

definition check_names :: "string option \<Rightarrow> string option \<Rightarrow> (int + string \<times> string) option" where
  "check_names tmpl grp =
     and_then (check_len NEU_TEMPLATE_NAME_LEN NEU_ERR_TEMPLATE_NAME_TOO_LONG tmpl) (\<lambda>t.
     and_then (check_len NEU_GROUP_NAME_LEN NEU_ERR_GROUP_NAME_TOO_LONG grp) (\<lambda>g.
       Some (Inr (t, g))))"

definition send_template_mod_group_req ::
  "('j, 'w) rest_env \<Rightarrow> http_req \<Rightarrow> neu_reqresp_type \<Rightarrow> jwt_state \<Rightarrow> neu_json_template_mod_group_req_t \<Rightarrow>
    rest_out option" where
  "send_template_mod_group_req E req type st r =
     answer_error E st (check_names (mg_tmpl r) (mg_group r)) (\<lambda>(tmpl, grp).
       if sint (mg_interval r) < int (unat NEU_GROUP_INTERVAL_LIMIT)
       then rest_error E NEU_ERR_GROUP_PARAMETER_INVALID st
       else rest_command E req type (D_template_group tmpl grp (ucast (mg_interval r))) st)"

definition process_mod_template_group ::
  "('j, 'w) rest_env \<Rightarrow> http_req \<Rightarrow> neu_reqresp_type \<Rightarrow> jwt_state \<Rightarrow> rest_out option" where
  "process_mod_template_group E req type st =
     NEU_PROCESS_HTTP_REQUEST_VALIDATE_JWT E req (neu_json_decode_template_mod_group_req (re_json E)) st
       (send_template_mod_group_req E req type)"

definition handle_add_template_group :: "('j, 'w) rest_env \<Rightarrow> http_req \<Rightarrow> jwt_state \<Rightarrow> rest_out option" where
  "handle_add_template_group E req st = process_mod_template_group E req NEU_REQ_ADD_TEMPLATE_GROUP st"

definition handle_update_template_group :: "('j, 'w) rest_env \<Rightarrow> http_req \<Rightarrow> jwt_state \<Rightarrow> rest_out option" where
  "handle_update_template_group E req st = process_mod_template_group E req NEU_REQ_UPDATE_TEMPLATE_GROUP st"

definition send_template_del_group_req ::
  "('j, 'w) rest_env \<Rightarrow> http_req \<Rightarrow> jwt_state \<Rightarrow> neu_json_template_del_group_req_t \<Rightarrow> rest_out option" where
  "send_template_del_group_req E req st r =
     answer_error E st (check_names (rg_tmpl r) (rg_group r)) (\<lambda>(tmpl, grp).
       rest_command E req NEU_REQ_DEL_TEMPLATE_GROUP (D_del_template_group tmpl grp) st)"

definition handle_del_template_group :: "('j, 'w) rest_env \<Rightarrow> http_req \<Rightarrow> jwt_state \<Rightarrow> rest_out option" where
  "handle_del_template_group E req st =
     NEU_PROCESS_HTTP_REQUEST_VALIDATE_JWT E req (neu_json_decode_template_del_group_req (re_json E)) st
       (send_template_del_group_req E req)"

definition handle_get_template_group :: "('j, 'w) rest_env \<Rightarrow> http_req \<Rightarrow> jwt_state \<Rightarrow> rest_out option" where
  "handle_get_template_group E req st =
     NEU_VALIDATE_JWT E req st (\<lambda>st'. do {
       (ret, tmpl) \<leftarrow> neu_http_get_param_str (hr_url req) ''name'' NEU_TEMPLATE_NAME_LEN;
       if ret \<le> 0 \<or> int NEU_TEMPLATE_NAME_LEN \<le> ret then rest_error E NEU_ERR_PARAM_IS_WRONG st'
       else rest_command E req NEU_REQ_GET_TEMPLATE_GROUP (D_template tmpl) st'
     })"

section \<open>Tags of a template\<close>

definition send_template_mod_tags_req ::
  "('j, 'w) rest_env \<Rightarrow> http_req \<Rightarrow> neu_reqresp_type \<Rightarrow> jwt_state \<Rightarrow> 'j neu_json_template_mod_tags_req_t \<Rightarrow>
    rest_out option" where
  "send_template_mod_tags_req E req type st r =
     answer_error E st (check_names (mt_tmpl r) (mt_group r)) (\<lambda>(tmpl, grp).
       answer_error E st (all_or_error set_tag_by_json (mt_tags r)) (\<lambda>tags.
         rest_command E req type (D_template_tags tmpl grp (counted16 tags)) st))"

definition handle_add_template_tags :: "('j, 'w) rest_env \<Rightarrow> http_req \<Rightarrow> jwt_state \<Rightarrow> rest_out option" where
  "handle_add_template_tags E req st =
     NEU_PROCESS_HTTP_REQUEST_VALIDATE_JWT E req (neu_json_decode_template_mod_tags_req (re_json E)) st
       (send_template_mod_tags_req E req NEU_REQ_ADD_TEMPLATE_TAG)"

definition handle_update_template_tags :: "('j, 'w) rest_env \<Rightarrow> http_req \<Rightarrow> jwt_state \<Rightarrow> rest_out option" where
  "handle_update_template_tags E req st =
     NEU_PROCESS_HTTP_REQUEST_VALIDATE_JWT E req (neu_json_decode_template_mod_tags_req (re_json E)) st
       (send_template_mod_tags_req E req NEU_REQ_UPDATE_TEMPLATE_TAG)"

definition send_template_del_tags_req ::
  "('j, 'w) rest_env \<Rightarrow> http_req \<Rightarrow> jwt_state \<Rightarrow> neu_json_template_del_tags_req_t \<Rightarrow> rest_out option" where
  "send_template_del_tags_req E req st r =
     answer_error E st (check_names (rt_tmpl r) (rt_group r)) (\<lambda>(tmpl, grp).
       if \<exists>t\<in>set (rt_tags r). NEU_TAG_NAME_LEN \<le> length t then rest_error E NEU_ERR_TAG_NAME_TOO_LONG st
       else rest_command E req NEU_REQ_DEL_TEMPLATE_TAG (D_del_template_tag tmpl grp (counted16 (rt_tags r))) st)"

definition handle_del_template_tags :: "('j, 'w) rest_env \<Rightarrow> http_req \<Rightarrow> jwt_state \<Rightarrow> rest_out option" where
  "handle_del_template_tags E req st =
     NEU_PROCESS_HTTP_REQUEST_VALIDATE_JWT E req (neu_json_decode_template_del_tags_req (re_json E)) st
       (send_template_del_tags_req E req)"

definition handle_get_template_tags :: "('j, 'w) rest_env \<Rightarrow> http_req \<Rightarrow> jwt_state \<Rightarrow> rest_out option" where
  "handle_get_template_tags E req st =
     NEU_VALIDATE_JWT E req st (\<lambda>st'. do {
       (rt, tmpl) \<leftarrow> neu_http_get_param_str (hr_url req) ''template'' NEU_TEMPLATE_NAME_LEN;
       if rt \<le> 0 \<or> int NEU_TEMPLATE_NAME_LEN \<le> rt then rest_error E NEU_ERR_PARAM_IS_WRONG st'
       else do {
         (rg, grp) \<leftarrow> neu_http_get_param_str (hr_url req) ''group'' NEU_GROUP_NAME_LEN;
         if rg \<le> 0 \<or> int NEU_TEMPLATE_NAME_LEN \<le> rg then rest_error E NEU_ERR_PARAM_IS_WRONG st'
         else do {
           (rn, name) \<leftarrow> neu_http_get_param_str (hr_url req) ''name'' NEU_TAG_NAME_LEN;
           if rn \<noteq> - 2 \<and> (rn \<le> 0 \<or> int NEU_TAG_NAME_LEN \<le> rn) then rest_error E NEU_ERR_PARAM_IS_WRONG st'
           else rest_command E req NEU_REQ_GET_TEMPLATE_TAG (D_get_template_tag tmpl grp name) st'
         }
       }
     })"

section \<open>Instances\<close>

text \<open>A node name that is too long is answered with the error of a plugin name.\<close>

definition check_inst :: "neu_json_template_inst_req_t \<Rightarrow> (int + string \<times> string) option" where
  "check_inst r =
     and_then (check_len NEU_TEMPLATE_NAME_LEN NEU_ERR_TEMPLATE_NAME_TOO_LONG (it_name r)) (\<lambda>name.
     and_then (check_len NEU_NODE_NAME_LEN NEU_ERR_PLUGIN_NAME_TOO_LONG (it_node r)) (\<lambda>node.
       Some (Inr (name, node))))"

definition send_template_inst_req ::
  "('j, 'w) rest_env \<Rightarrow> http_req \<Rightarrow> jwt_state \<Rightarrow> neu_json_template_inst_req_t \<Rightarrow> rest_out option" where
  "send_template_inst_req E req st r =
     answer_error E st (check_inst r) (\<lambda>(name, node).
       rest_command E req NEU_REQ_INST_TEMPLATE (D_inst_template name node) st)"

definition handle_instantiate_template :: "('j, 'w) rest_env \<Rightarrow> http_req \<Rightarrow> jwt_state \<Rightarrow> rest_out option" where
  "handle_instantiate_template E req st =
     NEU_PROCESS_HTTP_REQUEST_VALIDATE_JWT E req (neu_json_decode_template_inst_req (re_json E)) st
       (send_template_inst_req E req)"

definition send_template_insts_req ::
  "('j, 'w) rest_env \<Rightarrow> http_req \<Rightarrow> jwt_state \<Rightarrow> neu_json_template_inst_req_t list \<Rightarrow> rest_out option" where
  "send_template_insts_req E req st r =
     answer_error E st (all_or_error check_inst r) (\<lambda>insts.
       rest_command E req NEU_REQ_INST_TEMPLATES (D_inst_templates (counted16 insts)) st)"

definition handle_instantiate_templates :: "('j, 'w) rest_env \<Rightarrow> http_req \<Rightarrow> jwt_state \<Rightarrow> rest_out option" where
  "handle_instantiate_templates E req st =
     NEU_PROCESS_HTTP_REQUEST_VALIDATE_JWT E req (neu_json_decode_template_insts_req (re_json E)) st
       (send_template_insts_req E req)"

end
