(* ===== verification/NdriverJson.thy ===== *)
theory NdriverJson
  imports TemplateJson
begin

text \<open>
  Requests about the old south drivers (\<open>src/parser/neu_json_ndriver.c\<close>): groups that are mapped to
  them, and the parameters and addresses of their tags.  A decoder gives \<open>None\<close> for undefined
  behaviour and \<open>Some None\<close> for the result -1.
\<close>

section \<open>Maps\<close>

record neu_json_ndriver_map_t =
  nm_ndriver :: "string option"
  nm_driver :: "string option"
  nm_group :: "string option"

definition neu_json_encode_ndriver_map :: "'j jansson \<Rightarrow> neu_json_ndriver_map_t \<Rightarrow> 'j \<Rightarrow> int \<times> 'j" where
  "neu_json_encode_ndriver_map J req json_object =
     neu_json_encode_field J json_object
       [str_elem ''ndriver'' (nm_ndriver req), str_elem ''driver'' (nm_driver req),
        str_elem ''group'' (nm_group req)]"

definition neu_json_decode_ndriver_map ::
  "'j jansson \<Rightarrow> string \<Rightarrow> neu_json_ndriver_map_t option option" where
  "neu_json_decode_ndriver_map J buf =
     (case neu_json_decode_new J buf of
        None \<Rightarrow> Some None
      | Some json_obj \<Rightarrow>
          decode_fields J (Some json_obj)
            [want ''ndriver'' NEU_JSON_STR, want ''driver'' NEU_JSON_STR, want ''group'' NEU_JSON_STR]
            (\<lambda>es. \<lparr>nm_ndriver = str_of (es ! 0), nm_driver = str_of (es ! 1), nm_group = str_of (es ! 2)\<rparr>))"

text \<open>A text the library does not accept is a NULL, and setting it fails; the object is dropped.\<close>

fun neu_json_encode_ndriver_group_array ::
  "'j jansson \<Rightarrow> 'j \<Rightarrow> (string \<times> string) list \<Rightarrow> int \<times> 'j" where
  "neu_json_encode_ndriver_group_array J json_arr [] = (0, json_arr)"
| "neu_json_encode_ndriver_group_array J json_arr ((driver, grp) # groups) =
     (case json_object_set_new J (json_object_new J) ''driver'' (json_string J driver) of
        (r1, ob1) \<Rightarrow>
          if r1 \<noteq> 0 then (- 1, json_arr)
          else (case json_object_set_new J ob1 ''group'' (json_string J grp) of
                  (r2, ob2) \<Rightarrow>
                    if r2 \<noteq> 0 then (- 1, json_arr)
                    else neu_json_encode_ndriver_group_array J
                           (json_array_append_new J json_arr (Some ob2)) groups))"

definition neu_json_encode_get_ndriver_maps_resp ::
  "'j jansson \<Rightarrow> (string \<times> string) list \<Rightarrow> 'j \<Rightarrow> int \<times> 'j" where
  "neu_json_encode_get_ndriver_maps_resp J groups json_obj =
     (case neu_json_encode_ndriver_group_array J (json_array_new J) groups of
        (ret, group_array) \<Rightarrow>
          if ret \<noteq> 0 then (- 1, json_obj)
          else neu_json_encode_field J json_obj [object_elem ''groups'' (Some group_array)])"

section \<open>Tags\<close>

record neu_json_ndriver_tag_t =
  nj_name :: "string option"
  nj_address :: "string option"
  nj_attribute :: u64
  nj_type :: u64
  nj_params :: "string option"

definition neu_json_encode_ndriver_tag ::
  "'j jansson \<Rightarrow> neu_json_ndriver_tag_t \<Rightarrow> 'j \<Rightarrow> int \<times> 'j" where
  "neu_json_encode_ndriver_tag J tag json_obj =
     (case neu_json_encode_field J json_obj
        [str_elem ''name'' (nj_name tag), str_elem ''address'' (nj_address tag),
         int_elem ''attribute'' (nj_attribute tag), int_elem ''type'' (nj_type tag)] of
        (ret, ob) \<Rightarrow>
          if ret \<noteq> 0 then (- 1, ob)
          else (case nj_params tag of
                  None \<Rightarrow> (ret, ob)
                | Some params \<Rightarrow> neu_json_load_key J ob ''params'' params True))"

definition neu_json_encode_ndriver_tag_array ::
  "'j jansson \<Rightarrow> 'j \<Rightarrow> neu_json_ndriver_tag_t list \<Rightarrow> int \<times> 'j" where
  "neu_json_encode_ndriver_tag_array J = encode_object_array J (neu_json_encode_ndriver_tag J)"

definition neu_json_encode_get_ndriver_tags_resp ::
  "'j jansson \<Rightarrow> neu_json_ndriver_tag_t list \<Rightarrow> 'j \<Rightarrow> int \<times> 'j" where
  "neu_json_encode_get_ndriver_tags_resp J tags json_obj =
     (case neu_json_encode_ndriver_tag_array J (json_array_new J) tags of
        (ret, tags_array) \<Rightarrow>
          if ret \<noteq> 0 then (- 1, json_obj)
          else neu_json_encode_field J json_obj [object_elem ''tags'' (Some tags_array)])"

section \<open>Updates\<close>

text \<open>The name of a tag with its parameters, or with its address.\<close>

type_synonym ndriver_tag_update = "string option \<times> string option"

definition neu_json_decode_ndriver_tag_param_json ::
  "'j jansson \<Rightarrow> 'j option \<Rightarrow> ndriver_tag_update option option" where
  "neu_json_decode_ndriver_tag_param_json J json_obj =
     (case neu_json_decode_by_json J json_obj [want ''name'' NEU_JSON_STR] of
        None \<Rightarrow> None
      | Some (ret, es) \<Rightarrow>
          (case json_obj of
             None \<Rightarrow> Some None
           | Some root \<Rightarrow>
               if ret \<noteq> 0 then Some None
               else (case neu_json_dump_key J root ''params'' None True of
                       (ret', params) \<Rightarrow> Some (if ret' \<noteq> 0 then None else Some (str_of (es ! 0), params)))))"

definition neu_json_decode_ndriver_tag_info_json ::
  "'j jansson \<Rightarrow> 'j option \<Rightarrow> ndriver_tag_update option option" where
  "neu_json_decode_ndriver_tag_info_json J json_obj =
     decode_fields J json_obj [want ''name'' NEU_JSON_STR, want ''address'' NEU_JSON_STR]
       (\<lambda>es. (str_of (es ! 0), str_of (es ! 1)))"

definition decode_updates ::
  "'j jansson \<Rightarrow> ('j option \<Rightarrow> ndriver_tag_update option option) \<Rightarrow> 'j option \<Rightarrow>
    ndriver_tag_update list option option" where
  "decode_updates J decode json_obj =
     (case json_obj of
        None \<Rightarrow> Some None
      | Some arr \<Rightarrow>
          if json_is_array J arr then decode_list J arr decode [0..<json_array_size J arr] else Some None)"

definition neu_json_decode_ndriver_tag_param_array_json ::
  "'j jansson \<Rightarrow> 'j option \<Rightarrow> ndriver_tag_update list option option" where
  "neu_json_decode_ndriver_tag_param_array_json J =
     decode_updates J (neu_json_decode_ndriver_tag_param_json J)"

definition neu_json_decode_ndriver_tag_info_array_json ::
  "'j jansson \<Rightarrow> 'j option \<Rightarrow> ndriver_tag_update list option option" where
  "neu_json_decode_ndriver_tag_info_array_json J =
     decode_updates J (neu_json_decode_ndriver_tag_info_json J)"

record neu_json_update_ndriver_tag_req_t =
  nu_ndriver :: "string option"
  nu_driver :: "string option"
  nu_group :: "string option"
  nu_tags :: "ndriver_tag_update list"

definition decode_update_req ::
  "'j jansson \<Rightarrow> ('j option \<Rightarrow> ndriver_tag_update list option option) \<Rightarrow> string \<Rightarrow>
    neu_json_update_ndriver_tag_req_t option option" where
  "decode_update_req J decode buf =
     (case neu_json_decode_new J buf of
        None \<Rightarrow> Some None
      | Some json_obj \<Rightarrow>
          (case neu_json_decode_by_json J (Some json_obj)
             [want ''ndriver'' NEU_JSON_STR, want ''driver'' NEU_JSON_STR, want ''group'' NEU_JSON_STR,
              want ''tags'' NEU_JSON_OBJECT] of
             None \<Rightarrow> None
           | Some (ret, es) \<Rightarrow>
               if ret \<noteq> 0 then Some None
               else (case decode (jobj (ev (es ! 3))) of
                       None \<Rightarrow> None
                     | Some None \<Rightarrow> Some None
                     | Some (Some tags) \<Rightarrow>
                         Some (if tags = [] then None
                               else Some \<lparr>nu_ndriver = str_of (es ! 0), nu_driver = str_of (es ! 1),
                                          nu_group = str_of (es ! 2), nu_tags = tags\<rparr>))))"

definition neu_json_decode_update_ndriver_tag_param_req ::
  "'j jansson \<Rightarrow> string \<Rightarrow> neu_json_update_ndriver_tag_req_t option option" where
  "neu_json_decode_update_ndriver_tag_param_req J =
     decode_update_req J (neu_json_decode_ndriver_tag_param_array_json J)"

definition neu_json_decode_update_ndriver_tag_info_req ::
  "'j jansson \<Rightarrow> string \<Rightarrow> neu_json_update_ndriver_tag_req_t option option" where
  "neu_json_decode_update_ndriver_tag_info_req J =
     decode_update_req J (neu_json_decode_ndriver_tag_info_array_json J)"

end
