(* ===== verification/NdriverRest.thy ===== *)
theory NdriverRest
  imports TemplateRest NdriverJson
begin

text \<open>
  The old south drivers over REST (\<open>plugins/restful/ndriver_handle.c\<close>).  The routes to these
  handlers are commented out.  \<open>None\<close> is a crash or undefined behaviour, which includes a name
  that does not fit its array.
\<close>

section \<open>Maps\<close>

text \<open>All names are measured before any is copied, and one error stands for all.\<close>

definition send_ndriver_map_req ::
  "('j, 'w) rest_env \<Rightarrow> http_req \<Rightarrow> neu_reqresp_type \<Rightarrow> jwt_state \<Rightarrow> neu_json_ndriver_map_t \<Rightarrow>
    rest_out option" where
  "send_ndriver_map_req E req type st r =
     answer_error E st
       (and_then (check_len NEU_NODE_NAME_LEN NEU_ERR_NODE_NAME_TOO_LONG (nm_ndriver r)) (\<lambda>ndriver.
        and_then (check_len NEU_NODE_NAME_LEN NEU_ERR_NODE_NAME_TOO_LONG (nm_driver r)) (\<lambda>driver.
        and_then (check_len NEU_GROUP_NAME_LEN NEU_ERR_NODE_NAME_TOO_LONG (nm_group r)) (\<lambda>grp.
          Some (Inr (D_ndriver_map ndriver driver grp))))))
       (\<lambda>cmd. rest_command E req type cmd st)"

definition handle_add_ndriver_map :: "('j, 'w) rest_env \<Rightarrow> http_req \<Rightarrow> jwt_state \<Rightarrow> rest_out option" where
  "handle_add_ndriver_map E req st =
     NEU_PROCESS_HTTP_REQUEST_VALIDATE_JWT E req (neu_json_decode_ndriver_map (re_json E)) st
       (send_ndriver_map_req E req NEU_REQ_ADD_NDRIVER_MAP)"

definition handle_del_ndriver_map :: "('j, 'w) rest_env \<Rightarrow> http_req \<Rightarrow> jwt_state \<Rightarrow> rest_out option" where
  "handle_del_ndriver_map E req st =
     NEU_PROCESS_HTTP_REQUEST_VALIDATE_JWT E req (neu_json_decode_ndriver_map (re_json E)) st
       (send_ndriver_map_req E req NEU_REQ_DEL_NDRIVER_MAP)"

definition handle_get_ndriver_maps :: "('j, 'w) rest_env \<Rightarrow> http_req \<Rightarrow> jwt_state \<Rightarrow> rest_out option" where
  "handle_get_ndriver_maps E req st =
     NEU_VALIDATE_JWT E req st (\<lambda>st'. do {
       (ret, ndriver) \<leftarrow> neu_http_get_param_str (hr_url req) ''ndriver'' NEU_NODE_NAME_LEN;
       if ret \<le> 0 \<or> int NEU_NODE_NAME_LEN \<le> ret then rest_error E NEU_ERR_PARAM_IS_WRONG st'
       else rest_command E req NEU_REQ_GET_NDRIVER_MAPS (D_node ndriver) st'
     })"

text \<open>A text that cannot be made is answered as an error.\<close>

definition text_or_error ::
  "('j, 'w) rest_env \<Rightarrow> 'j encode_fn \<Rightarrow> (nng_http_status \<times> string) option" where
  "text_or_error E fn =
     (case snd (neu_json_encode_by_fn (re_json E) fn) of
        None \<Rightarrow> http_error E NEU_ERR_EINTERNAL
      | Some result \<Rightarrow> Some (neu_http_ok (Some result)))"

definition handle_get_ndriver_maps_resp ::
  "('j, 'w) rest_env \<Rightarrow> (string \<times> string) list \<Rightarrow> (nng_http_status \<times> string) option" where
  "handle_get_ndriver_maps_resp E groups =
     text_or_error E (neu_json_encode_get_ndriver_maps_resp (re_json E) groups)"

section \<open>Tags\<close>

text \<open>
  The array of a command has room for the number of tags cut to 16 bits; more tags are written
  past its end.
\<close>

definition send_update_ndriver_tag_req ::
  "('j, 'w) rest_env \<Rightarrow> http_req \<Rightarrow> neu_reqresp_type \<Rightarrow> jwt_state \<Rightarrow> neu_json_update_ndriver_tag_req_t \<Rightarrow>
    rest_out option" where
  "send_update_ndriver_tag_req E req type st r = do {
     ndriver \<leftarrow> strcpy NEU_NODE_NAME_LEN (nu_ndriver r);
     driver \<leftarrow> strcpy NEU_NODE_NAME_LEN (nu_driver r);
     grp \<leftarrow> strcpy NEU_GROUP_NAME_LEN (nu_group r);
     if 65536 \<le> length (nu_tags r) then None
     else rest_command E req type (D_ndriver_tags ndriver driver grp (nu_tags r)) st
   }"

definition handle_put_ndriver_tag_param :: "('j, 'w) rest_env \<Rightarrow> http_req \<Rightarrow> jwt_state \<Rightarrow> rest_out option" where
  "handle_put_ndriver_tag_param E req st =
     NEU_PROCESS_HTTP_REQUEST_VALIDATE_JWT E req (neu_json_decode_update_ndriver_tag_param_req (re_json E)) st
       (send_update_ndriver_tag_req E req NEU_REQ_UPDATE_NDRIVER_TAG_PARAM)"

definition handle_put_ndriver_tag_info :: "('j, 'w) rest_env \<Rightarrow> http_req \<Rightarrow> jwt_state \<Rightarrow> rest_out option" where
  "handle_put_ndriver_tag_info E req st =
     NEU_PROCESS_HTTP_REQUEST_VALIDATE_JWT E req (neu_json_decode_update_ndriver_tag_info_req (re_json E)) st
       (send_update_ndriver_tag_req E req NEU_REQ_UPDATE_NDRIVER_TAG_INFO)"

definition handle_get_ndriver_tags :: "('j, 'w) rest_env \<Rightarrow> http_req \<Rightarrow> jwt_state \<Rightarrow> rest_out option" where
  "handle_get_ndriver_tags E req st =
     NEU_VALIDATE_JWT E req st (\<lambda>st'. do {
       (rn, ndriver) \<leftarrow> neu_http_get_param_str (hr_url req) ''ndriver'' NEU_NODE_NAME_LEN;
       if rn \<le> 0 \<or> int NEU_NODE_NAME_LEN \<le> rn then rest_error E NEU_ERR_PARAM_IS_WRONG st'
       else do {
         (rd, driver) \<leftarrow> neu_http_get_param_str (hr_url req) ''driver'' NEU_NODE_NAME_LEN;
         if rd \<le> 0 \<or> int NEU_NODE_NAME_LEN \<le> rd then rest_error E NEU_ERR_PARAM_IS_WRONG st'
         else do {
           (rg, grp) \<leftarrow> neu_http_get_param_str (hr_url req) ''group'' NEU_GROUP_NAME_LEN;
           if rg \<le> 0 \<or> int NEU_GROUP_NAME_LEN \<le> rg then rest_error E NEU_ERR_PARAM_IS_WRONG st'
           else rest_command E req NEU_REQ_GET_NDRIVER_TAGS (D_get_ndriver_tags ndriver driver grp) st'
         }
       }
     })"

definition handle_get_ndriver_tags_resp ::
  "('j, 'w) rest_env \<Rightarrow> neu_ndriver_tag_t list \<Rightarrow> (nng_http_status \<times> string) option" where
  "handle_get_ndriver_tags_resp E tags =
     text_or_error E (neu_json_encode_get_ndriver_tags_resp (re_json E)
       (map (\<lambda>tag. \<lparr>nj_name = Some (nname tag), nj_address = Some (naddress tag),
                     nj_attribute = ucast (nattribute tag), nj_type = of_nat (neu_type_code (ntype tag)),
                     nj_params = nparams tag\<rparr>) tags))"

end
