(* ===== verification/RestLaws.thy ===== *)
theory RestLaws
  imports TagRest NodeRest GroupRest NdriverRest LoginLaws
begin

text \<open>What all handlers of requests over REST have in common.\<close>

section \<open>One answer\<close>

text \<open>
  Either one response is sent, or one command, whose body is the struct of its type and whose context is
  the request, so that its answer finds the way back.
\<close>

definition handled_once :: "http_req \<Rightarrow> rest_out \<Rightarrow> bool" where
  "handled_once req out \<longleftrightarrow>
     length (ro_responses out) + length (ro_commands out) = 1 \<and>
     (\<forall>(h, d)\<in>set (ro_commands out). data_fits (rh_type h) d \<and> rh_ctx h = hr_ctx req)"

text \<open>The same with \<open>n\<close> responses too many.\<close>

definition handled_plus :: "nat \<Rightarrow> http_req \<Rightarrow> rest_out \<Rightarrow> bool" where
  "handled_plus n req out \<longleftrightarrow>
     length (ro_responses out) + length (ro_commands out) = 1 + n \<and> length (ro_commands out) \<le> 1 \<and>
     (\<forall>(h, d)\<in>set (ro_commands out). data_fits (rh_type h) d \<and> rh_ctx h = hr_ctx req)"

lemma handled_plus_0 [simp]: "handled_plus 0 req out = handled_once req out"
  by (auto simp: handled_plus_def handled_once_def)

lemma handled_plus_add:
  "handled_once req out \<Longrightarrow> n = length rs \<Longrightarrow>
    handled_plus n req (out\<lparr>ro_responses := rs @ ro_responses out\<rparr>)"
  by (auto simp: handled_plus_def handled_once_def)

lemma responds_once [intro]: "handled_once req (responds st [r])"
  by (simp add: handled_once_def responds_def)

lemma error_once [intro]: "rest_error E code st = Some out \<Longrightarrow> handled_once req out"
  by (auto simp: rest_error_def)

lemma command_once [intro]:
  "rest_command E req type cmd st = Some out \<Longrightarrow> data_fits type cmd \<Longrightarrow> handled_once req out"
  by (auto simp: rest_command_def Let_def split: if_splits) (auto simp: handled_once_def)

lemma validate_once:
  assumes "NEU_VALIDATE_JWT E req st k = Some out" "\<And>st'. k st' = Some out \<Longrightarrow> handled_once req out"
  shows "handled_once req out"
  using assms by (auto simp: NEU_VALIDATE_JWT_def split: if_splits option.splits)

lemma process_once:
  assumes "NEU_PROCESS_HTTP_REQUEST_VALIDATE_JWT E req decode st k = Some out"
    and "\<And>st' r. k st' r = Some out \<Longrightarrow> handled_once req out"
  shows "handled_once req out"
  using assms
  by (auto simp: NEU_PROCESS_HTTP_REQUEST_VALIDATE_JWT_def NEU_PROCESS_HTTP_REQUEST_def
      elim!: validate_once split: option.splits)

lemmas once = bind_eq_Some_conv Let_def send_subscribe_def tags_command_def

lemma tag_handlers_once:
  "handle_add_tags E req st = Some out \<Longrightarrow> handled_once req out"
  "handle_update_tags E req st = Some out \<Longrightarrow> handled_once req out"
  "handle_del_tags E req st = Some out \<Longrightarrow> handled_once req out"
  "handle_get_tags E req st = Some out \<Longrightarrow> handled_once req out"
  unfolding handle_add_tags_def handle_update_tags_def handle_del_tags_def handle_get_tags_def
  by (erule process_once validate_once; auto simp: once split: if_splits)+

lemma value_handlers_once:
  "handle_read E req st = Some out \<Longrightarrow> handled_once req out"
  "handle_write E req st = Some out \<Longrightarrow> handled_once req out"
  "handle_write_tags E req st = Some out \<Longrightarrow> handled_once req out"
  unfolding handle_read_def handle_write_def handle_write_tags_def
  by (erule process_once validate_once; auto simp: once split: if_splits)+

lemma node_handlers_once:
  "handle_add_adapter E req st = Some out \<Longrightarrow> handled_once req out"
  "handle_update_adapter E req st = Some out \<Longrightarrow> handled_once req out"
  "handle_del_adapter E req st = Some out \<Longrightarrow> handled_once req out"
  "handle_get_adapter erange E req st = Some out \<Longrightarrow> handled_once req out"
  "handle_set_node_setting E req st = Some out \<Longrightarrow> handled_once req out"
  "handle_get_node_setting E req st = Some out \<Longrightarrow> handled_once req out"
  "handle_node_ctl E req st = Some out \<Longrightarrow> handled_once req out"
  "handle_get_node_state E req st = Some out \<Longrightarrow> handled_once req out"
  unfolding handle_add_adapter_def handle_update_adapter_def handle_del_adapter_def handle_get_adapter_def
    handle_set_node_setting_def handle_get_node_setting_def handle_node_ctl_def handle_get_node_state_def
  by (erule process_once validate_once; auto simp: once split: if_splits option.splits)+

lemma group_handlers_once:
  "handle_add_group_config E req st = Some out \<Longrightarrow> handled_once req out"
  "handle_update_group E req st = Some out \<Longrightarrow> handled_once req out"
  "handle_del_group_config E req st = Some out \<Longrightarrow> handled_once req out"
  "handle_get_group_config E req st = Some out \<Longrightarrow> handled_once req out"
  "handle_grp_subscribe E req st = Some out \<Longrightarrow> handled_once req out"
  "handle_grp_update_subscribe E req st = Some out \<Longrightarrow> handled_once req out"
  "handle_grp_unsubscribe E req st = Some out \<Longrightarrow> handled_once req out"
  "handle_grp_subscribes E req st = Some out \<Longrightarrow> handled_once req out"
  "handle_grp_get_subscribe E req st = Some out \<Longrightarrow> handled_once req out"
  unfolding handle_add_group_config_def handle_update_group_def handle_del_group_config_def
    handle_get_group_config_def handle_grp_subscribe_def handle_grp_update_subscribe_def
    handle_grp_unsubscribe_def handle_grp_subscribes_def handle_grp_get_subscribe_def
  by (erule process_once validate_once; auto simp: once split: if_splits)+

lemma user_handlers_once:
  "handle_password L E req st = Some out \<Longrightarrow> handled_once req out"
  "handle_get_plugin_schema read dir E req st = Some out \<Longrightarrow> handled_once req out"
  unfolding handle_password_def handle_get_plugin_schema_def
  by (erule process_once validate_once; auto simp: once split: if_splits option.splits)+

lemma answer_once:
  assumes "answer_error E st r k = Some out" "\<And>x. r = Some (Inr x) \<Longrightarrow> k x = Some out \<Longrightarrow> handled_once req out"
  shows "handled_once req out"
  using assms by (auto simp: answer_error_def split: option.splits sum.splits)

lemma map_sum_Inr: "map_sum f g z = Inr y \<longleftrightarrow> (\<exists>x. z = Inr x \<and> y = g x)"
  by (cases z) auto

lemma moved_template: "move_template_json r = Some (Inr cmd) \<Longrightarrow> data_fits NEU_REQ_ADD_TEMPLATE cmd"
  by (auto simp: move_template_json_def and_then_def map_sum_Inr split: option.splits sum.splits)

lemma template_handlers_once:
  "handle_add_template E req st = Some out \<Longrightarrow> handled_once req out"
  "handle_del_template E req st = Some out \<Longrightarrow> handled_once req out"
  "handle_get_template E req st = Some out \<Longrightarrow> handled_once req out"
  "handle_add_template_group E req st = Some out \<Longrightarrow> handled_once req out"
  "handle_update_template_group E req st = Some out \<Longrightarrow> handled_once req out"
  "handle_del_template_group E req st = Some out \<Longrightarrow> handled_once req out"
  "handle_get_template_group E req st = Some out \<Longrightarrow> handled_once req out"
  "handle_add_template_tags E req st = Some out \<Longrightarrow> handled_once req out"
  "handle_update_template_tags E req st = Some out \<Longrightarrow> handled_once req out"
  "handle_del_template_tags E req st = Some out \<Longrightarrow> handled_once req out"
  "handle_get_template_tags E req st = Some out \<Longrightarrow> handled_once req out"
  "handle_instantiate_template E req st = Some out \<Longrightarrow> handled_once req out"
  "handle_instantiate_templates E req st = Some out \<Longrightarrow> handled_once req out"
  unfolding handle_add_template_def handle_del_template_def handle_get_template_def handle_add_template_group_def
    handle_update_template_group_def process_mod_template_group_def handle_del_template_group_def
    handle_get_template_group_def handle_add_template_tags_def handle_update_template_tags_def
    handle_del_template_tags_def handle_get_template_tags_def handle_instantiate_template_def
    handle_instantiate_templates_def send_template_mod_group_req_def send_template_del_group_req_def
    send_template_mod_tags_req_def send_template_del_tags_req_def send_template_inst_req_def
    send_template_insts_req_def
  by (erule process_once validate_once; ((erule answer_once)+)?;
      auto simp: once intro: moved_template elim!: answer_once command_once error_once split: if_splits)+

lemma ndriver_handlers_once:
  "handle_add_ndriver_map E req st = Some out \<Longrightarrow> handled_once req out"
  "handle_del_ndriver_map E req st = Some out \<Longrightarrow> handled_once req out"
  "handle_get_ndriver_maps E req st = Some out \<Longrightarrow> handled_once req out"
  "handle_put_ndriver_tag_param E req st = Some out \<Longrightarrow> handled_once req out"
  "handle_put_ndriver_tag_info E req st = Some out \<Longrightarrow> handled_once req out"
  "handle_get_ndriver_tags E req st = Some out \<Longrightarrow> handled_once req out"
  unfolding handle_add_ndriver_map_def handle_del_ndriver_map_def handle_get_ndriver_maps_def
    handle_put_ndriver_tag_param_def handle_put_ndriver_tag_info_def handle_get_ndriver_tags_def
    send_ndriver_map_req_def send_update_ndriver_tag_req_def
  by (erule process_once validate_once; ((erule answer_once)+)?;
      auto simp: once and_then_def elim!: command_once error_once split: if_splits option.splits sum.splits)+

end
