(* ===== verification/TagRestLaws.thy ===== *)
theory TagRestLaws
  imports TagRest TagJsonLaws LoginLaws
begin

text \<open>Tags over REST: what is exported can be imported, and what becomes of values to write.\<close>

unbundle bit_operations_syntax

section \<open>Export and import of a tag\<close>

definition exportable :: "'j jansson \<Rightarrow> neu_datatag_t \<Rightarrow> bool" where
  "exportable J t \<longleftrightarrow>
     json_integer J (of_nat (neu_type_code (ttype t))) \<noteq> None \<and> json_integer J (ucast (attribute t)) \<noteq> None \<and>
     json_integer J (ucast (precision t)) \<noteq> None \<and> json_real J (decimal t) \<noteq> None \<and>
     json_string J (address t) \<noteq> None \<and> json_string J (tname t) \<noteq> None \<and>
     json_string J (description t) \<noteq> None \<and>
     (if neu_tag_attribute_test t NEU_ATTRIBUTE_STATIC
      then (case static_ptr t of
              None \<Rightarrow> False
            | Some v \<Rightarrow> value_wf v \<and> static_value_json J (ttype t) v \<noteq> None \<and>
                (ttype t = NEU_TYPE_FLOAT \<longrightarrow> f32_dec (get_word v) \<noteq> FNaN) \<and>
                (ttype t = NEU_TYPE_STRING \<longrightarrow> 0 \<in> set (get_str v)))
      else static_ptr t = None)"

lemma type_of_number_code: "type_of_number (of_nat (neu_type_code ty)) = Some ty"
  by (cases ty) (simp_all add: type_of_number_def all_types_def)

lemma ucast_up_down [simp]:
  "(ucast (ucast (a :: u32) :: u64) :: u32) = a" "(ucast (ucast (p :: u8) :: u64) :: u8) = p"
  by (rule bit_word_eqI; auto simp: bit_simps)+

lemma code_through_u32 [simp]:
  "(ucast (ucast (of_nat (neu_type_code ty) :: u64) :: u32) :: u64) = of_nat (neu_type_code ty)"
  by (cases ty) simp_all

lemma static_bit_wide:
  "ucast NEU_ATTRIBUTE_STATIC AND (ucast a :: u64) \<noteq> 0 \<longleftrightarrow> NEU_ATTRIBUTE_STATIC AND a \<noteq> 0"
proof -
  have "ucast NEU_ATTRIBUTE_STATIC AND (ucast a :: u64) = ucast (NEU_ATTRIBUTE_STATIC AND a)"
    by (rule bit_word_eqI) (auto simp: bit_simps)
  moreover have "(ucast (w :: u32) :: u64) = 0 \<longleftrightarrow> w = 0" for w
    by (metis ucast_up_down(1) ucast_0)
  ultimately show ?thesis by simp
qed

lemma val_int_of_u8: "val_int (jput (b :: u8) (zero_json_value :: 'j neu_json_value_u)) = ucast b"
proof -
  have "replicate 7 (0 :: u8) = [0, 0, 0, 0, 0, 0, 0]" by (simp add: numeral_eq_Suc)
  then have "jraw (jput (b :: u8) (zero_json_value :: 'j neu_json_value_u)) = [b, 0, 0, 0, 0, 0, 0, 0]"
    by (simp add: jput_def poke_def bytes_of_word_def zero_json_value_def)
  then show ?thesis by (simp add: jget_def peek_def word_of_bytes_def)
qed

lemma exported_static_value:
  assumes "static_ptr t = Some v"
    "snd (neu_tag_get_static_value_json t NEU_JSON_UNDEFINE zero_json_value) = (ty, w)"
  shows "field_json J (value_elem n ty w) = static_value_json J (ttype t) v"
  using assms
  by (cases "ttype t")
     (auto simp: neu_tag_get_static_value_json_def field_json_def elem_json_def encode_object_value_def
        static_value_json_def val_int_of_u8 jget_jput val_bool_def put_val_bool_def Let_def)



lemma exported_fields:
  fixes J :: "'j jansson"
  assumes ok: "jansson_more J" and ex: "exportable J t" and root: "root = snd (neu_json_encode_tag J (json_of_tag t) (json_object_new J))"
  shows "decode_object J root (want ''type'' NEU_JSON_INT)
      = Some (0, int_elem ''type'' (of_nat (neu_type_code (ttype t))))"
    "decode_object J root (want ''name'' NEU_JSON_STR) = Some (0, str_elem ''name'' (Some (tname t)))"
    "decode_object J root (want ''attribute'' NEU_JSON_INT) = Some (0, int_elem ''attribute'' (ucast (attribute t)))"
    "decode_object J root (want ''address'' NEU_JSON_STR) = Some (0, str_elem ''address'' (Some (address t)))"
    "decode_object J root (may_want ''decimal'' NEU_JSON_DOUBLE)
      = Some (0, (double_elem ''decimal'' (decimal t))\<lparr>eattribute := NEU_JSON_ATTRIBUTE_OPTIONAL\<rparr>)"
    "decode_object J root (may_want ''precision'' NEU_JSON_INT)
      = Some (0, (int_elem ''precision'' (ucast (precision t)))\<lparr>eattribute := NEU_JSON_ATTRIBUTE_OPTIONAL\<rparr>)"
    "decode_object J root (may_want ''description'' NEU_JSON_STR)
      = Some (0, (str_elem ''description'' (Some (description t)))\<lparr>eattribute := NEU_JSON_ATTRIBUTE_OPTIONAL\<rparr>)"
    "json_object_get J root ''value''
      = (if neu_tag_attribute_test t NEU_ATTRIBUTE_STATIC
         then Option.bind (static_ptr t) (static_value_json J (ttype t)) else None)"
proof -
  obtain ty and w :: "'j neu_json_value_u" where val: "(if neu_tag_attribute_test t NEU_ATTRIBUTE_STATIC
            then snd (neu_tag_get_static_value_json t NEU_JSON_UNDEFINE zero_json_value)
            else (NEU_JSON_UNDEFINE, zero_json_value)) = (ty, w)"
    by fastforce
  then have tw: "json_of_tag t = \<lparr>tj_address = Some (address t), tj_name = Some (tname t),
      tj_description = Some (description t), tj_type = of_nat (neu_type_code (ttype t)),
      tj_attribute = ucast (attribute t), tj_precision = ucast (precision t),
      tj_decimal = decimal t, tj_t = ty, tj_value = w\<rparr>"
    by (simp add: json_of_tag_def)
  have get: "json_object_get J root k = field_of J (tag_elems (json_of_tag t)) k" for k
    unfolding root by (rule encoded_tag_get [OF ok])
  have fields: "json_object_get J root ''type'' = json_integer J (of_nat (neu_type_code (ttype t)))"
    "json_object_get J root ''name'' = Option.bind (Some (tname t)) (json_string J)"
    "json_object_get J root ''attribute'' = json_integer J (ucast (attribute t))"
    "json_object_get J root ''precision'' = json_integer J (ucast (precision t))"
    "json_object_get J root ''decimal'' = json_real J (decimal t)"
    "json_object_get J root ''address'' = Option.bind (Some (address t)) (json_string J)"
    "json_object_get J root ''description'' = Option.bind (Some (description t)) (json_string J)"
    "json_object_get J root ''value'' = field_json J (value_elem ''value'' ty w)"
    unfolding get tag_elems_def tw by (simp_all add: field_json_simps split: option.split)
  note ex' = ex [unfolded exportable_def]
  show "decode_object J root (want ''type'' NEU_JSON_INT)
      = Some (0, int_elem ''type'' (of_nat (neu_type_code (ttype t))))"
    "decode_object J root (want ''name'' NEU_JSON_STR) = Some (0, str_elem ''name'' (Some (tname t)))"
    "decode_object J root (want ''attribute'' NEU_JSON_INT) = Some (0, int_elem ''attribute'' (ucast (attribute t)))"
    "decode_object J root (want ''address'' NEU_JSON_STR) = Some (0, str_elem ''address'' (Some (address t)))"
    "decode_object J root (may_want ''decimal'' NEU_JSON_DOUBLE)
      = Some (0, (double_elem ''decimal'' (decimal t))\<lparr>eattribute := NEU_JSON_ATTRIBUTE_OPTIONAL\<rparr>)"
    "decode_object J root (may_want ''precision'' NEU_JSON_INT)
      = Some (0, (int_elem ''precision'' (ucast (precision t)))\<lparr>eattribute := NEU_JSON_ATTRIBUTE_OPTIONAL\<rparr>)"
    "decode_object J root (may_want ''description'' NEU_JSON_STR)
      = Some (0, (str_elem ''description'' (Some (description t)))\<lparr>eattribute := NEU_JSON_ATTRIBUTE_OPTIONAL\<rparr>)"
    using decode_field_int(1) [OF ok fields(1)] decode_field_str [OF ok fields(2)]
      decode_field_int(1) [OF ok fields(3)] decode_field_str [OF ok fields(6)]
      decode_field_double [OF ok fields(5)] decode_field_int(2) [OF ok fields(4)]
      decode_optional_str [OF ok fields(7)] ex' by simp_all
  show "json_object_get J root ''value''
      = (if neu_tag_attribute_test t NEU_ATTRIBUTE_STATIC
         then Option.bind (static_ptr t) (static_value_json J (ttype t)) else None)"
    using val ex' exported_static_value [of t _ ty w J "''value''"]
    by (auto simp: fields(8) field_json_simps split: if_splits option.splits)
qed

text \<open>The type of a static value that is inferred again passes the test of the parser.\<close>

lemma inferred_type_checks:
  assumes "tj_t tag = inferred_type ty" "tj_type tag = of_nat (neu_type_code ty)"
    and "ucast NEU_ATTRIBUTE_STATIC AND tj_attribute tag \<noteq> 0" "static_value_json J ty v \<noteq> None"
    and "ty = NEU_TYPE_STRING \<longrightarrow> jstr (tj_value tag) = Some s \<and> length s \<le> NEU_VALUE_SIZE"
  shows "neu_json_tag_check_type tag = Some True"
proof -
  have "type_of_number (tj_type tag) = Some ty" using assms(2) by (simp only: type_of_number_code)
  then show ?thesis
    using assms(1,3-)
    by (cases ty) (simp_all add: neu_json_tag_check_type_def integer_types_def
        inferred_type_def static_value_json_def)
qed

text \<open>The tag a request builds before its value is set.\<close>

definition blank_tag :: "neu_datatag_t \<Rightarrow> neu_datatag_t" where
  "blank_tag t = calloc_tag\<lparr>attribute := attribute t, ttype := ttype t, precision := precision t,
     decimal := decimal t, address := address t, tname := tname t, description := description t\<rparr>"

lemma blank_tag_other:
  "blank_tag t = t\<lparr>option8 := zero_option, meta := replicate NEU_TAG_META_LENGTH 0, static_ptr := None\<rparr>"
  by (cases t) (simp add: blank_tag_def calloc_tag_def)

definition json_tag :: "neu_datatag_t \<Rightarrow> neu_json_type_e \<Rightarrow> 'j neu_json_value_u \<Rightarrow> 'j neu_json_tag_t" where
  "json_tag t jt jv = \<lparr>tj_address = Some (address t), tj_name = Some (tname t),
     tj_description = Some (description t), tj_type = of_nat (neu_type_code (ttype t)),
     tj_attribute = ucast (attribute t), tj_precision = ucast (precision t),
     tj_decimal = decimal t, tj_t = jt, tj_value = jv\<rparr>"

lemma exported_tag:
  fixes J :: "'j jansson" and w :: "'k neu_json_value_u"
  assumes "jansson_more J" "exportable J t"
  shows "\<exists>jt jv t' x.
      neu_json_decode_tag_json J (Some (snd (neu_json_encode_tag J (json_of_tag t) (json_object_new J))))
        = Some (Some (json_tag t jt jv)) \<and>
      (neu_tag_attribute_test t NEU_ATTRIBUTE_STATIC \<longrightarrow>
         neu_tag_set_static_value_json (blank_tag t) jt jv = Some (0, t')) \<and>
      (\<not> neu_tag_attribute_test t NEU_ATTRIBUTE_STATIC \<longrightarrow> t' = blank_tag t) \<and>
      t' = (blank_tag t)\<lparr>static_ptr := x\<rparr> \<and>
      neu_tag_get_static_value_json t' ty w = neu_tag_get_static_value_json t ty w"
proof -
  let ?root = "snd (neu_json_encode_tag J (json_of_tag t) (json_object_new J))"
  let ?tag = "\<lambda>e :: 'j neu_json_elem_t. json_tag t (et e) (ev e)"
  note fields = exported_fields [OF assms refl]
  have dec: "neu_json_decode_tag_json J (Some ?root) = map_option (\<lambda>ok. if ok then Some (?tag e) else None)
      (neu_json_tag_check_type (?tag e))"
    if "decode_object J ?root (may_want ''value'' NEU_JSON_VALUE) = Some (0, e)" for e
    unfolding json_tag_def by (rule decode_tag_fields [OF fields(1-7) that refl])
  show ?thesis
  proof (cases "neu_tag_attribute_test t NEU_ATTRIBUTE_STATIC")
    case False
    with fields(8) have "decode_object J ?root (may_want ''value'' NEU_JSON_VALUE)
        = Some (0, may_want ''value'' NEU_JSON_VALUE)"
      by (simp add: decode_missing)
    from dec [OF this] False assms(2)
    have "neu_json_decode_tag_json J (Some ?root) = Some (Some (?tag (may_want ''value'' NEU_JSON_VALUE)))"
      by (simp add: json_tag_def neu_json_tag_check_type_def static_bit_wide static_test_iff)
    moreover have "neu_tag_get_static_value_json (blank_tag t) ty w = neu_tag_get_static_value_json t ty w"
      using False assms(2)
      by (simp add: blank_tag_other exportable_def neu_tag_get_static_value_json_def)
    moreover have "blank_tag t = (blank_tag t)\<lparr>static_ptr := None\<rparr>"
      by (simp add: blank_tag_def calloc_tag_def)
    ultimately show ?thesis
      using False
      by (intro exI [of _ "NEU_JSON_VALUE"] exI [of _ zero_json_value] exI [of _ "blank_tag t"]
            exI [of _ None]) simp
  next
    case True
    with assms(2) obtain v j where v: "static_ptr t = Some v" "value_wf v" "static_value_json J (ttype t) v = Some j"
      "ttype t = NEU_TYPE_FLOAT \<longrightarrow> f32_dec (get_word v) \<noteq> FNaN" "ttype t = NEU_TYPE_STRING \<longrightarrow> 0 \<in> set (get_str v)"
      by (auto simp: exportable_def split: option.splits)
    have static: "neu_tag_attribute_test (blank_tag t) NEU_ATTRIBUTE_STATIC" "ttype (blank_tag t) = ttype t"
      using True by (simp_all add: neu_tag_attribute_test_def blank_tag_def)
    obtain e t' where e: "decode_object J ?root (may_want ''value'' NEU_JSON_VALUE) = Some (0, e)"
      "neu_tag_set_static_value_json (blank_tag t) (et e) (ev e) = Some (0, t')"
      "neu_tag_get_static_value_json t' ty w = neu_tag_get_static_value_json t ty w"
      "et e = inferred_type (ttype t)"
      "ttype t = NEU_TYPE_STRING \<longrightarrow> jstr (ev e) = Some (c_string (get_str v))"
      using static_value_load [OF jansson_moreD(1) [OF assms(1)] v(3,1,4,5,2) static, where root = ?root
          and ele = "may_want ''value'' NEU_JSON_VALUE" and t = ty and w = w] fields(8) True v by auto
    have "neu_json_tag_check_type (?tag e) = Some True"
      by (rule inferred_type_checks [where ty = "ttype t" and J = J and v = v and s = "c_string (get_str v)"])
         (use e v True length_c_string [of "get_str v"] length_get_str [OF v(2)] in
           \<open>auto simp: json_tag_def static_bit_wide static_test_iff\<close>)
    with dec [OF e(1)] have "neu_json_decode_tag_json J (Some ?root) = Some (Some (?tag e))" by simp
    moreover obtain x where "t' = (blank_tag t)\<lparr>static_ptr := Some x\<rparr>"
      using set_static_value_json_other [OF e(2)] by blast
    ultimately show ?thesis
      using True e(2,3) by (intro exI [of _ "et e"] exI [of _ "ev e"] exI [of _ t'] exI [of _ "Some x"]) simp
  qed
qed

text \<open>
  A tag that is answered to a request for tags (\<open>handle_get_tags_resp\<close>) can be posted back: its
  JSON object passes the parser, and the tag that \<open>handle_add_tags\<close> builds from it is the same in
  name, address, description, type, attribute, precision and decimal, and reports the same static
  value, for every tag whose fields JSON can carry; only what is computed from the address is
  cleared.
\<close>

theorem exported_tag_imports:
  fixes J :: "'j jansson" and w :: "'k neu_json_value_u"
  assumes "jansson_more J" "exportable J t"
  shows "\<exists>tag t'. neu_json_decode_tag_json J (Some (snd (neu_json_encode_tag J (json_of_tag t) (json_object_new J))))
      = Some (Some tag) \<and> tag_of_json tag = Some t' \<and>
    t' = t\<lparr>option8 := zero_option, meta := replicate NEU_TAG_META_LENGTH 0, static_ptr := static_ptr t'\<rparr> \<and>
    neu_tag_get_static_value_json t' ty w = neu_tag_get_static_value_json t ty w"
proof -
  obtain jt jv t' x where tag:
    "neu_json_decode_tag_json J (Some (snd (neu_json_encode_tag J (json_of_tag t) (json_object_new J))))
      = Some (Some (json_tag t jt jv))"
    and set: "neu_tag_attribute_test t NEU_ATTRIBUTE_STATIC \<longrightarrow>
         neu_tag_set_static_value_json (blank_tag t) jt jv = Some (0, t')"
      "\<not> neu_tag_attribute_test t NEU_ATTRIBUTE_STATIC \<longrightarrow> t' = blank_tag t"
    and x: "t' = (blank_tag t)\<lparr>static_ptr := x\<rparr>"
    and get: "neu_tag_get_static_value_json t' ty w = neu_tag_get_static_value_json t ty w"
    using exported_tag [OF assms] by blast
  from set have "tag_of_json (json_tag t jt jv) = Some t'"
    by (cases "neu_tag_attribute_test t NEU_ATTRIBUTE_STATIC")
       (simp_all add: tag_of_json_def json_tag_def type_of_number_code static_bit_wide static_test_iff blank_tag_def)
  moreover have "t' = t\<lparr>option8 := zero_option, meta := replicate NEU_TAG_META_LENGTH 0, static_ptr := static_ptr t'\<rparr>"
    unfolding x blank_tag_other by simp
  ultimately show ?thesis using tag get by blast
qed

lemma exported_tag_imports_witness:
  "\<exists>tag t'. neu_json_decode_tag_json jt_jansson
      (Some (snd (neu_json_encode_tag jt_jansson (json_of_tag demo_static_tag) (json_object_new jt_jansson))))
      = Some (Some tag) \<and> tag_of_json tag = Some t' \<and>
    t' = demo_static_tag\<lparr>option8 := zero_option, meta := replicate NEU_TAG_META_LENGTH 0,
      static_ptr := static_ptr t'\<rparr> \<and>
    neu_tag_get_static_value_json t' NEU_JSON_UNDEFINE (zero_json_value :: jtree neu_json_value_u)
      = neu_tag_get_static_value_json demo_static_tag NEU_JSON_UNDEFINE zero_json_value"
proof (rule exported_tag_imports [OF jansson_more_jt])
  have "value_wf (put_word (7 :: u16) zero_value)"
    by (simp add: value_wf_def put_word_def vput_def zero_value_def sizeof_neu_value_u_def NEU_VALUE_SIZE_def)
  then show "exportable jt_jansson demo_static_tag"
    by (simp add: exportable_def demo_static_tag_def demo_tag_def jt_jansson_def static_value_json_def
        neu_tag_attribute_test_def NEU_ATTRIBUTE_STATIC_def)
qed

section \<open>Writing\<close>

lemma decode_write_elems_fails:
  assumes "i \<in> set is" "json_object_get J json_obj ''tags'' = Some arr" "json_array_get J arr i = Some el"
    and "json_object_get J el ''tag'' = None"
  shows "decode_write_elems J json_obj is = None"
  using assms
  by (induction "is")
     (auto simp: neu_json_decode_array_by_json_def decode_missing split: option.split)

text \<open>
  A request to write several tags of which one element lacks its \<open>tag\<close> stops the program: the loop
  that should free the elements before it reads in front of the array.  Node, group and the array are
  there; what the other elements are does not matter, and with the test of tokens off nobody need be
  logged in.
\<close>

theorem incomplete_write_crashes:
  assumes "re_disable_jwt E" "neu_http_get_body req = Some buf" "json_loads (re_json E) buf True = Some root"
    and "json_object_get (re_json E) root ''node'' = Some n" "json_object_get (re_json E) root ''group'' = Some g"
    and "json_object_get (re_json E) root ''tags'' = Some arr" "json_is_array (re_json E) arr"
    and "i < json_array_size (re_json E) arr" "json_array_get (re_json E) arr i = Some el"
    and "json_object_get (re_json E) el ''tag'' = None"
  shows "handle_write_tags E req st = None"
proof -
  let ?J = "re_json E"
  have size: "neu_json_decode_array_size_by_json ?J root ''tags'' = int (json_array_size ?J arr)"
    using assms(6,7) by (simp add: neu_json_decode_array_size_by_json_def)
  have "decode_write_elems ?J root [0..<json_array_size ?J arr] = None"
    using assms(8) by (intro decode_write_elems_fails [OF _ assms(6,9,10)]) simp
  then have "decode_write_tags_req_json ?J root = None"
    using assms(4-6,8) size decode_object_at [OF assms(6)]
    by (auto simp: decode_write_tags_req_json_def neu_json_decode_by_json_def Let_def
        decode_object_def [of ?J root "want ''node'' _"] decode_object_def [of ?J root "want ''group'' _"]
        split: option.splits)
  with assms(1-3) show ?thesis
    by (simp add: handle_write_tags_def NEU_PROCESS_HTTP_REQUEST_VALIDATE_JWT_def NEU_VALIDATE_JWT_def
        NEU_PROCESS_HTTP_REQUEST_def neu_json_decode_write_tags_req_def neu_json_decode_write_tags_req_json_def
        neu_json_decode_new_def)
qed

definition demo_write :: jtree where
  "demo_write = JTObject [(''node'', JTString ''plc''), (''group'', JTString ''g''),
     (''tags'', JTArray [JTObject [(''value'', JTInt 1)]])]"

lemma incomplete_write_crashes_witness:
  "handle_write_tags (demo_env\<lparr>re_json := jt_jansson\<lparr>json_loads := (\<lambda>_ _. Some demo_write)\<rparr>, re_disable_jwt := True\<rparr>)
     (demo_req ''x'') jwt_start = None"
  by (rule incomplete_write_crashes [where buf = "''x''" and root = demo_write and i = 0
        and n = "JTString ''plc''" and g = "JTString ''g''"
        and arr = "JTArray [JTObject [(''value'', JTInt 1)]]" and el = "JTObject [(''value'', JTInt 1)]"])
     (simp_all add: demo_write_def demo_req_def neu_http_get_body_def jt_jansson_def jt_get_def jt_nth_def jt_elems_def)

end
