(* ===== verification/ManagerLoopLaws.thy ===== *)
theory ManagerLoopLaws
  imports ManagerLoop ManagerProps TagRestLaws
begin

text \<open>What the loop of the manager keeps, answers and refuses.\<close>

section \<open>The tables\<close>

lemma get_state_some:
  assumes "nodes_ok h mgr"
  shows "neu_node_manager_get_state h mgr \<noteq> None"
proof -
  have "\<forall>e\<in>set (shown mgr). ne_adapter e < length h \<and> node_state e (h ! ne_adapter e) \<noteq> None"
    using shown_subset [of mgr] nodes_ok_entity [OF assms]
    by (fastforce simp: node_state_def names_fit_def)
  then show ?thesis
    unfolding neu_node_manager_get_state_def
    by (subst collect_ok [where g = "\<lambda>e ad. the (node_state e ad)"]) auto
qed

lemma nodes_ok_update:
  assumes "nodes_ok h mgr" "neu_node_manager_update mgr name pipe = (r, mgr')"
  shows "nodes_ok h mgr'"
proof (cases "hash_find mgr name")
  case None
  with assms show ?thesis by (simp add: neu_node_manager_update_def)
next
  case (Some e)
  let ?t = "hash_set mgr name (e\<lparr>ne_pipe := pipe\<rparr>)"
  have wf: "hash_wf ?t" using assms(1) by (simp add: nodes_ok_def)
  have "ne_adapter x < length h \<and> ad_name (h ! ne_adapter x) = n \<and> names_fit (h ! ne_adapter x)"
    if "(n, x) \<in> set ?t" for n x
  proof -
    have find: "hash_find ?t n = Some x" by (rule hash_wf_find [OF wf that])
    obtain y where "(n, y) \<in> set mgr" "ne_adapter y = ne_adapter x"
    proof (cases "n = name")
      case True
      with find Some hash_find_set [OF hash_find_Some_key [OF Some]] hash_find_in_set [OF Some] that
      show ?thesis by (auto intro: that)
    next
      case False
      with find hash_find_set [OF hash_find_Some_key [OF Some]] have "hash_find mgr n = Some x" by simp
      then show ?thesis by (intro that [of x] hash_find_in_set) simp_all
    qed
    with assms(1) show ?thesis by (auto simp: nodes_ok_def)
  qed
  with Some assms wf show ?thesis by (auto simp: neu_node_manager_update_def nodes_ok_def)
qed

lemma stop_frame:
  "ad_name (snd (neu_adapter_stop ad)) = ad_name ad"
  "ad_module (snd (neu_adapter_stop ad)) = ad_module ad"
  by (auto simp: neu_adapter_stop_def Let_def adapter_storage_state_def
      split: neu_node_running_state_e.split prod.split)

lemma bind_node_ok:
  assumes "manager_ok mg" "bind_node mg node state pipe = Some mg'"
  shows "manager_ok mg'"
proof -
  obtain r nodes where u: "neu_node_manager_update (mg_nodes mg) node pipe = (r, nodes)" by fastforce
  with nodes_ok_update [OF _ u, of "mg_heap mg"] assms(1) have n: "nodes_ok (mg_heap mg) nodes"
    by (simp add: manager_ok_def)
  have upd: "nodes_ok ((mg_heap mg)[i := snd (if c then neu_adapter_start (mg_heap mg ! i)
      else neu_adapter_stop (mg_heap mg ! i))]) nodes" for i c
    by (rule nodes_ok_heap [OF n]) (simp_all add: start_frame stop_frame)
  show ?thesis
    using assms u n upd [of _ "state = NEU_NODE_RUNNING_STATE_RUNNING"]
    by (auto simp: bind_node_def Let_def manager_ok_def update_adapter_def bind_eq_Some_conv heap_at_Some
        split: if_splits)
qed

lemma out_manager [simp]:
  "lo_manager (quiet mg) = mg" "lo_sent (quiet mg) = []" "lo_stored (quiet mg) = []"
  "lo_manager (manager_reply mg h b) = mg" "lo_manager (forward_msg mg m n) = mg"
  "length (lo_sent (manager_reply mg h b)) = 1" "length (lo_sent (forward_msg mg m n)) = 1"
  by (simp_all add: quiet_def manager_reply_def forward_msg_def)

text \<open>
  Every request the loop of the manager handles keeps the invariant of the manager: names in the
  table of nodes stay distinct and lead to adapters of that name, and the table of plugins stays
  well-formed.
\<close>

theorem loop_keeps_tables:
  assumes "manager_ok mg" "world_ok w" "manager_loop w closed_or_hup recv mg = Some out"
  shows "manager_ok (lo_manager out)"
  using assms
  by (auto simp: manager_loop_def manager_handle_def Let_def bind_eq_Some_conv
      dest: bind_node_ok add_node_ok split: if_splits option.splits prod.splits reqresp_data.splits)

lemma loop_keeps_tables_witness:
  "\<exists>out. manager_loop (demo_world NEU_NA_TYPE_ESVAPP) True None new_manager = Some out \<and>
    manager_ok (lo_manager out)"
  using loop_keeps_tables [OF new_manager_ok demo_world_ok(1) [of NEU_NA_TYPE_ESVAPP], of True None "quiet new_manager"]
  by (auto simp: manager_loop_def)

section \<open>Answers\<close>

definition answered_types :: "neu_reqresp_type list" where
  "answered_types =
     [NEU_REQ_GET_PLUGIN, NEU_REQ_ADD_NODE, NEU_REQ_GET_NODE, NEU_REQ_GET_NODES_STATE,
      NEU_REQ_NODE_SETTING, NEU_RESP_GET_NODE_SETTING, NEU_RESP_ERROR]"

definition forwarded_types :: "neu_reqresp_type list" where
  "forwarded_types = [NEU_REQ_GET_NODE_SETTING, NEU_REQ_NODE_CTL, NEU_REQ_NODE_CTL_EVENT]"

definition handled_types :: "neu_reqresp_type list" where
  "handled_types = NEU_REQ_NODE_INIT # answered_types @ forwarded_types"

lemma not_handled:
  "rh_type h \<notin> set handled_types \<Longrightarrow> manager_loop w False (Some (pipe, (h, d))) mg = None"
  by (simp add: manager_loop_def manager_handle_def handled_types_def answered_types_def forwarded_types_def
      Let_def)

lemma handled_some:
  assumes "manager_ok mg" "data_fits (rh_type h) d" "rh_type h \<notin> {NEU_REQ_GET_PLUGIN, NEU_REQ_ADD_NODE}"
    and "rh_type h \<in> set handled_types"
  shows "manager_loop w False (Some (pipe, (h, d))) mg \<noteq> None"
proof -
  have nodes: "nodes_ok (mg_heap mg) (mg_nodes mg)" using assms(1) by (simp add: manager_ok_def)
  have bind: "bind_node mg node state pipe \<noteq> None" for node state
  proof -
    obtain r ns where u: "neu_node_manager_update (mg_nodes mg) node pipe = (r, ns)" by fastforce
    show ?thesis
    proof (cases "hash_find (mg_nodes mg) node")
      case None
      then show ?thesis by (simp add: bind_node_def neu_node_manager_update_def Let_def del: hash_find_None)
    next
      case (Some e)
      with nodes have "ne_adapter e < length (mg_heap mg)"
        by (auto simp: nodes_ok_def dest!: hash_find_in_set)
      with Some show ?thesis
        by (auto simp: bind_node_def neu_node_manager_update_def neu_node_manager_find_def Let_def heap_at_def
            hash_find_set [OF hash_find_Some_key [OF Some]])
    qed
  qed
  have "neu_manager_get_nodes mg ty plugin node \<noteq> None" for ty plugin node
    using filter_ok [OF nodes] by (simp add: neu_manager_get_nodes_def)
  with get_state_some [OF nodes] bind assms(2-) show ?thesis
    by (cases d) (auto simp: manager_loop_def manager_handle_def handled_types_def answered_types_def
        forwarded_types_def other_types_def Let_def)
qed

text \<open>How many messages an accepted request leads to.\<close>

definition messages_due :: "'p neu_manager \<Rightarrow> neu_reqresp_head_t \<Rightarrow> nat" where
  "messages_due mg h =
     (if rh_type h = NEU_REQ_NODE_INIT then 0
      else if rh_type h \<in> set forwarded_types \<and> \<not> node_known mg (rh_receiver h) then 0 else 1)"

text \<open>
  The loop of the manager stops the program by an assertion exactly for the types it has no case
  for, which are most requests of the program.  For the others it sends one message, to the connection
  of its receiver, with two exceptions: the binding of a node is not answered, and a request for the
  setting or the control of an unknown node is dropped without the error that a change of the setting
  gets.  The two requests that look at plugins are left out.
\<close>

theorem loop_answers:
  assumes "manager_ok mg" "data_fits (rh_type h) d" "rh_type h \<notin> {NEU_REQ_GET_PLUGIN, NEU_REQ_ADD_NODE}"
  shows "(manager_loop w False (Some (pipe, (h, d))) mg = None) = (rh_type h \<notin> set handled_types) \<and>
    (case manager_loop w False (Some (pipe, (h, d))) mg of
       None \<Rightarrow> True
     | Some out \<Rightarrow> length (lo_sent out) = messages_due mg h \<and>
         list_all (\<lambda>(p, h', b). p = neu_node_manager_get_pipe (mg_nodes mg) (rh_receiver h')) (lo_sent out))"
proof (cases "rh_type h \<in> set handled_types")
  case False
  then show ?thesis by (simp add: not_handled)
next
  case True
  obtain out where out: "manager_loop w False (Some (pipe, (h, d))) mg = Some out"
    using handled_some [OF assms True] by blast
  have "length (lo_sent out) = messages_due mg h \<and>
      list_all (\<lambda>(p, h', b). p = neu_node_manager_get_pipe (mg_nodes mg) (rh_receiver h')) (lo_sent out)"
    using out True assms(3)
    by (auto simp: manager_loop_def manager_handle_def messages_due_def handled_types_def answered_types_def
        forwarded_types_def Let_def manager_reply_def forward_msg_def quiet_def
        split: if_splits option.splits reqresp_data.splits)
  with out True show ?thesis by simp
qed

definition demo_head :: "neu_reqresp_type \<Rightarrow> neu_reqresp_head_t" where
  "demo_head t = \<lparr>rh_type = t, rh_ctx = 1, rh_sender = ''api'', rh_receiver = ''plc''\<rparr>"

lemma loop_answers_witness:
  "\<forall>w :: 'p world.
    (\<exists>out. manager_loop w False (Some (5, (demo_head NEU_REQ_NODE_SETTING, D_node_setting ''plc'' ''{}'')))
       new_manager = Some out \<and> length (lo_sent out) = 1) \<and>
    (\<exists>out. manager_loop w False (Some (5, (demo_head NEU_REQ_NODE_CTL, D_node_ctl ''plc'' NEU_ADAPTER_CTL_START)))
       new_manager = Some out \<and> lo_sent out = []) \<and>
    manager_loop w False (Some (5, (demo_head NEU_REQ_DEL_NODE, D_node ''plc''))) new_manager = None"
proof (intro allI conjI)
  fix w :: "'p world"
  note defs = demo_head_def handled_types_def answered_types_def forwarded_types_def messages_due_def
    node_known_def new_manager_def neu_node_manager_create_def neu_node_manager_find_def hash_find_def
  show "\<exists>out. manager_loop w False (Some (5, (demo_head NEU_REQ_NODE_SETTING, D_node_setting ''plc'' ''{}'')))
      new_manager = Some out \<and> length (lo_sent out) = 1"
    using loop_answers [OF new_manager_ok, of "demo_head NEU_REQ_NODE_SETTING" "D_node_setting ''plc'' ''{}''" w 5]
    by (auto simp: defs split: option.splits)
  show "\<exists>out. manager_loop w False (Some (5, (demo_head NEU_REQ_NODE_CTL, D_node_ctl ''plc'' NEU_ADAPTER_CTL_START)))
      new_manager = Some out \<and> lo_sent out = []"
    using loop_answers [OF new_manager_ok, of "demo_head NEU_REQ_NODE_CTL" "D_node_ctl ''plc'' NEU_ADAPTER_CTL_START" w 5]
    by (auto simp: defs split: option.splits)
  show "manager_loop w False (Some (5, (demo_head NEU_REQ_DEL_NODE, D_node ''plc''))) new_manager = None"
    using loop_answers [OF new_manager_ok, of "demo_head NEU_REQ_DEL_NODE" "D_node ''plc''" w 5]
    by (auto simp: defs split: option.splits)
qed

section \<open>Binding a node\<close>

text \<open>
  Once a node has reported over a connection (\<open>NEU_REQ_NODE_INIT\<close>), a change of its setting is
  forwarded over that connection, unchanged, while the connections of the other nodes stay as they
  were; a report for an unknown name changes nothing.
\<close>

theorem bound_node_reached:
  assumes "manager_loop w False (Some (pipe, (h, D_node_state node state))) mg = Some out"
    and "rh_type h = NEU_REQ_NODE_INIT" "rh_type h' = NEU_REQ_NODE_SETTING" "rh_receiver h' = node"
  shows "(if node_known mg node
      then manager_loop w False (Some (pipe', (h', D_node_setting n s))) (lo_manager out)
        = Some ((quiet (lo_manager out))\<lparr>lo_sent := [(pipe, h', MB_message (D_node_setting n s))]\<rparr>)
      else lo_manager out = mg) \<and>
    (\<forall>other. other \<noteq> node \<longrightarrow>
       neu_node_manager_get_pipe (mg_nodes (lo_manager out)) other = neu_node_manager_get_pipe (mg_nodes mg) other)"
proof -
  have mg': "bind_node mg node state pipe = Some (lo_manager out)"
    using assms(1,2) by (auto simp: manager_loop_def manager_handle_def Let_def)
  show ?thesis
  proof (cases "hash_find (mg_nodes mg) node")
    case None
    then have "lo_manager out = mg"
      using mg' by (simp add: bind_node_def neu_node_manager_update_def Let_def del: hash_find_None)
    with None show ?thesis by (simp add: node_known_def neu_node_manager_find_def del: hash_find_None)
  next
    case (Some e)
    have nodes: "mg_nodes (lo_manager out) = hash_set (mg_nodes mg) node (e\<lparr>ne_pipe := pipe\<rparr>)"
      using mg' Some
      by (auto simp: bind_node_def neu_node_manager_update_def Let_def bind_eq_Some_conv update_adapter_def
          split: if_splits dest!: arg_cong [where f = mg_nodes])
    have find: "hash_find (mg_nodes (lo_manager out)) = (hash_find (mg_nodes mg))(node \<mapsto> e\<lparr>ne_pipe := pipe\<rparr>)"
      unfolding nodes by (rule hash_find_set [OF hash_find_Some_key [OF Some]])
    have "node_known (lo_manager out) node" "node_known mg node"
      using find Some by (simp_all add: node_known_def neu_node_manager_find_def)
    with find assms(3,4) show ?thesis
      by (simp add: manager_loop_def manager_handle_def Let_def forward_msg_def neu_node_manager_get_pipe_def)
  qed
qed

definition demo_bound :: "'p neu_manager" where
  "demo_bound = new_manager\<lparr>mg_nodes := [(''plc'', \<lparr>ne_adapter = 0, ne_is_static = False, ne_display = True,
     ne_single = False, ne_pipe = 0\<rparr>)]\<rparr>"

lemma bound_node_reached_witness:
  fixes w :: "'p world"
  shows "\<exists>out. manager_loop w False (Some (7, (demo_head NEU_REQ_NODE_INIT,
       D_node_state ''plc'' NEU_NODE_RUNNING_STATE_READY))) demo_bound = Some out \<and>
    manager_loop w False (Some (5, (demo_head NEU_REQ_NODE_SETTING, D_node_setting ''plc'' ''{}''))) (lo_manager out)
      = Some ((quiet (lo_manager out))\<lparr>lo_sent :=
          [(7, demo_head NEU_REQ_NODE_SETTING, MB_message (D_node_setting ''plc'' ''{}''))]\<rparr>)"
proof -
  have "node_known (demo_bound :: 'p neu_manager) ''plc''"
    by (simp add: node_known_def demo_bound_def neu_node_manager_find_def hash_find_def)
  moreover obtain out where out: "manager_loop w False (Some (7, (demo_head NEU_REQ_NODE_INIT,
      D_node_state ''plc'' NEU_NODE_RUNNING_STATE_READY))) demo_bound = Some out"
    by (simp add: manager_loop_def manager_handle_def demo_head_def bind_node_def demo_bound_def
        neu_node_manager_update_def hash_find_def Let_def)
  ultimately show ?thesis
    using bound_node_reached [OF out, of "demo_head NEU_REQ_NODE_SETTING" 5 "''plc''" "''{}''"]
    by (auto simp: demo_head_def)
qed

section \<open>Requests from outside\<close>

lemma rest_command_out:
  assumes "rest_command E req type cmd st = Some out" "(h, d) \<in> set (ro_commands out)"
  shows "rh_type h = type \<and> d = cmd"
  using assms by (auto simp: rest_command_def Let_def responds_def split: if_splits)

lemma responds_out [simp]: "ro_commands (responds st rs) = []"
  by (simp add: responds_def)

lemma rest_error_out: "rest_error E code st = Some out \<Longrightarrow> ro_commands out = []"
  by (auto simp: rest_error_def)

lemma validate_out:
  assumes "NEU_VALIDATE_JWT E req st k = Some out" "(h, d) \<in> set (ro_commands out)"
  obtains st' where "k st' = Some out"
  using assms by (auto simp: NEU_VALIDATE_JWT_def split: if_splits option.splits)

lemma process_out:
  assumes "NEU_PROCESS_HTTP_REQUEST_VALIDATE_JWT E req decode st k = Some out" "(h, d) \<in> set (ro_commands out)"
  obtains st' r where "k st' r = Some out"
  using assms
  by (auto simp: NEU_PROCESS_HTTP_REQUEST_VALIDATE_JWT_def NEU_PROCESS_HTTP_REQUEST_def
      elim!: validate_out split: option.splits)

lemma tag_handler_types:
  assumes "(h, d) \<in> set (ro_commands out)"
  shows "handle_add_tags E req st = Some out \<Longrightarrow> rh_type h = NEU_REQ_ADD_TAG"
    "handle_update_tags E req st = Some out \<Longrightarrow> rh_type h = NEU_REQ_UPDATE_TAG"
    "handle_del_tags E req st = Some out \<Longrightarrow> rh_type h = NEU_REQ_DEL_TAG"
    "handle_get_tags E req st = Some out \<Longrightarrow> rh_type h = NEU_REQ_GET_TAG"
    "handle_read E req st = Some out \<Longrightarrow> rh_type h = NEU_REQ_READ_GROUP"
    "handle_write E req st = Some out \<Longrightarrow> rh_type h = NEU_REQ_WRITE_TAG"
    "handle_write_tags E req st = Some out \<Longrightarrow> rh_type h = NEU_REQ_WRITE_TAGS"
  using assms
  by (auto simp: handle_add_tags_def handle_update_tags_def handle_del_tags_def handle_get_tags_def handle_read_def
      handle_write_def handle_write_tags_def tags_command_def bind_eq_Some_conv
      elim!: process_out validate_out split: if_splits
      dest!: rest_error_out rest_command_out [OF _ assms])

text \<open>
  The requests about tags and values that the REST plugin sends (adding, changing, removing and
  listing tags, reading and writing) are of types the loop of the manager has no case for: if the
  loop received one it would stop the program, whoever it is from and for.
\<close>

theorem tag_requests_stop_manager:
  assumes "(h, d) \<in> set (ro_commands out)"
    and "handle_add_tags E req st = Some out \<or> handle_update_tags E req st = Some out \<or>
      handle_del_tags E req st = Some out \<or> handle_get_tags E req st = Some out \<or>
      handle_read E req st = Some out \<or> handle_write E req st = Some out \<or>
      handle_write_tags E req st = Some out"
  shows "manager_loop w False (Some (pipe, (h\<lparr>rh_sender := from, rh_receiver := to\<rparr>, d))) mg = None"
proof (rule not_handled)
  have "rh_type h \<in> {NEU_REQ_ADD_TAG, NEU_REQ_UPDATE_TAG, NEU_REQ_DEL_TAG, NEU_REQ_GET_TAG,
      NEU_REQ_READ_GROUP, NEU_REQ_WRITE_TAG, NEU_REQ_WRITE_TAGS}"
    using assms(2) tag_handler_types [OF assms(1), of E req st] by auto
  then show "rh_type (h\<lparr>rh_sender := from, rh_receiver := to\<rparr>) \<notin> set handled_types"
    by (auto simp: handled_types_def answered_types_def forwarded_types_def)
qed

lemma tag_requests_stop_manager_witness:
  "\<exists>h d out. handle_read (demo_env\<lparr>re_json := jt_jansson\<lparr>json_loads := (\<lambda>_ _. Some demo_write)\<rparr>,
      re_disable_jwt := True\<rparr>) (demo_req ''x'') jwt_start = Some out \<and> (h, d) \<in> set (ro_commands out) \<and>
    manager_loop (demo_world NEU_NA_TYPE_ESVAPP) False
      (Some (5, (h\<lparr>rh_sender := ''api'', rh_receiver := ''plc''\<rparr>, d))) new_manager = None"
proof -
  let ?E = "demo_env\<lparr>re_json := jt_jansson\<lparr>json_loads := (\<lambda>_ _. Some demo_write)\<rparr>, re_disable_jwt := True\<rparr>"
  have "neu_json_decode_read_req (re_json ?E) ''x'' = Some (Some \<lparr>rq_group = Some ''g'', rq_node = Some ''plc''\<rparr>)"
    by (simp add: neu_json_decode_read_req_def neu_json_decode_by_json_def neu_json_decode_new_def demo_write_def
        decode_object_def jt_jansson_def jt_get_def)
  then obtain h d out where "handle_read ?E (demo_req ''x'') jwt_start = Some out" "(h, d) \<in> set (ro_commands out)"
    by (auto simp: handle_read_def NEU_PROCESS_HTTP_REQUEST_VALIDATE_JWT_def NEU_VALIDATE_JWT_def
        NEU_PROCESS_HTTP_REQUEST_def neu_http_get_body_def demo_req_def strcpy_def NEU_NODE_NAME_LEN_def
        NEU_GROUP_NAME_LEN_def rest_command_def demo_env_def)
  then show ?thesis by (blast intro: tag_requests_stop_manager)
qed

end
