(* ===== verification/DashboardLaws.thy ===== *)
theory DashboardLaws
  imports Dashboard ConfigLaws RestLaws ManagerLoopLaws "HOL-Library.Multiset"
begin

text \<open>The REST plugin as a whole: every request gets one answer, and what the core makes of its commands.\<close>

section \<open>One answer at the start\<close>

text \<open>A conversation goes on exactly when a command has been sent.\<close>

definition begun_once :: "http_req \<Rightarrow> rest_out \<times> 'j conversation option \<Rightarrow> bool" where
  "begun_once req r \<longleftrightarrow> handled_once req (fst r) \<and> (snd r \<noteq> None \<longrightarrow> ro_commands (fst r) \<noteq> [])"

lemma plain_once: "plain r = Some (out, c) \<Longrightarrow> (\<And>o'. r = Some o' \<Longrightarrow> handled_once req o') \<Longrightarrow> begun_once req (out, c)"
  by (auto simp: plain_def begun_once_def)

lemma plugin_handlers_once:
  "handle_add_plugin E req st = Some out \<Longrightarrow> handled_once req out"
  "handle_del_plugin E req st = Some out \<Longrightarrow> handled_once req out"
  "handle_get_plugin E req st = Some out \<Longrightarrow> handled_once req out"
  "handle_get_version E req st = Some out \<Longrightarrow> handled_once req out"
  "handle_file_info F E req st = Some out \<Longrightarrow> handled_once req out"
  unfolding handle_add_plugin_def handle_del_plugin_def handle_get_plugin_def handle_get_version_def
    handle_file_info_def
  by (erule process_once validate_once; auto simp: once split: if_splits option.splits)+

lemma validated_pair_once:
  assumes "validated_pair E req st k = Some (out, c)" "\<And>st'. k st' = Some (out, c) \<Longrightarrow> handled_once req out"
  shows "handled_once req out"
  using assms by (auto simp: validated_pair_def split: if_splits option.splits)

lemma file_handlers_once:
  "handle_logs_files ex F E req st = Some (out, c) \<Longrightarrow> handled_once req out"
  "handle_download_file F E req st = Some (out, c) \<Longrightarrow> handled_once req out"
  unfolding handle_logs_files_def handle_download_file_def
  by (erule validated_pair_once; auto simp: once no_file_def neu_http_response_file_def split: if_splits option.splits sum.splits)+

section \<open>Conversations speak for their request\<close>

definition for_request :: "nat \<Rightarrow> nat \<Rightarrow> neu_msg \<Rightarrow> bool" where
  "for_request aio aio' cmd \<longleftrightarrow> aio' = aio \<and> rh_ctx (fst cmd) = aio \<and> data_fits (rh_type (fst cmd)) (snd cmd)"

lemma config_send_for:
  "config_send E aio type cmd ctx = Some (Waiting c' cmd') \<Longrightarrow> data_fits type cmd \<Longrightarrow> for_request aio aio cmd'"
  by (auto simp: config_send_def for_request_def Let_def split: if_splits)

lemma act_for:
  "add_setting E c x1 = Some (Waiting c' cmd) \<Longrightarrow> for_request (px_aio c) (px_aio c') cmd"
  "add_subscription E c x2 = Some (Waiting c' cmd) \<Longrightarrow> for_request (px_aio c) (px_aio c') cmd"
  "add_tag E c x3 = Some (Waiting c' cmd) \<Longrightarrow> for_request (px_aio c) (px_aio c') cmd"
  "add_group E c x4 = Some (Waiting c' cmd) \<Longrightarrow> for_request (px_aio c) (px_aio c') cmd"
  "add_node E c x5 = Some (Waiting c' cmd) \<Longrightarrow> for_request (px_aio c) (px_aio c') cmd"
  "del_node E c x6 = Some (Waiting c' cmd) \<Longrightarrow> for_request (px_aio c) (px_aio c') cmd"
  by (frule acts_waiting; auto simp: add_setting_def add_subscription_def add_tag_def add_group_def add_node_def
      del_node_def bind_eq_Some_conv dest: config_send_for)+

lemma get_nodes_for: "get_nodes E aio ty c = Some (Waiting c' cmd) \<Longrightarrow> c' = c \<and> for_request aio aio cmd"
  by (auto simp: get_nodes_def dest: config_send_for config_send_waiting)

lemma at_list_for:
  assumes "at_list E err skip xs act fall ctx data = Some (Waiting c' cmd)"
    and "\<And>c x. act c x = Some (Waiting c' cmd) \<Longrightarrow> for_request (px_aio c) (px_aio c') cmd"
    and "\<And>i. fall (ctx\<lparr>px_idx := i\<rparr>) = Some (Waiting c' cmd) \<Longrightarrow> for_request (px_aio ctx) (px_aio c') cmd"
  shows "for_request (px_aio ctx) (px_aio c') cmd"
  using assms(1) assms(2) [of "ctx\<lparr>px_idx := _\<rparr>"] assms(3)
  by (fastforce simp: at_list_def bind_eq_Some_conv Let_def split: if_splits)

lemma px_aio_enter [simp]: "px_aio (enter s c) = px_aio c"
  by (simp add: enter_def)

lemma put_state_for:
  "at_add_setting E c d = Some (Waiting c' cmd) \<Longrightarrow> for_request (px_aio c) (px_aio c') cmd"
  "at_add_subscription E c d = Some (Waiting c' cmd) \<Longrightarrow> for_request (px_aio c) (px_aio c') cmd"
  "at_add_tag E c d = Some (Waiting c' cmd) \<Longrightarrow> for_request (px_aio c) (px_aio c') cmd"
  "at_add_group E c d = Some (Waiting c' cmd) \<Longrightarrow> for_request (px_aio c) (px_aio c') cmd"
  "at_add_node E c d = Some (Waiting c' cmd) \<Longrightarrow> for_request (px_aio c) (px_aio c') cmd"
  "at_del E c d = Some (Waiting c' cmd) \<Longrightarrow> for_request (px_aio c) (px_aio c') cmd"
proof -
  show 1: "at_add_setting E c d = Some (Waiting c' cmd) \<Longrightarrow> for_request (px_aio c) (px_aio c') cmd" for c
    by (auto simp: at_add_setting_def bind_eq_Some_conv elim!: at_list_for act_for)
  show 2: "at_add_subscription E c d = Some (Waiting c' cmd) \<Longrightarrow> for_request (px_aio c) (px_aio c') cmd" for c
    by (auto simp: at_add_subscription_def bind_eq_Some_conv elim!: at_list_for act_for dest!: 1)
  show 3: "at_add_tag E c d = Some (Waiting c' cmd) \<Longrightarrow> for_request (px_aio c) (px_aio c') cmd" for c
    by (auto simp: at_add_tag_def bind_eq_Some_conv elim!: at_list_for act_for dest!: 2)
  show 4: "at_add_group E c d = Some (Waiting c' cmd) \<Longrightarrow> for_request (px_aio c) (px_aio c') cmd" for c
    by (auto simp: at_add_group_def bind_eq_Some_conv elim!: at_list_for act_for dest!: 3)
  show 5: "at_add_node E c d = Some (Waiting c' cmd) \<Longrightarrow> for_request (px_aio c) (px_aio c') cmd" for c
    by (auto simp: at_add_node_def bind_eq_Some_conv elim!: at_list_for act_for dest!: 4)
  show "at_del E c d = Some (Waiting c' cmd) \<Longrightarrow> for_request (px_aio c) (px_aio c') cmd"
    by (auto simp: at_del_def elim!: at_list_for act_for dest!: 5 split: if_splits)
      (auto dest!: get_nodes_for)
qed

lemma put_next_for:
  "put_context_next E c d = Some (Waiting c' cmd) \<Longrightarrow> for_request (px_aio c) (px_aio c') cmd"
  by (auto simp: put_context_next_def dest: put_state_for dest!: get_nodes_for
      split: context_state_e.splits option.splits config_data.splits)

lemma collect_aio: "collect_entry J ctx key entry names = Inr ctx' \<Longrightarrow> gx_aio ctx' = gx_aio ctx"
  by (auto dest!: collect_keeps)

lemma get_act_for:
  "get_setting E c info = Some (Waiting c' cmd) \<Longrightarrow> for_request (gx_aio c) (gx_aio c') cmd"
  "get_subscriptions E c info = Some (Waiting c' cmd) \<Longrightarrow> for_request (gx_aio c) (gx_aio c') cmd"
  "get_tags E c grp = Some (Waiting c' cmd) \<Longrightarrow> for_request (gx_aio c) (gx_aio c') cmd"
  "get_groups E c = Some (Waiting c' cmd) \<Longrightarrow> for_request (gx_aio c) (gx_aio c') cmd"
  by (frule get_acts_waiting; auto simp: get_setting_def get_subscriptions_def get_tags_def get_groups_def
      bind_eq_Some_conv split: prod.splits dest: config_send_for)+

lemma get_state_for:
  "at_driver_setting E c type d = Some (Waiting c' cmd) \<Longrightarrow> for_request (gx_aio c) (gx_aio c') cmd"
  "at_app_setting E c type d = Some (Waiting c' cmd) \<Longrightarrow> for_request (gx_aio c) (gx_aio c') cmd"
  "at_subscription E c type d = Some (Waiting c' cmd) \<Longrightarrow> for_request (gx_aio c) (gx_aio c') cmd"
  "at_tag E c type d = Some (Waiting c' cmd) \<Longrightarrow> for_request (gx_aio c) (gx_aio c') cmd"
proof -
  show 1: "at_driver_setting E c type d = Some (Waiting c' cmd) \<Longrightarrow> for_request (gx_aio c) (gx_aio c') cmd" for c d
    by (auto simp: at_driver_setting_def at_setting_def bind_eq_Some_conv get_setting_resp_def get_end_def
        elim!: NEXT_waiting dest!: collect_aio get_act_for split: if_splits option.splits)
  show 2: "at_app_setting E c type d = Some (Waiting c' cmd) \<Longrightarrow> for_request (gx_aio c) (gx_aio c') cmd" for c d
    by (auto simp: at_app_setting_def at_setting_def bind_eq_Some_conv get_setting_resp_def
        elim!: NEXT_waiting dest!: collect_aio get_act_for 1 split: if_splits option.splits)
  show 3: "at_subscription E c type d = Some (Waiting c' cmd) \<Longrightarrow> for_request (gx_aio c) (gx_aio c') cmd" for c d
    by (auto simp: at_subscription_def bind_eq_Some_conv get_subscriptions_resp_def
        elim!: NEXT_waiting dest!: collect_aio get_act_for 2 split: if_splits option.splits config_data.splits)
  show "at_tag E c type d = Some (Waiting c' cmd) \<Longrightarrow> for_request (gx_aio c) (gx_aio c') cmd"
    by (auto simp: at_tag_def bind_eq_Some_conv get_tags_resp_def
        elim!: NEXT_waiting dest!: collect_aio get_act_for 3 split: if_splits option.splits config_data.splits prod.splits)
qed

lemma get_resp_aio:
  "get_nodes_resp J c ns = Inr c' \<Longrightarrow> gx_aio c' = gx_aio c"
  "get_groups_resp J c gs = Inr c' \<Longrightarrow> gx_aio c' = gx_aio c"
  by (auto simp: get_nodes_resp_def get_groups_resp_def encoded_def split: prod.splits if_splits)

lemma get_next_for:
  "get_context_next E c type d = Some (Waiting c' cmd) \<Longrightarrow> for_request (gx_aio c) (gx_aio c') cmd"
  by (auto simp: get_context_next_def dest: get_act_for get_state_for dest!: get_nodes_for get_resp_aio
      elim!: NEXT_waiting split: context_state_e.splits option.splits config_data.splits)

section \<open>One answer in the end\<close>

fun conversation_aio :: "'j conversation \<Rightarrow> nat" where
  "conversation_aio (Get_conversation c) = gx_aio c"
| "conversation_aio (Put_conversation c) = px_aio c"

text \<open>A login that is accepted, but for which no token can be made, is answered twice.\<close>

definition login_without_token :: "('j, 'w) rest_env \<Rightarrow> http_req \<Rightarrow> jwt_state \<Rightarrow> bool" where
  "login_without_token E req st \<longleftrightarrow>
     (\<exists>buf r name pass user. neu_http_get_body req = Some buf \<and>
        neu_json_decode_login_req (re_json E) buf = Some (Some r) \<and> lr_name r = Some name \<and>
        lr_pass r = Some pass \<and> neu_load_user name = Some user \<and>
        NEU_USER_PASSWORD_MIN_LEN \<le> length pass \<and> length pass \<le> NEU_USER_PASSWORD_MAX_LEN \<and>
        neu_user_check_password user (Some pass)) \<and>
     neu_jwt_new (re_jwt E) (re_now E) st = None"

text \<open>
  A change of the level of a log that passes the checks is answered with an error for each of the
  two categories, that of the node and that of the program, whose level cannot be set, and is still
  handed over.
\<close>

definition level_failures ::
  "(string option \<Rightarrow> int) \<Rightarrow> ('j, 'w) rest_env \<Rightarrow> http_req \<Rightarrow> jwt_state \<Rightarrow> nat" where
  "level_failures switch E req st =
     (if re_disable_jwt E \<or>
         (\<exists>st'. neu_jwt_validate (re_jwt E) (re_files E) (re_now E) st (hr_authorization req) = Some (NEU_ERR_SUCCESS, st'))
      then case Option.bind (neu_http_get_body req) (neu_json_decode_update_log_level_req (re_json E)) of
             Some (Some r) \<Rightarrow> (if switch r = 0 then 0 else 1) + (if switch (Some ''neuron'') = 0 then 0 else 1)
           | _ \<Rightarrow> 0
      else 0)"

definition login_extra :: "('j, 'w) rest_env \<Rightarrow> http_req \<Rightarrow> jwt_state \<Rightarrow> nat" where
  "login_extra E req st = (if login_without_token E req st then 1 else 0)"

lemma login_count:
  assumes "handle_login E req st = Some out"
  shows "handled_plus (login_extra E req st) req out"
proof (cases "Option.bind (neu_http_get_body req) (neu_json_decode_login_req (re_json E))")
  case None
  with assms show ?thesis
    by (auto simp: handle_login_def NEU_PROCESS_HTTP_REQUEST_def login_extra_def login_without_token_def
        bind_eq_None_conv split: option.splits)
next
  case (Some x)
  then obtain buf where body: "neu_http_get_body req = Some buf" "neu_json_decode_login_req (re_json E) buf = Some x"
    by (auto simp: bind_eq_Some_conv)
  show ?thesis
  proof (cases x)
    case None
    with assms body show ?thesis
      by (auto simp: handle_login_def NEU_PROCESS_HTTP_REQUEST_def login_extra_def login_without_token_def)
  next
    fix r assume r: "x = Some r"
    with assms body obtain name pass where np: "lr_name r = Some name" "lr_pass r = Some pass"
      by (auto simp: handle_login_def NEU_PROCESS_HTTP_REQUEST_def bind_eq_Some_conv)
    note lwt = login_extra_def login_without_token_def
    show ?thesis
    proof (cases "neu_load_user name")
      case None
      with assms body r np show ?thesis
        by (auto simp: handle_login_def NEU_PROCESS_HTTP_REQUEST_def lwt)
    next
      case user: (Some user)
      show ?thesis
      proof (cases "NEU_USER_PASSWORD_MIN_LEN \<le> length pass \<and> length pass \<le> NEU_USER_PASSWORD_MAX_LEN \<and>
          neu_user_check_password user (Some pass)")
        case True
        then have len: "\<not> length pass < NEU_USER_PASSWORD_MIN_LEN" "\<not> NEU_USER_PASSWORD_MAX_LEN < length pass"
          by simp_all
        show ?thesis
        proof (cases "neu_jwt_new (re_jwt E) (re_now E) st")
          case None
          then have "login_extra E req st = 1" using body r np user True by (auto simp: lwt)
          with assms body r np user True len None show ?thesis
            by (auto simp: handle_login_def NEU_PROCESS_HTTP_REQUEST_def handled_plus_def responds_def)
        next
          case (Some token)
          with assms body r np user True len show ?thesis
            by (auto simp: handle_login_def NEU_PROCESS_HTTP_REQUEST_def lwt)
        qed
      next
        case False
        then have "login_extra E req st = 0" using body r np user by (auto simp: lwt)
        with assms body r np user False show ?thesis
          by (auto simp: handle_login_def NEU_PROCESS_HTTP_REQUEST_def split: if_splits)
      qed
    qed
  qed
qed

lemma log_level_count:
  assumes "handle_log_level switch E req st = Some out"
  shows "handled_plus (level_failures switch E req st) req out"
proof -
  let ?k = "\<lambda>st' r. do {
       let failed = (\<lambda>c. if switch c = 0 then Some [] else map_option (\<lambda>x. [x]) (http_error E NEU_ERR_EINTERNAL));
       e1 \<leftarrow> failed r;
       e2 \<leftarrow> failed (Some ''neuron'');
       node \<leftarrow> strcpy NEU_NODE_NAME_LEN r;
       out \<leftarrow> rest_command E req NEU_REQ_UPDATE_LOG_LEVEL (D_node node) st';
       Some (out\<lparr>ro_responses := e1 @ e2 @ ro_responses out\<rparr>)
     }"
  have k: "handled_plus ((if switch r = 0 then 0 else 1) + (if switch (Some ''neuron'') = 0 then 0 else 1)) req out"
    if k: "?k st' r = Some out" for st' r
  proof -
    from k obtain e1 e2 node o1 where
      e: "(if switch r = 0 then Some [] else map_option (\<lambda>x. [x]) (http_error E NEU_ERR_EINTERNAL)) = Some e1"
      "(if switch (Some ''neuron'') = 0 then Some [] else map_option (\<lambda>x. [x]) (http_error E NEU_ERR_EINTERNAL)) = Some e2"
      "rest_command E req NEU_REQ_UPDATE_LOG_LEVEL (D_node node) st' = Some o1"
      "out = o1\<lparr>ro_responses := e1 @ e2 @ ro_responses o1\<rparr>"
      by (auto simp: bind_eq_Some_conv Let_def)
    from e(3) have "handled_once req o1" by (rule command_once) simp
    moreover have "length e1 = (if switch r = 0 then 0 else 1)"
      "length e2 = (if switch (Some ''neuron'') = 0 then 0 else 1)"
      using e(1,2) by (auto split: if_splits)
    ultimately show ?thesis
      using handled_plus_add [of req o1 "length (e1 @ e2)" "e1 @ e2"] by (simp add: e(4))
  qed
  have process: "handled_plus (case Option.bind (neu_http_get_body req) (neu_json_decode_update_log_level_req (re_json E)) of
         Some (Some r) \<Rightarrow> (if switch r = 0 then 0 else 1) + (if switch (Some ''neuron'') = 0 then 0 else 1)
       | _ \<Rightarrow> 0) req out"
    if p: "NEU_PROCESS_HTTP_REQUEST req (neu_json_decode_update_log_level_req (re_json E)) st' (?k st') = Some out"
    for st'
  proof (cases "neu_http_get_body req")
    case None
    with p show ?thesis by (auto simp: NEU_PROCESS_HTTP_REQUEST_def)
  next
    case (Some buf)
    with p obtain x where x: "neu_json_decode_update_log_level_req (re_json E) buf = Some x"
      by (cases "neu_json_decode_update_log_level_req (re_json E) buf") (simp_all add: NEU_PROCESS_HTTP_REQUEST_def)
    show ?thesis
    proof (cases x)
      case None
      with p Some x show ?thesis by (auto simp: NEU_PROCESS_HTTP_REQUEST_def)
    next
      fix r assume "x = Some r"
      with p Some x have "?k st' r = Some out" by (simp add: NEU_PROCESS_HTTP_REQUEST_def)
      from k [OF this] Some x \<open>x = Some r\<close> show ?thesis by simp
    qed
  qed
  note d = handle_log_level_def NEU_PROCESS_HTTP_REQUEST_VALIDATE_JWT_def NEU_VALIDATE_JWT_def
  show ?thesis
  proof (cases "re_disable_jwt E")
    case True
    with assms have "NEU_PROCESS_HTTP_REQUEST req (neu_json_decode_update_log_level_req (re_json E)) st (?k st) = Some out"
      unfolding d by simp
    from process [OF this] True show ?thesis by (simp add: level_failures_def)
  next
    case False
    with assms obtain error st' where
      v: "neu_jwt_validate (re_jwt E) (re_files E) (re_now E) st (hr_authorization req) = Some (error, st')"
      unfolding d by (cases "neu_jwt_validate (re_jwt E) (re_files E) (re_now E) st (hr_authorization req)") auto
    show ?thesis
    proof (cases "error = NEU_ERR_SUCCESS")
      case True
      with assms False v have
        "NEU_PROCESS_HTTP_REQUEST req (neu_json_decode_update_log_level_req (re_json E)) st' (?k st') = Some out"
        unfolding d by simp
      from process [OF this] True False v show ?thesis by (simp add: level_failures_def)
    next
      case error: False
      with assms False v have "handled_once req out" unfolding d by auto
      with error False v show ?thesis by (simp add: level_failures_def)
    qed
  qed
qed

lemma cors_once: "handled_once req (neu_http_handle_cors st)" "handled_once req (handle_ping st)"
  by (auto simp: neu_http_handle_cors_def handle_ping_def)

lemma config_out_for:
  "config_out st (Waiting ctx cmd) = (out, c) \<Longrightarrow> for_request aio aio' cmd \<Longrightarrow> aio = hr_ctx req \<Longrightarrow> handled_once req out"
  by (cases cmd) (auto simp: handled_once_def for_request_def)

lemma put_config_begins:
  assumes "handle_put_global_config E req st = Some (out, c)"
  shows "handled_once req out" "c = Some ctx \<Longrightarrow> ro_commands out \<noteq> [] \<and> px_aio ctx = hr_ctx req"
  using assms
  by (auto simp: handle_put_global_config_def validated_pair_def handled_once_def for_request_def
      split: if_splits option.splits config_step.splits dest!: put_next_for) (auto simp: responds_def)

lemma validated_pair_cases:
  assumes "validated_pair E req st k = Some x"
  obtains st' where "k st' = Some x" | r st' where "x = (responds st' [r], None)"
  using assms by (auto simp: validated_pair_def split: if_splits option.splits)

lemma get_config_begins:
  assumes "handle_get_global_config E req st = Some (out, c)"
  shows "handled_once req out" "c = Some ctx \<Longrightarrow> ro_commands out \<noteq> [] \<and> gx_aio ctx = hr_ctx req"
proof -
  let ?ctx = "\<lparr>gx_aio = hr_ctx req, gx_state = STATE_START, gx_json = json_object_new (re_json E), gx_apps = [],
    gx_drivers = [], gx_groups = [], gx_iter = None\<rparr>"
  have "handled_once req out \<and> (\<forall>ctx. c = Some ctx \<longrightarrow> ro_commands out \<noteq> [] \<and> gx_aio ctx = hr_ctx req)"
    using assms unfolding handle_get_global_config_def
  proof (cases rule: validated_pair_cases)
    case (1 st')
    then obtain r where r: "get_context_next E ?ctx NEU_REQ_GET_NODE None = Some r" "config_out st' r = (out, c)" by auto
    then show ?thesis
    proof (cases r)
      case (Waiting c' cmd)
      with r get_next_for [of E ?ctx _ _ c' cmd] show ?thesis by (auto simp: handled_once_def for_request_def)
    qed auto
  qed auto
  then show "handled_once req out" "c = Some ctx \<Longrightarrow> ro_commands out \<noteq> [] \<and> gx_aio ctx = hr_ctx req" by auto
qed

definition extra_answers :: "('j, 'w) dashboard_env \<Rightarrow> endpoint \<Rightarrow> http_req \<Rightarrow> jwt_state \<Rightarrow> nat" where
  "extra_answers D e req st =
     (case e of H_login \<Rightarrow> login_extra (de_rest D) req st
      | H_log_level \<Rightarrow> level_failures (de_switch D) (de_rest D) req st | _ \<Rightarrow> 0)"

lemma serve_count:
  assumes "serve D e req st = Some (out, c)"
  shows "handled_plus (extra_answers D e req st) req out \<and>
    (\<forall>x. c = Some x \<longrightarrow> ro_commands out \<noteq> [] \<and> conversation_aio x = hr_ctx req)"
  using assms
  by (cases e)
     (auto simp: plain_def extra_answers_def cors_once intro: plugin_handlers_once file_handlers_once
        node_handlers_once user_handlers_once put_config_begins(1) get_config_begins(1) login_count log_level_count
        dest: put_config_begins(2) get_config_begins(2))

definition data_handlers ::
  "openssl \<Rightarrow> (string \<Rightarrow> string option) \<Rightarrow> string \<Rightarrow> bool \<Rightarrow> ('j, 'w) rest_env \<Rightarrow>
    (http_req \<Rightarrow> jwt_state \<Rightarrow> rest_out option) list" where
  "data_handlers L read dir erange E =
     [handle_add_tags E, handle_update_tags E, handle_del_tags E, handle_get_tags E, handle_read E,
      handle_write E, handle_write_tags E, handle_add_adapter E, handle_update_adapter E, handle_del_adapter E,
      handle_get_adapter erange E, handle_set_node_setting E, handle_get_node_setting E, handle_node_ctl E,
      handle_get_node_state E, handle_add_group_config E, handle_update_group E, handle_del_group_config E,
      handle_get_group_config E, handle_grp_subscribe E, handle_grp_update_subscribe E,
      handle_grp_unsubscribe E, handle_grp_subscribes E, handle_grp_get_subscribe E, handle_password L E,
      handle_get_plugin_schema read dir E, handle_add_template E, handle_del_template E, handle_get_template E,
      handle_add_template_group E, handle_update_template_group E, handle_del_template_group E,
      handle_get_template_group E, handle_add_template_tags E, handle_update_template_tags E,
      handle_del_template_tags E, handle_get_template_tags E, handle_instantiate_template E,
      handle_instantiate_templates E, handle_add_ndriver_map E, handle_del_ndriver_map E,
      handle_get_ndriver_maps E, handle_put_ndriver_tag_param E, handle_put_ndriver_tag_info E,
      handle_get_ndriver_tags E]"

definition system_handlers ::
  "bool \<Rightarrow> file_env \<Rightarrow> ('j, 'w) rest_env \<Rightarrow> (http_req \<Rightarrow> jwt_state \<Rightarrow> rest_out option) list" where
  "system_handlers ex F E =
     [handle_add_plugin E, handle_del_plugin E, handle_get_plugin E,
      handle_get_version E, handle_file_info F E,
      (\<lambda>req st. map_option fst (handle_logs_files ex F E req st)),
      (\<lambda>req st. map_option fst (handle_download_file F E req st)),
      (\<lambda>req st. map_option fst (handle_get_global_config E req st)),
      (\<lambda>req st. map_option fst (handle_put_global_config E req st)),
      (\<lambda>req st. Some (handle_ping st)), (\<lambda>req st. Some (neu_http_handle_cors st))]"

definition all_handlers ::
  "openssl \<Rightarrow> (string \<Rightarrow> string option) \<Rightarrow> string \<Rightarrow> bool \<Rightarrow> bool \<Rightarrow> file_env \<Rightarrow> ('j, 'w) rest_env \<Rightarrow>
    (http_req \<Rightarrow> jwt_state \<Rightarrow> rest_out option) list" where
  "all_handlers L read dir erange ex F E = data_handlers L read dir erange E @ system_handlers ex F E"

lemma data_handlers_once:
  assumes "f \<in> set (data_handlers L read dir erange E)" "f req st = Some out"
  shows "handled_once req out"
  using assms unfolding data_handlers_def
  by (auto intro: tag_handlers_once value_handlers_once node_handlers_once group_handlers_once
      user_handlers_once template_handlers_once ndriver_handlers_once)

lemma system_handlers_once:
  assumes "f \<in> set (system_handlers ex F E)" "f req st = Some out"
  shows "handled_once req out"
  using assms unfolding system_handlers_def
  by (auto intro: plugin_handlers_once file_handlers_once put_config_begins(1) get_config_begins(1) cors_once)

text \<open>
  C25: What a handler of the REST plugin that returns has sent.  Every handler but two (those of
  tags, values, nodes, groups, subscriptions, templates, southbound drivers, passwords, schemas,
  plugins, files, the version, the whole configuration, ping and CORS) has sent exactly one
  response or handed over exactly one command, never both and never none.  A login sends no command
  and one response, but two when its user is accepted and no token can be made.  A change of the
  level of a log sends one answer or command, and before it one error for each of the two levels
  that cannot be set.  The body of every command is the struct of its type, so that building its message
  neither fails the assertion of \<open>neu_msg_gen\<close> nor reads past the body, and its context is the request.
\<close>

theorem rest_requests_handled_once:
  assumes "f req st = Some out"
  shows "(f \<in> set (all_handlers L read dir erange ex F E) \<longrightarrow>
      length (ro_responses out) + length (ro_commands out) = 1) \<and>
    (f = handle_login E \<longrightarrow> ro_commands out = [] \<and>
      length (ro_responses out) = (if login_without_token E req st then 2 else 1)) \<and>
    (f = handle_log_level switch E \<longrightarrow> length (ro_commands out) \<le> 1 \<and>
      length (ro_responses out) + length (ro_commands out) = 1 + level_failures switch E req st) \<and>
    (f \<in> set (handle_login E # handle_log_level switch E # all_handlers L read dir erange ex F E) \<longrightarrow>
      (\<forall>(h, d)\<in>set (ro_commands out). rh_ctx h = hr_ctx req \<and>
       neu_msg_gen (h\<lparr>rh_sender := from, rh_receiver := to\<rparr>) d = Some (h\<lparr>rh_sender := from, rh_receiver := to\<rparr>, d)))"
proof -
  have once: "handled_once req out" if "f \<in> set (all_handlers L read dir erange ex F E)"
    using assms that data_handlers_once system_handlers_once by (auto simp: all_handlers_def)
  have login: "handled_plus (login_extra E req st) req out \<and> ro_commands out = []" if "f = handle_login E"
    using login_count [of E req st out] assms that
    by (auto simp: handle_login_def NEU_PROCESS_HTTP_REQUEST_def bind_eq_Some_conv rest_error_def responds_def
        split: option.splits if_splits)
  have level: "handled_plus (level_failures switch E req st) req out" if "f = handle_log_level switch E"
    using log_level_count [of switch E req st out] assms that by simp
  have built: "\<forall>(h, d)\<in>set (ro_commands out). rh_ctx h = hr_ctx req \<and>
      neu_msg_gen (h\<lparr>rh_sender := from, rh_receiver := to\<rparr>) d = Some (h\<lparr>rh_sender := from, rh_receiver := to\<rparr>, d)"
    if "handled_plus n req out" for n
    using that by (auto simp: handled_plus_def msg_gen_Some)
  have "(\<exists>n. handled_plus n req out)"
    if "f \<in> set (handle_login E # handle_log_level switch E # all_handlers L read dir erange ex F E)"
    using that once login level by (auto intro: exI [of _ 0])
  with once login level built show ?thesis
    by (intro conjI impI) (auto simp: handled_once_def handled_plus_def login_extra_def split: if_splits)
qed

lemma rest_requests_handled_once_witness:
  "\<exists>out. handle_get_node_state (demo_env\<lparr>re_disable_jwt := True\<rparr>) (demo_req []) jwt_start = Some out \<and>
    length (ro_responses out) + length (ro_commands out) = 1"
proof -
  let ?E = "demo_env\<lparr>re_disable_jwt := True\<rparr>"
  have "get_param ''/api/v2/login'' ''node'' = None" by (simp add: get_param_def)
  then obtain out where out: "handle_get_node_state ?E (demo_req []) jwt_start = Some out"
    by (simp add: handle_get_node_state_def NEU_VALIDATE_JWT_def demo_req_def neu_http_get_param_str_def rest_command_def
        demo_env_def)
  have "handle_get_node_state ?E \<in> set (all_handlers L read dir erange ex F ?E)" for L read dir erange ex F
    by (simp add: all_handlers_def data_handlers_def)
  with rest_requests_handled_once [of "handle_get_node_state ?E" "demo_req []" jwt_start out] out
  show ?thesis by blast
qed

text \<open>
  The REST plugin as a state machine.  Requests come at any time, each with a context of its own;
  responses come for contexts that wait for one.  What is recorded is which requests were served,
  which wait, and which were answered, once per response; beside it, which were answered
  in excess, once per response too many, and which lost the response of the core.
\<close>

definition silent_types :: "neu_reqresp_type list" where
  "silent_types = [NEU_RESP_GET_TEMPLATE, NEU_RESP_GET_TEMPLATES, NEU_RESP_GET_NDRIVER_MAPS,
     NEU_RESP_GET_NDRIVER_TAGS, NEU_REQ_UPDATE_LICENSE]"

record 'j dash_state =
  ds_keys :: jwt_state
  ds_conversations :: "'j conversations"
  ds_served :: "nat list"
  ds_waiting :: "nat list"
  ds_answered :: "nat list"
  ds_extra :: "nat list"
  ds_lost :: "nat list"

definition dash_start :: "jwt_state \<Rightarrow> 'j dash_state" where
  "dash_start st = \<lparr>ds_keys = st, ds_conversations = (\<lambda>_. None), ds_served = [], ds_waiting = [],
     ds_answered = [], ds_extra = [], ds_lost = []\<rparr>"

inductive dash_step :: "('j, 'w) dashboard_env \<Rightarrow> 'j dash_state \<Rightarrow> 'j dash_state \<Rightarrow> bool" for D where
  dash_request:
    "serve D e req (ds_keys s) = Some (out, c) \<Longrightarrow>
     hr_ctx req \<notin> set (ds_served s) \<Longrightarrow> hr_ctx req \<noteq> 0 \<Longrightarrow>
     dash_step D s (s\<lparr>ds_keys := ro_keys out, ds_conversations := (ds_conversations s)(hr_ctx req := c),
       ds_served := ds_served s @ [hr_ctx req],
       ds_waiting := ds_waiting s @ map (rh_ctx \<circ> fst) (ro_commands out),
       ds_answered := ds_answered s @ map (\<lambda>_. hr_ctx req) (ro_responses out),
       ds_extra := ds_extra s @ replicate (extra_answers D e req (ds_keys s)) (hr_ctx req)\<rparr>)"
| dash_response:
    "dashb_plugin_request (de_rest D) (ds_conversations s) h data = Some out \<Longrightarrow>
     rh_ctx h \<in> set (ds_waiting s) \<Longrightarrow>
     dash_step D s (s\<lparr>ds_conversations := do_conversations out,
       ds_waiting := remove1 (rh_ctx h) (ds_waiting s) @ map (rh_ctx \<circ> fst) (do_commands out),
       ds_answered := ds_answered s @ map fst (do_responses out),
       ds_lost := ds_lost s @
         (if rh_type h \<in> set silent_types \<and> ds_conversations s (rh_ctx h) = None then [rh_ctx h] else [])\<rparr>)"

definition dash_ok :: "'j dash_state \<Rightarrow> bool" where
  "dash_ok s \<longleftrightarrow>
     mset (ds_waiting s) + mset (ds_answered s) + mset (ds_lost s) = mset (ds_served s) + mset (ds_extra s) \<and>
     distinct (ds_served s) \<and> distinct (ds_waiting s) \<and> 0 \<notin> set (ds_served s) \<and>
     set (ds_extra s) \<subseteq> set (ds_served s) \<and>
     (\<forall>a c. ds_conversations s a = Some c \<longrightarrow> a \<in> set (ds_waiting s) \<and> conversation_aio c = a)"

lemma waiting_served: "dash_ok s \<Longrightarrow> a \<in> set (ds_waiting s) \<Longrightarrow> a \<in> set (ds_served s)"
proof -
  assume ok: "dash_ok s" and a: "a \<in> set (ds_waiting s)"
  have "a \<in># mset (ds_waiting s) + mset (ds_answered s) + mset (ds_lost s)" using a by simp
  with ok have "a \<in># mset (ds_served s) + mset (ds_extra s)" by (simp only: dash_ok_def)
  with ok show ?thesis by (auto simp: dash_ok_def)
qed

lemma request_ok:
  assumes ok: "dash_ok s" and new: "hr_ctx req \<notin> set (ds_served s)" "hr_ctx req \<noteq> 0"
    and r: "handled_plus n req out" "\<And>x. c = Some x \<Longrightarrow> ro_commands out \<noteq> [] \<and> conversation_aio x = hr_ctx req"
  shows "dash_ok (s\<lparr>ds_keys := k, ds_conversations := (ds_conversations s)(hr_ctx req := c),
       ds_served := ds_served s @ [hr_ctx req],
       ds_waiting := ds_waiting s @ map (rh_ctx \<circ> fst) (ro_commands out),
       ds_answered := ds_answered s @ map (\<lambda>_. hr_ctx req) (ro_responses out),
       ds_extra := ds_extra s @ replicate n (hr_ctx req)\<rparr>)"
proof -
  have "hr_ctx req \<notin> set (ds_waiting s)" using waiting_served [OF ok] new(1) by blast
  note fresh = this
  from r(1) consider (answers) "ro_commands out = []" "length (ro_responses out) = Suc n"
    | (sends) cmd where "ro_commands out = [cmd]" "rh_ctx (fst cmd) = hr_ctx req" "length (ro_responses out) = n"
    by (cases "ro_commands out") (auto simp: handled_plus_def)
  then show ?thesis
  proof cases
    case answers
    then have "c = None" using r(2) by (cases c) auto
    with answers ok new show ?thesis by (auto simp: dash_ok_def image_mset_const_eq ac_simps)
  next
    case (sends cmd)
    with ok new fresh r(2) show ?thesis
      by (simp add: dash_ok_def image_mset_const_eq ac_simps) (auto simp: set_replicate_conv_if)
  qed
qed

lemma context_next_for:
  "context_next E c type d = Some (Waiting c' cmd) \<Longrightarrow> for_request (conversation_aio c) (conversation_aio c') cmd"
proof (induction c)
  case (Get_conversation x)
  then obtain r where "get_context_next E x type d = Some r"
    "(case r of Waiting ctx' cmd \<Rightarrow> Waiting (Get_conversation ctx') cmd | Ended a \<Rightarrow> Ended a) = Waiting c' cmd"
    by auto
  then show ?case by (cases r) (auto dest: get_next_for)
next
  case (Put_conversation x)
  then obtain r where "put_context_next E x d = Some r"
    "(case r of Waiting ctx' cmd \<Rightarrow> Waiting (Put_conversation ctx') cmd | Ended a \<Rightarrow> Ended a) = Waiting c' cmd"
    by auto
  then show ?case by (cases r) (auto dest: put_next_for)
qed

lemma not_silent: "response_of E type data = Some None \<Longrightarrow> type \<in> set silent_types"
  by (auto simp: response_of_def silent_types_def Let_def split: if_splits rest_response.splits)

lemma answers_not_silent: "response_of E type data = Some (Some a) \<Longrightarrow> type \<notin> set silent_types"
  by (auto simp: response_of_def silent_types_def Let_def split: if_splits rest_response.splits)

lemma response_cases:
  assumes "dashb_plugin_request E cs h data = Some out" "rh_ctx h \<noteq> 0"
  obtains (lost) "rh_type h \<in> set silent_types" "cs (rh_ctx h) = None"
      "out = \<lparr>do_responses = [], do_commands = [], do_conversations = cs\<rparr>"
  | (answered) a where "\<not> (rh_type h \<in> set silent_types \<and> cs (rh_ctx h) = None)" "out = \<lparr>do_responses = [(rh_ctx h, a)], do_commands = [],
      do_conversations = cs(rh_ctx h := None)\<rparr>"
  | (goes_on) c c' cmd where "cs (rh_ctx h) = Some c" "for_request (conversation_aio c) (conversation_aio c') cmd"
      "out = \<lparr>do_responses = [], do_commands = [cmd], do_conversations = cs(rh_ctx h \<mapsto> c')\<rparr>"
proof (cases "cs (rh_ctx h)")
  case None
  with assms obtain b where b: "response_of E (rh_type h) data = Some b"
    "out = (case b of None \<Rightarrow> \<lparr>do_responses = [], do_commands = [], do_conversations = cs\<rparr>
       | Some a \<Rightarrow> \<lparr>do_responses = [(rh_ctx h, a)], do_commands = [], do_conversations = cs\<rparr>)"
    by (auto simp: dashb_plugin_request_def answered_with_def simp del: split_paired_All split_paired_Ex
        split: option.splits)
  show ?thesis
  proof (cases b)
    case None
    with b \<open>cs (rh_ctx h) = None\<close> show ?thesis by (intro that(1)) (auto dest: not_silent)
  next
    case (Some a)
    have "cs = cs(rh_ctx h := None)" using None by auto
    with b Some answers_not_silent [of E "rh_type h" data a] show ?thesis by (intro that(2)) auto
  qed
next
  case (Some c)
  with assms obtain r where r: "context_next E c (rh_type h) (config_of data) = Some r"
      "out = (case r of
          Waiting c' cmd \<Rightarrow> \<lparr>do_responses = [], do_commands = [cmd], do_conversations = cs(rh_ctx h \<mapsto> c')\<rparr>
        | Ended a \<Rightarrow> \<lparr>do_responses = [(rh_ctx h, a)], do_commands = [], do_conversations = cs(rh_ctx h := None)\<rparr>)"
    by (auto simp: dashb_plugin_request_def handle_global_config_resp_def)
  show ?thesis
  proof (cases r)
    case (Waiting c' cmd)
    with r(1) have "for_request (conversation_aio c) (conversation_aio c') cmd" by (intro context_next_for) simp
    with r Some Waiting show ?thesis by (intro that(3)) auto
  qed (use r that(2) Some in auto)
qed

lemma response_ok:
  assumes ok: "dash_ok s" and r: "dashb_plugin_request E (ds_conversations s) h data = Some out"
    and h: "rh_ctx h \<in> set (ds_waiting s)"
  shows "dash_ok (s\<lparr>ds_conversations := do_conversations out,
       ds_waiting := remove1 (rh_ctx h) (ds_waiting s) @ map (rh_ctx \<circ> fst) (do_commands out),
       ds_answered := ds_answered s @ map fst (do_responses out),
       ds_lost := ds_lost s @
         (if rh_type h \<in> set silent_types \<and> ds_conversations s (rh_ctx h) = None then [rh_ctx h] else [])\<rparr>)"
proof -
  have served: "rh_ctx h \<in> set (ds_served s)" by (rule waiting_served [OF ok h])
  with ok have "rh_ctx h \<noteq> 0" unfolding dash_ok_def by metis
  from r this show ?thesis
  proof (cases rule: response_cases)
    case lost
    then show ?thesis using ok h served
      by (auto simp: dash_ok_def distinct_remove1)
  next
    case (answered a)
    then show ?thesis using ok h served by (auto simp: dash_ok_def)
  next
    case (goes_on c c' cmd)
    then show ?thesis using ok h by (auto simp: dash_ok_def for_request_def)
  qed
qed

lemma step_ok: "dash_step D s s' \<Longrightarrow> dash_ok s \<Longrightarrow> dash_ok s'"
proof (induction rule: dash_step.induct)
  case (dash_request e req s out c)
  then show ?case using serve_count [OF dash_request(1)] by (auto intro: request_ok)
next
  case (dash_response s h data out)
  then show ?case by (intro response_ok)
qed

lemma start_ok: "dash_ok (dash_start st)"
  by (simp add: dash_ok_def dash_start_def)

text \<open>
  C29: Whatever requests come and whatever the core responds, in any order, the answers add up: every
  request that was served either waits for the core, with one command out, or has been answered
  with one HTTP response, through all conversations about a whole configuration, with two
  exceptions that the state records.  A login that is accepted without a token that can be made, and a
  change of log levels that fails, are answered in excess, as often as \<open>extra_answers\<close> counts; and
  a response about templates or southbound drivers that belongs to no conversation is lost.  Every
  other request is answered at most once, and exactly once when nothing waits any more.
\<close>

theorem dashboard_answers_once:
  assumes "(dash_step D)\<^sup>*\<^sup>* (dash_start st) s"
  shows "mset (ds_waiting s) + mset (ds_answered s) + mset (ds_lost s) = mset (ds_served s) + mset (ds_extra s) \<and>
    distinct (ds_served s) \<and> distinct (ds_waiting s) \<and>
    (\<forall>a\<in>set (ds_served s). a \<notin> set (ds_extra s) \<union> set (ds_lost s) \<longrightarrow>
       count (mset (ds_answered s)) a = (if a \<in> set (ds_waiting s) then 0 else 1)) \<and>
    (\<forall>a c. ds_conversations s a = Some c \<longrightarrow> a \<in> set (ds_waiting s) \<and> conversation_aio c = a)"
proof -
  have ok: "dash_ok s"
    using assms by (induction rule: rtranclp_induct) (auto intro: start_ok step_ok)
  have "count (mset (ds_answered s)) a = (if a \<in> set (ds_waiting s) then 0 else 1)"
    if "a \<in> set (ds_served s)" "a \<notin> set (ds_extra s) \<union> set (ds_lost s)" for a
  proof -
    have "count (mset (ds_waiting s)) a + count (mset (ds_answered s)) a + count (mset (ds_lost s)) a =
        count (mset (ds_served s)) a + count (mset (ds_extra s)) a"
      using ok unfolding dash_ok_def by (metis count_union)
    moreover have "count (mset (ds_lost s)) a = 0" "count (mset (ds_extra s)) a = 0"
      using that(2) by (simp_all add: count_mset_0_iff)
    moreover have "count (mset (ds_served s)) a = 1"
      "count (mset (ds_waiting s)) a = (if a \<in> set (ds_waiting s) then 1 else 0)"
      using ok that(1) by (simp_all add: dash_ok_def distinct_count_atmost_1)
    ultimately show ?thesis by (simp split: if_splits)
  qed
  with ok show ?thesis unfolding dash_ok_def by blast
qed

definition demo_dashboard :: "(jtree, string \<times> nat \<times> string) dashboard_env" where
  "demo_dashboard = \<lparr>de_rest = config_env, de_openssl = demo_openssl, de_erange = False,
     de_files = \<lparr>fe_stat = (\<lambda>_. None), fe_open = (\<lambda>_. None), fe_dir = (\<lambda>_. None), fe_system = (\<lambda>_. Exited 0)\<rparr>,
     de_neuron_exists = False, de_switch = (\<lambda>_. 0)\<rparr>"

lemma dashboard_answers_once_witness:
  "\<exists>s. (dash_step demo_dashboard)\<^sup>*\<^sup>* (dash_start jwt_start) s \<and> ds_waiting s = [1] \<and>
    mset (ds_waiting s) + mset (ds_answered s) + mset (ds_lost s) = mset (ds_served s) + mset (ds_extra s)"
proof -
  obtain out c where serve: "serve demo_dashboard H_put_global_config (demo_req ''x'') jwt_start = Some (out, Some c)"
      "map (rh_ctx \<circ> fst) (ro_commands out) = [1]"
    by (auto simp: demo_dashboard_def handle_put_global_config_def validated_pair_def neu_http_get_body_def
        demo_req_def config_decodes put_context_next_def get_nodes_def config_send_def config_env_def demo_env_def)
  let ?s = "dash_start jwt_start :: jtree dash_state"
  let ?s' = "?s\<lparr>ds_keys := ro_keys out, ds_conversations := (ds_conversations ?s)(hr_ctx (demo_req ''x'') := Some c),
       ds_served := ds_served ?s @ [hr_ctx (demo_req ''x'')],
       ds_waiting := ds_waiting ?s @ map (rh_ctx \<circ> fst) (ro_commands out),
       ds_answered := ds_answered ?s @ map (\<lambda>_. hr_ctx (demo_req ''x'')) (ro_responses out),
       ds_extra := ds_extra ?s @
         replicate (extra_answers demo_dashboard H_put_global_config (demo_req ''x'') (ds_keys ?s)) (hr_ctx (demo_req ''x''))\<rparr>"
  have "dash_step demo_dashboard ?s ?s'"
    by (rule dash_request [where e = H_put_global_config])
       (use serve in \<open>simp_all add: dash_start_def demo_req_def\<close>)
  then have reach: "(dash_step demo_dashboard)\<^sup>*\<^sup>* ?s ?s'" by (rule r_into_rtranclp)
  have "ds_waiting ?s' = [1]" using serve(2) by (simp add: dash_start_def)
  with dashboard_answers_once [OF reach] reach show ?thesis by blast
qed

section \<open>The core behind it\<close>

text \<open>
  A command of the plugin goes through its adapter to the loop of the manager over the pipe of the
  node; what the loop sends to that pipe comes back to the plugin.
\<close>

definition exchange ::
  "'p world \<Rightarrow> 'p adapter \<Rightarrow> 'p neu_manager \<Rightarrow> u32 \<Rightarrow> ('j, 'w) rest_env \<Rightarrow> 'j conversations \<Rightarrow> neu_msg \<Rightarrow>
    ('p neu_manager \<times> (nat \<times> nng_http_status \<times> string) list) option" where
  "exchange w dash mg pipe E cs cmd = do {
     (rv, dash') \<leftarrow> adapter_command (\<lambda>_. 0) dash (fst cmd) (snd cmd);
     out \<leftarrow> manager_loop w False (Some (pipe, last (ad_sent dash'))) mg;
     outs \<leftarrow> those (map (\<lambda>(p, h, body). dashb_plugin_request E cs h (response_body body))
       (filter (\<lambda>(p, h, body). p = pipe) (lo_sent out)));
     Some (lo_manager out, concat (map do_responses outs))
   }"

lemma command_passed:
  assumes "data_fits (rh_type h) d" "command_receiver h d = Some r"
  shows "\<exists>ad. adapter_command (\<lambda>_. 0) dash h d = Some (0, ad) \<and>
    last (ad_sent ad) = (h\<lparr>rh_sender := ad_name dash, rh_receiver := r\<rparr>, d)"
  using assms by (simp add: adapter_command_def neu_msg_gen_def nng_sendmsg_def)

lemma exchange_stops:
  assumes "rh_type h \<notin> set handled_types"
  shows "exchange w dash mg pipe E cs (h, d) = None"
  using assms
  by (auto simp: exchange_def adapter_command_def neu_msg_gen_def nng_sendmsg_def bind_eq_None_conv not_handled)

text \<open>The commands of a route are of one type; reading the states of nodes has two.\<close>

fun route_types :: "endpoint \<Rightarrow> neu_reqresp_type list" where
  "route_types H_add_adapter = [NEU_REQ_ADD_NODE]"
| "route_types H_update_adapter = [NEU_REQ_UPDATE_NODE]"
| "route_types H_del_adapter = [NEU_REQ_DEL_NODE]"
| "route_types H_get_adapter = [NEU_REQ_GET_NODE]"
| "route_types H_add_plugin = [NEU_REQ_ADD_PLUGIN]"
| "route_types H_get_plugin = [NEU_REQ_GET_PLUGIN]"
| "route_types H_del_plugin = [NEU_REQ_DEL_PLUGIN]"
| "route_types H_node_ctl = [NEU_REQ_NODE_CTL]"
| "route_types H_get_node_state = [NEU_REQ_GET_NODE_STATE, NEU_REQ_GET_NODES_STATE]"
| "route_types H_log_level = [NEU_REQ_UPDATE_LOG_LEVEL]"
| "route_types H_get_global_config = [NEU_REQ_GET_NODE]"
| "route_types H_put_global_config = [NEU_REQ_GET_NODE]"
| "route_types _ = []"

definition speaks :: "neu_reqresp_type list \<Rightarrow> rest_out \<Rightarrow> bool" where
  "speaks ts out \<longleftrightarrow> (\<forall>m\<in>set (ro_commands out). rh_type (fst m) \<in> set ts)"

lemma responds_speaks [intro]: "speaks ts (responds st rs)"
  by (simp add: speaks_def)

lemma error_speaks [intro]: "rest_error E code st = Some out \<Longrightarrow> speaks ts out"
  by (auto simp: rest_error_def)

lemma command_speaks [intro]: "rest_command E req type cmd st = Some out \<Longrightarrow> type \<in> set ts \<Longrightarrow> speaks ts out"
  by (auto simp: rest_command_def Let_def split: if_splits) (simp add: speaks_def)

lemma validate_speaks:
  assumes "NEU_VALIDATE_JWT E req st k = Some out" "\<And>st'. k st' = Some out \<Longrightarrow> speaks ts out"
  shows "speaks ts out"
  using assms by (auto simp: NEU_VALIDATE_JWT_def split: if_splits option.splits)

lemma process_speaks:
  assumes "NEU_PROCESS_HTTP_REQUEST_VALIDATE_JWT E req decode st k = Some out"
    and "\<And>st' r. k st' r = Some out \<Longrightarrow> speaks ts out"
  shows "speaks ts out"
  using assms
  by (auto simp: NEU_PROCESS_HTTP_REQUEST_VALIDATE_JWT_def NEU_PROCESS_HTTP_REQUEST_def
      elim!: validate_speaks split: option.splits)

lemma pair_speaks:
  assumes "validated_pair E req st k = Some (out, c)" "\<And>st'. k st' = Some (out, c) \<Longrightarrow> speaks ts out"
  shows "speaks ts out"
  using assms by (auto elim!: validated_pair_cases)

lemma node_speaks:
  "handle_add_adapter E req st = Some out \<Longrightarrow> speaks (route_types H_add_adapter) out"
  "handle_update_adapter E req st = Some out \<Longrightarrow> speaks (route_types H_update_adapter) out"
  "handle_del_adapter E req st = Some out \<Longrightarrow> speaks (route_types H_del_adapter) out"
  "handle_get_adapter erange E req st = Some out \<Longrightarrow> speaks (route_types H_get_adapter) out"
  "handle_node_ctl E req st = Some out \<Longrightarrow> speaks (route_types H_node_ctl) out"
  "handle_get_node_state E req st = Some out \<Longrightarrow> speaks (route_types H_get_node_state) out"
  unfolding handle_add_adapter_def handle_update_adapter_def handle_del_adapter_def handle_get_adapter_def
    handle_node_ctl_def handle_get_node_state_def
  by (erule process_speaks validate_speaks; auto simp: once split: if_splits option.splits)+

lemma plugin_speaks:
  "handle_add_plugin E req st = Some out \<Longrightarrow> speaks (route_types H_add_plugin) out"
  "handle_get_plugin E req st = Some out \<Longrightarrow> speaks (route_types H_get_plugin) out"
  "handle_del_plugin E req st = Some out \<Longrightarrow> speaks (route_types H_del_plugin) out"
  "handle_get_version E req st = Some out \<Longrightarrow> speaks [] out"
  "handle_file_info F E req st = Some out \<Longrightarrow> speaks [] out"
  "handle_password L E req st = Some out \<Longrightarrow> speaks [] out"
  unfolding handle_add_plugin_def handle_get_plugin_def handle_del_plugin_def handle_get_version_def
    handle_file_info_def handle_password_def
  by (erule process_speaks validate_speaks; auto simp: once split: if_splits option.splits)+

lemma file_speaks:
  "handle_logs_files ex F E req st = Some (out, c) \<Longrightarrow> speaks [] out"
  "handle_download_file F E req st = Some (out, c) \<Longrightarrow> speaks [] out"
  unfolding handle_logs_files_def handle_download_file_def
  by (erule pair_speaks; auto simp: once no_file_def neu_http_response_file_def split: if_splits option.splits sum.splits)+

lemma login_speaks: "handle_login E req st = Some out \<Longrightarrow> speaks [] out"
  by (auto simp: handle_login_def NEU_PROCESS_HTTP_REQUEST_def once split: option.splits if_splits)

lemma speaks_responses: "speaks ts (out\<lparr>ro_responses := rs\<rparr>) = speaks ts out"
  by (simp add: speaks_def)

lemma log_level_speaks:
  assumes "handle_log_level switch E req st = Some out"
  shows "speaks (route_types H_log_level) out"
  using assms unfolding handle_log_level_def
  by (rule process_speaks) (auto simp: once speaks_responses elim!: command_speaks)

lemma serve_speaks:
  assumes "serve D e req st = Some (out, c)" "e \<notin> {H_get_global_config, H_put_global_config}"
  shows "speaks (route_types e) out"
  using assms
  by (cases e)
     (auto simp: plain_def neu_http_handle_cors_def handle_ping_def
        dest: node_speaks plugin_speaks file_speaks login_speaks log_level_speaks)

subsection \<open>Requests the core refuses\<close>

lemma driver_groups_asked:
  assumes "get_context_next E ctx type d = Some (Waiting ctx' cmd)" "gx_state ctx = STATE_GET_DRIVER"
  shows "rh_type (fst cmd) = NEU_REQ_GET_DRIVER_GROUP"
  using assms
  by (auto simp: get_context_next_def get_groups_def config_send_def Let_def elim!: NEXT_waiting
      split: option.splits config_data.splits if_splits)

text \<open>
  C30: The loop of the manager has no case for what most routes send.  A request over REST to rename or
  delete a node, to load or remove a plugin, to change the level of a log or to read the state of one
  node, if it sends its command at all, ends at the failing assertion of the loop, whatever state the
  manager is in; and so does reading a whole configuration, once the nodes are known and their groups
  are asked for.
\<close>

theorem refused_routes:
  shows "(serve D e req st = Some (out, c) \<and> m \<in> set (ro_commands out) \<and>
      (e \<in> {H_update_adapter, H_del_adapter, H_add_plugin, H_del_plugin, H_log_level} \<or>
       e = H_get_node_state \<and> rh_type (fst m) = NEU_REQ_GET_NODE_STATE) \<longrightarrow>
      exchange w dash mg pipe (de_rest D) cs m = None) \<and>
    (get_context_next (de_rest D) ctx type d = Some (Waiting ctx' cmd) \<and> gx_state ctx = STATE_GET_DRIVER \<longrightarrow>
      exchange w dash mg pipe (de_rest D) cs cmd = None)"
proof (intro conjI impI; elim conjE)
  assume s: "serve D e req st = Some (out, c)" and m: "m \<in> set (ro_commands out)"
    and e: "e \<in> {H_update_adapter, H_del_adapter, H_add_plugin, H_del_plugin, H_log_level} \<or>
       e = H_get_node_state \<and> rh_type (fst m) = NEU_REQ_GET_NODE_STATE"
  from e have "e \<notin> {H_get_global_config, H_put_global_config}" by auto
  with serve_speaks [OF s] m e have "rh_type (fst m) \<notin> set handled_types"
    by (auto simp: speaks_def handled_types_def answered_types_def forwarded_types_def)
  then show "exchange w dash mg pipe (de_rest D) cs m = None" by (cases m) (simp add: exchange_stops)
next
  assume "get_context_next (de_rest D) ctx type d = Some (Waiting ctx' cmd)" "gx_state ctx = STATE_GET_DRIVER"
  then have "rh_type (fst cmd) \<notin> set handled_types"
    by (simp add: driver_groups_asked handled_types_def answered_types_def forwarded_types_def)
  then show "exchange w dash mg pipe (de_rest D) cs cmd = None" by (cases cmd) (simp add: exchange_stops)
qed

subsection \<open>Requests the core answers\<close>

lemma add_node_codes:
  assumes "neu_manager_add_node w mg node plugin load = Some (error, mg')"
  shows "error \<in> {NEU_ERR_LIBRARY_NOT_FOUND, NEU_ERR_LIBRARY_NOT_ALLOW_CREATE_INSTANCE, NEU_ERR_NODE_EXIST,
    NEU_ERR_LIBRARY_FAILED_TO_OPEN, NEU_ERR_SUCCESS}"
proof -
  obtain ret info where f: "neu_plugin_manager_find (mg_plugins mg) plugin empty_info = Some (ret, info)"
    using assms by (auto simp: neu_manager_add_node_def bind_eq_Some_conv)
  note step = assms [unfolded neu_manager_add_node_def f, simplified]
  show ?thesis
  proof (cases "ret \<noteq> 0 \<or> pi_single info \<or> neu_node_manager_find (mg_nodes mg) node \<noteq> None")
    case False
    then obtain inst where "neu_plugin_manager_create_instance (w_dl w) (w_plugin_dir w)
        (mg_plugins mg) (pi_name info) = Some inst"
      using step by (auto simp: bind_eq_Some_conv)
    with False step show ?thesis by (cases inst) (auto simp: bind_eq_Some_conv Let_def)
  qed (use step in \<open>auto split: if_splits\<close>)
qed

lemma add_node_code:
  assumes "neu_manager_add_node w mg node plugin load = Some (error, mg')"
  shows "\<exists>status. error_status error = Some status"
  using add_node_codes [OF assms]
  by (auto simp: error_status_def ok_codes_def internal_codes_def
      forbidden_codes_def unauthorized_codes_def bad_request_codes_def not_found_codes_def conflict_codes_def)

lemma stored_some:
  assumes "manager_ok mg"
  shows "\<exists>l. manager_storage_add_node mg node = Some l"
proof (cases "hash_find (mg_nodes mg) node")
  case None
  then show ?thesis
    by (simp add: manager_storage_add_node_def neu_manager_get_node_info_def neu_node_manager_find_def del: hash_find_None)
next
  case (Some e)
  with assms have "ne_adapter e < length (mg_heap mg)"
    by (auto simp: manager_ok_def nodes_ok_def dest!: hash_find_in_set)
  with Some show ?thesis
    by (simp add: manager_storage_add_node_def neu_manager_get_node_info_def neu_node_manager_find_def heap_at_def)
qed

lemma add_adapter_command:
  assumes "handle_add_adapter E req st = Some out" "(h, d) \<in> set (ro_commands out)"
  shows "\<exists>node plugin. h = \<lparr>rh_type = NEU_REQ_ADD_NODE, rh_ctx = hr_ctx req, rh_sender = [], rh_receiver = []\<rparr> \<and>
    d = D_add_node node plugin \<and>
    neu_json_decode_add_node_req (re_json E) (the (neu_http_get_body req))
      = Some (Some \<lparr>an_name = Some node, an_plugin = Some plugin\<rparr>)"
proof -
  have "\<exists>st' r name. neu_http_get_body req = Some name \<and> neu_json_decode_add_node_req (re_json E) name = Some (Some r) \<and>
      do {
       name \<leftarrow> an_name r;
       if NEU_NODE_NAME_LEN \<le> length name then rest_error E NEU_ERR_NODE_NAME_TOO_LONG st'
       else do {
         plugin \<leftarrow> strcpy NEU_PLUGIN_NAME_LEN (an_plugin r);
         rest_command E req NEU_REQ_ADD_NODE (D_add_node name plugin) st'
       }
     } = Some out"
    using assms
    by (auto simp: handle_add_adapter_def NEU_PROCESS_HTTP_REQUEST_VALIDATE_JWT_def NEU_VALIDATE_JWT_def
        NEU_PROCESS_HTTP_REQUEST_def responds_def split: if_splits option.splits)
  then obtain body r st' name where r: "neu_http_get_body req = Some body"
      "neu_json_decode_add_node_req (re_json E) body = Some (Some r)" "an_name r = Some name"
      "do { plugin \<leftarrow> strcpy NEU_PLUGIN_NAME_LEN (an_plugin r);
         rest_command E req NEU_REQ_ADD_NODE (D_add_node name plugin) st' } = Some out"
    using assms(2) by (auto simp: bind_eq_Some_conv dest: rest_error_out split: if_splits)
  then obtain plugin where "an_plugin r = Some plugin"
      "rest_command E req NEU_REQ_ADD_NODE (D_add_node name plugin) st' = Some out"
    by (auto simp: bind_eq_Some_conv strcpy_def split: option.splits if_splits)
  with r assms(2) show ?thesis
    by (cases r) (auto simp: rest_command_def Let_def responds_def split: if_splits)
qed

text \<open>
  C31: Adding a node over REST, from end to end.  The body of the request names the node and the
  plugin; the command reaches the manager, which adds the node with the result it would have without
  REST; and the browser gets one response, with the status of that result, while the manager is left as
  the addition leaves it.
\<close>

theorem node_added_over_rest:
  assumes "manager_ok mg" "world_ok w"
    and "serve D H_add_adapter req st = Some (out, c)" "(h, d) \<in> set (ro_commands out)"
    and "neu_manager_add_node w mg node plugin False = Some (error, mg')" "d = D_add_node node plugin"
    and "neu_node_manager_get_pipe (mg_nodes mg') (ad_name dash) = pipe" "cs (hr_ctx req) = None"
  shows "neu_json_decode_add_node_req (re_json (de_rest D)) (the (neu_http_get_body req))
      = Some (Some \<lparr>an_name = Some node, an_plugin = Some plugin\<rparr>) \<and>
    (\<exists>status. error_status error = Some status \<and>
      exchange w dash mg pipe (de_rest D) cs (h, d)
        = Some (mg', [(hr_ctx req, response (error_text (re_json (de_rest D)) error) status)]))"
proof -
  from assms(3,4,6) add_adapter_command [of "de_rest D" req st out h d]
  have h: "h = \<lparr>rh_type = NEU_REQ_ADD_NODE, rh_ctx = hr_ctx req, rh_sender = [], rh_receiver = []\<rparr>"
    and decode: "neu_json_decode_add_node_req (re_json (de_rest D)) (the (neu_http_get_body req))
      = Some (Some \<lparr>an_name = Some node, an_plugin = Some plugin\<rparr>)"
    by (auto simp: plain_def)
  obtain status where status: "error_status error = Some status" using add_node_code [OF assms(5)] by blast
  obtain stored where "(if error = NEU_ERR_SUCCESS then manager_storage_add_node mg' node else Some []) = Some stored"
    using stored_some [OF add_node_ok [OF assms(1,2,5)], of node] by (cases "error = NEU_ERR_SUCCESS") auto
  then have "exchange w dash mg pipe (de_rest D) cs (h, d)
      = Some (mg', [(hr_ctx req, response (error_text (re_json (de_rest D)) error) status)])"
    using assms(5-8) status
    by (simp add: exchange_def h adapter_command_def command_receiver_def neu_msg_gen_def nng_sendmsg_def
        manager_loop_def manager_handle_def manager_reply_def quiet_def to_sender_def dashb_plugin_request_def
        response_of_def http_error_listed answered_with_def)
  with decode status show ?thesis by blast
qed

definition node_dashboard :: "(jtree, string \<times> nat \<times> string) dashboard_env" where
  "node_dashboard = demo_dashboard\<lparr>de_rest := config_env\<lparr>re_json := jt_jansson\<lparr>json_loads := (\<lambda>_ _. Some
     (JTObject [(''name'', JTString ''plc''), (''plugin'', JTString ''modbus'')]))\<rparr>\<rparr>\<rparr>"

lemma node_added_over_rest_witness:
  "\<exists>out h. serve node_dashboard H_add_adapter (demo_req ''x'') jwt_start = Some (out, None) \<and>
    ro_commands out = [(h, D_add_node ''plc'' ''modbus'')] \<and>
    exchange (demo_world NEU_NA_TYPE_ESVAPP) (demo_adapter NEU_NA_TYPE_APP) new_manager 0 (de_rest node_dashboard)
        (\<lambda>_. None) (h, D_add_node ''plc'' ''modbus'')
      = Some (new_manager, [(1, response (error_text (re_json (de_rest node_dashboard)) NEU_ERR_LIBRARY_NOT_FOUND)
          NNG_HTTP_STATUS_NOT_FOUND)])"
proof -
  let ?h = "\<lparr>rh_type = NEU_REQ_ADD_NODE, rh_ctx = 1, rh_sender = [], rh_receiver = []\<rparr>"
  let ?out = "\<lparr>ro_responses = [], ro_commands = [(?h, D_add_node ''plc'' ''modbus'')], ro_keys = jwt_start\<rparr>"
  have decode: "neu_json_decode_add_node_req (re_json (de_rest node_dashboard)) ''x''
      = Some (Some \<lparr>an_name = Some ''plc'', an_plugin = Some ''modbus''\<rparr>)"
    by code_simp
  have serve: "serve node_dashboard H_add_adapter (demo_req ''x'') jwt_start = Some (?out, None)"
    by (simp add: plain_def handle_add_adapter_def NEU_PROCESS_HTTP_REQUEST_VALIDATE_JWT_def NEU_VALIDATE_JWT_def
        NEU_PROCESS_HTTP_REQUEST_def neu_http_get_body_def demo_req_def decode strcpy_def NEU_NODE_NAME_LEN_def
        NEU_PLUGIN_NAME_LEN_def rest_command_def)
       (simp add: node_dashboard_def config_env_def demo_env_def)
  have "neu_manager_add_node (demo_world NEU_NA_TYPE_ESVAPP) new_manager ''plc'' ''modbus'' False
      = Some (NEU_ERR_LIBRARY_NOT_FOUND, new_manager)"
    by (simp add: neu_manager_add_node_def neu_plugin_manager_find_def new_manager_def neu_plugin_manager_create_def
        hash_find_def)
  from node_added_over_rest [OF new_manager_ok demo_world_ok(1) serve _ this, of ?h _ "demo_adapter NEU_NA_TYPE_APP" 0 "\<lambda>_. None"]
    serve show ?thesis
    by (auto simp: demo_req_def new_manager_def neu_node_manager_create_def neu_node_manager_get_pipe_def hash_find_def
        error_status_def ok_codes_def internal_codes_def forbidden_codes_def unauthorized_codes_def
        bad_request_codes_def not_found_codes_def)
qed

lemma get_adapter_command:
  assumes "handle_get_adapter erange E req st = Some out" "(h, d) \<in> set (ro_commands out)"
  shows "\<exists>type plugin node. h = \<lparr>rh_type = NEU_REQ_GET_NODE, rh_ctx = hr_ctx req, rh_sender = [], rh_receiver = []\<rparr> \<and>
    d = D_get_node type plugin node"
  using assms
  by (auto simp: handle_get_adapter_def NEU_VALIDATE_JWT_def rest_error_def rest_command_def responds_def Let_def
      bind_eq_Some_conv split: if_splits option.splits)

text \<open>
  C32: Listing nodes over REST, from end to end: the one response is the encoding of exactly the nodes
  of the manager that are shown, have a type of the mask, the plugin if one is given, and a name
  that contains the text; and the manager is as before.
\<close>

theorem nodes_listed_over_rest:
  assumes "manager_ok mg"
    and "serve D H_get_adapter req st = Some (out, c)" "(h, D_get_node type plugin node) \<in> set (ro_commands out)"
    and "neu_node_manager_get_pipe (mg_nodes mg) (ad_name dash) = pipe" "cs (hr_ctx req) = None"
  shows "exchange w dash mg pipe (de_rest D) cs (h, D_get_node type plugin node)
    = Some (mg, [(hr_ctx req, handle_get_adapter_resp (re_json (de_rest D))
        (map (\<lambda>ad. (ad_name ad, md_module_name (ad_module ad)))
          (filter (\<lambda>ad. type_in type ad \<and> (plugin = [] \<or> md_module_name (ad_module ad) = plugin) \<and>
              sublist node (ad_name ad))
            (map (\<lambda>e. mg_heap mg ! ne_adapter e) (shown (mg_nodes mg))))))])"
proof -
  have h: "h = \<lparr>rh_type = NEU_REQ_GET_NODE, rh_ctx = hr_ctx req, rh_sender = [], rh_receiver = []\<rparr>"
    using assms(2,3) get_adapter_command [of "de_erange D" "de_rest D" req st out h] by (auto simp: plain_def)
  have "nodes_ok (mg_heap mg) (mg_nodes mg)" using assms(1) by (simp add: manager_ok_def)
  from filter_ok [OF this, of type plugin node] assms(4,5) show ?thesis
    by (simp add: exchange_def h adapter_command_def command_receiver_def neu_msg_gen_def nng_sendmsg_def
        manager_loop_def manager_handle_def manager_reply_def quiet_def to_sender_def dashb_plugin_request_def
        response_of_def answered_with_def neu_manager_get_nodes_def filter_map comp_def)
qed

definition listed_manager :: "bool neu_manager" where
  "listed_manager = new_manager\<lparr>mg_heap := [demo_adapter NEU_NA_TYPE_APP],
     mg_nodes := [(''node'', \<lparr>ne_adapter = 0, ne_is_static = False, ne_display = True, ne_single = False, ne_pipe = 7\<rparr>)]\<rparr>"

lemma demo_params:
  "get_param ''/node?type=2'' ''type'' = Some (''2'', 1)"
  "get_param ''/node?type=2'' ''plugin'' = None"
  "get_param ''/node?type=2'' ''node'' = None"
  by code_simp+

lemma demo_type: "strtoumax10 ''2'' = (2, False, [])"
  by (simp add: strtoumax10_def isspace_def isdigit_def digit_value_def Let_def)

lemma demo_adapter_names:
  "ad_name (demo_adapter ty) = ''node''" "ad_module (demo_adapter ty) = demo_module ty"
  "md_module_name (demo_module ty) = ''Demo''" "md_type (demo_module ty) = ty"
  by (simp_all add: demo_adapter_def new_adapter_def demo_module_def neu_adapter_driver_create_def)

lemma demo_listed: "manager_ok listed_manager"
  by (simp add: manager_ok_def nodes_ok_def hash_wf_def hash_keys_def hash_vals_def listed_manager_def new_manager_def
      names_fit_def demo_adapter_names NEU_NODE_NAME_LEN_def NEU_PLUGIN_NAME_LEN_def cached_ok_def
      plugins_ok_def neu_plugin_manager_create_def)

lemma nodes_listed_over_rest_witness:
  "\<exists>out h. serve node_dashboard H_get_adapter ((demo_req [])\<lparr>hr_url := ''/node?type=2''\<rparr>) jwt_start
      = Some (out, None) \<and> ro_commands out = [(h, D_get_node 2 [] [])] \<and>
    exchange (demo_world NEU_NA_TYPE_ESVAPP) (demo_adapter NEU_NA_TYPE_APP) listed_manager 7 (de_rest node_dashboard)
        (\<lambda>_. None) (h, D_get_node 2 [] [])
      = Some (listed_manager, [(1, handle_get_adapter_resp (re_json (de_rest node_dashboard)) [(''node'', ''Demo'')])])"
proof -
  let ?req = "(demo_req [])\<lparr>hr_url := ''/node?type=2''\<rparr>"
  let ?h = "\<lparr>rh_type = NEU_REQ_GET_NODE, rh_ctx = 1, rh_sender = [], rh_receiver = []\<rparr>"
  let ?out = "\<lparr>ro_responses = [], ro_commands = [(?h, D_get_node 2 [] [])], ro_keys = jwt_start\<rparr>"
  have serve: "serve node_dashboard H_get_adapter ?req jwt_start = Some (?out, None)"
    by (simp add: plain_def handle_get_adapter_def NEU_VALIDATE_JWT_def demo_req_def
        neu_http_get_param_node_type_def neu_http_get_param_uintmax_def neu_http_get_param_str_def demo_params demo_type
        rest_command_def)
       (simp add: node_dashboard_def demo_dashboard_def config_env_def demo_env_def)
  have type: "type_in 2 (demo_adapter NEU_NA_TYPE_APP)"
    by (simp add: type_in_def demo_adapter_names)
  from nodes_listed_over_rest [OF demo_listed serve, of ?h 2 "[]" "[]" "demo_adapter NEU_NA_TYPE_APP" 7 "\<lambda>_. None"]
    serve type show ?thesis
    by (simp add: listed_manager_def neu_node_manager_get_pipe_def hash_find_def shown_def hash_vals_def demo_req_def
        demo_adapter_names)
qed

lemma refused_routes_witness:
  "\<exists>out m. serve node_dashboard H_del_adapter (demo_req ''x'') jwt_start = Some (out, None) \<and> m \<in> set (ro_commands out) \<and>
    exchange (demo_world NEU_NA_TYPE_ESVAPP) (demo_adapter NEU_NA_TYPE_APP) listed_manager 7 (de_rest node_dashboard)
      (\<lambda>_. None) m = None"
proof -
  have "neu_json_decode_del_node_req (re_json (de_rest node_dashboard)) ''x'' = Some (Some (Some ''plc''))"
    by code_simp
  then obtain out m where s: "serve node_dashboard H_del_adapter (demo_req ''x'') jwt_start = Some (out, None)"
      "m \<in> set (ro_commands out)"
    by (auto simp: plain_def handle_del_adapter_def NEU_PROCESS_HTTP_REQUEST_VALIDATE_JWT_def NEU_VALIDATE_JWT_def
        NEU_PROCESS_HTTP_REQUEST_def neu_http_get_body_def demo_req_def strcpy_def NEU_NODE_NAME_LEN_def rest_command_def)
       (auto simp: node_dashboard_def config_env_def demo_env_def)
  with refused_routes [of node_dashboard H_del_adapter] show ?thesis by blast
qed

end
