(* ===== verification/TemplateLaws.thy ===== *)
theory TemplateLaws
  imports TemplateRest TagRestLaws
begin

text \<open>Templates over REST: what is exported can be added again, and which requests are refused.\<close>

unbundle bit_operations_syntax

section \<open>Lists\<close>

lemma encode_objects_all:
  assumes "\<forall>x\<in>set xs. fst (enc x (json_object_new J)) = 0"
  shows "encode_objects J enc arr xs = (0, append_all J arr (map (\<lambda>x. snd (enc x (json_object_new J))) xs))"
  using assms by (induction xs arbitrary: arr) (auto simp: append_all_def split: prod.splits)

lemma decode_list_all:
  assumes "\<forall>i\<in>set is. \<exists>y. f (json_array_get J arr i) = Some (Some y) \<and> P i y"
  shows "\<exists>ys. decode_list J arr f is = Some (Some ys) \<and> list_all2 P is ys"
  using assms by (induction "is") auto

lemma decode_list_append_all:
  assumes "jansson_more J" and "\<forall>x\<in>set xs. \<exists>y. f (Some (g x)) = Some (Some y) \<and> P x y"
  shows "\<exists>ys. decode_list J (append_all J (json_array_new J) (map g xs)) f
      [0..<json_array_size J (append_all J (json_array_new J) (map g xs))] = Some (Some ys) \<and> list_all2 P xs ys"
proof -
  let ?arr = "append_all J (json_array_new J) (map g xs)"
  note arr = append_all_array [OF assms(1), of "map g xs"]
  have "\<forall>i\<in>set [0..<length xs]. \<exists>y. f (json_array_get J ?arr i) = Some (Some y) \<and> P (xs ! i) y"
    using arr assms(2) by auto
  from decode_list_all [OF this] obtain ys where ys:
    "decode_list J ?arr f [0..<length xs] = Some (Some ys)" "list_all2 (\<lambda>i y. P (xs ! i) y) [0..<length xs] ys"
    by blast
  then have "list_all2 P xs ys" by (auto simp: list_all2_conv_all_nth)
  with ys(1) arr show ?thesis by auto
qed

lemma all_or_error_all:
  assumes "list_all2 (\<lambda>x y. \<exists>z. f y = Some (Inr z) \<and> R x z) xs ys"
  shows "\<exists>zs. all_or_error f ys = Some (Inr zs) \<and> list_all2 R xs zs"
  using assms by (induction rule: list_all2_induct) auto

lemma check_len_ok [simp]: "length s < n \<Longrightarrow> check_len n code (Some s) = Some (Inr s)"
  by (simp add: check_len_def)

lemma and_then_ok [simp]: "and_then (Some (Inr x)) f = f x" "and_then (Some (Inl c)) f = Some (Inl c)"
  by (simp_all add: and_then_def)

section \<open>Tags\<close>

text \<open>What comes back: the same but for what is computed from the address, with the same export.\<close>

definition same_datatag :: "neu_datatag_t \<Rightarrow> neu_datatag_t \<Rightarrow> bool" where
  "same_datatag t t' \<longleftrightarrow>
     t' = t\<lparr>option8 := zero_option, meta := replicate NEU_TAG_META_LENGTH 0, static_ptr := static_ptr t'\<rparr> \<and>
     (json_of_tag t' :: unit neu_json_tag_t) = json_of_tag t"

definition tag_fits :: "'j jansson \<Rightarrow> neu_datatag_t \<Rightarrow> bool" where
  "tag_fits J t \<longleftrightarrow> exportable J t \<and> length (tname t) < NEU_TAG_NAME_LEN \<and> length (address t) < NEU_TAG_ADDRESS_LEN"

lemma exported_tag_set:
  assumes "jansson_more J" "tag_fits J t"
  shows "\<exists>tag. neu_json_decode_tag_json J (Some (snd (neu_json_encode_tag J (json_of_tag t) (json_object_new J))))
      = Some (Some tag) \<and> (\<exists>t'. set_tag_by_json tag = Some (Inr t') \<and> same_datatag t t')"
proof -
  from assms(2) have fits: "exportable J t" "length (tname t) < NEU_TAG_NAME_LEN"
    "length (address t) < NEU_TAG_ADDRESS_LEN" by (simp_all add: tag_fits_def)
  obtain jt jv t' x where tag:
    "neu_json_decode_tag_json J (Some (snd (neu_json_encode_tag J (json_of_tag t) (json_object_new J))))
      = Some (Some (json_tag t jt jv))"
    and set: "neu_tag_attribute_test t NEU_ATTRIBUTE_STATIC \<longrightarrow>
         neu_tag_set_static_value_json (blank_tag t) jt jv = Some (0, t')"
      "\<not> neu_tag_attribute_test t NEU_ATTRIBUTE_STATIC \<longrightarrow> t' = blank_tag t"
    and x: "t' = (blank_tag t)\<lparr>static_ptr := x\<rparr>"
    and get: "neu_tag_get_static_value_json t' NEU_JSON_UNDEFINE (zero_json_value :: unit neu_json_value_u)
      = neu_tag_get_static_value_json t NEU_JSON_UNDEFINE zero_json_value"
    using exported_tag [OF assms(1) fits(1)] by blast
  have t': "t' = t\<lparr>option8 := zero_option, meta := replicate NEU_TAG_META_LENGTH 0, static_ptr := static_ptr t'\<rparr>"
    unfolding x blank_tag_other by simp
  have fields: "address t' = address t" "tname t' = tname t" "description t' = description t"
    "ttype t' = ttype t" "attribute t' = attribute t" "precision t' = precision t" "decimal t' = decimal t"
    by (simp_all add: x blank_tag_def)
  have "set_tag_by_json (json_tag t jt jv) = Some (Inr t')"
    using set fits(2,3)
    by (cases "neu_tag_attribute_test t NEU_ATTRIBUTE_STATIC")
       (simp_all add: set_tag_by_json_def json_tag_def type_of_number_code static_bit_wide static_test_iff
          blank_tag_def)
  moreover have "(json_of_tag t' :: unit neu_json_tag_t) = json_of_tag t"
    using get fields by (simp add: json_of_tag_def neu_tag_attribute_test_def)
  ultimately show ?thesis using tag t' by (auto simp: same_datatag_def)
qed

lemma exported_tags_set:
  assumes "jansson_more J" "\<forall>t\<in>set ts. tag_fits J t"
  shows "\<exists>tags. neu_json_decode_tag_array_json J (Some (encode_tags J (json_array_new J) (map json_of_tag ts)))
      = Some (Some tags) \<and>
    list_all2 (\<lambda>t tag. \<exists>t'. set_tag_by_json tag = Some (Inr t') \<and> same_datatag t t') ts tags"
proof -
  have "\<exists>tags. decode_tags_loop J (map (\<lambda>t. Some (snd (neu_json_encode_tag J (json_of_tag t) (json_object_new J)))) ts)
      = Some (Some tags) \<and>
    list_all2 (\<lambda>t tag. \<exists>t'. set_tag_by_json tag = Some (Inr t') \<and> same_datatag t t') ts tags"
    using assms(2)
  proof (induction ts)
    case (Cons t ts)
    then show ?case using exported_tag_set [OF assms(1), of t] by fastforce
  qed simp
  moreover have "array_items J (encode_tags J (json_array_new J) (map json_of_tag ts))
      = map (\<lambda>t. Some (snd (neu_json_encode_tag J (json_of_tag t) (json_object_new J)))) ts"
    by (simp add: encode_tags_append array_items_append_all [OF assms(1)])
  moreover have "json_is_array J (encode_tags J (json_array_new J) (map json_of_tag ts))"
    using append_all_array [OF assms(1)] by (simp add: encode_tags_append)
  ultimately show ?thesis by (simp add: neu_json_decode_tag_array_json_def)
qed

section \<open>Groups\<close>

definition group_fits :: "'j jansson \<Rightarrow> template_group \<Rightarrow> bool" where
  "group_fits J = (\<lambda>(n, interval, tags).
     json_string J n \<noteq> None \<and> length n < NEU_GROUP_NAME_LEN \<and> json_integer J (ucast interval) \<noteq> None \<and>
     NEU_GROUP_INTERVAL_LIMIT \<le> interval \<and> length tags < 65536 \<and> (\<forall>t\<in>set tags. tag_fits J t))"

definition same_group :: "template_group \<Rightarrow> template_group \<Rightarrow> bool" where
  "same_group = (\<lambda>(n, interval, tags) (n', interval', tags').
     n' = n \<and> interval' = interval \<and> list_all2 same_datatag tags tags')"

lemma counted16_short [simp]: "length xs < 65536 \<Longrightarrow> counted16 xs = xs"
  by (simp add: counted16_def)

lemma sint_wide [simp]: "sint (ucast (i :: u32) :: u64) = uint i"
proof -
  have "uint i < 4294967296" using uint_lt2p [of i] by simp
  then have "uint i < 9223372036854775808" "- 9223372036854775808 \<le> uint i"
    using uint_ge_0 [of i] by linarith+
  then show ?thesis
    by (simp add: sint_uint unsigned_ucast_eq take_bit_word_eq_self signed_take_bit_int_eq_self
        take_bit_int_eq_self)
qed

lemma exported_group:
  assumes ok: "jansson_more J" and fits: "group_fits J g"
  shows "fst (neu_json_encode_template_group J (json_of_group g) (json_object_new J)) = 0"
    "\<exists>g'. neu_json_decode_template_group J
        (Some (snd (neu_json_encode_template_group J (json_of_group g) (json_object_new J)))) = Some (Some g') \<and>
      (\<exists>h. group_of_json g' = Some (Inr h) \<and> same_group g h)"
proof -
  obtain n i ts where g: "g = (n, i, ts)" by (cases g)
  let ?arr = "encode_tags J (json_array_new J) (map json_of_tag ts)"
  let ?es = "[str_elem ''name'' (Some n), int_elem ''interval'' (ucast i), object_elem ''tags'' (Some ?arr)]"
  let ?root = "foldl (encode_object J) (json_object_new J) ?es"
  note f = fits [unfolded group_fits_def g prod.case]
  have enc: "neu_json_encode_template_group J (json_of_group g) (json_object_new J) = (0, ?root)"
    using jansson_moreD(4) [OF ok]
    by (simp add: neu_json_encode_template_group_def json_of_group_def g neu_json_encode_tag_array_def
        neu_json_encode_field_def)
  then show "fst (neu_json_encode_template_group J (json_of_group g) (json_object_new J)) = 0" by simp
  have get: "json_object_get J ?root k = field_of J ?es k" for k by (rule get_encoded_new [OF ok]) simp
  have fields: "json_object_get J ?root ''name'' = Option.bind (Some n) (json_string J)"
    "json_object_get J ?root ''interval'' = json_integer J (ucast i)"
    "json_object_get J ?root ''tags'' = Some ?arr"
    unfolding get by (simp_all add: field_json_simps split: option.split)
  from f have dec: "decode_object J ?root (want ''name'' NEU_JSON_STR) = Some (0, str_elem ''name'' (Some n))"
    "decode_object J ?root (want ''interval'' NEU_JSON_INT) = Some (0, int_elem ''interval'' (ucast i))"
    "decode_object J ?root (want ''tags'' NEU_JSON_OBJECT) = Some (0, object_elem ''tags'' (Some ?arr))"
    using decode_field_str [OF ok fields(1)] decode_field_int(1) [OF ok fields(2)] decode_object_at [OF fields(3)]
    by auto
  obtain tags where tags: "neu_json_decode_tag_array_json J (Some ?arr) = Some (Some tags)"
    "list_all2 (\<lambda>t tag. \<exists>t'. set_tag_by_json tag = Some (Inr t') \<and> same_datatag t t') ts tags"
    using exported_tags_set [OF ok, of ts] f by blast
  then obtain ts' where ts': "all_or_error set_tag_by_json tags = Some (Inr ts')" "list_all2 same_datatag ts ts'"
    using all_or_error_all by blast
  with f have "length ts' < 65536" by (metis list_all2_lengthD)
  with ts' f have "group_of_json \<lparr>tg_name = Some n, tg_interval = ucast i, tg_tags = tags\<rparr> = Some (Inr (n, i, ts'))"
    by (simp add: group_of_json_def not_less word_le_def)
  moreover have "neu_json_decode_template_group J (Some ?root)
      = Some (Some \<lparr>tg_name = Some n, tg_interval = ucast i, tg_tags = tags\<rparr>)"
    using dec tags(1)
    by (simp add: neu_json_decode_template_group_def neu_json_decode_by_json_def str_of_def elem_defs)
  ultimately show "\<exists>g'. neu_json_decode_template_group J
        (Some (snd (neu_json_encode_template_group J (json_of_group g) (json_object_new J)))) = Some (Some g') \<and>
      (\<exists>h. group_of_json g' = Some (Inr h) \<and> same_group g h)"
    using ts'(2) unfolding enc by (auto simp: same_group_def g)
qed

section \<open>Templates\<close>

definition template_fits :: "'j jansson \<Rightarrow> string \<Rightarrow> string \<Rightarrow> template_group list \<Rightarrow> bool" where
  "template_fits J name plugin groups \<longleftrightarrow>
     json_string J name \<noteq> None \<and> length name < NEU_TEMPLATE_NAME_LEN \<and>
     json_string J plugin \<noteq> None \<and> length plugin < NEU_PLUGIN_NAME_LEN \<and>
     length groups < 65536 \<and> (\<forall>g\<in>set groups. group_fits J g)"

definition template_object :: "'j jansson \<Rightarrow> string \<Rightarrow> string \<Rightarrow> template_group list \<Rightarrow> int \<times> 'j" where
  "template_object J name plugin groups = neu_json_encode_template J
     \<lparr>tm_name = Some name, tm_plugin = Some plugin, tm_groups = map json_of_group groups\<rparr> (json_object_new J)"

lemma exported_template:
  assumes ok: "jansson_more J" and fits: "template_fits J name plugin groups"
  shows "fst (template_object J name plugin groups) = 0"
    "\<exists>r groups'. neu_json_decode_template_json J (Some (snd (template_object J name plugin groups))) = Some (Some r) \<and>
      move_template_json r = Some (Inr (D_add_template name plugin groups')) \<and> list_all2 same_group groups groups'"
proof -
  let ?enc = "\<lambda>g. snd (neu_json_encode_template_group J (json_of_group g) (json_object_new J))"
  let ?arr = "append_all J (json_array_new J) (map ?enc groups)"
  let ?es = "[str_elem ''name'' (Some name), str_elem ''plugin'' (Some plugin), object_elem ''groups'' (Some ?arr)]"
  let ?root = "foldl (encode_object J) (json_object_new J) ?es"
  note f = fits [unfolded template_fits_def]
  have "encode_objects J (neu_json_encode_template_group J) (json_array_new J) (map json_of_group groups) = (0, ?arr)"
    using encode_objects_all [of "map json_of_group groups" "neu_json_encode_template_group J" J] f
      exported_group(1) [OF ok] by (simp add: comp_def)
  then have enc: "template_object J name plugin groups = (0, ?root)"
    using jansson_moreD(4) [OF ok]
    by (simp add: template_object_def neu_json_encode_template_def neu_json_encode_template_group_array_def
        encode_object_array_def neu_json_encode_field_def)
  then show "fst (template_object J name plugin groups) = 0" by simp
  have get: "json_object_get J ?root k = field_of J ?es k" for k by (rule get_encoded_new [OF ok]) simp
  have fields: "json_object_get J ?root ''name'' = Option.bind (Some name) (json_string J)"
    "json_object_get J ?root ''plugin'' = Option.bind (Some plugin) (json_string J)"
    "json_object_get J ?root ''groups'' = Some ?arr"
    unfolding get by (simp_all add: field_json_simps split: option.split)
  from f have dec: "decode_object J ?root (want ''name'' NEU_JSON_STR) = Some (0, str_elem ''name'' (Some name))"
    "decode_object J ?root (want ''plugin'' NEU_JSON_STR) = Some (0, str_elem ''plugin'' (Some plugin))"
    "decode_object J ?root (may_want ''groups'' NEU_JSON_OBJECT)
      = Some (0, (object_elem ''groups'' (Some ?arr))\<lparr>eattribute := NEU_JSON_ATTRIBUTE_OPTIONAL\<rparr>)"
    using decode_field_str [OF ok fields(1)] decode_field_str [OF ok fields(2)] fields(3)
    by (auto simp: decode_object_def may_want_def want_def elem_defs value_elem_def)
  obtain grps where grps: "neu_json_decode_template_group_array_json J (Some ?arr) = Some (Some grps)"
    "list_all2 (\<lambda>g g'. \<exists>h. group_of_json g' = Some (Inr h) \<and> same_group g h) groups grps"
    using decode_list_append_all [OF ok, of groups "neu_json_decode_template_group J" ?enc
        "\<lambda>g g'. \<exists>h. group_of_json g' = Some (Inr h) \<and> same_group g h"]
      exported_group(2) [OF ok] f append_all_array [OF ok, of "map ?enc groups"]
    by (auto simp: neu_json_decode_template_group_array_json_def)
  then obtain groups' where groups': "all_or_error group_of_json grps = Some (Inr groups')"
    "list_all2 same_group groups groups'"
    using all_or_error_all by blast
  with f have "length groups' < 65536" by (metis list_all2_lengthD)
  with groups' f have "move_template_json \<lparr>tm_name = Some name, tm_plugin = Some plugin, tm_groups = grps\<rparr>
      = Some (Inr (D_add_template name plugin groups'))"
    by (simp add: move_template_json_def)
  moreover have "neu_json_decode_template_json J (Some ?root)
      = Some (Some \<lparr>tm_name = Some name, tm_plugin = Some plugin, tm_groups = grps\<rparr>)"
    using dec grps(1)
    by (simp add: neu_json_decode_template_json_def neu_json_decode_by_json_def str_of_def elem_defs)
  ultimately show "\<exists>r groups'. neu_json_decode_template_json J (Some (snd (template_object J name plugin groups)))
      = Some (Some r) \<and> move_template_json r = Some (Inr (D_add_template name plugin groups')) \<and>
      list_all2 same_group groups groups'"
    using groups'(2) unfolding enc by auto
qed

text \<open>
  C36: A template can be copied over REST: what \<open>handle_get_template_resp\<close> answers for a template
  whose names, groups and tags JSON can carry, posted to \<open>handle_add_template\<close>, becomes exactly one
  command, which adds a template of the same name, plugin, groups and intervals, whose tags export
  the same values again and differ from the old ones only in what is computed from an address.
\<close>

theorem template_copied_over_rest:
  fixes E :: "('j, 'w) rest_env"
  assumes "jansson_more (re_json E)" "template_fits (re_json E) name plugin groups"
    and "json_dumps (re_json E) (snd (template_object (re_json E) name plugin groups)) = Some buf"
    and "json_loads (re_json E) buf True = Some (snd (template_object (re_json E) name plugin groups))"
    and "neu_http_get_body req = Some buf" "re_disable_jwt E" "\<forall>h d. re_op E h d = 0"
  shows "handle_get_template_resp (re_json E) name plugin groups = neu_http_ok (Some buf) \<and>
    (\<exists>groups'. handle_add_template E req st = Some
       \<lparr>ro_responses = [],
        ro_commands = [(\<lparr>rh_type = NEU_REQ_ADD_TEMPLATE, rh_ctx = hr_ctx req, rh_sender = [], rh_receiver = []\<rparr>,
                        D_add_template name plugin groups')],
        ro_keys = st\<rparr> \<and> list_all2 same_group groups groups')"
proof -
  obtain r groups' where "neu_json_decode_template_json (re_json E)
      (Some (snd (template_object (re_json E) name plugin groups))) = Some (Some r)"
    "move_template_json r = Some (Inr (D_add_template name plugin groups'))" "list_all2 same_group groups groups'"
    using exported_template(2) [OF assms(1,2)] by blast
  then have "handle_add_template E req st = Some
       \<lparr>ro_responses = [],
        ro_commands = [(\<lparr>rh_type = NEU_REQ_ADD_TEMPLATE, rh_ctx = hr_ctx req, rh_sender = [], rh_receiver = []\<rparr>,
                        D_add_template name plugin groups')],
        ro_keys = st\<rparr>"
    using assms(4-)
    by (simp add: handle_add_template_def NEU_PROCESS_HTTP_REQUEST_VALIDATE_JWT_def NEU_VALIDATE_JWT_def
        NEU_PROCESS_HTTP_REQUEST_def neu_json_decode_template_def neu_json_decode_new_def answer_error_def
        rest_command_def)
  moreover have "handle_get_template_resp (re_json E) name plugin groups = neu_http_ok (Some buf)"
    using exported_template(1) [OF assms(1,2)] assms(3)
    by (cases "template_object (re_json E) name plugin groups")
       (simp add: handle_get_template_resp_def neu_json_encode_by_fn_def template_object_def neu_json_encode_def)
  ultimately show ?thesis using \<open>list_all2 same_group groups groups'\<close> by blast
qed

definition demo_template_groups :: "template_group list" where
  "demo_template_groups = [(''g'', 1000, [demo_static_tag])]"

definition demo_template_json :: "jtree jansson" where
  "demo_template_json = jt_jansson\<lparr>json_dumps := (\<lambda>_. Some ''x''),
     json_loads := (\<lambda>_ _. Some (snd (template_object jt_jansson ''t'' ''modbus'' demo_template_groups)))\<rparr>"

lemma template_object_text:
  fixes J :: "'j jansson"
  shows "template_object (J\<lparr>json_dumps := d, json_loads := l\<rparr>) name plugin groups = template_object J name plugin groups"
proof -
  let ?J = "J\<lparr>json_dumps := d, json_loads := l\<rparr>"
  have "encode_object ?J ob e = encode_object J ob e" for ob e
    by (cases "et e") (simp_all add: encode_object_def json_set_def encode_bytes_def Let_def)
  then have "encode_object ?J = encode_object J" by blast
  then have field: "neu_json_encode_field ?J = neu_json_encode_field J"
    by (intro ext) (simp add: neu_json_encode_field_def)
  then have "neu_json_encode_tag_array ?J = neu_json_encode_tag_array J"
    by (intro ext) (simp add: neu_json_encode_tag_array_def encode_tags_def neu_json_encode_tag_def)
  with field have grp: "neu_json_encode_template_group ?J = neu_json_encode_template_group J"
    by (intro ext) (simp add: neu_json_encode_template_group_def split: prod.split)
  have "encode_objects ?J enc arr xs = encode_objects J enc arr xs"
    for enc :: "'j neu_json_template_group_t \<Rightarrow> 'j \<Rightarrow> int \<times> 'j" and arr xs
    by (induction xs arbitrary: arr) (simp_all add: Let_def split: prod.split)
  with field grp show ?thesis
    by (simp add: template_object_def neu_json_encode_template_def neu_json_encode_template_group_array_def
        encode_object_array_def split: prod.split)
qed

lemma template_copied_over_rest_witness:
  "handle_get_template_resp demo_template_json ''t'' ''modbus'' demo_template_groups = neu_http_ok (Some ''x'') \<and>
   (\<exists>groups'. handle_add_template (demo_env\<lparr>re_json := demo_template_json, re_disable_jwt := True, re_op := \<lambda>_ _. 0\<rparr>)
      (demo_req ''x'') jwt_start = Some
       \<lparr>ro_responses = [],
        ro_commands = [(\<lparr>rh_type = NEU_REQ_ADD_TEMPLATE, rh_ctx = hr_ctx (demo_req ''x''), rh_sender = [],
                         rh_receiver = []\<rparr>, D_add_template ''t'' ''modbus'' groups')],
        ro_keys = jwt_start\<rparr> \<and> list_all2 same_group demo_template_groups groups')"
proof -
  let ?E = "demo_env\<lparr>re_json := demo_template_json, re_disable_jwt := True, re_op := \<lambda>_ _. 0\<rparr>"
  have "jansson_more (jt_jansson\<lparr>json_dumps := d, json_loads := l\<rparr>)" for d l
    using jansson_more_jt by (simp add: jansson_more_def jansson_ok_def)
  then have "jansson_more (re_json ?E)" by (simp add: demo_template_json_def)
  moreover have "value_wf (put_word (7 :: u16) zero_value)"
    by (simp add: value_wf_def put_word_def vput_def zero_value_def sizeof_neu_value_u_def NEU_VALUE_SIZE_def)
  then have "template_fits (re_json ?E) ''t'' ''modbus'' demo_template_groups"
    by (simp add: template_fits_def group_fits_def tag_fits_def demo_template_groups_def demo_template_json_def
        exportable_def demo_static_tag_def demo_tag_def jt_jansson_def static_value_json_def
        neu_tag_attribute_test_def NEU_ATTRIBUTE_STATIC_def NEU_TEMPLATE_NAME_LEN_def NEU_PLUGIN_NAME_LEN_def
        NEU_GROUP_NAME_LEN_def NEU_GROUP_INTERVAL_LIMIT_def NEU_TAG_NAME_LEN_def NEU_TAG_ADDRESS_LEN_def)
  moreover have "template_object demo_template_json ''t'' ''modbus'' demo_template_groups
      = template_object jt_jansson ''t'' ''modbus'' demo_template_groups"
    unfolding demo_template_json_def by (rule template_object_text)
  ultimately show ?thesis
    using template_copied_over_rest [of ?E "''t''" "''modbus''" demo_template_groups "''x''" "demo_req ''x''" jwt_start]
    by (simp add: demo_template_json_def demo_req_def neu_http_get_body_def)
qed

end
