(* ===== verification/OldStore.thy ===== *)
theory OldStore
  imports Rest Plugins TagJson "HOL-Library.List_Lexorder" "HOL-Library.Char_ord"
begin

text \<open>
  The store of the old core (the \<open>neu_persister_\<close> functions of \<open>src/persist/persist.c\<close> and
  \<open>src/persist/json/persist_json_plugin.c\<close>): nodes, settings and tags in a database, its schema
  files, and the list of plugins in a file.

  SQLite and the file system are not part of the repository.  \<open>old_stmt\<close> names the statements the
  code runs, \<open>run_stmt\<close> is what they do to the tables by their text and by the cascades of the
  schema (\<open>persistence/0000_2.2.0_plugin-initial.sql\<close>), and the parameter \<open>oe_refuses\<close> says when one
  fails, by a constraint or otherwise.  A query may not be prepared or stop after some rows.  A
  statement that names a column the table of tags does not have fails too: the code names a column
  \<open>value\<close>, which the schema of the repository (\<open>schema_tag_columns\<close>) has not.  The
  program keeps \<open>global_db\<close> at NULL, since the call of \<open>neu_persister_create\<close> is commented out;
  SQLite then refuses every statement, which is \<open>gp_db = None\<close> here.
\<close>

section \<open>Tables\<close>

record node_row =
  nr_name :: "string option"
  nr_type :: int
  nr_state :: int
  nr_plugin :: "string option"

text \<open>
  The columns of the statements about tags, which are those of the table in the schema and \<open>value\<close>.
\<close>

record tag_row =
  tr_driver :: string
  tr_group :: string
  tr_name :: "string option"
  tr_address :: "string option"
  tr_attribute :: int
  tr_precision :: int
  tr_type :: int
  tr_decimal :: u64
  tr_description :: "string option"
  tr_value :: "string option"

record migration_row =
  mr_version :: string
  mr_description :: string
  mr_dirty :: bool

record old_db =
  od_nodes :: "node_row list"
  od_settings :: "(string \<times> string) list"
  od_tag_columns :: "string list"
  od_tags :: "tag_row list"
  od_migrations :: "migration_row list"

definition schema_tag_columns :: "string list" where
  "schema_tag_columns = [''driver_name'', ''group_name'', ''name'', ''address'', ''attribute'',
     ''precision'', ''decimal'', ''type'', ''description'']"

definition stored_tag_columns :: "string list" where
  "stored_tag_columns = [''driver_name'', ''group_name'', ''name'', ''address'', ''attribute'',
     ''precision'', ''type'', ''decimal'', ''description'', ''value'']"

datatype old_stmt =
    Pragma_foreign_keys | Pragma_journal | Begin | Commit | Create_migrations
  | Insert_migration string string
  | Clean_migration string
  | Insert_node node_row
  | Insert_or_ignore_node node_row
  | Delete_node string
  | Rename_node string string
  | Set_node_state string int
  | Replace_setting string string
  | Delete_setting string
  | Insert_tag tag_row
  | Update_tag tag_row
  | Update_tag_value string string string "string option"
  | Delete_tag string string string

text \<open>The columns of the table of tags that a statement names.\<close>

fun stmt_columns :: "old_stmt \<Rightarrow> string list" where
  "stmt_columns (Insert_tag r) = stored_tag_columns"
| "stmt_columns (Update_tag r) = stored_tag_columns"
| "stmt_columns (Update_tag_value d g n v) = [''value'', ''driver_name'', ''group_name'', ''name'']"
| "stmt_columns (Delete_tag d g n) = [''driver_name'', ''group_name'', ''name'']"
| "stmt_columns _ = []"

definition has_columns :: "old_db \<Rightarrow> string list \<Rightarrow> bool" where
  "has_columns db cs \<longleftrightarrow> set cs \<subseteq> set (od_tag_columns db)"

definition is_tag :: "string \<Rightarrow> string \<Rightarrow> string \<Rightarrow> tag_row \<Rightarrow> bool" where
  "is_tag driver grp name r \<longleftrightarrow> tr_driver r = driver \<and> tr_group r = grp \<and> tr_name r = Some name"

definition replace_tag :: "tag_row \<Rightarrow> tag_row \<Rightarrow> tag_row" where
  "replace_tag new r =
     (if tr_name new \<noteq> None \<and> is_tag (tr_driver new) (tr_group new) (the (tr_name new)) r then new else r)"

text \<open>A node takes its settings and, by its groups, its tags with it.\<close>

fun run_stmt :: "old_stmt \<Rightarrow> old_db \<Rightarrow> old_db" where
  "run_stmt (Insert_migration v d) db =
     db\<lparr>od_migrations := od_migrations db @ [\<lparr>mr_version = v, mr_description = d, mr_dirty = True\<rparr>]\<rparr>"
| "run_stmt (Clean_migration v) db =
     db\<lparr>od_migrations := map (\<lambda>m. if mr_version m = v then m\<lparr>mr_dirty := False\<rparr> else m) (od_migrations db)\<rparr>"
| "run_stmt (Insert_node r) db = db\<lparr>od_nodes := od_nodes db @ [r]\<rparr>"
| "run_stmt (Insert_or_ignore_node r) db =
     (if \<exists>r'\<in>set (od_nodes db). nr_name r' = nr_name r then db else db\<lparr>od_nodes := od_nodes db @ [r]\<rparr>)"
| "run_stmt (Delete_node n) db =
     db\<lparr>od_nodes := [r \<leftarrow> od_nodes db. nr_name r \<noteq> Some n],
        od_settings := [s \<leftarrow> od_settings db. fst s \<noteq> n],
        od_tags := [r \<leftarrow> od_tags db. tr_driver r \<noteq> n]\<rparr>"
| "run_stmt (Rename_node n m) db =
     db\<lparr>od_nodes := map (\<lambda>r. if nr_name r = Some n then r\<lparr>nr_name := Some m\<rparr> else r) (od_nodes db),
        od_settings := map (\<lambda>s. if fst s = n then (m, snd s) else s) (od_settings db),
        od_tags := map (\<lambda>r. if tr_driver r = n then r\<lparr>tr_driver := m\<rparr> else r) (od_tags db)\<rparr>"
| "run_stmt (Set_node_state n st) db =
     db\<lparr>od_nodes := map (\<lambda>r. if nr_name r = Some n then r\<lparr>nr_state := st\<rparr> else r) (od_nodes db)\<rparr>"
| "run_stmt (Replace_setting n s) db =
     db\<lparr>od_settings := [s \<leftarrow> od_settings db. fst s \<noteq> n] @ [(n, s)]\<rparr>"
| "run_stmt (Delete_setting n) db = db\<lparr>od_settings := [s \<leftarrow> od_settings db. fst s \<noteq> n]\<rparr>"
| "run_stmt (Insert_tag r) db = db\<lparr>od_tags := od_tags db @ [r]\<rparr>"
| "run_stmt (Update_tag r) db = db\<lparr>od_tags := map (replace_tag r) (od_tags db)\<rparr>"
| "run_stmt (Update_tag_value d g n v) db =
     db\<lparr>od_tags := map (\<lambda>r. if is_tag d g n r then r\<lparr>tr_value := v\<rparr> else r) (od_tags db)\<rparr>"
| "run_stmt (Delete_tag d g n) db = db\<lparr>od_tags := [r \<leftarrow> od_tags db. \<not> is_tag d g n r]\<rparr>"
| "run_stmt _ db = db"

text \<open>The query of the tags of a group names the same columns as the statement that stores one.\<close>

datatype old_query =
    OQ_schema_version | OQ_should_apply | OQ_node_count | OQ_tag_count | OQ_nodes | OQ_tags | OQ_setting

text \<open>
  \<open>oe_prepares\<close>: the query is prepared and bound.  \<open>oe_steps\<close>: the rows before a step that fails.
  \<open>oe_script\<close>: the SQL of a schema file, whether it succeeds and what it leaves.  \<open>oe_lf\<close>: the
  number that the text of \<open>%lf\<close>, six digits behind the point, is read as.
\<close>

record 'j old_env =
  oe_json :: "'j jansson"
  oe_refuses :: "old_db \<Rightarrow> old_stmt \<Rightarrow> bool"
  oe_prepares :: "old_query \<Rightarrow> bool"
  oe_steps :: "old_query \<Rightarrow> nat option"
  oe_script :: "string option \<Rightarrow> old_db \<Rightarrow> bool \<times> old_db"
  oe_lf :: "u64 \<Rightarrow> u64"

record persister =
  gp_db :: "old_db option"
  gp_node_count :: int
  gp_tag_count :: int

definition execute_sql :: "'j old_env \<Rightarrow> old_stmt \<Rightarrow> persister \<Rightarrow> int \<times> persister" where
  "execute_sql E stmt p =
     (case gp_db p of
        None \<Rightarrow> (NEU_ERR_EINTERNAL, p)
      | Some db \<Rightarrow>
          if \<not> has_columns db (stmt_columns stmt) \<or> oe_refuses E db stmt then (NEU_ERR_EINTERNAL, p)
          else (0, p\<lparr>gp_db := Some (run_stmt stmt db)\<rparr>))"

fun query_columns :: "old_query \<Rightarrow> string list" where
  "query_columns OQ_tags = stored_tag_columns"
| "query_columns _ = []"

text \<open>The rows of a query and whether its steps end with \<open>SQLITE_DONE\<close>; \<open>None\<close>: not prepared.\<close>

definition query_rows ::
  "'j old_env \<Rightarrow> old_query \<Rightarrow> (old_db \<Rightarrow> 'r list) \<Rightarrow> persister \<Rightarrow> ('r list \<times> bool) option" where
  "query_rows E q rows p =
     (case gp_db p of
        None \<Rightarrow> None
      | Some db \<Rightarrow>
          if \<not> has_columns db (query_columns q) \<or> \<not> oe_prepares E q then None
          else (case oe_steps E q of
                  None \<Rightarrow> Some (rows db, True)
                | Some n \<Rightarrow> Some (take n (rows db), length (rows db) < n)))"

section \<open>Nodes\<close>

record neu_persist_node_info_t =
  ni_name :: string
  ni_type :: int
  ni_plugin :: string
  ni_state :: int

definition node_count_add :: "int \<Rightarrow> persister \<Rightarrow> persister" where
  "node_count_add n p = p\<lparr>gp_node_count := gp_node_count p + n\<rparr>"

definition tag_count_add :: "int \<Rightarrow> persister \<Rightarrow> persister" where
  "tag_count_add n p = p\<lparr>gp_tag_count := gp_tag_count p + n\<rparr>"

text \<open>A count is one row.\<close>

definition node_count_load :: "'j old_env \<Rightarrow> persister \<Rightarrow> int \<times> persister" where
  "node_count_load E p =
     (case query_rows E OQ_node_count (\<lambda>db. [int (length (od_nodes db))]) p of
        Some (n # _, _) \<Rightarrow> (0, p\<lparr>gp_node_count := n\<rparr>)
      | _ \<Rightarrow> (- 1, p))"

definition tag_count_load :: "'j old_env \<Rightarrow> persister \<Rightarrow> int \<times> persister" where
  "tag_count_load E p =
     (case query_rows E OQ_tag_count (\<lambda>db. [int (length (od_tags db))]) p of
        Some (n # _, _) \<Rightarrow> (0, p\<lparr>gp_tag_count := n\<rparr>)
      | _ \<Rightarrow> (- 1, p))"

definition row_of_node :: "neu_persist_node_info_t \<Rightarrow> node_row" where
  "row_of_node info = \<lparr>nr_name = Some (ni_name info), nr_type = ni_type info, nr_state = ni_state info,
     nr_plugin = Some (ni_plugin info)\<rparr>"

text \<open>A monitor that is stored is not counted.\<close>

definition neu_persister_store_node ::
  "'j old_env \<Rightarrow> neu_persist_node_info_t \<Rightarrow> persister \<Rightarrow> int \<times> persister" where
  "neu_persister_store_node E info p =
     (if ni_plugin info = ''Monitor'' then execute_sql E (Insert_or_ignore_node (row_of_node info)) p
      else (case execute_sql E (Insert_node (row_of_node info)) p of
              (rv, p') \<Rightarrow> (rv, if rv = 0 then node_count_add 1 p' else p')))"

definition node_of_row :: "node_row \<Rightarrow> neu_persist_node_info_t option" where
  "node_of_row r = do {
     name \<leftarrow> nr_name r;
     plugin \<leftarrow> nr_plugin r;
     Some \<lparr>ni_name = name, ni_type = nr_type r, ni_plugin = plugin, ni_state = nr_state r\<rparr>
   }"

text \<open>The outer \<open>None\<close> is a crash.  A step that fails leaves a partial result without an error.\<close>

definition neu_persister_load_nodes ::
  "'j old_env \<Rightarrow> persister \<Rightarrow> (int + neu_persist_node_info_t list) option" where
  "neu_persister_load_nodes E p =
     (case query_rows E OQ_nodes od_nodes p of
        None \<Rightarrow> Some (Inl NEU_ERR_EINTERNAL)
      | Some (rows, _) \<Rightarrow> map_option Inr (those (map node_of_row rows)))"

definition neu_persister_delete_node :: "'j old_env \<Rightarrow> string \<Rightarrow> persister \<Rightarrow> int \<times> persister" where
  "neu_persister_delete_node E name p =
     (case execute_sql E (Delete_node name) p of
        (rv, p') \<Rightarrow> (rv, if rv = 0 then snd (tag_count_load E (node_count_add (- 1) p')) else p'))"

definition neu_persister_update_node :: "'j old_env \<Rightarrow> string \<Rightarrow> string \<Rightarrow> persister \<Rightarrow> int \<times> persister" where
  "neu_persister_update_node E name new_name = execute_sql E (Rename_node name new_name)"

definition neu_persister_update_node_state :: "'j old_env \<Rightarrow> string \<Rightarrow> int \<Rightarrow> persister \<Rightarrow> int \<times> persister" where
  "neu_persister_update_node_state E name st = execute_sql E (Set_node_state name st)"

section \<open>Settings\<close>

definition neu_persister_store_node_setting ::
  "'j old_env \<Rightarrow> string \<Rightarrow> string \<Rightarrow> persister \<Rightarrow> int \<times> persister" where
  "neu_persister_store_node_setting E name setting = execute_sql E (Replace_setting name setting)"

definition neu_persister_load_node_setting :: "'j old_env \<Rightarrow> string \<Rightarrow> persister \<Rightarrow> int + string" where
  "neu_persister_load_node_setting E name p =
     (case query_rows E OQ_setting (\<lambda>db. [snd s. s \<leftarrow> od_settings db, fst s = name]) p of
        Some (s # _, _) \<Rightarrow> Inr s
      | _ \<Rightarrow> Inl NEU_ERR_EINTERNAL)"

definition neu_persister_delete_node_setting :: "'j old_env \<Rightarrow> string \<Rightarrow> persister \<Rightarrow> int \<times> persister" where
  "neu_persister_delete_node_setting E name = execute_sql E (Delete_setting name)"

section \<open>Tags\<close>

text \<open>Numbers go in as 32 bit integers; \<open>dec\<close> is what becomes of the decimal.\<close>

definition row_of_tag ::
  "'j old_env \<Rightarrow> (u64 \<Rightarrow> u64) \<Rightarrow> string \<Rightarrow> string \<Rightarrow> neu_datatag_t \<Rightarrow> tag_row" where
  "row_of_tag E dec driver grp tag =
     \<lparr>tr_driver = driver, tr_group = grp, tr_name = Some (tname tag), tr_address = Some (address tag),
      tr_attribute = sint (attribute tag), tr_precision = int (unat (precision tag)),
      tr_type = int (neu_type_code (ttype tag)), tr_decimal = dec (decimal tag),
      tr_description = Some (description tag), tr_value = neu_tag_dump_static_value (oe_json E) tag\<rparr>"

definition neu_persister_store_tag ::
  "'j old_env \<Rightarrow> string \<Rightarrow> string \<Rightarrow> neu_datatag_t \<Rightarrow> persister \<Rightarrow> int \<times> persister" where
  "neu_persister_store_tag E driver grp tag p =
     (case execute_sql E (Insert_tag (row_of_tag E (oe_lf E) driver grp tag)) p of
        (rv, p') \<Rightarrow> (rv, if rv = 0 then tag_count_add 1 p' else p'))"

text \<open>The loop of a transaction; \<open>None\<close> when a binding or a step fails.\<close>

fun put_tags :: "'j old_env \<Rightarrow> string \<Rightarrow> string \<Rightarrow> neu_datatag_t list \<Rightarrow> old_db \<Rightarrow> old_db option" where
  "put_tags E driver grp [] db = Some db"
| "put_tags E driver grp (tag # tags) db =
     (let stmt = Insert_tag (row_of_tag E (\<lambda>d. d) driver grp tag)
      in if oe_refuses E db stmt then None else put_tags E driver grp tags (run_stmt stmt db))"

definition neu_persister_store_tags ::
  "'j old_env \<Rightarrow> string \<Rightarrow> string \<Rightarrow> neu_datatag_t list \<Rightarrow> persister \<Rightarrow> int \<times> persister" where
  "neu_persister_store_tags E driver grp tags p =
     (case gp_db p of
        None \<Rightarrow> (NEU_ERR_EINTERNAL, p)
      | Some db \<Rightarrow>
          if oe_refuses E db Begin \<or> \<not> has_columns db stored_tag_columns then (NEU_ERR_EINTERNAL, p)
          else (case put_tags E driver grp tags db of
                  None \<Rightarrow> (NEU_ERR_EINTERNAL, p)
                | Some db' \<Rightarrow>
                    if oe_refuses E db' Commit then (NEU_ERR_EINTERNAL, p)
                    else (0, tag_count_add (int (length tags)) (p\<lparr>gp_db := Some db'\<rparr>))))"

text \<open>
  A column that is NULL is copied by \<open>strdup\<close>, a crash; a number that is no type is left out of
  the model.  Both are \<open>None\<close>.
\<close>

definition tag_of_row :: "'j old_env \<Rightarrow> tag_row \<Rightarrow> neu_datatag_t option" where
  "tag_of_row E r = do {
     name \<leftarrow> tr_name r;
     addr \<leftarrow> tr_address r;
     desc \<leftarrow> tr_description r;
     ty \<leftarrow> type_of_number (ucast (of_int (tr_type r) :: u32));
     let tag = calloc_tag\<lparr>tname := name, address := addr, attribute := of_int (tr_attribute r),
         precision := of_int (tr_precision r), ttype := ty, decimal := tr_decimal r, description := desc\<rparr>;
     if neu_tag_attribute_test tag NEU_ATTRIBUTE_STATIC
     then map_option snd (neu_tag_load_static_value (oe_json E) (neu_tag_dup tag) (tr_value r))
     else Some (neu_tag_dup tag)
   }"

definition neu_persister_load_tags ::
  "'j old_env \<Rightarrow> string \<Rightarrow> string \<Rightarrow> persister \<Rightarrow> (int + neu_datatag_t list) option" where
  "neu_persister_load_tags E driver grp p =
     (case query_rows E OQ_tags (\<lambda>db. [r \<leftarrow> od_tags db. tr_driver r = driver \<and> tr_group r = grp]) p of
        None \<Rightarrow> Some (Inl NEU_ERR_EINTERNAL)
      | Some (rows, _) \<Rightarrow> map_option Inr (those (map (tag_of_row E) rows)))"

definition neu_persister_update_tag ::
  "'j old_env \<Rightarrow> string \<Rightarrow> string \<Rightarrow> neu_datatag_t \<Rightarrow> persister \<Rightarrow> int \<times> persister" where
  "neu_persister_update_tag E driver grp tag = execute_sql E (Update_tag (row_of_tag E (oe_lf E) driver grp tag))"

definition neu_persister_update_tag_value ::
  "'j old_env \<Rightarrow> string \<Rightarrow> string \<Rightarrow> neu_datatag_t \<Rightarrow> persister \<Rightarrow> int \<times> persister" where
  "neu_persister_update_tag_value E driver grp tag =
     execute_sql E (Update_tag_value driver grp (tname tag) (neu_tag_dump_static_value (oe_json E) tag))"

text \<open>The count goes down also when there was no such tag.\<close>

definition neu_persister_delete_tag ::
  "'j old_env \<Rightarrow> string \<Rightarrow> string \<Rightarrow> string \<Rightarrow> persister \<Rightarrow> int \<times> persister" where
  "neu_persister_delete_tag E driver grp name p =
     (case execute_sql E (Delete_tag driver grp name) p of
        (rv, p') \<Rightarrow> (rv, if rv = 0 then tag_count_add (- 1) p' else p'))"

end
