(* ===== verification/StoreFiles.thy ===== *)
theory StoreFiles
  imports OldStore
begin

text \<open>
  The files of the store of the old core (\<open>src/persist/persist.c\<close>): paths, reading and writing a
  file, the two lists of plugins, and the schema files that bring the database up to date.

  The file system is a map from paths to contents, with the record \<open>file_faults\<close> of what fails.
  Memory is always there.
\<close>

section \<open>Texts and paths\<close>

definition PATH_MAX_SIZE :: nat where "PATH_MAX_SIZE = 128"

definition ends_with :: "string \<Rightarrow> string \<Rightarrow> bool" where
  "ends_with str sfx \<longleftrightarrow>
     length sfx \<le> length str \<and> drop (length str - length sfx) str = sfx"

text \<open>The loop that copies up to \<open>room\<close> characters; \<open>dst\<close> is what was written.\<close>

fun path_copy :: "nat \<Rightarrow> string \<Rightarrow> string \<Rightarrow> string" where
  "path_copy room dst [] = dst"
| "path_copy room dst (c # src) = (if length dst < room then path_copy room (dst @ [c]) src else dst)"

text \<open>
  The result and the text in the buffer, whose first \<open>len\<close> characters are \<open>dst\<close>.  A buffer
  that was filled loses its last character to the NUL.
\<close>

definition path_cat :: "string \<Rightarrow> nat \<Rightarrow> string \<Rightarrow> nat \<times> string" where
  "path_cat dst room src =
     (let dst1 = (if 0 < length dst \<and> length dst < room \<and> last dst \<noteq> CHR ''/'' then dst @ ''/'' else dst);
          src1 = (case src of c # cs \<Rightarrow> if c = CHR ''/'' then cs else src | [] \<Rightarrow> []);
          dst2 = path_copy room dst1 src1
      in (length dst2, if length dst2 = room \<and> 0 < room then take (room - 1) dst2 else dst2))"

section \<open>Files\<close>

type_synonym files = "string \<Rightarrow> string option"

record file_faults =
  ff_create :: "string \<Rightarrow> bool"
  ff_written :: "string \<Rightarrow> nat option"  \<comment> \<open>the characters a write that fails leaves\<close>
  ff_rename :: "string \<Rightarrow> bool"
  ff_open :: "string \<Rightarrow> bool"
  ff_stat :: "string \<Rightarrow> bool"
  ff_read :: "string \<Rightarrow> bool"

definition write_file_string :: "file_faults \<Rightarrow> string \<Rightarrow> string \<Rightarrow> files \<Rightarrow> int \<times> files" where
  "write_file_string F fn s files =
     (let tmp = fn @ ''.tmp''
      in if ff_create F tmp then (- 1, files)
         else (case ff_written F tmp of
                 Some n \<Rightarrow> (- 1, files(tmp \<mapsto> take n s))
               | None \<Rightarrow>
                   if ff_rename F tmp then (- 1, files(tmp \<mapsto> s))
                   else (0, files(tmp := None, fn \<mapsto> s))))"

text \<open>
  The result and \<open>*out\<close>, which only a success sets.  A size that cannot be found is no error.  A
  short read is an error, as it is when nothing interrupted it.
\<close>

definition read_file_string :: "file_faults \<Rightarrow> string \<Rightarrow> files \<Rightarrow> int \<times> string option" where
  "read_file_string F fn files =
     (case files fn of
        None \<Rightarrow> (- 1, None)
      | Some text \<Rightarrow>
          if ff_open F fn then (- 1, None)
          else if ff_stat F fn then (0, None)
          else if ff_read F fn then (- 1, None)
          else (0, Some (takeWhile (\<lambda>c. c \<noteq> CHR 0x00) text)))"

section \<open>Plugins\<close>

fun decode_plugin_names :: "'j jansson \<Rightarrow> 'j \<Rightarrow> nat list \<Rightarrow> string option list option option" where
  "decode_plugin_names J json_obj [] = Some (Some [])"
| "decode_plugin_names J json_obj (i # is) =
     (case neu_json_decode_array_by_json J json_obj ''plugins'' i [this_elem NEU_JSON_STR zero_json_value] of
        None \<Rightarrow> None
      | Some (ret, es) \<Rightarrow>
          if ret \<noteq> 0 then Some None
          else map_option (map_option ((#) (jstr (ev (es ! 0))))) (decode_plugin_names J json_obj is))"

text \<open>A list of no plugins is an error.\<close>

definition neu_json_decode_plugin_req :: "'j jansson \<Rightarrow> string option \<Rightarrow> string option list option option" where
  "neu_json_decode_plugin_req J buf =
     (case Option.bind buf (neu_json_decode_new J) of
        None \<Rightarrow> Some None
      | Some json_obj \<Rightarrow>
          let n = neu_json_decode_array_size_by_json J json_obj ''plugins''
          in if n \<le> 0 then Some None else decode_plugin_names J json_obj [0..<nat n])"

definition neu_json_encode_plugin_resp :: "'j jansson \<Rightarrow> string option list \<Rightarrow> 'j \<Rightarrow> int \<times> 'j" where
  "neu_json_encode_plugin_resp J plugins json_object =
     (let plugin_array = foldl (\<lambda>arr name. neu_json_encode_array_value J (Some arr)
            [this_elem NEU_JSON_STR (zero_json_value\<lparr>jstr := name\<rparr>)]) (json_array_new J) plugins
      in neu_json_encode_field J json_object [object_elem ''plugins'' (Some plugin_array)])"

definition plugin_file :: string where "plugin_file = ''persistence/plugins.json''"
definition default_plugin_file :: string where "default_plugin_file = ''config/default_plugins.json''"

text \<open>
  Plugins of the system are left out, but the array keeps its length: NULLs fill it up.  No text
  (\<open>None\<close>) crashes where it is written.
\<close>

definition neu_persister_store_plugins ::
  "'j jansson \<Rightarrow> file_faults \<Rightarrow> neu_resp_plugin_info_t list \<Rightarrow> files \<Rightarrow> (int \<times> files) option" where
  "neu_persister_store_plugins J F infos files =
     (let kept = [pi_library i. i \<leftarrow> infos, pi_kind i \<noteq> NEU_PLUGIN_KIND_SYSTEM];
          plugins = map Some kept @ replicate (length infos - length kept) None
      in case neu_json_encode_by_fn J (neu_json_encode_plugin_resp J plugins) of
           (rv, result) \<Rightarrow>
             if rv \<noteq> 0 then Some (rv, files)
             else map_option (\<lambda>s. write_file_string F plugin_file s files) result)"

text \<open>A name that is NULL crashes when it is compared or used; it is a crash here.\<close>

definition load_plugins_file ::
  "'j jansson \<Rightarrow> file_faults \<Rightarrow> string \<Rightarrow> files \<Rightarrow> (int \<times> string list) option" where
  "load_plugins_file J F fname files =
     (case read_file_string F fname files of
        (rv, json_str) \<Rightarrow>
          if rv \<noteq> 0 then Some (rv, [])
          else (case neu_json_decode_plugin_req J json_str of
                  None \<Rightarrow> None
                | Some None \<Rightarrow> Some (- 1, [])
                | Some (Some names) \<Rightarrow> map_option (Pair 0) (those names)))"

text \<open>\<open>bsearch\<close> of the C library between \<open>l\<close> and \<open>u\<close>, also over an array that is not sorted.\<close>

function bsearch_from :: "string list \<Rightarrow> string \<Rightarrow> nat \<Rightarrow> nat \<Rightarrow> bool" where
  "bsearch_from xs key l u =
     (if u \<le> l then False
      else let i = (l + u) div 2
           in if key < xs ! i then bsearch_from xs key l i
              else if xs ! i < key then bsearch_from xs key (Suc i) u
              else True)"
  by pat_completeness auto

termination by (relation "measure (\<lambda>(xs, key, l, u). u - l)") auto

declare bsearch_from.simps [simp del]

definition utarray_find :: "string list \<Rightarrow> string \<Rightarrow> bool" where
  "utarray_find xs key = bsearch_from xs key 0 (length xs)"

text \<open>New names go behind the sorted ones, and the search goes on over all of them.\<close>

definition add_plugin_names :: "string list \<Rightarrow> string list \<Rightarrow> string list" where
  "add_plugin_names = foldl (\<lambda>names n. if utarray_find names n then names else names @ [n])"

definition neu_persister_load_plugins ::
  "'j jansson \<Rightarrow> file_faults \<Rightarrow> files \<Rightarrow> string list option" where
  "neu_persister_load_plugins J F files =
     (case load_plugins_file J F default_plugin_file files of
        None \<Rightarrow> None
      | Some (_, defaults) \<Rightarrow>
          (case load_plugins_file J F plugin_file files of
             None \<Rightarrow> None
           | Some (rv, users) \<Rightarrow> Some (add_plugin_names (if rv \<noteq> 0 then defaults else sort defaults) users)))"

section \<open>Schema files\<close>

text \<open>\<open>Inl\<close>: an error.  The row with the highest version is asked for; a step that fails is none.\<close>

definition get_schema_version :: "'j old_env \<Rightarrow> persister \<Rightarrow> int + migration_row option" where
  "get_schema_version E p =
     (case query_rows E OQ_schema_version
         (\<lambda>db. take 1 (rev (sort_key mr_version (od_migrations db)))) p of
        None \<Rightarrow> Inl NEU_ERR_EINTERNAL
      | Some ([], _) \<Rightarrow> Inr None
      | Some (m # _, _) \<Rightarrow> Inr (Some m))"

definition extract_schema_info :: "string \<Rightarrow> (string \<times> string) option" where
  "extract_schema_info file =
     (if \<not> ends_with file ''.sql'' then None
      else (case strchr file CHR ''_'' of
              None \<Rightarrow> None
            | Some sep \<Rightarrow>
                let n = length file - length sep
                in if n \<noteq> 4 \<or> tl sep = ''.sql'' then None
                   else Some (take n file, take (length (tl sep) - 4) (tl sep))))"

definition should_apply :: "'j old_env \<Rightarrow> string \<Rightarrow> persister \<Rightarrow> int" where
  "should_apply E version p =
     (case query_rows E OQ_should_apply
         (\<lambda>db. [length [m \<leftarrow> od_migrations db. mr_version m = version]]) p of
        Some (n # _, _) \<Rightarrow> if n = 0 then 1 else 0
      | _ \<Rightarrow> - 1)"

definition run_script :: "'j old_env \<Rightarrow> string option \<Rightarrow> persister \<Rightarrow> bool \<times> persister" where
  "run_script E sql p =
     (case gp_db p of
        None \<Rightarrow> (False, p)
      | Some db \<Rightarrow> (case oe_script E sql db of (ok, db') \<Rightarrow> (ok, p\<lparr>gp_db := Some db'\<rparr>)))"

definition apply_schema_file ::
  "'j old_env \<Rightarrow> file_faults \<Rightarrow> files \<Rightarrow> string \<Rightarrow> string \<Rightarrow> persister \<Rightarrow> int \<times> persister" where
  "apply_schema_file E F files dir file p =
     (let (n, path1) = path_cat [] PATH_MAX_SIZE dir; (m, path) = path_cat path1 PATH_MAX_SIZE file
      in if PATH_MAX_SIZE \<le> n \<or> PATH_MAX_SIZE \<le> m then (- 1, p)
         else (case extract_schema_info file of
                 None \<Rightarrow> (0, p)
               | Some (version, desc) \<Rightarrow>
                   let rv = should_apply E version p
                   in if rv \<le> 0 then (rv, p)
                      else (case read_file_string F path files of
                              (rv, sql) \<Rightarrow>
                                if rv \<noteq> 0 then (rv, p)
                                else (case execute_sql E (Insert_migration version desc) p of
                                        (rv, p1) \<Rightarrow>
                                          if rv \<noteq> 0 then (rv, p1)
                                          else (case run_script E sql p1 of
                                                  (ok, p2) \<Rightarrow>
                                                    if \<not> ok then (NEU_ERR_EINTERNAL, p2)
                                                    else execute_sql E (Clean_migration version) p2)))))"

text \<open>\<open>ls\<close> is the directory in the order of \<open>readdir\<close>.\<close>

definition collect_schemas :: "(string \<Rightarrow> string list option) \<Rightarrow> string \<Rightarrow> string list option" where
  "collect_schemas ls dir = map_option (filter (\<lambda>f. ends_with f ''.sql'')) (ls dir)"

fun apply_schema_files ::
  "'j old_env \<Rightarrow> file_faults \<Rightarrow> files \<Rightarrow> string \<Rightarrow> string list \<Rightarrow> persister \<Rightarrow> int \<times> persister" where
  "apply_schema_files E F files dir [] p = (0, p)"
| "apply_schema_files E F files dir (f # fs) p =
     (case apply_schema_file E F files dir f p of
        (rv, p') \<Rightarrow> if rv \<noteq> 0 then (NEU_ERR_EINTERNAL, p') else apply_schema_files E F files dir fs p')"

definition apply_schemas ::
  "'j old_env \<Rightarrow> file_faults \<Rightarrow> files \<Rightarrow> (string \<Rightarrow> string list option) \<Rightarrow> string \<Rightarrow> persister \<Rightarrow> int \<times> persister" where
  "apply_schemas E F files ls dir p =
     (case execute_sql E Create_migrations p of
        (rv, p1) \<Rightarrow>
          if rv \<noteq> 0 then (NEU_ERR_EINTERNAL, p1)
          else (case get_schema_version E p1 of
                  Inl _ \<Rightarrow> (NEU_ERR_EINTERNAL, p1)
                | Inr head \<Rightarrow>
                    if (case head of None \<Rightarrow> False | Some m \<Rightarrow> mr_dirty m) then (NEU_ERR_EINTERNAL, p1)
                    else (case collect_schemas ls dir of
                            None \<Rightarrow> (NEU_ERR_EINTERNAL, p1)
                          | Some fs \<Rightarrow> apply_schema_files E F files dir (sort fs) p1)))"

text \<open>
  \<open>opened\<close> is what is found in the file of the database, \<open>None\<close> when it cannot be opened.  A step
  that fails closes the connection, which is not used again.
\<close>

definition create_step :: "int \<times> persister \<Rightarrow> (persister \<Rightarrow> int \<times> persister) \<Rightarrow> int \<times> persister" where
  "create_step r k = (case r of (rv, p) \<Rightarrow> if rv \<noteq> 0 then (- 1, p\<lparr>gp_db := None\<rparr>) else k p)"

definition neu_persister_create ::
  "'j old_env \<Rightarrow> file_faults \<Rightarrow> files \<Rightarrow> (string \<Rightarrow> string list option) \<Rightarrow> old_db option \<Rightarrow> string \<Rightarrow>
    persister \<Rightarrow> int \<times> persister" where
  "neu_persister_create E F files ls opened dir p =
     (if opened = None then (- 1, p\<lparr>gp_db := None\<rparr>)
      else create_step (execute_sql E Pragma_foreign_keys (p\<lparr>gp_db := opened\<rparr>)) (\<lambda>p1.
           create_step (execute_sql E Pragma_journal p1) (\<lambda>p2.
           create_step (apply_schemas E F files ls dir p2) (\<lambda>p3.
           create_step (node_count_load E p3) (\<lambda>p4.
           create_step (tag_count_load E p4) (\<lambda>p5. (0, p5)))))))"

end
