(* ===== verification/StoreLaws.thy ===== *)
theory StoreLaws
  imports StoreFiles TemplateLaws
begin

text \<open>
  The store of the old core: with the schema of the repository tags are never stored (\<open>tags_refused\<close>),
  with a table that has the missing column they would be loaded again, and the counts do not exceed
  the rows as long as they can be read.
\<close>

section \<open>Tags\<close>

text \<open>
  The table of tags that the schema makes has no column \<open>value\<close>: no tag is stored, changed or loaded,
  and every attempt is an error that changes nothing.
\<close>

lemma schema_misses_value:
  "\<not> set stored_tag_columns \<subseteq> set schema_tag_columns" "''value'' \<notin> set schema_tag_columns"
  by (simp_all add: stored_tag_columns_def schema_tag_columns_def)

lemma tags_refused:
  assumes "gp_db p = Some db" "od_tag_columns db = schema_tag_columns"
  shows "neu_persister_store_tag E driver grp tag p = (NEU_ERR_EINTERNAL, p)"
    "neu_persister_store_tags E driver grp tags p = (NEU_ERR_EINTERNAL, p)"
    "neu_persister_update_tag E driver grp tag p = (NEU_ERR_EINTERNAL, p)"
    "neu_persister_update_tag_value E driver grp tag p = (NEU_ERR_EINTERNAL, p)"
    "neu_persister_load_tags E driver grp p = Some (Inl NEU_ERR_EINTERNAL)"
  using assms schema_misses_value
  by (simp_all add: neu_persister_store_tag_def neu_persister_store_tags_def neu_persister_update_tag_def
      neu_persister_update_tag_value_def neu_persister_load_tags_def execute_sql_def query_rows_def has_columns_def)

text \<open>
  The rest of this section is about a database whose table of tags has that column.  A tag can be read
  back when its static value can be carried by JSON; whether the constraints of the table accept
  it, which they do not for a static tag in the schema of the repository, is up to \<open>oe_refuses\<close>.
\<close>

definition storable :: "'j jansson \<Rightarrow> neu_datatag_t \<Rightarrow> bool" where
  "storable J t \<longleftrightarrow>
     (if neu_tag_attribute_test t NEU_ATTRIBUTE_STATIC
      then static_carried J t \<and> (\<forall>v. static_ptr t = Some v \<longrightarrow> value_wf v)
      else static_ptr t = None)"

lemma load_static_other:
  "neu_tag_load_static_value J tag s = Some (0, tag') \<Longrightarrow> \<exists>x. tag' = tag\<lparr>static_ptr := Some x\<rparr>"
  by (auto simp: neu_tag_load_static_value_def split: if_splits option.splits
      dest: set_static_value_json_other)

lemma dup_blank_tag: "neu_tag_dup (blank_tag t) = blank_tag t"
  by (simp add: neu_tag_dup_def tag_array_copy_def blank_tag_def calloc_tag_def Let_def)

lemma blank_tag_attribute [simp]:
  "neu_tag_attribute_test (blank_tag t) a = neu_tag_attribute_test t a" "ttype (blank_tag t) = ttype t"
  by (simp_all add: neu_tag_attribute_test_def blank_tag_def)

lemma same_datatagI:
  assumes "t' = (blank_tag t)\<lparr>static_ptr := x\<rparr>"
    and "neu_tag_get_static_value_json t' NEU_JSON_UNDEFINE (zero_json_value :: unit neu_json_value_u)
      = neu_tag_get_static_value_json t NEU_JSON_UNDEFINE zero_json_value"
  shows "same_datatag t t'"
proof -
  have "address t' = address t" "tname t' = tname t" "description t' = description t"
    "ttype t' = ttype t" "attribute t' = attribute t" "precision t' = precision t" "decimal t' = decimal t"
    by (simp_all add: assms(1) blank_tag_def)
  then have "(json_of_tag t' :: unit neu_json_tag_t) = json_of_tag t"
    using assms(2) by (simp add: json_of_tag_def neu_tag_attribute_test_def)
  then show ?thesis using assms(1) by (simp add: same_datatag_def blank_tag_other)
qed

lemma row_tag:
  "tag_of_row E (row_of_tag E (\<lambda>d. d) driver grp t) =
     (if neu_tag_attribute_test t NEU_ATTRIBUTE_STATIC
      then map_option snd (neu_tag_load_static_value (oe_json E) (blank_tag t)
        (neu_tag_dump_static_value (oe_json E) t))
      else Some (blank_tag t))"
proof -
  have ty: "type_of_number (ucast (of_int (int (neu_type_code (ttype t))) :: u32)) = Some (ttype t)"
    using type_of_number_code [of "ttype t"] by (cases "ttype t") simp_all
  have tag: "calloc_tag\<lparr>tname := tname t, address := address t, attribute := attribute t,
      precision := precision t, ttype := ttype t, decimal := decimal t,
      description := description t\<rparr> = blank_tag t"
    by (simp add: blank_tag_def)
  show ?thesis
    unfolding tag_of_row_def row_of_tag_def by (simp add: ty tag dup_blank_tag Let_def del: of_int_of_nat_eq)
qed

lemma stored_tag:
  assumes "jansson_ok (oe_json E)" "storable (oe_json E) t"
  shows "\<exists>t'. tag_of_row E (row_of_tag E (\<lambda>d. d) driver grp t) = Some t' \<and> same_datatag t t'"
proof (cases "neu_tag_attribute_test t NEU_ATTRIBUTE_STATIC")
  case True
  with assms(2) have "static_carried (oe_json E) t" "\<forall>v. static_ptr t = Some v \<longrightarrow> value_wf v"
    by (simp_all add: storable_def)
  then obtain t' where t': "neu_tag_load_static_value (oe_json E) (blank_tag t)
        (neu_tag_dump_static_value (oe_json E) t) = Some (0, t')"
    "neu_tag_get_static_value_json t' NEU_JSON_UNDEFINE (zero_json_value :: unit neu_json_value_u)
      = neu_tag_get_static_value_json t NEU_JSON_UNDEFINE zero_json_value"
    using static_dump_load [OF assms(1), of t "blank_tag t"] True by force
  from load_static_other [OF t'(1)] obtain x where "t' = (blank_tag t)\<lparr>static_ptr := Some x\<rparr>" by blast
  from same_datatagI [OF this t'(2)] t'(1) True show ?thesis by (simp add: row_tag)
next
  case False
  have "blank_tag t = (blank_tag t)\<lparr>static_ptr := None\<rparr>" by (simp add: blank_tag_def calloc_tag_def)
  moreover have "neu_tag_get_static_value_json (blank_tag t) NEU_JSON_UNDEFINE (zero_json_value :: unit neu_json_value_u)
      = neu_tag_get_static_value_json t NEU_JSON_UNDEFINE zero_json_value"
    using False assms(2) by (simp add: storable_def neu_tag_get_static_value_json_def blank_tag_other)
  ultimately have "same_datatag t (blank_tag t)" by (rule same_datatagI)
  with False show ?thesis by (simp add: row_tag)
qed

lemma put_tags_rows:
  "put_tags E driver grp tags db = Some db' \<Longrightarrow>
     db' = db\<lparr>od_tags := od_tags db @ map (row_of_tag E (\<lambda>d. d) driver grp) tags\<rparr>"
proof (induction tags arbitrary: db)
  case (Cons tag tags)
  then have "put_tags E driver grp tags (db\<lparr>od_tags := od_tags db @ [row_of_tag E (\<lambda>d. d) driver grp tag]\<rparr>) = Some db'"
    by (simp add: Let_def split: if_splits)
  from Cons.IH [OF this] show ?case by simp
qed simp

lemma those_append: "those (xs @ ys) = (case those xs of None \<Rightarrow> None | Some as \<Rightarrow> map_option ((@) as) (those ys))"
  by (cases "those ys"; induction xs) (auto split: option.splits)

lemma stored_tags:
  assumes "jansson_ok (oe_json E)" "\<forall>t\<in>set tags. storable (oe_json E) t"
  shows "\<exists>new. those (map (tag_of_row E) (map (row_of_tag E (\<lambda>d. d) driver grp) tags)) = Some new \<and>
    list_all2 same_datatag tags new"
  using assms(2)
proof (induction tags)
  case (Cons t ts)
  from Cons obtain new where new: "those (map (tag_of_row E) (map (row_of_tag E (\<lambda>d. d) driver grp) ts)) = Some new"
    "list_all2 same_datatag ts new" by auto
  from Cons.prems stored_tag [OF assms(1)] obtain t' where t':
    "tag_of_row E (row_of_tag E (\<lambda>d. d) driver grp t) = Some t'" "same_datatag t t'" by fastforce
  from new t' show ?case by (intro exI [of _ "t' # new"]) (simp del: map_map)
qed simp

text \<open>
  Storing the tags of a group is one transaction: an error leaves everything as it was, and a
  success is read back.  What \<open>neu_persister_load_tags\<close> then gives for the group is what it gave
  before followed by the new tags, each the same in all that is stored and with the same static
  value; other groups give the same as before, and the count of tags has grown by their number.
\<close>

lemma stored_tags_load:
  assumes "jansson_ok (oe_json E)" "\<forall>t\<in>set tags. storable (oe_json E) t"
    and "oe_prepares E OQ_tags" "oe_steps E OQ_tags = None"
    and "neu_persister_store_tags E driver grp tags p = (rv, p')"
    and "neu_persister_load_tags E driver grp p = Some (Inr old)"
  shows "(rv \<noteq> 0 \<longrightarrow> p' = p) \<and>
    (rv = 0 \<longrightarrow> gp_tag_count p' = gp_tag_count p + int (length tags) \<and>
       (\<exists>new. neu_persister_load_tags E driver grp p' = Some (Inr (old @ new)) \<and> list_all2 same_datatag tags new) \<and>
       (\<forall>d g. (d, g) \<noteq> (driver, grp) \<longrightarrow> neu_persister_load_tags E d g p' = neu_persister_load_tags E d g p))"
proof (cases "rv = 0")
  case False
  with assms(5) show ?thesis by (auto simp: neu_persister_store_tags_def split: option.splits if_splits)
next
  case True
  with assms(5) obtain db db' where db: "gp_db p = Some db" "put_tags E driver grp tags db = Some db'"
    "p' = tag_count_add (int (length tags)) (p\<lparr>gp_db := Some db'\<rparr>)" and columns: "has_columns db stored_tag_columns"
    by (auto simp: neu_persister_store_tags_def split: option.splits if_splits)
  let ?rows = "map (row_of_tag E (\<lambda>d. d) driver grp) tags"
  have load: "neu_persister_load_tags E d g q = map_option Inr
      (those (map (tag_of_row E) [r \<leftarrow> od_tags db1. tr_driver r = d \<and> tr_group r = g]))"
    if "gp_db q = Some db1" "od_tag_columns db1 = od_tag_columns db" for d g q db1
    using that columns assms(3,4) by (simp add: neu_persister_load_tags_def query_rows_def has_columns_def)
  have p': "gp_db p' = Some (db\<lparr>od_tags := od_tags db @ ?rows\<rparr>)"
    using put_tags_rows [OF db(2)] db(3) by (simp add: tag_count_add_def)
  have columns': "od_tag_columns (db\<lparr>od_tags := od_tags db @ ?rows\<rparr>) = od_tag_columns db" by simp
  note before = load [OF db(1) refl] and after = load [OF p' columns']
  have rows: "[r \<leftarrow> ?rows. tr_driver r = d \<and> tr_group r = g] = (if (d, g) = (driver, grp) then ?rows else [])" for d g
    by (auto simp: row_of_tag_def filter_empty_conv filter_id_conv)
  obtain new where new: "those (map (tag_of_row E) ?rows) = Some new" "list_all2 same_datatag tags new"
    using stored_tags [OF assms(1,2)] by blast
  have "neu_persister_load_tags E driver grp p' = Some (Inr (old @ new))"
    using assms(6) new(1) by (auto simp: before after rows those_append simp del: map_map)
  moreover have "neu_persister_load_tags E d g p' = neu_persister_load_tags E d g p" if "(d, g) \<noteq> (driver, grp)" for d g
    using that by (auto simp: before after rows simp del: map_map)
  ultimately show ?thesis using True new(2) db(3) by (auto simp: tag_count_add_def)
qed

definition empty_store :: old_db where
  "empty_store = \<lparr>od_nodes = [], od_settings = [], od_tag_columns = stored_tag_columns,
     od_tags = [], od_migrations = []\<rparr>"

definition demo_store_env :: "jtree old_env" where
  "demo_store_env = \<lparr>oe_json = demo_jansson, oe_refuses = \<lambda>_ _. False, oe_prepares = \<lambda>_. True,
     oe_steps = \<lambda>_. None, oe_script = \<lambda>_ db. (True, db), oe_lf = \<lambda>d. d\<rparr>"

definition demo_store :: persister where
  "demo_store = \<lparr>gp_db = Some empty_store, gp_node_count = 0, gp_tag_count = 0\<rparr>"

lemma stored_tags_load_witness:
  "\<exists>p' new. neu_persister_store_tags demo_store_env ''plc'' ''g'' [demo_static_tag] demo_store = (0, p') \<and>
     neu_persister_load_tags demo_store_env ''plc'' ''g'' p' = Some (Inr new) \<and>
     list_all2 same_datatag [demo_static_tag] new \<and> gp_tag_count p' = 1"
proof -
  have json: "jansson_ok (oe_json demo_store_env)" using jansson_ok_demo by (simp add: demo_store_env_def)
  have "scast (get_u16 (put_word (7 :: u16) zero_value)) = (7 :: u64)" by (simp add: get_put_word)
  moreover have "value_wf (put_word (7 :: u16) zero_value)"
    by (simp add: value_wf_def put_word_def vput_def zero_value_def sizeof_neu_value_u_def NEU_VALUE_SIZE_def)
  ultimately have tag: "storable (oe_json demo_store_env) demo_static_tag"
    by (simp add: storable_def static_carried_def demo_store_env_def demo_static_tag_def demo_tag_def demo_jansson_def
        jt_jansson_def static_value_json_def neu_tag_attribute_test_def NEU_ATTRIBUTE_STATIC_def)
  obtain rv p' where store: "neu_persister_store_tags demo_store_env ''plc'' ''g'' [demo_static_tag] demo_store = (rv, p')"
    by fastforce
  then have "rv = 0" by (simp add: neu_persister_store_tags_def demo_store_def demo_store_env_def empty_store_def has_columns_def Let_def)
  moreover have "neu_persister_load_tags demo_store_env ''plc'' ''g'' demo_store = Some (Inr [])"
    by (simp add: neu_persister_load_tags_def query_rows_def demo_store_def demo_store_env_def empty_store_def
        has_columns_def)
  ultimately show ?thesis
    using stored_tags_load [OF json, of "[demo_static_tag]" "''plc''" "''g''" demo_store rv p' "[]"] tag store
    by (auto simp: demo_store_env_def demo_store_def)
qed

section \<open>Counts\<close>

lemma has_no_columns [simp]: "has_columns db []"
  by (simp add: has_columns_def)

text \<open>The keys of the tables.\<close>

definition keys_ok :: "old_db \<Rightarrow> bool" where
  "keys_ok db \<longleftrightarrow> distinct (map nr_name (od_nodes db)) \<and>
     distinct (map (\<lambda>r. (tr_driver r, tr_group r, tr_name r)) (od_tags db))"

text \<open>SQLite refuses a statement that would break a key.\<close>

definition enforces_keys :: "'j old_env \<Rightarrow> bool" where
  "enforces_keys E \<longleftrightarrow> (\<forall>db s. keys_ok db \<and> \<not> oe_refuses E db s \<longrightarrow> keys_ok (run_stmt s db))"

text \<open>What the program may do with the store once it is open.\<close>

inductive store_step :: "'j old_env \<Rightarrow> persister \<Rightarrow> persister \<Rightarrow> bool" for E where
  store_node: "store_step E p (snd (neu_persister_store_node E info p))"
| delete_node: "store_step E p (snd (neu_persister_delete_node E name p))"
| update_node: "store_step E p (snd (neu_persister_update_node E name new_name p))"
| update_node_state: "store_step E p (snd (neu_persister_update_node_state E name st p))"
| store_setting: "store_step E p (snd (neu_persister_store_node_setting E name setting p))"
| delete_setting: "store_step E p (snd (neu_persister_delete_node_setting E name p))"
| store_tag: "store_step E p (snd (neu_persister_store_tag E driver grp tag p))"
| store_tags: "store_step E p (snd (neu_persister_store_tags E driver grp tags p))"
| update_tag: "store_step E p (snd (neu_persister_update_tag E driver grp tag p))"
| update_tag_value: "store_step E p (snd (neu_persister_update_tag_value E driver grp tag p))"
| delete_tag: "store_step E p (snd (neu_persister_delete_tag E driver grp name p))"

definition counts_ok :: "persister \<Rightarrow> bool" where
  "counts_ok p \<longleftrightarrow> (case gp_db p of
     None \<Rightarrow> False
   | Some db \<Rightarrow> keys_ok db \<and> gp_node_count p \<le> int (length (od_nodes db)) \<and> gp_tag_count p \<le> int (length (od_tags db)))"

lemma execute_cases:
  assumes "execute_sql E s p = (rv, p')"
  obtains "rv \<noteq> 0" "p' = p"
  | db where "rv = 0" "gp_db p = Some db" "\<not> oe_refuses E db s" "p' = p\<lparr>gp_db := Some (run_stmt s db)\<rparr>"
  using assms by (auto simp: execute_sql_def split: option.splits if_splits)

lemma length_removed:
  assumes "distinct (map f xs)"
  shows "length xs \<le> Suc (length [x \<leftarrow> xs. f x \<noteq> k])"
  using assms
proof (induction xs)
  case (Cons x xs)
  show ?case
  proof (cases "f x = k")
    case True
    from Cons.prems have "f x \<notin> f ` set xs" by simp
    with True have "\<forall>y\<in>set xs. f y \<noteq> k" by (metis image_eqI)
    with True show ?thesis by simp
  qed (use Cons in simp)
qed simp

lemma put_tags_keys:
  "enforces_keys E \<Longrightarrow> keys_ok db \<Longrightarrow> put_tags E driver grp tags db = Some db' \<Longrightarrow> keys_ok db'"
proof (induction tags arbitrary: db)
  case (Cons tag tags)
  let ?s = "Insert_tag (row_of_tag E (\<lambda>d. d) driver grp tag)"
  from Cons.prems(3) have "\<not> oe_refuses E db ?s" and put: "put_tags E driver grp tags (run_stmt ?s db) = Some db'"
    by (auto simp: Let_def split: if_splits)
  with Cons.prems(1,2) have "keys_ok (run_stmt ?s db)" unfolding enforces_keys_def by blast
  from Cons.IH [OF Cons.prems(1) this put] show ?case .
qed simp

lemma keys_kept:
  "enforces_keys E \<Longrightarrow> counts_ok p \<Longrightarrow> gp_db p = Some db \<Longrightarrow> \<not> oe_refuses E db s \<Longrightarrow>
     keys_ok db \<and> keys_ok (run_stmt s db)"
  by (auto simp: counts_ok_def enforces_keys_def)

text \<open>A statement that adds and removes no node and no tag.\<close>

lemma counts_statement:
  assumes "enforces_keys E" "counts_ok p" "execute_sql E s p = (rv, p')"
    and "\<And>db. length (od_nodes db) \<le> length (od_nodes (run_stmt s db))"
    and "\<And>db. length (od_tags db) \<le> length (od_tags (run_stmt s db))"
  shows "counts_ok p'"
  using assms(3)
proof (cases rule: execute_cases)
  case (2 db)
  with assms(1,2) have "keys_ok (run_stmt s db)" by (auto simp: counts_ok_def enforces_keys_def)
  with 2 assms(2) assms(4,5) [of db] show ?thesis by (auto simp: counts_ok_def)
qed (use assms(2) in simp)

lemma counts_update:
  assumes "enforces_keys E" "counts_ok p"
  shows "counts_ok (snd (neu_persister_update_node E name new_name p))"
    "counts_ok (snd (neu_persister_update_node_state E name st p))"
    "counts_ok (snd (neu_persister_store_node_setting E name setting p))"
    "counts_ok (snd (neu_persister_delete_node_setting E name p))"
    "counts_ok (snd (neu_persister_update_tag E driver grp tag p))"
    "counts_ok (snd (neu_persister_update_tag_value E driver grp tag p))"
  unfolding neu_persister_update_node_def neu_persister_update_node_state_def neu_persister_store_node_setting_def
    neu_persister_delete_node_setting_def neu_persister_update_tag_def neu_persister_update_tag_value_def
  by (rule counts_statement [OF assms prod.collapse [symmetric]]; simp)+

lemma counts_store:
  assumes "enforces_keys E" "counts_ok p"
  shows "counts_ok (snd (neu_persister_store_node E info p))"
    "counts_ok (snd (neu_persister_store_tag E driver grp tag p))"
proof -
  let ?n = "Insert_node (row_of_node info)" and ?t = "Insert_tag (row_of_tag E (oe_lf E) driver grp tag)"
  show "counts_ok (snd (neu_persister_store_node E info p))"
  proof (cases "ni_plugin info = ''Monitor''")
    case True
    then show ?thesis
      unfolding neu_persister_store_node_def
      by (simp, intro counts_statement [OF assms prod.collapse [symmetric]]) auto
  next
    case False
    obtain rv p' where e: "execute_sql E ?n p = (rv, p')" by fastforce
    from e show ?thesis
    proof (cases rule: execute_cases)
      case (2 db)
      with keys_kept [OF assms] have "keys_ok (run_stmt ?n db)" by blast
      with 2 e False assms(2) show ?thesis
        by (auto simp: neu_persister_store_node_def counts_ok_def node_count_add_def)
    qed (use e False assms(2) in \<open>simp add: neu_persister_store_node_def\<close>)
  qed
  obtain rv p' where e: "execute_sql E ?t p = (rv, p')" by fastforce
  from e show "counts_ok (snd (neu_persister_store_tag E driver grp tag p))"
  proof (cases rule: execute_cases)
    case (2 db)
    with keys_kept [OF assms] have "keys_ok (run_stmt ?t db)" by blast
    with 2 e assms(2) show ?thesis
      by (auto simp: neu_persister_store_tag_def counts_ok_def tag_count_add_def)
  qed (use e assms(2) in \<open>simp add: neu_persister_store_tag_def\<close>)
qed

lemma counts_store_tags:
  assumes "enforces_keys E" "counts_ok p"
  shows "counts_ok (snd (neu_persister_store_tags E driver grp tags p))"
proof -
  have "counts_ok (tag_count_add (int (length tags)) (p\<lparr>gp_db := Some db'\<rparr>))"
    if "gp_db p = Some db" "put_tags E driver grp tags db = Some db'" for db db'
    using that assms(2) put_tags_keys [OF assms(1) _ that(2)] put_tags_rows [OF that(2)]
    by (auto simp: counts_ok_def tag_count_add_def)
  with assms(2) show ?thesis by (auto simp: neu_persister_store_tags_def split: option.split)
qed

definition tag_count_works :: "'j old_env \<Rightarrow> bool" where
  "tag_count_works E \<longleftrightarrow> oe_prepares E OQ_tag_count \<and> oe_steps E OQ_tag_count \<noteq> Some 0"

lemma tag_count_load_exact:
  assumes "tag_count_works E" "gp_db p = Some db"
  shows "tag_count_load E p = (0, p\<lparr>gp_tag_count := int (length (od_tags db))\<rparr>)"
  using assms
  by (auto simp: tag_count_load_def query_rows_def tag_count_works_def take_Cons' split: option.split)

lemma counts_delete:
  assumes "enforces_keys E" "counts_ok p"
  shows "counts_ok (snd (neu_persister_delete_tag E driver grp name p))"
    "tag_count_works E \<Longrightarrow> counts_ok (snd (neu_persister_delete_node E name p))"
proof -
  let ?t = "Delete_tag driver grp name" and ?n = "Delete_node name"
  obtain rv p' where e: "execute_sql E ?t p = (rv, p')" by fastforce
  from e show "counts_ok (snd (neu_persister_delete_tag E driver grp name p))"
  proof (cases rule: execute_cases)
    case (2 db)
    with keys_kept [OF assms] have "keys_ok db" "keys_ok (run_stmt ?t db)" by blast+
    moreover from this(1) have "length (od_tags db) \<le> Suc (length [r \<leftarrow> od_tags db. \<not> is_tag driver grp name r])"
      using length_removed [of "\<lambda>r. (tr_driver r, tr_group r, tr_name r)" "od_tags db" "(driver, grp, Some name)"]
      by (simp add: keys_ok_def is_tag_def)
    ultimately show ?thesis
      using 2 e assms(2) by (auto simp: neu_persister_delete_tag_def counts_ok_def tag_count_add_def)
  qed (use e assms(2) in \<open>simp add: neu_persister_delete_tag_def\<close>)
  assume works: "tag_count_works E"
  obtain rv p' where e: "execute_sql E ?n p = (rv, p')" by fastforce
  from e show "counts_ok (snd (neu_persister_delete_node E name p))"
  proof (cases rule: execute_cases)
    case (2 db)
    with keys_kept [OF assms] have keys: "keys_ok db" "keys_ok (run_stmt ?n db)" by blast+
    then have "length (od_nodes db) \<le> Suc (length [r \<leftarrow> od_nodes db. nr_name r \<noteq> Some name])"
      using length_removed [of nr_name "od_nodes db" "Some name"] by (simp add: keys_ok_def)
    with keys(2) 2 e assms(2) tag_count_load_exact [OF works, of "node_count_add (- 1) p'" "run_stmt ?n db"] show ?thesis
      by (auto simp: neu_persister_delete_node_def counts_ok_def node_count_add_def)
  qed (use e assms(2) in \<open>simp add: neu_persister_delete_node_def\<close>)
qed

lemma store_step_counts:
  assumes "store_step E p p'" "enforces_keys E" "tag_count_works E" "counts_ok p"
  shows "counts_ok p'"
  using assms(1,4)
  by (cases rule: store_step.cases)
     (auto intro: counts_update [OF assms(2)] counts_store [OF assms(2)] counts_store_tags [OF assms(2)]
        counts_delete [OF assms(2)] assms(3))

lemma count_load_result:
  "node_count_load E p = (0, p') \<Longrightarrow> \<exists>db. gp_db p = Some db \<and> p' = p\<lparr>gp_node_count := int (length (od_nodes db))\<rparr>"
  "tag_count_load E p = (0, p') \<Longrightarrow> \<exists>db. gp_db p = Some db \<and> p' = p\<lparr>gp_tag_count := int (length (od_tags db))\<rparr>"
  by (auto simp: node_count_load_def tag_count_load_def query_rows_def take_Cons'
      split: option.splits if_splits list.splits)

lemma create_step_0: "create_step r k = (0, p') \<longleftrightarrow> (\<exists>q. r = (0, q) \<and> k q = (0, p'))"
  by (cases r) (auto simp: create_step_def)

lemma created_counts:
  assumes "neu_persister_create E F files ls opened dir p = (0, p')"
  obtains db where "gp_db p' = Some db" "gp_node_count p' = int (length (od_nodes db))"
    "gp_tag_count p' = int (length (od_tags db))"
proof -
  from assms obtain p1 p2 where p1: "node_count_load E p1 = (0, p2)" "tag_count_load E p2 = (0, p')"
    by (auto simp: neu_persister_create_def create_step_0 split: if_splits)
  from count_load_result(1) [OF p1(1)] obtain db where db: "gp_db p1 = Some db"
    "p2 = p1\<lparr>gp_node_count := int (length (od_nodes db))\<rparr>" by blast
  from count_load_result(2) [OF p1(2)] obtain db' where db': "gp_db p2 = Some db'"
    "p' = p2\<lparr>gp_tag_count := int (length (od_tags db'))\<rparr>" by blast
  from db db' have "db' = db" by simp
  with db db' show thesis by (intro that) simp_all
qed

text \<open>
  From the opening of the database on, through every sequence of operations on nodes, settings and
  tags, the counts of nodes and of tags that the program keeps beside the tables never exceed the
  numbers of their rows, and the keys stay unique.  Statements may fail, but the query that counts
  the tags anew after the deletion of a node may not (\<open>tag_count_works\<close>): its failure is ignored and
  leaves the count of the tags that are gone.
\<close>

theorem store_counts_bounded:
  assumes "enforces_keys E" "tag_count_works E"
    and "neu_persister_create E F files ls opened dir start = (0, p)" "\<forall>db. gp_db p = Some db \<longrightarrow> keys_ok db"
    and "(store_step E)\<^sup>*\<^sup>* p p'"
  shows "\<exists>db. gp_db p' = Some db \<and> keys_ok db \<and>
    gp_node_count p' \<le> int (length (od_nodes db)) \<and> gp_tag_count p' \<le> int (length (od_tags db))"
proof -
  from created_counts [OF assms(3)] obtain db where "gp_db p = Some db"
    "gp_node_count p = int (length (od_nodes db))" "gp_tag_count p = int (length (od_tags db))" .
  with assms(4) have "counts_ok p" by (simp add: counts_ok_def)
  with assms(5) have "counts_ok p'"
    by (induction rule: rtranclp_induct) (auto intro: store_step_counts [OF _ assms(1,2)])
  then show ?thesis by (auto simp: counts_ok_def split: option.splits)
qed

text \<open>They may fall behind: a tag that is not there is counted when it is deleted.\<close>

lemma delete_absent_tag_counts:
  assumes "gp_db p = Some db" "\<not> oe_refuses E db (Delete_tag driver grp name)"
    and "has_columns db [''driver_name'', ''group_name'', ''name'']"
    and "\<forall>r\<in>set (od_tags db). \<not> is_tag driver grp name r"
  shows "neu_persister_delete_tag E driver grp name p = (0, p\<lparr>gp_tag_count := gp_tag_count p - 1\<rparr>)"
  using assms by (simp add: neu_persister_delete_tag_def execute_sql_def tag_count_add_def)

definition demo_key_env :: "jtree old_env" where
  "demo_key_env = demo_store_env\<lparr>oe_refuses := \<lambda>db s. \<not> keys_ok (run_stmt s db)\<rparr>"

definition demo_node_info :: neu_persist_node_info_t where
  "demo_node_info = \<lparr>ni_name = ''plc'', ni_type = 1, ni_plugin = ''modbus'', ni_state = 1\<rparr>"

definition demo_faults :: file_faults where
  "demo_faults = \<lparr>ff_create = \<lambda>_. False, ff_written = \<lambda>_. None, ff_rename = \<lambda>_. False, ff_open = \<lambda>_. False,
     ff_stat = \<lambda>_. False, ff_read = \<lambda>_. False\<rparr>"

lemma store_counts_bounded_witness:
  "\<exists>db. gp_db (snd (neu_persister_store_node demo_key_env demo_node_info demo_store)) = Some db \<and> keys_ok db \<and>
     gp_node_count (snd (neu_persister_store_node demo_key_env demo_node_info demo_store)) \<le> int (length (od_nodes db)) \<and>
     gp_tag_count (snd (neu_persister_store_node demo_key_env demo_node_info demo_store)) \<le> int (length (od_tags db))"
proof (rule store_counts_bounded)
  show "enforces_keys demo_key_env" by (simp add: enforces_keys_def demo_key_env_def)
  show "tag_count_works demo_key_env" by (simp add: tag_count_works_def demo_key_env_def demo_store_env_def)
  show "neu_persister_create demo_key_env demo_faults (\<lambda>_. None) (\<lambda>_. Some []) (Some empty_store) ''config''
      \<lparr>gp_db = None, gp_node_count = 7, gp_tag_count = 7\<rparr> = (0, demo_store)"
    by (simp add: neu_persister_create_def create_step_def execute_sql_def demo_key_env_def demo_store_env_def
        keys_ok_def empty_store_def demo_store_def apply_schemas_def get_schema_version_def query_rows_def
        collect_schemas_def node_count_load_def tag_count_load_def)
  show "\<forall>db. gp_db demo_store = Some db \<longrightarrow> keys_ok db" by (simp add: demo_store_def keys_ok_def empty_store_def)
  show "(store_step demo_key_env)\<^sup>*\<^sup>* demo_store (snd (neu_persister_store_node demo_key_env demo_node_info demo_store))"
    by (rule r_into_rtranclp) (rule store_step.store_node)
qed

end
