(* ===== verification/SchemaLaws.thy ===== *)
theory SchemaLaws
  imports StoreLaws
begin

text \<open>
  The files of the store: schema files are applied once, and a failed one stops every later start;
  paths fit their buffer or are reported; the list of plugins is kept.
\<close>

section \<open>Schema files\<close>

definition versions :: "persister \<Rightarrow> string list" where
  "versions p = (case gp_db p of None \<Rightarrow> [] | Some db \<Rightarrow> map mr_version (od_migrations db))"

definition all_clean :: "persister \<Rightarrow> bool" where
  "all_clean p \<longleftrightarrow> (\<forall>db. gp_db p = Some db \<longrightarrow> (\<forall>m\<in>set (od_migrations db). \<not> mr_dirty m))"

text \<open>
  What is asked of the database: a schema file leaves the table of versions alone, and the
  queries about versions work.
\<close>

definition schemas_work :: "'j old_env \<Rightarrow> bool" where
  "schemas_work E \<longleftrightarrow>
     (\<forall>sql db. od_migrations (snd (oe_script E sql db)) = od_migrations db) \<and>
     oe_prepares E OQ_schema_version \<and> oe_steps E OQ_schema_version \<noteq> Some 0"

text \<open>The version that a file adds to those there are.\<close>

definition add_version :: "string list \<Rightarrow> string \<Rightarrow> string list" where
  "add_version vs file =
     (case extract_schema_info file of
        None \<Rightarrow> vs
      | Some (v, _) \<Rightarrow> if v \<in> set vs then vs else vs @ [v])"

lemma should_apply_result:
  "should_apply E v p = 1 \<Longrightarrow> v \<notin> set (versions p)"
  "should_apply E v p = 0 \<Longrightarrow> v \<in> set (versions p)"
  "should_apply E v p \<in> {- 1, 0, 1}"
  by (auto simp: should_apply_def query_rows_def versions_def take_Cons' filter_empty_conv
      split: option.splits if_splits list.splits)

lemma should_apply_again:
  assumes "should_apply E w q \<noteq> - 1" "gp_db p \<noteq> None" "v \<in> set (versions p)"
  shows "should_apply E v p = 0"
  using assms
  by (auto simp: should_apply_def query_rows_def versions_def take_Cons' filter_empty_conv
      split: option.splits if_splits list.splits)

lemma run_script_versions:
  assumes "schemas_work E" "run_script E sql p = (ok, p')"
  shows "versions p' = versions p" "gp_db p' = None \<longleftrightarrow> gp_db p = None"
    "gp_db p = Some db \<Longrightarrow> \<exists>db'. gp_db p' = Some db' \<and> od_migrations db' = od_migrations db"
proof -
  have "od_migrations db' = od_migrations db" if "oe_script E sql db = (ok, db')" for db db'
    using assms(1) that by (metis schemas_work_def snd_conv)
  with assms(2) show "versions p' = versions p" "gp_db p' = None \<longleftrightarrow> gp_db p = None"
    "gp_db p = Some db \<Longrightarrow> \<exists>db'. gp_db p' = Some db' \<and> od_migrations db' = od_migrations db"
    by (auto simp: run_script_def versions_def split: option.splits prod.splits)
qed

definition schema_path :: "string \<Rightarrow> string \<Rightarrow> string" where
  "schema_path dir f = snd (path_cat (snd (path_cat [] PATH_MAX_SIZE dir)) PATH_MAX_SIZE f)"

definition schema_path_fits :: "string \<Rightarrow> string \<Rightarrow> bool" where
  "schema_path_fits dir f \<longleftrightarrow> fst (path_cat [] PATH_MAX_SIZE dir) < PATH_MAX_SIZE \<and>
     fst (path_cat (snd (path_cat [] PATH_MAX_SIZE dir)) PATH_MAX_SIZE f) < PATH_MAX_SIZE"

text \<open>What a file that was applied without an error did.\<close>

lemma apply_cases:
  assumes "apply_schema_file E F files dir f p = (0, p')"
  obtains "extract_schema_info f = None" "p' = p"
  | v d where "extract_schema_info f = Some (v, d)" "should_apply E v p = 0" "p' = p"
  | v d sql p1 p2 where "extract_schema_info f = Some (v, d)" "should_apply E v p = 1"
      "read_file_string F (schema_path dir f) files = (0, sql)"
      "execute_sql E (Insert_migration v d) p = (0, p1)" "run_script E sql p1 = (True, p2)"
      "execute_sql E (Clean_migration v) p2 = (0, p')"
proof (cases "extract_schema_info f")
  case None
  with assms that(1) show thesis by (simp add: apply_schema_file_def Let_def split: prod.splits if_splits)
next
  case (Some vd)
  obtain v d where vd: "vd = (v, d)" by (cases vd)
  consider "should_apply E v p = - 1" | "should_apply E v p = 0" | "should_apply E v p = 1"
    using should_apply_result(3) [of E v p] by auto
  then show thesis
    by cases (use assms Some that(2,3) in \<open>auto simp: vd apply_schema_file_def schema_path_def Let_def split: prod.splits if_splits\<close>)
qed

text \<open>
  The files that are not yet recorded, each with its version and description, and what applying
  them does to the database: the version is recorded as dirty, the SQL of the file runs, and the
  version is marked as clean.
\<close>

fun pending :: "string list \<Rightarrow> string list \<Rightarrow> (string \<times> string \<times> string) list" where
  "pending vs [] = []"
| "pending vs (f # fs) =
     (case extract_schema_info f of
        None \<Rightarrow> pending vs fs
      | Some (v, d) \<Rightarrow> if v \<in> set vs then pending vs fs else (v, d, f) # pending (vs @ [v]) fs)"

fun run_schemas :: "'j old_env \<Rightarrow> (string \<Rightarrow> string option) \<Rightarrow> old_db \<Rightarrow> (string \<times> string \<times> string) list \<Rightarrow>
    old_db option" where
  "run_schemas E sql db [] = Some db"
| "run_schemas E sql db ((v, d, f) # ps) =
     (case oe_script E (sql f) (run_stmt (Insert_migration v d) db) of
        (ok, db1) \<Rightarrow> if ok then run_schemas E sql (run_stmt (Clean_migration v) db1) ps else None)"

lemma pending_versions: "vs @ map fst (pending vs fs) = foldl add_version vs fs"
  by (induction vs fs rule: pending.induct) (auto simp: add_version_def split: option.splits)

lemma pending_distinct: "distinct (map fst (pending vs fs)) \<and> set (map fst (pending vs fs)) \<inter> set vs = {}"
  by (induction vs fs rule: pending.induct) (auto split: option.splits)

lemma applied_file:
  assumes work: "schemas_work E" and applied: "apply_schema_file E F files dir f p = (0, p')" and db: "gp_db p = Some db"
  obtains db' where "gp_db p' = Some db'" "versions p' = add_version (versions p) f"
    "run_schemas E (\<lambda>f. snd (read_file_string F (schema_path dir f) files)) db (pending (versions p) [f]) = Some db'"
    "od_migrations db' = od_migrations db @ map (\<lambda>(v, d, f). \<lparr>mr_version = v, mr_description = d, mr_dirty = False\<rparr>)
       (pending (versions p) [f])"
  using applied
proof (cases rule: apply_cases)
  case 1
  with db that show thesis by (simp add: add_version_def)
next
  case (2 v d)
  with should_apply_result(2) [OF 2(2)] db that show thesis by (simp add: add_version_def)
next
  case (3 v d sql p1 p2)
  let ?db1 = "run_stmt (Insert_migration v d) db"
  from 3(4) db have p1: "p1 = p\<lparr>gp_db := Some ?db1\<rparr>" by (auto elim: execute_cases)
  with 3(5) obtain db2 where db2: "oe_script E sql ?db1 = (True, db2)" "gp_db p2 = Some db2"
    by (auto simp: run_script_def split: prod.splits)
  from work have "od_migrations (snd (oe_script E sql ?db1)) = od_migrations ?db1" unfolding schemas_work_def by blast
  with db2(1) have same: "od_migrations db2 = od_migrations db @ [\<lparr>mr_version = v, mr_description = d, mr_dirty = True\<rparr>]"
    by simp
  from 3(6) db2(2) have p': "gp_db p' = Some (run_stmt (Clean_migration v) db2)" by (auto elim: execute_cases)
  have new: "v \<notin> set (versions p)" by (rule should_apply_result(1) [OF 3(2)])
  with db have others: "\<forall>m\<in>set (od_migrations db). mr_version m \<noteq> v" by (auto simp: versions_def)
  then have clean: "map (\<lambda>m. if mr_version m = v then m\<lparr>mr_dirty := False\<rparr> else m) (od_migrations db) = od_migrations db"
    by (auto intro: map_idI)
  show thesis
  proof (rule that [OF p'])
    show "versions p' = add_version (versions p) f"
      using 3(1) new clean same db p' by (simp add: versions_def add_version_def)
  qed (use 3(1,3) new db2 same clean in simp_all)
qed

lemma applied_clean:
  assumes "schemas_work E" "apply_schema_file E F files dir f p = (0, p')" "gp_db p \<noteq> None" "all_clean p"
  shows "gp_db p' \<noteq> None \<and> all_clean p' \<and> versions p' = add_version (versions p) f"
proof -
  from assms(3) obtain db where db: "gp_db p = Some db" by blast
  show ?thesis by (rule applied_file [OF assms(1,2) db]) (use assms(4) db in \<open>auto simp: all_clean_def\<close>)
qed

lemma reapplied_file:
  assumes "apply_schema_file E F files dir f p = (0, p')" "gp_db q \<noteq> None"
    and "add_version (versions q) f = versions q"
  shows "apply_schema_file E F' files' dir f q = (0, q)"
proof -
  obtain n path1 m path where path: "path_cat [] PATH_MAX_SIZE dir = (n, path1)" "path_cat path1 PATH_MAX_SIZE f = (m, path)"
    by fastforce
  with assms(1) have fits: "\<not> (PATH_MAX_SIZE \<le> n \<or> PATH_MAX_SIZE \<le> m)"
    by (auto simp: apply_schema_file_def split: if_splits)
  have known: "v \<in> set (versions q)" if "extract_schema_info f = Some (v, d)" for v d
    using assms(3) that by (auto simp: add_version_def split: if_splits)
  from assms(1) show ?thesis
  proof (cases rule: apply_cases)
    case 1
    with path fits show ?thesis by (simp add: apply_schema_file_def Let_def)
  next
    case (2 v d)
    with should_apply_again [of E v p q v] assms(2) known path fits show ?thesis
      by (simp add: apply_schema_file_def Let_def)
  next
    case (3 v d)
    with should_apply_again [of E v p q v] assms(2) known path fits show ?thesis
      by (simp add: apply_schema_file_def Let_def)
  qed
qed

lemma add_version_mono: "set vs \<subseteq> set (add_version vs f)"
  by (auto simp: add_version_def split: option.split)

lemma add_versions_mono: "set vs \<subseteq> set (foldl add_version vs fs)"
  by (induction fs arbitrary: vs) (use add_version_mono in fastforce)+

lemma add_version_known: "set (add_version vs f) \<subseteq> set ws \<Longrightarrow> add_version ws f = ws"
  by (auto simp: add_version_def split: option.splits if_splits)

lemma pending_Cons: "pending vs (f # fs) = pending vs [f] @ pending (add_version vs f) fs"
  by (auto simp: add_version_def split: option.split)

lemma run_schemas_append:
  "run_schemas E sql db (ps @ qs) = Option.bind (run_schemas E sql db ps) (\<lambda>db'. run_schemas E sql db' qs)"
  by (induction E sql db ps rule: run_schemas.induct) (auto split: prod.splits)

lemma applied_files:
  assumes "schemas_work E" "apply_schema_files E F files dir fs p = (0, p')" "gp_db p = Some db"
  shows "(\<exists>db'. gp_db p' = Some db' \<and>
      run_schemas E (\<lambda>f. snd (read_file_string F (schema_path dir f) files)) db (pending (versions p) fs) = Some db' \<and>
      od_migrations db' = od_migrations db @ map (\<lambda>(v, d, f). \<lparr>mr_version = v, mr_description = d, mr_dirty = False\<rparr>)
        (pending (versions p) fs)) \<and>
    (\<forall>q F' files'. gp_db q \<noteq> None \<and> set (versions p') \<subseteq> set (versions q) \<longrightarrow>
       apply_schema_files E F' files' dir fs q = (0, q))"
  using assms(2-)
proof (induction fs arbitrary: p db)
  case (Cons f fs)
  obtain rv p1 where f: "apply_schema_file E F files dir f p = (rv, p1)" by fastforce
  with Cons.prems(1) have f0: "apply_schema_file E F files dir f p = (0, p1)"
    and fs: "apply_schema_files E F files dir fs p1 = (0, p')"
    by (auto split: if_splits)
  from applied_file [OF assms(1) f0 Cons.prems(2)] obtain db1 where db1: "gp_db p1 = Some db1"
    and p1: "versions p1 = add_version (versions p) f"
    and ran: "run_schemas E (\<lambda>f. snd (read_file_string F (schema_path dir f) files)) db (pending (versions p) [f]) = Some db1"
    and rows: "od_migrations db1 = od_migrations db @
      map (\<lambda>(v, d, f). \<lparr>mr_version = v, mr_description = d, mr_dirty = False\<rparr>) (pending (versions p) [f])" .
  from Cons.IH [OF fs db1] obtain db' where db': "gp_db p' = Some db'"
    "run_schemas E (\<lambda>f. snd (read_file_string F (schema_path dir f) files)) db1 (pending (versions p1) fs) = Some db'"
    "od_migrations db' = od_migrations db1 @
      map (\<lambda>(v, d, f). \<lparr>mr_version = v, mr_description = d, mr_dirty = False\<rparr>) (pending (versions p1) fs)"
    and IH: "\<forall>q F' files'. gp_db q \<noteq> None \<and> set (versions p') \<subseteq> set (versions q) \<longrightarrow>
       apply_schema_files E F' files' dir fs q = (0, q)"
    by blast
  have vs: "versions p' = foldl add_version (versions p1) fs"
    using db1 db'(1,3) by (simp add: versions_def flip: pending_versions) (auto simp: case_prod_unfold)
  have "apply_schema_files E F' files' dir (f # fs) q = (0, q)"
    if q: "gp_db q \<noteq> None" "set (versions p') \<subseteq> set (versions q)" for q F' files'
  proof -
    have "set (add_version (versions p) f) \<subseteq> set (versions q)"
      using vs q(2) p1 add_versions_mono [of "versions p1" fs] by auto
    from reapplied_file [OF f0 q(1) add_version_known [OF this]] IH q show ?thesis by simp
  qed
  moreover have "\<exists>db'. gp_db p' = Some db' \<and>
      run_schemas E (\<lambda>f. snd (read_file_string F (schema_path dir f) files)) db (pending (versions p) (f # fs)) = Some db' \<and>
      od_migrations db' = od_migrations db @ map (\<lambda>(v, d, f). \<lparr>mr_version = v, mr_description = d, mr_dirty = False\<rparr>)
        (pending (versions p) (f # fs))"
    using db' ran rows p1 unfolding pending_Cons [of _ f fs] run_schemas_append by simp
  ultimately show ?case by blast
qed simp

lemma create_migrations:
  assumes "gp_db p = Some db" "\<not> oe_refuses E db Create_migrations"
  shows "execute_sql E Create_migrations p = (0, p)"
  using assms by (cases p) (simp add: execute_sql_def)

lemma schema_version_works:
  assumes "schemas_work E" "gp_db p = Some db"
  shows "get_schema_version E p = Inr (case rev (sort_key mr_version (od_migrations db)) of [] \<Rightarrow> None | m # _ \<Rightarrow> Some m)"
  using assms
  by (auto simp: get_schema_version_def query_rows_def schemas_work_def take_Cons' split: option.split list.split)

text \<open>
  C37: Bringing the database up to date applies every schema file that is not yet recorded, once and in
  the order of their names, and no other.  After a success from tables without a dirty version the
  database is the one before with, for each of those files in turn, its version recorded as dirty, the
  SQL read from its path executed with success, and the version marked as clean; so the table of
  versions is the old one followed by a clean row with version and description of each, no version
  twice.  Doing it again changes nothing, whatever the files then hold or whether they can be read.
\<close>

theorem schemas_applied_once:
  assumes "schemas_work E" "\<forall>db. \<not> oe_refuses E db Create_migrations"
    and "ls dir = Some fs" "all_clean p" "gp_db p = Some db" "apply_schemas E F files ls dir p = (0, p')"
    and "todo = pending (versions p) (sort [f \<leftarrow> fs. ends_with f ''.sql''])"
  shows "(\<exists>db'. gp_db p' = Some db' \<and>
      run_schemas E (\<lambda>f. snd (read_file_string F (schema_path dir f) files)) db todo = Some db' \<and>
      od_migrations db' = od_migrations db @
        map (\<lambda>(v, d, f). \<lparr>mr_version = v, mr_description = d, mr_dirty = False\<rparr>) todo) \<and>
    distinct (map fst todo) \<and> set (map fst todo) \<inter> set (versions p) = {} \<and>
    (\<forall>F' files'. apply_schemas E F' files' ls dir p' = (0, p'))"
proof -
  let ?fs = "sort [f \<leftarrow> fs. ends_with f ''.sql'']"
  have create: "execute_sql E Create_migrations q = (0, q)" if "gp_db q \<noteq> None" for q
    using that create_migrations assms(2) by blast
  from assms(3,6) create [of p] assms(5) schema_version_works [OF assms(1,5)]
  have run: "apply_schema_files E F files dir ?fs p = (0, p')"
    by (auto simp: apply_schemas_def collect_schemas_def split: if_splits)
  note ran = applied_files [OF assms(1) run assms(5), folded assms(7)]
  then obtain db' where db': "gp_db p' = Some db'" "od_migrations db' = od_migrations db @
        map (\<lambda>(v, d, f). \<lparr>mr_version = v, mr_description = d, mr_dirty = False\<rparr>) todo" by blast
  with assms(4,5) have clean: "\<forall>m\<in>set (od_migrations db'). \<not> mr_dirty m" by (auto simp: all_clean_def)
  let ?newest = "rev (sort_key mr_version (od_migrations db'))"
  have "\<not> (case (case ?newest of [] \<Rightarrow> None | m # _ \<Rightarrow> Some m) of None \<Rightarrow> False | Some m \<Rightarrow> mr_dirty m)"
  proof (cases ?newest)
    case (Cons m ms)
    then have "m \<in> set (od_migrations db')" by (metis list.set_intros(1) set_rev set_sort)
    with clean Cons show ?thesis by auto
  qed simp
  moreover have "apply_schema_files E F' files' dir ?fs p' = (0, p')" for F' files'
    using ran db' by auto
  ultimately have "apply_schemas E F' files' ls dir p' = (0, p')" for F' files'
    using create [of p'] db'(1) schema_version_works [OF assms(1) db'(1)] assms(3)
    by (simp add: apply_schemas_def collect_schemas_def)
  with ran pending_distinct [of "versions p" ?fs] assms(7) show ?thesis by auto
qed

definition demo_dir :: "string \<Rightarrow> string list option" where
  "demo_dir = (\<lambda>_. Some [''0001_b.sql'', ''readme'', ''0000_a.sql''])"

text \<open>A database whose SQL makes the column that is missing.\<close>

definition demo_schema_env :: "jtree old_env" where
  "demo_schema_env = demo_store_env\<lparr>oe_script := \<lambda>sql db.
     (True, if sql = Some ''ALTER TABLE'' then db\<lparr>od_tag_columns := stored_tag_columns\<rparr> else db)\<rparr>"

definition demo_schema_files :: files where
  "demo_schema_files = (\<lambda>path. if path = ''config/0001_b.sql'' then Some ''ALTER TABLE'' else Some ''CREATE TABLE'')"

definition demo_schema_store :: persister where
  "demo_schema_store = demo_store\<lparr>gp_db := Some (empty_store\<lparr>od_tag_columns := schema_tag_columns\<rparr>)\<rparr>"

definition demo_updated :: persister where
  "demo_updated = snd (apply_schemas demo_schema_env demo_faults demo_schema_files demo_dir ''config'' demo_schema_store)"

lemma schemas_work_demo: "schemas_work demo_store_env" "schemas_work demo_schema_env"
  by (simp_all add: schemas_work_def demo_store_env_def demo_schema_env_def)

lemma demo_update: "fst (apply_schemas demo_schema_env demo_faults demo_schema_files demo_dir ''config'' demo_schema_store) = 0"
  by code_simp

lemma demo_pending: "pending (versions demo_schema_store) (sort [f \<leftarrow> [''0001_b.sql'', ''readme'', ''0000_a.sql'']. ends_with f ''.sql''])
    = [(''0000'', ''a'', ''0000_a.sql''), (''0001'', ''b'', ''0001_b.sql'')]"
  by code_simp

lemma demo_sql:
  "read_file_string demo_faults (schema_path ''config'' ''0000_a.sql'') demo_schema_files = (0, Some ''CREATE TABLE'')"
  "read_file_string demo_faults (schema_path ''config'' ''0001_b.sql'') demo_schema_files = (0, Some ''ALTER TABLE'')"
  by code_simp+

lemma schemas_applied_once_witness:
  "(\<exists>db. gp_db demo_updated = Some db \<and> od_tag_columns db = stored_tag_columns \<and>
     od_migrations db = [\<lparr>mr_version = ''0000'', mr_description = ''a'', mr_dirty = False\<rparr>,
       \<lparr>mr_version = ''0001'', mr_description = ''b'', mr_dirty = False\<rparr>]) \<and>
   apply_schemas demo_schema_env demo_faults (\<lambda>_. None) demo_dir ''config'' demo_updated = (0, demo_updated)"
proof -
  have store: "demo_schema_store = \<lparr>gp_db = Some (empty_store\<lparr>od_tag_columns := schema_tag_columns\<rparr>),
      gp_node_count = 0, gp_tag_count = 0\<rparr>"
    by (simp add: demo_schema_store_def demo_store_def)
  have clean: "all_clean demo_schema_store" by (simp add: all_clean_def store empty_store_def)
  have run: "apply_schemas demo_schema_env demo_faults demo_schema_files demo_dir ''config'' demo_schema_store
        = (0, demo_updated)"
    using demo_update by (simp add: demo_updated_def prod_eq_iff)
  have refuses: "\<forall>db. \<not> oe_refuses demo_schema_env db Create_migrations" by (simp add: demo_schema_env_def demo_store_env_def)
  have dir: "demo_dir ''config'' = Some [''0001_b.sql'', ''readme'', ''0000_a.sql'']" by (simp add: demo_dir_def)
  have db: "gp_db demo_schema_store = Some (empty_store\<lparr>od_tag_columns := schema_tag_columns\<rparr>)" by (simp add: store)
  note once = schemas_applied_once [OF schemas_work_demo(2) refuses dir clean db run refl, unfolded demo_pending]
  from once obtain db' where "gp_db demo_updated = Some db'"
    "run_schemas demo_schema_env (\<lambda>f. snd (read_file_string demo_faults (schema_path ''config'' f) demo_schema_files))
      (empty_store\<lparr>od_tag_columns := schema_tag_columns\<rparr>)
      [(''0000'', ''a'', ''0000_a.sql''), (''0001'', ''b'', ''0001_b.sql'')] = Some db'"
    by (elim conjE exE) (rule that; assumption)
  moreover from once have "apply_schemas demo_schema_env demo_faults (\<lambda>_. None) demo_dir ''config'' demo_updated = (0, demo_updated)"
    by simp
  ultimately show ?thesis
    by (auto simp: demo_sql demo_schema_env_def demo_store_env_def empty_store_def)
qed

text \<open>
  A file that failed: either before anything was recorded, or its version is recorded as dirty.
\<close>

lemma apply_fails:
  assumes "schemas_work E" "apply_schema_file E F files dir f p = (rv, p')" "rv \<noteq> 0"
  obtains "p' = p"
  | v d db db' where "extract_schema_info f = Some (v, d)" "v \<notin> set (versions p)" "gp_db p = Some db"
      "gp_db p' = Some db'" "od_migrations db' = od_migrations db @ [\<lparr>mr_version = v, mr_description = d, mr_dirty = True\<rparr>]"
proof (cases "p' = p")
  case False
  with assms(2) obtain v d where vd: "extract_schema_info f = Some (v, d)"
    by (cases "extract_schema_info f") (auto simp: apply_schema_file_def Let_def split: prod.splits if_splits)
  obtain n path1 m path r0 sql rv1 p1 where path: "path_cat [] PATH_MAX_SIZE dir = (n, path1)"
    "path_cat path1 PATH_MAX_SIZE f = (m, path)" "read_file_string F path files = (r0, sql)"
    and e: "execute_sql E (Insert_migration v d) p = (rv1, p1)"
    by fastforce
  have p1: "should_apply E v p = 1" "execute_sql E (Insert_migration v d) p = (rv1, p1)"
    "(if rv1 \<noteq> 0 then (rv1, p1)
      else case run_script E sql p1 of (ok, p2) \<Rightarrow>
        if \<not> ok then (NEU_ERR_EINTERNAL, p2) else execute_sql E (Clean_migration v) p2) = (rv, p')"
    using False assms(2,3) vd path e should_apply_result(3) [of E v p]
    by (auto simp: apply_schema_file_def Let_def split: if_splits)
  show thesis
    using p1(2)
  proof (cases rule: execute_cases)
    case 1
    with p1(3) False show thesis by simp
  next
    case (2 db)
    obtain ok p2 where p2: "run_script E sql p1 = (ok, p2)" by fastforce
    from run_script_versions(3) [OF assms(1) p2] 2 obtain db2 where db2: "gp_db p2 = Some db2"
      "od_migrations db2 = od_migrations db @ [\<lparr>mr_version = v, mr_description = d, mr_dirty = True\<rparr>]" by force
    have "p' = p2"
      using p1(3) p2 2(1) assms(3) by (auto split: if_splits elim: execute_cases)
    with that(2) [OF vd should_apply_result(1) [OF p1(1)] 2(2)] db2 show thesis by simp
  qed
qed (use that(1) in simp)

lemma insort_before: "f x \<le> f m \<Longrightarrow> insort_key f x (ys @ [m]) = insort_key f x ys @ [m]"
  by (induction ys) auto

lemma newest_last:
  "\<forall>x\<in>set xs. f x < f m \<Longrightarrow> sort_key f (xs @ [m]) = sort_key f xs @ [m]"
  by (induction xs) (auto simp: insort_before less_imp_le)

lemma take_order: "xs \<le> ys \<Longrightarrow> take n xs \<le> take n (ys :: string)"
proof (induction n arbitrary: xs ys)
  case (Suc n)
  then show ?case by (cases xs; cases ys) auto
qed simp

lemma schema_version_prefix: "extract_schema_info f = Some (v, d) \<Longrightarrow> v = take 4 f"
  by (auto simp: extract_schema_info_def Let_def split: if_splits option.splits)

text \<open>Every file that is not recorded is newer than what is recorded.\<close>

definition only_newer :: "string list \<Rightarrow> string list \<Rightarrow> bool" where
  "only_newer vs fs \<longleftrightarrow>
     (\<forall>f\<in>set fs. \<forall>v d. extract_schema_info f = Some (v, d) \<and> v \<notin> set vs \<longrightarrow> (\<forall>w\<in>set vs. w < v))"

lemma only_newer_step:
  assumes "only_newer vs (f # fs)" "sorted (f # fs)"
  shows "only_newer (add_version vs f) fs"
  unfolding only_newer_def
proof (intro ballI allI impI)
  fix g v d w
  assume g: "g \<in> set fs" "extract_schema_info g = Some (v, d) \<and> v \<notin> set (add_version vs f)"
    and w: "w \<in> set (add_version vs f)"
  then have "v \<notin> set vs" using add_version_mono by fastforce
  show "w < v"
  proof (cases "w \<in> set vs")
    case True
    with assms(1) g \<open>v \<notin> set vs\<close> show ?thesis by (auto simp: only_newer_def)
  next
    case False
    with w obtain e where f: "extract_schema_info f = Some (w, e)"
      by (auto simp: add_version_def split: option.splits if_splits)
    from assms(2) g(1) have "take 4 f \<le> take 4 g" by (auto intro: take_order)
    with f g(2) w show ?thesis by (auto simp: less_le dest!: schema_version_prefix)
  qed
qed

definition head_dirty :: "persister \<Rightarrow> bool" where
  "head_dirty p \<longleftrightarrow> (\<exists>db ms m. gp_db p = Some db \<and> sort_key mr_version (od_migrations db) = ms @ [m] \<and> mr_dirty m)"

lemma failed_files:
  assumes "schemas_work E" "apply_schema_files E F files dir fs p = (rv, p')" "rv \<noteq> 0"
    and "all_clean p" "only_newer (versions p) fs" "sorted fs" "gp_db p \<noteq> None"
  shows "all_clean p' \<or> head_dirty p'"
  using assms(2-)
proof (induction fs arbitrary: p)
  case (Cons f fs)
  obtain r p1 where f: "apply_schema_file E F files dir f p = (r, p1)" by fastforce
  show ?case
  proof (cases "r = 0")
    case True
    with Cons.prems(1) f have "apply_schema_files E F files dir fs p1 = (rv, p')" by simp
    with applied_clean [OF assms(1), of F files dir f p p1] f True Cons only_newer_step show ?thesis by auto
  next
    case False
    with Cons.prems(1) f have "p' = p1" by simp
    from assms(1) f False show ?thesis
    proof (cases rule: apply_fails)
      case (2 v d db db')
      with Cons.prems(4) have "\<forall>w\<in>set (versions p). w < v" by (auto simp: only_newer_def)
      with 2(3,5) newest_last [of "od_migrations db" mr_version "\<lparr>mr_version = v, mr_description = d, mr_dirty = True\<rparr>"]
      have "sort_key mr_version (od_migrations db') = sort_key mr_version (od_migrations db) @
          [\<lparr>mr_version = v, mr_description = d, mr_dirty = True\<rparr>]"
        by (simp add: versions_def)
      with 2(4) \<open>p' = p1\<close> show ?thesis by (auto simp: head_dirty_def)
    qed (use \<open>p' = p1\<close> Cons.prems(3) in simp)
  qed
qed simp

lemma dirty_blocks:
  assumes "head_dirty p" "schemas_work E"
  shows "apply_schemas E F files ls dir p = (NEU_ERR_EINTERNAL, p)"
proof -
  from assms(1) obtain db ms m where db: "gp_db p = Some db" "sort_key mr_version (od_migrations db) = ms @ [m]"
    "mr_dirty m" by (auto simp: head_dirty_def)
  obtain r q where c: "execute_sql E Create_migrations p = (r, q)" by fastforce
  then have "q = p" by (cases rule: execute_cases) auto
  with c db schema_version_works [OF assms(2) db(1)] show ?thesis by (simp add: apply_schemas_def)
qed

text \<open>
  Whatever fails, from tables without a dirty version: either none is dirty afterwards, or every later
  start fails.
\<close>

lemma failure_clean_or_blocked:
  fixes E :: "'j old_env"
  assumes "schemas_work E" "ls dir = Some fs" "all_clean p" "only_newer (versions p) fs"
    and "apply_schemas E F files ls dir p = (rv, p')" "rv \<noteq> 0"
  shows "all_clean p' \<or>
    (\<forall>(E' :: 'j old_env) F' files' ls' dir'. schemas_work E' \<longrightarrow>
       apply_schemas E' F' files' ls' dir' p' = (NEU_ERR_EINTERNAL, p'))"
proof -
  let ?fs = "sort [f \<leftarrow> fs. ends_with f ''.sql'']"
  have newer: "only_newer (versions p) ?fs" using assms(4) by (auto simp: only_newer_def)
  obtain r p1 where create: "execute_sql E Create_migrations p = (r, p1)" by fastforce
  then have "p1 = p" by (cases rule: execute_cases) auto
  with create assms(2,5) have "p' = p \<or> (apply_schema_files E F files dir ?fs p = (rv, p') \<and> gp_db p \<noteq> None)"
    by (auto simp: apply_schemas_def collect_schemas_def execute_sql_def split: if_splits sum.splits option.splits)
  then have "all_clean p' \<or> head_dirty p'"
  proof
    assume "apply_schema_files E F files dir ?fs p = (rv, p') \<and> gp_db p \<noteq> None"
    with failed_files [OF assms(1) _ assms(6,3) newer, of F files dir p'] show ?thesis by simp
  qed (use assms(3) in simp)
  then show ?thesis using dirty_blocks by blast
qed

lemma apply_files_append:
  "apply_schema_files E F files dir fs p = (0, q) \<Longrightarrow>
     apply_schema_files E F files dir (fs @ gs) p = apply_schema_files E F files dir gs q"
  by (induction fs arbitrary: p) (auto split: prod.splits if_splits)

lemma only_newer_files:
  "only_newer vs (fs @ gs) \<Longrightarrow> sorted (fs @ gs) \<Longrightarrow> only_newer (foldl add_version vs fs) gs"
proof (induction fs arbitrary: vs)
  case (Cons f fs)
  from only_newer_step [of vs f "fs @ gs"] Cons.prems have "only_newer (add_version vs f) (fs @ gs)" by simp
  with Cons.IH Cons.prems(2) show ?case by simp
qed simp

lemma failing_file:
  assumes "extract_schema_info f = Some (v, d)" "should_apply E v q = 1" "schema_path_fits dir f"
    and "read_file_string F (schema_path dir f) files = (0, sql)"
    and "gp_db q = Some dq" "\<not> oe_refuses E dq (Insert_migration v d)"
    and "oe_script E sql (run_stmt (Insert_migration v d) dq) = (fine, db1)"
    and "\<not> fine \<or> oe_refuses E db1 (Clean_migration v)"
  shows "apply_schema_file E F files dir f q = (NEU_ERR_EINTERNAL, q\<lparr>gp_db := Some db1\<rparr>)"
proof -
  obtain n path1 m path where path: "path_cat [] PATH_MAX_SIZE dir = (n, path1)" "path_cat path1 PATH_MAX_SIZE f = (m, path)"
    by fastforce
  have insert: "execute_sql E (Insert_migration v d) q = (0, q\<lparr>gp_db := Some (run_stmt (Insert_migration v d) dq)\<rparr>)"
    using assms(5,6) by (simp add: execute_sql_def)
  have script: "run_script E sql (q\<lparr>gp_db := Some (run_stmt (Insert_migration v d) dq)\<rparr>) = (fine, q\<lparr>gp_db := Some db1\<rparr>)"
    using assms(7) by (simp add: run_script_def)
  have clean: "fine \<Longrightarrow> execute_sql E (Clean_migration v) (q\<lparr>gp_db := Some db1\<rparr>) = (NEU_ERR_EINTERNAL, q\<lparr>gp_db := Some db1\<rparr>)"
    using assms(8) by (simp add: execute_sql_def)
  show ?thesis
    using assms(1-4) path insert script clean
    by (simp add: apply_schema_file_def schema_path_def schema_path_fits_def Let_def del: run_stmt.simps)
qed

text \<open>
  C38: A schema file that fails half way leaves its version recorded as dirty and stops every later
  start.  Let the tables have no dirty version, the files be newer than what is recorded, those before
  \<open>f\<close> be applied, and \<open>f\<close> be read and its version be inserted; if then its SQL fails, leaving
  whatever it did up to there, or its version cannot be marked as clean, bringing the database up to
  date is an error, no later file is applied, the rows of the versions are those before \<open>f\<close> and a dirty
  one for \<open>f\<close>, and doing it again fails at once and changes nothing, however the files, the directory
  and their SQL were repaired in the meantime.
\<close>

theorem failed_schema_blocks:
  fixes E :: "'j old_env"
  assumes "schemas_work E" "execute_sql E Create_migrations p = (0, p)"
    and "ls dir = Some fs" "all_clean p" "only_newer (versions p) fs"
    and "sort [f \<leftarrow> fs. ends_with f ''.sql''] = pre @ f # post"
    and "apply_schema_files E F files dir pre p = (0, q)" "gp_db q = Some dq"
    and "extract_schema_info f = Some (v, d)" "should_apply E v q = 1" "schema_path_fits dir f"
    and "read_file_string F (schema_path dir f) files = (0, sql)" "\<not> oe_refuses E dq (Insert_migration v d)"
    and "oe_script E sql (run_stmt (Insert_migration v d) dq) = (fine, db1)"
    and "\<not> fine \<or> oe_refuses E db1 (Clean_migration v)"
  shows "apply_schemas E F files ls dir p = (NEU_ERR_EINTERNAL, q\<lparr>gp_db := Some db1\<rparr>) \<and>
    od_migrations db1 = od_migrations dq @ [\<lparr>mr_version = v, mr_description = d, mr_dirty = True\<rparr>] \<and>
    (\<forall>(E' :: 'j old_env) F' files' ls' dir'. schemas_work E' \<longrightarrow>
       apply_schemas E' F' files' ls' dir' (q\<lparr>gp_db := Some db1\<rparr>) = (NEU_ERR_EINTERNAL, q\<lparr>gp_db := Some db1\<rparr>))"
proof (intro conjI)
  let ?new = "\<lparr>mr_version = v, mr_description = d, mr_dirty = True\<rparr>"
  from assms(2) obtain db where db: "gp_db p = Some db" by (auto simp: execute_sql_def split: option.splits)
  from assms(1) have "od_migrations (snd (oe_script E sql (run_stmt (Insert_migration v d) dq)))
      = od_migrations (run_stmt (Insert_migration v d) dq)" unfolding schemas_work_def by blast
  with assms(14) show rows: "od_migrations db1 = od_migrations dq @ [?new]" by simp
  from schema_version_works [OF assms(1) db] assms(4) db
  have head: "\<exists>h. get_schema_version E p = Inr h \<and> \<not> (case h of None \<Rightarrow> False | Some m \<Rightarrow> mr_dirty m)"
  proof (cases "rev (sort_key mr_version (od_migrations db))")
    case (Cons m ms)
    then have "m \<in> set (od_migrations db)" by (metis list.set_intros(1) set_rev set_sort)
    with assms(4) db schema_version_works [OF assms(1) db] Cons show ?thesis by (auto simp: all_clean_def)
  qed simp
  then show "apply_schemas E F files ls dir p = (NEU_ERR_EINTERNAL, q\<lparr>gp_db := Some db1\<rparr>)"
    using assms(2,3,6) apply_files_append [OF assms(7), of "f # post"] failing_file [OF assms(9-12,8,13-15)]
    by (auto simp: apply_schemas_def collect_schemas_def)
  from applied_files [OF assms(1,7) db] assms(8) have "versions q = foldl add_version (versions p) pre"
    using db by (simp add: versions_def flip: pending_versions) (auto simp: case_prod_unfold)
  moreover have "only_newer (versions p) (pre @ f # post)" "sorted (pre @ f # post)"
    using assms(5) by (simp_all add: only_newer_def flip: assms(6)) auto
  ultimately have "only_newer (versions q) (f # post)" using only_newer_files by metis
  with assms(9) should_apply_result(1) [OF assms(10)] have "\<forall>w\<in>set (versions q). w < v" by (auto simp: only_newer_def)
  with assms(8) have "sort_key mr_version (od_migrations db1) = sort_key mr_version (od_migrations dq) @ [?new]"
    unfolding rows by (intro newest_last) (simp add: versions_def)
  then have "head_dirty (q\<lparr>gp_db := Some db1\<rparr>)" by (auto simp: head_dirty_def)
  then show "\<forall>(E' :: 'j old_env) F' files' ls' dir'. schemas_work E' \<longrightarrow>
       apply_schemas E' F' files' ls' dir' (q\<lparr>gp_db := Some db1\<rparr>) = (NEU_ERR_EINTERNAL, q\<lparr>gp_db := Some db1\<rparr>)"
    using dirty_blocks by blast
qed

text \<open>The second file fails after it has made a table.\<close>

definition demo_broken_env :: "jtree old_env" where
  "demo_broken_env = demo_store_env\<lparr>oe_script := \<lambda>sql db.
     (sql = Some ''CREATE TABLE'', db\<lparr>od_tag_columns := schema_tag_columns\<rparr>)\<rparr>"

definition demo_half_db :: old_db where
  "demo_half_db = \<lparr>od_nodes = [], od_settings = [], od_tag_columns = schema_tag_columns, od_tags = [],
     od_migrations = [\<lparr>mr_version = ''0000'', mr_description = ''a'', mr_dirty = False\<rparr>]\<rparr>"

lemma demo_half:
  "apply_schema_files demo_broken_env demo_faults demo_schema_files ''config'' [''0000_a.sql''] demo_store
     = (0, \<lparr>gp_db = Some demo_half_db, gp_node_count = 0, gp_tag_count = 0\<rparr>)"
  by code_simp

lemma demo_half_facts:
  "sort [f \<leftarrow> [''0001_b.sql'', ''readme'', ''0000_a.sql'']. ends_with f ''.sql''] = [''0000_a.sql''] @ ''0001_b.sql'' # []"
  "extract_schema_info ''0001_b.sql'' = Some (''0001'', ''b'')"
  "should_apply demo_broken_env ''0001'' \<lparr>gp_db = Some demo_half_db, gp_node_count = 0, gp_tag_count = 0\<rparr> = 1"
  "schema_path_fits ''config'' ''0001_b.sql''"
  by code_simp+

lemma failed_schema_blocks_witness:
  "\<exists>db1. apply_schemas demo_broken_env demo_faults demo_schema_files demo_dir ''config'' demo_store =
       (NEU_ERR_EINTERNAL, \<lparr>gp_db = Some db1, gp_node_count = 0, gp_tag_count = 0\<rparr>) \<and>
     od_migrations db1 = [\<lparr>mr_version = ''0000'', mr_description = ''a'', mr_dirty = False\<rparr>,
       \<lparr>mr_version = ''0001'', mr_description = ''b'', mr_dirty = True\<rparr>] \<and>
     apply_schemas demo_store_env demo_faults (\<lambda>_. Some ''CREATE TABLE'') demo_dir ''config''
       \<lparr>gp_db = Some db1, gp_node_count = 0, gp_tag_count = 0\<rparr> =
       (NEU_ERR_EINTERNAL, \<lparr>gp_db = Some db1, gp_node_count = 0, gp_tag_count = 0\<rparr>)"
proof -
  have work: "schemas_work demo_broken_env" by (simp add: schemas_work_def demo_broken_env_def demo_store_env_def)
  have create: "execute_sql demo_broken_env Create_migrations demo_store = (0, demo_store)"
    by (simp add: execute_sql_def demo_store_def demo_broken_env_def demo_store_env_def has_columns_def)
  have dir: "demo_dir ''config'' = Some [''0001_b.sql'', ''readme'', ''0000_a.sql'']" by (simp add: demo_dir_def)
  have clean: "all_clean demo_store" "only_newer (versions demo_store) [''0001_b.sql'', ''readme'', ''0000_a.sql'']"
    by (simp_all add: all_clean_def demo_store_def empty_store_def only_newer_def versions_def)
  have q: "gp_db \<lparr>gp_db = Some demo_half_db, gp_node_count = 0, gp_tag_count = 0\<rparr> = Some demo_half_db" by simp
  have insert: "\<not> oe_refuses demo_broken_env demo_half_db (Insert_migration ''0001'' ''b'')"
    by (simp add: demo_broken_env_def demo_store_env_def)
  obtain db1 where script: "oe_script demo_broken_env (Some ''ALTER TABLE'')
      (run_stmt (Insert_migration ''0001'' ''b'') demo_half_db) = (False, db1)"
    by (simp add: demo_broken_env_def)
  show ?thesis
    using failed_schema_blocks [where ls = demo_dir and dir = "''config''", OF work create dir clean demo_half_facts(1) demo_half q demo_half_facts(2-4)
        demo_sql(2) insert script] schemas_work_demo(1)
    by (auto simp: demo_half_db_def)
qed

section \<open>Paths\<close>

lemma path_copy_take: "length dst \<le> room \<Longrightarrow> path_copy room dst src = dst @ take (room - length dst) src"
proof (induction src arbitrary: dst)
  case (Cons c src)
  show ?case
  proof (cases "length dst < room")
    case True
    with Cons.IH [of "dst @ [c]"] have "path_copy room dst (c # src) = dst @ c # take (room - Suc (length dst)) src"
      by simp
    moreover from True have "room - length dst = Suc (room - Suc (length dst))" by simp
    ultimately show ?thesis by simp
  next
    case False
    with Cons.prems show ?thesis by simp
  qed
qed simp

definition join_path :: "string \<Rightarrow> string \<Rightarrow> string" where
  "join_path dst src = dst @ (if dst \<noteq> [] \<and> last dst \<noteq> CHR ''/'' then ''/'' else []) @
     (if src \<noteq> [] \<and> hd src = CHR ''/'' then tl src else src)"

text \<open>A path that fits is the joined one; otherwise the room is the result and the text is cut.\<close>

lemma path_cat_result:
  assumes "length dst < room"
  shows "path_cat dst room src =
    (if length (join_path dst src) < room then (length (join_path dst src), join_path dst src)
     else (room, take (room - 1) (join_path dst src)))"
proof -
  have strip: "(case src of [] \<Rightarrow> [] | c # cs \<Rightarrow> if c = CHR ''/'' then cs else src)
      = (if src \<noteq> [] \<and> hd src = CHR ''/'' then tl src else src)"
    by (cases src) auto
  show ?thesis
    using assms unfolding path_cat_def strip join_path_def Let_def
    by (auto simp: path_copy_take min_def not_less)
qed

section \<open>Plugins\<close>

lemma bsearch_found: "bsearch_from xs key l u \<Longrightarrow> u \<le> length xs \<Longrightarrow> key \<in> set xs"
proof (induction xs key l u rule: bsearch_from.induct)
  case (1 xs key l u)
  let ?i = "(l + u) div 2"
  from 1(3) have lu: "l < u" by (subst (asm) bsearch_from.simps) (auto split: if_splits)
  then have i: "l \<le> ?i" "?i < u" by auto
  from 1(3) lu consider "key < xs ! ?i" "bsearch_from xs key l ?i" | "xs ! ?i < key" "bsearch_from xs key (Suc ?i) u"
    | "key = xs ! ?i"
    by (subst (asm) bsearch_from.simps) (auto simp: Let_def not_less split: if_splits)
  then show ?case
  proof cases
    case 1
    with lu i "1.IH"(1) "1.prems"(2) show ?thesis by simp
  next
    case 2
    with lu i "1.IH"(2) "1.prems"(2) show ?thesis by auto
  next
    case 3
    with i "1.prems"(2) show ?thesis by simp
  qed
qed

lemma add_plugin_names_set: "set (add_plugin_names names users) = set names \<union> set users"
proof (induction users arbitrary: names)
  case (Cons u users)
  have "utarray_find names u \<Longrightarrow> u \<in> set names"
    using bsearch_found [of names u 0 "length names"] by (simp add: utarray_find_def)
  with Cons show ?case by (auto simp: add_plugin_names_def)
qed (simp add: add_plugin_names_def)

end
