(* ===== verification/EventLoop.thy ===== *)
theory EventLoop
  imports Driver
begin

text \<open>
  The event loop of a thread (\<open>src/event/event_linux.c\<close>) over \<open>epoll\<close> and timer descriptors, and the
  calls that add and remove timers and descriptors while it runs.

  Two threads take steps in any order: the loop, and a client that calls the functions.  Each step is
  one statement that reads or writes what both share.  An object has an address that is not used
  again; a freed object is absent, and the loop that reads one stops at \<open>L_crash\<close>.  Allocation,
  \<open>epoll_create\<close> and \<open>pthread_create\<close> succeed.

  A callback of the repository that changes the events of its own thread is one of a descriptor
  (\<open>adapter_loop\<close>), after which the loop reads nothing more; its calls are steps of the client while
  the loop waits.
\<close>

section \<open>State\<close>

record itimerspec =
  it_sec :: int
  it_nsec :: int

text \<open>The kernel refuses a value whose nanoseconds make a second; one of zeros disarms.\<close>

definition arms :: "itimerspec \<Rightarrow> bool" where
  "arms v \<longleftrightarrow> 0 \<le> it_sec v \<and> 0 \<le> it_nsec v \<and> it_nsec v < 1000000000 \<and> (0 < it_sec v \<or> 0 < it_nsec v)"

definition accepted :: "itimerspec \<Rightarrow> bool" where
  "accepted v \<longleftrightarrow> 0 \<le> it_sec v \<and> 0 \<le> it_nsec v \<and> it_nsec v < 1000000000"

datatype thread = Loop_thread | Client_thread

record neu_event_timer =
  et_fd :: int
  et_event_data :: nat
  et_value :: itimerspec
  et_type :: neu_event_timer_type_e
  et_mtx :: "thread option"
  et_stop :: bool

record neu_event_io =
  ei_fd :: int
  ei_event_data :: nat

datatype event_kind = TIMER | IO

text \<open>The context is the address of a timer or of an io; a callback is a number.\<close>

record event_data =
  ed_type :: event_kind
  ed_callback :: nat
  ed_ctx :: nat
  ed_usr_data :: nat
  ed_fd :: int

datatype epoll_flag = EPOLLIN | EPOLLERR | EPOLLHUP | EPOLLRDHUP

datatype neu_event_io_type = NEU_EVENT_IO_READ | NEU_EVENT_IO_CLOSED | NEU_EVENT_IO_HUP

text \<open>A call: the context, the callback, its user data, and for a descriptor the type.\<close>

type_synonym event_call = "nat \<times> nat \<times> nat \<times> neu_event_io_type option"

text \<open>Where the loop is; the number is the event data it holds.\<close>

datatype loop_pc =
    L_wait
  | L_event nat "epoll_flag set"
  | L_read nat
  | L_test nat
  | L_lock nat
  | L_pause nat
  | L_call nat bool
  | L_rearm nat
  | L_readd nat
  | L_unlock nat
  | L_exit
  | L_crash

text \<open>Where the client is in \<open>neu_event_del_timer\<close>, \<open>neu_event_del_io\<close> and \<open>neu_event_close\<close>.\<close>

datatype client_pc =
    C_idle
  | C_stop nat | C_lock nat | C_close nat | C_remove nat | C_free_data nat | C_unlock nat | C_free nat
  | C_io_remove nat | C_io_free nat
  | C_close_epoll | C_join | C_closed

record neu_events =
  es_stop :: bool
  es_open :: bool
  es_epoll :: "int \<Rightarrow> nat option"
  es_armed :: "int \<Rightarrow> bool"
  es_ready :: "int \<Rightarrow> bool"
  es_timer_fds :: "int \<Rightarrow> bool"
  es_data :: "nat \<Rightarrow> event_data option"
  es_timers :: "nat \<Rightarrow> neu_event_timer option"
  es_ios :: "nat \<Rightarrow> neu_event_io option"
  es_next :: nat
  es_loop :: loop_pc
  es_client :: client_pc
  es_calls :: "event_call list"

section \<open>The kernel\<close>

text \<open>A descriptor that is there already stays as it is.\<close>

definition epoll_add :: "int \<Rightarrow> nat \<Rightarrow> neu_events \<Rightarrow> neu_events" where
  "epoll_add fd d s = (if es_epoll s fd = None then s\<lparr>es_epoll := (es_epoll s)(fd := Some d)\<rparr> else s)"

definition epoll_del :: "int \<Rightarrow> neu_events \<Rightarrow> neu_events" where
  "epoll_del fd s = s\<lparr>es_epoll := (es_epoll s)(fd := None)\<rparr>"

text \<open>A value that is refused changes nothing; one that is accepted takes an expiry back.\<close>

definition timerfd_settime :: "int \<Rightarrow> itimerspec \<Rightarrow> neu_events \<Rightarrow> neu_events" where
  "timerfd_settime fd v s =
     (if es_timer_fds s fd \<and> accepted v
      then s\<lparr>es_armed := (es_armed s)(fd := arms v), es_ready := (es_ready s)(fd := False)\<rparr> else s)"

definition timerfd_create :: "int \<Rightarrow> neu_events \<Rightarrow> neu_events" where
  "timerfd_create fd s =
     s\<lparr>es_timer_fds := (es_timer_fds s)(fd := True), es_armed := (es_armed s)(fd := False),
       es_ready := (es_ready s)(fd := False)\<rparr>"

text \<open>Closing a descriptor takes it out of the epoll.\<close>

definition close_timer_fd :: "int \<Rightarrow> neu_events \<Rightarrow> neu_events" where
  "close_timer_fd fd s =
     epoll_del fd (s\<lparr>es_timer_fds := (es_timer_fds s)(fd := False), es_armed := (es_armed s)(fd := False),
       es_ready := (es_ready s)(fd := False)\<rparr>)"

section \<open>Adding\<close>

definition neu_event_new :: neu_events where
  "neu_event_new =
     \<lparr>es_stop = False, es_open = True, es_epoll = (\<lambda>_. None), es_armed = (\<lambda>_. False), es_ready = (\<lambda>_. False),
      es_timer_fds = (\<lambda>_. False), es_data = (\<lambda>_. None), es_timers = (\<lambda>_. None), es_ios = (\<lambda>_. None),
      es_next = 0, es_loop = L_wait, es_client = C_idle, es_calls = []\<rparr>"

definition timer_value :: "int \<Rightarrow> int \<Rightarrow> itimerspec" where
  "timer_value second millisecond = \<lparr>it_sec = second, it_nsec = millisecond * 1000 * 1000\<rparr>"

text \<open>\<open>timer_fd\<close> is the descriptor the kernel gives.  The result is the address of the timer.\<close>

definition neu_event_add_timer ::
  "int \<Rightarrow> int \<Rightarrow> int \<Rightarrow> nat \<Rightarrow> nat \<Rightarrow> neu_event_timer_type_e \<Rightarrow> neu_events \<Rightarrow> nat \<times> neu_events" where
  "neu_event_add_timer timer_fd second millisecond usr_data cb type s =
     (let value = timer_value second millisecond; data = es_next s; timer_ctx = Suc (es_next s);
          s1 = timerfd_settime timer_fd value (timerfd_create timer_fd s);
          s2 = s1\<lparr>es_next := es_next s + 2,
            es_data := (es_data s)(data := Some \<lparr>ed_type = TIMER, ed_callback = cb, ed_ctx = timer_ctx,
              ed_usr_data = usr_data, ed_fd = timer_fd\<rparr>),
            es_timers := (es_timers s)(timer_ctx := Some \<lparr>et_fd = timer_fd, et_event_data = data,
              et_value = value, et_type = type, et_mtx = None, et_stop = False\<rparr>)\<rparr>
      in (timer_ctx, epoll_add timer_fd data s2))"

definition neu_event_add_io :: "int \<Rightarrow> nat \<Rightarrow> nat \<Rightarrow> neu_events \<Rightarrow> nat \<times> neu_events" where
  "neu_event_add_io fd usr_data cb s =
     (let io_ctx = es_next s; data = Suc (es_next s);
          s1 = s\<lparr>es_next := es_next s + 2,
            es_data := (es_data s)(data := Some \<lparr>ed_type = IO, ed_callback = cb, ed_ctx = io_ctx,
              ed_usr_data = usr_data, ed_fd = fd\<rparr>),
            es_ios := (es_ios s)(io_ctx := Some \<lparr>ei_fd = fd, ei_event_data = data\<rparr>)\<rparr>
      in (io_ctx, epoll_add fd data s1))"

section \<open>The loop\<close>

definition at :: "loop_pc \<Rightarrow> neu_events \<Rightarrow> neu_events" where
  "at pc s = s\<lparr>es_loop := pc\<rparr>"

definition with_data :: "nat \<Rightarrow> (event_data \<Rightarrow> neu_events \<Rightarrow> neu_events) \<Rightarrow> neu_events \<Rightarrow> neu_events" where
  "with_data d f s = (case es_data s d of None \<Rightarrow> at L_crash s | Some x \<Rightarrow> f x s)"

definition with_timer ::
  "nat \<Rightarrow> (event_data \<Rightarrow> neu_event_timer \<Rightarrow> neu_events \<Rightarrow> neu_events) \<Rightarrow> neu_events \<Rightarrow> neu_events" where
  "with_timer d f =
     with_data d (\<lambda>x s. case es_timers s (ed_ctx x) of None \<Rightarrow> at L_crash s | Some t \<Rightarrow> f x t s)"

definition log_call :: "event_data \<Rightarrow> neu_event_io_type option \<Rightarrow> neu_events \<Rightarrow> neu_events" where
  "log_call x kind s = s\<lparr>es_calls := es_calls s @ [(ed_ctx x, ed_callback x, ed_usr_data x, kind)]\<rparr>"

definition set_mtx :: "nat \<Rightarrow> thread option \<Rightarrow> neu_events \<Rightarrow> neu_events" where
  "set_mtx t owner s = s\<lparr>es_timers := (es_timers s)(t := map_option (et_mtx_update (\<lambda>_. owner)) (es_timers s t))\<rparr>"

text \<open>What a descriptor reports first of hang-up, closing and reading; an error alone is passed over.\<close>

definition io_kind :: "epoll_flag set \<Rightarrow> neu_event_io_type option" where
  "io_kind flags =
     (if EPOLLHUP \<in> flags then Some NEU_EVENT_IO_HUP
      else if EPOLLRDHUP \<in> flags then Some NEU_EVENT_IO_CLOSED
      else if EPOLLIN \<in> flags then Some NEU_EVENT_IO_READ else None)"

text \<open>The statements of \<open>event_loop\<close> behind \<open>epoll_wait\<close>.  The type of a timer is read with its lock.\<close>

fun loop_step :: "neu_events \<Rightarrow> loop_pc \<Rightarrow> neu_events" where
  "loop_step s (L_event d flags) =
     (if es_stop s then at L_exit s
      else with_data d (\<lambda>x s. case ed_type x of
             TIMER \<Rightarrow> at (if EPOLLIN \<in> flags then L_read d else L_wait) s
           | IO \<Rightarrow> (case io_kind flags of None \<Rightarrow> at L_wait s | Some k \<Rightarrow> at L_wait (log_call x (Some k) s))) s)"
| "loop_step s (L_read d) =
     with_data d (\<lambda>x s. at (L_test d) (s\<lparr>es_ready := (es_ready s)(ed_fd x := False)\<rparr>)) s"
| "loop_step s (L_test d) =
     with_timer d (\<lambda>x t s. at (if et_stop t then L_wait else L_lock d) s) s"
| "loop_step s (L_lock d) =
     with_timer d (\<lambda>x t s.
       if et_mtx t = None
       then at (if et_type t = NEU_EVENT_TIMER_BLOCK then L_pause d else L_call d False)
              (set_mtx (ed_ctx x) (Some Loop_thread) s)
       else s) s"
| "loop_step s (L_pause d) = with_data d (\<lambda>x s. at (L_call d True) (epoll_del (ed_fd x) s)) s"
| "loop_step s (L_call d block) =
     with_data d (\<lambda>x s. at (if block then L_rearm d else L_unlock d) (log_call x None s)) s"
| "loop_step s (L_rearm d) =
     with_timer d (\<lambda>x t s. at (L_readd d) (timerfd_settime (ed_fd x) (et_value t) s)) s"
| "loop_step s (L_readd d) =
     with_data d (\<lambda>x s. at (L_unlock d) (if es_timer_fds s (ed_fd x) then epoll_add (ed_fd x) d s else s)) s"
| "loop_step s (L_unlock d) =
     with_timer d (\<lambda>x t s. at L_wait (set_mtx (ed_ctx x) None s)) s"
| "loop_step s _ = s"

section \<open>Removing and closing\<close>

definition go :: "client_pc \<Rightarrow> neu_events \<Rightarrow> neu_events" where
  "go pc s = s\<lparr>es_client := pc\<rparr>"

text \<open>
  The handle of a client that began is there, so an absent one does nothing here.  The removal
  behind \<open>close\<close> finds the descriptor closed.  The mutex and its timer are freed in one step.
\<close>

definition own_timer :: "nat \<Rightarrow> (neu_event_timer \<Rightarrow> neu_events \<Rightarrow> neu_events) \<Rightarrow> neu_events \<Rightarrow> neu_events" where
  "own_timer t f s = (case es_timers s t of None \<Rightarrow> s | Some x \<Rightarrow> f x s)"

definition own_io :: "nat \<Rightarrow> (neu_event_io \<Rightarrow> neu_events \<Rightarrow> neu_events) \<Rightarrow> neu_events \<Rightarrow> neu_events" where
  "own_io i f s = (case es_ios s i of None \<Rightarrow> s | Some x \<Rightarrow> f x s)"

fun client_step :: "neu_events \<Rightarrow> client_pc \<Rightarrow> neu_events" where
  "client_step s (C_stop t) =
     own_timer t (\<lambda>x s. go (C_lock t) (s\<lparr>es_timers := (es_timers s)(t := Some (x\<lparr>et_stop := True\<rparr>))\<rparr>)) s"
| "client_step s (C_lock t) =
     own_timer t (\<lambda>x s. if et_mtx x = None then go (C_close t) (set_mtx t (Some Client_thread) s) else s) s"
| "client_step s (C_close t) = own_timer t (\<lambda>x s. go (C_remove t) (close_timer_fd (et_fd x) s)) s"
| "client_step s (C_remove t) = go (C_free_data t) s"
| "client_step s (C_free_data t) =
     own_timer t (\<lambda>x s. go (C_unlock t) (s\<lparr>es_data := (es_data s)(et_event_data x := None)\<rparr>)) s"
| "client_step s (C_unlock t) = go (C_free t) (set_mtx t None s)"
| "client_step s (C_free t) = go C_idle (s\<lparr>es_timers := (es_timers s)(t := None)\<rparr>)"
| "client_step s (C_io_remove i) = own_io i (\<lambda>x s. go (C_io_free i) (epoll_del (ei_fd x) s)) s"
| "client_step s (C_io_free i) =
     own_io i (\<lambda>x s. go C_idle (s\<lparr>es_ios := (es_ios s)(i := None),
       es_data := (es_data s)(ei_event_data x := None)\<rparr>)) s"
| "client_step s C_close_epoll = go C_join (s\<lparr>es_open := False\<rparr>)"
| "client_step s C_join = (if es_loop s = L_exit then go C_closed s else s)"
| "client_step s _ = s"

definition neu_event_del_timer :: "nat \<Rightarrow> neu_events \<Rightarrow> neu_events" where
  "neu_event_del_timer t = go (C_stop t)"

definition neu_event_del_io :: "nat \<Rightarrow> neu_events \<Rightarrow> neu_events" where
  "neu_event_del_io i = go (C_io_remove i)"

definition neu_event_close :: "neu_events \<Rightarrow> neu_events" where
  "neu_event_close s = go C_close_epoll (s\<lparr>es_stop := True\<rparr>)"

section \<open>Runs\<close>

text \<open>
  The client calls a function with a handle it was given and has not given back, and calls nothing
  after \<open>neu_event_close\<close>.  A new timer descriptor is one that is not open, and one that is given to
  \<open>neu_event_add_io\<close> is no timer.  Waiting returns a descriptor that is ready; on an epoll that is
  closed it fails.
\<close>

inductive event_step :: "neu_events \<Rightarrow> neu_events \<Rightarrow> bool" where
  add_timer: "es_client s = C_idle \<Longrightarrow> \<not> es_timer_fds s fd \<Longrightarrow> es_epoll s fd = None \<Longrightarrow>
    event_step s (snd (neu_event_add_timer fd second millisecond usr cb type s))"
| del_timer: "es_client s = C_idle \<Longrightarrow> es_timers s t \<noteq> None \<Longrightarrow> event_step s (neu_event_del_timer t s)"
| add_io: "es_client s = C_idle \<Longrightarrow> \<not> es_timer_fds s fd \<Longrightarrow>
    event_step s (snd (neu_event_add_io fd usr cb s))"
| del_io: "es_client s = C_idle \<Longrightarrow> es_ios s i \<noteq> None \<Longrightarrow> event_step s (neu_event_del_io i s)"
| close: "es_client s = C_idle \<Longrightarrow> event_step s (neu_event_close s)"
| client: "event_step s (client_step s (es_client s))"
| loop: "event_step s (loop_step s (es_loop s))"
| expires: "es_armed s fd \<Longrightarrow> event_step s (s\<lparr>es_ready := (es_ready s)(fd := True)\<rparr>)"
| happens: "\<not> es_timer_fds s fd \<Longrightarrow> event_step s (s\<lparr>es_ready := (es_ready s)(fd := b)\<rparr>)"
| waited: "es_loop s = L_wait \<Longrightarrow> es_epoll s fd = Some d \<Longrightarrow> es_ready s fd \<Longrightarrow>
    event_step s (at (L_event d (if es_timer_fds s fd then {EPOLLIN} else flags)) s)"
| wait_fails: "es_loop s = L_wait \<Longrightarrow> \<not> es_open s \<Longrightarrow> event_step s (at L_exit s)"

end
