(* ===== verification/EventOk.thy ===== *)
theory EventOk
  imports EventLoop
begin

text \<open>
  The invariant of the event loop and its clients (\<open>events_ok\<close>): which objects are there, what links
  timers, descriptors and their event data, what is registered, and who has the mutex of a timer.
  Every step of the loop, of a client, of the kernel and of the waiting keeps it.
\<close>

section \<open>Where the threads are\<close>

text \<open>The event data the loop holds without and with the mutex of its timer.\<close>

fun window_at :: "loop_pc \<Rightarrow> nat option" where
  "window_at (L_event d _) = Some d"
| "window_at (L_read d) = Some d"
| "window_at (L_test d) = Some d"
| "window_at (L_lock d) = Some d"
| "window_at _ = None"

fun timer_window :: "loop_pc \<Rightarrow> nat option" where
  "timer_window (L_event d _) = None"
| "timer_window pc = window_at pc"

fun locked_at :: "loop_pc \<Rightarrow> nat option" where
  "locked_at (L_pause d) = Some d"
| "locked_at (L_call d _) = Some d"
| "locked_at (L_rearm d) = Some d"
| "locked_at (L_readd d) = Some d"
| "locked_at (L_unlock d) = Some d"
| "locked_at _ = None"

fun removing :: "client_pc \<Rightarrow> nat option" where
  "removing (C_stop t) = Some t"
| "removing (C_lock t) = Some t"
| "removing (C_close t) = Some t"
| "removing (C_remove t) = Some t"
| "removing (C_free_data t) = Some t"
| "removing (C_unlock t) = Some t"
| "removing (C_free t) = Some t"
| "removing _ = None"

fun locks :: "client_pc \<Rightarrow> nat option" where
  "locks (C_stop t) = None"
| "locks (C_lock t) = None"
| "locks (C_free t) = None"
| "locks pc = removing pc"

fun freed :: "client_pc \<Rightarrow> nat option" where
  "freed (C_unlock t) = Some t"
| "freed (C_free t) = Some t"
| "freed _ = None"

fun fd_closed :: "client_pc \<Rightarrow> nat option" where
  "fd_closed (C_remove t) = Some t"
| "fd_closed (C_free_data t) = Some t"
| "fd_closed pc = freed pc"

fun removing_io :: "client_pc \<Rightarrow> nat option" where
  "removing_io (C_io_remove i) = Some i"
| "removing_io (C_io_free i) = Some i"
| "removing_io _ = None"

section \<open>The invariant of every run\<close>

definition fresh_ok :: "neu_events \<Rightarrow> bool" where
  "fresh_ok s \<longleftrightarrow> (\<forall>a\<ge>es_next s. es_data s a = None \<and> es_timers s a = None \<and> es_ios s a = None)"

definition timer_of :: "neu_events \<Rightarrow> nat \<Rightarrow> event_data \<Rightarrow> bool" where
  "timer_of s d x \<longleftrightarrow>
     (\<exists>t. es_timers s (ed_ctx x) = Some t \<and> et_event_data t = d \<and> et_fd t = ed_fd x)"

definition io_of :: "neu_events \<Rightarrow> nat \<Rightarrow> event_data \<Rightarrow> bool" where
  "io_of s d x \<longleftrightarrow> (\<exists>i. es_ios s (ed_ctx x) = Some i \<and> ei_event_data i = d \<and> ei_fd i = ed_fd x)"

definition data_ok :: "neu_events \<Rightarrow> bool" where
  "data_ok s \<longleftrightarrow> (\<forall>d x. es_data s d = Some x \<longrightarrow>
     (ed_type x = TIMER \<longrightarrow> timer_of s d x) \<and> (ed_type x = IO \<longrightarrow> io_of s d x))"

definition timers_ok :: "neu_events \<Rightarrow> bool" where
  "timers_ok s \<longleftrightarrow> (\<forall>t x. es_timers s t = Some x \<longrightarrow>
     (if freed (es_client s) = Some t then es_data s (et_event_data x) = None
      else \<exists>y. es_data s (et_event_data x) = Some y \<and> ed_type y = TIMER \<and> ed_ctx y = t))"

definition ios_ok :: "neu_events \<Rightarrow> bool" where
  "ios_ok s \<longleftrightarrow> (\<forall>i x. es_ios s i = Some x \<longrightarrow>
     (\<exists>y. es_data s (ei_event_data x) = Some y \<and> ed_type y = IO \<and> ed_ctx y = i))"

definition epoll_ok :: "neu_events \<Rightarrow> bool" where
  "epoll_ok s \<longleftrightarrow> (\<forall>fd d. es_epoll s fd = Some d \<longrightarrow> (\<exists>x. es_data s d = Some x \<and> ed_fd x = fd))"

definition loop_ok :: "neu_events \<Rightarrow> bool" where
  "loop_ok s \<longleftrightarrow>
     (\<forall>d. window_at (es_loop s) = Some d \<longrightarrow> d < es_next s) \<and>
     (\<forall>d x. timer_window (es_loop s) = Some d \<longrightarrow> es_data s d = Some x \<longrightarrow> ed_type x = TIMER) \<and>
     (\<forall>d. locked_at (es_loop s) = Some d \<longrightarrow> (\<exists>x. es_data s d = Some x \<and> ed_type x = TIMER))"

definition mutex_ok :: "neu_events \<Rightarrow> bool" where
  "mutex_ok s \<longleftrightarrow> (\<forall>t x. es_timers s t = Some x \<longrightarrow>
     (et_mtx x = Some Client_thread \<longleftrightarrow> locks (es_client s) = Some t) \<and>
     (et_mtx x = Some Loop_thread \<longleftrightarrow> locked_at (es_loop s) = Some (et_event_data x)))"

definition client_ok :: "neu_events \<Rightarrow> bool" where
  "client_ok s \<longleftrightarrow>
     (\<forall>t. removing (es_client s) = Some t \<longrightarrow> es_timers s t \<noteq> None) \<and>
     (\<forall>i. removing_io (es_client s) = Some i \<longrightarrow> es_ios s i \<noteq> None) \<and>
     (\<forall>t x. fd_closed (es_client s) = Some t \<longrightarrow> es_timers s t = Some x \<longrightarrow>
        es_epoll s (et_fd x) \<noteq> Some (et_event_data x)) \<and>
     (\<forall>i x. es_client s = C_io_free i \<longrightarrow> es_ios s i = Some x \<longrightarrow> es_epoll s (ei_fd x) \<noteq> Some (ei_event_data x))"

definition events_ok :: "neu_events \<Rightarrow> bool" where
  "events_ok s \<longleftrightarrow> fresh_ok s \<and> data_ok s \<and> timers_ok s \<and> ios_ok s \<and> epoll_ok s \<and> loop_ok s \<and> mutex_ok s \<and> client_ok s"

lemmas events_parts = fresh_ok_def data_ok_def timers_ok_def ios_ok_def epoll_ok_def loop_ok_def mutex_ok_def
  client_ok_def timer_of_def io_of_def

text \<open>What does not matter to a part of the invariant.\<close>

lemma fresh_frame [simp]:
  "fresh_ok (s\<lparr>es_loop := pc\<rparr>) = fresh_ok s" "fresh_ok (s\<lparr>es_client := cpc\<rparr>) = fresh_ok s"
  "fresh_ok (s\<lparr>es_epoll := e\<rparr>) = fresh_ok s" "fresh_ok (s\<lparr>es_armed := a\<rparr>) = fresh_ok s"
  "fresh_ok (s\<lparr>es_ready := r\<rparr>) = fresh_ok s" "fresh_ok (s\<lparr>es_timer_fds := f\<rparr>) = fresh_ok s"
  "fresh_ok (s\<lparr>es_calls := c\<rparr>) = fresh_ok s" "fresh_ok (s\<lparr>es_stop := b\<rparr>) = fresh_ok s"
  "fresh_ok (s\<lparr>es_open := b\<rparr>) = fresh_ok s"
  by (simp_all add: fresh_ok_def)

lemma data_frame [simp]:
  "data_ok (s\<lparr>es_loop := pc\<rparr>) = data_ok s" "data_ok (s\<lparr>es_client := cpc\<rparr>) = data_ok s"
  "data_ok (s\<lparr>es_epoll := e\<rparr>) = data_ok s" "data_ok (s\<lparr>es_armed := a\<rparr>) = data_ok s"
  "data_ok (s\<lparr>es_ready := r\<rparr>) = data_ok s" "data_ok (s\<lparr>es_timer_fds := f\<rparr>) = data_ok s"
  "data_ok (s\<lparr>es_calls := c\<rparr>) = data_ok s" "data_ok (s\<lparr>es_stop := b\<rparr>) = data_ok s"
  "data_ok (s\<lparr>es_open := b\<rparr>) = data_ok s"
  by (simp_all add: data_ok_def timer_of_def io_of_def)

lemma timers_frame [simp]:
  "timers_ok (s\<lparr>es_loop := pc\<rparr>) = timers_ok s"
  "timers_ok (s\<lparr>es_epoll := e\<rparr>) = timers_ok s" "timers_ok (s\<lparr>es_armed := a\<rparr>) = timers_ok s"
  "timers_ok (s\<lparr>es_ready := r\<rparr>) = timers_ok s" "timers_ok (s\<lparr>es_timer_fds := f\<rparr>) = timers_ok s"
  "timers_ok (s\<lparr>es_calls := c\<rparr>) = timers_ok s" "timers_ok (s\<lparr>es_stop := b\<rparr>) = timers_ok s"
  "timers_ok (s\<lparr>es_open := b\<rparr>) = timers_ok s"
  by (simp_all add: timers_ok_def)

lemma ios_frame [simp]:
  "ios_ok (s\<lparr>es_loop := pc\<rparr>) = ios_ok s" "ios_ok (s\<lparr>es_client := cpc\<rparr>) = ios_ok s"
  "ios_ok (s\<lparr>es_epoll := e\<rparr>) = ios_ok s" "ios_ok (s\<lparr>es_armed := a\<rparr>) = ios_ok s"
  "ios_ok (s\<lparr>es_ready := r\<rparr>) = ios_ok s" "ios_ok (s\<lparr>es_timer_fds := f\<rparr>) = ios_ok s"
  "ios_ok (s\<lparr>es_calls := c\<rparr>) = ios_ok s" "ios_ok (s\<lparr>es_stop := b\<rparr>) = ios_ok s"
  "ios_ok (s\<lparr>es_open := b\<rparr>) = ios_ok s" "ios_ok (s\<lparr>es_timers := ts\<rparr>) = ios_ok s"
  by (simp_all add: ios_ok_def)

lemma epoll_frame [simp]:
  "epoll_ok (s\<lparr>es_loop := pc\<rparr>) = epoll_ok s" "epoll_ok (s\<lparr>es_client := cpc\<rparr>) = epoll_ok s"
  "epoll_ok (s\<lparr>es_armed := a\<rparr>) = epoll_ok s" "epoll_ok (s\<lparr>es_next := n\<rparr>) = epoll_ok s"
  "epoll_ok (s\<lparr>es_ready := r\<rparr>) = epoll_ok s" "epoll_ok (s\<lparr>es_timer_fds := f\<rparr>) = epoll_ok s"
  "epoll_ok (s\<lparr>es_calls := c\<rparr>) = epoll_ok s" "epoll_ok (s\<lparr>es_stop := b\<rparr>) = epoll_ok s"
  "epoll_ok (s\<lparr>es_open := b\<rparr>) = epoll_ok s" "epoll_ok (s\<lparr>es_timers := ts\<rparr>) = epoll_ok s"
  "epoll_ok (s\<lparr>es_ios := is\<rparr>) = epoll_ok s"
  by (simp_all add: epoll_ok_def)

lemma loop_frame [simp]:
  "loop_ok (s\<lparr>es_client := cpc\<rparr>) = loop_ok s"
  "loop_ok (s\<lparr>es_epoll := e\<rparr>) = loop_ok s" "loop_ok (s\<lparr>es_armed := a\<rparr>) = loop_ok s"
  "loop_ok (s\<lparr>es_ready := r\<rparr>) = loop_ok s" "loop_ok (s\<lparr>es_timer_fds := f\<rparr>) = loop_ok s"
  "loop_ok (s\<lparr>es_calls := c\<rparr>) = loop_ok s" "loop_ok (s\<lparr>es_stop := b\<rparr>) = loop_ok s"
  "loop_ok (s\<lparr>es_open := b\<rparr>) = loop_ok s" "loop_ok (s\<lparr>es_timers := ts\<rparr>) = loop_ok s"
  "loop_ok (s\<lparr>es_ios := is\<rparr>) = loop_ok s"
  by (simp_all add: loop_ok_def)

lemma loop_timers [simp]: "loop_ok (s\<lparr>es_timers := ts, es_loop := pc\<rparr>) = loop_ok (s\<lparr>es_loop := pc\<rparr>)"
  by (simp add: loop_ok_def)

lemma mutex_frame [simp]:
  "mutex_ok (s\<lparr>es_data := ds\<rparr>) = mutex_ok s" "mutex_ok (s\<lparr>es_next := n\<rparr>) = mutex_ok s"
  "mutex_ok (s\<lparr>es_epoll := e\<rparr>) = mutex_ok s" "mutex_ok (s\<lparr>es_armed := a\<rparr>) = mutex_ok s"
  "mutex_ok (s\<lparr>es_ready := r\<rparr>) = mutex_ok s" "mutex_ok (s\<lparr>es_timer_fds := f\<rparr>) = mutex_ok s"
  "mutex_ok (s\<lparr>es_calls := c\<rparr>) = mutex_ok s" "mutex_ok (s\<lparr>es_stop := b\<rparr>) = mutex_ok s"
  "mutex_ok (s\<lparr>es_open := b\<rparr>) = mutex_ok s" "mutex_ok (s\<lparr>es_ios := is\<rparr>) = mutex_ok s"
  by (simp_all add: mutex_ok_def)

lemma client_frame [simp]:
  "client_ok (s\<lparr>es_loop := pc\<rparr>) = client_ok s" "client_ok (s\<lparr>es_data := ds\<rparr>) = client_ok s"
  "client_ok (s\<lparr>es_armed := a\<rparr>) = client_ok s" "client_ok (s\<lparr>es_next := n\<rparr>) = client_ok s"
  "client_ok (s\<lparr>es_ready := r\<rparr>) = client_ok s" "client_ok (s\<lparr>es_timer_fds := f\<rparr>) = client_ok s"
  "client_ok (s\<lparr>es_calls := c\<rparr>) = client_ok s" "client_ok (s\<lparr>es_stop := b\<rparr>) = client_ok s"
  "client_ok (s\<lparr>es_open := b\<rparr>) = client_ok s"
  by (simp_all add: client_ok_def)

section \<open>Steps of the loop\<close>

text \<open>Writing the mutex or the mark of a timer leaves what links it.\<close>

definition same_links :: "neu_event_timer \<Rightarrow> neu_event_timer \<Rightarrow> bool" where
  "same_links x y \<longleftrightarrow> et_fd y = et_fd x \<and> et_event_data y = et_event_data x"

lemma change_timer:
  assumes "es_timers s t = Some x" "same_links x y"
  shows "fresh_ok (s\<lparr>es_timers := (es_timers s)(t \<mapsto> y)\<rparr>) = fresh_ok s"
    and "data_ok (s\<lparr>es_timers := (es_timers s)(t \<mapsto> y)\<rparr>) = data_ok s"
    and "timers_ok (s\<lparr>es_timers := (es_timers s)(t \<mapsto> y)\<rparr>) = timers_ok s"
    and "client_ok (s\<lparr>es_timers := (es_timers s)(t \<mapsto> y)\<rparr>) = client_ok s"
proof -
  show "fresh_ok (s\<lparr>es_timers := (es_timers s)(t \<mapsto> y)\<rparr>) = fresh_ok s"
    using assms by (auto simp: fresh_ok_def)
  have "timer_of (s\<lparr>es_timers := (es_timers s)(t \<mapsto> y)\<rparr>) d z = timer_of s d z" for d z
    using assms by (auto simp: timer_of_def same_links_def)
  moreover have "io_of (s\<lparr>es_timers := (es_timers s)(t \<mapsto> y)\<rparr>) d z = io_of s d z" for d z
    by (simp add: io_of_def)
  ultimately show "data_ok (s\<lparr>es_timers := (es_timers s)(t \<mapsto> y)\<rparr>) = data_ok s"
    by (simp add: data_ok_def)
  show "timers_ok (s\<lparr>es_timers := (es_timers s)(t \<mapsto> y)\<rparr>) = timers_ok s"
    using assms by (auto simp: timers_ok_def same_links_def)
  show "client_ok (s\<lparr>es_timers := (es_timers s)(t \<mapsto> y)\<rparr>) = client_ok s"
    using assms by (auto simp: client_ok_def same_links_def split: if_splits)
qed

lemmas event_ops = at_def go_def with_data_def with_timer_def own_timer_def own_io_def log_call_def
  epoll_add_def epoll_del_def close_timer_fd_def timerfd_settime_def timerfd_create_def

lemma data_timer: "\<lbrakk>events_ok s; es_data s d = Some x; ed_type x = TIMER\<rbrakk> \<Longrightarrow>
    \<exists>t. es_timers s (ed_ctx x) = Some t \<and> et_event_data t = d \<and> et_fd t = ed_fd x"
  by (auto simp: events_ok_def data_ok_def timer_of_def split: event_kind.splits)

lemma data_io: "\<lbrakk>events_ok s; es_data s d = Some x; ed_type x = IO\<rbrakk> \<Longrightarrow>
    \<exists>i. es_ios s (ed_ctx x) = Some i \<and> ei_event_data i = d \<and> ei_fd i = ed_fd x"
  by (auto simp: events_ok_def data_ok_def io_of_def)

lemma leave_wait: "locked_at (es_loop s) = None \<Longrightarrow> locked_at pc = None \<Longrightarrow> mutex_ok (s\<lparr>es_loop := pc\<rparr>) = mutex_ok s"
  by (simp add: mutex_ok_def)

lemma same_lock: "locked_at (es_loop s) = locked_at pc \<Longrightarrow> mutex_ok (s\<lparr>es_loop := pc\<rparr>) = mutex_ok s"
  by (simp add: mutex_ok_def)

lemma live_timer:
  "\<lbrakk>events_ok s; es_timers s t = Some y; freed (es_client s) \<noteq> Some t\<rbrakk> \<Longrightarrow>
    \<exists>z. es_data s (et_event_data y) = Some z \<and> ed_type z = TIMER \<and> ed_ctx z = t"
  by (simp add: events_ok_def timers_ok_def)

lemma freed_timer:
  "\<lbrakk>events_ok s; es_timers s t = Some y; freed (es_client s) = Some t\<rbrakk> \<Longrightarrow> es_data s (et_event_data y) = None"
  by (simp add: events_ok_def timers_ok_def)

lemma live_io:
  "\<lbrakk>events_ok s; es_ios s i = Some y\<rbrakk> \<Longrightarrow>
    \<exists>z. es_data s (ei_event_data y) = Some z \<and> ed_type z = IO \<and> ed_ctx z = i"
  by (simp add: events_ok_def ios_ok_def)

lemma mtx_client:
  "\<lbrakk>events_ok s; es_timers s t = Some y\<rbrakk> \<Longrightarrow> et_mtx y = Some Client_thread \<longleftrightarrow> locks (es_client s) = Some t"
  by (simp add: events_ok_def mutex_ok_def)

lemma mtx_loop:
  "\<lbrakk>events_ok s; es_timers s t = Some y\<rbrakk> \<Longrightarrow>
    et_mtx y = Some Loop_thread \<longleftrightarrow> locked_at (es_loop s) = Some (et_event_data y)"
  by (simp add: events_ok_def mutex_ok_def)

lemma timer_unique:
  assumes "events_ok s" "es_data s d = Some x" "es_timers s t = Some y" "et_event_data y = d"
  shows "t = ed_ctx x"
  using assms freed_timer [OF assms(1,3)] live_timer [OF assms(1,3)] by force

lemma set_mtx_eq: "es_timers s t = Some x \<Longrightarrow>
    set_mtx t owner s = s\<lparr>es_timers := (es_timers s)(t \<mapsto> x\<lparr>et_mtx := owner\<rparr>)\<rparr>"
  by (simp add: set_mtx_def)

lemma mtx_links [simp]: "same_links x (x\<lparr>et_mtx := owner\<rparr>)" "same_links x (x\<lparr>et_stop := b\<rparr>)"
  by (simp_all add: same_links_def)

text \<open>The mutex of one timer changes hands.\<close>

lemma change_mtx:
  assumes "events_ok s" "es_data s d = Some x" "es_timers s (ed_ctx x) = Some t" "et_event_data t = d"
    and "locks (es_client s) \<noteq> Some (ed_ctx x)" "locked_at (es_loop s) = None \<or> locked_at (es_loop s) = Some d"
    and "owner \<noteq> Some Client_thread" "locked_at pc = (if owner = None then None else Some d)"
  shows "mutex_ok (s\<lparr>es_timers := (es_timers s)(ed_ctx x \<mapsto> t\<lparr>et_mtx := owner\<rparr>), es_loop := pc\<rparr>)"
  unfolding mutex_ok_def
proof (intro allI impI)
  fix t' y
  assume y: "es_timers (s\<lparr>es_timers := (es_timers s)(ed_ctx x \<mapsto> t\<lparr>et_mtx := owner\<rparr>), es_loop := pc\<rparr>) t' = Some y"
  have owner: "owner = None \<or> owner = Some Loop_thread" using assms(7) by (metis (full_types) option.exhaust thread.exhaust)
  let ?s = "s\<lparr>es_timers := (es_timers s)(ed_ctx x \<mapsto> t\<lparr>et_mtx := owner\<rparr>), es_loop := pc\<rparr>"
  show "(et_mtx y = Some Client_thread \<longleftrightarrow> locks (es_client ?s) = Some t') \<and>
     (et_mtx y = Some Loop_thread \<longleftrightarrow> locked_at (es_loop ?s) = Some (et_event_data y))"
  proof (cases "t' = ed_ctx x")
    case True
    with y have "y = t\<lparr>et_mtx := owner\<rparr>" by simp
    with True assms(4,5,8) owner show ?thesis by (cases "owner = None") simp_all
  next
    case False
    with y have y: "es_timers s t' = Some y" by simp
    have "et_event_data y \<noteq> d" using timer_unique [OF assms(1,2) y] False by blast
    with assms(6,8) owner mtx_client [OF assms(1) y] mtx_loop [OF assms(1) y] show ?thesis by auto
  qed
qed

lemma loop_takes:
  assumes "events_ok s" "es_data s d = Some x" "es_timers s (ed_ctx x) = Some t" "et_event_data t = d"
    and "et_mtx t = None" "locked_at (es_loop s) = None" "locked_at pc = Some d"
  shows "mutex_ok (s\<lparr>es_timers := (es_timers s)(ed_ctx x \<mapsto> t\<lparr>et_mtx := Some Loop_thread\<rparr>), es_loop := pc\<rparr>)"
  using change_mtx [OF assms(1-4), of "Some Loop_thread" pc] mtx_client [OF assms(1,3)] assms(5-7) by simp

lemma loop_gives:
  assumes "events_ok s" "es_data s d = Some x" "es_timers s (ed_ctx x) = Some t" "et_event_data t = d"
    and "locked_at (es_loop s) = Some d" "locked_at pc = None"
  shows "mutex_ok (s\<lparr>es_timers := (es_timers s)(ed_ctx x \<mapsto> t\<lparr>et_mtx := None\<rparr>), es_loop := pc\<rparr>)"
proof -
  from mtx_loop [OF assms(1,3)] assms(4,5) have "et_mtx t = Some Loop_thread" by simp
  with change_mtx [OF assms(1-4), of None pc] mtx_client [OF assms(1,3)] assms(5,6) show ?thesis by simp
qed

text \<open>Changing the registration of a timer whose mutex the loop holds.\<close>

lemma loop_holds:
  assumes "events_ok s" "locked_at (es_loop s) = Some d"
  obtains x t where "es_data s d = Some x" "ed_type x = TIMER" "es_timers s (ed_ctx x) = Some t"
    "et_event_data t = d" "et_fd t = ed_fd x" "et_mtx t = Some Loop_thread" "locks (es_client s) \<noteq> Some (ed_ctx x)"
proof -
  from assms obtain x where x: "es_data s d = Some x" "ed_type x = TIMER" by (auto simp: events_ok_def loop_ok_def)
  from data_timer [OF assms(1) this] obtain t where t: "es_timers s (ed_ctx x) = Some t" "et_event_data t = d"
    "et_fd t = ed_fd x" by blast
  with assms(2) mtx_loop [OF assms(1) t(1)] have "et_mtx t = Some Loop_thread" by simp
  moreover with mtx_client [OF assms(1) t(1)] have "locks (es_client s) \<noteq> Some (ed_ctx x)" by simp
  ultimately show ?thesis using x t that by blast
qed

lemma fd_closed_locks: "fd_closed pc = Some t \<Longrightarrow> locks pc = Some t \<or> freed pc = Some t"
  by (cases pc) auto

lemma drop_registration:
  assumes "events_ok s"
  shows "epoll_ok (epoll_del fd s)" "client_ok (epoll_del fd s)"
  using assms by (auto simp: events_ok_def epoll_ok_def client_ok_def epoll_del_def)

lemma add_registration:
  assumes "events_ok s" "locked_at (es_loop s) = Some d" "es_data s d = Some x"
  shows "epoll_ok (epoll_add (ed_fd x) d s)" "client_ok (epoll_add (ed_fd x) d s)"
proof -
  show "epoll_ok (epoll_add (ed_fd x) d s)"
    using assms by (auto simp: events_ok_def epoll_ok_def epoll_add_def)
  obtain t where t: "ed_type x = TIMER" "es_timers s (ed_ctx x) = Some t" "et_event_data t = d"
    "locks (es_client s) \<noteq> Some (ed_ctx x)"
    using loop_holds [OF assms(1,2)] assms(3) by (metis option.inject)
  have "\<not> (fd_closed (es_client s) = Some t' \<and> es_timers s t' = Some y \<and> et_event_data y = d)" for t' y
    using fd_closed_locks [of "es_client s" t'] timer_unique [OF assms(1,3), of t' y] t(4)
      freed_timer [OF assms(1), of t' y] assms(3) by (metis option.distinct(1))
  moreover have "\<not> (es_ios s i = Some y \<and> ei_event_data y = d)" for i y
    using live_io [OF assms(1), of i y] assms(3) t(1) by auto
  ultimately show "client_ok (epoll_add (ed_fd x) d s)"
    using assms(1) by (auto simp: events_ok_def client_ok_def epoll_add_def)
qed

lemma loop_step_ok:
  assumes "events_ok s"
  shows "events_ok (loop_step s (es_loop s))"
proof (cases "es_loop s")
  case (L_event d flags)
  with assms show ?thesis
    by (auto simp: events_ok_def event_ops leave_wait loop_ok_def split: option.splits event_kind.splits)
next
  case (L_read d)
  with assms show ?thesis
    by (auto simp: events_ok_def event_ops leave_wait loop_ok_def split: option.splits)
next
  case (L_test d)
  with assms show ?thesis
    by (auto simp: events_ok_def event_ops leave_wait loop_ok_def split: option.splits)
next
  case (L_lock d)
  show ?thesis
  proof (cases "es_data s d")
    case None
    with assms L_lock show ?thesis by (auto simp: events_ok_def event_ops leave_wait loop_ok_def)
  next
    case (Some x)
    with assms L_lock have "ed_type x = TIMER" by (auto simp: events_ok_def loop_ok_def)
    from data_timer [OF assms Some this] obtain t where t: "es_timers s (ed_ctx x) = Some t" "et_event_data t = d" by blast
    let ?pc = "if et_type t = NEU_EVENT_TIMER_BLOCK then L_pause d else L_call d False"
    have pc: "locked_at ?pc = Some d" "timer_window ?pc = None" by auto
    have "loop_ok (s\<lparr>es_loop := ?pc\<rparr>)"
      using Some \<open>ed_type x = TIMER\<close> pc unfolding loop_ok_def by auto
    moreover have "mutex_ok (s\<lparr>es_timers := (es_timers s)(ed_ctx x \<mapsto> t\<lparr>et_mtx := Some Loop_thread\<rparr>), es_loop := ?pc\<rparr>)"
      if "et_mtx t = None"
      using loop_takes [OF assms Some t that _ pc(1)] L_lock by simp
    ultimately show ?thesis
      using assms L_lock Some t change_timer [OF t(1)]
      by (auto simp: events_ok_def at_def with_timer_def with_data_def set_mtx_eq)
  qed
next
  case (L_pause d)
  then have "locked_at (es_loop s) = Some d" by simp
  with assms obtain x where x: "es_data s d = Some x" "ed_type x = TIMER" by (auto elim: loop_holds)
  from drop_registration [OF assms, of "ed_fd x"] assms x L_pause show ?thesis
    by (auto simp: events_ok_def event_ops same_lock loop_ok_def)
next
  case (L_call d block)
  then have "locked_at (es_loop s) = Some d" by simp
  with assms obtain x where x: "es_data s d = Some x" "ed_type x = TIMER" by (auto elim: loop_holds)
  with assms L_call show ?thesis
    by (auto simp: events_ok_def event_ops same_lock loop_ok_def)
next
  case (L_rearm d)
  then have "locked_at (es_loop s) = Some d" by simp
  with assms obtain x t where x: "es_data s d = Some x" "ed_type x = TIMER" "es_timers s (ed_ctx x) = Some t"
    by (auto elim: loop_holds)
  with assms L_rearm show ?thesis
    by (auto simp: events_ok_def event_ops same_lock loop_ok_def)
next
  case (L_readd d)
  then have lock: "locked_at (es_loop s) = Some d" by simp
  with assms obtain x where x: "es_data s d = Some x" "ed_type x = TIMER" by (auto elim: loop_holds)
  from add_registration [OF assms lock x(1)] assms x L_readd show ?thesis
    by (auto simp: events_ok_def event_ops same_lock loop_ok_def)
next
  case (L_unlock d)
  then have lock: "locked_at (es_loop s) = Some d" by simp
  with assms obtain x t where x: "es_data s d = Some x" "ed_type x = TIMER" "es_timers s (ed_ctx x) = Some t"
    "et_event_data t = d" by (auto elim: loop_holds)
  from loop_gives [OF assms x(1,3,4) lock, of L_wait] change_timer [OF x(3)] assms x L_unlock show ?thesis
    by (auto simp: events_ok_def at_def with_timer_def with_data_def set_mtx_eq loop_ok_def)
qed (use assms in auto)

section \<open>Steps of the client\<close>

lemma same_freed: "freed pc = freed (es_client s) \<Longrightarrow> timers_ok (s\<lparr>es_client := pc\<rparr>) = timers_ok s"
  by (simp add: timers_ok_def)

lemma same_locks: "locks pc = locks (es_client s) \<Longrightarrow> mutex_ok (s\<lparr>es_client := pc\<rparr>) = mutex_ok s"
  by (simp add: mutex_ok_def)

lemma closed_registration:
  "\<lbrakk>events_ok s; fd_closed (es_client s) = Some t; es_timers s t = Some x\<rbrakk> \<Longrightarrow>
    es_epoll s (et_fd x) \<noteq> Some (et_event_data x)"
  by (simp add: events_ok_def client_ok_def)

text \<open>Freeing the event data of a timer that is registered nowhere and whose mutex the client has.\<close>

lemma free_data_ok:
  assumes "events_ok s" "es_client s = C_free_data t" "es_timers s t = Some x"
  shows "events_ok (s\<lparr>es_data := (es_data s)(et_event_data x := None), es_client := C_unlock t\<rparr>)"
proof -
  let ?d = "et_event_data x" and ?s = "s\<lparr>es_data := (es_data s)(et_event_data x := None), es_client := C_unlock t\<rparr>"
  obtain z where z: "es_data s ?d = Some z" "ed_type z = TIMER" "ed_ctx z = t"
    using live_timer [OF assms(1,3)] assms(2) by auto
  have fd: "et_fd x = ed_fd z" using data_timer [OF assms(1) z(1,2)] z(3) assms(3) by auto
  have not_loop: "locked_at (es_loop s) \<noteq> Some ?d"
    using mtx_loop [OF assms(1,3)] mtx_client [OF assms(1,3)] assms(2) by auto
  have "data_ok ?s" using assms(1) by (auto simp: events_ok_def data_ok_def timer_of_def io_of_def)
  moreover have "timers_ok ?s"
    unfolding timers_ok_def
  proof (intro allI impI)
    fix t' y assume "es_timers ?s t' = Some y"
    then have y: "es_timers s t' = Some y" by simp
    show "if freed (es_client ?s) = Some t' then es_data ?s (et_event_data y) = None
      else \<exists>w. es_data ?s (et_event_data y) = Some w \<and> ed_type w = TIMER \<and> ed_ctx w = t'"
    proof (cases "t' = t")
      case True
      with y assms(3) show ?thesis by simp
    next
      case False
      with timer_unique [OF assms(1) z(1) y] z(3) have "et_event_data y \<noteq> ?d" by blast
      with False live_timer [OF assms(1) y] assms(2) show ?thesis by simp
    qed
  qed
  moreover have "ios_ok ?s"
    unfolding ios_ok_def
  proof (intro allI impI)
    fix i y assume "es_ios ?s i = Some y"
    then have "es_ios s i = Some y" by simp
    from live_io [OF assms(1) this] z show "\<exists>w. es_data ?s (ei_event_data y) = Some w \<and> ed_type w = IO \<and> ed_ctx w = i"
      by auto
  qed
  moreover have "epoll_ok ?s"
    unfolding epoll_ok_def
  proof (intro allI impI)
    fix fd d assume "es_epoll ?s fd = Some d"
    then have d: "es_epoll s fd = Some d" by simp
    with assms(1) obtain w where w: "es_data s d = Some w" "ed_fd w = fd" by (auto simp: events_ok_def epoll_ok_def)
    have "d \<noteq> ?d" using closed_registration [OF assms(1) _ assms(3)] assms(2) d w z(1) fd by auto
    with w show "\<exists>w. es_data ?s d = Some w \<and> ed_fd w = fd" by auto
  qed
  moreover have "loop_ok ?s" using assms(1) not_loop by (auto simp: events_ok_def loop_ok_def)
  moreover have "mutex_ok ?s" using assms(1,2) by (simp add: events_ok_def same_locks)
  moreover have "client_ok ?s" using assms(1,2) by (auto simp: events_ok_def client_ok_def)
  moreover have "fresh_ok ?s" using assms(1) by (auto simp: events_ok_def fresh_ok_def)
  ultimately show ?thesis by (simp add: events_ok_def)
qed

lemma free_io_ok:
  assumes "events_ok s" "es_client s = C_io_free i" "es_ios s i = Some x"
  shows "events_ok (s\<lparr>es_ios := (es_ios s)(i := None), es_data := (es_data s)(ei_event_data x := None), es_client := C_idle\<rparr>)"
proof -
  let ?d = "ei_event_data x"
  let ?s = "s\<lparr>es_ios := (es_ios s)(i := None), es_data := (es_data s)(ei_event_data x := None), es_client := C_idle\<rparr>"
  obtain z where z: "es_data s ?d = Some z" "ed_type z = IO" "ed_ctx z = i" using live_io [OF assms(1,3)] by auto
  with data_io [OF assms(1) z(1,2)] assms(3) have fd: "ei_fd x = ed_fd z" by auto
  have "data_ok ?s" unfolding data_ok_def
  proof (intro allI impI conjI)
    fix d w assume w: "es_data ?s d = Some w"
    then have d: "es_data s d = Some w" "d \<noteq> ?d" by (auto split: if_splits)
    { assume "ed_type w = TIMER"
      with assms(1) d show "timer_of ?s d w" by (auto simp: events_ok_def data_ok_def timer_of_def) }
    { assume "ed_type w = IO"
      with assms(1) d have "io_of s d w" by (auto simp: events_ok_def data_ok_def)
      with d assms(3) show "io_of ?s d w" by (auto simp: io_of_def) }
  qed
  moreover have "timers_ok ?s" unfolding timers_ok_def
  proof (intro allI impI)
    fix t y assume "es_timers ?s t = Some y"
    then have "es_timers s t = Some y" by simp
    with live_timer [OF assms(1) this] assms(2) z(1,2)
    show "if freed (es_client ?s) = Some t then es_data ?s (et_event_data y) = None
      else \<exists>w. es_data ?s (et_event_data y) = Some w \<and> ed_type w = TIMER \<and> ed_ctx w = t" by auto
  qed
  moreover have "ios_ok ?s" unfolding ios_ok_def
  proof (intro allI impI)
    fix i' y assume "es_ios ?s i' = Some y"
    then have "es_ios s i' = Some y" "i' \<noteq> i" by (auto split: if_splits)
    with live_io [OF assms(1) this(1)] z
    show "\<exists>w. es_data ?s (ei_event_data y) = Some w \<and> ed_type w = IO \<and> ed_ctx w = i'" by auto
  qed
  moreover have "epoll_ok ?s" unfolding epoll_ok_def
  proof (intro allI impI)
    fix fd d assume "es_epoll ?s fd = Some d"
    then have d: "es_epoll s fd = Some d" by simp
    with assms(1) obtain w where w: "es_data s d = Some w" "ed_fd w = fd" by (auto simp: events_ok_def epoll_ok_def)
    from assms have "es_epoll s (ei_fd x) \<noteq> Some ?d" by (simp add: events_ok_def client_ok_def)
    with d w z(1) fd have "d \<noteq> ?d" by auto
    with w show "\<exists>w. es_data ?s d = Some w \<and> ed_fd w = fd" by auto
  qed
  moreover have "loop_ok ?s" using assms(1) z by (fastforce simp: events_ok_def loop_ok_def)
  moreover have "mutex_ok ?s" using assms(1,2) by (simp add: events_ok_def same_locks)
  moreover have "client_ok ?s" by (simp add: client_ok_def)
  moreover have "fresh_ok ?s" using assms(1) by (auto simp: events_ok_def fresh_ok_def)
  ultimately show ?thesis by (simp add: events_ok_def)
qed

lemma free_timer_ok:
  assumes "events_ok s" "es_client s = C_free t"
  shows "events_ok (s\<lparr>es_timers := (es_timers s)(t := None), es_client := C_idle\<rparr>)"
proof -
  let ?s = "s\<lparr>es_timers := (es_timers s)(t := None), es_client := C_idle\<rparr>"
  have "data_ok ?s" unfolding data_ok_def
  proof (intro allI impI conjI)
    fix d w assume w: "es_data ?s d = Some w"
    then have d: "es_data s d = Some w" by simp
    { assume ty: "ed_type w = TIMER"
      from data_timer [OF assms(1) d ty] obtain y where y: "es_timers s (ed_ctx w) = Some y" "et_event_data y = d"
        "et_fd y = ed_fd w" by blast
      with freed_timer [OF assms(1) y(1)] assms(2) d have "ed_ctx w \<noteq> t" by auto
      with y show "timer_of ?s d w" by (simp add: timer_of_def) }
    { assume "ed_type w = IO"
      with assms(1) d show "io_of ?s d w" by (auto simp: events_ok_def data_ok_def io_of_def) }
  qed
  moreover have "timers_ok ?s" using assms by (auto simp: events_ok_def timers_ok_def split: if_splits)
  moreover have "mutex_ok ?s" using assms by (auto simp: events_ok_def mutex_ok_def)
  moreover have "client_ok ?s" by (simp add: client_ok_def)
  moreover have "fresh_ok ?s" using assms(1) by (auto simp: events_ok_def fresh_ok_def)
  ultimately show ?thesis using assms(1) by (simp add: events_ok_def)
qed

lemma client_step_ok:
  assumes "events_ok s"
  shows "events_ok (client_step s (es_client s))"
proof (cases "es_client s")
  case (C_stop t)
  with assms obtain x where x: "es_timers s t = Some x" by (auto simp: events_ok_def client_ok_def)
  let ?s = "s\<lparr>es_timers := (es_timers s)(t \<mapsto> x\<lparr>et_stop := True\<rparr>)\<rparr>"
  have "mutex_ok ?s" using mtx_client [OF assms] mtx_loop [OF assms] x by (auto simp: mutex_ok_def)
  with change_timer [OF x, of "x\<lparr>et_stop := True\<rparr>"] assms have ok: "events_ok ?s" by (simp add: events_ok_def)
  moreover have "client_ok (?s\<lparr>es_client := C_lock t\<rparr>)" by (simp add: client_ok_def)
  ultimately have "events_ok (?s\<lparr>es_client := C_lock t\<rparr>)"
    using C_stop same_freed [of "C_lock t" ?s] same_locks [of "C_lock t" ?s] by (simp add: events_ok_def)
  with C_stop x show ?thesis by (simp add: own_timer_def go_def)
next
  case (C_lock t)
  with assms obtain x where x: "es_timers s t = Some x" by (auto simp: events_ok_def client_ok_def)
  show ?thesis
  proof (cases "et_mtx x = None")
    case True
    let ?y = "x\<lparr>et_mtx := Some Client_thread\<rparr>"
    let ?s = "s\<lparr>es_timers := (es_timers s)(t \<mapsto> ?y), es_client := C_close t\<rparr>"
    from mtx_loop [OF assms x] True have "locked_at (es_loop s) \<noteq> Some (et_event_data x)" by simp
    then have "mutex_ok ?s" using mtx_client [OF assms] mtx_loop [OF assms] C_lock by (auto simp: mutex_ok_def)
    moreover have "client_ok ?s" by (simp add: client_ok_def)
    moreover have "timers_ok ?s" using change_timer(3) [OF x, of ?y] assms C_lock
      by (simp add: events_ok_def same_freed)
    ultimately have "events_ok ?s" using change_timer [OF x, of ?y] assms by (simp add: events_ok_def)
    with C_lock x True show ?thesis by (simp add: own_timer_def go_def set_mtx_eq)
  qed (use C_lock x assms in \<open>auto simp: own_timer_def\<close>)
next
  case (C_close t)
  with assms obtain x where x: "es_timers s t = Some x" by (auto simp: events_ok_def client_ok_def)
  from drop_registration [OF assms, of "et_fd x"] assms C_close x show ?thesis
    by (auto simp: events_ok_def own_timer_def go_def close_timer_fd_def epoll_del_def same_freed same_locks client_ok_def
        epoll_ok_def)
next
  case (C_remove t)
  with assms show ?thesis by (auto simp: events_ok_def go_def same_freed same_locks client_ok_def)
next
  case (C_free_data t)
  with assms obtain x where x: "es_timers s t = Some x" by (auto simp: events_ok_def client_ok_def)
  with free_data_ok [OF assms C_free_data x] C_free_data show ?thesis by (simp add: own_timer_def go_def)
next
  case (C_unlock t)
  with assms obtain x where x: "es_timers s t = Some x" by (auto simp: events_ok_def client_ok_def)
  let ?y = "x\<lparr>et_mtx := None\<rparr>"
  let ?s = "s\<lparr>es_timers := (es_timers s)(t \<mapsto> ?y), es_client := C_free t\<rparr>"
  from mtx_loop [OF assms x] mtx_client [OF assms x] C_unlock
  have "locked_at (es_loop s) \<noteq> Some (et_event_data x)" by auto
  then have "mutex_ok ?s" using mtx_client [OF assms] mtx_loop [OF assms] C_unlock by (auto simp: mutex_ok_def)
  moreover have "client_ok ?s" using change_timer(4) [OF x, of ?y] assms C_unlock
    by (auto simp: events_ok_def client_ok_def)
  moreover have "timers_ok ?s" using change_timer(3) [OF x, of ?y] assms C_unlock
    by (simp add: events_ok_def same_freed)
  ultimately have "events_ok ?s" using change_timer [OF x, of ?y] assms by (simp add: events_ok_def)
  with C_unlock x show ?thesis by (simp add: go_def set_mtx_eq)
next
  case (C_free t)
  with free_timer_ok [OF assms C_free] show ?thesis by (simp add: go_def)
next
  case (C_io_remove i)
  with assms obtain x where x: "es_ios s i = Some x" by (auto simp: events_ok_def client_ok_def)
  from drop_registration [OF assms, of "ei_fd x"] assms C_io_remove x show ?thesis
    by (auto simp: events_ok_def own_io_def go_def epoll_del_def same_freed same_locks client_ok_def)
next
  case (C_io_free i)
  with assms obtain x where x: "es_ios s i = Some x" by (auto simp: events_ok_def client_ok_def)
  with free_io_ok [OF assms C_io_free x] C_io_free show ?thesis by (simp add: own_io_def go_def)
next
  case C_close_epoll
  with assms show ?thesis by (auto simp: events_ok_def go_def same_freed same_locks client_ok_def)
next
  case C_join
  with assms show ?thesis by (auto simp: events_ok_def go_def same_freed same_locks client_ok_def)
qed (use assms in auto)

section \<open>Adding\<close>

lemma known:
  assumes "events_ok s"
  shows "es_data s d = Some x \<Longrightarrow> d < es_next s" "es_timers s t = Some y \<Longrightarrow> t < es_next s"
    "es_ios s i = Some z \<Longrightarrow> i < es_next s"
  using assms by (auto simp: events_ok_def fresh_ok_def not_le [symmetric])

lemma timer_window_at: "timer_window pc = Some d \<Longrightarrow> window_at pc = Some d"
  by (cases pc) auto

lemma loop_grows:
  assumes "events_ok s" "es_next s \<le> d"
  shows "loop_ok (s\<lparr>es_next := es_next s + 2, es_data := (es_data s)(d \<mapsto> x)\<rparr>)"
proof -
  have "loop_ok s" using assms(1) by (simp add: events_ok_def)
  then have "window_at (es_loop s) \<noteq> Some d" "\<forall>c. window_at (es_loop s) = Some c \<longrightarrow> c < es_next s + 2"
    using assms(2) by (auto simp: loop_ok_def)
  moreover have "locked_at (es_loop s) \<noteq> Some d"
    using loop_holds [OF assms(1), of d] known(1) [OF assms(1), of d] assms(2) by (metis not_le)
  ultimately show ?thesis
    using \<open>loop_ok s\<close> timer_window_at [of "es_loop s" d] by (auto simp: loop_ok_def)
qed

lemma add_timer_ok:
  assumes "events_ok s" "es_client s = C_idle" "es_epoll s fd = None"
  shows "events_ok (snd (neu_event_add_timer fd second millisecond usr cb type s))"
proof -
  let ?v = "timer_value second millisecond" and ?d = "es_next s" and ?t = "Suc (es_next s)"
  let ?x = "\<lparr>ed_type = TIMER, ed_callback = cb, ed_ctx = ?t, ed_usr_data = usr, ed_fd = fd\<rparr>"
  let ?y = "\<lparr>et_fd = fd, et_event_data = ?d, et_value = ?v, et_type = type, et_mtx = None, et_stop = False\<rparr>"
  let ?s1 = "timerfd_settime fd ?v (timerfd_create fd s)"
  have s1: "events_ok ?s1" "es_data ?s1 = es_data s" "es_timers ?s1 = es_timers s" "es_next ?s1 = es_next s"
    "es_ios ?s1 = es_ios s" "es_client ?s1 = C_idle" "es_epoll ?s1 = es_epoll s" "es_loop ?s1 = es_loop s"
    using assms by (auto simp: events_ok_def timerfd_settime_def timerfd_create_def)
  let ?s = "?s1\<lparr>es_next := es_next s + 2, es_data := (es_data s)(?d \<mapsto> ?x), es_timers := (es_timers s)(?t \<mapsto> ?y),
    es_epoll := (es_epoll s)(fd \<mapsto> ?d)\<rparr>"
  have eq: "snd (neu_event_add_timer fd second millisecond usr cb type s) = ?s"
    using assms(3) s1 by (simp add: neu_event_add_timer_def Let_def epoll_add_def)
  note k = known [OF assms(1)]
  have "fresh_ok ?s" using assms(1) s1 by (auto simp: events_ok_def fresh_ok_def)
  moreover have "data_ok ?s" unfolding data_ok_def
  proof (intro allI impI conjI)
    fix d w assume w: "es_data ?s d = Some w"
    { assume ty: "ed_type w = TIMER"
      show "timer_of ?s d w"
      proof (cases "d = ?d")
        case False
        with w have d: "es_data s d = Some w" by simp
        from data_timer [OF assms(1) d ty] k(2) show ?thesis by (fastforce simp: timer_of_def)
      qed (use w in \<open>auto simp: timer_of_def\<close>) }
    { assume "ed_type w = IO"
      with w data_io [OF assms(1), of d w] s1 show "io_of ?s d w" by (auto simp: io_of_def split: if_splits) }
  qed
  moreover have "timers_ok ?s" unfolding timers_ok_def
  proof (intro allI impI)
    fix t z assume z: "es_timers ?s t = Some z"
    show "if freed (es_client ?s) = Some t then es_data ?s (et_event_data z) = None
      else \<exists>w. es_data ?s (et_event_data z) = Some w \<and> ed_type w = TIMER \<and> ed_ctx w = t"
    proof (cases "t = ?t")
      case False
      with z have t: "es_timers s t = Some z" by simp
      from live_timer [OF assms(1) t] assms(2) obtain w where w: "es_data s (et_event_data z) = Some w"
        "ed_type w = TIMER" "ed_ctx w = t" by auto
      with k(1) [OF w(1)] s1(6) show ?thesis by auto
    qed (use z s1 in auto)
  qed
  moreover have "ios_ok ?s" unfolding ios_ok_def
  proof (intro allI impI)
    fix i z assume "es_ios ?s i = Some z"
    with s1 have i: "es_ios s i = Some z" by simp
    from live_io [OF assms(1) i] obtain w where "es_data s (ei_event_data z) = Some w" "ed_type w = IO" "ed_ctx w = i" by blast
    with k(1) [OF this(1)] show "\<exists>w. es_data ?s (ei_event_data z) = Some w \<and> ed_type w = IO \<and> ed_ctx w = i" by auto
  qed
  moreover have "epoll_ok ?s" unfolding epoll_ok_def
  proof (intro allI impI)
    fix fd' d assume d: "es_epoll ?s fd' = Some d"
    show "\<exists>w. es_data ?s d = Some w \<and> ed_fd w = fd'"
    proof (cases "fd' = fd")
      case False
      with d have "es_epoll s fd' = Some d" by simp
      with assms(1) obtain w where w: "es_data s d = Some w" "ed_fd w = fd'" by (auto simp: events_ok_def epoll_ok_def)
      with k(1) [OF w(1)] show ?thesis by auto
    qed (use d in auto)
  qed
  moreover have "loop_ok ?s" using loop_grows [OF assms(1), of ?d ?x] s1 by (simp add: loop_ok_def)
  moreover have "mutex_ok ?s" unfolding mutex_ok_def
  proof (intro allI impI)
    fix t z assume z: "es_timers ?s t = Some z"
    show "(et_mtx z = Some Client_thread \<longleftrightarrow> locks (es_client ?s) = Some t) \<and>
     (et_mtx z = Some Loop_thread \<longleftrightarrow> locked_at (es_loop ?s) = Some (et_event_data z))"
    proof (cases "t = ?t")
      case True
      have "locked_at (es_loop s) \<noteq> Some ?d" using loop_holds [OF assms(1), of ?d] k(1) by (metis less_irrefl)
      with True z s1 show ?thesis by auto
    next
      case False
      with z have "es_timers s t = Some z" by simp
      with mtx_client [OF assms(1) this] mtx_loop [OF assms(1) this] s1 assms(2) show ?thesis by simp
    qed
  qed
  moreover have "client_ok ?s" using s1 by (auto simp: client_ok_def)
  ultimately show ?thesis unfolding eq by (simp add: events_ok_def)
qed

lemma add_io_ok:
  assumes "events_ok s" "es_client s = C_idle"
  shows "events_ok (snd (neu_event_add_io fd usr cb s))"
proof -
  let ?i = "es_next s" and ?d = "Suc (es_next s)"
  let ?x = "\<lparr>ed_type = IO, ed_callback = cb, ed_ctx = ?i, ed_usr_data = usr, ed_fd = fd\<rparr>"
  let ?y = "\<lparr>ei_fd = fd, ei_event_data = ?d\<rparr>"
  let ?s = "s\<lparr>es_next := es_next s + 2, es_data := (es_data s)(?d \<mapsto> ?x), es_ios := (es_ios s)(?i \<mapsto> ?y)\<rparr>"
  have eq: "snd (neu_event_add_io fd usr cb s) = epoll_add fd ?d ?s"
    by (simp add: neu_event_add_io_def Let_def)
  note k = known [OF assms(1)]
  have "fresh_ok ?s" using assms(1) by (auto simp: events_ok_def fresh_ok_def)
  moreover have "data_ok ?s" unfolding data_ok_def
  proof (intro allI impI conjI)
    fix d w assume w: "es_data ?s d = Some w"
    { assume ty: "ed_type w = TIMER"
      with w have d: "es_data s d = Some w" by (auto split: if_splits)
      from data_timer [OF assms(1) d ty] show "timer_of ?s d w" by (auto simp: timer_of_def) }
    { assume ty: "ed_type w = IO"
      show "io_of ?s d w"
      proof (cases "d = ?d")
        case False
        with w have d: "es_data s d = Some w" by simp
        from data_io [OF assms(1) d ty] k(3) show ?thesis by (fastforce simp: io_of_def)
      qed (use w in \<open>auto simp: io_of_def\<close>) }
  qed
  moreover have "timers_ok ?s" unfolding timers_ok_def
  proof (intro allI impI)
    fix t z assume "es_timers ?s t = Some z"
    then have t: "es_timers s t = Some z" by simp
    from live_timer [OF assms(1) t] assms(2) obtain w where w: "es_data s (et_event_data z) = Some w"
      "ed_type w = TIMER" "ed_ctx w = t" by auto
    with k(1) [OF w(1)] assms(2) show "if freed (es_client ?s) = Some t then es_data ?s (et_event_data z) = None
      else \<exists>w. es_data ?s (et_event_data z) = Some w \<and> ed_type w = TIMER \<and> ed_ctx w = t" by auto
  qed
  moreover have "ios_ok ?s" unfolding ios_ok_def
  proof (intro allI impI)
    fix i z assume z: "es_ios ?s i = Some z"
    show "\<exists>w. es_data ?s (ei_event_data z) = Some w \<and> ed_type w = IO \<and> ed_ctx w = i"
    proof (cases "i = ?i")
      case False
      with z have i: "es_ios s i = Some z" by simp
      from live_io [OF assms(1) i] obtain w where "es_data s (ei_event_data z) = Some w" "ed_type w = IO" "ed_ctx w = i" by blast
      with k(1) [OF this(1)] show ?thesis by auto
    qed (use z in auto)
  qed
  moreover have epoll: "epoll_ok ?s" unfolding epoll_ok_def
  proof (intro allI impI)
    fix fd' d assume "es_epoll ?s fd' = Some d"
    then have "es_epoll s fd' = Some d" by simp
    with assms(1) obtain w where w: "es_data s d = Some w" "ed_fd w = fd'" by (auto simp: events_ok_def epoll_ok_def)
    with k(1) [OF w(1)] show "\<exists>w. es_data ?s d = Some w \<and> ed_fd w = fd'" by auto
  qed
  moreover have "loop_ok ?s" using loop_grows [OF assms(1), of ?d ?x] by (simp add: loop_ok_def)
  moreover have "mutex_ok ?s" using assms(1) by (simp add: events_ok_def mutex_ok_def)
  moreover have "client_ok (epoll_add fd ?d ?s)" using assms(2) by (auto simp: client_ok_def epoll_add_def)
  moreover have "epoll_ok (epoll_add fd ?d ?s)" using epoll by (auto simp: epoll_ok_def epoll_add_def)
  ultimately show ?thesis unfolding eq by (simp add: events_ok_def epoll_add_def)
qed

section \<open>Runs\<close>

lemma event_step_ok:
  assumes "event_step s s'" "events_ok s"
  shows "events_ok s'"
  using assms
proof (induction rule: event_step.induct)
  case (add_timer s fd second millisecond usr cb type)
  then show ?case by (intro add_timer_ok)
next
  case (del_timer s t)
  then show ?case
    by (auto simp: events_ok_def neu_event_del_timer_def go_def same_freed same_locks client_ok_def)
next
  case (add_io s fd usr cb)
  then show ?case by (intro add_io_ok)
next
  case (del_io s i)
  then show ?case by (auto simp: events_ok_def neu_event_del_io_def go_def same_freed same_locks client_ok_def)
next
  case (close s)
  then show ?case by (auto simp: events_ok_def neu_event_close_def go_def same_freed same_locks client_ok_def)
next
  case (client s)
  then show ?case by (rule client_step_ok)
next
  case (loop s)
  then show ?case by (rule loop_step_ok)
next
  case (waited s fd d flags)
  then obtain x where "es_data s d = Some x" by (auto simp: events_ok_def epoll_ok_def)
  with waited known(1) [of s d x] show ?case by (auto simp: events_ok_def at_def leave_wait loop_ok_def)
next
  case (wait_fails s)
  then show ?case by (auto simp: events_ok_def at_def leave_wait loop_ok_def)
qed (auto simp: events_ok_def)

lemma new_ok: "events_ok neu_event_new"
  by (simp add: events_ok_def events_parts neu_event_new_def)

lemma events_reachable_ok: "event_step\<^sup>*\<^sup>* neu_event_new s \<Longrightarrow> events_ok s"
  by (induction rule: rtranclp_induct) (auto intro: new_ok event_step_ok)

end
