(* ===== verification/EventLaws.thy ===== *)
theory EventLaws
  imports EventOk
begin

text \<open>
  What holds of every run of the event loop: a removed timer or descriptor is not called again, freed
  memory is read only after a removal at the wrong moment, closing ends the loop, and which timers
  fire.
\<close>

section \<open>A removed timer is not called\<close>

definition gone :: "nat \<Rightarrow> neu_events \<Rightarrow> bool" where
  "gone h s \<longleftrightarrow> h < es_next s \<and> es_timers s h = None \<and> es_ios s h = None"

definition calls_of :: "nat \<Rightarrow> neu_events \<Rightarrow> event_call list" where
  "calls_of h s = [c \<leftarrow> es_calls s. fst c = h]"

lemma loop_step_calls:
  assumes "events_ok s" "gone h s"
  shows "gone h (loop_step s (es_loop s)) \<and> calls_of h (loop_step s (es_loop s)) = calls_of h s"
proof -
  have live: "ed_ctx x \<noteq> h" if "es_data s d = Some x" for d x
    using that assms data_timer [OF assms(1) that] data_io [OF assms(1) that]
    by (cases "ed_type x") (auto simp: gone_def)
  show ?thesis
    using assms(2) live
    by (cases "es_loop s")
      (auto simp: event_ops gone_def calls_of_def set_mtx_def split: option.splits event_kind.splits)
qed

lemma client_step_calls:
  "gone h s \<Longrightarrow> gone h (client_step s (es_client s)) \<and> calls_of h (client_step s (es_client s)) = calls_of h s"
  by (cases "es_client s") (auto simp: event_ops gone_def calls_of_def set_mtx_def split: option.splits)

lemma event_step_calls:
  assumes "event_step s s'" "events_ok s" "gone h s"
  shows "gone h s' \<and> calls_of h s' = calls_of h s"
  using assms
proof (induction rule: event_step.induct)
  case (add_timer s fd second millisecond usr cb type)
  then show ?case by (auto simp: gone_def calls_of_def neu_event_add_timer_def Let_def event_ops)
next
  case (add_io s fd usr cb)
  then show ?case by (auto simp: gone_def calls_of_def neu_event_add_io_def Let_def event_ops)
next
  case (client s)
  then show ?case by (intro client_step_calls)
next
  case (loop s)
  then show ?case by (intro loop_step_calls)
qed (auto simp: gone_def calls_of_def neu_event_del_timer_def neu_event_del_io_def neu_event_close_def go_def at_def)


text \<open>A timer, its expiry, one call of it and its removal.\<close>

definition demo_timer :: neu_events where
  "demo_timer = snd (neu_event_add_timer 5 1 0 7 9 NEU_EVENT_TIMER_NOBLOCK neu_event_new)"

definition demo_expired :: neu_events where
  "demo_expired = demo_timer\<lparr>es_ready := (es_ready demo_timer)(5 := True)\<rparr>"

definition demo_handed :: neu_events where
  "demo_handed = at (L_event 0 {EPOLLIN}) demo_expired"

fun loop_steps :: "nat \<Rightarrow> neu_events \<Rightarrow> neu_events" where
  "loop_steps 0 s = s"
| "loop_steps (Suc n) s = loop_steps n (loop_step s (es_loop s))"

fun client_steps :: "nat \<Rightarrow> neu_events \<Rightarrow> neu_events" where
  "client_steps 0 s = s"
| "client_steps (Suc n) s = client_steps n (client_step s (es_client s))"

lemma loop_steps_run: "event_step\<^sup>*\<^sup>* s (loop_steps n s)"
  by (induction n arbitrary: s) (auto intro: converse_rtranclp_into_rtranclp event_step.loop)

lemma client_steps_run: "event_step\<^sup>*\<^sup>* s (client_steps n s)"
  by (induction n arbitrary: s) (auto intro: converse_rtranclp_into_rtranclp event_step.client)

lemmas demo_defs = demo_timer_def demo_expired_def demo_handed_def neu_event_new_def neu_event_add_timer_def
  timer_value_def arms_def accepted_def event_ops neu_event_del_timer_def

lemma demo_run: "event_step\<^sup>*\<^sup>* neu_event_new demo_handed"
proof -
  have "event_step neu_event_new demo_timer"
    unfolding demo_timer_def by (intro add_timer) (simp_all add: neu_event_new_def)
  moreover have "event_step demo_timer demo_expired"
    unfolding demo_expired_def by (intro expires) (simp add: demo_defs Let_def)
  moreover have "event_step demo_expired demo_handed"
    using waited [of demo_expired 5 0 UNIV] by (simp add: demo_defs Let_def)
  ultimately show ?thesis by (meson converse_rtranclp_into_rtranclp rtranclp.rtrancl_refl)
qed

definition demo_removed :: neu_events where
  "demo_removed = client_steps 7 (neu_event_del_timer 1 (loop_steps 6 demo_handed))"

lemma numeral_steps [simp]:
  "loop_steps (numeral k) s = loop_steps (pred_numeral k) (loop_step s (es_loop s))"
  "client_steps (numeral k) s = client_steps (pred_numeral k) (client_step s (es_client s))"
  by (simp_all add: numeral_eq_Suc)

lemma demo_removed: "es_calls demo_removed = [(1, 9, 7, None)]" "gone 1 demo_removed" "es_client demo_removed = C_idle"
  by (simp_all add: demo_removed_def demo_defs Let_def set_mtx_def gone_def)

lemma demo_removed_run: "event_step\<^sup>*\<^sup>* neu_event_new demo_removed"
proof -
  let ?s = "loop_steps 6 demo_handed"
  have "event_step ?s (neu_event_del_timer 1 ?s)"
    by (rule del_timer) (simp_all add: demo_defs Let_def set_mtx_def)
  with demo_run loop_steps_run [of demo_handed 6] client_steps_run [of "neu_event_del_timer 1 ?s" 7]
  show ?thesis unfolding demo_removed_def by (meson rtranclp.rtrancl_into_rtrancl rtranclp_trans)
qed


section \<open>What a removal can break\<close>

text \<open>A step that frees nothing the loop was handed and has not locked.\<close>

definition undisturbed :: "neu_events \<Rightarrow> neu_events \<Rightarrow> bool" where
  "undisturbed s s' \<longleftrightarrow> event_step s s' \<and>
     (\<forall>d. window_at (es_loop s) = Some d \<longrightarrow> es_data s d \<noteq> None \<longrightarrow> es_data s' d \<noteq> None)"

definition window_ok :: "neu_events \<Rightarrow> bool" where
  "window_ok s \<longleftrightarrow> es_loop s \<noteq> L_crash \<and> (\<forall>d. window_at (es_loop s) = Some d \<longrightarrow> es_data s d \<noteq> None)"

lemma loop_step_window:
  assumes "events_ok s" "window_ok s"
  shows "window_ok (loop_step s (es_loop s))"
proof -
  have timer: "\<exists>t. es_timers s (ed_ctx x) = Some t"
    if "es_data s d = Some x" "timer_window (es_loop s) = Some d \<or> locked_at (es_loop s) = Some d" for d x
    using that assms(1) data_timer [OF assms(1) that(1)] by (auto simp: events_ok_def loop_ok_def)
  show ?thesis
  proof (cases "locked_at (es_loop s)")
    case None
    then show ?thesis
      using assms(2) timer
      by (cases "es_loop s"; auto simp: window_ok_def event_ops set_mtx_def split: option.splits event_kind.splits;
          metis option.distinct(1))
  next
    case (Some d)
    then obtain x where "es_data s d = Some x" using loop_holds [OF assms(1)] by metis
    with Some assms(2) timer show ?thesis
      by (cases "es_loop s"; auto simp: window_ok_def event_ops set_mtx_def split: option.splits;
          metis option.distinct(1))
  qed
qed

lemma client_step_loop: "es_loop (client_step s pc) = es_loop s"
  by (cases pc) (auto simp: event_ops set_mtx_def split: option.splits)

lemma undisturbed_window:
  assumes "undisturbed s s'" "events_ok s" "window_ok s"
  shows "window_ok s'"
proof -
  from assms(1) have step: "event_step s s'"
    and keeps: "\<And>d. window_at (es_loop s) = Some d \<Longrightarrow> es_data s d \<noteq> None \<Longrightarrow> es_data s' d \<noteq> None"
    by (auto simp: undisturbed_def)
  then have same: "window_ok s'" if "es_loop s' = es_loop s" using that assms(3) by (auto simp: window_ok_def)
  from step show ?thesis
  proof cases
    case loop
    with loop_step_window [OF assms(2,3)] show ?thesis by simp
  next
    case (waited fd d flags)
    with assms(2) show ?thesis by (auto simp: window_ok_def at_def events_ok_def epoll_ok_def)
  next
    case wait_fails
    then show ?thesis by (simp add: window_ok_def at_def)
  next
    case client
    with same client_step_loop show ?thesis by simp
  qed (rule same, simp add: neu_event_add_timer_def neu_event_add_io_def Let_def event_ops neu_event_del_timer_def
        neu_event_del_io_def neu_event_close_def)+
qed

lemma undisturbed_safe: "undisturbed\<^sup>*\<^sup>* neu_event_new s \<Longrightarrow> events_ok s \<and> window_ok s"
proof (induction rule: rtranclp_induct)
  case base
  then show ?case using new_ok by (simp add: window_ok_def neu_event_new_def)
next
  case (step s s')
  then show ?case using undisturbed_window event_step_ok by (auto simp: undisturbed_def)
qed

text \<open>
  C40: The loop reads freed memory only when a timer or descriptor is removed between the moment it was
  handed an event and the moment it has its mutex: as long as no removal frees what the loop holds
  there, no run crashes; and a run of one timer, its expiry and its removal can crash.
\<close>

theorem crash_only_by_removal:
  "(\<forall>s. undisturbed\<^sup>*\<^sup>* neu_event_new s \<longrightarrow> es_loop s \<noteq> L_crash) \<and>
   (\<exists>s. event_step\<^sup>*\<^sup>* neu_event_new s \<and> es_loop s = L_crash)"
proof
  show "\<forall>s. undisturbed\<^sup>*\<^sup>* neu_event_new s \<longrightarrow> es_loop s \<noteq> L_crash"
    using undisturbed_safe by (auto simp: window_ok_def)
  let ?s = "client_steps 5 (neu_event_del_timer 1 demo_handed)"
  have "event_step demo_handed (neu_event_del_timer 1 demo_handed)"
    by (rule del_timer) (simp_all add: demo_defs Let_def)
  with demo_run client_steps_run [of "neu_event_del_timer 1 demo_handed" 5] loop_steps_run [of ?s 1]
  have "event_step\<^sup>*\<^sup>* neu_event_new (loop_steps 1 ?s)"
    by (meson rtranclp.rtrancl_into_rtrancl rtranclp_trans)
  moreover have "es_loop (loop_steps 1 ?s) = L_crash"
    by (simp add: demo_defs Let_def set_mtx_def)
  ultimately show "\<exists>s. event_step\<^sup>*\<^sup>* neu_event_new s \<and> es_loop s = L_crash" by blast
qed

lemma crash_only_by_removal_witness: "es_loop demo_handed \<noteq> L_crash"
proof -
  have "undisturbed neu_event_new demo_timer"
    unfolding demo_timer_def undisturbed_def by (simp add: add_timer neu_event_new_def)
  moreover have "undisturbed demo_timer demo_expired"
    unfolding undisturbed_def
    by (auto simp: demo_expired_def intro!: expires) (simp add: demo_defs Let_def)
  moreover have "undisturbed demo_expired demo_handed"
    using waited [of demo_expired 5 0 UNIV] by (simp add: undisturbed_def demo_defs Let_def)
  ultimately have "undisturbed\<^sup>*\<^sup>* neu_event_new demo_handed"
    by (meson converse_rtranclp_into_rtranclp rtranclp.rtrancl_refl)
  then show ?thesis using crash_only_by_removal by blast
qed

section \<open>Closing\<close>

definition closing_ok :: "neu_events \<Rightarrow> bool" where
  "closing_ok s \<longleftrightarrow> (es_client s \<in> {C_close_epoll, C_join, C_closed} \<longrightarrow> es_stop s) \<and>
     (es_client s \<in> {C_join, C_closed} \<longrightarrow> \<not> es_open s)"

lemma loop_step_keeps:
  "es_client (loop_step s pc) = es_client s \<and> es_stop (loop_step s pc) = es_stop s \<and>
   es_open (loop_step s pc) = es_open s \<and> es_data (loop_step s pc) = es_data s"
  by (cases pc) (auto simp: event_ops set_mtx_def split: option.splits event_kind.splits)

lemma event_step_closing: "event_step s s' \<Longrightarrow> closing_ok s \<Longrightarrow> closing_ok s'"
proof (induction rule: event_step.induct)
  case (client s)
  then show ?case
    by (cases "es_client s") (auto simp: closing_ok_def event_ops set_mtx_def split: option.splits)
next
  case (loop s)
  then show ?case by (simp add: closing_ok_def loop_step_keeps)
qed (auto simp: closing_ok_def neu_event_add_timer_def neu_event_add_io_def Let_def event_ops
    neu_event_del_timer_def neu_event_del_io_def neu_event_close_def)

lemma undisturbed_closing: "undisturbed\<^sup>*\<^sup>* neu_event_new s \<Longrightarrow> closing_ok s"
proof (induction rule: rtranclp_induct)
  case base
  then show ?case by (simp add: closing_ok_def neu_event_new_def)
next
  case (step s s')
  then show ?case using event_step_closing by (auto simp: undisturbed_def)
qed

text \<open>A step that moves the loop, and how far the loop is from its end.\<close>

definition loop_move :: "neu_events \<Rightarrow> neu_events \<Rightarrow> bool" where
  "loop_move s s' \<longleftrightarrow> event_step s s' \<and> es_loop s' \<noteq> es_loop s"

fun loop_rank :: "loop_pc \<Rightarrow> nat" where
  "loop_rank (L_read _) = 10"
| "loop_rank (L_test _) = 9"
| "loop_rank (L_lock _) = 8"
| "loop_rank (L_pause _) = 7"
| "loop_rank (L_call _ _) = 6"
| "loop_rank (L_rearm _) = 5"
| "loop_rank (L_readd _) = 4"
| "loop_rank (L_unlock _) = 3"
| "loop_rank L_wait = 2"
| "loop_rank (L_event _ _) = 1"
| "loop_rank _ = 0"

lemma loop_move_cases:
  assumes "loop_move s s'"
  shows "s' = loop_step s (es_loop s) \<or> es_loop s = L_wait \<and> (\<exists>d flags. s' = at (L_event d flags) s) \<or>
    es_loop s = L_wait \<and> s' = at L_exit s"
proof -
  from assms have "event_step s s'" "es_loop s' \<noteq> es_loop s" by (auto simp: loop_move_def)
  then show ?thesis
    by cases (auto simp: client_step_loop neu_event_add_timer_def neu_event_add_io_def Let_def event_ops
        neu_event_del_timer_def neu_event_del_io_def neu_event_close_def)
qed

lemma loop_move_frame:
  assumes "loop_move s s'"
  shows "es_client s' = es_client s" "es_stop s' = es_stop s" "es_open s' = es_open s" "undisturbed s s'"
  using loop_move_cases [OF assms] assms
  by (auto simp: loop_step_keeps at_def undisturbed_def loop_move_def)

lemma loop_move_rank:
  assumes "loop_move s s'" "es_stop s"
  shows "loop_rank (es_loop s') < loop_rank (es_loop s)"
proof -
  have "es_loop s' \<noteq> es_loop s" using assms(1) by (simp add: loop_move_def)
  with loop_move_cases [OF assms(1)] assms(2) show ?thesis
    by (cases "es_loop s") (auto simp: event_ops set_mtx_def split: option.splits event_kind.splits if_splits)
qed

lemma loop_can_move:
  assumes "events_ok s" "window_ok s" "closing_ok s" "es_client s = C_join" "es_loop s \<noteq> L_exit"
  shows "\<exists>s'. loop_move s s'"
proof (cases "es_loop s = L_wait")
  case True
  with assms(3,4) have "event_step s (at L_exit s)" by (intro event_step.wait_fails) (auto simp: closing_ok_def)
  with True show ?thesis by (auto simp: loop_move_def at_def intro!: exI [of _ "at L_exit s"])
next
  case False
  have "es_loop (loop_step s (es_loop s)) \<noteq> es_loop s"
  proof (cases "es_loop s")
    case (L_lock d)
    with assms(2) obtain x where x: "es_data s d = Some x" by (auto simp: window_ok_def)
    with assms(1) L_lock have "ed_type x = TIMER" by (auto simp: events_ok_def loop_ok_def)
    from data_timer [OF assms(1) x this] obtain t where t: "es_timers s (ed_ctx x) = Some t" by blast
    from mtx_client [OF assms(1) t] mtx_loop [OF assms(1) t] L_lock assms(4)
    have "et_mtx t \<noteq> Some Client_thread" "et_mtx t \<noteq> Some Loop_thread" by auto
    then have "et_mtx t = None" by (metis option.exhaust thread.exhaust)
    with L_lock x t show ?thesis by (simp add: with_timer_def with_data_def at_def)
  qed (use assms(2,5) False in \<open>auto simp: window_ok_def event_ops set_mtx_def split: option.splits event_kind.splits\<close>)
  then show ?thesis using event_step.loop [of s] by (auto simp: loop_move_def)
qed

lemma closing_ends:
  assumes "undisturbed\<^sup>*\<^sup>* neu_event_new s" "es_client s = C_join" "(loop_move ^^ n) s s'"
  shows "n \<le> 10 \<and> (es_loop s' = L_exit \<and> client_step s' C_join = go C_closed s' \<or> (\<exists>s''. loop_move s' s''))"
proof -
  have all: "events_ok s' \<and> window_ok s' \<and> closing_ok s' \<and> es_client s' = C_join \<and>
      loop_rank (es_loop s') + n \<le> loop_rank (es_loop s)"
    using assms(3)
  proof (induction n arbitrary: s')
    case 0
    then show ?case using undisturbed_safe [OF assms(1)] undisturbed_closing [OF assms(1)] assms(2) by simp
  next
    case (Suc n)
    then obtain s1 where s1: "(loop_move ^^ n) s s1" "loop_move s1 s'" by auto
    note IH = Suc.IH [OF s1(1)] and f = loop_move_frame [OF s1(2)]
    then have "es_stop s1" by (simp add: closing_ok_def)
    with loop_move_rank [OF s1(2)] IH have "loop_rank (es_loop s') + Suc n \<le> loop_rank (es_loop s)" by simp
    moreover have "events_ok s'" using f(4) IH event_step_ok by (auto simp: undisturbed_def)
    moreover have "window_ok s'" using undisturbed_window [OF f(4)] IH by blast
    ultimately show ?case using f IH by (simp add: closing_ok_def)
  qed
  moreover have "loop_rank pc \<le> 10" for pc by (cases pc) auto
  ultimately have "n \<le> 10" by (metis add_leD2 le_trans)
  with all loop_can_move show ?thesis by (cases "es_loop s' = L_exit") auto
qed

section \<open>Timers that fire\<close>

text \<open>A period of a second or more in the milliseconds is refused, without an error.\<close>

lemma timer_arms_iff:
  assumes "es_client s = C_idle"
  shows "es_armed (snd (neu_event_add_timer fd second ms usr cb type s)) fd \<longleftrightarrow>
    0 \<le> second \<and> 0 \<le> ms \<and> ms < 1000 \<and> (0 < second \<or> 0 < ms)"
  by (auto simp: neu_event_add_timer_def Let_def event_ops timer_value_def accepted_def arms_def)

text \<open>The timers of a group are armed, whatever its interval is, unless that is 0.\<close>

lemma group_timers_fire:
  assumes "0 < interval"
  shows "arms (timer_value (tm_second (group_timer_param c tt interval)) (tm_millisecond (group_timer_param c tt interval)))"
proof -
  have mod: "uint (interval mod 1000) < 1000" by (simp add: uint_mod)
  have "0 < uint interval" using assms by (simp add: word_less_def)
  moreover have "0 < n div 1000 \<or> 0 < n mod 1000" if "0 < n" for n :: int
  proof -
    have "n = n div 1000 * 1000 + n mod 1000" by simp
    moreover have "0 \<le> n div 1000" "0 \<le> n mod 1000" using that by (simp_all add: pos_imp_zdiv_nonneg_iff)
    ultimately show ?thesis using that by linarith
  qed
  ultimately have "0 < uint (interval div 1000) \<or> 0 < uint (interval mod 1000)" by (simp add: uint_mod uint_div)
  then show ?thesis using mod unfolding arms_def timer_value_def group_timer_param_def by simp
qed

end
