(* ===== verification/HttpProxy.thy ===== *)
theory HttpProxy
  imports Rest
begin

text \<open>
  Requests that are passed on to another server (\<open>src/utils/http_proxy.c\<close>): the rewriting of the URI
  in a buffer that all requests share, and the contexts that are used again.

  A context and the \<open>nng_aio\<close> of a request are numbers.  What nng and the allocator answer to a call is
  in the record \<open>proxy_faults\<close>.  The mutex makes each function one step.  \<open>None\<close> is a crash or
  undefined behaviour.
\<close>

section \<open>State\<close>

record http_proxy_t =
  src_uri_len :: nat
  dst_uri_len :: nat
  uri_buf_len :: nat
  uri_buf :: "string option"

datatype proxy_answer =
    A_response "nng_http_status \<times> string"
  | A_unavailable string  \<comment> \<open>status 503 with a text\<close>
  | A_destination  \<comment> \<open>the response of the destination\<close>
  | A_nothing int  \<comment> \<open>an error code without a response\<close>

record proxy_state =
  ps_proxy :: http_proxy_t
  ps_free_list :: "nat list"
  ps_busy :: "(nat \<times> nat) list"  \<comment> \<open>context and \<open>user_aio\<close>\<close>
  ps_contexts :: nat
  ps_sent :: "(nat \<times> string) list"
  ps_done :: "(nat \<times> proxy_answer) list"

text \<open>True or a number other than 0 is a failure.\<close>

record proxy_faults =
  pf_realloc :: bool
  pf_set_uri :: bool
  pf_ctx :: bool
  pf_res :: bool
  pf_fill :: int  \<comment> \<open>the first error of setting status, header and body\<close>

section \<open>Making a proxy\<close>

text \<open>
  \<open>requri\<close> is the request part of the destination's URL, \<open>None\<close> when it does not parse, and \<open>client\<close>
  the result of \<open>nng_http_client_alloc\<close>.  Memory for the proxy is there.
\<close>

definition http_proxy_alloc :: "string option \<Rightarrow> int \<Rightarrow> string \<Rightarrow> int \<times> http_proxy_t option" where
  "http_proxy_alloc requri client src_url =
     (case requri of
        None \<Rightarrow> (1, None)
      | Some u \<Rightarrow>
          if client \<noteq> 0 then (client, None)
          else (0, Some \<lparr>src_uri_len = length src_url, dst_uri_len = length u, uri_buf_len = length u + 1,
                         uri_buf = Some u\<rparr>))"

text \<open>
  The results of the four calls that make the handler.  When the first fails, the handle that the
  caller left uninitialised is tested and freed.
\<close>

definition neu_http_proxy_handler ::
  "string option \<Rightarrow> int \<Rightarrow> int \<Rightarrow> int \<Rightarrow> int \<Rightarrow> int \<Rightarrow> string \<Rightarrow> (int \<times> http_proxy_t option) option" where
  "neu_http_proxy_handler requri client alloc set_tree set_method set_data url =
     (case http_proxy_alloc requri client url of
        (ret, proxy) \<Rightarrow>
          if ret \<noteq> 0 then Some (ret, None)
          else if alloc \<noteq> 0 then None
          else if set_tree \<noteq> 0 then Some (set_tree, None)
          else if set_method \<noteq> 0 then Some (set_method, None)
          else if set_data \<noteq> 0 then Some (set_data, None)
          else Some (0, proxy))"

definition start_proxy :: "http_proxy_t \<Rightarrow> proxy_state" where
  "start_proxy p =
     \<lparr>ps_proxy = p, ps_free_list = [], ps_busy = [], ps_contexts = 0, ps_sent = [], ps_done = []\<rparr>"

section \<open>The URI\<close>

text \<open>
  The URI begins with the source's, or the text behind it is read past its end.  The new length is
  stored before the memory for it is there; a buffer that was lost is written all the same.  The
  result has the URI that was set.
\<close>

definition http_proxy_set_uri ::
  "proxy_faults \<Rightarrow> string \<Rightarrow> http_proxy_t \<Rightarrow> (int \<times> string \<times> http_proxy_t) option" where
  "http_proxy_set_uri F uri p =
     (if length uri < src_uri_len p then None
      else let buf_len = length uri - src_uri_len p + dst_uri_len p + 1;
               p1 = (if uri_buf_len p < buf_len then p\<lparr>uri_buf_len := buf_len\<rparr> else p)
           in if uri_buf_len p < buf_len \<and> pf_realloc F then Some (- 1, [], p1\<lparr>uri_buf := None\<rparr>)
              else (case uri_buf p1 of
                      None \<Rightarrow> None
                    | Some buf \<Rightarrow>
                        let text = take (dst_uri_len p) buf @ drop (src_uri_len p) uri
                        in if uri_buf_len p1 < length text + 1 then None
                           else Some (if pf_set_uri F then - 1 else 0, text, p1\<lparr>uri_buf := Some text\<rparr>)))"

section \<open>Contexts\<close>

definition http_proxy_get_ctx :: "proxy_faults \<Rightarrow> proxy_state \<Rightarrow> nat option \<times> proxy_state" where
  "http_proxy_get_ctx F s =
     (case ps_free_list s of
        c # cs \<Rightarrow> (Some c, s\<lparr>ps_free_list := cs\<rparr>)
      | [] \<Rightarrow>
          if pf_ctx F then (None, s)
          else (Some (ps_contexts s), s\<lparr>ps_contexts := ps_contexts s + 1\<rparr>))"

definition refuse :: "'j jansson \<Rightarrow> nat \<Rightarrow> proxy_state \<Rightarrow> proxy_state option" where
  "refuse J aio s =
     map_option (\<lambda>r. s\<lparr>ps_done := ps_done s @ [(aio, A_response r)]\<rparr>)
       (neu_http_response NEU_ERR_EINTERNAL (error_text J NEU_ERR_EINTERNAL))"

text \<open>A context whose response cannot be made is given up.\<close>

definition handle_proxy :: "'j jansson \<Rightarrow> proxy_faults \<Rightarrow> nat \<Rightarrow> string \<Rightarrow> proxy_state \<Rightarrow> proxy_state option" where
  "handle_proxy J F aio uri s =
     (case http_proxy_set_uri F uri (ps_proxy s) of
        None \<Rightarrow> None
      | Some (ret, text, p) \<Rightarrow>
          let s1 = s\<lparr>ps_proxy := p\<rparr>
          in if ret \<noteq> 0 then refuse J aio s1
             else (case http_proxy_get_ctx F s1 of
                     (None, s2) \<Rightarrow> refuse J aio s2
                   | (Some ctx, s2) \<Rightarrow>
                       if pf_res F then refuse J aio s2
                       else Some (s2\<lparr>ps_busy := ps_busy s2 @ [(ctx, aio)], ps_sent := ps_sent s2 @ [(aio, text)]\<rparr>)))"

text \<open>
  The exchange of the context that is the \<open>k\<close>-th busy one has ended with \<open>result\<close>.  Without a text
  of the error its length is asked of a NULL.
\<close>

definition http_proxy_cb :: "'j jansson \<Rightarrow> proxy_faults \<Rightarrow> nat \<Rightarrow> int \<Rightarrow> proxy_state \<Rightarrow> proxy_state option" where
  "http_proxy_cb J F k result s =
     (if length (ps_busy s) \<le> k then Some s
      else let (ctx, aio) = ps_busy s ! k;
               answer = (if result = 0 then Some A_destination
                         else map_option (\<lambda>text.
                                if pf_fill F \<noteq> 0 then A_nothing (pf_fill F)
                                else A_unavailable text)
                                (error_text J NEU_ERR_EINTERNAL))
           in map_option (\<lambda>a. s\<lparr>ps_busy := take k (ps_busy s) @ drop (Suc k) (ps_busy s),
                ps_done := ps_done s @ [(aio, a)], ps_free_list := ps_free_list s @ [ctx]\<rparr>) answer)"

section \<open>Runs\<close>

datatype proxy_event =
    P_request nat string proxy_faults
  | P_ended nat int proxy_faults

definition proxy_event :: "'j jansson \<Rightarrow> proxy_event \<Rightarrow> proxy_state \<Rightarrow> proxy_state option" where
  "proxy_event J e s =
     (case e of P_request aio uri F \<Rightarrow> handle_proxy J F aio uri s | P_ended k result F \<Rightarrow> http_proxy_cb J F k result s)"

fun proxy_run :: "'j jansson \<Rightarrow> proxy_event list \<Rightarrow> proxy_state \<Rightarrow> proxy_state option" where
  "proxy_run J [] s = Some s"
| "proxy_run J (e # es) s = Option.bind (proxy_event J e s) (proxy_run J es)"

end
