(* ===== verification/ProxyLaws.thy ===== *)
theory ProxyLaws
  imports HttpProxy "HOL-Library.Multiset"
begin

text \<open>A proxied request is passed on under the rewritten URI and answered once, on a context of its own.\<close>

section \<open>The URI\<close>

text \<open>The buffer begins with the request part of the destination and is as long as its length says.\<close>

definition buffer_ok :: "string \<Rightarrow> nat \<Rightarrow> http_proxy_t \<Rightarrow> bool" where
  "buffer_ok requri n p \<longleftrightarrow> src_uri_len p = n \<and> dst_uri_len p = length requri \<and> length requri < uri_buf_len p \<and>
     (\<forall>buf. uri_buf p = Some buf \<longrightarrow> take (length requri) buf = requri)"

lemma alloc_buffer_ok: "http_proxy_alloc (Some u) client src = (0, Some p) \<Longrightarrow> buffer_ok u (length src) p \<and> uri_buf p \<noteq> None"
  by (auto simp: http_proxy_alloc_def buffer_ok_def split: if_splits)

lemma set_uri_ok:
  assumes "buffer_ok u n p" "http_proxy_set_uri F uri p = Some (ret, text, p')"
  shows "buffer_ok u n p'" "ret = 0 \<Longrightarrow> text = u @ drop n uri" "n \<le> length uri"
    "\<not> pf_realloc F \<Longrightarrow> uri_buf p \<noteq> None \<Longrightarrow> uri_buf p' \<noteq> None"
  using assms by (auto simp: http_proxy_set_uri_def buffer_ok_def Let_def split: if_splits option.splits)

text \<open>The buffer is never overrun: the only other failure is memory that was refused before.\<close>

lemma set_uri_fits:
  assumes "buffer_ok u n p" "n \<le> length uri" "uri_buf p \<noteq> None"
  shows "http_proxy_set_uri F uri p \<noteq> None"
  using assms by (auto simp: http_proxy_set_uri_def buffer_ok_def Let_def split: option.splits)

section \<open>Contexts\<close>

fun requests_of :: "proxy_event list \<Rightarrow> (nat \<times> string) list" where
  "requests_of [] = []"
| "requests_of (P_request aio uri F # es) = (aio, uri) # requests_of es"
| "requests_of (P_ended k result F # es) = requests_of es"

definition contexts_ok :: "proxy_state \<Rightarrow> bool" where
  "contexts_ok s \<longleftrightarrow> distinct (ps_free_list s @ map fst (ps_busy s)) \<and>
     set (ps_free_list s @ map fst (ps_busy s)) \<subseteq> {..<ps_contexts s}"

definition taken :: "proxy_state \<Rightarrow> nat multiset" where
  "taken s = mset (map fst (ps_done s)) + mset (map snd (ps_busy s))"

lemma refuse_ok:
  assumes "refuse J aio s = Some s'"
  shows "contexts_ok s' = contexts_ok s" "taken s' = add_mset aio (taken s)" "ps_sent s' = ps_sent s"
    "ps_proxy s' = ps_proxy s"
proof -
  from assms obtain r where "s' = s\<lparr>ps_done := ps_done s @ [(aio, A_response r)]\<rparr>" by (auto simp: refuse_def)
  then show "contexts_ok s' = contexts_ok s" "taken s' = add_mset aio (taken s)" "ps_sent s' = ps_sent s"
    "ps_proxy s' = ps_proxy s" by (simp_all add: contexts_ok_def taken_def)
qed

lemma get_ctx_ok:
  assumes "http_proxy_get_ctx F s = (ctx, s')" "contexts_ok s"
  shows "contexts_ok s'" "taken s' = taken s" "ps_sent s' = ps_sent s" "ps_proxy s' = ps_proxy s"
    "\<And>c. ctx = Some c \<Longrightarrow> c < ps_contexts s' \<and> c \<notin> set (ps_free_list s' @ map fst (ps_busy s'))"
proof -
  have "contexts_ok s' \<and> taken s' = taken s \<and> ps_sent s' = ps_sent s \<and> ps_proxy s' = ps_proxy s \<and>
    (\<forall>c. ctx = Some c \<longrightarrow> c < ps_contexts s' \<and> c \<notin> set (ps_free_list s' @ map fst (ps_busy s')))"
  proof (cases "ps_free_list s")
    case Nil
    with assms show ?thesis
      by (cases "pf_ctx F") (force simp: http_proxy_get_ctx_def contexts_ok_def taken_def)+
  next
    case (Cons c cs)
    with assms(1) have "ctx = Some c" "s' = s\<lparr>ps_free_list := cs\<rparr>" by (simp_all add: http_proxy_get_ctx_def)
    with assms(2) Cons show ?thesis by (simp add: contexts_ok_def taken_def)
  qed
  then show "contexts_ok s'" "taken s' = taken s" "ps_sent s' = ps_sent s" "ps_proxy s' = ps_proxy s"
    "\<And>c. ctx = Some c \<Longrightarrow> c < ps_contexts s' \<and> c \<notin> set (ps_free_list s' @ map fst (ps_busy s'))" by blast+
qed

text \<open>The handler behind the URI and the context.\<close>

lemma handle_proxy_eq:
  assumes "http_proxy_set_uri F uri (ps_proxy s) = Some (ret, out, p)"
    and "http_proxy_get_ctx F (s\<lparr>ps_proxy := p\<rparr>) = (ctx, s2)"
  shows "handle_proxy J F aio uri s =
    (if ret \<noteq> 0 then refuse J aio (s\<lparr>ps_proxy := p\<rparr>)
     else if ctx = None \<or> pf_res F then refuse J aio s2
     else Some (s2\<lparr>ps_busy := ps_busy s2 @ [(the ctx, aio)], ps_sent := ps_sent s2 @ [(aio, out)]\<rparr>))"
  using assms by (cases ctx) (simp_all add: handle_proxy_def Let_def)

lemma handle_proxy_ok:
  assumes "handle_proxy J F aio uri s = Some s'" "contexts_ok s" "buffer_ok u n (ps_proxy s)"
  shows "contexts_ok s' \<and> buffer_ok u n (ps_proxy s') \<and> taken s' = add_mset aio (taken s) \<and>
    (ps_sent s' = ps_sent s \<or> ps_sent s' = ps_sent s @ [(aio, u @ drop n uri)])"
proof -
  from assms(1) obtain ret out p where set: "http_proxy_set_uri F uri (ps_proxy s) = Some (ret, out, p)"
    by (auto simp: handle_proxy_def split: option.splits)
  note uri = set_uri_ok [OF assms(3) set]
  let ?s1 = "s\<lparr>ps_proxy := p\<rparr>"
  have s1: "contexts_ok ?s1" "taken ?s1 = taken s" "ps_sent ?s1 = ps_sent s" "buffer_ok u n (ps_proxy ?s1)"
    using assms(2) uri(1) by (simp_all add: contexts_ok_def taken_def)
  obtain ctx s2 where ctx: "http_proxy_get_ctx F ?s1 = (ctx, s2)" by fastforce
  note s2 = get_ctx_ok [OF ctx s1(1)]
  consider (refused) "refuse J aio ?s1 = Some s'" | (late) "refuse J aio s2 = Some s'"
    | (sent) c where "ret = 0" "ctx = Some c"
      "s' = s2\<lparr>ps_busy := ps_busy s2 @ [(c, aio)], ps_sent := ps_sent s2 @ [(aio, out)]\<rparr>"
    using assms(1) handle_proxy_eq [OF set ctx, of J aio] by (cases ctx) (auto split: if_splits)
  then show ?thesis
  proof cases
    case refused
    from refuse_ok [OF this] s1 show ?thesis by simp
  next
    case late
    from refuse_ok [OF this] s1 s2 show ?thesis by simp
  next
    case sent
    with s2(5) [OF sent(2)] s2(1) have "contexts_ok s'" by (auto simp: contexts_ok_def image_iff)
    moreover have "taken s' = add_mset aio (taken s)" using sent s1 s2(2) by (simp add: taken_def)
    ultimately show ?thesis using sent s1 s2(3,4) uri(2) by simp
  qed
qed

lemma proxy_cb_ok:
  assumes "http_proxy_cb J F k result s = Some s'" "contexts_ok s"
  shows "contexts_ok s'" "taken s' = taken s" "ps_sent s' = ps_sent s" "ps_proxy s' = ps_proxy s"
proof -
  have "contexts_ok s' \<and> taken s' = taken s \<and> ps_sent s' = ps_sent s \<and> ps_proxy s' = ps_proxy s"
  proof (cases "length (ps_busy s) \<le> k")
    case False
    then have busy: "ps_busy s = take k (ps_busy s) @ ps_busy s ! k # drop (Suc k) (ps_busy s)"
      by (simp add: id_take_nth_drop)
    obtain ctx aio where k: "ps_busy s ! k = (ctx, aio)" by fastforce
    obtain as bs where split: "ps_busy s = as @ (ctx, aio) # bs" "as = take k (ps_busy s)" "bs = drop (Suc k) (ps_busy s)"
      using busy k by simp
    from assms(1) False k obtain a where s': "s' = s\<lparr>ps_busy := as @ bs, ps_done := ps_done s @ [(aio, a)],
        ps_free_list := ps_free_list s @ [ctx]\<rparr>"
      using split(2,3) by (auto simp: http_proxy_cb_def Let_def split: if_splits)
    have "contexts_ok s'" using assms(2) split(1) s' by (auto simp: contexts_ok_def)
    moreover have "taken s' = taken s" using split(1) s' by (simp add: taken_def)
    ultimately show ?thesis using s' by simp
  qed (use assms in \<open>auto simp: http_proxy_cb_def\<close>)
  then show "contexts_ok s'" "taken s' = taken s" "ps_sent s' = ps_sent s" "ps_proxy s' = ps_proxy s" by auto
qed

section \<open>Runs\<close>

definition rewritten :: "string \<Rightarrow> nat \<Rightarrow> nat \<times> string \<Rightarrow> nat \<times> string" where
  "rewritten u n = (\<lambda>(aio, uri). (aio, u @ drop n uri))"

lemma proxy_run_ok:
  assumes "proxy_run J es s = Some s'" "contexts_ok s" "buffer_ok u n (ps_proxy s)"
  shows "contexts_ok s' \<and> buffer_ok u n (ps_proxy s') \<and> taken s' = taken s + mset (map fst (requests_of es)) \<and>
    set (ps_sent s') \<subseteq> set (ps_sent s) \<union> rewritten u n ` set (requests_of es)"
  using assms
proof (induction es arbitrary: s)
  case (Cons e es)
  then obtain s1 where s1: "proxy_event J e s = Some s1" "proxy_run J es s1 = Some s'"
    by (auto simp: bind_eq_Some_conv)
  show ?case
  proof (cases e)
    case (P_request aio uri F)
    with s1(1) have "handle_proxy J F aio uri s = Some s1" by (simp add: proxy_event_def)
    from handle_proxy_ok [OF this Cons.prems(2,3)]
    have ok: "contexts_ok s1" "buffer_ok u n (ps_proxy s1)" "taken s1 = add_mset aio (taken s)"
      "ps_sent s1 = ps_sent s \<or> ps_sent s1 = ps_sent s @ [(aio, u @ drop n uri)]"
      by auto
    from Cons.IH [OF s1(2) ok(1,2)] ok(3,4) P_request show ?thesis by (auto simp: rewritten_def)
  next
    case (P_ended k result F)
    with s1(1) have "http_proxy_cb J F k result s = Some s1" by (simp add: proxy_event_def)
    note ok = proxy_cb_ok [OF this Cons.prems(2)]
    from Cons.IH [OF s1(2) ok(1)] Cons.prems(3) ok P_ended show ?thesis by simp
  qed
qed simp

text \<open>
  A proxy passes each request on under the URI of the destination followed by what stands behind
  the source's, and answers it once: after any run of requests and ends of exchanges, failures of
  memory and of the library included, each request that came was answered once or waits on a context
  that no other request waits on and that is not free.
\<close>

theorem proxied_requests_answered_once:
  assumes "http_proxy_alloc (Some requri) client src = (0, Some p)" "proxy_run J es (start_proxy p) = Some s"
  shows "mset (map fst (ps_done s)) + mset (map snd (ps_busy s)) = mset (map fst (requests_of es)) \<and>
    distinct (map fst (ps_busy s) @ ps_free_list s) \<and>
    (\<forall>(aio, text)\<in>set (ps_sent s). \<exists>uri. (aio, uri) \<in> set (requests_of es) \<and> text = requri @ drop (length src) uri)"
proof -
  have "contexts_ok (start_proxy p)" "buffer_ok requri (length src) (ps_proxy (start_proxy p))"
    using alloc_buffer_ok [OF assms(1)] by (auto simp: contexts_ok_def start_proxy_def)
  from proxy_run_ok [OF assms(2) this] show ?thesis
    by (auto simp: taken_def start_proxy_def contexts_ok_def rewritten_def)
qed

definition demo_faults0 :: proxy_faults where
  "demo_faults0 = \<lparr>pf_realloc = False, pf_set_uri = False, pf_ctx = False, pf_res = False, pf_fill = 0\<rparr>"

definition demo_proxy :: http_proxy_t where
  "demo_proxy = \<lparr>src_uri_len = 4, dst_uri_len = 3, uri_buf_len = 4, uri_buf = Some ''/ek''\<rparr>"

definition demo_exchange :: "proxy_event list" where
  "demo_exchange = [P_request 10 ''/ekp/a'' demo_faults0, P_request 11 ''/ekp/b?c=1'' demo_faults0,
     P_ended 0 0 demo_faults0, P_request 12 ''/ekp'' demo_faults0]"

lemma proxied_requests_answered_once_witness:
  "\<exists>s. proxy_run jt_jansson demo_exchange (start_proxy demo_proxy) = Some s \<and>
     ps_sent s = [(10, ''/ek/a''), (11, ''/ek/b?c=1''), (12, ''/ek'')] \<and>
     ps_busy s = [(1, 11), (0, 12)] \<and> distinct (map fst (ps_busy s) @ ps_free_list s) \<and>
     mset (map fst (ps_done s)) + mset (map snd (ps_busy s)) = {#10, 11, 12#}"
proof -
  have alloc: "http_proxy_alloc (Some ''/ek'') 0 ''/ekp'' = (0, Some demo_proxy)" by (simp add: http_proxy_alloc_def demo_proxy_def)
  obtain s where s: "proxy_run jt_jansson demo_exchange (start_proxy demo_proxy) = Some s"
    "ps_sent s = [(10, ''/ek/a''), (11, ''/ek/b?c=1''), (12, ''/ek'')]" "ps_busy s = [(1, 11), (0, 12)]"
    by (simp add: demo_exchange_def demo_faults0_def proxy_event_def handle_proxy_def http_proxy_set_uri_def
        start_proxy_def demo_proxy_def Let_def http_proxy_get_ctx_def http_proxy_cb_def)
  from proxied_requests_answered_once [OF alloc s(1)] s show ?thesis by (auto simp: demo_exchange_def)
qed

text \<open>With memory for the buffer, and URIs that begin with the source's, no run crashes.\<close>

fun fair_event :: "nat \<Rightarrow> proxy_event \<Rightarrow> bool" where
  "fair_event n (P_request aio uri F) \<longleftrightarrow> n \<le> length uri \<and> \<not> pf_realloc F"
| "fair_event n (P_ended k result F) \<longleftrightarrow> True"

lemma proxy_runs_on:
  assumes "\<forall>e\<in>set es. fair_event n e" "error_text J NEU_ERR_EINTERNAL \<noteq> None"
    and "contexts_ok s" "buffer_ok u n (ps_proxy s)" "uri_buf (ps_proxy s) \<noteq> None"
  shows "\<exists>s'. proxy_run J es s = Some s'"
  using assms
proof (induction es arbitrary: s)
  case (Cons e es)
  have status: "error_status NEU_ERR_EINTERNAL = Some NNG_HTTP_STATUS_INTERNAL_SERVER_ERROR" by code_simp
  show ?case
  proof (cases e)
    case (P_request aio uri F)
    with Cons.prems(1) have fair: "n \<le> length uri" "\<not> pf_realloc F" by auto
    with set_uri_fits [OF Cons.prems(4) _ Cons.prems(5)] obtain ret out p where
      set: "http_proxy_set_uri F uri (ps_proxy s) = Some (ret, out, p)" by (metis option.exhaust prod_cases3)
    note keeps = set_uri_ok(4) [OF Cons.prems(4) set fair(2) Cons.prems(5)]
    obtain ctx s2 where ctx: "http_proxy_get_ctx F (s\<lparr>ps_proxy := p\<rparr>) = (ctx, s2)" by fastforce
    have "contexts_ok (s\<lparr>ps_proxy := p\<rparr>)" using Cons.prems(3) by (simp add: contexts_ok_def)
    from get_ctx_ok(4) [OF ctx this] have p2: "ps_proxy s2 = p" by simp
    have "\<exists>s1. handle_proxy J F aio uri s = Some s1 \<and> ps_proxy s1 = p"
      unfolding handle_proxy_eq [OF set ctx] using p2 status
      by (auto simp: refuse_def neu_http_response_def)
    then obtain s1 where s1: "handle_proxy J F aio uri s = Some s1" "ps_proxy s1 = p" by blast
    from handle_proxy_ok [OF s1(1) Cons.prems(3,4)] Cons.IH [of s1] Cons.prems(1,2) s1(2) keeps
    have "\<exists>s'. proxy_run J es s1 = Some s'" by simp
    with s1(1) P_request show ?thesis by (simp add: proxy_event_def)
  next
    case (P_ended k result F)
    have "\<exists>s1. http_proxy_cb J F k result s = Some s1"
      using Cons.prems(2) by (auto simp: http_proxy_cb_def Let_def split: prod.splits)
    then obtain s1 where s1: "http_proxy_cb J F k result s = Some s1" by blast
    from proxy_cb_ok [OF s1 Cons.prems(3)] Cons.IH [of s1] Cons.prems
    have "\<exists>s'. proxy_run J es s1 = Some s'" by simp
    with s1 P_ended show ?thesis by (simp add: proxy_event_def)
  qed
qed simp

end
