(* ===== verification/Args.thy ===== *)
theory Args
  imports Json Http "HOL-Library.Monad_Syntax"
begin

text \<open>
  The command line (\<open>src/argparse.c\<close>): the settings of a run from the configuration file, the
  environment and the options, in this order.

  Options are what \<open>getopt_long\<close> returns, one after the other: the character, the name in
  \<open>long_options\<close> and the argument.  The file system and the environment are functions; a file
  that cannot be opened or read is \<open>None\<close>.  \<open>exit\<close> is a result.  What is printed is left out.
\<close>

section \<open>Restart policies\<close>

definition NEU_RESTART_NEVER :: u64 where "NEU_RESTART_NEVER = 0"
definition NEU_RESTART_ALWAYS :: u64 where "NEU_RESTART_ALWAYS = - 2"
definition NEU_RESTART_ONFAILURE :: u64 where "NEU_RESTART_ONFAILURE = - 1"

text \<open>\<open>strtoumax\<close> of base 0: the value, whether it is out of range, and the rest of the text.\<close>

definition in_base :: "nat \<Rightarrow> char \<Rightarrow> bool" where
  "in_base b c \<longleftrightarrow> isxdigit c \<and> xdigit_value c < b"

definition base_value :: "nat \<Rightarrow> string \<Rightarrow> nat" where
  "base_value b ds = foldl (\<lambda>n c. b * n + xdigit_value c) 0 ds"

definition number_base :: "string \<Rightarrow> nat \<times> string" where
  "number_base s =
     (case s of
        a # x # c # r \<Rightarrow>
          if a = CHR ''0'' \<and> x \<in> {CHR ''x'', CHR ''X''} \<and> isxdigit c then (16, c # r)
          else if a = CHR ''0'' then (8, s) else (10, s)
      | a # r \<Rightarrow> if a = CHR ''0'' then (8, s) else (10, s)
      | [] \<Rightarrow> (10, s))"

definition strtoumax0 :: "string \<Rightarrow> u64 \<times> bool \<times> string" where
  "strtoumax0 s =
     (let s1 = dropWhile isspace s;
          neg = (s1 \<noteq> [] \<and> hd s1 = CHR ''-'');
          s2 = (if s1 \<noteq> [] \<and> hd s1 \<in> {CHR ''-'', CHR ''+''} then tl s1 else s1);
          (b, s3) = number_base s2;
          ds = takeWhile (in_base b) s3; v = base_value b ds
      in if ds = [] then (0, False, s)
         else if v \<ge> 2 ^ 64 then (- 1, True, dropWhile (in_base b) s3)
         else (if neg then - of_nat v else of_nat v, False, dropWhile (in_base b) s3))"

definition parse_restart_policy :: "string \<Rightarrow> u64 option" where
  "parse_restart_policy s =
     (if s = ''always'' then Some NEU_RESTART_ALWAYS
      else if s = ''never'' then Some NEU_RESTART_NEVER
      else if s = ''on-failure'' then Some NEU_RESTART_ONFAILURE
      else let (n, range, stop) = strtoumax0 s
           in if range \<or> s = [] \<or> stop \<noteq> [] \<or> n > NEU_RESTART_ALWAYS then None else Some n)"

section \<open>Settings\<close>

record neu_cli_args_t =
  cl_daemonized :: bool
  cl_dev_log :: bool
  cl_restart :: u64
  cl_disable_auth :: bool
  cl_log_init_file :: "string option"
  cl_config_dir :: "string option"
  cl_plugin_dir :: "string option"
  cl_stop :: bool
  cl_ip :: "string option"
  cl_port :: int

definition zero_args :: neu_cli_args_t where
  "zero_args =
     \<lparr>cl_daemonized = False, cl_dev_log = False, cl_restart = 0, cl_disable_auth = False,
      cl_log_init_file = None, cl_config_dir = None, cl_plugin_dir = None, cl_stop = False,
      cl_ip = None, cl_port = 0\<rparr>"

text \<open>The local variables beside the settings.\<close>

record cli_state =
  cs_args :: neu_cli_args_t
  cs_log_level :: "string option"
  cs_config_dir :: "string option"
  cs_plugin_dir :: "string option"
  cs_reset :: bool

definition load_spec_arg :: "string list \<Rightarrow> neu_cli_args_t \<Rightarrow> neu_cli_args_t" where
  "load_spec_arg argv args =
     (if length argv > 1 \<and> argv ! 1 = ''stop'' then args\<lparr>cl_stop := True\<rparr> else args)"

text \<open>A flag of the environment: 1, 0, not there, or an error.\<close>

definition env_flag :: "string option \<Rightarrow> bool \<Rightarrow> bool option" where
  "env_flag v old =
     (case v of
        None \<Rightarrow> Some old
      | Some s \<Rightarrow> if s = ''1'' then Some True else if s = ''0'' then Some False else None)"

definition load_env :: "(string \<Rightarrow> string option) \<Rightarrow> cli_state \<Rightarrow> cli_state option" where
  "load_env env st = do {
     let args = cs_args st;
     daemon \<leftarrow> env_flag (env ''NEURON_DAEMON'') (cl_daemonized args);
     dev \<leftarrow> env_flag (env ''NEURON_LOG'') (cl_dev_log args);
     restart \<leftarrow> (case env ''NEURON_RESTART'' of
         None \<Rightarrow> Some (cl_restart args)
       | Some s \<Rightarrow> parse_restart_policy s);
     auth \<leftarrow> env_flag (env ''NEURON_DISABLE_AUTH'') (cl_disable_auth args);
     let or_old = (\<lambda>v old. case v of None \<Rightarrow> old | Some s \<Rightarrow> Some s);
     Some (st\<lparr>cs_args := args\<lparr>cl_daemonized := daemon, cl_dev_log := dev, cl_restart := restart,
                              cl_disable_auth := auth\<rparr>,
              cs_log_level := or_old (env ''NEURON_LOG_LEVEL'') (cs_log_level st),
              cs_config_dir := or_old (env ''NEURON_CONFIG_DIR'') (cs_config_dir st),
              cs_plugin_dir := or_old (env ''NEURON_PLUGIN_DIR'') (cs_plugin_dir st)\<rparr>)
   }"

section \<open>The configuration file\<close>

record cli_opt =
  o_char :: char
  o_name :: string
  o_arg :: string

definition resolve_config_file_path :: "cli_opt list \<Rightarrow> string option" where
  "resolve_config_file_path opts =
     (case filter (\<lambda>p. o_char p = CHR ''c'' \<and> o_name p = ''config_file'') opts of
        [] \<Rightarrow> None
      | p # _ \<Rightarrow> Some (o_arg p))"

definition config_elems :: "'j neu_json_elem_t list" where
  "config_elems =
     [\<lparr>eattribute = NEU_JSON_ATTRIBUTE_REQUIRED, ename = Some ''disable_auth'', et = NEU_JSON_INT,
       ev = zero_json_value\<rparr>,
      \<lparr>eattribute = NEU_JSON_ATTRIBUTE_REQUIRED, ename = Some ''ip'', et = NEU_JSON_STR,
       ev = zero_json_value\<rparr>,
      \<lparr>eattribute = NEU_JSON_ATTRIBUTE_REQUIRED, ename = Some ''port'', et = NEU_JSON_INT,
       ev = zero_json_value\<rparr>]"

text \<open>
  At most 511 characters are read.  The inner \<open>None\<close> is the result -1; the outer one a crash.
\<close>

definition load_config_file ::
  "'j jansson \<Rightarrow> (string \<Rightarrow> bool) \<Rightarrow> (string \<Rightarrow> string option) \<Rightarrow> cli_opt list \<Rightarrow> neu_cli_args_t \<Rightarrow>
    neu_cli_args_t option option" where
  "load_config_file J file_exists content opts args =
     (let path = (case resolve_config_file_path opts of None \<Rightarrow> ''./config/neuron.json'' | Some p \<Rightarrow> p)
      in if \<not> file_exists path then Some None
         else case content path of
           None \<Rightarrow> Some None
         | Some text \<Rightarrow>
             if text = [] then Some None
             else case neu_json_decode_new J (takeWhile (\<lambda>c. c \<noteq> CHR 0x00) (take 511 text)) of
               None \<Rightarrow> Some None
             | Some root \<Rightarrow>
                 (case neu_json_decode_by_json J (Some root) config_elems of
                    None \<Rightarrow> None
                  | Some (ret, elems) \<Rightarrow>
                      if ret \<noteq> 0 then Some None
                      else
                        let auth = val_int (ev (elems ! 0)); ip = jstr (ev (elems ! 1));
                            port = val_int (ev (elems ! 2))
                        in if auth \<noteq> 1 \<and> auth \<noteq> 0 then Some None
                           else if ip = None then Some None
                           else if \<not> sint port > 0 then Some None
                           else Some (Some (args\<lparr>cl_disable_auth := (auth = 1), cl_ip := ip,
                                                 cl_port := sint (ucast port :: u32)\<rparr>))))"

section \<open>Options\<close>

datatype cli_result = Cli_exit int | Cli_run neu_cli_args_t "string option"

fun parse_options :: "cli_opt list \<Rightarrow> cli_state \<Rightarrow> int + cli_state" where
  "parse_options [] st = Inr st"
| "parse_options (p # opts) st =
     (if o_char p = CHR ''h'' then Inl 0
      else if o_char p = CHR ''d'' then
        parse_options opts (st\<lparr>cs_args := (cs_args st)\<lparr>cl_daemonized := True\<rparr>\<rparr>)
      else if o_char p = CHR '':'' then Inl 0
      else if o_char p = CHR ''l'' then
        parse_options opts (st\<lparr>cs_args := (cs_args st)\<lparr>cl_dev_log := True\<rparr>\<rparr>)
      else if o_char p = CHR ''o'' then parse_options opts (st\<lparr>cs_log_level := Some (o_arg p)\<rparr>)
      else if o_char p = CHR ''r'' then
        (if o_name p = ''reset-password'' then parse_options opts (st\<lparr>cs_reset := True\<rparr>)
         else case parse_restart_policy (o_arg p) of
           None \<Rightarrow> Inl 1
         | Some n \<Rightarrow> parse_options opts (st\<lparr>cs_args := (cs_args st)\<lparr>cl_restart := n\<rparr>\<rparr>))
      else if o_char p = CHR ''v'' then Inl 0
      else if o_char p = CHR ''a'' then
        parse_options opts (st\<lparr>cs_args := (cs_args st)\<lparr>cl_disable_auth := True\<rparr>\<rparr>)
      else if o_char p = CHR ''c'' then
        parse_options opts (if o_name p = ''config_dir'' then st\<lparr>cs_config_dir := Some (o_arg p)\<rparr> else st)
      else if o_char p = CHR ''p'' then parse_options opts (st\<lparr>cs_plugin_dir := Some (o_arg p)\<rparr>)
      else Inl 1)"

text \<open>The level that the default is replaced by, if any.\<close>

definition switched_level :: "string option \<Rightarrow> string option" where
  "switched_level l = (if l = Some ''DEBUG'' \<or> l = Some ''NOTICE'' then l else None)"

definition finish_args :: "(string \<Rightarrow> bool) \<Rightarrow> cli_state \<Rightarrow> cli_result" where
  "finish_args file_exists st =
     (let args1 = (if \<not> cl_daemonized (cs_args st) \<and> cl_restart (cs_args st) \<noteq> NEU_RESTART_NEVER
                   then (cs_args st)\<lparr>cl_restart := NEU_RESTART_NEVER\<rparr> else cs_args st);
          config = (case cs_config_dir st of None \<Rightarrow> ''./config'' | Some d \<Rightarrow> d);
          plugin = (case cs_plugin_dir st of None \<Rightarrow> ''./plugins'' | Some d \<Rightarrow> d);
          log = config @ ''/'' @ (if cl_dev_log args1 then ''dev.conf'' else ''zlog.conf'')
      in if \<not> file_exists config then Cli_exit 1
         else if \<not> file_exists plugin then Cli_exit 1
         else if \<not> file_exists log then Cli_exit 1
         else if cs_reset st then Cli_exit 0
         else Cli_run (args1\<lparr>cl_config_dir := Some config, cl_plugin_dir := Some plugin,
                             cl_log_init_file := Some log\<rparr>) (switched_level (cs_log_level st)))"

definition neu_cli_args_init ::
  "'j jansson \<Rightarrow> (string \<Rightarrow> bool) \<Rightarrow> (string \<Rightarrow> string option) \<Rightarrow> (string \<Rightarrow> string option) \<Rightarrow>
    string list \<Rightarrow> cli_opt list \<Rightarrow> cli_result option" where
  "neu_cli_args_init J file_exists content env argv opts =
     (case load_config_file J file_exists content opts (load_spec_arg argv zero_args) of
        None \<Rightarrow> None
      | Some None \<Rightarrow> Some (Cli_exit 1)
      | Some (Some args) \<Rightarrow>
          (case load_env env \<lparr>cs_args = args, cs_log_level = None, cs_config_dir = None,
                              cs_plugin_dir = None, cs_reset = False\<rparr> of
             None \<Rightarrow> Some (Cli_exit 1)
           | Some st \<Rightarrow>
               (case parse_options opts st of
                  Inl ret \<Rightarrow> Some (Cli_exit ret)
                | Inr st' \<Rightarrow> Some (finish_args file_exists st'))))"

end
