(* ===== verification/Daemon.thy ===== *)
theory Daemon
  imports CTypes
begin

text \<open>
  Becoming a daemon, the lock file of the running program and stopping it (\<open>src/daemon.c\<close>).

  What the operating system answers is a parameter.  The lock is the record lock of \<open>fcntl\<close>: one
  process holds it until it ends or closes the file.  \<open>exit\<close> is a result.
\<close>

section \<open>Daemon\<close>

text \<open>The open descriptors with what they refer to.\<close>

type_synonym open_files = "nat \<Rightarrow> string option"

definition close_below :: "int \<Rightarrow> open_files \<Rightarrow> open_files" where
  "close_below n fs = (\<lambda>i. if int i < n then None else fs i)"

text \<open>The lowest number that is free below \<open>limit\<close>, the number of descriptors a process may have.\<close>

definition open_lowest :: "nat \<Rightarrow> string \<Rightarrow> open_files \<Rightarrow> int \<times> open_files" where
  "open_lowest limit what fs =
     (case find (\<lambda>i. fs i = None) [0..<limit] of
        None \<Rightarrow> (- 1, fs)
      | Some i \<Rightarrow> (int i, fs(i \<mapsto> what)))"

definition dup :: "nat \<Rightarrow> nat \<Rightarrow> open_files \<Rightarrow> int \<times> open_files" where
  "dup limit i fs = (case fs i of None \<Rightarrow> (- 1, fs) | Some what \<Rightarrow> open_lowest limit what fs)"

datatype 'a ending = Exit int | Abort | Goes_on 'a

text \<open>
  What becomes of the process that called: the parents exit with 0, the last child goes on.
  \<open>forks\<close> are the results of the two \<open>fork\<close>s, of which 0 is a child and below it an error.  The limit
  of descriptors is cut to an \<open>int\<close>; \<open>None\<close> is \<open>RLIM_INFINITY\<close>.
\<close>

definition daemonize ::
  "nat \<Rightarrow> u64 option option \<Rightarrow> int \<times> int \<Rightarrow> bool \<Rightarrow> open_files \<Rightarrow> open_files ending" where
  "daemonize limit rlimit forks sigaction_fails fs =
     (case rlimit of
        None \<Rightarrow> Exit 1
      | Some rlim_max \<Rightarrow>
          let nfile = (case rlim_max of None \<Rightarrow> 1024 | Some m \<Rightarrow> sint (ucast m :: u32))
          in if fst forks < 0 then Exit 1 else if fst forks \<noteq> 0 then Exit 0
             else if sigaction_fails then Exit 1
             else if snd forks < 0 then Exit 1 else if snd forks \<noteq> 0 then Exit 0
             else (case open_lowest limit ''/dev/null'' (close_below nfile fs) of
                     (_, fs1) \<Rightarrow> (case dup limit 0 fs1 of
                       (ret1, fs2) \<Rightarrow> if ret1 = - 1 then Abort
                         else (case dup limit 0 fs2 of
                                 (ret2, fs3) \<Rightarrow> if ret2 = - 1 then Abort else Goes_on fs3))))"

section \<open>The lock file\<close>

record lock_os =
  lo_text :: "string option"
  lo_holder :: "int option"

datatype lock_result = Lock_taken | Lock_held | Lock_error

definition lock_file :: "bool \<Rightarrow> int \<Rightarrow> lock_os \<Rightarrow> lock_result" where
  "lock_file fails pid os =
     (if fails then Lock_error
      else if lo_holder os \<noteq> None \<and> lo_holder os \<noteq> Some pid then Lock_held else Lock_taken)"

definition pid_text :: "int \<Rightarrow> string" where
  "pid_text pid = snprintf 16 (show_int pid)"

text \<open>1: another process runs.  0: this one has the lock, and its number is in the file.\<close>

definition neuron_already_running ::
  "bool \<Rightarrow> bool \<Rightarrow> int \<Rightarrow> lock_os \<Rightarrow> int ending \<times> lock_os" where
  "neuron_already_running open_fails lock_fails pid os =
     (if open_fails then (Exit 1, os)
      else let os1 = (if lo_text os = None then os\<lparr>lo_text := Some []\<rparr> else os)
           in (case lock_file lock_fails pid os1 of
                 Lock_held \<Rightarrow> (Goes_on 1, os1)
               | Lock_error \<Rightarrow> (Exit 1, os1)
               | Lock_taken \<Rightarrow>
                   (Goes_on 0, os1\<lparr>lo_text := Some (pid_text pid @ [CHR 0x00]), lo_holder := Some pid\<rparr>)))"

text \<open>The process ends, or closes the file.\<close>

definition release :: "int \<Rightarrow> lock_os \<Rightarrow> lock_os" where
  "release pid os = (if lo_holder os = Some pid then os\<lparr>lo_holder := None\<rparr> else os)"

section \<open>Stopping\<close>

definition STOP_TIMEOUT :: u32 where "STOP_TIMEOUT = 20000"
definition STOP_TICK :: u32 where "STOP_TICK = 2000"

text \<open>The loop: \<open>try n\<close> is what the \<open>n\<close>-th attempt finds.  The ticks are counted in 32 bits.\<close>

partial_function (option) wait_loop :: "(nat \<Rightarrow> lock_result) \<Rightarrow> nat \<Rightarrow> u32 \<Rightarrow> u32 \<Rightarrow> int ending option" where
  "wait_loop try n tick ms =
     (case try n of
        Lock_taken \<Rightarrow> Some (Goes_on 0)
      | Lock_error \<Rightarrow> Some (Exit 1)
      | Lock_held \<Rightarrow> if tick + STOP_TICK < ms then wait_loop try (Suc n) (tick + STOP_TICK) ms else Some (Goes_on (- 1)))"

definition neuron_wait_exit :: "bool \<Rightarrow> (nat \<Rightarrow> lock_result) \<Rightarrow> u32 \<Rightarrow> int ending option" where
  "neuron_wait_exit open_fails try ms = (if open_fails then Some (Exit 1) else wait_loop try 0 0 ms)"

text \<open>
  \<open>getpgid\<close> and \<open>kill\<close> are the calls of the system.  The second result is the process group that
  was sent a signal.
\<close>

definition neuron_stop ::
  "lock_os \<Rightarrow> (int \<Rightarrow> int option) \<Rightarrow> (int \<Rightarrow> int) \<Rightarrow> bool \<Rightarrow> (nat \<Rightarrow> lock_result) \<Rightarrow>
    (int ending \<times> int option) option" where
  "neuron_stop os getpgid kill open_fails try =
     (case Option.bind (lo_text os) scan_int of
        None \<Rightarrow> Some (Goes_on (- 1), None)
      | Some (pid, _) \<Rightarrow>
          (case getpgid (sint (of_int pid :: u32)) of
             None \<Rightarrow> Some (Goes_on (- 1), None)
           | Some gid \<Rightarrow>
               if kill (- gid) \<noteq> 0 then Some (Goes_on (- 1), None)
               else map_option (\<lambda>r. (case r of Goes_on v \<Rightarrow> Goes_on (if v = 0 then 0 else - 1) | _ \<Rightarrow> r, Some gid))
                      (neuron_wait_exit open_fails try STOP_TIMEOUT)))"

end
