(* ===== verification/Program.thy ===== *)
theory Program
  imports Args Manager Daemon
begin

text \<open>
  The start of the program (\<open>src/main.c\<close>): settings, the address of the REST server, the daemon, the
  database and the manager.  The log library, signals and the limit of core files change nothing that
  is modelled.  \<open>None\<close> is a crash.
\<close>

text \<open>What the system answers beside the settings: opening the database and its two pragmas, and forks.\<close>

record program_env =
  pe_sqlite :: "bool \<times> bool \<times> bool"
  pe_fd_limit :: nat
  pe_rlimit :: "u64 option option"
  pe_forks :: "int \<times> int"
  pe_sigaction :: bool
  pe_files :: open_files

text \<open>The globals of a program that runs; \<open>exit_flag\<close> is set only by a handler that then exits.\<close>

record 'p program =
  pg_disable_jwt :: bool
  pg_host_port :: string
  pg_files :: open_files
  pg_manager :: "'p neu_manager"

definition esv_persister_create :: "bool \<times> bool \<times> bool \<Rightarrow> int" where
  "esv_persister_create = (\<lambda>(opens, foreign_keys, journal). if opens \<and> foreign_keys \<and> journal then 0 else - 1)"

definition HOST_PORT_SIZE :: nat where "HOST_PORT_SIZE = 24"

text \<open>The settings always have an address.\<close>

definition host_port_text :: "neu_cli_args_t \<Rightarrow> string" where
  "host_port_text args =
     ''http://'' @ (case cl_ip args of None \<Rightarrow> ''(null)'' | Some ip \<Rightarrow> ip) @ '':'' @ CTypes.show_int (cl_port args)"

text \<open>The directory of plugins is a global of the command line.\<close>

definition with_plugin_dir :: "neu_cli_args_t \<Rightarrow> 'p world \<Rightarrow> 'p world" where
  "with_plugin_dir args w =
     w\<lparr>w_plugin_dir := (case cl_plugin_dir args of None \<Rightarrow> w_plugin_dir w | Some d \<Rightarrow> d)\<rparr>"

text \<open>A database that cannot be opened is a failing assertion, whose signal makes the program exit with -1.\<close>

definition neuron_run :: "program_env \<Rightarrow> 'p world \<Rightarrow> ('p neu_manager) ending option" where
  "neuron_run E w =
     (if esv_persister_create (pe_sqlite E) \<noteq> 0 then Some (Exit (- 1))
      else map_option Goes_on (neu_manager_create w))"

definition is_version_call :: "string list \<Rightarrow> bool" where
  "is_version_call argv \<longleftrightarrow> length argv = 2 \<and> argv ! 1 = ''-v''"

definition cpm_main ::
  "'j jansson \<Rightarrow> (string \<Rightarrow> bool) \<Rightarrow> (string \<Rightarrow> string option) \<Rightarrow> (string \<Rightarrow> string option) \<Rightarrow>
    string list \<Rightarrow> cli_opt list \<Rightarrow> program_env \<Rightarrow> 'p world \<Rightarrow> 'p program ending option" where
  "cpm_main J file_exists content env argv opts E w =
     (if is_version_call argv then Some (Exit 0)
      else (case neu_cli_args_init J file_exists content env argv opts of
              None \<Rightarrow> None
            | Some (Cli_exit c) \<Rightarrow> Some (Exit c)
            | Some (Cli_run args level) \<Rightarrow>
                (case (if cl_daemonized args
                       then daemonize (pe_fd_limit E) (pe_rlimit E) (pe_forks E) (pe_sigaction E) (pe_files E)
                       else Goes_on (pe_files E)) of
                   Exit c \<Rightarrow> Some (Exit c)
                 | Abort \<Rightarrow> Some Abort
                 | Goes_on files \<Rightarrow>
                     map_option (map_ending (\<lambda>mg.
                         \<lparr>pg_disable_jwt = cl_disable_auth args,
                          pg_host_port = snprintf HOST_PORT_SIZE (host_port_text args),
                          pg_files = files, pg_manager = mg\<rparr>))
                       (neuron_run E (with_plugin_dir args w)))))"

end
