(* ===== verification/ArgsLaws.thy ===== *)
theory ArgsLaws
  imports Args
begin

text \<open>
  Laws of the command line (\<open>Args\<close>): which of the sources of a setting counts.
\<close>

section \<open>Options\<close>

definition last_opt :: "(cli_opt \<Rightarrow> bool) \<Rightarrow> cli_opt list \<Rightarrow> string option" where
  "last_opt P opts = (case filter P opts of [] \<Rightarrow> None | ps \<Rightarrow> Some (o_arg (last ps)))"

definition or_else :: "string option \<Rightarrow> string option \<Rightarrow> string option" where
  "or_else a b = (case a of None \<Rightarrow> b | Some s \<Rightarrow> Some s)"

lemma last_opt_simps [simp]:
  "last_opt P [] = None"
  "last_opt P (p # opts) =
     (if P p then or_else (last_opt P opts) (Some (o_arg p)) else last_opt P opts)"
  by (auto simp: last_opt_def or_else_def split: list.split)

lemma or_else_simps [simp]:
  "or_else None b = b" "or_else (Some s) b = Some s" "or_else a None = a"
  "or_else (or_else a b) c = or_else a (or_else b c)"
  by (auto simp: or_else_def split: option.split)

definition is_opt :: "char \<Rightarrow> cli_opt \<Rightarrow> bool" where
  "is_opt c p \<longleftrightarrow> o_char p = c"

definition is_restart :: "cli_opt \<Rightarrow> bool" where
  "is_restart p \<longleftrightarrow> o_char p = CHR ''r'' \<and> o_name p \<noteq> ''reset-password''"

definition is_config_dir :: "cli_opt \<Rightarrow> bool" where
  "is_config_dir p \<longleftrightarrow> o_char p = CHR ''c'' \<and> o_name p = ''config_dir''"

text \<open>What the options leave in the state; a policy that was taken is valid.\<close>

lemma parse_options_result:
  assumes "parse_options opts st = Inr st'"
  shows "cs_config_dir st' = or_else (last_opt is_config_dir opts) (cs_config_dir st)"
    and "cs_plugin_dir st' = or_else (last_opt (is_opt CHR ''p'') opts) (cs_plugin_dir st)"
    and "cs_log_level st' = or_else (last_opt (is_opt CHR ''o'') opts) (cs_log_level st)"
    and "cl_daemonized (cs_args st') \<longleftrightarrow> (\<exists>p\<in>set opts. is_opt CHR ''d'' p) \<or> cl_daemonized (cs_args st)"
    and "cl_dev_log (cs_args st') \<longleftrightarrow> (\<exists>p\<in>set opts. is_opt CHR ''l'' p) \<or> cl_dev_log (cs_args st)"
    and "cl_disable_auth (cs_args st') \<longleftrightarrow> (\<exists>p\<in>set opts. is_opt CHR ''a'' p) \<or> cl_disable_auth (cs_args st)"
    and "\<not> (\<exists>p\<in>set opts. o_char p \<in> {CHR ''h'', CHR ''v'', CHR ''s'', CHR ''?''})"
    and "cl_ip (cs_args st') = cl_ip (cs_args st)" "cl_port (cs_args st') = cl_port (cs_args st)"
  using assms
  by (induction opts arbitrary: st)
     (auto simp: is_opt_def is_restart_def is_config_dir_def split: if_splits option.splits)

lemma parse_options_restart:
  assumes "parse_options opts st = Inr st'"
  shows "case last_opt is_restart opts of
        None \<Rightarrow> cl_restart (cs_args st') = cl_restart (cs_args st)
      | Some s \<Rightarrow> parse_restart_policy s = Some (cl_restart (cs_args st'))"
  using assms
proof (induction opts arbitrary: st)
  case (Cons p opts)
  show ?case
  proof (cases "is_restart p")
    case True
    then obtain n where n: "parse_restart_policy (o_arg p) = Some n"
      "parse_options opts (st\<lparr>cs_args := (cs_args st)\<lparr>cl_restart := n\<rparr>\<rparr>) = Inr st'"
      using Cons.prems by (auto simp: is_restart_def split: option.splits)
    from Cons.IH [OF n(2)] n(1) True show ?thesis
      by (cases "last_opt is_restart opts") simp_all
  next
    case False
    then obtain st1 where "parse_options opts st1 = Inr st'" "cl_restart (cs_args st1) = cl_restart (cs_args st)"
      using Cons.prems by (auto simp: is_restart_def split: if_splits)
    with Cons.IH [of st1] False show ?thesis by (cases "last_opt is_restart opts") simp_all
  qed
qed simp

lemma load_env_result:
  assumes "load_env env st = Some st'"
  shows "cs_config_dir st' = or_else (env ''NEURON_CONFIG_DIR'') (cs_config_dir st)"
    and "cs_plugin_dir st' = or_else (env ''NEURON_PLUGIN_DIR'') (cs_plugin_dir st)"
    and "cs_log_level st' = or_else (env ''NEURON_LOG_LEVEL'') (cs_log_level st)"
    and "Some (cl_daemonized (cs_args st')) = env_flag (env ''NEURON_DAEMON'') (cl_daemonized (cs_args st))"
    and "Some (cl_dev_log (cs_args st')) = env_flag (env ''NEURON_LOG'') (cl_dev_log (cs_args st))"
    and "Some (cl_disable_auth (cs_args st')) = env_flag (env ''NEURON_DISABLE_AUTH'') (cl_disable_auth (cs_args st))"
    and "case env ''NEURON_RESTART'' of None \<Rightarrow> cl_restart (cs_args st') = cl_restart (cs_args st)
      | Some s \<Rightarrow> parse_restart_policy s = Some (cl_restart (cs_args st'))"
    and "cl_ip (cs_args st') = cl_ip (cs_args st)" "cl_port (cs_args st') = cl_port (cs_args st)"
  using assms
  by (auto simp: load_env_def bind_eq_Some_conv Let_def or_else_def split: option.splits)

lemma load_config_result:
  assumes "load_config_file J file_exists content opts args = Some (Some args')"
  shows "cl_daemonized args' = cl_daemonized args \<and> cl_dev_log args' = cl_dev_log args \<and>
    cl_restart args' = cl_restart args"
  using assms
  by (auto simp: load_config_file_def Let_def split: if_splits option.splits)

section \<open>The settings of a run\<close>

text \<open>
  C24: Where a setting of a run comes from.  For the two directories, the restart policy and the
  level of the log the last option counts, then the environment, then the default; of the
  levels only DEBUG and NOTICE replace the default.  The flags daemon and console log are on
  when an option or the environment sets them; authentication is off when an option says so,
  otherwise the environment decides and, when it has no such variable, the configuration file.
  Address and port are those of the configuration file, which must be there and be correct.
  The directories and the configuration of the log exist, and without a daemon there is no
  restart.
\<close>

theorem settings_precedence:
  assumes "neu_cli_args_init J file_exists content env argv opts = Some (Cli_run args level)"
  shows "\<exists>filed config plugin.
    load_config_file J file_exists content opts (load_spec_arg argv zero_args) = Some (Some filed) \<and>
    or_else (last_opt is_config_dir opts) (or_else (env ''NEURON_CONFIG_DIR'') (Some ''./config'')) = Some config \<and>
    or_else (last_opt (is_opt CHR ''p'') opts) (or_else (env ''NEURON_PLUGIN_DIR'') (Some ''./plugins'')) = Some plugin \<and>
    cl_config_dir args = Some config \<and> file_exists config \<and>
    cl_plugin_dir args = Some plugin \<and> file_exists plugin \<and>
    cl_log_init_file args = Some (config @ (if cl_dev_log args then ''/dev.conf'' else ''/zlog.conf'')) \<and>
    file_exists (config @ (if cl_dev_log args then ''/dev.conf'' else ''/zlog.conf'')) \<and>
    level = switched_level (or_else (last_opt (is_opt CHR ''o'') opts) (env ''NEURON_LOG_LEVEL'')) \<and>
    (cl_daemonized args \<longleftrightarrow> (\<exists>p\<in>set opts. is_opt CHR ''d'' p) \<or> env ''NEURON_DAEMON'' = Some ''1'') \<and>
    (cl_dev_log args \<longleftrightarrow> (\<exists>p\<in>set opts. is_opt CHR ''l'' p) \<or> env ''NEURON_LOG'' = Some ''1'') \<and>
    (cl_disable_auth args \<longleftrightarrow> (\<exists>p\<in>set opts. is_opt CHR ''a'' p) \<or> env ''NEURON_DISABLE_AUTH'' = Some ''1'' \<or>
       env ''NEURON_DISABLE_AUTH'' = None \<and> cl_disable_auth filed) \<and>
    cl_restart args = (if cl_daemonized args
      then case or_else (last_opt is_restart opts) (env ''NEURON_RESTART'') of
             None \<Rightarrow> NEU_RESTART_NEVER | Some s \<Rightarrow> the (parse_restart_policy s)
      else NEU_RESTART_NEVER) \<and>
    cl_ip args = cl_ip filed \<and> cl_port args = cl_port filed"
proof -
  let ?st0 = "\<lambda>a. \<lparr>cs_args = a, cs_log_level = None, cs_config_dir = None, cs_plugin_dir = None, cs_reset = False\<rparr>"
  obtain filed st1 st2 where
    filed: "load_config_file J file_exists content opts (load_spec_arg argv zero_args) = Some (Some filed)"
    and st1: "load_env env (?st0 filed) = Some st1" and st2: "parse_options opts st1 = Inr st2"
    and fin: "finish_args file_exists st2 = Cli_run args level"
    using assms by (auto simp: neu_cli_args_init_def split: option.splits sum.splits)
  have zero: "\<not> cl_daemonized filed" "\<not> cl_dev_log filed" "cl_restart filed = NEU_RESTART_NEVER"
    using load_config_result [OF filed]
    by (simp_all add: load_spec_arg_def zero_args_def NEU_RESTART_NEVER_def)
  note e = load_env_result [OF st1, simplified] and opt = parse_options_result [OF st2] and restart = parse_options_restart [OF st2]
  define config where "config = (case cs_config_dir st2 of None \<Rightarrow> ''./config'' | Some d \<Rightarrow> d)"
  define plugin where "plugin = (case cs_plugin_dir st2 of None \<Rightarrow> ''./plugins'' | Some d \<Rightarrow> d)"
  have dirs: "or_else (last_opt is_config_dir opts) (or_else (env ''NEURON_CONFIG_DIR'') (Some ''./config'')) = Some config"
    "or_else (last_opt (is_opt CHR ''p'') opts) (or_else (env ''NEURON_PLUGIN_DIR'') (Some ''./plugins'')) = Some plugin"
    using e(1,2) opt(1,2) by (auto simp: config_def plugin_def or_else_def split: option.splits)
  have flags: "cl_daemonized (cs_args st1) \<longleftrightarrow> env ''NEURON_DAEMON'' = Some ''1''"
    "cl_dev_log (cs_args st1) \<longleftrightarrow> env ''NEURON_LOG'' = Some ''1''"
    "cl_disable_auth (cs_args st1) \<longleftrightarrow> env ''NEURON_DISABLE_AUTH'' = Some ''1'' \<or>
       env ''NEURON_DISABLE_AUTH'' = None \<and> cl_disable_auth filed"
    using e(4-6) zero by (auto simp: env_flag_def split: option.splits if_splits)
  have policy: "cl_restart (cs_args st2) = (case or_else (last_opt is_restart opts) (env ''NEURON_RESTART'') of
      None \<Rightarrow> NEU_RESTART_NEVER | Some s \<Rightarrow> the (parse_restart_policy s))"
    using e(7) restart zero(3)
    by (cases "last_opt is_restart opts"; cases "env ''NEURON_RESTART''") simp_all
  have run: "args = (cs_args st2)\<lparr>cl_restart := cl_restart args, cl_config_dir := Some config,
      cl_plugin_dir := Some plugin, cl_log_init_file := cl_log_init_file args\<rparr>"
    "cl_log_init_file args = Some (config @ (if cl_dev_log (cs_args st2) then ''/dev.conf'' else ''/zlog.conf''))"
    "cl_restart args = (if cl_daemonized (cs_args st2) then cl_restart (cs_args st2) else NEU_RESTART_NEVER)"
    "file_exists config" "file_exists plugin"
    "file_exists (config @ (if cl_dev_log (cs_args st2) then ''/dev.conf'' else ''/zlog.conf''))"
    "level = switched_level (cs_log_level st2)"
    using fin by (auto simp: finish_args_def Let_def config_def plugin_def split: if_splits)
  have fields: "cl_daemonized args = cl_daemonized (cs_args st2)" "cl_dev_log args = cl_dev_log (cs_args st2)"
    "cl_disable_auth args = cl_disable_auth (cs_args st2)" "cl_ip args = cl_ip (cs_args st2)"
    "cl_port args = cl_port (cs_args st2)" "cl_config_dir args = Some config" "cl_plugin_dir args = Some plugin"
    by (subst run(1), simp)+
  show ?thesis
    by (intro exI [of _ filed] exI [of _ config] exI [of _ plugin])
       (use filed dirs fields run(2-7) flags policy e(3) opt(3-6) opt(8,9) e(8,9) in simp)
qed

definition config_tree :: jtree where
  "config_tree = JTObject [(''disable_auth'', JTInt 0), (''ip'', JTString ''0.0.0.0''), (''port'', JTInt 7001)]"

definition config_jansson :: "jtree jansson" where
  "config_jansson = jt_jansson\<lparr>json_loads := \<lambda>_ _. Some config_tree\<rparr>"

definition demo_opts :: "cli_opt list" where
  "demo_opts =
     [\<lparr>o_char = CHR ''d'', o_name = ''daemon'', o_arg = []\<rparr>,
      \<lparr>o_char = CHR ''r'', o_name = ''restart'', o_arg = ''always''\<rparr>,
      \<lparr>o_char = CHR ''c'', o_name = ''config_dir'', o_arg = ''/etc/cpm''\<rparr>]"

lemma demo_config_file:
  "\<exists>filed. load_config_file config_jansson (\<lambda>_. True) (\<lambda>_. Some ''{}'') demo_opts (load_spec_arg [] zero_args) =
     Some (Some filed)"
  by (simp add: load_config_file_def demo_opts_def resolve_config_file_path_def neu_json_decode_new_def
      config_jansson_def neu_json_decode_by_json_def config_elems_def jt_jansson_def config_tree_def
      decode_object_def jt_get_def jget_jput Let_def)

lemma settings_precedence_witness:
  "\<exists>args level. neu_cli_args_init config_jansson (\<lambda>_. True) (\<lambda>_. Some ''{}'')
      ((\<lambda>_. None)(''NEURON_CONFIG_DIR'' \<mapsto> ''/home'', ''NEURON_RESTART'' \<mapsto> ''never'')) [] demo_opts =
      Some (Cli_run args level) \<and>
    cl_config_dir args = Some ''/etc/cpm'' \<and> cl_plugin_dir args = Some ''./plugins'' \<and>
    cl_daemonized args \<and> cl_restart args = NEU_RESTART_ALWAYS"
proof -
  let ?env = "(\<lambda>_. None)(''NEURON_CONFIG_DIR'' \<mapsto> ''/home'', ''NEURON_RESTART'' \<mapsto> ''never'')"
  have "\<exists>args level. neu_cli_args_init config_jansson (\<lambda>_. True) (\<lambda>_. Some ''{}'') ?env [] demo_opts =
      Some (Cli_run args level)"
    using demo_config_file
    by (auto simp: neu_cli_args_init_def load_env_def env_flag_def parse_restart_policy_def
        demo_opts_def finish_args_def Let_def)
  then obtain args level where a: "neu_cli_args_init config_jansson (\<lambda>_. True) (\<lambda>_. Some ''{}'') ?env [] demo_opts =
      Some (Cli_run args level)" by blast
  from settings_precedence [OF a] a show ?thesis
    by (auto simp: demo_opts_def is_opt_def is_config_dir_def is_restart_def parse_restart_policy_def)
qed

end
