(* ===== verification/ProgramLaws.thy ===== *)
theory ProgramLaws
  imports Program ArgsLaws ManagerProps UserLaws
begin

text \<open>What the start of the program makes of its settings, the lock of the running program and its end.\<close>

section \<open>The start\<close>

lemma host_port_room: "snprintf HOST_PORT_SIZE t = t \<longleftrightarrow> length t \<le> 23"
  by (auto simp: snprintf_def HOST_PORT_SIZE_def)

lemma settings_of_file:
  assumes "neu_cli_args_init J file_exists content env argv opts = Some (Cli_run args level)"
  obtains filed where "load_config_file J file_exists content opts (load_spec_arg argv zero_args) = Some (Some filed)"
    "cl_ip args = cl_ip filed" "cl_port args = cl_port filed" "cl_plugin_dir args \<noteq> None"
    "cl_disable_auth args \<longleftrightarrow> (\<exists>p\<in>set opts. is_opt CHR ''a'' p) \<or> env ''NEURON_DISABLE_AUTH'' = Some ''1'' \<or>
       env ''NEURON_DISABLE_AUTH'' = None \<and> cl_disable_auth filed"
proof -
  let ?st0 = "\<lambda>a. \<lparr>cs_args = a, cs_log_level = None, cs_config_dir = None, cs_plugin_dir = None, cs_reset = False\<rparr>"
  obtain filed st1 st2 where
    filed: "load_config_file J file_exists content opts (load_spec_arg argv zero_args) = Some (Some filed)"
    and st1: "load_env env (?st0 filed) = Some st1" and st2: "parse_options opts st1 = Inr st2"
    and fin: "finish_args file_exists st2 = Cli_run args level"
    using assms by (auto simp: neu_cli_args_init_def split: option.splits sum.splits)
  note e = load_env_result [OF st1, simplified] and opt = parse_options_result [OF st2]
  from fin have args: "cl_ip args = cl_ip (cs_args st2)" "cl_port args = cl_port (cs_args st2)"
    "cl_plugin_dir args \<noteq> None" "cl_disable_auth args = cl_disable_auth (cs_args st2)"
    by (auto simp: finish_args_def Let_def split: if_splits)
  show ?thesis
    by (rule that [OF filed]) (use args e(6,8,9) opt(6,8,9) in \<open>auto simp: env_flag_def split: option.splits if_splits\<close>)
qed

lemma map_ending_Goes_on: "map_ending f z = Goes_on y \<longleftrightarrow> (\<exists>x. z = Goes_on x \<and> f x = y)"
  by (cases z) auto

lemma running_program:
  assumes "cpm_main J file_exists content env argv opts E w = Some (Goes_on pg)"
  obtains args level where "neu_cli_args_init J file_exists content env argv opts = Some (Cli_run args level)"
    "pg_disable_jwt pg = cl_disable_auth args" "pg_host_port pg = snprintf HOST_PORT_SIZE (host_port_text args)"
    "neu_manager_create (with_plugin_dir args w) = Some (pg_manager pg)"
  using assms
  by (auto simp: cpm_main_def neuron_run_def map_ending_Goes_on
      split: if_splits option.splits cli_result.splits ending.splits prod.splits)

text \<open>
  A program that runs has the manager made of the database and serves REST without tokens just
  when authentication is off; it serves the address and port of the configuration file only when these
  have at most 15 characters together, and otherwise the address is cut, with the end of the port lost.
\<close>

theorem running_program_settings:
  assumes "cpm_main J file_exists content env argv opts E w = Some (Goes_on pg)"
  shows "\<exists>filed ip. load_config_file J file_exists content opts (load_spec_arg argv zero_args) = Some (Some filed) \<and>
    cl_ip filed = Some ip \<and> (\<exists>dir. neu_manager_create (w\<lparr>w_plugin_dir := dir\<rparr>) = Some (pg_manager pg)) \<and>
    (pg_disable_jwt pg \<longleftrightarrow> (\<exists>p\<in>set opts. is_opt CHR ''a'' p) \<or> env ''NEURON_DISABLE_AUTH'' = Some ''1'' \<or>
       env ''NEURON_DISABLE_AUTH'' = None \<and> cl_disable_auth filed) \<and>
    (let url = ''http://'' @ ip @ '':'' @ CTypes.show_int (cl_port filed); room = length ip + length (CTypes.show_int (cl_port filed))
     in if room \<le> 15 then pg_host_port pg = url
        else length (pg_host_port pg) = 23 \<and> (\<exists>lost. lost \<noteq> [] \<and> url = pg_host_port pg @ lost))"
proof -
  obtain args level where args: "neu_cli_args_init J file_exists content env argv opts = Some (Cli_run args level)"
    "pg_disable_jwt pg = cl_disable_auth args" "pg_host_port pg = snprintf HOST_PORT_SIZE (host_port_text args)"
    "neu_manager_create (with_plugin_dir args w) = Some (pg_manager pg)"
    using assms by (rule running_program)
  obtain filed where filed:
    "load_config_file J file_exists content opts (load_spec_arg argv zero_args) = Some (Some filed)"
    "cl_ip args = cl_ip filed" "cl_port args = cl_port filed" "cl_plugin_dir args \<noteq> None"
    "cl_disable_auth args \<longleftrightarrow> (\<exists>p\<in>set opts. is_opt CHR ''a'' p) \<or> env ''NEURON_DISABLE_AUTH'' = Some ''1'' \<or>
       env ''NEURON_DISABLE_AUTH'' = None \<and> cl_disable_auth filed"
    using args(1) by (rule settings_of_file)
  from filed(1) obtain ip where ip: "cl_ip filed = Some ip"
    by (auto simp: load_config_file_def Let_def split: if_splits option.splits)
  define url where "url = ''http://'' @ ip @ '':'' @ CTypes.show_int (cl_port filed)"
  let ?room = "length ip + length (CTypes.show_int (cl_port filed))"
  have host: "pg_host_port pg = snprintf HOST_PORT_SIZE url"
    using args(3) filed ip by (simp add: host_port_text_def url_def)
  have len: "length url = 8 + ?room" by (simp add: url_def)
  have "if ?room \<le> 15 then pg_host_port pg = url
    else length (pg_host_port pg) = 23 \<and> (\<exists>lost. lost \<noteq> [] \<and> url = pg_host_port pg @ lost)"
  proof (cases "?room \<le> 15")
    case True
    with host_port_room [of url] len host show ?thesis by simp
  next
    case False
    with len have "url = take 23 url @ drop 23 url" "drop 23 url \<noteq> []" by simp_all
    then have "\<exists>lost. lost \<noteq> [] \<and> url = take 23 url @ lost" by blast
    with False len host show ?thesis by (simp add: snprintf_def HOST_PORT_SIZE_def)
  qed
  then show ?thesis
    using filed(1,5) ip args(2,4) unfolding url_def
    by (intro exI [of _ filed] exI [of _ ip]) (auto simp: Let_def with_plugin_dir_def)
qed

definition long_address_tree :: jtree where
  "long_address_tree = JTObject [(''disable_auth'', JTInt 1), (''ip'', JTString ''192.168.100.100''), (''port'', JTInt 7)]"

definition long_address_jansson :: "jtree jansson" where
  "long_address_jansson = jt_jansson\<lparr>json_loads := \<lambda>_ _. Some long_address_tree\<rparr>"

definition demo_program_env :: program_env where
  "demo_program_env = \<lparr>pe_sqlite = (True, True, True), pe_fd_limit = 1024, pe_rlimit = Some None, pe_forks = (0, 0),
     pe_sigaction = False, pe_files = (\<lambda>_. None)\<rparr>"

definition closed_world :: "bool world" where
  "closed_world = (demo_world NEU_NA_TYPE_ESVAPP)\<lparr>w_db := demo_db\<lparr>db_prepares := \<lambda>_. False\<rparr>\<rparr>"

lemma closed_world_create: "neu_manager_create (closed_world\<lparr>w_plugin_dir := dir\<rparr>) = Some new_manager"
  by (simp add: neu_manager_create_def started_manager_def esv_manager_load_normal_plugin_from_db_def
      esv_manager_load_normal_node_def closed_world_def esv_persister_load_normal_plugins_from_db_def
      esv_persister_load_normal_nodes_def query_normal_plugins_from_db_def)

lemma long_address_settings:
  "load_config_file long_address_jansson (\<lambda>_. True) (\<lambda>_. Some ''{}'') [] (load_spec_arg [] zero_args) =
     Some (Some (zero_args\<lparr>cl_disable_auth := True, cl_ip := Some ''192.168.100.100'', cl_port := 7\<rparr>))"
  by (simp add: load_config_file_def resolve_config_file_path_def neu_json_decode_new_def load_spec_arg_def
      long_address_jansson_def neu_json_decode_by_json_def config_elems_def jt_jansson_def long_address_tree_def
      decode_object_def jt_get_def jget_jput Let_def)

lemma running_program_settings_witness:
  "\<exists>pg. cpm_main long_address_jansson (\<lambda>_. True) (\<lambda>_. Some ''{}'') (\<lambda>_. None) [] [] demo_program_env closed_world
      = Some (Goes_on pg) \<and> pg_disable_jwt pg \<and> pg_manager pg = new_manager \<and>
    length (pg_host_port pg) = 23 \<and> (\<exists>lost. lost \<noteq> [] \<and> ''http://192.168.100.100:7'' = pg_host_port pg @ lost)"
proof -
  have port: "CTypes.show_int 7 = ''7''" by code_simp
  have "\<exists>args level. neu_cli_args_init long_address_jansson (\<lambda>_. True) (\<lambda>_. Some ''{}'') (\<lambda>_. None) [] [] =
      Some (Cli_run args level) \<and> \<not> cl_daemonized args"
    by (simp add: neu_cli_args_init_def long_address_settings) (simp add: load_env_def env_flag_def finish_args_def
        Let_def zero_args_def)
  moreover have "\<exists>mg. neuron_run demo_program_env (with_plugin_dir args closed_world) = Some (Goes_on new_manager)" for args
    by (simp add: neuron_run_def esv_persister_create_def demo_program_env_def with_plugin_dir_def closed_world_create)
  ultimately have "\<exists>pg. cpm_main long_address_jansson (\<lambda>_. True) (\<lambda>_. Some ''{}'') (\<lambda>_. None) [] [] demo_program_env closed_world
      = Some (Goes_on pg) \<and> pg_manager pg = new_manager"
    by (auto simp: cpm_main_def is_version_call_def)
  then obtain pg where pg: "cpm_main long_address_jansson (\<lambda>_. True) (\<lambda>_. Some ''{}'') (\<lambda>_. None) [] []
      demo_program_env closed_world = Some (Goes_on pg)" "pg_manager pg = new_manager" by blast
  from running_program_settings [OF pg(1)] have "pg_disable_jwt pg \<and> length (pg_host_port pg) = 23 \<and>
      (\<exists>lost. lost \<noteq> [] \<and> ''http://192.168.100.100:7'' = pg_host_port pg @ lost)"
    unfolding long_address_settings by (auto simp: Let_def port)
  with pg show ?thesis by blast
qed

section \<open>One program at a time\<close>

text \<open>Processes ask whether the program runs, end, and ask to stop, in any order.\<close>

datatype lock_event = Ask bool bool int | Ends int

definition lock_event :: "lock_event \<Rightarrow> lock_os \<times> int set \<Rightarrow> lock_os \<times> int set" where
  "lock_event e = (\<lambda>(os, running). case e of
     Ends pid \<Rightarrow> (release pid os, running - {pid})
   | Ask open_fails lock_fails pid \<Rightarrow>
       (case neuron_already_running open_fails lock_fails pid os of
          (r, os') \<Rightarrow> (os', if r = Goes_on 0 then insert pid running else running)))"

lemma one_at_a_time:
  assumes "foldl (\<lambda>s e. lock_event e s) (\<lparr>lo_text = None, lo_holder = None\<rparr>, {}) es = (os, running)"
  shows "running = (case lo_holder os of None \<Rightarrow> {} | Some pid \<Rightarrow> {pid}) \<and>
    (\<forall>pid\<in>running. lo_text os = Some (pid_text pid @ [CHR 0x00]))"
proof -
  let ?I = "\<lambda>(os, running). running = (case lo_holder os of None \<Rightarrow> {} | Some pid \<Rightarrow> {pid}) \<and>
    (\<forall>pid\<in>running. lo_text os = Some (pid_text pid @ [CHR 0x00]))"
  have step: "?I s \<Longrightarrow> ?I (lock_event e s)" for e s
    by (cases s; cases e) (auto simp: lock_event_def neuron_already_running_def lock_file_def release_def Let_def
        split: option.splits)
  have "?I s \<Longrightarrow> ?I (foldl (\<lambda>s e. lock_event e s) s es)" for s
    by (induction es arbitrary: s) (use step in auto)
  from this [of "(\<lparr>lo_text = None, lo_holder = None\<rparr>, {})"] assms show ?thesis by simp
qed

text \<open>The process that is stopped is the one that has the lock.\<close>

lemma stop_reads_pid:
  assumes "lo_text os = Some (pid_text pid @ [CHR 0x00])" "0 < pid" "pid < 2 ^ 31" "getpgid pid = Some gid" "kill (- gid) = 0"
    and "neuron_wait_exit open_fails try STOP_TIMEOUT = Some r"
  shows "\<exists>r'. neuron_stop os getpgid kill open_fails try = Some (r', Some gid)"
proof -
  have digits: "length (show_nat (nat pid)) \<le> 10"
    unfolding show_nat_def by (rule nat_digits_length) (use assms(2,3) in auto)
  then have "pid_text pid = show_nat (nat pid)" using assms(2) by (simp add: pid_text_def snprintf_def CTypes.show_int_def)
  moreover have "scan_int (show_nat (nat pid) @ [CHR 0x00]) = Some (int (nat pid), [CHR 0x00])"
    by (rule scan_int_show_nat) (use assms(2,3) in \<open>auto simp: isdigit_def\<close>)
  moreover have "sint (of_int pid :: u32) = pid"
    using assms(2,3) by (simp add: signed_of_int signed_take_bit_int_eq_self)
  ultimately show ?thesis using assms by (simp add: neuron_stop_def)
qed

section \<open>Waiting for the end\<close>

text \<open>
  A try every 2 seconds until the time is over, and at least one: the loop ends for every time up to
  2 seconds below the largest, and then says whether a try found the lock free.
\<close>

definition tries :: "nat \<Rightarrow> nat" where
  "tries ms = (ms - 1) div 2000 + 1"

lemma wait_loop_result:
  assumes "unat ms + 2000 \<le> 2 ^ 32" "tick = 0 \<or> tick < ms"
  shows "wait_loop try n tick ms =
    Some (case find (\<lambda>i. try i \<noteq> Lock_held) [n..<n + tries (unat ms - unat tick)] of
       None \<Rightarrow> Goes_on (- 1)
     | Some i \<Rightarrow> if try i = Lock_taken then Goes_on 0 else Exit 1)"
  using assms
proof (induction "unat ms - unat tick" arbitrary: n tick rule: less_induct)
  case less
  let ?t = "unat tick" and ?m = "unat ms"
  from less.prems have room: "?t + 2000 < 2 ^ 32" by (auto simp: word_less_nat_alt)
  then have nx: "unat (tick + STOP_TICK) = ?t + 2000"
    by (simp add: STOP_TICK_def unat_word_ariths)
  have more: "tick + STOP_TICK < ms \<longleftrightarrow> ?t + 2000 < ?m" by (simp add: word_less_nat_alt nx)
  have first: "[n..<n + tries k] = n # [Suc n..<n + tries k]" for k by (simp add: tries_def upt_conv_Cons)
  show ?case
  proof (cases "?t + 2000 < ?m")
    case True
    then have "tries (?m - ?t) = Suc (tries (?m - unat (tick + STOP_TICK)))"
      by (simp add: tries_def nx)
    with less.hyps [of "tick + STOP_TICK" "Suc n"] less.prems(1) True more nx first [of "?m - ?t"]
    show ?thesis by (subst wait_loop.simps) (auto split: lock_result.splits)
  next
    case False
    then have "tries (?m - ?t) = 1" by (simp add: tries_def)
    with False more show ?thesis by (subst wait_loop.simps) (auto split: lock_result.splits)
  qed
qed

lemma stop_ends:
  "neuron_wait_exit open_fails try STOP_TIMEOUT =
    Some (if open_fails then Exit 1
      else case find (\<lambda>i. try i \<noteq> Lock_held) [0..<10] of
             None \<Rightarrow> Goes_on (- 1) | Some i \<Rightarrow> if try i = Lock_taken then Goes_on 0 else Exit 1)"
  using wait_loop_result [of STOP_TIMEOUT 0 "try" 0]
  by (simp add: neuron_wait_exit_def STOP_TIMEOUT_def tries_def)

section \<open>A daemon\<close>

text \<open>With all descriptors below the limit closed, the first three are the null device and no other is open.\<close>

lemma daemon_files:
  assumes "3 \<le> limit" "3 \<le> sint (ucast m :: u32)" "\<forall>i. sint (ucast m :: u32) \<le> int i \<longrightarrow> fs i = None"
  shows "daemonize limit (Some (Some m)) (0, 0) False fs = Goes_on (\<lambda>i. if i < 3 then Some ''/dev/null'' else None)"
proof -
  define fs0 where "fs0 = close_below (sint (ucast m :: u32)) fs"
  with assms(3) have none: "fs0 i = None" for i by (auto simp: close_below_def)
  have upt: "[0..<limit] = 0 # 1 # 2 # [3..<limit]"
    using assms(1) by (simp add: upt_conv_Cons numeral_2_eq_2 numeral_3_eq_3)
  have "(\<lambda>i. if i < 3 then Some ''/dev/null'' else None) = fs0(0 \<mapsto> ''/dev/null'', 1 \<mapsto> ''/dev/null'', 2 \<mapsto> ''/dev/null'')"
    by (rule ext) (use none in auto)
  then show ?thesis
    using none by (simp add: daemonize_def dup_def open_lowest_def upt fs0_def [symmetric] Let_def)
qed

end
