(* ===== verification/Spec2Isabelle.thy ===== *)
theory Spec2Isabelle
  imports RequestLaws RouterProps HttpLaws DashboardLaws TemplateLaws SchemaLaws EventLaws ProxyLaws ProgramLaws
begin

text \<open>
  A model of cpm, the gateway program that runs plugins for field devices and for applications
  and connects them to an MQTT broker.  It began as the Neuron gateway; parts of that core are
  still compiled but no longer reached, which the notes below say where it matters.

  \<^bold>\<open>The program.\<close>  A shared library holds a plugin; a plugin that runs under a name is a node,
  and the program's side of a node is an adapter.  The manager keeps the table of plugins
  (\<open>core/plugin_manager.c\<close>), the table of nodes (\<open>core/node_manager.c\<close>) and the adapters; at the
  start it loads both from the database (\<open>persist/persist.c\<close>, \<open>core/storage.c\<close>).  A message of
  the broker enters by \<open>messageArrived5\<close> (\<open>connection/mqtt/lan_mqtt5_service.c\<close>), is sorted by
  its topic (\<open>utils/mqtt.c\<close>) and forwarded to plugins (\<open>core/manager_adapter_msg.c\<close>); a plugin
  answers by the callback \<open>thing_model_msg_arrived\<close> (\<open>adapter/driver/driver.c\<close>), which publishes
  and forwards again.  Within a driver (\<open>adapter/driver/driver.c\<close>) groups of tags
  (\<open>base/group.c\<close>, \<open>base/tag.c\<close>) are polled by timers, values go into a cache
  (\<open>adapter/driver/cache.c\<close>), and requests to read, to write and to configure arrive at the loop
  of the adapter (\<open>adapter/adapter.c\<close>).  The timers and descriptors of a thread are served by an
  event loop (\<open>event/event_linux.c\<close>).  The REST plugin (\<open>plugins/restful\<close>) turns HTTP requests
  into commands for the loop of the manager (\<open>core/manager.c\<close>) and responses into answers, with
  the JSON of \<open>parser\<close>.  \<open>main.c\<close> reads the settings (\<open>argparse.c\<close>), may become a daemon
  (\<open>daemon.c\<close>) and starts the manager.

  \<^bold>\<open>Theories, from the bottom up.\<close>
  \<^item> \<open>Prelude\<close>: bytes, words, C strings, error codes.  \<open>Uthash\<close>: the hash tables as association
    lists in the order of insertion, with their contract as a locale that the tables of the
    program interpret.  \<open>SoftFloat\<close>: binary32 and binary64 arithmetic as the code uses it.
  \<^item> \<open>CTypes\<close>: \<open>type.h\<close>; the value union is a list of bytes, members are views of it.
    \<open>Json\<close>: \<open>utils/json.c\<close> over the library jansson.  \<open>Tag\<close>, \<open>Group\<close>, \<open>Cache\<close>: the files of
    these names.
  \<^item> \<open>DriverData\<close>: what happens to a value on its way to the device and back.  \<open>Driver\<close>: the
    groups, writes, timers and callbacks of a driver.  \<open>DriverLaws\<close>: the steps of a driver as an
    inductive relation, the invariant of its table of groups, and the properties of writing,
    reading and refreshing.
  \<^item> \<open>Topic\<close>: matching and splitting of topics, with the theory of topics as lists of levels.
    \<open>Device\<close>: the list of devices of a node, and the messages of the thing model.
  \<^item> \<open>Msg\<close>, \<open>Adapter\<close>, \<open>Loop\<close>: requests and responses, the life of an adapter, and the loop
    with one definition for each request.  \<open>AdapterLaws\<close>, \<open>AdapterProps\<close>: reachable
    adapters, the life cycle, answers.
  \<^item> \<open>Nodes\<close>, \<open>Plugins\<close>, \<open>Persist\<close>, \<open>Manager\<close>: the two tables, the queries of the database, and
    the manager that ties them together.
  \<^item> \<open>Router\<close>: the way of a message from the broker to the plugins and back, and the pushed
    configuration that reloads a node (\<open>reload_config\<close> in \<open>Adapter\<close>).  \<open>RouterLaws\<close>, \<open>RunLaws\<close>: what each forward delivers, and that the calls
    keep the invariant of the manager and come to an end.  \<open>ManagerProps\<close>, \<open>RouterProps\<close>:
    the properties of the whole, over the relation \<open>manager_step\<close> of everything that can
    happen after the start.
  \<^item> \<open>ManagerLoop\<close>, \<open>ManagerLoopLaws\<close>: the loop that answers the requests of the manager's own
    socket, which the program registers nowhere: what it answers, forwards, drops or stops at.
  \<^item> \<open>Http\<close>, \<open>HttpLaws\<close>: \<open>utils/http.c\<close>, parameters of a URL, status codes and responses.
    \<open>Jwt\<close>, \<open>JwtLaws\<close>: keys and tokens (\<open>utils/neu_jwt.c\<close>).  \<open>User\<close>, \<open>UserLaws\<close>: hashes of
    passwords and users (\<open>restful/user.c\<close>).
  \<^item> \<open>Elems\<close>: the elements of the parsers.  \<open>TagJson\<close>, \<open>TagJsonLaws\<close>, \<open>RwJson\<close>, \<open>NodeJson\<close>,
    \<open>GroupJson\<close>, \<open>SystemJson\<close>, \<open>ConfigJson\<close>, \<open>TemplateJson\<close>, \<open>NdriverJson\<close>: the files of
    \<open>parser\<close>, encoders and decoders.  \<open>RequestLaws\<close>: that requests are decoded as they were encoded.
  \<^item> \<open>Rest\<close>: what a handler of the REST plugin reads and returns; \<open>Login\<close>, \<open>TagRest\<close>, \<open>NodeRest\<close>,
    \<open>GroupRest\<close>, \<open>SystemRest\<close>, \<open>ConfigRest\<close>, \<open>TemplateRest\<close>, \<open>NdriverRest\<close>: the handlers, by
    the file they are in (\<open>normal_handle.c\<close>, \<open>datatag_handle.c\<close> and \<open>rw_handle.c\<close>,
    \<open>adapter_handle.c\<close>, \<open>group_config_handle.c\<close>, plugins with logs, files and the version,
    \<open>global_config_handle.c\<close>, \<open>template_handle.c\<close>, \<open>ndriver_handle.c\<close>).  \<open>Dashboard\<close>: the
    table of routes, the plugin and its table of conversations.
  \<^item> \<open>RestLaws\<close>, \<open>DashboardLaws\<close>: what every handler sends and that the answers add up, with the
    manager behind the plugin too.  \<open>LoginLaws\<close>, \<open>TagRestLaws\<close>, \<open>ConfigLaws\<close> (the two state
    machines that read and write a whole configuration), \<open>TemplateLaws\<close>.
  \<^item> \<open>OldStore\<close>, \<open>StoreFiles\<close>: the database of the old core and its schema files
    (\<open>persist/persist.c\<close>), which the program never opens.  \<open>StoreLaws\<close>, \<open>SchemaLaws\<close>: what is
    stored and counted, and how schema files are applied.
  \<^item> \<open>EventLoop\<close>: the event loop and the calls of its clients as steps of two threads.  \<open>EventOk\<close>:
    its invariant.  \<open>EventLaws\<close>: what its clients rely on.
  \<^item> \<open>HttpProxy\<close>, \<open>ProxyLaws\<close>: requests passed on to another server (\<open>utils/http_proxy.c\<close>).
  \<^item> \<open>Args\<close>, \<open>ArgsLaws\<close>: the settings of a run.  \<open>Daemon\<close>, \<open>Program\<close>, \<open>ProgramLaws\<close>: the
    daemon and its lock file, and \<open>main.c\<close>.

  \<^bold>\<open>How code becomes a definition.\<close>  A function of the code is a function of its name.  A struct
  is a record; an integer has its width (\<open>u8\<close> to \<open>u64\<close>) where it can wrap, and is an \<open>int\<close>
  where it is a code or a time.  State is passed and returned.  An error code is an \<open>int\<close>, and
  \<open>None\<close> as the outcome of an operation is a crash or undefined behaviour: a NULL that is
  dereferenced, a failed \<open>assert\<close>, a write past the end of a buffer, an undefined conversion.
  So a statement that an operation is \<open>Some\<close> says that it is safe.  Pointers to adapters are
  indices into \<open>mg_heap\<close>.  Locks are left out, since each operation is modelled from its entry
  to its exit, and so are freeing, logging and tracing; the event loop is the exception, whose
  threads interleave, whose mutexes are there and whose objects are freed.  Arrays of the code that
  a fixed size bounds are texts of any length where the model says that they fit (the names in keys
  of the cache and in the responses of a driver); elsewhere a text that does not fit is a crash.

  \<^bold>\<open>Parameters.\<close>  A plugin is a record of functions over an abstract memory; nothing is assumed
  of it unless a hypothesis says so (\<open>plugin_tracks\<close>: the memory shows whether the plugin runs;
  \<open>reacts_down\<close>: it does not react to a message by one of the same or a higher rank).  The
  library jansson is the record \<open>jansson\<close>, with the laws \<open>jansson_ok\<close> where an object is read
  back.  The powers of ten, the clock, the results of sending, the loader of libraries
  (\<open>w_dl\<close>) and the database connections (\<open>w_db\<close>, \<open>w_exec\<close>) are arguments.  So are libjwt and
  the key files, the digests and random bytes of OpenSSL, the URLs of nng, the list that
  \<open>getopt_long\<close> makes of a command line, the environment and the file system, and the answers of the
  kernel to \<open>fork\<close>, \<open>fcntl\<close> and their kin.  Of the old store the statements are modelled by
  their text, and when SQLite refuses one, what a query yields before it fails and what the SQL of
  a schema file does are parameters (\<open>oe_refuses\<close>, \<open>oe_steps\<close>, \<open>oe_script\<close>).  Every hypothesis
  has a concrete instance in a witness: a JSON tree for jansson, a plugin whose memory is one
  flag, a system of one node.

  \<^bold>\<open>Fuel and loops.\<close>  Of the operations only \<open>run_calls\<close> has fuel: deliveries and reactions of plugins are nested calls in
  the program and need not end.  \<open>message_processing_ends\<close> shows that some fuel is enough, and
  that more gives the same, when plugins react downwards; the measure is the multiset of the
  ranks of the waiting calls.  (Digits of numbers are made with as much fuel as a number can have
  digits, and floating point with more bits than two doubles need.)  \<open>wait_loop\<close>, which polls a lock,
  is a \<open>partial_function\<close>, and \<open>stop_ends\<close> shows that it returns after at most ten tries.  The
  conversations about a whole configuration are runs of a step function, and
  \<open>config_conversations_end\<close> bounds them by a lexicographic order.

  \<^bold>\<open>What the lemmas show.\<close>  For data: round trips (values through byte order, static values and
  JSON fields through text, topics through publication), and which suffixes an address has.  For
  tables: that groups, tags, plugins and nodes are finite maps with the errors of the code.
  For state: the invariants of the driver's table, of the life cycle of adapters and of the
  tables of the manager over every sequence of steps.  For behaviour: what reads, writes,
  reports, batches and forwards do on every branch, and that requests are answered.  Some
  properties state what the code does where that is a defect: the crashes of rename and
  uninit, the lost fields of a decoded object, the fixed set of drivers, the state after a
  reload, passwords that are not checked, requests that are answered twice, routes that end at a
  failing assertion, tags the schema has no column for, memory freed under the event loop.

  \<^bold>\<open>Not modelled.\<close>  Metrics, whose registration is commented out; the MQTT 3 client and the outside
  service manager, which nothing uses; subscriptions and templates of the old core, of which only
  declarations are there; logging; freeing, but for the event loop; headers and bodies of HTTP
  messages, which nng reads and writes; the opening of the database connection of the program
  beyond its result; the vendored headers of \<open>include/esvcpm/utils\<close>, of which only the tables are
  used and modelled by their contract.
\<close>

end
